(* ===== verification/Squonk_Prelude.thy ===== *)
theory Squonk_Prelude
  imports Main
begin

text \<open>
  Shared vocabulary of the development: source bytes, bounds-checked reads, slices of the
  source, runs of adjacent ranges that tile an interval, and the collections of facts the
  component proofs hand to the simplifier.

  A byte of the program (Rust \<open>u8\<close>) is a \<open>char\<close>, Isabelle's 8-bit character type, so that
  source text can be written as a string literal; \<open>of_char\<close> reads its numeric value.
  Offsets are natural numbers. Where the program stores them as \<open>u32\<close>, the bound that
  keeps the two in step is proved, not assumed.
\<close>

named_theorems cursor_mono \<open>operations only move a cursor forward, inside its source\<close>
named_theorems lexeme_ok \<open>lexeme scanners return a well placed token or error\<close>
named_theorems byte_eval \<open>definitions unfolded to evaluate byte predicates\<close>

subsection \<open>Bytes\<close>

type_synonym byte = char

type_synonym source = "byte list"

abbreviation byte_val :: "byte \<Rightarrow> nat" where
  "byte_val b \<equiv> of_char b"

definition u32_max :: nat where
  "u32_max = 4294967295"

text \<open>The ASCII predicates of Rust's \<open>u8\<close> that the program calls.\<close>

definition is_ascii :: "byte \<Rightarrow> bool" where
  "is_ascii b \<longleftrightarrow> byte_val b < 128"

definition is_ascii_digit :: "byte \<Rightarrow> bool" where
  "is_ascii_digit b \<longleftrightarrow> 48 \<le> byte_val b \<and> byte_val b \<le> 57"

definition is_ascii_uppercase :: "byte \<Rightarrow> bool" where
  "is_ascii_uppercase b \<longleftrightarrow> 65 \<le> byte_val b \<and> byte_val b \<le> 90"

definition is_ascii_lowercase :: "byte \<Rightarrow> bool" where
  "is_ascii_lowercase b \<longleftrightarrow> 97 \<le> byte_val b \<and> byte_val b \<le> 122"

definition is_ascii_alphabetic :: "byte \<Rightarrow> bool" where
  "is_ascii_alphabetic b \<longleftrightarrow> is_ascii_uppercase b \<or> is_ascii_lowercase b"

definition is_ascii_hexdigit :: "byte \<Rightarrow> bool" where
  "is_ascii_hexdigit b \<longleftrightarrow> is_ascii_digit b
     \<or> (97 \<le> byte_val b \<and> byte_val b \<le> 102) \<or> (65 \<le> byte_val b \<and> byte_val b \<le> 70)"

text \<open>\<open>u8::is_ascii_whitespace\<close>: space, tab, line feed, form feed, carriage return;
  the vertical tab (11) is not one.\<close>

definition is_ascii_whitespace :: "byte \<Rightarrow> bool" where
  "is_ascii_whitespace b \<longleftrightarrow> b = CHR 0x20 \<or> b = CHR 0x09 \<or> b = CHR 0x0A \<or> b = CHR 0x0C \<or> b = CHR 0x0D"

definition to_ascii_lowercase :: "byte \<Rightarrow> byte" where
  "to_ascii_lowercase b = (if is_ascii_uppercase b then char_of (byte_val b + 32) else b)"

definition to_ascii_uppercase :: "byte \<Rightarrow> byte" where
  "to_ascii_uppercase b = (if is_ascii_lowercase b then char_of (byte_val b - 32) else b)"

lemmas ascii_defs [byte_eval] =
  is_ascii_def is_ascii_digit_def is_ascii_uppercase_def is_ascii_lowercase_def
  is_ascii_alphabetic_def is_ascii_hexdigit_def is_ascii_whitespace_def
  to_ascii_lowercase_def to_ascii_uppercase_def

subsection \<open>Bounds-checked reads and slices\<close>

text \<open>\<open>slice.get(i)\<close>: no element out of range.\<close>

definition get_at :: "'a list \<Rightarrow> nat \<Rightarrow> 'a option" where
  "get_at xs i = (if i < length xs then Some (xs ! i) else None)"

text \<open>\<open>&xs[i..j]\<close>, for \<open>i \<le> j \<le> length xs\<close>.\<close>

definition subslice :: "'a list \<Rightarrow> nat \<Rightarrow> nat \<Rightarrow> 'a list" where
  "subslice xs i j = take (j - i) (drop i xs)"

lemma get_at_Some [simp]: "get_at xs i = Some x \<longleftrightarrow> i < length xs \<and> xs ! i = x"
  by (auto simp: get_at_def)

lemma get_at_None [simp]: "get_at xs i = None \<longleftrightarrow> length xs \<le> i"
  by (auto simp: get_at_def)

lemma length_slice: "i \<le> j \<Longrightarrow> j \<le> length xs \<Longrightarrow> length (subslice xs i j) = j - i"
  by (simp add: subslice_def)

lemma slice_empty [simp]: "subslice xs i i = []"
  by (simp add: subslice_def)

lemma slice_full [simp]: "subslice xs 0 (length xs) = xs"
  by (simp add: subslice_def)

lemma slice_append:
  assumes "i \<le> j" "j \<le> k"
  shows "subslice xs i j @ subslice xs j k = subslice xs i k"
proof -
  have "subslice xs i k = take ((j - i) + (k - j)) (drop i xs)"
    using assms by (simp add: subslice_def)
  also have "\<dots> = take (j - i) (drop i xs) @ take (k - j) (drop (j - i) (drop i xs))"
    by (simp add: take_add)
  also have "drop (j - i) (drop i xs) = drop j xs"
    using assms by simp
  finally show ?thesis by (simp add: subslice_def)
qed

lemma nth_slice: "i \<le> j \<Longrightarrow> j \<le> length xs \<Longrightarrow> n < j - i \<Longrightarrow> subslice xs i j ! n = xs ! (i + n)"
  by (simp add: subslice_def)

lemma set_slice:
  assumes "i \<le> j" "j \<le> length xs"
  shows "x \<in> set (subslice xs i j) \<longleftrightarrow> (\<exists>k. i \<le> k \<and> k < j \<and> xs ! k = x)"
proof
  assume "x \<in> set (subslice xs i j)"
  then obtain n where "n < j - i" "subslice xs i j ! n = x"
    using assms by (auto simp: in_set_conv_nth length_slice)
  with assms show "\<exists>k. i \<le> k \<and> k < j \<and> xs ! k = x"
    by (intro exI[of _ "i + n"]) (auto simp: nth_slice)
next
  assume "\<exists>k. i \<le> k \<and> k < j \<and> xs ! k = x"
  then obtain k where "i \<le> k" "k < j" "xs ! k = x" by blast
  with assms show "x \<in> set (subslice xs i j)"
    by (auto simp: in_set_conv_nth length_slice nth_slice intro!: exI[of _ "k - i"])
qed

lemma slice_Cons:
  assumes "i < j" "j \<le> length xs"
  shows "subslice xs i j = xs ! i # subslice xs (Suc i) j"
proof -
  have "drop i xs = xs ! i # drop (Suc i) xs"
    using assms by (simp add: Cons_nth_drop_Suc)
  moreover have "j - i = Suc (j - Suc i)" using assms by simp
  ultimately show ?thesis by (simp add: subslice_def)
qed

subsection \<open>Ranges that tile an interval\<close>

text \<open>\<open>tiles rs a b\<close>: the ranges are non-empty, each begins where the one before it
  ended, and together they cover exactly \<open>[a, b)\<close>.\<close>

fun tiles :: "(nat \<times> nat) list \<Rightarrow> nat \<Rightarrow> nat \<Rightarrow> bool" where
  "tiles [] a b \<longleftrightarrow> a = b"
| "tiles ((s, e) # rs) a b \<longleftrightarrow> s = a \<and> s < e \<and> tiles rs e b"

lemma tiles_le: "tiles rs a b \<Longrightarrow> a \<le> b"
  by (induction rs a b rule: tiles.induct) auto

lemma tiles_append: "tiles rs a b \<Longrightarrow> tiles qs b c \<Longrightarrow> tiles (rs @ qs) a c"
  by (induction rs a b rule: tiles.induct) auto

lemma tiles_snoc: "tiles rs a b \<Longrightarrow> b < c \<Longrightarrow> tiles (rs @ [(b, c)]) a c"
  by (rule tiles_append) auto

lemma tiles_bounds: "tiles rs a b \<Longrightarrow> (s, e) \<in> set rs \<Longrightarrow> a \<le> s \<and> s < e \<and> e \<le> b"
proof (induction rs a b rule: tiles.induct)
  case (2 s' e' rs a b)
  then show ?case using tiles_le[of rs e' b] by fastforce
qed simp

text \<open>Tiled text concatenates back to the text it tiles: nothing lost, nothing twice.\<close>

lemma tiles_concat:
  "tiles rs a b \<Longrightarrow> concat (map (\<lambda>(s, e). subslice xs s e) rs) = subslice xs a b"
proof (induction rs a b rule: tiles.induct)
  case (2 s e rs a b)
  then show ?case using tiles_le[of rs e b] by (simp add: slice_append)
qed simp

lemma tiles_sorted:
  "tiles rs a b \<Longrightarrow> sorted_wrt (\<lambda>(s, e) (s', e'). e \<le> s') rs"
proof (induction rs a b rule: tiles.induct)
  case (2 s e rs a b)
  then show ?case using tiles_bounds[of rs e b] by fastforce
qed simp

subsection \<open>Sorted search\<close>

text \<open>\<open>slice::partition_point\<close>: on a slice partitioned by the predicate, the length of
  the prefix that satisfies it. The standard library leaves other inputs unspecified.\<close>

definition partition_point :: "('a \<Rightarrow> bool) \<Rightarrow> 'a list \<Rightarrow> nat" where
  "partition_point p xs = length (takeWhile p xs)"

lemma partition_point_le: "partition_point p xs \<le> length xs"
  by (simp add: partition_point_def length_takeWhile_le)

lemma partition_point_filter:
  "sorted_wrt (\<lambda>x y. p y \<longrightarrow> p x) xs \<Longrightarrow> take (partition_point p xs) xs = filter p xs"
proof (induction xs)
  case (Cons x xs)
  show ?case
  proof (cases "p x")
    case True
    with Cons show ?thesis by (simp add: partition_point_def)
  next
    case False
    with Cons.prems have "filter p xs = []" by (auto simp: filter_empty_conv)
    with False show ?thesis by (simp add: partition_point_def)
  qed
qed (simp add: partition_point_def)

lemma partition_point_drop:
  "sorted_wrt (\<lambda>x y. p y \<longrightarrow> p x) xs \<Longrightarrow> drop (partition_point p xs) xs = filter (\<lambda>x. \<not> p x) xs"
proof (induction xs)
  case (Cons x xs)
  show ?case
  proof (cases "p x")
    case True
    with Cons show ?thesis by (simp add: partition_point_def)
  next
    case False
    with Cons.prems have "filter (\<lambda>x. \<not> p x) xs = xs" by (auto simp: filter_id_conv)
    with False show ?thesis by (simp add: partition_point_def)
  qed
qed (simp add: partition_point_def)

text \<open>\<open>iter().position(p)\<close>.\<close>

fun first_index :: "('a \<Rightarrow> bool) \<Rightarrow> 'a list \<Rightarrow> nat option" where
  "first_index p [] = None"
| "first_index p (x # xs) = (if p x then Some 0 else map_option Suc (first_index p xs))"

lemma first_index_bound: "first_index p xs = Some i \<Longrightarrow> i < length xs"
  by (induction xs arbitrary: i) (auto split: if_splits)

lemma first_index_split:
  "first_index p xs = Some i \<Longrightarrow> p (xs ! i) \<and> (\<forall>x \<in> set (take i xs). \<not> p x)"
  by (induction xs arbitrary: i) (auto split: if_splits)

lemma first_index_None [simp]: "first_index p xs = None \<longleftrightarrow> (\<forall>x \<in> set xs. \<not> p x)"
  by (induction xs) (auto split: if_splits)

subsection \<open>Chains of guarded answers\<close>

text \<open>Walking a chain of \<open>if ... { return Some(..) }\<close> one guard at a time.\<close>

lemma if_someE:
  "(if P then x else y) = Some r \<Longrightarrow> (P \<Longrightarrow> x = Some r \<Longrightarrow> Q) \<Longrightarrow> (y = Some r \<Longrightarrow> Q) \<Longrightarrow> Q"
  by (simp split: if_splits)

lemma if_noneE:
  "(if P then Some x else y) = None \<Longrightarrow> (\<not> P \<Longrightarrow> y = None \<Longrightarrow> Q) \<Longrightarrow> Q"
  by (simp split: if_splits)

end
