(* ===== verification/Source_Vocab.thy ===== *)
theory Source_Vocab
  imports Squonk_Prelude
begin

text \<open>
  The AST vocabulary of \<open>crates/squonk-ast/src/vocab/mod.rs\<close>: byte-range spans with the
  synthetic sentinel, one-based interner and node keys, node metadata that every derived
  comparison ignores, and the line index that turns byte offsets into line/column pairs.
\<close>

subsection \<open>Spans\<close>

datatype span = Span (span_start: nat) (span_end: nat)

text \<open>\<open>Span::SYNTHETIC\<close>: deliberately not a half-open range.\<close>

definition SYNTHETIC :: span where
  "SYNTHETIC = Span u32_max 0"

text \<open>\<open>Span::new\<close> panics when \<open>start > end\<close>.\<close>

definition span_new :: "nat \<Rightarrow> nat \<Rightarrow> span option" where
  "span_new s e = (if s \<le> e then Some (Span s e) else None)"

definition is_synthetic :: "span \<Rightarrow> bool" where
  "is_synthetic sp \<longleftrightarrow> span_start sp = u32_max \<and> span_end sp = 0"

text \<open>The subtraction is on \<open>u32\<close>; the wrap-around is written out.\<close>

definition span_len :: "span \<Rightarrow> nat" where
  "span_len sp = (if is_synthetic sp then 0
     else (span_end sp + (u32_max + 1) - span_start sp) mod (u32_max + 1))"

definition span_contains :: "span \<Rightarrow> nat \<Rightarrow> bool" where
  "span_contains sp off \<longleftrightarrow> \<not> is_synthetic sp \<and> span_start sp \<le> off \<and> off < span_end sp"

definition span_is_empty :: "span \<Rightarrow> bool" where
  "span_is_empty sp \<longleftrightarrow> \<not> is_synthetic sp \<and> span_start sp = span_end sp"

definition span_union :: "span \<Rightarrow> span \<Rightarrow> span" where
  "span_union a b =
     (if is_synthetic a then b
      else if is_synthetic b then a
      else Span (if span_start a < span_start b then span_start a else span_start b)
                (if span_end a > span_end b then span_end a else span_end b))"

text \<open>A source span is what \<open>Span::new\<close> returns on \<open>u32\<close> arguments.\<close>

definition source_span :: "span \<Rightarrow> bool" where
  "source_span sp \<longleftrightarrow> span_start sp \<le> span_end sp \<and> span_end sp \<le> u32_max"

text \<open>The derived order compares the fields in order.\<close>

instantiation span :: linorder
begin

definition less_eq_span :: "span \<Rightarrow> span \<Rightarrow> bool" where
  "less_eq_span a b \<longleftrightarrow> span_start a < span_start b
     \<or> (span_start a = span_start b \<and> span_end a \<le> span_end b)"

definition less_span :: "span \<Rightarrow> span \<Rightarrow> bool" where
  "less_span a b \<longleftrightarrow> span_start a < span_start b
     \<or> (span_start a = span_start b \<and> span_end a < span_end b)"

instance
  by standard (auto simp: less_eq_span_def less_span_def intro: span.expand)

end

lemma is_synthetic_iff: "is_synthetic sp \<longleftrightarrow> sp = SYNTHETIC"
  by (cases sp) (auto simp: is_synthetic_def SYNTHETIC_def)

lemma source_span_not_synthetic [simp]: "source_span sp \<Longrightarrow> \<not> is_synthetic sp"
  by (auto simp: source_span_def is_synthetic_def u32_max_def)

lemma span_new_source:
  "span_new s e = Some sp \<Longrightarrow> e \<le> u32_max \<Longrightarrow> source_span sp"
  by (auto simp: span_new_def source_span_def split: if_splits)

lemma span_union_source:
  "source_span a \<Longrightarrow> source_span b \<Longrightarrow>
     span_union a b = Span (min (span_start a) (span_start b)) (max (span_end a) (span_end b))"
  by (auto simp: span_union_def min_def max_def)

lemma source_span_union [simp]:
  "source_span a \<Longrightarrow> source_span b \<Longrightarrow> source_span (span_union a b)"
  by (auto simp: span_union_source source_span_def)

text \<open>
  The union of spans is a commutative, associative, idempotent operation whose
  identity is the synthetic sentinel, for every pair of raw field values: no union of two
  real spans can collide with the sentinel.
\<close>

theorem span_union_monoid:
  "span_union (span_union a b) c = span_union a (span_union b c)
   \<and> span_union a b = span_union b a \<and> span_union a a = a
   \<and> span_union SYNTHETIC a = a \<and> span_union a SYNTHETIC = a
   \<and> (is_synthetic (span_union a b) \<longleftrightarrow> is_synthetic a \<and> is_synthetic b)"
proof -
  have assoc: "span_union (span_union a b) c = span_union a (span_union b c)"
    by (cases a; cases b; cases c) (auto simp: span_union_def is_synthetic_def)
  have comm: "span_union a b = span_union b a"
    by (cases a; cases b) (auto simp: span_union_def is_synthetic_def)
  have idem: "span_union a a = a"
    by (cases a) (auto simp: span_union_def)
  have ident: "span_union SYNTHETIC a = a" "span_union a SYNTHETIC = a"
    by (auto simp: span_union_def SYNTHETIC_def is_synthetic_iff)
  have synth: "is_synthetic (span_union a b) \<longleftrightarrow> is_synthetic a \<and> is_synthetic b"
    by (cases a; cases b) (auto simp: span_union_def is_synthetic_def u32_max_def)
  show ?thesis using assoc comm idem ident synth by blast
qed

text \<open>
  The union of two source spans is the least source span that covers both.
\<close>

theorem span_union_least_cover:
  assumes "source_span a" "source_span b" "source_span c"
  shows "(span_start c \<le> span_start (span_union a b) \<and> span_end (span_union a b) \<le> span_end c)
     \<longleftrightarrow> (span_start c \<le> span_start a \<and> span_end a \<le> span_end c
        \<and> span_start c \<le> span_start b \<and> span_end b \<le> span_end c)"
  using assms by (auto simp: span_union_source)

theorem span_union_least_cover_witness:
  "source_span (Span 10 20) \<and> source_span (Span 3 12)
   \<and> span_union (Span 10 20) (Span 3 12) = Span 3 20
   \<and> (span_start (Span 3 20) \<le> span_start (Span 10 20))"
proof -
  have s: "source_span (Span 10 20)" "source_span (Span 3 12)" "source_span (Span 3 20)"
    by (simp_all add: source_span_def u32_max_def)
  have u: "span_union (Span 10 20) (Span 3 12) = Span 3 20"
    using s by (simp add: span_union_source)
  show ?thesis using s u span_union_least_cover[OF s] by simp
qed

lemma span_len_source: "source_span sp \<Longrightarrow> span_len sp = span_end sp - span_start sp"
proof -
  assume sp: "source_span sp"
  then have "span_end sp + (u32_max + 1) - span_start sp = (span_end sp - span_start sp) + (u32_max + 1)"
    unfolding source_span_def by linarith
  moreover have "(span_end sp - span_start sp + (u32_max + 1)) mod (u32_max + 1)
      = (span_end sp - span_start sp) mod (u32_max + 1)"
    by (rule mod_add_self2)
  moreover have "span_end sp - span_start sp < u32_max + 1"
    using sp unfolding source_span_def by linarith
  ultimately show ?thesis using sp by (simp add: span_len_def)
qed

subsection \<open>One-based keys\<close>

text \<open>\<open>Symbol\<close>, \<open>FoldedSymbol\<close> and \<open>NodeId\<close> wrap a \<open>NonZeroU32\<close>.\<close>

datatype symbol = Symbol (symbol_as_u32: nat)

definition symbol_new :: "nat \<Rightarrow> symbol option" where
  "symbol_new raw = (if raw = 0 then None else Some (Symbol raw))"

definition symbol_index :: "symbol \<Rightarrow> nat" where
  "symbol_index s = symbol_as_u32 s - 1"

datatype folded_symbol = FoldedSymbol (folded_symbol_as_u32: nat)

definition folded_symbol_new :: "nat \<Rightarrow> folded_symbol option" where
  "folded_symbol_new raw = (if raw = 0 then None else Some (FoldedSymbol raw))"

datatype node_id = NodeId (node_id_as_u32: nat)

definition node_id_new :: "nat \<Rightarrow> node_id option" where
  "node_id_new raw = (if raw = 0 then None else Some (NodeId raw))"

lemma symbol_index_new: "symbol_new (Suc i) = Some s \<Longrightarrow> symbol_index s = i"
  by (auto simp: symbol_new_def symbol_index_def)

subsection \<open>Node metadata\<close>

record meta =
  meta_span :: span
  meta_node_id :: node_id

text \<open>\<open>PartialEq\<close>, \<open>Ord\<close> and \<open>Hash\<close> of \<open>Meta\<close> do not look at the fields, so derived
  comparisons of AST nodes are structural.\<close>

datatype ordering = Less | Equal | Greater

definition meta_eq :: "meta \<Rightarrow> meta \<Rightarrow> bool" where
  "meta_eq m m' \<longleftrightarrow> True"

definition meta_cmp :: "meta \<Rightarrow> meta \<Rightarrow> ordering" where
  "meta_cmp m m' = Equal"

subsection \<open>Line index\<close>

record line_index =
  newline_offsets :: "nat list"

definition newline_positions :: "source \<Rightarrow> nat list" where
  "newline_positions s = map fst (filter (\<lambda>(i, b). b = CHR 0x0A) (enumerate 0 s))"

text \<open>\<open>LineIndex::from_str\<close>: the conversion of each newline offset to \<open>u32\<close> panics when
  it does not fit.\<close>

definition line_index_from_str :: "source \<Rightarrow> line_index option" where
  "line_index_from_str s =
     (if list_all (\<lambda>off. off \<le> u32_max) (newline_positions s)
      then Some \<lparr>newline_offsets = newline_positions s\<rparr> else None)"

definition line_index_lookup :: "line_index \<Rightarrow> nat \<Rightarrow> nat \<times> nat" where
  "line_index_lookup ix off =
     (let line = partition_point (\<lambda>nl. nl < off) (newline_offsets ix);
          line_start = (case line of 0 \<Rightarrow> 0 | Suc k \<Rightarrow> newline_offsets ix ! k + 1)
      in (line, off - line_start))"

lemma newline_positions_snoc:
  "newline_positions (s @ [b]) =
     newline_positions s @ (if b = CHR 0x0A then [length s] else [])"
  by (simp add: newline_positions_def enumerate_append_eq)

lemma newline_positions_bound: "i \<in> set (newline_positions s) \<Longrightarrow> i < length s"
  by (induction s rule: rev_induct) (auto simp: newline_positions_snoc newline_positions_def[of "[]"] split: if_splits)

lemma newline_positions_sorted: "sorted_wrt (<) (newline_positions s)"
proof (induction s rule: rev_induct)
  case Nil
  then show ?case by (simp add: newline_positions_def)
next
  case (snoc b s)
  then show ?case by (auto simp: newline_positions_snoc sorted_wrt_append dest: newline_positions_bound)
qed

lemma newline_positions_take:
  "off \<le> length s \<Longrightarrow> filter (\<lambda>nl. nl < off) (newline_positions s) = newline_positions (take off s)"
proof (induction s rule: rev_induct)
  case Nil
  then show ?case by (simp add: newline_positions_def)
next
  case (snoc b s)
  show ?case
  proof (cases "off \<le> length s")
    case True
    then show ?thesis using snoc by (auto simp: newline_positions_snoc)
  next
    case False
    then have "filter (\<lambda>nl. nl < off) (newline_positions (s @ [b])) = newline_positions (s @ [b])"
      by (auto simp: filter_id_conv dest: newline_positions_bound)
    with False snoc.prems show ?thesis by simp
  qed
qed

lemma length_newline_positions: "length (newline_positions s) = count_list s (CHR 0x0A)"
proof (induction s rule: rev_induct)
  case Nil
  then show ?case by (simp add: newline_positions_def)
next
  case (snoc b s)
  then show ?case by (simp add: newline_positions_snoc)
qed

lemma column_of_prefix:
  "length t - (case length (newline_positions t) of 0 \<Rightarrow> 0 | Suc k \<Rightarrow> newline_positions t ! k + 1)
     = length (takeWhile (\<lambda>b. b \<noteq> CHR 0x0A) (rev t))"
proof (induction t rule: rev_induct)
  case Nil
  then show ?case by (simp add: newline_positions_def)
next
  case (snoc b t)
  have bound: "k < length (newline_positions t) \<Longrightarrow> newline_positions t ! k < length t" for k
    by (simp add: newline_positions_bound)
  show ?case
  proof (cases "b = CHR 0x0A")
    case True
    then show ?thesis by (simp add: newline_positions_snoc nth_append)
  next
    case False
    have "k < length (newline_positions t) \<Longrightarrow>
        length t - newline_positions t ! k = Suc (length t - Suc (newline_positions t ! k))" for k
      using bound[of k] by linarith
    with False snoc bound show ?thesis
      by (auto simp: newline_positions_snoc split: nat.splits)
  qed
qed

text \<open>
  C39. Looking an offset up gives the number of newlines before it, and the number of bytes
  since the last of them.
\<close>

theorem line_index_lookup_correct:
  assumes "line_index_from_str s = Some ix" and "off \<le> length s"
  shows "line_index_lookup ix off =
     (count_list (take off s) (CHR 0x0A),
      length (takeWhile (\<lambda>b. b \<noteq> CHR 0x0A) (rev (take off s))))"
proof -
  let ?nls = "newline_positions s" and ?pre = "newline_positions (take off s)"
  from assms(1) have ix: "newline_offsets ix = ?nls"
    by (auto simp: line_index_from_str_def split: if_splits)
  have "sorted_wrt (\<lambda>x y. y < off \<longrightarrow> x < off) ?nls"
    by (rule sorted_wrt_mono_rel[OF _ newline_positions_sorted]) auto
  from partition_point_filter[OF this] assms(2)
  have pre: "take (partition_point (\<lambda>nl. nl < off) ?nls) ?nls = ?pre"
    by (simp add: newline_positions_take)
  then have line: "partition_point (\<lambda>nl. nl < off) ?nls = length ?pre"
    using partition_point_le[of "\<lambda>nl. nl < off" ?nls] by (metis length_take min.absorb2)
  have nth: "?nls ! k = ?pre ! k" if "k < length ?pre" for k
    using that pre line by (metis nth_take)
  have start: "(case length ?pre of 0 \<Rightarrow> 0 | Suc k \<Rightarrow> ?nls ! k + 1)
      = (case length ?pre of 0 \<Rightarrow> 0 | Suc k \<Rightarrow> ?pre ! k + 1)"
    by (simp add: nth split: nat.split)
  have "line_index_lookup ix off =
      (length ?pre, off - (case length ?pre of 0 \<Rightarrow> 0 | Suc k \<Rightarrow> ?pre ! k + 1))"
    unfolding line_index_lookup_def Let_def ix line start ..
  then show ?thesis
    using column_of_prefix[of "take off s"] assms(2) by (simp add: length_newline_positions)
qed

lemma line_index_eval:
  "line_index_from_str (''ab'' @ CHR 0x0A # ''cde'' @ [CHR 0x0A, CHR ''z''])
     = Some \<lparr>newline_offsets = [2, 6]\<rparr>"
  by (simp add: line_index_from_str_def newline_positions_def u32_max_def)

theorem line_index_lookup_correct_witness:
  "line_index_lookup \<lparr>newline_offsets = [2, 6]\<rparr> 7 = (2, 0)"
  using line_index_lookup_correct[OF line_index_eval, of 7] by simp

end
