(* ===== verification/Lex_Classes.thy ===== *)
theory Lex_Classes
  imports Squonk_Prelude "HOL-Library.Word"
begin

unbundle bit_operations_syntax

text \<open>
  The byte-class table that drives the tokenizer's hot loop,
  \<open>crates/squonk-ast/src/dialect/lex_class.rs\<close>: one 8-bit mask per byte, the standard
  table, and the tables of the dialects that re-class the vertical tab.
\<close>

subsection \<open>Class masks\<close>

type_synonym class_mask = "8 word"

definition CLASS_WHITESPACE :: class_mask where "CLASS_WHITESPACE = 1"
definition CLASS_IDENTIFIER_START :: class_mask where "CLASS_IDENTIFIER_START = 2"
definition CLASS_IDENTIFIER_CONTINUE :: class_mask where "CLASS_IDENTIFIER_CONTINUE = 4"
definition CLASS_DIGIT :: class_mask where "CLASS_DIGIT = 8"
definition CLASS_OPERATOR :: class_mask where "CLASS_OPERATOR = 16"
definition CLASS_WHITESPACE_CONTINUE :: class_mask where "CLASS_WHITESPACE_CONTINUE = 32"
definition CLASS_PUNCTUATION :: class_mask where "CLASS_PUNCTUATION = 64"
definition CLASS_WHITESPACE_BOUNDARY :: class_mask where "CLASS_WHITESPACE_BOUNDARY = 128"

lemmas class_mask_defs [byte_eval] =
  CLASS_WHITESPACE_def CLASS_IDENTIFIER_START_def CLASS_IDENTIFIER_CONTINUE_def CLASS_DIGIT_def
  CLASS_OPERATOR_def CLASS_WHITESPACE_CONTINUE_def CLASS_PUNCTUATION_def
  CLASS_WHITESPACE_BOUNDARY_def

subsection \<open>The standard table\<close>

definition is_identifier_start_byte :: "byte \<Rightarrow> bool" where
  "is_identifier_start_byte b \<longleftrightarrow> b = CHR ''_'' \<or> is_ascii_alphabetic b"

definition is_identifier_continue_byte :: "byte \<Rightarrow> bool" where
  "is_identifier_continue_byte b \<longleftrightarrow> is_identifier_start_byte b \<or> is_ascii_digit b \<or> 128 \<le> byte_val b"

definition is_operator_byte :: "byte \<Rightarrow> bool" where
  "is_operator_byte b \<longleftrightarrow> b \<in> set ''+-*/%=<>!|&^~''"

definition is_punctuation_byte :: "byte \<Rightarrow> bool" where
  "is_punctuation_byte b \<longleftrightarrow> b \<in> set ''(),;.[]{}:''"

lemmas byte_kind_defs [byte_eval] =
  is_identifier_start_byte_def is_identifier_continue_byte_def is_operator_byte_def
  is_punctuation_byte_def

definition build_byte_class :: "byte \<Rightarrow> class_mask" where
  "build_byte_class b =
     (if is_ascii_whitespace b then CLASS_WHITESPACE else 0) OR
     (if is_identifier_start_byte b then CLASS_IDENTIFIER_START else 0) OR
     (if is_identifier_continue_byte b then CLASS_IDENTIFIER_CONTINUE else 0) OR
     (if is_ascii_digit b then CLASS_DIGIT else 0) OR
     (if is_operator_byte b then CLASS_OPERATOR else 0) OR
     (if is_punctuation_byte b then CLASS_PUNCTUATION else 0)"

subsection \<open>Dialect tables\<close>

record byte_classes =
  class_table :: "byte \<Rightarrow> class_mask"
  has_boundary :: bool

definition STANDARD_BYTE_CLASSES :: byte_classes where
  "STANDARD_BYTE_CLASSES = \<lparr>class_table = build_byte_class, has_boundary = False\<rparr>"

definition byte_class :: "byte_classes \<Rightarrow> byte \<Rightarrow> class_mask" where
  "byte_class t b = class_table t b"

definition has_class :: "byte_classes \<Rightarrow> byte \<Rightarrow> class_mask \<Rightarrow> bool" where
  "has_class t b cls \<longleftrightarrow> byte_class t b AND cls \<noteq> 0"

definition has_boundary_whitespace :: "byte_classes \<Rightarrow> bool" where
  "has_boundary_whitespace t = has_boundary t"

definition with_class :: "byte_classes \<Rightarrow> byte \<Rightarrow> class_mask \<Rightarrow> byte_classes" where
  "with_class t b cls =
     (let t' = t\<lparr>class_table := (class_table t)(b := class_table t b OR cls)\<rparr>
      in if cls AND CLASS_WHITESPACE_BOUNDARY \<noteq> 0 then t'\<lparr>has_boundary := True\<rparr> else t')"

definition POSTGRES_BYTE_CLASSES :: byte_classes where
  "POSTGRES_BYTE_CLASSES = with_class STANDARD_BYTE_CLASSES (CHR 0x0B) CLASS_WHITESPACE"

definition MYSQL_BYTE_CLASSES :: byte_classes where
  "MYSQL_BYTE_CLASSES = with_class STANDARD_BYTE_CLASSES (CHR 0x0B) CLASS_WHITESPACE"

definition SQLITE_BYTE_CLASSES :: byte_classes where
  "SQLITE_BYTE_CLASSES = with_class STANDARD_BYTE_CLASSES (CHR 0x0B) CLASS_WHITESPACE_CONTINUE"

definition DUCKDB_BYTE_CLASSES :: byte_classes where
  "DUCKDB_BYTE_CLASSES = with_class STANDARD_BYTE_CLASSES (CHR 0x0B)
     (CLASS_WHITESPACE OR CLASS_WHITESPACE_BOUNDARY)"

subsection \<open>What the tables say\<close>

lemma has_class_or:
  "has_class t b (m OR m') \<longleftrightarrow> has_class t b m \<or> has_class t b m'"
proof -
  have "byte_class t b AND (m OR m') = (byte_class t b AND m) OR (byte_class t b AND m')"
    by (simp add: bit.conj_disj_distrib)
  then show ?thesis by (simp add: has_class_def or_eq_0_iff)
qed

lemma has_class_with_class:
  "has_class (with_class t b m) b' cls \<longleftrightarrow>
     has_class t b' cls \<or> (b' = b \<and> m AND cls \<noteq> 0)"
proof -
  have "(class_table t b OR m) AND cls = (class_table t b AND cls) OR (m AND cls)"
    by (simp add: bit.conj_disj_distrib2)
  then show ?thesis
    by (auto simp: has_class_def byte_class_def with_class_def Let_def or_eq_0_iff)
qed

lemma has_boundary_with_class:
  "has_boundary_whitespace (with_class t b m) \<longleftrightarrow>
     has_boundary_whitespace t \<or> m AND CLASS_WHITESPACE_BOUNDARY \<noteq> 0"
  by (auto simp: has_boundary_whitespace_def with_class_def Let_def)

lemma has_class_standard:
  "has_class STANDARD_BYTE_CLASSES b CLASS_WHITESPACE \<longleftrightarrow> is_ascii_whitespace b"
  "has_class STANDARD_BYTE_CLASSES b CLASS_IDENTIFIER_START \<longleftrightarrow> is_identifier_start_byte b"
  "has_class STANDARD_BYTE_CLASSES b CLASS_IDENTIFIER_CONTINUE \<longleftrightarrow> is_identifier_continue_byte b"
  "has_class STANDARD_BYTE_CLASSES b CLASS_DIGIT \<longleftrightarrow> is_ascii_digit b"
  "has_class STANDARD_BYTE_CLASSES b CLASS_OPERATOR \<longleftrightarrow> is_operator_byte b"
  "has_class STANDARD_BYTE_CLASSES b CLASS_PUNCTUATION \<longleftrightarrow> is_punctuation_byte b"
  "\<not> has_class STANDARD_BYTE_CLASSES b CLASS_WHITESPACE_CONTINUE"
  "\<not> has_class STANDARD_BYTE_CLASSES b CLASS_WHITESPACE_BOUNDARY"
  by (auto simp: has_class_def byte_class_def STANDARD_BYTE_CLASSES_def build_byte_class_def
      class_mask_defs bit.conj_disj_distrib2)

lemma has_boundary_standard [simp]: "\<not> has_boundary_whitespace STANDARD_BYTE_CLASSES"
  by (simp add: has_boundary_whitespace_def STANDARD_BYTE_CLASSES_def)

lemmas dialect_table_defs =
  POSTGRES_BYTE_CLASSES_def MYSQL_BYTE_CLASSES_def SQLITE_BYTE_CLASSES_def DUCKDB_BYTE_CLASSES_def

text \<open>
  The cached boundary flag of every table built from the standard one by
  \<open>with_class\<close> agrees with the table: it is set exactly when some byte carries the
  statement-boundary class, so the tokenizer's cheap gate never hides a boundary byte.
\<close>

definition boundary_cache_ok :: "byte_classes \<Rightarrow> bool" where
  "boundary_cache_ok t \<longleftrightarrow>
     (has_boundary_whitespace t \<longleftrightarrow> (\<exists>b. has_class t b CLASS_WHITESPACE_BOUNDARY))"

lemma boundary_cache_standard: "boundary_cache_ok STANDARD_BYTE_CLASSES"
  using has_class_standard(8)
  by (auto simp: boundary_cache_ok_def has_boundary_whitespace_def STANDARD_BYTE_CLASSES_def)

lemma boundary_cache_with_class: "boundary_cache_ok t \<Longrightarrow> boundary_cache_ok (with_class t b m)"
  by (auto simp: boundary_cache_ok_def has_boundary_with_class has_class_with_class)

text \<open>
  The boundary cache is right for every table reachable from the standard one.
\<close>

theorem boundary_cache_reachable:
  "boundary_cache_ok (foldl (\<lambda>t (b, m). with_class t b m) STANDARD_BYTE_CLASSES deltas)"
proof -
  have "boundary_cache_ok t \<Longrightarrow> boundary_cache_ok (foldl (\<lambda>t (b, m). with_class t b m) t deltas)" for t
    by (induction deltas arbitrary: t) (auto intro: boundary_cache_with_class)
  then show ?thesis using boundary_cache_standard by blast
qed

text \<open>
  The four dialect tables differ from the standard one at the vertical tab only, and
  there they split: PostgreSQL and MySQL read it as whitespace, SQLite as a continuation of
  a whitespace run that cannot start one, DuckDB as statement-boundary whitespace.
\<close>

theorem vertical_tab_classes:
  "(has_class POSTGRES_BYTE_CLASSES b CLASS_WHITESPACE \<longleftrightarrow> is_ascii_whitespace b \<or> b = CHR 0x0B)
   \<and> (has_class MYSQL_BYTE_CLASSES b CLASS_WHITESPACE \<longleftrightarrow> is_ascii_whitespace b \<or> b = CHR 0x0B)
   \<and> (has_class SQLITE_BYTE_CLASSES b CLASS_WHITESPACE \<longleftrightarrow> is_ascii_whitespace b)
   \<and> (has_class SQLITE_BYTE_CLASSES b CLASS_WHITESPACE_CONTINUE \<longleftrightarrow> b = CHR 0x0B)
   \<and> (has_class DUCKDB_BYTE_CLASSES b CLASS_WHITESPACE \<longleftrightarrow> is_ascii_whitespace b \<or> b = CHR 0x0B)
   \<and> (has_class DUCKDB_BYTE_CLASSES b CLASS_WHITESPACE_BOUNDARY \<longleftrightarrow> b = CHR 0x0B)
   \<and> (has_boundary_whitespace DUCKDB_BYTE_CLASSES)
   \<and> (\<not> has_boundary_whitespace SQLITE_BYTE_CLASSES)"
  by (simp add: dialect_table_defs has_class_with_class has_boundary_with_class
      has_class_standard [unfolded class_mask_defs] has_boundary_standard class_mask_defs)

end
