(* ===== verification/Binding_Powers.thy ===== *)
theory Binding_Powers
  imports Squonk_Prelude
begin

text \<open>
  Operator precedence, \<open>crates/squonk-ast/src/precedence/mod.rs\<close>: binding powers, the
  per-dialect tables the Pratt parser and the renderer both read, and the question whether
  a nested operator needs parentheses. The operators are those of
  \<open>crates/squonk-ast/src/ast/expr.rs\<close> and \<open>ast/query.rs\<close>.
\<close>

subsection \<open>Operators\<close>

datatype modulo_spelling = Modulo_Percent | Modulo_Mod

datatype integer_divide_spelling = IntDiv_Div | IntDiv_SlashSlash

datatype equals_spelling = Equals_Single | Equals_Double

datatype not_eq_spelling = NotEq_AngleBracket | NotEq_Bang

datatype is_distinct_from_spelling = Distinct_Keyword | Distinct_Is

datatype is_not_distinct_from_spelling = NotDistinct_Keyword | NotDistinct_NullSafeEq | NotDistinct_Is

datatype bitwise_xor_spelling = Xor_Hash | Xor_Caret

datatype regexp_spelling = Regexp_Rlike | Regexp_Regexp

datatype binary_operator =
    Op_Plus
  | Op_Minus
  | Op_Multiply
  | Op_Divide
  | Op_Modulo modulo_spelling
  | Op_IntegerDivide integer_divide_spelling
  | Op_Exponent
  | Op_StringConcat
  | Op_Contains
  | Op_ContainedBy
  | Op_StartsWith
  | Op_Overlap
  | Op_JsonGet
  | Op_JsonGetText
  | Op_JsonExists
  | Op_JsonExistsAny
  | Op_JsonExistsAll
  | Op_JsonPathExists
  | Op_JsonPathMatch
  | Op_JsonExtractPath
  | Op_JsonExtractPathText
  | Op_JsonDeletePath
  | Op_BitwiseOr
  | Op_BitwiseAnd
  | Op_BitwiseShiftLeft
  | Op_BitwiseShiftRight
  | Op_BitwiseXor bitwise_xor_spelling
  | Op_Eq equals_spelling
  | Op_NotEq not_eq_spelling
  | Op_Lt
  | Op_LtEq
  | Op_Gt
  | Op_GtEq
  | Op_IsDistinctFrom is_distinct_from_spelling
  | Op_IsNotDistinctFrom is_not_distinct_from_spelling
  | Op_Regexp regexp_spelling
  | Op_Glob
  | Op_Match
  | Op_Overlaps
  | Op_And
  | Op_Xor
  | Op_Or

datatype unary_operator = Un_Not | Un_Minus | Un_Plus | Un_BitwiseNot | Un_Prior

datatype set_operator = Set_Union | Set_Intersect | Set_Except

subsection \<open>Binding powers\<close>

datatype assoc = Assoc_Left | Assoc_Right | Assoc_NonAssoc

datatype binding_power = BP (bp_left: nat) (bp_right: nat) (bp_assoc: assoc)

record binding_power_table =
  bp_or :: binding_power
  bp_xor :: binding_power
  bp_and :: binding_power
  bp_comparison :: binding_power
  bp_range_predicate_override :: "binding_power option"
  bp_is_predicate_override :: "binding_power option"
  bp_double_equals :: binding_power
  bp_additive :: binding_power
  bp_multiplicative :: binding_power
  bp_exponent :: binding_power
  bp_string_concat :: binding_power
  bp_any_operator :: binding_power
  bp_json_get :: binding_power
  bp_bitwise_or :: binding_power
  bp_bitwise_and :: binding_power
  bp_bitwise_shift :: binding_power
  bp_bitwise_xor :: binding_power
  bp_prefix_not :: nat
  bp_prefix_sign :: nat
  bp_prefix_bitwise_not :: nat
  bp_at_time_zone :: binding_power
  bp_collate :: binding_power
  bp_subscript :: binding_power
  bp_typecast :: binding_power
  bp_field_selection :: binding_power

definition STANDARD_BINDING_POWERS :: binding_power_table where
  "STANDARD_BINDING_POWERS =
    \<lparr> bp_or = BP 10 11 Assoc_Left,
      bp_xor = BP 15 16 Assoc_Left,
      bp_and = BP 20 21 Assoc_Left,
      bp_comparison = BP 40 41 Assoc_NonAssoc,
      bp_range_predicate_override = None,
      bp_is_predicate_override = None,
      bp_double_equals = BP 40 41 Assoc_NonAssoc,
      bp_additive = BP 50 51 Assoc_Left,
      bp_multiplicative = BP 60 61 Assoc_Left,
      bp_exponent = BP 65 66 Assoc_Left,
      bp_string_concat = BP 45 46 Assoc_Left,
      bp_any_operator = BP 45 46 Assoc_Left,
      bp_json_get = BP 45 46 Assoc_Left,
      bp_bitwise_or = BP 45 46 Assoc_Left,
      bp_bitwise_and = BP 45 46 Assoc_Left,
      bp_bitwise_shift = BP 45 46 Assoc_Left,
      bp_bitwise_xor = BP 45 46 Assoc_Left,
      bp_prefix_not = 30,
      bp_prefix_sign = 80,
      bp_prefix_bitwise_not = 46,
      bp_at_time_zone = BP 70 71 Assoc_Left,
      bp_collate = BP 74 75 Assoc_Left,
      bp_subscript = BP 84 85 Assoc_Left,
      bp_typecast = BP 88 89 Assoc_Left,
      bp_field_selection = BP 92 93 Assoc_Left \<rparr>"

definition UNPARENTHESIZED_IN_LIST :: binding_power where
  "UNPARENTHESIZED_IN_LIST = BP 42 43 Assoc_Left"

definition OVERLAPS_PREDICATE :: binding_power where
  "OVERLAPS_PREDICATE = BP 42 43 Assoc_NonAssoc"

definition RANGE_PREDICATE_ABOVE_COMPARISON :: binding_power where
  "RANGE_PREDICATE_ABOVE_COMPARISON = BP 42 43 Assoc_NonAssoc"

definition IS_PREDICATE_BELOW_COMPARISON :: binding_power where
  "IS_PREDICATE_BELOW_COMPARISON = BP 35 36 Assoc_NonAssoc"

definition predicate_power :: "binding_power_table \<Rightarrow> binding_power" where
  "predicate_power t = (case bp_is_predicate_override t of Some bp \<Rightarrow> bp | None \<Rightarrow> bp_comparison t)"

definition range_predicate_power :: "binding_power_table \<Rightarrow> binding_power" where
  "range_predicate_power t = (case bp_range_predicate_override t of Some bp \<Rightarrow> bp | None \<Rightarrow> bp_comparison t)"

fun binary_power :: "binding_power_table \<Rightarrow> binary_operator \<Rightarrow> binding_power" where
  "binary_power t Op_Or = bp_or t"
| "binary_power t Op_Xor = bp_xor t"
| "binary_power t Op_And = bp_and t"
| "binary_power t (Op_IsDistinctFrom Distinct_Keyword) = predicate_power t"
| "binary_power t (Op_IsNotDistinctFrom NotDistinct_Keyword) = predicate_power t"
| "binary_power t (Op_IsDistinctFrom Distinct_Is) = bp_comparison t"
| "binary_power t (Op_IsNotDistinctFrom NotDistinct_Is) = bp_comparison t"
| "binary_power t (Op_IsNotDistinctFrom NotDistinct_NullSafeEq) = bp_comparison t"
| "binary_power t (Op_Eq Equals_Double) = bp_double_equals t"
| "binary_power t (Op_Eq _) = bp_comparison t"
| "binary_power t (Op_NotEq _) = bp_comparison t"
| "binary_power t Op_Lt = bp_comparison t"
| "binary_power t Op_LtEq = bp_comparison t"
| "binary_power t Op_Gt = bp_comparison t"
| "binary_power t Op_GtEq = bp_comparison t"
| "binary_power t (Op_Regexp _) = bp_comparison t"
| "binary_power t Op_Glob = bp_comparison t"
| "binary_power t Op_Match = bp_comparison t"
| "binary_power t Op_Plus = bp_additive t"
| "binary_power t Op_Minus = bp_additive t"
| "binary_power t Op_Multiply = bp_multiplicative t"
| "binary_power t Op_Divide = bp_multiplicative t"
| "binary_power t (Op_Modulo _) = bp_multiplicative t"
| "binary_power t (Op_IntegerDivide _) = bp_multiplicative t"
| "binary_power t Op_Exponent = bp_exponent t"
| "binary_power t Op_StringConcat = bp_string_concat t"
| "binary_power t Op_Contains = bp_any_operator t"
| "binary_power t Op_ContainedBy = bp_any_operator t"
| "binary_power t Op_StartsWith = bp_any_operator t"
| "binary_power t Op_JsonGetText = bp_any_operator t"
| "binary_power t Op_JsonExists = bp_any_operator t"
| "binary_power t Op_JsonExistsAny = bp_any_operator t"
| "binary_power t Op_JsonExistsAll = bp_any_operator t"
| "binary_power t Op_JsonPathExists = bp_any_operator t"
| "binary_power t Op_JsonPathMatch = bp_any_operator t"
| "binary_power t Op_JsonExtractPath = bp_any_operator t"
| "binary_power t Op_JsonExtractPathText = bp_any_operator t"
| "binary_power t Op_JsonDeletePath = bp_any_operator t"
| "binary_power t Op_Overlap = bp_any_operator t"
| "binary_power t Op_JsonGet = bp_json_get t"
| "binary_power t Op_BitwiseOr = bp_bitwise_or t"
| "binary_power t Op_BitwiseAnd = bp_bitwise_and t"
| "binary_power t Op_BitwiseShiftLeft = bp_bitwise_shift t"
| "binary_power t Op_BitwiseShiftRight = bp_bitwise_shift t"
| "binary_power t (Op_BitwiseXor _) = bp_bitwise_xor t"
| "binary_power t Op_Overlaps = OVERLAPS_PREDICATE"

fun prefix_power :: "binding_power_table \<Rightarrow> unary_operator \<Rightarrow> nat" where
  "prefix_power t Un_Not = bp_prefix_not t"
| "prefix_power t Un_Minus = bp_prefix_sign t"
| "prefix_power t Un_Plus = bp_prefix_sign t"
| "prefix_power t Un_Prior = bp_prefix_sign t"
| "prefix_power t Un_BitwiseNot = bp_prefix_bitwise_not t"

fun with_binary :: "binding_power_table \<Rightarrow> binary_operator \<Rightarrow> binding_power \<Rightarrow> binding_power_table" where
  "with_binary t Op_Or bp = t\<lparr> bp_or := bp \<rparr>"
| "with_binary t Op_Xor bp = t\<lparr> bp_xor := bp \<rparr>"
| "with_binary t Op_And bp = t\<lparr> bp_and := bp \<rparr>"
| "with_binary t (Op_Eq Equals_Double) bp = t\<lparr> bp_double_equals := bp \<rparr>"
| "with_binary t (Op_Eq _) bp = t\<lparr> bp_comparison := bp, bp_double_equals := bp \<rparr>"
| "with_binary t (Op_NotEq _) bp = t\<lparr> bp_comparison := bp, bp_double_equals := bp \<rparr>"
| "with_binary t Op_Lt bp = t\<lparr> bp_comparison := bp, bp_double_equals := bp \<rparr>"
| "with_binary t Op_LtEq bp = t\<lparr> bp_comparison := bp, bp_double_equals := bp \<rparr>"
| "with_binary t Op_Gt bp = t\<lparr> bp_comparison := bp, bp_double_equals := bp \<rparr>"
| "with_binary t Op_GtEq bp = t\<lparr> bp_comparison := bp, bp_double_equals := bp \<rparr>"
| "with_binary t (Op_IsDistinctFrom _) bp = t\<lparr> bp_comparison := bp, bp_double_equals := bp \<rparr>"
| "with_binary t (Op_IsNotDistinctFrom _) bp = t\<lparr> bp_comparison := bp, bp_double_equals := bp \<rparr>"
| "with_binary t (Op_Regexp _) bp = t\<lparr> bp_comparison := bp, bp_double_equals := bp \<rparr>"
| "with_binary t Op_Glob bp = t\<lparr> bp_comparison := bp, bp_double_equals := bp \<rparr>"
| "with_binary t Op_Match bp = t\<lparr> bp_comparison := bp, bp_double_equals := bp \<rparr>"
| "with_binary t Op_Plus bp = t\<lparr> bp_additive := bp \<rparr>"
| "with_binary t Op_Minus bp = t\<lparr> bp_additive := bp \<rparr>"
| "with_binary t Op_Multiply bp = t\<lparr> bp_multiplicative := bp \<rparr>"
| "with_binary t Op_Divide bp = t\<lparr> bp_multiplicative := bp \<rparr>"
| "with_binary t (Op_Modulo _) bp = t\<lparr> bp_multiplicative := bp \<rparr>"
| "with_binary t (Op_IntegerDivide _) bp = t\<lparr> bp_multiplicative := bp \<rparr>"
| "with_binary t Op_Exponent bp = t\<lparr> bp_exponent := bp \<rparr>"
| "with_binary t Op_StringConcat bp = t\<lparr> bp_string_concat := bp \<rparr>"
| "with_binary t Op_Contains bp = t\<lparr> bp_any_operator := bp \<rparr>"
| "with_binary t Op_ContainedBy bp = t\<lparr> bp_any_operator := bp \<rparr>"
| "with_binary t Op_StartsWith bp = t\<lparr> bp_any_operator := bp \<rparr>"
| "with_binary t Op_JsonGetText bp = t\<lparr> bp_any_operator := bp \<rparr>"
| "with_binary t Op_JsonExists bp = t\<lparr> bp_any_operator := bp \<rparr>"
| "with_binary t Op_JsonExistsAny bp = t\<lparr> bp_any_operator := bp \<rparr>"
| "with_binary t Op_JsonExistsAll bp = t\<lparr> bp_any_operator := bp \<rparr>"
| "with_binary t Op_JsonPathExists bp = t\<lparr> bp_any_operator := bp \<rparr>"
| "with_binary t Op_JsonPathMatch bp = t\<lparr> bp_any_operator := bp \<rparr>"
| "with_binary t Op_JsonExtractPath bp = t\<lparr> bp_any_operator := bp \<rparr>"
| "with_binary t Op_JsonExtractPathText bp = t\<lparr> bp_any_operator := bp \<rparr>"
| "with_binary t Op_JsonDeletePath bp = t\<lparr> bp_any_operator := bp \<rparr>"
| "with_binary t Op_Overlap bp = t\<lparr> bp_any_operator := bp \<rparr>"
| "with_binary t Op_JsonGet bp = t\<lparr> bp_json_get := bp \<rparr>"
| "with_binary t Op_BitwiseOr bp = t\<lparr> bp_bitwise_or := bp \<rparr>"
| "with_binary t Op_BitwiseAnd bp = t\<lparr> bp_bitwise_and := bp \<rparr>"
| "with_binary t Op_BitwiseShiftLeft bp = t\<lparr> bp_bitwise_shift := bp \<rparr>"
| "with_binary t Op_BitwiseShiftRight bp = t\<lparr> bp_bitwise_shift := bp \<rparr>"
| "with_binary t (Op_BitwiseXor _) bp = t\<lparr> bp_bitwise_xor := bp \<rparr>"
| "with_binary t Op_Overlaps bp = t"

subsection \<open>Set operations\<close>

record set_operation_binding_power_table =
  bp_union_except :: binding_power
  bp_intersect :: binding_power

definition STANDARD_SET_OPERATION_BINDING_POWERS :: set_operation_binding_power_table where
  "STANDARD_SET_OPERATION_BINDING_POWERS =
    \<lparr> bp_union_except = BP 10 11 Assoc_Left, bp_intersect = BP 20 21 Assoc_Left \<rparr>"

fun set_operation :: "set_operation_binding_power_table \<Rightarrow> set_operator \<Rightarrow> binding_power" where
  "set_operation t Set_Union = bp_union_except t"
| "set_operation t Set_Except = bp_union_except t"
| "set_operation t Set_Intersect = bp_intersect t"

fun with_set_operator ::
    "set_operation_binding_power_table \<Rightarrow> set_operator \<Rightarrow> binding_power \<Rightarrow> set_operation_binding_power_table" where
  "with_set_operator t Set_Union bp = t\<lparr> bp_union_except := bp \<rparr>"
| "with_set_operator t Set_Except bp = t\<lparr> bp_union_except := bp \<rparr>"
| "with_set_operator t Set_Intersect bp = t\<lparr> bp_intersect := bp \<rparr>"

subsection \<open>Parentheses\<close>

datatype side = Side_Left | Side_Right

definition needs_parens_between :: "binding_power \<Rightarrow> binding_power \<Rightarrow> side \<Rightarrow> bool" where
  "needs_parens_between parent child side =
     (let same_precedence = (bp_left parent = bp_left child \<and> bp_right parent = bp_right child)
      in case side of
           Side_Left \<Rightarrow> bp_right child < bp_left parent
             \<or> (same_precedence \<and> (case bp_assoc parent of Assoc_Left \<Rightarrow> False
                                    | Assoc_Right \<Rightarrow> True | Assoc_NonAssoc \<Rightarrow> True))
         | Side_Right \<Rightarrow> bp_left child < bp_right parent
             \<or> (same_precedence \<and> (case bp_assoc parent of Assoc_Right \<Rightarrow> False
                                    | Assoc_Left \<Rightarrow> True | Assoc_NonAssoc \<Rightarrow> True)))"

definition needs_parens :: "binding_power_table \<Rightarrow> binary_operator \<Rightarrow> binary_operator \<Rightarrow> side \<Rightarrow> bool" where
  "needs_parens t parent child side =
     needs_parens_between (binary_power t parent) (binary_power t child) side"

definition set_needs_parens ::
    "set_operation_binding_power_table \<Rightarrow> set_operator \<Rightarrow> set_operator \<Rightarrow> side \<Rightarrow> bool" where
  "set_needs_parens t parent child side =
     needs_parens_between (set_operation t parent) (set_operation t child) side"

subsection \<open>Ranks\<close>

text \<open>
  A power is a rank when its right side is one above its left (the encoding the parser's
  \<open>min_bp\<close> loop expects of left-associative and non-associative operators), or one below
  for a right-associative operator.
\<close>

definition rank_ok :: "binding_power \<Rightarrow> bool" where
  "rank_ok bp \<longleftrightarrow> (case bp_assoc bp of
       Assoc_Right \<Rightarrow> bp_left bp = Suc (bp_right bp)
     | _ \<Rightarrow> bp_right bp = Suc (bp_left bp))"

lemma needs_parens_left_assoc:
  assumes "bp_assoc p = Assoc_Left" "rank_ok p" "rank_ok c" "bp_assoc c = Assoc_Left"
  shows "needs_parens_between p c Side_Left \<longleftrightarrow> bp_left c < bp_left p - 1"
    and "needs_parens_between p c Side_Right \<longleftrightarrow> bp_left c \<le> bp_left p"
  using assms by (auto simp: needs_parens_between_def rank_ok_def)

end
