(* ===== verification/Keyword_Set.thy ===== *)
theory Keyword_Set
  imports Squonk_Prelude "HOL-Library.Word"
begin

unbundle bit_operations_syntax

text \<open>
  The keyword bit sets of \<open>crates/squonk-ast/src/dialect/keyword.rs\<close>. A keyword is its
  discriminant in the generated inventory (\<open>dialect/keyword/generated.rs\<close>); a
  \<open>KeywordSet\<close> is an array of \<open>u64\<close> words with one bit per discriminant.
\<close>

subsection \<open>Keywords\<close>

text \<open>The inventory has 894 variants, \<open>#[repr(u16)]\<close>; a keyword of the program is one of them.\<close>

datatype keyword = Keyword (discriminant: nat)

definition KEYWORD_COUNT :: nat where
  "KEYWORD_COUNT = 894"

definition keyword_ok :: "keyword \<Rightarrow> bool" where
  "keyword_ok k \<longleftrightarrow> discriminant k < KEYWORD_COUNT"

instantiation keyword :: linorder
begin

definition less_eq_keyword :: "keyword \<Rightarrow> keyword \<Rightarrow> bool" where
  "less_eq_keyword a b \<longleftrightarrow> discriminant a \<le> discriminant b"

definition less_keyword :: "keyword \<Rightarrow> keyword \<Rightarrow> bool" where
  "less_keyword a b \<longleftrightarrow> discriminant a < discriminant b"

instance
  by standard (auto simp: less_eq_keyword_def less_keyword_def intro: keyword.expand)

end

subsection \<open>The bit set\<close>

definition KEYWORD_WORDS :: nat where
  "KEYWORD_WORDS = (KEYWORD_COUNT + 63) div 64"

type_synonym keyword_set = "64 word list"

definition keyword_slot :: "nat \<Rightarrow> nat \<times> 64 word" where
  "keyword_slot d = (d div 64, push_bit (d mod 64) 1)"

definition KEYWORD_SET_EMPTY :: keyword_set where
  "KEYWORD_SET_EMPTY = replicate KEYWORD_WORDS 0"

fun set_keywords :: "64 word list \<Rightarrow> keyword list \<Rightarrow> 64 word list" where
  "set_keywords words [] = words"
| "set_keywords words (k # ks) =
     (let (w, bit) = keyword_slot (discriminant k)
      in set_keywords (words[w := (words ! w) OR bit]) ks)"

definition from_keywords :: "keyword list \<Rightarrow> keyword_set" where
  "from_keywords ks = set_keywords (replicate KEYWORD_WORDS 0) ks"

definition keyword_set_union :: "keyword_set \<Rightarrow> keyword_set \<Rightarrow> keyword_set" where
  "keyword_set_union a b = map2 (\<lambda>x y. x OR y) a b"

definition keyword_set_difference :: "keyword_set \<Rightarrow> keyword_set \<Rightarrow> keyword_set" where
  "keyword_set_difference a b = map2 (\<lambda>x y. x AND NOT y) a b"

definition keyword_set_contains :: "keyword_set \<Rightarrow> keyword \<Rightarrow> bool" where
  "keyword_set_contains s k =
     (let (w, bit) = keyword_slot (discriminant k) in (s ! w) AND bit \<noteq> 0)"

text \<open>Every set the constructors build is an array of \<open>KEYWORD_WORDS\<close> words.\<close>

definition keyword_set_ok :: "keyword_set \<Rightarrow> bool" where
  "keyword_set_ok s \<longleftrightarrow> length s = KEYWORD_WORDS"

lemma keyword_word_bound: "keyword_ok k \<Longrightarrow> discriminant k div 64 < KEYWORD_WORDS"
  by (simp add: keyword_ok_def KEYWORD_WORDS_def KEYWORD_COUNT_def)

lemma contains_iff_bit:
  "keyword_set_contains s k \<longleftrightarrow> bit (s ! (discriminant k div 64)) (discriminant k mod 64)"
  by (simp add: keyword_set_contains_def keyword_slot_def and_exp_eq_0_iff_not_bit)

lemma same_slot: "(a::nat) div 64 = b div 64 \<Longrightarrow> a mod 64 = b mod 64 \<Longrightarrow> a = b"
  by (metis div_mult_mod_eq)

lemma length_set_keywords [simp]: "length (set_keywords ws ks) = length ws"
  by (induction ws ks rule: set_keywords.induct) (auto simp: Let_def split: prod.splits)

lemma keyword_set_ok_intros [simp, intro]:
  "keyword_set_ok KEYWORD_SET_EMPTY" "keyword_set_ok (from_keywords ks)"
  "keyword_set_ok a \<Longrightarrow> keyword_set_ok b \<Longrightarrow> keyword_set_ok (keyword_set_union a b)"
  "keyword_set_ok a \<Longrightarrow> keyword_set_ok b \<Longrightarrow> keyword_set_ok (keyword_set_difference a b)"
  by (simp_all add: keyword_set_ok_def KEYWORD_SET_EMPTY_def from_keywords_def
      keyword_set_union_def keyword_set_difference_def)

lemma contains_set_keywords:
  assumes "length ws = KEYWORD_WORDS" "list_all keyword_ok ks" "keyword_ok k"
  shows "keyword_set_contains (set_keywords ws ks) k \<longleftrightarrow> keyword_set_contains ws k \<or> k \<in> set ks"
  using assms
proof (induction ws ks rule: set_keywords.induct)
  case (2 ws k' ks)
  let ?d = "discriminant k'" let ?ws = "ws[?d div 64 := ws ! (?d div 64) OR push_bit (?d mod 64) 1]"
  have "keyword_set_contains ?ws k \<longleftrightarrow> keyword_set_contains ws k \<or> k = k'"
    using 2 keyword_word_bound[of k] keyword_word_bound[of k'] same_slot[of "discriminant k" ?d]
    by (auto simp: contains_iff_bit nth_list_update bit_simps keyword.expand)
  with 2 show ?case by (auto simp: keyword_slot_def Let_def)
qed simp

lemma contains_empty: "keyword_ok k \<Longrightarrow> \<not> keyword_set_contains KEYWORD_SET_EMPTY k"
  using keyword_word_bound[of k] by (simp add: contains_iff_bit KEYWORD_SET_EMPTY_def)

text \<open>
  C40. The bit set is the set it is named after: a set built from a list of keywords contains
  exactly them, and union and difference act on members, whatever the discriminants.
\<close>

theorem keyword_set_semantics:
  assumes "keyword_ok k" "list_all keyword_ok ks" "keyword_set_ok a" "keyword_set_ok b"
  shows "(keyword_set_contains (from_keywords ks) k \<longleftrightarrow> k \<in> set ks)
     \<and> (keyword_set_contains (keyword_set_union a b) k
          \<longleftrightarrow> keyword_set_contains a k \<or> keyword_set_contains b k)
     \<and> (keyword_set_contains (keyword_set_difference a b) k
          \<longleftrightarrow> keyword_set_contains a k \<and> \<not> keyword_set_contains b k)"
proof -
  have "keyword_set_contains (from_keywords ks) k \<longleftrightarrow> k \<in> set ks"
    using contains_set_keywords[of "replicate KEYWORD_WORDS 0" ks k] contains_empty[of k] assms
    by (simp add: from_keywords_def KEYWORD_SET_EMPTY_def)
  moreover have "discriminant k mod 64 < 64" by simp
  ultimately show ?thesis
    using assms keyword_word_bound[of k]
    by (auto simp: contains_iff_bit keyword_set_ok_def keyword_set_union_def
        keyword_set_difference_def bit_simps)
qed

theorem keyword_set_semantics_witness:
  "keyword_set_contains (from_keywords [Keyword 70, Keyword 893]) (Keyword 893)
   \<and> \<not> keyword_set_contains (from_keywords [Keyword 70, Keyword 893]) (Keyword 64)"
proof -
  have ok: "keyword_ok (Keyword 893)" "keyword_ok (Keyword 64)"
    "list_all keyword_ok [Keyword 70, Keyword 893]"
    by (simp_all add: keyword_ok_def KEYWORD_COUNT_def)
  show ?thesis
    using keyword_set_semantics[OF ok(1,3), of KEYWORD_SET_EMPTY KEYWORD_SET_EMPTY]
      keyword_set_semantics[OF ok(2,3), of KEYWORD_SET_EMPTY KEYWORD_SET_EMPTY] by simp
qed

end
