(* ===== verification/Keyword_Lookup.thy ===== *)
theory Keyword_Lookup
  imports Squonk_Prelude Keyword_Set
begin

unbundle bit_operations_syntax

text \<open>
  The keyword inventory and its lookup, \<open>crates/squonk-ast/src/dialect/keyword/generated.rs\<close>:
  the spelling of every variant, one sorted table per word length with the spelling packed
  into an integer (a byte string beyond sixteen bytes), and the binary search over the
  table of the word's length. The lookup is shown to be the case-insensitive search of the
  inventory, for every word.
\<close>

subsection \<open>Spellings\<close>

text \<open>The arms of \<open>Keyword::as_str\<close>: discriminant and spelling, in blocks.\<close>

definition keyword_arms_0 :: "(nat \<times> string) list" where
  "keyword_arms_0 = [
    (0, ''a''), (1, ''abort''), (2, ''abs''), (3, ''absent''), (4, ''absolute''), (5,
    ''access''), (6, ''accessible''), (7, ''acos''), (8, ''action''), (9, ''ada''), (10,
    ''add''), (11, ''admin''), (12, ''after''), (13, ''aggregate''), (14, ''all''), (15,
    ''allocate''), (16, ''also''), (17, ''alter''), (18, ''always''), (19, ''analyse''), (20,
    ''analyze''), (21, ''and''), (22, ''anti''), (23, ''any''), (24, ''apply''), (25, ''are''),
    (26, ''array''), (27, ''array_agg''), (28, ''array_max_cardinality''), (29, ''as''), (30,
    ''asc''), (31, ''asensitive''), (32, ''asin''), (33, ''asof''), (34, ''assertion''), (35,
    ''assignment''), (36, ''asymmetric''), (37, ''at''), (38, ''atan''), (39, ''atomic''), (40,
    ''attach''), (41, ''attribute''), (42, ''attributes''), (43, ''authorization''), (44,
    ''avg''), (45, ''backward''), (46, ''before''), (47, ''begin''), (48, ''begin_frame''), (49,
    ''begin_partition''), (50, ''bernoulli''), (51, ''between''), (52, ''bigint''), (53,
    ''binary''), (54, ''bit''), (55, ''blob''), (56, ''boolean''), (57, ''both''), (58,
    ''breadth''), (59, ''by''), (60, ''c''), (61, ''cache''), (62, ''call''), (63, ''called''),
    (64, ''cardinality''), (65, ''cascade''), (66, ''cascaded''), (67, ''case''), (68,
    ''cast''), (69, ''catalog''), (70, ''catalog_name''), (71, ''ceil''), (72, ''ceiling''),
    (73, ''chain''), (74, ''chaining''), (75, ''change''), (76, ''char''), (77,
    ''char_length''), (78, ''character''), (79, ''character_length''), (80,
    ''character_set_catalog''), (81, ''character_set_name''), (82, ''character_set_schema''),
    (83, ''characteristics''), (84, ''characters''), (85, ''check''), (86, ''checkpoint''), (87,
    ''class''), (88, ''class_origin''), (89, ''classifier''), (90, ''clob''), (91, ''close''),
    (92, ''cluster''), (93, ''coalesce''), (94, ''cobol''), (95, ''collate''), (96,
    ''collation''), (97, ''collation_catalog''), (98, ''collation_name''), (99,
    ''collation_schema''), (100, ''collect''), (101, ''column''), (102, ''column_name''), (103,
    ''columns''), (104, ''command_function''), (105, ''command_function_code''), (106,
    ''comment''), (107, ''comments''), (108, ''commit''), (109, ''committed''), (110,
    ''compression''), (111, ''concurrently'')]"

definition keyword_arms_1 :: "(nat \<times> string) list" where
  "keyword_arms_1 = [
    (112, ''condition''), (113, ''condition_number''), (114, ''conditional''), (115,
    ''configuration''), (116, ''conflict''), (117, ''connect''), (118, ''connection''), (119,
    ''connection_name''), (120, ''constraint''), (121, ''constraint_catalog''), (122,
    ''constraint_name''), (123, ''constraint_schema''), (124, ''constraints''), (125,
    ''constructor''), (126, ''contained''), (127, ''contains''), (128, ''content''), (129,
    ''continue''), (130, ''conversion''), (131, ''convert''), (132, ''copy''), (133, ''corr''),
    (134, ''corresponding''), (135, ''cos''), (136, ''cosh''), (137, ''cost''), (138,
    ''count''), (139, ''covar_pop''), (140, ''covar_samp''), (141, ''create''), (142,
    ''cross''), (143, ''csv''), (144, ''cube''), (145, ''cume_dist''), (146, ''current''), (147,
    ''current_catalog''), (148, ''current_date''), (149, ''current_default_transform_group''),
    (150, ''current_path''), (151, ''current_role''), (152, ''current_row''), (153,
    ''current_schema''), (154, ''current_time''), (155, ''current_timestamp''), (156,
    ''current_transform_group_for_type''), (157, ''current_user''), (158, ''cursor''), (159,
    ''cursor_name''), (160, ''cycle''), (161, ''data''), (162, ''database''), (163,
    ''databases''), (164, ''date''), (165, ''datetime_interval_code''), (166,
    ''datetime_interval_precision''), (167, ''day''), (168, ''day_hour''), (169,
    ''day_microsecond''), (170, ''day_minute''), (171, ''day_second''), (172, ''deallocate''),
    (173, ''dec''), (174, ''decfloat''), (175, ''decimal''), (176, ''declare''), (177,
    ''default''), (178, ''defaults''), (179, ''deferrable''), (180, ''deferred''), (181,
    ''define''), (182, ''defined''), (183, ''definer''), (184, ''degree''), (185, ''delayed''),
    (186, ''delete''), (187, ''delimiter''), (188, ''delimiters''), (189, ''dense_rank''), (190,
    ''depends''), (191, ''depth''), (192, ''deref''), (193, ''derived''), (194, ''desc''), (195,
    ''describe''), (196, ''descriptor''), (197, ''destination''), (198, ''detach''), (199,
    ''deterministic''), (200, ''diagnostics''), (201, ''dictionary''), (202, ''disable''), (203,
    ''discard''), (204, ''disconnect''), (205, ''dispatch''), (206, ''distinct''), (207,
    ''distinctrow''), (208, ''div''), (209, ''do''), (210, ''document''), (211, ''domain''),
    (212, ''double''), (213, ''drop''), (214, ''dual''), (215, ''dynamic''), (216,
    ''dynamic_function''), (217, ''dynamic_function_code''), (218, ''each''), (219, ''edge''),
    (220, ''element''), (221, ''else''), (222, ''elseif''), (223, ''empty'')]"

definition keyword_arms_2 :: "(nat \<times> string) list" where
  "keyword_arms_2 = [
    (224, ''enable''), (225, ''enclosed''), (226, ''encoding''), (227, ''encrypted''), (228,
    ''end''), (229, ''end_frame''), (230, ''end_partition''), (231, ''enforced''), (232,
    ''enum''), (233, ''equals''), (234, ''error''), (235, ''escape''), (236, ''escaped''), (237,
    ''event''), (238, ''every''), (239, ''except''), (240, ''exclude''), (241, ''excluding''),
    (242, ''exclusive''), (243, ''exec''), (244, ''execute''), (245, ''exists''), (246,
    ''exit''), (247, ''exp''), (248, ''explain''), (249, ''expression''), (250, ''extend''),
    (251, ''extension''), (252, ''external''), (253, ''extract''), (254, ''false''), (255,
    ''family''), (256, ''fetch''), (257, ''filter''), (258, ''final''), (259, ''finalize''),
    (260, ''finish''), (261, ''first''), (262, ''first_value''), (263, ''flag''), (264,
    ''float''), (265, ''float4''), (266, ''float8''), (267, ''floor''), (268, ''following''),
    (269, ''for''), (270, ''force''), (271, ''foreign''), (272, ''format''), (273, ''fortran''),
    (274, ''forward''), (275, ''found''), (276, ''frame_row''), (277, ''free''), (278,
    ''freeze''), (279, ''from''), (280, ''fulfill''), (281, ''full''), (282, ''fulltext''),
    (283, ''function''), (284, ''functions''), (285, ''fusion''), (286, ''g''), (287,
    ''general''), (288, ''generated''), (289, ''get''), (290, ''glob''), (291, ''global''),
    (292, ''go''), (293, ''goto''), (294, ''grant''), (295, ''granted''), (296, ''graph''),
    (297, ''graph_table''), (298, ''greatest''), (299, ''group''), (300, ''grouping''), (301,
    ''groups''), (302, ''handler''), (303, ''having''), (304, ''header''), (305, ''hierarchy''),
    (306, ''high_priority''), (307, ''hold''), (308, ''hour''), (309, ''hour_microsecond''),
    (310, ''hour_minute''), (311, ''hour_second''), (312, ''identity''), (313, ''if''), (314,
    ''ignore''), (315, ''ilike''), (316, ''immediate''), (317, ''immediately''), (318,
    ''immutable''), (319, ''implementation''), (320, ''implicit''), (321, ''import''), (322,
    ''in''), (323, ''include''), (324, ''including''), (325, ''increment''), (326, ''indent''),
    (327, ''index''), (328, ''indexed''), (329, ''indexes''), (330, ''indicator''), (331,
    ''infile''), (332, ''inherit''), (333, ''inherits''), (334, ''initial''), (335,
    ''initially'')]"

definition keyword_arms_3 :: "(nat \<times> string) list" where
  "keyword_arms_3 = [
    (336, ''inline''), (337, ''inner''), (338, ''inout''), (339, ''input''), (340,
    ''insensitive''), (341, ''insert''), (342, ''instance''), (343, ''instantiable''), (344,
    ''instead''), (345, ''int''), (346, ''int1''), (347, ''int2''), (348, ''int3''), (349,
    ''int4''), (350, ''int8''), (351, ''integer''), (352, ''intersect''), (353,
    ''intersection''), (354, ''interval''), (355, ''into''), (356, ''invoker''), (357,
    ''io_after_gtids''), (358, ''io_before_gtids''), (359, ''is''), (360, ''isnull''), (361,
    ''isolation''), (362, ''iterate''), (363, ''join''), (364, ''json''), (365, ''json_array''),
    (366, ''json_arrayagg''), (367, ''json_exists''), (368, ''json_object''), (369,
    ''json_objectagg''), (370, ''json_query''), (371, ''json_scalar''), (372,
    ''json_serialize''), (373, ''json_table''), (374, ''json_table_primitive''), (375,
    ''json_value''), (376, ''k''), (377, ''keep''), (378, ''key''), (379, ''key_member''), (380,
    ''key_type''), (381, ''keys''), (382, ''kill''), (383, ''label''), (384, ''lag''), (385,
    ''language''), (386, ''large''), (387, ''last''), (388, ''last_value''), (389, ''lateral''),
    (390, ''lead''), (391, ''leading''), (392, ''leakproof''), (393, ''least''), (394,
    ''leave''), (395, ''left''), (396, ''length''), (397, ''level''), (398, ''like''), (399,
    ''like_regex''), (400, ''limit''), (401, ''linear''), (402, ''lines''), (403, ''listagg''),
    (404, ''listen''), (405, ''ln''), (406, ''load''), (407, ''local''), (408, ''localtime''),
    (409, ''localtimestamp''), (410, ''location''), (411, ''locator''), (412, ''lock''), (413,
    ''locked''), (414, ''log''), (415, ''log10''), (416, ''logged''), (417, ''long''), (418,
    ''longblob''), (419, ''longtext''), (420, ''loop''), (421, ''low_priority''), (422,
    ''lower''), (423, ''lsn''), (424, ''m''), (425, ''map''), (426, ''mapping''), (427,
    ''match''), (428, ''match_number''), (429, ''match_recognize''), (430, ''matched''), (431,
    ''matches''), (432, ''materialized''), (433, ''max''), (434, ''maxvalue''), (435,
    ''measures''), (436, ''mediumblob''), (437, ''mediumint''), (438, ''mediumtext''), (439,
    ''member''), (440, ''merge''), (441, ''merge_action''), (442, ''message_length''), (443,
    ''message_octet_length''), (444, ''message_text''), (445, ''method''), (446, ''middleint''),
    (447, ''min'')]"

definition keyword_arms_4 :: "(nat \<times> string) list" where
  "keyword_arms_4 = [
    (448, ''minute''), (449, ''minute_microsecond''), (450, ''minute_second''), (451,
    ''minvalue''), (452, ''mod''), (453, ''mode''), (454, ''modifies''), (455, ''module''),
    (456, ''month''), (457, ''more''), (458, ''move''), (459, ''multiset''), (460, ''mumps''),
    (461, ''name''), (462, ''names''), (463, ''national''), (464, ''natural''), (465,
    ''nchar''), (466, ''nclob''), (467, ''nested''), (468, ''nesting''), (469, ''new''), (470,
    ''next''), (471, ''nfc''), (472, ''nfd''), (473, ''nfkc''), (474, ''nfkd''), (475, ''no''),
    (476, ''no_write_to_binlog''), (477, ''node''), (478, ''none''), (479, ''normalize''), (480,
    ''normalized''), (481, ''not''), (482, ''nothing''), (483, ''notify''), (484, ''notnull''),
    (485, ''nowait''), (486, ''nth_value''), (487, ''ntile''), (488, ''null''), (489,
    ''null_ordering''), (490, ''nullable''), (491, ''nullif''), (492, ''nulls''), (493,
    ''number''), (494, ''numeric''), (495, ''object''), (496, ''objects''), (497,
    ''occurrence''), (498, ''occurrences_regex''), (499, ''octet_length''), (500, ''octets''),
    (501, ''of''), (502, ''off''), (503, ''offset''), (504, ''oids''), (505, ''old''), (506,
    ''omit''), (507, ''on''), (508, ''one''), (509, ''only''), (510, ''open''), (511,
    ''openjson''), (512, ''operator''), (513, ''optimize''), (514, ''option''), (515,
    ''optionally''), (516, ''options''), (517, ''or''), (518, ''order''), (519, ''ordering''),
    (520, ''ordinality''), (521, ''others''), (522, ''out''), (523, ''outer''), (524,
    ''outfile''), (525, ''output''), (526, ''over''), (527, ''overflow''), (528, ''overlaps''),
    (529, ''overlay''), (530, ''overriding''), (531, ''owned''), (532, ''owner''), (533, ''p''),
    (534, ''pad''), (535, ''parallel''), (536, ''parameter''), (537, ''parameter_mode''), (538,
    ''parameter_name''), (539, ''parameter_ordinal_position''), (540,
    ''parameter_specific_catalog''), (541, ''parameter_specific_name''), (542,
    ''parameter_specific_schema''), (543, ''parser''), (544, ''partial''), (545, ''partition''),
    (546, ''partitions''), (547, ''pascal''), (548, ''pass''), (549, ''passing''), (550,
    ''password''), (551, ''past''), (552, ''path''), (553, ''pattern''), (554, ''per''), (555,
    ''percent''), (556, ''percent_rank''), (557, ''percentile_cont''), (558,
    ''percentile_disc''), (559, ''period'')]"

definition keyword_arms_5 :: "(nat \<times> string) list" where
  "keyword_arms_5 = [
    (560, ''permute''), (561, ''pipe''), (562, ''pivot''), (563, ''placing''), (564, ''plan''),
    (565, ''plans''), (566, ''pli''), (567, ''policy''), (568, ''portion''), (569,
    ''position''), (570, ''position_regex''), (571, ''positional''), (572, ''power''), (573,
    ''precedes''), (574, ''preceding''), (575, ''precision''), (576, ''prepare''), (577,
    ''prepared''), (578, ''preserve''), (579, ''prev''), (580, ''primary''), (581, ''prior''),
    (582, ''private''), (583, ''privileges''), (584, ''procedural''), (585, ''procedure''),
    (586, ''procedures''), (587, ''program''), (588, ''properties''), (589, ''property''), (590,
    ''prune''), (591, ''ptf''), (592, ''public''), (593, ''publication''), (594, ''purge''),
    (595, ''qualify''), (596, ''quote''), (597, ''quotes''), (598, ''range''), (599, ''rank''),
    (600, ''read''), (601, ''read_write''), (602, ''reads''), (603, ''real''), (604,
    ''reassign''), (605, ''recursive''), (606, ''ref''), (607, ''references''), (608,
    ''referencing''), (609, ''refresh''), (610, ''regexp''), (611, ''regr_avgx''), (612,
    ''regr_avgy''), (613, ''regr_count''), (614, ''regr_intercept''), (615, ''regr_r2''), (616,
    ''regr_slope''), (617, ''regr_sxx''), (618, ''regr_sxy''), (619, ''regr_syy''), (620,
    ''reindex''), (621, ''relationship''), (622, ''relative''), (623, ''release''), (624,
    ''rename''), (625, ''repack''), (626, ''repeat''), (627, ''repeatable''), (628,
    ''replace''), (629, ''replica''), (630, ''require''), (631, ''reset''), (632, ''resignal''),
    (633, ''respect''), (634, ''restart''), (635, ''restrict''), (636, ''result''), (637,
    ''return''), (638, ''returned_cardinality''), (639, ''returned_length''), (640,
    ''returned_octet_length''), (641, ''returned_sqlstate''), (642, ''returning''), (643,
    ''returns''), (644, ''revoke''), (645, ''right''), (646, ''rlike''), (647, ''role''), (648,
    ''rollback''), (649, ''rollup''), (650, ''routine''), (651, ''routine_catalog''), (652,
    ''routine_name''), (653, ''routine_schema''), (654, ''routines''), (655, ''row''), (656,
    ''row_count''), (657, ''row_number''), (658, ''rows''), (659, ''rule''), (660, ''running''),
    (661, ''savepoint''), (662, ''scalar''), (663, ''scale''), (664, ''schema''), (665,
    ''schema_name''), (666, ''schemas''), (667, ''scope''), (668, ''scope_catalog''), (669,
    ''scope_name''), (670, ''scope_schema''), (671, ''scroll'')]"

definition keyword_arms_6 :: "(nat \<times> string) list" where
  "keyword_arms_6 = [
    (672, ''search''), (673, ''second''), (674, ''second_microsecond''), (675, ''section''),
    (676, ''security''), (677, ''seek''), (678, ''select''), (679, ''self''), (680,
    ''semantics''), (681, ''semi''), (682, ''sensitive''), (683, ''separator''), (684,
    ''sequence''), (685, ''sequences''), (686, ''serializable''), (687, ''server''), (688,
    ''server_name''), (689, ''session''), (690, ''session_user''), (691, ''set''), (692,
    ''setof''), (693, ''sets''), (694, ''share''), (695, ''show''), (696, ''signal''), (697,
    ''similar''), (698, ''simple''), (699, ''sin''), (700, ''sinh''), (701, ''size''), (702,
    ''skip''), (703, ''smallint''), (704, ''snapshot''), (705, ''some''), (706,
    ''sort_direction''), (707, ''source''), (708, ''space''), (709, ''spatial''), (710,
    ''specific''), (711, ''specific_name''), (712, ''specifictype''), (713, ''split''), (714,
    ''sql''), (715, ''sql_big_result''), (716, ''sql_calc_found_rows''), (717,
    ''sql_small_result''), (718, ''sqlexception''), (719, ''sqlstate''), (720, ''sqlwarning''),
    (721, ''sqrt''), (722, ''ssl''), (723, ''stable''), (724, ''standalone''), (725, ''start''),
    (726, ''starting''), (727, ''state''), (728, ''statement''), (729, ''static''), (730,
    ''statistics''), (731, ''stddev_pop''), (732, ''stddev_samp''), (733, ''stdin''), (734,
    ''stdout''), (735, ''storage''), (736, ''stored''), (737, ''straight_join''), (738,
    ''strict''), (739, ''string''), (740, ''strip''), (741, ''structure''), (742, ''style''),
    (743, ''subclass_origin''), (744, ''submultiset''), (745, ''subscription''), (746,
    ''subset''), (747, ''substring''), (748, ''substring_regex''), (749, ''succeeds''), (750,
    ''sum''), (751, ''support''), (752, ''symmetric''), (753, ''sysid''), (754, ''system''),
    (755, ''system_time''), (756, ''system_user''), (757, ''t''), (758, ''table''), (759,
    ''table_name''), (760, ''tables''), (761, ''tablesample''), (762, ''tablespace''), (763,
    ''tan''), (764, ''tanh''), (765, ''target''), (766, ''temp''), (767, ''template''), (768,
    ''temporary''), (769, ''terminated''), (770, ''text''), (771, ''then''), (772, ''through''),
    (773, ''ties''), (774, ''time''), (775, ''timestamp''), (776, ''timezone_hour''), (777,
    ''timezone_minute''), (778, ''tinyblob''), (779, ''tinyint''), (780, ''tinytext''), (781,
    ''to''), (782, ''top_level_count''), (783, ''trailing'')]"

definition keyword_arms_7 :: "(nat \<times> string) list" where
  "keyword_arms_7 = [
    (784, ''transaction''), (785, ''transaction_active''), (786, ''transactions_committed''),
    (787, ''transactions_rolled_back''), (788, ''transform''), (789, ''transforms''), (790,
    ''translate''), (791, ''translate_regex''), (792, ''translation''), (793, ''treat''), (794,
    ''trigger''), (795, ''trigger_catalog''), (796, ''trigger_name''), (797,
    ''trigger_schema''), (798, ''trim''), (799, ''trim_array''), (800, ''true''), (801,
    ''truncate''), (802, ''trusted''), (803, ''type''), (804, ''types''), (805, ''uescape''),
    (806, ''unbounded''), (807, ''uncommitted''), (808, ''unconditional''), (809, ''under''),
    (810, ''undo''), (811, ''unencrypted''), (812, ''union''), (813, ''unique''), (814,
    ''unknown''), (815, ''unlisten''), (816, ''unlock''), (817, ''unlogged''), (818,
    ''unmatched''), (819, ''unnamed''), (820, ''unnest''), (821, ''unpivot''), (822,
    ''unsigned''), (823, ''until''), (824, ''update''), (825, ''upper''), (826, ''usage''),
    (827, ''use''), (828, ''user''), (829, ''user_defined_type_catalog''), (830,
    ''user_defined_type_code''), (831, ''user_defined_type_name''), (832,
    ''user_defined_type_schema''), (833, ''using''), (834, ''utc_date''), (835, ''utc_time''),
    (836, ''utc_timestamp''), (837, ''utf16''), (838, ''utf32''), (839, ''utf8''), (840,
    ''vacuum''), (841, ''valid''), (842, ''validate''), (843, ''validator''), (844, ''value''),
    (845, ''value_of''), (846, ''values''), (847, ''var_pop''), (848, ''var_samp''), (849,
    ''varbinary''), (850, ''varchar''), (851, ''varcharacter''), (852, ''variadic''), (853,
    ''varying''), (854, ''verbose''), (855, ''version''), (856, ''versioning''), (857,
    ''vertex''), (858, ''view''), (859, ''views''), (860, ''virtual''), (861, ''volatile''),
    (862, ''wait''), (863, ''when''), (864, ''whenever''), (865, ''where''), (866, ''while''),
    (867, ''whitespace''), (868, ''width_bucket''), (869, ''window''), (870, ''with''), (871,
    ''within''), (872, ''without''), (873, ''work''), (874, ''wrapper''), (875, ''write''),
    (876, ''xml''), (877, ''xmlattributes''), (878, ''xmlconcat''), (879, ''xmlelement''), (880,
    ''xmlexists''), (881, ''xmlforest''), (882, ''xmlnamespaces''), (883, ''xmlparse''), (884,
    ''xmlpi''), (885, ''xmlroot''), (886, ''xmlserialize''), (887, ''xmltable''), (888,
    ''xor''), (889, ''year''), (890, ''year_month''), (891, ''yes''), (892, ''zerofill''), (893,
    ''zone'')]"

definition KEYWORD_ARMS :: "(nat \<times> string) list" where
  "KEYWORD_ARMS = keyword_arms_0 @ keyword_arms_1 @ keyword_arms_2 @ keyword_arms_3
     @ keyword_arms_4 @ keyword_arms_5 @ keyword_arms_6 @ keyword_arms_7"

definition keyword_as_str :: "keyword \<Rightarrow> string" where
  "keyword_as_str k = the (map_of KEYWORD_ARMS (discriminant k))"

subsection \<open>Tables\<close>

definition KEYWORDS_LEN_1 :: "(nat \<times> keyword) list" where
  "KEYWORDS_LEN_1 = [
    (0x61, Keyword 0), (0x63, Keyword 60), (0x67, Keyword 286), (0x6b, Keyword 376), (0x6d,
    Keyword 424), (0x70, Keyword 533), (0x74, Keyword 757)]"

definition KEYWORDS_LEN_2 :: "(nat \<times> keyword) list" where
  "KEYWORDS_LEN_2 = [
    (0x6173, Keyword 29), (0x6174, Keyword 37), (0x6279, Keyword 59), (0x646f, Keyword 209),
    (0x676f, Keyword 292), (0x6966, Keyword 313), (0x696e, Keyword 322), (0x6973, Keyword 359),
    (0x6c6e, Keyword 405), (0x6e6f, Keyword 475), (0x6f66, Keyword 501), (0x6f6e, Keyword 507),
    (0x6f72, Keyword 517), (0x746f, Keyword 781)]"

definition KEYWORDS_LEN_3 :: "(nat \<times> keyword) list" where
  "KEYWORDS_LEN_3 = [
    (0x616273, Keyword 2), (0x616461, Keyword 9), (0x616464, Keyword 10), (0x616c6c, Keyword
    14), (0x616e64, Keyword 21), (0x616e79, Keyword 23), (0x617265, Keyword 25), (0x617363,
    Keyword 30), (0x617667, Keyword 44), (0x626974, Keyword 54), (0x636f73, Keyword 135),
    (0x637376, Keyword 143), (0x646179, Keyword 167), (0x646563, Keyword 173), (0x646976,
    Keyword 208), (0x656e64, Keyword 228), (0x657870, Keyword 247), (0x666f72, Keyword 269),
    (0x676574, Keyword 289), (0x696e74, Keyword 345), (0x6b6579, Keyword 378), (0x6c6167,
    Keyword 384), (0x6c6f67, Keyword 414), (0x6c736e, Keyword 423), (0x6d6170, Keyword 425),
    (0x6d6178, Keyword 433), (0x6d696e, Keyword 447), (0x6d6f64, Keyword 452), (0x6e6577,
    Keyword 469), (0x6e6663, Keyword 471), (0x6e6664, Keyword 472), (0x6e6f74, Keyword 481),
    (0x6f6666, Keyword 502), (0x6f6c64, Keyword 505), (0x6f6e65, Keyword 508), (0x6f7574,
    Keyword 522), (0x706164, Keyword 534), (0x706572, Keyword 554), (0x706c69, Keyword 566),
    (0x707466, Keyword 591), (0x726566, Keyword 606), (0x726f77, Keyword 655), (0x736574,
    Keyword 691), (0x73696e, Keyword 699), (0x73716c, Keyword 714), (0x73736c, Keyword 722),
    (0x73756d, Keyword 750), (0x74616e, Keyword 763), (0x757365, Keyword 827), (0x786d6c,
    Keyword 876), (0x786f72, Keyword 888), (0x796573, Keyword 891)]"

definition KEYWORDS_LEN_4 :: "(nat \<times> keyword) list" where
  "KEYWORDS_LEN_4 = [
    (0x61636f73, Keyword 7), (0x616c736f, Keyword 16), (0x616e7469, Keyword 22), (0x6173696e,
    Keyword 32), (0x61736f66, Keyword 33), (0x6174616e, Keyword 38), (0x626c6f62, Keyword 55),
    (0x626f7468, Keyword 57), (0x63616c6c, Keyword 62), (0x63617365, Keyword 67), (0x63617374,
    Keyword 68), (0x6365696c, Keyword 71), (0x63686172, Keyword 76), (0x636c6f62, Keyword 90),
    (0x636f7079, Keyword 132), (0x636f7272, Keyword 133), (0x636f7368, Keyword 136),
    (0x636f7374, Keyword 137), (0x63756265, Keyword 144), (0x64617461, Keyword 161),
    (0x64617465, Keyword 164), (0x64657363, Keyword 194), (0x64726f70, Keyword 213),
    (0x6475616c, Keyword 214), (0x65616368, Keyword 218), (0x65646765, Keyword 219),
    (0x656c7365, Keyword 221), (0x656e756d, Keyword 232), (0x65786563, Keyword 243),
    (0x65786974, Keyword 246), (0x666c6167, Keyword 263), (0x66726565, Keyword 277),
    (0x66726f6d, Keyword 279), (0x66756c6c, Keyword 281), (0x676c6f62, Keyword 290),
    (0x676f746f, Keyword 293), (0x686f6c64, Keyword 307), (0x686f7572, Keyword 308),
    (0x696e7431, Keyword 346), (0x696e7432, Keyword 347), (0x696e7433, Keyword 348),
    (0x696e7434, Keyword 349), (0x696e7438, Keyword 350), (0x696e746f, Keyword 355),
    (0x6a6f696e, Keyword 363), (0x6a736f6e, Keyword 364), (0x6b656570, Keyword 377),
    (0x6b657973, Keyword 381), (0x6b696c6c, Keyword 382), (0x6c617374, Keyword 387),
    (0x6c656164, Keyword 390), (0x6c656674, Keyword 395), (0x6c696b65, Keyword 398),
    (0x6c6f6164, Keyword 406), (0x6c6f636b, Keyword 412), (0x6c6f6e67, Keyword 417),
    (0x6c6f6f70, Keyword 420), (0x6d6f6465, Keyword 453), (0x6d6f7265, Keyword 457),
    (0x6d6f7665, Keyword 458), (0x6e616d65, Keyword 461), (0x6e657874, Keyword 470),
    (0x6e666b63, Keyword 473), (0x6e666b64, Keyword 474), (0x6e6f6465, Keyword 477),
    (0x6e6f6e65, Keyword 478), (0x6e756c6c, Keyword 488), (0x6f696473, Keyword 504),
    (0x6f6d6974, Keyword 506), (0x6f6e6c79, Keyword 509), (0x6f70656e, Keyword 510),
    (0x6f766572, Keyword 526), (0x70617373, Keyword 548), (0x70617374, Keyword 551),
    (0x70617468, Keyword 552), (0x70697065, Keyword 561), (0x706c616e, Keyword 564),
    (0x70726576, Keyword 579), (0x72616e6b, Keyword 599), (0x72656164, Keyword 600),
    (0x7265616c, Keyword 603), (0x726f6c65, Keyword 647), (0x726f7773, Keyword 658),
    (0x72756c65, Keyword 659), (0x7365656b, Keyword 677), (0x73656c66, Keyword 679),
    (0x73656d69, Keyword 681), (0x73657473, Keyword 693), (0x73686f77, Keyword 695),
    (0x73696e68, Keyword 700), (0x73697a65, Keyword 701), (0x736b6970, Keyword 702),
    (0x736f6d65, Keyword 705), (0x73717274, Keyword 721), (0x74616e68, Keyword 764),
    (0x74656d70, Keyword 766), (0x74657874, Keyword 770), (0x7468656e, Keyword 771),
    (0x74696573, Keyword 773), (0x74696d65, Keyword 774), (0x7472696d, Keyword 798),
    (0x74727565, Keyword 800), (0x74797065, Keyword 803), (0x756e646f, Keyword 810),
    (0x75736572, Keyword 828), (0x75746638, Keyword 839), (0x76696577, Keyword 858),
    (0x77616974, Keyword 862), (0x7768656e, Keyword 863), (0x77697468, Keyword 870),
    (0x776f726b, Keyword 873), (0x79656172, Keyword 889), (0x7a6f6e65, Keyword 893)]"

definition KEYWORDS_LEN_5 :: "(nat \<times> keyword) list" where
  "KEYWORDS_LEN_5 = [
    (0x61626f7274, Keyword 1), (0x61646d696e, Keyword 11), (0x6166746572, Keyword 12),
    (0x616c746572, Keyword 17), (0x6170706c79, Keyword 24), (0x6172726179, Keyword 26),
    (0x626567696e, Keyword 47), (0x6361636865, Keyword 61), (0x636861696e, Keyword 73),
    (0x636865636b, Keyword 85), (0x636c617373, Keyword 87), (0x636c6f7365, Keyword 91),
    (0x636f626f6c, Keyword 94), (0x636f756e74, Keyword 138), (0x63726f7373, Keyword 142),
    (0x6379636c65, Keyword 160), (0x6465707468, Keyword 191), (0x6465726566, Keyword 192),
    (0x656d707479, Keyword 223), (0x6572726f72, Keyword 234), (0x6576656e74, Keyword 237),
    (0x6576657279, Keyword 238), (0x66616c7365, Keyword 254), (0x6665746368, Keyword 256),
    (0x66696e616c, Keyword 258), (0x6669727374, Keyword 261), (0x666c6f6174, Keyword 264),
    (0x666c6f6f72, Keyword 267), (0x666f726365, Keyword 270), (0x666f756e64, Keyword 275),
    (0x6772616e74, Keyword 294), (0x6772617068, Keyword 296), (0x67726f7570, Keyword 299),
    (0x696c696b65, Keyword 315), (0x696e646578, Keyword 327), (0x696e6e6572, Keyword 337),
    (0x696e6f7574, Keyword 338), (0x696e707574, Keyword 339), (0x6c6162656c, Keyword 383),
    (0x6c61726765, Keyword 386), (0x6c65617374, Keyword 393), (0x6c65617665, Keyword 394),
    (0x6c6576656c, Keyword 397), (0x6c696d6974, Keyword 400), (0x6c696e6573, Keyword 402),
    (0x6c6f63616c, Keyword 407), (0x6c6f673130, Keyword 415), (0x6c6f776572, Keyword 422),
    (0x6d61746368, Keyword 427), (0x6d65726765, Keyword 440), (0x6d6f6e7468, Keyword 456),
    (0x6d756d7073, Keyword 460), (0x6e616d6573, Keyword 462), (0x6e63686172, Keyword 465),
    (0x6e636c6f62, Keyword 466), (0x6e74696c65, Keyword 487), (0x6e756c6c73, Keyword 492),
    (0x6f72646572, Keyword 518), (0x6f75746572, Keyword 523), (0x6f776e6564, Keyword 531),
    (0x6f776e6572, Keyword 532), (0x7069766f74, Keyword 562), (0x706c616e73, Keyword 565),
    (0x706f776572, Keyword 572), (0x7072696f72, Keyword 581), (0x7072756e65, Keyword 590),
    (0x7075726765, Keyword 594), (0x71756f7465, Keyword 596), (0x72616e6765, Keyword 598),
    (0x7265616473, Keyword 602), (0x7265736574, Keyword 631), (0x7269676874, Keyword 645),
    (0x726c696b65, Keyword 646), (0x7363616c65, Keyword 663), (0x73636f7065, Keyword 667),
    (0x7365746f66, Keyword 692), (0x7368617265, Keyword 694), (0x7370616365, Keyword 708),
    (0x73706c6974, Keyword 713), (0x7374617274, Keyword 725), (0x7374617465, Keyword 727),
    (0x737464696e, Keyword 733), (0x7374726970, Keyword 740), (0x7374796c65, Keyword 742),
    (0x7379736964, Keyword 753), (0x7461626c65, Keyword 758), (0x7472656174, Keyword 793),
    (0x7479706573, Keyword 804), (0x756e646572, Keyword 809), (0x756e696f6e, Keyword 812),
    (0x756e74696c, Keyword 823), (0x7570706572, Keyword 825), (0x7573616765, Keyword 826),
    (0x7573696e67, Keyword 833), (0x7574663136, Keyword 837), (0x7574663332, Keyword 838),
    (0x76616c6964, Keyword 841), (0x76616c7565, Keyword 844), (0x7669657773, Keyword 859),
    (0x7768657265, Keyword 865), (0x7768696c65, Keyword 866), (0x7772697465, Keyword 875),
    (0x786d6c7069, Keyword 884)]"

definition KEYWORDS_LEN_6 :: "(nat \<times> keyword) list" where
  "KEYWORDS_LEN_6 = [
    (0x616273656e74, Keyword 3), (0x616363657373, Keyword 5), (0x616374696f6e, Keyword 8),
    (0x616c77617973, Keyword 18), (0x61746f6d6963, Keyword 39), (0x617474616368, Keyword 40),
    (0x6265666f7265, Keyword 46), (0x626967696e74, Keyword 52), (0x62696e617279, Keyword 53),
    (0x63616c6c6564, Keyword 63), (0x6368616e6765, Keyword 75), (0x636f6c756d6e, Keyword 101),
    (0x636f6d6d6974, Keyword 108), (0x637265617465, Keyword 141), (0x637572736f72, Keyword 158),
    (0x646566696e65, Keyword 181), (0x646567726565, Keyword 184), (0x64656c657465, Keyword 186),
    (0x646574616368, Keyword 198), (0x646f6d61696e, Keyword 211), (0x646f75626c65, Keyword 212),
    (0x656c73656966, Keyword 222), (0x656e61626c65, Keyword 224), (0x657175616c73, Keyword 233),
    (0x657363617065, Keyword 235), (0x657863657074, Keyword 239), (0x657869737473, Keyword 245),
    (0x657874656e64, Keyword 250), (0x66616d696c79, Keyword 255), (0x66696c746572, Keyword 257),
    (0x66696e697368, Keyword 260), (0x666c6f617434, Keyword 265), (0x666c6f617438, Keyword 266),
    (0x666f726d6174, Keyword 272), (0x667265657a65, Keyword 278), (0x667573696f6e, Keyword 285),
    (0x676c6f62616c, Keyword 291), (0x67726f757073, Keyword 301), (0x686176696e67, Keyword 303),
    (0x686561646572, Keyword 304), (0x69676e6f7265, Keyword 314), (0x696d706f7274, Keyword 321),
    (0x696e64656e74, Keyword 326), (0x696e66696c65, Keyword 331), (0x696e6c696e65, Keyword 336),
    (0x696e73657274, Keyword 341), (0x69736e756c6c, Keyword 360), (0x6c656e677468, Keyword 396),
    (0x6c696e656172, Keyword 401), (0x6c697374656e, Keyword 404), (0x6c6f636b6564, Keyword 413),
    (0x6c6f67676564, Keyword 416), (0x6d656d626572, Keyword 439), (0x6d6574686f64, Keyword 445),
    (0x6d696e757465, Keyword 448), (0x6d6f64756c65, Keyword 455), (0x6e6573746564, Keyword 467),
    (0x6e6f74696679, Keyword 483), (0x6e6f77616974, Keyword 485), (0x6e756c6c6966, Keyword 491),
    (0x6e756d626572, Keyword 493), (0x6f626a656374, Keyword 495), (0x6f6374657473, Keyword 500),
    (0x6f6666736574, Keyword 503), (0x6f7074696f6e, Keyword 514), (0x6f7468657273, Keyword 521),
    (0x6f7574707574, Keyword 525), (0x706172736572, Keyword 543), (0x70617363616c, Keyword 547),
    (0x706572696f64, Keyword 559), (0x706f6c696379, Keyword 567), (0x7075626c6963, Keyword 592),
    (0x71756f746573, Keyword 597), (0x726567657870, Keyword 610), (0x72656e616d65, Keyword 624),
    (0x72657061636b, Keyword 625), (0x726570656174, Keyword 626), (0x726573756c74, Keyword 636),
    (0x72657475726e, Keyword 637), (0x7265766f6b65, Keyword 644), (0x726f6c6c7570, Keyword 649),
    (0x7363616c6172, Keyword 662), (0x736368656d61, Keyword 664), (0x7363726f6c6c, Keyword 671),
    (0x736561726368, Keyword 672), (0x7365636f6e64, Keyword 673), (0x73656c656374, Keyword 678),
    (0x736572766572, Keyword 687), (0x7369676e616c, Keyword 696), (0x73696d706c65, Keyword 698),
    (0x736f75726365, Keyword 707), (0x737461626c65, Keyword 723), (0x737461746963, Keyword 729),
    (0x7374646f7574, Keyword 734), (0x73746f726564, Keyword 736), (0x737472696374, Keyword 738),
    (0x737472696e67, Keyword 739), (0x737562736574, Keyword 746), (0x73797374656d, Keyword 754),
    (0x7461626c6573, Keyword 760), (0x746172676574, Keyword 765), (0x756e69717565, Keyword 813),
    (0x756e6c6f636b, Keyword 816), (0x756e6e657374, Keyword 820), (0x757064617465, Keyword 824),
    (0x76616375756d, Keyword 840), (0x76616c756573, Keyword 846), (0x766572746578, Keyword 857),
    (0x77696e646f77, Keyword 869), (0x77697468696e, Keyword 871)]"

definition KEYWORDS_LEN_7 :: "(nat \<times> keyword) list" where
  "KEYWORDS_LEN_7 = [
    (0x616e616c797365, Keyword 19), (0x616e616c797a65, Keyword 20), (0x6265747765656e, Keyword
    51), (0x626f6f6c65616e, Keyword 56), (0x62726561647468, Keyword 58), (0x63617363616465,
    Keyword 65), (0x636174616c6f67, Keyword 69), (0x6365696c696e67, Keyword 72),
    (0x636c7573746572, Keyword 92), (0x636f6c6c617465, Keyword 95), (0x636f6c6c656374, Keyword
    100), (0x636f6c756d6e73, Keyword 103), (0x636f6d6d656e74, Keyword 106), (0x636f6e6e656374,
    Keyword 117), (0x636f6e74656e74, Keyword 128), (0x636f6e76657274, Keyword 131),
    (0x63757272656e74, Keyword 146), (0x646563696d616c, Keyword 175), (0x6465636c617265, Keyword
    176), (0x64656661756c74, Keyword 177), (0x646566696e6564, Keyword 182), (0x646566696e6572,
    Keyword 183), (0x64656c61796564, Keyword 185), (0x646570656e6473, Keyword 190),
    (0x64657269766564, Keyword 193), (0x64697361626c65, Keyword 202), (0x64697363617264, Keyword
    203), (0x64796e616d6963, Keyword 215), (0x656c656d656e74, Keyword 220), (0x65736361706564,
    Keyword 236), (0x6578636c756465, Keyword 240), (0x65786563757465, Keyword 244),
    (0x6578706c61696e, Keyword 248), (0x65787472616374, Keyword 253), (0x666f726569676e, Keyword
    271), (0x666f727472616e, Keyword 273), (0x666f7277617264, Keyword 274), (0x66756c66696c6c,
    Keyword 280), (0x67656e6572616c, Keyword 287), (0x6772616e746564, Keyword 295),
    (0x68616e646c6572, Keyword 302), (0x696e636c756465, Keyword 323), (0x696e6465786564, Keyword
    328), (0x696e6465786573, Keyword 329), (0x696e6865726974, Keyword 332), (0x696e697469616c,
    Keyword 334), (0x696e7374656164, Keyword 344), (0x696e7465676572, Keyword 351),
    (0x696e766f6b6572, Keyword 356), (0x69746572617465, Keyword 362), (0x6c61746572616c, Keyword
    389), (0x6c656164696e67, Keyword 391), (0x6c697374616767, Keyword 403), (0x6c6f6361746f72,
    Keyword 411), (0x6d617070696e67, Keyword 426), (0x6d617463686564, Keyword 430),
    (0x6d617463686573, Keyword 431), (0x6e61747572616c, Keyword 464), (0x6e657374696e67, Keyword
    468), (0x6e6f7468696e67, Keyword 482), (0x6e6f746e756c6c, Keyword 484), (0x6e756d65726963,
    Keyword 494), (0x6f626a65637473, Keyword 496), (0x6f7074696f6e73, Keyword 516),
    (0x6f757466696c65, Keyword 524), (0x6f7665726c6179, Keyword 529), (0x7061727469616c, Keyword
    544), (0x70617373696e67, Keyword 549), (0x7061747465726e, Keyword 553), (0x70657263656e74,
    Keyword 555), (0x7065726d757465, Keyword 560), (0x706c6163696e67, Keyword 563),
    (0x706f7274696f6e, Keyword 568), (0x70726570617265, Keyword 576), (0x7072696d617279, Keyword
    580), (0x70726976617465, Keyword 582), (0x70726f6772616d, Keyword 587), (0x7175616c696679,
    Keyword 595), (0x72656672657368, Keyword 609), (0x726567725f7232, Keyword 615),
    (0x7265696e646578, Keyword 620), (0x72656c65617365, Keyword 623), (0x7265706c616365, Keyword
    628), (0x7265706c696361, Keyword 629), (0x72657175697265, Keyword 630), (0x72657370656374,
    Keyword 633), (0x72657374617274, Keyword 634), (0x72657475726e73, Keyword 643),
    (0x726f7574696e65, Keyword 650), (0x72756e6e696e67, Keyword 660), (0x736368656d6173, Keyword
    666), (0x73656374696f6e, Keyword 675), (0x73657373696f6e, Keyword 689), (0x73696d696c6172,
    Keyword 697), (0x7370617469616c, Keyword 709), (0x73746f72616765, Keyword 735),
    (0x737570706f7274, Keyword 751), (0x7468726f756768, Keyword 772), (0x74696e79696e74, Keyword
    779), (0x74726967676572, Keyword 794), (0x74727573746564, Keyword 802), (0x75657363617065,
    Keyword 805), (0x756e6b6e6f776e, Keyword 814), (0x756e6e616d6564, Keyword 819),
    (0x756e7069766f74, Keyword 821), (0x7661725f706f70, Keyword 847), (0x76617263686172, Keyword
    850), (0x76617279696e67, Keyword 853), (0x766572626f7365, Keyword 854), (0x76657273696f6e,
    Keyword 855), (0x7669727475616c, Keyword 860), (0x776974686f7574, Keyword 872),
    (0x77726170706572, Keyword 874), (0x786d6c726f6f74, Keyword 885)]"

definition KEYWORDS_LEN_8 :: "(nat \<times> keyword) list" where
  "KEYWORDS_LEN_8 = [
    (0x6162736f6c757465, Keyword 4), (0x616c6c6f63617465, Keyword 15), (0x6261636b77617264,
    Keyword 45), (0x6361736361646564, Keyword 66), (0x636861696e696e67, Keyword 74),
    (0x636f616c65736365, Keyword 93), (0x636f6d6d656e7473, Keyword 107), (0x636f6e666c696374,
    Keyword 116), (0x636f6e7461696e73, Keyword 127), (0x636f6e74696e7565, Keyword 129),
    (0x6461746162617365, Keyword 162), (0x6461795f686f7572, Keyword 168), (0x646563666c6f6174,
    Keyword 174), (0x64656661756c7473, Keyword 178), (0x6465666572726564, Keyword 180),
    (0x6465736372696265, Keyword 195), (0x6469737061746368, Keyword 205), (0x64697374696e6374,
    Keyword 206), (0x646f63756d656e74, Keyword 210), (0x656e636c6f736564, Keyword 225),
    (0x656e636f64696e67, Keyword 226), (0x656e666f72636564, Keyword 231), (0x65787465726e616c,
    Keyword 252), (0x66696e616c697a65, Keyword 259), (0x66756c6c74657874, Keyword 282),
    (0x66756e6374696f6e, Keyword 283), (0x6772656174657374, Keyword 298), (0x67726f7570696e67,
    Keyword 300), (0x6964656e74697479, Keyword 312), (0x696d706c69636974, Keyword 320),
    (0x696e686572697473, Keyword 333), (0x696e7374616e6365, Keyword 342), (0x696e74657276616c,
    Keyword 354), (0x6b65795f74797065, Keyword 380), (0x6c616e6775616765, Keyword 385),
    (0x6c6f636174696f6e, Keyword 410), (0x6c6f6e67626c6f62, Keyword 418), (0x6c6f6e6774657874,
    Keyword 419), (0x6d617876616c7565, Keyword 434), (0x6d65617375726573, Keyword 435),
    (0x6d696e76616c7565, Keyword 451), (0x6d6f646966696573, Keyword 454), (0x6d756c7469736574,
    Keyword 459), (0x6e6174696f6e616c, Keyword 463), (0x6e756c6c61626c65, Keyword 490),
    (0x6f70656e6a736f6e, Keyword 511), (0x6f70657261746f72, Keyword 512), (0x6f7074696d697a65,
    Keyword 513), (0x6f72646572696e67, Keyword 519), (0x6f766572666c6f77, Keyword 527),
    (0x6f7665726c617073, Keyword 528), (0x706172616c6c656c, Keyword 535), (0x70617373776f7264,
    Keyword 550), (0x706f736974696f6e, Keyword 569), (0x7072656365646573, Keyword 573),
    (0x7072657061726564, Keyword 577), (0x7072657365727665, Keyword 578), (0x70726f7065727479,
    Keyword 589), (0x726561737369676e, Keyword 604), (0x726567725f737878, Keyword 617),
    (0x726567725f737879, Keyword 618), (0x726567725f737979, Keyword 619), (0x72656c6174697665,
    Keyword 622), (0x72657369676e616c, Keyword 632), (0x7265737472696374, Keyword 635),
    (0x726f6c6c6261636b, Keyword 648), (0x726f7574696e6573, Keyword 654), (0x7365637572697479,
    Keyword 676), (0x73657175656e6365, Keyword 684), (0x736d616c6c696e74, Keyword 703),
    (0x736e617073686f74, Keyword 704), (0x7370656369666963, Keyword 710), (0x73716c7374617465,
    Keyword 719), (0x7374617274696e67, Keyword 726), (0x7375636365656473, Keyword 749),
    (0x74656d706c617465, Keyword 767), (0x74696e79626c6f62, Keyword 778), (0x74696e7974657874,
    Keyword 780), (0x747261696c696e67, Keyword 783), (0x7472756e63617465, Keyword 801),
    (0x756e6c697374656e, Keyword 815), (0x756e6c6f67676564, Keyword 817), (0x756e7369676e6564,
    Keyword 822), (0x7574635f64617465, Keyword 834), (0x7574635f74696d65, Keyword 835),
    (0x76616c6964617465, Keyword 842), (0x76616c75655f6f66, Keyword 845), (0x7661725f73616d70,
    Keyword 848), (0x7661726961646963, Keyword 852), (0x766f6c6174696c65, Keyword 861),
    (0x7768656e65766572, Keyword 864), (0x786d6c7061727365, Keyword 883), (0x786d6c7461626c65,
    Keyword 887), (0x7a65726f66696c6c, Keyword 892)]"

definition KEYWORDS_LEN_9 :: "(nat \<times> keyword) list" where
  "KEYWORDS_LEN_9 = [
    (0x616767726567617465, Keyword 13), (0x61727261795f616767, Keyword 27),
    (0x617373657274696f6e, Keyword 34), (0x617474726962757465, Keyword 41),
    (0x6265726e6f756c6c69, Keyword 50), (0x636861726163746572, Keyword 78),
    (0x636f6c6c6174696f6e, Keyword 96), (0x636f6d6d6974746564, Keyword 109),
    (0x636f6e646974696f6e, Keyword 112), (0x636f6e7461696e6564, Keyword 126),
    (0x636f7661725f706f70, Keyword 139), (0x63756d655f64697374, Keyword 145),
    (0x646174616261736573, Keyword 163), (0x64656c696d69746572, Keyword 187),
    (0x656e63727970746564, Keyword 227), (0x656e645f6672616d65, Keyword 229),
    (0x6578636c7564696e67, Keyword 241), (0x6578636c7573697665, Keyword 242),
    (0x657874656e73696f6e, Keyword 251), (0x666f6c6c6f77696e67, Keyword 268),
    (0x6672616d655f726f77, Keyword 276), (0x66756e6374696f6e73, Keyword 284),
    (0x67656e657261746564, Keyword 288), (0x686965726172636879, Keyword 305),
    (0x696d6d656469617465, Keyword 316), (0x696d6d757461626c65, Keyword 318),
    (0x696e636c7564696e67, Keyword 324), (0x696e6372656d656e74, Keyword 325),
    (0x696e64696361746f72, Keyword 330), (0x696e697469616c6c79, Keyword 335),
    (0x696e74657273656374, Keyword 352), (0x69736f6c6174696f6e, Keyword 361),
    (0x6c65616b70726f6f66, Keyword 392), (0x6c6f63616c74696d65, Keyword 408),
    (0x6d656469756d696e74, Keyword 437), (0x6d6964646c65696e74, Keyword 446),
    (0x6e6f726d616c697a65, Keyword 479), (0x6e74685f76616c7565, Keyword 486),
    (0x706172616d65746572, Keyword 536), (0x706172746974696f6e, Keyword 545),
    (0x707265636564696e67, Keyword 574), (0x707265636973696f6e, Keyword 575),
    (0x70726f636564757265, Keyword 585), (0x726563757273697665, Keyword 605),
    (0x726567725f61766778, Keyword 611), (0x726567725f61766779, Keyword 612),
    (0x72657475726e696e67, Keyword 642), (0x726f775f636f756e74, Keyword 656),
    (0x73617665706f696e74, Keyword 661), (0x73656d616e74696373, Keyword 680),
    (0x73656e736974697665, Keyword 682), (0x736570617261746f72, Keyword 683),
    (0x73657175656e636573, Keyword 685), (0x73746174656d656e74, Keyword 728),
    (0x737472756374757265, Keyword 741), (0x737562737472696e67, Keyword 747),
    (0x73796d6d6574726963, Keyword 752), (0x74656d706f72617279, Keyword 768),
    (0x74696d657374616d70, Keyword 775), (0x7472616e73666f726d, Keyword 788),
    (0x7472616e736c617465, Keyword 790), (0x756e626f756e646564, Keyword 806),
    (0x756e6d617463686564, Keyword 818), (0x76616c696461746f72, Keyword 843),
    (0x76617262696e617279, Keyword 849), (0x786d6c636f6e636174, Keyword 878),
    (0x786d6c657869737473, Keyword 880), (0x786d6c666f72657374, Keyword 881)]"

definition KEYWORDS_LEN_10 :: "(nat \<times> keyword) list" where
  "KEYWORDS_LEN_10 = [
    (0x61636365737369626c65, Keyword 6), (0x6173656e736974697665, Keyword 31),
    (0x61737369676e6d656e74, Keyword 35), (0x6173796d6d6574726963, Keyword 36),
    (0x61747472696275746573, Keyword 42), (0x63686172616374657273, Keyword 84),
    (0x636865636b706f696e74, Keyword 86), (0x636c6173736966696572, Keyword 89),
    (0x636f6e6e656374696f6e, Keyword 118), (0x636f6e73747261696e74, Keyword 120),
    (0x636f6e76657273696f6e, Keyword 130), (0x636f7661725f73616d70, Keyword 140),
    (0x6461795f6d696e757465, Keyword 170), (0x6461795f7365636f6e64, Keyword 171),
    (0x6465616c6c6f63617465, Keyword 172), (0x64656665727261626c65, Keyword 179),
    (0x64656c696d6974657273, Keyword 188), (0x64656e73655f72616e6b, Keyword 189),
    (0x64657363726970746f72, Keyword 196), (0x64696374696f6e617279, Keyword 201),
    (0x646973636f6e6e656374, Keyword 204), (0x65787072657373696f6e, Keyword 249),
    (0x6a736f6e5f6172726179, Keyword 365), (0x6a736f6e5f7175657279, Keyword 370),
    (0x6a736f6e5f7461626c65, Keyword 373), (0x6a736f6e5f76616c7565, Keyword 375),
    (0x6b65795f6d656d626572, Keyword 379), (0x6c6173745f76616c7565, Keyword 388),
    (0x6c696b655f7265676578, Keyword 399), (0x6d656469756d626c6f62, Keyword 436),
    (0x6d656469756d74657874, Keyword 438), (0x6e6f726d616c697a6564, Keyword 480),
    (0x6f6363757272656e6365, Keyword 497), (0x6f7074696f6e616c6c79, Keyword 515),
    (0x6f7264696e616c697479, Keyword 520), (0x6f766572726964696e67, Keyword 530),
    (0x706172746974696f6e73, Keyword 546), (0x706f736974696f6e616c, Keyword 571),
    (0x70726976696c65676573, Keyword 583), (0x70726f6365647572616c, Keyword 584),
    (0x70726f63656475726573, Keyword 586), (0x70726f70657274696573, Keyword 588),
    (0x726561645f7772697465, Keyword 601), (0x7265666572656e636573, Keyword 607),
    (0x726567725f636f756e74, Keyword 613), (0x726567725f736c6f7065, Keyword 616),
    (0x72657065617461626c65, Keyword 627), (0x726f775f6e756d626572, Keyword 657),
    (0x73636f70655f6e616d65, Keyword 669), (0x73716c7761726e696e67, Keyword 720),
    (0x7374616e64616c6f6e65, Keyword 724), (0x73746174697374696373, Keyword 730),
    (0x7374646465765f706f70, Keyword 731), (0x7461626c655f6e616d65, Keyword 759),
    (0x7461626c657370616365, Keyword 762), (0x7465726d696e61746564, Keyword 769),
    (0x7472616e73666f726d73, Keyword 789), (0x7472696d5f6172726179, Keyword 799),
    (0x76657273696f6e696e67, Keyword 856), (0x77686974657370616365, Keyword 867),
    (0x786d6c656c656d656e74, Keyword 879), (0x796561725f6d6f6e7468, Keyword 890)]"

definition KEYWORDS_LEN_11 :: "(nat \<times> keyword) list" where
  "KEYWORDS_LEN_11 = [
    (0x626567696e5f6672616d65, Keyword 48), (0x63617264696e616c697479, Keyword 64),
    (0x636861725f6c656e677468, Keyword 77), (0x636f6c756d6e5f6e616d65, Keyword 102),
    (0x636f6d7072657373696f6e, Keyword 110), (0x636f6e646974696f6e616c, Keyword 114),
    (0x636f6e73747261696e7473, Keyword 124), (0x636f6e7374727563746f72, Keyword 125),
    (0x63757272656e745f726f77, Keyword 152), (0x637572736f725f6e616d65, Keyword 159),
    (0x64657374696e6174696f6e, Keyword 197), (0x646961676e6f7374696373, Keyword 200),
    (0x64697374696e6374726f77, Keyword 207), (0x66697273745f76616c7565, Keyword 262),
    (0x67726170685f7461626c65, Keyword 297), (0x686f75725f6d696e757465, Keyword 310),
    (0x686f75725f7365636f6e64, Keyword 311), (0x696d6d6564696174656c79, Keyword 317),
    (0x696e73656e736974697665, Keyword 340), (0x6a736f6e5f657869737473, Keyword 367),
    (0x6a736f6e5f6f626a656374, Keyword 368), (0x6a736f6e5f7363616c6172, Keyword 371),
    (0x7075626c69636174696f6e, Keyword 593), (0x7265666572656e63696e67, Keyword 608),
    (0x736368656d615f6e616d65, Keyword 665), (0x7365727665725f6e616d65, Keyword 688),
    (0x7374646465765f73616d70, Keyword 732), (0x7375626d756c7469736574, Keyword 744),
    (0x73797374656d5f74696d65, Keyword 755), (0x73797374656d5f75736572, Keyword 756),
    (0x7461626c6573616d706c65, Keyword 761), (0x7472616e73616374696f6e, Keyword 784),
    (0x7472616e736c6174696f6e, Keyword 792), (0x756e636f6d6d6974746564, Keyword 807),
    (0x756e656e63727970746564, Keyword 811)]"

definition KEYWORDS_LEN_12 :: "(nat \<times> keyword) list" where
  "KEYWORDS_LEN_12 = [
    (0x636174616c6f675f6e616d65, Keyword 70), (0x636c6173735f6f726967696e, Keyword 88),
    (0x636f6e63757272656e746c79, Keyword 111), (0x63757272656e745f64617465, Keyword 148),
    (0x63757272656e745f70617468, Keyword 150), (0x63757272656e745f726f6c65, Keyword 151),
    (0x63757272656e745f74696d65, Keyword 154), (0x63757272656e745f75736572, Keyword 157),
    (0x696e7374616e746961626c65, Keyword 343), (0x696e74657273656374696f6e, Keyword 353),
    (0x6c6f775f7072696f72697479, Keyword 421), (0x6d617463685f6e756d626572, Keyword 428),
    (0x6d6174657269616c697a6564, Keyword 432), (0x6d657267655f616374696f6e, Keyword 441),
    (0x6d6573736167655f74657874, Keyword 444), (0x6f637465745f6c656e677468, Keyword 499),
    (0x70657263656e745f72616e6b, Keyword 556), (0x72656c6174696f6e73686970, Keyword 621),
    (0x726f7574696e655f6e616d65, Keyword 652), (0x73636f70655f736368656d61, Keyword 670),
    (0x73657269616c697a61626c65, Keyword 686), (0x73657373696f6e5f75736572, Keyword 690),
    (0x737065636966696374797065, Keyword 712), (0x73716c657863657074696f6e, Keyword 718),
    (0x737562736372697074696f6e, Keyword 745), (0x747269676765725f6e616d65, Keyword 796),
    (0x766172636861726163746572, Keyword 851), (0x77696474685f6275636b6574, Keyword 868),
    (0x786d6c73657269616c697a65, Keyword 886)]"

definition KEYWORDS_LEN_13 :: "(nat \<times> keyword) list" where
  "KEYWORDS_LEN_13 = [
    (0x617574686f72697a6174696f6e, Keyword 43), (0x636f6e66696775726174696f6e, Keyword 115),
    (0x636f72726573706f6e64696e67, Keyword 134), (0x64657465726d696e6973746963, Keyword 199),
    (0x656e645f706172746974696f6e, Keyword 230), (0x686967685f7072696f72697479, Keyword 306),
    (0x6a736f6e5f6172726179616767, Keyword 366), (0x6d696e7574655f7365636f6e64, Keyword 450),
    (0x6e756c6c5f6f72646572696e67, Keyword 489), (0x73636f70655f636174616c6f67, Keyword 668),
    (0x73706563696669635f6e616d65, Keyword 711), (0x73747261696768745f6a6f696e, Keyword 737),
    (0x74696d657a6f6e655f686f7572, Keyword 776), (0x756e636f6e646974696f6e616c, Keyword 808),
    (0x7574635f74696d657374616d70, Keyword 836), (0x786d6c61747472696275746573, Keyword 877),
    (0x786d6c6e616d65737061636573, Keyword 882)]"

definition KEYWORDS_LEN_14 :: "(nat \<times> keyword) list" where
  "KEYWORDS_LEN_14 = [
    (0x636f6c6c6174696f6e5f6e616d65, Keyword 98), (0x63757272656e745f736368656d61, Keyword 153),
    (0x696d706c656d656e746174696f6e, Keyword 319), (0x696f5f61667465725f6774696473, Keyword
    357), (0x6a736f6e5f6f626a656374616767, Keyword 369), (0x6a736f6e5f73657269616c697a65,
    Keyword 372), (0x6c6f63616c74696d657374616d70, Keyword 409),
    (0x6d6573736167655f6c656e677468, Keyword 442), (0x706172616d657465725f6d6f6465, Keyword
    537), (0x706172616d657465725f6e616d65, Keyword 538), (0x706f736974696f6e5f7265676578,
    Keyword 570), (0x726567725f696e74657263657074, Keyword 614),
    (0x726f7574696e655f736368656d61, Keyword 653), (0x736f72745f646972656374696f6e, Keyword
    706), (0x73716c5f6269675f726573756c74, Keyword 715), (0x747269676765725f736368656d61,
    Keyword 797)]"

definition KEYWORDS_LEN_15 :: "(nat \<times> keyword) list" where
  "KEYWORDS_LEN_15 = [
    (0x626567696e5f706172746974696f6e, Keyword 49), (0x636861726163746572697374696373, Keyword
    83), (0x636f6e6e656374696f6e5f6e616d65, Keyword 119), (0x636f6e73747261696e745f6e616d65,
    Keyword 122), (0x63757272656e745f636174616c6f67, Keyword 147),
    (0x6461795f6d6963726f7365636f6e64, Keyword 169), (0x696f5f6265666f72655f6774696473, Keyword
    358), (0x6d617463685f7265636f676e697a65, Keyword 429), (0x70657263656e74696c655f636f6e74,
    Keyword 557), (0x70657263656e74696c655f64697363, Keyword 558),
    (0x72657475726e65645f6c656e677468, Keyword 639), (0x726f7574696e655f636174616c6f67, Keyword
    651), (0x737562636c6173735f6f726967696e, Keyword 743), (0x737562737472696e675f7265676578,
    Keyword 748), (0x74696d657a6f6e655f6d696e757465, Keyword 777),
    (0x746f705f6c6576656c5f636f756e74, Keyword 782), (0x7472616e736c6174655f7265676578, Keyword
    791), (0x747269676765725f636174616c6f67, Keyword 795)]"

definition KEYWORDS_LEN_16 :: "(nat \<times> keyword) list" where
  "KEYWORDS_LEN_16 = [
    (0x6368617261637465725f6c656e677468, Keyword 79), (0x636f6c6c6174696f6e5f736368656d61,
    Keyword 99), (0x636f6d6d616e645f66756e6374696f6e, Keyword 104),
    (0x636f6e646974696f6e5f6e756d626572, Keyword 113), (0x64796e616d69635f66756e6374696f6e,
    Keyword 216), (0x686f75725f6d6963726f7365636f6e64, Keyword 309),
    (0x73716c5f736d616c6c5f726573756c74, Keyword 717)]"

definition KEYWORDS_LEN_17 :: "(source \<times> keyword) list" where
  "KEYWORDS_LEN_17 = [
    (''collation_catalog'', Keyword 97), (''constraint_schema'', Keyword 123),
    (''current_timestamp'', Keyword 155), (''occurrences_regex'', Keyword 498),
    (''returned_sqlstate'', Keyword 641)]"

definition KEYWORDS_LEN_18 :: "(source \<times> keyword) list" where
  "KEYWORDS_LEN_18 = [
    (''character_set_name'', Keyword 81), (''constraint_catalog'', Keyword 121),
    (''minute_microsecond'', Keyword 449), (''no_write_to_binlog'', Keyword 476),
    (''second_microsecond'', Keyword 674), (''transaction_active'', Keyword 785)]"

definition KEYWORDS_LEN_19 :: "(source \<times> keyword) list" where
  "KEYWORDS_LEN_19 = [
    (''sql_calc_found_rows'', Keyword 716)]"

definition KEYWORDS_LEN_20 :: "(source \<times> keyword) list" where
  "KEYWORDS_LEN_20 = [
    (''character_set_schema'', Keyword 82), (''json_table_primitive'', Keyword 374),
    (''message_octet_length'', Keyword 443), (''returned_cardinality'', Keyword 638)]"

definition KEYWORDS_LEN_21 :: "(source \<times> keyword) list" where
  "KEYWORDS_LEN_21 = [
    (''array_max_cardinality'', Keyword 28), (''character_set_catalog'', Keyword 80),
    (''command_function_code'', Keyword 105), (''dynamic_function_code'', Keyword 217),
    (''returned_octet_length'', Keyword 640)]"

definition KEYWORDS_LEN_22 :: "(source \<times> keyword) list" where
  "KEYWORDS_LEN_22 = [
    (''datetime_interval_code'', Keyword 165), (''transactions_committed'', Keyword 786),
    (''user_defined_type_code'', Keyword 830), (''user_defined_type_name'', Keyword 831)]"

definition KEYWORDS_LEN_23 :: "(source \<times> keyword) list" where
  "KEYWORDS_LEN_23 = [
    (''parameter_specific_name'', Keyword 541)]"

definition KEYWORDS_LEN_24 :: "(source \<times> keyword) list" where
  "KEYWORDS_LEN_24 = [
    (''transactions_rolled_back'', Keyword 787), (''user_defined_type_schema'', Keyword 832)]"

definition KEYWORDS_LEN_25 :: "(source \<times> keyword) list" where
  "KEYWORDS_LEN_25 = [
    (''parameter_specific_schema'', Keyword 542), (''user_defined_type_catalog'', Keyword 829)]"

definition KEYWORDS_LEN_26 :: "(source \<times> keyword) list" where
  "KEYWORDS_LEN_26 = [
    (''parameter_ordinal_position'', Keyword 539), (''parameter_specific_catalog'', Keyword 540)]"

definition KEYWORDS_LEN_27 :: "(source \<times> keyword) list" where
  "KEYWORDS_LEN_27 = [
    (''datetime_interval_precision'', Keyword 166)]"

definition KEYWORDS_LEN_31 :: "(source \<times> keyword) list" where
  "KEYWORDS_LEN_31 = [
    (''current_default_transform_group'', Keyword 149)]"

definition KEYWORDS_LEN_32 :: "(source \<times> keyword) list" where
  "KEYWORDS_LEN_32 = [
    (''current_transform_group_for_type'', Keyword 156)]"

subsection \<open>Packing and searching\<close>

text \<open>\<open>(key << 8) | byte\<close> on a \<open>u64\<close> or \<open>u128\<close>: the shift drops what leaves the width.\<close>

fun pack_bytes :: "nat \<Rightarrow> nat \<Rightarrow> source \<Rightarrow> nat" where
  "pack_bytes w key [] = key"
| "pack_bytes w key (b # bs) =
     pack_bytes w (take_bit w (push_bit 8 key) OR byte_val (to_ascii_lowercase b)) bs"

definition pack_u64 :: "source \<Rightarrow> nat" where
  "pack_u64 bs = pack_bytes 64 0 bs"

definition pack_u128 :: "source \<Rightarrow> nat" where
  "pack_u128 bs = pack_bytes 128 0 bs"

text \<open>
  The binary search of Rust's slices: halve the window, keep the lower half when the probed
  key is greater, compare for equality once at the end. \<open>lt\<close> is the strict order of keys.
\<close>

function bs_loop :: "('k \<Rightarrow> 'k \<Rightarrow> bool) \<Rightarrow> ('k \<times> 'v) list \<Rightarrow> 'k \<Rightarrow> nat \<Rightarrow> nat \<Rightarrow> nat" where
  "bs_loop lt table key base sz =
     (if sz > 1 then
        let half = sz div 2; mid = base + half
        in bs_loop lt table key (if lt key (fst (table ! mid)) then base else mid) (sz - half)
      else base)"
  by pat_completeness auto
termination
  by (relation "measure (\<lambda>(lt, t, k, b, s). s)") auto

declare bs_loop.simps [simp del]

definition search_by :: "('k \<Rightarrow> 'k \<Rightarrow> bool) \<Rightarrow> ('k \<times> 'v) list \<Rightarrow> 'k \<Rightarrow> 'v option" where
  "search_by lt table key =
     (if table = [] then None
      else let base = bs_loop lt table key 0 (length table)
           in if fst (table ! base) = key then Some (snd (table ! base)) else None)"

definition search_packed :: "(nat \<times> keyword) list \<Rightarrow> nat \<Rightarrow> keyword option" where
  "search_packed table key = search_by (<) table key"

fun bytes_less :: "source \<Rightarrow> source \<Rightarrow> bool" where
  "bytes_less [] [] = False"
| "bytes_less [] (y # ys) = True"
| "bytes_less (x # xs) [] = False"
| "bytes_less (x # xs) (y # ys) =
     (byte_val x < byte_val y \<or> (x = y \<and> bytes_less xs ys))"

definition MAX_KEYWORD_LEN :: nat where
  "MAX_KEYWORD_LEN = 32"

text \<open>The word is lowered into a buffer of 32 zero bytes, then cut to its length.\<close>

definition search_bytes :: "(source \<times> keyword) list \<Rightarrow> source \<Rightarrow> keyword option" where
  "search_bytes table word =
     search_by bytes_less table
       (take (length word)
          (map to_ascii_lowercase (take MAX_KEYWORD_LEN word)
             @ replicate (MAX_KEYWORD_LEN - length word) (CHR 0x00)))"

definition lookup_keyword :: "source \<Rightarrow> keyword option" where
  "lookup_keyword word = (let n = length word in
     if n = 1 then search_packed KEYWORDS_LEN_1 (pack_u64 word)
     else if n = 2 then search_packed KEYWORDS_LEN_2 (pack_u64 word)
     else if n = 3 then search_packed KEYWORDS_LEN_3 (pack_u64 word)
     else if n = 4 then search_packed KEYWORDS_LEN_4 (pack_u64 word)
     else if n = 5 then search_packed KEYWORDS_LEN_5 (pack_u64 word)
     else if n = 6 then search_packed KEYWORDS_LEN_6 (pack_u64 word)
     else if n = 7 then search_packed KEYWORDS_LEN_7 (pack_u64 word)
     else if n = 8 then search_packed KEYWORDS_LEN_8 (pack_u64 word)
     else if n = 9 then search_packed KEYWORDS_LEN_9 (pack_u128 word)
     else if n = 10 then search_packed KEYWORDS_LEN_10 (pack_u128 word)
     else if n = 11 then search_packed KEYWORDS_LEN_11 (pack_u128 word)
     else if n = 12 then search_packed KEYWORDS_LEN_12 (pack_u128 word)
     else if n = 13 then search_packed KEYWORDS_LEN_13 (pack_u128 word)
     else if n = 14 then search_packed KEYWORDS_LEN_14 (pack_u128 word)
     else if n = 15 then search_packed KEYWORDS_LEN_15 (pack_u128 word)
     else if n = 16 then search_packed KEYWORDS_LEN_16 (pack_u128 word)
     else if n = 17 then search_bytes KEYWORDS_LEN_17 word
     else if n = 18 then search_bytes KEYWORDS_LEN_18 word
     else if n = 19 then search_bytes KEYWORDS_LEN_19 word
     else if n = 20 then search_bytes KEYWORDS_LEN_20 word
     else if n = 21 then search_bytes KEYWORDS_LEN_21 word
     else if n = 22 then search_bytes KEYWORDS_LEN_22 word
     else if n = 23 then search_bytes KEYWORDS_LEN_23 word
     else if n = 24 then search_bytes KEYWORDS_LEN_24 word
     else if n = 25 then search_bytes KEYWORDS_LEN_25 word
     else if n = 26 then search_bytes KEYWORDS_LEN_26 word
     else if n = 27 then search_bytes KEYWORDS_LEN_27 word
     else if n = 31 then search_bytes KEYWORDS_LEN_31 word
     else if n = 32 then search_bytes KEYWORDS_LEN_32 word
     else None)"

subsection \<open>The search is correct on sorted tables\<close>

definition sorted_table :: "('k \<Rightarrow> 'k \<Rightarrow> bool) \<Rightarrow> ('k \<times> 'v) list \<Rightarrow> bool" where
  "sorted_table lt table \<longleftrightarrow> sorted_wrt (\<lambda>p q. lt (fst p) (fst q)) table"

lemma bs_loop_bound:
  "0 < sz \<Longrightarrow> bs_loop lt table key base sz < base + sz"
proof (induction lt table key base sz rule: bs_loop.induct)
  case (1 lt table key base sz)
  show ?case
  proof (cases "sz > 1")
    case True
    let ?half = "sz div 2" let ?base = "if lt key (fst (table ! (base + ?half))) then base else base + ?half"
    have "bs_loop lt table key ?base (sz - ?half) < ?base + (sz - ?half)"
      using 1(1)[OF True refl refl] True by simp
    moreover have "?base + (sz - ?half) \<le> base + sz" by auto
    moreover have "bs_loop lt table key base sz = bs_loop lt table key ?base (sz - ?half)"
      using True by (subst bs_loop.simps) (simp only: if_True Let_def)
    ultimately show ?thesis by linarith
  next
    case False
    then have "bs_loop lt table key base sz = base" by (subst bs_loop.simps) simp
    then show ?thesis using 1(2) by simp
  qed
qed

lemma bs_loop_finds:
  assumes "sorted_table lt table" "irreflp lt" "asymp lt"
    and "base \<le> p" "p < base + sz" "base + sz \<le> length table" "fst (table ! p) = key"
  shows "bs_loop lt table key base sz = p"
  using assms
proof (induction lt table key base sz rule: bs_loop.induct)
  case (1 lt table key base sz)
  have lt: "i < j \<Longrightarrow> j < length table \<Longrightarrow> lt (fst (table ! i)) (fst (table ! j))" for i j
    using 1(2) by (simp add: sorted_table_def sorted_wrt_iff_nth_less)
  show ?case
  proof (cases "sz > 1")
    case True
    let ?half = "sz div 2" let ?mid = "base + ?half"
    let ?base = "if lt key (fst (table ! ?mid)) then base else ?mid"
    have half: "0 < ?half" "2 * ?half \<le> sz" using True by auto
    have "?base \<le> p \<and> p < ?base + (sz - ?half)"
    proof (cases "lt key (fst (table ! ?mid))")
      case gt: True
      have "p < ?mid"
      proof (rule ccontr)
        assume "\<not> p < ?mid"
        then consider "p = ?mid" | "?mid < p" by linarith
        then show False
        proof cases
          case 1
          with gt \<open>fst (table ! p) = key\<close> \<open>irreflp lt\<close> show False by (auto simp: irreflp_on_def)
        next
          case 2
          with lt[of ?mid p] 1(6,7,8) gt \<open>asymp lt\<close> show False
            by (metis asympD order.strict_trans2)
        qed
      qed
      with gt half 1(5) show ?thesis by auto
    next
      case False
      have "?mid \<le> p"
      proof (rule ccontr)
        assume "\<not> ?mid \<le> p"
        with lt[of p ?mid] 1(7,8) half False show False by auto
      qed
      with False half 1(6) show ?thesis by auto
    qed
    moreover have "?base + (sz - ?half) \<le> length table" using 1(7) half by auto
    ultimately have "bs_loop lt table key ?base (sz - ?half) = p"
      using 1(1)[OF True refl refl 1(2-4)] 1(8) by blast
    moreover have "bs_loop lt table key base sz = bs_loop lt table key ?base (sz - ?half)"
      using True by (subst bs_loop.simps) (simp only: if_True Let_def)
    ultimately show ?thesis by simp
  next
    case False
    then have "bs_loop lt table key base sz = base" by (subst bs_loop.simps) simp
    with False 1(5,6) show ?thesis by linarith
  qed
qed

lemma search_by_iff:
  assumes "sorted_table lt table" "irreflp lt" "asymp lt"
  shows "search_by lt table key = Some v \<longleftrightarrow> (key, v) \<in> set table"
proof
  assume "search_by lt table key = Some v"
  moreover have "table \<noteq> [] \<Longrightarrow> bs_loop lt table key 0 (length table) < length table"
    using bs_loop_bound[of "length table" lt table key 0] by simp
  ultimately show "(key, v) \<in> set table"
    by (auto simp: search_by_def Let_def split: if_splits) (metis nth_mem prod.collapse)
next
  assume "(key, v) \<in> set table"
  then obtain p where p: "p < length table" "table ! p = (key, v)" by (auto simp: in_set_conv_nth)
  then have "bs_loop lt table key 0 (length table) = p"
    by (intro bs_loop_finds[OF assms]) simp_all
  with p show "search_by lt table key = Some v" by (auto simp: search_by_def)
qed

lemma bytes_less_irrefl: "\<not> bytes_less xs xs"
  by (induction xs) auto

lemma bytes_less_asym: "bytes_less xs ys \<Longrightarrow> \<not> bytes_less ys xs"
  by (induction xs ys rule: bytes_less.induct) auto

lemma bytes_less_trans: "bytes_less xs ys \<Longrightarrow> bytes_less ys zs \<Longrightarrow> bytes_less xs zs"
proof (induction xs ys arbitrary: zs rule: bytes_less.induct)
  case (2 y ys)
  then show ?case by (cases zs) auto
next
  case (4 x xs y ys)
  then show ?case by (cases zs) auto
qed auto

subsection \<open>Packing is injective at a fixed length\<close>

fun pack_nat :: "nat \<Rightarrow> source \<Rightarrow> nat" where
  "pack_nat k [] = k"
| "pack_nat k (b # bs) = pack_nat (k * 256 + byte_val b) bs"

lemma byte_val_less: "byte_val b < 256"
  by (rule nat_of_char_less_256)

lemma pack_nat_bound: "k < 256 ^ m \<Longrightarrow> pack_nat k bs < 256 ^ (m + length bs)"
proof (induction bs arbitrary: k m)
  case (Cons b bs)
  have "k * 256 + byte_val b < 256 ^ Suc m"
    using Cons(2) byte_val_less[of b] by (simp only: power_Suc)
  from Cons(1)[OF this] show ?case by simp
qed simp

lemma base_256_digit:
  assumes "(a::nat) * 256 + r = c * 256 + s" "r < 256" "s < 256"
  shows "a = c \<and> r = s"
proof -
  have "(a * 256 + r) mod 256 = r" "(c * 256 + s) mod 256 = s" using assms(2,3) by simp_all
  with assms(1) show ?thesis by simp
qed

lemma pack_nat_inj:
  "length xs = length ys \<Longrightarrow> pack_nat k xs = pack_nat l ys \<Longrightarrow> k = l \<and> xs = ys"
proof (induction xs ys arbitrary: k l rule: list_induct2)
  case (Cons x xs y ys)
  then have "k * 256 + byte_val x = l * 256 + byte_val y" "xs = ys" by auto
  moreover have "a = c \<and> x = y" if "a * 256 + byte_val x = c * 256 + byte_val y" for a c :: nat
  proof -
    from base_256_digit[OF that byte_val_less byte_val_less] show ?thesis by simp
  qed
  ultimately show ?case by blast
qed simp

lemma pack_step:
  assumes "k < 256 ^ m" "8 * Suc m \<le> w"
  shows "take_bit w (push_bit 8 k) OR byte_val b = k * 256 + byte_val b"
proof -
  have "k * 256 < 256 ^ Suc m" using assms(1) by simp
  also have "(256::nat) ^ Suc m = 2 ^ (8 * Suc m)" by (simp only: power_mult) simp
  also have "\<dots> \<le> 2 ^ w" using assms(2) by (intro power_increasing) simp_all
  finally have "take_bit w (push_bit 8 k) = k * 256"
    by (simp add: take_bit_nat_eq_self push_bit_eq_mult)
  moreover have "push_bit 8 k AND take_bit 8 (byte_val b) = 0"
    by (auto simp: bit_eq_iff bit_simps)
  then have "k * 256 AND byte_val b = 0"
    using byte_val_less[of b] by (simp add: take_bit_nat_eq_self push_bit_eq_mult)
  then have "k * 256 OR byte_val b = k * 256 + byte_val b"
    by (simp add: disjunctive_add_eq_or)
  ultimately show ?thesis by simp
qed

subsection \<open>The tables hold the inventory\<close>

text \<open>
  \<open>tabulates n code arms table rest\<close>: the arms whose spelling has length \<open>n\<close>, in order and
  under the key \<open>code\<close> of their spelling, are the entries of \<open>table\<close> in front of \<open>rest\<close>.
\<close>

inductive tabulates ::
    "nat \<Rightarrow> (string \<Rightarrow> 'k) \<Rightarrow> (nat \<times> string) list \<Rightarrow> ('k \<times> keyword) list \<Rightarrow> ('k \<times> keyword) list \<Rightarrow> bool"
  for n :: nat and code :: "string \<Rightarrow> 'k" where
  tab_nil: "tabulates n code [] rest rest"
| tab_skip: "length s \<noteq> n \<Longrightarrow> tabulates n code arms table rest \<Longrightarrow> tabulates n code ((i, s) # arms) table rest"
| tab_take: "length s = n \<Longrightarrow> code s = key \<Longrightarrow> tabulates n code arms table rest
    \<Longrightarrow> tabulates n code ((i, s) # arms) ((key, Keyword i) # table) rest"

lemma tab_append:
  "tabulates n code xs table mid \<Longrightarrow> tabulates n code ys mid rest \<Longrightarrow> tabulates n code (xs @ ys) table rest"
  by (induction rule: tabulates.induct) (auto intro: tabulates.intros)

lemma tabulates_eq:
  "tabulates n code arms table rest \<Longrightarrow>
     table = map (\<lambda>(i, s). (code s, Keyword i)) (filter (\<lambda>(i, s). length s = n) arms) @ rest"
  by (induction rule: tabulates.induct) auto

text \<open>Three more passes over the same lists: the discriminants are consecutive, the lengths are
  those \<open>lookup_keyword\<close> dispatches on, and every table is strictly sorted.\<close>

inductive consecutive :: "nat \<Rightarrow> (nat \<times> string) list \<Rightarrow> nat \<Rightarrow> bool" where
  consecutive_nil: "consecutive i [] i"
| consecutive_cons: "i = j \<Longrightarrow> consecutive (Suc j) arms k \<Longrightarrow> consecutive i ((j, s) # arms) k"

lemma consecutive_append: "consecutive i xs j \<Longrightarrow> consecutive j ys k \<Longrightarrow> consecutive i (xs @ ys) k"
  by (induction rule: consecutive.induct) (auto intro: consecutive.intros)

lemma consecutive_upt: "consecutive i arms k \<Longrightarrow> map fst arms = [i..<k] \<and> i \<le> k"
  by (induction rule: consecutive.induct) (auto simp: upt_conv_Cons)

definition dispatched :: "nat \<Rightarrow> bool" where
  "dispatched n \<longleftrightarrow> n \<in> {1, 2, 3, 4, 5, 6, 7, 8, 9, 10, 11, 12, 13, 14, 15, 16, 17, 18, 19, 20, 21, 22,
     23, 24, 25, 26, 27, 31, 32}"

definition lengths_dispatched :: "(nat \<times> string) list \<Rightarrow> bool" where
  "lengths_dispatched arms \<longleftrightarrow> (\<forall>(i, s) \<in> set arms. dispatched (length s))"

lemma lengths_dispatched_intros:
  "lengths_dispatched []"
  "dispatched (length s) \<Longrightarrow> lengths_dispatched arms \<Longrightarrow> lengths_dispatched ((i, s) # arms)"
  "lengths_dispatched xs \<Longrightarrow> lengths_dispatched ys \<Longrightarrow> lengths_dispatched (xs @ ys)"
  by (auto simp: lengths_dispatched_def)

lemma sorted_nat_intros:
  "sorted_table (<) []" "sorted_table (<) [p]"
  "(k::nat) < l \<Longrightarrow> sorted_table (<) ((l, v) # xs) \<Longrightarrow> sorted_table (<) ((k, u) # (l, v) # xs)"
  by (auto simp: sorted_table_def)

lemma sorted_bytes_intros:
  "sorted_table bytes_less []" "sorted_table bytes_less [p]"
  "bytes_less k l \<Longrightarrow> sorted_table bytes_less ((l, v) # xs) \<Longrightarrow> sorted_table bytes_less ((k, u) # (l, v) # xs)"
  by (auto simp: sorted_table_def intro: bytes_less_trans)

lemmas arms_defs = KEYWORD_ARMS_def keyword_arms_0_def keyword_arms_1_def keyword_arms_2_def
  keyword_arms_3_def keyword_arms_4_def keyword_arms_5_def keyword_arms_6_def keyword_arms_7_def

lemma arms_consecutive: "consecutive 0 KEYWORD_ARMS (Suc 893)"
  unfolding arms_defs
  by ((rule consecutive_append)?, (rule consecutive_cons, simp)+, rule consecutive_nil)+

lemma arms_dispatched: "lengths_dispatched KEYWORD_ARMS"
  unfolding arms_defs
  by ((rule lengths_dispatched_intros(3))?, (rule lengths_dispatched_intros(2), simp add: dispatched_def)+,
      rule lengths_dispatched_intros(1))+

lemma tab_1: "tabulates 1 (pack_nat 0) KEYWORD_ARMS KEYWORDS_LEN_1 []"
  unfolding arms_defs KEYWORDS_LEN_1_def
  by ((rule tab_append)?, ((rule tab_take, simp, simp) | (rule tab_skip, simp))+, rule tab_nil)+

lemma tab_2: "tabulates 2 (pack_nat 0) KEYWORD_ARMS KEYWORDS_LEN_2 []"
  unfolding arms_defs KEYWORDS_LEN_2_def
  by ((rule tab_append)?, ((rule tab_take, simp, simp) | (rule tab_skip, simp))+, rule tab_nil)+

lemma tab_3: "tabulates 3 (pack_nat 0) KEYWORD_ARMS KEYWORDS_LEN_3 []"
  unfolding arms_defs KEYWORDS_LEN_3_def
  by ((rule tab_append)?, ((rule tab_take, simp, simp) | (rule tab_skip, simp))+, rule tab_nil)+

lemma tab_4: "tabulates 4 (pack_nat 0) KEYWORD_ARMS KEYWORDS_LEN_4 []"
  unfolding arms_defs KEYWORDS_LEN_4_def
  by ((rule tab_append)?, ((rule tab_take, simp, simp) | (rule tab_skip, simp))+, rule tab_nil)+

lemma tab_5: "tabulates 5 (pack_nat 0) KEYWORD_ARMS KEYWORDS_LEN_5 []"
  unfolding arms_defs KEYWORDS_LEN_5_def
  by ((rule tab_append)?, ((rule tab_take, simp, simp) | (rule tab_skip, simp))+, rule tab_nil)+

lemma tab_6: "tabulates 6 (pack_nat 0) KEYWORD_ARMS KEYWORDS_LEN_6 []"
  unfolding arms_defs KEYWORDS_LEN_6_def
  by ((rule tab_append)?, ((rule tab_take, simp, simp) | (rule tab_skip, simp))+, rule tab_nil)+

lemma tab_7: "tabulates 7 (pack_nat 0) KEYWORD_ARMS KEYWORDS_LEN_7 []"
  unfolding arms_defs KEYWORDS_LEN_7_def
  by ((rule tab_append)?, ((rule tab_take, simp, simp) | (rule tab_skip, simp))+, rule tab_nil)+

lemma tab_8: "tabulates 8 (pack_nat 0) KEYWORD_ARMS KEYWORDS_LEN_8 []"
  unfolding arms_defs KEYWORDS_LEN_8_def
  by ((rule tab_append)?, ((rule tab_take, simp, simp) | (rule tab_skip, simp))+, rule tab_nil)+

lemma tab_9: "tabulates 9 (pack_nat 0) KEYWORD_ARMS KEYWORDS_LEN_9 []"
  unfolding arms_defs KEYWORDS_LEN_9_def
  by ((rule tab_append)?, ((rule tab_take, simp, simp) | (rule tab_skip, simp))+, rule tab_nil)+

lemma tab_10: "tabulates 10 (pack_nat 0) KEYWORD_ARMS KEYWORDS_LEN_10 []"
  unfolding arms_defs KEYWORDS_LEN_10_def
  by ((rule tab_append)?, ((rule tab_take, simp, simp) | (rule tab_skip, simp))+, rule tab_nil)+

lemma tab_11: "tabulates 11 (pack_nat 0) KEYWORD_ARMS KEYWORDS_LEN_11 []"
  unfolding arms_defs KEYWORDS_LEN_11_def
  by ((rule tab_append)?, ((rule tab_take, simp, simp) | (rule tab_skip, simp))+, rule tab_nil)+

lemma tab_12: "tabulates 12 (pack_nat 0) KEYWORD_ARMS KEYWORDS_LEN_12 []"
  unfolding arms_defs KEYWORDS_LEN_12_def
  by ((rule tab_append)?, ((rule tab_take, simp, simp) | (rule tab_skip, simp))+, rule tab_nil)+

lemma tab_13: "tabulates 13 (pack_nat 0) KEYWORD_ARMS KEYWORDS_LEN_13 []"
  unfolding arms_defs KEYWORDS_LEN_13_def
  by ((rule tab_append)?, ((rule tab_take, simp, simp) | (rule tab_skip, simp))+, rule tab_nil)+

lemma tab_14: "tabulates 14 (pack_nat 0) KEYWORD_ARMS KEYWORDS_LEN_14 []"
  unfolding arms_defs KEYWORDS_LEN_14_def
  by ((rule tab_append)?, ((rule tab_take, simp, simp) | (rule tab_skip, simp))+, rule tab_nil)+

lemma tab_15: "tabulates 15 (pack_nat 0) KEYWORD_ARMS KEYWORDS_LEN_15 []"
  unfolding arms_defs KEYWORDS_LEN_15_def
  by ((rule tab_append)?, ((rule tab_take, simp, simp) | (rule tab_skip, simp))+, rule tab_nil)+

lemma tab_16: "tabulates 16 (pack_nat 0) KEYWORD_ARMS KEYWORDS_LEN_16 []"
  unfolding arms_defs KEYWORDS_LEN_16_def
  by ((rule tab_append)?, ((rule tab_take, simp, simp) | (rule tab_skip, simp))+, rule tab_nil)+

lemma tab_17: "tabulates 17 id KEYWORD_ARMS KEYWORDS_LEN_17 []"
  unfolding arms_defs KEYWORDS_LEN_17_def
  by ((rule tab_append)?, ((rule tab_take, simp, simp) | (rule tab_skip, simp))+, rule tab_nil)+

lemma tab_18: "tabulates 18 id KEYWORD_ARMS KEYWORDS_LEN_18 []"
  unfolding arms_defs KEYWORDS_LEN_18_def
  by ((rule tab_append)?, ((rule tab_take, simp, simp) | (rule tab_skip, simp))+, rule tab_nil)+

lemma tab_19: "tabulates 19 id KEYWORD_ARMS KEYWORDS_LEN_19 []"
  unfolding arms_defs KEYWORDS_LEN_19_def
  by ((rule tab_append)?, ((rule tab_take, simp, simp) | (rule tab_skip, simp))+, rule tab_nil)+

lemma tab_20: "tabulates 20 id KEYWORD_ARMS KEYWORDS_LEN_20 []"
  unfolding arms_defs KEYWORDS_LEN_20_def
  by ((rule tab_append)?, ((rule tab_take, simp, simp) | (rule tab_skip, simp))+, rule tab_nil)+

lemma tab_21: "tabulates 21 id KEYWORD_ARMS KEYWORDS_LEN_21 []"
  unfolding arms_defs KEYWORDS_LEN_21_def
  by ((rule tab_append)?, ((rule tab_take, simp, simp) | (rule tab_skip, simp))+, rule tab_nil)+

lemma tab_22: "tabulates 22 id KEYWORD_ARMS KEYWORDS_LEN_22 []"
  unfolding arms_defs KEYWORDS_LEN_22_def
  by ((rule tab_append)?, ((rule tab_take, simp, simp) | (rule tab_skip, simp))+, rule tab_nil)+

lemma tab_23: "tabulates 23 id KEYWORD_ARMS KEYWORDS_LEN_23 []"
  unfolding arms_defs KEYWORDS_LEN_23_def
  by ((rule tab_append)?, ((rule tab_take, simp, simp) | (rule tab_skip, simp))+, rule tab_nil)+

lemma tab_24: "tabulates 24 id KEYWORD_ARMS KEYWORDS_LEN_24 []"
  unfolding arms_defs KEYWORDS_LEN_24_def
  by ((rule tab_append)?, ((rule tab_take, simp, simp) | (rule tab_skip, simp))+, rule tab_nil)+

lemma tab_25: "tabulates 25 id KEYWORD_ARMS KEYWORDS_LEN_25 []"
  unfolding arms_defs KEYWORDS_LEN_25_def
  by ((rule tab_append)?, ((rule tab_take, simp, simp) | (rule tab_skip, simp))+, rule tab_nil)+

lemma tab_26: "tabulates 26 id KEYWORD_ARMS KEYWORDS_LEN_26 []"
  unfolding arms_defs KEYWORDS_LEN_26_def
  by ((rule tab_append)?, ((rule tab_take, simp, simp) | (rule tab_skip, simp))+, rule tab_nil)+

lemma tab_27: "tabulates 27 id KEYWORD_ARMS KEYWORDS_LEN_27 []"
  unfolding arms_defs KEYWORDS_LEN_27_def
  by ((rule tab_append)?, ((rule tab_take, simp, simp) | (rule tab_skip, simp))+, rule tab_nil)+

lemma tab_31: "tabulates 31 id KEYWORD_ARMS KEYWORDS_LEN_31 []"
  unfolding arms_defs KEYWORDS_LEN_31_def
  by ((rule tab_append)?, ((rule tab_take, simp, simp) | (rule tab_skip, simp))+, rule tab_nil)+

lemma tab_32: "tabulates 32 id KEYWORD_ARMS KEYWORDS_LEN_32 []"
  unfolding arms_defs KEYWORDS_LEN_32_def
  by ((rule tab_append)?, ((rule tab_take, simp, simp) | (rule tab_skip, simp))+, rule tab_nil)+

lemma sorted_1: "sorted_table (<) KEYWORDS_LEN_1"
  unfolding KEYWORDS_LEN_1_def
  by (rule sorted_nat_intros(2) | (rule sorted_nat_intros(3), simp))+

lemma sorted_2: "sorted_table (<) KEYWORDS_LEN_2"
  unfolding KEYWORDS_LEN_2_def
  by (rule sorted_nat_intros(2) | (rule sorted_nat_intros(3), simp))+

lemma sorted_3: "sorted_table (<) KEYWORDS_LEN_3"
  unfolding KEYWORDS_LEN_3_def
  by (rule sorted_nat_intros(2) | (rule sorted_nat_intros(3), simp))+

lemma sorted_4: "sorted_table (<) KEYWORDS_LEN_4"
  unfolding KEYWORDS_LEN_4_def
  by (rule sorted_nat_intros(2) | (rule sorted_nat_intros(3), simp))+

lemma sorted_5: "sorted_table (<) KEYWORDS_LEN_5"
  unfolding KEYWORDS_LEN_5_def
  by (rule sorted_nat_intros(2) | (rule sorted_nat_intros(3), simp))+

lemma sorted_6: "sorted_table (<) KEYWORDS_LEN_6"
  unfolding KEYWORDS_LEN_6_def
  by (rule sorted_nat_intros(2) | (rule sorted_nat_intros(3), simp))+

lemma sorted_7: "sorted_table (<) KEYWORDS_LEN_7"
  unfolding KEYWORDS_LEN_7_def
  by (rule sorted_nat_intros(2) | (rule sorted_nat_intros(3), simp))+

lemma sorted_8: "sorted_table (<) KEYWORDS_LEN_8"
  unfolding KEYWORDS_LEN_8_def
  by (rule sorted_nat_intros(2) | (rule sorted_nat_intros(3), simp))+

lemma sorted_9: "sorted_table (<) KEYWORDS_LEN_9"
  unfolding KEYWORDS_LEN_9_def
  by (rule sorted_nat_intros(2) | (rule sorted_nat_intros(3), simp))+

lemma sorted_10: "sorted_table (<) KEYWORDS_LEN_10"
  unfolding KEYWORDS_LEN_10_def
  by (rule sorted_nat_intros(2) | (rule sorted_nat_intros(3), simp))+

lemma sorted_11: "sorted_table (<) KEYWORDS_LEN_11"
  unfolding KEYWORDS_LEN_11_def
  by (rule sorted_nat_intros(2) | (rule sorted_nat_intros(3), simp))+

lemma sorted_12: "sorted_table (<) KEYWORDS_LEN_12"
  unfolding KEYWORDS_LEN_12_def
  by (rule sorted_nat_intros(2) | (rule sorted_nat_intros(3), simp))+

lemma sorted_13: "sorted_table (<) KEYWORDS_LEN_13"
  unfolding KEYWORDS_LEN_13_def
  by (rule sorted_nat_intros(2) | (rule sorted_nat_intros(3), simp))+

lemma sorted_14: "sorted_table (<) KEYWORDS_LEN_14"
  unfolding KEYWORDS_LEN_14_def
  by (rule sorted_nat_intros(2) | (rule sorted_nat_intros(3), simp))+

lemma sorted_15: "sorted_table (<) KEYWORDS_LEN_15"
  unfolding KEYWORDS_LEN_15_def
  by (rule sorted_nat_intros(2) | (rule sorted_nat_intros(3), simp))+

lemma sorted_16: "sorted_table (<) KEYWORDS_LEN_16"
  unfolding KEYWORDS_LEN_16_def
  by (rule sorted_nat_intros(2) | (rule sorted_nat_intros(3), simp))+

lemma sorted_17: "sorted_table bytes_less KEYWORDS_LEN_17"
  unfolding KEYWORDS_LEN_17_def
  by (rule sorted_bytes_intros(2) | (rule sorted_bytes_intros(3), simp))+

lemma sorted_18: "sorted_table bytes_less KEYWORDS_LEN_18"
  unfolding KEYWORDS_LEN_18_def
  by (rule sorted_bytes_intros(2) | (rule sorted_bytes_intros(3), simp))+

lemma sorted_19: "sorted_table bytes_less KEYWORDS_LEN_19"
  unfolding KEYWORDS_LEN_19_def
  by (rule sorted_bytes_intros(2) | (rule sorted_bytes_intros(3), simp))+

lemma sorted_20: "sorted_table bytes_less KEYWORDS_LEN_20"
  unfolding KEYWORDS_LEN_20_def
  by (rule sorted_bytes_intros(2) | (rule sorted_bytes_intros(3), simp))+

lemma sorted_21: "sorted_table bytes_less KEYWORDS_LEN_21"
  unfolding KEYWORDS_LEN_21_def
  by (rule sorted_bytes_intros(2) | (rule sorted_bytes_intros(3), simp))+

lemma sorted_22: "sorted_table bytes_less KEYWORDS_LEN_22"
  unfolding KEYWORDS_LEN_22_def
  by (rule sorted_bytes_intros(2) | (rule sorted_bytes_intros(3), simp))+

lemma sorted_23: "sorted_table bytes_less KEYWORDS_LEN_23"
  unfolding KEYWORDS_LEN_23_def
  by (rule sorted_bytes_intros(2) | (rule sorted_bytes_intros(3), simp))+

lemma sorted_24: "sorted_table bytes_less KEYWORDS_LEN_24"
  unfolding KEYWORDS_LEN_24_def
  by (rule sorted_bytes_intros(2) | (rule sorted_bytes_intros(3), simp))+

lemma sorted_25: "sorted_table bytes_less KEYWORDS_LEN_25"
  unfolding KEYWORDS_LEN_25_def
  by (rule sorted_bytes_intros(2) | (rule sorted_bytes_intros(3), simp))+

lemma sorted_26: "sorted_table bytes_less KEYWORDS_LEN_26"
  unfolding KEYWORDS_LEN_26_def
  by (rule sorted_bytes_intros(2) | (rule sorted_bytes_intros(3), simp))+

lemma sorted_27: "sorted_table bytes_less KEYWORDS_LEN_27"
  unfolding KEYWORDS_LEN_27_def
  by (rule sorted_bytes_intros(2) | (rule sorted_bytes_intros(3), simp))+

lemma sorted_31: "sorted_table bytes_less KEYWORDS_LEN_31"
  unfolding KEYWORDS_LEN_31_def
  by (rule sorted_bytes_intros(2) | (rule sorted_bytes_intros(3), simp))+

lemma sorted_32: "sorted_table bytes_less KEYWORDS_LEN_32"
  unfolding KEYWORDS_LEN_32_def
  by (rule sorted_bytes_intros(2) | (rule sorted_bytes_intros(3), simp))+

subsection \<open>Looking a word up\<close>

lemma pack_bytes_nat:
  "k < 256 ^ m \<Longrightarrow> 8 * (m + length bs) \<le> w \<Longrightarrow>
     pack_bytes w k bs = pack_nat k (map to_ascii_lowercase bs)"
proof (induction bs arbitrary: k m)
  case (Cons b bs)
  let ?k = "k * 256 + byte_val (to_ascii_lowercase b)"
  have "?k < 256 ^ Suc m"
    using Cons(2) byte_val_less[of "to_ascii_lowercase b"] by (simp only: power_Suc)
  moreover have "take_bit w (push_bit 8 k) OR byte_val (to_ascii_lowercase b) = ?k"
    using Cons(2,3) by (intro pack_step[of k m]) simp_all
  ultimately show ?case using Cons(1)[of ?k "Suc m"] Cons(3) by simp
qed simp

lemma pack_u64_nat: "length bs \<le> 8 \<Longrightarrow> pack_u64 bs = pack_nat 0 (map to_ascii_lowercase bs)"
  by (simp add: pack_u64_def pack_bytes_nat[of 0 0])

lemma pack_u128_nat: "length bs \<le> 16 \<Longrightarrow> pack_u128 bs = pack_nat 0 (map to_ascii_lowercase bs)"
  by (simp add: pack_u128_def pack_bytes_nat[of 0 0])

definition spelled :: "source \<Rightarrow> keyword \<Rightarrow> bool" where
  "spelled word k \<longleftrightarrow> (discriminant k, map to_ascii_lowercase word) \<in> set KEYWORD_ARMS"

lemma tabulated_entry:
  assumes "tabulates n code KEYWORD_ARMS table []" "inj_on code {s. length s = n}" "length word = n"
  shows "(code (map to_ascii_lowercase word), k) \<in> set table \<longleftrightarrow> spelled word k"
proof -
  have t: "table = map (\<lambda>(i, s). (code s, Keyword i)) (filter (\<lambda>(i, s). length s = n) KEYWORD_ARMS)"
    using tabulates_eq[OF assms(1)] by simp
  have "length (map to_ascii_lowercase word) = n" using assms(3) by simp
  then have "code (map to_ascii_lowercase word) = code s \<longleftrightarrow> map to_ascii_lowercase word = s"
    if "length s = n" for s
    using assms(2) that by (auto simp: inj_on_def)
  then show ?thesis using assms(3) by (cases k) (force simp: t spelled_def)
qed

lemma inj_pack: "inj_on (pack_nat 0) {s. length s = n}"
proof (rule inj_onI)
  fix x y assume "x \<in> {s. length s = n}" "y \<in> {s. length s = n}" "pack_nat 0 x = pack_nat 0 y"
  then show "x = y" using pack_nat_inj[of x y 0 0] by simp
qed

lemma search_packed_spelled:
  assumes "tabulates n (pack_nat 0) KEYWORD_ARMS table []" "sorted_table (<) table" "length word = n"
    "key = pack_nat 0 (map to_ascii_lowercase word)"
  shows "search_packed table key = Some k \<longleftrightarrow> spelled word k"
  unfolding search_packed_def search_by_iff[OF assms(2) irreflp_on_less asymp_on_less] assms(4)
  by (rule tabulated_entry[OF assms(1) inj_pack assms(3)])

lemma search_bytes_spelled:
  assumes "tabulates n id KEYWORD_ARMS table []" "sorted_table bytes_less table" "length word = n" "n \<le> 32"
  shows "search_bytes table word = Some k \<longleftrightarrow> spelled word k"
proof -
  have key: "take (length word) (map to_ascii_lowercase (take MAX_KEYWORD_LEN word)
      @ replicate (MAX_KEYWORD_LEN - length word) (CHR 0x00)) = id (map to_ascii_lowercase word)"
    using assms(3,4) by (simp add: MAX_KEYWORD_LEN_def)
  have "irreflp bytes_less" "asymp bytes_less"
    using bytes_less_irrefl bytes_less_asym by (simp_all add: irreflp_on_def asymp_on_def)
  from search_by_iff[OF assms(2) this] tabulated_entry[OF assms(1) inj_on_id assms(3)]
  show ?thesis unfolding search_bytes_def key by simp
qed

lemma if_Some_iff:
  "(c \<Longrightarrow> a = Some k \<longleftrightarrow> q) \<Longrightarrow> (\<not> c \<Longrightarrow> b = Some k \<longleftrightarrow> q) \<Longrightarrow> (if c then a else b) = Some k \<longleftrightarrow> q"
  by simp

lemma lookup_keyword_spelled: "lookup_keyword word = Some k \<longleftrightarrow> spelled word k"
  unfolding lookup_keyword_def Let_def
  apply (rule if_Some_iff, rule search_packed_spelled[OF tab_1 sorted_1], assumption, simp add: pack_u64_nat)
  apply (rule if_Some_iff, rule search_packed_spelled[OF tab_2 sorted_2], assumption, simp add: pack_u64_nat)
  apply (rule if_Some_iff, rule search_packed_spelled[OF tab_3 sorted_3], assumption, simp add: pack_u64_nat)
  apply (rule if_Some_iff, rule search_packed_spelled[OF tab_4 sorted_4], assumption, simp add: pack_u64_nat)
  apply (rule if_Some_iff, rule search_packed_spelled[OF tab_5 sorted_5], assumption, simp add: pack_u64_nat)
  apply (rule if_Some_iff, rule search_packed_spelled[OF tab_6 sorted_6], assumption, simp add: pack_u64_nat)
  apply (rule if_Some_iff, rule search_packed_spelled[OF tab_7 sorted_7], assumption, simp add: pack_u64_nat)
  apply (rule if_Some_iff, rule search_packed_spelled[OF tab_8 sorted_8], assumption, simp add: pack_u64_nat)
  apply (rule if_Some_iff, rule search_packed_spelled[OF tab_9 sorted_9], assumption, simp add: pack_u128_nat)
  apply (rule if_Some_iff, rule search_packed_spelled[OF tab_10 sorted_10], assumption, simp add: pack_u128_nat)
  apply (rule if_Some_iff, rule search_packed_spelled[OF tab_11 sorted_11], assumption, simp add: pack_u128_nat)
  apply (rule if_Some_iff, rule search_packed_spelled[OF tab_12 sorted_12], assumption, simp add: pack_u128_nat)
  apply (rule if_Some_iff, rule search_packed_spelled[OF tab_13 sorted_13], assumption, simp add: pack_u128_nat)
  apply (rule if_Some_iff, rule search_packed_spelled[OF tab_14 sorted_14], assumption, simp add: pack_u128_nat)
  apply (rule if_Some_iff, rule search_packed_spelled[OF tab_15 sorted_15], assumption, simp add: pack_u128_nat)
  apply (rule if_Some_iff, rule search_packed_spelled[OF tab_16 sorted_16], assumption, simp add: pack_u128_nat)
  apply (rule if_Some_iff, rule search_bytes_spelled[OF tab_17 sorted_17], assumption, simp)
  apply (rule if_Some_iff, rule search_bytes_spelled[OF tab_18 sorted_18], assumption, simp)
  apply (rule if_Some_iff, rule search_bytes_spelled[OF tab_19 sorted_19], assumption, simp)
  apply (rule if_Some_iff, rule search_bytes_spelled[OF tab_20 sorted_20], assumption, simp)
  apply (rule if_Some_iff, rule search_bytes_spelled[OF tab_21 sorted_21], assumption, simp)
  apply (rule if_Some_iff, rule search_bytes_spelled[OF tab_22 sorted_22], assumption, simp)
  apply (rule if_Some_iff, rule search_bytes_spelled[OF tab_23 sorted_23], assumption, simp)
  apply (rule if_Some_iff, rule search_bytes_spelled[OF tab_24 sorted_24], assumption, simp)
  apply (rule if_Some_iff, rule search_bytes_spelled[OF tab_25 sorted_25], assumption, simp)
  apply (rule if_Some_iff, rule search_bytes_spelled[OF tab_26 sorted_26], assumption, simp)
  apply (rule if_Some_iff, rule search_bytes_spelled[OF tab_27 sorted_27], assumption, simp)
  apply (rule if_Some_iff, rule search_bytes_spelled[OF tab_31 sorted_31], assumption, simp)
  apply (rule if_Some_iff, rule search_bytes_spelled[OF tab_32 sorted_32], assumption, simp)
  using arms_dispatched unfolding spelled_def lengths_dispatched_def
  by (auto simp: dispatched_def dest!: bspec)

lemma arms_fst: "map fst KEYWORD_ARMS = [0..<894]"
  using consecutive_upt[OF arms_consecutive] by simp

lemma spelled_as_str:
  "spelled word k \<longleftrightarrow> keyword_ok k \<and> keyword_as_str k = map to_ascii_lowercase word"
proof -
  have d: "distinct (map fst KEYWORD_ARMS)" by (simp only: arms_fst distinct_upt)
  have "fst ` set KEYWORD_ARMS = {0..<894}"
    using arg_cong[OF arms_fst, of set] by simp
  then have ex: "discriminant k < 894 \<longleftrightarrow> (\<exists>s. (discriminant k, s) \<in> set KEYWORD_ARMS)" by force
  have mo: "(discriminant k, s) \<in> set KEYWORD_ARMS \<longleftrightarrow> map_of KEYWORD_ARMS (discriminant k) = Some s" for s
    using map_of_eq_Some_iff[OF d] by blast
  show ?thesis
    unfolding spelled_def keyword_ok_def KEYWORD_COUNT_def keyword_as_str_def ex mo by auto
qed

text \<open>
  C6. The length-bucketed packed binary search is the case-insensitive search of the
  inventory: for every word, of any length and any bytes, it returns a keyword exactly when
  the lower-cased word is that keyword's spelling, so every keyword is found in any letter
  case and nothing else is a keyword.
\<close>

theorem lookup_keyword_correct:
  "lookup_keyword word = Some k \<longleftrightarrow> keyword_ok k \<and> keyword_as_str k = map to_ascii_lowercase word"
  unfolding lookup_keyword_spelled by (rule spelled_as_str)

end
