(* ===== verification/Dialect_Features.thy ===== *)
theory Dialect_Features
  imports Squonk_Prelude Lex_Classes Keyword_Set Binding_Powers
begin

text \<open>
  The feature set of a dialect, \<open>crates/squonk-ast/src/dialect/mod.rs\<close>: one record per
  \<open>*Syntax\<close> struct with the flags the source declares, in its order, and the \<open>FeatureSet\<close>
  that collects them. A field carries a short prefix of its struct (\<open>cs_\<close> for
  \<open>CommentSyntax\<close>, \<open>sl_\<close> for \<open>StringLiteralSyntax\<close>, and so on) because several structs
  share field names; the fields of \<open>FeatureSet\<close> keep theirs. Also here: the enumerations
  that say what an ambiguous operator spelling means, the accessors, identifier folding,
  and \<open>FeatureSet::with\<close>, the way a custom dialect is derived from a preset
  (\<open>dialect/feature_set_generated.rs\<close>).
\<close>

subsection \<open>Enumerations\<close>

datatype casing = Casing_Upper | Casing_Lower | Casing_Preserve

datatype null_ordering = NullsFirst | NullsLast

datatype target_spelling = Target_Ansi | Target_Postgres

datatype pipe_operator = Pipe_StringConcat | Pipe_LogicalOr

datatype double_ampersand = Amp_Unsupported | Amp_LogicalAnd | Amp_Overlaps

datatype keyword_operators = KwOps_Unsupported | KwOps_MySql | KwOps_Sqlite | KwOps_DuckDb

datatype caret_operator = Caret_Unsupported | Caret_Exponent | Caret_BitwiseXor

text \<open>The delimiters of an \<open>IdentifierQuote\<close> are Rust \<open>char\<close>s, here their scalar values.\<close>

datatype identifier_quote = Symmetric nat | Asymmetric nat nat

fun iq_open :: "identifier_quote \<Rightarrow> nat" where
  "iq_open (Symmetric delim) = delim"
| "iq_open (Asymmetric op cl) = op"

fun iq_close :: "identifier_quote \<Rightarrow> nat" where
  "iq_close (Symmetric delim) = delim"
| "iq_close (Asymmetric op cl) = cl"

datatype non_ascii_identifier_syntax = UnicodeAlphanumeric | NonAscii_Any

fun nulls_first :: "null_ordering \<Rightarrow> bool" where
  "nulls_first NullsFirst = True"
| "nulls_first NullsLast = False"

subsection \<open>What an ambiguous spelling means\<close>

fun pipe_binary_operator :: "pipe_operator \<Rightarrow> binary_operator" where
  "pipe_binary_operator Pipe_StringConcat = Op_StringConcat"
| "pipe_binary_operator Pipe_LogicalOr = Op_Or"

fun ampersand_binary_operator :: "double_ampersand \<Rightarrow> binary_operator option" where
  "ampersand_binary_operator Amp_Unsupported = None"
| "ampersand_binary_operator Amp_LogicalAnd = Some Op_And"
| "ampersand_binary_operator Amp_Overlaps = Some Op_Overlap"

fun caret_binary_operator :: "caret_operator \<Rightarrow> binary_operator option" where
  "caret_binary_operator Caret_Unsupported = None"
| "caret_binary_operator Caret_Exponent = Some Op_Exponent"
| "caret_binary_operator Caret_BitwiseXor = Some (Op_BitwiseXor Xor_Caret)"

text \<open>The keywords this needs, by their discriminants in the generated inventory.\<close>

definition KW_Div :: keyword where
  "KW_Div = Keyword 208"

definition KW_Mod :: keyword where
  "KW_Mod = Keyword 452"

definition KW_Xor :: keyword where
  "KW_Xor = Keyword 888"

definition KW_Rlike :: keyword where
  "KW_Rlike = Keyword 646"

definition KW_Regexp :: keyword where
  "KW_Regexp = Keyword 610"

definition KW_Glob :: keyword where
  "KW_Glob = Keyword 290"

definition KW_Match :: keyword where
  "KW_Match = Keyword 427"

fun keyword_binary_operator :: "keyword_operators \<Rightarrow> keyword \<Rightarrow> binary_operator option" where
  "keyword_binary_operator KwOps_Unsupported k = None"
| "keyword_binary_operator KwOps_MySql k =
     (if k = KW_Div then Some (Op_IntegerDivide IntDiv_Div)
      else if k = KW_Mod then Some (Op_Modulo Modulo_Mod)
      else if k = KW_Xor then Some Op_Xor
      else if k = KW_Rlike then Some (Op_Regexp Regexp_Rlike)
      else if k = KW_Regexp then Some (Op_Regexp Regexp_Regexp)
      else None)"
| "keyword_binary_operator KwOps_Sqlite k =
     (if k = KW_Glob then Some Op_Glob
      else if k = KW_Match then Some Op_Match
      else if k = KW_Regexp then Some (Op_Regexp Regexp_Regexp)
      else None)"
| "keyword_binary_operator KwOps_DuckDb k = (if k = KW_Glob then Some Op_Glob else None)"

subsection \<open>The syntax structs\<close>

record comment_syntax =
  cs_line_comment_hash :: bool
  cs_line_comment_ends_at_carriage_return :: bool
  cs_nested_block_comments :: bool
  cs_versioned_comments :: "nat option"
  cs_unterminated_block_comment_at_eof :: bool

record string_literal_syntax =
  sl_escape_strings :: bool
  sl_dollar_quoted_strings :: bool
  sl_national_strings :: bool
  sl_double_quoted_strings :: bool
  sl_backslash_escapes :: bool
  sl_unicode_strings :: bool
  sl_bit_string_literals :: bool
  sl_blob_literals :: bool
  sl_charset_introducers :: bool
  sl_same_line_adjacent_concat :: bool

record numeric_literal_syntax =
  nl_hex_integers :: bool
  nl_octal_integers :: bool
  nl_binary_integers :: bool
  nl_underscore_separators :: bool
  nl_radix_leading_underscore :: bool
  nl_reject_trailing_junk :: bool
  nl_money_literals :: bool

record parameter_syntax =
  pa_positional_dollar :: bool
  pa_positional_dollar_large :: bool
  pa_anonymous_question :: bool
  pa_named_colon :: bool
  pa_named_at :: bool
  pa_named_dollar :: bool
  pa_numbered_question :: bool

record session_variable_syntax =
  sv_user_variables :: bool
  sv_system_variables :: bool
  sv_variable_assignment :: bool

record identifier_syntax =
  ids_non_ascii :: non_ascii_identifier_syntax
  ids_dollar_in_identifiers :: bool
  ids_string_literal_identifiers :: bool
  ids_string_literal_table_names :: bool
  ids_empty_quoted_identifiers :: bool

record table_expression_syntax =
  te_only :: bool
  te_table_sample :: bool
  te_parenthesized_joins :: bool
  te_table_alias_column_lists :: bool
  te_join_using_alias :: bool
  te_index_hints :: bool
  te_table_hints :: bool
  te_partition_selection :: bool
  te_base_table_alias_column_lists :: bool
  te_string_literal_aliases :: bool
  te_aliased_parenthesized_join :: bool
  te_bare_table_alias_is_bare_label :: bool
  te_table_version :: bool
  te_table_json_path :: bool
  te_indexed_by :: bool
  te_prefix_colon_alias :: bool

record join_syntax =
  js_stacked_join_qualifiers :: bool
  js_full_outer_join :: bool
  js_natural_cross_join :: bool
  js_straight_join :: bool
  js_asof_join :: bool
  js_positional_join :: bool
  js_semi_anti_join :: bool
  js_sided_semi_anti_join :: bool
  js_apply_join :: bool
  js_recursive_search_cycle :: bool
  js_recursive_union_rejects_order_limit :: bool
  js_recursive_using_key :: bool

record table_factor_syntax =
  tf_lateral :: bool
  tf_table_functions :: bool
  tf_rows_from :: bool
  tf_unnest :: bool
  tf_unnest_with_offset :: bool
  tf_table_function_ordinality :: bool
  tf_special_function_table_source :: bool
  tf_pivot :: bool
  tf_unpivot :: bool
  tf_show_ref :: bool
  tf_from_values :: bool
  tf_json_table :: bool
  tf_xml_table :: bool
  tf_table_expr_factor :: bool
  tf_pivot_value_sources :: bool
  tf_match_recognize :: bool
  tf_open_json :: bool

record mutation_syntax =
  mu_insert_ignore :: bool
  mu_insert_overwrite :: bool
  mu_returning :: bool
  mu_on_conflict :: bool
  mu_on_duplicate_key_update :: bool
  mu_multi_column_assignment :: bool
  mu_update_tuple_value_row_arity :: bool
  mu_where_current_of :: bool
  mu_merge :: bool
  mu_replace_into :: bool
  mu_insert_set :: bool
  mu_update_delete_tails :: bool
  mu_joined_update_delete :: bool
  mu_or_conflict_action :: bool
  mu_insert_column_matching :: bool
  mu_delete_using :: bool
  mu_update_from :: bool
  mu_delete_using_target_alias :: bool
  mu_cte_before_insert :: bool
  mu_cte_before_merge :: bool
  mu_data_modifying_ctes :: bool
  mu_merge_when_not_matched_by :: bool
  mu_merge_insert_default_values :: bool
  mu_merge_insert_overriding :: bool
  mu_merge_insert_multirow :: bool
  mu_merge_update_set_star :: bool
  mu_merge_insert_star_by_name :: bool
  mu_merge_error_action :: bool
  mu_update_set_qualified_column :: bool

record view_sequence_clause_syntax =
  vs_create_sequence_cache :: bool
  vs_materialized_view_to :: bool
  vs_temporary_views :: bool
  vs_recursive_views :: bool
  vs_view_definition_options :: bool

record statement_ddl_gates =
  sd_colocation_groups :: bool
  sd_create_trigger :: bool
  sd_create_macro :: bool
  sd_create_secret :: bool
  sd_create_type :: bool
  sd_create_virtual_table :: bool
  sd_create_sequence :: bool
  sd_extension_ddl :: bool
  sd_transform_ddl :: bool
  sd_alter_system :: bool
  sd_tablespace_ddl :: bool
  sd_logfile_group_ddl :: bool
  sd_schemas :: bool
  sd_schema_elements :: bool
  sd_databases :: bool
  sd_drop_database :: bool
  sd_materialized_views :: bool
  sd_routines :: bool
  sd_or_replace :: bool
  sd_create_or_replace_table :: bool
  sd_create_or_replace_materialized_view :: bool
  sd_compound_statements :: bool
  sd_alter_database :: bool
  sd_alter_database_options :: bool
  sd_server_definition :: bool
  sd_alter_instance :: bool
  sd_spatial_reference_system :: bool
  sd_resource_group :: bool
  sd_alter_sequence :: bool
  sd_alter_object_set_schema :: bool

record create_table_clause_syntax =
  ct_table_options :: bool
  ct_without_rowid_table_option :: bool
  ct_strict_table_option :: bool
  ct_storage_parameters :: bool
  ct_on_commit :: bool
  ct_create_table_as_with_data :: bool
  ct_create_table_as_execute :: bool
  ct_declarative_partitioning :: bool
  ct_table_inheritance :: bool
  ct_like_source_table :: bool
  ct_statement_level_table_like :: bool
  ct_unlogged_tables :: bool
  ct_table_access_method :: bool
  ct_without_oids :: bool
  ct_typed_tables :: bool

record column_definition_syntax =
  cd_generated_column_shorthand :: bool
  cd_column_conflict_resolution_clause :: bool
  cd_typeless_column_definitions :: bool
  cd_typeless_generated_columns :: bool
  cd_joined_autoincrement_attribute :: bool
  cd_underscored_autoincrement_attribute :: bool
  cd_inline_primary_key_ordering :: bool
  cd_named_column_collate_constraint :: bool
  cd_identity_columns :: bool
  cd_compact_identity_columns :: bool
  cd_default_expression_requires_parens :: bool
  cd_column_default_requires_b_expr :: bool
  cd_column_collation :: bool
  cd_column_storage :: bool

record constraint_syntax =
  co_deferrable_constraints :: bool
  co_named_inline_non_check_constraints :: bool
  co_bare_constraint_name :: bool
  co_exclusion_constraints :: bool
  co_constraint_no_inherit_not_valid :: bool
  co_index_constraint_parameters :: bool
  co_constraint_column_collate_order :: bool
  co_referential_action_cascade_set :: bool
  co_check_constraint_subqueries :: bool

record index_alter_syntax =
  ia_rename_constraint :: bool
  ia_alter_table_set_options :: bool
  ia_drop_primary_key :: bool
  ia_alter_column_add_identity :: bool
  ia_index_storage_parameters :: bool
  ia_drop_behavior :: bool
  ia_index_drop_on_table :: bool
  ia_alter_table_drop_index :: bool
  ia_index_concurrently :: bool
  ia_index_using_method :: bool
  ia_partial_index :: bool
  ia_index_if_not_exists :: bool
  ia_index_nulls_order :: bool
  ia_alter_table_extended :: bool
  ia_alter_table_multiple_actions :: bool
  ia_alter_existence_guards :: bool
  ia_alter_nested_column_paths :: bool
  ia_alter_column_set_data_type :: bool
  ia_routine_arg_types :: bool
  ia_routine_arg_defaults :: bool
  ia_routine_arg_modes :: bool
  ia_routine_language_string :: bool

record existence_guards =
  eg_if_exists :: bool
  eg_view_if_not_exists :: bool
  eg_create_database_if_not_exists :: bool

record select_syntax =
  se_distinct_on :: bool
  se_select_into :: bool
  se_empty_target_list :: bool
  se_qualify :: bool
  se_alias_string_literals :: bool
  se_bare_alias_string_literals :: bool
  se_from_first :: bool
  se_explicit_table :: bool
  se_union_by_name :: bool
  se_wildcard_modifiers :: bool
  se_wildcard_replace :: bool
  se_intersect_all :: bool
  se_except_all :: bool
  se_qualified_wildcard_alias :: bool
  se_parenthesized_query_operands :: bool
  se_values_rows_require_equal_arity :: bool
  se_values_row_constructor :: bool
  se_as_alias_rejects_reserved :: bool
  se_trailing_comma :: bool
  se_prefix_colon_alias :: bool
  se_lateral_view_clause :: bool
  se_connect_by_clause :: bool

record query_tail_syntax =
  qt_fetch_first :: bool
  qt_limit_offset_comma :: bool
  qt_locking_clauses :: bool
  qt_key_lock_strengths :: bool
  qt_stacked_locking_clauses :: bool
  qt_using_sample :: bool
  qt_leading_offset :: bool
  qt_limit_expressions :: bool
  qt_limit_percent :: bool
  qt_with_ties_requires_order_by :: bool
  qt_pipe_syntax :: bool
  qt_limit_by_clause :: bool
  qt_settings_clause :: bool
  qt_format_clause :: bool
  qt_for_xml_json_clause :: bool

record grouping_syntax =
  gr_grouping_sets :: bool
  gr_with_rollup :: bool
  gr_order_by_using :: bool
  gr_group_by_all :: bool
  gr_group_by_set_quantifier :: bool
  gr_order_by_all :: bool

record transaction_syntax =
  tx_start_transaction :: bool
  tx_start_transaction_block_optional :: bool
  tx_transaction_work_keyword :: bool
  tx_begin_transaction_keyword :: bool
  tx_commit_transaction_keyword :: bool
  tx_rollback_transaction_keyword :: bool
  tx_transaction_name :: bool
  tx_begin_transaction_modes :: bool
  tx_transaction_savepoints :: bool
  tx_set_transaction :: bool
  tx_transaction_isolation_mode :: bool
  tx_transaction_access_mode :: bool
  tx_transaction_deferrable_mode :: bool
  tx_start_transaction_isolation_mode :: bool
  tx_start_transaction_deferrable_mode :: bool
  tx_start_transaction_consistent_snapshot :: bool
  tx_transaction_multiple_modes :: bool
  tx_transaction_modes_require_commas :: bool
  tx_transaction_modes_reject_duplicates :: bool
  tx_abort_transaction_alias :: bool
  tx_end_transaction_alias :: bool
  tx_transaction_release :: bool
  tx_transaction_chain :: bool
  tx_release_savepoint_keyword_optional :: bool
  tx_begin_transaction_mode :: bool
  tx_xa_transactions :: bool

record utility_syntax =
  ut_copy :: bool
  ut_copy_into :: bool
  ut_stage_references :: bool
  ut_comment_on :: bool
  ut_comment_if_exists :: bool
  ut_pragma :: bool
  ut_attach :: bool
  ut_kill :: bool
  ut_handler_statements :: bool
  ut_plugin_component_statements :: bool
  ut_shutdown :: bool
  ut_restart :: bool
  ut_clone :: bool
  ut_import_table :: bool
  ut_help_statement :: bool
  ut_binlog :: bool
  ut_key_cache_statements :: bool
  ut_use_statement :: bool
  ut_use_qualified_name :: bool
  ut_use_string_literal_name :: bool
  ut_prepared_statements :: bool
  ut_prepare_typed_parameters :: bool
  ut_prepared_statements_from :: bool
  ut_call :: bool
  ut_call_bare_name :: bool
  ut_load_extension :: bool
  ut_load_bare_name :: bool
  ut_load_data :: bool
  ut_reset_scope :: bool
  ut_detach_if_exists :: bool
  ut_do_statement :: bool
  ut_do_expression_list :: bool
  ut_lock_tables :: bool
  ut_lock_instance :: bool
  ut_rename_statement :: bool
  ut_signal_diagnostics :: bool
  ut_export_import_database :: bool
  ut_update_extensions :: bool
  ut_flush :: bool
  ut_purge_binary_logs :: bool
  ut_replication_statements :: bool

record show_syntax =
  sh_describe :: bool
  sh_describe_summarize :: bool
  sh_session_statements :: bool
  sh_set_value_reserved_words :: keyword_set
  sh_set_value_on_keyword :: bool
  sh_set_value_null_keyword :: bool
  sh_show_tables :: bool
  sh_show_columns :: bool
  sh_show_create_table :: bool
  sh_show_functions :: bool
  sh_show_routine_status :: bool
  sh_show_verbose :: bool
  sh_show_admin :: bool

record maintenance_syntax =
  ma_vacuum :: bool
  ma_vacuum_analyze :: bool
  ma_reindex :: bool
  ma_analyze :: bool
  ma_analyze_columns :: bool
  ma_checkpoint :: bool
  ma_checkpoint_database :: bool
  ma_table_maintenance :: bool

record access_control_syntax =
  ac_alter_role_rename :: bool
  ac_access_control :: bool
  ac_access_control_extended_objects :: bool
  ac_user_role_management :: bool
  ac_access_control_account_grants :: bool

record type_name_syntax =
  tn_extended_scalar_type_names :: bool
  tn_enum_type :: bool
  tn_set_type :: bool
  tn_numeric_modifiers :: bool
  tn_integer_display_width :: bool
  tn_composite_types :: bool
  tn_angle_bracket_types :: bool
  tn_varchar_requires_length :: bool
  tn_zoned_temporal_types :: bool
  tn_empty_type_parens :: bool
  tn_character_set_annotation :: bool
  tn_signed_type_modifier :: bool
  tn_nullable_type :: bool
  tn_low_cardinality_type :: bool
  tn_fixed_string_type :: bool
  tn_datetime64_type :: bool
  tn_nested_type :: bool
  tn_bit_width_integer_names :: bool
  tn_liberal_type_names :: bool
  tn_string_type_modifiers :: bool

record expression_syntax =
  es_typecast_operator :: bool
  es_subscript :: bool
  es_slice_step :: bool
  es_collate :: bool
  es_at_time_zone :: bool
  es_semi_structured_access :: bool
  es_array_constructor :: bool
  es_multidim_array_literals :: bool
  es_collection_literals :: bool
  es_row_constructor :: bool
  es_struct_constructor :: bool
  es_field_selection :: bool
  es_field_wildcard :: bool
  es_typed_string_literals :: bool
  es_typed_interval_literal :: bool
  es_relaxed_interval_syntax :: bool
  es_mysql_interval_operator :: bool
  es_positional_column :: bool
  es_lambda_keyword :: bool

record operator_syntax =
  os_operator_construct :: bool
  os_containment_operators :: bool
  os_json_arrow_operators :: bool
  os_jsonb_operators :: bool
  os_double_equals :: bool
  os_integer_divide_slash :: bool
  os_starts_with_operator :: bool
  os_is_general_equality :: bool
  os_truth_value_tests :: bool
  os_null_safe_equals :: bool
  os_lambda_expressions :: bool
  os_bitwise_operators :: bool
  os_quantified_comparisons :: bool
  os_quantified_comparison_lists :: bool
  os_quantified_arbitrary_operator :: bool
  os_custom_operators :: bool
  os_null_test_postfix :: bool
  os_postfix_operators :: bool

record call_syntax =
  ca_named_argument :: bool
  ca_utc_special_functions :: bool
  ca_columns_expression :: bool
  ca_extract_from_syntax :: bool
  ca_try_cast :: bool
  ca_restricted_cast_targets :: bool
  ca_extract_string_field :: bool
  ca_method_chaining :: bool
  ca_sqljson_constructors_require_argument :: bool
  ca_sqljson_expression_functions :: bool
  ca_xml_expression_functions :: bool
  ca_variadic_argument :: bool
  ca_merge_action_function :: bool
  ca_convert_function :: bool

record string_func_forms =
  sf_substring_from_for :: bool
  sf_substring_leading_for :: bool
  sf_substring_similar :: bool
  sf_substring_plain_call_requires_2_or_3_args :: bool
  sf_substr_from_for :: bool
  sf_position_in :: bool
  sf_position_asymmetric_operands :: bool
  sf_overlay_placing :: bool
  sf_overlay_requires_placing :: bool
  sf_trim_from :: bool
  sf_trim_list_syntax :: bool
  sf_collation_for_expression :: bool
  sf_ceil_to_field :: bool
  sf_floor_to_field :: bool
  sf_match_against :: bool

record aggregate_call_syntax =
  ag_group_concat_separator :: bool
  ag_within_group :: bool
  ag_aggregate_filter :: bool
  ag_filter_optional_where :: bool
  ag_aggregate_args_require_adjacent_paren :: bool
  ag_null_treatment :: bool
  ag_aggregate_calls_reject_empty_arguments :: bool
  ag_over_requires_windowable_function :: bool
  ag_window_function_tail :: bool
  ag_standalone_argument_order_by :: bool

record predicate_syntax =
  pr_is_distinct_from :: bool
  pr_like :: bool
  pr_ilike :: bool
  pr_similar_to :: bool
  pr_overlaps_period_predicate :: bool
  pr_unparenthesized_in_list :: bool
  pr_pattern_match_quantifier :: bool
  pr_between_symmetric :: bool
  pr_is_normalized :: bool
  pr_empty_in_list :: bool
  pr_null_test_two_word_postfix :: bool

subsection \<open>The feature set\<close>

record feature_set =
  identifier_casing :: casing
  identifier_quotes :: "identifier_quote list"
  default_null_ordering :: null_ordering
  reserved_column_name :: keyword_set
  reserved_function_name :: keyword_set
  reserved_type_name :: keyword_set
  reserved_bare_alias :: keyword_set
  reserved_as_label :: keyword_set
  catalog_qualified_names :: bool
  byte_classes :: byte_classes
  binding_powers :: binding_power_table
  set_operation_powers :: set_operation_binding_power_table
  string_literals :: string_literal_syntax
  numeric_literals :: numeric_literal_syntax
  parameters :: parameter_syntax
  session_variables :: session_variable_syntax
  identifier_syntax :: identifier_syntax
  table_expressions :: table_expression_syntax
  join_syntax :: join_syntax
  table_factor_syntax :: table_factor_syntax
  expression_syntax :: expression_syntax
  operator_syntax :: operator_syntax
  call_syntax :: call_syntax
  string_func_forms :: string_func_forms
  aggregate_call_syntax :: aggregate_call_syntax
  predicate_syntax :: predicate_syntax
  pipe_operator :: pipe_operator
  double_ampersand :: double_ampersand
  keyword_operators :: keyword_operators
  caret_operator :: caret_operator
  hash_bitwise_xor :: bool
  comment_syntax :: comment_syntax
  mutation_syntax :: mutation_syntax
  statement_ddl_gates :: statement_ddl_gates
  view_sequence_clause_syntax :: view_sequence_clause_syntax
  create_table_clause_syntax :: create_table_clause_syntax
  column_definition_syntax :: column_definition_syntax
  constraint_syntax :: constraint_syntax
  index_alter_syntax :: index_alter_syntax
  existence_guards :: existence_guards
  select_syntax :: select_syntax
  query_tail_syntax :: query_tail_syntax
  grouping_syntax :: grouping_syntax
  utility_syntax :: utility_syntax
  transaction_syntax :: transaction_syntax
  show_syntax :: show_syntax
  maintenance_syntax :: maintenance_syntax
  access_control_syntax :: access_control_syntax
  type_name_syntax :: type_name_syntax
  target_spelling :: target_spelling

definition features_byte_class :: "feature_set \<Rightarrow> byte \<Rightarrow> class_mask" where
  "features_byte_class f b = byte_class (byte_classes f) b"

definition has_byte_class :: "feature_set \<Rightarrow> byte \<Rightarrow> class_mask \<Rightarrow> bool" where
  "has_byte_class f b cls = has_class (byte_classes f) b cls"

definition features_binding_power :: "feature_set \<Rightarrow> binary_operator \<Rightarrow> binding_power" where
  "features_binding_power f opr = binary_power (binding_powers f) opr"

definition prefix_binding_power :: "feature_set \<Rightarrow> unary_operator \<Rightarrow> nat" where
  "prefix_binding_power f opr = prefix_power (binding_powers f) opr"

definition set_operation_binding_power :: "feature_set \<Rightarrow> set_operator \<Rightarrow> binding_power" where
  "set_operation_binding_power f opr = set_operation (set_operation_powers f) opr"

definition default_nulls_first :: "feature_set \<Rightarrow> bool" where
  "default_nulls_first f = nulls_first (default_null_ordering f)"

subsection \<open>Identifier folding\<close>

definition fold_identifier_upper :: "source \<Rightarrow> source" where
  "fold_identifier_upper s =
     (if list_ex is_ascii_lowercase s then map to_ascii_uppercase s else s)"

definition fold_identifier_lower :: "source \<Rightarrow> source" where
  "fold_identifier_lower s =
     (if list_ex is_ascii_uppercase s then map to_ascii_lowercase s else s)"

fun fold_identifier :: "casing \<Rightarrow> source \<Rightarrow> source" where
  "fold_identifier Casing_Upper s = fold_identifier_upper s"
| "fold_identifier Casing_Lower s = fold_identifier_lower s"
| "fold_identifier Casing_Preserve s = s"

definition fold_unquoted_identifier :: "feature_set \<Rightarrow> source \<Rightarrow> source" where
  "fold_unquoted_identifier f s = fold_identifier (identifier_casing f) s"

lemma lowercase_idle: "\<not> is_ascii_uppercase b \<Longrightarrow> to_ascii_lowercase b = b"
  by (simp add: to_ascii_lowercase_def)

lemma uppercase_idle: "\<not> is_ascii_lowercase b \<Longrightarrow> to_ascii_uppercase b = b"
  by (simp add: to_ascii_uppercase_def)

lemma of_char_shift: "n < 256 \<Longrightarrow> (of_char (char_of n :: char) :: nat) = n"
  by simp

lemma lowercase_range: "\<not> is_ascii_uppercase (to_ascii_lowercase b)"
  by (auto simp: to_ascii_lowercase_def is_ascii_uppercase_def)

lemma uppercase_range: "\<not> is_ascii_lowercase (to_ascii_uppercase b)"
  by (auto simp: to_ascii_uppercase_def is_ascii_lowercase_def)

lemma lower_upper: "to_ascii_lowercase (to_ascii_uppercase b) = to_ascii_lowercase b"
  by (auto simp: to_ascii_lowercase_def to_ascii_uppercase_def is_ascii_uppercase_def is_ascii_lowercase_def)

lemma upper_lower: "to_ascii_uppercase (to_ascii_lowercase b) = to_ascii_uppercase b"
  by (auto simp: to_ascii_lowercase_def to_ascii_uppercase_def is_ascii_uppercase_def is_ascii_lowercase_def)

lemma fold_identifier_map:
  "fold_identifier_upper s = map to_ascii_uppercase s"
  "fold_identifier_lower s = map to_ascii_lowercase s"
  by (auto simp: fold_identifier_upper_def fold_identifier_lower_def list_ex_iff
      uppercase_idle lowercase_idle intro: map_idI[symmetric])

text \<open>
  Folding an unquoted identifier gives a key for its casing class: the shortcut that
  borrows the text changes nothing, folding twice is folding once, the length is kept, and
  under a folding casing two identifiers have one key exactly when they differ in ASCII
  letter case alone.
\<close>

theorem fold_identifier_key:
  "fold_identifier c (fold_identifier c s) = fold_identifier c s
   \<and> length (fold_identifier c s) = length s
   \<and> (fold_identifier Casing_Upper s = fold_identifier Casing_Upper t
        \<longleftrightarrow> map to_ascii_lowercase s = map to_ascii_lowercase t)
   \<and> (fold_identifier Casing_Lower s = fold_identifier Casing_Lower t
        \<longleftrightarrow> map to_ascii_lowercase s = map to_ascii_lowercase t)
   \<and> (fold_identifier Casing_Preserve s = fold_identifier Casing_Preserve t \<longleftrightarrow> s = t)"
proof -
  have idem: "fold_identifier c (fold_identifier c s) = fold_identifier c s"
    by (cases c) (simp_all add: fold_identifier_map lowercase_idle uppercase_idle
        lowercase_range uppercase_range o_def)
  have len: "length (fold_identifier c s) = length s"
    by (cases c) (simp_all add: fold_identifier_map)
  have "map to_ascii_uppercase s = map to_ascii_uppercase t
      \<longleftrightarrow> map to_ascii_lowercase s = map to_ascii_lowercase t" (is "?U \<longleftrightarrow> ?L")
  proof
    assume ?U
    then have "map to_ascii_lowercase (map to_ascii_uppercase s)
        = map to_ascii_lowercase (map to_ascii_uppercase t)" by (rule arg_cong)
    then show ?L by (simp add: o_def lower_upper)
  next
    assume ?L
    then have "map to_ascii_uppercase (map to_ascii_lowercase s)
        = map to_ascii_uppercase (map to_ascii_lowercase t)" by (rule arg_cong)
    then show ?U by (simp add: o_def upper_lower)
  qed
  then show ?thesis using idem len by (simp add: fold_identifier_map)
qed

subsection \<open>Deltas\<close>

record feature_delta =
  d_identifier_casing :: "casing option"
  d_identifier_quotes :: "identifier_quote list option"
  d_default_null_ordering :: "null_ordering option"
  d_reserved_column_name :: "keyword_set option"
  d_reserved_function_name :: "keyword_set option"
  d_reserved_type_name :: "keyword_set option"
  d_reserved_bare_alias :: "keyword_set option"
  d_reserved_as_label :: "keyword_set option"
  d_catalog_qualified_names :: "bool option"
  d_byte_classes :: "byte_classes option"
  d_binding_powers :: "binding_power_table option"
  d_set_operation_powers :: "set_operation_binding_power_table option"
  d_string_literals :: "string_literal_syntax option"
  d_numeric_literals :: "numeric_literal_syntax option"
  d_parameters :: "parameter_syntax option"
  d_session_variables :: "session_variable_syntax option"
  d_identifier_syntax :: "identifier_syntax option"
  d_table_expressions :: "table_expression_syntax option"
  d_join_syntax :: "join_syntax option"
  d_table_factor_syntax :: "table_factor_syntax option"
  d_expression_syntax :: "expression_syntax option"
  d_operator_syntax :: "operator_syntax option"
  d_call_syntax :: "call_syntax option"
  d_string_func_forms :: "string_func_forms option"
  d_aggregate_call_syntax :: "aggregate_call_syntax option"
  d_predicate_syntax :: "predicate_syntax option"
  d_pipe_operator :: "pipe_operator option"
  d_double_ampersand :: "double_ampersand option"
  d_keyword_operators :: "keyword_operators option"
  d_caret_operator :: "caret_operator option"
  d_hash_bitwise_xor :: "bool option"
  d_comment_syntax :: "comment_syntax option"
  d_mutation_syntax :: "mutation_syntax option"
  d_statement_ddl_gates :: "statement_ddl_gates option"
  d_view_sequence_clause_syntax :: "view_sequence_clause_syntax option"
  d_create_table_clause_syntax :: "create_table_clause_syntax option"
  d_column_definition_syntax :: "column_definition_syntax option"
  d_constraint_syntax :: "constraint_syntax option"
  d_index_alter_syntax :: "index_alter_syntax option"
  d_existence_guards :: "existence_guards option"
  d_select_syntax :: "select_syntax option"
  d_query_tail_syntax :: "query_tail_syntax option"
  d_grouping_syntax :: "grouping_syntax option"
  d_utility_syntax :: "utility_syntax option"
  d_transaction_syntax :: "transaction_syntax option"
  d_show_syntax :: "show_syntax option"
  d_maintenance_syntax :: "maintenance_syntax option"
  d_access_control_syntax :: "access_control_syntax option"
  d_type_name_syntax :: "type_name_syntax option"
  d_target_spelling :: "target_spelling option"

definition DELTA_EMPTY :: feature_delta where
  "DELTA_EMPTY = \<lparr>
    d_identifier_casing = None,
    d_identifier_quotes = None,
    d_default_null_ordering = None,
    d_reserved_column_name = None,
    d_reserved_function_name = None,
    d_reserved_type_name = None,
    d_reserved_bare_alias = None,
    d_reserved_as_label = None,
    d_catalog_qualified_names = None,
    d_byte_classes = None,
    d_binding_powers = None,
    d_set_operation_powers = None,
    d_string_literals = None,
    d_numeric_literals = None,
    d_parameters = None,
    d_session_variables = None,
    d_identifier_syntax = None,
    d_table_expressions = None,
    d_join_syntax = None,
    d_table_factor_syntax = None,
    d_expression_syntax = None,
    d_operator_syntax = None,
    d_call_syntax = None,
    d_string_func_forms = None,
    d_aggregate_call_syntax = None,
    d_predicate_syntax = None,
    d_pipe_operator = None,
    d_double_ampersand = None,
    d_keyword_operators = None,
    d_caret_operator = None,
    d_hash_bitwise_xor = None,
    d_comment_syntax = None,
    d_mutation_syntax = None,
    d_statement_ddl_gates = None,
    d_view_sequence_clause_syntax = None,
    d_create_table_clause_syntax = None,
    d_column_definition_syntax = None,
    d_constraint_syntax = None,
    d_index_alter_syntax = None,
    d_existence_guards = None,
    d_select_syntax = None,
    d_query_tail_syntax = None,
    d_grouping_syntax = None,
    d_utility_syntax = None,
    d_transaction_syntax = None,
    d_show_syntax = None,
    d_maintenance_syntax = None,
    d_access_control_syntax = None,
    d_type_name_syntax = None,
    d_target_spelling = None \<rparr>"

fun or_else :: "'a option \<Rightarrow> 'a \<Rightarrow> 'a" where
  "or_else (Some v) old = v"
| "or_else None old = old"

definition feature_set_with :: "feature_set \<Rightarrow> feature_delta \<Rightarrow> feature_set" where
  "feature_set_with f d = \<lparr>
    identifier_casing = or_else (d_identifier_casing d) (identifier_casing f),
    identifier_quotes = or_else (d_identifier_quotes d) (identifier_quotes f),
    default_null_ordering = or_else (d_default_null_ordering d) (default_null_ordering f),
    reserved_column_name = or_else (d_reserved_column_name d) (reserved_column_name f),
    reserved_function_name = or_else (d_reserved_function_name d) (reserved_function_name f),
    reserved_type_name = or_else (d_reserved_type_name d) (reserved_type_name f),
    reserved_bare_alias = or_else (d_reserved_bare_alias d) (reserved_bare_alias f),
    reserved_as_label = or_else (d_reserved_as_label d) (reserved_as_label f),
    catalog_qualified_names = or_else (d_catalog_qualified_names d) (catalog_qualified_names f),
    byte_classes = or_else (d_byte_classes d) (byte_classes f),
    binding_powers = or_else (d_binding_powers d) (binding_powers f),
    set_operation_powers = or_else (d_set_operation_powers d) (set_operation_powers f),
    string_literals = or_else (d_string_literals d) (string_literals f),
    numeric_literals = or_else (d_numeric_literals d) (numeric_literals f),
    parameters = or_else (d_parameters d) (parameters f),
    session_variables = or_else (d_session_variables d) (session_variables f),
    identifier_syntax = or_else (d_identifier_syntax d) (identifier_syntax f),
    table_expressions = or_else (d_table_expressions d) (table_expressions f),
    join_syntax = or_else (d_join_syntax d) (join_syntax f),
    table_factor_syntax = or_else (d_table_factor_syntax d) (table_factor_syntax f),
    expression_syntax = or_else (d_expression_syntax d) (expression_syntax f),
    operator_syntax = or_else (d_operator_syntax d) (operator_syntax f),
    call_syntax = or_else (d_call_syntax d) (call_syntax f),
    string_func_forms = or_else (d_string_func_forms d) (string_func_forms f),
    aggregate_call_syntax = or_else (d_aggregate_call_syntax d) (aggregate_call_syntax f),
    predicate_syntax = or_else (d_predicate_syntax d) (predicate_syntax f),
    pipe_operator = or_else (d_pipe_operator d) (pipe_operator f),
    double_ampersand = or_else (d_double_ampersand d) (double_ampersand f),
    keyword_operators = or_else (d_keyword_operators d) (keyword_operators f),
    caret_operator = or_else (d_caret_operator d) (caret_operator f),
    hash_bitwise_xor = or_else (d_hash_bitwise_xor d) (hash_bitwise_xor f),
    comment_syntax = or_else (d_comment_syntax d) (comment_syntax f),
    mutation_syntax = or_else (d_mutation_syntax d) (mutation_syntax f),
    statement_ddl_gates = or_else (d_statement_ddl_gates d) (statement_ddl_gates f),
    view_sequence_clause_syntax = or_else (d_view_sequence_clause_syntax d) (view_sequence_clause_syntax f),
    create_table_clause_syntax = or_else (d_create_table_clause_syntax d) (create_table_clause_syntax f),
    column_definition_syntax = or_else (d_column_definition_syntax d) (column_definition_syntax f),
    constraint_syntax = or_else (d_constraint_syntax d) (constraint_syntax f),
    index_alter_syntax = or_else (d_index_alter_syntax d) (index_alter_syntax f),
    existence_guards = or_else (d_existence_guards d) (existence_guards f),
    select_syntax = or_else (d_select_syntax d) (select_syntax f),
    query_tail_syntax = or_else (d_query_tail_syntax d) (query_tail_syntax f),
    grouping_syntax = or_else (d_grouping_syntax d) (grouping_syntax f),
    utility_syntax = or_else (d_utility_syntax d) (utility_syntax f),
    transaction_syntax = or_else (d_transaction_syntax d) (transaction_syntax f),
    show_syntax = or_else (d_show_syntax d) (show_syntax f),
    maintenance_syntax = or_else (d_maintenance_syntax d) (maintenance_syntax f),
    access_control_syntax = or_else (d_access_control_syntax d) (access_control_syntax f),
    type_name_syntax = or_else (d_type_name_syntax d) (type_name_syntax f),
    target_spelling = or_else (d_target_spelling d) (target_spelling f) \<rparr>"

lemma feature_set_with_empty: "feature_set_with f DELTA_EMPTY = f"
  by (simp add: feature_set_with_def DELTA_EMPTY_def)

end
