(* ===== verification/Source_Cursor.thy ===== *)
theory Source_Cursor
  imports Squonk_Prelude
begin

text \<open>
  The byte cursor of \<open>crates/squonk/src/tokenizer/cursor.rs\<close> over UTF-8 source text, with
  the parts of Rust's \<open>str\<close> it uses: character boundaries, decoding the next \<open>char\<close>, and
  the encoded length of a \<open>char\<close>. A \<open>char\<close> is its scalar value, a natural number.

  The position is a natural number. The program stores it as \<open>u32\<close>; \<open>tokenize\<close> refuses a
  source longer than \<open>u32::MAX\<close>, and \<open>cur_le\<close> below shows that no operation moves a
  cursor past the end of its source, so the \<open>u32\<close> never wraps.
\<close>

subsection \<open>UTF-8\<close>

text \<open>Continuation bytes are \<open>10xxxxxx\<close>.\<close>

definition is_continuation :: "byte \<Rightarrow> bool" where
  "is_continuation b \<longleftrightarrow> 128 \<le> byte_val b \<and> byte_val b < 192"

text \<open>\<open>str::is_char_boundary\<close>.\<close>

definition is_char_boundary :: "source \<Rightarrow> nat \<Rightarrow> bool" where
  "is_char_boundary s i \<longleftrightarrow>
     i = 0 \<or> i = length s \<or> (i < length s \<and> \<not> is_continuation (s ! i))"

text \<open>
  \<open>chars().next()\<close> on the rest of a string: the scalar value of the leading sequence. A
  Rust string is valid UTF-8, so the sequence is complete; on a truncated one the model has
  no character.
\<close>

fun next_char :: "source \<Rightarrow> nat option" where
  "next_char [] = None"
| "next_char (x # bs) =
     (if byte_val x < 128 then Some (byte_val x)
      else case bs of
        [] \<Rightarrow> None
      | y # bs2 \<Rightarrow>
          if byte_val x < 224 then Some ((byte_val x mod 32) * 64 + byte_val y mod 64)
          else case bs2 of
            [] \<Rightarrow> None
          | z # bs3 \<Rightarrow>
              if byte_val x < 240
              then Some ((byte_val x mod 16) * 4096 + (byte_val y mod 64) * 64 + byte_val z mod 64)
              else case bs3 of
                [] \<Rightarrow> None
              | w # bs4 \<Rightarrow> Some ((byte_val x mod 8) * 262144 + (byte_val y mod 64) * 4096
                  + (byte_val z mod 64) * 64 + byte_val w mod 64))"

text \<open>\<open>char::len_utf8\<close>.\<close>

definition len_utf8 :: "nat \<Rightarrow> nat" where
  "len_utf8 ch = (if ch < 128 then 1 else if ch < 2048 then 2 else if ch < 65536 then 3 else 4)"

text \<open>Valid UTF-8: shortest forms, no surrogates, nothing above \<open>10FFFF\<close>.\<close>

fun valid_utf8 :: "source \<Rightarrow> bool" where
  "valid_utf8 [] \<longleftrightarrow> True"
| "valid_utf8 (x # bs) \<longleftrightarrow>
     (if byte_val x < 128 then valid_utf8 bs
      else case bs of
        [] \<Rightarrow> False
      | y # bs2 \<Rightarrow>
          is_continuation y \<and>
          (if byte_val x < 224 then 194 \<le> byte_val x \<and> valid_utf8 bs2
           else case bs2 of
             [] \<Rightarrow> False
           | z # bs3 \<Rightarrow>
               is_continuation z \<and>
               (if byte_val x < 240
                then (byte_val x = 224 \<longrightarrow> 160 \<le> byte_val y) \<and> (byte_val x = 237 \<longrightarrow> byte_val y < 160)
                     \<and> valid_utf8 bs3
                else case bs3 of
                  [] \<Rightarrow> False
                | w # bs4 \<Rightarrow>
                    is_continuation w \<and> byte_val x \<le> 244 \<and> (byte_val x = 240 \<longrightarrow> 144 \<le> byte_val y)
                    \<and> (byte_val x = 244 \<longrightarrow> byte_val y < 144) \<and> valid_utf8 bs4)))"

subsection \<open>The cursor\<close>

record cursor =
  cur_src :: source
  cur_pos :: nat

definition cursor_new :: "source \<Rightarrow> cursor" where
  "cursor_new src = \<lparr>cur_src = src, cur_pos = 0\<rparr>"

definition set_pos :: "nat \<Rightarrow> cursor \<Rightarrow> cursor" where
  "set_pos p c = c\<lparr>cur_pos := p\<rparr>"

definition is_eof :: "cursor \<Rightarrow> bool" where
  "is_eof c \<longleftrightarrow> length (cur_src c) \<le> cur_pos c"

definition peek :: "cursor \<Rightarrow> byte option" where
  "peek c = get_at (cur_src c) (cur_pos c)"

definition peek_nth :: "nat \<Rightarrow> cursor \<Rightarrow> byte option" where
  "peek_nth n c = get_at (cur_src c) (cur_pos c + n)"

definition rest :: "cursor \<Rightarrow> source" where
  "rest c = drop (cur_pos c) (cur_src c)"

text \<open>\<open>bump\<close> at the end of input does not move.\<close>

definition bump :: "cursor \<Rightarrow> cursor" where
  "bump c = (case peek c of None \<Rightarrow> c | Some b \<Rightarrow> c\<lparr>cur_pos := cur_pos c + 1\<rparr>)"

text \<open>\<open>advance_bytes\<close> does not check; that its callers stay within the source is proved
  where they call it.\<close>

definition advance_bytes :: "nat \<Rightarrow> cursor \<Rightarrow> cursor" where
  "advance_bytes n c = c\<lparr>cur_pos := cur_pos c + n\<rparr>"

function eat_while :: "(byte \<Rightarrow> bool) \<Rightarrow> cursor \<Rightarrow> cursor" where
  "eat_while p c = (case peek c of
      None \<Rightarrow> c
    | Some b \<Rightarrow> if \<not> p b then c else eat_while p (c\<lparr>cur_pos := cur_pos c + 1\<rparr>))"
  by pat_completeness auto
termination
  by (relation "measure (\<lambda>(p, c). length (cur_src c) - cur_pos c)") (auto simp: peek_def)

definition char_at :: "nat \<Rightarrow> cursor \<Rightarrow> nat option" where
  "char_at n c = (let i = cur_pos c + n in
     if i \<le> length (cur_src c) \<and> is_char_boundary (cur_src c) i
     then next_char (drop i (cur_src c)) else None)"

definition bump_char :: "cursor \<Rightarrow> cursor" where
  "bump_char c = (case char_at 0 c of
      None \<Rightarrow> c | Some ch \<Rightarrow> c\<lparr>cur_pos := cur_pos c + len_utf8 ch\<rparr>)"

declare eat_while.simps [simp del]

subsection \<open>Moving forward inside the source\<close>

definition cur_ok :: "cursor \<Rightarrow> bool" where
  "cur_ok c \<longleftrightarrow> cur_pos c \<le> length (cur_src c)"

text \<open>\<open>cur_le c c'\<close>: \<open>c'\<close> walks the same source, is not behind \<open>c\<close>, and is inside the
  source when \<open>c\<close> is.\<close>

definition cur_le :: "cursor \<Rightarrow> cursor \<Rightarrow> bool" where
  "cur_le c c' \<longleftrightarrow> cur_src c' = cur_src c \<and> cur_pos c \<le> cur_pos c' \<and> (cur_ok c \<longrightarrow> cur_ok c')"

text \<open>\<open>cur_lt c c'\<close>: and at least one byte was consumed.\<close>

definition cur_lt :: "cursor \<Rightarrow> cursor \<Rightarrow> bool" where
  "cur_lt c c' \<longleftrightarrow> cur_le c c' \<and> cur_pos c < cur_pos c'"

lemma cur_le_refl [simp, intro]: "cur_le c c"
  by (simp add: cur_le_def)

lemma cur_le_trans [trans]: "cur_le a b \<Longrightarrow> cur_le b c \<Longrightarrow> cur_le a c"
  by (auto simp: cur_le_def)

lemma cur_lt_le_trans [trans]: "cur_lt a b \<Longrightarrow> cur_le b c \<Longrightarrow> cur_lt a c"
  by (auto simp: cur_le_def cur_lt_def)

lemma cur_le_lt_trans [trans]: "cur_le a b \<Longrightarrow> cur_lt b c \<Longrightarrow> cur_lt a c"
  by (auto simp: cur_le_def cur_lt_def)

lemma cur_lt_trans [trans]: "cur_lt a b \<Longrightarrow> cur_lt b c \<Longrightarrow> cur_lt a c"
  by (auto simp: cur_le_def cur_lt_def)

lemma cur_lt_le: "cur_lt c c' \<Longrightarrow> cur_le c c'"
  by (simp add: cur_lt_def)

lemma cur_leD:
  "cur_le c c' \<Longrightarrow> cur_src c' = cur_src c"
  "cur_le c c' \<Longrightarrow> cur_pos c \<le> cur_pos c'"
  "cur_le c c' \<Longrightarrow> cur_ok c \<Longrightarrow> cur_ok c'"
  by (auto simp: cur_le_def)

lemma peek_Some: "peek c = Some b \<longleftrightarrow> cur_pos c < length (cur_src c) \<and> cur_src c ! cur_pos c = b"
  by (simp add: peek_def)

lemma peek_None: "peek c = None \<longleftrightarrow> length (cur_src c) \<le> cur_pos c"
  by (simp add: peek_def)

lemma peek_nth_Some:
  "peek_nth n c = Some b \<longleftrightarrow> cur_pos c + n < length (cur_src c) \<and> cur_src c ! (cur_pos c + n) = b"
  by (simp add: peek_nth_def)

lemma peek_nth_0 [simp]: "peek_nth 0 c = peek c"
  by (simp add: peek_nth_def peek_def)

lemma is_eof_peek: "is_eof c \<longleftrightarrow> peek c = None"
  by (simp add: is_eof_def peek_None)

lemma cur_src_ops [simp]:
  "cur_src (bump c) = cur_src c" "cur_src (advance_bytes n c) = cur_src c"
  "cur_src (set_pos p c) = cur_src c" "cur_src (bump_char c) = cur_src c"
  "cur_pos (advance_bytes n c) = cur_pos c + n" "cur_pos (set_pos p c) = p"
  by (auto simp: bump_def advance_bytes_def set_pos_def bump_char_def split: option.splits)

lemma cur_src_new [simp]: "cur_src (cursor_new s) = s" "cur_pos (cursor_new s) = 0"
  by (simp_all add: cursor_new_def)

lemma cur_ok_new [simp]: "cur_ok (cursor_new s)"
  by (simp add: cur_ok_def)

lemma bump_le [cursor_mono]: "cur_le c (bump c)"
  by (auto simp: cur_le_def cur_ok_def bump_def peek_Some split: option.splits)

lemma bump_lt: "peek c = Some b \<Longrightarrow> cur_lt c (bump c)"
  by (frule peek_Some[THEN iffD1]) (auto simp: cur_le_def cur_lt_def cur_ok_def bump_def)

lemma bump_pos: "peek c = Some b \<Longrightarrow> cur_pos (bump c) = Suc (cur_pos c)"
  by (simp add: bump_def)

lemma advance_le: "peek_nth n c = Some b \<Longrightarrow> m \<le> Suc n \<Longrightarrow> cur_le c (advance_bytes m c)"
  by (auto simp: cur_le_def cur_ok_def advance_bytes_def peek_nth_Some)

lemma advance_lt: "peek_nth n c = Some b \<Longrightarrow> m \<le> Suc n \<Longrightarrow> 0 < m \<Longrightarrow> cur_lt c (advance_bytes m c)"
  using advance_le by (simp add: cur_lt_def)

lemma advance_in_source:
  "cur_pos c + n \<le> length (cur_src c) \<Longrightarrow> cur_le c (advance_bytes n c)"
  by (auto simp: cur_le_def cur_ok_def advance_bytes_def)

text \<open>The loop is a prefix computation.\<close>

lemma eat_while_takeWhile:
  "eat_while p c = c\<lparr>cur_pos := cur_pos c + length (takeWhile p (drop (cur_pos c) (cur_src c)))\<rparr>"
proof (induction p c rule: eat_while.induct)
  case (1 p c)
  show ?case
  proof (cases "peek c")
    case None
    then show ?thesis using peek_None[of c] by (simp add: eat_while.simps[of p c])
  next
    case (Some b)
    then have d: "drop (cur_pos c) (cur_src c) = b # drop (Suc (cur_pos c)) (cur_src c)"
      by (auto simp: peek_Some Cons_nth_drop_Suc)
    show ?thesis
    proof (cases "p b")
      case True
      then show ?thesis using 1[OF Some] Some d by (simp add: eat_while.simps[of p c])
    next
      case False
      then show ?thesis using Some d by (simp add: eat_while.simps[of p c])
    qed
  qed
qed

lemma cur_src_eat_while [simp]: "cur_src (eat_while p c) = cur_src c"
  by (simp add: eat_while_takeWhile)

lemma eat_while_le [cursor_mono]: "cur_le c (eat_while p c)"
proof -
  have "length (takeWhile p (drop (cur_pos c) (cur_src c))) \<le> length (cur_src c) - cur_pos c"
    by (metis length_drop length_takeWhile_le)
  then show ?thesis by (auto simp: cur_le_def cur_ok_def eat_while_takeWhile)
qed

lemma eat_while_stop: "peek (eat_while p c) = Some b \<Longrightarrow> \<not> p b"
proof (induction p c rule: eat_while.induct)
  case (1 p c)
  then show ?case
    by (cases "peek c") (auto simp: eat_while.simps[of p c] split: if_splits)
qed

lemma eat_while_all:
  "cur_pos c \<le> k \<Longrightarrow> k < cur_pos (eat_while p c) \<Longrightarrow> p (cur_src c ! k)"
proof (induction p c arbitrary: k rule: eat_while.induct)
  case (1 p c)
  show ?case
  proof (cases "\<exists>b. peek c = Some b \<and> p b")
    case True
    then obtain b where b: "peek c = Some b" "p b" by blast
    show ?thesis
    proof (cases "k = cur_pos c")
      case True
      then show ?thesis using b by (simp add: peek_Some)
    next
      case False
      then show ?thesis using 1 b by (simp add: eat_while.simps[of p c])
    qed
  next
    case False
    then have "eat_while p c = c"
      by (auto simp: eat_while.simps[of p c] split: option.splits)
    then show ?thesis using "1.prems" by simp
  qed
qed

lemma eat_while_lt: "peek c = Some b \<Longrightarrow> p b \<Longrightarrow> cur_lt c (eat_while p c)"
proof -
  assume b: "peek c = Some b" "p b"
  then have "eat_while p c = eat_while p (bump c)"
    by (simp add: eat_while.simps[of p c] bump_def)
  then show "cur_lt c (eat_while p c)"
    using cur_lt_le_trans[OF bump_lt[OF b(1)] eat_while_le] by metis
qed

subsection \<open>Decoding\<close>

lemma next_char_len: "next_char s = Some ch \<Longrightarrow> len_utf8 ch \<le> length s"
  by (auto simp: len_utf8_def split: if_splits list.splits elim!: next_char.elims)

lemma len_utf8_pos [simp]: "0 < len_utf8 ch"
  by (simp add: len_utf8_def)

lemma char_at_bound: "char_at n c = Some ch \<Longrightarrow> cur_pos c + n + len_utf8 ch \<le> length (cur_src c)"
  by (auto simp: char_at_def Let_def dest!: next_char_len split: if_splits)

lemma bump_char_le [cursor_mono]: "cur_le c (bump_char c)"
  using char_at_bound[of 0 c]
  by (auto simp: cur_le_def cur_ok_def bump_char_def split: option.splits)

lemma bump_char_lt: "char_at 0 c = Some ch \<Longrightarrow> cur_lt c (bump_char c)"
  using bump_char_le[of c] by (simp add: cur_lt_def bump_char_def)

lemma bump_char_advance: "char_at 0 c = Some ch \<Longrightarrow> bump_char c = advance_bytes (len_utf8 ch) c"
  by (simp add: bump_char_def advance_bytes_def)

end
