(* ===== verification/Lex_Tokens.thy ===== *)
theory Lex_Tokens
  imports Squonk_Prelude Source_Vocab Keyword_Set Source_Cursor
begin

text \<open>
  Tokens and lexical errors: \<open>crates/squonk/src/tokenizer/token.rs\<close> and
  \<open>tokenizer/error.rs\<close>. A scanner either returns a value, or fails: with a lexical error
  the program reports (\<open>Lex\<close>), or by a panic of the program (\<open>Panic\<close>), which is a value
  here so that its absence is a theorem and not an assumption.
\<close>

subsection \<open>Tokens\<close>

datatype operator =
    Opr_Plus
  | Opr_Minus
  | Opr_Star
  | Opr_Slash
  | Opr_SlashSlash
  | Opr_Percent
  | Opr_Eq
  | Opr_EqEq
  | Opr_Lt
  | Opr_LtEq
  | Opr_Gt
  | Opr_GtEq
  | Opr_NotEq
  | Opr_LtEqGt
  | Opr_Concat
  | Opr_AmpAmp
  | Opr_Bang
  | Opr_Pipe
  | Opr_Amp
  | Opr_Caret
  | Opr_CaretAt
  | Opr_Tilde
  | Opr_ShiftLeft
  | Opr_ShiftRight
  | Opr_Hash
  | Opr_Arrow
  | Opr_ColonEquals
  | Opr_AtGt
  | Opr_LtAt
  | Opr_MinusGt
  | Opr_MinusGtGt
  | Opr_PipeArrow
  | Opr_Question
  | Opr_QuestionPipe
  | Opr_QuestionAmp
  | Opr_AtQuestion
  | Opr_AtAt
  | Opr_HashGt
  | Opr_HashGtGt
  | Opr_HashMinus
  | Opr_Custom

datatype punctuation =
    P_LParen
  | P_RParen
  | P_Comma
  | P_Semicolon
  | P_Dot
  | P_LBracket
  | P_RBracket
  | P_LBrace
  | P_RBrace
  | P_Colon
  | P_DoubleColon
  | P_At

datatype token_kind =
    Tk_Word
  | Tk_Keyword keyword
  | Tk_Number
  | Tk_String
  | Tk_QuotedIdent
  | Tk_Parameter
  | Tk_PositionalColumn
  | Tk_Variable
  | Tk_StageReference
  | Tk_Operator operator
  | Tk_Punctuation punctuation
  | Tk_Unknown

datatype token = Token (token_kind: token_kind) (token_span: span)

subsection \<open>Errors\<close>

datatype lex_error_kind =
    UnterminatedString
  | UnterminatedQuotedIdent
  | UnterminatedBlockComment
  | UnterminatedDollarQuote
  | StrayByte
  | InvalidEscapeSequence
  | NulByteInString
  | NulByteInIdentifier
  | NulByteInComment
  | ZeroLengthDelimitedIdentifier
  | TrailingJunkAfterNumber
  | MalformedBlobLiteral
  | SourceTooLong

datatype lex_error = LexError (lex_error_kind: lex_error_kind) (lex_error_span: span)

fun message :: "lex_error_kind \<Rightarrow> string" where
  "message UnterminatedString = ''unterminated string literal''"
| "message UnterminatedQuotedIdent = ''unterminated quoted identifier''"
| "message UnterminatedBlockComment = ''unterminated block comment''"
| "message UnterminatedDollarQuote = ''unterminated dollar-quoted string''"
| "message StrayByte = ''stray byte''"
| "message InvalidEscapeSequence = ''invalid escape sequence in string literal''"
| "message NulByteInString = ''NUL byte in string literal''"
| "message NulByteInIdentifier = ''NUL byte in quoted identifier''"
| "message NulByteInComment = ''NUL byte in comment''"
| "message ZeroLengthDelimitedIdentifier = ''zero-length delimited identifier''"
| "message TrailingJunkAfterNumber = ''trailing junk after numeric literal''"
| "message MalformedBlobLiteral = ''malformed hexadecimal blob literal''"
| "message SourceTooLong = ''source exceeds u32::MAX bytes''"

fun machine_kind :: "lex_error_kind \<Rightarrow> string" where
  "machine_kind UnterminatedString = ''unterminated_string''"
| "machine_kind UnterminatedQuotedIdent = ''unterminated_quoted_identifier''"
| "machine_kind UnterminatedBlockComment = ''unterminated_block_comment''"
| "machine_kind UnterminatedDollarQuote = ''unterminated_dollar_quote''"
| "machine_kind StrayByte = ''stray_byte''"
| "machine_kind InvalidEscapeSequence = ''invalid_escape_sequence''"
| "machine_kind NulByteInString = ''nul_byte_in_string''"
| "machine_kind NulByteInIdentifier = ''nul_byte_in_identifier''"
| "machine_kind NulByteInComment = ''nul_byte_in_comment''"
| "machine_kind ZeroLengthDelimitedIdentifier = ''zero_length_delimited_identifier''"
| "machine_kind TrailingJunkAfterNumber = ''trailing_junk_after_number''"
| "machine_kind MalformedBlobLiteral = ''malformed_blob_literal''"
| "machine_kind SourceTooLong = ''source_too_long''"

datatype lex_failure = Lex lex_error | Panic

subsection \<open>Building tokens and errors\<close>

text \<open>\<open>Token::new(kind, Span::new(start, cursor.pos()))\<close>, with the panic of \<open>Span::new\<close>.\<close>

definition token_from :: "token_kind \<Rightarrow> nat \<Rightarrow> cursor \<Rightarrow> lex_failure + (token \<times> cursor)" where
  "token_from kind start c = (case span_new start (cur_pos c) of
      None \<Rightarrow> Inl Panic | Some sp \<Rightarrow> Inr (Token kind sp, c))"

text \<open>\<open>Err(LexError::new(kind, Span::new(start, end)))\<close>.\<close>

definition lex_err :: "lex_error_kind \<Rightarrow> nat \<Rightarrow> nat \<Rightarrow> lex_failure" where
  "lex_err kind s e = (case span_new s e of None \<Rightarrow> Panic | Some sp \<Rightarrow> Lex (LexError kind sp))"

lemma token_from_ok:
  "start \<le> cur_pos c \<Longrightarrow> token_from kind start c = Inr (Token kind (Span start (cur_pos c)), c)"
  by (simp add: token_from_def span_new_def)

lemma lex_err_ok: "s \<le> e \<Longrightarrow> lex_err kind s e = Lex (LexError kind (Span s e))"
  by (simp add: lex_err_def span_new_def)

subsection \<open>What every scanner promises\<close>

text \<open>
  \<open>fails_in lo src f\<close>: a failure that is a lexical error, not a panic, placed between an offset
  and the end of the source. \<open>advances lo c r\<close>: a helper that moves the cursor forward,
  its failures placed at or after \<open>lo\<close>.
\<close>

fun fails_in :: "nat \<Rightarrow> source \<Rightarrow> lex_failure \<Rightarrow> bool" where
  "fails_in lo src (Lex e) \<longleftrightarrow> lo \<le> span_start (lex_error_span e)
     \<and> span_start (lex_error_span e) \<le> span_end (lex_error_span e)
     \<and> span_end (lex_error_span e) \<le> length src"
| "fails_in lo src Panic \<longleftrightarrow> False"

definition advances :: "nat \<Rightarrow> cursor \<Rightarrow> lex_failure + cursor \<Rightarrow> bool" where
  "advances lo c r \<longleftrightarrow> (case r of
      Inl f \<Rightarrow> fails_in lo (cur_src c) f | Inr c' \<Rightarrow> cur_le c c')"

lemma advances_trans: "cur_le c c1 \<Longrightarrow> advances lo c1 r \<Longrightarrow> advances lo c r"
  by (auto simp: advances_def cur_leD(1) intro: cur_le_trans split: sum.splits)

lemma advances_Inr [simp]: "advances lo c (Inr c') \<longleftrightarrow> cur_le c c'"
  by (simp add: advances_def)

lemma advances_Inl [simp]: "advances lo c (Inl f) \<longleftrightarrow> fails_in lo (cur_src c) f"
  by (simp add: advances_def)

lemma fails_in_lex_err:
  "lo \<le> s \<Longrightarrow> s \<le> e \<Longrightarrow> e \<le> length src \<Longrightarrow> fails_in lo src (lex_err kind s e)"
  by (simp add: lex_err_ok)

lemma fails_in_mono: "lo' \<le> lo \<Longrightarrow> fails_in lo src f \<Longrightarrow> fails_in lo' src f"
  by (cases f) auto

end
