(* ===== verification/Trivia_Index.thy ===== *)
theory Trivia_Index
  imports Squonk_Prelude Source_Vocab
begin

text \<open>
  Out-of-band trivia, \<open>crates/squonk/src/tokenizer/trivia.rs\<close>: the captured runs, the sink
  the scanner records into, and the offset index with its two binary-search queries.
\<close>

subsection \<open>Runs, sinks, the index\<close>

datatype trivia_kind = LineComment | BlockComment | Whitespace

datatype trivia_range = TriviaRange (trivia_kind: trivia_kind) (trivia_span: span)

text \<open>
  A sink is the recording \<open>Vec\<close> (\<open>Some\<close> of the runs recorded so far) or \<open>NoTrivia\<close>
  (\<open>None\<close>), whose \<open>record\<close> does nothing.
\<close>

type_synonym trivia_sink = "trivia_range list option"

definition NoTrivia :: trivia_sink where
  "NoTrivia = None"

definition recording :: "trivia_sink \<Rightarrow> bool" where
  "recording sink \<longleftrightarrow> sink \<noteq> None"

fun record_trivia :: "trivia_sink \<Rightarrow> trivia_range \<Rightarrow> trivia_sink" where
  "record_trivia None r = None"
| "record_trivia (Some rs) r = Some (rs @ [r])"

record trivia_index =
  ranges :: "trivia_range list"

definition trivia_index_new :: "trivia_range list \<Rightarrow> trivia_index" where
  "trivia_index_new rs = \<lparr>ranges = rs\<rparr>"

definition trivia_all :: "trivia_index \<Rightarrow> trivia_range list" where
  "trivia_all ix = ranges ix"

definition trivia_len :: "trivia_index \<Rightarrow> nat" where
  "trivia_len ix = length (ranges ix)"

definition trivia_is_empty :: "trivia_index \<Rightarrow> bool" where
  "trivia_is_empty ix \<longleftrightarrow> ranges ix = []"

abbreviation run_start :: "trivia_range \<Rightarrow> nat" where
  "run_start r \<equiv> span_start (trivia_span r)"

abbreviation run_end :: "trivia_range \<Rightarrow> nat" where
  "run_end r \<equiv> span_end (trivia_span r)"

definition in_span :: "trivia_index \<Rightarrow> span \<Rightarrow> trivia_range list" where
  "in_span ix sp =
     (if is_synthetic sp then []
      else let lo = partition_point (\<lambda>r. run_start r < span_start sp) (ranges ix);
               hi = partition_point (\<lambda>r. run_end r \<le> span_end sp) (ranges ix)
           in if lo \<ge> hi then [] else subslice (ranges ix) lo hi)"

text \<open>The \<open>while start > 0\<close> loop of \<open>before\<close>, walking back over abutting runs.\<close>

fun chain_start :: "trivia_range list \<Rightarrow> nat \<Rightarrow> nat \<Rightarrow> nat" where
  "chain_start rs 0 boundary = 0"
| "chain_start rs (Suc k) boundary =
     (let sp = trivia_span (rs ! k) in
      if span_end sp \<noteq> boundary then Suc k else chain_start rs k (span_start sp))"

definition before :: "trivia_index \<Rightarrow> nat \<Rightarrow> trivia_range list" where
  "before ix offset =
     (let e = partition_point (\<lambda>r. run_end r \<le> offset) (ranges ix)
      in subslice (ranges ix) (chain_start (ranges ix) e offset) e)"

subsection \<open>The invariant the scanner maintains\<close>

definition runs_sorted :: "trivia_range list \<Rightarrow> bool" where
  "runs_sorted rs \<longleftrightarrow> (\<forall>r\<in>set rs. run_start r < run_end r)
     \<and> sorted_wrt (\<lambda>p q. run_end p \<le> run_start q) rs"

lemma runs_sorted_Nil [simp]: "runs_sorted []"
  by (simp add: runs_sorted_def)

lemma runs_sorted_snoc:
  "runs_sorted rs \<Longrightarrow> run_start r < run_end r \<Longrightarrow> (\<forall>q\<in>set rs. run_end q \<le> run_start r)
     \<Longrightarrow> runs_sorted (rs @ [r])"
  by (auto simp: runs_sorted_def sorted_wrt_append)

lemma runs_starts_sorted:
  assumes "runs_sorted rs"
  shows "sorted_wrt (\<lambda>p q. run_start q < x \<longrightarrow> run_start p < x) rs"
    and "sorted_wrt (\<lambda>p q. run_end q \<le> y \<longrightarrow> run_end p \<le> y) rs"
proof -
  have ne: "\<And>r. r \<in> set rs \<Longrightarrow> run_start r < run_end r"
    and s: "sorted_wrt (\<lambda>p q. run_end p \<le> run_start q) rs"
    using assms by (auto simp: runs_sorted_def)
  show "sorted_wrt (\<lambda>p q. run_start q < x \<longrightarrow> run_start p < x) rs"
    by (rule sorted_wrt_mono_rel[OF _ s]) (use ne in fastforce)
  show "sorted_wrt (\<lambda>p q. run_end q \<le> y \<longrightarrow> run_end p \<le> y) rs"
    by (rule sorted_wrt_mono_rel[OF _ s]) (use ne in fastforce)
qed

lemma partition_point_take: "partition_point p (take n xs) = min n (partition_point p xs)"
proof (induction xs arbitrary: n)
  case (Cons x xs)
  then show ?case by (cases n) (auto simp: partition_point_def)
qed (simp add: partition_point_def)

text \<open>Two monotone predicates cut out a contiguous block.\<close>

lemma slice_partition_points:
  assumes "sorted_wrt (\<lambda>x y. p y \<longrightarrow> p x) xs" "sorted_wrt (\<lambda>x y. q y \<longrightarrow> q x) xs"
  shows "subslice xs (partition_point q xs) (partition_point p xs) = filter (\<lambda>x. p x \<and> \<not> q x) xs"
proof -
  let ?hi = "partition_point p xs" and ?lo = "partition_point q xs"
  have hi: "take ?hi xs = filter p xs"
    using assms(1) by (rule partition_point_filter)
  have "sorted_wrt (\<lambda>x y. q y \<longrightarrow> q x) (take ?hi xs)"
    using assms(2) by (rule sorted_wrt_take)
  then have "drop (min ?hi ?lo) (take ?hi xs) = filter (\<lambda>x. \<not> q x) (take ?hi xs)"
    using partition_point_drop[of q "take ?hi xs"] by (simp add: partition_point_take)
  moreover have "drop (min ?hi ?lo) (take ?hi xs) = subslice xs ?lo ?hi"
    by (cases "?lo \<le> ?hi") (auto simp: subslice_def drop_take)
  ultimately show ?thesis by (simp add: hi conj_commute)
qed

lemma in_span_sorted:
  assumes "runs_sorted (ranges ix)"
  shows "in_span ix sp = filter (\<lambda>r. \<not> is_synthetic sp
      \<and> span_start sp \<le> run_start r \<and> run_end r \<le> span_end sp) (ranges ix)"
proof (cases "is_synthetic sp")
  case False
  let ?q = "\<lambda>r. run_start r < span_start sp" and ?p = "\<lambda>r. run_end r \<le> span_end sp"
  note s = slice_partition_points[OF runs_starts_sorted(2)[OF assms, of "span_end sp"]
      runs_starts_sorted(1)[OF assms, of "span_start sp"]]
  have "in_span ix sp = subslice (ranges ix) (partition_point ?q (ranges ix)) (partition_point ?p (ranges ix))"
    using False by (auto simp: in_span_def Let_def subslice_def)
  then show ?thesis using s False by (simp add: not_less conj_commute)
qed (simp add: in_span_def)

text \<open>
  C21. A span query returns exactly the runs that lie inside the span, in source order; a
  synthetic span recovers nothing.
\<close>

theorem in_span_filter:
  assumes "runs_sorted (ranges ix)"
  shows "in_span ix sp = filter (\<lambda>r. \<not> is_synthetic sp
      \<and> span_start sp \<le> run_start r \<and> run_end r \<le> span_end sp) (ranges ix)"
  using assms by (rule in_span_sorted)

theorem in_span_filter_witness:
  "in_span (trivia_index_new
      [TriviaRange Whitespace (Span 2 3), TriviaRange LineComment (Span 3 9),
       TriviaRange Whitespace (Span 12 14)]) (Span 3 13)
   = [TriviaRange LineComment (Span 3 9)]"
proof -
  have "runs_sorted (ranges (trivia_index_new
      [TriviaRange Whitespace (Span 2 3), TriviaRange LineComment (Span 3 9),
       TriviaRange Whitespace (Span 12 14)]))"
    by (simp add: trivia_index_new_def runs_sorted_def)
  from in_span_filter[OF this, of "Span 3 13"] show ?thesis
    by (simp add: trivia_index_new_def is_synthetic_def u32_max_def)
qed

lemma chain_start_le: "chain_start rs k b \<le> k"
proof (induction rs k b rule: chain_start.induct)
  case (2 rs k b)
  then show ?case by (auto simp: Let_def le_Suc_eq)
qed simp

abbreviation run_bounds :: "trivia_range \<Rightarrow> nat \<times> nat" where
  "run_bounds r \<equiv> (run_start r, run_end r)"

lemma chain_start_tiles:
  assumes "\<forall>r\<in>set rs. run_start r < run_end r" "k \<le> length rs"
  shows "\<exists>b. tiles (map run_bounds (subslice rs (chain_start rs k off) k)) b off
     \<and> (chain_start rs k off = 0 \<or> run_end (rs ! (chain_start rs k off - 1)) \<noteq> b)"
  using assms
proof (induction rs k off rule: chain_start.induct)
  case (1 rs off)
  then show ?case by simp
next
  case (2 rs k off)
  let ?r = "rs ! k"
  show ?case
  proof (cases "run_end ?r = off")
    case False
    then show ?thesis by (intro exI[of _ off]) (simp add: Let_def)
  next
    case True
    let ?s = "chain_start rs k (run_start ?r)"
    from 2(1)[OF refl _ 2(2)] True 2(3) obtain b where
      b: "tiles (map run_bounds (subslice rs ?s k)) b (run_start ?r)"
         "?s = 0 \<or> run_end (rs ! (?s - 1)) \<noteq> b" by auto
    have "subslice rs ?s (Suc k) = subslice rs ?s k @ subslice rs k (Suc k)"
      using chain_start_le[of rs k] by (simp add: slice_append)
    moreover have "subslice rs k (Suc k) = [?r]"
      using 2(3) by (simp add: slice_Cons)
    moreover have "run_start ?r < run_end ?r" using 2(2,3) by simp
    ultimately have "tiles (map run_bounds (subslice rs ?s (Suc k))) b off"
      using b(1) True tiles_snoc[OF b(1)] by simp
    then show ?thesis using True b(2) by (auto simp: Let_def)
  qed
qed

lemma nth_partition_point: "i < partition_point p xs \<Longrightarrow> p (xs ! i)"
  by (metis partition_point_def takeWhile_nth nth_mem set_takeWhileD)

text \<open>Everything in front of the chain ends before the chain begins.\<close>

lemma before_chain_ends:
  assumes "runs_sorted rs" "e \<le> length rs" "\<And>i. i < e \<Longrightarrow> run_end (rs ! i) \<le> off"
    and "s \<le> e" "tiles (map run_bounds (subslice rs s e)) b off"
    and "s = 0 \<or> run_end (rs ! (s - 1)) \<noteq> b" and "i < s"
  shows "run_end (rs ! i) < b"
proof -
  have ne: "\<And>i. i < length rs \<Longrightarrow> run_start (rs ! i) < run_end (rs ! i)"
    and le: "\<And>i j. i < j \<Longrightarrow> j < length rs \<Longrightarrow> run_end (rs ! i) \<le> run_start (rs ! j)"
    using assms(1) by (auto simp: runs_sorted_def sorted_wrt_iff_nth_less)
  have weak: "run_end (rs ! j) \<le> b" if "j < s" for j
  proof (cases "s = e")
    case True
    with assms(5) have "b = off" by simp
    with True that assms(3) show ?thesis by simp
  next
    case False
    with assms(2,4) have se: "s < e" "s < length rs" by simp_all
    with assms(2,5) have "run_start (rs ! s) = b" by (simp add: slice_Cons)
    with le[OF that se(2)] show ?thesis by simp
  qed
  show ?thesis
  proof (cases "i = s - 1")
    case True
    with weak[OF assms(7)] assms(6,7) show ?thesis by auto
  next
    case False
    with assms(7) have i: "i < s - 1" "s - 1 < s" "s - 1 < length rs"
      using assms(2,4) by linarith+
    from le[OF i(1,3)] ne[OF i(3)] weak[OF i(2)] show ?thesis by linarith
  qed
qed

text \<open>
  C22. The leading trivia of an offset is the maximal chain of runs that abut each other and
  end exactly there: the chain tiles some interval up to the offset, holds every run inside
  that interval, and no run ends where the chain begins.
\<close>

theorem before_chain:
  assumes "runs_sorted (ranges ix)"
  shows "\<exists>b. tiles (map run_bounds (before ix off)) b off
     \<and> (\<forall>r\<in>set (ranges ix). r \<in> set (before ix off) \<longleftrightarrow> b \<le> run_start r \<and> run_end r \<le> off)
     \<and> (\<forall>r\<in>set (ranges ix). run_end r \<noteq> b)"
proof -
  let ?rs = "ranges ix"
  define e where "e = partition_point (\<lambda>r. run_end r \<le> off) ?rs"
  define s where "s = chain_start ?rs e off"
  have ne: "\<forall>r\<in>set ?rs. run_start r < run_end r"
    using assms by (simp add: runs_sorted_def)
  have e: "e \<le> length ?rs" "\<And>i. i < e \<Longrightarrow> run_end (?rs ! i) \<le> off"
    using nth_partition_point[of _ "\<lambda>r. run_end r \<le> off" ?rs] by (simp_all add: e_def partition_point_le)
  have in_prefix: "i < e" if "i < length ?rs" "run_end (?rs ! i) \<le> off" for i
  proof (rule ccontr)
    assume "\<not> i < e"
    then have "?rs ! i \<in> set (drop e ?rs)"
      using that(1) by (auto simp: in_set_conv_nth intro!: exI[of _ "i - e"])
    then show False
      using partition_point_drop[OF runs_starts_sorted(2)[OF assms, of off]] that(2)
      by (simp add: e_def)
  qed
  have se: "s \<le> e" by (simp add: s_def chain_start_le)
  from chain_start_tiles[OF ne e(1), of off] obtain b where
    b: "tiles (map run_bounds (subslice ?rs s e)) b off" "s = 0 \<or> run_end (?rs ! (s - 1)) \<noteq> b"
    by (auto simp: s_def)
  have bef: "before ix off = subslice ?rs s e" by (simp add: before_def Let_def e_def s_def)
  have front: "run_end (?rs ! i) < b" if "i < s" for i
    by (rule before_chain_ends[OF assms e se b that])
  have inside: "b \<le> run_start r \<and> run_end r \<le> off" if "r \<in> set (subslice ?rs s e)" for r
    using tiles_bounds[OF b(1), of "run_start r" "run_end r"] that by force
  have mem: "r \<in> set (subslice ?rs s e)" if "r \<in> set ?rs" "b \<le> run_end r" "run_end r \<le> off" for r
  proof -
    from that(1) obtain i where i: "i < length ?rs" "?rs ! i = r" by (auto simp: in_set_conv_nth)
    from that(2) i(2) front[of i] have "\<not> i < s" by auto
    moreover from that(3) i in_prefix[of i] have "i < e" by auto
    ultimately have "s \<le> i" "i < e" by simp_all
    with i(2) show ?thesis using e(1) se by (auto simp: set_slice)
  qed
  have "\<forall>r\<in>set ?rs. r \<in> set (subslice ?rs s e) \<longleftrightarrow> b \<le> run_start r \<and> run_end r \<le> off"
    using inside mem ne by fastforce
  moreover have "\<forall>r\<in>set ?rs. run_end r \<noteq> b"
    using mem inside ne tiles_le[OF b(1)] by fastforce
  ultimately show ?thesis using b(1) bef by auto
qed

theorem before_chain_witness:
  "\<exists>b. tiles (map run_bounds (before (trivia_index_new
      [TriviaRange Whitespace (Span 2 3), TriviaRange LineComment (Span 3 9)]) 9)) b 9"
proof -
  have "runs_sorted (ranges (trivia_index_new
      [TriviaRange Whitespace (Span 2 3), TriviaRange LineComment (Span 3 9)]))"
    by (simp add: trivia_index_new_def runs_sorted_def)
  from before_chain[OF this, of 9] show ?thesis by blast
qed

end
