(* ===== verification/Escape_Strings.thy ===== *)
theory Escape_Strings
  imports Squonk_Prelude Source_Cursor
begin

text \<open>
  PostgreSQL escape strings (\<open>E'...'\<close>), \<open>crates/squonk-ast/src/ast/literal.rs\<close>: the one
  walk over a body, generic in the sink its decoded bytes go to; the buffer sink that
  materialises the value; the incremental UTF-8 check that decides validity without
  storing anything; and the two entry points built from them.

  The trait \<open>EscapeSink\<close> is the record \<open>escape_sink\<close>. A walk fails with the source's
  \<open>Err(())\<close> (\<open>EscErr\<close>), or with the panic of slicing a string off a character boundary
  (\<open>EscPanic\<close>), which is shown not to happen on valid UTF-8.
\<close>

subsection \<open>Sinks\<close>

datatype escape_failure = EscErr | EscPanic

record 's escape_sink =
  utf8_run :: "'s \<Rightarrow> source \<Rightarrow> escape_failure + 's"
  raw_byte :: "'s \<Rightarrow> byte \<Rightarrow> escape_failure + 's"

definition vec_sink :: "source escape_sink" where
  "vec_sink = \<lparr>utf8_run = (\<lambda>out bs. Inr (out @ bs)), raw_byte = (\<lambda>out b. Inr (out @ [b]))\<rparr>"

text \<open>The validator state: continuation bytes still expected, and the inclusive range of the
  next one.\<close>

type_synonym utf8_tail = "nat \<times> nat \<times> nat"

definition UTF8_TAIL_START :: utf8_tail where
  "UTF8_TAIL_START = (0, 128, 191)"

fun utf8_tail_push :: "utf8_tail \<Rightarrow> byte \<Rightarrow> utf8_tail option" where
  "utf8_tail_push (remaining, lo, hi) b =
     (let v = byte_val b in
      if remaining > 0 then
        (if lo \<le> v \<and> v \<le> hi then Some (remaining - 1, 128, 191) else None)
      else if v \<le> 127 then Some (0, 128, 191)
      else if 194 \<le> v \<and> v \<le> 223 then Some (1, 128, 191)
      else if v = 224 then Some (2, 160, 191)
      else if v = 237 then Some (2, 128, 159)
      else if (225 \<le> v \<and> v \<le> 236) \<or> (238 \<le> v \<and> v \<le> 239) then Some (2, 128, 191)
      else if v = 240 then Some (3, 144, 191)
      else if v = 244 then Some (3, 128, 143)
      else if 241 \<le> v \<and> v \<le> 243 then Some (3, 128, 191)
      else None)"

fun utf8_tail_run :: "utf8_tail \<Rightarrow> source \<Rightarrow> utf8_tail option" where
  "utf8_tail_run t [] = Some t"
| "utf8_tail_run t (b # bs) = (case utf8_tail_push t b of None \<Rightarrow> None | Some t' \<Rightarrow> utf8_tail_run t' bs)"

definition or_err :: "'s option \<Rightarrow> escape_failure + 's" where
  "or_err r = (case r of None \<Rightarrow> Inl EscErr | Some s \<Rightarrow> Inr s)"

definition utf8_tail_sink :: "utf8_tail escape_sink" where
  "utf8_tail_sink = \<lparr>utf8_run = (\<lambda>t bs. or_err (utf8_tail_run t bs)),
     raw_byte = (\<lambda>t b. or_err (utf8_tail_push t b))\<rparr>"

subsection \<open>One escape\<close>

definition push_escape_byte :: "'s escape_sink \<Rightarrow> 's \<Rightarrow> byte \<Rightarrow> escape_failure + 's" where
  "push_escape_byte k out b = (if b = CHR 0x00 then Inl EscErr else raw_byte k out b)"

definition hex_value :: "byte \<Rightarrow> nat option" where
  "hex_value b =
     (if 48 \<le> byte_val b \<and> byte_val b \<le> 57 then Some (byte_val b - 48)
      else if 97 \<le> byte_val b \<and> byte_val b \<le> 102 then Some (byte_val b - 97 + 10)
      else if 65 \<le> byte_val b \<and> byte_val b \<le> 70 then Some (byte_val b - 65 + 10)
      else None)"

text \<open>\<open>char::encode_utf8\<close> and \<open>char::from_u32\<close>.\<close>

definition encode_utf8 :: "nat \<Rightarrow> source" where
  "encode_utf8 ch =
     (if ch < 128 then [char_of ch]
      else if ch < 2048 then [char_of (192 + ch div 64), char_of (128 + ch mod 64)]
      else if ch < 65536 then [char_of (224 + ch div 4096), char_of (128 + (ch div 64) mod 64),
             char_of (128 + ch mod 64)]
      else [char_of (240 + ch div 262144), char_of (128 + (ch div 4096) mod 64),
             char_of (128 + (ch div 64) mod 64), char_of (128 + ch mod 64)])"

definition char_from_u32 :: "nat \<Rightarrow> nat option" where
  "char_from_u32 v = (if v < 55296 \<or> (57344 \<le> v \<and> v < 1114112) then Some v else None)"

text \<open>A step returns the new index with the new sink.\<close>

definition and_index :: "nat \<Rightarrow> escape_failure + 's \<Rightarrow> escape_failure + (nat \<times> 's)" where
  "and_index i r = (case r of Inl e \<Rightarrow> Inl e | Inr s \<Rightarrow> Inr (i, s))"

definition consume_escaped_char :: "'s escape_sink \<Rightarrow> source \<Rightarrow> nat \<Rightarrow> 's \<Rightarrow> escape_failure + (nat \<times> 's)" where
  "consume_escaped_char k body i out =
     (if \<not> (i \<le> length body \<and> is_char_boundary body i) then Inl EscPanic
      else case next_char (drop i body) of
        None \<Rightarrow> Inl EscErr
      | Some ch \<Rightarrow>
          if ch = 0 then Inl EscErr
          else and_index (i + len_utf8 ch) (utf8_run k out (encode_utf8 ch)))"

text \<open>Up to three octal digits.\<close>

fun octal_digits :: "nat \<Rightarrow> source \<Rightarrow> nat \<Rightarrow> nat \<Rightarrow> nat \<times> nat" where
  "octal_digits 0 bytes i value = (value, i)"
| "octal_digits (Suc n) bytes i value = (case get_at bytes i of
      None \<Rightarrow> (value, i)
    | Some b \<Rightarrow>
        if 48 \<le> byte_val b \<and> byte_val b \<le> 55
        then octal_digits n bytes (i + 1) (value * 8 + (byte_val b - 48)) else (value, i))"

definition consume_octal_escape :: "'s escape_sink \<Rightarrow> source \<Rightarrow> nat \<Rightarrow> 's \<Rightarrow> escape_failure + (nat \<times> 's)" where
  "consume_octal_escape k bytes i out =
     (let (value, i') = octal_digits 3 bytes i 0
      in and_index i' (push_escape_byte k out (char_of (value mod 256))))"

definition consume_hex_escape :: "'s escape_sink \<Rightarrow> source \<Rightarrow> nat \<Rightarrow> 's \<Rightarrow> escape_failure + (nat \<times> 's)" where
  "consume_hex_escape k body i out =
     (let start = i + 1 in
      case Option.bind (get_at body start) hex_value of
        None \<Rightarrow> consume_escaped_char k body i out
      | Some first \<Rightarrow>
          (case Option.bind (get_at body (start + 1)) hex_value of
             Some second \<Rightarrow>
               and_index (start + 2) (push_escape_byte k out (char_of ((first * 16 + second) mod 256)))
           | None \<Rightarrow> and_index (start + 1) (push_escape_byte k out (char_of (first mod 256)))))"

fun hex_number :: "nat \<Rightarrow> source \<Rightarrow> nat option" where
  "hex_number value [] = Some value"
| "hex_number value (b # bs) = (case hex_value b of
      None \<Rightarrow> None | Some digit \<Rightarrow> hex_number (value * 16 + digit) bs)"

definition consume_unicode_escape ::
    "'s escape_sink \<Rightarrow> source \<Rightarrow> nat \<Rightarrow> 's \<Rightarrow> nat \<Rightarrow> escape_failure + (nat \<times> 's)" where
  "consume_unicode_escape k bytes i out width =
     (let start = i + 1; e = start + width in
      if length bytes < e then Inl EscErr
      else case hex_number 0 (subslice bytes start e) of
        None \<Rightarrow> Inl EscErr
      | Some value \<Rightarrow>
          (case char_from_u32 value of
             None \<Rightarrow> Inl EscErr
           | Some ch \<Rightarrow>
               if ch = 0 then Inl EscErr else and_index e (utf8_run k out (encode_utf8 ch))))"

definition consume_postgres_escape ::
    "'s escape_sink \<Rightarrow> source \<Rightarrow> nat \<Rightarrow> 's \<Rightarrow> escape_failure + (nat \<times> 's)" where
  "consume_postgres_escape k body i out = (case get_at body i of
      None \<Rightarrow> Inl EscErr
    | Some b \<Rightarrow>
        if b = CHR ''b'' then and_index (i + 1) (push_escape_byte k out (CHR 0x08))
        else if b = CHR ''f'' then and_index (i + 1) (push_escape_byte k out (CHR 0x0C))
        else if b = CHR ''n'' then and_index (i + 1) (push_escape_byte k out (CHR 0x0A))
        else if b = CHR ''r'' then and_index (i + 1) (push_escape_byte k out (CHR 0x0D))
        else if b = CHR ''t'' then and_index (i + 1) (push_escape_byte k out (CHR 0x09))
        else if 48 \<le> byte_val b \<and> byte_val b \<le> 55 then consume_octal_escape k body i out
        else if b = CHR ''x'' then consume_hex_escape k body i out
        else if b = CHR ''u'' then consume_unicode_escape k body i out 4
        else if b = CHR ''U'' then consume_unicode_escape k body i out 8
        else consume_escaped_char k body i out)"

lemma and_index_Inr [simp]: "and_index i r = Inr (j, s) \<longleftrightarrow> j = i \<and> r = Inr s"
  by (auto simp: and_index_def split: sum.splits)

lemma octal_digits_le: "i \<le> snd (octal_digits n bytes i v)"
proof (induction n bytes i v rule: octal_digits.induct)
  case (2 n bytes i v)
  then show ?case by (cases "get_at bytes i") (auto simp del: get_at_Some get_at_None)
qed simp

lemma consume_postgres_escape_le: "consume_postgres_escape k body i out = Inr (j, out') \<Longrightarrow> i \<le> j"
  using octal_digits_le[of i 3 body 0]
  by (auto simp: consume_postgres_escape_def consume_octal_escape_def consume_hex_escape_def
      consume_unicode_escape_def consume_escaped_char_def Let_def
      simp del: get_at_Some get_at_None octal_digits.simps
      split: option.splits if_splits prod.splits)

subsection \<open>The walk\<close>

function scan_escape_from ::
    "'s escape_sink \<Rightarrow> source \<Rightarrow> nat \<Rightarrow> nat \<Rightarrow> 's \<Rightarrow> escape_failure + 's" where
  "scan_escape_from k body segment_start i out =
     (if i < length body then
        (if body ! i = CHR 0x27 then
           (if get_at body (i + 1) \<noteq> Some (CHR 0x27) then Inl EscErr
            else case utf8_run k out (subslice body segment_start i) of
                Inl e \<Rightarrow> Inl e
              | Inr out1 \<Rightarrow>
                  (case push_escape_byte k out1 (CHR 0x27) of
                     Inl e \<Rightarrow> Inl e
                   | Inr out2 \<Rightarrow> scan_escape_from k body (i + 2) (i + 2) out2))
         else if body ! i = CHR 0x5C then
           (case utf8_run k out (subslice body segment_start i) of
              Inl e \<Rightarrow> Inl e
            | Inr out1 \<Rightarrow>
                (case consume_postgres_escape k body (i + 1) out1 of
                   Inl e \<Rightarrow> Inl e
                 | Inr (j, out2) \<Rightarrow> scan_escape_from k body j j out2))
         else scan_escape_from k body segment_start (i + 1) out)
      else utf8_run k out (drop segment_start body))"
  by pat_completeness auto
termination
  by (relation "measure (\<lambda>(k, body, s, i, out). length body - i)")
    (auto dest!: consume_postgres_escape_le)

declare scan_escape_from.simps [simp del]

definition scan_postgres_escape_string :: "'s escape_sink \<Rightarrow> source \<Rightarrow> 's \<Rightarrow> escape_failure + 's" where
  "scan_postgres_escape_string k body out = scan_escape_from k body 0 0 out"

subsection \<open>The two entry points\<close>

definition needs_walk :: "source \<Rightarrow> bool" where
  "needs_walk body \<longleftrightarrow> CHR 0x5C \<in> set body \<or> CHR 0x27 \<in> set body"

definition materialize_postgres_escape_string :: "source \<Rightarrow> escape_failure + source" where
  "materialize_postgres_escape_string body =
     (if \<not> needs_walk body then Inr body
      else case scan_postgres_escape_string vec_sink body [] of
        Inl e \<Rightarrow> Inl e
      | Inr out \<Rightarrow> if valid_utf8 out then Inr out else Inl EscErr)"

definition postgres_escape_body :: "source \<Rightarrow> source option" where
  "postgres_escape_body text =
     (if length text \<ge> 3 \<and> (text ! 0 = CHR ''E'' \<or> text ! 0 = CHR ''e'') \<and> text ! 1 = CHR 0x27
         \<and> last text = CHR 0x27
      then Some (subslice text 2 (length text - 1)) else None)"

text \<open>The eager check; \<open>None\<close> stands for its panic.\<close>

definition postgres_escape_string_is_valid :: "source \<Rightarrow> bool option" where
  "postgres_escape_string_is_valid text = (case postgres_escape_body text of
      None \<Rightarrow> Some True
    | Some body \<Rightarrow>
        if \<not> needs_walk body then Some True
        else (case scan_postgres_escape_string utf8_tail_sink body UTF8_TAIL_START of
            Inl EscPanic \<Rightarrow> None
          | Inl EscErr \<Rightarrow> Some False
          | Inr tail \<Rightarrow> Some (tail = UTF8_TAIL_START)))"

definition string_literal_embeds_nul :: "source \<Rightarrow> bool" where
  "string_literal_embeds_nul text \<longleftrightarrow> CHR 0x00 \<in> set text"

subsection \<open>One walk, two sinks\<close>

text \<open>
  \<open>sink_view\<close>: the sink \<open>src\<close> never fails, and \<open>view\<close> is what the sink \<open>dst\<close> makes of
  what \<open>src\<close> has collected (nothing, once \<open>dst\<close> has failed). Every walk into \<open>dst\<close> is then
  determined by the walk into \<open>src\<close>.
\<close>

locale sink_view =
  fixes src :: "'s escape_sink" and dst :: "'t escape_sink" and view :: "'s \<Rightarrow> 't option"
  assumes run_total: "\<exists>s'. utf8_run src s bs = Inr s'"
    and raw_total: "\<exists>s'. raw_byte src s b = Inr s'"
    and run_view: "utf8_run src s bs = Inr s' \<Longrightarrow> view s = Some t \<Longrightarrow> utf8_run dst t bs = or_err (view s')"
    and raw_view: "raw_byte src s b = Inr s' \<Longrightarrow> view s = Some t \<Longrightarrow> raw_byte dst t b = or_err (view s')"
    and run_dead: "utf8_run src s bs = Inr s' \<Longrightarrow> view s = None \<Longrightarrow> view s' = None"
    and raw_dead: "raw_byte src s b = Inr s' \<Longrightarrow> view s = None \<Longrightarrow> view s' = None"

context sink_view
begin

lemma run_not_Inl [simp]: "utf8_run src s bs \<noteq> Inl e"
  using run_total by (metis sum.distinct(1))

lemma raw_not_Inl [simp]: "raw_byte src s b \<noteq> Inl e"
  using raw_total by (metis sum.distinct(1))

text \<open>What one step does to the view.\<close>

definition mirrors :: "('t \<Rightarrow> escape_failure + (nat \<times> 't)) \<Rightarrow> 's \<Rightarrow> escape_failure + (nat \<times> 's) \<Rightarrow> bool" where
  "mirrors f s r \<longleftrightarrow> (case r of
      Inl e \<Rightarrow> (\<forall>t. view s = Some t \<longrightarrow> f t = Inl e)
    | Inr (j, s') \<Rightarrow> (view s = None \<longrightarrow> view s' = None)
        \<and> (\<forall>t. view s = Some t \<longrightarrow> f t = and_index j (or_err (view s'))))"

lemma mirrors_run: "mirrors (\<lambda>t. and_index j (utf8_run dst t bs)) s (and_index j (utf8_run src s bs))"
proof -
  obtain s' where "utf8_run src s bs = Inr s'" using run_total by blast
  then show ?thesis using run_view run_dead by (auto simp: mirrors_def and_index_def)
qed

lemma mirrors_push:
  "mirrors (\<lambda>t. and_index j (push_escape_byte dst t b)) s (and_index j (push_escape_byte src s b))"
proof -
  obtain s' where "raw_byte src s b = Inr s'" using raw_total by blast
  then show ?thesis using raw_view raw_dead
    by (auto simp: mirrors_def and_index_def push_escape_byte_def)
qed

lemma mirrors_fail: "mirrors (\<lambda>t. Inl e) s (Inl e)"
  by (simp add: mirrors_def)

lemma mirrors_char: "mirrors (\<lambda>t. consume_escaped_char dst body i t) s (consume_escaped_char src body i s)"
  unfolding consume_escaped_char_def
  by (auto simp: mirrors_fail mirrors_run split: option.splits)

lemma mirrors_escape:
  "mirrors (\<lambda>t. consume_postgres_escape dst body i t) s (consume_postgres_escape src body i s)"
proof -
  have oct: "mirrors (\<lambda>t. consume_octal_escape dst body i t) s (consume_octal_escape src body i s)"
    unfolding consume_octal_escape_def by (auto simp: mirrors_push split: prod.splits simp del: octal_digits.simps)
  have hex: "mirrors (\<lambda>t. consume_hex_escape dst body i t) s (consume_hex_escape src body i s)"
    unfolding consume_hex_escape_def Let_def
    by (auto simp: mirrors_push mirrors_char simp del: get_at_Some get_at_None split: option.splits)
  have uni: "mirrors (\<lambda>t. consume_unicode_escape dst body i t w) s (consume_unicode_escape src body i s w)" for w
    unfolding consume_unicode_escape_def Let_def
    by (auto simp: mirrors_fail mirrors_run split: option.splits)
  show ?thesis
    unfolding consume_postgres_escape_def
    by (auto simp: mirrors_fail mirrors_push oct hex uni mirrors_char
        simp del: get_at_Some get_at_None split: option.splits)
qed

text \<open>What a whole walk does; \<open>dst\<close> may fail earlier than \<open>src\<close>.\<close>

definition follows :: "('t \<Rightarrow> escape_failure + 't) \<Rightarrow> 's \<Rightarrow> escape_failure + 's \<Rightarrow> bool" where
  "follows f s r \<longleftrightarrow> (case r of
      Inl e \<Rightarrow> (\<forall>t. view s = Some t \<longrightarrow> f t = Inl e \<or> f t = Inl EscErr)
    | Inr s' \<Rightarrow> (view s = None \<longrightarrow> view s' = None)
        \<and> (\<forall>t. view s = Some t \<longrightarrow> f t = or_err (view s')))"

lemma follows_after:
  assumes "follows g s1 r" "view s = None \<longrightarrow> view s1 = None"
    "\<And>t. view s = Some t \<Longrightarrow> f t = (case view s1 of None \<Rightarrow> Inl EscErr | Some t1 \<Rightarrow> g t1)"
  shows "follows f s r"
  using assms by (cases r) (auto simp: follows_def or_err_def split: option.splits)

lemma follows_run:
  assumes "utf8_run src s bs = Inr s1" "follows g s1 r"
  shows "follows (\<lambda>t. case utf8_run dst t bs of Inl e \<Rightarrow> Inl e | Inr t1 \<Rightarrow> g t1) s r"
  by (rule follows_after[OF assms(2)])
    (use run_view[OF assms(1)] run_dead[OF assms(1)] in \<open>auto simp: or_err_def split: option.splits\<close>)

lemma follows_push:
  assumes "push_escape_byte src s b = Inr s1" "follows g s1 r"
  shows "follows (\<lambda>t. case push_escape_byte dst t b of Inl e \<Rightarrow> Inl e | Inr t1 \<Rightarrow> g t1) s r"
proof -
  from assms(1) have raw: "raw_byte src s b = Inr s1" "b \<noteq> CHR 0x00"
    by (auto simp: push_escape_byte_def split: if_splits)
  show ?thesis
    by (rule follows_after[OF assms(2)])
      (use raw_view[OF raw(1)] raw_dead[OF raw(1)] raw(2) in
        \<open>auto simp: or_err_def push_escape_byte_def split: option.splits\<close>)
qed

lemma follows_escape:
  assumes "consume_postgres_escape src body i s = Inr (j, s1)" "follows (g j) s1 r"
  shows "follows (\<lambda>t. case consume_postgres_escape dst body i t of
      Inl e \<Rightarrow> Inl e | Inr (j, t1) \<Rightarrow> g j t1) s r"
  by (rule follows_after[OF assms(2)])
    (use mirrors_escape[of body i s] assms(1) in
      \<open>auto simp: mirrors_def or_err_def and_index_def split: option.splits\<close>)

lemma follows_fail: "follows (\<lambda>t. Inl e) s (Inl e)"
  by (simp add: follows_def)

lemma scan_follows: "follows (scan_escape_from dst body seg i) s (scan_escape_from src body seg i s)"
proof (induction "length body - i" arbitrary: seg i s rule: less_induct)
  case less
  have IH: "follows (scan_escape_from dst body seg' j) s' (scan_escape_from src body seg' j s')"
    if "i < length body" "i < j" for seg' j s'
    using less that by (simp add: diff_less_mono2)
  obtain s1 where s1: "utf8_run src s (subslice body seg i) = Inr s1" using run_total by blast
  note simps = scan_escape_from.simps[of _ body seg i]
  consider (finished) "\<not> i < length body"
    | (bad) "i < length body" "body ! i = CHR 0x27" "get_at body (i + 1) \<noteq> Some (CHR 0x27)"
    | (quote) "i < length body" "body ! i = CHR 0x27" "get_at body (i + 1) = Some (CHR 0x27)"
    | (escape) "i < length body" "body ! i = CHR 0x5C"
    | (other) "i < length body" "body ! i \<noteq> CHR 0x27" "body ! i \<noteq> CHR 0x5C" by blast
  then show ?case
  proof cases
    case finished
    obtain s' where s': "utf8_run src s (drop seg body) = Inr s'" using run_total by blast
    have "follows (\<lambda>t. utf8_run dst t (drop seg body)) s (Inr s')"
      using run_view[OF s'] run_dead[OF s'] by (auto simp: follows_def)
    with finished s' show ?thesis by (simp add: simps[abs_def])
  next
    case bad
    then show ?thesis by (simp add: simps[abs_def] follows_fail del: get_at_Some)
  next
    case quote
    obtain s2 where s2: "push_escape_byte src s1 (CHR 0x27) = Inr s2"
      using raw_total by (auto simp: push_escape_byte_def)
    have "follows (\<lambda>t. case utf8_run dst t (subslice body seg i) of Inl e \<Rightarrow> Inl e | Inr t1 \<Rightarrow>
        case push_escape_byte dst t1 (CHR 0x27) of Inl e \<Rightarrow> Inl e | Inr t2 \<Rightarrow>
          scan_escape_from dst body (i + 2) (i + 2) t2) s (scan_escape_from src body (i + 2) (i + 2) s2)"
      by (rule follows_run[OF s1], rule follows_push[OF s2], rule IH) (use quote in simp_all)
    with quote s1 s2 show ?thesis by (simp add: simps[abs_def] del: get_at_Some)
  next
    case escape
    have q: "body ! i \<noteq> CHR 0x27" using escape by simp
    have "follows (\<lambda>t. case utf8_run dst t (subslice body seg i) of Inl e \<Rightarrow> Inl e | Inr t1 \<Rightarrow>
        case consume_postgres_escape dst body (i + 1) t1 of Inl e \<Rightarrow> Inl e | Inr (j, t2) \<Rightarrow>
          scan_escape_from dst body j j t2) s
      (case consume_postgres_escape src body (i + 1) s1 of Inl e \<Rightarrow> Inl e | Inr (j, s2) \<Rightarrow>
          scan_escape_from src body j j s2)"
    proof (rule follows_run[OF s1])
      show "follows (\<lambda>t1. case consume_postgres_escape dst body (i + 1) t1 of Inl e \<Rightarrow> Inl e
          | Inr (j, t2) \<Rightarrow> scan_escape_from dst body j j t2) s1
        (case consume_postgres_escape src body (i + 1) s1 of Inl e \<Rightarrow> Inl e | Inr (j, s2) \<Rightarrow>
          scan_escape_from src body j j s2)"
      proof (cases "consume_postgres_escape src body (i + 1) s1")
        case (Inl e)
        then show ?thesis using mirrors_escape[of body "i + 1" s1]
          by (auto simp: follows_def mirrors_def)
      next
        case (Inr p)
        obtain j s2 where p: "p = (j, s2)" by (cases p)
        with Inr have r: "consume_postgres_escape src body (i + 1) s1 = Inr (j, s2)" by simp
        from consume_postgres_escape_le[OF r] escape
        have "follows (scan_escape_from dst body j j) s2 (scan_escape_from src body j j s2)"
          by (intro IH) simp_all
        from follows_escape[OF r, of "\<lambda>j. scan_escape_from dst body j j", OF this] show ?thesis by (simp only: r sum.case prod.case)
      qed
    qed
    with escape q s1 show ?thesis by (simp add: simps[abs_def])
  next
    case other
    with IH[of "i + 1" seg s] show ?thesis by (simp add: simps[abs_def])
  qed
qed

end

subsection \<open>The validator is UTF-8 validity\<close>

lemma utf8_tail_run_append:
  "utf8_tail_run t (xs @ ys) = (case utf8_tail_run t xs of None \<Rightarrow> None | Some t' \<Rightarrow> utf8_tail_run t' ys)"
  by (induction t xs rule: utf8_tail_run.induct) (auto split: option.splits)

interpretation escape: sink_view vec_sink utf8_tail_sink "utf8_tail_run UTF8_TAIL_START"
  by unfold_locales
    (auto simp: vec_sink_def utf8_tail_sink_def utf8_tail_run_append or_err_def split: option.splits)

text \<open>
  The incremental check accepts a byte string, ending at a character boundary, exactly when
  it is valid UTF-8: the narrowed ranges of the first continuation byte are the shortest-form,
  surrogate and maximum rules.
\<close>

lemma tail_push_pending:
  "utf8_tail_push (Suc 0, lo, hi) b = (if lo \<le> byte_val b \<and> byte_val b \<le> hi then Some (0, 128, 191) else None)"
  "utf8_tail_push (2, lo, hi) b = (if lo \<le> byte_val b \<and> byte_val b \<le> hi then Some (Suc 0, 128, 191) else None)"
  "utf8_tail_push (3, lo, hi) b = (if lo \<le> byte_val b \<and> byte_val b \<le> hi then Some (2, 128, 191) else None)"
  by (auto simp: Let_def)

lemma tail_push_lead:
  "byte_val b < 128 \<Longrightarrow> utf8_tail_push (0, lo, hi) b = Some (0, 128, 191)"
  "128 \<le> byte_val b \<Longrightarrow> byte_val b < 194 \<Longrightarrow> utf8_tail_push (0, lo, hi) b = None"
  "194 \<le> byte_val b \<Longrightarrow> byte_val b < 224 \<Longrightarrow> utf8_tail_push (0, lo, hi) b = Some (1, 128, 191)"
  "224 \<le> byte_val b \<Longrightarrow> byte_val b < 240 \<Longrightarrow> utf8_tail_push (0, lo, hi) b
     = Some (2, if byte_val b = 224 then 160 else 128, if byte_val b = 237 then 159 else 191)"
  "240 \<le> byte_val b \<Longrightarrow> byte_val b \<le> 244 \<Longrightarrow> utf8_tail_push (0, lo, hi) b
     = Some (3, if byte_val b = 240 then 144 else 128, if byte_val b = 244 then 143 else 191)"
  "244 < byte_val b \<Longrightarrow> utf8_tail_push (0, lo, hi) b = None"
  by (auto simp: Let_def)

lemma continuation_range: "is_continuation b \<longleftrightarrow> 128 \<le> byte_val b \<and> byte_val b \<le> 191"
  by (auto simp: is_continuation_def)

lemma utf8_tail_valid:
  "utf8_tail_run (0, 128, 191) bs = Some (0, 128, 191) \<longleftrightarrow> valid_utf8 bs"
proof (induction bs rule: length_induct)
  case (1 bs)
  note IH = 1[rule_format]
  show ?case
  proof (cases bs)
    case (Cons x xs)
    consider (ascii) "byte_val x < 128" | (low) "128 \<le> byte_val x" "byte_val x < 194"
      | (two) "194 \<le> byte_val x" "byte_val x < 224" | (three) "224 \<le> byte_val x" "byte_val x < 240"
      | (four) "240 \<le> byte_val x" "byte_val x \<le> 244" | (high) "244 < byte_val x" by linarith
    then show ?thesis
    proof cases
      case ascii
      then show ?thesis using IH[of xs] by (simp add: Cons tail_push_lead del: utf8_tail_push.simps)
    next
      case low
      then show ?thesis
        by (simp add: Cons tail_push_lead del: utf8_tail_push.simps split: list.split)
    next
      case two
      then show ?thesis
      proof (cases xs)
        case (Cons y ys)
        with \<open>bs = x # xs\<close> two IH[of ys] show ?thesis
          by (auto simp: tail_push_lead tail_push_pending continuation_range simp del: utf8_tail_push.simps)
      qed (simp add: Cons tail_push_lead del: utf8_tail_push.simps)
    next
      case three
      show ?thesis
      proof (cases "\<exists>y z ys. xs = y # z # ys")
        case True
        then obtain y z ys where xs: "xs = y # z # ys" by blast
        have "(if byte_val x = 224 then 160 else 128) \<le> byte_val y
            \<and> byte_val y \<le> (if byte_val x = 237 then 159 else 191) \<longleftrightarrow> is_continuation y
              \<and> (byte_val x = 224 \<longrightarrow> 160 \<le> byte_val y) \<and> (byte_val x = 237 \<longrightarrow> byte_val y < 160)"
          by (auto simp: continuation_range)
        with three IH[of ys] show ?thesis
          by (simp add: Cons xs tail_push_lead tail_push_pending continuation_range[of z] conj_ac
              del: utf8_tail_push.simps)
      next
        case False
        then consider "xs = []" | y where "xs = [y]" by (cases xs; cases "tl xs") auto
        then show ?thesis
          using three by cases (simp_all add: Cons tail_push_lead tail_push_pending del: utf8_tail_push.simps)
      qed
    next
      case four
      show ?thesis
      proof (cases "\<exists>y z w ys. xs = y # z # w # ys")
        case True
        then obtain y z w ys where xs: "xs = y # z # w # ys" by blast
        have "(if byte_val x = 240 then 144 else 128) \<le> byte_val y
            \<and> byte_val y \<le> (if byte_val x = 244 then 143 else 191) \<longleftrightarrow> is_continuation y
              \<and> (byte_val x = 240 \<longrightarrow> 144 \<le> byte_val y) \<and> (byte_val x = 244 \<longrightarrow> byte_val y < 144)"
          by (auto simp: continuation_range)
        with four IH[of ys] show ?thesis
          by (simp add: Cons xs tail_push_lead tail_push_pending continuation_range[of z]
              continuation_range[of w] conj_ac del: utf8_tail_push.simps)
      next
        case False
        then consider "xs = []" | y where "xs = [y]" | y z where "xs = [y, z]"
          by (cases xs; cases "tl xs"; cases "tl (tl xs)") auto
        then show ?thesis
          using four by cases (simp_all add: Cons tail_push_lead tail_push_pending del: utf8_tail_push.simps)
      qed
    next
      case high
      then show ?thesis
        by (simp add: Cons tail_push_lead del: utf8_tail_push.simps split: list.split)
    qed
  qed simp
qed

subsection \<open>Valid text at character boundaries\<close>

lemma tail_reachable:
  "utf8_tail_run (0, 128, 191) bs = Some (r, lo, hi) \<Longrightarrow>
     128 \<le> lo \<and> hi \<le> 191 \<and> (r = 0 \<longrightarrow> lo = 128 \<and> hi = 191)"
proof (induction bs arbitrary: r lo hi rule: rev_induct)
  case (snoc b bs)
  then obtain r' lo' hi' where t: "utf8_tail_run (0, 128, 191) bs = Some (r', lo', hi')"
    by (cases "utf8_tail_run (0, 128, 191) bs") (auto simp: utf8_tail_run_append)
  from snoc(1)[OF t] snoc(2) t show ?case
    by (auto simp: utf8_tail_run_append Let_def split: option.splits if_splits)
qed simp

lemma valid_utf8_split:
  assumes "valid_utf8 s" "i \<le> length s" "is_char_boundary s i"
  shows "valid_utf8 (take i s) \<and> valid_utf8 (drop i s)"
proof -
  from assms(1) have "utf8_tail_run (0, 128, 191) (take i s @ drop i s) = Some (0, 128, 191)"
    by (simp add: utf8_tail_valid)
  then obtain t where t: "utf8_tail_run (0, 128, 191) (take i s) = Some t"
      "utf8_tail_run t (drop i s) = Some (0, 128, 191)"
    by (auto simp: utf8_tail_run_append simp del: append_take_drop_id split: option.splits)
  obtain r lo hi where rt: "t = (r, lo, hi)" by (cases t)
  note reach = tail_reachable[OF t(1)[unfolded rt]]
  have "r = 0"
  proof (cases "i < length s")
    case True
    then have d: "drop i s = s ! i # drop (Suc i) s" by (simp add: Cons_nth_drop_Suc)
    show ?thesis
    proof (cases "i = 0")
      case True
      with t(1) rt show ?thesis by simp
    next
      case False
      with assms(3) True have "\<not> is_continuation (s ! i)" by (simp add: is_char_boundary_def)
      with t(2) d rt reach show ?thesis
        by (auto simp: continuation_range Let_def split: option.splits if_splits)
    qed
  next
    case False
    with t(2) rt show ?thesis by simp
  qed
  with reach rt have "t = (0, 128, 191)" by simp
  with t show ?thesis by (simp add: utf8_tail_valid)
qed

lemma ascii_then_boundary:
  assumes "valid_utf8 s" "j < length s" "byte_val (s ! j) < 128"
  shows "is_char_boundary s j" "is_char_boundary s (Suc j)"
proof -
  show j: "is_char_boundary s j" using assms by (simp add: is_char_boundary_def continuation_range)
  have "valid_utf8 (drop j s)" using valid_utf8_split[OF assms(1) _ j] assms(2) by simp
  moreover have "drop j s = s ! j # drop (Suc j) s" using assms(2) by (simp add: Cons_nth_drop_Suc)
  ultimately have v: "valid_utf8 (drop (Suc j) s)" using assms(3) by simp
  show "is_char_boundary s (Suc j)"
  proof (cases "Suc j < length s")
    case True
    then have "drop (Suc j) s = s ! Suc j # drop (Suc (Suc j)) s" by (simp add: Cons_nth_drop_Suc)
    with v have "\<not> is_continuation (s ! Suc j)"
      by (auto simp: continuation_range split: if_splits list.splits)
    with True show ?thesis by (simp add: is_char_boundary_def)
  next
    case False
    with assms(2) show ?thesis by (simp add: is_char_boundary_def)
  qed
qed

lemma valid_utf8_subslice:
  assumes "valid_utf8 s" "is_char_boundary s i" "is_char_boundary s j" "i \<le> j" "j \<le> length s"
  shows "valid_utf8 (subslice s i j)"
proof -
  have v: "valid_utf8 (drop i s)" using valid_utf8_split[OF assms(1) _ assms(2)] assms(4,5) by simp
  have "is_char_boundary (drop i s) (j - i)"
    using assms(3-5) by (auto simp: is_char_boundary_def)
  with valid_utf8_split[OF v, of "j - i"] assms(4,5) show ?thesis by (simp add: subslice_def)
qed

subsection \<open>The eager check and the lazy value\<close>

text \<open>On valid text the walk slices only at character boundaries.\<close>

lemma scan_escape_no_panic:
  assumes "valid_utf8 body" "\<And>s bs. utf8_run k s bs \<noteq> Inl EscPanic" "\<And>s b. raw_byte k s b \<noteq> Inl EscPanic"
  shows "scan_escape_from k body seg i out \<noteq> Inl EscPanic"
  using assms
proof (induction k body seg i out rule: scan_escape_from.induct)
  case (1 k body seg i out)
  have push: "push_escape_byte k s b \<noteq> Inl EscPanic" for s b
    using 1(6) by (simp add: push_escape_byte_def)
  have ix: "r \<noteq> Inl EscPanic \<Longrightarrow> and_index j r \<noteq> Inl EscPanic" for j and r :: "escape_failure + 'a"
    by (auto simp: and_index_def split: sum.splits)
  have esc: "consume_postgres_escape k body (i + 1) s \<noteq> Inl EscPanic"
    if "i < length body" "body ! i = CHR 0x5C" for s
  proof -
    have "is_char_boundary body (Suc i)" using ascii_then_boundary(2)[OF 1(4) that(1)] that(2) by simp
    moreover have "Suc i \<le> length body" using that(1) by simp
    ultimately have "consume_escaped_char k body (Suc i) s \<noteq> Inl EscPanic"
      using ix 1(5) by (auto simp: consume_escaped_char_def split: option.splits)
    then show ?thesis
      using push ix 1(5)
      by (auto simp: consume_postgres_escape_def consume_octal_escape_def consume_hex_escape_def
          consume_unicode_escape_def Let_def simp del: get_at_Some get_at_None octal_digits.simps
          split: option.splits prod.splits if_splits)
  qed
  show ?case
    by (subst scan_escape_from.simps)
      (use 1 push esc in \<open>auto simp del: get_at_Some split: sum.splits prod.splits\<close>)
qed

lemma vec_sink_total: "utf8_run vec_sink s bs \<noteq> Inl e" "raw_byte vec_sink s b \<noteq> Inl e"
  by (simp_all add: vec_sink_def)

lemma tail_sink_no_panic:
  "utf8_run utf8_tail_sink t bs \<noteq> Inl EscPanic" "raw_byte utf8_tail_sink t b \<noteq> Inl EscPanic"
  by (auto simp: utf8_tail_sink_def or_err_def split: option.splits)

lemma escape_body_valid:
  assumes "valid_utf8 text" "postgres_escape_body text = Some body"
  shows "valid_utf8 body"
proof -
  from assms(2) have t: "3 \<le> length text" "text ! 1 = CHR 0x27" "text ! (length text - 1) = CHR 0x27"
    and body: "body = subslice text 2 (length text - 1)"
    using last_conv_nth[of "text"] by (cases "text = []"; force simp: postgres_escape_body_def split: if_splits)+
  have "is_char_boundary text 2"
    using ascii_then_boundary(2)[OF assms(1), of 1] t by (simp add: numeral_2_eq_2)
  moreover have "is_char_boundary text (length text - 1)"
    using ascii_then_boundary(1)[OF assms(1), of "length text - 1"] t by simp
  ultimately show ?thesis
    unfolding body using t(1) by (intro valid_utf8_subslice assms(1)) simp_all
qed

text \<open>
  C7. The tokenizer's eager verdict on an escape string and the lazily materialised value
  never disagree: on any valid source text the check answers (it does not panic), and it
  answers yes exactly when materialising the body succeeds, which then yields valid UTF-8.
\<close>

theorem escape_verdict_is_materialisation:
  assumes "valid_utf8 text"
  shows "case postgres_escape_body text of
      None \<Rightarrow> postgres_escape_string_is_valid text = Some True
    | Some body \<Rightarrow>
        (case materialize_postgres_escape_string body of
           Inr v \<Rightarrow> postgres_escape_string_is_valid text = Some True \<and> valid_utf8 v
         | Inl e \<Rightarrow> e = EscErr \<and> postgres_escape_string_is_valid text = Some False)"
proof (cases "postgres_escape_body text")
  case (Some body)
  have valid: "valid_utf8 body" by (rule escape_body_valid[OF assms Some])
  show ?thesis
  proof (cases "needs_walk body")
    case True
    let ?vec = "scan_escape_from vec_sink body 0 0 []"
      and ?tail = "scan_escape_from utf8_tail_sink body 0 0 UTF8_TAIL_START"
    have nv: "?vec \<noteq> Inl EscPanic" and nt: "?tail \<noteq> Inl EscPanic"
      by (rule scan_escape_no_panic[OF valid vec_sink_total],
          rule scan_escape_no_panic[OF valid tail_sink_no_panic])
    have start_run: "utf8_tail_run UTF8_TAIL_START [] = Some UTF8_TAIL_START"
      by (simp add: UTF8_TAIL_START_def)
    have triple: "\<exists>a b c. UTF8_TAIL_START = (a, b, c)" by (simp add: UTF8_TAIL_START_def)
    have f: "escape.follows (scan_escape_from utf8_tail_sink body 0 0) [] ?vec"
      by (rule escape.scan_follows)
    show ?thesis
    proof (cases ?vec)
      case (Inl e)
      with nv have "e = EscErr" by (cases e) simp_all
      with f Inl have "?tail = Inl EscErr" by (simp add: escape.follows_def start_run triple)
      with Inl \<open>e = EscErr\<close> Some True show ?thesis
        by (simp add: materialize_postgres_escape_string_def postgres_escape_string_is_valid_def
            scan_postgres_escape_string_def)
    next
      case (Inr v)
      with f have tail: "?tail = or_err (utf8_tail_run UTF8_TAIL_START v)"
        by (simp add: escape.follows_def start_run triple)
      have "valid_utf8 v \<longleftrightarrow> utf8_tail_run UTF8_TAIL_START v = Some UTF8_TAIL_START"
        using utf8_tail_valid[of v] by (simp add: UTF8_TAIL_START_def)
      with Inr tail Some True show ?thesis
        by (auto simp: materialize_postgres_escape_string_def postgres_escape_string_is_valid_def
            scan_postgres_escape_string_def or_err_def split: option.splits)
    qed
  qed (use Some valid in \<open>simp add: materialize_postgres_escape_string_def postgres_escape_string_is_valid_def\<close>)
qed (simp add: postgres_escape_string_is_valid_def)

lemma escape_sample_body: "postgres_escape_body (''E'' @ [CHR 0x27] @ ''a'' @ [CHR 0x5C] @ ''xc3b'' @ [CHR 0x27])
    = Some (''a'' @ [CHR 0x5C] @ ''xc3b'')"
  by (simp add: postgres_escape_body_def subslice_def)

text \<open>\<open>E'a\xc3b'\<close>: the byte escape leaves a broken sequence, so the verdict is no.\<close>

theorem escape_verdict_is_materialisation_witness:
  "postgres_escape_string_is_valid (''E'' @ [CHR 0x27] @ ''a'' @ [CHR 0x5C] @ ''xc3b'' @ [CHR 0x27]) = Some False"
proof -
  have v: "valid_utf8 (''E'' @ [CHR 0x27] @ ''a'' @ [CHR 0x5C] @ ''xc3b'' @ [CHR 0x27])" by simp
  have m: "materialize_postgres_escape_string (''a'' @ [CHR 0x5C] @ ''xc3b'') = Inl EscErr"
    by code_simp
  from escape_verdict_is_materialisation[OF v] show ?thesis
    unfolding escape_sample_body option.case m sum.case by simp
qed

end
