(* ===== verification/Cursor_Walks.thy ===== *)
theory Cursor_Walks
  imports Source_Cursor Lex_Tokens Escape_Strings
begin

text \<open>
  Moving a cursor over valid UTF-8 text, from one character boundary to the next: the steps
  the scanner composes, and what it is for a lexeme scanner to work (\<open>scans\<close>). A Rust
  \<open>&str\<close> is valid UTF-8 and may only be sliced at character boundaries; these lemmas are
  what make every slice of the scanner legal and every decoded character whole.
\<close>

subsection \<open>Good positions\<close>

definition cur_good :: "cursor \<Rightarrow> bool" where
  "cur_good c \<longleftrightarrow> cur_ok c \<and> valid_utf8 (cur_src c) \<and> is_char_boundary (cur_src c) (cur_pos c)"

text \<open>\<open>walks c c'\<close>: forward inside the source, from boundary to boundary.\<close>

definition walks :: "cursor \<Rightarrow> cursor \<Rightarrow> bool" where
  "walks c c' \<longleftrightarrow> cur_le c c' \<and> (cur_good c \<longrightarrow> cur_good c')"

lemma walks_refl [simp, intro]: "walks c c"
  by (simp add: walks_def)

lemma walks_trans [trans]: "walks a b \<Longrightarrow> walks b c \<Longrightarrow> walks a c"
  by (auto simp: walks_def intro: cur_le_trans)

lemma walks_le: "walks c c' \<Longrightarrow> cur_le c c'"
  by (simp add: walks_def)

lemma walks_good: "walks c c' \<Longrightarrow> cur_good c \<Longrightarrow> cur_good c'"
  by (simp add: walks_def)

lemma cur_good_new [simp]: "valid_utf8 s \<Longrightarrow> cur_good (cursor_new s)"
  by (simp add: cur_good_def is_char_boundary_def)

lemma cur_good_ok [simp]: "cur_good c \<Longrightarrow> cur_ok c"
  by (simp add: cur_good_def)

lemma ascii_boundary: "i < length s \<Longrightarrow> is_ascii (s ! i) \<Longrightarrow> is_char_boundary s i"
  by (simp add: is_char_boundary_def is_ascii_def is_continuation_def)

lemma good_at_ascii:
  "cur_le c c' \<Longrightarrow> cur_good c \<Longrightarrow> peek c' = Some b \<Longrightarrow> is_ascii b \<Longrightarrow> cur_good c'"
  by (auto simp: cur_good_def cur_le_def peek_Some intro: ascii_boundary)

lemma good_at_eof: "cur_le c c' \<Longrightarrow> cur_good c \<Longrightarrow> peek c' = None \<Longrightarrow> cur_good c'"
  by (auto simp: cur_good_def cur_le_def cur_ok_def peek_None is_char_boundary_def)

lemma good_after_ascii:
  assumes "cur_le c c'" "cur_good c" "cur_pos c' = Suc j" "is_ascii (cur_src c ! j)"
  shows "cur_good c'"
proof -
  from assms have "j < length (cur_src c)" by (auto simp: cur_good_def cur_le_def cur_ok_def)
  with assms ascii_then_boundary(2)[of "cur_src c" j] show ?thesis
    by (auto simp: cur_good_def cur_le_def is_ascii_def)
qed

lemma walks_bump [cursor_mono]: "peek c = Some b \<Longrightarrow> is_ascii b \<Longrightarrow> walks c (bump c)"
  unfolding walks_def
  using bump_le[of c] good_after_ascii[of c "bump c" "cur_pos c"] by (auto simp: bump_pos peek_Some)

lemma walks_bump_eof: "peek c = None \<Longrightarrow> walks c (bump c)"
  by (simp add: bump_def)

text \<open>A run of bytes of one kind keeps boundaries if what it eats is ASCII, or what stops it is.\<close>

lemma walks_eat_ascii [cursor_mono]:
  assumes "\<And>b. p b \<Longrightarrow> is_ascii b"
  shows "walks c (eat_while p c)"
proof (cases "eat_while p c = c")
  case False
  let ?c' = "eat_while p c"
  have le: "cur_le c ?c'" by (rule eat_while_le)
  from False le have "cur_pos c < cur_pos ?c'"
    by (auto simp: cur_le_def eat_while_takeWhile)
  then obtain j where j: "cur_pos ?c' = Suc j" "cur_pos c \<le> j" by (cases "cur_pos ?c'") auto
  then have "is_ascii (cur_src c ! j)" using eat_while_all[of c j p] assms by auto
  with le j good_after_ascii[OF le] show ?thesis by (auto simp: walks_def)
qed simp

lemma walks_eat_until [cursor_mono]:
  assumes "\<And>b. \<not> p b \<Longrightarrow> is_ascii b"
  shows "walks c (eat_while p c)"
proof (cases "peek (eat_while p c)")
  case None
  then show ?thesis using good_at_eof[OF eat_while_le] by (auto simp: walks_def eat_while_le)
next
  case (Some b)
  then show ?thesis using good_at_ascii[OF eat_while_le _ Some] eat_while_stop[OF Some] assms
    by (auto simp: walks_def eat_while_le)
qed

lemma walks_advance_ascii:
  assumes "peek_nth n c = Some b" "is_ascii b" "m = Suc n"
  shows "walks c (advance_bytes m c)"
  unfolding walks_def
  using advance_le[OF assms(1), of m] good_after_ascii[of c "advance_bytes m c" "cur_pos c + n"] assms
  by (auto simp: peek_nth_Some)

subsection \<open>Whole characters\<close>

lemma mod_block: "a * k \<le> x \<Longrightarrow> x < a * k + k \<Longrightarrow> x mod k = x - a * k" for a k x :: nat
  by (metis add.commute le_add_diff_inverse mod_less mod_mult_self3 nat_add_left_cancel_less)

lemma byte_blocks:
  "192 \<le> n \<Longrightarrow> n < 224 \<Longrightarrow> n mod 32 = n - 192"
  "224 \<le> n \<Longrightarrow> n < 240 \<Longrightarrow> n mod 16 = n - 224"
  "240 \<le> n \<Longrightarrow> n < 248 \<Longrightarrow> n mod 8 = n - 240"
  "128 \<le> n \<Longrightarrow> n < 192 \<Longrightarrow> n mod 64 = n - 128" for n :: nat
  using mod_block[of 6 32 n] mod_block[of 14 16 n] mod_block[of 30 8 n] mod_block[of 2 64 n] by simp_all

lemma next_char_whole:
  assumes "valid_utf8 s" "s \<noteq> []"
  shows "\<exists>ch. next_char s = Some ch \<and> len_utf8 ch \<le> length s \<and> valid_utf8 (drop (len_utf8 ch) s)
     \<and> (ch < 128 \<longleftrightarrow> is_ascii (hd s))"
proof (cases s)
  case (Cons x bs)
  consider (ascii) "byte_val x < 128" | (two) "128 \<le> byte_val x" "byte_val x < 224"
    | (three) "224 \<le> byte_val x" "byte_val x < 240" | (four) "240 \<le> byte_val x" by linarith
  then show ?thesis
  proof cases
    case ascii
    with assms Cons show ?thesis by (simp add: len_utf8_def is_ascii_def)
  next
    case two
    with assms(1) Cons obtain y bs2 where b: "bs = y # bs2" "valid_utf8 bs2" "194 \<le> byte_val x"
      by (cases bs) auto
    define ch where "ch = (byte_val x mod 32) * 64 + byte_val y mod 64"
    have "byte_val x mod 32 = byte_val x - 192" "byte_val y mod 64 < 64"
      using two b(3) by (simp_all add: byte_blocks)
    then have "128 \<le> ch" "ch < 2048" using two b(3) unfolding ch_def by linarith+
    then have "len_utf8 ch = 2" by (simp add: len_utf8_def)
    then show ?thesis using two b Cons \<open>128 \<le> ch\<close> by (simp add: ch_def is_ascii_def)
  next
    case three
    with assms(1) Cons obtain y z bs3 where b: "bs = y # z # bs3" "valid_utf8 bs3"
      "is_continuation y" "byte_val x = 224 \<longrightarrow> 160 \<le> byte_val y"
      by (cases bs; cases "tl bs") auto
    define ch where "ch = (byte_val x mod 16) * 4096 + (byte_val y mod 64) * 64 + byte_val z mod 64"
    have "byte_val x mod 16 = byte_val x - 224" "byte_val y mod 64 = byte_val y - 128"
        "byte_val z mod 64 < 64" "128 \<le> byte_val y" "byte_val y < 192"
      using three b(3) by (simp_all add: byte_blocks is_continuation_def)
    then have "2048 \<le> ch" "ch < 65536" using three b(4) unfolding ch_def by linarith+
    then have "len_utf8 ch = 3" by (simp add: len_utf8_def)
    then show ?thesis using three b Cons \<open>2048 \<le> ch\<close> by (simp add: ch_def is_ascii_def)
  next
    case four
    with assms(1) Cons obtain y z w bs4 where b: "bs = y # z # w # bs4" "valid_utf8 bs4"
      "is_continuation y" "byte_val x = 240 \<longrightarrow> 144 \<le> byte_val y" "byte_val x \<le> 244"
      by (cases bs; cases "tl bs"; cases "tl (tl bs)") auto
    define ch where "ch = (byte_val x mod 8) * 262144 + (byte_val y mod 64) * 4096
        + (byte_val z mod 64) * 64 + byte_val w mod 64"
    have "byte_val x mod 8 = byte_val x - 240" "byte_val y mod 64 = byte_val y - 128" "128 \<le> byte_val y"
      using four b(3,5) by (simp_all add: byte_blocks is_continuation_def)
    then have "65536 \<le> ch" using four b(4) unfolding ch_def by linarith
    then have "len_utf8 ch = 4" by (simp add: len_utf8_def)
    then show ?thesis using four b Cons \<open>65536 \<le> ch\<close> by (simp add: ch_def is_ascii_def)
  qed
qed (use assms in simp)

lemma valid_utf8_hd: "valid_utf8 (x # xs) \<Longrightarrow> \<not> is_continuation x"
  by (auto simp: is_continuation_def split: if_splits list.splits)

text \<open>At a boundary inside the source there is a character, and past it the next boundary.\<close>

lemma char_at_good:
  assumes "cur_good c" "peek c = Some b"
  shows "\<exists>ch. char_at 0 c = Some ch \<and> (ch < 128 \<longleftrightarrow> is_ascii b) \<and> walks c (advance_bytes (len_utf8 ch) c)"
proof -
  let ?s = "cur_src c" and ?i = "cur_pos c"
  from assms have i: "?i < length ?s" "?s ! ?i = b" and v: "valid_utf8 ?s"
    and bd: "is_char_boundary ?s ?i" by (auto simp: peek_Some cur_good_def)
  have vd: "valid_utf8 (drop ?i ?s)" using valid_utf8_split[OF v _ bd] i by simp
  from next_char_whole[OF vd] i obtain ch where
    ch: "next_char (drop ?i ?s) = Some ch" "len_utf8 ch \<le> length ?s - ?i"
      "valid_utf8 (drop (len_utf8 ch) (drop ?i ?s))" "ch < 128 \<longleftrightarrow> is_ascii b"
    by (auto simp: hd_drop_conv_nth)
  let ?j = "?i + len_utf8 ch"
  have j: "?j \<le> length ?s" using ch(2) i by simp
  have "is_char_boundary ?s ?j"
  proof (cases "?j < length ?s")
    case True
    then have "drop (len_utf8 ch) (drop ?i ?s) = ?s ! ?j # drop (Suc ?j) ?s"
      by (simp add: Cons_nth_drop_Suc add.commute)
    with ch(3) have "\<not> is_continuation (?s ! ?j)" using valid_utf8_hd by simp
    with True show ?thesis by (simp add: is_char_boundary_def)
  next
    case False
    with j show ?thesis by (simp add: is_char_boundary_def)
  qed
  then have "walks c (advance_bytes (len_utf8 ch) c)"
    using advance_in_source[OF j] v by (auto simp: walks_def cur_good_def cur_le_def)
  with ch(1,4) i bd show ?thesis by (auto simp: char_at_def Let_def)
qed

text \<open>\<open>&src[i..j]\<close> on a string panics off a boundary.\<close>

definition str_slice :: "source \<Rightarrow> nat \<Rightarrow> nat \<Rightarrow> source option" where
  "str_slice s i j =
     (if i \<le> j \<and> j \<le> length s \<and> is_char_boundary s i \<and> is_char_boundary s j
      then Some (subslice s i j) else None)"

lemma str_slice_walk:
  "walks c c' \<Longrightarrow> cur_good c \<Longrightarrow>
     str_slice (cur_src c) (cur_pos c) (cur_pos c') = Some (subslice (cur_src c) (cur_pos c) (cur_pos c'))"
  by (auto simp: str_slice_def walks_def cur_good_def cur_le_def cur_ok_def)

subsection \<open>Lexeme scanners\<close>

text \<open>
  \<open>scans c r\<close>: the scanner started at \<open>c\<close> works: it fails only with a lexical error placed
  in the source at or after \<open>c\<close>, and a token it returns begins at \<open>c\<close>, is not empty, ends
  where the cursor was left, and both ends are character boundaries.
\<close>

definition scans :: "cursor \<Rightarrow> lex_failure + (token \<times> cursor) \<Rightarrow> bool" where
  "scans c r \<longleftrightarrow> (case r of
      Inl f \<Rightarrow> fails_in (cur_pos c) (cur_src c) f
    | Inr (t, c') \<Rightarrow> walks c c' \<and> cur_pos c < cur_pos c' \<and> token_span t = Span (cur_pos c) (cur_pos c'))"

definition and_then :: "'e + 'a \<Rightarrow> ('a \<Rightarrow> 'e + 'b) \<Rightarrow> 'e + 'b" where
  "and_then r f = (case r of Inl e \<Rightarrow> Inl e | Inr x \<Rightarrow> f x)"

lemma and_then_simps [simp]: "and_then (Inl e) f = Inl e" "and_then (Inr x) f = f x"
  by (simp_all add: and_then_def)

lemma scans_token_from [lexeme_ok]:
  "walks c c' \<Longrightarrow> cur_pos c < cur_pos c' \<Longrightarrow> start = cur_pos c \<Longrightarrow> scans c (token_from kind start c')"
  by (simp add: scans_def token_from_ok)

lemma scans_lex_err [lexeme_ok]:
  "cur_pos c \<le> s \<Longrightarrow> s \<le> e \<Longrightarrow> e \<le> length (cur_src c) \<Longrightarrow> scans c (Inl (lex_err kind s e))"
  by (simp add: scans_def fails_in_lex_err)

lemma scans_err_here:
  "cur_le c c' \<Longrightarrow> cur_good c \<Longrightarrow> start = cur_pos c \<Longrightarrow> scans c (Inl (lex_err kind start (cur_pos c')))"
  by (rule scans_lex_err) (auto simp: cur_le_def cur_good_def cur_ok_def)

lemma scans_Inr [simp]:
  "scans c (Inr (t, c')) \<longleftrightarrow>
     walks c c' \<and> cur_pos c < cur_pos c' \<and> token_span t = Span (cur_pos c) (cur_pos c')"
  by (simp add: scans_def)

end
