(* ===== verification/Scan_Trivia.thy ===== *)
theory Scan_Trivia
  imports Dialect_Features Lex_Tokens Trivia_Index
begin

text \<open>
  Trivia: the whitespace and comments between tokens, \<open>skip_trivia\<close> and its helpers in
  \<open>crates/squonk/src/tokenizer/scan.rs\<close>, with MySQL's versioned-comment regions (a region's
  markers are trivia, its body is live tokens) and DuckDB's boundary whitespace.

  Each helper returns the moved cursor or a failure; the lemmas show that it moves forward
  inside the source, that its errors are placed in what it read, and that it does not panic.
\<close>

subsection \<open>Cross-token state\<close>

record lex_state =
  versioned_region_start :: "nat option"

definition LEX_STATE_DEFAULT :: lex_state where
  "LEX_STATE_DEFAULT = \<lparr>versioned_region_start = None\<rparr>"

subsection \<open>Comments\<close>

definition skip_line_comment :: "nat \<Rightarrow> bool \<Rightarrow> cursor \<Rightarrow> cursor" where
  "skip_line_comment marker_len cr_terminates c =
     (let c1 = advance_bytes marker_len c in
      if cr_terminates then eat_while (\<lambda>b. b \<noteq> CHR 0x0A \<and> b \<noteq> CHR 0x0D) c1
      else eat_while (\<lambda>b. b \<noteq> CHR 0x0A) c1)"

text \<open>\<open>depth\<close> is a \<open>u32\<close>; \<open>checked_add(1).expect\<close> panics when it does not fit.\<close>

lemma bump_bump_measure:
  "peek c = Some b \<Longrightarrow> length (cur_src c) - cur_pos (bump (bump c)) < length (cur_src c) - cur_pos c"
  "peek c = Some b \<Longrightarrow> length (cur_src c) - cur_pos (bump c) < length (cur_src c) - cur_pos c"
proof -
  assume b: "peek c = Some b"
  then have "cur_pos c < length (cur_src c)" "cur_pos c < cur_pos (bump c)"
    by (simp_all add: peek_Some bump_pos)
  moreover have "cur_pos (bump c) \<le> cur_pos (bump (bump c))"
    using bump_le[of "bump c"] by (simp add: cur_le_def)
  ultimately show "length (cur_src c) - cur_pos (bump (bump c)) < length (cur_src c) - cur_pos c"
    "length (cur_src c) - cur_pos (bump c) < length (cur_src c) - cur_pos c" by linarith+
qed

function block_comment_loop ::
    "bool \<Rightarrow> bool \<Rightarrow> nat \<Rightarrow> nat \<Rightarrow> cursor \<Rightarrow> lex_failure + cursor" where
  "block_comment_loop nested silent_eof start depth c =
     (case peek c of
        None \<Rightarrow> if silent_eof then Inr c
                else Inl (lex_err UnterminatedBlockComment start (cur_pos c))
      | Some b \<Rightarrow>
          if b = CHR ''/'' \<and> peek_nth 1 c = Some (CHR ''*'') \<and> nested then
            (if depth + 1 \<le> u32_max
             then block_comment_loop nested silent_eof start (depth + 1) (bump (bump c))
             else Inl Panic)
          else if b = CHR ''*'' \<and> peek_nth 1 c = Some (CHR ''/'') then
            (if depth - 1 = 0 then Inr (bump (bump c))
             else block_comment_loop nested silent_eof start (depth - 1) (bump (bump c)))
          else block_comment_loop nested silent_eof start depth (bump c))"
  by pat_completeness auto
termination
  by (relation "measure (\<lambda>(n, s, st, d, c). length (cur_src c) - cur_pos c)")
    (simp_all add: bump_bump_measure)

declare block_comment_loop.simps [simp del]

definition skip_block_comment :: "bool \<Rightarrow> bool \<Rightarrow> cursor \<Rightarrow> lex_failure + cursor" where
  "skip_block_comment nested silent_eof c =
     block_comment_loop nested silent_eof (cur_pos c) 1 (bump (bump c))"

lemma block_comment_loop_advances:
  assumes "start + depth \<le> cur_pos c" "cur_ok c" "length (cur_src c) \<le> u32_max"
  shows "advances start c (block_comment_loop nested silent_eof start depth c)"
  using assms
proof (induction nested silent_eof start depth c rule: block_comment_loop.induct)
  case (1 nested silent_eof start depth c)
  show ?case
  proof (cases "peek c")
    case None
    then show ?thesis using 1(4,5)
      by (subst block_comment_loop.simps) (auto simp: fails_in_lex_err cur_ok_def)
  next
    case (Some b)
    let ?c1 = "bump c" and ?c2 = "bump (bump c)"
    have le: "cur_le c ?c1" "cur_le c ?c2"
      using bump_le cur_le_trans by blast+
    have p1: "cur_pos ?c1 = Suc (cur_pos c)" using Some by (rule bump_pos)
    have p2: "cur_pos ?c2 = Suc (Suc (cur_pos c))" if "peek_nth 1 c = Some x" for x
    proof -
      from that p1 have "peek ?c1 = Some x" by (simp add: peek_nth_Some peek_Some)
      then show ?thesis using p1 by (simp add: bump_pos)
    qed
    have ok: "cur_ok ?c1" "cur_ok ?c2" using le 1(5) cur_leD(3) by blast+
    have fit: "depth + 1 \<le> u32_max" if "peek_nth 1 c = Some x" for x
      using p2[OF that] ok(2) 1(4,6) by (simp add: cur_ok_def)
    note IH = 1(1-3)[OF Some]
    show ?thesis
      by (subst block_comment_loop.simps)
        (use Some le ok p1 p2 fit IH 1(4,6) in \<open>auto intro: advances_trans\<close>)
  qed
qed

lemma bump_bump_peeked:
  assumes "peek c = Some a" "peek_nth 1 c = Some b"
  shows "bump (bump c) = advance_bytes 2 c"
proof -
  have "bump c = advance_bytes 1 c" using assms(1) by (simp add: bump_def advance_bytes_def)
  moreover have "peek (advance_bytes 1 c) = Some b"
    using assms(2) by (simp add: peek_nth_Some peek_Some)
  ultimately show ?thesis by (simp add: bump_def advance_bytes_def)
qed

lemma skip_block_comment_advances [lexeme_ok]:
  assumes "peek c = Some (CHR ''/'')" "peek_nth 1 c = Some (CHR ''*'')" "length (cur_src c) \<le> u32_max"
  shows "advances (cur_pos c) c (skip_block_comment nested silent_eof c)"
    and "skip_block_comment nested silent_eof c = Inr c' \<Longrightarrow> cur_lt c c'"
proof -
  let ?c2 = "bump (bump c)"
  have c2: "?c2 = advance_bytes 2 c" by (rule bump_bump_peeked[OF assms(1,2)])
  have lt: "cur_lt c ?c2" unfolding c2 using advance_lt[OF assms(2)] by simp
  have ok: "cur_ok ?c2" using assms(2) by (simp add: c2 cur_ok_def peek_nth_Some)
  have adv: "advances (cur_pos c) ?c2 (skip_block_comment nested silent_eof c)"
    unfolding skip_block_comment_def
    by (rule block_comment_loop_advances) (use ok assms(3) in \<open>simp_all add: c2\<close>)
  then show "advances (cur_pos c) c (skip_block_comment nested silent_eof c)"
    by (rule advances_trans[OF cur_lt_le[OF lt]])
  show "skip_block_comment nested silent_eof c = Inr c' \<Longrightarrow> cur_lt c c'"
    using adv lt cur_lt_le_trans by auto
qed

text \<open>Progress needs no bound on the source, so the loops over comments terminate outright.\<close>

lemma block_comment_loop_le: "block_comment_loop nested silent_eof start depth c = Inr c' \<Longrightarrow> cur_le c c'"
proof (induction nested silent_eof start depth c rule: block_comment_loop.induct)
  case (1 nested silent_eof start depth c)
  have le: "cur_le c (bump c)" "cur_le c (bump (bump c))"
    using bump_le cur_le_trans by blast+
  from 1(4) show ?case
    by (subst (asm) block_comment_loop.simps)
      (use 1(1-3) le in \<open>auto intro: cur_le_trans split: option.splits if_splits\<close>)
qed

lemma skip_block_comment_lt:
  "peek c = Some b \<Longrightarrow> skip_block_comment nested silent_eof c = Inr c' \<Longrightarrow> cur_lt c c'"
  unfolding skip_block_comment_def
  by (meson block_comment_loop_le bump_le bump_lt cur_le_trans cur_lt_le_trans)

lemma skip_line_comment_lt:
  "peek_nth m c = Some b \<Longrightarrow> n = Suc m \<Longrightarrow> cur_lt c (skip_line_comment n cr c)"
  unfolding skip_line_comment_def Let_def
  using cur_lt_le_trans[OF advance_lt[of m c b "Suc m"] eat_while_le] by simp

subsection \<open>Versioned comments\<close>

function skip_discarded_region :: "bool \<Rightarrow> nat \<Rightarrow> cursor \<Rightarrow> lex_failure + cursor" where
  "skip_discarded_region nested region_start c =
     (case peek c of
        None \<Rightarrow> Inl (lex_err UnterminatedBlockComment region_start (cur_pos c))
      | Some b \<Rightarrow>
          if b = CHR ''*'' \<and> peek_nth 1 c = Some (CHR ''/'') then Inr (advance_bytes 2 c)
          else if b = CHR ''/'' \<and> peek_nth 1 c = Some (CHR ''*'') then
            (case skip_block_comment nested False c of
               Inl f \<Rightarrow> Inl f
             | Inr c' \<Rightarrow> skip_discarded_region nested region_start c')
          else skip_discarded_region nested region_start (bump c))"
  by pat_completeness auto
termination
proof (relation "measure (\<lambda>(n, r, c). length (cur_src c) - cur_pos c)", goal_cases)
  case (2 nested region_start c b c')
  then have "cur_lt c c'" using skip_block_comment_lt by blast
  with 2(1) show ?case by (auto simp: cur_lt_def cur_le_def peek_Some)
next
  case (3 nested region_start c b)
  then show ?case by (simp add: bump_bump_measure)
qed simp

declare skip_discarded_region.simps [simp del]

lemma skip_discarded_region_advances:
  assumes "region_start \<le> cur_pos c" "cur_ok c" "length (cur_src c) \<le> u32_max"
  shows "advances region_start c (skip_discarded_region nested region_start c)"
  using assms
proof (induction nested region_start c rule: skip_discarded_region.induct)
  case (1 nested region_start c)
  show ?case
  proof (cases "peek c")
    case None
    then show ?thesis using 1(3,4)
      by (subst skip_discarded_region.simps) (auto simp: fails_in_lex_err cur_ok_def)
  next
    case (Some b)
    consider (close) "b = CHR ''*''" "peek_nth 1 c = Some (CHR ''/'')"
      | (comment) "b = CHR ''/''" "peek_nth 1 c = Some (CHR ''*'')"
      | (other) "\<not> (b = CHR ''*'' \<and> peek_nth 1 c = Some (CHR ''/''))"
          "\<not> (b = CHR ''/'' \<and> peek_nth 1 c = Some (CHR ''*''))" by blast
    then show ?thesis
    proof cases
      case close
      then show ?thesis using advance_le[OF close(2), of 2]
        by (subst skip_discarded_region.simps) (simp add: Some)
    next
      case comment
      note sk = skip_block_comment_advances[of c nested False, OF _ comment(2) 1(5)]
      show ?thesis
      proof (cases "skip_block_comment nested False c")
        case (Inl f)
        with sk(1) comment(1) Some fails_in_mono[OF 1(3)] show ?thesis
          by (subst skip_discarded_region.simps) (simp add: comment(2)[simplified])
      next
        case (Inr c')
        then have lt: "cur_lt c c'" using sk(2) comment(1) Some by simp
        with 1(1)[OF Some _ _ Inr] comment 1(3-5)
        have "advances region_start c' (skip_discarded_region nested region_start c')"
          by (simp add: cur_lt_def cur_le_def)
        then show ?thesis
          using advances_trans[OF cur_lt_le[OF lt]]
          by (subst skip_discarded_region.simps) (simp add: Some Inr comment(1) comment(2)[simplified])
      qed
    next
      case other
      have "cur_pos c \<le> cur_pos (bump c)" "cur_ok (bump c)"
        using bump_le[of c] 1(4) by (simp_all add: cur_le_def)
      with 1(2)[OF Some other] 1(3,5)
      have "advances region_start (bump c) (skip_discarded_region nested region_start (bump c))"
        by simp
      moreover have "skip_discarded_region nested region_start c
          = skip_discarded_region nested region_start (bump c)"
        by (subst skip_discarded_region.simps) (simp only: Some option.case other if_False)
      ultimately show ?thesis by (simp only: advances_trans[OF bump_le])
    qed
  qed
qed

lemma skip_discarded_region_le: "skip_discarded_region nested r c = Inr c' \<Longrightarrow> cur_le c c'"
proof (induction nested r c rule: skip_discarded_region.induct)
  case (1 nested r c)
  have adv: "peek_nth 1 c = Some b \<Longrightarrow> cur_le c (advance_bytes 2 c)" for b
    using advance_le[of 1 c b 2] by simp
  have sk: "peek c = Some b \<Longrightarrow> skip_block_comment nested False c = Inr c1 \<Longrightarrow> cur_le c c1" for b c1
    using skip_block_comment_lt cur_lt_le by blast
  from 1(3) show ?case
    by (subst (asm) skip_discarded_region.simps)
      (use 1(1,2) adv sk bump_le[of c] in \<open>auto intro: cur_le_trans split: option.splits if_splits sum.splits\<close>)
qed

text \<open>The \<open>while digits < 7\<close> loop, and the accumulation of the version number.\<close>

function count_version_digits :: "nat \<Rightarrow> cursor \<Rightarrow> nat" where
  "count_version_digits digits c =
     (if digits < 7 \<and> (case peek_nth digits c of None \<Rightarrow> False | Some b \<Rightarrow> is_ascii_digit b)
      then count_version_digits (digits + 1) c else digits)"
  by pat_completeness auto
termination
  by (relation "measure (\<lambda>(d, c). 7 - d)") auto

declare count_version_digits.simps [simp del]

fun read_version :: "nat \<Rightarrow> nat \<Rightarrow> cursor \<Rightarrow> lex_failure + (nat \<times> cursor)" where
  "read_version 0 version c = Inr (version, c)"
| "read_version (Suc n) version c = (case peek c of
      None \<Rightarrow> Inl Panic
    | Some b \<Rightarrow> read_version n (version * 10 + (byte_val b - 48)) (bump c))"

definition version_len :: "nat \<Rightarrow> nat" where
  "version_len digits = (if digits \<le> 4 then 0 else if digits = 6 then 6 else 5)"

definition scan_versioned_marker ::
    "nat \<Rightarrow> bool \<Rightarrow> cursor \<Rightarrow> lex_state \<Rightarrow> lex_failure + (cursor \<times> lex_state)" where
  "scan_versioned_marker bound nested c st =
     (let start = cur_pos c;
          c1 = advance_bytes 3 c;
          vlen = version_len (count_version_digits 0 c1)
      in case read_version vlen 0 c1 of
           Inl f \<Rightarrow> Inl f
         | Inr (version, c2) \<Rightarrow>
             if vlen > 0 \<and> version > bound then
               (case skip_discarded_region nested start c2 of
                  Inl f \<Rightarrow> Inl f | Inr c3 \<Rightarrow> Inr (c3, st))
             else Inr (c2, (case versioned_region_start st of
                  None \<Rightarrow> st\<lparr>versioned_region_start := Some start\<rparr> | Some _ \<Rightarrow> st)))"

lemma count_version_digits_present:
  assumes "\<And>i. i < d \<Longrightarrow> \<exists>b. peek_nth i c = Some b \<and> is_ascii_digit b"
    and "i < count_version_digits d c"
  shows "\<exists>b. peek_nth i c = Some b \<and> is_ascii_digit b"
  using assms
proof (induction d c rule: count_version_digits.induct)
  case (1 d c)
  show ?case
  proof (cases "d < 7 \<and> (case peek_nth d c of None \<Rightarrow> False | Some b \<Rightarrow> is_ascii_digit b)")
    case True
    then have "count_version_digits d c = count_version_digits (d + 1) c"
      by (subst count_version_digits.simps) simp
    moreover have "\<And>i. i < d + 1 \<Longrightarrow> \<exists>b. peek_nth i c = Some b \<and> is_ascii_digit b"
      using 1(2) True by (metis (mono_tags, lifting) Suc_eq_plus1 less_Suc_eq option.case_eq_if option.collapse)
    ultimately show ?thesis using 1(1)[OF True] 1(3) by simp
  next
    case False
    then have "count_version_digits d c = d"
      by (subst count_version_digits.simps) (simp only: if_False)
    with 1(2,3) show ?thesis by simp
  qed
qed

lemma version_len_le: "version_len d \<le> d"
  by (simp add: version_len_def)

lemma read_version_runs:
  assumes "\<And>i. i < n \<Longrightarrow> \<exists>b. peek_nth i c = Some b"
  shows "\<exists>v. read_version n version c = Inr (v, advance_bytes n c)"
  using assms
proof (induction n arbitrary: version c)
  case 0
  then show ?case by (simp add: advance_bytes_def)
next
  case (Suc n)
  from Suc(2)[of 0] obtain b where b: "peek c = Some b" by auto
  then have bp: "bump c = advance_bytes 1 c" by (simp add: bump_def advance_bytes_def)
  have "\<exists>b. peek_nth i (bump c) = Some b" if "i < n" for i
    using Suc(2)[of "Suc i"] that by (simp add: bp peek_nth_def)
  from Suc(1)[OF this, of "version * 10 + (byte_val b - 48)"] b show ?case
    by (auto simp: bp advance_bytes_def)
qed

text \<open>The digits are measured before they are read, so the marker itself never panics.\<close>

lemma read_version_marker:
  "\<exists>v. read_version (version_len (count_version_digits 0 c)) 0 c
      = Inr (v, advance_bytes (version_len (count_version_digits 0 c)) c)"
  using count_version_digits_present[of 0 c] version_len_le[of "count_version_digits 0 c"]
  by (intro read_version_runs) (meson less_le_trans not_less_zero)

lemma version_digits_in_source:
  assumes "cur_pos c \<le> length (cur_src c)"
  shows "cur_pos c + version_len (count_version_digits 0 c) \<le> length (cur_src c)"
proof (cases "version_len (count_version_digits 0 c)")
  case 0
  then show ?thesis using assms by simp
next
  case (Suc n)
  then have "n < count_version_digits 0 c" using version_len_le[of "count_version_digits 0 c"] by simp
  from count_version_digits_present[OF _ this] Suc show ?thesis by (auto simp: peek_nth_Some)
qed

text \<open>The state records only offsets already passed.\<close>

definition state_ok :: "lex_state \<Rightarrow> cursor \<Rightarrow> bool" where
  "state_ok st c \<longleftrightarrow> (case versioned_region_start st of None \<Rightarrow> True | Some off \<Rightarrow> off \<le> cur_pos c)"

lemma state_ok_default [simp]: "state_ok LEX_STATE_DEFAULT c"
  by (simp add: state_ok_def LEX_STATE_DEFAULT_def)

lemma state_ok_mono: "state_ok st c \<Longrightarrow> cur_pos c \<le> cur_pos c' \<Longrightarrow> state_ok st c'"
  by (auto simp: state_ok_def split: option.splits)

lemma scan_versioned_marker_ok:
  assumes "peek_nth 2 c = Some b" "length (cur_src c) \<le> u32_max" "state_ok st c"
  shows "case scan_versioned_marker bound nested c st of
      Inl f \<Rightarrow> fails_in (cur_pos c) (cur_src c) f
    | Inr (c', st') \<Rightarrow> cur_lt c c' \<and> state_ok st' c'"
proof -
  let ?c1 = "advance_bytes 3 c" let ?n = "version_len (count_version_digits 0 ?c1)"
  let ?c2 = "advance_bytes ?n ?c1"
  obtain v where v: "read_version ?n 0 ?c1 = Inr (v, ?c2)" using read_version_marker by blast
  have in_src: "cur_pos ?c2 \<le> length (cur_src c)"
    using version_digits_in_source[of ?c1] assms(1) by (simp add: peek_nth_Some)
  then have ok: "cur_ok ?c2" by (simp add: cur_ok_def)
  have lt: "cur_lt c ?c2" using in_src by (auto simp: cur_lt_def cur_le_def cur_ok_def)
  have adv: "advances (cur_pos c) ?c2 (skip_discarded_region nested (cur_pos c) ?c2)"
    by (rule skip_discarded_region_advances) (use ok assms(2) in simp_all)
  show ?thesis
  proof (cases "skip_discarded_region nested (cur_pos c) ?c2")
    case (Inl f)
    then show ?thesis using adv lt state_ok_mono[OF assms(3), of ?c2]
      by (auto simp: scan_versioned_marker_def Let_def v state_ok_def split: option.splits)
  next
    case (Inr c3)
    then have "cur_le ?c2 c3" using adv by simp
    then have "cur_lt c c3" using lt cur_lt_le_trans by blast
    then show ?thesis using lt Inr state_ok_mono[OF assms(3), of ?c2] state_ok_mono[OF assms(3), of c3]
      by (auto simp: scan_versioned_marker_def Let_def v state_ok_def cur_lt_def split: option.splits)
  qed
qed

lemma scan_versioned_marker_lt:
  assumes "peek_nth 2 c = Some b" "scan_versioned_marker bound nested c st = Inr (c', st')"
  shows "cur_lt c c'"
proof -
  let ?c1 = "advance_bytes 3 c" let ?n = "version_len (count_version_digits 0 ?c1)"
  let ?c2 = "advance_bytes ?n ?c1"
  obtain v where v: "read_version ?n 0 ?c1 = Inr (v, ?c2)" using read_version_marker by blast
  have "cur_pos ?c2 \<le> length (cur_src c)"
    using version_digits_in_source[of ?c1] assms(1) by (simp add: peek_nth_Some)
  then have "cur_lt c ?c2" by (auto simp: cur_lt_def cur_le_def cur_ok_def)
  moreover have "cur_le ?c2 c'"
    using assms(2) skip_discarded_region_le
    by (auto simp: scan_versioned_marker_def Let_def v split: if_splits sum.splits)
  ultimately show ?thesis by (rule cur_lt_le_trans)
qed

subsection \<open>One run of trivia\<close>

text \<open>The dispatch of the sweep: what run, if any, begins at the cursor.\<close>

definition trivia_run ::
    "feature_set \<Rightarrow> cursor \<Rightarrow> lex_state \<Rightarrow> lex_failure + (trivia_kind \<times> cursor \<times> lex_state) option" where
  "trivia_run f c st = (case peek c of
      None \<Rightarrow> Inr None
    | Some b \<Rightarrow>
        if has_byte_class f b CLASS_WHITESPACE then
          Inr (Some (Whitespace,
            eat_while (\<lambda>b. has_byte_class f b (CLASS_WHITESPACE OR CLASS_WHITESPACE_CONTINUE)) c, st))
        else if b = CHR ''-'' \<and> peek_nth 1 c = Some (CHR ''-'') then
          Inr (Some (LineComment,
            skip_line_comment 2 (cs_line_comment_ends_at_carriage_return (comment_syntax f)) c, st))
        else if b = CHR ''#'' \<and> cs_line_comment_hash (comment_syntax f) then
          Inr (Some (LineComment,
            skip_line_comment 1 (cs_line_comment_ends_at_carriage_return (comment_syntax f)) c, st))
        else if b = CHR ''*'' \<and> versioned_region_start st \<noteq> None
            \<and> peek_nth 1 c = Some (CHR ''/'') then
          Inr (Some (BlockComment, advance_bytes 2 c, st\<lparr>versioned_region_start := None\<rparr>))
        else if b = CHR ''/'' \<and> peek_nth 1 c = Some (CHR ''*'')
            \<and> \<not> (cs_unterminated_block_comment_at_eof (comment_syntax f) \<and> peek_nth 2 c = None) then
          (case (cs_versioned_comments (comment_syntax f), peek_nth 2 c = Some (CHR ''!'')) of
             (Some bound, True) \<Rightarrow>
               (case scan_versioned_marker bound (cs_nested_block_comments (comment_syntax f)) c st of
                  Inl e \<Rightarrow> Inl e
                | Inr (c', st') \<Rightarrow> Inr (Some (BlockComment, c', st')))
           | _ \<Rightarrow>
               (case skip_block_comment (cs_nested_block_comments (comment_syntax f))
                   (cs_unterminated_block_comment_at_eof (comment_syntax f)) c of
                  Inl e \<Rightarrow> Inl e
                | Inr c' \<Rightarrow> Inr (Some (BlockComment, c', st))))
        else Inr None)"

lemma trivia_run_lt:
  assumes "trivia_run f c st = Inr (Some (k, c', st'))"
  shows "cur_lt c c'"
proof -
  from assms obtain b where b: "peek c = Some b"
    by (auto simp: trivia_run_def split: option.splits)
  have ws: "has_byte_class f b CLASS_WHITESPACE \<Longrightarrow>
      has_byte_class f b (CLASS_WHITESPACE OR CLASS_WHITESPACE_CONTINUE)"
    by (simp add: has_byte_class_def has_class_or)
  have lc: "cur_lt c (skip_line_comment 1 cr c)" for cr
    using skip_line_comment_lt[of 0 c b 1] b by simp
  have lc2: "peek_nth 1 c = Some x \<Longrightarrow> cur_lt c (skip_line_comment 2 cr c)" for x cr
    using skip_line_comment_lt[of 1 c x 2] by simp
  have adv: "peek_nth 1 c = Some x \<Longrightarrow> cur_lt c (advance_bytes 2 c)" for x
    using advance_lt[of 1 c x 2] by simp
  have eat: "has_byte_class f b CLASS_WHITESPACE \<Longrightarrow>
      cur_lt c (eat_while (\<lambda>b. has_byte_class f b (CLASS_WHITESPACE OR CLASS_WHITESPACE_CONTINUE)) c)"
    by (rule eat_while_lt[OF b]) (rule ws)
  show ?thesis
    using assms b eat lc lc2 adv skip_block_comment_lt[OF b] scan_versioned_marker_lt[of c "CHR ''!''"]
    by (auto simp: trivia_run_def split: if_splits option.splits bool.splits sum.splits prod.splits)
qed

lemma trivia_run_ok:
  assumes "cur_ok c" "length (cur_src c) \<le> u32_max" "state_ok st c"
  shows "case trivia_run f c st of
      Inl e \<Rightarrow> fails_in (cur_pos c) (cur_src c) e
    | Inr None \<Rightarrow> True
    | Inr (Some (k, c', st')) \<Rightarrow> cur_lt c c' \<and> state_ok st' c'"
proof (cases "trivia_run f c st")
  case (Inl e)
  then obtain b where b: "peek c = Some b" by (auto simp: trivia_run_def split: option.splits)
  have blk: "b = CHR ''/'' \<Longrightarrow> peek_nth 1 c = Some (CHR ''*'') \<Longrightarrow> skip_block_comment n s c = Inl e'
      \<Longrightarrow> fails_in (cur_pos c) (cur_src c) e'" for n s e'
    using skip_block_comment_advances(1)[of c n s] b assms(2) by simp
  have ver: "peek_nth 2 c = Some (CHR ''!'') \<Longrightarrow> scan_versioned_marker v n c st = Inl e'
      \<Longrightarrow> fails_in (cur_pos c) (cur_src c) e'" for v n e'
    using scan_versioned_marker_ok[OF _ assms(2,3), of "CHR ''!''" v n] by simp
  from Inl b blk ver have "fails_in (cur_pos c) (cur_src c) e"
    by (auto simp: trivia_run_def split: if_splits option.splits bool.splits sum.splits prod.splits)
  with Inl show ?thesis by simp
next
  case (Inr r)
  show ?thesis
  proof (cases r)
    case None
    with Inr show ?thesis by simp
  next
    case (Some p)
    obtain k c' st' where p: "p = (k, c', st')" by (cases p)
    with Inr Some have run: "trivia_run f c st = Inr (Some (k, c', st'))" by simp
    note lt = trivia_run_lt[OF run]
    then have mono: "state_ok st c'"
      using state_ok_mono[OF assms(3)] by (simp add: cur_lt_def)
    have ver: "peek_nth 2 c = Some (CHR ''!'') \<Longrightarrow> scan_versioned_marker v n c st = Inr (c', st')
        \<Longrightarrow> state_ok st' c'" for v n
      using scan_versioned_marker_ok[OF _ assms(2,3), of "CHR ''!''" v n] by simp
    have "state_ok st' c'"
      using run mono ver
      by (auto simp: trivia_run_def state_ok_def
          split: if_splits option.splits bool.splits sum.splits prod.splits)
    with run lt show ?thesis by simp
  qed
qed

lemma trivia_run_measure:
  assumes "trivia_run f c st = Inr (Some (k, c', st'))"
  shows "length (cur_src c') - cur_pos c' < length (cur_src c) - cur_pos c"
proof -
  from assms have "peek c \<noteq> None" by (cases "peek c") (simp_all add: trivia_run_def)
  then have "cur_pos c < length (cur_src c)" by (simp add: peek_None)
  with trivia_run_lt[OF assms] show ?thesis by (auto simp: cur_lt_def cur_le_def)
qed

subsection \<open>The sweep\<close>

text \<open>
  The boundary bookkeeping of a whitespace run: the first boundary byte that has content on
  its left stays pending until the right side is known.
\<close>

definition pending_after ::
    "feature_set \<Rightarrow> bool \<Rightarrow> bool \<Rightarrow> bool \<Rightarrow> nat option \<Rightarrow> trivia_kind \<Rightarrow> cursor \<Rightarrow> cursor \<Rightarrow> nat option" where
  "pending_after f track content_before comment_seen pending kind c c' =
     (if kind = Whitespace \<and> track then
        (let boundary_at = map_option (\<lambda>i. cur_pos c + i)
               (first_index (\<lambda>b. has_byte_class f b CLASS_WHITESPACE_BOUNDARY)
                  (subslice (cur_src c) (cur_pos c) (cur_pos c')))
         in if pending = None \<and> (content_before \<or> comment_seen) then boundary_at else pending)
      else pending)"

function skip_trivia_loop ::
    "feature_set \<Rightarrow> bool \<Rightarrow> bool \<Rightarrow> bool \<Rightarrow> nat option \<Rightarrow> trivia_sink \<Rightarrow> lex_state \<Rightarrow> cursor
      \<Rightarrow> lex_failure + (cursor \<times> trivia_sink \<times> lex_state)" where
  "skip_trivia_loop f track content_before comment_seen pending sink st c =
     (case trivia_run f c st of
        Inl e \<Rightarrow> Inl e
      | Inr None \<Rightarrow>
          (case pending of
             Some off \<Rightarrow>
               if (case peek c of None \<Rightarrow> False | Some b \<Rightarrow> b \<noteq> CHR '';'')
               then Inl (lex_err StrayByte off (off + 1))
               else Inr (c, sink, st)
           | None \<Rightarrow> Inr (c, sink, st))
      | Inr (Some (kind, c', st')) \<Rightarrow>
          let pending' = pending_after f track content_before comment_seen pending kind c c';
              comment = (kind = LineComment \<or> kind = BlockComment)
          in if comment \<and> pending' \<noteq> None then
               Inl (lex_err StrayByte (the pending') (the pending' + 1))
             else if comment \<and> CHR 0x00 \<in> set (subslice (cur_src c) (cur_pos c) (cur_pos c')) then
               Inl (lex_err NulByteInComment (cur_pos c) (cur_pos c'))
             else (case span_new (cur_pos c) (cur_pos c') of
                 None \<Rightarrow> Inl Panic
               | Some sp \<Rightarrow>
                   skip_trivia_loop f track content_before (comment_seen \<or> comment) pending'
                     (if recording sink then record_trivia sink (TriviaRange kind sp) else sink) st' c'))"
  by pat_completeness auto
termination
  by (relation "measure (\<lambda>(f, t, cb, cs, p, s, st, c). length (cur_src c) - cur_pos c)")
    (auto intro: trivia_run_measure split: prod.splits)

declare skip_trivia_loop.simps [simp del]

definition skip_trivia ::
    "feature_set \<Rightarrow> trivia_sink \<Rightarrow> lex_state \<Rightarrow> cursor \<Rightarrow> lex_failure + (cursor \<times> trivia_sink \<times> lex_state)" where
  "skip_trivia f sink st c =
     (let track_boundary = has_boundary_whitespace (byte_classes f);
          content_before_sweep = (cur_pos c \<noteq> 0 \<and> cur_src c ! (cur_pos c - 1) \<noteq> CHR '';'')
      in skip_trivia_loop f track_boundary content_before_sweep False None sink st c)"

lemma pending_after_bounds:
  assumes "pending_after f track cb cs pending k c c' = Some off"
    "\<forall>off. pending = Some off \<longrightarrow> lo \<le> off \<and> off < cur_pos c" "lo \<le> cur_pos c" "cur_lt c c'" "cur_ok c"
  shows "lo \<le> off \<and> off < cur_pos c'"
proof -
  have lt: "cur_pos c < cur_pos c'" "cur_pos c' \<le> length (cur_src c)"
    using assms(4,5) by (auto simp: cur_lt_def cur_le_def cur_ok_def)
  have "\<And>i. first_index q (subslice (cur_src c) (cur_pos c) (cur_pos c')) = Some i
      \<Longrightarrow> cur_pos c + i < cur_pos c'" for q
    using lt by (auto dest!: first_index_bound simp: length_slice)
  with assms(1,2,3) lt(1) show ?thesis
    by (fastforce simp: pending_after_def Let_def split: if_splits)
qed

text \<open>What is known of the text of a run: whitespace is made of whitespace bytes, a comment
  has no NUL byte.\<close>

definition run_text_ok :: "feature_set \<Rightarrow> source \<Rightarrow> trivia_range \<Rightarrow> bool" where
  "run_text_ok f src r \<longleftrightarrow>
     (if trivia_kind r = Whitespace
      then \<forall>b\<in>set (subslice src (run_start r) (run_end r)).
             has_byte_class f b (CLASS_WHITESPACE OR CLASS_WHITESPACE_CONTINUE)
      else CHR 0x00 \<notin> set (subslice src (run_start r) (run_end r)))"

lemma whitespace_run_text:
  assumes "trivia_run f c st = Inr (Some (Whitespace, c', st'))" "cur_ok c"
    "b \<in> set (subslice (cur_src c) (cur_pos c) (cur_pos c'))"
  shows "has_byte_class f b (CLASS_WHITESPACE OR CLASS_WHITESPACE_CONTINUE)"
proof -
  let ?ws = "\<lambda>b. has_byte_class f b (CLASS_WHITESPACE OR CLASS_WHITESPACE_CONTINUE)"
  have c': "c' = eat_while ?ws c"
    using assms(1) by (auto simp: trivia_run_def
        split: if_splits option.splits bool.splits sum.splits prod.splits)
  have "cur_pos c \<le> cur_pos c'" "cur_pos c' \<le> length (cur_src c)"
    using eat_while_le[of c ?ws] assms(2) by (auto simp: c' cur_le_def cur_ok_def)
  with assms(3) obtain k where "cur_pos c \<le> k" "k < cur_pos c'" "cur_src c ! k = b"
    by (auto simp: set_slice)
  with eat_while_all[of c k ?ws] show ?thesis by (simp add: c')
qed

text \<open>
  What a sweep does, whatever it starts from: the cursor moves forward, the recorded runs
  tile exactly the bytes it passed, and it stops where no run of trivia begins.
\<close>

definition sweeps :: "nat \<Rightarrow> feature_set \<Rightarrow> trivia_sink \<Rightarrow> cursor
    \<Rightarrow> lex_failure + (cursor \<times> trivia_sink \<times> lex_state) \<Rightarrow> bool" where
  "sweeps lo f sink c r \<longleftrightarrow> (case r of
      Inl e \<Rightarrow> fails_in lo (cur_src c) e
    | Inr (c', sink', st') \<Rightarrow> cur_le c c' \<and> state_ok st' c' \<and> trivia_run f c' st' = Inr None
        \<and> (\<exists>new. sink' = map_option (\<lambda>rs. rs @ new) sink
            \<and> tiles (map run_bounds new) (cur_pos c) (cur_pos c')
            \<and> (\<forall>r\<in>set new. run_text_ok f (cur_src c) r)))"

lemma sweeps_step:
  assumes "sweeps lo f (if recording sink then record_trivia sink (TriviaRange k (Span (cur_pos c) (cur_pos c1))) else sink) c1 r"
    and "cur_lt c c1" and "run_text_ok f (cur_src c) (TriviaRange k (Span (cur_pos c) (cur_pos c1)))"
  shows "sweeps lo f sink c r"
proof (cases r)
  case (Inl e)
  with assms show ?thesis by (simp add: sweeps_def cur_lt_def cur_le_def)
next
  case (Inr p)
  obtain c' sink' st' where p: "p = (c', sink', st')" by (cases p)
  let ?run = "TriviaRange k (Span (cur_pos c) (cur_pos c1))"
  from assms(1) Inr p obtain new where
    le: "cur_le c1 c'" "state_ok st' c'" "trivia_run f c' st' = Inr None"
    and new: "sink' = map_option (\<lambda>rs. rs @ new)
        (if recording sink then record_trivia sink ?run else sink)"
      "tiles (map run_bounds new) (cur_pos c1) (cur_pos c')"
      "\<forall>r\<in>set new. run_text_ok f (cur_src c1) r"
    by (auto simp: sweeps_def)
  have "sink' = map_option (\<lambda>rs. rs @ ?run # new) sink"
    using new(1) by (cases sink) (simp_all add: recording_def)
  moreover have "tiles (map run_bounds (?run # new)) (cur_pos c) (cur_pos c')"
    using new(2) assms(2) by (simp add: cur_lt_def)
  moreover have "\<forall>r\<in>set (?run # new). run_text_ok f (cur_src c) r"
    using new(3) assms(2,3) by (simp add: cur_lt_def cur_le_def)
  moreover have "cur_le c c'" using le(1) assms(2) cur_le_trans cur_lt_le by blast
  ultimately show ?thesis unfolding sweeps_def Inr p sum.case prod.case using le by blast
qed

lemma skip_trivia_loop_sweeps:
  assumes "lo \<le> cur_pos c" "cur_ok c" "length (cur_src c) \<le> u32_max" "state_ok st c"
    "\<forall>off. pending = Some off \<longrightarrow> lo \<le> off \<and> off < cur_pos c"
  shows "sweeps lo f sink c (skip_trivia_loop f track cb cs pending sink st c)"
  using assms
proof (induction f track cb cs pending sink st c rule: skip_trivia_loop.induct)
  case (1 f track cb cs pending sink st c)
  note run_ok = trivia_run_ok[OF 1(3,4,5), of f]
  have len: "\<forall>off. pending = Some off \<longrightarrow> off < length (cur_src c)"
    using 1(3,6) by (auto simp: cur_ok_def)
  show ?case
  proof (cases "trivia_run f c st")
    case (Inl e)
    with run_ok have "fails_in lo (cur_src c) e" using fails_in_mono[OF 1(2)] by simp
    with Inl show ?thesis by (subst skip_trivia_loop.simps) (simp add: sweeps_def)
  next
    case (Inr r)
    show ?thesis
    proof (cases r)
      case None
      have stay: "sweeps lo f sink c (Inr (c, sink, st))"
        using Inr None 1(5) by (auto simp: sweeps_def option.map_ident intro!: exI[of _ "[]"])
      have err: "pending = Some off \<Longrightarrow> sweeps lo f sink c (Inl (lex_err StrayByte off (off + 1)))" for off
        using 1(6) len fails_in_lex_err[of lo off "off + 1" "cur_src c"] by (simp add: sweeps_def Suc_le_eq)
      show ?thesis
        by (subst skip_trivia_loop.simps) (use Inr None stay err in \<open>auto split: option.splits\<close>)
    next
      case (Some p)
      obtain k c1 st1 where p: "p = (k, c1, st1)" by (cases p)
      let ?pend = "pending_after f track cb cs pending k c c1"
      have run: "trivia_run f c st = Inr (Some (k, c1, st1))" using Inr Some p by simp
      from run_ok run have lt: "cur_lt c c1" and st1: "state_ok st1 c1" by simp_all
      have pos: "cur_pos c < cur_pos c1" "cur_pos c1 \<le> length (cur_src c)" "cur_ok c1"
          "cur_src c1 = cur_src c"
        using lt 1(3) by (auto simp: cur_lt_def cur_le_def cur_ok_def)
      have pend: "\<forall>off. ?pend = Some off \<longrightarrow> lo \<le> off \<and> off < cur_pos c1"
        using pending_after_bounds[OF _ 1(6) 1(2) lt 1(3)] by blast
      have sp: "span_new (cur_pos c) (cur_pos c1) = Some (Span (cur_pos c) (cur_pos c1))"
        using pos(1) by (simp add: span_new_def)
      let ?comment = "k = LineComment \<or> k = BlockComment"
      consider (stray) off where "?comment" "?pend = Some off"
        | (nul) "?comment" "?pend = None" "CHR 0x00 \<in> set (subslice (cur_src c) (cur_pos c) (cur_pos c1))"
        | (go) "\<not> (?comment \<and> ?pend \<noteq> None)"
            "\<not> (?comment \<and> CHR 0x00 \<in> set (subslice (cur_src c) (cur_pos c) (cur_pos c1)))"
        by (cases ?pend) auto
      then show ?thesis
      proof cases
        case stray
        with pend pos have "fails_in lo (cur_src c) (lex_err StrayByte off (off + 1))"
          by (intro fails_in_lex_err) auto
        with run stray show ?thesis
          by (subst skip_trivia_loop.simps) (simp add: Let_def sweeps_def)
      next
        case nul
        have "fails_in lo (cur_src c) (lex_err NulByteInComment (cur_pos c) (cur_pos c1))"
          using 1(2) pos by (intro fails_in_lex_err) simp_all
        with run nul show ?thesis
          by (subst skip_trivia_loop.simps) (simp add: Let_def sweeps_def)
      next
        case go
        have eq: "skip_trivia_loop f track cb cs pending sink st c
            = skip_trivia_loop f track cb (cs \<or> ?comment) ?pend
                (if recording sink then record_trivia sink (TriviaRange k (Span (cur_pos c) (cur_pos c1))) else sink)
                st1 c1"
          by (subst skip_trivia_loop.simps)
            (simp only: run sum.case option.case prod.case Let_def go if_False sp)
        have "sweeps lo f (if recording sink then record_trivia sink (TriviaRange k (Span (cur_pos c) (cur_pos c1))) else sink)
            c1 (skip_trivia_loop f track cb (cs \<or> ?comment) ?pend
                (if recording sink then record_trivia sink (TriviaRange k (Span (cur_pos c) (cur_pos c1))) else sink)
                st1 c1)"
          using 1(1)[OF Inr Some p[symmetric] refl refl refl go sp] 1(2,4) pos st1 pend by simp
        moreover have "run_text_ok f (cur_src c) (TriviaRange k (Span (cur_pos c) (cur_pos c1)))"
          using go whitespace_run_text[of f c st c1 st1] run 1(3)
          by (cases k) (auto simp: run_text_ok_def)
        ultimately show ?thesis unfolding eq using lt by (blast intro: sweeps_step)
      qed
    qed
  qed
qed

lemma skip_trivia_sweeps [lexeme_ok]:
  assumes "cur_ok c" "length (cur_src c) \<le> u32_max" "state_ok st c"
  shows "sweeps (cur_pos c) f sink c (skip_trivia f sink st c)"
  unfolding skip_trivia_def Let_def using assms by (intro skip_trivia_loop_sweeps) auto


text \<open>The sink only listens: it changes neither where the sweep stops nor how it fails.\<close>

fun forget_trivia :: "lex_failure + (cursor \<times> trivia_sink \<times> lex_state) \<Rightarrow> lex_failure + (cursor \<times> lex_state)" where
  "forget_trivia (Inl e) = Inl e"
| "forget_trivia (Inr (c, sink, st)) = Inr (c, st)"

lemma skip_trivia_loop_sink:
  "forget_trivia (skip_trivia_loop f track cb cs pending sink st c)
     = forget_trivia (skip_trivia_loop f track cb cs pending None st c)"
proof (induction f track cb cs pending sink st c rule: skip_trivia_loop.induct)
  case (1 f track cb cs pending sink st c)
  show ?case
  proof (cases "\<exists>k c1 st1. trivia_run f c st = Inr (Some (k, c1, st1))")
    case False
    then have "(\<exists>e. trivia_run f c st = Inl e) \<or> trivia_run f c st = Inr None"
      by (cases "trivia_run f c st") (auto, metis option.exhaust prod_cases3)
    then show ?thesis
      by (subst (1 2) skip_trivia_loop.simps) (auto split: option.splits)
  next
    case True
    then obtain k c1 st1 where run: "trivia_run f c st = Inr (Some (k, c1, st1))" by blast
    show ?thesis
      by (subst (1 2) skip_trivia_loop.simps)
        (use 1[OF run refl refl refl refl refl] run in
          \<open>auto simp: Let_def recording_def split: option.splits\<close>)
  qed
qed

lemma skip_trivia_sink:
  "forget_trivia (skip_trivia f sink st c) = forget_trivia (skip_trivia f None st c)"
  unfolding skip_trivia_def Let_def by (rule skip_trivia_loop_sink)

end
