(* ===== verification/Scan_Lexemes.thy ===== *)
theory Scan_Lexemes
  imports Cursor_Walks Dialect_Features Keyword_Lookup
begin

text \<open>
  The lexeme scanners of \<open>crates/squonk/src/tokenizer/scan.rs\<close> for words, numbers,
  parameters and references: the identifier policy, numeric literals with their radix and
  separator forms, money, placeholders, session variables and stage references.

  \<open>char::is_alphabetic\<close> and \<open>char::is_alphanumeric\<close> read Unicode tables of the Rust standard
  library; they are the parameter \<open>u\<close>, and nothing is assumed of them.
\<close>

subsection \<open>Identifier characters\<close>

record unicode_tables =
  uc_alphabetic :: "nat \<Rightarrow> bool"
  uc_alphanumeric :: "nat \<Rightarrow> bool"

definition is_identifier_start :: "unicode_tables \<Rightarrow> feature_set \<Rightarrow> nat \<Rightarrow> bool" where
  "is_identifier_start u f ch =
     (if ch < 128 then has_byte_class f (char_of ch) CLASS_IDENTIFIER_START
      else case ids_non_ascii (identifier_syntax f) of
        UnicodeAlphanumeric \<Rightarrow> uc_alphabetic u ch | NonAscii_Any \<Rightarrow> True)"

definition is_identifier_continue :: "unicode_tables \<Rightarrow> feature_set \<Rightarrow> nat \<Rightarrow> bool" where
  "is_identifier_continue u f ch =
     (if ch < 128 then has_byte_class f (char_of ch) CLASS_IDENTIFIER_CONTINUE
      else case ids_non_ascii (identifier_syntax f) of
        UnicodeAlphanumeric \<Rightarrow> uc_alphanumeric u ch | NonAscii_Any \<Rightarrow> True)"

definition is_dollar_tag_start :: "feature_set \<Rightarrow> byte \<Rightarrow> bool" where
  "is_dollar_tag_start f b \<longleftrightarrow> has_byte_class f b CLASS_IDENTIFIER_START \<or> 128 \<le> byte_val b"

definition is_dollar_tag_continue :: "feature_set \<Rightarrow> byte \<Rightarrow> bool" where
  "is_dollar_tag_continue f b \<longleftrightarrow> has_byte_class f b CLASS_IDENTIFIER_CONTINUE"

definition is_digit :: "feature_set \<Rightarrow> byte \<Rightarrow> bool" where
  "is_digit f b \<longleftrightarrow> has_byte_class f b CLASS_DIGIT"

text \<open>\<open>cursor.peek_nth(n).is_some_and(p)\<close> and \<open>cursor.char_at(n).is_some_and(p)\<close>.\<close>

definition byte_ahead :: "nat \<Rightarrow> (byte \<Rightarrow> bool) \<Rightarrow> cursor \<Rightarrow> bool" where
  "byte_ahead n p c = (case peek_nth n c of None \<Rightarrow> False | Some b \<Rightarrow> p b)"

definition char_ahead :: "nat \<Rightarrow> (nat \<Rightarrow> bool) \<Rightarrow> cursor \<Rightarrow> bool" where
  "char_ahead n p c = (case char_at n c of None \<Rightarrow> False | Some ch \<Rightarrow> p ch)"

function eat_identifier_continue :: "unicode_tables \<Rightarrow> feature_set \<Rightarrow> cursor \<Rightarrow> lex_failure + cursor" where
  "eat_identifier_continue u f c = (case peek c of
      None \<Rightarrow> Inr c
    | Some b \<Rightarrow>
        if byte_val b < 128 then
          (if \<not> (is_identifier_continue u f (byte_val b)
                 \<or> (ids_dollar_in_identifiers (identifier_syntax f) \<and> b = CHR ''$''))
           then Inr c
           else eat_identifier_continue u f (bump c))
        else
          (case char_at 0 c of
             None \<Rightarrow> Inl Panic
           | Some ch \<Rightarrow>
               if \<not> is_identifier_continue u f ch then Inr c
               else eat_identifier_continue u f (advance_bytes (len_utf8 ch) c)))"
  by pat_completeness auto
termination
proof (relation "measure (\<lambda>(u, f, c). length (cur_src c) - cur_pos c)", goal_cases)
  case (2 u f c b)
  then show ?case by (auto simp: bump_pos peek_Some)
next
  case (3 u f c b ch)
  then have "cur_pos c < length (cur_src c)" "0 < len_utf8 ch" by (auto simp: peek_Some)
  then show ?case by (simp add: diff_less_mono2)
qed simp

declare eat_identifier_continue.simps [simp del]

text \<open>On valid text the run never panics.\<close>

lemma eat_identifier_walks [lexeme_ok]:
  "cur_good c \<Longrightarrow> \<exists>c'. eat_identifier_continue u f c = Inr c' \<and> walks c c'"
proof (induction u f c rule: eat_identifier_continue.induct)
  case (1 u f c)
  show ?case
  proof (cases "peek c")
    case None
    then show ?thesis by (subst eat_identifier_continue.simps) simp
  next
    case (Some b)
    from char_at_good[OF 1(3) Some] obtain ch where
      ch: "char_at 0 c = Some ch" "walks c (advance_bytes (len_utf8 ch) c)" by blast
    have wb: "is_ascii b \<Longrightarrow> walks c (bump c)" using walks_bump[OF Some] .
    have halts: "eat_identifier_continue u f c = Inr c"
      if "\<not> (is_ascii b \<and> (is_identifier_continue u f (byte_val b)
          \<or> (ids_dollar_in_identifiers (identifier_syntax f) \<and> b = CHR ''$'')))"
        "\<not> (\<not> is_ascii b \<and> is_identifier_continue u f ch)"
      using that Some ch(1) by (subst eat_identifier_continue.simps) (auto simp: is_ascii_def)
    consider (ascii) "is_ascii b" "is_identifier_continue u f (byte_val b)
        \<or> (ids_dollar_in_identifiers (identifier_syntax f) \<and> b = CHR ''$'')"
      | (wide) "\<not> is_ascii b" "is_identifier_continue u f ch"
      | (stop) "eat_identifier_continue u f c = Inr c"
      using halts by blast
    then show ?thesis
    proof cases
      case ascii
      with Some have "eat_identifier_continue u f c = eat_identifier_continue u f (bump c)"
        by (subst eat_identifier_continue.simps) (auto simp: is_ascii_def)
      with 1(1)[OF Some] ascii wb walks_good 1(3) show ?thesis
        by (fastforce simp: is_ascii_def intro: walks_trans)
    next
      case wide
      with Some ch(1) have "eat_identifier_continue u f c
          = eat_identifier_continue u f (advance_bytes (len_utf8 ch) c)"
        by (subst eat_identifier_continue.simps) (auto simp: is_ascii_def)
      with 1(2)[OF Some _ ch(1)] wide ch(2) walks_good 1(3) show ?thesis
        by (fastforce simp: is_ascii_def intro: walks_trans)
    next
      case stop
      then show ?thesis by blast
    qed
  qed
qed

subsection \<open>Words\<close>

definition scan_word :: "unicode_tables \<Rightarrow> feature_set \<Rightarrow> cursor \<Rightarrow> lex_failure + (token \<times> cursor)" where
  "scan_word u f c = (case char_at 0 c of
      None \<Rightarrow> Inl Panic
    | Some ch \<Rightarrow>
        and_then (eat_identifier_continue u f (bump_char c)) (\<lambda>c1.
          case str_slice (cur_src c) (cur_pos c) (cur_pos c1) of
            None \<Rightarrow> Inl Panic
          | Some txt \<Rightarrow>
              token_from (case lookup_keyword txt of None \<Rightarrow> Tk_Word | Some k \<Rightarrow> Tk_Keyword k)
                (cur_pos c) c1))"

lemma scan_word_scans [lexeme_ok]:
  assumes "cur_good c" "peek c = Some b"
  shows "scans c (scan_word u f c)"
proof -
  from char_at_good[OF assms] obtain ch where
    ch: "char_at 0 c = Some ch" "walks c (advance_bytes (len_utf8 ch) c)" by blast
  then have b: "bump_char c = advance_bytes (len_utf8 ch) c" by (simp add: bump_char_advance)
  from eat_identifier_walks[OF walks_good[OF ch(2) assms(1)], of u f] obtain c1 where
    c1: "eat_identifier_continue u f (bump_char c) = Inr c1" "walks (bump_char c) c1"
    by (auto simp: b)
  then have w: "walks c c1" using ch(2) b walks_trans by metis
  have "cur_pos c + len_utf8 ch \<le> cur_pos c1"
    using c1(2) by (auto simp: b walks_def cur_le_def)
  then have "cur_pos c < cur_pos c1" using len_utf8_pos[of ch] by linarith
  with ch(1) c1(1) w show ?thesis
    by (simp add: scan_word_def str_slice_walk[OF w assms(1)] scans_token_from)
qed

subsection \<open>Tables that class only ASCII bytes\<close>

text \<open>
  The dispatch relies on the byte-class table: whitespace and digits are ASCII, operator and
  punctuation bytes are those the operator and punctuation scanners know. A table the public
  constructors can build may break this; every shipped table satisfies it.
\<close>

definition classes_sane :: "feature_set \<Rightarrow> bool" where
  "classes_sane f \<longleftrightarrow> (\<forall>b.
     (has_byte_class f b CLASS_WHITESPACE \<longrightarrow> is_ascii b \<and> b \<noteq> CHR 0x00)
   \<and> (has_byte_class f b CLASS_WHITESPACE_CONTINUE \<longrightarrow> is_ascii b \<and> b \<noteq> CHR 0x00)
   \<and> (has_byte_class f b CLASS_DIGIT \<longrightarrow> is_ascii_digit b)
   \<and> (has_byte_class f b CLASS_OPERATOR \<longrightarrow> is_operator_byte b)
   \<and> (has_byte_class f b CLASS_PUNCTUATION \<longrightarrow> is_punctuation_byte b)
   \<and> (is_ascii b \<longrightarrow> has_byte_class f b CLASS_IDENTIFIER_CONTINUE \<longrightarrow> b \<noteq> CHR 0x00))"

lemma digit_ascii: "classes_sane f \<Longrightarrow> is_digit f b \<Longrightarrow> is_ascii b"
  by (auto simp: classes_sane_def is_digit_def is_ascii_digit_def is_ascii_def)

lemma ascii_digit_ascii: "is_ascii_digit b \<Longrightarrow> is_ascii b"
  by (auto simp: is_ascii_digit_def is_ascii_def)

lemma ascii_hexdigit_ascii: "is_ascii_hexdigit b \<Longrightarrow> is_ascii b"
  by (auto simp: is_ascii_hexdigit_def is_ascii_digit_def is_ascii_def)

lemma walks_bump_if [cursor_mono]: "(\<And>b. peek c = Some b \<Longrightarrow> is_ascii b) \<Longrightarrow> walks c (bump c)"
  by (cases "peek c") (simp_all add: walks_bump walks_bump_eof)

lemma bump_progress: "peek c = Some b \<Longrightarrow> walks (bump c) c' \<Longrightarrow> cur_pos c < cur_pos c'"
  using bump_pos[of c b] by (simp add: walks_def cur_le_def)

subsection \<open>Numbers\<close>

function eat_decimal_digits :: "feature_set \<Rightarrow> bool \<Rightarrow> bool \<Rightarrow> bool \<Rightarrow> cursor \<Rightarrow> cursor" where
  "eat_decimal_digits f separators strict prev_was_digit c = (case peek c of
      None \<Rightarrow> c
    | Some b \<Rightarrow>
        if is_digit f b then eat_decimal_digits f separators strict True (bump c)
        else if b = CHR ''_'' \<and> separators \<and> (\<not> strict \<or> prev_was_digit) \<and> byte_ahead 1 (is_digit f) c
        then eat_decimal_digits f separators strict False (bump c)
        else c)"
  by pat_completeness auto
termination
  by (relation "measure (\<lambda>(f, s, t, p, c). length (cur_src c) - cur_pos c)") (auto simp: bump_pos peek_Some)

declare eat_decimal_digits.simps [simp del]

lemma eat_decimal_digits_walks [cursor_mono]:
  "classes_sane f \<Longrightarrow> walks c (eat_decimal_digits f separators strict prev c)"
proof (induction f separators strict prev c rule: eat_decimal_digits.induct)
  case (1 f separators strict prev c)
  show ?case
  proof (cases "peek c")
    case (Some b)
    have "is_digit f b \<or> b = CHR ''_'' \<Longrightarrow> walks c (bump c)"
      using walks_bump[OF Some] digit_ascii[OF 1(3)] by (auto simp: is_ascii_def)
    with 1(1)[OF Some _ 1(3)] 1(2)[OF Some _ _ 1(3)] Some show ?thesis
      by (subst eat_decimal_digits.simps) (auto intro: walks_trans)
  qed (subst eat_decimal_digits.simps, simp)
qed

definition eat_fixed_point :: "feature_set \<Rightarrow> bool \<Rightarrow> bool \<Rightarrow> cursor \<Rightarrow> cursor" where
  "eat_fixed_point f separators strict c =
     (if peek c = Some (CHR ''.'') then eat_decimal_digits f separators strict False (bump c)
      else let c1 = eat_decimal_digits f separators strict False c in
        if peek c1 = Some (CHR ''.'') then eat_decimal_digits f separators strict False (bump c1)
        else c1)"

datatype radix = Hex | Octal | Binary

fun radix_is_digit :: "radix \<Rightarrow> byte \<Rightarrow> bool" where
  "radix_is_digit Hex b = is_ascii_hexdigit b"
| "radix_is_digit Octal b = (48 \<le> byte_val b \<and> byte_val b \<le> 55)"
| "radix_is_digit Binary b = (b = CHR ''0'' \<or> b = CHR ''1'')"

definition radix_prefix :: "feature_set \<Rightarrow> cursor \<Rightarrow> radix option" where
  "radix_prefix f c =
     (if peek c \<noteq> Some (CHR ''0'') then None
      else case peek_nth 1 c of
        None \<Rightarrow> None
      | Some m \<Rightarrow>
          (let num = numeric_literals f;
               marked = (if (m = CHR ''x'' \<or> m = CHR ''X'') \<and> nl_hex_integers num then Some Hex
                         else if (m = CHR ''o'' \<or> m = CHR ''O'') \<and> nl_octal_integers num then Some Octal
                         else if (m = CHR ''b'' \<or> m = CHR ''B'') \<and> nl_binary_integers num then Some Binary
                         else None)
           in case marked of
                None \<Rightarrow> None
              | Some radix \<Rightarrow>
                  (case peek_nth 2 c of
                     None \<Rightarrow> None
                   | Some first \<Rightarrow>
                       if radix_is_digit radix first
                          \<or> (nl_underscore_separators num \<and> nl_radix_leading_underscore num
                             \<and> first = CHR ''_'' \<and> byte_ahead 3 (radix_is_digit radix) c)
                       then Some radix else None)))"

function eat_radix_digits :: "radix \<Rightarrow> bool \<Rightarrow> cursor \<Rightarrow> cursor" where
  "eat_radix_digits radix separators c = (case peek c of
      None \<Rightarrow> c
    | Some b \<Rightarrow>
        if radix_is_digit radix b
           \<or> (b = CHR ''_'' \<and> separators \<and> byte_ahead 1 (radix_is_digit radix) c)
        then eat_radix_digits radix separators (bump c) else c)"
  by pat_completeness auto
termination
  by (relation "measure (\<lambda>(r, s, c). length (cur_src c) - cur_pos c)") (auto simp: bump_pos peek_Some)

declare eat_radix_digits.simps [simp del]

definition exponent_follows :: "feature_set \<Rightarrow> cursor \<Rightarrow> bool" where
  "exponent_follows f c =
     (let ahead = (if peek_nth 1 c = Some (CHR ''+'') \<or> peek_nth 1 c = Some (CHR ''-'') then 2 else 1)
      in byte_ahead ahead (is_digit f) c)"

text \<open>The body of a number, before the trailing-junk check.\<close>

definition eat_number :: "feature_set \<Rightarrow> cursor \<Rightarrow> cursor" where
  "eat_number f c =
     (let separators = nl_underscore_separators (numeric_literals f);
          strict = nl_reject_trailing_junk (numeric_literals f)
      in case radix_prefix f c of
           Some radix \<Rightarrow> eat_radix_digits radix separators (bump (bump c))
         | None \<Rightarrow>
             (let c1 = eat_fixed_point f separators strict c in
              if (peek c1 = Some (CHR ''e'') \<or> peek c1 = Some (CHR ''E'')) \<and> exponent_follows f c1 then
                (let c2 = bump c1;
                     c3 = (if peek c2 = Some (CHR ''+'') \<or> peek c2 = Some (CHR ''-'') then bump c2 else c2)
                 in eat_decimal_digits f separators strict False c3)
              else c1))"

definition scan_number :: "unicode_tables \<Rightarrow> feature_set \<Rightarrow> cursor \<Rightarrow> lex_failure + (token \<times> cursor)" where
  "scan_number u f c =
     (let c1 = eat_number f c in
      if nl_reject_trailing_junk (numeric_literals f) \<and> char_ahead 0 (is_identifier_start u f) c1 then
        and_then (eat_identifier_continue u f c1) (\<lambda>c2.
          Inl (lex_err TrailingJunkAfterNumber (cur_pos c) (cur_pos c2)))
      else token_from Tk_Number (cur_pos c) c1)"

definition money_follows :: "feature_set \<Rightarrow> cursor \<Rightarrow> bool" where
  "money_follows f c = (case peek_nth 1 c of
      None \<Rightarrow> False
    | Some b \<Rightarrow> if is_digit f b then True
                else if b = CHR ''.'' then byte_ahead 2 (is_digit f) c else False)"

definition scan_money :: "feature_set \<Rightarrow> cursor \<Rightarrow> lex_failure + (token \<times> cursor)" where
  "scan_money f c = token_from Tk_Number (cur_pos c) (eat_fixed_point f False False (bump c))"

text \<open>The steps in the form that chains: from a walk so far to a longer one.\<close>

lemma then_bump: "walks c d \<Longrightarrow> (\<And>b. peek d = Some b \<Longrightarrow> is_ascii b) \<Longrightarrow> walks c (bump d)"
  using walks_bump_if walks_trans by blast

lemma then_digits: "classes_sane f \<Longrightarrow> walks c d \<Longrightarrow> walks c (eat_decimal_digits f separators strict prev d)"
  using eat_decimal_digits_walks walks_trans by blast

lemma eat_fixed_point_walks: "classes_sane f \<Longrightarrow> walks c (eat_fixed_point f separators strict c)"
  unfolding eat_fixed_point_def Let_def
  by (auto simp: is_ascii_def intro!: then_digits then_bump)

lemma then_fixed_point: "classes_sane f \<Longrightarrow> walks c d \<Longrightarrow> walks c (eat_fixed_point f separators strict d)"
  using eat_fixed_point_walks walks_trans by blast

lemma radix_digit_ascii: "radix_is_digit r b \<Longrightarrow> is_ascii b"
  by (cases r) (auto simp: ascii_hexdigit_ascii, auto simp: is_ascii_def)

lemma eat_radix_digits_walks [cursor_mono]: "walks c (eat_radix_digits r separators c)"
proof (induction r separators c rule: eat_radix_digits.induct)
  case (1 r separators c)
  show ?case
  proof (cases "peek c")
    case (Some b)
    have "radix_is_digit r b \<or> b = CHR ''_'' \<Longrightarrow> walks c (bump c)"
      using walks_bump[OF Some] radix_digit_ascii[of r b] by (auto simp: is_ascii_def)
    with 1(1)[OF Some] Some show ?thesis
      by (subst eat_radix_digits.simps) (auto intro: walks_trans)
  qed (subst eat_radix_digits.simps, simp)
qed

lemma then_radix_digits: "walks c d \<Longrightarrow> walks c (eat_radix_digits r separators d)"
  using eat_radix_digits_walks walks_trans by blast

lemma radix_prefix_ascii:
  assumes "radix_prefix f c = Some r"
  shows "peek c = Some (CHR ''0'')" "\<And>b. peek (bump c) = Some b \<Longrightarrow> is_ascii b"
proof -
  show z: "peek c = Some (CHR ''0'')" using assms by (auto simp: radix_prefix_def split: if_splits)
  from z have "peek (bump c) = peek_nth 1 c"
    by (simp add: peek_def peek_nth_def bump_pos)
  then show "is_ascii b" if "peek (bump c) = Some b" for b
  proof -
    from that assms z \<open>peek (bump c) = peek_nth 1 c\<close>
    have "b \<in> set ''xXoObB''"
      by (simp add: radix_prefix_def Let_def split: option.splits if_splits) blast+
    then show ?thesis by (auto simp: is_ascii_def)
  qed
qed

lemma eat_number_walks:
  assumes "classes_sane f"
  shows "walks c (eat_number f c)"
proof (cases "radix_prefix f c")
  case (Some r)
  have "walks c (eat_radix_digits r (nl_underscore_separators (numeric_literals f)) (bump (bump c)))"
    by (intro then_radix_digits then_bump walks_refl)
      (use radix_prefix_ascii[OF Some] in \<open>auto simp: is_ascii_def\<close>)
  with Some show ?thesis by (simp add: eat_number_def)
next
  case None
  then show ?thesis unfolding eat_number_def Let_def
    by (auto simp: is_ascii_def intro!: then_digits then_bump then_fixed_point assms)
qed

lemma walks_pos: "walks c c' \<Longrightarrow> cur_pos c \<le> cur_pos c'"
  by (simp add: walks_def cur_le_def)

lemma digits_progress:
  assumes "classes_sane f" "peek c = Some b" "is_digit f b"
  shows "cur_pos c < cur_pos (eat_decimal_digits f separators strict prev c)"
  using bump_progress[OF assms(2) eat_decimal_digits_walks[OF assms(1)]] assms(2,3)
  by (subst eat_decimal_digits.simps) simp

lemma fixed_point_progress:
  assumes "classes_sane f" "peek c = Some b" "is_digit f b \<or> b = CHR ''.''"
  shows "cur_pos c < cur_pos (eat_fixed_point f separators strict c)"
proof (cases "b = CHR ''.''")
  case True
  then show ?thesis using bump_progress[OF assms(2) eat_decimal_digits_walks[OF assms(1)]] assms(2)
    by (simp add: eat_fixed_point_def)
next
  case False
  let ?d = "eat_decimal_digits f separators strict False c"
  have "cur_pos c < cur_pos ?d" using digits_progress[OF assms(1,2)] assms(3) False by simp
  moreover have "cur_pos ?d \<le> cur_pos (eat_decimal_digits f separators strict False (bump ?d))"
    by (rule order_trans[OF cur_leD(2)[OF bump_le] walks_pos[OF eat_decimal_digits_walks[OF assms(1)]]])
  ultimately show ?thesis using False assms(2) by (simp add: eat_fixed_point_def Let_def)
qed

lemma eat_number_progress:
  assumes "classes_sane f" "peek c = Some b" "is_digit f b \<or> b = CHR ''.''"
  shows "cur_pos c < cur_pos (eat_number f c)"
proof (cases "radix_prefix f c")
  case (Some r)
  have "walks (bump c) (eat_radix_digits r (nl_underscore_separators (numeric_literals f)) (bump (bump c)))"
    by (intro then_radix_digits then_bump walks_refl) (rule radix_prefix_ascii(2)[OF Some])
  with bump_progress[OF assms(2)] Some show ?thesis by (simp add: eat_number_def)
next
  case None
  let ?sep = "nl_underscore_separators (numeric_literals f)"
    and ?strict = "nl_reject_trailing_junk (numeric_literals f)"
  let ?c1 = "eat_fixed_point f ?sep ?strict c"
  have "walks ?c1 (eat_number f c)"
    using None unfolding eat_number_def Let_def
    by (auto simp: is_ascii_def intro!: then_digits then_bump assms(1))
  then have "cur_pos ?c1 \<le> cur_pos (eat_number f c)" by (simp add: walks_def cur_le_def)
  with fixed_point_progress[OF assms, of ?sep ?strict] show ?thesis by linarith
qed

lemma scan_number_scans [lexeme_ok]:
  assumes "classes_sane f" "cur_good c" "peek c = Some b" "is_digit f b \<or> b = CHR ''.''"
  shows "scans c (scan_number u f c)"
proof -
  let ?c1 = "eat_number f c"
  have w: "walks c ?c1" by (rule eat_number_walks[OF assms(1)])
  from eat_identifier_walks[OF walks_good[OF w assms(2)], of u f] obtain c2 where
    c2: "eat_identifier_continue u f ?c1 = Inr c2" "walks ?c1 c2" by blast
  have "scans c (Inl (lex_err TrailingJunkAfterNumber (cur_pos c) (cur_pos c2)))"
    by (rule scans_err_here[OF walks_le[OF walks_trans[OF w c2(2)]] assms(2)]) simp
  moreover have "scans c (token_from Tk_Number (cur_pos c) ?c1)"
    by (rule scans_token_from[OF w eat_number_progress[OF assms(1,3,4)] refl])
  ultimately show ?thesis by (simp add: scan_number_def Let_def c2(1))
qed

lemma scan_money_scans [lexeme_ok]:
  assumes "classes_sane f" "peek c = Some b" "is_ascii b"
  shows "scans c (scan_money f c)"
  unfolding scan_money_def
  by (rule scans_token_from[OF then_fixed_point[OF assms(1) walks_bump[OF assms(2,3)]]
        bump_progress[OF assms(2) eat_fixed_point_walks[OF assms(1)]] refl])

subsection \<open>Parameters, variables, references\<close>

definition scan_parameter :: "unicode_tables \<Rightarrow> feature_set \<Rightarrow> cursor \<Rightarrow> lex_failure + (token \<times> cursor)" where
  "scan_parameter u f c =
     and_then
       (if peek c = Some (CHR ''$'') then
          (let c1 = bump c in
           if byte_ahead 0 is_ascii_digit c1 then Inr (eat_while is_ascii_digit c1)
           else eat_identifier_continue u f c1)
        else if peek c = Some (CHR '':'') \<or> peek c = Some (CHR ''@'') then
          eat_identifier_continue u f (bump c)
        else
          (let c1 = bump c in
           if pa_numbered_question (parameters f) \<and> byte_ahead 0 is_ascii_digit c1
           then Inr (eat_while is_ascii_digit c1) else Inr c1))
       (token_from Tk_Parameter (cur_pos c))"

definition scan_positional_column :: "cursor \<Rightarrow> lex_failure + (token \<times> cursor)" where
  "scan_positional_column c =
     token_from Tk_PositionalColumn (cur_pos c) (eat_while is_ascii_digit (bump c))"

lemma eat_identifier_le: "eat_identifier_continue u f c = Inr c' \<Longrightarrow> cur_le c c'"
proof (induction u f c rule: eat_identifier_continue.induct)
  case (1 u f c)
  have adv: "char_at 0 c = Some ch \<Longrightarrow> cur_le c (advance_bytes (len_utf8 ch) c)" for ch
    using char_at_bound[of 0 c ch] advance_in_source[of c "len_utf8 ch"] by simp
  from 1(3) show ?case
    by (subst (asm) eat_identifier_continue.simps)
      (use 1(1,2) adv bump_le[of c] in \<open>auto intro: cur_le_trans split: option.splits if_splits\<close>)
qed

text \<open>\<open>.name\<close> segments, each joined only when an identifier start follows the dot.\<close>

function stage_dots :: "unicode_tables \<Rightarrow> feature_set \<Rightarrow> cursor \<Rightarrow> lex_failure + cursor" where
  "stage_dots u f c =
     (if peek c = Some (CHR ''.'') \<and> char_ahead 1 (is_identifier_start u f) c then
        (case eat_identifier_continue u f (bump c) of
           Inl e \<Rightarrow> Inl e | Inr c1 \<Rightarrow> stage_dots u f c1)
      else Inr c)"
  by pat_completeness auto
termination
proof (relation "measure (\<lambda>(u, f, c). length (cur_src c) - cur_pos c)", goal_cases)
  case (2 u f c c1)
  then have "peek c = Some (CHR ''.'')" "cur_le (bump c) c1" using eat_identifier_le by blast+
  then show ?case by (auto simp: cur_le_def bump_pos peek_Some)
qed simp

declare stage_dots.simps [simp del]

definition is_stage_path_byte :: "byte \<Rightarrow> bool" where
  "is_stage_path_byte b \<longleftrightarrow> \<not> is_ascii_whitespace b \<and> b \<notin> set '',)(;=<>!''"

function stage_paths :: "cursor \<Rightarrow> cursor" where
  "stage_paths c =
     (if peek c = Some (CHR ''/'') then stage_paths (eat_while is_stage_path_byte (bump c)) else c)"
  by pat_completeness auto
termination
proof (relation "measure (\<lambda>c. length (cur_src c) - cur_pos c)", goal_cases)
  case (2 c)
  have "cur_le (bump c) (eat_while is_stage_path_byte (bump c))" by (rule eat_while_le)
  with 2 show ?case by (auto simp: cur_le_def bump_pos peek_Some)
qed simp

declare stage_paths.simps [simp del]

definition scan_stage_reference :: "unicode_tables \<Rightarrow> feature_set \<Rightarrow> cursor \<Rightarrow> lex_failure + (token \<times> cursor)" where
  "scan_stage_reference u f c =
     (let c1 = bump c in
      and_then
        (if peek c1 = Some (CHR ''~'') then Inr (bump c1)
         else if peek c1 = Some (CHR ''%'') then
           (let c2 = bump c1 in
            if char_ahead 0 (is_identifier_start u f) c2 then eat_identifier_continue u f c2
            else Inr c2)
         else and_then (eat_identifier_continue u f c1) (stage_dots u f))
        (\<lambda>c3. token_from Tk_StageReference (cur_pos c) (stage_paths c3)))"

definition scan_session_variable :: "unicode_tables \<Rightarrow> feature_set \<Rightarrow> cursor \<Rightarrow> lex_failure + (token \<times> cursor)" where
  "scan_session_variable u f c =
     (let c1 = bump c in
      and_then
        (if peek c1 = Some (CHR ''@'') then
           and_then (eat_identifier_continue u f (bump c1)) (\<lambda>c2.
             if peek c2 = Some (CHR ''.'') \<and> char_ahead 1 (is_identifier_start u f) c2
             then eat_identifier_continue u f (bump c2) else Inr c2)
         else eat_identifier_continue u f c1)
        (token_from Tk_Variable (cur_pos c)))"

text \<open>A step that succeeds and walks.\<close>

definition runs :: "cursor \<Rightarrow> lex_failure + cursor \<Rightarrow> bool" where
  "runs c r \<longleftrightarrow> (\<exists>c'. r = Inr c' \<and> walks c c')"

lemma runs_Inr [simp]: "runs c (Inr c') \<longleftrightarrow> walks c c'"
  by (auto simp: runs_def)

lemma runs_identifier: "cur_good c \<Longrightarrow> runs c (eat_identifier_continue u f c)"
  using eat_identifier_walks by (simp add: runs_def)

lemma runs_then:
  assumes "runs c r" "\<And>c'. walks c c' \<Longrightarrow> runs c' (g c')"
  shows "runs c (and_then r g)"
proof -
  from assms(1) obtain d where d: "r = Inr d" "walks c d" by (auto simp: runs_def)
  from assms(2)[OF d(2)] obtain e where "g d = Inr e" "walks d e" by (auto simp: runs_def)
  with d show ?thesis by (auto intro: walks_trans)
qed

lemma runs_after: "walks c d \<Longrightarrow> runs d r \<Longrightarrow> runs c r"
  by (auto simp: runs_def intro: walks_trans)

lemma scans_runs:
  assumes "walks c d" "cur_pos c < cur_pos d" "runs d r" "\<And>e. walks e (g e)"
  shows "scans c (and_then r (\<lambda>e. token_from k (cur_pos c) (g e)))"
proof -
  from assms(3) obtain e where e: "r = Inr e" "walks d e" by (auto simp: runs_def)
  have "walks c (g e)" using assms(1,4) e(2) walks_trans by blast
  moreover have "cur_pos c < cur_pos (g e)"
    using assms(2) e(2) assms(4)[of e] walks_pos by (meson less_le_trans order_trans)
  ultimately show ?thesis using e(1) by (simp add: scans_token_from)
qed

lemma scan_parameter_scans [lexeme_ok]:
  assumes "cur_good c" "peek c = Some b" "is_ascii b"
  shows "scans c (scan_parameter u f c)"
proof -
  have w: "walks c (bump c)" "cur_pos c < cur_pos (bump c)"
    using walks_bump[OF assms(2,3)] bump_pos[OF assms(2)] by simp_all
  have "runs (bump c) (eat_identifier_continue u f (bump c))"
    by (rule runs_identifier[OF walks_good[OF w(1) assms(1)]])
  then show ?thesis
    unfolding scan_parameter_def Let_def
    by (intro scans_runs[where g = "\<lambda>e. e", OF w])
      (auto intro: walks_eat_ascii ascii_digit_ascii)
qed

lemma scan_positional_column_scans [lexeme_ok]:
  assumes "peek c = Some b" "is_ascii b"
  shows "scans c (scan_positional_column c)"
  unfolding scan_positional_column_def
  by (rule scans_token_from[OF walks_trans[OF walks_bump[OF assms]] bump_progress[OF assms(1)] refl])
    (rule walks_eat_ascii, rule ascii_digit_ascii, assumption)+

lemma stage_dots_runs: "cur_good c \<Longrightarrow> runs c (stage_dots u f c)"
proof (induction u f c rule: stage_dots.induct)
  case (1 u f c)
  show ?case
  proof (cases "peek c = Some (CHR ''.'') \<and> char_ahead 1 (is_identifier_start u f) c")
    case True
    then have w: "walks c (bump c)" by (auto intro: walks_bump simp: is_ascii_def)
    from runs_identifier[OF walks_good[OF w 1(2)], of u f] obtain c1 where
      c1: "eat_identifier_continue u f (bump c) = Inr c1" "walks (bump c) c1" by (auto simp: runs_def)
    have "walks c c1" by (rule walks_trans[OF w c1(2)])
    with 1(1)[OF True c1(1) walks_good[OF this 1(2)]] True c1(1) show ?thesis
      by (subst stage_dots.simps) (simp add: runs_after)
  next
    case False
    then show ?thesis by (subst stage_dots.simps) (simp only: if_False runs_Inr walks_refl)
  qed
qed

lemma stage_paths_walks: "walks c (stage_paths c)"
proof (induction c rule: stage_paths.induct)
  case (1 c)
  have "is_ascii b" if "\<not> is_stage_path_byte b" for b
    using that by (auto simp: is_stage_path_byte_def is_ascii_whitespace_def is_ascii_def)
  then have e: "walks (bump c) (eat_while is_stage_path_byte (bump c))" by (rule walks_eat_until)
  have "peek c = Some (CHR ''/'') \<Longrightarrow> walks c (bump c)" by (auto intro: walks_bump simp: is_ascii_def)
  with e 1 show ?case by (subst stage_paths.simps) (auto intro: walks_trans)
qed

lemma scan_stage_reference_scans [lexeme_ok]:
  assumes "cur_good c" "peek c = Some (CHR ''@'')"
  shows "scans c (scan_stage_reference u f c)"
proof -
  have w: "walks c (bump c)" "cur_pos c < cur_pos (bump c)"
    using walks_bump[OF assms(2)] bump_pos[OF assms(2)] by (simp_all add: is_ascii_def)
  note g = walks_good[OF w(1) assms(1)]
  have b2: "walks (bump c) (bump (bump c))"
    if "peek (bump c) = Some (CHR ''~'') \<or> peek (bump c) = Some (CHR ''%'')"
    using that by (auto intro: walks_bump simp: is_ascii_def)
  have "runs (bump c) (eat_identifier_continue u f (bump (bump c)))"
    if "peek (bump c) = Some (CHR ''%'')"
    using runs_after[OF b2 runs_identifier[OF walks_good[OF b2 g]]] that by simp
  moreover have "runs (bump c) (and_then (eat_identifier_continue u f (bump c)) (stage_dots u f))"
    by (rule runs_then[OF runs_identifier[OF g]]) (rule stage_dots_runs, erule walks_good, rule g)
  ultimately show ?thesis
    unfolding scan_stage_reference_def Let_def
    by (intro scans_runs[OF w _ stage_paths_walks]) (auto simp: b2)
qed

lemma scan_session_variable_scans [lexeme_ok]:
  assumes "cur_good c" "peek c = Some (CHR ''@'')"
  shows "scans c (scan_session_variable u f c)"
proof -
  have w: "walks c (bump c)" "cur_pos c < cur_pos (bump c)"
    using walks_bump[OF assms(2)] bump_pos[OF assms(2)] by (simp_all add: is_ascii_def)
  note g = walks_good[OF w(1) assms(1)]
  have tail: "runs d (if peek d = Some (CHR ''.'') \<and> char_ahead 1 (is_identifier_start u f) d
      then eat_identifier_continue u f (bump d) else Inr d)" if "cur_good d" for d
  proof -
    have "peek d = Some (CHR ''.'') \<Longrightarrow> walks d (bump d)" by (auto intro: walks_bump simp: is_ascii_def)
    then show ?thesis using runs_after[OF _ runs_identifier] walks_good that by auto
  qed
  have "runs (bump c) (and_then (eat_identifier_continue u f (bump (bump c))) (\<lambda>d.
      if peek d = Some (CHR ''.'') \<and> char_ahead 1 (is_identifier_start u f) d
      then eat_identifier_continue u f (bump d) else Inr d))" if "peek (bump c) = Some (CHR ''@'')"
  proof -
    have b2: "walks (bump c) (bump (bump c))" using that by (auto intro: walks_bump simp: is_ascii_def)
    note g2 = walks_good[OF b2 g]
    show ?thesis
      by (rule runs_after[OF b2 runs_then[OF runs_identifier[OF g2]]]) (rule tail, erule walks_good, rule g2)
  qed
  then show ?thesis
    unfolding scan_session_variable_def Let_def
    by (intro scans_runs[where g = "\<lambda>e. e", OF w]) (auto intro: runs_identifier[OF g])
qed

end
