(* ===== verification/Scan_Quoted.thy ===== *)
theory Scan_Quoted
  imports Scan_Lexemes
begin

text \<open>
  The quoted lexemes of \<open>crates/squonk/src/tokenizer/scan.rs\<close>: the shared quote loop with its
  doubled-delimiter and backslash escapes, adjacent-string continuation, prefixed strings,
  Unicode identifiers, hexadecimal blobs, charset introducers and dollar quotes.
\<close>

subsection \<open>The shared loop\<close>

record quote_scan =
  qs_close :: byte
  qs_kind :: token_kind
  qs_unterminated :: lex_error_kind
  qs_backslash :: bool
  qs_allow_zero_length :: bool

function quoted_body_loop :: "quote_scan \<Rightarrow> nat \<Rightarrow> nat \<Rightarrow> cursor \<Rightarrow> lex_failure + (token \<times> cursor)" where
  "quoted_body_loop scan start body_start c = (case peek c of
      None \<Rightarrow> Inl (lex_err (qs_unterminated scan) start (cur_pos c))
    | Some b \<Rightarrow>
        if b = CHR 0x5C \<and> qs_backslash scan then
          (let c1 = bump c in
           if peek c1 = None then Inl (lex_err (qs_unterminated scan) start (cur_pos c1))
           else quoted_body_loop scan start body_start (bump c1))
        else if b = qs_close scan then
          (if peek_nth 1 c = Some (qs_close scan)
           then quoted_body_loop scan start body_start (bump (bump c))
           else
             (let zero_length_ident = (qs_kind scan = Tk_QuotedIdent
                  \<and> \<not> qs_allow_zero_length scan \<and> cur_pos c = body_start);
                  c1 = bump c
              in if zero_length_ident
                 then Inl (lex_err ZeroLengthDelimitedIdentifier start (cur_pos c1))
                 else token_from (qs_kind scan) start c1))
        else quoted_body_loop scan start body_start (bump c))"
  by pat_completeness auto
termination
  by (relation "measure (\<lambda>(q, s, b, c). length (cur_src c) - cur_pos c)")
    (auto simp: bump_pos peek_Some bump_def split: option.splits)

declare quoted_body_loop.simps [simp del]

definition scan_quoted_body :: "nat \<Rightarrow> quote_scan \<Rightarrow> cursor \<Rightarrow> lex_failure + (token \<times> cursor)" where
  "scan_quoted_body start scan c =
     (let c1 = bump c in quoted_body_loop scan start (cur_pos c1) c1)"

subsection \<open>Adjacent-string continuation\<close>

text \<open>The gap between two segments: blanks, remembering whether a line ended.\<close>

function continuation_gap :: "bool \<Rightarrow> cursor \<Rightarrow> bool \<times> cursor" where
  "continuation_gap saw_newline c = (case peek c of
      None \<Rightarrow> (saw_newline, c)
    | Some b \<Rightarrow>
        if b = CHR 0x0A \<or> b = CHR 0x0D then continuation_gap True (bump c)
        else if b = CHR '' '' \<or> b = CHR 0x09 \<or> b = CHR 0x0B \<or> b = CHR 0x0C
        then continuation_gap saw_newline (bump c)
        else (saw_newline, c))"
  by pat_completeness auto
termination
  by (relation "measure (\<lambda>(s, c). length (cur_src c) - cur_pos c)") (auto simp: bump_pos peek_Some)

declare continuation_gap.simps [simp del]

text \<open>The quote that opens a further segment, if the next byte is one.\<close>

definition continuation_close :: "quote_scan \<Rightarrow> cursor \<Rightarrow> byte option" where
  "continuation_close scan c = (case peek c of
      None \<Rightarrow> None
    | Some b \<Rightarrow> if b = CHR 0x27 then Some (CHR 0x27)
                else if b = CHR 0x22 \<and> qs_close scan = CHR 0x22 then Some (CHR 0x22) else None)"

definition segment_scan :: "quote_scan \<Rightarrow> byte \<Rightarrow> quote_scan" where
  "segment_scan scan close =
     \<lparr>qs_close = close, qs_kind = Tk_String, qs_unterminated = UnterminatedString,
      qs_backslash = qs_backslash scan, qs_allow_zero_length = False\<rparr>"

lemma quoted_body_loop_le:
  "quoted_body_loop scan start bs c = Inr (t, c') \<Longrightarrow> cur_le c c'"
proof (induction scan start bs c rule: quoted_body_loop.induct)
  case (1 scan start bs c)
  have step: "quoted_body_loop scan start bs (bump c) = Inr (t, c') \<Longrightarrow> cur_le (bump c) c' \<Longrightarrow> cur_le c c'"
    by (rule cur_le_trans[OF bump_le])
  have two: "cur_le (bump (bump c)) c' \<Longrightarrow> cur_le c c'"
    by (rule cur_le_trans[OF bump_le]) (rule cur_le_trans[OF bump_le])
  have tok: "token_from k s (bump c) = Inr (t, c') \<Longrightarrow> cur_le c c'" for k s
    by (auto simp: token_from_def bump_le split: option.splits)
  show ?case
    using 1 step two tok
    by (auto simp: quoted_body_loop.simps[of scan start bs c] Let_def split: option.splits if_splits)
qed

lemma continuation_gap_le: "cur_le c (snd (continuation_gap s c))"
proof (induction s c rule: continuation_gap.induct)
  case (1 s c)
  then show ?case
    by (subst continuation_gap.simps) (auto intro: cur_le_trans[OF bump_le] split: option.splits)
qed

function extend_string_continuations ::
    "quote_scan \<Rightarrow> token \<Rightarrow> bool \<Rightarrow> cursor \<Rightarrow> lex_failure + ((token \<times> bool) \<times> cursor)" where
  "extend_string_continuations scan t continued c =
     (case continuation_gap False c of (saw_newline, c1) \<Rightarrow>
        if \<not> saw_newline then Inr ((t, continued), set_pos (cur_pos c) c1)
        else (case continuation_close scan c1 of
            None \<Rightarrow> Inr ((t, continued), set_pos (cur_pos c) c1)
          | Some close \<Rightarrow>
              (case scan_quoted_body (span_start (token_span t)) (segment_scan scan close) c1 of
                 Inl e \<Rightarrow> Inl e
               | Inr (t', c2) \<Rightarrow> extend_string_continuations scan t' True c2)))"
  by pat_completeness auto
termination
proof (relation "measure (\<lambda>(q, t, k, c). length (cur_src c) - cur_pos c)", goal_cases)
  case (2 scan t continued c saw c1 close r t' c2)
  from 2(1) have gap: "cur_le c c1" using continuation_gap_le[of c False] by (metis snd_conv)
  from 2(3) obtain b where b: "peek c1 = Some b" by (auto simp: continuation_close_def split: option.splits)
  from 2(4,5) have "cur_le (bump c1) c2"
    by (auto simp: scan_quoted_body_def Let_def dest: quoted_body_loop_le)
  with gap b show ?case by (auto simp: cur_le_def bump_pos peek_Some)
qed simp

declare extend_string_continuations.simps [simp del]

subsection \<open>The quoted forms\<close>

definition drop_flag :: "'e + (('t \<times> bool) \<times> 'c) \<Rightarrow> 'e + ('t \<times> 'c)" where
  "drop_flag r = and_then r (\<lambda>((t, _), c). Inr (t, c))"

definition scan_quoted :: "quote_scan \<Rightarrow> cursor \<Rightarrow> lex_failure + (token \<times> cursor)" where
  "scan_quoted scan c =
     and_then (scan_quoted_body (cur_pos c) scan c) (\<lambda>(t, c1).
       if token_kind t = Tk_String \<and> qs_backslash scan then
         drop_flag (extend_string_continuations scan t False c1)
       else Inr (t, c1))"

definition scan_prefixed_string ::
    "nat \<Rightarrow> byte \<Rightarrow> bool \<Rightarrow> cursor \<Rightarrow> lex_failure + ((token \<times> bool) \<times> cursor)" where
  "scan_prefixed_string prefix_len close backslash c =
     (let c1 = advance_bytes prefix_len c;
          scan = \<lparr>qs_close = close, qs_kind = Tk_String, qs_unterminated = UnterminatedString,
                  qs_backslash = backslash, qs_allow_zero_length = False\<rparr>
      in and_then (scan_quoted_body (cur_pos c) scan c1) (\<lambda>(t, c2).
           if backslash then extend_string_continuations scan t False c2
           else Inr ((t, False), c2)))"

definition scan_unicode_ident :: "feature_set \<Rightarrow> cursor \<Rightarrow> lex_failure + (token \<times> cursor)" where
  "scan_unicode_ident f c =
     scan_quoted_body (cur_pos c)
       \<lparr>qs_close = CHR 0x22, qs_kind = Tk_QuotedIdent, qs_unterminated = UnterminatedQuotedIdent,
        qs_backslash = False,
        qs_allow_zero_length = ids_empty_quoted_identifiers (identifier_syntax f)\<rparr>
       (advance_bytes 2 c)"

definition scan_hex_blob :: "cursor \<Rightarrow> lex_failure + (token \<times> cursor)" where
  "scan_hex_blob c =
     (let c1 = advance_bytes 2 c;
          c2 = eat_while is_ascii_hexdigit c1;
          even_digits = ((cur_pos c2 - cur_pos c1) mod 2 = 0)
      in if even_digits \<and> peek c2 = Some (CHR 0x27) then token_from Tk_String (cur_pos c) (bump c2)
         else (let c3 = eat_while (\<lambda>b. b \<noteq> CHR 0x27) c2
               in if peek c3 = Some (CHR 0x27)
                  then Inl (lex_err MalformedBlobLiteral (cur_pos c) (cur_pos (bump c3)))
                  else Inl (lex_err UnterminatedString (cur_pos c) (cur_pos c3))))"

function charset_name_len :: "unicode_tables \<Rightarrow> feature_set \<Rightarrow> cursor \<Rightarrow> nat \<Rightarrow> nat" where
  "charset_name_len u f c len =
     (if byte_ahead len (\<lambda>b. is_ascii b \<and> is_identifier_continue u f (byte_val b)) c
      then charset_name_len u f c (len + 1) else len)"
  by pat_completeness auto
termination
  by (relation "measure (\<lambda>(u, f, c, len). length (cur_src c) - (cur_pos c + len))")
    (auto simp: byte_ahead_def peek_nth_Some split: option.splits)

declare charset_name_len.simps [simp del]

definition charset_introducer_prefix :: "unicode_tables \<Rightarrow> feature_set \<Rightarrow> cursor \<Rightarrow> (nat \<times> byte) option" where
  "charset_introducer_prefix u f c =
     (let len = charset_name_len u f c 1 in
      if len = 1 then None
      else (case peek_nth len c of
          None \<Rightarrow> None
        | Some b \<Rightarrow>
            if b = CHR 0x27 then Some (len, CHR 0x27)
            else if b = CHR 0x22 \<and> sl_double_quoted_strings (string_literals f)
            then Some (len, CHR 0x22) else None))"

subsection \<open>Validating a continued escape string\<close>

text \<open>The quote that closes the segment whose body starts at \<open>i\<close>.\<close>

function segment_close :: "source \<Rightarrow> nat \<Rightarrow> nat option" where
  "segment_close bytes i =
     (if i < length bytes then
        (if bytes ! i = CHR 0x5C \<and> i + 1 < length bytes then segment_close bytes (i + 2)
         else if bytes ! i = CHR 0x27 \<and> i + 1 < length bytes \<and> bytes ! (i + 1) = CHR 0x27
         then segment_close bytes (i + 2)
         else if bytes ! i = CHR 0x27 then Some i
         else segment_close bytes (i + 1))
      else None)"
  by pat_completeness auto
termination
  by (relation "measure (\<lambda>(bytes, i). length bytes - i)") auto

declare segment_close.simps [simp del]

function segment_gap :: "source \<Rightarrow> bool \<Rightarrow> nat \<Rightarrow> bool \<times> nat" where
  "segment_gap bytes saw_newline i =
     (if i < length bytes then
        (if bytes ! i = CHR 0x0A \<or> bytes ! i = CHR 0x0D then segment_gap bytes True (i + 1)
         else if bytes ! i = CHR '' '' \<or> bytes ! i = CHR 0x09 \<or> bytes ! i = CHR 0x0B \<or> bytes ! i = CHR 0x0C
         then segment_gap bytes saw_newline (i + 1)
         else (saw_newline, i))
      else (saw_newline, i))"
  by pat_completeness auto
termination
  by (relation "measure (\<lambda>(bytes, s, i). length bytes - i)") auto

declare segment_gap.simps [simp del]

lemma segment_close_ge: "segment_close bytes i = Some j \<Longrightarrow> i \<le> j \<and> j < length bytes"
proof (induction bytes i rule: segment_close.induct)
  case (1 bytes i)
  then show ?case
    by (auto simp: segment_close.simps[of bytes i] split: if_splits)
qed

lemma segment_gap_ge: "segment_gap bytes s i = (saw, k) \<Longrightarrow> i \<le> k"
proof (induction bytes s i rule: segment_gap.induct)
  case (1 bytes s i)
  then show ?case
    by (auto simp: segment_gap.simps[of bytes s i] split: if_splits)
qed

text \<open>\<open>None\<close> stands for a panic of the validity check.\<close>

function segments_from :: "byte \<Rightarrow> source \<Rightarrow> nat \<Rightarrow> bool option" where
  "segments_from prefix_byte bytes seg_open =
     (if \<not> seg_open < length bytes \<or> bytes ! seg_open \<noteq> CHR 0x27 then Some False
      else (case segment_close bytes (seg_open + 1) of
          None \<Rightarrow> Some False
        | Some j \<Rightarrow>
            (let seg = prefix_byte # subslice bytes seg_open (j + 1) in
             if \<not> valid_utf8 seg then Some False
             else (case postgres_escape_string_is_valid seg of
                 None \<Rightarrow> None
               | Some False \<Rightarrow> Some False
               | Some True \<Rightarrow>
                   (case segment_gap bytes False (j + 1) of (saw_newline, k) \<Rightarrow>
                      if saw_newline \<and> k < length bytes \<and> bytes ! k = CHR 0x27
                      then segments_from prefix_byte bytes k
                      else Some (k = length bytes))))))"
  by pat_completeness auto
termination
  by (relation "measure (\<lambda>(p, bytes, i). length bytes - i)")
    (auto dest!: segment_close_ge segment_gap_ge dest: sym)

declare segments_from.simps [simp del]

definition escape_string_segments_are_valid :: "source \<Rightarrow> bool option" where
  "escape_string_segments_are_valid text =
     (if length text < 3 \<or> \<not> (text ! 0 = CHR ''E'' \<or> text ! 0 = CHR ''e'') \<or> text ! 1 \<noteq> CHR 0x27
      then postgres_escape_string_is_valid text
      else segments_from (text ! 0) text 1)"

subsection \<open>Dollar quotes\<close>

function dollar_tag_end :: "feature_set \<Rightarrow> source \<Rightarrow> nat \<Rightarrow> nat" where
  "dollar_tag_end f s i =
     (if i < length s \<and> is_dollar_tag_continue f (s ! i) then dollar_tag_end f s (i + 1) else i)"
  by pat_completeness auto
termination
  by (relation "measure (\<lambda>(f, s, i). length s - i)") auto

declare dollar_tag_end.simps [simp del]

function dollar_body_loop :: "source \<Rightarrow> nat \<Rightarrow> cursor \<Rightarrow> lex_failure + (token \<times> cursor)" where
  "dollar_body_loop delim start c =
     (case first_index (\<lambda>b. b = CHR ''$'') (rest c) of
        Some off \<Rightarrow>
          (let c1 = advance_bytes off c in
           if take (length delim) (rest c1) = delim
           then token_from Tk_String start (advance_bytes (length delim) c1)
           else dollar_body_loop delim start (bump c1))
      | None \<Rightarrow>
          Inl (lex_err UnterminatedDollarQuote start (cur_pos (advance_bytes (length (rest c)) c))))"
  by pat_completeness auto
termination
proof (relation "measure (\<lambda>(d, s, c). length (cur_src c) - cur_pos c)", goal_cases)
  case (2 delim start c off c1)
  then have "off < length (rest c)" by (simp add: first_index_bound)
  then have "peek (advance_bytes off c) = Some (cur_src c ! (cur_pos c + off))"
    by (simp add: rest_def peek_def)
  with 2(2) show ?case by (simp add: bump_pos) (simp add: peek_Some)
qed simp

declare dollar_body_loop.simps [simp del]

definition scan_dollar_quote :: "feature_set \<Rightarrow> cursor \<Rightarrow> lex_failure + (token \<times> cursor)" where
  "scan_dollar_quote f c =
     (let s = cur_src c; opener_start = cur_pos c;
          index = (case get_at s (opener_start + 1) of
              None \<Rightarrow> opener_start + 1
            | Some b \<Rightarrow> if is_dollar_tag_start f b then dollar_tag_end f s (opener_start + 2)
                        else opener_start + 1)
      in if get_at s index \<noteq> Some (CHR ''$'')
         then Inl (lex_err StrayByte opener_start (opener_start + 1))
         else (let delim = subslice s opener_start (Suc index)
               in dollar_body_loop delim opener_start (advance_bytes (length delim) c)))"

subsection \<open>Every quoted form scans\<close>

text \<open>
  Inside a quote the cursor steps over single bytes of wide characters; what restores the
  boundary is the ASCII delimiter that closes the quote.
\<close>

lemma quoted_body_loop_scans:
  assumes "cur_good c0"
  shows "cur_le c0 c \<Longrightarrow> cur_pos c0 < cur_pos c \<Longrightarrow> is_ascii (qs_close scan) \<Longrightarrow> scans c0 (quoted_body_loop scan (cur_pos c0) bs c)"
proof (induction scan "cur_pos c0" bs c rule: quoted_body_loop.induct)
  case (1 scan bs c)
  note up = cur_le_trans[OF 1(4) bump_le[of c]]
  note up2 = cur_le_trans[OF up bump_le[of "bump c"]]
  have lt: "cur_pos c0 < cur_pos (bump c)" "cur_pos c0 < cur_pos (bump (bump c))"
    using 1(5) cur_leD(2)[OF bump_le[of c]] cur_leD(2)[OF bump_le[of "bump c"]] by linarith+
  show ?case
  proof (cases "peek c")
    case None
    then show ?thesis
      using scans_err_here[OF 1(4) assms refl] by (subst quoted_body_loop.simps) simp
  next
    case (Some b)
    have e1: "scans c0 (Inl (lex_err k (cur_pos c0) (cur_pos (bump c))))" for k
      by (rule scans_err_here[OF up assms refl])
    have tok: "scans c0 (token_from (qs_kind scan) (cur_pos c0) (bump c))" if "b = qs_close scan"
    proof (rule scans_token_from[OF _ lt(1) refl])
      have "cur_src c0 ! cur_pos c = b" "cur_pos (bump c) = Suc (cur_pos c)"
        using Some 1(4) by (simp_all add: peek_Some cur_leD(1) bump_pos)
      then show "walks c0 (bump c)"
        using good_after_ascii[OF up assms] up that 1(6) by (simp add: walks_def)
    qed
    show ?thesis
      using Some 1(1)[OF Some _ refl _ up2 lt(2) 1(6)] 1(2)[OF Some _ _ _ up2 lt(2) 1(6)] 1(3)[OF Some _ _ up lt(1) 1(6)] e1 tok
      by (subst quoted_body_loop.simps) (auto simp: Let_def)
  qed
qed

lemma scan_quoted_body_scans:
  assumes "cur_good c0" "cur_le c0 c" "peek c = Some b" "is_ascii (qs_close scan)"
  shows "scans c0 (scan_quoted_body (cur_pos c0) scan c)"
proof -
  have "cur_pos c0 < cur_pos (bump c)" using cur_leD(2)[OF assms(2)] bump_pos[OF assms(3)] by simp
  then show ?thesis
    unfolding scan_quoted_body_def Let_def
    by (rule quoted_body_loop_scans[OF assms(1) cur_le_trans[OF assms(2) bump_le] _ assms(4)])
qed

lemma quoted_body_loop_kind:
  "quoted_body_loop scan start bs c = Inr (t, c') \<Longrightarrow> token_kind t = qs_kind scan"
proof (induction scan start bs c rule: quoted_body_loop.induct)
  case (1 scan start bs c)
  then show ?case
    by (auto simp: quoted_body_loop.simps[of scan start bs c] Let_def token_from_def
        split: option.splits if_splits)
qed

lemma scan_quoted_body_kind:
  "scan_quoted_body start scan c = Inr (t, c') \<Longrightarrow> token_kind t = qs_kind scan"
  by (auto simp: scan_quoted_body_def Let_def dest: quoted_body_loop_kind)

lemma continuation_gap_walks: "walks c (snd (continuation_gap s c))"
proof (induction s c rule: continuation_gap.induct)
  case (1 s c)
  have "peek c = Some b \<Longrightarrow> is_ascii b \<Longrightarrow> walks (bump c) d \<Longrightarrow> walks c d" for b d
    using walks_bump walks_trans by blast
  with 1 show ?case
    by (subst continuation_gap.simps) (auto simp: is_ascii_def split: option.splits)
qed

lemma set_pos_back [simp]: "cur_le c c1 \<Longrightarrow> set_pos (cur_pos c) c1 = c"
  by (simp add: set_pos_def cur_le_def)

lemma continuation_closeD:
  assumes "continuation_close scan c = Some q"
  shows "(\<exists>b. peek c = Some b) \<and> is_ascii q"
proof -
  from assms have "\<exists>b. peek c = Some b" "q = CHR 0x22 \<or> q = CHR 0x27"
    by (auto simp: continuation_close_def split: option.splits if_splits)
  then show ?thesis by (auto simp: is_ascii_def)
qed

lemma extend_scans:
  assumes "cur_good c0" "is_ascii (qs_close scan)"
  shows "walks c0 c \<Longrightarrow> cur_pos c0 < cur_pos c \<Longrightarrow> token_span t = Span (cur_pos c0) (cur_pos c)
    \<Longrightarrow> scans c0 (drop_flag (extend_string_continuations scan t k c))"
  using assms(2)
proof (induction scan t k c rule: extend_string_continuations.induct)
  case (1 scan t k c)
  obtain saw c1 where g: "continuation_gap False c = (saw, c1)" by fastforce
  have w: "walks c c1" using continuation_gap_walks[of c False] g by simp
  have here: "scans c0 (drop_flag (Inr ((t, k), set_pos (cur_pos c) c1)))"
    using 1(2-4) set_pos_back[OF walks_le[OF w]] by (simp add: drop_flag_def)
  show ?case
  proof (cases "saw \<and> continuation_close scan c1 \<noteq> None")
    case False
    then show ?thesis using g here
      by (subst extend_string_continuations.simps) (auto split: option.splits)
  next
    case True
    then obtain close b where cl: "continuation_close scan c1 = Some close" "peek c1 = Some b"
      "is_ascii close"
      using continuation_closeD by blast
    let ?r = "scan_quoted_body (cur_pos c0) (segment_scan scan close) c1"
    have sc: "scans c0 ?r"
      using scan_quoted_body_scans[OF assms(1) walks_le[OF walks_trans[OF 1(2) w]] cl(2)] cl(3)
      by (simp add: segment_scan_def)
    show ?thesis
    proof (cases ?r)
      case (Inl e)
      then show ?thesis using g True cl(1) sc 1(4)
        by (subst extend_string_continuations.simps) (simp add: drop_flag_def scans_def)
    next
      case (Inr r)
      then obtain t' c2 where r: "?r = Inr (t', c2)" by (cases r) auto
      with sc have "walks c0 c2" "cur_pos c0 < cur_pos c2" "token_span t' = Span (cur_pos c0) (cur_pos c2)"
        by simp_all
      with 1(1)[OF g[symmetric] _ cl(1), of "(t', c2)" t' c2] 1(4,5) True r g cl(1) show ?thesis
        by (subst extend_string_continuations.simps) simp
    qed
  qed
qed

lemma drop_flag_and_then [simp]:
  "drop_flag (and_then r g) = and_then r (\<lambda>x. drop_flag (g x))"
  by (cases r) (simp_all add: drop_flag_def)

lemma drop_flag_Inr [simp]: "drop_flag (Inr ((t, k), c)) = Inr (t, c)"
  by (simp add: drop_flag_def)

text \<open>A scan that extends or keeps the token of an inner scan.\<close>

lemma scans_and_then:
  assumes "scans c r" "\<And>t c'. r = Inr (t, c') \<Longrightarrow> walks c c' \<Longrightarrow> cur_pos c < cur_pos c'
      \<Longrightarrow> token_span t = Span (cur_pos c) (cur_pos c') \<Longrightarrow> scans c (g (t, c'))"
  shows "scans c (and_then r g)"
  using assms by (cases r) (auto simp: scans_def)

lemma scan_quoted_scans [lexeme_ok]:
  assumes "cur_good c" "peek c = Some b" "is_ascii (qs_close scan)"
  shows "scans c (scan_quoted scan c)"
  unfolding scan_quoted_def
  by (rule scans_and_then[OF scan_quoted_body_scans[OF assms(1) cur_le_refl assms(2,3)]])
    (auto intro: extend_scans[OF assms(1,3)])

lemma scan_prefixed_string_scans [lexeme_ok]:
  assumes "cur_good c" "peek_nth n c = Some b" "is_ascii close"
  shows "scans c (drop_flag (scan_prefixed_string n close backslash c))"
proof -
  have le: "cur_le c (advance_bytes n c)" by (rule advance_le[OF assms(2)]) simp
  have pk: "peek (advance_bytes n c) = Some b" using assms(2) by (simp add: peek_def peek_nth_def)
  show ?thesis
    unfolding scan_prefixed_string_def Let_def drop_flag_and_then
    by (rule scans_and_then[OF scan_quoted_body_scans[OF assms(1) le pk]])
      (auto simp: assms(3) intro: extend_scans[OF assms(1)])
qed

lemma scan_unicode_ident_scans [lexeme_ok]:
  assumes "cur_good c" "peek_nth 2 c = Some b"
  shows "scans c (scan_unicode_ident f c)"
proof -
  have le: "cur_le c (advance_bytes 2 c)" by (rule advance_le[OF assms(2)]) simp
  have pk: "peek (advance_bytes 2 c) = Some b" using assms(2) by (simp add: peek_def peek_nth_def)
  show ?thesis unfolding scan_unicode_ident_def
    by (rule scan_quoted_body_scans[OF assms(1) le pk]) (simp add: is_ascii_def)
qed

lemma scan_hex_blob_scans [lexeme_ok]:
  assumes "cur_good c" "peek_nth 1 c = Some b" "is_ascii b"
  shows "scans c (scan_hex_blob c)"
proof -
  let ?c1 = "advance_bytes 2 c"
  let ?c2 = "eat_while is_ascii_hexdigit ?c1"
  let ?c3 = "eat_while (\<lambda>b. b \<noteq> CHR 0x27) ?c2"
  have w1: "walks c ?c1" by (rule walks_advance_ascii[OF assms(2,3)]) simp
  have w2: "walks c ?c2" by (rule walks_trans[OF w1 walks_eat_ascii]) (rule ascii_hexdigit_ascii)
  have le3: "cur_le c ?c3" by (rule cur_le_trans[OF walks_le[OF w2] eat_while_le])
  have e: "scans c (Inl (lex_err k (cur_pos c) (cur_pos d)))" if "cur_le c d" for k d
    by (rule scans_err_here[OF that assms(1) refl])
  have "scans c (token_from Tk_String (cur_pos c) (bump ?c2))" if "peek ?c2 = Some (CHR 0x27)"
  proof (rule scans_token_from[OF _ _ refl])
    show "walks c (bump ?c2)" by (rule walks_trans[OF w2 walks_bump[OF that]]) (simp add: is_ascii_def)
    show "cur_pos c < cur_pos (bump ?c2)" using bump_pos[OF that] walks_pos[OF w2] by simp
  qed
  with e[OF le3] e[OF cur_le_trans[OF le3 bump_le]] show ?thesis
    by (simp add: scan_hex_blob_def Let_def)
qed

lemma charset_name_len_ge: "len \<le> charset_name_len u f c len"
proof (induction u f c len rule: charset_name_len.induct)
  case (1 u f c len)
  show ?case
    by (subst charset_name_len.simps) (auto dest: 1 split: if_splits)
qed

lemma charset_introducer_prefixD:
  assumes "charset_introducer_prefix u f c = Some (n, q)"
  shows "peek_nth n c = Some q \<and> is_ascii q"
proof -
  from assms have "peek_nth n c = Some q" "q = CHR 0x22 \<or> q = CHR 0x27"
    by (auto simp: charset_introducer_prefix_def Let_def split: option.splits if_splits)
  then show ?thesis by (auto simp: is_ascii_def)
qed

subsection \<open>Dollar quotes against the byte-at-a-time scan\<close>

text \<open>Does the delimiter stand at an offset?\<close>

definition delim_at :: "source \<Rightarrow> source \<Rightarrow> nat \<Rightarrow> bool" where
  "delim_at delim s i \<longleftrightarrow> take (length delim) (drop i s) = delim"

text \<open>The scan the bulk search replaces: at every byte, is the closing delimiter here?\<close>

function naive_dollar_body :: "source \<Rightarrow> nat \<Rightarrow> cursor \<Rightarrow> lex_failure + (token \<times> cursor)" where
  "naive_dollar_body delim start c =
     (if delim_at delim (cur_src c) (cur_pos c)
      then token_from Tk_String start (advance_bytes (length delim) c)
      else if cur_pos c < length (cur_src c) then naive_dollar_body delim start (bump c)
      else Inl (lex_err UnterminatedDollarQuote start (cur_pos c)))"
  by pat_completeness auto
termination
  by (relation "measure (\<lambda>(d, s, c). length (cur_src c) - cur_pos c)")
    (auto simp: bump_def peek_def get_at_def)

declare naive_dollar_body.simps [simp del]

lemma advance_bump: "cur_pos c < length (cur_src c) \<Longrightarrow> bump c = advance_bytes 1 c"
  by (simp add: bump_def advance_bytes_def peek_def get_at_def)

lemma naive_dollar_skip:
  assumes "hd delim = CHR ''$''" "delim \<noteq> []"
  shows "cur_pos c + n \<le> length (cur_src c) \<Longrightarrow> \<forall>b \<in> set (take n (rest c)). b \<noteq> CHR ''$''
    \<Longrightarrow> naive_dollar_body delim start c = naive_dollar_body delim start (advance_bytes n c)"
proof (induction n arbitrary: c)
  case 0
  then show ?case by (simp add: advance_bytes_def)
next
  case (Suc n)
  then have r: "rest c = cur_src c ! cur_pos c # rest (bump c)"
    by (simp add: rest_def advance_bump Cons_nth_drop_Suc)
  have "cur_src c ! cur_pos c \<noteq> CHR ''$''" using Suc.prems(2) by (subst (asm) r) simp
  then have "\<not> delim_at delim (cur_src c) (cur_pos c)"
    using r assms by (cases delim) (auto simp: delim_at_def rest_def)
  then have "naive_dollar_body delim start c = naive_dollar_body delim start (bump c)"
    using Suc.prems(1) by (subst naive_dollar_body.simps) simp
  also have "\<dots> = naive_dollar_body delim start (advance_bytes n (bump c))"
  proof (rule Suc.IH)
    show "cur_pos (bump c) + n \<le> length (cur_src (bump c))" using Suc.prems(1) by (simp add: advance_bump)
    show "\<forall>b \<in> set (take n (rest (bump c))). b \<noteq> CHR ''$''" using Suc.prems(2) by (subst (asm) r) simp
  qed
  finally show ?case using Suc.prems(1) by (simp add: advance_bump advance_bytes_def)
qed

lemma dollar_body_naive:
  "hd delim = CHR ''$'' \<Longrightarrow> delim \<noteq> [] \<Longrightarrow> cur_ok c
    \<Longrightarrow> dollar_body_loop delim start c = naive_dollar_body delim start c"
proof (induction delim start c rule: dollar_body_loop.induct)
  case (1 delim start c)
  note d = 1(2,3)
  show ?case
  proof (cases "first_index (\<lambda>b. b = CHR ''$'') (rest c)")
    case None
    have skip: "naive_dollar_body delim start c = naive_dollar_body delim start (advance_bytes (length (rest c)) c)"
      using 1(4) None by (intro naive_dollar_skip) (auto simp: d rest_def cur_ok_def)
    moreover have "\<not> delim_at delim (cur_src c) (length (cur_src c))"
      using d by (simp add: delim_at_def)
    moreover have "cur_pos c + length (rest c) = length (cur_src c)"
      using 1(4) by (simp add: rest_def cur_ok_def)
    ultimately show ?thesis using None
      by (subst dollar_body_loop.simps)
        (simp add: naive_dollar_body.simps[of delim start "advance_bytes _ c"] del: first_index_None)
  next
    case (Some off)
    let ?c1 = "advance_bytes off c"
    have off: "cur_pos c + off < length (cur_src c)"
      using first_index_bound[OF Some] by (simp add: rest_def)
    have "naive_dollar_body delim start c = naive_dollar_body delim start ?c1"
      using off first_index_split[OF Some] by (intro naive_dollar_skip) (auto simp: d)
    also have "\<dots> = (if take (length delim) (rest ?c1) = delim
        then token_from Tk_String start (advance_bytes (length delim) ?c1)
        else naive_dollar_body delim start (bump ?c1))"
      using off by (subst naive_dollar_body.simps) (simp add: delim_at_def rest_def)
    also have "naive_dollar_body delim start (bump ?c1) = dollar_body_loop delim start (bump ?c1)"
      if "take (length delim) (rest ?c1) \<noteq> delim"
      using 1(1)[OF Some refl that d] off by (simp add: cur_ok_def advance_bump)
    ultimately show ?thesis using Some by (subst dollar_body_loop.simps) simp
  qed
qed

text \<open>What the naive scan finds is the first place of the delimiter.\<close>

lemma naive_dollar_first:
  "naive_dollar_body delim start c = Inr (t, c') \<Longrightarrow>
     \<exists>k\<ge>cur_pos c. delim_at delim (cur_src c) k
       \<and> (\<forall>j. cur_pos c \<le> j \<longrightarrow> j < k \<longrightarrow> \<not> delim_at delim (cur_src c) j)
       \<and> token_from Tk_String start (advance_bytes (k + length delim - cur_pos c) c) = Inr (t, c')"
proof (induction delim start c rule: naive_dollar_body.induct)
  case (1 delim start c)
  show ?case
  proof (cases "delim_at delim (cur_src c) (cur_pos c)")
    case True
    then show ?thesis using 1(2)
      by (intro exI[of _ "cur_pos c"]) (simp add: naive_dollar_body.simps[of delim start c])
  next
    case False
    then have lt: "cur_pos c < length (cur_src c)"
      and n: "naive_dollar_body delim start (bump c) = Inr (t, c')"
      using 1(2) by (auto simp: naive_dollar_body.simps[of delim start c] split: if_splits)
    have b: "cur_pos (bump c) = Suc (cur_pos c)" using lt by (simp add: advance_bump)
    from 1(1)[OF False lt n] obtain k where
      k: "cur_pos (bump c) \<le> k" "delim_at delim (cur_src c) k"
        "\<forall>j. cur_pos (bump c) \<le> j \<longrightarrow> j < k \<longrightarrow> \<not> delim_at delim (cur_src c) j"
        "token_from Tk_String start (advance_bytes (k + length delim - cur_pos (bump c)) (bump c)) = Inr (t, c')"
      by auto
    have "advance_bytes (k + length delim - cur_pos (bump c)) (bump c)
        = advance_bytes (k + length delim - cur_pos c) c"
      using k(1) b lt by (simp add: advance_bump advance_bytes_def)
    with k(4) have "token_from Tk_String start (advance_bytes (k + length delim - cur_pos c) c) = Inr (t, c')"
      by simp
    moreover have "\<not> delim_at delim (cur_src c) j" if "cur_pos c \<le> j" "j < k" for j
      using that k(3) False b by (cases "j = cur_pos c") auto
    ultimately show ?thesis using k b by (intro exI[of _ k] conjI) simp_all
  qed
qed

lemma delim_at_fits: "delim_at delim s k \<Longrightarrow> delim \<noteq> [] \<Longrightarrow> k + length delim \<le> length s"
  unfolding delim_at_def by (drule arg_cong[where f = length]) (cases "k \<le> length s", auto)

lemma delim_at_last:
  assumes "delim_at delim s k" "delim \<noteq> []"
  shows "s ! (k + length delim - 1) = last delim"
proof -
  have "last delim = delim ! (length delim - 1)" using assms(2) by (rule last_conv_nth)
  also have "\<dots> = take (length delim) (drop k s) ! (length delim - 1)"
    using assms(1) by (simp add: delim_at_def)
  also have "\<dots> = s ! (k + (length delim - 1))"
    using delim_at_fits[OF assms] assms(2) by (cases delim) (simp_all add: nth_drop)
  finally show ?thesis using assms(2) by (cases delim) simp_all
qed

lemma naive_dollar_scans:
  assumes "cur_good c0" "delim \<noteq> []" "is_ascii (last delim)"
  shows "cur_le c0 c \<Longrightarrow> cur_pos c0 < cur_pos c \<Longrightarrow> scans c0 (naive_dollar_body delim (cur_pos c0) c)"
  using assms(2,3)
proof (induction delim "cur_pos c0" c rule: naive_dollar_body.induct)
  case (1 delim c)
  let ?c' = "advance_bytes (length delim) c"
  have "scans c0 (token_from Tk_String (cur_pos c0) ?c')" if d: "delim_at delim (cur_src c) (cur_pos c)"
  proof (rule scans_token_from[OF _ _ refl])
    have le: "cur_le c0 ?c'"
      using cur_le_trans[OF 1(2) advance_in_source] delim_at_fits[OF d 1(4)] by simp
    have "cur_src c0 ! (cur_pos ?c' - 1) = last delim" "0 < length delim"
      using delim_at_last[OF d 1(4)] 1(4) cur_leD(1)[OF 1(2)] by simp_all
    then show "walks c0 ?c'"
      using good_after_ascii[OF le assms(1), of "cur_pos ?c' - 1"] le 1(5) by (simp add: walks_def)
    show "cur_pos c0 < cur_pos ?c'" using 1(3) by simp
  qed
  moreover have "scans c0 (naive_dollar_body delim (cur_pos c0) (bump c))"
    if "\<not> delim_at delim (cur_src c) (cur_pos c)" "cur_pos c < length (cur_src c)"
    using that by (intro 1(1) cur_le_trans[OF 1(2) bump_le] 1(4,5)) (use 1(3) that in \<open>simp_all add: advance_bump\<close>)
  moreover have "scans c0 (Inl (lex_err UnterminatedDollarQuote (cur_pos c0) (cur_pos c)))"
    by (rule scans_err_here[OF 1(2) assms(1) refl])
  ultimately show ?case by (subst naive_dollar_body.simps) simp
qed

lemma dollar_tag_end_ge: "i \<le> dollar_tag_end f s i"
proof (induction f s i rule: dollar_tag_end.induct)
  case (1 f s i)
  show ?case
  proof (cases "i < length s \<and> is_dollar_tag_continue f (s ! i)")
    case True
    from 1[OF True] True show ?thesis by (simp add: dollar_tag_end.simps[of f s i])
  qed (simp only: dollar_tag_end.simps[of f s i] if_False order_refl)
qed

text \<open>The opening delimiter of a dollar quote: from the \<open>$\<close> to the \<open>$\<close> that ends the tag.\<close>

lemma scan_dollar_quote_opener:
  assumes "peek c = Some (CHR ''$'')"
  shows "scan_dollar_quote f c = Inl (lex_err StrayByte (cur_pos c) (cur_pos c + 1))
    \<or> (\<exists>n. 2 \<le> n \<and> cur_pos c + n \<le> length (cur_src c)
        \<and> hd (subslice (cur_src c) (cur_pos c) (cur_pos c + n)) = CHR ''$''
        \<and> last (subslice (cur_src c) (cur_pos c) (cur_pos c + n)) = CHR ''$''
        \<and> scan_dollar_quote f c
           = naive_dollar_body (subslice (cur_src c) (cur_pos c) (cur_pos c + n)) (cur_pos c) (advance_bytes n c))"
proof -
  let ?s = "cur_src c" and ?p = "cur_pos c"
  define index where "index = (case get_at ?s (?p + 1) of
      None \<Rightarrow> ?p + 1
    | Some b \<Rightarrow> if is_dollar_tag_start f b then dollar_tag_end f ?s (?p + 2) else ?p + 1)"
  have ge: "?p + 1 \<le> index"
    using dollar_tag_end_ge[of "?p + 2" f ?s] by (auto simp: index_def split: option.splits)
  show ?thesis
  proof (cases "get_at ?s index = Some (CHR ''$'')")
    case False
    then show ?thesis by (simp add: scan_dollar_quote_def Let_def index_def)
  next
    case True
    let ?n = "Suc index - ?p"
    let ?d = "subslice ?s ?p (?p + ?n)"
    have n: "2 \<le> ?n" "?p + ?n = Suc index" using ge by simp_all
    have fits: "Suc index \<le> length ?s" using True by simp
    have len: "length ?d = ?n" using fits n(2) by (subst length_slice) simp_all
    have ne: "?d \<noteq> []" using len n(1) by auto
    have "hd ?d = ?s ! ?p"
      using ne fits n(2) ge by (subst hd_conv_nth) (simp_all add: nth_slice)
    then have h: "hd ?d = CHR ''$''" using assms by (simp add: peek_Some)
    have "last ?d = ?s ! index"
      using ne len fits n ge by (simp add: last_conv_nth nth_slice)
    then have l: "last ?d = CHR ''$''" using True by simp
    have "scan_dollar_quote f c = dollar_body_loop ?d ?p (advance_bytes ?n c)"
      using True len n(2) unfolding scan_dollar_quote_def Let_def index_def[symmetric] by simp
    also have "\<dots> = naive_dollar_body ?d ?p (advance_bytes ?n c)"
      by (rule dollar_body_naive[OF h ne]) (use fits n(2) in \<open>simp add: cur_ok_def\<close>)
    finally show ?thesis using n fits h l by (intro disjI2 exI[of _ ?n]) simp
  qed
qed

lemma scan_dollar_quote_scans [lexeme_ok]:
  assumes "cur_good c" "peek c = Some (CHR ''$'')"
  shows "scans c (scan_dollar_quote f c)"
  using scan_dollar_quote_opener[OF assms(2), of f]
proof (elim disjE exE conjE)
  assume e: "scan_dollar_quote f c = Inl (lex_err StrayByte (cur_pos c) (cur_pos c + 1))"
  have "scans c (Inl (lex_err StrayByte (cur_pos c) (cur_pos c + 1)))"
    by (rule scans_lex_err) (use assms(2) in \<open>simp_all add: peek_Some\<close>)
  with e show ?thesis by simp
next
  fix n
  let ?d = "subslice (cur_src c) (cur_pos c) (cur_pos c + n)"
  assume n: "2 \<le> n" "cur_pos c + n \<le> length (cur_src c)" "last ?d = CHR ''$''"
    and e: "scan_dollar_quote f c = naive_dollar_body ?d (cur_pos c) (advance_bytes n c)"
  have "length ?d = n" using n by (simp add: length_slice)
  then have "?d \<noteq> []" using n(1) by auto
  then have "scans c (naive_dollar_body ?d (cur_pos c) (advance_bytes n c))"
    by (rule naive_dollar_scans[OF assms(1)])
      (use n in \<open>simp_all add: advance_in_source is_ascii_def\<close>)
  with e show ?thesis by simp
qed

text \<open>
  C15. A dollar-quoted token opens with a delimiter \<open>$tag$\<close> and ends with the first place,
  after the opener, where that delimiter stands again: the bulk search for \<open>$\<close> never steps
  over a terminator hidden in the tail of a near miss.
\<close>

theorem dollar_quote_first_close:
  assumes "peek c = Some (CHR ''$'')" "scan_dollar_quote f c = Inr (t, c')"
  shows "\<exists>n k. 2 \<le> n \<and> cur_pos c + n \<le> k
    \<and> (let delim = subslice (cur_src c) (cur_pos c) (cur_pos c + n) in
        hd delim = CHR ''$'' \<and> last delim = CHR ''$'' \<and> delim_at delim (cur_src c) k
        \<and> (\<forall>j. cur_pos c + n \<le> j \<longrightarrow> j < k \<longrightarrow> \<not> delim_at delim (cur_src c) j))
    \<and> t = Token Tk_String (Span (cur_pos c) (k + n)) \<and> cur_pos c' = k + n"
proof -
  from scan_dollar_quote_opener[OF assms(1), of f] assms(2) obtain n where
    n: "2 \<le> n" "cur_pos c + n \<le> length (cur_src c)"
      "hd (subslice (cur_src c) (cur_pos c) (cur_pos c + n)) = CHR ''$''"
      "last (subslice (cur_src c) (cur_pos c) (cur_pos c + n)) = CHR ''$''"
      "naive_dollar_body (subslice (cur_src c) (cur_pos c) (cur_pos c + n)) (cur_pos c) (advance_bytes n c)
        = Inr (t, c')"
    by auto
  have "length (subslice (cur_src c) (cur_pos c) (cur_pos c + n)) = n" using n(2) by (simp add: length_slice)
  with naive_dollar_first[OF n(5)] obtain k where
    k: "cur_pos c + n \<le> k" "delim_at (subslice (cur_src c) (cur_pos c) (cur_pos c + n)) (cur_src c) k"
      "\<forall>j. cur_pos c + n \<le> j \<longrightarrow> j < k
         \<longrightarrow> \<not> delim_at (subslice (cur_src c) (cur_pos c) (cur_pos c + n)) (cur_src c) j"
      "token_from Tk_String (cur_pos c) (advance_bytes (k - cur_pos c) (advance_bytes n c)) = Inr (t, c')"
    by auto
  from k(1,4) have "t = Token Tk_String (Span (cur_pos c) (k + n))" "cur_pos c' = k + n"
    by (auto simp: token_from_ok)
  with n k show ?thesis by (intro exI[of _ n] exI[of _ k]) (simp add: Let_def)
qed

subsection \<open>The grammar of a quoted body\<close>

text \<open>A body that the loop reads to the end: every closing delimiter doubled, and, under
  backslash rules, every backslash followed by a byte.\<close>

fun quoted_text :: "bool \<Rightarrow> byte \<Rightarrow> source \<Rightarrow> bool" where
  "quoted_text backslash q [] \<longleftrightarrow> True"
| "quoted_text backslash q (b # bs) \<longleftrightarrow>
     (if b = CHR 0x5C \<and> backslash then (case bs of [] \<Rightarrow> False | _ # bs' \<Rightarrow> quoted_text backslash q bs')
      else if b = q then (case bs of [] \<Rightarrow> False | b' # bs' \<Rightarrow> b' = q \<and> quoted_text backslash q bs')
      else quoted_text backslash q bs)"

lemma peek_app: "cur_src c = pre @ b # post \<Longrightarrow> cur_pos c = length pre \<Longrightarrow> peek c = Some b"
  by (simp add: peek_def)

lemma peek_nth_app: "cur_src c = pre @ bs \<Longrightarrow> cur_pos c = length pre \<Longrightarrow> peek_nth n c = get_at bs n"
  by (auto simp: peek_nth_def get_at_def nth_append)

lemma bump_advance: "peek c = Some b \<Longrightarrow> bump c = advance_bytes 1 c"
  by (simp add: bump_def advance_bytes_def)

lemma peek_advance: "peek (advance_bytes n c) = peek_nth n c"
  by (simp add: peek_def peek_nth_def)

lemma peek_bump: "peek c = Some b \<Longrightarrow> peek (bump c) = peek_nth 1 c"
  using bump_advance[of c b] peek_advance[of 1 c] by simp

lemma advance_advance [simp]: "advance_bytes m (advance_bytes n c) = advance_bytes (n + m) c"
  by (simp add: advance_bytes_def)

lemma quoted_body_loop_reads:
  "quoted_text (qs_backslash scan) (qs_close scan) body \<Longrightarrow>
   cur_src c = pre @ body @ qs_close scan # tail \<Longrightarrow> cur_pos c = length pre \<Longrightarrow>
   tail = [] \<or> hd tail \<noteq> qs_close scan \<Longrightarrow> qs_backslash scan \<longrightarrow> qs_close scan \<noteq> CHR 0x5C \<Longrightarrow>
   bs < length pre \<or> (bs = length pre \<and> (qs_kind scan = Tk_QuotedIdent \<and> \<not> qs_allow_zero_length scan \<longrightarrow> body \<noteq> [])) \<Longrightarrow>
   quoted_body_loop scan start bs c = token_from (qs_kind scan) start (advance_bytes (length body + 1) c)"
proof (induction "qs_backslash scan" "qs_close scan" body arbitrary: c pre rule: quoted_text.induct)
  case 1
  have p: "peek c = Some (qs_close scan)" using peek_app 1 by simp
  moreover have "peek_nth 1 c \<noteq> Some (qs_close scan)"
    using 1 by (cases tail) (auto simp: peek_nth_def get_at_def nth_append)
  ultimately show ?case using 1 bump_advance[OF p]
    by (subst quoted_body_loop.simps) (auto simp: Let_def)
next
  case (2 b body)
  have p: "peek c = Some b" using peek_app[of c pre b] 2(5,6) by simp
  note b1 = bump_advance[OF p]
  have p1: "peek (bump c) = get_at (body @ qs_close scan # tail) 0"
      "peek_nth 1 c = get_at (body @ qs_close scan # tail) 0"
    using 2(5,6) by (auto simp: b1 peek_def peek_nth_def get_at_def nth_append)
  consider (esc) b' body' where "b = CHR 0x5C" "qs_backslash scan" "body = b' # body'"
    | (dbl) body' where "\<not> (b = CHR 0x5C \<and> qs_backslash scan)" "b = qs_close scan" "body = qs_close scan # body'"
    | (plain) "\<not> (b = CHR 0x5C \<and> qs_backslash scan)" "b \<noteq> qs_close scan"
    using 2(4) by (auto split: if_splits list.splits)
  then show ?case
  proof cases
    case esc
    have "bump (bump c) = advance_bytes 2 c"
      using p1(1) esc b1 bump_advance[of "bump c"] by simp
    moreover have "quoted_body_loop scan start bs (advance_bytes 2 c)
        = token_from (qs_kind scan) start (advance_bytes (length body' + 1) (advance_bytes 2 c))"
      using 2(4-9) esc by (intro 2(1)[where pre = "pre @ [b, b']"]) auto
    ultimately show ?thesis using p p1 esc by (subst quoted_body_loop.simps) (simp add: Let_def)
  next
    case dbl
    have "bump (bump c) = advance_bytes 2 c"
      using p1(1) dbl b1 bump_advance[of "bump c"] by simp
    moreover have "quoted_body_loop scan start bs (advance_bytes 2 c)
        = token_from (qs_kind scan) start (advance_bytes (length body' + 1) (advance_bytes 2 c))"
      using 2(4-9) dbl by (intro 2(2)[where pre = "pre @ [b, b]"]) auto
    ultimately show ?thesis using p p1 dbl by (subst quoted_body_loop.simps) auto
  next
    case plain
    have "quoted_body_loop scan start bs (bump c)
        = token_from (qs_kind scan) start (advance_bytes (length body + 1) (bump c))"
      using 2(4-9) plain by (intro 2(3)[where pre = "pre @ [b]"]) (auto simp: b1)
    then show ?thesis using p plain b1 by (subst quoted_body_loop.simps) auto
  qed
qed

text \<open>Doubling every delimiter of any text makes it a quoted body.\<close>

definition double_delim :: "byte \<Rightarrow> source \<Rightarrow> source" where
  "double_delim q s = concat (map (\<lambda>b. if b = q then [q, q] else [b]) s)"

lemma quoted_text_double: "quoted_text False q (double_delim q s)"
  by (induction s) (auto simp: double_delim_def)

text \<open>Doubling, under backslash rules, every backslash as well.\<close>

definition escape_delims :: "bool \<Rightarrow> byte \<Rightarrow> source \<Rightarrow> source" where
  "escape_delims backslash q s = concat (map (\<lambda>b. if b = q \<or> backslash \<and> b = CHR 0x5C then [b, b] else [b]) s)"

lemma quoted_text_escape: "quoted_text backslash q (escape_delims backslash q s)"
  by (induction s) (auto simp: escape_delims_def)

lemma escape_delims_empty: "escape_delims backslash q s = [] \<longleftrightarrow> s = []"
  by (cases s) (auto simp: escape_delims_def)

text \<open>
  The text after a constant goes on with it: blanks that hold a line end, then a quote that may
  open a further segment.
\<close>

definition gap_newline :: "byte \<Rightarrow> bool" where
  "gap_newline b \<longleftrightarrow> b = CHR 0x0A \<or> b = CHR 0x0D"

definition gap_blank :: "byte \<Rightarrow> bool" where
  "gap_blank b \<longleftrightarrow> gap_newline b \<or> b = CHR '' '' \<or> b = CHR 0x09 \<or> b = CHR 0x0B \<or> b = CHR 0x0C"

definition continues_constant :: "byte \<Rightarrow> source \<Rightarrow> bool" where
  "continues_constant q tail \<longleftrightarrow> list_ex gap_newline (takeWhile gap_blank tail)
     \<and> (case dropWhile gap_blank tail of [] \<Rightarrow> False | b # _ \<Rightarrow> b = CHR 0x27 \<or> b = CHR 0x22 \<and> q = CHR 0x22)"

lemma peek_rest: "peek c = (case rest c of [] \<Rightarrow> None | b # _ \<Rightarrow> Some b)"
  by (cases "cur_pos c < length (cur_src c)") (simp_all add: peek_def rest_def get_at_def Cons_nth_drop_Suc[symmetric])

lemma rest_bump: "rest (bump c) = tl (rest c)"
  by (auto simp: bump_def peek_def rest_def get_at_def tl_drop drop_Suc split: option.split if_splits)

lemma continuation_gap_skips:
  "continuation_gap saw c = (saw', c') \<Longrightarrow> saw' = (saw \<or> list_ex gap_newline (takeWhile gap_blank (rest c)))
     \<and> rest c' = dropWhile gap_blank (rest c) \<and> cur_src c' = cur_src c"
proof (induction saw c rule: continuation_gap.induct)
  case (1 saw c)
  show ?case
  proof (cases "rest c")
    case Nil
    then show ?thesis using 1(3) by (simp add: continuation_gap.simps[of saw c] peek_rest)
  next
    case (Cons b bs)
    then have p: "peek c = Some b" by (simp add: peek_rest)
    have n: "rest (bump c) = bs" by (simp add: rest_bump Cons)
    have g: "continuation_gap saw c = (if gap_newline b then continuation_gap True (bump c)
        else if gap_blank b then continuation_gap saw (bump c) else (saw, c))"
      by (simp add: continuation_gap.simps[of saw c] p gap_blank_def gap_newline_def)
    have blank: "gap_newline b \<Longrightarrow> gap_blank b" by (simp add: gap_blank_def)
    consider (newline) "gap_newline b" | (blank) "\<not> gap_newline b" "gap_blank b" | (stop) "\<not> gap_blank b"
      by blast
    then show ?thesis
    proof cases
      case newline
      with 1(1)[OF p] 1(3) g blank show ?thesis by (simp add: Cons n gap_newline_def)
    next
      case blank
      with 1(2)[OF p] 1(3) g show ?thesis by (simp add: Cons n gap_blank_def gap_newline_def)
    next
      case stop
      then have "\<not> gap_newline b" using blank by blast
      with stop 1(3) g have "saw' = saw \<and> c' = c" by simp
      with stop show ?thesis by (simp add: Cons)
    qed
  qed
qed

lemma extend_stops:
  assumes "\<not> continues_constant (qs_close scan) (rest c)"
  shows "extend_string_continuations scan t continued c = Inr ((t, continued), c)"
proof -
  obtain saw c1 where g: "continuation_gap False c = (saw, c1)" by fastforce
  note k = continuation_gap_skips[OF g]
  have "set_pos (cur_pos c) c1 = c" using k by (simp add: set_pos_def)
  moreover have "\<not> saw \<or> continuation_close scan c1 = None"
    using assms k
    by (cases "dropWhile gap_blank (rest c)")
       (auto simp: continues_constant_def continuation_close_def peek_rest simp del: dropWhile_eq_Nil_conv)
  ultimately show ?thesis by (subst extend_string_continuations.simps) (auto simp: g)
qed

text \<open>
  C16. Quoting and scanning round-trip. A text whose delimiters are doubled, and whose backslashes
  are doubled too where the backslash escapes, stands between an opening and a closing delimiter;
  it is read back as one token that covers exactly it, whatever bytes it holds. The delimiter is
  not the backslash, and no further delimiter follows; a string under backslash rules is not
  followed, after a line end, by a quote that continues it; an identifier is not empty unless the
  dialect has empty ones.
\<close>

theorem quote_double_roundtrip:
  assumes "q = qs_close scan" "qs_backslash scan \<longrightarrow> q \<noteq> CHR 0x5C" "tail = [] \<or> hd tail \<noteq> q"
    "qs_kind scan = Tk_String \<and> qs_backslash scan \<longrightarrow> \<not> continues_constant q tail"
    "qs_kind scan = Tk_QuotedIdent \<and> \<not> qs_allow_zero_length scan \<longrightarrow> s \<noteq> []"
    "body = escape_delims (qs_backslash scan) q s"
  shows "scan_quoted scan \<lparr>cur_src = pre @ opener # body @ q # tail, cur_pos = length pre\<rparr>
    = Inr (Token (qs_kind scan) (Span (length pre) (length pre + length body + 2)),
        \<lparr>cur_src = pre @ opener # body @ q # tail, cur_pos = length pre + length body + 2\<rparr>)"
proof -
  let ?c = "\<lparr>cur_src = pre @ opener # body @ q # tail, cur_pos = length pre\<rparr>"
  let ?e = "\<lparr>cur_src = pre @ opener # body @ q # tail, cur_pos = length pre + length body + 2\<rparr>"
  have b: "bump ?c = advance_bytes 1 ?c" by (rule bump_advance[of _ opener]) (simp add: peek_def)
  have ne: "body = [] \<longleftrightarrow> s = []" by (simp add: assms(6) escape_delims_empty)
  have "quoted_body_loop scan (length pre) (length pre + 1) (bump ?c)
      = token_from (qs_kind scan) (length pre) (advance_bytes (length body + 1) (bump ?c))"
  proof (rule quoted_body_loop_reads[where pre = "pre @ [opener]" and tail = tail])
    show "quoted_text (qs_backslash scan) (qs_close scan) body"
      unfolding assms(1,6) by (rule quoted_text_escape)
  qed (use assms(2-5) in \<open>simp_all add: b ne assms(1)[symmetric]\<close>)
  then have l: "scan_quoted_body (length pre) scan ?c
      = Inr (Token (qs_kind scan) (Span (length pre) (length pre + length body + 2)), ?e)"
    by (simp add: scan_quoted_body_def Let_def b token_from_ok advance_bytes_def)
  have "rest ?e = tail" by (simp add: rest_def)
  with extend_stops[of scan ?e] assms(1,4) l show ?thesis
    by (auto simp: scan_quoted_def drop_flag_def)
qed

text \<open>A delimiter and a backslash in a string whose backslashes escape, with a blank line after it.\<close>

theorem quote_double_roundtrip_witness:
  "scan_quoted \<lparr>qs_close = CHR ''x'', qs_kind = Tk_String, qs_unterminated = UnterminatedString,
      qs_backslash = True, qs_allow_zero_length = False\<rparr>
     \<lparr>cur_src = ''.xaxx'' @ [CHR 0x5C, CHR 0x5C] @ ''x'' @ [CHR 0x0A, CHR 0x0A] @ '';'', cur_pos = 1\<rparr>
   = Inr (Token Tk_String (Span 1 8),
       \<lparr>cur_src = ''.xaxx'' @ [CHR 0x5C, CHR 0x5C] @ ''x'' @ [CHR 0x0A, CHR 0x0A] @ '';'', cur_pos = 8\<rparr>)"
  using quote_double_roundtrip[of "CHR ''x''"
    "\<lparr>qs_close = CHR ''x'', qs_kind = Tk_String, qs_unterminated = UnterminatedString,
      qs_backslash = True, qs_allow_zero_length = False\<rparr>" "[CHR 0x0A, CHR 0x0A] @ '';''" "''ax'' @ [CHR 0x5C]"
    "''axx'' @ [CHR 0x5C, CHR 0x5C]" "''.''" "CHR ''x''"]
  by (simp add: escape_delims_def continues_constant_def gap_blank_def gap_newline_def)

text \<open>What the loop accepts is such a body, and it stops at its end.\<close>

lemma quoted_body_loop_text:
  "quoted_body_loop scan start bs c = Inr (t, c') \<Longrightarrow>
     \<exists>body. quoted_text (qs_backslash scan) (qs_close scan) body
       \<and> rest c = body @ qs_close scan # rest c' \<and> cur_pos c' = cur_pos c + length body + 1
       \<and> peek c' \<noteq> Some (qs_close scan)
       \<and> (qs_kind scan = Tk_QuotedIdent \<and> \<not> qs_allow_zero_length scan \<and> cur_pos c = bs \<longrightarrow> body \<noteq> [])"
proof (induction scan start bs c rule: quoted_body_loop.induct)
  case (1 scan start bs c)
  from 1(4) obtain b where p: "peek c = Some b"
    by (cases "peek c") (simp_all add: quoted_body_loop.simps[of scan start bs c])
  have r: "rest d = x # rest (bump d)" if "peek d = Some x" for d x
    using that by (auto simp: rest_def peek_Some bump_pos[OF that] Cons_nth_drop_Suc)
  have pos: "cur_pos (bump d) = Suc (cur_pos d)" if "peek d = Some x" for d x
    using bump_pos[OF that] .
  consider (esc) y where "b = CHR 0x5C" "qs_backslash scan" "peek (bump c) = Some y"
      "quoted_body_loop scan start bs (bump (bump c)) = Inr (t, c')"
    | (dbl) "\<not> (b = CHR 0x5C \<and> qs_backslash scan)" "b = qs_close scan" "peek_nth 1 c = Some (qs_close scan)"
      "quoted_body_loop scan start bs (bump (bump c)) = Inr (t, c')"
    | (closing) "\<not> (b = CHR 0x5C \<and> qs_backslash scan)" "b = qs_close scan" "peek_nth 1 c \<noteq> Some (qs_close scan)"
      "c' = bump c" "\<not> (qs_kind scan = Tk_QuotedIdent \<and> \<not> qs_allow_zero_length scan \<and> cur_pos c = bs)"
    | (plain) "\<not> (b = CHR 0x5C \<and> qs_backslash scan)" "b \<noteq> qs_close scan"
      "quoted_body_loop scan start bs (bump c) = Inr (t, c')"
    using 1(4) p
    by (auto simp: quoted_body_loop.simps[of scan start bs c] Let_def token_from_def
        split: if_splits option.splits)
  then show ?case
  proof cases
    case esc
    from 1(1)[OF p _ refl _ esc(4)] esc obtain body where
      "quoted_text (qs_backslash scan) (qs_close scan) body" "rest (bump (bump c)) = body @ qs_close scan # rest c'"
      "cur_pos c' = cur_pos (bump (bump c)) + length body + 1" "peek c' \<noteq> Some (qs_close scan)" by auto
    with esc r[OF p] r[OF esc(3)] pos[OF p] pos[OF esc(3)] show ?thesis
      by (intro exI[of _ "b # y # body"]) simp
  next
    case dbl
    from dbl(3) p have p1: "peek (bump c) = Some (qs_close scan)" by (simp add: peek_bump)
    from 1(2)[OF p dbl(1,2,3,4)] obtain body where
      "quoted_text (qs_backslash scan) (qs_close scan) body" "rest (bump (bump c)) = body @ qs_close scan # rest c'"
      "cur_pos c' = cur_pos (bump (bump c)) + length body + 1" "peek c' \<noteq> Some (qs_close scan)" by auto
    with dbl r[OF p] r[OF p1] pos[OF p] pos[OF p1] show ?thesis
      by (intro exI[of _ "b # b # body"]) auto
  next
    case closing
    then have "peek c' \<noteq> Some (qs_close scan)" using p by (simp add: peek_bump)
    with closing r[OF p] pos[OF p] show ?thesis by (intro exI[of _ "[]"]) auto
  next
    case plain
    from 1(3)[OF p plain(1,2,3)] obtain body where
      "quoted_text (qs_backslash scan) (qs_close scan) body" "rest (bump c) = body @ qs_close scan # rest c'"
      "cur_pos c' = cur_pos (bump c) + length body + 1" "peek c' \<noteq> Some (qs_close scan)" by auto
    with plain r[OF p] pos[OF p] show ?thesis
      by (intro exI[of _ "b # body"]) auto
  qed
qed

subsection \<open>The validity check of a continued string answers\<close>

lemma escape_check_answers:
  assumes "valid_utf8 s"
  shows "postgres_escape_string_is_valid s \<noteq> None"
proof -
  have "scan_escape_from utf8_tail_sink body 0 0 UTF8_TAIL_START \<noteq> Inl EscPanic"
    if "postgres_escape_body s = Some body" for body
    by (rule scan_escape_no_panic[OF escape_body_valid[OF assms that] tail_sink_no_panic])
  then show ?thesis
    by (auto simp: postgres_escape_string_is_valid_def scan_postgres_escape_string_def
        split: option.splits sum.splits escape_failure.splits)
qed

lemma segments_from_answers: "segments_from p bytes i \<noteq> None"
proof (induction p bytes i rule: segments_from.induct)
  case (1 p bytes i)
  then show ?case
    by (auto simp: segments_from.simps[of p bytes i] Let_def simp del: valid_utf8.simps
        dest: escape_check_answers split: option.splits bool.splits prod.splits)
qed

lemma segments_answer: "valid_utf8 s \<Longrightarrow> escape_string_segments_are_valid s \<noteq> None"
  using escape_check_answers segments_from_answers
  by (simp add: escape_string_segments_are_valid_def)

end
