(* ===== verification/Scan_Operators.thy ===== *)
theory Scan_Operators
  imports Scan_Quoted
begin

text \<open>
  The operator and punctuation scanners of \<open>crates/squonk/src/tokenizer/scan.rs\<close>: the fixed
  forms with their dialect gates, the general symbolic operator with its two truncations, and
  the structural punctuation. An arm the dispatch never routes to is a panic.
\<close>

subsection \<open>The fixed forms\<close>

text \<open>The operator at the cursor and its width; \<open>None\<close> for the unreachable arms.\<close>

definition fixed_operator :: "feature_set \<Rightarrow> cursor \<Rightarrow> (operator \<times> nat) option" where
  "fixed_operator f c = (case peek c of
      None \<Rightarrow> None
    | Some lead \<Rightarrow>
        if lead = CHR ''+'' then Some (Opr_Plus, 1)
        else if lead = CHR ''-'' \<and> os_json_arrow_operators (operator_syntax f) \<and> peek_nth 1 c = Some (CHR ''>'') then
          (if peek_nth 2 c = Some (CHR ''>'') then Some (Opr_MinusGtGt, 3) else Some (Opr_MinusGt, 2))
        else if lead = CHR ''-'' then Some (Opr_Minus, 1)
        else if lead = CHR ''*'' then Some (Opr_Star, 1)
        else if lead = CHR ''/'' \<and> os_integer_divide_slash (operator_syntax f) \<and> peek_nth 1 c = Some (CHR ''/'') then
          Some (Opr_SlashSlash, 2)
        else if lead = CHR ''/'' then Some (Opr_Slash, 1)
        else if lead = CHR ''%'' then Some (Opr_Percent, 1)
        else if lead = CHR ''='' \<and> ca_named_argument (call_syntax f) \<and> peek_nth 1 c = Some (CHR ''>'') then
          Some (Opr_Arrow, 2)
        else if lead = CHR ''='' \<and> os_double_equals (operator_syntax f) \<and> peek_nth 1 c = Some (CHR ''='') then
          Some (Opr_EqEq, 2)
        else if lead = CHR ''='' then Some (Opr_Eq, 1)
        else if lead = CHR ''<'' then
          (if peek_nth 1 c = Some (CHR ''='') \<and> os_null_safe_equals (operator_syntax f)
              \<and> peek_nth 2 c = Some (CHR ''>'') then Some (Opr_LtEqGt, 3)
           else if peek_nth 1 c = Some (CHR ''='') then Some (Opr_LtEq, 2)
           else if peek_nth 1 c = Some (CHR ''>'') then Some (Opr_NotEq, 2)
           else if peek_nth 1 c = Some (CHR ''<'') then Some (Opr_ShiftLeft, 2)
           else if peek_nth 1 c = Some (CHR ''@'') \<and> os_containment_operators (operator_syntax f) then
             Some (Opr_LtAt, 2)
           else Some (Opr_Lt, 1))
        else if lead = CHR ''>'' then
          (if peek_nth 1 c = Some (CHR ''='') then Some (Opr_GtEq, 2)
           else if peek_nth 1 c = Some (CHR ''>'') then Some (Opr_ShiftRight, 2)
           else Some (Opr_Gt, 1))
        else if lead = CHR ''@'' then
          (if peek_nth 1 c = Some (CHR ''>'') then Some (Opr_AtGt, 2)
           else if peek_nth 1 c = Some (CHR ''?'') then Some (Opr_AtQuestion, 2)
           else if peek_nth 1 c = Some (CHR ''@'') then Some (Opr_AtAt, 2)
           else None)
        else if lead = CHR ''#'' \<and> os_jsonb_operators (operator_syntax f) then
          (if peek_nth 1 c = Some (CHR ''>'') then
             (if peek_nth 2 c = Some (CHR ''>'') then Some (Opr_HashGtGt, 3) else Some (Opr_HashGt, 2))
           else if peek_nth 1 c = Some (CHR ''-'') then Some (Opr_HashMinus, 2)
           else Some (Opr_Hash, 1))
        else if lead = CHR ''#'' then Some (Opr_Hash, 1)
        else if lead = CHR ''?'' then
          (if peek_nth 1 c = Some (CHR ''|'') then Some (Opr_QuestionPipe, 2)
           else if peek_nth 1 c = Some (CHR ''&'') then Some (Opr_QuestionAmp, 2)
           else Some (Opr_Question, 1))
        else if lead = CHR ''!'' then
          (if peek_nth 1 c = Some (CHR ''='') then Some (Opr_NotEq, 2) else Some (Opr_Bang, 1))
        else if lead = CHR ''|'' then
          (if peek_nth 1 c = Some (CHR ''|'') then Some (Opr_Concat, 2)
           else if peek_nth 1 c = Some (CHR ''>'') \<and> qt_pipe_syntax (query_tail_syntax f) then
             Some (Opr_PipeArrow, 2)
           else Some (Opr_Pipe, 1))
        else if lead = CHR ''&'' then
          (if peek_nth 1 c = Some (CHR ''&'') then Some (Opr_AmpAmp, 2) else Some (Opr_Amp, 1))
        else if lead = CHR ''^'' then
          (if peek_nth 1 c = Some (CHR ''@'') \<and> os_starts_with_operator (operator_syntax f) then
             Some (Opr_CaretAt, 2)
           else Some (Opr_Caret, 1))
        else if lead = CHR ''~'' then Some (Opr_Tilde, 1)
        else None)"

subsection \<open>The general operator\<close>

definition is_operator_char :: "byte \<Rightarrow> feature_set \<Rightarrow> bool" where
  "is_operator_char b f =
     (if b = CHR ''#'' then \<not> es_positional_column (expression_syntax f)
      else if b = CHR ''?'' then \<not> pa_anonymous_question (parameters f)
      else b \<in> set ''~!@^&|`+-*/%<>='')"

definition operator_char_allows_trailing_sign :: "byte \<Rightarrow> bool" where
  "operator_char_allows_trailing_sign b \<longleftrightarrow> b \<in> set ''~!@#^&|`?%''"

text \<open>The run after its lead byte: op-class bytes, up to an embedded comment start.\<close>

function operator_run :: "feature_set \<Rightarrow> cursor \<Rightarrow> nat \<Rightarrow> nat" where
  "operator_run f c n = (case peek_nth n c of
      None \<Rightarrow> n
    | Some b \<Rightarrow>
        if \<not> is_operator_char b f then n
        else if (b = CHR ''-'' \<and> peek_nth (n + 1) c = Some (CHR ''-''))
             \<or> (b = CHR ''/'' \<and> peek_nth (n + 1) c = Some (CHR ''*'')) then n
        else operator_run f c (n + 1))"
  by pat_completeness auto
termination
  by (relation "measure (\<lambda>(f, c, n). length (cur_src c) - (cur_pos c + n))") (auto simp: peek_nth_Some)

declare operator_run.simps [simp del]

fun strip_trailing_sign :: "cursor \<Rightarrow> nat \<Rightarrow> nat" where
  "strip_trailing_sign c 0 = 0"
| "strip_trailing_sign c (Suc n) =
     (if 0 < n \<and> (peek_nth n c = Some (CHR ''+'') \<or> peek_nth n c = Some (CHR ''-''))
      then strip_trailing_sign c n else Suc n)"

definition custom_operator_run_len :: "feature_set \<Rightarrow> cursor \<Rightarrow> nat" where
  "custom_operator_run_len f c =
     (let n = operator_run f c 1;
          has_sign_char = list_ex (\<lambda>i. byte_ahead i operator_char_allows_trailing_sign c) [0..<n]
      in if \<not> has_sign_char then strip_trailing_sign c n else n)"

definition known_operator_token :: "source \<Rightarrow> feature_set \<Rightarrow> operator option" where
  "known_operator_token run f =
    (if run = ''+'' then Some Opr_Plus
     else if run = ''-'' then Some Opr_Minus
     else if run = ''*'' then Some Opr_Star
     else if run = ''/'' then Some Opr_Slash
     else if run = ''%'' then Some Opr_Percent
     else if run = ''^'' then Some Opr_Caret
     else if run = ''<'' then Some Opr_Lt
     else if run = ''>'' then Some Opr_Gt
     else if run = ''='' then Some Opr_Eq
     else if run = ''~'' then Some Opr_Tilde
     else if run = ''!'' then Some Opr_Bang
     else if run = ''&'' then Some Opr_Amp
     else if run = ''|'' then Some Opr_Pipe
     else if run = ''#'' \<and> hash_bitwise_xor f then Some Opr_Hash
     else if run = ''<='' then Some Opr_LtEq
     else if run = ''>='' then Some Opr_GtEq
     else if run = ''<>'' \<or> run = ''!='' then Some Opr_NotEq
     else if run = ''<<'' then Some Opr_ShiftLeft
     else if run = ''>>'' then Some Opr_ShiftRight
     else if run = ''||'' then Some Opr_Concat
     else if run = ''&&'' then Some Opr_AmpAmp
     else if run = ''?'' \<and> os_jsonb_operators (operator_syntax f) then Some Opr_Question
     else if run = ''?|'' \<and> os_jsonb_operators (operator_syntax f) then Some Opr_QuestionPipe
     else if run = ''?&'' \<and> os_jsonb_operators (operator_syntax f) then Some Opr_QuestionAmp
     else if run = ''@?'' \<and> os_jsonb_operators (operator_syntax f) then Some Opr_AtQuestion
     else if run = ''@@'' \<and> os_jsonb_operators (operator_syntax f) then Some Opr_AtAt
     else if run = ''#>'' \<and> os_jsonb_operators (operator_syntax f) then Some Opr_HashGt
     else if run = ''#>>'' \<and> os_jsonb_operators (operator_syntax f) then Some Opr_HashGtGt
     else if run = ''#-'' \<and> os_jsonb_operators (operator_syntax f) then Some Opr_HashMinus
     else if run = ''@>'' \<and> os_containment_operators (operator_syntax f) then Some Opr_AtGt
     else if run = ''<@'' \<and> os_containment_operators (operator_syntax f) then Some Opr_LtAt
     else if run = ''->'' \<and> os_json_arrow_operators (operator_syntax f) then Some Opr_MinusGt
     else if run = ''->>'' \<and> os_json_arrow_operators (operator_syntax f) then Some Opr_MinusGtGt
     else if run = ''=>'' \<and> ca_named_argument (call_syntax f) then Some Opr_Arrow
     else if run = ''|>'' \<and> qt_pipe_syntax (query_tail_syntax f) then Some Opr_PipeArrow
     else if run = ''=='' \<and> os_double_equals (operator_syntax f) then Some Opr_EqEq
     else if run = ''//'' \<and> os_integer_divide_slash (operator_syntax f) then Some Opr_SlashSlash
     else if run = ''<=>'' \<and> os_null_safe_equals (operator_syntax f) then Some Opr_LtEqGt
     else if run = ''^@'' \<and> os_starts_with_operator (operator_syntax f) then Some Opr_CaretAt
     else None)"

definition scan_custom_operator :: "feature_set \<Rightarrow> cursor \<Rightarrow> lex_failure + (token \<times> cursor)" where
  "scan_custom_operator f c =
     (let start = cur_pos c; n = custom_operator_run_len f c
      in case str_slice (cur_src c) start (start + n) of
           None \<Rightarrow> Inl Panic
         | Some run \<Rightarrow>
             (case (case known_operator_token run f of
                      Some op \<Rightarrow> (op, n)
                    | None \<Rightarrow> if run = ''=>'' then (Opr_Eq, 1) else (Opr_Custom, n)) of
                (op, width) \<Rightarrow> token_from (Tk_Operator op) start (advance_bytes width c)))"

definition scan_operator :: "feature_set \<Rightarrow> cursor \<Rightarrow> lex_failure + (token \<times> cursor)" where
  "scan_operator f c =
     (if os_custom_operators (operator_syntax f) then scan_custom_operator f c
      else (case fixed_operator f c of
          None \<Rightarrow> Inl Panic
        | Some (op, width) \<Rightarrow> token_from (Tk_Operator op) (cur_pos c) (advance_bytes width c)))"

subsection \<open>Punctuation and quote openers\<close>

definition scan_punctuation :: "feature_set \<Rightarrow> cursor \<Rightarrow> lex_failure + (token \<times> cursor)" where
  "scan_punctuation f c = (case peek c of
      None \<Rightarrow> Inl Panic
    | Some b \<Rightarrow>
        if b = CHR '':'' \<and> peek_nth 1 c = Some (CHR '':'') then
          token_from (Tk_Punctuation P_DoubleColon) (cur_pos c) (bump (bump c))
        else if b = CHR '':'' \<and> (ca_named_argument (call_syntax f) \<or> sv_variable_assignment (session_variables f))
            \<and> peek_nth 1 c = Some (CHR ''='') then
          token_from (Tk_Operator Opr_ColonEquals) (cur_pos c) (bump (bump c))
        else
          (let c1 = bump c in
           if b = CHR ''('' then token_from (Tk_Punctuation P_LParen) (cur_pos c) c1
           else if b = CHR '')'' then token_from (Tk_Punctuation P_RParen) (cur_pos c) c1
           else if b = CHR '','' then token_from (Tk_Punctuation P_Comma) (cur_pos c) c1
           else if b = CHR '';'' then token_from (Tk_Punctuation P_Semicolon) (cur_pos c) c1
           else if b = CHR ''.'' then token_from (Tk_Punctuation P_Dot) (cur_pos c) c1
           else if b = CHR ''['' then token_from (Tk_Punctuation P_LBracket) (cur_pos c) c1
           else if b = CHR '']'' then token_from (Tk_Punctuation P_RBracket) (cur_pos c) c1
           else if b = CHR ''{'' then token_from (Tk_Punctuation P_LBrace) (cur_pos c) c1
           else if b = CHR ''}'' then token_from (Tk_Punctuation P_RBrace) (cur_pos c) c1
           else if b = CHR '':'' then token_from (Tk_Punctuation P_Colon) (cur_pos c) c1
           else Inl Panic))"

text \<open>\<open>find_map\<close> over the configured styles; a non-ASCII delimiter is inert.\<close>

fun first_opening :: "identifier_quote list \<Rightarrow> byte \<Rightarrow> byte option" where
  "first_opening [] b = None"
| "first_opening (style # styles) b =
     (if iq_open style < 128 \<and> iq_open style = byte_val b \<and> iq_close style < 128
      then Some (char_of (iq_close style)) else first_opening styles b)"

definition opening_identifier_quote :: "feature_set \<Rightarrow> byte \<Rightarrow> byte option" where
  "opening_identifier_quote f b = first_opening (identifier_quotes f) b"

lemma opening_identifier_quote_ascii:
  "opening_identifier_quote f b = Some q \<Longrightarrow> is_ascii b \<and> is_ascii q"
proof -
  have "first_opening styles b = Some q \<Longrightarrow> is_ascii b \<and> is_ascii q" for styles
    by (induction styles) (auto simp: is_ascii_def split: if_splits)
  then show "opening_identifier_quote f b = Some q \<Longrightarrow> is_ascii b \<and> is_ascii q"
    by (simp add: opening_identifier_quote_def)
qed

subsection \<open>Spellings and gates\<close>

text \<open>
  How each operator is spelled, and which dialect gate it needs. A custom operator has no spelling
  of its own; the spelling of \<open>:=\<close> is read by the colon branch of \<open>scan_punctuation\<close>, since no
  operator scanner is given a colon.
\<close>

fun operator_text :: "operator \<Rightarrow> string list" where
  "operator_text Opr_Plus = [''+'']"
| "operator_text Opr_Minus = [''-'']"
| "operator_text Opr_Star = [''*'']"
| "operator_text Opr_Slash = [''/'']"
| "operator_text Opr_SlashSlash = [''//'']"
| "operator_text Opr_Percent = [''%'']"
| "operator_text Opr_Eq = [''='']"
| "operator_text Opr_EqEq = [''=='']"
| "operator_text Opr_Lt = [''<'']"
| "operator_text Opr_LtEq = [''<='']"
| "operator_text Opr_Gt = [''>'']"
| "operator_text Opr_GtEq = [''>='']"
| "operator_text Opr_NotEq = [''<>'', ''!='']"
| "operator_text Opr_LtEqGt = [''<=>'']"
| "operator_text Opr_Concat = [''||'']"
| "operator_text Opr_AmpAmp = [''&&'']"
| "operator_text Opr_Bang = [''!'']"
| "operator_text Opr_Pipe = [''|'']"
| "operator_text Opr_Amp = [''&'']"
| "operator_text Opr_Caret = [''^'']"
| "operator_text Opr_CaretAt = [''^@'']"
| "operator_text Opr_Tilde = [''~'']"
| "operator_text Opr_ShiftLeft = [''<<'']"
| "operator_text Opr_ShiftRight = [''>>'']"
| "operator_text Opr_Hash = [''#'']"
| "operator_text Opr_Arrow = [''=>'']"
| "operator_text Opr_ColonEquals = ['':='']"
| "operator_text Opr_AtGt = [''@>'']"
| "operator_text Opr_LtAt = [''<@'']"
| "operator_text Opr_MinusGt = [''->'']"
| "operator_text Opr_MinusGtGt = [''->>'']"
| "operator_text Opr_PipeArrow = [''|>'']"
| "operator_text Opr_Question = [''?'']"
| "operator_text Opr_QuestionPipe = [''?|'']"
| "operator_text Opr_QuestionAmp = [''?&'']"
| "operator_text Opr_AtQuestion = [''@?'']"
| "operator_text Opr_AtAt = [''@@'']"
| "operator_text Opr_HashGt = [''#>'']"
| "operator_text Opr_HashGtGt = [''#>>'']"
| "operator_text Opr_HashMinus = [''#-'']"
| "operator_text Opr_Custom = []"

fun operator_gate :: "feature_set \<Rightarrow> operator \<Rightarrow> bool" where
  "operator_gate f Opr_SlashSlash = os_integer_divide_slash (operator_syntax f)"
| "operator_gate f Opr_EqEq = os_double_equals (operator_syntax f)"
| "operator_gate f Opr_LtEqGt = os_null_safe_equals (operator_syntax f)"
| "operator_gate f Opr_CaretAt = os_starts_with_operator (operator_syntax f)"
| "operator_gate f Opr_Hash = hash_bitwise_xor f"
| "operator_gate f Opr_Arrow = ca_named_argument (call_syntax f)"
| "operator_gate f Opr_ColonEquals = (ca_named_argument (call_syntax f) \<or> sv_variable_assignment (session_variables f))"
| "operator_gate f Opr_AtGt = os_containment_operators (operator_syntax f)"
| "operator_gate f Opr_LtAt = os_containment_operators (operator_syntax f)"
| "operator_gate f Opr_MinusGt = os_json_arrow_operators (operator_syntax f)"
| "operator_gate f Opr_MinusGtGt = os_json_arrow_operators (operator_syntax f)"
| "operator_gate f Opr_PipeArrow = qt_pipe_syntax (query_tail_syntax f)"
| "operator_gate f Opr_Question = os_jsonb_operators (operator_syntax f)"
| "operator_gate f Opr_QuestionPipe = os_jsonb_operators (operator_syntax f)"
| "operator_gate f Opr_QuestionAmp = os_jsonb_operators (operator_syntax f)"
| "operator_gate f Opr_AtQuestion = os_jsonb_operators (operator_syntax f)"
| "operator_gate f Opr_AtAt = os_jsonb_operators (operator_syntax f)"
| "operator_gate f Opr_HashGt = os_jsonb_operators (operator_syntax f)"
| "operator_gate f Opr_HashGtGt = os_jsonb_operators (operator_syntax f)"
| "operator_gate f Opr_HashMinus = os_jsonb_operators (operator_syntax f)"
| "operator_gate f _ = True"

text \<open>\<open>spells f op t\<close>: the dialect has the operator, and \<open>t\<close> spells it.\<close>

definition spells :: "feature_set \<Rightarrow> operator \<Rightarrow> string \<Rightarrow> bool" where
  "spells f op t \<longleftrightarrow> t \<in> set (operator_text op) \<and> operator_gate f op"

lemma operator_text_size: "t \<in> set (operator_text op) \<Longrightarrow> 1 \<le> length t \<and> length t \<le> 3 \<and> (\<forall>b \<in> set t. is_ascii b)"
  by (cases op) (auto simp: is_ascii_def)

lemma known_operator_spells: "known_operator_token run f = Some op \<Longrightarrow> spells f op run"
  apply (simp only: known_operator_token_def)
  apply (erule if_someE, fastforce simp: spells_def)+
  apply simp
  done

lemma spells_known: "spells f op run \<Longrightarrow> hd run \<noteq> CHR '':'' \<Longrightarrow> known_operator_token run f = Some op"
  unfolding spells_def
  by (cases op; simp; (elim disjE)?) (simp_all add: known_operator_token_def)

lemma take_rest_peeks:
  assumes "length t = n"
  shows "take n (rest c) = t \<longleftrightarrow> (\<forall>i<n. peek_nth i c = Some (t ! i))"
proof
  assume t: "take n (rest c) = t"
  show "\<forall>i<n. peek_nth i c = Some (t ! i)"
  proof (intro allI impI)
    fix i assume i: "i < n"
    with t assms have "i < length (rest c)" "t ! i = rest c ! i" by auto
    then show "peek_nth i c = Some (t ! i)" by (simp add: peek_nth_def rest_def)
  qed
next
  assume p: "\<forall>i<n. peek_nth i c = Some (t ! i)"
  then have "n \<le> length (rest c)" by (cases n) (auto simp: peek_nth_def rest_def)
  with p assms show "take n (rest c) = t"
    by (intro nth_equalityI) (auto simp: peek_nth_def rest_def)
qed

lemma take_rest:
  "take (Suc 0) (rest c) = [a] \<longleftrightarrow> peek c = Some a"
  "take 2 (rest c) = [a, b] \<longleftrightarrow> peek c = Some a \<and> peek_nth 1 c = Some b"
  "take 3 (rest c) = [a, b, d] \<longleftrightarrow> peek c = Some a \<and> peek_nth 1 c = Some b \<and> peek_nth 2 c = Some d"
  by (subst take_rest_peeks; auto simp: All_less_Suc numeral_2_eq_2 numeral_3_eq_3)+

text \<open>What the fixed scanner munches is a spelling of the operator it returns.\<close>

lemma fixed_operator_text:
  "fixed_operator f c = Some (op, w) \<Longrightarrow> take w (rest c) \<in> set (operator_text op)"
  apply (simp only: fixed_operator_def)
  apply (cases "peek c")
   apply simp
  apply (simp only: option.case)
  apply (erule if_someE, fastforce simp: take_rest split: if_splits)+
  apply simp
  done

lemma fixed_operator_width:
  assumes "fixed_operator f c = Some (op, w)"
  shows "length (take w (rest c)) = w" "0 < w"
proof -
  have "w \<in> length ` set (operator_text op)"
    using assms
    apply (simp only: fixed_operator_def)
    apply (cases "peek c")
     apply simp
    apply (simp only: option.case)
    apply (erule if_someE, fastforce split: if_splits)+
    apply simp
    done
  then obtain t where t: "t \<in> set (operator_text op)" "w = length t" by blast
  have "length t' = length t" if "t' \<in> set (operator_text op)" for t'
    using that t(1) by (cases op) auto
  from this[OF fixed_operator_text[OF assms]] t(2) show "length (take w (rest c)) = w" by simp
  from operator_text_size[OF t(1)] t(2) show "0 < w" by auto
qed

text \<open>What the dispatch has checked of a lead byte outside the operator class.\<close>

definition operator_lead_ok :: "feature_set \<Rightarrow> cursor \<Rightarrow> bool" where
  "operator_lead_ok f c \<longleftrightarrow> (case peek c of
      None \<Rightarrow> False
    | Some b \<Rightarrow>
        is_operator_byte b
      \<or> (b = CHR ''#'' \<and> hash_bitwise_xor f)
      \<or> (b = CHR ''?'' \<and> os_jsonb_operators (operator_syntax f))
      \<or> (b = CHR ''@'' \<and> os_containment_operators (operator_syntax f) \<and> peek_nth 1 c = Some (CHR ''>''))
      \<or> (b = CHR ''@'' \<and> os_jsonb_operators (operator_syntax f)
          \<and> (peek_nth 1 c = Some (CHR ''?'') \<or> peek_nth 1 c = Some (CHR ''@''))))"

lemma operator_lead_no_colon: "operator_lead_ok f c \<Longrightarrow> peek c \<noteq> Some (CHR '':'')"
  by (auto simp: operator_lead_ok_def is_operator_byte_def split: option.splits)

lemma fixed_operator_total: "operator_lead_ok f c \<Longrightarrow> fixed_operator f c \<noteq> None"
  unfolding operator_lead_ok_def is_operator_byte_def
  by (cases "peek c"; simp; elim disjE conjE) (simp_all add: fixed_operator_def)

lemma fixed_operator_gate:
  "fixed_operator f c = Some (op, w) \<Longrightarrow> operator_lead_ok f c \<Longrightarrow> operator_gate f op"
  apply (simp only: fixed_operator_def)
  apply (cases "peek c")
   apply simp
  apply (simp only: option.case)
  apply (erule if_someE, fastforce simp: operator_lead_ok_def is_operator_byte_def split: if_splits)+
  apply simp
  done

lemma fixed_operator_spells:
  assumes "fixed_operator f c = Some (op, w)" "operator_lead_ok f c"
  shows "spells f op (take w (rest c))"
  using fixed_operator_text[OF assms(1)] fixed_operator_gate[OF assms] by (simp add: spells_def)

lemma fixed_operator_munches:
  assumes "spells f op' t" "take (length t) (rest c) = t" "peek c \<noteq> Some (CHR '':'')"
  shows "\<exists>op w. fixed_operator f c = Some (op, w) \<and> length t \<le> w"
  using assms unfolding spells_def
  by (cases op'; simp; (elim disjE)?) (simp_all add: take_rest[unfolded numeral_2_eq_2 numeral_3_eq_3] fixed_operator_def numeral_2_eq_2)

subsection \<open>The length of a general operator\<close>

lemma operator_char_ascii: "is_operator_char b f \<Longrightarrow> is_ascii b"
  by (auto simp: is_operator_char_def is_ascii_def split: if_splits)

lemma operator_run_ok:
  "n \<le> operator_run f c n \<and> (\<forall>i. n \<le> i \<longrightarrow> i < operator_run f c n \<longrightarrow>
     (\<exists>b. peek_nth i c = Some b \<and> is_operator_char b f
        \<and> \<not> (b = CHR ''-'' \<and> peek_nth (i + 1) c = Some (CHR ''-''))
        \<and> \<not> (b = CHR ''/'' \<and> peek_nth (i + 1) c = Some (CHR ''*''))))"
proof (induction f c n rule: operator_run.induct)
  case (1 f c n)
  show ?case
  proof (cases "operator_run f c n = n")
    case False
    then obtain b where b: "peek_nth n c = Some b" "is_operator_char b f"
      "\<not> ((b = CHR ''-'' \<and> peek_nth (n + 1) c = Some (CHR ''-''))
         \<or> (b = CHR ''/'' \<and> peek_nth (n + 1) c = Some (CHR ''*'')))"
      by (auto simp: operator_run.simps[of f c n] split: option.splits if_splits)
    then have e: "operator_run f c n = operator_run f c (n + 1)"
      by (auto simp: operator_run.simps[of f c n])
    note ih = 1[OF b(1) _ b(3), simplified b(2), simplified]
    show ?thesis
    proof (intro conjI allI impI)
      show "n \<le> operator_run f c n" using ih e by simp
      fix i assume i: "n \<le> i" "i < operator_run f c n"
      then show "\<exists>b. peek_nth i c = Some b \<and> is_operator_char b f
          \<and> \<not> (b = CHR ''-'' \<and> peek_nth (i + 1) c = Some (CHR ''-''))
          \<and> \<not> (b = CHR ''/'' \<and> peek_nth (i + 1) c = Some (CHR ''*''))"
        using b ih e by (cases "i = n") auto
    qed
  qed auto
qed

lemma strip_trailing_sign_le: "strip_trailing_sign c n \<le> n \<and> (0 < n \<longrightarrow> 0 < strip_trailing_sign c n)"
  by (induction c n rule: strip_trailing_sign.induct) auto

lemma strip_trailing_sign_end:
  "1 < strip_trailing_sign c n \<Longrightarrow>
     peek_nth (strip_trailing_sign c n - 1) c \<notin> {Some (CHR ''+''), Some (CHR ''-'')}"
  by (induction c n rule: strip_trailing_sign.induct) (auto split: if_splits)

lemma custom_run_bounds: "1 \<le> custom_operator_run_len f c \<and> custom_operator_run_len f c \<le> operator_run f c 1"
  using operator_run_ok[of 1 f c] strip_trailing_sign_le[of c "operator_run f c 1"]
  by (auto simp: custom_operator_run_len_def Let_def)

text \<open>Every byte of the run is an ASCII byte of the source.\<close>

lemma custom_run_bytes:
  assumes "peek c = Some b" "is_ascii b" "i < custom_operator_run_len f c"
  shows "\<exists>x. peek_nth i c = Some x \<and> is_ascii x"
proof (cases i)
  case 0
  then show ?thesis using assms by simp
next
  case (Suc j)
  then have "i < operator_run f c 1" using assms(3) custom_run_bounds[of f c] by linarith
  with Suc operator_run_ok[of 1 f c] operator_char_ascii show ?thesis by fastforce
qed

lemma walks_ascii_bytes:
  assumes "\<forall>i<n. \<exists>x. peek_nth i c = Some x \<and> is_ascii x"
  shows "walks c (advance_bytes n c)"
proof (cases n)
  case (Suc j)
  then obtain x where "peek_nth j c = Some x" "is_ascii x" using assms by blast
  then show ?thesis using walks_advance_ascii Suc by blast
qed (simp add: advance_bytes_def)

lemma custom_run_walks:
  assumes "peek c = Some b" "is_ascii b" "w \<le> custom_operator_run_len f c"
  shows "walks c (advance_bytes w c)"
  using custom_run_bytes[OF assms(1,2)] assms(3) by (intro walks_ascii_bytes) (meson less_le_trans)

lemma scan_custom_operator_eq:
  assumes "cur_good c" "peek c = Some b" "is_ascii b"
  shows "scan_custom_operator f c =
    (let n = custom_operator_run_len f c; run = take n (rest c)
     in case known_operator_token run f of
          Some op \<Rightarrow> token_from (Tk_Operator op) (cur_pos c) (advance_bytes n c)
        | None \<Rightarrow> if run = ''=>'' then token_from (Tk_Operator Opr_Eq) (cur_pos c) (advance_bytes 1 c)
                  else token_from (Tk_Operator Opr_Custom) (cur_pos c) (advance_bytes n c))"
proof -
  let ?n = "custom_operator_run_len f c"
  have "walks c (advance_bytes ?n c)" by (rule custom_run_walks[OF assms(2,3) order_refl])
  from str_slice_walk[OF this assms(1)]
  have "str_slice (cur_src c) (cur_pos c) (cur_pos c + ?n) = Some (take ?n (rest c))"
    by (simp add: subslice_def rest_def)
  then show ?thesis
    by (simp add: scan_custom_operator_def Let_def split: option.split)
qed

lemma scan_operator_scans [lexeme_ok]:
  assumes "cur_good c" "peek c = Some b" "is_ascii b"
    "os_custom_operators (operator_syntax f) \<or> operator_lead_ok f c"
  shows "scans c (scan_operator f c)"
proof (cases "os_custom_operators (operator_syntax f)")
  case True
  let ?n = "custom_operator_run_len f c"
  have tok: "scans c (token_from k (cur_pos c) (advance_bytes w c))" if "1 \<le> w" "w \<le> ?n" for k w
    using that by (intro scans_token_from custom_run_walks[OF assms(2,3)]) simp_all
  show ?thesis using True custom_run_bounds[of f c] tok[of 1] tok[of ?n]
    by (auto simp: scan_operator_def scan_custom_operator_eq[OF assms(1-3)] Let_def split: option.split)
next
  case False
  with assms(4) have ok: "operator_lead_ok f c" by simp
  then obtain op w where ow: "fixed_operator f c = Some (op, w)" using fixed_operator_total by fastforce
  let ?t = "take w (rest c)"
  have t: "?t \<in> set (operator_text op)" by (rule fixed_operator_text[OF ow])
  have "\<exists>x. peek_nth i c = Some x \<and> is_ascii x" if "i < length ?t" for i
  proof -
    have "peek_nth i c = Some (?t ! i)" using that by (auto simp: peek_nth_def rest_def)
    then show ?thesis using operator_text_size[OF t] nth_mem[OF that] by auto
  qed
  moreover note w = fixed_operator_width[OF ow]
  ultimately have "walks c (advance_bytes w c)" by (intro walks_ascii_bytes) simp
  then show ?thesis using False ow w by (simp add: scan_operator_def scans_token_from)
qed

lemma scan_punctuation_scans [lexeme_ok]:
  assumes "peek c = Some b" "is_punctuation_byte b"
  shows "scans c (scan_punctuation f c)"
proof -
  have a: "is_ascii b" using assms(2) by (auto simp: is_punctuation_byte_def is_ascii_def)
  have one: "scans c (token_from k (cur_pos c) (bump c))" for k
    by (rule scans_token_from[OF walks_bump[OF assms(1) a] _ refl]) (simp add: bump_pos[OF assms(1)])
  have two: "scans c (token_from k (cur_pos c) (bump (bump c)))"
    if "peek_nth 1 c = Some x" "is_ascii x" for k x
  proof (rule scans_token_from[OF _ _ refl])
    have p1: "peek (bump c) = Some x" using that(1) peek_bump[OF assms(1)] by simp
    show "walks c (bump (bump c))"
      by (rule walks_trans[OF walks_bump[OF assms(1) a] walks_bump[OF p1 that(2)]])
    show "cur_pos c < cur_pos (bump (bump c))" by (simp add: bump_pos[OF p1] bump_pos[OF assms(1)])
  qed
  have "b \<in> set ''(),;.[]{}:''" using assms(2) by (simp add: is_punctuation_byte_def)
  then show ?thesis
    using one two[of "CHR '':''"] two[of "CHR ''=''"] assms(1)
    by (simp add: scan_punctuation_def Let_def is_ascii_def) (elim disjE; simp)
qed

subsection \<open>Maximal munch\<close>

text \<open>
  C13. Maximal munch of the fixed scanner: on every input the dispatch routes to it, it returns
  an operator the dialect has, spelled by exactly the bytes consumed, and no operator the
  dialect has is spelled by a longer prefix of the remaining input.
\<close>

theorem fixed_operator_maximal_munch:
  assumes "operator_lead_ok f c"
  shows "\<exists>op w. fixed_operator f c = Some (op, w)
    \<and> take w (rest c) \<in> set (operator_text op) \<and> operator_gate f op
    \<and> (\<forall>op' t. t \<in> set (operator_text op') \<longrightarrow> operator_gate f op' \<longrightarrow> take (length t) (rest c) = t
         \<longrightarrow> length t \<le> w)"
proof -
  obtain op w where ow: "fixed_operator f c = Some (op, w)"
    using fixed_operator_total[OF assms] by fastforce
  have "length t \<le> w"
    if "t \<in> set (operator_text op')" "operator_gate f op'" "take (length t) (rest c) = t" for op' t
    using fixed_operator_munches[of f op' t c] that ow operator_lead_no_colon[OF assms] by (simp add: spells_def)
  with ow fixed_operator_text[OF ow] fixed_operator_gate[OF ow assms] show ?thesis by blast
qed

subsection \<open>The longest general operator\<close>

text \<open>
  The rule of general operators, on the text ahead: after the lead byte come operator bytes, no
  comment begins among them, and an operator of several bytes that ends in a sign holds one of
  the bytes that allow that.
\<close>

definition operator_lead :: "byte \<Rightarrow> bool" where
  "operator_lead b \<longleftrightarrow> b \<in> set ''~!@#^&|`?+-*/%<>=''"

definition comment_at :: "source \<Rightarrow> nat \<Rightarrow> bool" where
  "comment_at r i \<longleftrightarrow> (get_at r i = Some (CHR ''-'') \<and> get_at r (i + 1) = Some (CHR ''-''))
     \<or> (get_at r i = Some (CHR ''/'') \<and> get_at r (i + 1) = Some (CHR ''*''))"

definition sign_at :: "source \<Rightarrow> nat \<Rightarrow> bool" where
  "sign_at r i \<longleftrightarrow> get_at r i = Some (CHR ''+'') \<or> get_at r i = Some (CHR ''-'')"

definition operator_length :: "feature_set \<Rightarrow> source \<Rightarrow> nat \<Rightarrow> bool" where
  "operator_length f r n \<longleftrightarrow> 1 \<le> n \<and> n \<le> length r
     \<and> (\<forall>i. 1 \<le> i \<longrightarrow> i < n \<longrightarrow> pred_option (\<lambda>b. is_operator_char b f) (get_at r i) \<and> \<not> comment_at r i)
     \<and> (1 < n \<and> sign_at r (n - 1) \<longrightarrow> (\<exists>i<n. \<exists>b. get_at r i = Some b \<and> operator_char_allows_trailing_sign b))"

lemma peek_nth_rest: "peek_nth i c = get_at (rest c) i"
  by (auto simp: peek_nth_def get_at_def rest_def)

lemma operator_run_stops:
  "\<not> (\<exists>b. get_at (rest c) (operator_run f c n) = Some b \<and> is_operator_char b f \<and> \<not> comment_at (rest c) (operator_run f c n))"
proof (induction f c n rule: operator_run.induct)
  case (1 f c n)
  show ?case
  proof (cases "operator_run f c n = n")
    case True
    have "operator_run f c (n + 1) \<noteq> n" using operator_run_ok[of "n + 1" f c] by linarith
    with True show ?thesis
      by (auto simp: operator_run.simps[of f c n] peek_nth_rest comment_at_def split: option.splits if_splits)
  next
    case False
    then obtain b where b: "peek_nth n c = Some b" "is_operator_char b f"
      "\<not> ((b = CHR ''-'' \<and> peek_nth (n + 1) c = Some (CHR ''-''))
         \<or> (b = CHR ''/'' \<and> peek_nth (n + 1) c = Some (CHR ''*'')))"
      by (auto simp: operator_run.simps[of f c n] split: option.splits if_splits)
    then have "operator_run f c n = operator_run f c (n + 1)" by (auto simp: operator_run.simps[of f c n])
    with 1[OF b(1) _ b(3)] b(2) show ?thesis by simp
  qed
qed

lemma strip_trailing_sign_greatest:
  "m \<le> n \<Longrightarrow> 1 < m \<longrightarrow> \<not> sign_at (rest c) (m - 1) \<Longrightarrow> m \<le> strip_trailing_sign c n"
  by (induction c n rule: strip_trailing_sign.induct) (auto simp: sign_at_def peek_nth_rest le_Suc_eq)

lemma operator_run_length:
  assumes "peek c = Some b"
  shows "operator_run f c 1 \<le> length (rest c)"
    "1 \<le> i \<Longrightarrow> i < operator_run f c 1 \<Longrightarrow> pred_option (\<lambda>b. is_operator_char b f) (get_at (rest c) i) \<and> \<not> comment_at (rest c) i"
    "operator_length f (rest c) m \<Longrightarrow> m \<le> operator_run f c 1"
proof -
  let ?n = "operator_run f c 1"
  note ok = operator_run_ok[of 1 f c, unfolded peek_nth_rest]
  show step: "pred_option (\<lambda>b. is_operator_char b f) (get_at (rest c) i) \<and> \<not> comment_at (rest c) i"
    if "1 \<le> i" "i < ?n" for i
  proof -
    from ok that obtain x where "get_at (rest c) i = Some x" "is_operator_char x f"
      "\<not> (x = CHR ''-'' \<and> get_at (rest c) (i + 1) = Some (CHR ''-''))"
      "\<not> (x = CHR ''/'' \<and> get_at (rest c) (i + 1) = Some (CHR ''*''))" by blast
    then show ?thesis by (simp add: comment_at_def del: get_at_Some)
  qed
  have "?n - 1 < length (rest c)"
  proof (cases "?n = 1")
    case True
    then show ?thesis using assms by (simp add: peek_Some rest_def)
  next
    case False
    moreover have "1 \<le> ?n" using ok by blast
    ultimately have "1 \<le> ?n - 1" "?n - 1 < ?n" by linarith+
    with ok have "\<exists>b. get_at (rest c) (?n - 1) = Some b" by blast
    then show ?thesis by (auto simp: get_at_def split: if_splits)
  qed
  then show "?n \<le> length (rest c)" using ok by simp
  show "m \<le> ?n" if "operator_length f (rest c) m"
  proof (rule ccontr)
    assume "\<not> m \<le> ?n"
    with that ok have p: "pred_option (\<lambda>b. is_operator_char b f) (get_at (rest c) ?n)" "\<not> comment_at (rest c) ?n"
      "?n < length (rest c)" by (auto simp: operator_length_def)
    then obtain x where x: "get_at (rest c) ?n = Some x" by (simp add: get_at_def)
    with p(1) have "is_operator_char x f" by (simp del: get_at_Some)
    with x p(2) operator_run_stops[of c f 1] show False by blast
  qed
qed

lemma custom_run_longest:
  assumes "peek c = Some b"
  shows "operator_length f (rest c) (custom_operator_run_len f c)"
    "operator_length f (rest c) m \<Longrightarrow> m \<le> custom_operator_run_len f c"
proof -
  let ?n = "operator_run f c 1" and ?w = "custom_operator_run_len f c"
  let ?allows = "\<lambda>i. \<exists>b. get_at (rest c) i = Some b \<and> operator_char_allows_trailing_sign b"
  note run = operator_run_length[OF assms]
  have w: "1 \<le> ?w" "?w \<le> ?n" using custom_run_bounds by blast+
  have h: "list_ex (\<lambda>i. byte_ahead i operator_char_allows_trailing_sign c) [0..<?n] \<longleftrightarrow> (\<exists>i<?n. ?allows i)"
  proof -
    have "byte_ahead i operator_char_allows_trailing_sign c = ?allows i" for i
    proof (cases "get_at (rest c) i")
      case None
      show ?thesis unfolding byte_ahead_def peek_nth_rest None by simp
    next
      case (Some x)
      show ?thesis unfolding byte_ahead_def peek_nth_rest Some by simp
    qed
    then show ?thesis by (auto simp: list_ex_iff simp del: get_at_Some)
  qed
  have eq: "?w = (if \<exists>i<?n. ?allows i then ?n else strip_trailing_sign c ?n)"
    unfolding custom_operator_run_len_def Let_def h
    by (cases "\<exists>i<?n. ?allows i") (simp_all only: not_True_eq_False not_False_eq_True if_True if_False)
  have "1 < ?w \<and> sign_at (rest c) (?w - 1) \<longrightarrow> (\<exists>i<?w. ?allows i)"
  proof (cases "\<exists>i<?n. ?allows i")
    case True
    then show ?thesis using eq by metis
  next
    case False
    have "?w = strip_trailing_sign c ?n" by (simp only: eq if_not_P[OF False])
    then show ?thesis using strip_trailing_sign_end[of c ?n] by (auto simp: sign_at_def peek_nth_rest)
  qed
  moreover have "?w \<le> length (rest c)" using w(2) run(1)[of f] by linarith
  moreover have "\<forall>i. 1 \<le> i \<longrightarrow> i < ?w \<longrightarrow> pred_option (\<lambda>b. is_operator_char b f) (get_at (rest c) i) \<and> \<not> comment_at (rest c) i"
    using w(2) run(2)[where f = f] by (meson order.strict_trans2)
  ultimately show "operator_length f (rest c) ?w" unfolding operator_length_def using w(1) by blast
  show "m \<le> ?w" if m: "operator_length f (rest c) m"
  proof (cases "\<exists>i<?n. ?allows i")
    case True
    then show ?thesis using run(3)[OF m] unfolding eq by simp
  next
    case False
    then have "1 < m \<longrightarrow> \<not> sign_at (rest c) (m - 1)"
      using m run(3)[OF m] by (fastforce simp: operator_length_def)
    from strip_trailing_sign_greatest[OF run(3)[OF m] this] show ?thesis by (simp only: eq if_not_P[OF False])
  qed
qed

text \<open>
  C14. The general operator scanner takes the longest operator: the run it classifies is the
  longest prefix of the input that the rule of general operators allows. If some operator of the
  dialect is spelled by that run, the token is that operator; the run \<open>=>\<close> where the dialect has no
  named arguments leaves the \<open>>\<close> for the next token; every other run is one custom operator.
\<close>

theorem custom_operator_longest:
  assumes "cur_good c" "peek c = Some b" "operator_lead b"
  shows "\<exists>n op w. operator_length f (rest c) n \<and> (\<forall>m. operator_length f (rest c) m \<longrightarrow> m \<le> n)
    \<and> scan_custom_operator f c
        = Inr (Token (Tk_Operator op) (Span (cur_pos c) (cur_pos c + w)), advance_bytes w c)
    \<and> (if \<exists>op'. spells f op' (take n (rest c)) then spells f op (take n (rest c)) \<and> w = n
       else if take n (rest c) = ''=>'' then op = Opr_Eq \<and> w = 1
       else op = Opr_Custom \<and> w = n)"
proof -
  let ?n = "custom_operator_run_len f c"
  let ?run = "take ?n (rest c)"
  have a: "is_ascii b" using assms(3) by (auto simp: operator_lead_def is_ascii_def)
  have "rest c \<noteq> []" "hd (rest c) = b" using assms(2) by (simp_all add: peek_Some rest_def hd_drop_conv_nth)
  moreover have "0 < ?n" using custom_run_bounds[of f c] by linarith
  ultimately have "hd ?run \<noteq> CHR '':''" using assms(3) by (auto simp: operator_lead_def)
  then have known: "known_operator_token ?run f = Some op \<longleftrightarrow> spells f op ?run" for op
    using known_operator_spells spells_known by blast
  have none: "known_operator_token ?run f = None \<longleftrightarrow> \<not> (\<exists>op. spells f op ?run)"
    using known by (cases "known_operator_token ?run f") auto
  note e = scan_custom_operator_eq[OF assms(1,2) a, of f]
  note longest = custom_run_longest[OF assms(2), of f]
  show ?thesis
  proof (cases "known_operator_token ?run f")
    case (Some op)
    with known[of op] longest show ?thesis
      by (intro exI[of _ ?n] exI[of _ op]) (auto simp: e Let_def token_from_ok)
  next
    case None
    then have no: "\<not> (\<exists>op. spells f op ?run)" using none by simp
    show ?thesis
    proof (cases "?run = ''=>''")
      case True
      with None no longest show ?thesis
        by (intro exI[of _ ?n] exI[of _ Opr_Eq] exI[of _ 1]) (simp add: e Let_def token_from_ok)
    next
      case False
      with None no longest show ?thesis
        by (intro exI[of _ ?n] exI[of _ Opr_Custom]) (simp add: e Let_def token_from_ok)
    qed
  qed
qed

text \<open>An at sign and a minus: the sign is kept, since the at sign allows it.\<close>

theorem custom_operator_longest_witness:
  "\<forall>f. \<exists>op w. 2 \<le> w \<and> scan_custom_operator f (cursor_new ''@-'')
     = Inr (Token (Tk_Operator op) (Span 0 w), advance_bytes w (cursor_new ''@-''))"
proof
  fix f
  let ?c = "cursor_new ''@-''"
  have r: "rest ?c = ''@-''" by (simp add: rest_def cursor_new_def)
  have "cur_good ?c" by simp
  moreover have "peek ?c = Some (CHR ''@'')" by (simp add: peek_def cursor_new_def get_at_def)
  moreover have "operator_lead (CHR ''@'')" by (simp add: operator_lead_def)
  ultimately obtain n op w where n: "\<forall>m. operator_length f ''@-'' m \<longrightarrow> m \<le> n"
      "scan_custom_operator f ?c = Inr (Token (Tk_Operator op) (Span (cur_pos ?c) (cur_pos ?c + w)), advance_bytes w ?c)"
      "w = n \<or> take n ''@-'' = ''=>''"
    using custom_operator_longest[of ?c "CHR ''@''" f] unfolding r by metis
  have "operator_length f ''@-'' 2"
    by (auto simp: operator_length_def get_at_def comment_at_def is_operator_char_def numeral_2_eq_2 less_Suc_eq
        operator_char_allows_trailing_sign_def)
  with n(1) have "2 \<le> n" by blast
  with n(3) have "w = n" by (cases n) auto
  with n(2) \<open>2 \<le> n\<close> show "\<exists>op w. 2 \<le> w \<and> scan_custom_operator f ?c
      = Inr (Token (Tk_Operator op) (Span 0 w), advance_bytes w ?c)" by (auto simp: cursor_new_def)
qed

text \<open>
  The two scanners agree: where the general run ends where a fixed form ends, switching the
  general operators on does not change the token, so a dialect that enables them keeps every
  built-in operator.
\<close>

theorem custom_agrees_with_fixed:
  assumes "cur_good c" "operator_lead_ok f c" "os_custom_operators (operator_syntax f)"
    "fixed_operator f c = Some (op, w)"
    "custom_operator_run_len f c = w \<or> take (custom_operator_run_len f c) (rest c) = ''=>''"
  shows "scan_operator f c
    = scan_operator (f\<lparr>operator_syntax := (operator_syntax f)\<lparr>os_custom_operators := False\<rparr>\<rparr>) c"
proof -
  let ?n = "custom_operator_run_len f c"
  obtain b where b: "peek c = Some b" "is_ascii b"
    using assms(2)
    by (auto simp: operator_lead_ok_def is_operator_byte_def is_ascii_def split: option.splits)
  have "fixed_operator (f\<lparr>operator_syntax := (operator_syntax f)\<lparr>os_custom_operators := False\<rparr>\<rparr>) c
      = fixed_operator f c" by (cases "peek c") (simp_all add: fixed_operator_def)
  then have off: "scan_operator (f\<lparr>operator_syntax := (operator_syntax f)\<lparr>os_custom_operators := False\<rparr>\<rparr>) c
      = token_from (Tk_Operator op) (cur_pos c) (advance_bytes w c)"
    using assms(4) by (simp add: scan_operator_def)
  have on: "scan_operator f c = scan_custom_operator f c" using assms(3) by (simp add: scan_operator_def)
  show ?thesis
  proof (cases "?n = w")
    case True
    have "hd (take w (rest c)) = b"
      using b(1) fixed_operator_width(2)[OF assms(4)] by (simp add: peek_Some rest_def hd_drop_conv_nth)
    then have "known_operator_token (take w (rest c)) f = Some op"
      using spells_known[OF fixed_operator_spells[OF assms(4,2)]] operator_lead_no_colon[OF assms(2)] b(1) by simp
    with True show ?thesis by (simp add: on off scan_custom_operator_eq[OF assms(1) b] Let_def)
  next
    case False
    with assms(5) have r: "take ?n (rest c) = ''=>''" by blast
    have "cur_pos c + ?n \<le> length (cur_src c)"
      using custom_run_bytes[OF b, of "?n - 1" f] custom_run_bounds[of f c] by (auto simp: peek_nth_Some)
    then have "length (take ?n (rest c)) = ?n" by (simp add: rest_def)
    then have n: "?n = 2" unfolding r by simp
    from r n have p: "peek c = Some (CHR ''='')" "peek_nth 1 c = Some (CHR ''>'')"
      by (simp_all add: take_rest)
    from p False n assms(4) have "\<not> ca_named_argument (call_syntax f)" "op = Opr_Eq" "w = 1"
      by (auto simp: fixed_operator_def split: if_splits)
    then show ?thesis
      by (simp add: on off scan_custom_operator_eq[OF assms(1) b] Let_def r known_operator_token_def)
  qed
qed

end
