(* ===== verification/Trivia_Walks.thy ===== *)
theory Trivia_Walks
  imports Scan_Trivia Scan_Lexemes
begin

text \<open>
  The trivia sweep on UTF-8 text: every run of whitespace or comment ends on a character
  boundary, so the sweep hands the token scanner a cursor it may decode and slice from.
\<close>

lemma slash_ascii: "is_ascii (CHR ''/'')"
  by (simp add: is_ascii_def)

lemma bump_bump_good:
  assumes "cur_le d c" "cur_good d" "peek c = Some a" "peek_nth 1 c = Some b" "is_ascii b"
  shows "cur_good (bump (bump c))"
proof -
  have le: "cur_le d (bump (bump c))" using assms(1) bump_le cur_le_trans by blast
  show ?thesis
    by (rule good_after_ascii[OF le assms(2), of "cur_pos c + 1"])
      (use assms in \<open>simp_all add: bump_bump_peeked peek_nth_Some cur_le_def\<close>)
qed

lemma block_comment_loop_good:
  assumes "cur_le d c" "cur_good d" "block_comment_loop nested silent_eof start depth c = Inr c'"
  shows "cur_good c'"
  using assms
proof (induction nested silent_eof start depth c rule: block_comment_loop.induct)
  case (1 nested silent_eof start depth c)
  show ?case
  proof (cases "peek c")
    case None
    with 1(6) good_at_eof[OF 1(4,5)] show ?thesis
      by (subst (asm) block_comment_loop.simps) (auto split: if_splits)
  next
    case (Some b)
    have le: "cur_le d (bump c)" "cur_le d (bump (bump c))"
      using bump_le cur_le_trans 1(4) by blast+
    have close: "peek_nth 1 c = Some (CHR ''/'') \<Longrightarrow> cur_good (bump (bump c))"
      using bump_bump_good[OF 1(4,5) Some] slash_ascii by blast
    from 1(6) show ?thesis
      by (subst (asm) block_comment_loop.simps)
        (use 1(1-3)[OF Some] 1(5) Some le close in \<open>auto split: if_splits\<close>)
  qed
qed

lemma skip_block_comment_walks [lexeme_ok]:
  assumes "peek c = Some b" "skip_block_comment nested silent_eof c = Inr c'"
  shows "walks c c'"
proof -
  have "cur_le c (bump (bump c))" using bump_le cur_le_trans by blast
  then show ?thesis
    using assms(2) block_comment_loop_good skip_block_comment_lt[OF assms] cur_lt_le
    by (auto simp: walks_def skip_block_comment_def)
qed

lemma skip_discarded_region_good:
  assumes "cur_le d c" "cur_good d" "skip_discarded_region nested r c = Inr c'"
  shows "cur_good c'"
  using assms
proof (induction nested r c rule: skip_discarded_region.induct)
  case (1 nested r c)
  show ?case
  proof (cases "peek c")
    case None
    with 1(5) show ?thesis by (subst (asm) skip_discarded_region.simps) simp
  next
    case (Some b)
    have close: "peek_nth 1 c = Some (CHR ''/'') \<Longrightarrow> cur_good (advance_bytes 2 c)"
      by (rule good_after_ascii[OF _ 1(4), of _ "cur_pos c + 1"])
        (use 1(3) advance_le[of 1 c _ 2] in \<open>auto simp: peek_nth_Some is_ascii_def cur_le_def cur_ok_def\<close>)
    have sk: "skip_block_comment nested False c = Inr c1 \<Longrightarrow> cur_le d c1" for c1
      using skip_block_comment_lt[OF Some] cur_lt_le 1(3) cur_le_trans by blast
    have le: "cur_le d (bump c)" using bump_le cur_le_trans 1(3) by blast
    from 1(5) show ?thesis
      by (subst (asm) skip_discarded_region.simps)
        (use 1(1,2)[OF Some] 1(4) Some sk le close in \<open>auto split: if_splits sum.splits\<close>)
  qed
qed

lemma walks_advance_run:
  assumes "\<And>i. i < n \<Longrightarrow> \<exists>b. peek_nth i c = Some b \<and> is_ascii b"
  shows "walks c (advance_bytes n c)"
proof (cases n)
  case 0
  then show ?thesis by (simp add: advance_bytes_def)
next
  case (Suc m)
  with assms[of m] show ?thesis using walks_advance_ascii[of m c] by auto
qed

lemma scan_versioned_marker_walks [lexeme_ok]:
  assumes "peek_nth 2 c = Some b" "is_ascii b" "scan_versioned_marker bound nested c st = Inr (c', st')"
  shows "walks c c'"
proof -
  let ?c1 = "advance_bytes 3 c" let ?n = "version_len (count_version_digits 0 ?c1)"
  let ?c2 = "advance_bytes ?n ?c1"
  obtain v where v: "read_version ?n 0 ?c1 = Inr (v, ?c2)" using read_version_marker by blast
  have "walks c ?c1" by (rule walks_advance_ascii[OF assms(1,2)]) simp
  moreover have "walks ?c1 ?c2"
  proof (rule walks_advance_run)
    fix i assume "i < ?n"
    then have "i < count_version_digits 0 ?c1" using version_len_le by (rule less_le_trans)
    then show "\<exists>b. peek_nth i ?c1 = Some b \<and> is_ascii b"
      using count_version_digits_present[of 0 ?c1 i] ascii_digit_ascii by blast
  qed
  ultimately have w: "walks c ?c2" by (rule walks_trans)
  have "c' = ?c2 \<or> skip_discarded_region nested (cur_pos c) ?c2 = Inr c'"
    using assms(3) by (auto simp: scan_versioned_marker_def Let_def v split: if_splits sum.splits)
  moreover have "skip_discarded_region nested (cur_pos c) ?c2 = Inr c' \<Longrightarrow> walks ?c2 c'"
    using skip_discarded_region_good[of ?c2 ?c2] skip_discarded_region_le by (auto simp: walks_def)
  ultimately show ?thesis using w walks_trans by blast
qed

lemma skip_line_comment_walks [lexeme_ok]:
  assumes "peek_nth m c = Some b" "is_ascii b" "n = Suc m"
  shows "walks c (skip_line_comment n cr c)"
proof -
  have e: "walks (advance_bytes n c) (eat_while (\<lambda>b. b \<noteq> CHR 0x0A \<and> b \<noteq> CHR 0x0D) (advance_bytes n c))"
    "walks (advance_bytes n c) (eat_while (\<lambda>b. b \<noteq> CHR 0x0A) (advance_bytes n c))"
    by (rule walks_eat_until; auto simp: is_ascii_def)+
  show ?thesis
    unfolding skip_line_comment_def Let_def
    using walks_trans[OF walks_advance_ascii[OF assms] e(1)]
      walks_trans[OF walks_advance_ascii[OF assms] e(2)] by simp
qed

lemma trivia_run_walks:
  assumes "classes_sane f" "trivia_run f c st = Inr (Some (k, c', st'))"
  shows "walks c c'"
proof -
  from assms(2) obtain b where b: "peek c = Some b"
    by (auto simp: trivia_run_def split: option.splits)
  have ws: "walks c (eat_while (\<lambda>b. has_byte_class f b (CLASS_WHITESPACE OR CLASS_WHITESPACE_CONTINUE)) c)"
    by (rule walks_eat_ascii) (use assms(1) in \<open>auto simp: classes_sane_def has_byte_class_def has_class_or\<close>)
  have l1: "is_ascii b \<Longrightarrow> walks c (skip_line_comment 1 cr c)" for cr
    by (rule skip_line_comment_walks[of 0 c b]) (simp_all add: b)
  have l2: "peek_nth 1 c = Some x \<Longrightarrow> is_ascii x \<Longrightarrow> walks c (skip_line_comment 2 cr c)" for x cr
    by (rule skip_line_comment_walks[of 1 c x]) simp_all
  have ad: "peek_nth 1 c = Some x \<Longrightarrow> is_ascii x \<Longrightarrow> walks c (advance_bytes 2 c)" for x
    by (rule walks_advance_ascii[of 1 c x]) simp_all
  have a: "is_ascii (CHR ''#'')" "is_ascii (CHR ''-'')" "is_ascii (CHR ''/'')" "is_ascii (CHR ''!'')"
    by (simp_all add: is_ascii_def)
  show ?thesis
    using assms(2) b ws l1 l2[OF _ a(2)] ad[OF _ a(3)] skip_block_comment_walks[OF b] a
      scan_versioned_marker_walks[OF _ a(4)]
    by (auto simp: trivia_run_def split: if_splits option.splits bool.splits sum.splits prod.splits)
qed

lemma skip_trivia_loop_walks:
  assumes "classes_sane f" "skip_trivia_loop f track cb cs pending sink st c = Inr (c', sink', st')"
  shows "walks c c'"
  using assms
proof (induction f track cb cs pending sink st c rule: skip_trivia_loop.induct)
  case (1 f track cb cs pending sink st c)
  show ?case
  proof (cases "\<exists>k c1 st1. trivia_run f c st = Inr (Some (k, c1, st1))")
    case False
    with 1(3) show ?thesis
      by (subst (asm) skip_trivia_loop.simps) (auto split: option.splits sum.splits if_splits)
  next
    case True
    then obtain k c1 st1 where run: "trivia_run f c st = Inr (Some (k, c1, st1))" by blast
    from 1(3) have "walks c1 c'"
      by (subst (asm) skip_trivia_loop.simps)
        (use 1(1)[OF run refl refl refl refl refl _ _ _ 1(2)] run in
          \<open>auto simp: Let_def split: option.splits if_splits\<close>)
    with trivia_run_walks[OF 1(2) run] show ?thesis by (rule walks_trans)
  qed
qed

lemma skip_trivia_walks [lexeme_ok]:
  "classes_sane f \<Longrightarrow> skip_trivia f sink st c = Inr (c', sink', st') \<Longrightarrow> walks c c'"
  unfolding skip_trivia_def Let_def by (rule skip_trivia_loop_walks)

end
