(* ===== verification/Scanner.thy ===== *)
theory Scanner
  imports Trivia_Walks Scan_Operators
begin

text \<open>
  The scanner's step, \<open>next_token\<close> of \<open>crates/squonk/src/tokenizer/scan.rs\<close>: the trivia sweep,
  the dispatch on the lead byte in the order of the match arms, and the NUL check of quoted
  lexemes. A group of arms is a function that gives \<open>None\<close> when all of them decline.
\<close>

subsection \<open>The arms\<close>

text \<open>\<open>E'...'\<close>: scanned with backslash rules, then checked, per segment when continued.\<close>

definition scan_escape_string :: "cursor \<Rightarrow> lex_failure + (token \<times> cursor)" where
  "scan_escape_string c =
     and_then (scan_prefixed_string 1 (CHR 0x27) True c) (\<lambda>((t, continued), c1).
       case str_slice (cur_src c1) (span_start (token_span t)) (span_end (token_span t)) of
         None \<Rightarrow> Inr (t, c1)
       | Some txt \<Rightarrow>
           (case (if continued then escape_string_segments_are_valid txt
                  else postgres_escape_string_is_valid txt) of
              None \<Rightarrow> Inl Panic
            | Some valid \<Rightarrow>
                if \<not> valid then Inl (Lex (LexError InvalidEscapeSequence (token_span t)))
                else Inr (t, c1)))"

definition string_scan :: "feature_set \<Rightarrow> byte \<Rightarrow> quote_scan" where
  "string_scan f close =
     \<lparr>qs_close = close, qs_kind = Tk_String, qs_unterminated = UnterminatedString,
      qs_backslash = sl_backslash_escapes (string_literals f), qs_allow_zero_length = False\<rparr>"

definition quoted_ident_scan :: "feature_set \<Rightarrow> byte \<Rightarrow> quote_scan" where
  "quoted_ident_scan f close =
     \<lparr>qs_close = close, qs_kind = Tk_QuotedIdent, qs_unterminated = UnterminatedQuotedIdent,
      qs_backslash = False,
      qs_allow_zero_length = ids_empty_quoted_identifiers (identifier_syntax f)\<rparr>"

text \<open>The prefixed strings and the quotes.\<close>

definition quote_arms ::
    "unicode_tables \<Rightarrow> feature_set \<Rightarrow> cursor \<Rightarrow> byte \<Rightarrow> (lex_failure + (token \<times> cursor)) option" where
  "quote_arms u f c b =
     (let sl = string_literals f; quote_next = (peek_nth 1 c = Some (CHR 0x27)) in
      if (b = CHR ''E'' \<or> b = CHR ''e'') \<and> sl_escape_strings sl \<and> quote_next then
        Some (scan_escape_string c)
      else if (b = CHR ''N'' \<or> b = CHR ''n'') \<and> sl_national_strings sl \<and> quote_next then
        Some (drop_flag (scan_prefixed_string 1 (CHR 0x27) (sl_backslash_escapes sl) c))
      else if (b = CHR ''U'' \<or> b = CHR ''u'') \<and> sl_unicode_strings sl
          \<and> peek_nth 1 c = Some (CHR ''&'') \<and> peek_nth 2 c = Some (CHR 0x27) then
        Some (drop_flag (scan_prefixed_string 2 (CHR 0x27) False c))
      else if (b = CHR ''U'' \<or> b = CHR ''u'') \<and> sl_unicode_strings sl
          \<and> peek_nth 1 c = Some (CHR ''&'') \<and> peek_nth 2 c = Some (CHR 0x22) then
        Some (scan_unicode_ident f c)
      else if (b = CHR ''X'' \<or> b = CHR ''x'') \<and> sl_blob_literals sl \<and> quote_next then
        Some (scan_hex_blob c)
      else if b \<in> set ''BbXx'' \<and> sl_bit_string_literals sl \<and> quote_next then
        Some (drop_flag (scan_prefixed_string 1 (CHR 0x27) False c))
      else if b = CHR ''_'' \<and> sl_charset_introducers sl then
        Some (case charset_introducer_prefix u f c of
            Some (prefix_len, close) \<Rightarrow>
              drop_flag (scan_prefixed_string prefix_len close (sl_backslash_escapes sl) c)
          | None \<Rightarrow> scan_word u f c)
      else if b = CHR 0x27 then Some (scan_quoted (string_scan f (CHR 0x27)) c)
      else if b = CHR 0x22 \<and> sl_double_quoted_strings sl then
        Some (scan_quoted (string_scan f (CHR 0x22)) c)
      else (case opening_identifier_quote f b of
          Some close \<Rightarrow> Some (scan_quoted (quoted_ident_scan f close) c)
        | None \<Rightarrow> None))"

text \<open>The \<open>$\<close> forms: money, positional parameter, named parameter, dollar quote, stray.\<close>

definition dollar_arms ::
    "unicode_tables \<Rightarrow> feature_set \<Rightarrow> cursor \<Rightarrow> byte \<Rightarrow> (lex_failure + (token \<times> cursor)) option" where
  "dollar_arms u f c b =
     (if b \<noteq> CHR ''$'' then None
      else if nl_money_literals (numeric_literals f) \<and> money_follows f c then Some (scan_money f c)
      else if pa_positional_dollar (parameters f) \<and> byte_ahead 1 is_ascii_digit c then
        Some (scan_parameter u f c)
      else if pa_named_dollar (parameters f) \<and> char_ahead 1 (is_identifier_start u f) c then
        Some (scan_parameter u f c)
      else if sl_dollar_quoted_strings (string_literals f) then Some (scan_dollar_quote f c)
      else Some (Inl (lex_err StrayByte (cur_pos c) (cur_pos c + 1))))"

text \<open>The \<open>?\<close> and \<open>:\<close> forms.\<close>

definition placeholder_arms ::
    "unicode_tables \<Rightarrow> feature_set \<Rightarrow> cursor \<Rightarrow> byte \<Rightarrow> (lex_failure + (token \<times> cursor)) option" where
  "placeholder_arms u f c b =
     (if b = CHR ''?'' \<and> pa_anonymous_question (parameters f) then Some (scan_parameter u f c)
      else if b = CHR ''?'' \<and> pa_numbered_question (parameters f) \<and> byte_ahead 1 is_ascii_digit c then
        Some (scan_parameter u f c)
      else if b = CHR ''?'' \<and> os_jsonb_operators (operator_syntax f) then Some (scan_operator f c)
      else if b = CHR '':'' \<and> pa_named_colon (parameters f) \<and> char_ahead 1 (is_identifier_start u f) c then
        Some (scan_parameter u f c)
      else None)"

text \<open>The \<open>@\<close> forms: stage reference, system and user variables, named parameter, operators,
  and the account-name separator.\<close>

definition at_arms ::
    "unicode_tables \<Rightarrow> feature_set \<Rightarrow> cursor \<Rightarrow> byte \<Rightarrow> (lex_failure + (token \<times> cursor)) option" where
  "at_arms u f c b =
     (let ident_next = char_ahead 1 (is_identifier_start u f) c in
      if b \<noteq> CHR ''@'' then None
      else if ut_stage_references (utility_syntax f)
          \<and> (peek_nth 1 c = Some (CHR ''~'') \<or> peek_nth 1 c = Some (CHR ''%'') \<or> ident_next) then
        Some (scan_stage_reference u f c)
      else if sv_system_variables (session_variables f) \<and> peek_nth 1 c = Some (CHR ''@'')
          \<and> char_ahead 2 (is_identifier_start u f) c then
        Some (scan_session_variable u f c)
      else if sv_user_variables (session_variables f) \<and> ident_next then Some (scan_session_variable u f c)
      else if pa_named_at (parameters f) \<and> ident_next then Some (scan_parameter u f c)
      else if os_containment_operators (operator_syntax f) \<and> peek_nth 1 c = Some (CHR ''>'') then
        Some (scan_operator f c)
      else if os_jsonb_operators (operator_syntax f)
          \<and> (peek_nth 1 c = Some (CHR ''?'') \<or> peek_nth 1 c = Some (CHR ''@'')) then
        Some (scan_operator f c)
      else if os_custom_operators (operator_syntax f) then Some (scan_operator f c)
      else if sv_user_variables (session_variables f) then
        Some (token_from (Tk_Punctuation P_At) (cur_pos c) (bump c))
      else None)"

text \<open>Words, numbers, \<open>#\<close>, backtick operators, operators, punctuation, and the stray byte.\<close>

definition plain_arms ::
    "unicode_tables \<Rightarrow> feature_set \<Rightarrow> cursor \<Rightarrow> byte \<Rightarrow> lex_failure + (token \<times> cursor)" where
  "plain_arms u f c b =
     (if has_byte_class f b CLASS_IDENTIFIER_START then scan_word u f c
      else if 128 \<le> byte_val b then
        (case char_at 0 c of
           None \<Rightarrow> Inl Panic
         | Some ch \<Rightarrow>
             if is_identifier_start u f ch then scan_word u f c
             else Inl (lex_err StrayByte (cur_pos c) (cur_pos c + len_utf8 ch)))
      else if is_digit f b then scan_number u f c
      else if b = CHR ''.'' \<and> byte_ahead 1 (is_digit f) c then scan_number u f c
      else if b = CHR ''#'' \<and> es_positional_column (expression_syntax f) \<and> byte_ahead 1 is_ascii_digit c then
        scan_positional_column c
      else if b = CHR ''#'' \<and> hash_bitwise_xor f then scan_operator f c
      else if b = CHR 0x60 \<and> os_custom_operators (operator_syntax f) then scan_operator f c
      else if has_byte_class f b CLASS_OPERATOR then scan_operator f c
      else if has_byte_class f b CLASS_PUNCTUATION then scan_punctuation f c
      else Inl (lex_err StrayByte (cur_pos c) (cur_pos c + 1)))"

definition dispatch_lexeme ::
    "unicode_tables \<Rightarrow> feature_set \<Rightarrow> cursor \<Rightarrow> byte \<Rightarrow> lex_failure + (token \<times> cursor)" where
  "dispatch_lexeme u f c b = (case quote_arms u f c b of
      Some r \<Rightarrow> r
    | None \<Rightarrow> (case dollar_arms u f c b of
        Some r \<Rightarrow> r
      | None \<Rightarrow> (case placeholder_arms u f c b of
          Some r \<Rightarrow> r
        | None \<Rightarrow> (case at_arms u f c b of Some r \<Rightarrow> r | None \<Rightarrow> plain_arms u f c b))))"

subsection \<open>The step\<close>

definition nul_byte_error :: "token_kind \<Rightarrow> lex_error_kind option" where
  "nul_byte_error k = (case k of
      Tk_String \<Rightarrow> Some NulByteInString
    | Tk_QuotedIdent \<Rightarrow> Some NulByteInIdentifier
    | _ \<Rightarrow> None)"

definition nul_gate :: "token \<Rightarrow> cursor \<Rightarrow> lex_failure + (token \<times> cursor)" where
  "nul_gate t c = (case nul_byte_error (token_kind t) of
      None \<Rightarrow> Inr (t, c)
    | Some kind \<Rightarrow>
        (case str_slice (cur_src c) (span_start (token_span t)) (span_end (token_span t)) of
           None \<Rightarrow> Inl Panic
         | Some txt \<Rightarrow>
             if string_literal_embeds_nul txt then Inl (Lex (LexError kind (token_span t)))
             else Inr (t, c)))"

definition next_token ::
    "unicode_tables \<Rightarrow> feature_set \<Rightarrow> trivia_sink \<Rightarrow> lex_state \<Rightarrow> cursor
      \<Rightarrow> lex_failure + (token option \<times> cursor \<times> trivia_sink \<times> lex_state)" where
  "next_token u f sink st c =
     and_then (skip_trivia f sink st c) (\<lambda>(c1, sink1, st1).
       case peek c1 of
         None \<Rightarrow>
           (case versioned_region_start st1 of
              Some off \<Rightarrow> Inl (lex_err UnterminatedBlockComment off (cur_pos c1))
            | None \<Rightarrow> Inr (None, c1, sink1, st1))
       | Some b \<Rightarrow>
           and_then (dispatch_lexeme u f c1 b) (\<lambda>(t, c2).
             and_then (nul_gate t c2) (\<lambda>(t, c3). Inr (Some t, c3, sink1, st1))))"

subsection \<open>Every arm scans\<close>

lemma scan_escape_string_scans [lexeme_ok]:
  assumes "cur_good c" "peek_nth 1 c = Some b"
  shows "scans c (scan_escape_string c)"
proof -
  let ?r = "scan_prefixed_string 1 (CHR 0x27) True c"
  have s: "scans c (drop_flag ?r)"
    by (rule scan_prefixed_string_scans[OF assms]) (simp add: is_ascii_def)
  show ?thesis
  proof (cases ?r)
    case (Inl e)
    with s show ?thesis by (simp add: scan_escape_string_def drop_flag_def)
  next
    case (Inr x)
    then obtain t k c1 where r: "?r = Inr ((t, k), c1)" by (metis surj_pair)
    from s[unfolded r] have w: "walks c c1" "cur_pos c < cur_pos c1"
        "token_span t = Span (cur_pos c) (cur_pos c1)"
      by simp_all
    let ?txt = "subslice (cur_src c) (cur_pos c) (cur_pos c1)"
    have sl: "str_slice (cur_src c1) (cur_pos c) (cur_pos c1) = Some ?txt"
      using str_slice_walk[OF w(1) assms(1)] w(1) by (simp add: walks_def cur_le_def)
    have v: "valid_utf8 ?txt"
      using w(1) assms(1)
      by (intro valid_utf8_subslice) (auto simp: walks_def cur_good_def cur_le_def cur_ok_def)
    obtain ok where "(if k then escape_string_segments_are_valid ?txt
        else postgres_escape_string_is_valid ?txt) = Some ok"
      using escape_check_answers[OF v] segments_answer[OF v] by fastforce
    moreover have "scans c (Inl (Lex (LexError InvalidEscapeSequence (Span (cur_pos c) (cur_pos c1)))))"
      using w(1,2) assms(1)
      by (auto simp: scans_def walks_def cur_le_def cur_good_def cur_ok_def)
    ultimately show ?thesis using w unfolding scan_escape_string_def r by (simp add: sl)
  qed
qed

lemma quote_arms_scans:
  assumes "cur_good c" "peek c = Some b" "quote_arms u f c b = Some r"
  shows "scans c r"
proof -
  have pre: "scans c (drop_flag (scan_prefixed_string n (CHR 0x27) bs c))" if "peek_nth n c = Some x" for n bs x
    by (rule scan_prefixed_string_scans[OF assms(1) that]) (simp add: is_ascii_def)
  have q: "scans c (scan_quoted (string_scan f close) c)" "scans c (scan_quoted (quoted_ident_scan f close) c)"
    if "is_ascii close" for close
    by (rule scan_quoted_scans[OF assms(1,2)], simp add: string_scan_def quoted_ident_scan_def that)+
  have cs: "scans c (case charset_introducer_prefix u f c of
            Some (prefix_len, close) \<Rightarrow>
              drop_flag (scan_prefixed_string prefix_len close (sl_backslash_escapes (string_literals f)) c)
          | None \<Rightarrow> scan_word u f c)"
  proof (cases "charset_introducer_prefix u f c")
    case None
    then show ?thesis by (simp add: scan_word_scans[OF assms(1,2)])
  next
    case (Some p)
    obtain n x where p: "p = (n, x)" by (cases p)
    with Some charset_introducer_prefixD have "peek_nth n c = Some x" "is_ascii x" by blast+
    with Some p scan_prefixed_string_scans[OF assms(1)] show ?thesis by simp
  qed
  have oi: "opening_identifier_quote f b = Some close \<Longrightarrow> is_ascii close" for close
    using opening_identifier_quote_ascii by blast
  have a: "is_ascii (CHR 0x27)" "is_ascii (CHR 0x22)" by (simp_all add: is_ascii_def)
  show ?thesis
    using assms(3) scan_escape_string_scans[OF assms(1)] pre q[OF a(1)] q[OF a(2)] q[OF oi] cs
      scan_unicode_ident_scans[OF assms(1), of _ f] scan_hex_blob_scans[OF assms(1) _ a(1)]
    unfolding quote_arms_def Let_def
    by (elim if_someE) (auto split: option.splits)
qed

lemma stray_scans: "peek c = Some b \<Longrightarrow> scans c (Inl (lex_err StrayByte (cur_pos c) (cur_pos c + 1)))"
  by (rule scans_lex_err) (simp_all add: peek_Some)

lemma dollar_arms_scans:
  assumes "classes_sane f" "cur_good c" "peek c = Some b" "dollar_arms u f c b = Some r"
  shows "scans c r"
proof (cases "b = CHR ''$''")
  case True
  then have a: "is_ascii b" by (simp add: is_ascii_def)
  show ?thesis
    using assms(4) True scan_money_scans[OF assms(1,3) a] scan_parameter_scans[OF assms(2,3) a, of u f]
      scan_dollar_quote_scans[OF assms(2), of f] stray_scans[OF assms(3)] assms(3)
    unfolding dollar_arms_def by (auto split: if_splits)
qed (use assms(4) in \<open>simp add: dollar_arms_def\<close>)

lemma placeholder_arms_scans:
  assumes "cur_good c" "peek c = Some b" "placeholder_arms u f c b = Some r"
  shows "scans c r"
proof -
  have par: "b = CHR ''?'' \<or> b = CHR '':'' \<Longrightarrow> scans c (scan_parameter u f c)"
    by (rule scan_parameter_scans[OF assms(1,2)]) (auto simp: is_ascii_def)
  have op: "b = CHR ''?'' \<Longrightarrow> os_jsonb_operators (operator_syntax f) \<Longrightarrow> scans c (scan_operator f c)"
    by (rule scan_operator_scans[OF assms(1,2)]) (simp_all add: is_ascii_def operator_lead_ok_def assms(2))
  show ?thesis using assms(3) par op unfolding placeholder_arms_def by (auto split: if_splits)
qed

lemma at_arms_scans:
  assumes "cur_good c" "peek c = Some b" "at_arms u f c b = Some r"
  shows "scans c r"
proof (cases "b = CHR ''@''")
  case True
  then have a: "is_ascii b" and p: "peek c = Some (CHR ''@'')" using assms(2) by (simp_all add: is_ascii_def)
  have op: "scans c (scan_operator f c)"
    if "os_custom_operators (operator_syntax f) \<or> operator_lead_ok f c"
    by (rule scan_operator_scans[OF assms(1,2) a that])
  have sep: "scans c (token_from k (cur_pos c) (bump c))" for k
    by (rule scans_token_from[OF walks_bump[OF assms(2) a] _ refl]) (simp add: bump_pos[OF assms(2)])
  show ?thesis
    using assms(3) True scan_stage_reference_scans[OF assms(1) p, of u f]
      scan_session_variable_scans[OF assms(1) p, of u f] scan_parameter_scans[OF assms(1,2) a, of u f]
      op sep p
    unfolding at_arms_def Let_def
    by (elim if_someE) (auto simp: operator_lead_ok_def)
qed (use assms(3) in \<open>simp add: at_arms_def\<close>)

lemma plain_arms_scans:
  assumes "classes_sane f" "cur_good c" "peek c = Some b"
  shows "scans c (plain_arms u f c b)"
proof -
  have wd: "scans c (scan_word u f c)" by (rule scan_word_scans[OF assms(2,3)])
  from char_at_good[OF assms(2,3)] obtain ch where
    ch: "char_at 0 c = Some ch" "walks c (advance_bytes (len_utf8 ch) c)" by blast
  have wide: "scans c (Inl (lex_err StrayByte (cur_pos c) (cur_pos c + len_utf8 ch)))"
    using scans_err_here[OF walks_le[OF ch(2)] assms(2) refl] by simp
  have num: "is_digit f b \<or> b = CHR ''.'' \<Longrightarrow> scans c (scan_number u f c)"
    by (rule scan_number_scans[OF assms])
  have op: "scans c (scan_operator f c)"
    if "is_ascii b" "os_custom_operators (operator_syntax f) \<or> operator_lead_ok f c"
    by (rule scan_operator_scans[OF assms(2,3) that])
  have hash: "b = CHR ''#'' \<Longrightarrow> hash_bitwise_xor f \<Longrightarrow> scans c (scan_operator f c)"
    by (rule op) (simp_all add: is_ascii_def operator_lead_ok_def assms(3))
  have tick: "b = CHR 0x60 \<Longrightarrow> os_custom_operators (operator_syntax f) \<Longrightarrow> scans c (scan_operator f c)"
    by (rule op) (simp_all add: is_ascii_def)
  have cls: "has_byte_class f b CLASS_OPERATOR \<Longrightarrow> scans c (scan_operator f c)"
    by (rule op) (use assms(1,3) in \<open>auto simp: classes_sane_def operator_lead_ok_def is_operator_byte_def is_ascii_def\<close>)
  have pun: "has_byte_class f b CLASS_PUNCTUATION \<Longrightarrow> scans c (scan_punctuation f c)"
    by (rule scan_punctuation_scans[OF assms(3)]) (use assms(1) in \<open>simp add: classes_sane_def\<close>)
  have pos: "b = CHR ''#'' \<Longrightarrow> scans c (scan_positional_column c)"
    by (rule scan_positional_column_scans[OF assms(3)]) (simp add: is_ascii_def)
  show ?thesis
    using wd wide num hash tick cls pun pos stray_scans[OF assms(3)]
    unfolding plain_arms_def by (simp add: ch(1))
qed

lemma dispatch_scans:
  assumes "classes_sane f" "cur_good c" "peek c = Some b"
  shows "scans c (dispatch_lexeme u f c b)"
  unfolding dispatch_lexeme_def
  using quote_arms_scans[OF assms(2,3)] dollar_arms_scans[OF assms] placeholder_arms_scans[OF assms(2,3)]
    at_arms_scans[OF assms(2,3)] plain_arms_scans[OF assms, of u]
  by (auto split: option.splits)
subsection \<open>The step works\<close>

lemma nul_gate_cases:
  assumes "scans c (Inr (t, c'))" "cur_good c"
  shows "nul_gate t c' = (case nul_byte_error (token_kind t) of
      None \<Rightarrow> Inr (t, c')
    | Some kind \<Rightarrow>
        if CHR 0x00 \<in> set (subslice (cur_src c) (cur_pos c) (cur_pos c'))
        then Inl (Lex (LexError kind (Span (cur_pos c) (cur_pos c')))) else Inr (t, c'))"
proof -
  from assms(1) have w: "walks c c'" and sp: "token_span t = Span (cur_pos c) (cur_pos c')" by simp_all
  have "str_slice (cur_src c') (cur_pos c) (cur_pos c')
      = Some (subslice (cur_src c) (cur_pos c) (cur_pos c'))"
    using str_slice_walk[OF w assms(2)] w by (simp add: walks_def cur_le_def)
  then show ?thesis
    by (simp add: nul_gate_def sp string_literal_embeds_nul_def split: option.splits)
qed

lemma nul_gate_scans:
  assumes "scans c (Inr (t, c'))" "cur_good c"
  shows "scans c (nul_gate t c')"
    and "nul_gate t c' = Inr (t1, c1) \<Longrightarrow> t1 = t \<and> c1 = c'"
proof -
  have "scans c (Inl (Lex (LexError kind (Span (cur_pos c) (cur_pos c')))))" for kind
    using assms by (auto simp: scans_def walks_def cur_le_def cur_ok_def cur_good_def)
  then show "scans c (nul_gate t c')"
    using assms(1) by (simp add: nul_gate_cases[OF assms] split: option.splits)
  show "nul_gate t c' = Inr (t1, c1) \<Longrightarrow> t1 = t \<and> c1 = c'"
    by (simp add: nul_gate_cases[OF assms] split: option.splits if_splits)
qed

text \<open>
  \<open>steps f sink c r\<close>: the step passes a sweep of trivia and then, unless the source is
  exhausted, one token that starts where the sweep stopped and ends where the cursor is left.
\<close>

definition steps :: "feature_set \<Rightarrow> trivia_sink \<Rightarrow> cursor
    \<Rightarrow> lex_failure + (token option \<times> cursor \<times> trivia_sink \<times> lex_state) \<Rightarrow> bool" where
  "steps f sink c r \<longleftrightarrow> (case r of
      Inl e \<Rightarrow> fails_in 0 (cur_src c) e
    | Inr (tok, c', sink', st') \<Rightarrow> state_ok st' c' \<and> walks c c'
        \<and> (\<exists>c1 new. walks c c1 \<and> sink' = map_option (\<lambda>rs. rs @ new) sink
            \<and> tiles (map run_bounds new) (cur_pos c) (cur_pos c1)
            \<and> (\<forall>r\<in>set new. run_text_ok f (cur_src c) r)
            \<and> (case tok of
                 None \<Rightarrow> c' = c1 \<and> is_eof c' \<and> versioned_region_start st' = None
               | Some t \<Rightarrow> cur_pos c1 < cur_pos c' \<and> walks c1 c'
                   \<and> token_span t = Span (cur_pos c1) (cur_pos c'))))"

lemma next_token_steps:
  assumes "classes_sane f" "cur_good c" "length (cur_src c) \<le> u32_max" "state_ok st c"
  shows "steps f sink c (next_token u f sink st c)"
proof (cases "skip_trivia f sink st c")
  case (Inl e)
  have "fails_in (cur_pos c) (cur_src c) e"
    using skip_trivia_sweeps[OF _ assms(3,4), of f sink] assms(2) Inl
    by (simp add: sweeps_def cur_good_def)
  with Inl fails_in_mono[of 0] show ?thesis by (simp add: next_token_def steps_def)
next
  case (Inr p)
  obtain c1 sink1 st1 where p: "p = (c1, sink1, st1)" by (cases p)
  note sk = Inr[unfolded p]
  have w: "walks c c1" by (rule skip_trivia_walks[OF assms(1) sk])
  then have good: "cur_good c1" and src: "cur_src c1 = cur_src c"
    using assms(2) by (auto simp: walks_def cur_le_def)
  obtain new where st1: "state_ok st1 c1" and new: "sink1 = map_option (\<lambda>rs. rs @ new) sink"
      "tiles (map run_bounds new) (cur_pos c) (cur_pos c1)" "\<forall>r\<in>set new. run_text_ok f (cur_src c) r"
    using skip_trivia_sweeps[OF _ assms(3,4), of f sink] assms(2) sk
    by (auto simp: sweeps_def cur_good_def)
  show ?thesis
  proof (cases "peek c1")
    case None
    have "fails_in 0 (cur_src c) (lex_err UnterminatedBlockComment off (cur_pos c1))"
      if "versioned_region_start st1 = Some off" for off
      using st1 that good by (intro fails_in_lex_err) (auto simp: state_ok_def cur_good_def cur_ok_def src)
    moreover have "is_eof c1" using None by (simp add: is_eof_peek)
    ultimately show ?thesis using w st1 new
      by (auto simp: next_token_def sk None steps_def split: option.splits)
  next
    case (Some b)
    have d: "scans c1 (dispatch_lexeme u f c1 b)" by (rule dispatch_scans[OF assms(1) good Some])
    show ?thesis
    proof (cases "dispatch_lexeme u f c1 b")
      case (Inl e)
      with d have "fails_in 0 (cur_src c) e" by (auto simp: scans_def src intro: fails_in_mono[of 0])
      with Inl Some show ?thesis by (simp add: next_token_def sk steps_def)
    next
      case (Inr q)
      obtain t c2 where q: "q = (t, c2)" by (cases q)
      note dt = d[unfolded Inr q]
      show ?thesis
      proof (cases "nul_gate t c2")
        case (Inl e)
        with nul_gate_scans(1)[OF dt good] have "fails_in 0 (cur_src c) e"
          by (auto simp: scans_def src intro: fails_in_mono[of 0])
        with Inl Inr q Some show ?thesis by (simp add: next_token_def sk steps_def)
      next
        case (Inr r)
        obtain t3 c3 where r: "r = (t3, c3)" by (cases r)
        with nul_gate_scans(2)[OF dt good] Inr have "r = (t, c2)" by simp
        note ng = Inr[unfolded this]
        have "next_token u f sink st c = Inr (Some t, c2, sink1, st1)"
          using \<open>dispatch_lexeme u f c1 b = Inr q\<close> q Some ng by (simp add: next_token_def sk)
        moreover have "state_ok st1 c2" "walks c c2"
          using dt st1 state_ok_mono walks_trans[OF w] by auto
        ultimately show ?thesis using dt w new by (auto simp: steps_def)
      qed
    qed
  qed
qed

text \<open>The sink only listens.\<close>

fun forget_step :: "lex_failure + (token option \<times> cursor \<times> trivia_sink \<times> lex_state)
    \<Rightarrow> lex_failure + (token option \<times> cursor \<times> lex_state)" where
  "forget_step (Inl e) = Inl e"
| "forget_step (Inr (t, c, sink, st)) = Inr (t, c, st)"

lemma next_token_sink: "forget_step (next_token u f sink st c) = forget_step (next_token u f None st c)"
proof -
  have "(\<exists>e. skip_trivia f sink st c = Inl e \<and> skip_trivia f None st c = Inl e)
      \<or> (\<exists>c1 st1 s1 s2. skip_trivia f sink st c = Inr (c1, s1, st1) \<and> skip_trivia f None st c = Inr (c1, s2, st1))"
    using skip_trivia_sink[of f sink st c]
    by (cases "skip_trivia f sink st c"; cases "skip_trivia f None st c") auto
  then show ?thesis
  proof (elim disjE exE conjE)
    fix c1 st1 s1 s2
    assume "skip_trivia f sink st c = Inr (c1, s1, st1)" "skip_trivia f None st c = Inr (c1, s2, st1)"
    then show ?thesis
      by (auto simp: next_token_def and_then_def split: option.splits sum.splits prod.splits)
  qed (simp add: next_token_def)
qed

end
