(* ===== verification/Keyword_Reservations.thy ===== *)
theory Keyword_Reservations
  imports Dialect_Features
begin

text \<open>
  The reserved-word sets of the dialects: the generated category sets of
  \<open>crates/squonk-ast/src/dialect/keyword/generated.rs\<close> and the per-position reject sets that
  \<open>dialect/ansi.rs\<close>, \<open>mysql.rs\<close>, \<open>sqlite.rs\<close>, \<open>duckdb.rs\<close>, \<open>snowflake.rs\<close>, \<open>databricks.rs\<close>,
  \<open>bigquery.rs\<close> and \<open>quiltdb.rs\<close> compose from them. A keyword is named after its variant; the
  number is its discriminant in \<open>Keyword\<close>.
\<close>

subsection \<open>The keywords the sets name\<close>

abbreviation KW_Accessible :: keyword where
  "KW_Accessible \<equiv> Keyword 6"

abbreviation KW_Add :: keyword where
  "KW_Add \<equiv> Keyword 10"

abbreviation KW_All :: keyword where
  "KW_All \<equiv> Keyword 14"

abbreviation KW_Alter :: keyword where
  "KW_Alter \<equiv> Keyword 17"

abbreviation KW_Analyse :: keyword where
  "KW_Analyse \<equiv> Keyword 19"

abbreviation KW_Analyze :: keyword where
  "KW_Analyze \<equiv> Keyword 20"

abbreviation KW_And :: keyword where
  "KW_And \<equiv> Keyword 21"

abbreviation KW_Anti :: keyword where
  "KW_Anti \<equiv> Keyword 22"

abbreviation KW_Any :: keyword where
  "KW_Any \<equiv> Keyword 23"

abbreviation KW_Array :: keyword where
  "KW_Array \<equiv> Keyword 26"

abbreviation KW_As :: keyword where
  "KW_As \<equiv> Keyword 29"

abbreviation KW_Asc :: keyword where
  "KW_Asc \<equiv> Keyword 30"

abbreviation KW_Asensitive :: keyword where
  "KW_Asensitive \<equiv> Keyword 31"

abbreviation KW_Asof :: keyword where
  "KW_Asof \<equiv> Keyword 33"

abbreviation KW_Asymmetric :: keyword where
  "KW_Asymmetric \<equiv> Keyword 36"

abbreviation KW_Authorization :: keyword where
  "KW_Authorization \<equiv> Keyword 43"

abbreviation KW_Before :: keyword where
  "KW_Before \<equiv> Keyword 46"

abbreviation KW_Between :: keyword where
  "KW_Between \<equiv> Keyword 51"

abbreviation KW_Bigint :: keyword where
  "KW_Bigint \<equiv> Keyword 52"

abbreviation KW_Binary :: keyword where
  "KW_Binary \<equiv> Keyword 53"

abbreviation KW_Bit :: keyword where
  "KW_Bit \<equiv> Keyword 54"

abbreviation KW_Blob :: keyword where
  "KW_Blob \<equiv> Keyword 55"

abbreviation KW_Boolean :: keyword where
  "KW_Boolean \<equiv> Keyword 56"

abbreviation KW_Both :: keyword where
  "KW_Both \<equiv> Keyword 57"

abbreviation KW_By :: keyword where
  "KW_By \<equiv> Keyword 59"

abbreviation KW_Call :: keyword where
  "KW_Call \<equiv> Keyword 62"

abbreviation KW_Cascade :: keyword where
  "KW_Cascade \<equiv> Keyword 65"

abbreviation KW_Case :: keyword where
  "KW_Case \<equiv> Keyword 67"

abbreviation KW_Cast :: keyword where
  "KW_Cast \<equiv> Keyword 68"

abbreviation KW_Change :: keyword where
  "KW_Change \<equiv> Keyword 75"

abbreviation KW_Char :: keyword where
  "KW_Char \<equiv> Keyword 76"

abbreviation KW_Character :: keyword where
  "KW_Character \<equiv> Keyword 78"

abbreviation KW_Check :: keyword where
  "KW_Check \<equiv> Keyword 85"

abbreviation KW_Coalesce :: keyword where
  "KW_Coalesce \<equiv> Keyword 93"

abbreviation KW_Collate :: keyword where
  "KW_Collate \<equiv> Keyword 95"

abbreviation KW_Collation :: keyword where
  "KW_Collation \<equiv> Keyword 96"

abbreviation KW_Column :: keyword where
  "KW_Column \<equiv> Keyword 101"

abbreviation KW_Commit :: keyword where
  "KW_Commit \<equiv> Keyword 108"

abbreviation KW_Concurrently :: keyword where
  "KW_Concurrently \<equiv> Keyword 111"

abbreviation KW_Condition :: keyword where
  "KW_Condition \<equiv> Keyword 112"

abbreviation KW_Constraint :: keyword where
  "KW_Constraint \<equiv> Keyword 120"

abbreviation KW_Continue :: keyword where
  "KW_Continue \<equiv> Keyword 129"

abbreviation KW_Convert :: keyword where
  "KW_Convert \<equiv> Keyword 131"

abbreviation KW_Create :: keyword where
  "KW_Create \<equiv> Keyword 141"

abbreviation KW_Cross :: keyword where
  "KW_Cross \<equiv> Keyword 142"

abbreviation KW_Cube :: keyword where
  "KW_Cube \<equiv> Keyword 144"

abbreviation KW_CumeDist :: keyword where
  "KW_CumeDist \<equiv> Keyword 145"

abbreviation KW_CurrentCatalog :: keyword where
  "KW_CurrentCatalog \<equiv> Keyword 147"

abbreviation KW_CurrentDate :: keyword where
  "KW_CurrentDate \<equiv> Keyword 148"

abbreviation KW_CurrentRole :: keyword where
  "KW_CurrentRole \<equiv> Keyword 151"

abbreviation KW_CurrentSchema :: keyword where
  "KW_CurrentSchema \<equiv> Keyword 153"

abbreviation KW_CurrentTime :: keyword where
  "KW_CurrentTime \<equiv> Keyword 154"

abbreviation KW_CurrentTimestamp :: keyword where
  "KW_CurrentTimestamp \<equiv> Keyword 155"

abbreviation KW_CurrentUser :: keyword where
  "KW_CurrentUser \<equiv> Keyword 157"

abbreviation KW_Cursor :: keyword where
  "KW_Cursor \<equiv> Keyword 158"

abbreviation KW_Database :: keyword where
  "KW_Database \<equiv> Keyword 162"

abbreviation KW_Databases :: keyword where
  "KW_Databases \<equiv> Keyword 163"

abbreviation KW_Day :: keyword where
  "KW_Day \<equiv> Keyword 167"

abbreviation KW_DayHour :: keyword where
  "KW_DayHour \<equiv> Keyword 168"

abbreviation KW_DayMicrosecond :: keyword where
  "KW_DayMicrosecond \<equiv> Keyword 169"

abbreviation KW_DayMinute :: keyword where
  "KW_DayMinute \<equiv> Keyword 170"

abbreviation KW_DaySecond :: keyword where
  "KW_DaySecond \<equiv> Keyword 171"

abbreviation KW_Dec :: keyword where
  "KW_Dec \<equiv> Keyword 173"

abbreviation KW_Decimal :: keyword where
  "KW_Decimal \<equiv> Keyword 175"

abbreviation KW_Declare :: keyword where
  "KW_Declare \<equiv> Keyword 176"

abbreviation KW_Default :: keyword where
  "KW_Default \<equiv> Keyword 177"

abbreviation KW_Deferrable :: keyword where
  "KW_Deferrable \<equiv> Keyword 179"

abbreviation KW_Delayed :: keyword where
  "KW_Delayed \<equiv> Keyword 185"

abbreviation KW_Delete :: keyword where
  "KW_Delete \<equiv> Keyword 186"

abbreviation KW_DenseRank :: keyword where
  "KW_DenseRank \<equiv> Keyword 189"

abbreviation KW_Desc :: keyword where
  "KW_Desc \<equiv> Keyword 194"

abbreviation KW_Describe :: keyword where
  "KW_Describe \<equiv> Keyword 195"

abbreviation KW_Deterministic :: keyword where
  "KW_Deterministic \<equiv> Keyword 199"

abbreviation KW_Distinct :: keyword where
  "KW_Distinct \<equiv> Keyword 206"

abbreviation KW_Distinctrow :: keyword where
  "KW_Distinctrow \<equiv> Keyword 207"

abbreviation KW_Do :: keyword where
  "KW_Do \<equiv> Keyword 209"

abbreviation KW_Double :: keyword where
  "KW_Double \<equiv> Keyword 212"

abbreviation KW_Drop :: keyword where
  "KW_Drop \<equiv> Keyword 213"

abbreviation KW_Dual :: keyword where
  "KW_Dual \<equiv> Keyword 214"

abbreviation KW_Each :: keyword where
  "KW_Each \<equiv> Keyword 218"

abbreviation KW_Else :: keyword where
  "KW_Else \<equiv> Keyword 221"

abbreviation KW_Elseif :: keyword where
  "KW_Elseif \<equiv> Keyword 222"

abbreviation KW_Empty :: keyword where
  "KW_Empty \<equiv> Keyword 223"

abbreviation KW_Enclosed :: keyword where
  "KW_Enclosed \<equiv> Keyword 225"

abbreviation KW_End :: keyword where
  "KW_End \<equiv> Keyword 228"

abbreviation KW_Escape :: keyword where
  "KW_Escape \<equiv> Keyword 235"

abbreviation KW_Escaped :: keyword where
  "KW_Escaped \<equiv> Keyword 236"

abbreviation KW_Except :: keyword where
  "KW_Except \<equiv> Keyword 239"

abbreviation KW_Exists :: keyword where
  "KW_Exists \<equiv> Keyword 245"

abbreviation KW_Exit :: keyword where
  "KW_Exit \<equiv> Keyword 246"

abbreviation KW_Explain :: keyword where
  "KW_Explain \<equiv> Keyword 248"

abbreviation KW_Extract :: keyword where
  "KW_Extract \<equiv> Keyword 253"

abbreviation KW_False :: keyword where
  "KW_False \<equiv> Keyword 254"

abbreviation KW_Fetch :: keyword where
  "KW_Fetch \<equiv> Keyword 256"

abbreviation KW_Filter :: keyword where
  "KW_Filter \<equiv> Keyword 257"

abbreviation KW_FirstValue :: keyword where
  "KW_FirstValue \<equiv> Keyword 262"

abbreviation KW_Float :: keyword where
  "KW_Float \<equiv> Keyword 264"

abbreviation KW_Float4 :: keyword where
  "KW_Float4 \<equiv> Keyword 265"

abbreviation KW_Float8 :: keyword where
  "KW_Float8 \<equiv> Keyword 266"

abbreviation KW_For :: keyword where
  "KW_For \<equiv> Keyword 269"

abbreviation KW_Force :: keyword where
  "KW_Force \<equiv> Keyword 270"

abbreviation KW_Foreign :: keyword where
  "KW_Foreign \<equiv> Keyword 271"

abbreviation KW_Freeze :: keyword where
  "KW_Freeze \<equiv> Keyword 278"

abbreviation KW_From :: keyword where
  "KW_From \<equiv> Keyword 279"

abbreviation KW_Full :: keyword where
  "KW_Full \<equiv> Keyword 281"

abbreviation KW_Fulltext :: keyword where
  "KW_Fulltext \<equiv> Keyword 282"

abbreviation KW_Function :: keyword where
  "KW_Function \<equiv> Keyword 283"

abbreviation KW_Generated :: keyword where
  "KW_Generated \<equiv> Keyword 288"

abbreviation KW_Get :: keyword where
  "KW_Get \<equiv> Keyword 289"

abbreviation KW_Grant :: keyword where
  "KW_Grant \<equiv> Keyword 294"

abbreviation KW_GraphTable :: keyword where
  "KW_GraphTable \<equiv> Keyword 297"

abbreviation KW_Greatest :: keyword where
  "KW_Greatest \<equiv> Keyword 298"

abbreviation KW_Group :: keyword where
  "KW_Group \<equiv> Keyword 299"

abbreviation KW_Grouping :: keyword where
  "KW_Grouping \<equiv> Keyword 300"

abbreviation KW_Groups :: keyword where
  "KW_Groups \<equiv> Keyword 301"

abbreviation KW_Having :: keyword where
  "KW_Having \<equiv> Keyword 303"

abbreviation KW_HighPriority :: keyword where
  "KW_HighPriority \<equiv> Keyword 306"

abbreviation KW_Hour :: keyword where
  "KW_Hour \<equiv> Keyword 308"

abbreviation KW_HourMicrosecond :: keyword where
  "KW_HourMicrosecond \<equiv> Keyword 309"

abbreviation KW_HourMinute :: keyword where
  "KW_HourMinute \<equiv> Keyword 310"

abbreviation KW_HourSecond :: keyword where
  "KW_HourSecond \<equiv> Keyword 311"

abbreviation KW_If :: keyword where
  "KW_If \<equiv> Keyword 313"

abbreviation KW_Ignore :: keyword where
  "KW_Ignore \<equiv> Keyword 314"

abbreviation KW_Ilike :: keyword where
  "KW_Ilike \<equiv> Keyword 315"

abbreviation KW_In :: keyword where
  "KW_In \<equiv> Keyword 322"

abbreviation KW_Index :: keyword where
  "KW_Index \<equiv> Keyword 327"

abbreviation KW_Infile :: keyword where
  "KW_Infile \<equiv> Keyword 331"

abbreviation KW_Initially :: keyword where
  "KW_Initially \<equiv> Keyword 335"

abbreviation KW_Inner :: keyword where
  "KW_Inner \<equiv> Keyword 337"

abbreviation KW_Inout :: keyword where
  "KW_Inout \<equiv> Keyword 338"

abbreviation KW_Insensitive :: keyword where
  "KW_Insensitive \<equiv> Keyword 340"

abbreviation KW_Insert :: keyword where
  "KW_Insert \<equiv> Keyword 341"

abbreviation KW_Int :: keyword where
  "KW_Int \<equiv> Keyword 345"

abbreviation KW_Int1 :: keyword where
  "KW_Int1 \<equiv> Keyword 346"

abbreviation KW_Int2 :: keyword where
  "KW_Int2 \<equiv> Keyword 347"

abbreviation KW_Int3 :: keyword where
  "KW_Int3 \<equiv> Keyword 348"

abbreviation KW_Int4 :: keyword where
  "KW_Int4 \<equiv> Keyword 349"

abbreviation KW_Int8 :: keyword where
  "KW_Int8 \<equiv> Keyword 350"

abbreviation KW_Integer :: keyword where
  "KW_Integer \<equiv> Keyword 351"

abbreviation KW_Intersect :: keyword where
  "KW_Intersect \<equiv> Keyword 352"

abbreviation KW_Interval :: keyword where
  "KW_Interval \<equiv> Keyword 354"

abbreviation KW_Into :: keyword where
  "KW_Into \<equiv> Keyword 355"

abbreviation KW_IoAfterGtids :: keyword where
  "KW_IoAfterGtids \<equiv> Keyword 357"

abbreviation KW_IoBeforeGtids :: keyword where
  "KW_IoBeforeGtids \<equiv> Keyword 358"

abbreviation KW_Is :: keyword where
  "KW_Is \<equiv> Keyword 359"

abbreviation KW_Isnull :: keyword where
  "KW_Isnull \<equiv> Keyword 360"

abbreviation KW_Iterate :: keyword where
  "KW_Iterate \<equiv> Keyword 362"

abbreviation KW_Join :: keyword where
  "KW_Join \<equiv> Keyword 363"

abbreviation KW_Json :: keyword where
  "KW_Json \<equiv> Keyword 364"

abbreviation KW_JsonArray :: keyword where
  "KW_JsonArray \<equiv> Keyword 365"

abbreviation KW_JsonArrayagg :: keyword where
  "KW_JsonArrayagg \<equiv> Keyword 366"

abbreviation KW_JsonExists :: keyword where
  "KW_JsonExists \<equiv> Keyword 367"

abbreviation KW_JsonObject :: keyword where
  "KW_JsonObject \<equiv> Keyword 368"

abbreviation KW_JsonObjectagg :: keyword where
  "KW_JsonObjectagg \<equiv> Keyword 369"

abbreviation KW_JsonQuery :: keyword where
  "KW_JsonQuery \<equiv> Keyword 370"

abbreviation KW_JsonScalar :: keyword where
  "KW_JsonScalar \<equiv> Keyword 371"

abbreviation KW_JsonSerialize :: keyword where
  "KW_JsonSerialize \<equiv> Keyword 372"

abbreviation KW_JsonTable :: keyword where
  "KW_JsonTable \<equiv> Keyword 373"

abbreviation KW_JsonValue :: keyword where
  "KW_JsonValue \<equiv> Keyword 375"

abbreviation KW_Key :: keyword where
  "KW_Key \<equiv> Keyword 378"

abbreviation KW_Keys :: keyword where
  "KW_Keys \<equiv> Keyword 381"

abbreviation KW_Kill :: keyword where
  "KW_Kill \<equiv> Keyword 382"

abbreviation KW_Lag :: keyword where
  "KW_Lag \<equiv> Keyword 384"

abbreviation KW_LastValue :: keyword where
  "KW_LastValue \<equiv> Keyword 388"

abbreviation KW_Lateral :: keyword where
  "KW_Lateral \<equiv> Keyword 389"

abbreviation KW_Lead :: keyword where
  "KW_Lead \<equiv> Keyword 390"

abbreviation KW_Leading :: keyword where
  "KW_Leading \<equiv> Keyword 391"

abbreviation KW_Least :: keyword where
  "KW_Least \<equiv> Keyword 393"

abbreviation KW_Leave :: keyword where
  "KW_Leave \<equiv> Keyword 394"

abbreviation KW_Left :: keyword where
  "KW_Left \<equiv> Keyword 395"

abbreviation KW_Like :: keyword where
  "KW_Like \<equiv> Keyword 398"

abbreviation KW_Limit :: keyword where
  "KW_Limit \<equiv> Keyword 400"

abbreviation KW_Linear :: keyword where
  "KW_Linear \<equiv> Keyword 401"

abbreviation KW_Lines :: keyword where
  "KW_Lines \<equiv> Keyword 402"

abbreviation KW_Load :: keyword where
  "KW_Load \<equiv> Keyword 406"

abbreviation KW_Localtime :: keyword where
  "KW_Localtime \<equiv> Keyword 408"

abbreviation KW_Localtimestamp :: keyword where
  "KW_Localtimestamp \<equiv> Keyword 409"

abbreviation KW_Lock :: keyword where
  "KW_Lock \<equiv> Keyword 412"

abbreviation KW_Long :: keyword where
  "KW_Long \<equiv> Keyword 417"

abbreviation KW_Longblob :: keyword where
  "KW_Longblob \<equiv> Keyword 418"

abbreviation KW_Longtext :: keyword where
  "KW_Longtext \<equiv> Keyword 419"

abbreviation KW_Loop :: keyword where
  "KW_Loop \<equiv> Keyword 420"

abbreviation KW_LowPriority :: keyword where
  "KW_LowPriority \<equiv> Keyword 421"

abbreviation KW_MatchRecognize :: keyword where
  "KW_MatchRecognize \<equiv> Keyword 429"

abbreviation KW_Maxvalue :: keyword where
  "KW_Maxvalue \<equiv> Keyword 434"

abbreviation KW_Mediumblob :: keyword where
  "KW_Mediumblob \<equiv> Keyword 436"

abbreviation KW_Mediumint :: keyword where
  "KW_Mediumint \<equiv> Keyword 437"

abbreviation KW_Mediumtext :: keyword where
  "KW_Mediumtext \<equiv> Keyword 438"

abbreviation KW_MergeAction :: keyword where
  "KW_MergeAction \<equiv> Keyword 441"

abbreviation KW_Middleint :: keyword where
  "KW_Middleint \<equiv> Keyword 446"

abbreviation KW_Minute :: keyword where
  "KW_Minute \<equiv> Keyword 448"

abbreviation KW_MinuteMicrosecond :: keyword where
  "KW_MinuteMicrosecond \<equiv> Keyword 449"

abbreviation KW_MinuteSecond :: keyword where
  "KW_MinuteSecond \<equiv> Keyword 450"

abbreviation KW_Modifies :: keyword where
  "KW_Modifies \<equiv> Keyword 454"

abbreviation KW_Month :: keyword where
  "KW_Month \<equiv> Keyword 456"

abbreviation KW_National :: keyword where
  "KW_National \<equiv> Keyword 463"

abbreviation KW_Natural :: keyword where
  "KW_Natural \<equiv> Keyword 464"

abbreviation KW_Nchar :: keyword where
  "KW_Nchar \<equiv> Keyword 465"

abbreviation KW_NoWriteToBinlog :: keyword where
  "KW_NoWriteToBinlog \<equiv> Keyword 476"

abbreviation KW_None :: keyword where
  "KW_None \<equiv> Keyword 478"

abbreviation KW_Normalize :: keyword where
  "KW_Normalize \<equiv> Keyword 479"

abbreviation KW_Not :: keyword where
  "KW_Not \<equiv> Keyword 481"

abbreviation KW_Nothing :: keyword where
  "KW_Nothing \<equiv> Keyword 482"

abbreviation KW_Notnull :: keyword where
  "KW_Notnull \<equiv> Keyword 484"

abbreviation KW_NthValue :: keyword where
  "KW_NthValue \<equiv> Keyword 486"

abbreviation KW_Ntile :: keyword where
  "KW_Ntile \<equiv> Keyword 487"

abbreviation KW_Null :: keyword where
  "KW_Null \<equiv> Keyword 488"

abbreviation KW_Nullif :: keyword where
  "KW_Nullif \<equiv> Keyword 491"

abbreviation KW_Numeric :: keyword where
  "KW_Numeric \<equiv> Keyword 494"

abbreviation KW_Of :: keyword where
  "KW_Of \<equiv> Keyword 501"

abbreviation KW_Offset :: keyword where
  "KW_Offset \<equiv> Keyword 503"

abbreviation KW_On :: keyword where
  "KW_On \<equiv> Keyword 507"

abbreviation KW_Only :: keyword where
  "KW_Only \<equiv> Keyword 509"

abbreviation KW_Operator :: keyword where
  "KW_Operator \<equiv> Keyword 512"

abbreviation KW_Optimize :: keyword where
  "KW_Optimize \<equiv> Keyword 513"

abbreviation KW_Option :: keyword where
  "KW_Option \<equiv> Keyword 514"

abbreviation KW_Optionally :: keyword where
  "KW_Optionally \<equiv> Keyword 515"

abbreviation KW_Or :: keyword where
  "KW_Or \<equiv> Keyword 517"

abbreviation KW_Order :: keyword where
  "KW_Order \<equiv> Keyword 518"

abbreviation KW_Out :: keyword where
  "KW_Out \<equiv> Keyword 522"

abbreviation KW_Outer :: keyword where
  "KW_Outer \<equiv> Keyword 523"

abbreviation KW_Outfile :: keyword where
  "KW_Outfile \<equiv> Keyword 524"

abbreviation KW_Over :: keyword where
  "KW_Over \<equiv> Keyword 526"

abbreviation KW_Overlaps :: keyword where
  "KW_Overlaps \<equiv> Keyword 528"

abbreviation KW_Overlay :: keyword where
  "KW_Overlay \<equiv> Keyword 529"

abbreviation KW_Parallel :: keyword where
  "KW_Parallel \<equiv> Keyword 535"

abbreviation KW_Partition :: keyword where
  "KW_Partition \<equiv> Keyword 545"

abbreviation KW_PercentRank :: keyword where
  "KW_PercentRank \<equiv> Keyword 556"

abbreviation KW_Pivot :: keyword where
  "KW_Pivot \<equiv> Keyword 562"

abbreviation KW_Placing :: keyword where
  "KW_Placing \<equiv> Keyword 563"

abbreviation KW_Position :: keyword where
  "KW_Position \<equiv> Keyword 569"

abbreviation KW_Positional :: keyword where
  "KW_Positional \<equiv> Keyword 571"

abbreviation KW_Precision :: keyword where
  "KW_Precision \<equiv> Keyword 575"

abbreviation KW_Primary :: keyword where
  "KW_Primary \<equiv> Keyword 580"

abbreviation KW_Procedure :: keyword where
  "KW_Procedure \<equiv> Keyword 585"

abbreviation KW_Purge :: keyword where
  "KW_Purge \<equiv> Keyword 594"

abbreviation KW_Qualify :: keyword where
  "KW_Qualify \<equiv> Keyword 595"

abbreviation KW_Range :: keyword where
  "KW_Range \<equiv> Keyword 598"

abbreviation KW_Rank :: keyword where
  "KW_Rank \<equiv> Keyword 599"

abbreviation KW_Read :: keyword where
  "KW_Read \<equiv> Keyword 600"

abbreviation KW_ReadWrite :: keyword where
  "KW_ReadWrite \<equiv> Keyword 601"

abbreviation KW_Reads :: keyword where
  "KW_Reads \<equiv> Keyword 602"

abbreviation KW_Real :: keyword where
  "KW_Real \<equiv> Keyword 603"

abbreviation KW_Recursive :: keyword where
  "KW_Recursive \<equiv> Keyword 605"

abbreviation KW_References :: keyword where
  "KW_References \<equiv> Keyword 607"

abbreviation KW_Release :: keyword where
  "KW_Release \<equiv> Keyword 623"

abbreviation KW_Rename :: keyword where
  "KW_Rename \<equiv> Keyword 624"

abbreviation KW_Repeat :: keyword where
  "KW_Repeat \<equiv> Keyword 626"

abbreviation KW_Replace :: keyword where
  "KW_Replace \<equiv> Keyword 628"

abbreviation KW_Require :: keyword where
  "KW_Require \<equiv> Keyword 630"

abbreviation KW_Resignal :: keyword where
  "KW_Resignal \<equiv> Keyword 632"

abbreviation KW_Restrict :: keyword where
  "KW_Restrict \<equiv> Keyword 635"

abbreviation KW_Return :: keyword where
  "KW_Return \<equiv> Keyword 637"

abbreviation KW_Returning :: keyword where
  "KW_Returning \<equiv> Keyword 642"

abbreviation KW_Revoke :: keyword where
  "KW_Revoke \<equiv> Keyword 644"

abbreviation KW_Right :: keyword where
  "KW_Right \<equiv> Keyword 645"

abbreviation KW_Row :: keyword where
  "KW_Row \<equiv> Keyword 655"

abbreviation KW_RowNumber :: keyword where
  "KW_RowNumber \<equiv> Keyword 657"

abbreviation KW_Rows :: keyword where
  "KW_Rows \<equiv> Keyword 658"

abbreviation KW_Schema :: keyword where
  "KW_Schema \<equiv> Keyword 664"

abbreviation KW_Schemas :: keyword where
  "KW_Schemas \<equiv> Keyword 666"

abbreviation KW_Second :: keyword where
  "KW_Second \<equiv> Keyword 673"

abbreviation KW_SecondMicrosecond :: keyword where
  "KW_SecondMicrosecond \<equiv> Keyword 674"

abbreviation KW_Select :: keyword where
  "KW_Select \<equiv> Keyword 678"

abbreviation KW_Semi :: keyword where
  "KW_Semi \<equiv> Keyword 681"

abbreviation KW_Sensitive :: keyword where
  "KW_Sensitive \<equiv> Keyword 682"

abbreviation KW_Separator :: keyword where
  "KW_Separator \<equiv> Keyword 683"

abbreviation KW_SessionUser :: keyword where
  "KW_SessionUser \<equiv> Keyword 690"

abbreviation KW_Set :: keyword where
  "KW_Set \<equiv> Keyword 691"

abbreviation KW_Setof :: keyword where
  "KW_Setof \<equiv> Keyword 692"

abbreviation KW_Show :: keyword where
  "KW_Show \<equiv> Keyword 695"

abbreviation KW_Signal :: keyword where
  "KW_Signal \<equiv> Keyword 696"

abbreviation KW_Similar :: keyword where
  "KW_Similar \<equiv> Keyword 697"

abbreviation KW_Smallint :: keyword where
  "KW_Smallint \<equiv> Keyword 703"

abbreviation KW_Some :: keyword where
  "KW_Some \<equiv> Keyword 705"

abbreviation KW_Spatial :: keyword where
  "KW_Spatial \<equiv> Keyword 709"

abbreviation KW_Specific :: keyword where
  "KW_Specific \<equiv> Keyword 710"

abbreviation KW_Sql :: keyword where
  "KW_Sql \<equiv> Keyword 714"

abbreviation KW_SqlBigResult :: keyword where
  "KW_SqlBigResult \<equiv> Keyword 715"

abbreviation KW_SqlCalcFoundRows :: keyword where
  "KW_SqlCalcFoundRows \<equiv> Keyword 716"

abbreviation KW_SqlSmallResult :: keyword where
  "KW_SqlSmallResult \<equiv> Keyword 717"

abbreviation KW_Sqlexception :: keyword where
  "KW_Sqlexception \<equiv> Keyword 718"

abbreviation KW_Sqlstate :: keyword where
  "KW_Sqlstate \<equiv> Keyword 719"

abbreviation KW_Sqlwarning :: keyword where
  "KW_Sqlwarning \<equiv> Keyword 720"

abbreviation KW_Ssl :: keyword where
  "KW_Ssl \<equiv> Keyword 722"

abbreviation KW_Starting :: keyword where
  "KW_Starting \<equiv> Keyword 726"

abbreviation KW_Stored :: keyword where
  "KW_Stored \<equiv> Keyword 736"

abbreviation KW_StraightJoin :: keyword where
  "KW_StraightJoin \<equiv> Keyword 737"

abbreviation KW_Substring :: keyword where
  "KW_Substring \<equiv> Keyword 747"

abbreviation KW_Symmetric :: keyword where
  "KW_Symmetric \<equiv> Keyword 752"

abbreviation KW_System :: keyword where
  "KW_System \<equiv> Keyword 754"

abbreviation KW_SystemUser :: keyword where
  "KW_SystemUser \<equiv> Keyword 756"

abbreviation KW_Table :: keyword where
  "KW_Table \<equiv> Keyword 758"

abbreviation KW_Tablesample :: keyword where
  "KW_Tablesample \<equiv> Keyword 761"

abbreviation KW_Terminated :: keyword where
  "KW_Terminated \<equiv> Keyword 769"

abbreviation KW_Then :: keyword where
  "KW_Then \<equiv> Keyword 771"

abbreviation KW_Time :: keyword where
  "KW_Time \<equiv> Keyword 774"

abbreviation KW_Timestamp :: keyword where
  "KW_Timestamp \<equiv> Keyword 775"

abbreviation KW_Tinyblob :: keyword where
  "KW_Tinyblob \<equiv> Keyword 778"

abbreviation KW_Tinyint :: keyword where
  "KW_Tinyint \<equiv> Keyword 779"

abbreviation KW_Tinytext :: keyword where
  "KW_Tinytext \<equiv> Keyword 780"

abbreviation KW_To :: keyword where
  "KW_To \<equiv> Keyword 781"

abbreviation KW_Trailing :: keyword where
  "KW_Trailing \<equiv> Keyword 783"

abbreviation KW_Transaction :: keyword where
  "KW_Transaction \<equiv> Keyword 784"

abbreviation KW_Treat :: keyword where
  "KW_Treat \<equiv> Keyword 793"

abbreviation KW_Trigger :: keyword where
  "KW_Trigger \<equiv> Keyword 794"

abbreviation KW_Trim :: keyword where
  "KW_Trim \<equiv> Keyword 798"

abbreviation KW_True :: keyword where
  "KW_True \<equiv> Keyword 800"

abbreviation KW_Undo :: keyword where
  "KW_Undo \<equiv> Keyword 810"

abbreviation KW_Union :: keyword where
  "KW_Union \<equiv> Keyword 812"

abbreviation KW_Unique :: keyword where
  "KW_Unique \<equiv> Keyword 813"

abbreviation KW_Unlock :: keyword where
  "KW_Unlock \<equiv> Keyword 816"

abbreviation KW_Unpivot :: keyword where
  "KW_Unpivot \<equiv> Keyword 821"

abbreviation KW_Unsigned :: keyword where
  "KW_Unsigned \<equiv> Keyword 822"

abbreviation KW_Update :: keyword where
  "KW_Update \<equiv> Keyword 824"

abbreviation KW_Usage :: keyword where
  "KW_Usage \<equiv> Keyword 826"

abbreviation KW_Use :: keyword where
  "KW_Use \<equiv> Keyword 827"

abbreviation KW_User :: keyword where
  "KW_User \<equiv> Keyword 828"

abbreviation KW_Using :: keyword where
  "KW_Using \<equiv> Keyword 833"

abbreviation KW_UtcDate :: keyword where
  "KW_UtcDate \<equiv> Keyword 834"

abbreviation KW_UtcTime :: keyword where
  "KW_UtcTime \<equiv> Keyword 835"

abbreviation KW_UtcTimestamp :: keyword where
  "KW_UtcTimestamp \<equiv> Keyword 836"

abbreviation KW_Values :: keyword where
  "KW_Values \<equiv> Keyword 846"

abbreviation KW_Varbinary :: keyword where
  "KW_Varbinary \<equiv> Keyword 849"

abbreviation KW_Varchar :: keyword where
  "KW_Varchar \<equiv> Keyword 850"

abbreviation KW_Varcharacter :: keyword where
  "KW_Varcharacter \<equiv> Keyword 851"

abbreviation KW_Variadic :: keyword where
  "KW_Variadic \<equiv> Keyword 852"

abbreviation KW_Varying :: keyword where
  "KW_Varying \<equiv> Keyword 853"

abbreviation KW_Verbose :: keyword where
  "KW_Verbose \<equiv> Keyword 854"

abbreviation KW_Virtual :: keyword where
  "KW_Virtual \<equiv> Keyword 860"

abbreviation KW_When :: keyword where
  "KW_When \<equiv> Keyword 863"

abbreviation KW_Where :: keyword where
  "KW_Where \<equiv> Keyword 865"

abbreviation KW_While :: keyword where
  "KW_While \<equiv> Keyword 866"

abbreviation KW_Window :: keyword where
  "KW_Window \<equiv> Keyword 869"

abbreviation KW_With :: keyword where
  "KW_With \<equiv> Keyword 870"

abbreviation KW_Within :: keyword where
  "KW_Within \<equiv> Keyword 871"

abbreviation KW_Without :: keyword where
  "KW_Without \<equiv> Keyword 872"

abbreviation KW_Write :: keyword where
  "KW_Write \<equiv> Keyword 875"

abbreviation KW_Xmlattributes :: keyword where
  "KW_Xmlattributes \<equiv> Keyword 877"

abbreviation KW_Xmlconcat :: keyword where
  "KW_Xmlconcat \<equiv> Keyword 878"

abbreviation KW_Xmlelement :: keyword where
  "KW_Xmlelement \<equiv> Keyword 879"

abbreviation KW_Xmlexists :: keyword where
  "KW_Xmlexists \<equiv> Keyword 880"

abbreviation KW_Xmlforest :: keyword where
  "KW_Xmlforest \<equiv> Keyword 881"

abbreviation KW_Xmlnamespaces :: keyword where
  "KW_Xmlnamespaces \<equiv> Keyword 882"

abbreviation KW_Xmlparse :: keyword where
  "KW_Xmlparse \<equiv> Keyword 883"

abbreviation KW_Xmlpi :: keyword where
  "KW_Xmlpi \<equiv> Keyword 884"

abbreviation KW_Xmlroot :: keyword where
  "KW_Xmlroot \<equiv> Keyword 885"

abbreviation KW_Xmlserialize :: keyword where
  "KW_Xmlserialize \<equiv> Keyword 886"

abbreviation KW_Xmltable :: keyword where
  "KW_Xmltable \<equiv> Keyword 887"

abbreviation KW_Year :: keyword where
  "KW_Year \<equiv> Keyword 889"

abbreviation KW_YearMonth :: keyword where
  "KW_YearMonth \<equiv> Keyword 890"

abbreviation KW_Zerofill :: keyword where
  "KW_Zerofill \<equiv> Keyword 892"

subsection \<open>The generated category sets\<close>

definition POSTGRES_COL_NAME_KEYWORDS :: keyword_set where
  "POSTGRES_COL_NAME_KEYWORDS =
    from_keywords [KW_Between, KW_Bigint, KW_Bit, KW_Boolean, KW_Char, KW_Character, KW_Coalesce,
      KW_Dec, KW_Decimal, KW_Exists, KW_Extract, KW_Float, KW_GraphTable, KW_Greatest,
        KW_Grouping, KW_Inout, KW_Int, KW_Integer, KW_Interval, KW_Json, KW_JsonArray,
        KW_JsonArrayagg, KW_JsonExists, KW_JsonObject, KW_JsonObjectagg, KW_JsonQuery,
        KW_JsonScalar, KW_JsonSerialize, KW_JsonTable, KW_JsonValue, KW_Least, KW_MergeAction,
        KW_National, KW_Nchar, KW_None, KW_Normalize, KW_Nullif, KW_Numeric, KW_Out, KW_Overlay,
        KW_Position, KW_Precision, KW_Real, KW_Row, KW_Setof, KW_Smallint, KW_Substring, KW_Time,
        KW_Timestamp, KW_Treat, KW_Trim, KW_Values, KW_Varchar, KW_Xmlattributes, KW_Xmlconcat,
        KW_Xmlelement, KW_Xmlexists, KW_Xmlforest, KW_Xmlnamespaces, KW_Xmlparse, KW_Xmlpi,
        KW_Xmlroot, KW_Xmlserialize, KW_Xmltable]"

definition POSTGRES_TYPE_FUNC_NAME_KEYWORDS :: keyword_set where
  "POSTGRES_TYPE_FUNC_NAME_KEYWORDS =
    from_keywords [KW_Authorization, KW_Binary, KW_Collation, KW_Concurrently, KW_Cross,
      KW_CurrentSchema, KW_Freeze, KW_Full, KW_Ilike, KW_Inner, KW_Is, KW_Isnull, KW_Join,
        KW_Left, KW_Like, KW_Natural, KW_Notnull, KW_Outer, KW_Overlaps, KW_Right, KW_Similar,
        KW_Tablesample, KW_Verbose]"

definition POSTGRES_RESERVED_KEYWORDS :: keyword_set where
  "POSTGRES_RESERVED_KEYWORDS =
    from_keywords [KW_All, KW_Analyse, KW_Analyze, KW_And, KW_Any, KW_Array, KW_As, KW_Asc,
      KW_Asymmetric, KW_Both, KW_Case, KW_Cast, KW_Check, KW_Collate, KW_Column, KW_Constraint,
        KW_Create, KW_CurrentCatalog, KW_CurrentDate, KW_CurrentRole, KW_CurrentTime,
        KW_CurrentTimestamp, KW_CurrentUser, KW_Default, KW_Deferrable, KW_Desc, KW_Distinct,
        KW_Do, KW_Else, KW_End, KW_Except, KW_False, KW_Fetch, KW_For, KW_Foreign, KW_From,
        KW_Grant, KW_Group, KW_Having, KW_In, KW_Initially, KW_Intersect, KW_Into, KW_Lateral,
        KW_Leading, KW_Limit, KW_Localtime, KW_Localtimestamp, KW_Not, KW_Null, KW_Offset, KW_On,
        KW_Only, KW_Or, KW_Order, KW_Placing, KW_Primary, KW_References, KW_Returning, KW_Select,
        KW_SessionUser, KW_Some, KW_Symmetric, KW_SystemUser, KW_Table, KW_Then, KW_To,
        KW_Trailing, KW_True, KW_Union, KW_Unique, KW_User, KW_Using, KW_Variadic, KW_When,
        KW_Where, KW_Window, KW_With]"

definition POSTGRES_AS_LABEL_KEYWORDS :: keyword_set where
  "POSTGRES_AS_LABEL_KEYWORDS =
    from_keywords [KW_Array, KW_As, KW_Char, KW_Character, KW_Create, KW_Day, KW_Except,
      KW_Fetch, KW_Filter, KW_For, KW_From, KW_Grant, KW_Group, KW_Having, KW_Hour, KW_Intersect,
        KW_Into, KW_Limit, KW_Minute, KW_Month, KW_Offset, KW_On, KW_Order, KW_Over, KW_Overlaps,
        KW_Precision, KW_Returning, KW_Second, KW_To, KW_Union, KW_Varying, KW_Where, KW_Window,
        KW_With, KW_Within, KW_Without, KW_Year]"

definition MYSQL_RESERVED_KEYWORDS :: keyword_set where
  "MYSQL_RESERVED_KEYWORDS =
    from_keywords [KW_Accessible, KW_Add, KW_All, KW_Alter, KW_Analyze, KW_And, KW_As, KW_Asc,
      KW_Asensitive, KW_Before, KW_Between, KW_Bigint, KW_Binary, KW_Blob, KW_Both, KW_By,
        KW_Call, KW_Cascade, KW_Case, KW_Change, KW_Character, KW_Check, KW_Collate, KW_Column,
        KW_Condition, KW_Constraint, KW_Continue, KW_Create, KW_Cross, KW_Cube, KW_CumeDist,
        KW_CurrentDate, KW_CurrentTime, KW_CurrentTimestamp, KW_CurrentUser, KW_Cursor,
        KW_Database, KW_Databases, KW_DayHour, KW_DayMicrosecond, KW_DayMinute, KW_DaySecond,
        KW_Dec, KW_Decimal, KW_Declare, KW_Default, KW_Delayed, KW_Delete, KW_DenseRank, KW_Desc,
        KW_Describe, KW_Deterministic, KW_Distinct, KW_Distinctrow, KW_Div, KW_Double, KW_Drop,
        KW_Dual, KW_Each, KW_Else, KW_Elseif, KW_Empty, KW_Enclosed, KW_Escaped, KW_Except,
        KW_Exists, KW_Exit, KW_Explain, KW_False, KW_Fetch, KW_FirstValue, KW_Float, KW_Float4,
        KW_Float8, KW_For, KW_Force, KW_Foreign, KW_From, KW_Fulltext, KW_Function, KW_Generated,
        KW_Get, KW_Grant, KW_Group, KW_Groups, KW_Having, KW_HighPriority, KW_HourMicrosecond,
        KW_HourMinute, KW_HourSecond, KW_Ignore, KW_In, KW_Index, KW_Infile, KW_Inner, KW_Inout,
        KW_Insensitive, KW_Int, KW_Int1, KW_Int2, KW_Int3, KW_Int4, KW_Int8, KW_Integer,
        KW_Intersect, KW_Into, KW_IoAfterGtids, KW_IoBeforeGtids, KW_Is, KW_Iterate, KW_Join,
        KW_JsonTable, KW_Key, KW_Keys, KW_Kill, KW_Lag, KW_LastValue, KW_Lateral, KW_Lead,
        KW_Leading, KW_Leave, KW_Like, KW_Limit, KW_Linear, KW_Lines, KW_Load, KW_Localtime,
        KW_Localtimestamp, KW_Lock, KW_Long, KW_Longblob, KW_Longtext, KW_Loop, KW_LowPriority,
        KW_Match, KW_Maxvalue, KW_Mediumblob, KW_Mediumint, KW_Mediumtext, KW_Middleint,
        KW_MinuteMicrosecond, KW_MinuteSecond, KW_Modifies, KW_Natural, KW_NoWriteToBinlog,
        KW_Not, KW_NthValue, KW_Ntile, KW_Null, KW_Numeric, KW_Of, KW_On, KW_Optimize, KW_Option,
        KW_Optionally, KW_Or, KW_Order, KW_Out, KW_Outer, KW_Outfile, KW_Over, KW_Parallel,
        KW_Partition, KW_PercentRank, KW_Precision, KW_Primary, KW_Procedure, KW_Purge,
        KW_Qualify, KW_Range, KW_Rank, KW_Read, KW_ReadWrite, KW_Reads, KW_Real, KW_Recursive,
        KW_References, KW_Regexp, KW_Release, KW_Rename, KW_Repeat, KW_Require, KW_Resignal,
        KW_Restrict, KW_Return, KW_Revoke, KW_Rlike, KW_Row, KW_RowNumber, KW_Rows, KW_Schema,
        KW_Schemas, KW_SecondMicrosecond, KW_Select, KW_Sensitive, KW_Separator, KW_Set, KW_Show,
        KW_Signal, KW_Smallint, KW_Spatial, KW_Specific, KW_Sql, KW_SqlBigResult,
        KW_SqlCalcFoundRows, KW_SqlSmallResult, KW_Sqlexception, KW_Sqlstate, KW_Sqlwarning,
        KW_Ssl, KW_Starting, KW_Stored, KW_StraightJoin, KW_System, KW_Table, KW_Tablesample,
        KW_Terminated, KW_Then, KW_Tinyblob, KW_Tinyint, KW_Tinytext, KW_To, KW_Trailing,
        KW_Trigger, KW_True, KW_Undo, KW_Union, KW_Unique, KW_Unlock, KW_Unsigned, KW_Update,
        KW_Usage, KW_Use, KW_Using, KW_UtcDate, KW_UtcTime, KW_UtcTimestamp, KW_Varbinary,
        KW_Varchar, KW_Varcharacter, KW_Varying, KW_Virtual, KW_When, KW_Where, KW_While,
        KW_Window, KW_With, KW_Write, KW_Xor, KW_YearMonth, KW_Zerofill]"

definition MYSQL_TYPE_FUNC_NAME_KEYWORDS :: keyword_set where
  "MYSQL_TYPE_FUNC_NAME_KEYWORDS =
    from_keywords [KW_Char, KW_Convert, KW_Grouping, KW_If, KW_Insert, KW_Interval, KW_Left,
      KW_Mod, KW_Replace, KW_Right, KW_Values]"

definition MYSQL_FUNCTION_ONLY_KEYWORDS :: keyword_set where
  "MYSQL_FUNCTION_ONLY_KEYWORDS =
    from_keywords [KW_Array]"

subsection \<open>ansi.rs\<close>

definition RESERVED_COLUMN_NAME :: keyword_set where
  "RESERVED_COLUMN_NAME =
    keyword_set_union POSTGRES_TYPE_FUNC_NAME_KEYWORDS POSTGRES_RESERVED_KEYWORDS"

definition POSTGRES_NON_GENERIC_FUNCTION_KEYWORDS :: keyword_set where
  "POSTGRES_NON_GENERIC_FUNCTION_KEYWORDS =
    from_keywords [KW_Between, KW_Bigint, KW_Bit, KW_Boolean, KW_Char, KW_Character, KW_Dec,
      KW_Decimal, KW_Float, KW_Inout, KW_Int, KW_Integer, KW_Interval, KW_JsonExists,
        KW_JsonObjectagg, KW_JsonQuery, KW_JsonTable, KW_JsonValue, KW_MergeAction, KW_National,
        KW_Nchar, KW_None, KW_Numeric, KW_Operator, KW_Out, KW_Position, KW_Precision, KW_Real,
        KW_Setof, KW_Smallint, KW_Time, KW_Timestamp, KW_Treat, KW_Values, KW_Varchar,
        KW_Xmlattributes, KW_Xmlelement, KW_Xmlexists, KW_Xmlnamespaces, KW_Xmlparse, KW_Xmlpi,
        KW_Xmlroot, KW_Xmlserialize, KW_Xmltable]"

definition RESERVED_FUNCTION_NAME :: keyword_set where
  "RESERVED_FUNCTION_NAME =
    keyword_set_union POSTGRES_RESERVED_KEYWORDS POSTGRES_NON_GENERIC_FUNCTION_KEYWORDS"

definition RESERVED_SET_VALUE_WORDS :: keyword_set where
  "RESERVED_SET_VALUE_WORDS =
    POSTGRES_RESERVED_KEYWORDS"

definition RESERVED_TYPE_NAME :: keyword_set where
  "RESERVED_TYPE_NAME =
    keyword_set_union POSTGRES_COL_NAME_KEYWORDS POSTGRES_RESERVED_KEYWORDS"

definition RESERVED_BARE_ALIAS :: keyword_set where
  "RESERVED_BARE_ALIAS =
    POSTGRES_AS_LABEL_KEYWORDS"

definition QUALIFY_RESERVATION :: keyword_set where
  "QUALIFY_RESERVATION =
    from_keywords [KW_Qualify]"

definition PIVOT_RESERVATION :: keyword_set where
  "PIVOT_RESERVATION =
    from_keywords [KW_Pivot, KW_Unpivot]"

definition MATCH_RECOGNIZE_RESERVATION :: keyword_set where
  "MATCH_RECOGNIZE_RESERVATION =
    from_keywords [KW_MatchRecognize]"

subsection \<open>mysql.rs\<close>

definition MYSQL_RESERVED_COLUMN_NAME :: keyword_set where
  "MYSQL_RESERVED_COLUMN_NAME =
    keyword_set_union MYSQL_TYPE_FUNC_NAME_KEYWORDS MYSQL_RESERVED_KEYWORDS"

definition MYSQL_WINDOW_FUNCTION_KEYWORDS :: keyword_set where
  "MYSQL_WINDOW_FUNCTION_KEYWORDS =
    from_keywords [KW_RowNumber, KW_Rank, KW_DenseRank, KW_PercentRank, KW_CumeDist, KW_Ntile,
      KW_Lead, KW_Lag, KW_FirstValue, KW_LastValue, KW_NthValue]"

definition MYSQL_RESERVED_FUNCTION_NAME :: keyword_set where
  "MYSQL_RESERVED_FUNCTION_NAME =
    keyword_set_union (keyword_set_difference MYSQL_RESERVED_KEYWORDS
      MYSQL_WINDOW_FUNCTION_KEYWORDS) MYSQL_FUNCTION_ONLY_KEYWORDS"

definition MYSQL_RESERVED_TYPE_NAME :: keyword_set where
  "MYSQL_RESERVED_TYPE_NAME =
    keyword_set_union MYSQL_TYPE_FUNC_NAME_KEYWORDS MYSQL_RESERVED_KEYWORDS"

definition MYSQL_RESERVED_BARE_ALIAS :: keyword_set where
  "MYSQL_RESERVED_BARE_ALIAS =
    keyword_set_union MYSQL_TYPE_FUNC_NAME_KEYWORDS MYSQL_RESERVED_KEYWORDS"

subsection \<open>sqlite.rs\<close>

definition SQLITE_STRUCTURAL_RESERVED :: "keyword list" where
  "SQLITE_STRUCTURAL_RESERVED =
    [KW_Add, KW_All, KW_Alter, KW_And, KW_As, KW_Between, KW_Case, KW_Check, KW_Collate,
      KW_Commit, KW_Constraint, KW_Create, KW_Default, KW_Deferrable, KW_Delete, KW_Distinct,
        KW_Drop, KW_Else, KW_Escape, KW_Except, KW_Exists, KW_Foreign, KW_From, KW_Group,
        KW_Having, KW_In, KW_Index, KW_Insert, KW_Intersect, KW_Into, KW_Is, KW_Join, KW_Limit,
        KW_Not, KW_Null, KW_On, KW_Or, KW_Order, KW_Primary, KW_References, KW_Select, KW_Set,
        KW_Table, KW_Then, KW_To, KW_Transaction, KW_Union, KW_Unique, KW_Update, KW_Using,
        KW_Values, KW_When, KW_Where]"

definition SQLITE_JOIN_KEYWORDS :: "keyword list" where
  "SQLITE_JOIN_KEYWORDS =
    [KW_Cross, KW_Inner, KW_Left, KW_Natural, KW_Outer, KW_Right, KW_Full]"

definition SQLITE_RESIDUAL_NAME_AND_BARE :: "keyword list" where
  "SQLITE_RESIDUAL_NAME_AND_BARE =
    [KW_Returning, KW_Nothing]"

definition SQLITE_RESIDUAL_NAME_ONLY :: "keyword list" where
  "SQLITE_RESIDUAL_NAME_ONLY =
    [KW_Isnull, KW_Notnull]"

definition SQLITE_RESERVED_COLUMN_NAME :: keyword_set where
  "SQLITE_RESERVED_COLUMN_NAME =
    keyword_set_union (keyword_set_union (from_keywords SQLITE_STRUCTURAL_RESERVED)
      (from_keywords SQLITE_RESIDUAL_NAME_AND_BARE)) (from_keywords SQLITE_RESIDUAL_NAME_ONLY)"

definition SQLITE_RESERVED_FUNCTION_NAME :: keyword_set where
  "SQLITE_RESERVED_FUNCTION_NAME =
    SQLITE_RESERVED_COLUMN_NAME"

definition SQLITE_RESERVED_TYPE_NAME :: keyword_set where
  "SQLITE_RESERVED_TYPE_NAME =
    keyword_set_union SQLITE_RESERVED_COLUMN_NAME (from_keywords SQLITE_JOIN_KEYWORDS)"

definition SQLITE_RESERVED_BARE_ALIAS :: keyword_set where
  "SQLITE_RESERVED_BARE_ALIAS =
    keyword_set_union (keyword_set_union (from_keywords SQLITE_STRUCTURAL_RESERVED)
      (from_keywords SQLITE_JOIN_KEYWORDS)) (from_keywords SQLITE_RESIDUAL_NAME_AND_BARE)"

definition SQLITE_RESERVED_AS_LABEL :: keyword_set where
  "SQLITE_RESERVED_AS_LABEL =
    SQLITE_RESERVED_COLUMN_NAME"

subsection \<open>duckdb.rs\<close>

definition DUCKDB_NONSTANDARD_JOIN_RESERVATION :: keyword_set where
  "DUCKDB_NONSTANDARD_JOIN_RESERVATION =
    from_keywords [KW_Asof, KW_Positional]"

definition DUCKDB_SEMI_ANTI_JOIN_RESERVATION :: keyword_set where
  "DUCKDB_SEMI_ANTI_JOIN_RESERVATION =
    from_keywords [KW_Semi, KW_Anti]"

definition DUCKDB_UNRESERVED_CARVEOUT :: keyword_set where
  "DUCKDB_UNRESERVED_CARVEOUT =
    from_keywords [KW_Grant, KW_User]"

definition DUCKDB_ORDINARY_SPECIAL_VALUE_NAMES :: keyword_set where
  "DUCKDB_ORDINARY_SPECIAL_VALUE_NAMES =
    from_keywords [KW_CurrentCatalog, KW_CurrentDate, KW_CurrentRole, KW_CurrentSchema,
      KW_CurrentTime, KW_CurrentTimestamp, KW_CurrentUser, KW_Localtime, KW_Localtimestamp,
        KW_SessionUser, KW_SystemUser]"

definition DUCKDB_UNRESERVED_BARE_ALIAS_RESERVATION :: keyword_set where
  "DUCKDB_UNRESERVED_BARE_ALIAS_RESERVATION =
    from_keywords [KW_Grant, KW_User]"

definition DUCKDB_RESERVED_COLUMN_NAME :: keyword_set where
  "DUCKDB_RESERVED_COLUMN_NAME =
    keyword_set_union (keyword_set_union (keyword_set_union (keyword_set_union
      (keyword_set_difference (keyword_set_difference RESERVED_COLUMN_NAME
        DUCKDB_UNRESERVED_CARVEOUT) DUCKDB_ORDINARY_SPECIAL_VALUE_NAMES) QUALIFY_RESERVATION)
        PIVOT_RESERVATION) DUCKDB_NONSTANDARD_JOIN_RESERVATION) DUCKDB_SEMI_ANTI_JOIN_RESERVATION"

definition DUCKDB_RESERVED_FUNCTION_NAME :: keyword_set where
  "DUCKDB_RESERVED_FUNCTION_NAME =
    keyword_set_union (keyword_set_union (keyword_set_union (keyword_set_difference
      (keyword_set_difference RESERVED_FUNCTION_NAME DUCKDB_UNRESERVED_CARVEOUT)
        DUCKDB_ORDINARY_SPECIAL_VALUE_NAMES) QUALIFY_RESERVATION) PIVOT_RESERVATION)
        DUCKDB_SEMI_ANTI_JOIN_RESERVATION"

definition DUCKDB_RESERVED_TYPE_NAME :: keyword_set where
  "DUCKDB_RESERVED_TYPE_NAME =
    keyword_set_union (keyword_set_union (keyword_set_difference (keyword_set_difference
      RESERVED_TYPE_NAME DUCKDB_UNRESERVED_CARVEOUT) DUCKDB_ORDINARY_SPECIAL_VALUE_NAMES)
        QUALIFY_RESERVATION) PIVOT_RESERVATION"

definition DUCKDB_RESERVED_SET_VALUE_WORDS :: keyword_set where
  "DUCKDB_RESERVED_SET_VALUE_WORDS =
    keyword_set_union (keyword_set_union (keyword_set_difference (keyword_set_difference
      RESERVED_SET_VALUE_WORDS DUCKDB_UNRESERVED_CARVEOUT) DUCKDB_ORDINARY_SPECIAL_VALUE_NAMES)
        QUALIFY_RESERVATION) PIVOT_RESERVATION"

definition DUCKDB_RESERVED_BARE_ALIAS :: keyword_set where
  "DUCKDB_RESERVED_BARE_ALIAS =
    keyword_set_union (keyword_set_union (keyword_set_union (keyword_set_union (keyword_set_union
      (keyword_set_difference RESERVED_BARE_ALIAS DUCKDB_ORDINARY_SPECIAL_VALUE_NAMES)
        DUCKDB_UNRESERVED_BARE_ALIAS_RESERVATION) QUALIFY_RESERVATION) PIVOT_RESERVATION)
        DUCKDB_NONSTANDARD_JOIN_RESERVATION) DUCKDB_SEMI_ANTI_JOIN_RESERVATION"

subsection \<open>snowflake.rs\<close>

definition SNOWFLAKE_TABLE_OPERATOR_RESERVATION :: keyword_set where
  "SNOWFLAKE_TABLE_OPERATOR_RESERVATION =
    keyword_set_union PIVOT_RESERVATION MATCH_RECOGNIZE_RESERVATION"

definition SNOWFLAKE_RESERVED_COLUMN_NAME :: keyword_set where
  "SNOWFLAKE_RESERVED_COLUMN_NAME =
    keyword_set_union (keyword_set_union RESERVED_COLUMN_NAME QUALIFY_RESERVATION)
      SNOWFLAKE_TABLE_OPERATOR_RESERVATION"

definition SNOWFLAKE_RESERVED_FUNCTION_NAME :: keyword_set where
  "SNOWFLAKE_RESERVED_FUNCTION_NAME =
    keyword_set_union RESERVED_FUNCTION_NAME QUALIFY_RESERVATION"

definition SNOWFLAKE_RESERVED_TYPE_NAME :: keyword_set where
  "SNOWFLAKE_RESERVED_TYPE_NAME =
    keyword_set_union RESERVED_TYPE_NAME QUALIFY_RESERVATION"

definition SNOWFLAKE_RESERVED_BARE_ALIAS :: keyword_set where
  "SNOWFLAKE_RESERVED_BARE_ALIAS =
    keyword_set_union RESERVED_BARE_ALIAS QUALIFY_RESERVATION"

subsection \<open>bigquery.rs\<close>

definition BIGQUERY_RESERVED_COLUMN_NAME :: keyword_set where
  "BIGQUERY_RESERVED_COLUMN_NAME =
    keyword_set_union RESERVED_COLUMN_NAME PIVOT_RESERVATION"

subsection \<open>databricks.rs\<close>

definition DATABRICKS_RESERVED_COLUMN_NAME :: keyword_set where
  "DATABRICKS_RESERVED_COLUMN_NAME =
    keyword_set_union RESERVED_COLUMN_NAME QUALIFY_RESERVATION"

definition DATABRICKS_RESERVED_FUNCTION_NAME :: keyword_set where
  "DATABRICKS_RESERVED_FUNCTION_NAME =
    keyword_set_union RESERVED_FUNCTION_NAME QUALIFY_RESERVATION"

definition DATABRICKS_RESERVED_TYPE_NAME :: keyword_set where
  "DATABRICKS_RESERVED_TYPE_NAME =
    keyword_set_union RESERVED_TYPE_NAME QUALIFY_RESERVATION"

definition DATABRICKS_RESERVED_BARE_ALIAS :: keyword_set where
  "DATABRICKS_RESERVED_BARE_ALIAS =
    keyword_set_union RESERVED_BARE_ALIAS QUALIFY_RESERVATION"

subsection \<open>quiltdb.rs\<close>

definition QUILTDB_RESERVED_COLUMN_NAME :: keyword_set where
  "QUILTDB_RESERVED_COLUMN_NAME =
    keyword_set_union (keyword_set_union RESERVED_COLUMN_NAME QUALIFY_RESERVATION)
      PIVOT_RESERVATION"

definition QUILTDB_RESERVED_BARE_ALIAS :: keyword_set where
  "QUILTDB_RESERVED_BARE_ALIAS =
    keyword_set_union (keyword_set_union RESERVED_BARE_ALIAS QUALIFY_RESERVATION)
      PIVOT_RESERVATION"

end
