(* ===== verification/Preset_Ansi.thy ===== *)
theory Preset_Ansi
  imports Keyword_Reservations
begin

text \<open>
  The ANSI preset, \<open>crates/squonk-ast/src/dialect/ansi.rs\<close>: the value of every feature record and
  the \<open>FeatureSet\<close> that collects them. A preset \<open>X::NAME\<close> of the struct \<open>X\<close> is \<open>X_NAME\<close>; a struct
  update \<open>..Self::BASE\<close> is a record update of the base.
\<close>

definition STANDARD_IDENTIFIER_QUOTES :: "identifier_quote list" where
  "STANDARD_IDENTIFIER_QUOTES =
    [Symmetric 34]"

definition CommentSyntax_ANSI :: comment_syntax where
  "CommentSyntax_ANSI =
    \<lparr> cs_line_comment_hash = False,
      cs_line_comment_ends_at_carriage_return = False,
      cs_nested_block_comments = True,
      cs_versioned_comments = None,
      cs_unterminated_block_comment_at_eof = False \<rparr>"

definition StringLiteralSyntax_ANSI :: string_literal_syntax where
  "StringLiteralSyntax_ANSI =
    \<lparr> sl_escape_strings = False,
      sl_dollar_quoted_strings = False,
      sl_national_strings = False,
      sl_double_quoted_strings = False,
      sl_backslash_escapes = False,
      sl_unicode_strings = False,
      sl_bit_string_literals = False,
      sl_blob_literals = False,
      sl_charset_introducers = False,
      sl_same_line_adjacent_concat = False \<rparr>"

definition NumericLiteralSyntax_ANSI :: numeric_literal_syntax where
  "NumericLiteralSyntax_ANSI =
    \<lparr> nl_hex_integers = False,
      nl_octal_integers = False,
      nl_binary_integers = False,
      nl_underscore_separators = False,
      nl_radix_leading_underscore = False,
      nl_reject_trailing_junk = False,
      nl_money_literals = False \<rparr>"

definition ParameterSyntax_ANSI :: parameter_syntax where
  "ParameterSyntax_ANSI =
    \<lparr> pa_positional_dollar = False,
      pa_positional_dollar_large = False,
      pa_anonymous_question = False,
      pa_named_colon = False,
      pa_named_at = False,
      pa_named_dollar = False,
      pa_numbered_question = False \<rparr>"

definition SessionVariableSyntax_ANSI :: session_variable_syntax where
  "SessionVariableSyntax_ANSI =
    \<lparr> sv_user_variables = False,
      sv_system_variables = False,
      sv_variable_assignment = False \<rparr>"

definition IdentifierSyntax_ANSI :: identifier_syntax where
  "IdentifierSyntax_ANSI =
    \<lparr> ids_non_ascii = UnicodeAlphanumeric,
      ids_dollar_in_identifiers = False,
      ids_string_literal_identifiers = False,
      ids_string_literal_table_names = False,
      ids_empty_quoted_identifiers = False \<rparr>"

definition TableExpressionSyntax_ANSI :: table_expression_syntax where
  "TableExpressionSyntax_ANSI =
    \<lparr> te_only = False,
      te_table_sample = False,
      te_parenthesized_joins = True,
      te_table_alias_column_lists = True,
      te_join_using_alias = False,
      te_index_hints = False,
      te_table_hints = False,
      te_partition_selection = False,
      te_base_table_alias_column_lists = True,
      te_string_literal_aliases = False,
      te_aliased_parenthesized_join = True,
      te_bare_table_alias_is_bare_label = False,
      te_table_version = False,
      te_table_json_path = False,
      te_indexed_by = False,
      te_prefix_colon_alias = False \<rparr>"

definition JoinSyntax_ANSI :: join_syntax where
  "JoinSyntax_ANSI =
    \<lparr> js_stacked_join_qualifiers = True,
      js_full_outer_join = True,
      js_natural_cross_join = False,
      js_straight_join = False,
      js_asof_join = False,
      js_positional_join = False,
      js_semi_anti_join = False,
      js_sided_semi_anti_join = False,
      js_apply_join = False,
      js_recursive_search_cycle = False,
      js_recursive_union_rejects_order_limit = False,
      js_recursive_using_key = False \<rparr>"

definition TableFactorSyntax_ANSI :: table_factor_syntax where
  "TableFactorSyntax_ANSI =
    \<lparr> tf_lateral = False,
      tf_table_functions = False,
      tf_rows_from = False,
      tf_unnest = False,
      tf_unnest_with_offset = False,
      tf_table_function_ordinality = False,
      tf_special_function_table_source = True,
      tf_pivot = False,
      tf_unpivot = False,
      tf_show_ref = False,
      tf_from_values = False,
      tf_json_table = False,
      tf_xml_table = False,
      tf_table_expr_factor = False,
      tf_pivot_value_sources = False,
      tf_match_recognize = False,
      tf_open_json = False \<rparr>"

definition MutationSyntax_ANSI :: mutation_syntax where
  "MutationSyntax_ANSI =
    \<lparr> mu_insert_ignore = False,
      mu_insert_overwrite = False,
      mu_returning = False,
      mu_on_conflict = False,
      mu_on_duplicate_key_update = False,
      mu_multi_column_assignment = False,
      mu_update_tuple_value_row_arity = False,
      mu_where_current_of = False,
      mu_merge = True,
      mu_replace_into = False,
      mu_insert_set = False,
      mu_update_delete_tails = False,
      mu_joined_update_delete = False,
      mu_or_conflict_action = False,
      mu_insert_column_matching = False,
      mu_delete_using = True,
      mu_update_from = True,
      mu_delete_using_target_alias = True,
      mu_cte_before_insert = True,
      mu_cte_before_merge = False,
      mu_data_modifying_ctes = False,
      mu_merge_when_not_matched_by = False,
      mu_merge_insert_default_values = False,
      mu_merge_insert_overriding = True,
      mu_merge_insert_multirow = False,
      mu_merge_update_set_star = False,
      mu_merge_insert_star_by_name = False,
      mu_merge_error_action = False,
      mu_update_set_qualified_column = True \<rparr>"

definition StatementDdlGates_ANSI :: statement_ddl_gates where
  "StatementDdlGates_ANSI =
    \<lparr> sd_colocation_groups = False,
      sd_create_trigger = False,
      sd_create_macro = False,
      sd_create_secret = False,
      sd_create_type = False,
      sd_create_virtual_table = False,
      sd_create_sequence = False,
      sd_extension_ddl = False,
      sd_transform_ddl = False,
      sd_alter_system = False,
      sd_tablespace_ddl = False,
      sd_logfile_group_ddl = False,
      sd_schemas = True,
      sd_schema_elements = False,
      sd_databases = True,
      sd_drop_database = False,
      sd_materialized_views = True,
      sd_routines = True,
      sd_or_replace = True,
      sd_create_or_replace_table = False,
      sd_create_or_replace_materialized_view = False,
      sd_compound_statements = False,
      sd_alter_database = False,
      sd_alter_database_options = False,
      sd_server_definition = False,
      sd_alter_instance = False,
      sd_spatial_reference_system = False,
      sd_resource_group = False,
      sd_alter_sequence = False,
      sd_alter_object_set_schema = False \<rparr>"

definition ViewSequenceClauseSyntax_ANSI :: view_sequence_clause_syntax where
  "ViewSequenceClauseSyntax_ANSI =
    \<lparr> vs_create_sequence_cache = False,
      vs_materialized_view_to = False,
      vs_temporary_views = True,
      vs_recursive_views = False,
      vs_view_definition_options = False \<rparr>"

definition CreateTableClauseSyntax_ANSI :: create_table_clause_syntax where
  "CreateTableClauseSyntax_ANSI =
    \<lparr> ct_table_options = False,
      ct_without_rowid_table_option = False,
      ct_strict_table_option = False,
      ct_storage_parameters = True,
      ct_on_commit = True,
      ct_create_table_as_with_data = True,
      ct_create_table_as_execute = False,
      ct_declarative_partitioning = False,
      ct_table_inheritance = False,
      ct_like_source_table = False,
      ct_statement_level_table_like = False,
      ct_unlogged_tables = False,
      ct_table_access_method = False,
      ct_without_oids = False,
      ct_typed_tables = False \<rparr>"

definition ColumnDefinitionSyntax_ANSI :: column_definition_syntax where
  "ColumnDefinitionSyntax_ANSI =
    \<lparr> cd_generated_column_shorthand = False,
      cd_column_conflict_resolution_clause = False,
      cd_typeless_column_definitions = False,
      cd_typeless_generated_columns = False,
      cd_joined_autoincrement_attribute = False,
      cd_underscored_autoincrement_attribute = False,
      cd_inline_primary_key_ordering = False,
      cd_named_column_collate_constraint = False,
      cd_identity_columns = True,
      cd_compact_identity_columns = False,
      cd_default_expression_requires_parens = False,
      cd_column_default_requires_b_expr = False,
      cd_column_collation = False,
      cd_column_storage = False \<rparr>"

definition ConstraintSyntax_ANSI :: constraint_syntax where
  "ConstraintSyntax_ANSI =
    \<lparr> co_deferrable_constraints = True,
      co_named_inline_non_check_constraints = True,
      co_bare_constraint_name = False,
      co_exclusion_constraints = False,
      co_constraint_no_inherit_not_valid = False,
      co_index_constraint_parameters = False,
      co_constraint_column_collate_order = False,
      co_referential_action_cascade_set = True,
      co_check_constraint_subqueries = True \<rparr>"

definition IndexAlterSyntax_ANSI :: index_alter_syntax where
  "IndexAlterSyntax_ANSI =
    \<lparr> ia_rename_constraint = False,
      ia_alter_table_set_options = False,
      ia_drop_primary_key = False,
      ia_alter_column_add_identity = False,
      ia_index_storage_parameters = False,
      ia_drop_behavior = True,
      ia_index_drop_on_table = False,
      ia_alter_table_drop_index = False,
      ia_index_concurrently = False,
      ia_index_using_method = False,
      ia_partial_index = False,
      ia_index_if_not_exists = True,
      ia_index_nulls_order = True,
      ia_alter_table_extended = True,
      ia_alter_table_multiple_actions = True,
      ia_alter_existence_guards = True,
      ia_alter_nested_column_paths = False,
      ia_alter_column_set_data_type = True,
      ia_routine_arg_types = True,
      ia_routine_arg_defaults = True,
      ia_routine_arg_modes = True,
      ia_routine_language_string = False \<rparr>"

definition ExistenceGuards_ANSI :: existence_guards where
  "ExistenceGuards_ANSI =
    \<lparr> eg_if_exists = False,
      eg_view_if_not_exists = False,
      eg_create_database_if_not_exists = False \<rparr>"

definition SelectSyntax_ANSI :: select_syntax where
  "SelectSyntax_ANSI =
    \<lparr> se_distinct_on = False,
      se_select_into = False,
      se_empty_target_list = False,
      se_qualify = False,
      se_alias_string_literals = False,
      se_bare_alias_string_literals = False,
      se_from_first = False,
      se_explicit_table = True,
      se_union_by_name = False,
      se_wildcard_modifiers = False,
      se_wildcard_replace = False,
      se_intersect_all = True,
      se_except_all = True,
      se_qualified_wildcard_alias = False,
      se_parenthesized_query_operands = True,
      se_values_rows_require_equal_arity = False,
      se_values_row_constructor = True,
      se_as_alias_rejects_reserved = False,
      se_trailing_comma = False,
      se_prefix_colon_alias = False,
      se_lateral_view_clause = False,
      se_connect_by_clause = False \<rparr>"

definition QueryTailSyntax_ANSI :: query_tail_syntax where
  "QueryTailSyntax_ANSI =
    \<lparr> qt_fetch_first = True,
      qt_limit_offset_comma = False,
      qt_locking_clauses = False,
      qt_key_lock_strengths = False,
      qt_stacked_locking_clauses = False,
      qt_using_sample = False,
      qt_leading_offset = True,
      qt_limit_expressions = True,
      qt_limit_percent = False,
      qt_with_ties_requires_order_by = False,
      qt_pipe_syntax = False,
      qt_limit_by_clause = False,
      qt_settings_clause = False,
      qt_format_clause = False,
      qt_for_xml_json_clause = False \<rparr>"

definition GroupingSyntax_ANSI :: grouping_syntax where
  "GroupingSyntax_ANSI =
    \<lparr> gr_grouping_sets = True,
      gr_with_rollup = False,
      gr_order_by_using = False,
      gr_group_by_all = False,
      gr_group_by_set_quantifier = False,
      gr_order_by_all = False \<rparr>"

definition UtilitySyntax_ANSI :: utility_syntax where
  "UtilitySyntax_ANSI =
    \<lparr> ut_copy = False,
      ut_copy_into = False,
      ut_stage_references = False,
      ut_comment_on = False,
      ut_comment_if_exists = False,
      ut_pragma = False,
      ut_attach = False,
      ut_kill = False,
      ut_handler_statements = False,
      ut_plugin_component_statements = False,
      ut_shutdown = False,
      ut_restart = False,
      ut_clone = False,
      ut_import_table = False,
      ut_help_statement = False,
      ut_binlog = False,
      ut_key_cache_statements = False,
      ut_use_statement = False,
      ut_use_qualified_name = False,
      ut_use_string_literal_name = False,
      ut_prepared_statements = False,
      ut_prepare_typed_parameters = False,
      ut_prepared_statements_from = False,
      ut_call = False,
      ut_call_bare_name = False,
      ut_load_extension = False,
      ut_load_bare_name = False,
      ut_load_data = False,
      ut_reset_scope = False,
      ut_detach_if_exists = False,
      ut_do_statement = False,
      ut_do_expression_list = False,
      ut_lock_tables = False,
      ut_lock_instance = False,
      ut_rename_statement = False,
      ut_signal_diagnostics = False,
      ut_export_import_database = False,
      ut_update_extensions = False,
      ut_flush = False,
      ut_purge_binary_logs = False,
      ut_replication_statements = False \<rparr>"

definition TransactionSyntax_ANSI :: transaction_syntax where
  "TransactionSyntax_ANSI =
    \<lparr> tx_start_transaction = True,
      tx_start_transaction_block_optional = False,
      tx_transaction_work_keyword = True,
      tx_begin_transaction_keyword = True,
      tx_commit_transaction_keyword = True,
      tx_rollback_transaction_keyword = True,
      tx_transaction_name = False,
      tx_begin_transaction_modes = True,
      tx_transaction_savepoints = True,
      tx_set_transaction = True,
      tx_transaction_isolation_mode = True,
      tx_transaction_access_mode = True,
      tx_transaction_deferrable_mode = True,
      tx_start_transaction_isolation_mode = True,
      tx_start_transaction_deferrable_mode = True,
      tx_start_transaction_consistent_snapshot = False,
      tx_transaction_multiple_modes = True,
      tx_transaction_modes_require_commas = False,
      tx_transaction_modes_reject_duplicates = False,
      tx_abort_transaction_alias = False,
      tx_end_transaction_alias = False,
      tx_transaction_release = False,
      tx_transaction_chain = True,
      tx_release_savepoint_keyword_optional = True,
      tx_begin_transaction_mode = False,
      tx_xa_transactions = False \<rparr>"

definition ShowSyntax_ANSI :: show_syntax where
  "ShowSyntax_ANSI =
    \<lparr> sh_describe = False,
      sh_describe_summarize = False,
      sh_session_statements = True,
      sh_set_value_reserved_words = RESERVED_SET_VALUE_WORDS,
      sh_set_value_on_keyword = True,
      sh_set_value_null_keyword = False,
      sh_show_tables = False,
      sh_show_columns = False,
      sh_show_create_table = False,
      sh_show_functions = False,
      sh_show_routine_status = False,
      sh_show_verbose = False,
      sh_show_admin = False \<rparr>"

definition MaintenanceSyntax_ANSI :: maintenance_syntax where
  "MaintenanceSyntax_ANSI =
    \<lparr> ma_vacuum = False,
      ma_vacuum_analyze = False,
      ma_reindex = False,
      ma_analyze = False,
      ma_analyze_columns = False,
      ma_checkpoint = False,
      ma_checkpoint_database = False,
      ma_table_maintenance = False \<rparr>"

definition AccessControlSyntax_ANSI :: access_control_syntax where
  "AccessControlSyntax_ANSI =
    \<lparr> ac_alter_role_rename = False,
      ac_access_control = True,
      ac_access_control_extended_objects = True,
      ac_user_role_management = False,
      ac_access_control_account_grants = False \<rparr>"

definition TypeNameSyntax_ANSI :: type_name_syntax where
  "TypeNameSyntax_ANSI =
    \<lparr> tn_extended_scalar_type_names = False,
      tn_enum_type = False,
      tn_set_type = False,
      tn_numeric_modifiers = False,
      tn_integer_display_width = False,
      tn_composite_types = False,
      tn_angle_bracket_types = False,
      tn_varchar_requires_length = False,
      tn_zoned_temporal_types = True,
      tn_empty_type_parens = False,
      tn_character_set_annotation = False,
      tn_signed_type_modifier = False,
      tn_nullable_type = False,
      tn_low_cardinality_type = False,
      tn_fixed_string_type = False,
      tn_datetime64_type = False,
      tn_nested_type = False,
      tn_bit_width_integer_names = False,
      tn_liberal_type_names = False,
      tn_string_type_modifiers = False \<rparr>"

definition ExpressionSyntax_ANSI :: expression_syntax where
  "ExpressionSyntax_ANSI =
    \<lparr> es_typecast_operator = False,
      es_subscript = False,
      es_slice_step = False,
      es_collate = False,
      es_at_time_zone = False,
      es_semi_structured_access = False,
      es_array_constructor = False,
      es_multidim_array_literals = False,
      es_collection_literals = False,
      es_row_constructor = False,
      es_struct_constructor = False,
      es_field_selection = False,
      es_field_wildcard = False,
      es_typed_string_literals = True,
      es_typed_interval_literal = True,
      es_relaxed_interval_syntax = False,
      es_mysql_interval_operator = False,
      es_positional_column = False,
      es_lambda_keyword = False \<rparr>"

definition OperatorSyntax_ANSI :: operator_syntax where
  "OperatorSyntax_ANSI =
    \<lparr> os_operator_construct = False,
      os_containment_operators = False,
      os_json_arrow_operators = False,
      os_jsonb_operators = False,
      os_double_equals = False,
      os_integer_divide_slash = False,
      os_starts_with_operator = False,
      os_is_general_equality = False,
      os_truth_value_tests = True,
      os_null_safe_equals = False,
      os_lambda_expressions = False,
      os_bitwise_operators = False,
      os_quantified_comparisons = True,
      os_quantified_comparison_lists = False,
      os_quantified_arbitrary_operator = False,
      os_custom_operators = False,
      os_null_test_postfix = False,
      os_postfix_operators = False \<rparr>"

definition CallSyntax_ANSI :: call_syntax where
  "CallSyntax_ANSI =
    \<lparr> ca_named_argument = False,
      ca_utc_special_functions = False,
      ca_columns_expression = False,
      ca_extract_from_syntax = True,
      ca_try_cast = False,
      ca_restricted_cast_targets = False,
      ca_extract_string_field = False,
      ca_method_chaining = False,
      ca_sqljson_constructors_require_argument = False,
      ca_sqljson_expression_functions = False,
      ca_xml_expression_functions = False,
      ca_variadic_argument = False,
      ca_merge_action_function = False,
      ca_convert_function = False \<rparr>"

definition StringFuncForms_ANSI :: string_func_forms where
  "StringFuncForms_ANSI =
    \<lparr> sf_substring_from_for = True,
      sf_substring_leading_for = False,
      sf_substring_similar = False,
      sf_substring_plain_call_requires_2_or_3_args = False,
      sf_substr_from_for = False,
      sf_position_in = True,
      sf_position_asymmetric_operands = False,
      sf_overlay_placing = True,
      sf_overlay_requires_placing = True,
      sf_trim_from = True,
      sf_trim_list_syntax = False,
      sf_collation_for_expression = False,
      sf_ceil_to_field = False,
      sf_floor_to_field = False,
      sf_match_against = False \<rparr>"

definition AggregateCallSyntax_ANSI :: aggregate_call_syntax where
  "AggregateCallSyntax_ANSI =
    \<lparr> ag_group_concat_separator = False,
      ag_within_group = True,
      ag_aggregate_filter = True,
      ag_filter_optional_where = False,
      ag_aggregate_args_require_adjacent_paren = False,
      ag_null_treatment = False,
      ag_aggregate_calls_reject_empty_arguments = False,
      ag_over_requires_windowable_function = False,
      ag_window_function_tail = False,
      ag_standalone_argument_order_by = False \<rparr>"

definition PredicateSyntax_ANSI :: predicate_syntax where
  "PredicateSyntax_ANSI =
    \<lparr> pr_is_distinct_from = True,
      pr_like = True,
      pr_ilike = False,
      pr_similar_to = False,
      pr_overlaps_period_predicate = False,
      pr_unparenthesized_in_list = False,
      pr_pattern_match_quantifier = False,
      pr_between_symmetric = False,
      pr_is_normalized = False,
      pr_empty_in_list = False,
      pr_null_test_two_word_postfix = False \<rparr>"

definition FeatureSet_ANSI :: feature_set where
  "FeatureSet_ANSI =
    \<lparr> identifier_casing = Casing_Upper,
      identifier_quotes = STANDARD_IDENTIFIER_QUOTES,
      default_null_ordering = NullsLast,
      reserved_column_name = RESERVED_COLUMN_NAME,
      reserved_function_name = RESERVED_FUNCTION_NAME,
      reserved_type_name = RESERVED_TYPE_NAME,
      reserved_bare_alias = RESERVED_BARE_ALIAS,
      reserved_as_label = KEYWORD_SET_EMPTY,
      catalog_qualified_names = True,
      byte_classes = STANDARD_BYTE_CLASSES,
      binding_powers = STANDARD_BINDING_POWERS,
      set_operation_powers = STANDARD_SET_OPERATION_BINDING_POWERS,
      string_literals = StringLiteralSyntax_ANSI,
      numeric_literals = NumericLiteralSyntax_ANSI,
      parameters = ParameterSyntax_ANSI,
      session_variables = SessionVariableSyntax_ANSI,
      identifier_syntax = IdentifierSyntax_ANSI,
      table_expressions = TableExpressionSyntax_ANSI,
      join_syntax = JoinSyntax_ANSI,
      table_factor_syntax = TableFactorSyntax_ANSI,
      expression_syntax = ExpressionSyntax_ANSI,
      operator_syntax = OperatorSyntax_ANSI,
      call_syntax = CallSyntax_ANSI,
      string_func_forms = StringFuncForms_ANSI,
      aggregate_call_syntax = AggregateCallSyntax_ANSI,
      predicate_syntax = PredicateSyntax_ANSI,
      pipe_operator = Pipe_StringConcat,
      double_ampersand = Amp_Unsupported,
      keyword_operators = KwOps_Unsupported,
      caret_operator = Caret_Unsupported,
      hash_bitwise_xor = False,
      comment_syntax = CommentSyntax_ANSI,
      mutation_syntax = MutationSyntax_ANSI,
      statement_ddl_gates = StatementDdlGates_ANSI,
      view_sequence_clause_syntax = ViewSequenceClauseSyntax_ANSI,
      create_table_clause_syntax = CreateTableClauseSyntax_ANSI,
      column_definition_syntax = ColumnDefinitionSyntax_ANSI,
      constraint_syntax = ConstraintSyntax_ANSI,
      index_alter_syntax = IndexAlterSyntax_ANSI,
      existence_guards = ExistenceGuards_ANSI,
      select_syntax = SelectSyntax_ANSI,
      query_tail_syntax = QueryTailSyntax_ANSI,
      grouping_syntax = GroupingSyntax_ANSI,
      utility_syntax = UtilitySyntax_ANSI,
      transaction_syntax = TransactionSyntax_ANSI,
      show_syntax = ShowSyntax_ANSI,
      maintenance_syntax = MaintenanceSyntax_ANSI,
      access_control_syntax = AccessControlSyntax_ANSI,
      type_name_syntax = TypeNameSyntax_ANSI,
      target_spelling = Target_Ansi \<rparr>"

end
