(* ===== verification/Preset_Postgres.thy ===== *)
theory Preset_Postgres
  imports Preset_Ansi
begin

text \<open>
  The PostgreSQL preset, \<open>crates/squonk-ast/src/dialect/postgres.rs\<close>: the value of every feature record and
  the \<open>FeatureSet\<close> that collects them. A preset \<open>X::NAME\<close> of the struct \<open>X\<close> is \<open>X_NAME\<close>; a struct
  update \<open>..Self::BASE\<close> is a record update of the base.
\<close>

definition CommentSyntax_POSTGRES :: comment_syntax where
  "CommentSyntax_POSTGRES =
    \<lparr> cs_line_comment_hash = False,
      cs_line_comment_ends_at_carriage_return = True,
      cs_nested_block_comments = True,
      cs_versioned_comments = None,
      cs_unterminated_block_comment_at_eof = False \<rparr>"

definition StringLiteralSyntax_POSTGRES :: string_literal_syntax where
  "StringLiteralSyntax_POSTGRES =
    \<lparr> sl_escape_strings = True,
      sl_dollar_quoted_strings = True,
      sl_national_strings = False,
      sl_double_quoted_strings = False,
      sl_backslash_escapes = False,
      sl_unicode_strings = True,
      sl_bit_string_literals = True,
      sl_blob_literals = False,
      sl_charset_introducers = False,
      sl_same_line_adjacent_concat = False \<rparr>"

definition NumericLiteralSyntax_POSTGRES :: numeric_literal_syntax where
  "NumericLiteralSyntax_POSTGRES =
    \<lparr> nl_hex_integers = True,
      nl_octal_integers = True,
      nl_binary_integers = True,
      nl_underscore_separators = True,
      nl_radix_leading_underscore = True,
      nl_reject_trailing_junk = True,
      nl_money_literals = False \<rparr>"

definition ParameterSyntax_POSTGRES :: parameter_syntax where
  "ParameterSyntax_POSTGRES =
    \<lparr> pa_positional_dollar = True,
      pa_positional_dollar_large = True,
      pa_anonymous_question = False,
      pa_named_colon = False,
      pa_named_at = False,
      pa_named_dollar = False,
      pa_numbered_question = False \<rparr>"

definition IdentifierSyntax_POSTGRES :: identifier_syntax where
  "IdentifierSyntax_POSTGRES =
    \<lparr> ids_non_ascii = NonAscii_Any,
      ids_dollar_in_identifiers = True,
      ids_string_literal_identifiers = False,
      ids_string_literal_table_names = False,
      ids_empty_quoted_identifiers = False \<rparr>"

definition TableExpressionSyntax_POSTGRES :: table_expression_syntax where
  "TableExpressionSyntax_POSTGRES =
    \<lparr> te_only = True,
      te_table_sample = True,
      te_parenthesized_joins = True,
      te_table_alias_column_lists = True,
      te_join_using_alias = True,
      te_index_hints = False,
      te_table_hints = False,
      te_partition_selection = False,
      te_base_table_alias_column_lists = True,
      te_string_literal_aliases = False,
      te_aliased_parenthesized_join = True,
      te_bare_table_alias_is_bare_label = False,
      te_table_version = False,
      te_table_json_path = False,
      te_indexed_by = False,
      te_prefix_colon_alias = False \<rparr>"

definition JoinSyntax_POSTGRES :: join_syntax where
  "JoinSyntax_POSTGRES =
    \<lparr> js_stacked_join_qualifiers = True,
      js_full_outer_join = True,
      js_natural_cross_join = False,
      js_straight_join = False,
      js_asof_join = False,
      js_positional_join = False,
      js_semi_anti_join = False,
      js_sided_semi_anti_join = False,
      js_apply_join = False,
      js_recursive_search_cycle = True,
      js_recursive_union_rejects_order_limit = False,
      js_recursive_using_key = False \<rparr>"

definition TableFactorSyntax_POSTGRES :: table_factor_syntax where
  "TableFactorSyntax_POSTGRES =
    \<lparr> tf_lateral = True,
      tf_table_functions = True,
      tf_rows_from = True,
      tf_unnest = True,
      tf_unnest_with_offset = False,
      tf_table_function_ordinality = True,
      tf_special_function_table_source = True,
      tf_pivot = False,
      tf_unpivot = False,
      tf_show_ref = False,
      tf_from_values = False,
      tf_json_table = True,
      tf_xml_table = True,
      tf_table_expr_factor = False,
      tf_pivot_value_sources = False,
      tf_match_recognize = False,
      tf_open_json = False \<rparr>"

definition MutationSyntax_POSTGRES :: mutation_syntax where
  "MutationSyntax_POSTGRES =
    \<lparr> mu_insert_ignore = False,
      mu_insert_overwrite = False,
      mu_returning = True,
      mu_on_conflict = True,
      mu_on_duplicate_key_update = False,
      mu_multi_column_assignment = True,
      mu_update_tuple_value_row_arity = False,
      mu_where_current_of = True,
      mu_merge = True,
      mu_replace_into = False,
      mu_insert_set = False,
      mu_update_delete_tails = False,
      mu_joined_update_delete = False,
      mu_or_conflict_action = False,
      mu_insert_column_matching = False,
      mu_delete_using = True,
      mu_update_from = True,
      mu_delete_using_target_alias = True,
      mu_cte_before_insert = True,
      mu_cte_before_merge = True,
      mu_data_modifying_ctes = True,
      mu_merge_when_not_matched_by = True,
      mu_merge_insert_default_values = True,
      mu_merge_insert_overriding = True,
      mu_merge_insert_multirow = False,
      mu_merge_update_set_star = False,
      mu_merge_insert_star_by_name = False,
      mu_merge_error_action = False,
      mu_update_set_qualified_column = True \<rparr>"

definition StatementDdlGates_POSTGRES :: statement_ddl_gates where
  "StatementDdlGates_POSTGRES =
    \<lparr> sd_colocation_groups = False,
      sd_create_trigger = False,
      sd_create_macro = False,
      sd_create_secret = False,
      sd_create_type = False,
      sd_create_virtual_table = False,
      sd_create_sequence = True,
      sd_extension_ddl = True,
      sd_transform_ddl = True,
      sd_alter_system = True,
      sd_tablespace_ddl = False,
      sd_logfile_group_ddl = False,
      sd_schemas = True,
      sd_schema_elements = True,
      sd_databases = True,
      sd_drop_database = False,
      sd_materialized_views = True,
      sd_routines = True,
      sd_or_replace = True,
      sd_create_or_replace_table = False,
      sd_create_or_replace_materialized_view = False,
      sd_compound_statements = False,
      sd_alter_database = False,
      sd_alter_database_options = False,
      sd_server_definition = False,
      sd_alter_instance = False,
      sd_spatial_reference_system = False,
      sd_resource_group = False,
      sd_alter_sequence = False,
      sd_alter_object_set_schema = False \<rparr>"

definition ViewSequenceClauseSyntax_POSTGRES :: view_sequence_clause_syntax where
  "ViewSequenceClauseSyntax_POSTGRES =
    \<lparr> vs_create_sequence_cache = True,
      vs_materialized_view_to = False,
      vs_temporary_views = True,
      vs_recursive_views = False,
      vs_view_definition_options = False \<rparr>"

definition CreateTableClauseSyntax_POSTGRES :: create_table_clause_syntax where
  "CreateTableClauseSyntax_POSTGRES =
    \<lparr> ct_table_options = False,
      ct_without_rowid_table_option = False,
      ct_strict_table_option = False,
      ct_storage_parameters = True,
      ct_on_commit = True,
      ct_create_table_as_with_data = True,
      ct_create_table_as_execute = True,
      ct_declarative_partitioning = True,
      ct_table_inheritance = True,
      ct_like_source_table = True,
      ct_statement_level_table_like = False,
      ct_unlogged_tables = True,
      ct_table_access_method = True,
      ct_without_oids = True,
      ct_typed_tables = True \<rparr>"

definition ColumnDefinitionSyntax_POSTGRES :: column_definition_syntax where
  "ColumnDefinitionSyntax_POSTGRES =
    \<lparr> cd_generated_column_shorthand = False,
      cd_column_conflict_resolution_clause = False,
      cd_typeless_column_definitions = False,
      cd_typeless_generated_columns = False,
      cd_joined_autoincrement_attribute = False,
      cd_underscored_autoincrement_attribute = False,
      cd_inline_primary_key_ordering = False,
      cd_named_column_collate_constraint = False,
      cd_identity_columns = True,
      cd_compact_identity_columns = False,
      cd_default_expression_requires_parens = False,
      cd_column_default_requires_b_expr = True,
      cd_column_collation = True,
      cd_column_storage = True \<rparr>"

definition ConstraintSyntax_POSTGRES :: constraint_syntax where
  "ConstraintSyntax_POSTGRES =
    \<lparr> co_deferrable_constraints = True,
      co_named_inline_non_check_constraints = True,
      co_bare_constraint_name = False,
      co_exclusion_constraints = True,
      co_constraint_no_inherit_not_valid = True,
      co_index_constraint_parameters = True,
      co_constraint_column_collate_order = False,
      co_referential_action_cascade_set = True,
      co_check_constraint_subqueries = True \<rparr>"

definition IndexAlterSyntax_POSTGRES :: index_alter_syntax where
  "IndexAlterSyntax_POSTGRES =
    \<lparr> ia_rename_constraint = True,
      ia_alter_table_set_options = True,
      ia_drop_primary_key = False,
      ia_alter_column_add_identity = False,
      ia_index_storage_parameters = True,
      ia_drop_behavior = True,
      ia_index_drop_on_table = False,
      ia_alter_table_drop_index = False,
      ia_index_concurrently = True,
      ia_index_using_method = True,
      ia_partial_index = True,
      ia_index_if_not_exists = True,
      ia_index_nulls_order = True,
      ia_alter_table_extended = True,
      ia_alter_table_multiple_actions = True,
      ia_alter_existence_guards = True,
      ia_alter_nested_column_paths = False,
      ia_alter_column_set_data_type = True,
      ia_routine_arg_types = True,
      ia_routine_arg_defaults = True,
      ia_routine_arg_modes = True,
      ia_routine_language_string = True \<rparr>"

definition ExistenceGuards_POSTGRES :: existence_guards where
  "ExistenceGuards_POSTGRES =
    \<lparr> eg_if_exists = True,
      eg_view_if_not_exists = False,
      eg_create_database_if_not_exists = False \<rparr>"

definition SelectSyntax_POSTGRES :: select_syntax where
  "SelectSyntax_POSTGRES =
    \<lparr> se_distinct_on = True,
      se_select_into = True,
      se_empty_target_list = True,
      se_qualify = False,
      se_alias_string_literals = False,
      se_bare_alias_string_literals = False,
      se_from_first = False,
      se_explicit_table = True,
      se_union_by_name = False,
      se_wildcard_modifiers = False,
      se_wildcard_replace = False,
      se_intersect_all = True,
      se_except_all = True,
      se_qualified_wildcard_alias = True,
      se_parenthesized_query_operands = True,
      se_values_rows_require_equal_arity = False,
      se_values_row_constructor = True,
      se_as_alias_rejects_reserved = False,
      se_trailing_comma = False,
      se_prefix_colon_alias = False,
      se_lateral_view_clause = False,
      se_connect_by_clause = False \<rparr>"

definition QueryTailSyntax_POSTGRES :: query_tail_syntax where
  "QueryTailSyntax_POSTGRES =
    \<lparr> qt_fetch_first = True,
      qt_limit_offset_comma = False,
      qt_locking_clauses = True,
      qt_key_lock_strengths = True,
      qt_stacked_locking_clauses = True,
      qt_using_sample = False,
      qt_leading_offset = True,
      qt_limit_expressions = True,
      qt_limit_percent = False,
      qt_with_ties_requires_order_by = True,
      qt_pipe_syntax = False,
      qt_limit_by_clause = False,
      qt_settings_clause = False,
      qt_format_clause = False,
      qt_for_xml_json_clause = False \<rparr>"

definition GroupingSyntax_POSTGRES :: grouping_syntax where
  "GroupingSyntax_POSTGRES =
    \<lparr> gr_grouping_sets = True,
      gr_with_rollup = False,
      gr_order_by_using = True,
      gr_group_by_all = False,
      gr_group_by_set_quantifier = True,
      gr_order_by_all = False \<rparr>"

definition UtilitySyntax_POSTGRES :: utility_syntax where
  "UtilitySyntax_POSTGRES =
    \<lparr> ut_copy = True,
      ut_copy_into = False,
      ut_stage_references = False,
      ut_comment_on = True,
      ut_comment_if_exists = False,
      ut_pragma = False,
      ut_attach = False,
      ut_kill = False,
      ut_handler_statements = False,
      ut_plugin_component_statements = False,
      ut_shutdown = False,
      ut_restart = False,
      ut_clone = False,
      ut_import_table = False,
      ut_help_statement = False,
      ut_binlog = False,
      ut_key_cache_statements = False,
      ut_use_statement = False,
      ut_use_qualified_name = False,
      ut_use_string_literal_name = False,
      ut_prepared_statements = True,
      ut_prepare_typed_parameters = True,
      ut_prepared_statements_from = False,
      ut_call = False,
      ut_call_bare_name = False,
      ut_load_extension = True,
      ut_load_bare_name = False,
      ut_load_data = False,
      ut_reset_scope = False,
      ut_detach_if_exists = False,
      ut_do_statement = True,
      ut_do_expression_list = False,
      ut_lock_tables = False,
      ut_lock_instance = False,
      ut_rename_statement = False,
      ut_signal_diagnostics = False,
      ut_export_import_database = False,
      ut_update_extensions = False,
      ut_flush = False,
      ut_purge_binary_logs = False,
      ut_replication_statements = False \<rparr>"

definition TransactionSyntax_POSTGRES :: transaction_syntax where
  "TransactionSyntax_POSTGRES =
    \<lparr> tx_start_transaction = True,
      tx_start_transaction_block_optional = False,
      tx_transaction_work_keyword = True,
      tx_begin_transaction_keyword = True,
      tx_commit_transaction_keyword = True,
      tx_rollback_transaction_keyword = True,
      tx_transaction_name = False,
      tx_begin_transaction_modes = True,
      tx_transaction_savepoints = True,
      tx_set_transaction = True,
      tx_transaction_isolation_mode = True,
      tx_transaction_access_mode = True,
      tx_transaction_deferrable_mode = True,
      tx_start_transaction_isolation_mode = True,
      tx_start_transaction_deferrable_mode = True,
      tx_start_transaction_consistent_snapshot = False,
      tx_transaction_multiple_modes = True,
      tx_transaction_modes_require_commas = False,
      tx_transaction_modes_reject_duplicates = False,
      tx_abort_transaction_alias = True,
      tx_end_transaction_alias = True,
      tx_transaction_release = False,
      tx_transaction_chain = True,
      tx_release_savepoint_keyword_optional = True,
      tx_begin_transaction_mode = False,
      tx_xa_transactions = False \<rparr>"

definition ShowSyntax_POSTGRES :: show_syntax where
  "ShowSyntax_POSTGRES =
    \<lparr> sh_describe = False,
      sh_describe_summarize = False,
      sh_session_statements = True,
      sh_set_value_reserved_words = RESERVED_SET_VALUE_WORDS,
      sh_set_value_on_keyword = True,
      sh_set_value_null_keyword = False,
      sh_show_tables = False,
      sh_show_columns = False,
      sh_show_create_table = False,
      sh_show_functions = False,
      sh_show_routine_status = False,
      sh_show_verbose = False,
      sh_show_admin = False \<rparr>"

definition MaintenanceSyntax_POSTGRES :: maintenance_syntax where
  "MaintenanceSyntax_POSTGRES =
    \<lparr> ma_vacuum = False,
      ma_vacuum_analyze = False,
      ma_reindex = False,
      ma_analyze = False,
      ma_analyze_columns = False,
      ma_checkpoint = True,
      ma_checkpoint_database = False,
      ma_table_maintenance = False \<rparr>"

definition AccessControlSyntax_POSTGRES :: access_control_syntax where
  "AccessControlSyntax_POSTGRES =
    \<lparr> ac_alter_role_rename = True,
      ac_access_control = True,
      ac_access_control_extended_objects = True,
      ac_user_role_management = False,
      ac_access_control_account_grants = False \<rparr>"

definition TypeNameSyntax_POSTGRES :: type_name_syntax where
  "TypeNameSyntax_POSTGRES =
    \<lparr> tn_extended_scalar_type_names = False,
      tn_enum_type = False,
      tn_set_type = False,
      tn_numeric_modifiers = False,
      tn_integer_display_width = False,
      tn_composite_types = False,
      tn_angle_bracket_types = False,
      tn_varchar_requires_length = False,
      tn_zoned_temporal_types = True,
      tn_empty_type_parens = False,
      tn_character_set_annotation = False,
      tn_signed_type_modifier = True,
      tn_nullable_type = False,
      tn_low_cardinality_type = False,
      tn_fixed_string_type = False,
      tn_datetime64_type = False,
      tn_nested_type = False,
      tn_bit_width_integer_names = False,
      tn_liberal_type_names = False,
      tn_string_type_modifiers = False \<rparr>"

definition ExpressionSyntax_POSTGRES :: expression_syntax where
  "ExpressionSyntax_POSTGRES =
    \<lparr> es_typecast_operator = True,
      es_subscript = True,
      es_slice_step = False,
      es_collate = True,
      es_at_time_zone = True,
      es_semi_structured_access = False,
      es_array_constructor = True,
      es_multidim_array_literals = True,
      es_collection_literals = False,
      es_row_constructor = True,
      es_struct_constructor = False,
      es_field_selection = True,
      es_field_wildcard = True,
      es_typed_string_literals = True,
      es_typed_interval_literal = True,
      es_relaxed_interval_syntax = False,
      es_mysql_interval_operator = False,
      es_positional_column = False,
      es_lambda_keyword = False \<rparr>"

definition OperatorSyntax_POSTGRES :: operator_syntax where
  "OperatorSyntax_POSTGRES =
    \<lparr> os_operator_construct = True,
      os_containment_operators = True,
      os_json_arrow_operators = True,
      os_jsonb_operators = True,
      os_double_equals = False,
      os_integer_divide_slash = False,
      os_starts_with_operator = False,
      os_is_general_equality = False,
      os_truth_value_tests = True,
      os_null_safe_equals = False,
      os_lambda_expressions = False,
      os_bitwise_operators = True,
      os_quantified_comparisons = True,
      os_quantified_comparison_lists = True,
      os_quantified_arbitrary_operator = True,
      os_custom_operators = True,
      os_null_test_postfix = True,
      os_postfix_operators = False \<rparr>"

definition CallSyntax_POSTGRES :: call_syntax where
  "CallSyntax_POSTGRES =
    \<lparr> ca_named_argument = True,
      ca_utc_special_functions = False,
      ca_columns_expression = False,
      ca_extract_from_syntax = True,
      ca_try_cast = False,
      ca_restricted_cast_targets = False,
      ca_extract_string_field = True,
      ca_method_chaining = False,
      ca_sqljson_constructors_require_argument = True,
      ca_sqljson_expression_functions = True,
      ca_xml_expression_functions = True,
      ca_variadic_argument = True,
      ca_merge_action_function = True,
      ca_convert_function = False \<rparr>"

definition StringFuncForms_POSTGRES :: string_func_forms where
  "StringFuncForms_POSTGRES =
    \<lparr> sf_substring_from_for = True,
      sf_substring_leading_for = True,
      sf_substring_similar = True,
      sf_substring_plain_call_requires_2_or_3_args = False,
      sf_substr_from_for = False,
      sf_position_in = True,
      sf_position_asymmetric_operands = False,
      sf_overlay_placing = True,
      sf_overlay_requires_placing = False,
      sf_trim_from = True,
      sf_trim_list_syntax = True,
      sf_collation_for_expression = True,
      sf_ceil_to_field = False,
      sf_floor_to_field = False,
      sf_match_against = False \<rparr>"

definition AggregateCallSyntax_POSTGRES :: aggregate_call_syntax where
  "AggregateCallSyntax_POSTGRES =
    \<lparr> ag_group_concat_separator = False,
      ag_within_group = True,
      ag_aggregate_filter = True,
      ag_filter_optional_where = False,
      ag_aggregate_args_require_adjacent_paren = False,
      ag_null_treatment = False,
      ag_aggregate_calls_reject_empty_arguments = False,
      ag_over_requires_windowable_function = False,
      ag_window_function_tail = False,
      ag_standalone_argument_order_by = False \<rparr>"

definition PredicateSyntax_POSTGRES :: predicate_syntax where
  "PredicateSyntax_POSTGRES =
    \<lparr> pr_is_distinct_from = True,
      pr_like = True,
      pr_ilike = True,
      pr_similar_to = True,
      pr_overlaps_period_predicate = True,
      pr_unparenthesized_in_list = False,
      pr_pattern_match_quantifier = True,
      pr_between_symmetric = True,
      pr_is_normalized = True,
      pr_empty_in_list = False,
      pr_null_test_two_word_postfix = False \<rparr>"

definition FeatureSet_POSTGRES :: feature_set where
  "FeatureSet_POSTGRES =
    \<lparr> identifier_casing = Casing_Lower,
      identifier_quotes = STANDARD_IDENTIFIER_QUOTES,
      default_null_ordering = NullsLast,
      reserved_column_name = RESERVED_COLUMN_NAME,
      reserved_function_name = RESERVED_FUNCTION_NAME,
      reserved_type_name = RESERVED_TYPE_NAME,
      reserved_bare_alias = RESERVED_BARE_ALIAS,
      reserved_as_label = KEYWORD_SET_EMPTY,
      catalog_qualified_names = True,
      byte_classes = POSTGRES_BYTE_CLASSES,
      binding_powers = \<lparr> bp_or = BP 10 11 Assoc_Left,
      bp_xor = BP 15 16 Assoc_Left,
      bp_and = BP 20 21 Assoc_Left,
      bp_comparison = BP 40 41 Assoc_NonAssoc,
      bp_range_predicate_override = Some RANGE_PREDICATE_ABOVE_COMPARISON,
      bp_is_predicate_override = Some IS_PREDICATE_BELOW_COMPARISON,
      bp_double_equals = BP 40 41 Assoc_NonAssoc,
      bp_additive = BP 50 51 Assoc_Left,
      bp_multiplicative = BP 60 61 Assoc_Left,
      bp_exponent = BP 65 66 Assoc_Left,
      bp_string_concat = BP 45 46 Assoc_Left,
      bp_any_operator = BP 45 46 Assoc_Left,
      bp_json_get = BP 45 46 Assoc_Left,
      bp_bitwise_or = BP 45 46 Assoc_Left,
      bp_bitwise_and = BP 45 46 Assoc_Left,
      bp_bitwise_shift = BP 45 46 Assoc_Left,
      bp_bitwise_xor = BP 45 46 Assoc_Left,
      bp_prefix_not = 30,
      bp_prefix_sign = 80,
      bp_prefix_bitwise_not = 46,
      bp_at_time_zone = BP 70 71 Assoc_Left,
      bp_collate = BP 74 75 Assoc_Left,
      bp_subscript = BP 84 85 Assoc_Left,
      bp_typecast = BP 88 89 Assoc_Left,
      bp_field_selection = BP 92 93 Assoc_Left \<rparr>,
      set_operation_powers = STANDARD_SET_OPERATION_BINDING_POWERS,
      string_literals = StringLiteralSyntax_POSTGRES,
      numeric_literals = NumericLiteralSyntax_POSTGRES,
      parameters = ParameterSyntax_POSTGRES,
      session_variables = SessionVariableSyntax_ANSI,
      identifier_syntax = IdentifierSyntax_POSTGRES,
      table_expressions = TableExpressionSyntax_POSTGRES,
      join_syntax = JoinSyntax_POSTGRES,
      table_factor_syntax = TableFactorSyntax_POSTGRES,
      expression_syntax = ExpressionSyntax_POSTGRES,
      operator_syntax = OperatorSyntax_POSTGRES,
      call_syntax = CallSyntax_POSTGRES,
      string_func_forms = StringFuncForms_POSTGRES,
      aggregate_call_syntax = AggregateCallSyntax_POSTGRES,
      predicate_syntax = PredicateSyntax_POSTGRES,
      pipe_operator = Pipe_StringConcat,
      double_ampersand = Amp_Unsupported,
      keyword_operators = KwOps_Unsupported,
      caret_operator = Caret_Exponent,
      hash_bitwise_xor = True,
      comment_syntax = CommentSyntax_POSTGRES,
      mutation_syntax = MutationSyntax_POSTGRES,
      statement_ddl_gates = StatementDdlGates_POSTGRES,
      view_sequence_clause_syntax = ViewSequenceClauseSyntax_POSTGRES,
      create_table_clause_syntax = CreateTableClauseSyntax_POSTGRES,
      column_definition_syntax = ColumnDefinitionSyntax_POSTGRES,
      constraint_syntax = ConstraintSyntax_POSTGRES,
      index_alter_syntax = IndexAlterSyntax_POSTGRES,
      existence_guards = ExistenceGuards_POSTGRES,
      select_syntax = SelectSyntax_POSTGRES,
      query_tail_syntax = QueryTailSyntax_POSTGRES,
      grouping_syntax = GroupingSyntax_POSTGRES,
      utility_syntax = UtilitySyntax_POSTGRES,
      transaction_syntax = TransactionSyntax_POSTGRES,
      show_syntax = ShowSyntax_POSTGRES,
      maintenance_syntax = MaintenanceSyntax_POSTGRES,
      access_control_syntax = AccessControlSyntax_POSTGRES,
      type_name_syntax = TypeNameSyntax_POSTGRES,
      target_spelling = Target_Postgres \<rparr>"

end
