(* ===== verification/Preset_Mysql.thy ===== *)
theory Preset_Mysql
  imports Preset_Ansi
begin

text \<open>
  The MySQL preset, \<open>crates/squonk-ast/src/dialect/mysql.rs\<close>: the value of every feature record and
  the \<open>FeatureSet\<close> that collects them. A preset \<open>X::NAME\<close> of the struct \<open>X\<close> is \<open>X_NAME\<close>; a struct
  update \<open>..Self::BASE\<close> is a record update of the base.
\<close>

definition MYSQL_IDENTIFIER_QUOTES :: "identifier_quote list" where
  "MYSQL_IDENTIFIER_QUOTES =
    [Symmetric 96]"

definition CommentSyntax_MYSQL_8_VERSION_BOUND :: nat where
  "CommentSyntax_MYSQL_8_VERSION_BOUND =
    80499"

definition CommentSyntax_MYSQL :: comment_syntax where
  "CommentSyntax_MYSQL =
    \<lparr> cs_line_comment_hash = True,
      cs_line_comment_ends_at_carriage_return = False,
      cs_nested_block_comments = False,
      cs_versioned_comments = Some CommentSyntax_MYSQL_8_VERSION_BOUND,
      cs_unterminated_block_comment_at_eof = False \<rparr>"

definition StringLiteralSyntax_MYSQL :: string_literal_syntax where
  "StringLiteralSyntax_MYSQL =
    \<lparr> sl_escape_strings = False,
      sl_dollar_quoted_strings = False,
      sl_national_strings = True,
      sl_double_quoted_strings = True,
      sl_backslash_escapes = True,
      sl_unicode_strings = False,
      sl_bit_string_literals = True,
      sl_blob_literals = True,
      sl_charset_introducers = True,
      sl_same_line_adjacent_concat = True \<rparr>"

definition NumericLiteralSyntax_MYSQL :: numeric_literal_syntax where
  "NumericLiteralSyntax_MYSQL =
    \<lparr> nl_hex_integers = True,
      nl_octal_integers = False,
      nl_binary_integers = True,
      nl_underscore_separators = False,
      nl_radix_leading_underscore = False,
      nl_reject_trailing_junk = False,
      nl_money_literals = False \<rparr>"

definition ParameterSyntax_MYSQL :: parameter_syntax where
  "ParameterSyntax_MYSQL =
    \<lparr> pa_positional_dollar = False,
      pa_positional_dollar_large = False,
      pa_anonymous_question = True,
      pa_named_colon = False,
      pa_named_at = False,
      pa_named_dollar = False,
      pa_numbered_question = False \<rparr>"

definition SessionVariableSyntax_MYSQL :: session_variable_syntax where
  "SessionVariableSyntax_MYSQL =
    \<lparr> sv_user_variables = True,
      sv_system_variables = True,
      sv_variable_assignment = True \<rparr>"

definition IdentifierSyntax_MYSQL :: identifier_syntax where
  "IdentifierSyntax_MYSQL =
    \<lparr> ids_non_ascii = NonAscii_Any,
      ids_dollar_in_identifiers = True,
      ids_string_literal_identifiers = False,
      ids_string_literal_table_names = False,
      ids_empty_quoted_identifiers = False \<rparr>"

definition TableExpressionSyntax_MYSQL :: table_expression_syntax where
  "TableExpressionSyntax_MYSQL =
    \<lparr> te_only = False,
      te_table_sample = False,
      te_parenthesized_joins = True,
      te_table_alias_column_lists = True,
      te_join_using_alias = False,
      te_index_hints = True,
      te_table_hints = False,
      te_partition_selection = True,
      te_base_table_alias_column_lists = False,
      te_string_literal_aliases = False,
      te_aliased_parenthesized_join = False,
      te_bare_table_alias_is_bare_label = False,
      te_table_version = False,
      te_table_json_path = False,
      te_indexed_by = False,
      te_prefix_colon_alias = False \<rparr>"

definition JoinSyntax_MYSQL :: join_syntax where
  "JoinSyntax_MYSQL =
    \<lparr> js_stacked_join_qualifiers = True,
      js_full_outer_join = False,
      js_natural_cross_join = False,
      js_straight_join = True,
      js_asof_join = False,
      js_positional_join = False,
      js_semi_anti_join = False,
      js_sided_semi_anti_join = False,
      js_apply_join = False,
      js_recursive_search_cycle = False,
      js_recursive_union_rejects_order_limit = False,
      js_recursive_using_key = False \<rparr>"

definition TableFactorSyntax_MYSQL :: table_factor_syntax where
  "TableFactorSyntax_MYSQL =
    \<lparr> tf_lateral = False,
      tf_table_functions = False,
      tf_rows_from = False,
      tf_unnest = False,
      tf_unnest_with_offset = False,
      tf_table_function_ordinality = False,
      tf_special_function_table_source = False,
      tf_pivot = False,
      tf_unpivot = False,
      tf_show_ref = False,
      tf_from_values = False,
      tf_json_table = False,
      tf_xml_table = False,
      tf_table_expr_factor = False,
      tf_pivot_value_sources = False,
      tf_match_recognize = False,
      tf_open_json = False \<rparr>"

definition MutationSyntax_MYSQL :: mutation_syntax where
  "MutationSyntax_MYSQL =
    \<lparr> mu_insert_ignore = True,
      mu_insert_overwrite = False,
      mu_returning = False,
      mu_on_conflict = False,
      mu_on_duplicate_key_update = True,
      mu_multi_column_assignment = False,
      mu_update_tuple_value_row_arity = False,
      mu_where_current_of = False,
      mu_merge = False,
      mu_replace_into = True,
      mu_insert_set = True,
      mu_update_delete_tails = True,
      mu_joined_update_delete = True,
      mu_or_conflict_action = False,
      mu_insert_column_matching = False,
      mu_delete_using = True,
      mu_update_from = False,
      mu_delete_using_target_alias = False,
      mu_cte_before_insert = False,
      mu_cte_before_merge = False,
      mu_data_modifying_ctes = False,
      mu_merge_when_not_matched_by = False,
      mu_merge_insert_default_values = False,
      mu_merge_insert_overriding = False,
      mu_merge_insert_multirow = False,
      mu_merge_update_set_star = False,
      mu_merge_insert_star_by_name = False,
      mu_merge_error_action = False,
      mu_update_set_qualified_column = True \<rparr>"

definition StatementDdlGates_MYSQL :: statement_ddl_gates where
  "StatementDdlGates_MYSQL =
    \<lparr> sd_colocation_groups = False,
      sd_create_trigger = False,
      sd_create_macro = False,
      sd_create_secret = False,
      sd_create_type = False,
      sd_create_virtual_table = False,
      sd_create_sequence = False,
      sd_extension_ddl = False,
      sd_transform_ddl = False,
      sd_alter_system = False,
      sd_tablespace_ddl = True,
      sd_logfile_group_ddl = True,
      sd_schemas = True,
      sd_schema_elements = False,
      sd_databases = True,
      sd_drop_database = True,
      sd_materialized_views = False,
      sd_routines = True,
      sd_or_replace = True,
      sd_create_or_replace_table = False,
      sd_create_or_replace_materialized_view = False,
      sd_compound_statements = True,
      sd_alter_database = False,
      sd_alter_database_options = True,
      sd_server_definition = True,
      sd_alter_instance = True,
      sd_spatial_reference_system = True,
      sd_resource_group = True,
      sd_alter_sequence = False,
      sd_alter_object_set_schema = False \<rparr>"

definition ViewSequenceClauseSyntax_MYSQL :: view_sequence_clause_syntax where
  "ViewSequenceClauseSyntax_MYSQL =
    \<lparr> vs_create_sequence_cache = False,
      vs_materialized_view_to = False,
      vs_temporary_views = False,
      vs_recursive_views = False,
      vs_view_definition_options = True \<rparr>"

definition CreateTableClauseSyntax_MYSQL :: create_table_clause_syntax where
  "CreateTableClauseSyntax_MYSQL =
    \<lparr> ct_table_options = True,
      ct_without_rowid_table_option = False,
      ct_strict_table_option = False,
      ct_storage_parameters = False,
      ct_on_commit = False,
      ct_create_table_as_with_data = False,
      ct_create_table_as_execute = False,
      ct_declarative_partitioning = False,
      ct_table_inheritance = False,
      ct_like_source_table = False,
      ct_statement_level_table_like = True,
      ct_unlogged_tables = False,
      ct_table_access_method = False,
      ct_without_oids = False,
      ct_typed_tables = False \<rparr>"

definition ColumnDefinitionSyntax_MYSQL :: column_definition_syntax where
  "ColumnDefinitionSyntax_MYSQL =
    \<lparr> cd_generated_column_shorthand = True,
      cd_column_conflict_resolution_clause = False,
      cd_typeless_column_definitions = False,
      cd_typeless_generated_columns = False,
      cd_joined_autoincrement_attribute = False,
      cd_underscored_autoincrement_attribute = True,
      cd_inline_primary_key_ordering = False,
      cd_named_column_collate_constraint = False,
      cd_identity_columns = False,
      cd_compact_identity_columns = False,
      cd_default_expression_requires_parens = True,
      cd_column_default_requires_b_expr = False,
      cd_column_collation = False,
      cd_column_storage = False \<rparr>"

definition ConstraintSyntax_MYSQL :: constraint_syntax where
  "ConstraintSyntax_MYSQL =
    \<lparr> co_deferrable_constraints = False,
      co_named_inline_non_check_constraints = False,
      co_bare_constraint_name = False,
      co_exclusion_constraints = False,
      co_constraint_no_inherit_not_valid = False,
      co_index_constraint_parameters = False,
      co_constraint_column_collate_order = False,
      co_referential_action_cascade_set = True,
      co_check_constraint_subqueries = True \<rparr>"

definition IndexAlterSyntax_MYSQL :: index_alter_syntax where
  "IndexAlterSyntax_MYSQL =
    \<lparr> ia_rename_constraint = False,
      ia_alter_table_set_options = False,
      ia_drop_primary_key = True,
      ia_alter_column_add_identity = False,
      ia_index_storage_parameters = False,
      ia_drop_behavior = True,
      ia_index_drop_on_table = True,
      ia_alter_table_drop_index = False,
      ia_index_concurrently = False,
      ia_index_using_method = False,
      ia_partial_index = False,
      ia_index_if_not_exists = False,
      ia_index_nulls_order = False,
      ia_alter_table_extended = True,
      ia_alter_table_multiple_actions = True,
      ia_alter_existence_guards = False,
      ia_alter_nested_column_paths = False,
      ia_alter_column_set_data_type = False,
      ia_routine_arg_types = False,
      ia_routine_arg_defaults = False,
      ia_routine_arg_modes = False,
      ia_routine_language_string = False \<rparr>"

definition ExistenceGuards_MYSQL :: existence_guards where
  "ExistenceGuards_MYSQL =
    \<lparr> eg_if_exists = True,
      eg_view_if_not_exists = False,
      eg_create_database_if_not_exists = True \<rparr>"

definition ExpressionSyntax_MYSQL :: expression_syntax where
  "ExpressionSyntax_MYSQL =
    \<lparr> es_typecast_operator = False,
      es_subscript = False,
      es_slice_step = False,
      es_collate = False,
      es_at_time_zone = False,
      es_semi_structured_access = False,
      es_array_constructor = False,
      es_multidim_array_literals = False,
      es_collection_literals = False,
      es_row_constructor = False,
      es_struct_constructor = False,
      es_field_selection = False,
      es_field_wildcard = False,
      es_typed_string_literals = True,
      es_typed_interval_literal = False,
      es_relaxed_interval_syntax = False,
      es_mysql_interval_operator = True,
      es_positional_column = False,
      es_lambda_keyword = False \<rparr>"

definition OperatorSyntax_MYSQL :: operator_syntax where
  "OperatorSyntax_MYSQL =
    \<lparr> os_operator_construct = False,
      os_containment_operators = False,
      os_json_arrow_operators = False,
      os_jsonb_operators = False,
      os_double_equals = False,
      os_integer_divide_slash = False,
      os_starts_with_operator = False,
      os_is_general_equality = False,
      os_truth_value_tests = True,
      os_null_safe_equals = True,
      os_lambda_expressions = False,
      os_bitwise_operators = True,
      os_quantified_comparisons = True,
      os_quantified_comparison_lists = False,
      os_quantified_arbitrary_operator = False,
      os_custom_operators = False,
      os_null_test_postfix = False,
      os_postfix_operators = False \<rparr>"

definition CallSyntax_MYSQL :: call_syntax where
  "CallSyntax_MYSQL =
    \<lparr> ca_named_argument = False,
      ca_utc_special_functions = True,
      ca_columns_expression = False,
      ca_extract_from_syntax = True,
      ca_try_cast = False,
      ca_restricted_cast_targets = True,
      ca_extract_string_field = False,
      ca_method_chaining = False,
      ca_sqljson_constructors_require_argument = False,
      ca_sqljson_expression_functions = False,
      ca_xml_expression_functions = False,
      ca_variadic_argument = False,
      ca_merge_action_function = False,
      ca_convert_function = True \<rparr>"

definition StringFuncForms_MYSQL :: string_func_forms where
  "StringFuncForms_MYSQL =
    \<lparr> sf_substring_from_for = True,
      sf_substring_leading_for = False,
      sf_substring_similar = False,
      sf_substring_plain_call_requires_2_or_3_args = True,
      sf_substr_from_for = True,
      sf_position_in = True,
      sf_position_asymmetric_operands = True,
      sf_overlay_placing = False,
      sf_overlay_requires_placing = False,
      sf_trim_from = True,
      sf_trim_list_syntax = False,
      sf_collation_for_expression = False,
      sf_ceil_to_field = False,
      sf_floor_to_field = False,
      sf_match_against = True \<rparr>"

definition AggregateCallSyntax_MYSQL :: aggregate_call_syntax where
  "AggregateCallSyntax_MYSQL =
    \<lparr> ag_group_concat_separator = True,
      ag_within_group = False,
      ag_aggregate_filter = False,
      ag_filter_optional_where = False,
      ag_aggregate_args_require_adjacent_paren = True,
      ag_null_treatment = False,
      ag_aggregate_calls_reject_empty_arguments = True,
      ag_over_requires_windowable_function = True,
      ag_window_function_tail = True,
      ag_standalone_argument_order_by = False \<rparr>"

definition SelectSyntax_MYSQL :: select_syntax where
  "SelectSyntax_MYSQL =
    \<lparr> se_distinct_on = False,
      se_select_into = False,
      se_empty_target_list = False,
      se_qualify = False,
      se_alias_string_literals = True,
      se_bare_alias_string_literals = True,
      se_from_first = False,
      se_explicit_table = True,
      se_union_by_name = False,
      se_wildcard_modifiers = False,
      se_wildcard_replace = False,
      se_intersect_all = True,
      se_except_all = True,
      se_qualified_wildcard_alias = False,
      se_parenthesized_query_operands = True,
      se_values_rows_require_equal_arity = False,
      se_values_row_constructor = False,
      se_as_alias_rejects_reserved = True,
      se_trailing_comma = False,
      se_prefix_colon_alias = False,
      se_lateral_view_clause = False,
      se_connect_by_clause = False \<rparr>"

definition QueryTailSyntax_MYSQL :: query_tail_syntax where
  "QueryTailSyntax_MYSQL =
    \<lparr> qt_fetch_first = False,
      qt_limit_offset_comma = True,
      qt_locking_clauses = True,
      qt_key_lock_strengths = False,
      qt_stacked_locking_clauses = False,
      qt_using_sample = False,
      qt_leading_offset = False,
      qt_limit_expressions = False,
      qt_limit_percent = False,
      qt_with_ties_requires_order_by = False,
      qt_pipe_syntax = False,
      qt_limit_by_clause = False,
      qt_settings_clause = False,
      qt_format_clause = False,
      qt_for_xml_json_clause = False \<rparr>"

definition GroupingSyntax_MYSQL :: grouping_syntax where
  "GroupingSyntax_MYSQL =
    \<lparr> gr_grouping_sets = False,
      gr_with_rollup = True,
      gr_order_by_using = False,
      gr_group_by_all = False,
      gr_group_by_set_quantifier = False,
      gr_order_by_all = False \<rparr>"

definition UtilitySyntax_MYSQL :: utility_syntax where
  "UtilitySyntax_MYSQL =
    \<lparr> ut_copy = False,
      ut_copy_into = False,
      ut_stage_references = False,
      ut_comment_on = False,
      ut_comment_if_exists = False,
      ut_pragma = False,
      ut_attach = False,
      ut_kill = True,
      ut_handler_statements = True,
      ut_plugin_component_statements = True,
      ut_shutdown = True,
      ut_restart = True,
      ut_clone = True,
      ut_import_table = True,
      ut_help_statement = True,
      ut_binlog = True,
      ut_key_cache_statements = True,
      ut_use_statement = True,
      ut_use_qualified_name = False,
      ut_use_string_literal_name = False,
      ut_prepared_statements = False,
      ut_prepare_typed_parameters = False,
      ut_prepared_statements_from = True,
      ut_call = True,
      ut_call_bare_name = True,
      ut_load_extension = False,
      ut_load_bare_name = False,
      ut_load_data = True,
      ut_reset_scope = False,
      ut_detach_if_exists = False,
      ut_do_statement = False,
      ut_do_expression_list = True,
      ut_lock_tables = True,
      ut_lock_instance = True,
      ut_rename_statement = True,
      ut_signal_diagnostics = True,
      ut_export_import_database = False,
      ut_update_extensions = False,
      ut_flush = True,
      ut_purge_binary_logs = True,
      ut_replication_statements = True \<rparr>"

definition TransactionSyntax_MYSQL :: transaction_syntax where
  "TransactionSyntax_MYSQL =
    \<lparr> tx_start_transaction = True,
      tx_start_transaction_block_optional = False,
      tx_transaction_work_keyword = True,
      tx_begin_transaction_keyword = False,
      tx_commit_transaction_keyword = False,
      tx_rollback_transaction_keyword = False,
      tx_transaction_name = False,
      tx_begin_transaction_modes = False,
      tx_transaction_savepoints = True,
      tx_set_transaction = True,
      tx_transaction_isolation_mode = True,
      tx_transaction_access_mode = True,
      tx_transaction_deferrable_mode = False,
      tx_start_transaction_isolation_mode = False,
      tx_start_transaction_deferrable_mode = False,
      tx_start_transaction_consistent_snapshot = True,
      tx_transaction_multiple_modes = True,
      tx_transaction_modes_require_commas = True,
      tx_transaction_modes_reject_duplicates = True,
      tx_abort_transaction_alias = False,
      tx_end_transaction_alias = False,
      tx_transaction_release = True,
      tx_transaction_chain = True,
      tx_release_savepoint_keyword_optional = False,
      tx_begin_transaction_mode = False,
      tx_xa_transactions = True \<rparr>"

definition ShowSyntax_MYSQL :: show_syntax where
  "ShowSyntax_MYSQL =
    \<lparr> sh_describe = True,
      sh_describe_summarize = False,
      sh_session_statements = True,
      sh_set_value_reserved_words = KEYWORD_SET_EMPTY,
      sh_set_value_on_keyword = False,
      sh_set_value_null_keyword = False,
      sh_show_tables = True,
      sh_show_columns = True,
      sh_show_create_table = True,
      sh_show_functions = False,
      sh_show_routine_status = True,
      sh_show_verbose = False,
      sh_show_admin = True \<rparr>"

definition MaintenanceSyntax_MYSQL :: maintenance_syntax where
  "MaintenanceSyntax_MYSQL =
    \<lparr> ma_vacuum = False,
      ma_vacuum_analyze = False,
      ma_reindex = False,
      ma_analyze = False,
      ma_analyze_columns = False,
      ma_checkpoint = False,
      ma_checkpoint_database = False,
      ma_table_maintenance = True \<rparr>"

definition AccessControlSyntax_MYSQL :: access_control_syntax where
  "AccessControlSyntax_MYSQL =
    \<lparr> ac_alter_role_rename = False,
      ac_access_control = True,
      ac_access_control_extended_objects = False,
      ac_user_role_management = True,
      ac_access_control_account_grants = True \<rparr>"

definition TypeNameSyntax_MYSQL :: type_name_syntax where
  "TypeNameSyntax_MYSQL =
    \<lparr> tn_extended_scalar_type_names = True,
      tn_enum_type = True,
      tn_set_type = True,
      tn_numeric_modifiers = True,
      tn_integer_display_width = True,
      tn_composite_types = False,
      tn_angle_bracket_types = False,
      tn_varchar_requires_length = True,
      tn_zoned_temporal_types = False,
      tn_empty_type_parens = False,
      tn_character_set_annotation = True,
      tn_signed_type_modifier = False,
      tn_nullable_type = False,
      tn_low_cardinality_type = False,
      tn_fixed_string_type = False,
      tn_datetime64_type = False,
      tn_nested_type = False,
      tn_bit_width_integer_names = False,
      tn_liberal_type_names = False,
      tn_string_type_modifiers = False \<rparr>"

definition MYSQL_BINDING_POWERS :: binding_power_table where
  "MYSQL_BINDING_POWERS =
    \<lparr> bp_or = BP 10 11 Assoc_Left,
      bp_xor = BP 15 16 Assoc_Left,
      bp_and = BP 20 21 Assoc_Left,
      bp_comparison = BP 40 41 Assoc_Left,
      bp_range_predicate_override = None,
      bp_is_predicate_override = None,
      bp_double_equals = BP 40 41 Assoc_Left,
      bp_additive = BP 50 51 Assoc_Left,
      bp_multiplicative = BP 60 61 Assoc_Left,
      bp_exponent = BP 65 66 Assoc_Left,
      bp_string_concat = BP 45 46 Assoc_Left,
      bp_any_operator = BP 45 46 Assoc_Left,
      bp_json_get = BP 45 46 Assoc_Left,
      bp_bitwise_or = BP 42 43 Assoc_Left,
      bp_bitwise_and = BP 44 45 Assoc_Left,
      bp_bitwise_shift = BP 47 48 Assoc_Left,
      bp_bitwise_xor = BP 65 66 Assoc_Left,
      bp_prefix_not = 30,
      bp_prefix_sign = 80,
      bp_prefix_bitwise_not = 80,
      bp_at_time_zone = BP 70 71 Assoc_Left,
      bp_collate = BP 74 75 Assoc_Left,
      bp_subscript = BP 84 85 Assoc_Left,
      bp_typecast = BP 88 89 Assoc_Left,
      bp_field_selection = BP 92 93 Assoc_Left \<rparr>"

definition FeatureSet_MYSQL :: feature_set where
  "FeatureSet_MYSQL =
    \<lparr> identifier_casing = Casing_Lower,
      identifier_quotes = MYSQL_IDENTIFIER_QUOTES,
      default_null_ordering = NullsFirst,
      reserved_column_name = MYSQL_RESERVED_COLUMN_NAME,
      reserved_function_name = MYSQL_RESERVED_FUNCTION_NAME,
      reserved_type_name = MYSQL_RESERVED_TYPE_NAME,
      reserved_bare_alias = MYSQL_RESERVED_BARE_ALIAS,
      reserved_as_label = KEYWORD_SET_EMPTY,
      catalog_qualified_names = False,
      byte_classes = MYSQL_BYTE_CLASSES,
      binding_powers = MYSQL_BINDING_POWERS,
      set_operation_powers = STANDARD_SET_OPERATION_BINDING_POWERS,
      string_literals = StringLiteralSyntax_MYSQL,
      numeric_literals = NumericLiteralSyntax_MYSQL,
      parameters = ParameterSyntax_MYSQL,
      session_variables = SessionVariableSyntax_MYSQL,
      identifier_syntax = IdentifierSyntax_MYSQL,
      table_expressions = TableExpressionSyntax_MYSQL,
      join_syntax = JoinSyntax_MYSQL,
      table_factor_syntax = TableFactorSyntax_MYSQL,
      expression_syntax = ExpressionSyntax_MYSQL,
      operator_syntax = OperatorSyntax_MYSQL,
      call_syntax = CallSyntax_MYSQL,
      string_func_forms = StringFuncForms_MYSQL,
      aggregate_call_syntax = AggregateCallSyntax_MYSQL,
      predicate_syntax = PredicateSyntax_ANSI,
      pipe_operator = Pipe_LogicalOr,
      double_ampersand = Amp_LogicalAnd,
      keyword_operators = KwOps_MySql,
      caret_operator = Caret_BitwiseXor,
      hash_bitwise_xor = False,
      comment_syntax = CommentSyntax_MYSQL,
      mutation_syntax = MutationSyntax_MYSQL,
      statement_ddl_gates = StatementDdlGates_MYSQL,
      view_sequence_clause_syntax = ViewSequenceClauseSyntax_MYSQL,
      create_table_clause_syntax = CreateTableClauseSyntax_MYSQL,
      column_definition_syntax = ColumnDefinitionSyntax_MYSQL,
      constraint_syntax = ConstraintSyntax_MYSQL,
      index_alter_syntax = IndexAlterSyntax_MYSQL,
      existence_guards = ExistenceGuards_MYSQL,
      select_syntax = SelectSyntax_MYSQL,
      query_tail_syntax = QueryTailSyntax_MYSQL,
      grouping_syntax = GroupingSyntax_MYSQL,
      utility_syntax = UtilitySyntax_MYSQL,
      transaction_syntax = TransactionSyntax_MYSQL,
      show_syntax = ShowSyntax_MYSQL,
      maintenance_syntax = MaintenanceSyntax_MYSQL,
      access_control_syntax = AccessControlSyntax_MYSQL,
      type_name_syntax = TypeNameSyntax_MYSQL,
      target_spelling = Target_Ansi \<rparr>"

end
