(* ===== verification/Preset_Sqlite.thy ===== *)
theory Preset_Sqlite
  imports Preset_Ansi
begin

text \<open>
  The SQLite preset, \<open>crates/squonk-ast/src/dialect/sqlite.rs\<close>: the value of every feature record and
  the \<open>FeatureSet\<close> that collects them. A preset \<open>X::NAME\<close> of the struct \<open>X\<close> is \<open>X_NAME\<close>; a struct
  update \<open>..Self::BASE\<close> is a record update of the base.
\<close>

definition SQLITE_IDENTIFIER_QUOTES :: "identifier_quote list" where
  "SQLITE_IDENTIFIER_QUOTES =
    [Symmetric 34, Symmetric 96, Asymmetric 91 93]"

definition StringLiteralSyntax_SQLITE :: string_literal_syntax where
  "StringLiteralSyntax_SQLITE =
    \<lparr> sl_escape_strings = False,
      sl_dollar_quoted_strings = False,
      sl_national_strings = False,
      sl_double_quoted_strings = False,
      sl_backslash_escapes = False,
      sl_unicode_strings = False,
      sl_bit_string_literals = False,
      sl_blob_literals = True,
      sl_charset_introducers = False,
      sl_same_line_adjacent_concat = False \<rparr>"

definition NumericLiteralSyntax_SQLITE :: numeric_literal_syntax where
  "NumericLiteralSyntax_SQLITE =
    \<lparr> nl_hex_integers = True,
      nl_octal_integers = False,
      nl_binary_integers = False,
      nl_underscore_separators = True,
      nl_radix_leading_underscore = False,
      nl_reject_trailing_junk = True,
      nl_money_literals = False \<rparr>"

definition CommentSyntax_SQLITE :: comment_syntax where
  "CommentSyntax_SQLITE =
    \<lparr> cs_line_comment_hash = False,
      cs_line_comment_ends_at_carriage_return = False,
      cs_nested_block_comments = False,
      cs_versioned_comments = None,
      cs_unterminated_block_comment_at_eof = True \<rparr>"

definition ParameterSyntax_SQLITE :: parameter_syntax where
  "ParameterSyntax_SQLITE =
    \<lparr> pa_positional_dollar = False,
      pa_positional_dollar_large = False,
      pa_anonymous_question = True,
      pa_named_colon = True,
      pa_named_at = True,
      pa_named_dollar = True,
      pa_numbered_question = True \<rparr>"

definition IdentifierSyntax_SQLITE :: identifier_syntax where
  "IdentifierSyntax_SQLITE =
    \<lparr> ids_non_ascii = NonAscii_Any,
      ids_dollar_in_identifiers = True,
      ids_string_literal_identifiers = True,
      ids_string_literal_table_names = False,
      ids_empty_quoted_identifiers = True \<rparr>"

definition TypeNameSyntax_SQLITE :: type_name_syntax where
  "TypeNameSyntax_SQLITE =
    \<lparr> tn_extended_scalar_type_names = False,
      tn_enum_type = False,
      tn_set_type = False,
      tn_numeric_modifiers = False,
      tn_integer_display_width = True,
      tn_composite_types = False,
      tn_angle_bracket_types = False,
      tn_varchar_requires_length = False,
      tn_zoned_temporal_types = True,
      tn_empty_type_parens = False,
      tn_character_set_annotation = False,
      tn_signed_type_modifier = False,
      tn_nullable_type = False,
      tn_low_cardinality_type = False,
      tn_fixed_string_type = False,
      tn_datetime64_type = False,
      tn_nested_type = False,
      tn_bit_width_integer_names = False,
      tn_liberal_type_names = True,
      tn_string_type_modifiers = False \<rparr>"

definition TableExpressionSyntax_SQLITE :: table_expression_syntax where
  "TableExpressionSyntax_SQLITE =
    \<lparr> te_only = False,
      te_table_sample = False,
      te_parenthesized_joins = True,
      te_table_alias_column_lists = False,
      te_join_using_alias = False,
      te_index_hints = False,
      te_table_hints = False,
      te_partition_selection = False,
      te_base_table_alias_column_lists = True,
      te_string_literal_aliases = False,
      te_aliased_parenthesized_join = True,
      te_bare_table_alias_is_bare_label = True,
      te_table_version = False,
      te_table_json_path = False,
      te_indexed_by = True,
      te_prefix_colon_alias = False \<rparr>"

definition JoinSyntax_SQLITE :: join_syntax where
  "JoinSyntax_SQLITE =
    \<lparr> js_stacked_join_qualifiers = False,
      js_full_outer_join = True,
      js_natural_cross_join = True,
      js_straight_join = False,
      js_asof_join = False,
      js_positional_join = False,
      js_semi_anti_join = False,
      js_sided_semi_anti_join = False,
      js_apply_join = False,
      js_recursive_search_cycle = False,
      js_recursive_union_rejects_order_limit = False,
      js_recursive_using_key = False \<rparr>"

definition TableFactorSyntax_SQLITE :: table_factor_syntax where
  "TableFactorSyntax_SQLITE =
    \<lparr> tf_lateral = False,
      tf_table_functions = True,
      tf_rows_from = False,
      tf_unnest = False,
      tf_unnest_with_offset = False,
      tf_table_function_ordinality = False,
      tf_special_function_table_source = True,
      tf_pivot = False,
      tf_unpivot = False,
      tf_show_ref = False,
      tf_from_values = False,
      tf_json_table = False,
      tf_xml_table = False,
      tf_table_expr_factor = False,
      tf_pivot_value_sources = False,
      tf_match_recognize = False,
      tf_open_json = False \<rparr>"

definition ExpressionSyntax_SQLITE :: expression_syntax where
  "ExpressionSyntax_SQLITE =
    \<lparr> es_typecast_operator = False,
      es_subscript = False,
      es_slice_step = False,
      es_collate = True,
      es_at_time_zone = False,
      es_semi_structured_access = False,
      es_array_constructor = False,
      es_multidim_array_literals = False,
      es_collection_literals = False,
      es_row_constructor = False,
      es_struct_constructor = False,
      es_field_selection = False,
      es_field_wildcard = False,
      es_typed_string_literals = False,
      es_typed_interval_literal = False,
      es_relaxed_interval_syntax = False,
      es_mysql_interval_operator = False,
      es_positional_column = False,
      es_lambda_keyword = False \<rparr>"

definition PredicateSyntax_SQLITE :: predicate_syntax where
  "PredicateSyntax_SQLITE =
    \<lparr> pr_is_distinct_from = True,
      pr_like = True,
      pr_ilike = False,
      pr_similar_to = False,
      pr_overlaps_period_predicate = False,
      pr_unparenthesized_in_list = False,
      pr_pattern_match_quantifier = False,
      pr_between_symmetric = False,
      pr_is_normalized = False,
      pr_empty_in_list = True,
      pr_null_test_two_word_postfix = True \<rparr>"

definition OperatorSyntax_SQLITE :: operator_syntax where
  "OperatorSyntax_SQLITE =
    \<lparr> os_operator_construct = False,
      os_containment_operators = False,
      os_json_arrow_operators = True,
      os_jsonb_operators = False,
      os_double_equals = True,
      os_integer_divide_slash = False,
      os_starts_with_operator = False,
      os_is_general_equality = True,
      os_truth_value_tests = False,
      os_null_safe_equals = False,
      os_lambda_expressions = False,
      os_bitwise_operators = True,
      os_quantified_comparisons = False,
      os_quantified_comparison_lists = False,
      os_quantified_arbitrary_operator = False,
      os_custom_operators = False,
      os_null_test_postfix = True,
      os_postfix_operators = False \<rparr>"

definition CallSyntax_SQLITE :: call_syntax where
  "CallSyntax_SQLITE =
    \<lparr> ca_named_argument = False,
      ca_utc_special_functions = False,
      ca_columns_expression = False,
      ca_extract_from_syntax = False,
      ca_try_cast = False,
      ca_restricted_cast_targets = False,
      ca_extract_string_field = False,
      ca_method_chaining = False,
      ca_sqljson_constructors_require_argument = False,
      ca_sqljson_expression_functions = False,
      ca_xml_expression_functions = False,
      ca_variadic_argument = False,
      ca_merge_action_function = False,
      ca_convert_function = False \<rparr>"

definition StringFuncForms_SQLITE :: string_func_forms where
  "StringFuncForms_SQLITE =
    \<lparr> sf_substring_from_for = False,
      sf_substring_leading_for = False,
      sf_substring_similar = False,
      sf_substring_plain_call_requires_2_or_3_args = False,
      sf_substr_from_for = False,
      sf_position_in = False,
      sf_position_asymmetric_operands = False,
      sf_overlay_placing = False,
      sf_overlay_requires_placing = False,
      sf_trim_from = False,
      sf_trim_list_syntax = False,
      sf_collation_for_expression = False,
      sf_ceil_to_field = False,
      sf_floor_to_field = False,
      sf_match_against = False \<rparr>"

definition AggregateCallSyntax_SQLITE :: aggregate_call_syntax where
  "AggregateCallSyntax_SQLITE =
    \<lparr> ag_group_concat_separator = False,
      ag_within_group = False,
      ag_aggregate_filter = True,
      ag_filter_optional_where = False,
      ag_aggregate_args_require_adjacent_paren = False,
      ag_null_treatment = False,
      ag_aggregate_calls_reject_empty_arguments = False,
      ag_over_requires_windowable_function = False,
      ag_window_function_tail = False,
      ag_standalone_argument_order_by = False \<rparr>"

definition MutationSyntax_SQLITE :: mutation_syntax where
  "MutationSyntax_SQLITE =
    \<lparr> mu_insert_ignore = False,
      mu_insert_overwrite = False,
      mu_returning = True,
      mu_on_conflict = True,
      mu_on_duplicate_key_update = False,
      mu_multi_column_assignment = False,
      mu_update_tuple_value_row_arity = False,
      mu_where_current_of = False,
      mu_merge = False,
      mu_replace_into = True,
      mu_insert_set = False,
      mu_update_delete_tails = False,
      mu_joined_update_delete = False,
      mu_or_conflict_action = True,
      mu_insert_column_matching = False,
      mu_delete_using = False,
      mu_update_from = True,
      mu_delete_using_target_alias = True,
      mu_cte_before_insert = True,
      mu_cte_before_merge = False,
      mu_data_modifying_ctes = False,
      mu_merge_when_not_matched_by = False,
      mu_merge_insert_default_values = False,
      mu_merge_insert_overriding = False,
      mu_merge_insert_multirow = False,
      mu_merge_update_set_star = False,
      mu_merge_insert_star_by_name = False,
      mu_merge_error_action = False,
      mu_update_set_qualified_column = True \<rparr>"

definition StatementDdlGates_SQLITE :: statement_ddl_gates where
  "StatementDdlGates_SQLITE =
    \<lparr> sd_colocation_groups = False,
      sd_create_trigger = True,
      sd_create_macro = False,
      sd_create_secret = False,
      sd_create_type = False,
      sd_create_virtual_table = True,
      sd_create_sequence = False,
      sd_extension_ddl = False,
      sd_transform_ddl = False,
      sd_alter_system = False,
      sd_tablespace_ddl = False,
      sd_logfile_group_ddl = False,
      sd_schemas = False,
      sd_schema_elements = False,
      sd_databases = False,
      sd_drop_database = False,
      sd_materialized_views = False,
      sd_routines = False,
      sd_or_replace = False,
      sd_create_or_replace_table = False,
      sd_create_or_replace_materialized_view = False,
      sd_compound_statements = False,
      sd_alter_database = False,
      sd_alter_database_options = False,
      sd_server_definition = False,
      sd_alter_instance = False,
      sd_spatial_reference_system = False,
      sd_resource_group = False,
      sd_alter_sequence = False,
      sd_alter_object_set_schema = False \<rparr>"

definition ViewSequenceClauseSyntax_SQLITE :: view_sequence_clause_syntax where
  "ViewSequenceClauseSyntax_SQLITE =
    \<lparr> vs_create_sequence_cache = False,
      vs_materialized_view_to = False,
      vs_temporary_views = True,
      vs_recursive_views = False,
      vs_view_definition_options = False \<rparr>"

definition CreateTableClauseSyntax_SQLITE :: create_table_clause_syntax where
  "CreateTableClauseSyntax_SQLITE =
    \<lparr> ct_table_options = False,
      ct_without_rowid_table_option = True,
      ct_strict_table_option = True,
      ct_storage_parameters = False,
      ct_on_commit = False,
      ct_create_table_as_with_data = True,
      ct_create_table_as_execute = False,
      ct_declarative_partitioning = False,
      ct_table_inheritance = False,
      ct_like_source_table = False,
      ct_statement_level_table_like = False,
      ct_unlogged_tables = False,
      ct_table_access_method = False,
      ct_without_oids = False,
      ct_typed_tables = False \<rparr>"

definition ColumnDefinitionSyntax_SQLITE :: column_definition_syntax where
  "ColumnDefinitionSyntax_SQLITE =
    \<lparr> cd_generated_column_shorthand = True,
      cd_column_conflict_resolution_clause = True,
      cd_typeless_column_definitions = True,
      cd_typeless_generated_columns = False,
      cd_joined_autoincrement_attribute = True,
      cd_underscored_autoincrement_attribute = False,
      cd_inline_primary_key_ordering = True,
      cd_named_column_collate_constraint = True,
      cd_identity_columns = False,
      cd_compact_identity_columns = False,
      cd_default_expression_requires_parens = False,
      cd_column_default_requires_b_expr = False,
      cd_column_collation = True,
      cd_column_storage = False \<rparr>"

definition ConstraintSyntax_SQLITE :: constraint_syntax where
  "ConstraintSyntax_SQLITE =
    \<lparr> co_deferrable_constraints = True,
      co_named_inline_non_check_constraints = True,
      co_bare_constraint_name = True,
      co_exclusion_constraints = False,
      co_constraint_no_inherit_not_valid = False,
      co_index_constraint_parameters = False,
      co_constraint_column_collate_order = True,
      co_referential_action_cascade_set = True,
      co_check_constraint_subqueries = False \<rparr>"

definition IndexAlterSyntax_SQLITE :: index_alter_syntax where
  "IndexAlterSyntax_SQLITE =
    \<lparr> ia_rename_constraint = False,
      ia_alter_table_set_options = False,
      ia_drop_primary_key = False,
      ia_alter_column_add_identity = False,
      ia_index_storage_parameters = False,
      ia_drop_behavior = False,
      ia_index_drop_on_table = False,
      ia_alter_table_drop_index = False,
      ia_index_concurrently = False,
      ia_index_using_method = False,
      ia_partial_index = True,
      ia_index_if_not_exists = True,
      ia_index_nulls_order = True,
      ia_alter_table_extended = False,
      ia_alter_table_multiple_actions = False,
      ia_alter_existence_guards = False,
      ia_alter_nested_column_paths = False,
      ia_alter_column_set_data_type = False,
      ia_routine_arg_types = False,
      ia_routine_arg_defaults = False,
      ia_routine_arg_modes = False,
      ia_routine_language_string = False \<rparr>"

definition ExistenceGuards_SQLITE :: existence_guards where
  "ExistenceGuards_SQLITE =
    \<lparr> eg_if_exists = True,
      eg_view_if_not_exists = True,
      eg_create_database_if_not_exists = False \<rparr>"

definition SelectSyntax_SQLITE :: select_syntax where
  "SelectSyntax_SQLITE =
    \<lparr> se_distinct_on = False,
      se_select_into = False,
      se_empty_target_list = False,
      se_qualify = False,
      se_alias_string_literals = True,
      se_bare_alias_string_literals = True,
      se_from_first = False,
      se_explicit_table = False,
      se_union_by_name = False,
      se_wildcard_modifiers = False,
      se_wildcard_replace = False,
      se_intersect_all = False,
      se_except_all = False,
      se_qualified_wildcard_alias = False,
      se_parenthesized_query_operands = False,
      se_values_rows_require_equal_arity = True,
      se_values_row_constructor = True,
      se_as_alias_rejects_reserved = False,
      se_trailing_comma = False,
      se_prefix_colon_alias = False,
      se_lateral_view_clause = False,
      se_connect_by_clause = False \<rparr>"

definition QueryTailSyntax_SQLITE :: query_tail_syntax where
  "QueryTailSyntax_SQLITE =
    \<lparr> qt_fetch_first = False,
      qt_limit_offset_comma = True,
      qt_locking_clauses = False,
      qt_key_lock_strengths = False,
      qt_stacked_locking_clauses = False,
      qt_using_sample = False,
      qt_leading_offset = False,
      qt_limit_expressions = True,
      qt_limit_percent = False,
      qt_with_ties_requires_order_by = False,
      qt_pipe_syntax = False,
      qt_limit_by_clause = False,
      qt_settings_clause = False,
      qt_format_clause = False,
      qt_for_xml_json_clause = False \<rparr>"

definition GroupingSyntax_SQLITE :: grouping_syntax where
  "GroupingSyntax_SQLITE =
    \<lparr> gr_grouping_sets = False,
      gr_with_rollup = False,
      gr_order_by_using = False,
      gr_group_by_all = False,
      gr_group_by_set_quantifier = False,
      gr_order_by_all = False \<rparr>"

definition UtilitySyntax_SQLITE :: utility_syntax where
  "UtilitySyntax_SQLITE =
    \<lparr> ut_copy = False,
      ut_copy_into = False,
      ut_stage_references = False,
      ut_comment_on = False,
      ut_comment_if_exists = False,
      ut_pragma = True,
      ut_attach = True,
      ut_kill = False,
      ut_handler_statements = False,
      ut_plugin_component_statements = False,
      ut_shutdown = False,
      ut_restart = False,
      ut_clone = False,
      ut_import_table = False,
      ut_help_statement = False,
      ut_binlog = False,
      ut_key_cache_statements = False,
      ut_use_statement = False,
      ut_use_qualified_name = False,
      ut_use_string_literal_name = False,
      ut_prepared_statements = False,
      ut_prepare_typed_parameters = False,
      ut_prepared_statements_from = False,
      ut_call = False,
      ut_call_bare_name = False,
      ut_load_extension = False,
      ut_load_bare_name = False,
      ut_load_data = False,
      ut_reset_scope = False,
      ut_detach_if_exists = False,
      ut_do_statement = False,
      ut_do_expression_list = False,
      ut_lock_tables = False,
      ut_lock_instance = False,
      ut_rename_statement = False,
      ut_signal_diagnostics = False,
      ut_export_import_database = False,
      ut_update_extensions = False,
      ut_flush = False,
      ut_purge_binary_logs = False,
      ut_replication_statements = False \<rparr>"

definition TransactionSyntax_SQLITE :: transaction_syntax where
  "TransactionSyntax_SQLITE =
    \<lparr> tx_start_transaction = False,
      tx_start_transaction_block_optional = False,
      tx_transaction_work_keyword = False,
      tx_begin_transaction_keyword = True,
      tx_commit_transaction_keyword = True,
      tx_rollback_transaction_keyword = True,
      tx_transaction_name = True,
      tx_begin_transaction_modes = False,
      tx_transaction_savepoints = True,
      tx_set_transaction = False,
      tx_transaction_isolation_mode = False,
      tx_transaction_access_mode = False,
      tx_transaction_deferrable_mode = False,
      tx_start_transaction_isolation_mode = False,
      tx_start_transaction_deferrable_mode = False,
      tx_start_transaction_consistent_snapshot = False,
      tx_transaction_multiple_modes = False,
      tx_transaction_modes_require_commas = False,
      tx_transaction_modes_reject_duplicates = False,
      tx_abort_transaction_alias = False,
      tx_end_transaction_alias = True,
      tx_transaction_release = False,
      tx_transaction_chain = False,
      tx_release_savepoint_keyword_optional = True,
      tx_begin_transaction_mode = True,
      tx_xa_transactions = False \<rparr>"

definition ShowSyntax_SQLITE :: show_syntax where
  "ShowSyntax_SQLITE =
    \<lparr> sh_describe = False,
      sh_describe_summarize = False,
      sh_session_statements = False,
      sh_set_value_reserved_words = KEYWORD_SET_EMPTY,
      sh_set_value_on_keyword = False,
      sh_set_value_null_keyword = False,
      sh_show_tables = False,
      sh_show_columns = False,
      sh_show_create_table = False,
      sh_show_functions = False,
      sh_show_routine_status = False,
      sh_show_verbose = False,
      sh_show_admin = False \<rparr>"

definition MaintenanceSyntax_SQLITE :: maintenance_syntax where
  "MaintenanceSyntax_SQLITE =
    \<lparr> ma_vacuum = True,
      ma_vacuum_analyze = False,
      ma_reindex = True,
      ma_analyze = True,
      ma_analyze_columns = False,
      ma_checkpoint = False,
      ma_checkpoint_database = False,
      ma_table_maintenance = False \<rparr>"

definition AccessControlSyntax_SQLITE :: access_control_syntax where
  "AccessControlSyntax_SQLITE =
    \<lparr> ac_alter_role_rename = False,
      ac_access_control = False,
      ac_access_control_extended_objects = False,
      ac_user_role_management = False,
      ac_access_control_account_grants = False \<rparr>"

definition SQLITE_BINDING_POWERS :: binding_power_table where
  "SQLITE_BINDING_POWERS =
    \<lparr> bp_or = BP 10 11 Assoc_Left,
      bp_xor = BP 15 16 Assoc_Left,
      bp_and = BP 20 21 Assoc_Left,
      bp_comparison = BP 40 41 Assoc_Left,
      bp_range_predicate_override = None,
      bp_is_predicate_override = None,
      bp_double_equals = BP 40 41 Assoc_Left,
      bp_additive = BP 50 51 Assoc_Left,
      bp_multiplicative = BP 60 61 Assoc_Left,
      bp_exponent = BP 65 66 Assoc_Left,
      bp_string_concat = BP 45 46 Assoc_Left,
      bp_any_operator = BP 45 46 Assoc_Left,
      bp_json_get = BP 45 46 Assoc_Left,
      bp_bitwise_or = BP 45 46 Assoc_Left,
      bp_bitwise_and = BP 45 46 Assoc_Left,
      bp_bitwise_shift = BP 45 46 Assoc_Left,
      bp_bitwise_xor = BP 45 46 Assoc_Left,
      bp_prefix_not = 30,
      bp_prefix_sign = 80,
      bp_prefix_bitwise_not = 80,
      bp_at_time_zone = BP 70 71 Assoc_Left,
      bp_collate = BP 74 75 Assoc_Left,
      bp_subscript = BP 84 85 Assoc_Left,
      bp_typecast = BP 88 89 Assoc_Left,
      bp_field_selection = BP 92 93 Assoc_Left \<rparr>"

definition FeatureSet_SQLITE :: feature_set where
  "FeatureSet_SQLITE =
    \<lparr> identifier_casing = Casing_Lower,
      identifier_quotes = SQLITE_IDENTIFIER_QUOTES,
      default_null_ordering = NullsFirst,
      reserved_column_name = SQLITE_RESERVED_COLUMN_NAME,
      reserved_function_name = SQLITE_RESERVED_FUNCTION_NAME,
      reserved_type_name = SQLITE_RESERVED_TYPE_NAME,
      reserved_bare_alias = SQLITE_RESERVED_BARE_ALIAS,
      reserved_as_label = SQLITE_RESERVED_AS_LABEL,
      catalog_qualified_names = False,
      byte_classes = SQLITE_BYTE_CLASSES,
      binding_powers = SQLITE_BINDING_POWERS,
      set_operation_powers = STANDARD_SET_OPERATION_BINDING_POWERS,
      string_literals = StringLiteralSyntax_SQLITE,
      numeric_literals = NumericLiteralSyntax_SQLITE,
      parameters = ParameterSyntax_SQLITE,
      session_variables = SessionVariableSyntax_ANSI,
      identifier_syntax = IdentifierSyntax_SQLITE,
      table_expressions = TableExpressionSyntax_SQLITE,
      join_syntax = JoinSyntax_SQLITE,
      table_factor_syntax = TableFactorSyntax_SQLITE,
      expression_syntax = ExpressionSyntax_SQLITE,
      operator_syntax = OperatorSyntax_SQLITE,
      call_syntax = CallSyntax_SQLITE,
      string_func_forms = StringFuncForms_SQLITE,
      aggregate_call_syntax = AggregateCallSyntax_SQLITE,
      predicate_syntax = PredicateSyntax_SQLITE,
      pipe_operator = Pipe_StringConcat,
      double_ampersand = Amp_Unsupported,
      keyword_operators = KwOps_Sqlite,
      caret_operator = Caret_Unsupported,
      hash_bitwise_xor = False,
      comment_syntax = CommentSyntax_SQLITE,
      mutation_syntax = MutationSyntax_SQLITE,
      statement_ddl_gates = StatementDdlGates_SQLITE,
      view_sequence_clause_syntax = ViewSequenceClauseSyntax_SQLITE,
      create_table_clause_syntax = CreateTableClauseSyntax_SQLITE,
      column_definition_syntax = ColumnDefinitionSyntax_SQLITE,
      constraint_syntax = ConstraintSyntax_SQLITE,
      index_alter_syntax = IndexAlterSyntax_SQLITE,
      existence_guards = ExistenceGuards_SQLITE,
      select_syntax = SelectSyntax_SQLITE,
      query_tail_syntax = QueryTailSyntax_SQLITE,
      grouping_syntax = GroupingSyntax_SQLITE,
      utility_syntax = UtilitySyntax_SQLITE,
      transaction_syntax = TransactionSyntax_SQLITE,
      show_syntax = ShowSyntax_SQLITE,
      maintenance_syntax = MaintenanceSyntax_SQLITE,
      access_control_syntax = AccessControlSyntax_SQLITE,
      type_name_syntax = TypeNameSyntax_SQLITE,
      target_spelling = Target_Ansi \<rparr>"

end
