(* ===== verification/Preset_Duckdb.thy ===== *)
theory Preset_Duckdb
  imports Preset_Postgres
begin

text \<open>
  The DuckDB preset, \<open>crates/squonk-ast/src/dialect/duckdb.rs\<close>: the value of every feature record and
  the \<open>FeatureSet\<close> that collects them. A preset \<open>X::NAME\<close> of the struct \<open>X\<close> is \<open>X_NAME\<close>; a struct
  update \<open>..Self::BASE\<close> is a record update of the base.
\<close>

definition NumericLiteralSyntax_DUCKDB :: numeric_literal_syntax where
  "NumericLiteralSyntax_DUCKDB =
    \<lparr> nl_hex_integers = True,
      nl_octal_integers = True,
      nl_binary_integers = True,
      nl_underscore_separators = True,
      nl_radix_leading_underscore = False,
      nl_reject_trailing_junk = False,
      nl_money_literals = False \<rparr>"

definition PredicateSyntax_DUCKDB :: predicate_syntax where
  "PredicateSyntax_DUCKDB =
    \<lparr> pr_is_distinct_from = True,
      pr_like = True,
      pr_ilike = True,
      pr_similar_to = True,
      pr_overlaps_period_predicate = False,
      pr_unparenthesized_in_list = True,
      pr_pattern_match_quantifier = False,
      pr_between_symmetric = False,
      pr_is_normalized = False,
      pr_empty_in_list = False,
      pr_null_test_two_word_postfix = True \<rparr>"

definition DUCKDB_BINDING_POWERS :: binding_power_table where
  "DUCKDB_BINDING_POWERS =
    \<lparr> bp_or = BP 10 11 Assoc_Left,
      bp_xor = BP 15 16 Assoc_Left,
      bp_and = BP 20 21 Assoc_Left,
      bp_comparison = BP 40 41 Assoc_NonAssoc,
      bp_range_predicate_override = None,
      bp_is_predicate_override = Some IS_PREDICATE_BELOW_COMPARISON,
      bp_double_equals = BP 45 46 Assoc_Left,
      bp_additive = BP 50 51 Assoc_Left,
      bp_multiplicative = BP 60 61 Assoc_Left,
      bp_exponent = BP 65 66 Assoc_Left,
      bp_string_concat = BP 45 46 Assoc_Left,
      bp_any_operator = BP 45 46 Assoc_Left,
      bp_json_get = BP 4 5 Assoc_Left,
      bp_bitwise_or = BP 45 46 Assoc_Left,
      bp_bitwise_and = BP 45 46 Assoc_Left,
      bp_bitwise_shift = BP 45 46 Assoc_Left,
      bp_bitwise_xor = BP 45 46 Assoc_Left,
      bp_prefix_not = 30,
      bp_prefix_sign = 80,
      bp_prefix_bitwise_not = 46,
      bp_at_time_zone = BP 70 71 Assoc_Left,
      bp_collate = BP 74 75 Assoc_Left,
      bp_subscript = BP 84 85 Assoc_Left,
      bp_typecast = BP 88 89 Assoc_Left,
      bp_field_selection = BP 92 93 Assoc_Left \<rparr>"

definition SelectSyntax_DUCKDB :: select_syntax where
  "SelectSyntax_DUCKDB =
    \<lparr> se_distinct_on = True,
      se_select_into = True,
      se_empty_target_list = False,
      se_qualify = True,
      se_alias_string_literals = True,
      se_bare_alias_string_literals = False,
      se_from_first = True,
      se_explicit_table = True,
      se_union_by_name = True,
      se_wildcard_modifiers = True,
      se_wildcard_replace = False,
      se_intersect_all = True,
      se_except_all = True,
      se_qualified_wildcard_alias = True,
      se_parenthesized_query_operands = True,
      se_values_rows_require_equal_arity = True,
      se_values_row_constructor = True,
      se_as_alias_rejects_reserved = False,
      se_trailing_comma = True,
      se_prefix_colon_alias = True,
      se_lateral_view_clause = False,
      se_connect_by_clause = False \<rparr>"

definition QueryTailSyntax_DUCKDB :: query_tail_syntax where
  "QueryTailSyntax_DUCKDB =
    \<lparr> qt_fetch_first = True,
      qt_limit_offset_comma = False,
      qt_locking_clauses = False,
      qt_key_lock_strengths = False,
      qt_stacked_locking_clauses = False,
      qt_using_sample = True,
      qt_leading_offset = True,
      qt_limit_expressions = True,
      qt_limit_percent = True,
      qt_with_ties_requires_order_by = False,
      qt_pipe_syntax = False,
      qt_limit_by_clause = False,
      qt_settings_clause = False,
      qt_format_clause = False,
      qt_for_xml_json_clause = False \<rparr>"

definition GroupingSyntax_DUCKDB :: grouping_syntax where
  "GroupingSyntax_DUCKDB =
    \<lparr> gr_grouping_sets = True,
      gr_with_rollup = False,
      gr_order_by_using = True,
      gr_group_by_all = True,
      gr_group_by_set_quantifier = False,
      gr_order_by_all = True \<rparr>"

definition ExpressionSyntax_DUCKDB :: expression_syntax where
  "ExpressionSyntax_DUCKDB =
    \<lparr> es_typecast_operator = True,
      es_subscript = True,
      es_slice_step = True,
      es_collate = True,
      es_at_time_zone = True,
      es_semi_structured_access = False,
      es_array_constructor = True,
      es_multidim_array_literals = False,
      es_collection_literals = True,
      es_row_constructor = True,
      es_struct_constructor = False,
      es_field_selection = True,
      es_field_wildcard = False,
      es_typed_string_literals = True,
      es_typed_interval_literal = True,
      es_relaxed_interval_syntax = True,
      es_mysql_interval_operator = False,
      es_positional_column = True,
      es_lambda_keyword = True \<rparr>"

definition OperatorSyntax_DUCKDB :: operator_syntax where
  "OperatorSyntax_DUCKDB =
    \<lparr> os_operator_construct = True,
      os_containment_operators = True,
      os_json_arrow_operators = True,
      os_jsonb_operators = False,
      os_double_equals = True,
      os_integer_divide_slash = True,
      os_starts_with_operator = True,
      os_is_general_equality = False,
      os_truth_value_tests = True,
      os_null_safe_equals = False,
      os_lambda_expressions = True,
      os_bitwise_operators = True,
      os_quantified_comparisons = True,
      os_quantified_comparison_lists = True,
      os_quantified_arbitrary_operator = False,
      os_custom_operators = True,
      os_null_test_postfix = True,
      os_postfix_operators = True \<rparr>"

definition CallSyntax_DUCKDB :: call_syntax where
  "CallSyntax_DUCKDB =
    \<lparr> ca_named_argument = True,
      ca_utc_special_functions = False,
      ca_columns_expression = True,
      ca_extract_from_syntax = True,
      ca_try_cast = True,
      ca_restricted_cast_targets = False,
      ca_extract_string_field = True,
      ca_method_chaining = True,
      ca_sqljson_constructors_require_argument = False,
      ca_sqljson_expression_functions = False,
      ca_xml_expression_functions = False,
      ca_variadic_argument = True,
      ca_merge_action_function = False,
      ca_convert_function = False \<rparr>"

definition StringFuncForms_DUCKDB :: string_func_forms where
  "StringFuncForms_DUCKDB =
    \<lparr> sf_substring_from_for = True,
      sf_substring_leading_for = True,
      sf_substring_similar = False,
      sf_substring_plain_call_requires_2_or_3_args = False,
      sf_substr_from_for = False,
      sf_position_in = True,
      sf_position_asymmetric_operands = False,
      sf_overlay_placing = True,
      sf_overlay_requires_placing = True,
      sf_trim_from = True,
      sf_trim_list_syntax = True,
      sf_collation_for_expression = False,
      sf_ceil_to_field = False,
      sf_floor_to_field = False,
      sf_match_against = False \<rparr>"

definition AggregateCallSyntax_DUCKDB :: aggregate_call_syntax where
  "AggregateCallSyntax_DUCKDB =
    \<lparr> ag_group_concat_separator = False,
      ag_within_group = True,
      ag_aggregate_filter = True,
      ag_filter_optional_where = True,
      ag_aggregate_args_require_adjacent_paren = False,
      ag_null_treatment = True,
      ag_aggregate_calls_reject_empty_arguments = False,
      ag_over_requires_windowable_function = False,
      ag_window_function_tail = False,
      ag_standalone_argument_order_by = True \<rparr>"

definition TypeNameSyntax_DUCKDB :: type_name_syntax where
  "TypeNameSyntax_DUCKDB =
    \<lparr> tn_extended_scalar_type_names = False,
      tn_enum_type = True,
      tn_set_type = False,
      tn_numeric_modifiers = False,
      tn_integer_display_width = False,
      tn_composite_types = True,
      tn_angle_bracket_types = False,
      tn_varchar_requires_length = False,
      tn_zoned_temporal_types = True,
      tn_empty_type_parens = True,
      tn_character_set_annotation = False,
      tn_signed_type_modifier = False,
      tn_nullable_type = False,
      tn_low_cardinality_type = False,
      tn_fixed_string_type = False,
      tn_datetime64_type = False,
      tn_nested_type = False,
      tn_bit_width_integer_names = False,
      tn_liberal_type_names = False,
      tn_string_type_modifiers = True \<rparr>"

definition TableExpressionSyntax_DUCKDB :: table_expression_syntax where
  "TableExpressionSyntax_DUCKDB =
    \<lparr> te_only = True,
      te_table_sample = True,
      te_parenthesized_joins = True,
      te_table_alias_column_lists = True,
      te_join_using_alias = True,
      te_index_hints = False,
      te_table_hints = False,
      te_partition_selection = False,
      te_base_table_alias_column_lists = True,
      te_string_literal_aliases = True,
      te_aliased_parenthesized_join = True,
      te_bare_table_alias_is_bare_label = False,
      te_table_version = False,
      te_table_json_path = False,
      te_indexed_by = False,
      te_prefix_colon_alias = True \<rparr>"

definition JoinSyntax_DUCKDB :: join_syntax where
  "JoinSyntax_DUCKDB =
    \<lparr> js_stacked_join_qualifiers = True,
      js_full_outer_join = True,
      js_natural_cross_join = False,
      js_straight_join = False,
      js_asof_join = True,
      js_positional_join = True,
      js_semi_anti_join = True,
      js_sided_semi_anti_join = False,
      js_apply_join = False,
      js_recursive_search_cycle = False,
      js_recursive_union_rejects_order_limit = True,
      js_recursive_using_key = True \<rparr>"

definition TableFactorSyntax_DUCKDB :: table_factor_syntax where
  "TableFactorSyntax_DUCKDB =
    \<lparr> tf_lateral = True,
      tf_table_functions = True,
      tf_rows_from = True,
      tf_unnest = True,
      tf_unnest_with_offset = False,
      tf_table_function_ordinality = True,
      tf_special_function_table_source = True,
      tf_pivot = True,
      tf_unpivot = True,
      tf_show_ref = True,
      tf_from_values = True,
      tf_json_table = False,
      tf_xml_table = False,
      tf_table_expr_factor = False,
      tf_pivot_value_sources = False,
      tf_match_recognize = False,
      tf_open_json = False \<rparr>"

definition UtilitySyntax_DUCKDB :: utility_syntax where
  "UtilitySyntax_DUCKDB =
    \<lparr> ut_copy = True,
      ut_copy_into = False,
      ut_stage_references = False,
      ut_comment_on = True,
      ut_comment_if_exists = False,
      ut_pragma = True,
      ut_attach = True,
      ut_kill = False,
      ut_handler_statements = False,
      ut_plugin_component_statements = False,
      ut_shutdown = False,
      ut_restart = False,
      ut_clone = False,
      ut_import_table = False,
      ut_help_statement = False,
      ut_binlog = False,
      ut_key_cache_statements = False,
      ut_use_statement = True,
      ut_use_qualified_name = True,
      ut_use_string_literal_name = True,
      ut_prepared_statements = True,
      ut_prepare_typed_parameters = False,
      ut_prepared_statements_from = False,
      ut_call = True,
      ut_call_bare_name = False,
      ut_load_extension = True,
      ut_load_bare_name = True,
      ut_load_data = False,
      ut_reset_scope = True,
      ut_detach_if_exists = True,
      ut_do_statement = False,
      ut_do_expression_list = False,
      ut_lock_tables = False,
      ut_lock_instance = False,
      ut_rename_statement = False,
      ut_signal_diagnostics = False,
      ut_export_import_database = True,
      ut_update_extensions = True,
      ut_flush = False,
      ut_purge_binary_logs = False,
      ut_replication_statements = False \<rparr>"

definition TransactionSyntax_DUCKDB :: transaction_syntax where
  "TransactionSyntax_DUCKDB =
    \<lparr> tx_start_transaction = True,
      tx_start_transaction_block_optional = True,
      tx_transaction_work_keyword = True,
      tx_begin_transaction_keyword = True,
      tx_commit_transaction_keyword = True,
      tx_rollback_transaction_keyword = True,
      tx_transaction_name = False,
      tx_begin_transaction_modes = True,
      tx_transaction_savepoints = False,
      tx_set_transaction = False,
      tx_transaction_isolation_mode = False,
      tx_transaction_access_mode = True,
      tx_transaction_deferrable_mode = False,
      tx_start_transaction_isolation_mode = False,
      tx_start_transaction_deferrable_mode = False,
      tx_start_transaction_consistent_snapshot = False,
      tx_transaction_multiple_modes = False,
      tx_transaction_modes_require_commas = False,
      tx_transaction_modes_reject_duplicates = False,
      tx_abort_transaction_alias = True,
      tx_end_transaction_alias = True,
      tx_transaction_release = False,
      tx_transaction_chain = False,
      tx_release_savepoint_keyword_optional = True,
      tx_begin_transaction_mode = False,
      tx_xa_transactions = False \<rparr>"

definition ShowSyntax_DUCKDB :: show_syntax where
  "ShowSyntax_DUCKDB =
    \<lparr> sh_describe = False,
      sh_describe_summarize = True,
      sh_session_statements = True,
      sh_set_value_reserved_words = DUCKDB_RESERVED_SET_VALUE_WORDS,
      sh_set_value_on_keyword = False,
      sh_set_value_null_keyword = True,
      sh_show_tables = True,
      sh_show_columns = False,
      sh_show_create_table = False,
      sh_show_functions = False,
      sh_show_routine_status = False,
      sh_show_verbose = False,
      sh_show_admin = False \<rparr>"

definition MaintenanceSyntax_DUCKDB :: maintenance_syntax where
  "MaintenanceSyntax_DUCKDB =
    \<lparr> ma_vacuum = False,
      ma_vacuum_analyze = True,
      ma_reindex = False,
      ma_analyze = True,
      ma_analyze_columns = True,
      ma_checkpoint = True,
      ma_checkpoint_database = True,
      ma_table_maintenance = False \<rparr>"

definition AccessControlSyntax_DUCKDB :: access_control_syntax where
  "AccessControlSyntax_DUCKDB =
    \<lparr> ac_alter_role_rename = True,
      ac_access_control = True,
      ac_access_control_extended_objects = True,
      ac_user_role_management = False,
      ac_access_control_account_grants = False \<rparr>"

definition FeatureSet_DUCKDB :: feature_set where
  "FeatureSet_DUCKDB =
    \<lparr> identifier_casing = Casing_Lower,
      identifier_quotes = STANDARD_IDENTIFIER_QUOTES,
      default_null_ordering = NullsLast,
      reserved_column_name = DUCKDB_RESERVED_COLUMN_NAME,
      reserved_function_name = DUCKDB_RESERVED_FUNCTION_NAME,
      reserved_type_name = DUCKDB_RESERVED_TYPE_NAME,
      reserved_bare_alias = DUCKDB_RESERVED_BARE_ALIAS,
      reserved_as_label = KEYWORD_SET_EMPTY,
      catalog_qualified_names = True,
      byte_classes = DUCKDB_BYTE_CLASSES,
      binding_powers = DUCKDB_BINDING_POWERS,
      set_operation_powers = STANDARD_SET_OPERATION_BINDING_POWERS,
      string_literals = StringLiteralSyntax_POSTGRES,
      numeric_literals = NumericLiteralSyntax_DUCKDB,
      parameters = \<lparr> pa_positional_dollar = True,
      pa_positional_dollar_large = True,
      pa_anonymous_question = True,
      pa_named_colon = False,
      pa_named_at = False,
      pa_named_dollar = False,
      pa_numbered_question = False \<rparr>,
      session_variables = SessionVariableSyntax_ANSI,
      identifier_syntax = \<lparr> ids_non_ascii = NonAscii_Any,
      ids_dollar_in_identifiers = True,
      ids_string_literal_identifiers = False,
      ids_string_literal_table_names = True,
      ids_empty_quoted_identifiers = False \<rparr>,
      table_expressions = TableExpressionSyntax_DUCKDB,
      join_syntax = JoinSyntax_DUCKDB,
      table_factor_syntax = TableFactorSyntax_DUCKDB,
      expression_syntax = ExpressionSyntax_DUCKDB,
      operator_syntax = OperatorSyntax_DUCKDB,
      call_syntax = CallSyntax_DUCKDB,
      string_func_forms = StringFuncForms_DUCKDB,
      aggregate_call_syntax = AggregateCallSyntax_DUCKDB,
      predicate_syntax = PredicateSyntax_DUCKDB,
      pipe_operator = Pipe_StringConcat,
      double_ampersand = Amp_Overlaps,
      keyword_operators = KwOps_DuckDb,
      caret_operator = Caret_Exponent,
      hash_bitwise_xor = False,
      comment_syntax = CommentSyntax_POSTGRES,
      mutation_syntax = \<lparr> mu_insert_ignore = False,
      mu_insert_overwrite = False,
      mu_returning = True,
      mu_on_conflict = True,
      mu_on_duplicate_key_update = False,
      mu_multi_column_assignment = True,
      mu_update_tuple_value_row_arity = True,
      mu_where_current_of = True,
      mu_merge = True,
      mu_replace_into = False,
      mu_insert_set = False,
      mu_update_delete_tails = False,
      mu_joined_update_delete = False,
      mu_or_conflict_action = True,
      mu_insert_column_matching = True,
      mu_delete_using = True,
      mu_update_from = True,
      mu_delete_using_target_alias = True,
      mu_cte_before_insert = True,
      mu_cte_before_merge = True,
      mu_data_modifying_ctes = False,
      mu_merge_when_not_matched_by = True,
      mu_merge_insert_default_values = True,
      mu_merge_insert_overriding = False,
      mu_merge_insert_multirow = False,
      mu_merge_update_set_star = True,
      mu_merge_insert_star_by_name = True,
      mu_merge_error_action = True,
      mu_update_set_qualified_column = False \<rparr>,
      statement_ddl_gates = \<lparr> sd_colocation_groups = False,
      sd_create_trigger = False,
      sd_create_macro = True,
      sd_create_secret = True,
      sd_create_type = True,
      sd_create_virtual_table = False,
      sd_create_sequence = True,
      sd_extension_ddl = False,
      sd_transform_ddl = False,
      sd_alter_system = False,
      sd_tablespace_ddl = False,
      sd_logfile_group_ddl = False,
      sd_schemas = True,
      sd_schema_elements = False,
      sd_databases = False,
      sd_drop_database = False,
      sd_materialized_views = True,
      sd_routines = True,
      sd_or_replace = True,
      sd_create_or_replace_table = True,
      sd_create_or_replace_materialized_view = False,
      sd_compound_statements = False,
      sd_alter_database = True,
      sd_alter_database_options = False,
      sd_server_definition = False,
      sd_alter_instance = False,
      sd_spatial_reference_system = False,
      sd_resource_group = False,
      sd_alter_sequence = True,
      sd_alter_object_set_schema = True \<rparr>,
      view_sequence_clause_syntax = \<lparr> vs_create_sequence_cache = False,
      vs_materialized_view_to = False,
      vs_temporary_views = True,
      vs_recursive_views = True,
      vs_view_definition_options = False \<rparr>,
      create_table_clause_syntax = \<lparr> ct_table_options = False,
      ct_without_rowid_table_option = False,
      ct_strict_table_option = False,
      ct_storage_parameters = True,
      ct_on_commit = True,
      ct_create_table_as_with_data = True,
      ct_create_table_as_execute = False,
      ct_declarative_partitioning = False,
      ct_table_inheritance = False,
      ct_like_source_table = False,
      ct_statement_level_table_like = False,
      ct_unlogged_tables = True,
      ct_table_access_method = False,
      ct_without_oids = False,
      ct_typed_tables = False \<rparr>,
      column_definition_syntax = \<lparr> cd_generated_column_shorthand = True,
      cd_column_conflict_resolution_clause = False,
      cd_typeless_column_definitions = False,
      cd_typeless_generated_columns = True,
      cd_joined_autoincrement_attribute = False,
      cd_underscored_autoincrement_attribute = False,
      cd_inline_primary_key_ordering = False,
      cd_named_column_collate_constraint = False,
      cd_identity_columns = True,
      cd_compact_identity_columns = False,
      cd_default_expression_requires_parens = False,
      cd_column_default_requires_b_expr = False,
      cd_column_collation = True,
      cd_column_storage = False \<rparr>,
      constraint_syntax = \<lparr> co_deferrable_constraints = True,
      co_named_inline_non_check_constraints = True,
      co_bare_constraint_name = False,
      co_exclusion_constraints = False,
      co_constraint_no_inherit_not_valid = True,
      co_index_constraint_parameters = False,
      co_constraint_column_collate_order = False,
      co_referential_action_cascade_set = False,
      co_check_constraint_subqueries = False \<rparr>,
      index_alter_syntax = \<lparr> ia_rename_constraint = True,
      ia_alter_table_set_options = True,
      ia_drop_primary_key = False,
      ia_alter_column_add_identity = False,
      ia_index_storage_parameters = True,
      ia_drop_behavior = True,
      ia_index_drop_on_table = False,
      ia_alter_table_drop_index = False,
      ia_index_concurrently = True,
      ia_index_using_method = True,
      ia_partial_index = True,
      ia_index_if_not_exists = True,
      ia_index_nulls_order = True,
      ia_alter_table_extended = True,
      ia_alter_table_multiple_actions = False,
      ia_alter_existence_guards = True,
      ia_alter_nested_column_paths = True,
      ia_alter_column_set_data_type = True,
      ia_routine_arg_types = True,
      ia_routine_arg_defaults = True,
      ia_routine_arg_modes = True,
      ia_routine_language_string = True \<rparr>,
      existence_guards = ExistenceGuards_POSTGRES,
      select_syntax = SelectSyntax_DUCKDB,
      query_tail_syntax = QueryTailSyntax_DUCKDB,
      grouping_syntax = GroupingSyntax_DUCKDB,
      utility_syntax = UtilitySyntax_DUCKDB,
      transaction_syntax = TransactionSyntax_DUCKDB,
      show_syntax = ShowSyntax_DUCKDB,
      maintenance_syntax = MaintenanceSyntax_DUCKDB,
      access_control_syntax = AccessControlSyntax_DUCKDB,
      type_name_syntax = TypeNameSyntax_DUCKDB,
      target_spelling = Target_Postgres \<rparr>"

end
