(* ===== verification/Preset_Satellites.thy ===== *)
theory Preset_Satellites
  imports Preset_Postgres Preset_Mysql Preset_Sqlite Preset_Duckdb
begin

text \<open>
  The satellite presets, each a delta over ANSI or PostgreSQL: \<open>snowflake.rs\<close>, \<open>bigquery.rs\<close>,
  \<open>clickhouse.rs\<close>, \<open>databricks.rs\<close>, \<open>hive.rs\<close>, \<open>mssql.rs\<close>, \<open>quiltdb.rs\<close> and \<open>redshift.rs\<close> of
  \<open>crates/squonk-ast/src/dialect\<close>, translated as the larger presets are.
\<close>

subsection \<open>snowflake.rs\<close>

definition SelectSyntax_SNOWFLAKE :: select_syntax where
  "SelectSyntax_SNOWFLAKE =
    \<lparr> se_distinct_on = False,
      se_select_into = False,
      se_empty_target_list = False,
      se_qualify = True,
      se_alias_string_literals = False,
      se_bare_alias_string_literals = False,
      se_from_first = False,
      se_explicit_table = True,
      se_union_by_name = False,
      se_wildcard_modifiers = False,
      se_wildcard_replace = False,
      se_intersect_all = True,
      se_except_all = True,
      se_qualified_wildcard_alias = False,
      se_parenthesized_query_operands = True,
      se_values_rows_require_equal_arity = False,
      se_values_row_constructor = True,
      se_as_alias_rejects_reserved = False,
      se_trailing_comma = False,
      se_prefix_colon_alias = False,
      se_lateral_view_clause = False,
      se_connect_by_clause = True \<rparr>"

definition QueryTailSyntax_SNOWFLAKE :: query_tail_syntax where
  "QueryTailSyntax_SNOWFLAKE =
    \<lparr> qt_fetch_first = True,
      qt_limit_offset_comma = False,
      qt_locking_clauses = False,
      qt_key_lock_strengths = False,
      qt_stacked_locking_clauses = False,
      qt_using_sample = False,
      qt_leading_offset = True,
      qt_limit_expressions = True,
      qt_limit_percent = False,
      qt_with_ties_requires_order_by = False,
      qt_pipe_syntax = False,
      qt_limit_by_clause = False,
      qt_settings_clause = False,
      qt_format_clause = False,
      qt_for_xml_json_clause = False \<rparr>"

definition TableFactorSyntax_SNOWFLAKE :: table_factor_syntax where
  "TableFactorSyntax_SNOWFLAKE =
    \<lparr> tf_lateral = False,
      tf_table_functions = False,
      tf_rows_from = False,
      tf_unnest = False,
      tf_unnest_with_offset = False,
      tf_table_function_ordinality = False,
      tf_special_function_table_source = True,
      tf_pivot = False,
      tf_unpivot = False,
      tf_show_ref = False,
      tf_from_values = False,
      tf_json_table = False,
      tf_xml_table = False,
      tf_table_expr_factor = False,
      tf_pivot_value_sources = True,
      tf_match_recognize = True,
      tf_open_json = False \<rparr>"

definition GroupingSyntax_SNOWFLAKE :: grouping_syntax where
  "GroupingSyntax_SNOWFLAKE =
    \<lparr> gr_grouping_sets = True,
      gr_with_rollup = False,
      gr_order_by_using = False,
      gr_group_by_all = True,
      gr_group_by_set_quantifier = False,
      gr_order_by_all = False \<rparr>"

definition UtilitySyntax_SNOWFLAKE :: utility_syntax where
  "UtilitySyntax_SNOWFLAKE =
    \<lparr> ut_copy = False,
      ut_copy_into = True,
      ut_stage_references = True,
      ut_comment_on = False,
      ut_comment_if_exists = False,
      ut_pragma = False,
      ut_attach = False,
      ut_kill = False,
      ut_handler_statements = False,
      ut_plugin_component_statements = False,
      ut_shutdown = False,
      ut_restart = False,
      ut_clone = False,
      ut_import_table = False,
      ut_help_statement = False,
      ut_binlog = False,
      ut_key_cache_statements = False,
      ut_use_statement = False,
      ut_use_qualified_name = False,
      ut_use_string_literal_name = False,
      ut_prepared_statements = False,
      ut_prepare_typed_parameters = False,
      ut_prepared_statements_from = False,
      ut_call = False,
      ut_call_bare_name = False,
      ut_load_extension = False,
      ut_load_bare_name = False,
      ut_load_data = False,
      ut_reset_scope = False,
      ut_detach_if_exists = False,
      ut_do_statement = False,
      ut_do_expression_list = False,
      ut_lock_tables = False,
      ut_lock_instance = False,
      ut_rename_statement = False,
      ut_signal_diagnostics = False,
      ut_export_import_database = False,
      ut_update_extensions = False,
      ut_flush = False,
      ut_purge_binary_logs = False,
      ut_replication_statements = False \<rparr>"

definition TransactionSyntax_SNOWFLAKE :: transaction_syntax where
  "TransactionSyntax_SNOWFLAKE =
    \<lparr> tx_start_transaction = True,
      tx_start_transaction_block_optional = False,
      tx_transaction_work_keyword = True,
      tx_begin_transaction_keyword = True,
      tx_commit_transaction_keyword = True,
      tx_rollback_transaction_keyword = True,
      tx_transaction_name = False,
      tx_begin_transaction_modes = True,
      tx_transaction_savepoints = True,
      tx_set_transaction = True,
      tx_transaction_isolation_mode = True,
      tx_transaction_access_mode = True,
      tx_transaction_deferrable_mode = True,
      tx_start_transaction_isolation_mode = True,
      tx_start_transaction_deferrable_mode = True,
      tx_start_transaction_consistent_snapshot = False,
      tx_transaction_multiple_modes = True,
      tx_transaction_modes_require_commas = False,
      tx_transaction_modes_reject_duplicates = False,
      tx_abort_transaction_alias = False,
      tx_end_transaction_alias = False,
      tx_transaction_release = False,
      tx_transaction_chain = True,
      tx_release_savepoint_keyword_optional = True,
      tx_begin_transaction_mode = False,
      tx_xa_transactions = False \<rparr>"

definition ExpressionSyntax_SNOWFLAKE :: expression_syntax where
  "ExpressionSyntax_SNOWFLAKE =
    \<lparr> es_typecast_operator = False,
      es_subscript = False,
      es_slice_step = False,
      es_collate = False,
      es_at_time_zone = False,
      es_semi_structured_access = True,
      es_array_constructor = False,
      es_multidim_array_literals = False,
      es_collection_literals = False,
      es_row_constructor = False,
      es_struct_constructor = False,
      es_field_selection = False,
      es_field_wildcard = False,
      es_typed_string_literals = True,
      es_typed_interval_literal = True,
      es_relaxed_interval_syntax = False,
      es_mysql_interval_operator = False,
      es_positional_column = False,
      es_lambda_keyword = False \<rparr>"

definition FeatureSet_SNOWFLAKE :: feature_set where
  "FeatureSet_SNOWFLAKE =
    \<lparr> identifier_casing = Casing_Upper,
      identifier_quotes = STANDARD_IDENTIFIER_QUOTES,
      default_null_ordering = NullsLast,
      reserved_column_name = SNOWFLAKE_RESERVED_COLUMN_NAME,
      reserved_function_name = SNOWFLAKE_RESERVED_FUNCTION_NAME,
      reserved_type_name = SNOWFLAKE_RESERVED_TYPE_NAME,
      reserved_bare_alias = SNOWFLAKE_RESERVED_BARE_ALIAS,
      reserved_as_label = KEYWORD_SET_EMPTY,
      catalog_qualified_names = True,
      byte_classes = STANDARD_BYTE_CLASSES,
      binding_powers = STANDARD_BINDING_POWERS,
      set_operation_powers = STANDARD_SET_OPERATION_BINDING_POWERS,
      string_literals = StringLiteralSyntax_ANSI,
      numeric_literals = NumericLiteralSyntax_ANSI,
      parameters = ParameterSyntax_ANSI,
      session_variables = SessionVariableSyntax_ANSI,
      identifier_syntax = IdentifierSyntax_ANSI,
      table_expressions = \<lparr> te_only = False,
      te_table_sample = False,
      te_parenthesized_joins = True,
      te_table_alias_column_lists = True,
      te_join_using_alias = False,
      te_index_hints = False,
      te_table_hints = False,
      te_partition_selection = False,
      te_base_table_alias_column_lists = True,
      te_string_literal_aliases = False,
      te_aliased_parenthesized_join = True,
      te_bare_table_alias_is_bare_label = False,
      te_table_version = False,
      te_table_json_path = True,
      te_indexed_by = False,
      te_prefix_colon_alias = False \<rparr>,
      join_syntax = JoinSyntax_ANSI,
      table_factor_syntax = TableFactorSyntax_SNOWFLAKE,
      expression_syntax = ExpressionSyntax_SNOWFLAKE,
      operator_syntax = OperatorSyntax_ANSI,
      call_syntax = CallSyntax_ANSI,
      string_func_forms = StringFuncForms_ANSI,
      aggregate_call_syntax = AggregateCallSyntax_ANSI,
      predicate_syntax = PredicateSyntax_ANSI,
      pipe_operator = Pipe_StringConcat,
      double_ampersand = Amp_Unsupported,
      keyword_operators = KwOps_Unsupported,
      caret_operator = Caret_Unsupported,
      hash_bitwise_xor = False,
      comment_syntax = CommentSyntax_ANSI,
      mutation_syntax = MutationSyntax_ANSI,
      statement_ddl_gates = StatementDdlGates_ANSI,
      view_sequence_clause_syntax = ViewSequenceClauseSyntax_ANSI,
      create_table_clause_syntax = CreateTableClauseSyntax_ANSI,
      column_definition_syntax = ColumnDefinitionSyntax_ANSI,
      constraint_syntax = ConstraintSyntax_ANSI,
      index_alter_syntax = IndexAlterSyntax_ANSI,
      existence_guards = ExistenceGuards_ANSI,
      select_syntax = SelectSyntax_SNOWFLAKE,
      query_tail_syntax = QueryTailSyntax_SNOWFLAKE,
      grouping_syntax = GroupingSyntax_SNOWFLAKE,
      utility_syntax = UtilitySyntax_SNOWFLAKE,
      transaction_syntax = TransactionSyntax_SNOWFLAKE,
      show_syntax = ShowSyntax_ANSI,
      maintenance_syntax = MaintenanceSyntax_ANSI,
      access_control_syntax = AccessControlSyntax_ANSI,
      type_name_syntax = TypeNameSyntax_ANSI,
      target_spelling = Target_Ansi \<rparr>"

subsection \<open>bigquery.rs\<close>

definition BIGQUERY_IDENTIFIER_QUOTES :: "identifier_quote list" where
  "BIGQUERY_IDENTIFIER_QUOTES =
    [Symmetric 96]"

definition StringLiteralSyntax_BIGQUERY :: string_literal_syntax where
  "StringLiteralSyntax_BIGQUERY =
    \<lparr> sl_escape_strings = False,
      sl_dollar_quoted_strings = False,
      sl_national_strings = False,
      sl_double_quoted_strings = True,
      sl_backslash_escapes = False,
      sl_unicode_strings = False,
      sl_bit_string_literals = False,
      sl_blob_literals = False,
      sl_charset_introducers = False,
      sl_same_line_adjacent_concat = False \<rparr>"

definition TableExpressionSyntax_BIGQUERY :: table_expression_syntax where
  "TableExpressionSyntax_BIGQUERY =
    \<lparr> te_only = False,
      te_table_sample = False,
      te_parenthesized_joins = True,
      te_table_alias_column_lists = True,
      te_join_using_alias = False,
      te_index_hints = False,
      te_table_hints = False,
      te_partition_selection = False,
      te_base_table_alias_column_lists = True,
      te_string_literal_aliases = False,
      te_aliased_parenthesized_join = True,
      te_bare_table_alias_is_bare_label = False,
      te_table_version = True,
      te_table_json_path = False,
      te_indexed_by = False,
      te_prefix_colon_alias = False \<rparr>"

definition JoinSyntax_BIGQUERY :: join_syntax where
  "JoinSyntax_BIGQUERY =
    \<lparr> js_stacked_join_qualifiers = True,
      js_full_outer_join = True,
      js_natural_cross_join = False,
      js_straight_join = False,
      js_asof_join = False,
      js_positional_join = False,
      js_semi_anti_join = False,
      js_sided_semi_anti_join = False,
      js_apply_join = False,
      js_recursive_search_cycle = False,
      js_recursive_union_rejects_order_limit = False,
      js_recursive_using_key = False \<rparr>"

definition ExpressionSyntax_BIGQUERY :: expression_syntax where
  "ExpressionSyntax_BIGQUERY =
    \<lparr> es_typecast_operator = False,
      es_subscript = False,
      es_slice_step = False,
      es_collate = False,
      es_at_time_zone = False,
      es_semi_structured_access = False,
      es_array_constructor = False,
      es_multidim_array_literals = False,
      es_collection_literals = False,
      es_row_constructor = False,
      es_struct_constructor = True,
      es_field_selection = False,
      es_field_wildcard = False,
      es_typed_string_literals = True,
      es_typed_interval_literal = True,
      es_relaxed_interval_syntax = False,
      es_mysql_interval_operator = False,
      es_positional_column = False,
      es_lambda_keyword = False \<rparr>"

definition TableFactorSyntax_BIGQUERY :: table_factor_syntax where
  "TableFactorSyntax_BIGQUERY =
    \<lparr> tf_lateral = False,
      tf_table_functions = False,
      tf_rows_from = False,
      tf_unnest = True,
      tf_unnest_with_offset = True,
      tf_table_function_ordinality = False,
      tf_special_function_table_source = True,
      tf_pivot = False,
      tf_unpivot = False,
      tf_show_ref = False,
      tf_from_values = False,
      tf_json_table = False,
      tf_xml_table = False,
      tf_table_expr_factor = False,
      tf_pivot_value_sources = True,
      tf_match_recognize = False,
      tf_open_json = False \<rparr>"

definition TypeNameSyntax_BIGQUERY :: type_name_syntax where
  "TypeNameSyntax_BIGQUERY =
    \<lparr> tn_extended_scalar_type_names = False,
      tn_enum_type = False,
      tn_set_type = False,
      tn_numeric_modifiers = False,
      tn_integer_display_width = False,
      tn_composite_types = False,
      tn_angle_bracket_types = True,
      tn_varchar_requires_length = False,
      tn_zoned_temporal_types = True,
      tn_empty_type_parens = False,
      tn_character_set_annotation = False,
      tn_signed_type_modifier = False,
      tn_nullable_type = False,
      tn_low_cardinality_type = False,
      tn_fixed_string_type = False,
      tn_datetime64_type = False,
      tn_nested_type = False,
      tn_bit_width_integer_names = False,
      tn_liberal_type_names = False,
      tn_string_type_modifiers = False \<rparr>"

definition FeatureSet_BIGQUERY :: feature_set where
  "FeatureSet_BIGQUERY =
    \<lparr> identifier_casing = Casing_Lower,
      identifier_quotes = BIGQUERY_IDENTIFIER_QUOTES,
      default_null_ordering = NullsLast,
      reserved_column_name = BIGQUERY_RESERVED_COLUMN_NAME,
      reserved_function_name = RESERVED_FUNCTION_NAME,
      reserved_type_name = RESERVED_TYPE_NAME,
      reserved_bare_alias = RESERVED_BARE_ALIAS,
      reserved_as_label = KEYWORD_SET_EMPTY,
      catalog_qualified_names = True,
      byte_classes = STANDARD_BYTE_CLASSES,
      binding_powers = STANDARD_BINDING_POWERS,
      set_operation_powers = STANDARD_SET_OPERATION_BINDING_POWERS,
      string_literals = StringLiteralSyntax_BIGQUERY,
      numeric_literals = NumericLiteralSyntax_ANSI,
      parameters = ParameterSyntax_ANSI,
      session_variables = SessionVariableSyntax_ANSI,
      identifier_syntax = IdentifierSyntax_ANSI,
      table_expressions = TableExpressionSyntax_BIGQUERY,
      join_syntax = JoinSyntax_BIGQUERY,
      table_factor_syntax = TableFactorSyntax_BIGQUERY,
      expression_syntax = ExpressionSyntax_BIGQUERY,
      operator_syntax = OperatorSyntax_ANSI,
      call_syntax = CallSyntax_ANSI,
      string_func_forms = StringFuncForms_ANSI,
      aggregate_call_syntax = AggregateCallSyntax_ANSI,
      predicate_syntax = PredicateSyntax_ANSI,
      pipe_operator = Pipe_StringConcat,
      double_ampersand = Amp_Unsupported,
      keyword_operators = KwOps_Unsupported,
      caret_operator = Caret_Unsupported,
      hash_bitwise_xor = False,
      comment_syntax = CommentSyntax_ANSI,
      mutation_syntax = MutationSyntax_ANSI,
      statement_ddl_gates = StatementDdlGates_ANSI,
      view_sequence_clause_syntax = ViewSequenceClauseSyntax_ANSI,
      create_table_clause_syntax = CreateTableClauseSyntax_ANSI,
      column_definition_syntax = ColumnDefinitionSyntax_ANSI,
      constraint_syntax = ConstraintSyntax_ANSI,
      index_alter_syntax = IndexAlterSyntax_ANSI,
      existence_guards = ExistenceGuards_ANSI,
      select_syntax = SelectSyntax_ANSI,
      query_tail_syntax = QueryTailSyntax_ANSI,
      grouping_syntax = GroupingSyntax_ANSI,
      utility_syntax = UtilitySyntax_ANSI,
      transaction_syntax = TransactionSyntax_ANSI,
      show_syntax = ShowSyntax_ANSI,
      maintenance_syntax = MaintenanceSyntax_ANSI,
      access_control_syntax = AccessControlSyntax_ANSI,
      type_name_syntax = TypeNameSyntax_BIGQUERY,
      target_spelling = Target_Ansi \<rparr>"

subsection \<open>clickhouse.rs\<close>

definition CLICKHOUSE_IDENTIFIER_QUOTES :: "identifier_quote list" where
  "CLICKHOUSE_IDENTIFIER_QUOTES =
    [Symmetric 34, Symmetric 96]"

definition SelectSyntax_CLICKHOUSE :: select_syntax where
  "SelectSyntax_CLICKHOUSE =
    \<lparr> se_distinct_on = False,
      se_select_into = False,
      se_empty_target_list = False,
      se_qualify = False,
      se_alias_string_literals = False,
      se_bare_alias_string_literals = False,
      se_from_first = False,
      se_explicit_table = True,
      se_union_by_name = False,
      se_wildcard_modifiers = False,
      se_wildcard_replace = False,
      se_intersect_all = True,
      se_except_all = True,
      se_qualified_wildcard_alias = False,
      se_parenthesized_query_operands = True,
      se_values_rows_require_equal_arity = False,
      se_values_row_constructor = True,
      se_as_alias_rejects_reserved = False,
      se_trailing_comma = False,
      se_prefix_colon_alias = False,
      se_lateral_view_clause = False,
      se_connect_by_clause = False \<rparr>"

definition QueryTailSyntax_CLICKHOUSE :: query_tail_syntax where
  "QueryTailSyntax_CLICKHOUSE =
    \<lparr> qt_fetch_first = True,
      qt_limit_offset_comma = False,
      qt_locking_clauses = False,
      qt_key_lock_strengths = False,
      qt_stacked_locking_clauses = False,
      qt_using_sample = False,
      qt_leading_offset = True,
      qt_limit_expressions = True,
      qt_limit_percent = False,
      qt_with_ties_requires_order_by = False,
      qt_pipe_syntax = False,
      qt_limit_by_clause = True,
      qt_settings_clause = True,
      qt_format_clause = True,
      qt_for_xml_json_clause = False \<rparr>"

definition GroupingSyntax_CLICKHOUSE :: grouping_syntax where
  "GroupingSyntax_CLICKHOUSE =
    \<lparr> gr_grouping_sets = True,
      gr_with_rollup = False,
      gr_order_by_using = False,
      gr_group_by_all = False,
      gr_group_by_set_quantifier = False,
      gr_order_by_all = False \<rparr>"

definition TypeNameSyntax_CLICKHOUSE :: type_name_syntax where
  "TypeNameSyntax_CLICKHOUSE =
    \<lparr> tn_extended_scalar_type_names = False,
      tn_enum_type = False,
      tn_set_type = False,
      tn_numeric_modifiers = False,
      tn_integer_display_width = False,
      tn_composite_types = False,
      tn_angle_bracket_types = False,
      tn_varchar_requires_length = False,
      tn_zoned_temporal_types = True,
      tn_empty_type_parens = False,
      tn_character_set_annotation = False,
      tn_signed_type_modifier = False,
      tn_nullable_type = True,
      tn_low_cardinality_type = True,
      tn_fixed_string_type = True,
      tn_datetime64_type = True,
      tn_nested_type = True,
      tn_bit_width_integer_names = True,
      tn_liberal_type_names = False,
      tn_string_type_modifiers = False \<rparr>"

definition FeatureSet_CLICKHOUSE :: feature_set where
  "FeatureSet_CLICKHOUSE =
    \<lparr> identifier_casing = Casing_Preserve,
      identifier_quotes = CLICKHOUSE_IDENTIFIER_QUOTES,
      default_null_ordering = NullsLast,
      reserved_column_name = RESERVED_COLUMN_NAME,
      reserved_function_name = RESERVED_FUNCTION_NAME,
      reserved_type_name = RESERVED_TYPE_NAME,
      reserved_bare_alias = RESERVED_BARE_ALIAS,
      reserved_as_label = KEYWORD_SET_EMPTY,
      catalog_qualified_names = True,
      byte_classes = STANDARD_BYTE_CLASSES,
      binding_powers = STANDARD_BINDING_POWERS,
      set_operation_powers = STANDARD_SET_OPERATION_BINDING_POWERS,
      string_literals = StringLiteralSyntax_ANSI,
      numeric_literals = NumericLiteralSyntax_ANSI,
      parameters = ParameterSyntax_ANSI,
      session_variables = SessionVariableSyntax_ANSI,
      identifier_syntax = IdentifierSyntax_ANSI,
      table_expressions = TableExpressionSyntax_ANSI,
      join_syntax = JoinSyntax_ANSI,
      table_factor_syntax = TableFactorSyntax_ANSI,
      expression_syntax = ExpressionSyntax_ANSI,
      operator_syntax = OperatorSyntax_ANSI,
      call_syntax = CallSyntax_ANSI,
      string_func_forms = StringFuncForms_ANSI,
      aggregate_call_syntax = AggregateCallSyntax_ANSI,
      predicate_syntax = PredicateSyntax_ANSI,
      pipe_operator = Pipe_StringConcat,
      double_ampersand = Amp_Unsupported,
      keyword_operators = KwOps_Unsupported,
      caret_operator = Caret_Unsupported,
      hash_bitwise_xor = False,
      comment_syntax = CommentSyntax_ANSI,
      mutation_syntax = MutationSyntax_ANSI,
      statement_ddl_gates = StatementDdlGates_ANSI,
      view_sequence_clause_syntax = ViewSequenceClauseSyntax_ANSI,
      create_table_clause_syntax = CreateTableClauseSyntax_ANSI,
      column_definition_syntax = ColumnDefinitionSyntax_ANSI,
      constraint_syntax = ConstraintSyntax_ANSI,
      index_alter_syntax = IndexAlterSyntax_ANSI,
      existence_guards = ExistenceGuards_ANSI,
      select_syntax = SelectSyntax_CLICKHOUSE,
      query_tail_syntax = QueryTailSyntax_CLICKHOUSE,
      grouping_syntax = GroupingSyntax_CLICKHOUSE,
      utility_syntax = UtilitySyntax_ANSI,
      transaction_syntax = TransactionSyntax_ANSI,
      show_syntax = ShowSyntax_ANSI,
      maintenance_syntax = MaintenanceSyntax_ANSI,
      access_control_syntax = AccessControlSyntax_ANSI,
      type_name_syntax = TypeNameSyntax_CLICKHOUSE,
      target_spelling = Target_Ansi \<rparr>"

subsection \<open>databricks.rs\<close>

definition DATABRICKS_IDENTIFIER_QUOTES :: "identifier_quote list" where
  "DATABRICKS_IDENTIFIER_QUOTES =
    [Symmetric 34, Symmetric 96]"

definition SelectSyntax_DATABRICKS :: select_syntax where
  "SelectSyntax_DATABRICKS =
    \<lparr> se_distinct_on = False,
      se_select_into = False,
      se_empty_target_list = False,
      se_qualify = True,
      se_alias_string_literals = False,
      se_bare_alias_string_literals = False,
      se_from_first = False,
      se_explicit_table = True,
      se_union_by_name = False,
      se_wildcard_modifiers = False,
      se_wildcard_replace = False,
      se_intersect_all = True,
      se_except_all = True,
      se_qualified_wildcard_alias = False,
      se_parenthesized_query_operands = True,
      se_values_rows_require_equal_arity = False,
      se_values_row_constructor = True,
      se_as_alias_rejects_reserved = False,
      se_trailing_comma = False,
      se_prefix_colon_alias = False,
      se_lateral_view_clause = True,
      se_connect_by_clause = False \<rparr>"

definition QueryTailSyntax_DATABRICKS :: query_tail_syntax where
  "QueryTailSyntax_DATABRICKS =
    \<lparr> qt_fetch_first = True,
      qt_limit_offset_comma = False,
      qt_locking_clauses = False,
      qt_key_lock_strengths = False,
      qt_stacked_locking_clauses = False,
      qt_using_sample = False,
      qt_leading_offset = True,
      qt_limit_expressions = True,
      qt_limit_percent = False,
      qt_with_ties_requires_order_by = False,
      qt_pipe_syntax = False,
      qt_limit_by_clause = False,
      qt_settings_clause = False,
      qt_format_clause = False,
      qt_for_xml_json_clause = False \<rparr>"

definition GroupingSyntax_DATABRICKS :: grouping_syntax where
  "GroupingSyntax_DATABRICKS =
    \<lparr> gr_grouping_sets = True,
      gr_with_rollup = False,
      gr_order_by_using = False,
      gr_group_by_all = True,
      gr_group_by_set_quantifier = False,
      gr_order_by_all = True \<rparr>"

definition ExpressionSyntax_DATABRICKS :: expression_syntax where
  "ExpressionSyntax_DATABRICKS =
    \<lparr> es_typecast_operator = False,
      es_subscript = False,
      es_slice_step = False,
      es_collate = False,
      es_at_time_zone = False,
      es_semi_structured_access = True,
      es_array_constructor = False,
      es_multidim_array_literals = False,
      es_collection_literals = False,
      es_row_constructor = False,
      es_struct_constructor = False,
      es_field_selection = False,
      es_field_wildcard = False,
      es_typed_string_literals = True,
      es_typed_interval_literal = True,
      es_relaxed_interval_syntax = False,
      es_mysql_interval_operator = False,
      es_positional_column = False,
      es_lambda_keyword = False \<rparr>"

definition TableExpressionSyntax_DATABRICKS :: table_expression_syntax where
  "TableExpressionSyntax_DATABRICKS =
    \<lparr> te_only = False,
      te_table_sample = False,
      te_parenthesized_joins = True,
      te_table_alias_column_lists = True,
      te_join_using_alias = False,
      te_index_hints = False,
      te_table_hints = False,
      te_partition_selection = False,
      te_base_table_alias_column_lists = True,
      te_string_literal_aliases = False,
      te_aliased_parenthesized_join = True,
      te_bare_table_alias_is_bare_label = False,
      te_table_version = True,
      te_table_json_path = False,
      te_indexed_by = False,
      te_prefix_colon_alias = False \<rparr>"

definition JoinSyntax_DATABRICKS :: join_syntax where
  "JoinSyntax_DATABRICKS =
    \<lparr> js_stacked_join_qualifiers = True,
      js_full_outer_join = True,
      js_natural_cross_join = False,
      js_straight_join = False,
      js_asof_join = False,
      js_positional_join = False,
      js_semi_anti_join = False,
      js_sided_semi_anti_join = True,
      js_apply_join = False,
      js_recursive_search_cycle = False,
      js_recursive_union_rejects_order_limit = False,
      js_recursive_using_key = False \<rparr>"

definition TableFactorSyntax_DATABRICKS :: table_factor_syntax where
  "TableFactorSyntax_DATABRICKS =
    \<lparr> tf_lateral = False,
      tf_table_functions = False,
      tf_rows_from = False,
      tf_unnest = False,
      tf_unnest_with_offset = False,
      tf_table_function_ordinality = False,
      tf_special_function_table_source = True,
      tf_pivot = False,
      tf_unpivot = False,
      tf_show_ref = False,
      tf_from_values = False,
      tf_json_table = False,
      tf_xml_table = False,
      tf_table_expr_factor = False,
      tf_pivot_value_sources = False,
      tf_match_recognize = False,
      tf_open_json = False \<rparr>"

definition UtilitySyntax_DATABRICKS :: utility_syntax where
  "UtilitySyntax_DATABRICKS =
    \<lparr> ut_copy = False,
      ut_copy_into = False,
      ut_stage_references = False,
      ut_comment_on = False,
      ut_comment_if_exists = False,
      ut_pragma = False,
      ut_attach = False,
      ut_kill = False,
      ut_handler_statements = False,
      ut_plugin_component_statements = False,
      ut_shutdown = False,
      ut_restart = False,
      ut_clone = False,
      ut_import_table = False,
      ut_help_statement = False,
      ut_binlog = False,
      ut_key_cache_statements = False,
      ut_use_statement = False,
      ut_use_qualified_name = False,
      ut_use_string_literal_name = False,
      ut_prepared_statements = False,
      ut_prepare_typed_parameters = False,
      ut_prepared_statements_from = False,
      ut_call = False,
      ut_call_bare_name = False,
      ut_load_extension = False,
      ut_load_bare_name = False,
      ut_load_data = False,
      ut_reset_scope = False,
      ut_detach_if_exists = False,
      ut_do_statement = False,
      ut_do_expression_list = False,
      ut_lock_tables = False,
      ut_lock_instance = False,
      ut_rename_statement = False,
      ut_signal_diagnostics = False,
      ut_export_import_database = False,
      ut_update_extensions = False,
      ut_flush = False,
      ut_purge_binary_logs = False,
      ut_replication_statements = False \<rparr>"

definition TransactionSyntax_DATABRICKS :: transaction_syntax where
  "TransactionSyntax_DATABRICKS =
    \<lparr> tx_start_transaction = True,
      tx_start_transaction_block_optional = False,
      tx_transaction_work_keyword = True,
      tx_begin_transaction_keyword = True,
      tx_commit_transaction_keyword = True,
      tx_rollback_transaction_keyword = True,
      tx_transaction_name = False,
      tx_begin_transaction_modes = True,
      tx_transaction_savepoints = True,
      tx_set_transaction = True,
      tx_transaction_isolation_mode = True,
      tx_transaction_access_mode = True,
      tx_transaction_deferrable_mode = True,
      tx_start_transaction_isolation_mode = True,
      tx_start_transaction_deferrable_mode = True,
      tx_start_transaction_consistent_snapshot = False,
      tx_transaction_multiple_modes = True,
      tx_transaction_modes_require_commas = False,
      tx_transaction_modes_reject_duplicates = False,
      tx_abort_transaction_alias = False,
      tx_end_transaction_alias = False,
      tx_transaction_release = False,
      tx_transaction_chain = True,
      tx_release_savepoint_keyword_optional = True,
      tx_begin_transaction_mode = False,
      tx_xa_transactions = False \<rparr>"

definition ShowSyntax_DATABRICKS :: show_syntax where
  "ShowSyntax_DATABRICKS =
    \<lparr> sh_describe = False,
      sh_describe_summarize = False,
      sh_session_statements = True,
      sh_set_value_reserved_words = RESERVED_SET_VALUE_WORDS,
      sh_set_value_on_keyword = True,
      sh_set_value_null_keyword = False,
      sh_show_tables = False,
      sh_show_columns = False,
      sh_show_create_table = False,
      sh_show_functions = True,
      sh_show_routine_status = False,
      sh_show_verbose = False,
      sh_show_admin = False \<rparr>"

definition MaintenanceSyntax_DATABRICKS :: maintenance_syntax where
  "MaintenanceSyntax_DATABRICKS =
    \<lparr> ma_vacuum = False,
      ma_vacuum_analyze = False,
      ma_reindex = False,
      ma_analyze = False,
      ma_analyze_columns = False,
      ma_checkpoint = False,
      ma_checkpoint_database = False,
      ma_table_maintenance = False \<rparr>"

definition AccessControlSyntax_DATABRICKS :: access_control_syntax where
  "AccessControlSyntax_DATABRICKS =
    \<lparr> ac_alter_role_rename = False,
      ac_access_control = True,
      ac_access_control_extended_objects = True,
      ac_user_role_management = False,
      ac_access_control_account_grants = False \<rparr>"

definition FeatureSet_DATABRICKS :: feature_set where
  "FeatureSet_DATABRICKS =
    \<lparr> identifier_casing = Casing_Preserve,
      identifier_quotes = DATABRICKS_IDENTIFIER_QUOTES,
      default_null_ordering = NullsLast,
      reserved_column_name = DATABRICKS_RESERVED_COLUMN_NAME,
      reserved_function_name = DATABRICKS_RESERVED_FUNCTION_NAME,
      reserved_type_name = DATABRICKS_RESERVED_TYPE_NAME,
      reserved_bare_alias = DATABRICKS_RESERVED_BARE_ALIAS,
      reserved_as_label = KEYWORD_SET_EMPTY,
      catalog_qualified_names = True,
      byte_classes = STANDARD_BYTE_CLASSES,
      binding_powers = STANDARD_BINDING_POWERS,
      set_operation_powers = STANDARD_SET_OPERATION_BINDING_POWERS,
      string_literals = StringLiteralSyntax_ANSI,
      numeric_literals = NumericLiteralSyntax_ANSI,
      parameters = ParameterSyntax_ANSI,
      session_variables = SessionVariableSyntax_ANSI,
      identifier_syntax = IdentifierSyntax_ANSI,
      table_expressions = TableExpressionSyntax_DATABRICKS,
      join_syntax = JoinSyntax_DATABRICKS,
      table_factor_syntax = TableFactorSyntax_DATABRICKS,
      expression_syntax = ExpressionSyntax_DATABRICKS,
      operator_syntax = OperatorSyntax_ANSI,
      call_syntax = CallSyntax_ANSI,
      string_func_forms = StringFuncForms_ANSI,
      aggregate_call_syntax = AggregateCallSyntax_ANSI,
      predicate_syntax = PredicateSyntax_ANSI,
      pipe_operator = Pipe_StringConcat,
      double_ampersand = Amp_Unsupported,
      keyword_operators = KwOps_Unsupported,
      caret_operator = Caret_Unsupported,
      hash_bitwise_xor = False,
      comment_syntax = CommentSyntax_ANSI,
      mutation_syntax = MutationSyntax_ANSI,
      statement_ddl_gates = StatementDdlGates_ANSI,
      view_sequence_clause_syntax = ViewSequenceClauseSyntax_ANSI,
      create_table_clause_syntax = CreateTableClauseSyntax_ANSI,
      column_definition_syntax = ColumnDefinitionSyntax_ANSI,
      constraint_syntax = ConstraintSyntax_ANSI,
      index_alter_syntax = IndexAlterSyntax_ANSI,
      existence_guards = ExistenceGuards_ANSI,
      select_syntax = SelectSyntax_DATABRICKS,
      query_tail_syntax = QueryTailSyntax_DATABRICKS,
      grouping_syntax = GroupingSyntax_DATABRICKS,
      utility_syntax = UtilitySyntax_DATABRICKS,
      transaction_syntax = TransactionSyntax_DATABRICKS,
      show_syntax = ShowSyntax_DATABRICKS,
      maintenance_syntax = MaintenanceSyntax_DATABRICKS,
      access_control_syntax = AccessControlSyntax_DATABRICKS,
      type_name_syntax = TypeNameSyntax_ANSI,
      target_spelling = Target_Ansi \<rparr>"

subsection \<open>hive.rs\<close>

definition HIVE_IDENTIFIER_QUOTES :: "identifier_quote list" where
  "HIVE_IDENTIFIER_QUOTES =
    [Symmetric 96]"

definition StringLiteralSyntax_HIVE :: string_literal_syntax where
  "StringLiteralSyntax_HIVE =
    \<lparr> sl_escape_strings = False,
      sl_dollar_quoted_strings = False,
      sl_national_strings = False,
      sl_double_quoted_strings = True,
      sl_backslash_escapes = False,
      sl_unicode_strings = False,
      sl_bit_string_literals = False,
      sl_blob_literals = False,
      sl_charset_introducers = False,
      sl_same_line_adjacent_concat = False \<rparr>"

definition TableExpressionSyntax_HIVE :: table_expression_syntax where
  "TableExpressionSyntax_HIVE =
    \<lparr> te_only = False,
      te_table_sample = False,
      te_parenthesized_joins = True,
      te_table_alias_column_lists = True,
      te_join_using_alias = False,
      te_index_hints = False,
      te_table_hints = False,
      te_partition_selection = False,
      te_base_table_alias_column_lists = True,
      te_string_literal_aliases = False,
      te_aliased_parenthesized_join = True,
      te_bare_table_alias_is_bare_label = False,
      te_table_version = False,
      te_table_json_path = False,
      te_indexed_by = False,
      te_prefix_colon_alias = False \<rparr>"

definition JoinSyntax_HIVE :: join_syntax where
  "JoinSyntax_HIVE =
    \<lparr> js_stacked_join_qualifiers = True,
      js_full_outer_join = True,
      js_natural_cross_join = False,
      js_straight_join = False,
      js_asof_join = False,
      js_positional_join = False,
      js_semi_anti_join = False,
      js_sided_semi_anti_join = True,
      js_apply_join = False,
      js_recursive_search_cycle = False,
      js_recursive_union_rejects_order_limit = False,
      js_recursive_using_key = False \<rparr>"

definition TableFactorSyntax_HIVE :: table_factor_syntax where
  "TableFactorSyntax_HIVE =
    \<lparr> tf_lateral = False,
      tf_table_functions = False,
      tf_rows_from = False,
      tf_unnest = False,
      tf_unnest_with_offset = False,
      tf_table_function_ordinality = False,
      tf_special_function_table_source = True,
      tf_pivot = False,
      tf_unpivot = False,
      tf_show_ref = False,
      tf_from_values = False,
      tf_json_table = False,
      tf_xml_table = False,
      tf_table_expr_factor = False,
      tf_pivot_value_sources = False,
      tf_match_recognize = False,
      tf_open_json = False \<rparr>"

definition SelectSyntax_HIVE :: select_syntax where
  "SelectSyntax_HIVE =
    \<lparr> se_distinct_on = False,
      se_select_into = False,
      se_empty_target_list = False,
      se_qualify = False,
      se_alias_string_literals = False,
      se_bare_alias_string_literals = False,
      se_from_first = False,
      se_explicit_table = True,
      se_union_by_name = False,
      se_wildcard_modifiers = False,
      se_wildcard_replace = False,
      se_intersect_all = True,
      se_except_all = True,
      se_qualified_wildcard_alias = False,
      se_parenthesized_query_operands = True,
      se_values_rows_require_equal_arity = False,
      se_values_row_constructor = True,
      se_as_alias_rejects_reserved = False,
      se_trailing_comma = False,
      se_prefix_colon_alias = False,
      se_lateral_view_clause = True,
      se_connect_by_clause = False \<rparr>"

definition FeatureSet_HIVE :: feature_set where
  "FeatureSet_HIVE =
    \<lparr> identifier_casing = Casing_Lower,
      identifier_quotes = HIVE_IDENTIFIER_QUOTES,
      default_null_ordering = NullsLast,
      reserved_column_name = RESERVED_COLUMN_NAME,
      reserved_function_name = RESERVED_FUNCTION_NAME,
      reserved_type_name = RESERVED_TYPE_NAME,
      reserved_bare_alias = RESERVED_BARE_ALIAS,
      reserved_as_label = KEYWORD_SET_EMPTY,
      catalog_qualified_names = True,
      byte_classes = STANDARD_BYTE_CLASSES,
      binding_powers = STANDARD_BINDING_POWERS,
      set_operation_powers = STANDARD_SET_OPERATION_BINDING_POWERS,
      string_literals = StringLiteralSyntax_HIVE,
      numeric_literals = NumericLiteralSyntax_ANSI,
      parameters = ParameterSyntax_ANSI,
      session_variables = SessionVariableSyntax_ANSI,
      identifier_syntax = IdentifierSyntax_ANSI,
      table_expressions = TableExpressionSyntax_HIVE,
      join_syntax = JoinSyntax_HIVE,
      table_factor_syntax = TableFactorSyntax_HIVE,
      expression_syntax = ExpressionSyntax_ANSI,
      operator_syntax = OperatorSyntax_ANSI,
      call_syntax = CallSyntax_ANSI,
      string_func_forms = StringFuncForms_ANSI,
      aggregate_call_syntax = AggregateCallSyntax_ANSI,
      predicate_syntax = PredicateSyntax_ANSI,
      pipe_operator = Pipe_StringConcat,
      double_ampersand = Amp_Unsupported,
      keyword_operators = KwOps_Unsupported,
      caret_operator = Caret_Unsupported,
      hash_bitwise_xor = False,
      comment_syntax = CommentSyntax_ANSI,
      mutation_syntax = MutationSyntax_ANSI,
      statement_ddl_gates = StatementDdlGates_ANSI,
      view_sequence_clause_syntax = ViewSequenceClauseSyntax_ANSI,
      create_table_clause_syntax = CreateTableClauseSyntax_ANSI,
      column_definition_syntax = ColumnDefinitionSyntax_ANSI,
      constraint_syntax = ConstraintSyntax_ANSI,
      index_alter_syntax = IndexAlterSyntax_ANSI,
      existence_guards = ExistenceGuards_ANSI,
      select_syntax = SelectSyntax_HIVE,
      query_tail_syntax = QueryTailSyntax_ANSI,
      grouping_syntax = GroupingSyntax_ANSI,
      utility_syntax = UtilitySyntax_ANSI,
      transaction_syntax = TransactionSyntax_ANSI,
      show_syntax = ShowSyntax_ANSI,
      maintenance_syntax = MaintenanceSyntax_ANSI,
      access_control_syntax = AccessControlSyntax_ANSI,
      type_name_syntax = TypeNameSyntax_ANSI,
      target_spelling = Target_Ansi \<rparr>"

subsection \<open>mssql.rs\<close>

definition MSSQL_IDENTIFIER_QUOTES :: "identifier_quote list" where
  "MSSQL_IDENTIFIER_QUOTES =
    [Symmetric 34, Asymmetric 91 93]"

definition StringLiteralSyntax_MSSQL :: string_literal_syntax where
  "StringLiteralSyntax_MSSQL =
    \<lparr> sl_escape_strings = False,
      sl_dollar_quoted_strings = False,
      sl_national_strings = True,
      sl_double_quoted_strings = False,
      sl_backslash_escapes = False,
      sl_unicode_strings = False,
      sl_bit_string_literals = False,
      sl_blob_literals = False,
      sl_charset_introducers = False,
      sl_same_line_adjacent_concat = False \<rparr>"

definition NumericLiteralSyntax_MSSQL :: numeric_literal_syntax where
  "NumericLiteralSyntax_MSSQL =
    \<lparr> nl_hex_integers = False,
      nl_octal_integers = False,
      nl_binary_integers = False,
      nl_underscore_separators = False,
      nl_radix_leading_underscore = False,
      nl_reject_trailing_junk = False,
      nl_money_literals = True \<rparr>"

definition ParameterSyntax_MSSQL :: parameter_syntax where
  "ParameterSyntax_MSSQL =
    \<lparr> pa_positional_dollar = False,
      pa_positional_dollar_large = False,
      pa_anonymous_question = False,
      pa_named_colon = False,
      pa_named_at = True,
      pa_named_dollar = False,
      pa_numbered_question = False \<rparr>"

definition TableExpressionSyntax_MSSQL :: table_expression_syntax where
  "TableExpressionSyntax_MSSQL =
    \<lparr> te_only = False,
      te_table_sample = False,
      te_parenthesized_joins = True,
      te_table_alias_column_lists = True,
      te_join_using_alias = False,
      te_index_hints = False,
      te_table_hints = True,
      te_partition_selection = False,
      te_base_table_alias_column_lists = True,
      te_string_literal_aliases = False,
      te_aliased_parenthesized_join = True,
      te_bare_table_alias_is_bare_label = False,
      te_table_version = True,
      te_table_json_path = False,
      te_indexed_by = False,
      te_prefix_colon_alias = False \<rparr>"

definition JoinSyntax_MSSQL :: join_syntax where
  "JoinSyntax_MSSQL =
    \<lparr> js_stacked_join_qualifiers = True,
      js_full_outer_join = True,
      js_natural_cross_join = False,
      js_straight_join = False,
      js_asof_join = False,
      js_positional_join = False,
      js_semi_anti_join = False,
      js_sided_semi_anti_join = False,
      js_apply_join = True,
      js_recursive_search_cycle = False,
      js_recursive_union_rejects_order_limit = False,
      js_recursive_using_key = False \<rparr>"

definition QueryTailSyntax_MSSQL :: query_tail_syntax where
  "QueryTailSyntax_MSSQL =
    \<lparr> qt_fetch_first = True,
      qt_limit_offset_comma = False,
      qt_locking_clauses = False,
      qt_key_lock_strengths = False,
      qt_stacked_locking_clauses = False,
      qt_using_sample = False,
      qt_leading_offset = True,
      qt_limit_expressions = True,
      qt_limit_percent = False,
      qt_with_ties_requires_order_by = False,
      qt_pipe_syntax = False,
      qt_limit_by_clause = False,
      qt_settings_clause = False,
      qt_format_clause = False,
      qt_for_xml_json_clause = True \<rparr>"

definition TableFactorSyntax_MSSQL :: table_factor_syntax where
  "TableFactorSyntax_MSSQL =
    \<lparr> tf_lateral = False,
      tf_table_functions = False,
      tf_rows_from = False,
      tf_unnest = False,
      tf_unnest_with_offset = False,
      tf_table_function_ordinality = False,
      tf_special_function_table_source = True,
      tf_pivot = False,
      tf_unpivot = False,
      tf_show_ref = False,
      tf_from_values = False,
      tf_json_table = False,
      tf_xml_table = False,
      tf_table_expr_factor = False,
      tf_pivot_value_sources = False,
      tf_match_recognize = False,
      tf_open_json = True \<rparr>"

definition FeatureSet_MSSQL :: feature_set where
  "FeatureSet_MSSQL =
    \<lparr> identifier_casing = Casing_Lower,
      identifier_quotes = MSSQL_IDENTIFIER_QUOTES,
      default_null_ordering = NullsLast,
      reserved_column_name = RESERVED_COLUMN_NAME,
      reserved_function_name = RESERVED_FUNCTION_NAME,
      reserved_type_name = RESERVED_TYPE_NAME,
      reserved_bare_alias = RESERVED_BARE_ALIAS,
      reserved_as_label = KEYWORD_SET_EMPTY,
      catalog_qualified_names = True,
      byte_classes = STANDARD_BYTE_CLASSES,
      binding_powers = STANDARD_BINDING_POWERS,
      set_operation_powers = STANDARD_SET_OPERATION_BINDING_POWERS,
      string_literals = StringLiteralSyntax_MSSQL,
      numeric_literals = NumericLiteralSyntax_MSSQL,
      parameters = ParameterSyntax_MSSQL,
      session_variables = SessionVariableSyntax_ANSI,
      identifier_syntax = IdentifierSyntax_ANSI,
      table_expressions = TableExpressionSyntax_MSSQL,
      join_syntax = JoinSyntax_MSSQL,
      table_factor_syntax = TableFactorSyntax_MSSQL,
      expression_syntax = ExpressionSyntax_ANSI,
      operator_syntax = OperatorSyntax_ANSI,
      call_syntax = CallSyntax_ANSI,
      string_func_forms = StringFuncForms_ANSI,
      aggregate_call_syntax = AggregateCallSyntax_ANSI,
      predicate_syntax = PredicateSyntax_ANSI,
      pipe_operator = Pipe_StringConcat,
      double_ampersand = Amp_Unsupported,
      keyword_operators = KwOps_Unsupported,
      caret_operator = Caret_Unsupported,
      hash_bitwise_xor = False,
      comment_syntax = CommentSyntax_ANSI,
      mutation_syntax = MutationSyntax_ANSI,
      statement_ddl_gates = StatementDdlGates_ANSI,
      view_sequence_clause_syntax = ViewSequenceClauseSyntax_ANSI,
      create_table_clause_syntax = CreateTableClauseSyntax_ANSI,
      column_definition_syntax = ColumnDefinitionSyntax_ANSI,
      constraint_syntax = ConstraintSyntax_ANSI,
      index_alter_syntax = IndexAlterSyntax_ANSI,
      existence_guards = ExistenceGuards_ANSI,
      select_syntax = SelectSyntax_ANSI,
      query_tail_syntax = QueryTailSyntax_MSSQL,
      grouping_syntax = GroupingSyntax_ANSI,
      utility_syntax = UtilitySyntax_ANSI,
      transaction_syntax = TransactionSyntax_ANSI,
      show_syntax = ShowSyntax_ANSI,
      maintenance_syntax = MaintenanceSyntax_ANSI,
      access_control_syntax = AccessControlSyntax_ANSI,
      type_name_syntax = TypeNameSyntax_ANSI,
      target_spelling = Target_Ansi \<rparr>"

subsection \<open>quiltdb.rs\<close>

definition AccessControlSyntax_QUILTDB :: access_control_syntax where
  "AccessControlSyntax_QUILTDB =
    \<lparr> ac_alter_role_rename = True,
      ac_access_control = True,
      ac_access_control_extended_objects = True,
      ac_user_role_management = True,
      ac_access_control_account_grants = False \<rparr>"

definition ExpressionSyntax_QUILTDB :: expression_syntax where
  "ExpressionSyntax_QUILTDB =
    \<lparr> es_typecast_operator = True,
      es_subscript = True,
      es_slice_step = False,
      es_collate = True,
      es_at_time_zone = True,
      es_semi_structured_access = False,
      es_array_constructor = True,
      es_multidim_array_literals = True,
      es_collection_literals = True,
      es_row_constructor = True,
      es_struct_constructor = True,
      es_field_selection = True,
      es_field_wildcard = True,
      es_typed_string_literals = True,
      es_typed_interval_literal = True,
      es_relaxed_interval_syntax = False,
      es_mysql_interval_operator = False,
      es_positional_column = False,
      es_lambda_keyword = False \<rparr>"

definition SelectSyntax_QUILTDB :: select_syntax where
  "SelectSyntax_QUILTDB =
    \<lparr> se_distinct_on = True,
      se_select_into = True,
      se_empty_target_list = True,
      se_qualify = False,
      se_alias_string_literals = False,
      se_bare_alias_string_literals = False,
      se_from_first = False,
      se_explicit_table = True,
      se_union_by_name = False,
      se_wildcard_modifiers = False,
      se_wildcard_replace = True,
      se_intersect_all = False,
      se_except_all = False,
      se_qualified_wildcard_alias = True,
      se_parenthesized_query_operands = True,
      se_values_rows_require_equal_arity = False,
      se_values_row_constructor = True,
      se_as_alias_rejects_reserved = False,
      se_trailing_comma = False,
      se_prefix_colon_alias = False,
      se_lateral_view_clause = False,
      se_connect_by_clause = False \<rparr>"

definition PredicateSyntax_QUILTDB :: predicate_syntax where
  "PredicateSyntax_QUILTDB =
    \<lparr> pr_is_distinct_from = False,
      pr_like = True,
      pr_ilike = True,
      pr_similar_to = True,
      pr_overlaps_period_predicate = True,
      pr_unparenthesized_in_list = False,
      pr_pattern_match_quantifier = True,
      pr_between_symmetric = True,
      pr_is_normalized = True,
      pr_empty_in_list = False,
      pr_null_test_two_word_postfix = False \<rparr>"

definition MutationSyntax_QUILTDB :: mutation_syntax where
  "MutationSyntax_QUILTDB =
    \<lparr> mu_insert_ignore = True,
      mu_insert_overwrite = True,
      mu_returning = True,
      mu_on_conflict = True,
      mu_on_duplicate_key_update = False,
      mu_multi_column_assignment = True,
      mu_update_tuple_value_row_arity = False,
      mu_where_current_of = True,
      mu_merge = True,
      mu_replace_into = True,
      mu_insert_set = False,
      mu_update_delete_tails = True,
      mu_joined_update_delete = True,
      mu_or_conflict_action = True,
      mu_insert_column_matching = False,
      mu_delete_using = True,
      mu_update_from = True,
      mu_delete_using_target_alias = True,
      mu_cte_before_insert = True,
      mu_cte_before_merge = True,
      mu_data_modifying_ctes = True,
      mu_merge_when_not_matched_by = True,
      mu_merge_insert_default_values = True,
      mu_merge_insert_overriding = True,
      mu_merge_insert_multirow = True,
      mu_merge_update_set_star = False,
      mu_merge_insert_star_by_name = False,
      mu_merge_error_action = False,
      mu_update_set_qualified_column = True \<rparr>"

definition IndexAlterSyntax_QUILTDB :: index_alter_syntax where
  "IndexAlterSyntax_QUILTDB =
    \<lparr> ia_rename_constraint = True,
      ia_alter_table_set_options = True,
      ia_drop_primary_key = True,
      ia_alter_column_add_identity = True,
      ia_index_storage_parameters = True,
      ia_drop_behavior = True,
      ia_index_drop_on_table = False,
      ia_alter_table_drop_index = False,
      ia_index_concurrently = True,
      ia_index_using_method = True,
      ia_partial_index = True,
      ia_index_if_not_exists = True,
      ia_index_nulls_order = True,
      ia_alter_table_extended = True,
      ia_alter_table_multiple_actions = True,
      ia_alter_existence_guards = True,
      ia_alter_nested_column_paths = False,
      ia_alter_column_set_data_type = True,
      ia_routine_arg_types = True,
      ia_routine_arg_defaults = True,
      ia_routine_arg_modes = True,
      ia_routine_language_string = True \<rparr>"

definition ColumnDefinitionSyntax_QUILTDB :: column_definition_syntax where
  "ColumnDefinitionSyntax_QUILTDB =
    \<lparr> cd_generated_column_shorthand = False,
      cd_column_conflict_resolution_clause = False,
      cd_typeless_column_definitions = False,
      cd_typeless_generated_columns = False,
      cd_joined_autoincrement_attribute = True,
      cd_underscored_autoincrement_attribute = True,
      cd_inline_primary_key_ordering = False,
      cd_named_column_collate_constraint = False,
      cd_identity_columns = True,
      cd_compact_identity_columns = True,
      cd_default_expression_requires_parens = False,
      cd_column_default_requires_b_expr = True,
      cd_column_collation = True,
      cd_column_storage = False \<rparr>"

definition StatementDdlGates_QUILTDB :: statement_ddl_gates where
  "StatementDdlGates_QUILTDB =
    \<lparr> sd_colocation_groups = True,
      sd_create_trigger = False,
      sd_create_macro = False,
      sd_create_secret = False,
      sd_create_type = False,
      sd_create_virtual_table = False,
      sd_create_sequence = True,
      sd_extension_ddl = True,
      sd_transform_ddl = True,
      sd_alter_system = True,
      sd_tablespace_ddl = False,
      sd_logfile_group_ddl = False,
      sd_schemas = True,
      sd_schema_elements = True,
      sd_databases = True,
      sd_drop_database = False,
      sd_materialized_views = True,
      sd_routines = True,
      sd_or_replace = True,
      sd_create_or_replace_table = False,
      sd_create_or_replace_materialized_view = True,
      sd_compound_statements = False,
      sd_alter_database = False,
      sd_alter_database_options = False,
      sd_server_definition = False,
      sd_alter_instance = False,
      sd_spatial_reference_system = False,
      sd_resource_group = False,
      sd_alter_sequence = False,
      sd_alter_object_set_schema = False \<rparr>"

definition ViewSequenceClauseSyntax_QUILTDB :: view_sequence_clause_syntax where
  "ViewSequenceClauseSyntax_QUILTDB =
    \<lparr> vs_create_sequence_cache = True,
      vs_materialized_view_to = True,
      vs_temporary_views = True,
      vs_recursive_views = False,
      vs_view_definition_options = False \<rparr>"

definition TypeNameSyntax_QUILTDB :: type_name_syntax where
  "TypeNameSyntax_QUILTDB =
    \<lparr> tn_extended_scalar_type_names = True,
      tn_enum_type = True,
      tn_set_type = True,
      tn_numeric_modifiers = True,
      tn_integer_display_width = False,
      tn_composite_types = True,
      tn_angle_bracket_types = True,
      tn_varchar_requires_length = False,
      tn_zoned_temporal_types = True,
      tn_empty_type_parens = False,
      tn_character_set_annotation = False,
      tn_signed_type_modifier = True,
      tn_nullable_type = True,
      tn_low_cardinality_type = True,
      tn_fixed_string_type = True,
      tn_datetime64_type = True,
      tn_nested_type = False,
      tn_bit_width_integer_names = True,
      tn_liberal_type_names = True,
      tn_string_type_modifiers = True \<rparr>"

definition TableExpressionSyntax_QUILTDB :: table_expression_syntax where
  "TableExpressionSyntax_QUILTDB =
    \<lparr> te_only = True,
      te_table_sample = False,
      te_parenthesized_joins = True,
      te_table_alias_column_lists = True,
      te_join_using_alias = True,
      te_index_hints = False,
      te_table_hints = False,
      te_partition_selection = False,
      te_base_table_alias_column_lists = True,
      te_string_literal_aliases = False,
      te_aliased_parenthesized_join = True,
      te_bare_table_alias_is_bare_label = False,
      te_table_version = False,
      te_table_json_path = False,
      te_indexed_by = False,
      te_prefix_colon_alias = False \<rparr>"

definition UtilitySyntax_QUILTDB :: utility_syntax where
  "UtilitySyntax_QUILTDB =
    \<lparr> ut_copy = True,
      ut_copy_into = False,
      ut_stage_references = False,
      ut_comment_on = True,
      ut_comment_if_exists = True,
      ut_pragma = False,
      ut_attach = False,
      ut_kill = False,
      ut_handler_statements = False,
      ut_plugin_component_statements = False,
      ut_shutdown = False,
      ut_restart = False,
      ut_clone = False,
      ut_import_table = False,
      ut_help_statement = False,
      ut_binlog = False,
      ut_key_cache_statements = False,
      ut_use_statement = False,
      ut_use_qualified_name = False,
      ut_use_string_literal_name = False,
      ut_prepared_statements = True,
      ut_prepare_typed_parameters = True,
      ut_prepared_statements_from = False,
      ut_call = False,
      ut_call_bare_name = False,
      ut_load_extension = True,
      ut_load_bare_name = False,
      ut_load_data = False,
      ut_reset_scope = False,
      ut_detach_if_exists = False,
      ut_do_statement = True,
      ut_do_expression_list = False,
      ut_lock_tables = False,
      ut_lock_instance = False,
      ut_rename_statement = False,
      ut_signal_diagnostics = False,
      ut_export_import_database = False,
      ut_update_extensions = False,
      ut_flush = False,
      ut_purge_binary_logs = False,
      ut_replication_statements = False \<rparr>"

definition TransactionSyntax_QUILTDB :: transaction_syntax where
  "TransactionSyntax_QUILTDB =
    \<lparr> tx_start_transaction = True,
      tx_start_transaction_block_optional = False,
      tx_transaction_work_keyword = True,
      tx_begin_transaction_keyword = True,
      tx_commit_transaction_keyword = True,
      tx_rollback_transaction_keyword = True,
      tx_transaction_name = False,
      tx_begin_transaction_modes = True,
      tx_transaction_savepoints = True,
      tx_set_transaction = True,
      tx_transaction_isolation_mode = True,
      tx_transaction_access_mode = True,
      tx_transaction_deferrable_mode = True,
      tx_start_transaction_isolation_mode = True,
      tx_start_transaction_deferrable_mode = True,
      tx_start_transaction_consistent_snapshot = False,
      tx_transaction_multiple_modes = True,
      tx_transaction_modes_require_commas = False,
      tx_transaction_modes_reject_duplicates = False,
      tx_abort_transaction_alias = True,
      tx_end_transaction_alias = True,
      tx_transaction_release = False,
      tx_transaction_chain = True,
      tx_release_savepoint_keyword_optional = True,
      tx_begin_transaction_mode = False,
      tx_xa_transactions = False \<rparr>"

definition ShowSyntax_QUILTDB :: show_syntax where
  "ShowSyntax_QUILTDB =
    \<lparr> sh_describe = True,
      sh_describe_summarize = False,
      sh_session_statements = True,
      sh_set_value_reserved_words = sh_set_value_reserved_words ShowSyntax_POSTGRES,
      sh_set_value_on_keyword = True,
      sh_set_value_null_keyword = False,
      sh_show_tables = True,
      sh_show_columns = True,
      sh_show_create_table = False,
      sh_show_functions = False,
      sh_show_routine_status = False,
      sh_show_verbose = False,
      sh_show_admin = False \<rparr>"

definition FeatureSet_QUILTDB :: feature_set where
  "FeatureSet_QUILTDB =
    \<lparr> identifier_casing = Casing_Lower,
      identifier_quotes = STANDARD_IDENTIFIER_QUOTES,
      default_null_ordering = NullsLast,
      reserved_column_name = QUILTDB_RESERVED_COLUMN_NAME,
      reserved_function_name = RESERVED_FUNCTION_NAME,
      reserved_type_name = RESERVED_TYPE_NAME,
      reserved_bare_alias = QUILTDB_RESERVED_BARE_ALIAS,
      reserved_as_label = KEYWORD_SET_EMPTY,
      catalog_qualified_names = True,
      byte_classes = POSTGRES_BYTE_CLASSES,
      binding_powers = binding_powers FeatureSet_POSTGRES,
      set_operation_powers = STANDARD_SET_OPERATION_BINDING_POWERS,
      string_literals = StringLiteralSyntax_POSTGRES,
      numeric_literals = NumericLiteralSyntax_POSTGRES,
      parameters = ParameterSyntax_POSTGRES,
      session_variables = SessionVariableSyntax_ANSI,
      identifier_syntax = IdentifierSyntax_POSTGRES,
      table_expressions = TableExpressionSyntax_QUILTDB,
      join_syntax = JoinSyntax_POSTGRES,
      table_factor_syntax = TableFactorSyntax_POSTGRES,
      expression_syntax = ExpressionSyntax_QUILTDB,
      operator_syntax = OperatorSyntax_POSTGRES,
      call_syntax = CallSyntax_POSTGRES,
      string_func_forms = StringFuncForms_POSTGRES,
      aggregate_call_syntax = AggregateCallSyntax_POSTGRES,
      predicate_syntax = PredicateSyntax_QUILTDB,
      pipe_operator = Pipe_StringConcat,
      double_ampersand = Amp_Unsupported,
      keyword_operators = KwOps_Unsupported,
      caret_operator = Caret_Exponent,
      hash_bitwise_xor = True,
      comment_syntax = CommentSyntax_POSTGRES,
      mutation_syntax = MutationSyntax_QUILTDB,
      statement_ddl_gates = StatementDdlGates_QUILTDB,
      view_sequence_clause_syntax = ViewSequenceClauseSyntax_QUILTDB,
      create_table_clause_syntax = CreateTableClauseSyntax_POSTGRES,
      column_definition_syntax = ColumnDefinitionSyntax_QUILTDB,
      constraint_syntax = ConstraintSyntax_POSTGRES,
      index_alter_syntax = IndexAlterSyntax_QUILTDB,
      existence_guards = ExistenceGuards_POSTGRES,
      select_syntax = SelectSyntax_QUILTDB,
      query_tail_syntax = QueryTailSyntax_POSTGRES,
      grouping_syntax = GroupingSyntax_POSTGRES,
      utility_syntax = UtilitySyntax_QUILTDB,
      transaction_syntax = TransactionSyntax_QUILTDB,
      show_syntax = ShowSyntax_QUILTDB,
      maintenance_syntax = MaintenanceSyntax_POSTGRES,
      access_control_syntax = AccessControlSyntax_QUILTDB,
      type_name_syntax = TypeNameSyntax_QUILTDB,
      target_spelling = Target_Postgres \<rparr>"

subsection \<open>redshift.rs\<close>

definition FeatureSet_REDSHIFT :: feature_set where
  "FeatureSet_REDSHIFT =
    \<lparr> identifier_casing = Casing_Lower,
      identifier_quotes = STANDARD_IDENTIFIER_QUOTES,
      default_null_ordering = NullsLast,
      reserved_column_name = RESERVED_COLUMN_NAME,
      reserved_function_name = RESERVED_FUNCTION_NAME,
      reserved_type_name = RESERVED_TYPE_NAME,
      reserved_bare_alias = RESERVED_BARE_ALIAS,
      reserved_as_label = KEYWORD_SET_EMPTY,
      catalog_qualified_names = True,
      byte_classes = STANDARD_BYTE_CLASSES,
      binding_powers = STANDARD_BINDING_POWERS,
      set_operation_powers = STANDARD_SET_OPERATION_BINDING_POWERS,
      string_literals = StringLiteralSyntax_ANSI,
      numeric_literals = NumericLiteralSyntax_ANSI,
      parameters = ParameterSyntax_ANSI,
      session_variables = SessionVariableSyntax_ANSI,
      identifier_syntax = IdentifierSyntax_ANSI,
      table_expressions = \<lparr> te_only = False,
      te_table_sample = False,
      te_parenthesized_joins = True,
      te_table_alias_column_lists = True,
      te_join_using_alias = False,
      te_index_hints = False,
      te_table_hints = False,
      te_partition_selection = False,
      te_base_table_alias_column_lists = True,
      te_string_literal_aliases = False,
      te_aliased_parenthesized_join = True,
      te_bare_table_alias_is_bare_label = False,
      te_table_version = False,
      te_table_json_path = True,
      te_indexed_by = False,
      te_prefix_colon_alias = False \<rparr>,
      join_syntax = JoinSyntax_ANSI,
      table_factor_syntax = TableFactorSyntax_ANSI,
      expression_syntax = ExpressionSyntax_ANSI,
      operator_syntax = OperatorSyntax_ANSI,
      call_syntax = CallSyntax_ANSI,
      string_func_forms = StringFuncForms_ANSI,
      aggregate_call_syntax = AggregateCallSyntax_ANSI,
      predicate_syntax = PredicateSyntax_ANSI,
      pipe_operator = Pipe_StringConcat,
      double_ampersand = Amp_Unsupported,
      keyword_operators = KwOps_Unsupported,
      caret_operator = Caret_Unsupported,
      hash_bitwise_xor = False,
      comment_syntax = CommentSyntax_ANSI,
      mutation_syntax = MutationSyntax_ANSI,
      statement_ddl_gates = StatementDdlGates_ANSI,
      view_sequence_clause_syntax = ViewSequenceClauseSyntax_ANSI,
      create_table_clause_syntax = CreateTableClauseSyntax_ANSI,
      column_definition_syntax = ColumnDefinitionSyntax_ANSI,
      constraint_syntax = ConstraintSyntax_ANSI,
      index_alter_syntax = IndexAlterSyntax_ANSI,
      existence_guards = ExistenceGuards_ANSI,
      select_syntax = SelectSyntax_ANSI,
      query_tail_syntax = QueryTailSyntax_ANSI,
      grouping_syntax = GroupingSyntax_ANSI,
      utility_syntax = UtilitySyntax_ANSI,
      transaction_syntax = TransactionSyntax_ANSI,
      show_syntax = ShowSyntax_ANSI,
      maintenance_syntax = MaintenanceSyntax_ANSI,
      access_control_syntax = AccessControlSyntax_ANSI,
      type_name_syntax = TypeNameSyntax_ANSI,
      target_spelling = Target_Ansi \<rparr>"

end
