(* ===== verification/Preset_Lenient.thy ===== *)
theory Preset_Lenient
  imports Preset_Mysql Preset_Sqlite Preset_Duckdb
begin

text \<open>
  The lenient preset, \<open>crates/squonk-ast/src/dialect/lenient.rs\<close>: the value of every feature record and
  the \<open>FeatureSet\<close> that collects them. A preset \<open>X::NAME\<close> of the struct \<open>X\<close> is \<open>X_NAME\<close>; a struct
  update \<open>..Self::BASE\<close> is a record update of the base.
\<close>

definition LENIENT_IDENTIFIER_QUOTES :: "identifier_quote list" where
  "LENIENT_IDENTIFIER_QUOTES =
    [Symmetric 34, Symmetric 96, Asymmetric 91 93]"

definition CommentSyntax_LENIENT :: comment_syntax where
  "CommentSyntax_LENIENT =
    \<lparr> cs_line_comment_hash = True,
      cs_line_comment_ends_at_carriage_return = False,
      cs_nested_block_comments = True,
      cs_versioned_comments = Some u32_max,
      cs_unterminated_block_comment_at_eof = True \<rparr>"

definition StringLiteralSyntax_LENIENT :: string_literal_syntax where
  "StringLiteralSyntax_LENIENT =
    \<lparr> sl_escape_strings = True,
      sl_dollar_quoted_strings = True,
      sl_national_strings = True,
      sl_double_quoted_strings = False,
      sl_backslash_escapes = True,
      sl_unicode_strings = True,
      sl_bit_string_literals = True,
      sl_blob_literals = False,
      sl_charset_introducers = True,
      sl_same_line_adjacent_concat = True \<rparr>"

definition NumericLiteralSyntax_LENIENT :: numeric_literal_syntax where
  "NumericLiteralSyntax_LENIENT =
    \<lparr> nl_hex_integers = True,
      nl_octal_integers = True,
      nl_binary_integers = True,
      nl_underscore_separators = True,
      nl_radix_leading_underscore = True,
      nl_reject_trailing_junk = False,
      nl_money_literals = False \<rparr>"

definition ParameterSyntax_LENIENT :: parameter_syntax where
  "ParameterSyntax_LENIENT =
    \<lparr> pa_positional_dollar = True,
      pa_positional_dollar_large = True,
      pa_anonymous_question = True,
      pa_named_colon = True,
      pa_named_at = True,
      pa_named_dollar = False,
      pa_numbered_question = True \<rparr>"

definition SessionVariableSyntax_LENIENT :: session_variable_syntax where
  "SessionVariableSyntax_LENIENT =
    \<lparr> sv_user_variables = False,
      sv_system_variables = True,
      sv_variable_assignment = False \<rparr>"

definition IdentifierSyntax_LENIENT :: identifier_syntax where
  "IdentifierSyntax_LENIENT =
    \<lparr> ids_non_ascii = NonAscii_Any,
      ids_dollar_in_identifiers = True,
      ids_string_literal_identifiers = True,
      ids_string_literal_table_names = True,
      ids_empty_quoted_identifiers = True \<rparr>"

definition TableExpressionSyntax_LENIENT :: table_expression_syntax where
  "TableExpressionSyntax_LENIENT =
    \<lparr> te_only = True,
      te_table_sample = True,
      te_parenthesized_joins = True,
      te_table_alias_column_lists = True,
      te_join_using_alias = True,
      te_index_hints = True,
      te_table_hints = True,
      te_partition_selection = True,
      te_base_table_alias_column_lists = True,
      te_string_literal_aliases = True,
      te_aliased_parenthesized_join = True,
      te_bare_table_alias_is_bare_label = False,
      te_table_version = True,
      te_table_json_path = False,
      te_indexed_by = False,
      te_prefix_colon_alias = True \<rparr>"

definition JoinSyntax_LENIENT :: join_syntax where
  "JoinSyntax_LENIENT =
    \<lparr> js_stacked_join_qualifiers = True,
      js_full_outer_join = True,
      js_natural_cross_join = True,
      js_straight_join = True,
      js_asof_join = True,
      js_positional_join = True,
      js_semi_anti_join = True,
      js_sided_semi_anti_join = True,
      js_apply_join = True,
      js_recursive_search_cycle = True,
      js_recursive_union_rejects_order_limit = False,
      js_recursive_using_key = True \<rparr>"

definition TableFactorSyntax_LENIENT :: table_factor_syntax where
  "TableFactorSyntax_LENIENT =
    \<lparr> tf_lateral = True,
      tf_table_functions = True,
      tf_rows_from = True,
      tf_unnest = True,
      tf_unnest_with_offset = False,
      tf_table_function_ordinality = True,
      tf_special_function_table_source = True,
      tf_pivot = True,
      tf_unpivot = True,
      tf_show_ref = True,
      tf_from_values = True,
      tf_json_table = True,
      tf_xml_table = True,
      tf_table_expr_factor = True,
      tf_pivot_value_sources = True,
      tf_match_recognize = True,
      tf_open_json = True \<rparr>"

definition ExpressionSyntax_LENIENT :: expression_syntax where
  "ExpressionSyntax_LENIENT =
    \<lparr> es_typecast_operator = True,
      es_subscript = False,
      es_slice_step = False,
      es_collate = True,
      es_at_time_zone = True,
      es_semi_structured_access = False,
      es_array_constructor = False,
      es_multidim_array_literals = False,
      es_collection_literals = False,
      es_row_constructor = True,
      es_struct_constructor = True,
      es_field_selection = True,
      es_field_wildcard = True,
      es_typed_string_literals = True,
      es_typed_interval_literal = True,
      es_relaxed_interval_syntax = True,
      es_mysql_interval_operator = True,
      es_positional_column = False,
      es_lambda_keyword = True \<rparr>"

definition OperatorSyntax_LENIENT :: operator_syntax where
  "OperatorSyntax_LENIENT =
    \<lparr> os_operator_construct = True,
      os_containment_operators = False,
      os_json_arrow_operators = False,
      os_jsonb_operators = False,
      os_double_equals = True,
      os_integer_divide_slash = True,
      os_starts_with_operator = False,
      os_is_general_equality = True,
      os_truth_value_tests = True,
      os_null_safe_equals = True,
      os_lambda_expressions = False,
      os_bitwise_operators = True,
      os_quantified_comparisons = True,
      os_quantified_comparison_lists = True,
      os_quantified_arbitrary_operator = True,
      os_custom_operators = False,
      os_null_test_postfix = True,
      os_postfix_operators = True \<rparr>"

definition CallSyntax_LENIENT :: call_syntax where
  "CallSyntax_LENIENT =
    \<lparr> ca_named_argument = True,
      ca_utc_special_functions = True,
      ca_columns_expression = True,
      ca_extract_from_syntax = True,
      ca_try_cast = True,
      ca_restricted_cast_targets = False,
      ca_extract_string_field = True,
      ca_method_chaining = True,
      ca_sqljson_constructors_require_argument = False,
      ca_sqljson_expression_functions = True,
      ca_xml_expression_functions = True,
      ca_variadic_argument = True,
      ca_merge_action_function = True,
      ca_convert_function = True \<rparr>"

definition StringFuncForms_LENIENT :: string_func_forms where
  "StringFuncForms_LENIENT =
    \<lparr> sf_substring_from_for = True,
      sf_substring_leading_for = True,
      sf_substring_similar = True,
      sf_substring_plain_call_requires_2_or_3_args = False,
      sf_substr_from_for = True,
      sf_position_in = True,
      sf_position_asymmetric_operands = False,
      sf_overlay_placing = True,
      sf_overlay_requires_placing = False,
      sf_trim_from = True,
      sf_trim_list_syntax = True,
      sf_collation_for_expression = True,
      sf_ceil_to_field = True,
      sf_floor_to_field = True,
      sf_match_against = True \<rparr>"

definition AggregateCallSyntax_LENIENT :: aggregate_call_syntax where
  "AggregateCallSyntax_LENIENT =
    \<lparr> ag_group_concat_separator = True,
      ag_within_group = True,
      ag_aggregate_filter = True,
      ag_filter_optional_where = True,
      ag_aggregate_args_require_adjacent_paren = False,
      ag_null_treatment = True,
      ag_aggregate_calls_reject_empty_arguments = False,
      ag_over_requires_windowable_function = False,
      ag_window_function_tail = False,
      ag_standalone_argument_order_by = True \<rparr>"

definition PredicateSyntax_LENIENT :: predicate_syntax where
  "PredicateSyntax_LENIENT =
    \<lparr> pr_is_distinct_from = True,
      pr_like = True,
      pr_ilike = True,
      pr_similar_to = True,
      pr_overlaps_period_predicate = True,
      pr_unparenthesized_in_list = True,
      pr_pattern_match_quantifier = True,
      pr_between_symmetric = True,
      pr_is_normalized = True,
      pr_empty_in_list = True,
      pr_null_test_two_word_postfix = True \<rparr>"

definition MutationSyntax_LENIENT :: mutation_syntax where
  "MutationSyntax_LENIENT =
    \<lparr> mu_insert_ignore = True,
      mu_insert_overwrite = True,
      mu_returning = True,
      mu_on_conflict = True,
      mu_on_duplicate_key_update = True,
      mu_multi_column_assignment = True,
      mu_update_tuple_value_row_arity = False,
      mu_where_current_of = True,
      mu_merge = True,
      mu_replace_into = True,
      mu_insert_set = True,
      mu_update_delete_tails = True,
      mu_joined_update_delete = True,
      mu_or_conflict_action = True,
      mu_insert_column_matching = True,
      mu_delete_using = True,
      mu_update_from = True,
      mu_delete_using_target_alias = True,
      mu_cte_before_insert = True,
      mu_cte_before_merge = True,
      mu_data_modifying_ctes = True,
      mu_merge_when_not_matched_by = True,
      mu_merge_insert_default_values = True,
      mu_merge_insert_overriding = True,
      mu_merge_insert_multirow = True,
      mu_merge_update_set_star = True,
      mu_merge_insert_star_by_name = True,
      mu_merge_error_action = True,
      mu_update_set_qualified_column = True \<rparr>"

definition StatementDdlGates_LENIENT :: statement_ddl_gates where
  "StatementDdlGates_LENIENT =
    \<lparr> sd_colocation_groups = True,
      sd_create_trigger = True,
      sd_create_macro = True,
      sd_create_secret = True,
      sd_create_type = True,
      sd_create_virtual_table = True,
      sd_create_sequence = True,
      sd_extension_ddl = True,
      sd_transform_ddl = True,
      sd_alter_system = True,
      sd_tablespace_ddl = True,
      sd_logfile_group_ddl = True,
      sd_schemas = True,
      sd_schema_elements = True,
      sd_databases = True,
      sd_drop_database = False,
      sd_materialized_views = True,
      sd_routines = True,
      sd_or_replace = True,
      sd_create_or_replace_table = True,
      sd_create_or_replace_materialized_view = True,
      sd_compound_statements = True,
      sd_alter_database = True,
      sd_alter_database_options = True,
      sd_server_definition = True,
      sd_alter_instance = True,
      sd_spatial_reference_system = True,
      sd_resource_group = True,
      sd_alter_sequence = True,
      sd_alter_object_set_schema = True \<rparr>"

definition ViewSequenceClauseSyntax_LENIENT :: view_sequence_clause_syntax where
  "ViewSequenceClauseSyntax_LENIENT =
    \<lparr> vs_create_sequence_cache = True,
      vs_materialized_view_to = True,
      vs_temporary_views = True,
      vs_recursive_views = True,
      vs_view_definition_options = True \<rparr>"

definition CreateTableClauseSyntax_LENIENT :: create_table_clause_syntax where
  "CreateTableClauseSyntax_LENIENT =
    \<lparr> ct_table_options = True,
      ct_without_rowid_table_option = True,
      ct_strict_table_option = True,
      ct_storage_parameters = True,
      ct_on_commit = True,
      ct_create_table_as_with_data = True,
      ct_create_table_as_execute = True,
      ct_declarative_partitioning = True,
      ct_table_inheritance = True,
      ct_like_source_table = True,
      ct_statement_level_table_like = True,
      ct_unlogged_tables = True,
      ct_table_access_method = True,
      ct_without_oids = True,
      ct_typed_tables = True \<rparr>"

definition ColumnDefinitionSyntax_LENIENT :: column_definition_syntax where
  "ColumnDefinitionSyntax_LENIENT =
    \<lparr> cd_generated_column_shorthand = True,
      cd_column_conflict_resolution_clause = True,
      cd_typeless_column_definitions = True,
      cd_typeless_generated_columns = True,
      cd_joined_autoincrement_attribute = True,
      cd_underscored_autoincrement_attribute = True,
      cd_inline_primary_key_ordering = True,
      cd_named_column_collate_constraint = True,
      cd_identity_columns = True,
      cd_compact_identity_columns = True,
      cd_default_expression_requires_parens = False,
      cd_column_default_requires_b_expr = False,
      cd_column_collation = True,
      cd_column_storage = True \<rparr>"

definition ConstraintSyntax_LENIENT :: constraint_syntax where
  "ConstraintSyntax_LENIENT =
    \<lparr> co_deferrable_constraints = True,
      co_named_inline_non_check_constraints = True,
      co_bare_constraint_name = True,
      co_exclusion_constraints = True,
      co_constraint_no_inherit_not_valid = True,
      co_index_constraint_parameters = True,
      co_constraint_column_collate_order = True,
      co_referential_action_cascade_set = True,
      co_check_constraint_subqueries = True \<rparr>"

definition IndexAlterSyntax_LENIENT :: index_alter_syntax where
  "IndexAlterSyntax_LENIENT =
    \<lparr> ia_rename_constraint = True,
      ia_alter_table_set_options = True,
      ia_drop_primary_key = True,
      ia_alter_column_add_identity = True,
      ia_index_storage_parameters = True,
      ia_drop_behavior = True,
      ia_index_drop_on_table = False,
      ia_alter_table_drop_index = False,
      ia_index_concurrently = True,
      ia_index_using_method = True,
      ia_partial_index = True,
      ia_index_if_not_exists = True,
      ia_index_nulls_order = True,
      ia_alter_table_extended = True,
      ia_alter_table_multiple_actions = True,
      ia_alter_existence_guards = True,
      ia_alter_nested_column_paths = True,
      ia_alter_column_set_data_type = True,
      ia_routine_arg_types = True,
      ia_routine_arg_defaults = True,
      ia_routine_arg_modes = True,
      ia_routine_language_string = True \<rparr>"

definition ExistenceGuards_LENIENT :: existence_guards where
  "ExistenceGuards_LENIENT =
    \<lparr> eg_if_exists = True,
      eg_view_if_not_exists = True,
      eg_create_database_if_not_exists = True \<rparr>"

definition SelectSyntax_LENIENT :: select_syntax where
  "SelectSyntax_LENIENT =
    \<lparr> se_distinct_on = True,
      se_select_into = True,
      se_empty_target_list = True,
      se_qualify = True,
      se_alias_string_literals = True,
      se_bare_alias_string_literals = True,
      se_from_first = True,
      se_explicit_table = True,
      se_union_by_name = True,
      se_wildcard_modifiers = True,
      se_wildcard_replace = True,
      se_intersect_all = True,
      se_except_all = True,
      se_qualified_wildcard_alias = True,
      se_parenthesized_query_operands = True,
      se_values_rows_require_equal_arity = False,
      se_values_row_constructor = True,
      se_as_alias_rejects_reserved = False,
      se_trailing_comma = True,
      se_prefix_colon_alias = True,
      se_lateral_view_clause = True,
      se_connect_by_clause = True \<rparr>"

definition QueryTailSyntax_LENIENT :: query_tail_syntax where
  "QueryTailSyntax_LENIENT =
    \<lparr> qt_fetch_first = True,
      qt_limit_offset_comma = True,
      qt_locking_clauses = True,
      qt_key_lock_strengths = True,
      qt_stacked_locking_clauses = True,
      qt_using_sample = True,
      qt_leading_offset = True,
      qt_limit_expressions = True,
      qt_limit_percent = True,
      qt_with_ties_requires_order_by = False,
      qt_pipe_syntax = False,
      qt_limit_by_clause = True,
      qt_settings_clause = True,
      qt_format_clause = True,
      qt_for_xml_json_clause = True \<rparr>"

definition GroupingSyntax_LENIENT :: grouping_syntax where
  "GroupingSyntax_LENIENT =
    \<lparr> gr_grouping_sets = True,
      gr_with_rollup = True,
      gr_order_by_using = True,
      gr_group_by_all = True,
      gr_group_by_set_quantifier = True,
      gr_order_by_all = True \<rparr>"

definition UtilitySyntax_LENIENT :: utility_syntax where
  "UtilitySyntax_LENIENT =
    \<lparr> ut_copy = True,
      ut_copy_into = True,
      ut_stage_references = False,
      ut_comment_on = True,
      ut_comment_if_exists = True,
      ut_pragma = True,
      ut_attach = True,
      ut_kill = True,
      ut_handler_statements = True,
      ut_plugin_component_statements = True,
      ut_shutdown = True,
      ut_restart = True,
      ut_clone = True,
      ut_import_table = True,
      ut_help_statement = True,
      ut_binlog = True,
      ut_key_cache_statements = True,
      ut_use_statement = True,
      ut_use_qualified_name = True,
      ut_use_string_literal_name = True,
      ut_prepared_statements = True,
      ut_prepare_typed_parameters = True,
      ut_prepared_statements_from = False,
      ut_call = True,
      ut_call_bare_name = True,
      ut_load_extension = True,
      ut_load_bare_name = True,
      ut_load_data = True,
      ut_reset_scope = True,
      ut_detach_if_exists = True,
      ut_do_statement = True,
      ut_do_expression_list = False,
      ut_lock_tables = True,
      ut_lock_instance = True,
      ut_rename_statement = True,
      ut_signal_diagnostics = True,
      ut_export_import_database = True,
      ut_update_extensions = True,
      ut_flush = True,
      ut_purge_binary_logs = True,
      ut_replication_statements = True \<rparr>"

definition TransactionSyntax_LENIENT :: transaction_syntax where
  "TransactionSyntax_LENIENT =
    \<lparr> tx_start_transaction = True,
      tx_start_transaction_block_optional = True,
      tx_transaction_work_keyword = True,
      tx_begin_transaction_keyword = True,
      tx_commit_transaction_keyword = True,
      tx_rollback_transaction_keyword = True,
      tx_transaction_name = True,
      tx_begin_transaction_modes = True,
      tx_transaction_savepoints = True,
      tx_set_transaction = True,
      tx_transaction_isolation_mode = True,
      tx_transaction_access_mode = True,
      tx_transaction_deferrable_mode = True,
      tx_start_transaction_isolation_mode = True,
      tx_start_transaction_deferrable_mode = True,
      tx_start_transaction_consistent_snapshot = True,
      tx_transaction_multiple_modes = True,
      tx_transaction_modes_require_commas = False,
      tx_transaction_modes_reject_duplicates = False,
      tx_abort_transaction_alias = True,
      tx_end_transaction_alias = True,
      tx_transaction_release = True,
      tx_transaction_chain = True,
      tx_release_savepoint_keyword_optional = True,
      tx_begin_transaction_mode = True,
      tx_xa_transactions = True \<rparr>"

definition ShowSyntax_LENIENT :: show_syntax where
  "ShowSyntax_LENIENT =
    \<lparr> sh_describe = True,
      sh_describe_summarize = True,
      sh_session_statements = True,
      sh_set_value_reserved_words = KEYWORD_SET_EMPTY,
      sh_set_value_on_keyword = True,
      sh_set_value_null_keyword = True,
      sh_show_tables = True,
      sh_show_columns = True,
      sh_show_create_table = True,
      sh_show_functions = True,
      sh_show_routine_status = True,
      sh_show_verbose = True,
      sh_show_admin = True \<rparr>"

definition MaintenanceSyntax_LENIENT :: maintenance_syntax where
  "MaintenanceSyntax_LENIENT =
    \<lparr> ma_vacuum = True,
      ma_vacuum_analyze = True,
      ma_reindex = True,
      ma_analyze = True,
      ma_analyze_columns = True,
      ma_checkpoint = True,
      ma_checkpoint_database = True,
      ma_table_maintenance = True \<rparr>"

definition AccessControlSyntax_LENIENT :: access_control_syntax where
  "AccessControlSyntax_LENIENT =
    \<lparr> ac_alter_role_rename = True,
      ac_access_control = True,
      ac_access_control_extended_objects = True,
      ac_user_role_management = True,
      ac_access_control_account_grants = False \<rparr>"

definition TypeNameSyntax_LENIENT :: type_name_syntax where
  "TypeNameSyntax_LENIENT =
    \<lparr> tn_extended_scalar_type_names = True,
      tn_enum_type = True,
      tn_set_type = True,
      tn_numeric_modifiers = True,
      tn_integer_display_width = True,
      tn_composite_types = True,
      tn_angle_bracket_types = True,
      tn_varchar_requires_length = False,
      tn_zoned_temporal_types = True,
      tn_empty_type_parens = True,
      tn_character_set_annotation = True,
      tn_signed_type_modifier = True,
      tn_nullable_type = True,
      tn_low_cardinality_type = True,
      tn_fixed_string_type = True,
      tn_datetime64_type = True,
      tn_nested_type = True,
      tn_bit_width_integer_names = True,
      tn_liberal_type_names = True,
      tn_string_type_modifiers = False \<rparr>"

definition FeatureSet_LENIENT :: feature_set where
  "FeatureSet_LENIENT =
    \<lparr> identifier_casing = Casing_Preserve,
      identifier_quotes = LENIENT_IDENTIFIER_QUOTES,
      default_null_ordering = NullsLast,
      reserved_column_name = RESERVED_COLUMN_NAME,
      reserved_function_name = RESERVED_FUNCTION_NAME,
      reserved_type_name = RESERVED_TYPE_NAME,
      reserved_bare_alias = RESERVED_BARE_ALIAS,
      reserved_as_label = KEYWORD_SET_EMPTY,
      catalog_qualified_names = True,
      byte_classes = STANDARD_BYTE_CLASSES,
      binding_powers = \<lparr> bp_or = BP 10 11 Assoc_Left,
      bp_xor = BP 15 16 Assoc_Left,
      bp_and = BP 20 21 Assoc_Left,
      bp_comparison = BP 40 41 Assoc_NonAssoc,
      bp_range_predicate_override = Some RANGE_PREDICATE_ABOVE_COMPARISON,
      bp_is_predicate_override = Some IS_PREDICATE_BELOW_COMPARISON,
      bp_double_equals = BP 40 41 Assoc_NonAssoc,
      bp_additive = BP 50 51 Assoc_Left,
      bp_multiplicative = BP 60 61 Assoc_Left,
      bp_exponent = BP 65 66 Assoc_Left,
      bp_string_concat = BP 45 46 Assoc_Left,
      bp_any_operator = BP 45 46 Assoc_Left,
      bp_json_get = BP 45 46 Assoc_Left,
      bp_bitwise_or = BP 45 46 Assoc_Left,
      bp_bitwise_and = BP 45 46 Assoc_Left,
      bp_bitwise_shift = BP 45 46 Assoc_Left,
      bp_bitwise_xor = BP 45 46 Assoc_Left,
      bp_prefix_not = 30,
      bp_prefix_sign = 80,
      bp_prefix_bitwise_not = 46,
      bp_at_time_zone = BP 70 71 Assoc_Left,
      bp_collate = BP 74 75 Assoc_Left,
      bp_subscript = BP 84 85 Assoc_Left,
      bp_typecast = BP 88 89 Assoc_Left,
      bp_field_selection = BP 92 93 Assoc_Left \<rparr>,
      set_operation_powers = STANDARD_SET_OPERATION_BINDING_POWERS,
      string_literals = StringLiteralSyntax_LENIENT,
      numeric_literals = NumericLiteralSyntax_LENIENT,
      parameters = ParameterSyntax_LENIENT,
      session_variables = SessionVariableSyntax_LENIENT,
      identifier_syntax = IdentifierSyntax_LENIENT,
      table_expressions = TableExpressionSyntax_LENIENT,
      join_syntax = JoinSyntax_LENIENT,
      table_factor_syntax = TableFactorSyntax_LENIENT,
      expression_syntax = ExpressionSyntax_LENIENT,
      operator_syntax = OperatorSyntax_LENIENT,
      call_syntax = CallSyntax_LENIENT,
      string_func_forms = StringFuncForms_LENIENT,
      aggregate_call_syntax = AggregateCallSyntax_LENIENT,
      predicate_syntax = PredicateSyntax_LENIENT,
      pipe_operator = Pipe_StringConcat,
      double_ampersand = Amp_LogicalAnd,
      keyword_operators = KwOps_MySql,
      caret_operator = Caret_BitwiseXor,
      hash_bitwise_xor = False,
      comment_syntax = CommentSyntax_LENIENT,
      mutation_syntax = MutationSyntax_LENIENT,
      statement_ddl_gates = StatementDdlGates_LENIENT,
      view_sequence_clause_syntax = ViewSequenceClauseSyntax_LENIENT,
      create_table_clause_syntax = CreateTableClauseSyntax_LENIENT,
      column_definition_syntax = ColumnDefinitionSyntax_LENIENT,
      constraint_syntax = ConstraintSyntax_LENIENT,
      index_alter_syntax = IndexAlterSyntax_LENIENT,
      existence_guards = ExistenceGuards_LENIENT,
      select_syntax = SelectSyntax_LENIENT,
      query_tail_syntax = QueryTailSyntax_LENIENT,
      grouping_syntax = GroupingSyntax_LENIENT,
      utility_syntax = UtilitySyntax_LENIENT,
      transaction_syntax = TransactionSyntax_LENIENT,
      show_syntax = ShowSyntax_LENIENT,
      maintenance_syntax = MaintenanceSyntax_LENIENT,
      access_control_syntax = AccessControlSyntax_LENIENT,
      type_name_syntax = TypeNameSyntax_LENIENT,
      target_spelling = Target_Ansi \<rparr>"

end
