(* ===== verification/Feature_Conflicts.thy ===== *)
theory Feature_Conflicts
  imports Dialect_Features
begin

text \<open>
  The three self-consistency registries of a feature set,
  \<open>crates/squonk-ast/src/dialect/conflict.rs\<close>: lexical conflicts (two features claiming one
  tokenizer trigger), feature dependencies (a refinement flag without its base), grammar
  conflicts (two grammars claiming one head), the normal form
  \<open>without_dangling_dependents\<close> and the checked derivation \<open>try_with\<close>.
\<close>

subsection \<open>Verdicts\<close>

datatype lexical_conflict_kind =
    LC_DoubleQuoteStringVersusIdentifier
  | LC_BracketIdentifierVersusArraySyntax
  | LC_MoneyVersusPositionalDollar
  | LC_AtNameParameterVersusUserVariable
  | LC_NamedDollarParameterVersusDollarQuotedString
  | LC_HashCommentVersusHashIdentifier
  | LC_HashXorOperatorVersusHashComment
  | LC_HashXorOperatorVersusPositionalColumn
  | LC_HashCommentVersusPositionalColumn
  | LC_ColonParameterVersusSliceBound
  | LC_ContainmentOperatorVersusAtName
  | LC_JsonbKeyExistsVersusAnonymousParameter
  | LC_JsonbSearchOperatorVersusSystemVariable
  | LC_CustomOperatorVersusAtName
  | LC_CustomOperatorVersusSystemVariable
  | LC_DollarSigilVersusIdentifierByte
  | LC_AtSigilVersusIdentifierByte
  | LC_ColonSigilVersusIdentifierByte

datatype dependency_violation =
    V_KeyLockStrengthsWithoutLockingClauses
  | V_StackedLockingClausesWithoutLockingClauses
  | V_UnnestWithOffsetWithoutUnnest
  | V_SliceStepWithoutSubscript
  | V_MultidimArrayLiteralsWithoutArrayConstructor
  | V_QuantifiedComparisonListsWithoutQuantifiedComparisons
  | V_QuantifiedArbitraryOperatorWithoutQuantifiedComparisons
  | V_LambdaExpressionsWithoutJsonArrowOperators
  | V_CteBeforeMergeWithoutMerge
  | V_MergeWhenNotMatchedByWithoutMerge
  | V_MergeInsertDefaultValuesWithoutMerge
  | V_MergeInsertOverridingWithoutMerge
  | V_AlterExistenceGuardsWithoutAlterTableExtended
  | V_AlterColumnSetDataTypeWithoutAlterTableExtended
  | V_CheckpointDatabaseWithoutCheckpoint
  | V_AnalyzeColumnsWithoutAnalyze
  | V_LoadBareNameWithoutLoadExtension
  | V_CallBareNameWithoutCall
  | V_DetachIfExistsWithoutAttach
  | V_UseQualifiedNameWithoutUseStatement
  | V_UseStringLiteralNameWithoutUseStatement
  | V_AccessControlExtendedObjectsWithoutAccessControl
  | V_AccountGrantsWithoutAccessControl
  | V_PrepareTypedParametersWithoutPreparedStatements

datatype grammar_conflict_kind =
    GC_PrefixColonAliasVersusSemiStructuredAccess
  | GC_DoStatementVersusDoExpressionList
  | GC_PreparedStatementsVersusPreparedStatementsFrom
  | GC_AccountGrantsVersusExtendedObjects

subsection \<open>Lexical conflicts\<close>

fun identifier_quotes_open_with :: "identifier_quote list \<Rightarrow> nat \<Rightarrow> bool" where
  "identifier_quotes_open_with [] ch = False"
| "identifier_quotes_open_with (q # qs) ch = (if iq_open q = ch then True else identifier_quotes_open_with qs ch)"

definition lexical_conflict :: "feature_set \<Rightarrow> lexical_conflict_kind option" where
  "lexical_conflict f =
    (if sl_double_quoted_strings (string_literals f) \<and> identifier_quotes_open_with (identifier_quotes f) 34
     then Some LC_DoubleQuoteStringVersusIdentifier
     else if identifier_quotes_open_with (identifier_quotes f) 91
         \<and> (es_subscript (expression_syntax f) \<or> es_array_constructor (expression_syntax f)
            \<or> es_collection_literals (expression_syntax f) \<or> te_table_json_path (table_expressions f))
     then Some LC_BracketIdentifierVersusArraySyntax
     else if pa_named_colon (parameters f)
         \<and> (es_subscript (expression_syntax f) \<or> es_collection_literals (expression_syntax f)
            \<or> es_semi_structured_access (expression_syntax f))
     then Some LC_ColonParameterVersusSliceBound
     else if nl_money_literals (numeric_literals f) \<and> pa_positional_dollar (parameters f)
     then Some LC_MoneyVersusPositionalDollar
     else if pa_named_dollar (parameters f) \<and> sl_dollar_quoted_strings (string_literals f)
     then Some LC_NamedDollarParameterVersusDollarQuotedString
     else if cs_line_comment_hash (comment_syntax f)
         \<and> has_class (byte_classes f) (CHR ''#'') CLASS_IDENTIFIER_START
     then Some LC_HashCommentVersusHashIdentifier
     else if hash_bitwise_xor f \<and> cs_line_comment_hash (comment_syntax f)
     then Some LC_HashXorOperatorVersusHashComment
     else if es_positional_column (expression_syntax f) \<and> hash_bitwise_xor f
     then Some LC_HashXorOperatorVersusPositionalColumn
     else if es_positional_column (expression_syntax f) \<and> cs_line_comment_hash (comment_syntax f)
     then Some LC_HashCommentVersusPositionalColumn
     else if pa_named_at (parameters f) \<and> sv_user_variables (session_variables f)
     then Some LC_AtNameParameterVersusUserVariable
     else if os_containment_operators (operator_syntax f)
         \<and> (pa_named_at (parameters f) \<or> sv_user_variables (session_variables f))
     then Some LC_ContainmentOperatorVersusAtName
     else if os_jsonb_operators (operator_syntax f) \<and> pa_anonymous_question (parameters f)
     then Some LC_JsonbKeyExistsVersusAnonymousParameter
     else if os_jsonb_operators (operator_syntax f) \<and> sv_system_variables (session_variables f)
     then Some LC_JsonbSearchOperatorVersusSystemVariable
     else if os_custom_operators (operator_syntax f)
         \<and> (pa_named_at (parameters f) \<or> sv_user_variables (session_variables f))
     then Some LC_CustomOperatorVersusAtName
     else if os_custom_operators (operator_syntax f) \<and> \<not> os_jsonb_operators (operator_syntax f)
         \<and> sv_system_variables (session_variables f)
     then Some LC_CustomOperatorVersusSystemVariable
     else if (sl_dollar_quoted_strings (string_literals f) \<or> pa_positional_dollar (parameters f)
            \<or> nl_money_literals (numeric_literals f))
         \<and> has_class (byte_classes f) (CHR ''$'') CLASS_IDENTIFIER_START
     then Some LC_DollarSigilVersusIdentifierByte
     else if (pa_named_at (parameters f) \<or> sv_user_variables (session_variables f)
            \<or> sv_system_variables (session_variables f))
         \<and> has_class (byte_classes f) (CHR ''@'') CLASS_IDENTIFIER_START
     then Some LC_AtSigilVersusIdentifierByte
     else if pa_named_colon (parameters f) \<and> has_class (byte_classes f) (CHR '':'') CLASS_IDENTIFIER_START
     then Some LC_ColonSigilVersusIdentifierByte
     else None)"

definition is_lexically_consistent :: "feature_set \<Rightarrow> bool" where
  "is_lexically_consistent f \<longleftrightarrow> lexical_conflict f = None"

definition try_with :: "feature_set \<Rightarrow> feature_delta \<Rightarrow> lexical_conflict_kind + feature_set" where
  "try_with f d = (let candidate = feature_set_with f d in
     case lexical_conflict candidate of Some conflict \<Rightarrow> Inl conflict | None \<Rightarrow> Inr candidate)"

subsection \<open>Feature dependencies\<close>

definition feature_dependencies :: "feature_set \<Rightarrow> dependency_violation option" where
  "feature_dependencies f =
    (if qt_key_lock_strengths (query_tail_syntax f)
         \<and> \<not> qt_locking_clauses (query_tail_syntax f)
     then Some V_KeyLockStrengthsWithoutLockingClauses
     else if qt_stacked_locking_clauses (query_tail_syntax f)
         \<and> \<not> qt_locking_clauses (query_tail_syntax f)
     then Some V_StackedLockingClausesWithoutLockingClauses
     else if tf_unnest_with_offset (table_factor_syntax f)
         \<and> \<not> tf_unnest (table_factor_syntax f)
     then Some V_UnnestWithOffsetWithoutUnnest
     else if es_slice_step (expression_syntax f)
         \<and> \<not> es_subscript (expression_syntax f)
     then Some V_SliceStepWithoutSubscript
     else if es_multidim_array_literals (expression_syntax f)
         \<and> \<not> es_array_constructor (expression_syntax f)
     then Some V_MultidimArrayLiteralsWithoutArrayConstructor
     else if os_quantified_comparison_lists (operator_syntax f)
         \<and> \<not> os_quantified_comparisons (operator_syntax f)
     then Some V_QuantifiedComparisonListsWithoutQuantifiedComparisons
     else if os_quantified_arbitrary_operator (operator_syntax f)
         \<and> \<not> os_quantified_comparisons (operator_syntax f)
     then Some V_QuantifiedArbitraryOperatorWithoutQuantifiedComparisons
     else if os_lambda_expressions (operator_syntax f)
         \<and> \<not> os_json_arrow_operators (operator_syntax f)
     then Some V_LambdaExpressionsWithoutJsonArrowOperators
     else if mu_cte_before_merge (mutation_syntax f)
         \<and> \<not> mu_merge (mutation_syntax f)
     then Some V_CteBeforeMergeWithoutMerge
     else if mu_merge_when_not_matched_by (mutation_syntax f)
         \<and> \<not> mu_merge (mutation_syntax f)
     then Some V_MergeWhenNotMatchedByWithoutMerge
     else if mu_merge_insert_default_values (mutation_syntax f)
         \<and> \<not> mu_merge (mutation_syntax f)
     then Some V_MergeInsertDefaultValuesWithoutMerge
     else if mu_merge_insert_overriding (mutation_syntax f)
         \<and> \<not> mu_merge (mutation_syntax f)
     then Some V_MergeInsertOverridingWithoutMerge
     else if ia_alter_existence_guards (index_alter_syntax f)
         \<and> \<not> ia_alter_table_extended (index_alter_syntax f)
     then Some V_AlterExistenceGuardsWithoutAlterTableExtended
     else if ia_alter_column_set_data_type (index_alter_syntax f)
         \<and> \<not> ia_alter_table_extended (index_alter_syntax f)
     then Some V_AlterColumnSetDataTypeWithoutAlterTableExtended
     else if ma_checkpoint_database (maintenance_syntax f)
         \<and> \<not> ma_checkpoint (maintenance_syntax f)
     then Some V_CheckpointDatabaseWithoutCheckpoint
     else if ma_analyze_columns (maintenance_syntax f)
         \<and> \<not> ma_analyze (maintenance_syntax f)
     then Some V_AnalyzeColumnsWithoutAnalyze
     else if ut_load_bare_name (utility_syntax f)
         \<and> \<not> ut_load_extension (utility_syntax f)
     then Some V_LoadBareNameWithoutLoadExtension
     else if ut_call_bare_name (utility_syntax f)
         \<and> \<not> ut_call (utility_syntax f)
     then Some V_CallBareNameWithoutCall
     else if ut_detach_if_exists (utility_syntax f)
         \<and> \<not> ut_attach (utility_syntax f)
     then Some V_DetachIfExistsWithoutAttach
     else if ut_use_qualified_name (utility_syntax f)
         \<and> \<not> ut_use_statement (utility_syntax f)
     then Some V_UseQualifiedNameWithoutUseStatement
     else if ut_use_string_literal_name (utility_syntax f)
         \<and> \<not> ut_use_statement (utility_syntax f)
     then Some V_UseStringLiteralNameWithoutUseStatement
     else if ac_access_control_extended_objects (access_control_syntax f)
         \<and> \<not> ac_access_control (access_control_syntax f)
     then Some V_AccessControlExtendedObjectsWithoutAccessControl
     else if ac_access_control_account_grants (access_control_syntax f)
         \<and> \<not> ac_access_control (access_control_syntax f)
     then Some V_AccountGrantsWithoutAccessControl
     else if ut_prepare_typed_parameters (utility_syntax f)
         \<and> \<not> ut_prepared_statements (utility_syntax f)
     then Some V_PrepareTypedParametersWithoutPreparedStatements
     else None)"

definition has_satisfied_feature_dependencies :: "feature_set \<Rightarrow> bool" where
  "has_satisfied_feature_dependencies f \<longleftrightarrow> feature_dependencies f = None"

text \<open>The arms of the \<open>match\<close> in \<open>without_dangling_dependents\<close>.\<close>

fun clear_dependent :: "dependency_violation \<Rightarrow> feature_set \<Rightarrow> feature_set" where
  "clear_dependent V_KeyLockStrengthsWithoutLockingClauses f =
     f\<lparr>query_tail_syntax := (query_tail_syntax f)\<lparr>qt_key_lock_strengths := False\<rparr>\<rparr>"
| "clear_dependent V_StackedLockingClausesWithoutLockingClauses f =
     f\<lparr>query_tail_syntax := (query_tail_syntax f)\<lparr>qt_stacked_locking_clauses := False\<rparr>\<rparr>"
| "clear_dependent V_UnnestWithOffsetWithoutUnnest f =
     f\<lparr>table_factor_syntax := (table_factor_syntax f)\<lparr>tf_unnest_with_offset := False\<rparr>\<rparr>"
| "clear_dependent V_SliceStepWithoutSubscript f =
     f\<lparr>expression_syntax := (expression_syntax f)\<lparr>es_slice_step := False\<rparr>\<rparr>"
| "clear_dependent V_MultidimArrayLiteralsWithoutArrayConstructor f =
     f\<lparr>expression_syntax := (expression_syntax f)\<lparr>es_multidim_array_literals := False\<rparr>\<rparr>"
| "clear_dependent V_QuantifiedComparisonListsWithoutQuantifiedComparisons f =
     f\<lparr>operator_syntax := (operator_syntax f)\<lparr>os_quantified_comparison_lists := False\<rparr>\<rparr>"
| "clear_dependent V_QuantifiedArbitraryOperatorWithoutQuantifiedComparisons f =
     f\<lparr>operator_syntax := (operator_syntax f)\<lparr>os_quantified_arbitrary_operator := False\<rparr>\<rparr>"
| "clear_dependent V_LambdaExpressionsWithoutJsonArrowOperators f =
     f\<lparr>operator_syntax := (operator_syntax f)\<lparr>os_lambda_expressions := False\<rparr>\<rparr>"
| "clear_dependent V_CteBeforeMergeWithoutMerge f =
     f\<lparr>mutation_syntax := (mutation_syntax f)\<lparr>mu_cte_before_merge := False\<rparr>\<rparr>"
| "clear_dependent V_MergeWhenNotMatchedByWithoutMerge f =
     f\<lparr>mutation_syntax := (mutation_syntax f)\<lparr>mu_merge_when_not_matched_by := False\<rparr>\<rparr>"
| "clear_dependent V_MergeInsertDefaultValuesWithoutMerge f =
     f\<lparr>mutation_syntax := (mutation_syntax f)\<lparr>mu_merge_insert_default_values := False\<rparr>\<rparr>"
| "clear_dependent V_MergeInsertOverridingWithoutMerge f =
     f\<lparr>mutation_syntax := (mutation_syntax f)\<lparr>mu_merge_insert_overriding := False\<rparr>\<rparr>"
| "clear_dependent V_AlterExistenceGuardsWithoutAlterTableExtended f =
     f\<lparr>index_alter_syntax := (index_alter_syntax f)\<lparr>ia_alter_existence_guards := False\<rparr>\<rparr>"
| "clear_dependent V_AlterColumnSetDataTypeWithoutAlterTableExtended f =
     f\<lparr>index_alter_syntax := (index_alter_syntax f)\<lparr>ia_alter_column_set_data_type := False\<rparr>\<rparr>"
| "clear_dependent V_CheckpointDatabaseWithoutCheckpoint f =
     f\<lparr>maintenance_syntax := (maintenance_syntax f)\<lparr>ma_checkpoint_database := False\<rparr>\<rparr>"
| "clear_dependent V_AnalyzeColumnsWithoutAnalyze f =
     f\<lparr>maintenance_syntax := (maintenance_syntax f)\<lparr>ma_analyze_columns := False\<rparr>\<rparr>"
| "clear_dependent V_LoadBareNameWithoutLoadExtension f =
     f\<lparr>utility_syntax := (utility_syntax f)\<lparr>ut_load_bare_name := False\<rparr>\<rparr>"
| "clear_dependent V_CallBareNameWithoutCall f =
     f\<lparr>utility_syntax := (utility_syntax f)\<lparr>ut_call_bare_name := False\<rparr>\<rparr>"
| "clear_dependent V_DetachIfExistsWithoutAttach f =
     f\<lparr>utility_syntax := (utility_syntax f)\<lparr>ut_detach_if_exists := False\<rparr>\<rparr>"
| "clear_dependent V_UseQualifiedNameWithoutUseStatement f =
     f\<lparr>utility_syntax := (utility_syntax f)\<lparr>ut_use_qualified_name := False\<rparr>\<rparr>"
| "clear_dependent V_UseStringLiteralNameWithoutUseStatement f =
     f\<lparr>utility_syntax := (utility_syntax f)\<lparr>ut_use_string_literal_name := False\<rparr>\<rparr>"
| "clear_dependent V_AccessControlExtendedObjectsWithoutAccessControl f =
     f\<lparr>access_control_syntax := (access_control_syntax f)\<lparr>ac_access_control_extended_objects := False\<rparr>\<rparr>"
| "clear_dependent V_AccountGrantsWithoutAccessControl f =
     f\<lparr>access_control_syntax := (access_control_syntax f)\<lparr>ac_access_control_account_grants := False\<rparr>\<rparr>"
| "clear_dependent V_PrepareTypedParametersWithoutPreparedStatements f =
     f\<lparr>utility_syntax := (utility_syntax f)\<lparr>ut_prepare_typed_parameters := False\<rparr>\<rparr>"

subsection \<open>Grammar conflicts\<close>

definition grammar_conflict :: "feature_set \<Rightarrow> grammar_conflict_kind option" where
  "grammar_conflict f =
    (if (se_prefix_colon_alias (select_syntax f) \<or> te_prefix_colon_alias (table_expressions f))
         \<and> es_semi_structured_access (expression_syntax f)
     then Some GC_PrefixColonAliasVersusSemiStructuredAccess
     else if ut_do_statement (utility_syntax f) \<and> ut_do_expression_list (utility_syntax f)
     then Some GC_DoStatementVersusDoExpressionList
     else if ut_prepared_statements (utility_syntax f) \<and> ut_prepared_statements_from (utility_syntax f)
     then Some GC_PreparedStatementsVersusPreparedStatementsFrom
     else if ac_access_control_account_grants (access_control_syntax f)
         \<and> ac_access_control_extended_objects (access_control_syntax f)
     then Some GC_AccountGrantsVersusExtendedObjects
     else None)"

definition has_no_grammar_conflict :: "feature_set \<Rightarrow> bool" where
  "has_no_grammar_conflict f \<longleftrightarrow> grammar_conflict f = None"

subsection \<open>The registry as a table\<close>

text \<open>Each violation names a dependent flag and the base flag it rides on.\<close>

fun dependent_flag :: "dependency_violation \<Rightarrow> feature_set \<Rightarrow> bool" where
  "dependent_flag V_KeyLockStrengthsWithoutLockingClauses f = qt_key_lock_strengths (query_tail_syntax f)"
| "dependent_flag V_StackedLockingClausesWithoutLockingClauses f = qt_stacked_locking_clauses (query_tail_syntax f)"
| "dependent_flag V_UnnestWithOffsetWithoutUnnest f = tf_unnest_with_offset (table_factor_syntax f)"
| "dependent_flag V_SliceStepWithoutSubscript f = es_slice_step (expression_syntax f)"
| "dependent_flag V_MultidimArrayLiteralsWithoutArrayConstructor f = es_multidim_array_literals (expression_syntax f)"
| "dependent_flag V_QuantifiedComparisonListsWithoutQuantifiedComparisons f = os_quantified_comparison_lists (operator_syntax f)"
| "dependent_flag V_QuantifiedArbitraryOperatorWithoutQuantifiedComparisons f = os_quantified_arbitrary_operator (operator_syntax f)"
| "dependent_flag V_LambdaExpressionsWithoutJsonArrowOperators f = os_lambda_expressions (operator_syntax f)"
| "dependent_flag V_CteBeforeMergeWithoutMerge f = mu_cte_before_merge (mutation_syntax f)"
| "dependent_flag V_MergeWhenNotMatchedByWithoutMerge f = mu_merge_when_not_matched_by (mutation_syntax f)"
| "dependent_flag V_MergeInsertDefaultValuesWithoutMerge f = mu_merge_insert_default_values (mutation_syntax f)"
| "dependent_flag V_MergeInsertOverridingWithoutMerge f = mu_merge_insert_overriding (mutation_syntax f)"
| "dependent_flag V_AlterExistenceGuardsWithoutAlterTableExtended f = ia_alter_existence_guards (index_alter_syntax f)"
| "dependent_flag V_AlterColumnSetDataTypeWithoutAlterTableExtended f = ia_alter_column_set_data_type (index_alter_syntax f)"
| "dependent_flag V_CheckpointDatabaseWithoutCheckpoint f = ma_checkpoint_database (maintenance_syntax f)"
| "dependent_flag V_AnalyzeColumnsWithoutAnalyze f = ma_analyze_columns (maintenance_syntax f)"
| "dependent_flag V_LoadBareNameWithoutLoadExtension f = ut_load_bare_name (utility_syntax f)"
| "dependent_flag V_CallBareNameWithoutCall f = ut_call_bare_name (utility_syntax f)"
| "dependent_flag V_DetachIfExistsWithoutAttach f = ut_detach_if_exists (utility_syntax f)"
| "dependent_flag V_UseQualifiedNameWithoutUseStatement f = ut_use_qualified_name (utility_syntax f)"
| "dependent_flag V_UseStringLiteralNameWithoutUseStatement f = ut_use_string_literal_name (utility_syntax f)"
| "dependent_flag V_AccessControlExtendedObjectsWithoutAccessControl f = ac_access_control_extended_objects (access_control_syntax f)"
| "dependent_flag V_AccountGrantsWithoutAccessControl f = ac_access_control_account_grants (access_control_syntax f)"
| "dependent_flag V_PrepareTypedParametersWithoutPreparedStatements f = ut_prepare_typed_parameters (utility_syntax f)"

fun base_flag :: "dependency_violation \<Rightarrow> feature_set \<Rightarrow> bool" where
  "base_flag V_KeyLockStrengthsWithoutLockingClauses f = qt_locking_clauses (query_tail_syntax f)"
| "base_flag V_StackedLockingClausesWithoutLockingClauses f = qt_locking_clauses (query_tail_syntax f)"
| "base_flag V_UnnestWithOffsetWithoutUnnest f = tf_unnest (table_factor_syntax f)"
| "base_flag V_SliceStepWithoutSubscript f = es_subscript (expression_syntax f)"
| "base_flag V_MultidimArrayLiteralsWithoutArrayConstructor f = es_array_constructor (expression_syntax f)"
| "base_flag V_QuantifiedComparisonListsWithoutQuantifiedComparisons f = os_quantified_comparisons (operator_syntax f)"
| "base_flag V_QuantifiedArbitraryOperatorWithoutQuantifiedComparisons f = os_quantified_comparisons (operator_syntax f)"
| "base_flag V_LambdaExpressionsWithoutJsonArrowOperators f = os_json_arrow_operators (operator_syntax f)"
| "base_flag V_CteBeforeMergeWithoutMerge f = mu_merge (mutation_syntax f)"
| "base_flag V_MergeWhenNotMatchedByWithoutMerge f = mu_merge (mutation_syntax f)"
| "base_flag V_MergeInsertDefaultValuesWithoutMerge f = mu_merge (mutation_syntax f)"
| "base_flag V_MergeInsertOverridingWithoutMerge f = mu_merge (mutation_syntax f)"
| "base_flag V_AlterExistenceGuardsWithoutAlterTableExtended f = ia_alter_table_extended (index_alter_syntax f)"
| "base_flag V_AlterColumnSetDataTypeWithoutAlterTableExtended f = ia_alter_table_extended (index_alter_syntax f)"
| "base_flag V_CheckpointDatabaseWithoutCheckpoint f = ma_checkpoint (maintenance_syntax f)"
| "base_flag V_AnalyzeColumnsWithoutAnalyze f = ma_analyze (maintenance_syntax f)"
| "base_flag V_LoadBareNameWithoutLoadExtension f = ut_load_extension (utility_syntax f)"
| "base_flag V_CallBareNameWithoutCall f = ut_call (utility_syntax f)"
| "base_flag V_DetachIfExistsWithoutAttach f = ut_attach (utility_syntax f)"
| "base_flag V_UseQualifiedNameWithoutUseStatement f = ut_use_statement (utility_syntax f)"
| "base_flag V_UseStringLiteralNameWithoutUseStatement f = ut_use_statement (utility_syntax f)"
| "base_flag V_AccessControlExtendedObjectsWithoutAccessControl f = ac_access_control (access_control_syntax f)"
| "base_flag V_AccountGrantsWithoutAccessControl f = ac_access_control (access_control_syntax f)"
| "base_flag V_PrepareTypedParametersWithoutPreparedStatements f = ut_prepared_statements (utility_syntax f)"

definition all_violations :: "dependency_violation list" where
  "all_violations = [
    V_KeyLockStrengthsWithoutLockingClauses,
    V_StackedLockingClausesWithoutLockingClauses,
    V_UnnestWithOffsetWithoutUnnest,
    V_SliceStepWithoutSubscript,
    V_MultidimArrayLiteralsWithoutArrayConstructor,
    V_QuantifiedComparisonListsWithoutQuantifiedComparisons,
    V_QuantifiedArbitraryOperatorWithoutQuantifiedComparisons,
    V_LambdaExpressionsWithoutJsonArrowOperators,
    V_CteBeforeMergeWithoutMerge,
    V_MergeWhenNotMatchedByWithoutMerge,
    V_MergeInsertDefaultValuesWithoutMerge,
    V_MergeInsertOverridingWithoutMerge,
    V_AlterExistenceGuardsWithoutAlterTableExtended,
    V_AlterColumnSetDataTypeWithoutAlterTableExtended,
    V_CheckpointDatabaseWithoutCheckpoint,
    V_AnalyzeColumnsWithoutAnalyze,
    V_LoadBareNameWithoutLoadExtension,
    V_CallBareNameWithoutCall,
    V_DetachIfExistsWithoutAttach,
    V_UseQualifiedNameWithoutUseStatement,
    V_UseStringLiteralNameWithoutUseStatement,
    V_AccessControlExtendedObjectsWithoutAccessControl,
    V_AccountGrantsWithoutAccessControl,
    V_PrepareTypedParametersWithoutPreparedStatements]"

lemma all_violations_complete: "v \<in> set all_violations"
  by (cases v) (simp_all add: all_violations_def)

lemma feature_dependencies_Some:
  "feature_dependencies f = Some v \<Longrightarrow> dependent_flag v f \<and> \<not> base_flag v f"
  unfolding feature_dependencies_def by (elim if_someE) auto

lemma feature_dependencies_None:
  "feature_dependencies f = None \<longleftrightarrow> (\<forall>v. dependent_flag v f \<longrightarrow> base_flag v f)"
proof
  assume "feature_dependencies f = None"
  then have "\<forall>v\<in>set all_violations. dependent_flag v f \<longrightarrow> base_flag v f"
    unfolding feature_dependencies_def all_violations_def by (elim if_noneE) simp
  then show "\<forall>v. dependent_flag v f \<longrightarrow> base_flag v f" using all_violations_complete by blast
next
  assume "\<forall>v. dependent_flag v f \<longrightarrow> base_flag v f"
  then show "feature_dependencies f = None"
    using feature_dependencies_Some[of f] by (cases "feature_dependencies f") auto
qed

text \<open>Clearing a dependent touches no base flag and no other dependent.\<close>

lemma base_flag_clear: "base_flag w (clear_dependent v f) = base_flag w f"
  by (cases v; cases w) simp_all

lemma dependent_flag_clear:
  "dependent_flag w (clear_dependent v f) \<longleftrightarrow> dependent_flag w f \<and> w \<noteq> v"
  by (cases v; cases w) simp_all
subsection \<open>The dependency normal form\<close>

definition dependents_set :: "feature_set \<Rightarrow> nat" where
  "dependents_set f = length (filter (\<lambda>v. dependent_flag v f) all_violations)"

lemma clear_dependent_decreases:
  assumes "feature_dependencies f = Some v"
  shows "dependents_set (clear_dependent v f) < dependents_set f"
proof -
  let ?on = "filter (\<lambda>w. dependent_flag w f) all_violations"
  have "v \<in> set ?on"
    using feature_dependencies_Some[OF assms] all_violations_complete[of v] by simp
  then have "length (filter (\<lambda>w. w \<noteq> v) ?on) < length ?on" by (rule length_filter_less) simp
  then show ?thesis by (simp add: dependents_set_def dependent_flag_clear conj_commute)
qed

function without_dangling_dependents :: "feature_set \<Rightarrow> feature_set" where
  "without_dangling_dependents f = (case feature_dependencies f of
      Some v \<Rightarrow> without_dangling_dependents (clear_dependent v f)
    | None \<Rightarrow> f)"
  by pat_completeness auto
termination
  by (relation "measure dependents_set") (simp_all add: clear_dependent_decreases)

declare without_dangling_dependents.simps [simp del]

text \<open>What the loop leaves alone, step by step.\<close>

lemma without_dangling_invariant:
  assumes "\<And>f v. feature_dependencies f = Some v \<Longrightarrow> P (clear_dependent v f) = P f"
  shows "P (without_dangling_dependents f) = P f"
proof (induction f rule: without_dangling_dependents.induct)
  case (1 f)
  show ?case
    by (subst without_dangling_dependents.simps)
      (use 1 assms in \<open>auto split: option.splits\<close>)
qed

lemma without_dangling_clean: "feature_dependencies (without_dangling_dependents f) = None"
proof (induction f rule: without_dangling_dependents.induct)
  case (1 f)
  then show ?case by (subst without_dangling_dependents.simps) (auto split: option.splits)
qed

lemma without_dangling_dependent:
  "dependent_flag w (without_dangling_dependents f) \<longleftrightarrow> dependent_flag w f \<and> base_flag w f"
proof -
  have keep: "(dependent_flag w (without_dangling_dependents f) \<and> base_flag w (without_dangling_dependents f))
      = (dependent_flag w f \<and> base_flag w f)"
    by (rule without_dangling_invariant)
      (use feature_dependencies_Some in \<open>auto simp: dependent_flag_clear base_flag_clear\<close>)
  then show ?thesis using without_dangling_clean[of f] by (auto simp: feature_dependencies_None)
qed

text \<open>No dependent flag is read by the lexical registry.\<close>

lemma clear_dependent_keeps:
  "string_literals (clear_dependent v f) = string_literals f"
  "identifier_quotes (clear_dependent v f) = identifier_quotes f"
  "parameters (clear_dependent v f) = parameters f"
  "numeric_literals (clear_dependent v f) = numeric_literals f"
  "byte_classes (clear_dependent v f) = byte_classes f"
  "comment_syntax (clear_dependent v f) = comment_syntax f"
  "session_variables (clear_dependent v f) = session_variables f"
  "hash_bitwise_xor (clear_dependent v f) = hash_bitwise_xor f"
  "es_subscript (expression_syntax (clear_dependent v f)) = es_subscript (expression_syntax f)"
  "es_array_constructor (expression_syntax (clear_dependent v f)) = es_array_constructor (expression_syntax f)"
  "es_collection_literals (expression_syntax (clear_dependent v f)) = es_collection_literals (expression_syntax f)"
  "es_semi_structured_access (expression_syntax (clear_dependent v f)) = es_semi_structured_access (expression_syntax f)"
  "es_positional_column (expression_syntax (clear_dependent v f)) = es_positional_column (expression_syntax f)"
  "os_containment_operators (operator_syntax (clear_dependent v f)) = os_containment_operators (operator_syntax f)"
  "os_jsonb_operators (operator_syntax (clear_dependent v f)) = os_jsonb_operators (operator_syntax f)"
  "os_custom_operators (operator_syntax (clear_dependent v f)) = os_custom_operators (operator_syntax f)"
  "table_expressions (clear_dependent v f) = table_expressions f"
  by (cases v; simp)+

lemma lexical_conflict_clear: "lexical_conflict (clear_dependent v f) = lexical_conflict f"
  by (simp only: lexical_conflict_def clear_dependent_keeps)

text \<open>
  C17. The dependency normal form: the loop of \<open>without_dangling_dependents\<close> ends in a feature set with
  no dependency violation; a refinement flag survives exactly when its base flag is set, base
  flags are untouched, and so is the lexical verdict.
\<close>

theorem without_dangling_normal_form:
  "has_satisfied_feature_dependencies (without_dangling_dependents f)
   \<and> (\<forall>v. (dependent_flag v (without_dangling_dependents f) \<longleftrightarrow> dependent_flag v f \<and> base_flag v f)
        \<and> (base_flag v (without_dangling_dependents f) \<longleftrightarrow> base_flag v f))
   \<and> lexical_conflict (without_dangling_dependents f) = lexical_conflict f"
  using without_dangling_clean[of f] without_dangling_dependent[of _ f]
    without_dangling_invariant[of "base_flag _" f, OF base_flag_clear]
    without_dangling_invariant[of lexical_conflict f, OF lexical_conflict_clear]
  by (simp add: has_satisfied_feature_dependencies_def)

end
