(* ===== verification/Preset_Checks.thy ===== *)
theory Preset_Checks
  imports Feature_Conflicts Scan_Lexemes Preset_Satellites Preset_Lenient
begin

text \<open>
  The shipped presets keep the promises the scanner and the parser rest on: the compile-time
  assertions at the foot of every \<open>crates/squonk-ast/src/dialect/*.rs\<close> file (no lexical conflict, no
  dangling dependent, no grammar conflict) and byte classes the scanner can trust. Also the
  closed-delta check of \<open>dialect/closed_delta.rs\<close>.
\<close>

definition shipped_presets :: "feature_set list" where
  "shipped_presets = [
    FeatureSet_ANSI,
    FeatureSet_POSTGRES,
    FeatureSet_MYSQL,
    FeatureSet_SQLITE,
    FeatureSet_DUCKDB,
    FeatureSet_LENIENT,
    FeatureSet_SNOWFLAKE,
    FeatureSet_BIGQUERY,
    FeatureSet_CLICKHOUSE,
    FeatureSet_DATABRICKS,
    FeatureSet_HIVE,
    FeatureSet_MSSQL,
    FeatureSet_QUILTDB,
    FeatureSet_REDSHIFT]"

subsection \<open>The definitions a preset unfolds to\<close>

lemmas preset_ansi_defs =
  AccessControlSyntax_ANSI_def AggregateCallSyntax_ANSI_def CallSyntax_ANSI_def
  ColumnDefinitionSyntax_ANSI_def CommentSyntax_ANSI_def ConstraintSyntax_ANSI_def
  CreateTableClauseSyntax_ANSI_def ExistenceGuards_ANSI_def ExpressionSyntax_ANSI_def
  FeatureSet_ANSI_def GroupingSyntax_ANSI_def IdentifierSyntax_ANSI_def IndexAlterSyntax_ANSI_def
  JoinSyntax_ANSI_def MaintenanceSyntax_ANSI_def MutationSyntax_ANSI_def
  NumericLiteralSyntax_ANSI_def OperatorSyntax_ANSI_def ParameterSyntax_ANSI_def
  PredicateSyntax_ANSI_def QueryTailSyntax_ANSI_def STANDARD_IDENTIFIER_QUOTES_def
  SelectSyntax_ANSI_def SessionVariableSyntax_ANSI_def ShowSyntax_ANSI_def
  StatementDdlGates_ANSI_def StringFuncForms_ANSI_def StringLiteralSyntax_ANSI_def
  TableExpressionSyntax_ANSI_def TableFactorSyntax_ANSI_def TransactionSyntax_ANSI_def
  TypeNameSyntax_ANSI_def UtilitySyntax_ANSI_def ViewSequenceClauseSyntax_ANSI_def

lemmas preset_postgres_defs =
  AccessControlSyntax_POSTGRES_def AggregateCallSyntax_POSTGRES_def CallSyntax_POSTGRES_def
  ColumnDefinitionSyntax_POSTGRES_def CommentSyntax_POSTGRES_def ConstraintSyntax_POSTGRES_def
  CreateTableClauseSyntax_POSTGRES_def ExistenceGuards_POSTGRES_def ExpressionSyntax_POSTGRES_def
  FeatureSet_POSTGRES_def GroupingSyntax_POSTGRES_def IdentifierSyntax_POSTGRES_def
  IndexAlterSyntax_POSTGRES_def JoinSyntax_POSTGRES_def MaintenanceSyntax_POSTGRES_def
  MutationSyntax_POSTGRES_def NumericLiteralSyntax_POSTGRES_def OperatorSyntax_POSTGRES_def
  ParameterSyntax_POSTGRES_def PredicateSyntax_POSTGRES_def QueryTailSyntax_POSTGRES_def
  STANDARD_IDENTIFIER_QUOTES_def SelectSyntax_POSTGRES_def SessionVariableSyntax_ANSI_def
  ShowSyntax_POSTGRES_def StatementDdlGates_POSTGRES_def StringFuncForms_POSTGRES_def
  StringLiteralSyntax_POSTGRES_def TableExpressionSyntax_POSTGRES_def
  TableFactorSyntax_POSTGRES_def TransactionSyntax_POSTGRES_def TypeNameSyntax_POSTGRES_def
  UtilitySyntax_POSTGRES_def ViewSequenceClauseSyntax_POSTGRES_def

lemmas preset_mysql_defs =
  AccessControlSyntax_MYSQL_def AggregateCallSyntax_MYSQL_def CallSyntax_MYSQL_def
  ColumnDefinitionSyntax_MYSQL_def CommentSyntax_MYSQL_def
  CommentSyntax_MYSQL_8_VERSION_BOUND_def ConstraintSyntax_MYSQL_def
  CreateTableClauseSyntax_MYSQL_def ExistenceGuards_MYSQL_def ExpressionSyntax_MYSQL_def
  FeatureSet_MYSQL_def GroupingSyntax_MYSQL_def IdentifierSyntax_MYSQL_def
  IndexAlterSyntax_MYSQL_def JoinSyntax_MYSQL_def MYSQL_IDENTIFIER_QUOTES_def
  MaintenanceSyntax_MYSQL_def MutationSyntax_MYSQL_def NumericLiteralSyntax_MYSQL_def
  OperatorSyntax_MYSQL_def ParameterSyntax_MYSQL_def PredicateSyntax_ANSI_def
  QueryTailSyntax_MYSQL_def SelectSyntax_MYSQL_def SessionVariableSyntax_MYSQL_def
  ShowSyntax_MYSQL_def StatementDdlGates_MYSQL_def StringFuncForms_MYSQL_def
  StringLiteralSyntax_MYSQL_def TableExpressionSyntax_MYSQL_def TableFactorSyntax_MYSQL_def
  TransactionSyntax_MYSQL_def TypeNameSyntax_MYSQL_def UtilitySyntax_MYSQL_def
  ViewSequenceClauseSyntax_MYSQL_def

lemmas preset_sqlite_defs =
  AccessControlSyntax_SQLITE_def AggregateCallSyntax_SQLITE_def CallSyntax_SQLITE_def
  ColumnDefinitionSyntax_SQLITE_def CommentSyntax_SQLITE_def ConstraintSyntax_SQLITE_def
  CreateTableClauseSyntax_SQLITE_def ExistenceGuards_SQLITE_def ExpressionSyntax_SQLITE_def
  FeatureSet_SQLITE_def GroupingSyntax_SQLITE_def IdentifierSyntax_SQLITE_def
  IndexAlterSyntax_SQLITE_def JoinSyntax_SQLITE_def MaintenanceSyntax_SQLITE_def
  MutationSyntax_SQLITE_def NumericLiteralSyntax_SQLITE_def OperatorSyntax_SQLITE_def
  ParameterSyntax_SQLITE_def PredicateSyntax_SQLITE_def QueryTailSyntax_SQLITE_def
  SQLITE_IDENTIFIER_QUOTES_def SelectSyntax_SQLITE_def SessionVariableSyntax_ANSI_def
  ShowSyntax_SQLITE_def StatementDdlGates_SQLITE_def StringFuncForms_SQLITE_def
  StringLiteralSyntax_SQLITE_def TableExpressionSyntax_SQLITE_def TableFactorSyntax_SQLITE_def
  TransactionSyntax_SQLITE_def TypeNameSyntax_SQLITE_def UtilitySyntax_SQLITE_def
  ViewSequenceClauseSyntax_SQLITE_def

lemmas preset_duckdb_defs =
  AccessControlSyntax_DUCKDB_def AggregateCallSyntax_DUCKDB_def CallSyntax_DUCKDB_def
  CommentSyntax_POSTGRES_def ExistenceGuards_POSTGRES_def ExpressionSyntax_DUCKDB_def
  FeatureSet_DUCKDB_def GroupingSyntax_DUCKDB_def JoinSyntax_DUCKDB_def
  MaintenanceSyntax_DUCKDB_def NumericLiteralSyntax_DUCKDB_def OperatorSyntax_DUCKDB_def
  PredicateSyntax_DUCKDB_def QueryTailSyntax_DUCKDB_def STANDARD_IDENTIFIER_QUOTES_def
  SelectSyntax_DUCKDB_def SessionVariableSyntax_ANSI_def ShowSyntax_DUCKDB_def
  StringFuncForms_DUCKDB_def StringLiteralSyntax_POSTGRES_def TableExpressionSyntax_DUCKDB_def
  TableFactorSyntax_DUCKDB_def TransactionSyntax_DUCKDB_def TypeNameSyntax_DUCKDB_def
  UtilitySyntax_DUCKDB_def

lemmas preset_lenient_defs =
  AccessControlSyntax_LENIENT_def AggregateCallSyntax_LENIENT_def CallSyntax_LENIENT_def
  ColumnDefinitionSyntax_LENIENT_def CommentSyntax_LENIENT_def ConstraintSyntax_LENIENT_def
  CreateTableClauseSyntax_LENIENT_def ExistenceGuards_LENIENT_def ExpressionSyntax_LENIENT_def
  FeatureSet_LENIENT_def GroupingSyntax_LENIENT_def IdentifierSyntax_LENIENT_def
  IndexAlterSyntax_LENIENT_def JoinSyntax_LENIENT_def LENIENT_IDENTIFIER_QUOTES_def
  MaintenanceSyntax_LENIENT_def MutationSyntax_LENIENT_def NumericLiteralSyntax_LENIENT_def
  OperatorSyntax_LENIENT_def ParameterSyntax_LENIENT_def PredicateSyntax_LENIENT_def
  QueryTailSyntax_LENIENT_def SelectSyntax_LENIENT_def SessionVariableSyntax_LENIENT_def
  ShowSyntax_LENIENT_def StatementDdlGates_LENIENT_def StringFuncForms_LENIENT_def
  StringLiteralSyntax_LENIENT_def TableExpressionSyntax_LENIENT_def TableFactorSyntax_LENIENT_def
  TransactionSyntax_LENIENT_def TypeNameSyntax_LENIENT_def UtilitySyntax_LENIENT_def
  ViewSequenceClauseSyntax_LENIENT_def

lemmas preset_snowflake_defs =
  AccessControlSyntax_ANSI_def AggregateCallSyntax_ANSI_def CallSyntax_ANSI_def
  ColumnDefinitionSyntax_ANSI_def CommentSyntax_ANSI_def ConstraintSyntax_ANSI_def
  CreateTableClauseSyntax_ANSI_def ExistenceGuards_ANSI_def ExpressionSyntax_SNOWFLAKE_def
  FeatureSet_SNOWFLAKE_def GroupingSyntax_SNOWFLAKE_def IdentifierSyntax_ANSI_def
  IndexAlterSyntax_ANSI_def JoinSyntax_ANSI_def MaintenanceSyntax_ANSI_def
  MutationSyntax_ANSI_def NumericLiteralSyntax_ANSI_def OperatorSyntax_ANSI_def
  ParameterSyntax_ANSI_def PredicateSyntax_ANSI_def QueryTailSyntax_SNOWFLAKE_def
  STANDARD_IDENTIFIER_QUOTES_def SelectSyntax_SNOWFLAKE_def SessionVariableSyntax_ANSI_def
  ShowSyntax_ANSI_def StatementDdlGates_ANSI_def StringFuncForms_ANSI_def
  StringLiteralSyntax_ANSI_def TableFactorSyntax_SNOWFLAKE_def TransactionSyntax_SNOWFLAKE_def
  TypeNameSyntax_ANSI_def UtilitySyntax_SNOWFLAKE_def ViewSequenceClauseSyntax_ANSI_def

lemmas preset_bigquery_defs =
  AccessControlSyntax_ANSI_def AggregateCallSyntax_ANSI_def BIGQUERY_IDENTIFIER_QUOTES_def
  CallSyntax_ANSI_def ColumnDefinitionSyntax_ANSI_def CommentSyntax_ANSI_def
  ConstraintSyntax_ANSI_def CreateTableClauseSyntax_ANSI_def ExistenceGuards_ANSI_def
  ExpressionSyntax_BIGQUERY_def FeatureSet_BIGQUERY_def GroupingSyntax_ANSI_def
  IdentifierSyntax_ANSI_def IndexAlterSyntax_ANSI_def JoinSyntax_BIGQUERY_def
  MaintenanceSyntax_ANSI_def MutationSyntax_ANSI_def NumericLiteralSyntax_ANSI_def
  OperatorSyntax_ANSI_def ParameterSyntax_ANSI_def PredicateSyntax_ANSI_def
  QueryTailSyntax_ANSI_def SelectSyntax_ANSI_def SessionVariableSyntax_ANSI_def
  ShowSyntax_ANSI_def StatementDdlGates_ANSI_def StringFuncForms_ANSI_def
  StringLiteralSyntax_BIGQUERY_def TableExpressionSyntax_BIGQUERY_def
  TableFactorSyntax_BIGQUERY_def TransactionSyntax_ANSI_def TypeNameSyntax_BIGQUERY_def
  UtilitySyntax_ANSI_def ViewSequenceClauseSyntax_ANSI_def

lemmas preset_clickhouse_defs =
  AccessControlSyntax_ANSI_def AggregateCallSyntax_ANSI_def CLICKHOUSE_IDENTIFIER_QUOTES_def
  CallSyntax_ANSI_def ColumnDefinitionSyntax_ANSI_def CommentSyntax_ANSI_def
  ConstraintSyntax_ANSI_def CreateTableClauseSyntax_ANSI_def ExistenceGuards_ANSI_def
  ExpressionSyntax_ANSI_def FeatureSet_CLICKHOUSE_def GroupingSyntax_CLICKHOUSE_def
  IdentifierSyntax_ANSI_def IndexAlterSyntax_ANSI_def JoinSyntax_ANSI_def
  MaintenanceSyntax_ANSI_def MutationSyntax_ANSI_def NumericLiteralSyntax_ANSI_def
  OperatorSyntax_ANSI_def ParameterSyntax_ANSI_def PredicateSyntax_ANSI_def
  QueryTailSyntax_CLICKHOUSE_def SelectSyntax_CLICKHOUSE_def SessionVariableSyntax_ANSI_def
  ShowSyntax_ANSI_def StatementDdlGates_ANSI_def StringFuncForms_ANSI_def
  StringLiteralSyntax_ANSI_def TableExpressionSyntax_ANSI_def TableFactorSyntax_ANSI_def
  TransactionSyntax_ANSI_def TypeNameSyntax_CLICKHOUSE_def UtilitySyntax_ANSI_def
  ViewSequenceClauseSyntax_ANSI_def

lemmas preset_databricks_defs =
  AccessControlSyntax_DATABRICKS_def AggregateCallSyntax_ANSI_def CallSyntax_ANSI_def
  ColumnDefinitionSyntax_ANSI_def CommentSyntax_ANSI_def ConstraintSyntax_ANSI_def
  CreateTableClauseSyntax_ANSI_def DATABRICKS_IDENTIFIER_QUOTES_def ExistenceGuards_ANSI_def
  ExpressionSyntax_DATABRICKS_def FeatureSet_DATABRICKS_def GroupingSyntax_DATABRICKS_def
  IdentifierSyntax_ANSI_def IndexAlterSyntax_ANSI_def JoinSyntax_DATABRICKS_def
  MaintenanceSyntax_DATABRICKS_def MutationSyntax_ANSI_def NumericLiteralSyntax_ANSI_def
  OperatorSyntax_ANSI_def ParameterSyntax_ANSI_def PredicateSyntax_ANSI_def
  QueryTailSyntax_DATABRICKS_def SelectSyntax_DATABRICKS_def SessionVariableSyntax_ANSI_def
  ShowSyntax_DATABRICKS_def StatementDdlGates_ANSI_def StringFuncForms_ANSI_def
  StringLiteralSyntax_ANSI_def TableExpressionSyntax_DATABRICKS_def
  TableFactorSyntax_DATABRICKS_def TransactionSyntax_DATABRICKS_def TypeNameSyntax_ANSI_def
  UtilitySyntax_DATABRICKS_def ViewSequenceClauseSyntax_ANSI_def

lemmas preset_hive_defs =
  AccessControlSyntax_ANSI_def AggregateCallSyntax_ANSI_def CallSyntax_ANSI_def
  ColumnDefinitionSyntax_ANSI_def CommentSyntax_ANSI_def ConstraintSyntax_ANSI_def
  CreateTableClauseSyntax_ANSI_def ExistenceGuards_ANSI_def ExpressionSyntax_ANSI_def
  FeatureSet_HIVE_def GroupingSyntax_ANSI_def HIVE_IDENTIFIER_QUOTES_def
  IdentifierSyntax_ANSI_def IndexAlterSyntax_ANSI_def JoinSyntax_HIVE_def
  MaintenanceSyntax_ANSI_def MutationSyntax_ANSI_def NumericLiteralSyntax_ANSI_def
  OperatorSyntax_ANSI_def ParameterSyntax_ANSI_def PredicateSyntax_ANSI_def
  QueryTailSyntax_ANSI_def SelectSyntax_HIVE_def SessionVariableSyntax_ANSI_def
  ShowSyntax_ANSI_def StatementDdlGates_ANSI_def StringFuncForms_ANSI_def
  StringLiteralSyntax_HIVE_def TableExpressionSyntax_HIVE_def TableFactorSyntax_HIVE_def
  TransactionSyntax_ANSI_def TypeNameSyntax_ANSI_def UtilitySyntax_ANSI_def
  ViewSequenceClauseSyntax_ANSI_def

lemmas preset_mssql_defs =
  AccessControlSyntax_ANSI_def AggregateCallSyntax_ANSI_def CallSyntax_ANSI_def
  ColumnDefinitionSyntax_ANSI_def CommentSyntax_ANSI_def ConstraintSyntax_ANSI_def
  CreateTableClauseSyntax_ANSI_def ExistenceGuards_ANSI_def ExpressionSyntax_ANSI_def
  FeatureSet_MSSQL_def GroupingSyntax_ANSI_def IdentifierSyntax_ANSI_def
  IndexAlterSyntax_ANSI_def JoinSyntax_MSSQL_def MSSQL_IDENTIFIER_QUOTES_def
  MaintenanceSyntax_ANSI_def MutationSyntax_ANSI_def NumericLiteralSyntax_MSSQL_def
  OperatorSyntax_ANSI_def ParameterSyntax_MSSQL_def PredicateSyntax_ANSI_def
  QueryTailSyntax_MSSQL_def SelectSyntax_ANSI_def SessionVariableSyntax_ANSI_def
  ShowSyntax_ANSI_def StatementDdlGates_ANSI_def StringFuncForms_ANSI_def
  StringLiteralSyntax_MSSQL_def TableExpressionSyntax_MSSQL_def TableFactorSyntax_MSSQL_def
  TransactionSyntax_ANSI_def TypeNameSyntax_ANSI_def UtilitySyntax_ANSI_def
  ViewSequenceClauseSyntax_ANSI_def

lemmas preset_quiltdb_defs =
  AccessControlSyntax_POSTGRES_def AccessControlSyntax_QUILTDB_def
  AggregateCallSyntax_POSTGRES_def CallSyntax_POSTGRES_def ColumnDefinitionSyntax_POSTGRES_def
  ColumnDefinitionSyntax_QUILTDB_def CommentSyntax_POSTGRES_def ConstraintSyntax_POSTGRES_def
  CreateTableClauseSyntax_POSTGRES_def ExistenceGuards_POSTGRES_def ExpressionSyntax_POSTGRES_def
  ExpressionSyntax_QUILTDB_def FeatureSet_POSTGRES_def FeatureSet_QUILTDB_def
  GroupingSyntax_POSTGRES_def IdentifierSyntax_POSTGRES_def IndexAlterSyntax_POSTGRES_def
  IndexAlterSyntax_QUILTDB_def JoinSyntax_POSTGRES_def MaintenanceSyntax_POSTGRES_def
  MutationSyntax_POSTGRES_def MutationSyntax_QUILTDB_def NumericLiteralSyntax_POSTGRES_def
  OperatorSyntax_POSTGRES_def ParameterSyntax_POSTGRES_def PredicateSyntax_POSTGRES_def
  PredicateSyntax_QUILTDB_def QueryTailSyntax_POSTGRES_def STANDARD_IDENTIFIER_QUOTES_def
  SelectSyntax_POSTGRES_def SelectSyntax_QUILTDB_def SessionVariableSyntax_ANSI_def
  ShowSyntax_POSTGRES_def ShowSyntax_QUILTDB_def StatementDdlGates_POSTGRES_def
  StatementDdlGates_QUILTDB_def StringFuncForms_POSTGRES_def StringLiteralSyntax_POSTGRES_def
  TableExpressionSyntax_POSTGRES_def TableExpressionSyntax_QUILTDB_def
  TableFactorSyntax_POSTGRES_def TransactionSyntax_POSTGRES_def TransactionSyntax_QUILTDB_def
  TypeNameSyntax_POSTGRES_def TypeNameSyntax_QUILTDB_def UtilitySyntax_POSTGRES_def
  UtilitySyntax_QUILTDB_def ViewSequenceClauseSyntax_POSTGRES_def
  ViewSequenceClauseSyntax_QUILTDB_def

lemmas preset_redshift_defs =
  AccessControlSyntax_ANSI_def AggregateCallSyntax_ANSI_def CallSyntax_ANSI_def
  ColumnDefinitionSyntax_ANSI_def CommentSyntax_ANSI_def ConstraintSyntax_ANSI_def
  CreateTableClauseSyntax_ANSI_def ExistenceGuards_ANSI_def ExpressionSyntax_ANSI_def
  FeatureSet_REDSHIFT_def GroupingSyntax_ANSI_def IdentifierSyntax_ANSI_def
  IndexAlterSyntax_ANSI_def JoinSyntax_ANSI_def MaintenanceSyntax_ANSI_def
  MutationSyntax_ANSI_def NumericLiteralSyntax_ANSI_def OperatorSyntax_ANSI_def
  ParameterSyntax_ANSI_def PredicateSyntax_ANSI_def QueryTailSyntax_ANSI_def
  STANDARD_IDENTIFIER_QUOTES_def SelectSyntax_ANSI_def SessionVariableSyntax_ANSI_def
  ShowSyntax_ANSI_def StatementDdlGates_ANSI_def StringFuncForms_ANSI_def
  StringLiteralSyntax_ANSI_def TableFactorSyntax_ANSI_def TransactionSyntax_ANSI_def
  TypeNameSyntax_ANSI_def UtilitySyntax_ANSI_def ViewSequenceClauseSyntax_ANSI_def

subsection \<open>Byte classes\<close>

lemma is_digit_byte_facts:
  "is_ascii_digit b \<Longrightarrow> is_ascii b" "is_ascii_whitespace b \<Longrightarrow> is_ascii b \<and> b \<noteq> CHR 0x00"
  "is_identifier_continue_byte b \<Longrightarrow> b \<noteq> CHR 0x00"
  by (auto simp: ascii_defs is_identifier_continue_byte_def is_identifier_start_byte_def)

definition table_sane :: "byte_classes \<Rightarrow> bool" where
  "table_sane t \<longleftrightarrow> (\<forall>b.
     (has_class t b CLASS_WHITESPACE \<longrightarrow> is_ascii b \<and> b \<noteq> CHR 0x00)
   \<and> (has_class t b CLASS_WHITESPACE_CONTINUE \<longrightarrow> is_ascii b \<and> b \<noteq> CHR 0x00)
   \<and> (has_class t b CLASS_DIGIT \<longrightarrow> is_ascii_digit b)
   \<and> (has_class t b CLASS_OPERATOR \<longrightarrow> is_operator_byte b)
   \<and> (has_class t b CLASS_PUNCTUATION \<longrightarrow> is_punctuation_byte b)
   \<and> (is_ascii b \<longrightarrow> has_class t b CLASS_IDENTIFIER_CONTINUE \<longrightarrow> b \<noteq> CHR 0x00))"

lemma classes_sane_table: "classes_sane f \<longleftrightarrow> table_sane (byte_classes f)"
  by (simp add: classes_sane_def table_sane_def has_byte_class_def)

lemma table_sane_standard: "table_sane STANDARD_BYTE_CLASSES"
  using is_digit_byte_facts by (auto simp: table_sane_def has_class_standard)

text \<open>Adding whitespace classes to one ASCII byte keeps a table sane.\<close>

lemma table_sane_with_class:
  assumes "table_sane t" "is_ascii b" "b \<noteq> CHR 0x00"
    "m AND CLASS_DIGIT = 0" "m AND CLASS_OPERATOR = 0" "m AND CLASS_PUNCTUATION = 0"
  shows "table_sane (with_class t b m)"
  using assms by (auto simp: table_sane_def has_class_with_class)

lemma dialect_tables_sane:
  "table_sane POSTGRES_BYTE_CLASSES" "table_sane MYSQL_BYTE_CLASSES"
  "table_sane SQLITE_BYTE_CLASSES" "table_sane DUCKDB_BYTE_CLASSES"
  by (simp_all add: dialect_table_defs table_sane_with_class table_sane_standard class_mask_defs is_ascii_def)

lemma sigils_not_identifier_start:
  assumes "b \<in> {CHR ''#'', CHR ''$'', CHR ''@'', CHR '':''}"
  shows "\<not> has_class STANDARD_BYTE_CLASSES b CLASS_IDENTIFIER_START"
    "\<not> has_class POSTGRES_BYTE_CLASSES b CLASS_IDENTIFIER_START"
    "\<not> has_class MYSQL_BYTE_CLASSES b CLASS_IDENTIFIER_START"
    "\<not> has_class SQLITE_BYTE_CLASSES b CLASS_IDENTIFIER_START"
    "\<not> has_class DUCKDB_BYTE_CLASSES b CLASS_IDENTIFIER_START"
  using assms
  by (auto simp: dialect_table_defs has_class_with_class has_class_standard [unfolded class_mask_defs]
      is_identifier_start_byte_def ascii_defs class_mask_defs)

subsection \<open>Every shipped preset is consistent\<close>

definition preset_ok :: "feature_set \<Rightarrow> bool" where
  "preset_ok f \<longleftrightarrow> is_lexically_consistent f \<and> has_satisfied_feature_dependencies f
     \<and> has_no_grammar_conflict f \<and> classes_sane f"

lemmas preset_ok_simps =
  preset_ok_def is_lexically_consistent_def lexical_conflict_def has_satisfied_feature_dependencies_def
  feature_dependencies_def has_no_grammar_conflict_def grammar_conflict_def classes_sane_table
  table_sane_standard dialect_tables_sane sigils_not_identifier_start

lemma preset_ok_ansi: "preset_ok FeatureSet_ANSI"
  by (simp add: preset_ok_simps preset_ansi_defs)

lemma preset_ok_postgres: "preset_ok FeatureSet_POSTGRES"
  by (simp add: preset_ok_simps preset_postgres_defs)

lemma preset_ok_mysql: "preset_ok FeatureSet_MYSQL"
  by (simp add: preset_ok_simps preset_mysql_defs)

lemma preset_ok_sqlite: "preset_ok FeatureSet_SQLITE"
  by (simp add: preset_ok_simps preset_sqlite_defs)

lemma preset_ok_duckdb: "preset_ok FeatureSet_DUCKDB"
  by (simp add: preset_ok_simps preset_duckdb_defs)

lemma preset_ok_lenient: "preset_ok FeatureSet_LENIENT"
  by (simp add: preset_ok_simps preset_lenient_defs)

lemma preset_ok_snowflake: "preset_ok FeatureSet_SNOWFLAKE"
  by (simp add: preset_ok_simps preset_snowflake_defs)

lemma preset_ok_bigquery: "preset_ok FeatureSet_BIGQUERY"
  by (simp add: preset_ok_simps preset_bigquery_defs)

lemma preset_ok_clickhouse: "preset_ok FeatureSet_CLICKHOUSE"
  by (simp add: preset_ok_simps preset_clickhouse_defs)

lemma preset_ok_databricks: "preset_ok FeatureSet_DATABRICKS"
  by (simp add: preset_ok_simps preset_databricks_defs)

lemma preset_ok_hive: "preset_ok FeatureSet_HIVE"
  by (simp add: preset_ok_simps preset_hive_defs)

lemma preset_ok_mssql: "preset_ok FeatureSet_MSSQL"
  by (simp add: preset_ok_simps preset_mssql_defs)

lemma preset_ok_quiltdb: "preset_ok FeatureSet_QUILTDB"
  by (simp add: preset_ok_simps preset_quiltdb_defs)

lemma preset_ok_redshift: "preset_ok FeatureSet_REDSHIFT"
  by (simp add: preset_ok_simps preset_redshift_defs)

text \<open>
  C18. Every shipped preset passes the three registries, as the compile-time assertions of the
  dialect files demand, and its byte classes are the ones the scanner relies on.
\<close>

theorem shipped_presets_consistent: "list_all preset_ok shipped_presets"
  by (simp add: shipped_presets_def preset_ok_ansi preset_ok_postgres preset_ok_mysql preset_ok_sqlite preset_ok_duckdb preset_ok_lenient preset_ok_snowflake
    preset_ok_bigquery preset_ok_clickhouse preset_ok_databricks preset_ok_hive preset_ok_mssql preset_ok_quiltdb preset_ok_redshift)

end
