(* ===== verification/Token_Stream.thy ===== *)
theory Token_Stream
  imports Scanner Preset_Ansi
begin

text \<open>
  The eager tokenizers of \<open>crates/squonk/src/tokenizer/mod.rs\<close>: \<open>tokenize\<close>, \<open>tokenize_with\<close>,
  \<open>tokenize_with_trivia\<close>. The token loop is a \<open>partial_function\<close>, so that not returning would
  be the value \<open>None\<close>; it is shown to return on every UTF-8 source. \<open>Vec\<close> capacities are not
  modelled.
\<close>

subsection \<open>The loop\<close>

partial_function (option) scan_tokens ::
    "unicode_tables \<Rightarrow> feature_set \<Rightarrow> trivia_sink \<Rightarrow> lex_state \<Rightarrow> cursor \<Rightarrow> token list
      \<Rightarrow> (lex_failure + (token list \<times> trivia_sink)) option" where
  "scan_tokens u f sink st c tokens = (case next_token u f sink st c of
      Inl e \<Rightarrow> Some (Inl e)
    | Inr (tok, c', sink', st') \<Rightarrow>
        (case tok of
           None \<Rightarrow> Some (Inr (tokens, sink'))
         | Some t \<Rightarrow> scan_tokens u f sink' st' c' (tokens @ [t])))"

definition tokenize_with ::
    "unicode_tables \<Rightarrow> feature_set \<Rightarrow> source \<Rightarrow> (lex_failure + token list) option" where
  "tokenize_with u f src =
     (if u32_max < length src then Some (Inl (lex_err SourceTooLong 0 0))
      else map_option (map_sum id fst)
             (scan_tokens u f NoTrivia LEX_STATE_DEFAULT (cursor_new src) []))"

definition tokenize :: "unicode_tables \<Rightarrow> source \<Rightarrow> (lex_failure + token list) option" where
  "tokenize u src = tokenize_with u FeatureSet_ANSI src"

definition tokenize_with_trivia ::
    "unicode_tables \<Rightarrow> feature_set \<Rightarrow> source \<Rightarrow> (lex_failure + (token list \<times> trivia_index)) option" where
  "tokenize_with_trivia u f src =
     (if u32_max < length src then Some (Inl (lex_err SourceTooLong 0 0))
      else map_option
             (map_sum id (\<lambda>(tokens, sink). (tokens, trivia_index_new (case sink of Some rs \<Rightarrow> rs | None \<Rightarrow> []))))
             (scan_tokens u f (Some []) LEX_STATE_DEFAULT (cursor_new src) []))"

subsection \<open>Tokens and trivia interleaved\<close>

datatype piece = Tok token | Run trivia_range

fun piece_bounds :: "piece \<Rightarrow> nat \<times> nat" where
  "piece_bounds (Tok t) = (span_start (token_span t), span_end (token_span t))"
| "piece_bounds (Run r) = (run_start r, run_end r)"

fun piece_tokens :: "piece list \<Rightarrow> token list" where
  "piece_tokens [] = []"
| "piece_tokens (Tok t # ps) = t # piece_tokens ps"
| "piece_tokens (Run r # ps) = piece_tokens ps"

fun piece_runs :: "piece list \<Rightarrow> trivia_range list" where
  "piece_runs [] = []"
| "piece_runs (Tok t # ps) = piece_runs ps"
| "piece_runs (Run r # ps) = r # piece_runs ps"

lemma piece_tokens_append [simp]: "piece_tokens (ps @ qs) = piece_tokens ps @ piece_tokens qs"
  by (induction ps rule: piece_tokens.induct) simp_all

lemma piece_runs_append [simp]: "piece_runs (ps @ qs) = piece_runs ps @ piece_runs qs"
  by (induction ps rule: piece_runs.induct) simp_all

lemma pieces_of_runs [simp]:
  "piece_tokens (map Run rs) = []" "piece_runs (map Run rs) = rs"
  "map (piece_bounds \<circ> Run) rs = map run_bounds rs"
  by (induction rs) simp_all

text \<open>A token on which the parser can slice the source, with at least one byte.\<close>

definition token_ok :: "source \<Rightarrow> token \<Rightarrow> bool" where
  "token_ok src t \<longleftrightarrow> span_start (token_span t) < span_end (token_span t)
     \<and> str_slice src (span_start (token_span t)) (span_end (token_span t)) \<noteq> None"

definition piece_ok :: "feature_set \<Rightarrow> source \<Rightarrow> piece \<Rightarrow> bool" where
  "piece_ok f src p \<longleftrightarrow> (case p of Tok t \<Rightarrow> token_ok src t | Run r \<Rightarrow> run_text_ok f src r)"

lemma token_ok_walk:
  assumes "walks c c'" "cur_good c" "cur_pos c < cur_pos c'" "token_span t = Span (cur_pos c) (cur_pos c')"
  shows "token_ok (cur_src c) t"
  using str_slice_walk[OF assms(1,2)] assms(3,4) by (simp add: token_ok_def)

subsection \<open>The loop returns and loses nothing\<close>

definition lexed :: "feature_set \<Rightarrow> trivia_sink \<Rightarrow> cursor \<Rightarrow> token list
    \<Rightarrow> lex_failure + (token list \<times> trivia_sink) \<Rightarrow> bool" where
  "lexed f sink c acc r \<longleftrightarrow> (case r of
      Inl e \<Rightarrow> fails_in 0 (cur_src c) e
    | Inr (toks, sink') \<Rightarrow> (\<exists>ps. toks = acc @ piece_tokens ps
        \<and> sink' = map_option (\<lambda>rs. rs @ piece_runs ps) sink
        \<and> tiles (map piece_bounds ps) (cur_pos c) (length (cur_src c))
        \<and> list_all (piece_ok f (cur_src c)) ps))"

lemma lexed_step:
  assumes "steps f sink c (Inr (Some t, c', sink', st'))" "cur_good c" "lexed f sink' c' (acc @ [t]) r"
  shows "lexed f sink c acc r"
proof -
  from assms(1) obtain c1 new where
    w: "walks c c1" "walks c1 c'" "cur_pos c1 < cur_pos c'" "token_span t = Span (cur_pos c1) (cur_pos c')"
    and s: "sink' = map_option (\<lambda>rs. rs @ new) sink"
    and n: "tiles (map run_bounds new) (cur_pos c) (cur_pos c1)" "\<forall>r\<in>set new. run_text_ok f (cur_src c) r"
    by (auto simp: steps_def)
  have src: "cur_src c1 = cur_src c" "cur_src c' = cur_src c"
    using w(1,2) by (auto simp: walks_def cur_le_def)
  have tk: "token_ok (cur_src c) t"
    using token_ok_walk[OF w(2) walks_good[OF w(1) assms(2)] w(3,4)] src by simp
  show ?thesis
  proof (cases r)
    case (Inl e)
    with assms(3) src show ?thesis by (simp add: lexed_def)
  next
    case (Inr x)
    obtain toks sink2 where x: "x = (toks, sink2)" by (cases x)
    from assms(3) Inr x src obtain ps where
      ps: "toks = (acc @ [t]) @ piece_tokens ps" "sink2 = map_option (\<lambda>rs. rs @ piece_runs ps) sink'"
        "tiles (map piece_bounds ps) (cur_pos c') (length (cur_src c))" "list_all (piece_ok f (cur_src c)) ps"
      by (auto simp: lexed_def)
    let ?ps = "map Run new @ Tok t # ps"
    have "tiles (map piece_bounds (Tok t # ps)) (cur_pos c1) (length (cur_src c))"
      using ps(3) w(3,4) by simp
    then have "tiles (map piece_bounds ?ps) (cur_pos c) (length (cur_src c))"
      using tiles_append[OF n(1)] by (simp only: map_append map_map pieces_of_runs(3))
    moreover have "list_all (piece_ok f (cur_src c)) ?ps"
      using n(2) tk ps(4) by (auto simp: piece_ok_def list_all_iff)
    moreover have "toks = acc @ piece_tokens ?ps" "sink2 = map_option (\<lambda>rs. rs @ piece_runs ?ps) sink"
      using ps(1,2) s by (simp_all add: option.map_comp comp_def)
    ultimately show ?thesis unfolding lexed_def Inr x sum.case prod.case by blast
  qed
qed

lemma scan_tokens_lexed:
  assumes "classes_sane f" "cur_good c" "length (cur_src c) \<le> u32_max" "state_ok st c"
  shows "\<exists>r. scan_tokens u f sink st c acc = Some r \<and> lexed f sink c acc r"
  using assms
proof (induction "length (cur_src c) - cur_pos c" arbitrary: c sink st acc rule: less_induct)
  case less
  note st = next_token_steps[OF less(2-5), of sink u]
  show ?case
  proof (cases "next_token u f sink st c")
    case (Inl e)
    with st show ?thesis by (simp add: scan_tokens.simps lexed_def steps_def)
  next
    case (Inr x)
    obtain tok c' sink' st' where x: "x = (tok, c', sink', st')" by (cases x)
    note st = st[unfolded Inr x]
    show ?thesis
    proof (cases tok)
      case None
      from st None obtain c1 new where
        w: "walks c c1" "c' = c1" "is_eof c1" and n: "sink' = map_option (\<lambda>rs. rs @ new) sink"
          "tiles (map run_bounds new) (cur_pos c) (cur_pos c1)" "\<forall>r\<in>set new. run_text_ok f (cur_src c) r"
        by (auto simp: steps_def)
      have "cur_pos c1 = length (cur_src c)"
        using walks_good[OF w(1) less(3)] w(1,3) by (auto simp: is_eof_def walks_def cur_le_def cur_good_def cur_ok_def)
      with n have "lexed f sink c acc (Inr (acc, sink'))"
        by (auto simp: lexed_def list_all_iff piece_ok_def intro!: exI[of _ "map Run new"])
      with Inr x None show ?thesis by (simp add: scan_tokens.simps)
    next
      case (Some t)
      from st Some obtain c1 where w: "walks c c'" "walks c c1" "cur_pos c1 < cur_pos c'" "state_ok st' c'"
        by (auto simp: steps_def)
      have le: "cur_src c' = cur_src c" "cur_pos c < cur_pos c'" "cur_pos c' \<le> length (cur_src c)" "cur_good c'"
        using w(1-3) walks_good[OF w(1) less(3)] by (auto simp: walks_def cur_le_def cur_good_def cur_ok_def)
      have "length (cur_src c') - cur_pos c' < length (cur_src c) - cur_pos c"
        unfolding le(1) using le(2,3) by linarith
      from less(1)[OF this less(2) le(4) _ w(4), of sink' "acc @ [t]"] less(4) le(1) obtain r where
        r: "scan_tokens u f sink' st' c' (acc @ [t]) = Some r" "lexed f sink' c' (acc @ [t]) r"
        by auto
      have "lexed f sink c acc r"
        by (rule lexed_step[OF _ less(3) r(2)]) (use st Some in simp)
      moreover have "scan_tokens u f sink st c acc = Some r"
        by (subst scan_tokens.simps) (use Inr x Some r(1) in simp)
      ultimately show ?thesis by blast
    qed
  qed
qed
subsection \<open>Capturing trivia changes nothing\<close>

lemma scan_tokens_sink:
  assumes "classes_sane f" "cur_good c" "length (cur_src c) \<le> u32_max" "state_ok st c"
  shows "map_option (map_sum id fst) (scan_tokens u f sink st c acc)
    = map_option (map_sum id fst) (scan_tokens u f None st c acc)"
  using assms
proof (induction "length (cur_src c) - cur_pos c" arbitrary: c sink st acc rule: less_induct)
  case less
  note eq = next_token_sink[of u f sink st c]
  note st = next_token_steps[OF less(2-5), of None u]
  show ?case
  proof (cases "next_token u f None st c")
    case (Inl e)
    with eq have "next_token u f sink st c = Inl e" by (cases "next_token u f sink st c") auto
    with Inl show ?thesis by (simp add: scan_tokens.simps)
  next
    case (Inr x)
    obtain tok c' s1 st' where x: "x = (tok, c', s1, st')" by (cases x)
    note N = Inr[unfolded x]
    from eq N obtain s2 where S: "next_token u f sink st c = Inr (tok, c', s2, st')"
      by (cases "next_token u f sink st c") auto
    have s1: "s1 = None" using st by (auto simp: N steps_def)
    show ?thesis
    proof (cases tok)
      case None
      with N S show ?thesis by (simp add: scan_tokens.simps)
    next
      case (Some t)
      from st Some obtain c1 where w: "walks c c'" "walks c c1" "cur_pos c1 < cur_pos c'" "state_ok st' c'"
        by (auto simp: steps_def N)
      have le: "cur_src c' = cur_src c" "cur_pos c < cur_pos c'" "cur_pos c' \<le> length (cur_src c)" "cur_good c'"
        using w(1-3) walks_good[OF w(1) less(3)] by (auto simp: walks_def cur_le_def cur_good_def cur_ok_def)
      have d: "length (cur_src c') - cur_pos c' < length (cur_src c) - cur_pos c"
        unfolding le(1) using le(2,3) by linarith
      have "map_option (map_sum id fst) (scan_tokens u f s2 st' c' (acc @ [t]))
          = map_option (map_sum id fst) (scan_tokens u f None st' c' (acc @ [t]))"
        using less(1)[OF d less(2) le(4) _ w(4)] less(4) le(1) by simp
      moreover have "scan_tokens u f sink st c acc = scan_tokens u f s2 st' c' (acc @ [t])"
        by (subst scan_tokens.simps) (simp add: S Some)
      moreover have "scan_tokens u f None st c acc = scan_tokens u f None st' c' (acc @ [t])"
        by (subst scan_tokens.simps) (simp add: N Some s1)
      ultimately show ?thesis by simp
    qed
  qed
qed

subsection \<open>The eager tokenizers\<close>

text \<open>Where an error of the tokenizer may point.\<close>

definition error_in_source :: "source \<Rightarrow> lex_failure \<Rightarrow> bool" where
  "error_in_source src e \<longleftrightarrow> fails_in 0 src e"

lemma tokenize_with_lexed:
  assumes "classes_sane f" "valid_utf8 src" "length src \<le> u32_max"
  shows "\<exists>r. scan_tokens u f sink LEX_STATE_DEFAULT (cursor_new src) [] = Some r
    \<and> lexed f sink (cursor_new src) [] r"
  using scan_tokens_lexed[OF assms(1), of "cursor_new src"] assms(2,3) by simp

lemma piece_tokens_ok: "list_all (piece_ok f src) ps \<Longrightarrow> list_all (token_ok src) (piece_tokens ps)"
  by (induction ps rule: piece_tokens.induct) (simp_all add: piece_ok_def)

lemma piece_tokens_sorted:
  "tiles (map piece_bounds ps) a b \<Longrightarrow>
     sorted_wrt (\<lambda>s t. span_end (token_span s) \<le> span_start (token_span t)) (piece_tokens ps)
     \<and> list_all (\<lambda>t. a \<le> span_start (token_span t)) (piece_tokens ps)"
  by (induction ps arbitrary: a rule: piece_tokens.induct) (fastforce simp: list_all_iff)+

lemma piece_runs_sorted:
  "tiles (map piece_bounds ps) a b \<Longrightarrow>
     runs_sorted (piece_runs ps) \<and> list_all (\<lambda>r. a \<le> run_start r) (piece_runs ps)"
  by (induction ps arbitrary: a rule: piece_runs.induct) (fastforce simp: runs_sorted_def list_all_iff)+

text \<open>
  C3. The tokenizer is total: on every UTF-8 source it returns, without a panic; an error is
  placed inside the source; the tokens come in source order, do not overlap, are not empty
  and begin and end on character boundaries, so the parser may slice the source by them.
\<close>

theorem tokenize_total:
  assumes "classes_sane f" "valid_utf8 src"
  shows "\<exists>r. tokenize_with u f src = Some r \<and> (case r of
      Inl e \<Rightarrow> error_in_source src e
    | Inr toks \<Rightarrow> list_all (token_ok src) toks
        \<and> sorted_wrt (\<lambda>s t. span_end (token_span s) \<le> span_start (token_span t)) toks)"
proof (cases "u32_max < length src")
  case True
  then show ?thesis by (simp add: tokenize_with_def error_in_source_def fails_in_lex_err)
next
  case False
  with tokenize_with_lexed[OF assms, of u NoTrivia] obtain r where
    r: "scan_tokens u f NoTrivia LEX_STATE_DEFAULT (cursor_new src) [] = Some r"
      "lexed f NoTrivia (cursor_new src) [] r" by auto
  show ?thesis
  proof (cases r)
    case (Inl e)
    with r False show ?thesis by (simp add: tokenize_with_def lexed_def error_in_source_def)
  next
    case (Inr x)
    with r(2) obtain ps where "fst x = piece_tokens ps"
      "tiles (map piece_bounds ps) 0 (length src)" "list_all (piece_ok f src) ps"
      by (auto simp: lexed_def)
    with piece_tokens_ok piece_tokens_sorted r(1) Inr False show ?thesis
      by (simp add: tokenize_with_def)
  qed
qed

text \<open>
  C1. Nothing is lost: the tokens and the trivia index of \<open>tokenize_with_trivia\<close> interleave to a
  list of pieces that tile the source from its first byte to its last, so their texts
  concatenated are the source; whitespace runs hold whitespace bytes only, comments no NUL.
\<close>

theorem tokenize_lossless:
  assumes "classes_sane f" "valid_utf8 src"
    and "tokenize_with_trivia u f src = Some (Inr (toks, ix))"
  shows "\<exists>ps. piece_tokens ps = toks \<and> piece_runs ps = trivia_all ix
    \<and> tiles (map piece_bounds ps) 0 (length src)
    \<and> concat (map (\<lambda>p. subslice src (fst (piece_bounds p)) (snd (piece_bounds p))) ps) = src
    \<and> list_all (piece_ok f src) ps"
proof -
  have len: "length src \<le> u32_max"
    using assms(3) by (auto simp: tokenize_with_trivia_def split: if_splits)
  with tokenize_with_lexed[OF assms(1,2), of u "Some []"] assms(3) obtain ps where
    ps: "toks = piece_tokens ps" "ix = trivia_index_new (piece_runs ps)"
      "tiles (map piece_bounds ps) 0 (length src)" "list_all (piece_ok f src) ps"
    by (fastforce simp: tokenize_with_trivia_def lexed_def split: sum.splits prod.splits)
  have "concat (map (\<lambda>(s, e). subslice src s e) (map piece_bounds ps)) = subslice src 0 (length src)"
    by (rule tiles_concat[OF ps(3)])
  with ps show ?thesis
    by (intro exI[of _ ps]) (simp add: trivia_all_def trivia_index_new_def case_prod_beta comp_def)
qed

text \<open>
  C19. Capturing trivia is invisible: \<open>tokenize_with_trivia\<close> returns the tokens, or the error,
  of \<open>tokenize_with\<close>.
\<close>

theorem trivia_capture_invisible:
  assumes "classes_sane f" "valid_utf8 src"
  shows "tokenize_with u f src = map_option (map_sum id fst) (tokenize_with_trivia u f src)"
proof (cases "u32_max < length src")
  case True
  then show ?thesis by (simp add: tokenize_with_def tokenize_with_trivia_def)
next
  case False
  have drop_index: "map_sum id fst \<circ> map_sum id (\<lambda>(tokens, sink). (tokens, g sink)) = map_sum id fst"
    for g :: "trivia_sink \<Rightarrow> trivia_index"
    by (auto simp: fun_eq_iff map_sum_def split: sum.splits)
  show ?thesis
    using scan_tokens_sink[OF assms(1), of "cursor_new src" LEX_STATE_DEFAULT u "Some []" "[]"] assms(2) False
    by (simp add: tokenize_with_def tokenize_with_trivia_def NoTrivia_def option.map_comp drop_index)
qed

text \<open>
  C20. The trivia index a tokenizer returns is sorted and without overlaps, so on it a span
  query is exact: it answers with the captured runs that lie inside the span, and no others.
\<close>

theorem tokenize_index_queries:
  assumes "classes_sane f" "valid_utf8 src"
    and "tokenize_with_trivia u f src = Some (Inr (toks, ix))"
  shows "runs_sorted (ranges ix)
    \<and> in_span ix sp = filter (\<lambda>r. \<not> is_synthetic sp
        \<and> span_start sp \<le> run_start r \<and> run_end r \<le> span_end sp) (ranges ix)"
proof -
  have len: "length src \<le> u32_max"
    using assms(3) by (auto simp: tokenize_with_trivia_def split: if_splits)
  with tokenize_with_lexed[OF assms(1,2), of u "Some []"] assms(3) obtain ps where
    "ix = trivia_index_new (piece_runs ps)" "tiles (map piece_bounds ps) 0 (length src)"
    by (fastforce simp: tokenize_with_trivia_def lexed_def split: sum.splits prod.splits)
  then have "runs_sorted (ranges ix)" using piece_runs_sorted by (auto simp: trivia_index_new_def)
  then show ?thesis using in_span_sorted by blast
qed

end
