(* ===== verification/Token_Cursors.thy ===== *)
theory Token_Cursors
  imports Token_Stream
begin

text \<open>
  The two token cursors of \<open>crates/squonk/src/tokenizer/mod.rs\<close>: \<open>TokenCursor\<close> over a finished
  token list, and \<open>BufferedTokenCursor\<close>, which scans on demand, keeps what the current
  statement may rewind to, and remembers the first lexical error. Both meet one interface,
  \<open>token_source\<close>, on which the parser's lookahead and speculation rest.

  Positions are \<open>usize\<close> in the program; the saturating and wrapping steps of \<open>peek_nth\<close> are
  exact below \<open>usize::MAX\<close>, so positions are natural numbers here and a target in front of the
  buffer is a miss. The trivia runs a failing scan recorded before it failed are dropped.
\<close>

subsection \<open>The eager slice cursor\<close>

record token_cursor =
  tc_tokens :: "token list"
  tc_pos :: nat

definition token_cursor_new :: "token list \<Rightarrow> token_cursor" where
  "token_cursor_new tokens = \<lparr>tc_tokens = tokens, tc_pos = 0\<rparr>"

definition tc_remaining :: "token_cursor \<Rightarrow> nat" where
  "tc_remaining c = length (tc_tokens c) - min (tc_pos c) (length (tc_tokens c))"

definition tc_is_eof :: "token_cursor \<Rightarrow> bool" where
  "tc_is_eof c \<longleftrightarrow> length (tc_tokens c) \<le> tc_pos c"

definition tc_peek :: "token_cursor \<Rightarrow> token option" where
  "tc_peek c = get_at (tc_tokens c) (tc_pos c)"

definition tc_peek_nth :: "nat \<Rightarrow> token_cursor \<Rightarrow> token option" where
  "tc_peek_nth n c = get_at (tc_tokens c) (tc_pos c + n)"

definition tc_advance :: "token_cursor \<Rightarrow> token option \<times> token_cursor" where
  "tc_advance c = (let t = tc_peek c in
     (t, if t \<noteq> None then c\<lparr>tc_pos := tc_pos c + 1\<rparr> else c))"

definition tc_seek :: "nat \<Rightarrow> token_cursor \<Rightarrow> token_cursor" where
  "tc_seek p c = c\<lparr>tc_pos := p\<rparr>"

subsection \<open>The buffered cursor\<close>

record stream_state =
  ss_cursor :: cursor
  ss_reached_eof :: bool
  ss_lex_error :: "lex_error option"
  ss_lex :: lex_state

datatype buffered_source = SliceSource "token list" | StreamSource stream_state

record buffered_cursor =
  bc_source :: buffered_source
  bc_features :: "feature_set option"
  bc_buffer :: "token list"
  bc_buffer_start :: nat
  bc_pos :: nat
  bc_trivia :: trivia_sink

definition from_tokens :: "token list \<Rightarrow> buffered_cursor" where
  "from_tokens tokens = \<lparr>bc_source = SliceSource tokens, bc_features = None, bc_buffer = [],
     bc_buffer_start = 0, bc_pos = 0, bc_trivia = None\<rparr>"

definition streaming_inner :: "source \<Rightarrow> feature_set \<Rightarrow> trivia_sink \<Rightarrow> lex_failure + buffered_cursor" where
  "streaming_inner src f sink =
     (if u32_max < length src then Inl (lex_err SourceTooLong 0 0)
      else Inr \<lparr>bc_source = StreamSource \<lparr>ss_cursor = cursor_new src, ss_reached_eof = False,
                  ss_lex_error = None, ss_lex = LEX_STATE_DEFAULT\<rparr>,
                bc_features = Some f, bc_buffer = [], bc_buffer_start = 0, bc_pos = 0,
                bc_trivia = sink\<rparr>)"

definition streaming :: "source \<Rightarrow> feature_set \<Rightarrow> lex_failure + buffered_cursor" where
  "streaming src f = streaming_inner src f None"

definition streaming_with_trivia :: "source \<Rightarrow> feature_set \<Rightarrow> lex_failure + buffered_cursor" where
  "streaming_with_trivia src f = streaming_inner src f (Some [])"

definition take_trivia :: "buffered_cursor \<Rightarrow> trivia_index \<times> buffered_cursor" where
  "take_trivia bc =
     (trivia_index_new (case bc_trivia bc of Some rs \<Rightarrow> rs | None \<Rightarrow> []), bc\<lparr>bc_trivia := None\<rparr>)"

definition buffered_token :: "buffered_cursor \<Rightarrow> nat \<Rightarrow> token option" where
  "buffered_token bc index =
     (if bc_buffer_start bc \<le> index then get_at (bc_buffer bc) (index - bc_buffer_start bc) else None)"

text \<open>
  The \<open>while\<close> loop of \<open>scan_loop\<close>. A lexical error is latched in the stream state before it is
  returned.
\<close>

function scan_while ::
    "unicode_tables \<Rightarrow> feature_set \<Rightarrow> nat \<Rightarrow> nat \<Rightarrow> stream_state \<Rightarrow> token list \<Rightarrow> trivia_sink
      \<Rightarrow> (lex_failure + unit) \<times> stream_state \<times> token list \<times> trivia_sink" where
  "scan_while u f target start ss buffer sink =
     (if \<not> ss_reached_eof ss \<and> start + length buffer \<le> target then
        (case next_token u f sink (ss_lex ss) (ss_cursor ss) of
           Inr (Some t, c', sink', st') \<Rightarrow>
             scan_while u f target start (ss\<lparr>ss_cursor := c', ss_lex := st'\<rparr>) (buffer @ [t]) sink'
         | Inr (None, c', sink', st') \<Rightarrow>
             scan_while u f target start
               (ss\<lparr>ss_cursor := c', ss_lex := st', ss_reached_eof := True\<rparr>) buffer sink'
         | Inl (Lex e) \<Rightarrow> (Inl (Lex e), ss\<lparr>ss_lex_error := Some e\<rparr>, buffer, sink)
         | Inl Panic \<Rightarrow> (Inl Panic, ss, buffer, sink))
      else (Inr (), ss, buffer, sink))"
  by pat_completeness auto
termination
  by (relation "measure (\<lambda>(u, f, target, start, ss, buffer, sink).
        if ss_reached_eof ss then 0 else Suc target - (start + length buffer))") auto

declare scan_while.simps [simp del]

definition scan_loop ::
    "unicode_tables \<Rightarrow> nat \<Rightarrow> trivia_sink \<Rightarrow> buffered_cursor
      \<Rightarrow> (lex_failure + unit) \<times> buffered_cursor \<times> trivia_sink" where
  "scan_loop u target sink bc = (case bc_source bc of
      SliceSource tokens \<Rightarrow> (Inr (), bc, sink)
    | StreamSource ss \<Rightarrow>
        (case bc_features bc of
           None \<Rightarrow> (Inl Panic, bc, sink)
         | Some f \<Rightarrow>
             (case ss_lex_error ss of
                Some e \<Rightarrow> (Inl (Lex e), bc, sink)
              | None \<Rightarrow>
                  (case scan_while u f target (bc_buffer_start bc) ss (bc_buffer bc) sink of
                     (r, ss', buffer', sink') \<Rightarrow>
                       (r, bc\<lparr>bc_source := StreamSource ss', bc_buffer := buffer'\<rparr>, sink')))))"

definition fill_through :: "unicode_tables \<Rightarrow> nat \<Rightarrow> buffered_cursor \<Rightarrow> (lex_failure + unit) \<times> buffered_cursor" where
  "fill_through u target bc =
     (case scan_loop u target (bc_trivia bc) (bc\<lparr>bc_trivia := None\<rparr>) of
        (r, bc', sink') \<Rightarrow> (r, bc'\<lparr>bc_trivia := sink'\<rparr>))"

definition bc_peek_nth ::
    "unicode_tables \<Rightarrow> nat \<Rightarrow> buffered_cursor \<Rightarrow> (lex_failure + token option) \<times> buffered_cursor" where
  "bc_peek_nth u n bc = (let target = bc_pos bc + n in
     case bc_source bc of
       SliceSource tokens \<Rightarrow> (Inr (get_at tokens target), bc)
     | StreamSource ss \<Rightarrow>
         (case buffered_token bc target of
            Some t \<Rightarrow> (Inr (Some t), bc)
          | None \<Rightarrow>
              (case fill_through u target bc of
                 (Inl e, bc') \<Rightarrow> (Inl e, bc')
               | (Inr _, bc') \<Rightarrow> (Inr (buffered_token bc' target), bc'))))"

definition bc_peek :: "unicode_tables \<Rightarrow> buffered_cursor \<Rightarrow> (lex_failure + token option) \<times> buffered_cursor" where
  "bc_peek u bc = bc_peek_nth u 0 bc"

definition bc_advance :: "unicode_tables \<Rightarrow> buffered_cursor \<Rightarrow> (lex_failure + token option) \<times> buffered_cursor" where
  "bc_advance u bc = (case bc_peek u bc of
      (Inl e, bc') \<Rightarrow> (Inl e, bc')
    | (Inr t, bc') \<Rightarrow> (Inr t, if t \<noteq> None then bc'\<lparr>bc_pos := bc_pos bc' + 1\<rparr> else bc'))"

definition bc_is_eof :: "unicode_tables \<Rightarrow> buffered_cursor \<Rightarrow> (lex_failure + bool) \<times> buffered_cursor" where
  "bc_is_eof u bc = (case bc_peek u bc of
      (Inl e, bc') \<Rightarrow> (Inl e, bc')
    | (Inr t, bc') \<Rightarrow> (Inr (t = None), bc'))"

text \<open>The \<open>debug_assert!\<close> of \<open>seek\<close> is the side condition of the steps below.\<close>

definition bc_seek :: "nat \<Rightarrow> buffered_cursor \<Rightarrow> buffered_cursor" where
  "bc_seek p bc = bc\<lparr>bc_pos := p\<rparr>"

definition bc_preceding :: "buffered_cursor \<Rightarrow> token option" where
  "bc_preceding bc =
     (if bc_pos bc = 0 then None
      else case bc_source bc of
        SliceSource tokens \<Rightarrow> get_at tokens (bc_pos bc - 1)
      | StreamSource ss \<Rightarrow> buffered_token bc (bc_pos bc - 1))"

definition discard_consumed :: "buffered_cursor \<Rightarrow> buffered_cursor" where
  "discard_consumed bc = (case bc_source bc of
      SliceSource tokens \<Rightarrow> bc
    | StreamSource ss \<Rightarrow>
        (let consumed = min (bc_pos bc - bc_buffer_start bc) (length (bc_buffer bc)) in
         if consumed = 0 then bc
         else bc\<lparr>bc_buffer := drop consumed (bc_buffer bc),
                 bc_buffer_start := bc_buffer_start bc + consumed\<rparr>))"
subsection \<open>What the scanner produces from a point on\<close>

text \<open>
  \<open>lexes u f st c ts out\<close>: from cursor \<open>c\<close> the scanner returns the tokens \<open>ts\<close> and then ends:
  at the end of the source (\<open>None\<close>), or with a failure.
\<close>

inductive lexes ::
    "unicode_tables \<Rightarrow> feature_set \<Rightarrow> lex_state \<Rightarrow> cursor \<Rightarrow> token list \<Rightarrow> lex_failure option \<Rightarrow> bool"
  for u f where
  lexes_eof: "next_token u f None st c = Inr (None, c', sink, st') \<Longrightarrow> lexes u f st c [] None"
| lexes_err: "next_token u f None st c = Inl e \<Longrightarrow> lexes u f st c [] (Some e)"
| lexes_tok: "next_token u f None st c = Inr (Some t, c', sink, st') \<Longrightarrow> lexes u f st' c' ts out
      \<Longrightarrow> lexes u f st c (t # ts) out"

inductive_cases lexesE: "lexes u f st c ts out"

lemma lexes_at_err: "lexes u f st c ts out \<Longrightarrow> next_token u f None st c = Inl e \<Longrightarrow> ts = [] \<and> out = Some e"
  by (erule lexesE) auto

lemma lexes_at_eof:
  "lexes u f st c ts out \<Longrightarrow> next_token u f None st c = Inr (None, c', s, st') \<Longrightarrow> ts = [] \<and> out = None"
  by (erule lexesE) auto

lemma lexes_at_tok:
  "lexes u f st c ts out \<Longrightarrow> next_token u f None st c = Inr (Some t, c', s, st')
     \<Longrightarrow> \<exists>ts'. ts = t # ts' \<and> lexes u f st' c' ts' out"
  by (erule lexesE) auto

lemma next_token_unsunk:
  "next_token u f sink st c = Inl e \<Longrightarrow> next_token u f None st c = Inl e"
  "next_token u f sink st c = Inr (tok, c', s, st') \<Longrightarrow> \<exists>s'. next_token u f None st c = Inr (tok, c', s', st')"
  using next_token_sink[of u f sink st c] by (cases "next_token u f None st c"; auto)+

text \<open>The eager loop computes it.\<close>

lemma scan_tokens_lexes:
  assumes "scan_tokens u f sink st c acc = Some r"
  shows "case r of
      Inl e \<Rightarrow> \<exists>ts. lexes u f st c ts (Some e)
    | Inr (toks, sink') \<Rightarrow> \<exists>ts. toks = acc @ ts \<and> lexes u f st c ts None"
proof (rule scan_tokens.raw_induct[of "\<lambda>u f sink st c acc r. case r of
      Inl e \<Rightarrow> \<exists>ts. lexes u f st c ts (Some e)
    | Inr (toks, sink') \<Rightarrow> \<exists>ts. toks = acc @ ts \<and> lexes u f st c ts None", OF _ assms], goal_cases)
  case (1 scan u f sink st c acc r)
  show ?case
  proof (cases "next_token u f sink st c")
    case (Inl e)
    with 1(2) lexes_err[OF next_token_unsunk(1)[OF Inl]] show ?thesis by auto
  next
    case (Inr x)
    obtain tok c' s st' where x: "x = (tok, c', s, st')" by (cases x)
    obtain s' where n: "next_token u f None st c = Inr (tok, c', s', st')"
      using next_token_unsunk(2) Inr x by blast
    show ?thesis
    proof (cases tok)
      case None
      with 1(2) Inr x n show ?thesis by (auto intro: lexes_eof)
    next
      case (Some t)
      with 1(2) Inr x have "scan u f s st' c' (acc @ [t]) = Some r" by simp
      from 1(1)[OF this] n Some show ?thesis
        by (cases r) (fastforce intro: lexes_tok)+
    qed
  qed
qed

text \<open>The answer of an ideal cursor over that production.\<close>

definition ideal_peek :: "token list \<Rightarrow> lex_failure option \<Rightarrow> nat \<Rightarrow> lex_failure + token option" where
  "ideal_peek ts out i =
     (if i < length ts then Inr (Some (ts ! i))
      else case out of None \<Rightarrow> Inr None | Some e \<Rightarrow> Inl e)"

subsection \<open>The buffered cursor refines it\<close>

definition stream_at :: "unicode_tables \<Rightarrow> feature_set \<Rightarrow> token list \<Rightarrow> lex_failure option \<Rightarrow> nat \<Rightarrow> stream_state \<Rightarrow> bool" where
  "stream_at u f ts out k ss \<longleftrightarrow> k \<le> length ts \<and> (case ss_lex_error ss of
      Some e \<Rightarrow> out = Some (Lex e) \<and> k = length ts
    | None \<Rightarrow>
        if ss_reached_eof ss then out = None \<and> k = length ts
        else lexes u f (ss_lex ss) (ss_cursor ss) (drop k ts) out)"

definition stream_refines ::
    "unicode_tables \<Rightarrow> feature_set \<Rightarrow> token list \<Rightarrow> lex_failure option \<Rightarrow> buffered_cursor \<Rightarrow> bool" where
  "stream_refines u f ts out bc \<longleftrightarrow> out \<noteq> Some Panic \<and> bc_features bc = Some f
     \<and> bc_buffer_start bc \<le> bc_pos bc
     \<and> (\<exists>ss. bc_source bc = StreamSource ss
        \<and> stream_at u f ts out (bc_buffer_start bc + length (bc_buffer bc)) ss)
     \<and> bc_buffer bc = subslice ts (bc_buffer_start bc) (bc_buffer_start bc + length (bc_buffer bc))"

lemma subslice_snoc:
  "i \<le> k \<Longrightarrow> k < length xs \<Longrightarrow> subslice xs i (Suc k) = subslice xs i k @ [xs ! k]"
  using slice_append[of i k "Suc k" xs] by (simp add: slice_Cons)

lemma drop_cons_nth: "drop k xs = x # ys \<Longrightarrow> k < length xs \<and> xs ! k = x \<and> drop (Suc k) xs = ys"
  by (metis Cons_nth_drop_Suc drop_all leI list.discI list.inject)

lemma scan_while_refines:
  assumes "scan_while u f target start ss buffer sink = (r, ss', buffer', sink')"
    and "stream_at u f ts out (start + length buffer) ss" "ss_lex_error ss = None" "out \<noteq> Some Panic"
    and "buffer = subslice ts start (start + length buffer)"
  shows "stream_at u f ts out (start + length buffer') ss'
    \<and> buffer' = subslice ts start (start + length buffer')
    \<and> (case r of
        Inr _ \<Rightarrow> target < start + length buffer' \<or> (out = None \<and> start + length buffer' = length ts)
      | Inl e \<Rightarrow> out = Some e \<and> start + length buffer' = length ts \<and> length ts \<le> target)"
  using assms
proof (induction u f target start ss buffer sink rule: scan_while.induct)
  case (1 u f target start ss buffer sink)
  let ?k = "start + length buffer"
  show ?case
  proof (cases "\<not> ss_reached_eof ss \<and> ?k \<le> target")
    case False
    then have "scan_while u f target start ss buffer sink = (Inr (), ss, buffer, sink)"
      by (subst scan_while.simps) (simp only: if_False)
    with 1(3) have "r = Inr ()" "ss' = ss" "buffer' = buffer" by simp_all
    with False 1(4-7) show ?thesis by (auto simp: stream_at_def)
  next
    case True
    from True 1(4,5) have lx: "lexes u f (ss_lex ss) (ss_cursor ss) (drop ?k ts) out" "?k \<le> length ts"
      by (auto simp: stream_at_def)
    show ?thesis
    proof (cases "next_token u f sink (ss_lex ss) (ss_cursor ss)")
      case (Inl e)
      from lexes_at_err[OF lx(1) next_token_unsunk(1)[OF Inl]] lx(2)
      have out: "out = Some e" "?k = length ts" by simp_all
      then obtain le where "e = Lex le" using 1(6) by (cases e) auto
      then have "scan_while u f target start ss buffer sink
          = (Inl e, ss\<lparr>ss_lex_error := Some le\<rparr>, buffer, sink)"
        by (subst scan_while.simps) (use True Inl in simp)
      with 1(3) have "r = Inl e" "ss' = ss\<lparr>ss_lex_error := Some le\<rparr>" "buffer' = buffer" by simp_all
      with out True 1(7) \<open>e = Lex le\<close> show ?thesis by (simp add: stream_at_def)
    next
      case (Inr x)
      obtain tok c' s st' where x: "x = (tok, c', s, st')" by (cases x)
      obtain s' where n: "next_token u f None (ss_lex ss) (ss_cursor ss) = Inr (tok, c', s', st')"
        using next_token_unsunk(2) Inr x by blast
      show ?thesis
      proof (cases tok)
        case None
        from lexes_at_eof[OF lx(1)] n None lx(2) have out: "out = None" "?k = length ts" by auto
        have sw: "scan_while u f target start
            (ss\<lparr>ss_cursor := c', ss_lex := st', ss_reached_eof := True\<rparr>) buffer s = (r, ss', buffer', sink')"
          using 1(3) by (subst (asm) scan_while.simps) (use True Inr x None in simp)
        show ?thesis
          by (rule 1(1)[OF True Inr x[symmetric] None refl refl sw])
            (use out 1(5-7) in \<open>simp_all add: stream_at_def\<close>)
      next
        case (Some t)
        from lexes_at_tok[OF lx(1)] n Some obtain ts' where
          d: "drop ?k ts = t # ts'" "lexes u f st' c' ts' out" by auto
        then have k: "?k < length ts" "ts ! ?k = t" "drop (Suc ?k) ts = ts'"
          using drop_cons_nth[OF d(1)] by simp_all
        have sw: "scan_while u f target start (ss\<lparr>ss_cursor := c', ss_lex := st'\<rparr>) (buffer @ [t]) s
            = (r, ss', buffer', sink')"
          using 1(3) by (subst (asm) scan_while.simps) (use True Inr x Some in simp)
        have "buffer @ [t] = subslice ts start (Suc ?k)"
          using subslice_snoc[of start ?k ts] k(1,2) 1(7) by simp
        moreover have "start + length (buffer @ [t]) = Suc ?k" by simp
        ultimately show ?thesis
          by (intro 1(2)[OF True Inr x[symmetric] Some refl refl sw])
            (use 1(5,6) True k d(2) in \<open>simp_all only: stream_at_def, auto\<close>)
      qed
    qed
  qed
qed
lemma refined_token:
  assumes "stream_refines u f ts out bc" "bc_buffer_start bc \<le> i"
  shows "buffered_token bc i
    = (if i < bc_buffer_start bc + length (bc_buffer bc) then Some (ts ! i) else None)"
proof -
  let ?k = "bc_buffer_start bc + length (bc_buffer bc)"
  have b: "bc_buffer bc = subslice ts (bc_buffer_start bc) ?k" "?k \<le> length ts"
    using assms(1) by (auto simp: stream_refines_def stream_at_def)
  have "bc_buffer bc ! (i - bc_buffer_start bc) = ts ! i" if "i < ?k"
    using nth_slice[of "bc_buffer_start bc" ?k ts "i - bc_buffer_start bc"] b that assms(2) by simp
  then show ?thesis using assms(2) by (auto simp: buffered_token_def get_at_def)
qed

lemma fill_through_refines:
  assumes "stream_refines u f ts out bc" "fill_through u target bc = (r, bc')"
    "bc_buffer_start bc + length (bc_buffer bc) \<le> target"
  shows "stream_refines u f ts out bc' \<and> bc_pos bc' = bc_pos bc
    \<and> bc_buffer_start bc' = bc_buffer_start bc
    \<and> (case r of
        Inr _ \<Rightarrow> target < bc_buffer_start bc + length (bc_buffer bc') \<or> (out = None \<and> length ts \<le> target)
      | Inl e \<Rightarrow> out = Some e \<and> length ts \<le> target)"
proof -
  let ?s = "bc_buffer_start bc"
  from assms(1) obtain ss where ss: "bc_source bc = StreamSource ss"
      "stream_at u f ts out (?s + length (bc_buffer bc)) ss" "bc_features bc = Some f"
      "out \<noteq> Some Panic" "bc_buffer bc = subslice ts ?s (?s + length (bc_buffer bc))" "?s \<le> bc_pos bc"
    by (auto simp: stream_refines_def)
  show ?thesis
  proof (cases "ss_lex_error ss")
    case (Some e)
    then have "r = Inl (Lex e)" "bc' = bc" "out = Some (Lex e)" "length ts \<le> target"
      using assms(2,3) ss(1-3) by (auto simp: fill_through_def scan_loop_def stream_at_def)
    with assms(1) show ?thesis by simp
  next
    case None
    obtain r2 ss' buffer' sink' where sw:
      "scan_while u f target ?s ss (bc_buffer bc) (bc_trivia bc) = (r2, ss', buffer', sink')"
      by (metis prod_cases4)
    with assms(2) ss(1,3) None have r: "r2 = r"
      "bc' = bc\<lparr>bc_source := StreamSource ss', bc_buffer := buffer', bc_trivia := sink'\<rparr>"
      by (auto simp: fill_through_def scan_loop_def)
    from scan_while_refines[OF sw ss(2) None ss(4,5)] r assms(3) ss(3,4,6) show ?thesis
      by (auto simp: stream_refines_def stream_at_def split: sum.splits)
  qed
qed

lemma bc_peek_nth_refines:
  assumes "stream_refines u f ts out bc" "bc_peek_nth u n bc = (r, bc')"
  shows "r = ideal_peek ts out (bc_pos bc + n) \<and> stream_refines u f ts out bc'
    \<and> bc_pos bc' = bc_pos bc \<and> bc_buffer_start bc' = bc_buffer_start bc"
proof -
  let ?t = "bc_pos bc + n"
  obtain ss where ss: "bc_source bc = StreamSource ss" and le: "bc_buffer_start bc \<le> ?t"
    and k: "bc_buffer_start bc + length (bc_buffer bc) \<le> length ts"
    using assms(1) by (auto simp: stream_refines_def stream_at_def)
  show ?thesis
  proof (cases "?t < bc_buffer_start bc + length (bc_buffer bc)")
    case True
    with assms refined_token[OF assms(1) le] ss k show ?thesis
      by (auto simp: bc_peek_nth_def Let_def ideal_peek_def)
  next
    case False
    obtain r2 bc2 where ft: "fill_through u ?t bc = (r2, bc2)" by fastforce
    from fill_through_refines[OF assms(1) ft] False have
      bc2: "stream_refines u f ts out bc2" "bc_pos bc2 = bc_pos bc" "bc_buffer_start bc2 = bc_buffer_start bc"
      and r2: "case r2 of
        Inr _ \<Rightarrow> ?t < bc_buffer_start bc + length (bc_buffer bc2) \<or> (out = None \<and> length ts \<le> ?t)
      | Inl e \<Rightarrow> out = Some e \<and> length ts \<le> ?t" by auto
    have k2: "bc_buffer_start bc2 + length (bc_buffer bc2) \<le> length ts"
      using bc2(1) by (auto simp: stream_refines_def stream_at_def)
    have miss: "buffered_token bc ?t = None" using refined_token[OF assms(1) le] False by simp
    have "r = (case r2 of Inl e \<Rightarrow> Inl e | Inr _ \<Rightarrow> Inr (buffered_token bc2 ?t))" "bc' = bc2"
      using assms(2) by (auto simp: bc_peek_nth_def Let_def ss miss ft split: sum.splits)
    with bc2 r2 k2 le refined_token[OF bc2(1), of ?t] show ?thesis
      by (auto simp: ideal_peek_def split: sum.splits)
  qed
qed

lemma bc_advance_refines:
  assumes "stream_refines u f ts out bc" "bc_advance u bc = (r, bc')"
  shows "r = ideal_peek ts out (bc_pos bc) \<and> stream_refines u f ts out bc'
    \<and> bc_pos bc' = (if bc_pos bc < length ts then bc_pos bc + 1 else bc_pos bc)
    \<and> bc_buffer_start bc' = bc_buffer_start bc"
proof -
  obtain r2 bc2 where p: "bc_peek_nth u 0 bc = (r2, bc2)" by fastforce
  from bc_peek_nth_refines[OF assms(1) p] assms(2) p show ?thesis
    by (auto simp: bc_advance_def bc_peek_def ideal_peek_def stream_refines_def
        split: if_splits option.splits sum.splits)
qed

lemma bc_seek_refines:
  "stream_refines u f ts out bc \<Longrightarrow> bc_buffer_start bc \<le> p \<Longrightarrow> stream_refines u f ts out (bc_seek p bc)"
  by (simp add: stream_refines_def bc_seek_def)

lemma discard_consumed_refines:
  assumes "stream_refines u f ts out bc"
  shows "stream_refines u f ts out (discard_consumed bc) \<and> bc_pos (discard_consumed bc) = bc_pos bc"
proof -
  let ?s = "bc_buffer_start bc" and ?b = "bc_buffer bc"
  from assms obtain ss where ss: "bc_source bc = StreamSource ss"
      "stream_at u f ts out (?s + length ?b) ss" and b: "?b = subslice ts ?s (?s + length ?b)"
      and p: "?s \<le> bc_pos bc"
    by (auto simp: stream_refines_def)
  define n where "n = min (bc_pos bc - ?s) (length ?b)"
  have n: "n \<le> length ?b" "?s + n \<le> bc_pos bc" using p by (simp_all add: n_def)
  have "drop n (subslice ts ?s (?s + length ?b)) = subslice ts (?s + n) (?s + length ?b)"
    by (simp add: subslice_def drop_take add.commute)
  with b have d: "drop n ?b = subslice ts (?s + n) (?s + length ?b)" by simp
  have k: "?s + n + (length ?b - n) = ?s + length ?b" using n(1) by simp
  have "stream_refines u f ts out (bc\<lparr>bc_buffer := drop n ?b, bc_buffer_start := ?s + n\<rparr>)"
    unfolding stream_refines_def
  proof (intro conjI exI[of _ ss])
    show "out \<noteq> Some Panic" using assms by (simp add: stream_refines_def)
  qed (use assms ss n(2) in \<open>simp_all add: k d[symmetric], auto simp: stream_refines_def\<close>)
  with assms ss(1) show ?thesis by (simp add: discard_consumed_def Let_def flip: n_def)
qed

lemma streaming_refines:
  assumes "streaming_inner src f sink = Inr bc" "lexes u f LEX_STATE_DEFAULT (cursor_new src) ts out"
    "out \<noteq> Some Panic"
  shows "stream_refines u f ts out bc"
  using assms by (auto simp: streaming_inner_def stream_refines_def stream_at_def split: if_splits)
subsection \<open>The interface the parser relies on\<close>

text \<open>
  A token source answers by absolute position: looking ahead does not move it, a step moves
  past the token it returns, and it may jump anywhere at or after \<open>base\<close>. \<open>answer\<close> is what it
  holds; \<open>valid\<close> is the invariant of its states.
\<close>

type_synonym token_answer = "lex_failure + token option"

fun take_steps :: "('s \<Rightarrow> token_answer \<times> 's) \<Rightarrow> nat \<Rightarrow> 's \<Rightarrow> token_answer list \<times> 's" where
  "take_steps step 0 s = ([], s)"
| "take_steps step (Suc n) s =
     (let (a, s1) = step s; (as, s2) = take_steps step n s1 in (a # as, s2))"

definition next_pos :: "(nat \<Rightarrow> token_answer) \<Rightarrow> nat \<Rightarrow> nat" where
  "next_pos answer p = (case answer p of Inr (Some t) \<Rightarrow> p + 1 | _ \<Rightarrow> p)"

fun answers_from :: "(nat \<Rightarrow> token_answer) \<Rightarrow> nat \<Rightarrow> nat \<Rightarrow> token_answer list" where
  "answers_from answer 0 p = []"
| "answers_from answer (Suc n) p = answer p # answers_from answer n (next_pos answer p)"

locale token_source =
  fixes look :: "nat \<Rightarrow> 's \<Rightarrow> token_answer \<times> 's"
    and step :: "'s \<Rightarrow> token_answer \<times> 's"
    and jump :: "nat \<Rightarrow> 's \<Rightarrow> 's"
    and posn :: "'s \<Rightarrow> nat" and base :: "'s \<Rightarrow> nat"
    and valid :: "'s \<Rightarrow> bool"
    and answer :: "nat \<Rightarrow> token_answer"
  assumes look_ok: "valid s \<Longrightarrow> fst (look n s) = answer (posn s + n) \<and> valid (snd (look n s))
      \<and> posn (snd (look n s)) = posn s \<and> base (snd (look n s)) = base s"
    and step_ok: "valid s \<Longrightarrow> fst (step s) = answer (posn s) \<and> valid (snd (step s))
      \<and> posn (snd (step s)) = next_pos answer (posn s) \<and> base (snd (step s)) = base s"
    and jump_ok: "valid s \<Longrightarrow> base s \<le> p \<Longrightarrow> valid (jump p s) \<and> posn (jump p s) = p \<and> base (jump p s) = base s"
    and base_le: "valid s \<Longrightarrow> base s \<le> posn s"

context token_source
begin

lemma take_steps_ok:
  "valid s \<Longrightarrow> fst (take_steps step n s) = answers_from answer n (posn s)
     \<and> valid (snd (take_steps step n s)) \<and> base (snd (take_steps step n s)) = base s"
proof (induction n arbitrary: s)
  case (Suc n)
  obtain a s1 where p: "step s = (a, s1)" by fastforce
  with step_ok[OF Suc(2)] Suc(1)[of s1] show ?case by (auto simp: case_prod_beta)
qed simp

text \<open>Speculation: any number of steps, then back, and the answers are those of never having left.\<close>

lemma rewind:
  assumes "valid s"
  shows "fst (take_steps step n (jump (posn s) (snd (take_steps step m s)))) = fst (take_steps step n s)"
    and "fst (look n (jump (posn s) (snd (take_steps step m s)))) = fst (look n s)"
proof -
  let ?s = "jump (posn s) (snd (take_steps step m s))"
  have "valid ?s" "posn ?s = posn s"
    using jump_ok[of "snd (take_steps step m s)" "posn s"] take_steps_ok[OF assms, of m] base_le[OF assms]
    by simp_all
  then show "fst (take_steps step n ?s) = fst (take_steps step n s)" "fst (look n ?s) = fst (look n s)"
    using take_steps_ok look_ok assms by simp_all
qed

text \<open>Looking ahead \<open>n\<close> sees what the step after \<open>n\<close> successful steps returns.\<close>

lemma look_steps:
  assumes "valid s" "\<forall>i<n. \<exists>t. answer (posn s + i) = Inr (Some t)"
  shows "fst (look n s) = last (fst (take_steps step (Suc n) s))"
proof -
  have "answers_from answer (Suc m) p \<noteq> [] \<and> last (answers_from answer (Suc m) p) = answer (p + m)"
    if "\<forall>i<m. \<exists>t. answer (p + i) = Inr (Some t)" for m p
    using that
  proof (induction m arbitrary: p)
    case (Suc m)
    from Suc(2) obtain t where "answer p = Inr (Some t)" by auto
    then have "next_pos answer p = Suc p" by (simp add: next_pos_def)
    moreover have "\<forall>i<m. \<exists>t. answer (Suc p + i) = Inr (Some t)" using Suc(2) by auto
    ultimately show ?case using Suc(1)[of "Suc p"] by simp
  qed simp
  with assms take_steps_ok[OF assms(1), of "Suc n"] look_ok[OF assms(1), of n] show ?thesis by simp
qed

end

interpretation slice: token_source
  "\<lambda>n c. (Inr (tc_peek_nth n c), c)" "\<lambda>c. map_prod Inr id (tc_advance c)" tc_seek tc_pos "\<lambda>_. 0"
  "\<lambda>c. tc_tokens c = ts" "ideal_peek ts None" for ts
  by unfold_locales
    (auto simp: tc_peek_nth_def tc_peek_def tc_advance_def tc_seek_def ideal_peek_def next_pos_def get_at_def)

interpretation stream: token_source
  "bc_peek_nth u" "bc_advance u" bc_seek bc_pos bc_buffer_start
  "stream_refines u f ts out" "ideal_peek ts out" for u f ts out
proof (unfold_locales, goal_cases)
  case (1 s n)
  then show ?case using bc_peek_nth_refines[of u f ts out s n] by (metis prod.collapse)
next
  case (2 s)
  then show ?case using bc_advance_refines[of u f ts out s] 
    by (cases "bc_advance u s") (auto simp: next_pos_def ideal_peek_def split: option.splits)
next
  case (3 s p)
  then show ?case using bc_seek_refines[of u f ts out s p] by (simp add: bc_seek_def)
next
  case (4 s)
  then show ?case by (simp add: stream_refines_def)
qed

subsection \<open>Every state the parser can reach\<close>

text \<open>What the parser does with a streaming cursor; a seek stays in the retained buffer.\<close>

inductive stream_reach :: "unicode_tables \<Rightarrow> buffered_cursor \<Rightarrow> buffered_cursor \<Rightarrow> bool"
  for u bc0 where
  reach_start: "stream_reach u bc0 bc0"
| reach_peek: "stream_reach u bc0 bc \<Longrightarrow> stream_reach u bc0 (snd (bc_peek_nth u n bc))"
| reach_advance: "stream_reach u bc0 bc \<Longrightarrow> stream_reach u bc0 (snd (bc_advance u bc))"
| reach_seek: "stream_reach u bc0 bc \<Longrightarrow> bc_buffer_start bc \<le> p \<Longrightarrow> stream_reach u bc0 (bc_seek p bc)"
| reach_discard: "stream_reach u bc0 bc \<Longrightarrow> stream_reach u bc0 (discard_consumed bc)"

lemma stream_reach_refines:
  "stream_reach u bc0 bc \<Longrightarrow> stream_refines u f ts out bc0 \<Longrightarrow> stream_refines u f ts out bc"
proof (induction rule: stream_reach.induct)
  case (reach_peek bc n)
  then show ?case using stream.look_ok by blast
next
  case (reach_advance bc)
  then show ?case using stream.step_ok by blast
next
  case (reach_seek bc p)
  then show ?case using stream.jump_ok by blast
next
  case (reach_discard bc)
  then show ?case using discard_consumed_refines by blast
qed

lemma tokenize_with_lexes:
  assumes "tokenize_with u f src = Some r" "length src \<le> u32_max"
  shows "\<exists>ts out. lexes u f LEX_STATE_DEFAULT (cursor_new src) ts out
    \<and> (case r of Inr toks \<Rightarrow> ts = toks \<and> out = None | Inl e \<Rightarrow> out = Some e)"
proof -
  from assms obtain r0 where s: "scan_tokens u f NoTrivia LEX_STATE_DEFAULT (cursor_new src) [] = Some r0"
      "r = map_sum id fst r0"
    by (auto simp: tokenize_with_def split: if_splits)
  from scan_tokens_lexes[OF s(1)] s(2) show ?thesis by (cases r0) auto
qed

lemma streaming_production:
  assumes "streaming src f = Inr bc0" "tokenize_with u f src = Some r" "r \<noteq> Inl Panic"
  shows "\<exists>ts out. (case r of Inr toks \<Rightarrow> ts = toks \<and> out = None | Inl e \<Rightarrow> out = Some e)
    \<and> (\<forall>bc. stream_reach u bc0 bc \<longrightarrow> stream_refines u f ts out bc)"
proof -
  have "length src \<le> u32_max" using assms(1) by (auto simp: streaming_def streaming_inner_def split: if_splits)
  from tokenize_with_lexes[OF assms(2) this] obtain ts out where
    lx: "lexes u f LEX_STATE_DEFAULT (cursor_new src) ts out"
    and out: "case r of Inr toks \<Rightarrow> ts = toks \<and> out = None | Inl e \<Rightarrow> out = Some e" by blast
  have "out \<noteq> Some Panic" using out assms(3) by (cases r) auto
  from stream_reach_refines[OF _ streaming_refines[OF assms(1)[unfolded streaming_def] lx this]] out
  show ?thesis by blast
qed

text \<open>
  C4. The streaming cursor refines the eager tokenizer: whatever lookahead, steps, rewinds and
  discards came before, a peek at any distance and a step answer with the eager token at that
  position; past the last token they answer with the end, or with the one lexical error, which
  stays the answer ever after.
\<close>

theorem streaming_refines_eager:
  assumes "streaming src f = Inr bc0" "tokenize_with u f src = Some r" "r \<noteq> Inl Panic"
  shows "\<exists>ts out. (case r of Inr toks \<Rightarrow> ts = toks \<and> out = None | Inl e \<Rightarrow> out = Some e)
    \<and> (\<forall>bc n. stream_reach u bc0 bc \<longrightarrow>
         fst (bc_peek_nth u n bc) = ideal_peek ts out (bc_pos bc + n)
       \<and> fst (bc_advance u bc) = ideal_peek ts out (bc_pos bc))"
proof -
  from streaming_production[OF assms] obtain ts out where
    "case r of Inr toks \<Rightarrow> ts = toks \<and> out = None | Inl e \<Rightarrow> out = Some e"
    and "\<And>bc. stream_reach u bc0 bc \<Longrightarrow> stream_refines u f ts out bc" by blast
  then show ?thesis using stream.look_ok stream.step_ok by (intro exI[of _ ts] exI[of _ out]) blast
qed

text \<open>
  C5. Speculation is invisible: from any reachable state, \<open>m\<close> steps followed by a seek back
  leave a cursor that answers every later step and peek as if the steps had not been taken.
\<close>

theorem speculation_invisible:
  assumes "streaming src f = Inr bc0" "tokenize_with u f src = Some r" "r \<noteq> Inl Panic"
    and "stream_reach u bc0 bc"
  shows "fst (take_steps (bc_advance u) n (bc_seek (bc_pos bc) (snd (take_steps (bc_advance u) m bc))))
      = fst (take_steps (bc_advance u) n bc)
    \<and> fst (bc_peek_nth u n (bc_seek (bc_pos bc) (snd (take_steps (bc_advance u) m bc))))
      = fst (bc_peek_nth u n bc)"
  using streaming_production[OF assms(1-3)] assms(4) stream.rewind by blast

end
