(* ===== verification/Scanner_Samples.thy ===== *)
theory Scanner_Samples
  imports Token_Cursors Preset_Checks
begin

text \<open>
  The scanner's theorems applied at concrete sources under shipped presets: the evaluation of
  a small source by the model, and the instances of the properties of the scanner, the eager
  tokenizers and the token cursors.
\<close>

subsection \<open>Evaluating the scanner\<close>

definition ascii_tables :: unicode_tables where
  "ascii_tables = \<lparr>uc_alphabetic = (\<lambda>_. False), uc_alphanumeric = (\<lambda>_. False)\<rparr>"

lemma ansi_groups:
  "byte_classes FeatureSet_ANSI = STANDARD_BYTE_CLASSES"
  "string_literals FeatureSet_ANSI = StringLiteralSyntax_ANSI"
  "numeric_literals FeatureSet_ANSI = NumericLiteralSyntax_ANSI"
  "parameters FeatureSet_ANSI = ParameterSyntax_ANSI"
  "session_variables FeatureSet_ANSI = SessionVariableSyntax_ANSI"
  "identifier_syntax FeatureSet_ANSI = IdentifierSyntax_ANSI"
  "identifier_quotes FeatureSet_ANSI = STANDARD_IDENTIFIER_QUOTES"
  "comment_syntax FeatureSet_ANSI = CommentSyntax_ANSI"
  "operator_syntax FeatureSet_ANSI = OperatorSyntax_ANSI"
  "expression_syntax FeatureSet_ANSI = ExpressionSyntax_ANSI"
  "utility_syntax FeatureSet_ANSI = UtilitySyntax_ANSI"
  "hash_bitwise_xor FeatureSet_ANSI = False"
  by (simp_all add: FeatureSet_ANSI_def)

lemmas ansi_eval = ansi_groups StringLiteralSyntax_ANSI_def NumericLiteralSyntax_ANSI_def
  ParameterSyntax_ANSI_def SessionVariableSyntax_ANSI_def IdentifierSyntax_ANSI_def
  STANDARD_IDENTIFIER_QUOTES_def CommentSyntax_ANSI_def OperatorSyntax_ANSI_def
  ExpressionSyntax_ANSI_def UtilitySyntax_ANSI_def

lemma standard_whitespace_run:
  "has_class STANDARD_BYTE_CLASSES b (CLASS_WHITESPACE OR CLASS_WHITESPACE_CONTINUE) \<longleftrightarrow> is_ascii_whitespace b"
  by (simp add: has_class_or has_class_standard)

lemmas cursor_eval = cursor_new_def peek_def peek_nth_def get_at_def bump_def eat_while_takeWhile
  token_from_def span_new_def subslice_def Let_def

lemmas arm_eval = dispatch_lexeme_def quote_arms_def dollar_arms_def placeholder_arms_def
  at_arms_def plain_arms_def opening_identifier_quote_def scan_punctuation_def nul_gate_def
  nul_byte_error_def

lemmas byte_class_eval = has_byte_class_def has_class_standard standard_whitespace_run is_digit_def
  ascii_defs byte_kind_defs

lemmas step_eval = next_token_def skip_trivia_def trivia_run_def pending_after_def recording_def
  LEX_STATE_DEFAULT_def cursor_eval ansi_eval byte_class_eval arm_eval

lemma sample_step:
  "next_token ascii_tables FeatureSet_ANSI (Some rs) LEX_STATE_DEFAULT (cursor_new '' ,'')
     = Inr (Some (Token (Tk_Punctuation P_Comma) (Span 1 2)), \<lparr>cur_src = '' ,'', cur_pos = 2\<rparr>,
         Some (rs @ [TriviaRange Whitespace (Span 0 1)]), LEX_STATE_DEFAULT)"
  apply (simp add: step_eval)
  apply (subst skip_trivia_loop.simps, simp add: step_eval)
  apply (subst skip_trivia_loop.simps, simp add: step_eval)
  done

lemma sample_end:
  "next_token ascii_tables FeatureSet_ANSI (Some rs) LEX_STATE_DEFAULT \<lparr>cur_src = '' ,'', cur_pos = 2\<rparr>
     = Inr (None, \<lparr>cur_src = '' ,'', cur_pos = 2\<rparr>, Some rs, LEX_STATE_DEFAULT)"
  by (simp add: step_eval, subst skip_trivia_loop.simps, simp add: step_eval)

lemma sample_scan:
  "tokenize_with_trivia ascii_tables FeatureSet_ANSI '' ,''
     = Some (Inr ([Token (Tk_Punctuation P_Comma) (Span 1 2)],
         trivia_index_new [TriviaRange Whitespace (Span 0 1)]))"
  by (simp add: tokenize_with_trivia_def u32_max_def, subst scan_tokens.simps, simp add: sample_step,
      subst scan_tokens.simps, simp add: sample_end)
lemma ansi_sane: "classes_sane FeatureSet_ANSI"
  using preset_ok_ansi by (simp add: preset_ok_def)

lemma sample_eager:
  "tokenize_with ascii_tables FeatureSet_ANSI '' ,''
     = Some (Inr [Token (Tk_Punctuation P_Comma) (Span 1 2)])"
proof -
  have "map_option (map_sum id fst) (scan_tokens ascii_tables FeatureSet_ANSI (Some []) LEX_STATE_DEFAULT
      (cursor_new '' ,'') []) = Some (Inr [Token (Tk_Punctuation P_Comma) (Span 1 2)])"
    by (subst scan_tokens.simps, simp add: sample_step, subst scan_tokens.simps, simp add: sample_end)
  then show ?thesis
    using scan_tokens_sink[OF ansi_sane, of "cursor_new '' ,''" LEX_STATE_DEFAULT ascii_tables "Some []" "[]"]
    by (simp add: tokenize_with_def u32_max_def NoTrivia_def)
qed

subsection \<open>The eager tokenizers\<close>

theorem tokenize_total_witness:
  "list_all (token_ok '' ,'') [Token (Tk_Punctuation P_Comma) (Span 1 2)]"
  using tokenize_total[OF ansi_sane, of "'' ,''" ascii_tables] sample_eager by simp

theorem tokenize_lossless_witness:
  "\<exists>ps. piece_tokens ps = [Token (Tk_Punctuation P_Comma) (Span 1 2)]
     \<and> piece_runs ps = [TriviaRange Whitespace (Span 0 1)]
     \<and> concat (map (\<lambda>p. subslice '' ,'' (fst (piece_bounds p)) (snd (piece_bounds p))) ps) = '' ,''"
  using tokenize_lossless[OF ansi_sane _ sample_scan] by (auto simp: trivia_all_def trivia_index_new_def)

theorem trivia_capture_invisible_witness:
  "tokenize_with ascii_tables FeatureSet_ANSI '' ,''
     = Some (Inr [Token (Tk_Punctuation P_Comma) (Span 1 2)])"
  using trivia_capture_invisible[OF ansi_sane, of "'' ,''" ascii_tables] sample_scan by simp

theorem tokenize_index_queries_witness:
  "in_span (trivia_index_new [TriviaRange Whitespace (Span 0 1)]) (Span 0 2)
     = [TriviaRange Whitespace (Span 0 1)]"
  using tokenize_index_queries[OF ansi_sane _ sample_scan, of "Span 0 2"]
  by (simp add: trivia_index_new_def is_synthetic_def u32_max_def)

subsection \<open>The token cursors\<close>

definition sample_stream :: buffered_cursor where
  "sample_stream = \<lparr>bc_source = StreamSource \<lparr>ss_cursor = cursor_new '' ,'', ss_reached_eof = False,
       ss_lex_error = None, ss_lex = LEX_STATE_DEFAULT\<rparr>,
     bc_features = Some FeatureSet_ANSI, bc_buffer = [], bc_buffer_start = 0, bc_pos = 0, bc_trivia = None\<rparr>"

lemma sample_streaming: "streaming '' ,'' FeatureSet_ANSI = Inr sample_stream"
  by (simp add: streaming_def streaming_inner_def sample_stream_def u32_max_def)

theorem streaming_refines_eager_witness:
  "fst (bc_peek_nth ascii_tables 0 sample_stream) = Inr (Some (Token (Tk_Punctuation P_Comma) (Span 1 2)))
   \<and> fst (bc_peek_nth ascii_tables 1 sample_stream) = Inr None"
  using streaming_refines_eager[OF sample_streaming sample_eager] reach_start[of ascii_tables sample_stream]
  by (auto simp: ideal_peek_def sample_stream_def)

theorem speculation_invisible_witness:
  "fst (take_steps (bc_advance ascii_tables) 2
       (bc_seek 0 (snd (take_steps (bc_advance ascii_tables) 2 sample_stream))))
     = fst (take_steps (bc_advance ascii_tables) 2 sample_stream)"
  using speculation_invisible[OF sample_streaming sample_eager _ reach_start, of 2 2]
  by (simp add: sample_stream_def)

subsection \<open>Quotes and operators\<close>

lemma sample_tag_start: "\<not> is_dollar_tag_start FeatureSet_POSTGRES (CHR ''$'')"
proof -
  have "byte_classes FeatureSet_POSTGRES = POSTGRES_BYTE_CLASSES" by (simp add: FeatureSet_POSTGRES_def)
  then have "\<not> has_byte_class FeatureSet_POSTGRES (CHR ''$'') CLASS_IDENTIFIER_START"
    using sigils_not_identifier_start(2)[of "CHR ''$''"] by (simp add: has_byte_class_def)
  then show ?thesis by (simp add: is_dollar_tag_start_def)
qed

lemma sample_dollar:
  "scan_dollar_quote FeatureSet_POSTGRES (cursor_new ''$$$x$$'')
     = Inr (Token Tk_String (Span 0 6), \<lparr>cur_src = ''$$$x$$'', cur_pos = 6\<rparr>)"
  by (simp add: scan_dollar_quote_def cursor_eval sample_tag_start advance_bytes_def,
      subst dollar_body_loop.simps, simp add: cursor_eval rest_def advance_bytes_def first_index.simps,
      subst dollar_body_loop.simps, simp add: cursor_eval rest_def advance_bytes_def first_index.simps)

theorem dollar_quote_first_close_witness:
  "\<exists>n k. k + n = 6 \<and> delim_at (subslice ''$$$x$$'' 0 n) ''$$$x$$'' k"
proof -
  have "peek (cursor_new ''$$$x$$'') = Some (CHR ''$'')" by (simp add: cursor_eval)
  from dollar_quote_first_close[OF this sample_dollar] show ?thesis
    by (auto simp: Let_def cursor_new_def)
qed

lemma sample_lead: "operator_lead_ok FeatureSet_ANSI (cursor_new ''<='')"
  by (simp add: operator_lead_ok_def cursor_eval byte_kind_defs)

theorem fixed_operator_maximal_munch_witness:
  "\<exists>op w. fixed_operator FeatureSet_ANSI (cursor_new ''<='') = Some (op, w) \<and> 2 \<le> w"
proof -
  from fixed_operator_maximal_munch[OF sample_lead] obtain op w where
    "fixed_operator FeatureSet_ANSI (cursor_new ''<='') = Some (op, w)"
    and munch: "\<And>op' t. t \<in> set (operator_text op') \<Longrightarrow> operator_gate FeatureSet_ANSI op'
      \<Longrightarrow> take (length t) (rest (cursor_new ''<='')) = t \<Longrightarrow> length t \<le> w" by blast
  moreover have "length ''<='' \<le> w"
    by (rule munch[of _ Opr_LtEq]) (simp_all add: rest_def)
  ultimately show ?thesis by auto
qed

lemma sample_custom:
  "custom_operator_run_len FeatureSet_POSTGRES (cursor_new ''=>'') = 2"
  "operator_lead_ok FeatureSet_POSTGRES (cursor_new ''=>'')"
  "os_custom_operators (operator_syntax FeatureSet_POSTGRES)"
  "fixed_operator FeatureSet_POSTGRES (cursor_new ''=>'') = Some (Opr_Arrow, 2)"
proof -
  have g: "operator_syntax FeatureSet_POSTGRES = OperatorSyntax_POSTGRES"
    "call_syntax FeatureSet_POSTGRES = CallSyntax_POSTGRES" by (simp_all add: FeatureSet_POSTGRES_def)
  have r: "operator_run FeatureSet_POSTGRES (cursor_new ''=>'') 1 = 2"
    by (subst operator_run.simps, simp add: cursor_eval is_operator_char_def,
        subst operator_run.simps, simp add: cursor_eval)
  show "custom_operator_run_len FeatureSet_POSTGRES (cursor_new ''=>'') = 2"
    unfolding custom_operator_run_len_def Let_def r by (simp add: cursor_eval numeral_2_eq_2 byte_ahead_def)
  show "operator_lead_ok FeatureSet_POSTGRES (cursor_new ''=>'')"
    by (simp add: operator_lead_ok_def cursor_eval byte_kind_defs)
  show "os_custom_operators (operator_syntax FeatureSet_POSTGRES)"
    by (simp add: g OperatorSyntax_POSTGRES_def)
  show "fixed_operator FeatureSet_POSTGRES (cursor_new ''=>'') = Some (Opr_Arrow, 2)"
    by (simp add: fixed_operator_def cursor_eval g OperatorSyntax_POSTGRES_def CallSyntax_POSTGRES_def)
qed

theorem custom_agrees_with_fixed_witness:
  "scan_operator FeatureSet_POSTGRES (cursor_new ''=>'')
     = Inr (Token (Tk_Operator Opr_Arrow) (Span 0 2), \<lparr>cur_src = ''=>'', cur_pos = 2\<rparr>)"
proof -
  let ?off = "FeatureSet_POSTGRES\<lparr>operator_syntax :=
    (operator_syntax FeatureSet_POSTGRES)\<lparr>os_custom_operators := False\<rparr>\<rparr>"
  have "scan_operator FeatureSet_POSTGRES (cursor_new ''=>'') = scan_operator ?off (cursor_new ''=>'')"
    by (rule custom_agrees_with_fixed[OF _ sample_custom(2,3,4)])
      (simp_all add: sample_custom(1) rest_def)
  moreover have "fixed_operator ?off (cursor_new ''=>'') = Some (Opr_Arrow, 2)"
    by (simp add: fixed_operator_def cursor_eval FeatureSet_POSTGRES_def CallSyntax_POSTGRES_def)
  ultimately show ?thesis by (simp add: scan_operator_def cursor_eval advance_bytes_def)
qed

end
