(* ===== verification/Interner.thy ===== *)
theory Interner
  imports Keyword_Lookup Dialect_Features Source_Vocab Preset_Ansi
begin

text \<open>
  The string interner (\<open>crates/squonk/src/interner/mod.rs\<close>): the mutable \<open>Interner\<close> with its
  dedup map and its string store, the \<open>FrozenResolver\<close> it freezes into, and the opt-in
  \<open>FoldedSymbols\<close> side table. A panic (\<open>expect\<close>) is the value \<open>None\<close>. A \<open>HashMap\<close> is a map on
  text: the hasher of \<open>fast_hash.rs\<close> only picks buckets.
\<close>

subsection \<open>Keyword slots\<close>

definition KEYWORD_ALL :: "keyword list" where
  "KEYWORD_ALL = map Keyword [0..<894]"

definition keyword_symbol :: "keyword \<Rightarrow> symbol" where
  "keyword_symbol k = Symbol (discriminant k + 1)"

lemma keyword_all_nth [simp]: "i < 894 \<Longrightarrow> KEYWORD_ALL ! i = Keyword i"
  by (simp add: KEYWORD_ALL_def)

lemma keyword_symbol_inject [simp]: "keyword_symbol a = keyword_symbol b \<longleftrightarrow> a = b"
  by (cases a; cases b) (simp add: keyword_symbol_def)

lemma lookup_keyword_as_str:
  "lookup_keyword word = Some k \<longleftrightarrow> keyword_ok k \<and> keyword_as_str k = map to_ascii_lowercase word"
  unfolding lookup_keyword_spelled by (rule spelled_as_str)

subsection \<open>The interner\<close>

record interner =
  in_map :: "source \<rightharpoonup> symbol"
  in_strings :: "source list"

definition interner_new :: interner where
  "interner_new = \<lparr>in_map = Map.empty, in_strings = []\<rparr>"

definition intern_dynamic :: "source \<Rightarrow> interner \<Rightarrow> (symbol \<times> interner) option" where
  "intern_dynamic s it = (case in_map it s of
      Some existing \<Rightarrow> Some (existing, it)
    | None \<Rightarrow>
        (let dynamic_key = length (in_strings it) + 1;
             key = KEYWORD_COUNT + dynamic_key in
         if u32_max < dynamic_key \<or> u32_max < key then None
         else (case symbol_new key of
             None \<Rightarrow> None
           | Some symb \<Rightarrow> Some (symb, it\<lparr>in_strings := in_strings it @ [s], in_map := (in_map it)(s \<mapsto> symb)\<rparr>))))"

definition intern :: "source \<Rightarrow> interner \<Rightarrow> (symbol \<times> interner) option" where
  "intern s it = (case lookup_keyword s of
      Some k \<Rightarrow> if keyword_as_str k = s then Some (keyword_symbol k, it) else intern_dynamic s it
    | None \<Rightarrow> intern_dynamic s it)"

definition intern_nonkeyword :: "source \<Rightarrow> interner \<Rightarrow> (symbol \<times> interner) option" where
  "intern_nonkeyword s it = intern_dynamic s it"

definition intern_keyword_ident :: "keyword \<Rightarrow> source \<Rightarrow> interner \<Rightarrow> (symbol \<times> interner) option" where
  "intern_keyword_ident kw s it =
     (if s = keyword_as_str kw then Some (keyword_symbol kw, it) else intern_dynamic s it)"

definition resolve_symbol :: "source list \<Rightarrow> symbol \<Rightarrow> source option" where
  "resolve_symbol strings symb = (let raw = symbol_as_u32 symb in
     if raw \<le> KEYWORD_COUNT then Some (keyword_as_str (KEYWORD_ALL ! (raw - 1)))
     else get_at strings (raw - KEYWORD_COUNT - 1))"

definition live_try_resolve :: "interner \<Rightarrow> symbol \<Rightarrow> source option" where
  "live_try_resolve it symb = resolve_symbol (in_strings it) symb"

record frozen_resolver =
  fr_strings :: "source list"

definition freeze :: "interner \<Rightarrow> frozen_resolver" where
  "freeze it = \<lparr>fr_strings = in_strings it\<rparr>"

definition frozen_try_resolve :: "frozen_resolver \<Rightarrow> symbol \<Rightarrow> source option" where
  "frozen_try_resolve r symb = resolve_symbol (fr_strings r) symb"

definition dynamic_strings :: "frozen_resolver \<Rightarrow> source list" where
  "dynamic_strings r = fr_strings r"

subsection \<open>Scripts of interning calls\<close>

text \<open>
  The three entry points with the text they are given; \<open>call_ok\<close> is the proof obligation the
  code states for each.
\<close>

definition canonical_keyword :: "source \<Rightarrow> bool" where
  "canonical_keyword s = (case lookup_keyword s of Some k \<Rightarrow> keyword_as_str k = s | None \<Rightarrow> False)"

datatype intern_call = Intern source | InternNonkeyword source | InternKeywordIdent keyword source

fun call_text :: "intern_call \<Rightarrow> source" where
  "call_text (Intern s) = s"
| "call_text (InternNonkeyword s) = s"
| "call_text (InternKeywordIdent k s) = s"

fun call_ok :: "intern_call \<Rightarrow> bool" where
  "call_ok (Intern s) \<longleftrightarrow> True"
| "call_ok (InternNonkeyword s) \<longleftrightarrow> \<not> canonical_keyword s"
| "call_ok (InternKeywordIdent k s) \<longleftrightarrow> lookup_keyword s = Some k"

fun run_call :: "intern_call \<Rightarrow> interner \<Rightarrow> (symbol \<times> interner) option" where
  "run_call (Intern s) it = intern s it"
| "run_call (InternNonkeyword s) it = intern_nonkeyword s it"
| "run_call (InternKeywordIdent k s) it = intern_keyword_ident k s it"

fun run_calls :: "intern_call list \<Rightarrow> interner \<Rightarrow> (symbol list \<times> interner) option" where
  "run_calls [] it = Some ([], it)"
| "run_calls (c # cs) it = (case run_call c it of
      None \<Rightarrow> None
    | Some (symb, it') \<Rightarrow> map_option (\<lambda>(syms, it''). (symb # syms, it'')) (run_calls cs it'))"

text \<open>Under its obligation a shortcut is the full \<open>intern\<close>.\<close>

lemma run_call_intern: "call_ok c \<Longrightarrow> run_call c it = intern (call_text c) it"
  by (cases c) (auto simp: intern_def intern_nonkeyword_def intern_keyword_ident_def
      canonical_keyword_def split: option.splits)

subsection \<open>The invariant of the interner\<close>

text \<open>
  The two stores agree, no text is stored twice, no stored text is the canonical spelling of a
  keyword, and the keys fit \<open>u32\<close>.
\<close>

definition slot_symbol :: "nat \<Rightarrow> symbol" where
  "slot_symbol n = Symbol (KEYWORD_COUNT + (n + 1))"

definition stores_ok :: "interner \<Rightarrow> bool" where
  "stores_ok it \<longleftrightarrow>
     (\<forall>s symb. in_map it s = Some symb
        \<longleftrightarrow> (\<exists>n < length (in_strings it). in_strings it ! n = s \<and> symb = slot_symbol n))
     \<and> distinct (in_strings it)
     \<and> (in_strings it = [] \<or> KEYWORD_COUNT + length (in_strings it) \<le> u32_max)"

definition interner_ok :: "interner \<Rightarrow> bool" where
  "interner_ok it \<longleftrightarrow> stores_ok it \<and> list_all (\<lambda>s. \<not> canonical_keyword s) (in_strings it)"

lemma interner_new_ok: "interner_ok interner_new"
  by (simp add: interner_ok_def stores_ok_def interner_new_def)

lemma in_map_iff:
  "stores_ok it \<Longrightarrow> in_map it s = Some symb
    \<longleftrightarrow> (\<exists>n < length (in_strings it). in_strings it ! n = s \<and> symb = slot_symbol n)"
  by (simp add: stores_ok_def)

lemma in_map_None:
  assumes "stores_ok it"
  shows "in_map it s = None \<longleftrightarrow> s \<notin> set (in_strings it)"
proof -
  have "in_map it s = None \<longleftrightarrow> (\<forall>symb. in_map it s \<noteq> Some symb)" by auto
  then show ?thesis by (auto simp: in_map_iff[OF assms] in_set_conv_nth)
qed

lemma slot_symbol_inject [simp]: "slot_symbol a = slot_symbol b \<longleftrightarrow> a = b"
  by (simp add: slot_symbol_def)

lemma resolve_slot [simp]: "resolve_symbol strings (slot_symbol n) = get_at strings n"
  by (simp add: resolve_symbol_def slot_symbol_def)

lemma resolve_keyword [simp]:
  "keyword_ok k \<Longrightarrow> resolve_symbol strings (keyword_symbol k) = Some (keyword_as_str k)"
  by (cases k) (simp add: resolve_symbol_def keyword_symbol_def keyword_ok_def KEYWORD_COUNT_def)

lemma intern_cases:
  "intern s it = (if canonical_keyword s then Some (keyword_symbol (the (lookup_keyword s)), it)
     else intern_dynamic s it)"
  by (auto simp: intern_def canonical_keyword_def split: option.split)
lemma stores_ok_push:
  assumes "stores_ok it" "s \<notin> set (in_strings it)" "KEYWORD_COUNT + (length (in_strings it) + 1) \<le> u32_max"
  shows "stores_ok (it\<lparr>in_strings := in_strings it @ [s],
      in_map := (in_map it)(s \<mapsto> slot_symbol (length (in_strings it)))\<rparr>)"
  using assms by (auto simp: stores_ok_def nth_append less_Suc_eq in_set_conv_nth)

lemma intern_dynamic_preserves:
  assumes "stores_ok it" "intern_dynamic s it = Some (symb, it')"
  shows "stores_ok it' \<and> resolve_symbol (in_strings it') symb = Some s
    \<and> in_strings it' = (if s \<in> set (in_strings it) then in_strings it else in_strings it @ [s])"
proof (cases "in_map it s")
  case None
  then have "s \<notin> set (in_strings it)" using in_map_None[OF assms(1)] by simp
  then show ?thesis
    using None assms(2) stores_ok_push[OF assms(1), of s]
    by (auto simp: intern_dynamic_def symbol_new_def slot_symbol_def Let_def get_at_def
        resolve_symbol_def split: if_splits)
next
  case (Some existing)
  then have "symb = existing" "it' = it" using assms(2) by (simp_all add: intern_dynamic_def)
  then show ?thesis
    using Some assms(1) in_map_iff[OF assms(1), of s existing] by (auto simp: get_at_def)
qed

lemma intern_preserves:
  assumes "interner_ok it" "intern s it = Some (symb, it')"
  shows "interner_ok it' \<and> resolve_symbol (in_strings it') symb = Some s"
proof (cases "canonical_keyword s")
  case True
  then show ?thesis
    using assms by (auto simp: intern_cases canonical_keyword_def lookup_keyword_as_str split: option.splits)
next
  case False
  then show ?thesis
    using intern_dynamic_preserves[of it s symb it'] assms
    by (auto simp: intern_cases interner_ok_def split: if_splits)
qed

subsection \<open>One text, one symbol\<close>

definition interned :: "interner \<Rightarrow> source \<Rightarrow> symbol \<Rightarrow> bool" where
  "interned it s symb \<longleftrightarrow>
     (if canonical_keyword s then symb = keyword_symbol (the (lookup_keyword s)) else in_map it s = Some symb)"

lemma interned_fun: "interned it s a \<Longrightarrow> interned it s b \<Longrightarrow> a = b"
  by (simp add: interned_def split: if_splits)

lemma canonical_keywordD:
  "canonical_keyword s \<Longrightarrow> keyword_ok (the (lookup_keyword s)) \<and> keyword_as_str (the (lookup_keyword s)) = s"
  using lookup_keyword_as_str[of s "the (lookup_keyword s)"]
  by (auto simp: canonical_keyword_def split: option.splits)

lemma interned_resolves: "interner_ok it \<Longrightarrow> interned it s symb \<Longrightarrow> resolve_symbol (in_strings it) symb = Some s"
  using canonical_keywordD[of s] by (auto simp: interned_def interner_ok_def in_map_iff get_at_def split: if_splits)

lemma intern_interned:
  assumes "intern s it = Some (symb, it')"
  shows "interned it' s symb \<and> (\<forall>t y. interned it t y \<longrightarrow> interned it' t y)"
  using assms
  by (auto simp: intern_cases intern_dynamic_def interned_def Let_def split: if_splits option.splits)

lemma run_calls_interned:
  assumes "interner_ok it" "list_all call_ok cs" "run_calls cs it = Some (syms, it')"
  shows "interner_ok it' \<and> list_all2 (interned it') (map call_text cs) syms
    \<and> (\<forall>t y. interned it t y \<longrightarrow> interned it' t y)"
  using assms
proof (induction cs arbitrary: it syms)
  case (Cons c cs)
  then obtain symb it1 syms' where r: "intern (call_text c) it = Some (symb, it1)"
      "run_calls cs it1 = Some (syms', it')" "syms = symb # syms'"
    by (auto simp: run_call_intern split: option.splits)
  from intern_preserves[OF Cons.prems(1) r(1)] have "interner_ok it1" by simp
  with Cons.IH[of it1 syms'] Cons.prems(2) r(2)
  have "interner_ok it'" "list_all2 (interned it') (map call_text cs) syms'"
    "\<forall>t y. interned it1 t y \<longrightarrow> interned it' t y" by simp_all
  with intern_interned[OF r(1)] r(3) show ?case by simp
qed simp

lemma interned_same_text:
  assumes "interner_ok it" "list_all2 (interned it) ts ys" "i < length ts" "j < length ts"
  shows "ys ! i = ys ! j \<longleftrightarrow> ts ! i = ts ! j"
proof -
  have "interned it (ts ! i) (ys ! i)" "interned it (ts ! j) (ys ! j)"
    using assms by (simp_all add: list_all2_conv_all_nth)
  with interned_fun interned_resolves[OF assms(1)] show ?thesis
    by (metis option.inject)
qed

lemma interned_map_resolve:
  "interner_ok it \<Longrightarrow> list_all2 (interned it) ts ys \<Longrightarrow> map (resolve_symbol (in_strings it)) ys = map Some ts"
  by (rule nth_equalityI) (auto simp: list_all2_conv_all_nth interned_resolves)

text \<open>
  C29. Interning is a bijection between texts and symbols that never moves: after any sequence
  of interning calls whose shortcuts respect their obligation, every returned symbol resolves
  to the text it was interned for, in the live interner and in the resolver it freezes into,
  and two calls return one symbol exactly when their texts are equal byte for byte.
\<close>

theorem interning_identity:
  assumes "list_all call_ok cs" "run_calls cs interner_new = Some (syms, it)"
  shows "map (live_try_resolve it) syms = map (Some \<circ> call_text) cs
    \<and> map (frozen_try_resolve (freeze it)) syms = map (Some \<circ> call_text) cs
    \<and> (\<forall>i < length cs. \<forall>j < length cs.
          syms ! i = syms ! j \<longleftrightarrow> call_text (cs ! i) = call_text (cs ! j))"
proof -
  from run_calls_interned[OF interner_new_ok assms]
  have ok: "interner_ok it" and i: "list_all2 (interned it) (map call_text cs) syms" by simp_all
  from interned_map_resolve[OF this] interned_same_text[OF this] show ?thesis
    by (simp add: live_try_resolve_def[abs_def] frozen_try_resolve_def[abs_def] freeze_def)
qed

theorem interning_identity_witness:
  "\<exists>syms it. run_calls [Intern ''users'', Intern ''Users'', Intern ''users''] interner_new = Some (syms, it)
     \<and> syms ! 0 = syms ! 2 \<and> syms ! 0 \<noteq> syms ! 1"
proof -
  let ?cs = "[Intern ''users'', Intern ''Users'', Intern ''users'']"
  have "run_calls ?cs interner_new \<noteq> None"
    by (auto simp: intern_cases intern_dynamic_def Let_def interner_new_def symbol_new_def
        u32_max_def KEYWORD_COUNT_def split: option.splits)
  then obtain syms it where r: "run_calls ?cs interner_new = Some (syms, it)" by fastforce
  from interning_identity[OF _ r]
  have "\<forall>i < length ?cs. \<forall>j < length ?cs. syms ! i = syms ! j \<longleftrightarrow> call_text (?cs ! i) = call_text (?cs ! j)"
    by simp
  from this[rule_format, of 0 2] this[rule_format, of 0 1] have "syms ! 0 = syms ! 2 \<and> syms ! 0 \<noteq> syms ! 1"
    by simp
  with r show ?thesis by blast
qed

subsection \<open>Capacity\<close>

text \<open>The texts of a list at their first use, those already seen left out.\<close>

fun first_uses :: "source list \<Rightarrow> source list \<Rightarrow> source list" where
  "first_uses seen [] = []"
| "first_uses seen (x # xs) = (if x \<in> set seen then first_uses seen xs else x # first_uses (seen @ [x]) xs)"

lemma intern_dynamic_strings:
  assumes "stores_ok it"
  shows "map_option (in_strings \<circ> snd) (intern_dynamic s it) =
    (if s \<in> set (in_strings it) then Some (in_strings it)
     else if u32_max < KEYWORD_COUNT + length (in_strings it) + 1 then None
     else Some (in_strings it @ [s]))"
  using in_map_None[OF assms, of s]
  by (auto simp: intern_dynamic_def Let_def symbol_new_def split: option.splits)

lemma intern_strings:
  "interner_ok it \<Longrightarrow> map_option (in_strings \<circ> snd) (intern s it) =
    (if canonical_keyword s \<or> s \<in> set (in_strings it) then Some (in_strings it)
     else if u32_max < KEYWORD_COUNT + length (in_strings it) + 1 then None
     else Some (in_strings it @ [s]))"
  using intern_dynamic_strings[of it s] by (cases "canonical_keyword s") (simp_all add: interner_ok_def intern_cases del: o_apply, simp)

lemma run_calls_strings:
  assumes "interner_ok it" "list_all call_ok cs"
    "d = first_uses (in_strings it) (filter (\<lambda>s. \<not> canonical_keyword s) (map call_text cs))"
  shows "map_option (in_strings \<circ> snd) (run_calls cs it) =
    (if d \<noteq> [] \<and> u32_max < KEYWORD_COUNT + length (in_strings it @ d) then None else Some (in_strings it @ d))"
  using assms
proof (induction cs arbitrary: it d)
  case (Cons c cs)
  let ?s = "call_text c"
  have run: "run_call c it = intern ?s it" using Cons.prems(2) by (simp add: run_call_intern)
  show ?case
  proof (cases "intern ?s it")
    case None
    then show ?thesis using intern_strings[OF Cons.prems(1), of ?s] Cons.prems(3) run
      by (auto split: if_splits)
  next
    case (Some r)
    then obtain symb it1 where r: "intern ?s it = Some (symb, it1)" by (cases r) auto
    from intern_preserves[OF Cons.prems(1) r] have ok: "interner_ok it1" by simp
    from Cons.IH[OF ok _ refl] Cons.prems(2)
    have "map_option (in_strings \<circ> snd) (run_calls (c # cs) it) = map_option (in_strings \<circ> snd) (run_calls cs it1)"
      by (simp add: run r option.map_comp o_def case_prod_beta)
    with Cons.IH[OF ok _ refl] Cons.prems(2,3) intern_strings[OF Cons.prems(1), of ?s] r ok
    show ?thesis by (auto simp: interner_ok_def stores_ok_def split: if_splits)
  qed
qed simp

text \<open>
  C30. The interner stores each text that is not a canonical keyword spelling once, in the order
  of first use, and panics exactly when the 894 keyword slots and these texts together exceed
  \<open>u32::MAX\<close>.
\<close>

theorem interner_capacity:
  assumes "list_all call_ok cs"
  defines "stored \<equiv> first_uses [] (filter (\<lambda>s. \<not> canonical_keyword s) (map call_text cs))"
  shows "map_option (dynamic_strings \<circ> freeze \<circ> snd) (run_calls cs interner_new) =
    (if stored \<noteq> [] \<and> u32_max < 894 + length stored then None else Some stored)"
proof -
  have "dynamic_strings \<circ> freeze = in_strings" by (simp add: fun_eq_iff dynamic_strings_def freeze_def)
  with run_calls_strings[OF interner_new_ok assms(1) refl] show ?thesis
    by (simp add: stored_def interner_new_def KEYWORD_COUNT_def o_assoc)
qed

lemma lookup_one_byte:
  "lookup_keyword [b] = Some k \<longleftrightarrow> (pack_nat 0 [to_ascii_lowercase b], k) \<in> set KEYWORDS_LEN_1"
  using search_by_iff[OF sorted_1 irreflp_on_less asymp_on_less, of "pack_nat 0 [to_ascii_lowercase b]" k]
  by (simp add: lookup_keyword_def pack_u64_nat search_packed_def)

lemma sample_spellings:
  "canonical_keyword ''a''" "\<not> canonical_keyword ''A''" "\<not> canonical_keyword ''1''"
  "keyword_as_str (Keyword 0) = ''a''"
proof -
  have a: "lookup_keyword ''a'' = Some (Keyword 0)" "lookup_keyword ''A'' = Some (Keyword 0)"
    by (simp_all add: lookup_one_byte KEYWORDS_LEN_1_def to_ascii_lowercase_def is_ascii_uppercase_def)
  have one: "lookup_keyword ''1'' \<noteq> Some k" for k
    by (simp add: lookup_one_byte KEYWORDS_LEN_1_def to_ascii_lowercase_def is_ascii_uppercase_def)
  show first: "keyword_as_str (Keyword 0) = ''a''"
    using a(1) by (simp add: lookup_keyword_as_str to_ascii_lowercase_def is_ascii_uppercase_def)
  from first a one show "canonical_keyword ''a''" "\<not> canonical_keyword ''A''" "\<not> canonical_keyword ''1''"
    by (auto simp: canonical_keyword_def split: option.split)
qed

theorem interner_capacity_witness:
  "map_option (dynamic_strings \<circ> freeze \<circ> snd)
     (run_calls [Intern ''a'', Intern ''A'', Intern ''1'', Intern ''A''] interner_new)
   = Some [''A'', ''1'']"
  using interner_capacity[of "[Intern ''a'', Intern ''A'', Intern ''1'', Intern ''A'']"]
  by (simp add: sample_spellings u32_max_def)

subsection \<open>The symbol table of a deserialized document\<close>

text \<open>
  The part of \<open>Parsed::deserialize_with_depth\<close> (\<open>parser/parsed.rs\<close>) that rebuilds the
  resolver from the dynamic strings of a serialized tree: \<open>None\<close> is a panic, \<open>Inl\<close> the number
  of declared and of distinct entries.
\<close>

fun reintern :: "source list \<Rightarrow> interner \<Rightarrow> interner option" where
  "reintern [] it = Some it"
| "reintern (s # ss) it = (case intern_nonkeyword s it of
      None \<Rightarrow> None
    | Some (_, it') \<Rightarrow> reintern ss it')"

definition rebuild_resolver :: "source list \<Rightarrow> ((nat \<times> nat) + frozen_resolver) option" where
  "rebuild_resolver symbols = (case reintern symbols interner_new of
      None \<Rightarrow> None
    | Some it \<Rightarrow>
        (let resolver = freeze it in
         if length (dynamic_strings resolver) \<noteq> length symbols
         then Some (Inl (length symbols, length (dynamic_strings resolver)))
         else Some (Inr resolver)))"

lemma reintern_strings:
  assumes "stores_ok it" "d = first_uses (in_strings it) ss"
  shows "map_option in_strings (reintern ss it) =
    (if d \<noteq> [] \<and> u32_max < KEYWORD_COUNT + length (in_strings it @ d) then None else Some (in_strings it @ d))"
  using assms
proof (induction ss arbitrary: it d)
  case (Cons s ss)
  show ?case
  proof (cases "intern_dynamic s it")
    case None
    then show ?thesis using intern_dynamic_strings[OF Cons.prems(1), of s] Cons.prems(2)
      by (auto simp: intern_nonkeyword_def split: if_splits)
  next
    case (Some r)
    then obtain symb it1 where r: "intern_dynamic s it = Some (symb, it1)" by (cases r) auto
    from intern_dynamic_preserves[OF Cons.prems(1) r] Cons.IH[of it1] r Cons.prems(2)
      intern_dynamic_strings[OF Cons.prems(1), of s]
    show ?thesis by (auto simp: intern_nonkeyword_def stores_ok_def split: if_splits)
  qed
qed simp

lemma first_uses_length: "length (first_uses seen xs) \<le> length xs"
  by (induction xs arbitrary: seen) (auto intro: le_SucI)

lemma first_uses_distinct:
  "length (first_uses seen xs) = length xs \<longleftrightarrow> distinct xs \<and> set seen \<inter> set xs = {}"
proof (induction xs arbitrary: seen)
  case (Cons x xs)
  then show ?case using first_uses_length[of seen xs] by auto
qed simp

lemma first_uses_idle: "distinct xs \<Longrightarrow> set seen \<inter> set xs = {} \<Longrightarrow> first_uses seen xs = xs"
  by (induction xs arbitrary: seen) auto

lemma rebuild_resolver_eq:
  "rebuild_resolver ss = (let d = first_uses [] ss in
     if d \<noteq> [] \<and> u32_max < KEYWORD_COUNT + length d then None
     else if distinct ss then Some (Inr \<lparr>fr_strings = ss\<rparr>) else Some (Inl (length ss, length d)))"
proof -
  have "stores_ok interner_new" using interner_new_ok by (simp add: interner_ok_def)
  from reintern_strings[OF this refl, of ss] first_uses_distinct[of "[]" ss] first_uses_idle[of ss "[]"] show ?thesis
    by (auto simp: rebuild_resolver_def interner_new_def freeze_def dynamic_strings_def Let_def
        split: option.splits if_splits)
qed

text \<open>
  C31. The symbol table of a serialized tree round-trips: rebuilding from the dynamic strings of
  a frozen resolver gives that resolver back, so every symbol of the tree keeps its text.
\<close>

theorem symbol_table_roundtrip:
  assumes "list_all call_ok cs" "run_calls cs interner_new = Some (syms, it)"
  shows "rebuild_resolver (dynamic_strings (freeze it)) = Some (Inr (freeze it))"
proof -
  from run_calls_interned[OF interner_new_ok assms] have "stores_ok it" by (simp add: interner_ok_def)
  then show ?thesis
    by (auto simp: rebuild_resolver_eq first_uses_idle stores_ok_def freeze_def dynamic_strings_def Let_def)
qed

lemma sample_interner:
  "\<exists>syms it. run_calls [Intern ''A'', Intern ''1''] interner_new = Some (syms, it) \<and> in_strings it = [''A'', ''1'']"
  using run_calls_strings[OF interner_new_ok _ refl, of "[Intern ''A'', Intern ''1'']"]
  by (auto simp: sample_spellings interner_new_def u32_max_def KEYWORD_COUNT_def)

theorem symbol_table_roundtrip_witness:
  "rebuild_resolver [''A'', ''1''] = Some (Inr \<lparr>fr_strings = [''A'', ''1'']\<rparr>)"
proof -
  from sample_interner obtain syms it where
    r: "run_calls [Intern ''A'', Intern ''1''] interner_new = Some (syms, it)" "in_strings it = [''A'', ''1'']"
    by blast
  from symbol_table_roundtrip[OF _ r(1)] r(2) show ?thesis
    by (simp add: freeze_def dynamic_strings_def)
qed

text \<open>
  C32. A hostile symbol table is rejected exactly when it repeats an entry, with the declared
  and the distinct count; an accepted one resolves every dynamic symbol to its own entry.
\<close>

theorem hostile_symbol_table:
  "if u32_max < 894 + length (first_uses [] ss) \<and> ss \<noteq> [] then rebuild_resolver ss = None
   else if distinct ss then
     (\<exists>r. rebuild_resolver ss = Some (Inr r) \<and> map (\<lambda>n. frozen_try_resolve r (slot_symbol n)) [0..<length ss] = map Some ss)
   else rebuild_resolver ss = Some (Inl (length ss, length (first_uses [] ss)))
     \<and> length (first_uses [] ss) < length ss"
proof -
  have "first_uses [] ss = [] \<longleftrightarrow> ss = []" by (cases ss) auto
  moreover have "length (first_uses [] ss) < length ss" if "\<not> distinct ss"
    using first_uses_length[of "[]" ss] first_uses_distinct[of "[]" ss] that by auto
  moreover have "map (\<lambda>n. get_at ss n) [0..<length ss] = map Some ss"
    by (rule nth_equalityI) (simp_all add: get_at_def)
  ultimately show ?thesis
    by (auto simp: rebuild_resolver_eq KEYWORD_COUNT_def frozen_try_resolve_def Let_def)
qed

subsection \<open>Folded identity\<close>

text \<open>
  \<open>FoldedSymbols::build\<close> walks the symbols in order and gives each distinct folded spelling the
  next id. The id counter is a \<open>u32\<close>: it wraps.
\<close>

fun fold_raws ::
    "feature_set \<Rightarrow> source list \<Rightarrow> nat list \<Rightarrow> (source \<rightharpoonup> folded_symbol) \<Rightarrow> nat \<Rightarrow> folded_symbol list
      \<Rightarrow> folded_symbol list option" where
  "fold_raws f strings [] ids next_id folded = Some folded"
| "fold_raws f strings (raw # raws) ids next_id folded = (case symbol_new raw of
      None \<Rightarrow> None
    | Some symb \<Rightarrow> (case resolve_symbol strings symb of
        None \<Rightarrow> None
      | Some spelling \<Rightarrow>
          (let key = fold_unquoted_identifier f spelling in
           case ids key of
             Some i \<Rightarrow> fold_raws f strings raws ids next_id (folded @ [i])
           | None \<Rightarrow> (case folded_symbol_new next_id of
               None \<Rightarrow> None
             | Some i \<Rightarrow>
                 fold_raws f strings raws (ids(key \<mapsto> i)) ((next_id + 1) mod (u32_max + 1)) (folded @ [i])))))"

definition folded_build :: "source list \<Rightarrow> feature_set \<Rightarrow> folded_symbol list option" where
  "folded_build strings f = (let dynamic = length strings; total = KEYWORD_COUNT + dynamic in
     if u32_max < dynamic \<or> u32_max < total then None
     else fold_raws f strings [1..<total + 1] Map.empty 1 [])"

definition fold_symbols :: "frozen_resolver \<Rightarrow> feature_set \<Rightarrow> folded_symbol list option" where
  "fold_symbols r f = folded_build (fr_strings r) f"

definition folded_symbols_fold :: "folded_symbol list \<Rightarrow> symbol \<Rightarrow> folded_symbol option" where
  "folded_symbols_fold folded symb = get_at folded (symbol_index symb)"

definition fold_key :: "feature_set \<Rightarrow> source list \<Rightarrow> nat \<Rightarrow> source" where
  "fold_key f strings raw = fold_unquoted_identifier f (the (resolve_symbol strings (Symbol raw)))"

definition ids_ok :: "(source \<rightharpoonup> folded_symbol) \<Rightarrow> nat \<Rightarrow> bool" where
  "ids_ok ids n \<longleftrightarrow> inj_on ids (dom ids) \<and> (\<forall>key i. ids key = Some i \<longrightarrow> folded_symbol_as_u32 i < n) \<and> 0 < n"

lemma ids_ok_push:
  assumes "ids_ok ids n" "ids key = None"
  shows "ids_ok (ids(key \<mapsto> FoldedSymbol n)) (n + 1)"
proof -
  have new: "ids k \<noteq> Some (FoldedSymbol n)" for k using assms(1) by (fastforce simp: ids_ok_def)
  show ?thesis
    using assms new by (auto simp: ids_ok_def inj_on_def dom_def less_SucI split: if_splits)
qed

lemma fold_raws_total:
  assumes "list_all (\<lambda>raw. 0 < raw \<and> resolve_symbol strings (Symbol raw) \<noteq> None) raws"
    "ids_ok ids n" "n + length raws \<le> u32_max + 1"
  shows "\<exists>out ids'. fold_raws f strings raws ids n folded = Some (folded @ out) \<and> length out = length raws
    \<and> inj_on ids' (dom ids') \<and> ids \<subseteq>\<^sub>m ids' \<and> (\<forall>i < length raws. ids' (fold_key f strings (raws ! i)) = Some (out ! i))"
  using assms
proof (induction raws arbitrary: ids n folded)
  case Nil
  then show ?case by (auto simp: ids_ok_def intro: exI[of _ ids])
next
  case (Cons raw raws)
  let ?key = "fold_key f strings raw"
  obtain spelling where sp: "symbol_new raw = Some (Symbol raw)" "resolve_symbol strings (Symbol raw) = Some spelling"
      "fold_unquoted_identifier f spelling = ?key"
    using Cons.prems(1) by (auto simp: symbol_new_def fold_key_def)
  define i where "i = (case ids ?key of Some i \<Rightarrow> i | None \<Rightarrow> FoldedSymbol n)"
  define ids1 where "ids1 = ids(?key \<mapsto> i)"
  define n1 where "n1 = (if ids ?key = None then n + 1 else n)"
  have ok: "ids_ok ids1 n1"
    using ids_ok_push[OF Cons.prems(2)] Cons.prems(2)
    by (cases "ids ?key") (auto simp: ids1_def i_def n1_def map_upd_triv)
  have sub: "ids \<subseteq>\<^sub>m ids1" by (auto simp: ids1_def i_def map_le_def split: option.split)
  have n: "folded_symbol_new n = Some (FoldedSymbol n)" using Cons.prems(2) by (simp add: ids_ok_def folded_symbol_new_def)
  have step: "fold_raws f strings (raw # raws) ids n folded
      = fold_raws f strings raws ids1 (if ids ?key = None then (n + 1) mod (u32_max + 1) else n) (folded @ [i])"
    using sp n by (cases "ids ?key") (auto simp: ids1_def i_def map_upd_triv)
  have wrap: "raws = [] \<or> (n + 1) mod (u32_max + 1) = n + 1"
    using Cons.prems(3) by (cases raws) auto
  have rest: "\<exists>out ids'. fold_raws f strings raws ids1 m (folded @ [i]) = Some ((folded @ [i]) @ out)
      \<and> length out = length raws \<and> inj_on ids' (dom ids') \<and> ids1 \<subseteq>\<^sub>m ids'
      \<and> (\<forall>j < length raws. ids' (fold_key f strings (raws ! j)) = Some (out ! j))" if "raws = [] \<or> m = n1" for m
  proof (cases "raws = []")
    case True
    then show ?thesis using ok by (auto simp: ids_ok_def intro: exI[of _ ids1])
  next
    case False
    then have "m = n1" using that by simp
    moreover have "n1 + length raws \<le> u32_max + 1" using Cons.prems(3) by (simp add: n1_def)
    ultimately show ?thesis using Cons.IH[OF _ ok, of "folded @ [i]"] Cons.prems(1) by simp
  qed
  define m where "m = (if ids ?key = None then (n + 1) mod (u32_max + 1) else n)"
  have "raws = [] \<or> m = n1" using wrap by (auto simp: m_def n1_def)
  from rest[OF this] obtain out ids' where
    r: "fold_raws f strings raws ids1 m (folded @ [i]) = Some ((folded @ [i]) @ out)" "length out = length raws"
      "inj_on ids' (dom ids')" "ids1 \<subseteq>\<^sub>m ids'"
      "\<forall>j < length raws. ids' (fold_key f strings (raws ! j)) = Some (out ! j)" by blast
  from r(1) step have "fold_raws f strings (raw # raws) ids n folded = Some (folded @ i # out)"
    by (simp add: m_def)
  moreover have "ids' ?key = Some i" using r(4) by (auto simp: map_le_def ids1_def)
  ultimately show ?case using r(2-5) sub
    by (intro exI[of _ "i # out"] exI[of _ ids']) (auto simp: nth_Cons map_le_trans split: nat.split)
qed

lemma symbols_in_range_resolve:
  "0 < raw \<Longrightarrow> raw \<le> KEYWORD_COUNT + length strings \<Longrightarrow> resolve_symbol strings (Symbol raw) \<noteq> None"
  by (auto simp: resolve_symbol_def Let_def get_at_def)

lemma folded_build_spec:
  assumes "KEYWORD_COUNT + length strings \<le> u32_max"
  shows "\<exists>folded. folded_build strings f = Some folded \<and> length folded = KEYWORD_COUNT + length strings
    \<and> (\<forall>i < length folded. \<forall>j < length folded.
        folded ! i = folded ! j \<longleftrightarrow> fold_key f strings (i + 1) = fold_key f strings (j + 1))"
proof -
  let ?raws = "[1..<KEYWORD_COUNT + length strings + 1]"
  have "list_all (\<lambda>raw. 0 < raw \<and> resolve_symbol strings (Symbol raw) \<noteq> None) ?raws"
    unfolding list_all_iff
  proof
    fix raw assume "raw \<in> set ?raws"
    then have "0 < raw" "raw \<le> KEYWORD_COUNT + length strings" by (simp_all del: upt_Suc)
    with symbols_in_range_resolve show "0 < raw \<and> resolve_symbol strings (Symbol raw) \<noteq> None" by blast
  qed
  moreover have "ids_ok Map.empty 1" by (simp add: ids_ok_def)
  moreover have "1 + length ?raws \<le> u32_max + 1" using assms by (simp add: KEYWORD_COUNT_def)
  ultimately obtain out ids where r: "fold_raws f strings ?raws Map.empty 1 [] = Some out"
      "length out = length ?raws" "inj_on ids (dom ids)"
      "\<forall>i < length ?raws. ids (fold_key f strings (?raws ! i)) = Some (out ! i)"
    using fold_raws_total[of strings ?raws Map.empty 1 f "[]"] by auto
  have key: "ids (fold_key f strings (i + 1)) = Some (out ! i)" if "i < length out" for i
    using r(2,4) that by (simp add: nth_upt del: upt_Suc)
  have "out ! i = out ! j \<longleftrightarrow> fold_key f strings (i + 1) = fold_key f strings (j + 1)"
    if "i < length out" "j < length out" for i j
    using key[OF that(1)] key[OF that(2)] inj_onD[OF r(3)] by (metis domI option.inject)
  moreover have "length out = KEYWORD_COUNT + length strings" using r(2) by (simp add: KEYWORD_COUNT_def)
  ultimately show ?thesis using r(1) assms by (auto simp: folded_build_def Let_def)
qed

text \<open>
  C33. The folded side table gives two symbols of a resolver one folded identity exactly when
  their texts fold to one spelling under the dialect, keyword slots included; a symbol it does
  not know has none; and it is built whenever the symbols fit \<open>u32\<close>, its wrapping id counter
  notwithstanding.
\<close>

theorem folded_identity:
  assumes "894 + length (fr_strings r) \<le> u32_max"
  shows "\<exists>folded. fold_symbols r f = Some folded \<and>
    (\<forall>a b s t. symbol_as_u32 a \<noteq> 0 \<longrightarrow> symbol_as_u32 b \<noteq> 0 \<longrightarrow>
       frozen_try_resolve r a = Some s \<longrightarrow> frozen_try_resolve r b = Some t \<longrightarrow>
         folded_symbols_fold folded a \<noteq> None
         \<and> (folded_symbols_fold folded a = folded_symbols_fold folded b
            \<longleftrightarrow> fold_unquoted_identifier f s = fold_unquoted_identifier f t))
    \<and> (\<forall>a. frozen_try_resolve r a = None \<longrightarrow> folded_symbols_fold folded a = None)"
proof -
  from folded_build_spec[of "fr_strings r" f] assms obtain folded where
    fb: "fold_symbols r f = Some folded" "length folded = KEYWORD_COUNT + length (fr_strings r)"
    and eq: "\<And>i j. i < length folded \<Longrightarrow> j < length folded \<Longrightarrow> folded ! i = folded ! j
        \<longleftrightarrow> fold_key f (fr_strings r) (i + 1) = fold_key f (fr_strings r) (j + 1)"
    by (auto simp: fold_symbols_def KEYWORD_COUNT_def)
  have inr: "symbol_index a < length folded \<and> fold_key f (fr_strings r) (symbol_index a + 1) = fold_unquoted_identifier f s"
    if "symbol_as_u32 a \<noteq> 0" "frozen_try_resolve r a = Some s" for a s
    using that fb(2)
    by (cases a) (auto simp: frozen_try_resolve_def symbol_index_def fold_key_def resolve_symbol_def
        get_at_def Let_def split: if_splits)
  have out: "symbol_index a \<ge> length folded" if "frozen_try_resolve r a = None" for a
    using that fb(2)
    by (auto simp: frozen_try_resolve_def symbol_index_def resolve_symbol_def get_at_def Let_def split: if_splits)
  show ?thesis
  proof (intro exI[of _ folded] conjI allI impI)
    fix a b s t
    assume "symbol_as_u32 a \<noteq> 0" "symbol_as_u32 b \<noteq> 0" "frozen_try_resolve r a = Some s" "frozen_try_resolve r b = Some t"
    then show "folded_symbols_fold folded a \<noteq> None"
      "folded_symbols_fold folded a = folded_symbols_fold folded b
        \<longleftrightarrow> fold_unquoted_identifier f s = fold_unquoted_identifier f t"
      using inr[of a s] inr[of b t] eq[of "symbol_index a" "symbol_index b"]
      by (simp_all add: folded_symbols_fold_def get_at_def)
  qed (use fb(1) out in \<open>auto simp: folded_symbols_fold_def get_at_def not_less[symmetric]\<close>)
qed

theorem folded_identity_witness:
  "\<exists>folded. fold_symbols \<lparr>fr_strings = [''A'', ''1'']\<rparr> FeatureSet_ANSI = Some folded
    \<and> folded_symbols_fold folded (Symbol 895) = folded_symbols_fold folded (Symbol 1)
    \<and> folded_symbols_fold folded (Symbol 896) \<noteq> folded_symbols_fold folded (Symbol 1)
    \<and> folded_symbols_fold folded (Symbol 897) = None"
proof -
  let ?r = "\<lparr>fr_strings = [''A'', ''1'']\<rparr>"
  have r: "frozen_try_resolve ?r (Symbol 1) = Some ''a''" "frozen_try_resolve ?r (Symbol 895) = Some ''A''"
    "frozen_try_resolve ?r (Symbol 896) = Some ''1''" "frozen_try_resolve ?r (Symbol 897) = None"
    by (simp_all add: frozen_try_resolve_def resolve_symbol_def KEYWORD_COUNT_def get_at_def sample_spellings)
  have "fold_unquoted_identifier FeatureSet_ANSI ''A'' = fold_unquoted_identifier FeatureSet_ANSI ''a''"
    "fold_unquoted_identifier FeatureSet_ANSI ''1'' \<noteq> fold_unquoted_identifier FeatureSet_ANSI ''a''"
    by (simp_all add: fold_unquoted_identifier_def FeatureSet_ANSI_def fold_identifier_map
        to_ascii_uppercase_def is_ascii_lowercase_def char_of_def bit_0)
  with folded_identity[of ?r FeatureSet_ANSI] r show ?thesis by (force simp: u32_max_def)
qed

end
