(* ===== verification/Layout_Doc.thy ===== *)
theory Layout_Doc
  imports Source_Cursor
begin

text \<open>
  The layout IR of the formatter (\<open>crates/squonk/src/format/doc.rs\<close>): the document type, its
  smart constructors, the \<open>fits\<close> look-ahead and the iterative \<open>layout\<close>. A stack is a list
  with its top first. \<open>isize\<close> columns are integers: they are bounded by the text laid out.
\<close>

subsection \<open>Documents\<close>

datatype doc =
    Doc_Nil
  | Doc_Text source
  | Doc_Line
  | Doc_SoftLine
  | Doc_HardLine
  | Doc_Concat "doc list"
  | Doc_Nest nat doc
  | Doc_Group doc

definition doc_concat :: "doc list \<Rightarrow> doc" where
  "doc_concat docs = (let parts = filter (\<lambda>d. d \<noteq> Doc_Nil) docs in
     if length parts = 0 then Doc_Nil
     else if length parts = 1 then hd parts
     else Doc_Concat parts)"

definition nest :: "nat \<Rightarrow> doc \<Rightarrow> doc" where
  "nest width d = (if d = Doc_Nil then Doc_Nil else Doc_Nest width d)"

definition doc_group :: "doc \<Rightarrow> doc" where
  "doc_group d = (if d = Doc_Nil then Doc_Nil else Doc_Group d)"

fun join_out :: "doc \<Rightarrow> doc list \<Rightarrow> doc list \<Rightarrow> doc list" where
  "join_out sep out [] = out"
| "join_out sep out (item # items) =
     (if item = Doc_Nil then join_out sep out items
      else join_out sep ((if out \<noteq> [] then out @ [sep] else out) @ [item]) items)"

definition join :: "doc \<Rightarrow> doc list \<Rightarrow> doc" where
  "join sep items = doc_concat (join_out sep [] items)"

subsection \<open>The look-ahead\<close>

datatype layout_mode = Mode_Flat | Mode_Break

type_synonym layout_cmd = "nat \<times> layout_mode \<times> doc"

definition text_width :: "source \<Rightarrow> nat" where
  "text_width s = length (filter (\<lambda>b. \<not> is_continuation b) s)"

text \<open>The next command: from the local worklist, then from the outer stack.\<close>

fun next_cmd :: "layout_cmd list \<Rightarrow> layout_cmd list \<Rightarrow> (layout_cmd \<times> layout_cmd list \<times> layout_cmd list) option" where
  "next_cmd (cmd # local) outer = Some (cmd, local, outer)"
| "next_cmd [] (cmd # outer) = Some (cmd, [], outer)"
| "next_cmd [] [] = None"

definition cmds_size :: "layout_cmd list \<Rightarrow> nat" where
  "cmds_size cmds = sum_list (map (\<lambda>(indent, mode, d). Suc (size d)) cmds)"

lemma cmds_size_simps [simp]:
  "cmds_size [] = 0"
  "cmds_size ((indent, mode, d) # cmds) = Suc (size d) + cmds_size cmds"
  "cmds_size (cs @ ds) = cmds_size cs + cmds_size ds"
  "cmds_size (map (\<lambda>d. (indent, mode, d)) parts) = size_list size parts"
  by (simp_all add: cmds_size_def) (induction parts; simp)

lemma next_cmd_size:
  "next_cmd local outer = Some ((indent, mode, d), local', outer') \<Longrightarrow>
     cmds_size local + cmds_size outer = Suc (size d) + cmds_size local' + cmds_size outer'"
  by (induction local outer rule: next_cmd.induct) auto

function fits_loop :: "int \<Rightarrow> layout_cmd list \<Rightarrow> layout_cmd list \<Rightarrow> bool" where
  "fits_loop remaining local outer =
     (if remaining < 0 then False
      else (case next_cmd local outer of
          None \<Rightarrow> True
        | Some ((indent, mode, d), local, outer) \<Rightarrow>
            (case d of
               Doc_Nil \<Rightarrow> fits_loop remaining local outer
             | Doc_Text s \<Rightarrow> fits_loop (remaining - int (text_width s)) local outer
             | Doc_Concat parts \<Rightarrow> fits_loop remaining (map (\<lambda>p. (indent, mode, p)) parts @ local) outer
             | Doc_Nest width inner \<Rightarrow> fits_loop remaining ((indent + width, mode, inner) # local) outer
             | Doc_Group inner \<Rightarrow> fits_loop remaining ((indent, Mode_Flat, inner) # local) outer
             | Doc_Line \<Rightarrow> (case mode of Mode_Flat \<Rightarrow> fits_loop (remaining - 1) local outer | Mode_Break \<Rightarrow> True)
             | Doc_SoftLine \<Rightarrow> (case mode of Mode_Flat \<Rightarrow> fits_loop remaining local outer | Mode_Break \<Rightarrow> True)
             | Doc_HardLine \<Rightarrow> (case mode of Mode_Flat \<Rightarrow> False | Mode_Break \<Rightarrow> True))))"
  by pat_completeness auto
termination
  by (relation "measure (\<lambda>(remaining, local, outer). cmds_size local + cmds_size outer)")
    (auto dest!: next_cmd_size)

declare fits_loop.simps [simp del]

definition fits :: "int \<Rightarrow> nat \<Rightarrow> doc \<Rightarrow> layout_cmd list \<Rightarrow> bool" where
  "fits remaining group_indent group_doc outer = fits_loop remaining [(group_indent, Mode_Flat, group_doc)] outer"

subsection \<open>The layouter\<close>

definition new_line :: "source \<Rightarrow> nat \<Rightarrow> source" where
  "new_line out indent = rev (dropWhile (\<lambda>b. b = CHR '' '') (rev out)) @ [CHR 0x0A] @ replicate indent (CHR '' '')"

function layout_loop :: "nat \<Rightarrow> source \<Rightarrow> int \<Rightarrow> layout_cmd list \<Rightarrow> source" where
  "layout_loop width out pos [] = out"
| "layout_loop width out pos ((indent, mode, d) # stack) = (case d of
      Doc_Nil \<Rightarrow> layout_loop width out pos stack
    | Doc_Text s \<Rightarrow> layout_loop width (out @ s) (pos + int (text_width s)) stack
    | Doc_Concat parts \<Rightarrow> layout_loop width out pos (map (\<lambda>p. (indent, mode, p)) parts @ stack)
    | Doc_Nest w inner \<Rightarrow> layout_loop width out pos ((indent + w, mode, inner) # stack)
    | Doc_Group inner \<Rightarrow>
        (let flat = (mode = Mode_Flat \<or> fits (int width - pos) indent inner stack);
             inner_mode = (if flat then Mode_Flat else Mode_Break)
         in layout_loop width out pos ((indent, inner_mode, inner) # stack))
    | Doc_Line \<Rightarrow> (case mode of
          Mode_Flat \<Rightarrow> layout_loop width (out @ [CHR '' '']) (pos + 1) stack
        | Mode_Break \<Rightarrow> layout_loop width (new_line out indent) (int indent) stack)
    | Doc_SoftLine \<Rightarrow> (case mode of
          Mode_Flat \<Rightarrow> layout_loop width out pos stack
        | Mode_Break \<Rightarrow> layout_loop width (new_line out indent) (int indent) stack)
    | Doc_HardLine \<Rightarrow> layout_loop width (new_line out indent) (int indent) stack)"
  by pat_completeness auto
termination
  by (relation "measure (\<lambda>(width, out, pos, stack). cmds_size stack)") auto

declare layout_loop.simps(2) [simp del]

lemmas layout_steps [simp] =
  layout_loop.simps(2)[of _ _ _ _ _ Doc_Nil, simplified]
  layout_loop.simps(2)[of _ _ _ _ _ "Doc_Text s" for s, simplified]
  layout_loop.simps(2)[of _ _ _ _ Mode_Flat Doc_Line, simplified]
  layout_loop.simps(2)[of _ _ _ _ Mode_Break Doc_Line, simplified]
  layout_loop.simps(2)[of _ _ _ _ Mode_Flat Doc_SoftLine, simplified]
  layout_loop.simps(2)[of _ _ _ _ Mode_Break Doc_SoftLine, simplified]
  layout_loop.simps(2)[of _ _ _ _ _ Doc_HardLine, simplified]
  layout_loop.simps(2)[of _ _ _ _ _ "Doc_Concat parts" for parts, simplified]
  layout_loop.simps(2)[of _ _ _ _ _ "Doc_Nest w inner" for w inner, simplified]
  layout_loop.simps(2)[of _ _ _ _ _ "Doc_Group inner" for inner, simplified]

definition layout :: "doc \<Rightarrow> nat \<Rightarrow> source" where
  "layout d width = layout_loop width [] 0 [(0, Mode_Break, d)]"

subsection \<open>Flat layout\<close>

text \<open>The text of a document on one line, and whether a mandatory break forbids that.\<close>

fun flat_text :: "doc \<Rightarrow> source" where
  "flat_text Doc_Nil = []"
| "flat_text (Doc_Text s) = s"
| "flat_text Doc_Line = '' ''"
| "flat_text Doc_SoftLine = []"
| "flat_text Doc_HardLine = []"
| "flat_text (Doc_Concat parts) = concat (map flat_text parts)"
| "flat_text (Doc_Nest w d) = flat_text d"
| "flat_text (Doc_Group d) = flat_text d"


lemma text_width_simps [simp]:
  "text_width [] = 0" "text_width (a @ b) = text_width a + text_width b" "text_width '' '' = 1"
  by (simp_all add: text_width_def is_continuation_def)

lemma fits_negative: "remaining < 0 \<Longrightarrow> \<not> fits_loop remaining local outer"
  by (subst fits_loop.simps) simp



subsection \<open>The look-ahead against a measure of the line\<close>

text \<open>
  What the rest of the line holds, as far as it is determined: it runs on after \<open>n\<close> columns, it
  stops at a break after \<open>n\<close> columns, or it is stuck on a mandatory break inside flat content.
\<close>

datatype line_reach = Runs nat | Stops nat | Stuck

fun then_reach :: "line_reach \<Rightarrow> line_reach \<Rightarrow> line_reach" where
  "then_reach (Runs n) (Runs m) = Runs (n + m)"
| "then_reach (Runs n) (Stops m) = Stops (n + m)"
| "then_reach (Runs n) Stuck = Stuck"
| "then_reach (Stops n) r = Stops n"
| "then_reach Stuck r = Stuck"

fun doc_reach :: "layout_mode \<Rightarrow> doc \<Rightarrow> line_reach" where
  "doc_reach mode Doc_Nil = Runs 0"
| "doc_reach mode (Doc_Text s) = Runs (text_width s)"
| "doc_reach Mode_Flat Doc_Line = Runs 1"
| "doc_reach Mode_Break Doc_Line = Stops 0"
| "doc_reach Mode_Flat Doc_SoftLine = Runs 0"
| "doc_reach Mode_Break Doc_SoftLine = Stops 0"
| "doc_reach Mode_Flat Doc_HardLine = Stuck"
| "doc_reach Mode_Break Doc_HardLine = Stops 0"
| "doc_reach mode (Doc_Concat parts) = foldr then_reach (map (doc_reach mode) parts) (Runs 0)"
| "doc_reach mode (Doc_Nest w d) = doc_reach mode d"
| "doc_reach mode (Doc_Group d) = doc_reach Mode_Flat d"

definition stack_reach :: "layout_cmd list \<Rightarrow> line_reach" where
  "stack_reach stack = foldr then_reach (map (\<lambda>(indent, mode, d). doc_reach mode d) stack) (Runs 0)"

fun reach_within :: "int \<Rightarrow> line_reach \<Rightarrow> bool" where
  "reach_within budget (Runs n) \<longleftrightarrow> int n \<le> budget"
| "reach_within budget (Stops n) \<longleftrightarrow> int n \<le> budget"
| "reach_within budget Stuck \<longleftrightarrow> False"

lemma then_reach_assoc: "then_reach (then_reach a b) c = then_reach a (then_reach b c)"
  by (cases a; cases b; cases c) simp_all

lemma then_reach_zero [simp]: "then_reach (Runs 0) r = r" "then_reach r (Runs 0) = r"
  by (cases r; simp)+

lemma stack_reach_simps [simp]:
  "stack_reach [] = Runs 0"
  "stack_reach ((indent, mode, d) # stack) = then_reach (doc_reach mode d) (stack_reach stack)"
  by (simp_all add: stack_reach_def)

lemma stack_reach_append:
  "stack_reach (map (\<lambda>p. (indent, mode, p)) parts @ stack) = then_reach (doc_reach mode (Doc_Concat parts)) (stack_reach stack)"
  by (induction parts) (simp_all add: then_reach_assoc)

lemma reach_within_shift: "reach_within b (then_reach (Runs n) r) \<longleftrightarrow> reach_within (b - int n) r"
  by (cases r) auto

lemma reach_within_negative: "b < 0 \<Longrightarrow> \<not> reach_within b r"
  by (cases r) auto

lemma next_cmd_reach:
  "stack_reach (local @ outer) = (case next_cmd local outer of
      None \<Rightarrow> Runs 0
    | Some ((indent, mode, d), local', outer') \<Rightarrow> then_reach (doc_reach mode d) (stack_reach (local' @ outer')))"
  by (induction local outer rule: next_cmd.induct) auto

lemma fits_loop_reach: "fits_loop remaining local outer \<longleftrightarrow> reach_within remaining (stack_reach (local @ outer))"
proof (induction remaining local outer rule: fits_loop.induct)
  case (1 remaining local outer)
  show ?case
  proof (cases "remaining < 0")
    case True
    then show ?thesis by (simp add: fits_negative reach_within_negative)
  next
    case False
    show ?thesis
    proof (cases "next_cmd local outer")
      case None
      then show ?thesis using False by (subst fits_loop.simps) (simp add: next_cmd_reach)
    next
      case (Some r)
      then obtain i m d l' o' where n: "next_cmd local outer = Some ((i, m, d), l', o')" by (cases r) auto
      show ?thesis
        using False n 1[OF False n refl refl refl refl]
        by (subst fits_loop.simps)
          (cases d; cases m; simp add: next_cmd_reach[of local outer] reach_within_shift
            stack_reach_append[of _ _ _ "l' @ o'", simplified])
    qed
  qed
qed

text \<open>
  The look-ahead of a group is exact: it answers that the group fits when the group printed
  flat and everything after it up to the next line break that is sure to be taken stay within
  the remaining columns and no mandatory break is inside flat content, and only then.
\<close>

lemma fits_reach:
  "fits remaining indent d stack
   \<longleftrightarrow> reach_within remaining (then_reach (doc_reach Mode_Flat d) (stack_reach stack))"
  by (simp add: fits_def fits_loop_reach)


subsection \<open>No flattened break on an overlong line\<close>

text \<open>
  The layout as a sequence of events: text, a line flattened to a space or to nothing, and a
  line break with its indent. \<open>render_events\<close> is what the layouter writes for them.
\<close>

datatype layout_event = Put source | Flat_Line | Flat_SoftLine | Break nat

fun render_events :: "source \<Rightarrow> layout_event list \<Rightarrow> source" where
  "render_events out [] = out"
| "render_events out (Put s # es) = render_events (out @ s) es"
| "render_events out (Flat_Line # es) = render_events (out @ '' '') es"
| "render_events out (Flat_SoftLine # es) = render_events out es"
| "render_events out (Break indent # es) = render_events (new_line out indent) es"

function layout_events :: "nat \<Rightarrow> int \<Rightarrow> layout_cmd list \<Rightarrow> layout_event list" where
  "layout_events width pos [] = []"
| "layout_events width pos ((indent, mode, d) # stack) = (case d of
      Doc_Nil \<Rightarrow> layout_events width pos stack
    | Doc_Text s \<Rightarrow> Put s # layout_events width (pos + int (text_width s)) stack
    | Doc_Concat parts \<Rightarrow> layout_events width pos (map (\<lambda>p. (indent, mode, p)) parts @ stack)
    | Doc_Nest w inner \<Rightarrow> layout_events width pos ((indent + w, mode, inner) # stack)
    | Doc_Group inner \<Rightarrow> layout_events width pos
        ((indent, if mode = Mode_Flat \<or> fits (int width - pos) indent inner stack then Mode_Flat else Mode_Break, inner) # stack)
    | Doc_Line \<Rightarrow> (case mode of
          Mode_Flat \<Rightarrow> Flat_Line # layout_events width (pos + 1) stack
        | Mode_Break \<Rightarrow> Break indent # layout_events width (int indent) stack)
    | Doc_SoftLine \<Rightarrow> (case mode of
          Mode_Flat \<Rightarrow> Flat_SoftLine # layout_events width pos stack
        | Mode_Break \<Rightarrow> Break indent # layout_events width (int indent) stack)
    | Doc_HardLine \<Rightarrow> Break indent # layout_events width (int indent) stack)"
  by pat_completeness auto
termination
  by (relation "measure (\<lambda>(width, pos, stack). cmds_size stack)") auto

declare layout_events.simps(2) [simp del]

lemmas layout_event_steps [simp] =
  layout_events.simps(2)[of _ _ _ _ Doc_Nil, simplified]
  layout_events.simps(2)[of _ _ _ _ "Doc_Text s" for s, simplified]
  layout_events.simps(2)[of _ _ _ Mode_Flat Doc_Line, simplified]
  layout_events.simps(2)[of _ _ _ Mode_Break Doc_Line, simplified]
  layout_events.simps(2)[of _ _ _ Mode_Flat Doc_SoftLine, simplified]
  layout_events.simps(2)[of _ _ _ Mode_Break Doc_SoftLine, simplified]
  layout_events.simps(2)[of _ _ _ _ Doc_HardLine, simplified]
  layout_events.simps(2)[of _ _ _ _ "Doc_Concat parts" for parts, simplified]
  layout_events.simps(2)[of _ _ _ _ "Doc_Nest w inner" for w inner, simplified]
  layout_events.simps(2)[of _ _ _ _ "Doc_Group inner" for inner, simplified]

lemma layout_loop_events: "layout_loop width out pos stack = render_events out (layout_events width pos stack)"
proof (induction width out pos stack rule: layout_loop.induct)
  case (2 width out pos indent mode d stack)
  then show ?case by (cases d; cases mode; simp add: Let_def)
qed simp

text \<open>
  The lines of a layout, by their width and whether they hold a flattened line: no line wider
  than the page does.
\<close>

fun wide_lines_rigid :: "nat \<Rightarrow> int \<Rightarrow> bool \<Rightarrow> layout_event list \<Rightarrow> bool" where
  "wide_lines_rigid width col flattened [] \<longleftrightarrow> \<not> (flattened \<and> int width < col)"
| "wide_lines_rigid width col flattened (Put s # es)
     \<longleftrightarrow> wide_lines_rigid width (col + int (text_width s)) flattened es"
| "wide_lines_rigid width col flattened (Flat_Line # es) \<longleftrightarrow> wide_lines_rigid width (col + 1) True es"
| "wide_lines_rigid width col flattened (Flat_SoftLine # es) \<longleftrightarrow> wide_lines_rigid width col True es"
| "wide_lines_rigid width col flattened (Break indent # es)
     \<longleftrightarrow> \<not> (flattened \<and> int width < col) \<and> wide_lines_rigid width (int indent) False es"

text \<open>On a stack the flat commands are on top of the broken ones.\<close>

fun has_flat :: "layout_cmd list \<Rightarrow> bool" where
  "has_flat [] \<longleftrightarrow> False"
| "has_flat ((indent, mode, d) # stack) \<longleftrightarrow> mode = Mode_Flat \<or> has_flat stack"

fun flat_over_broken :: "layout_cmd list \<Rightarrow> bool" where
  "flat_over_broken [] \<longleftrightarrow> True"
| "flat_over_broken ((indent, mode, d) # stack) \<longleftrightarrow>
     (if mode = Mode_Flat then flat_over_broken stack else \<not> has_flat stack)"

lemma no_flat_ordered: "\<not> has_flat stack \<Longrightarrow> flat_over_broken stack"
  by (induction stack) auto

lemma has_flat_parts: "has_flat (map (\<lambda>p. (i, m, p)) parts @ stack) \<longleftrightarrow> (parts \<noteq> [] \<and> m = Mode_Flat) \<or> has_flat stack"
  by (induction parts) auto

lemma flat_over_broken_tail: "flat_over_broken ((i, m, d) # stack) \<Longrightarrow> flat_over_broken stack"
  by (auto intro: no_flat_ordered split: if_splits)

lemma flat_over_broken_parts:
  "flat_over_broken ((i, m, d) # stack) \<Longrightarrow> flat_over_broken (map (\<lambda>p. (i, m, p)) parts @ stack)"
  by (induction parts) (auto simp: has_flat_parts intro: no_flat_ordered split: if_splits)

lemma layout_events_rigid:
  assumes "flat_over_broken stack"
    "flattened \<or> has_flat stack \<Longrightarrow> reach_within (int width - pos) (stack_reach stack)"
  shows "wide_lines_rigid width pos flattened (layout_events width pos stack)"
  using assms
proof (induction width pos stack arbitrary: flattened rule: layout_events.induct)
  case (1 width pos)
  then show ?case by auto
next
  case (2 width pos i m d stack)
  have quiet: "m \<noteq> Mode_Flat \<Longrightarrow> \<not> has_flat stack" using "2.prems"(1) by simp
  have tail: "flat_over_broken stack" using "2.prems"(1) flat_over_broken_tail by blast
  have broken: "\<not> (flattened \<and> int width < pos)"
    using "2.prems"(2) reach_within_negative[of "int width - pos"] by (cases flattened) auto
  have parts: "flat_over_broken (map (\<lambda>p. (i, m, p)) ps @ stack)" for ps
    using "2.prems"(1) by (rule flat_over_broken_parts)
  show ?case
  proof (cases d)
    case (Doc_Concat ps)
    with "2.IH"(8)[OF Doc_Concat parts, of flattened] "2.prems"(2) show ?thesis
      by (auto simp: has_flat_parts stack_reach_append)
  next
    case (Doc_Group inner)
    define m' where "m' = (if m = Mode_Flat \<or> fits (int width - pos) i inner stack then Mode_Flat else Mode_Break)"
    have "flat_over_broken ((i, m', inner) # stack)" using tail quiet by (auto simp: m'_def)
    moreover have "reach_within (int width - pos) (stack_reach ((i, m', inner) # stack))"
      if "flattened \<or> has_flat ((i, m', inner) # stack)"
    proof (cases "m = Mode_Flat \<or> flattened")
      case True
      with "2.prems"(2) Doc_Group show ?thesis by (auto simp: fits_reach m'_def)
    next
      case False
      with that quiet show ?thesis by (auto simp: fits_reach m'_def split: if_splits)
    qed
    ultimately have "wide_lines_rigid width pos flattened (layout_events width pos ((i, m', inner) # stack))"
      using "2.IH"(10)[OF Doc_Group, folded m'_def] by blast
    then show ?thesis by (simp add: Doc_Group m'_def)
  next
    case Doc_Nil
    with "2.IH"(1)[OF Doc_Nil tail, of flattened] "2.prems"(2) show ?thesis by auto
  next
    case (Doc_Text s)
    with "2.IH"(2)[OF Doc_Text tail, of flattened] "2.prems"(2) show ?thesis
      by (auto simp: reach_within_shift diff_diff_eq)
  next
    case Doc_Line
    show ?thesis
    proof (cases m)
      case Mode_Flat
      with "2.IH"(3)[OF Doc_Line Mode_Flat tail, of True] "2.prems"(2) Doc_Line show ?thesis
        by (auto simp: reach_within_shift diff_diff_eq)
    next
      case Mode_Break
      with "2.IH"(4)[OF Doc_Line Mode_Break tail, of False] Doc_Line quiet broken show ?thesis by simp
    qed
  next
    case Doc_SoftLine
    show ?thesis
    proof (cases m)
      case Mode_Flat
      with "2.IH"(5)[OF Doc_SoftLine Mode_Flat tail, of True] "2.prems"(2) Doc_SoftLine show ?thesis by auto
    next
      case Mode_Break
      with "2.IH"(6)[OF Doc_SoftLine Mode_Break tail, of False] Doc_SoftLine quiet broken show ?thesis by simp
    qed
  next
    case Doc_HardLine
    show ?thesis
    proof (cases m)
      case Mode_Flat
      with "2.prems"(2) Doc_HardLine show ?thesis by simp
    next
      case Mode_Break
      with "2.IH"(7)[OF Doc_HardLine tail, of False] Doc_HardLine quiet broken show ?thesis by simp
    qed
  next
    case (Doc_Nest w inner)
    with "2.IH"(9)[OF Doc_Nest, of flattened] "2.prems" show ?thesis by simp
  qed
qed

text \<open>
  C34. A line that is wider than the page holds no break opportunity that was flattened: for
  every document and page width, the layout is the rendering of events in which each line with
  a flattened line stays within the page, its indent and the text after its group included.
\<close>

theorem layout_within_page:
  "layout d width = render_events [] (layout_events width 0 [(0, Mode_Break, d)])
   \<and> wide_lines_rigid width 0 False (layout_events width 0 [(0, Mode_Break, d)])"
  using layout_events_rigid[of "[(0, Mode_Break, d)]" False width 0]
  by (simp add: layout_def layout_loop_events)

subsection \<open>Layout moves white space only\<close>

definition is_blank :: "byte \<Rightarrow> bool" where
  "is_blank b \<longleftrightarrow> b = CHR '' '' \<or> b = CHR 0x0A"

definition ink :: "source \<Rightarrow> source" where
  "ink s = filter (\<lambda>b. \<not> is_blank b) s"

lemma ink_simps [simp]:
  "ink [] = []" "ink (a @ b) = ink a @ ink b" "ink '' '' = []" "ink (CHR 0x0A # replicate n (CHR '' '')) = []"
  by (auto simp: ink_def is_blank_def)

lemma ink_drop_spaces: "filter (\<lambda>b. \<not> is_blank b) (dropWhile (\<lambda>b. b = CHR '' '') s) = filter (\<lambda>b. \<not> is_blank b) s"
  by (induction s) (auto simp: is_blank_def)

lemma ink_new_line [simp]: "ink (new_line out indent) = ink out"
  by (simp add: new_line_def ink_def[of "rev _"] rev_filter[symmetric] ink_drop_spaces) (simp add: ink_def rev_filter[symmetric])

lemma layout_loop_ink:
  "ink (layout_loop width out pos stack) = ink out @ concat (map (\<lambda>(i, m, d). ink (flat_text d)) stack)"
proof (induction width out pos stack rule: layout_loop.induct)
  case (2 width out pos indent mode d stack)
  have "concat (map (\<lambda>(i, m, d). ink (flat_text d)) (map (\<lambda>p. (indent, mode, p)) parts)) = ink (concat (map flat_text parts))" for parts
    by (induction parts) auto
  with 2 show ?case by (cases d; cases mode) (simp_all add: Let_def)
qed simp

text \<open>
  C36. Formatting loses and invents no text: at every width the bytes of the layout other than
  spaces and newlines are those of the document's texts, in order.
\<close>

theorem layout_keeps_text: "ink (layout d width) = ink (flat_text d)"
  by (simp add: layout_def layout_loop_ink)

subsection \<open>No trailing blanks\<close>

definition clean :: "source \<Rightarrow> bool" where
  "clean s \<longleftrightarrow> successively (\<lambda>a b. \<not> (a = CHR '' '' \<and> b = CHR 0x0A)) s"

fun texts_one_line :: "doc \<Rightarrow> bool" where
  "texts_one_line (Doc_Text s) \<longleftrightarrow> CHR 0x0A \<notin> set s"
| "texts_one_line (Doc_Concat parts) \<longleftrightarrow> list_all texts_one_line parts"
| "texts_one_line (Doc_Nest w d) \<longleftrightarrow> texts_one_line d"
| "texts_one_line (Doc_Group d) \<longleftrightarrow> texts_one_line d"
| "texts_one_line _ \<longleftrightarrow> True"

lemma clean_one_line: "CHR 0x0A \<notin> set s \<Longrightarrow> clean s"
  by (induction s rule: induct_list012) (auto simp: clean_def)

lemma clean_append:
  "clean a \<Longrightarrow> CHR 0x0A \<notin> set b \<Longrightarrow> clean (a @ b)"
  using clean_one_line[of b] by (cases b) (auto simp: clean_def successively_append_iff)

lemma clean_new_line: "clean out \<Longrightarrow> clean (new_line out indent)"
proof -
  assume out: "clean out"
  obtain pre where pre: "out = rev (dropWhile (\<lambda>b. b = CHR '' '') (rev out)) @ pre"
    by (metis rev_append rev_rev_ident takeWhile_dropWhile_id)
  let ?o = "rev (dropWhile (\<lambda>b. b = CHR '' '') (rev out))"
  have "clean ?o" using out pre by (metis clean_def successively_append_iff)
  moreover have "?o = [] \<or> last ?o \<noteq> CHR '' ''"
    using hd_dropWhile[of "\<lambda>b. b = CHR '' ''" "rev out"] by (auto simp: last_rev)
  moreover have "clean (CHR 0x0A # replicate indent (CHR '' ''))"
    using clean_one_line[of "replicate indent (CHR '' '')"] by (cases indent) (auto simp: clean_def)
  ultimately show ?thesis by (auto simp: new_line_def clean_def successively_append_iff)
qed

lemma layout_loop_clean:
  "clean out \<Longrightarrow> list_all (\<lambda>(i, m, d). texts_one_line d) stack \<Longrightarrow> clean (layout_loop width out pos stack)"
proof (induction width out pos stack rule: layout_loop.induct)
  case (2 width out pos indent mode d stack)
  then show ?case
    by (cases d; cases mode) (auto simp: Let_def clean_append clean_new_line list.pred_map o_def)
qed simp

text \<open>
  C37. No line that a break ends has a trailing space: where the texts hold no newline, no space
  of the layout stands before one. The last line is not trimmed.
\<close>

theorem layout_clean:
  assumes "texts_one_line d"
  shows "clean (layout d width)"
  unfolding layout_def by (rule layout_loop_clean) (use assms in \<open>simp_all add: clean_def\<close>)

theorem layout_clean_witness:
  "clean (layout (Doc_Concat [Doc_Text ''a '', Doc_HardLine, Doc_Nest 2 Doc_HardLine, Doc_Text ''b'']) 80)
   \<and> layout (Doc_Concat [Doc_Text ''a '', Doc_HardLine, Doc_Nest 2 Doc_HardLine, Doc_Text ''b'']) 80
     = ''a'' @ [CHR 0x0A, CHR 0x0A] @ ''  b''"
  using layout_clean[of "Doc_Concat [Doc_Text ''a '', Doc_HardLine, Doc_Nest 2 Doc_HardLine, Doc_Text ''b'']" 80]
  by (simp add: layout_def new_line_def)

subsection \<open>The smart constructors\<close>

definition visible :: "layout_cmd list \<Rightarrow> layout_cmd list" where
  "visible stack = filter (\<lambda>(i, m, d). d \<noteq> Doc_Nil) stack"

lemma visible_Cons [simp]:
  "visible [] = []"
  "visible ((i, m, d) # stack) = (if d = Doc_Nil then visible stack else (i, m, d) # visible stack)"
  "visible (a @ b) = visible a @ visible b"
  by (simp_all add: visible_def)

lemma visible_reach: "stack_reach (visible stack) = stack_reach stack"
  by (induction stack) auto

lemma visible_head:
  "visible stack = c # cs \<Longrightarrow> \<exists>rest. visible rest = cs \<and> layout_loop width out pos stack = layout_loop width out pos (c # rest)"
  by (induction stack) (auto split: if_splits)

lemma visible_none: "visible stack = [] \<Longrightarrow> layout_loop width out pos stack = out"
  by (induction stack) (auto split: if_splits)

lemma visible_fits: "visible a = visible b \<Longrightarrow> fits remaining i d a = fits remaining i d b"
  using visible_reach[of a] visible_reach[of b] by (simp add: fits_reach)

lemma layout_loop_visible:
  "visible stack = visible stack' \<Longrightarrow> layout_loop width out pos stack = layout_loop width out pos stack'"
proof (induction width out pos stack arbitrary: stack' rule: layout_loop.induct)
  case (1 width out pos)
  then show ?case by (simp add: visible_none)
next
  case (2 width out pos indent mode d stack)
  show ?case
  proof (cases "d = Doc_Nil")
    case True
    with 2 show ?thesis by simp
  next
    case False
    with "2.prems" visible_head[of stack' "(indent, mode, d)" "visible stack" width out pos] obtain rest where
      r: "visible rest = visible stack"
        "layout_loop width out pos stack' = layout_loop width out pos ((indent, mode, d) # rest)" by auto
    note r' = r(1)[symmetric]
    have "layout_loop width out pos ((indent, mode, d) # stack) = layout_loop width out pos ((indent, mode, d) # rest)"
    proof (cases d)
      case Doc_Nil
      with False show ?thesis by simp
    next
      case (Doc_Text s)
      with "2.IH"(2)[OF Doc_Text r'] show ?thesis by simp
    next
      case Doc_Line
      with "2.IH"(3)[OF Doc_Line _ r'] "2.IH"(4)[OF Doc_Line _ r'] show ?thesis by (cases mode) simp_all
    next
      case Doc_SoftLine
      with "2.IH"(5)[OF Doc_SoftLine _ r'] "2.IH"(6)[OF Doc_SoftLine _ r'] show ?thesis by (cases mode) simp_all
    next
      case Doc_HardLine
      with "2.IH"(7)[OF Doc_HardLine r'] show ?thesis by simp
    next
      case (Doc_Concat parts)
      with "2.IH"(8)[OF Doc_Concat, of "map (\<lambda>p. (indent, mode, p)) parts @ rest"] r' show ?thesis by simp
    next
      case (Doc_Nest w inner)
      with "2.IH"(9)[OF Doc_Nest, of "(indent + w, mode, inner) # rest"] r' show ?thesis by simp
    next
      case (Doc_Group inner)
      let ?m = "if mode = Mode_Flat \<or> fits (int width - pos) indent inner stack then Mode_Flat else Mode_Break"
      from "2.IH"(10)[OF Doc_Group refl refl, of "(indent, ?m, inner) # rest"] r'
      have "layout_loop width out pos ((indent, ?m, inner) # stack) = layout_loop width out pos ((indent, ?m, inner) # rest)"
        by simp
      then show ?thesis unfolding Doc_Group by (simp add: Let_def visible_fits[OF r(1)])
    qed
    with r(2) show ?thesis by simp
  qed
qed

fun intersperse_doc :: "doc \<Rightarrow> doc list \<Rightarrow> doc list" where
  "intersperse_doc sep (a # b # items) = a # sep # intersperse_doc sep (b # items)"
| "intersperse_doc sep items = items"

lemma join_out_spec:
  "out \<noteq> [] \<Longrightarrow> join_out sep out items = out @ concat (map (\<lambda>i. [sep, i]) (filter (\<lambda>d. d \<noteq> Doc_Nil) items))"
  "join_out sep [] items = intersperse_doc sep (filter (\<lambda>d. d \<noteq> Doc_Nil) items)"
proof -
  show one: "join_out sep out items = out @ concat (map (\<lambda>i. [sep, i]) (filter (\<lambda>d. d \<noteq> Doc_Nil) items))"
    if "out \<noteq> []" for out items
    using that by (induction items arbitrary: out) auto
  have two: "intersperse_doc sep (i # is) = i # concat (map (\<lambda>i. [sep, i]) is)" for i "is"
    by (induction "is" arbitrary: i) auto
  show "join_out sep [] items = intersperse_doc sep (filter (\<lambda>d. d \<noteq> Doc_Nil) items)"
    by (induction items) (auto simp: one two)
qed

text \<open>
  C38. The smart constructors are layout-neutral: dropping absent parts and unwrapping singletons
  changes the layout at no width, and \<open>join\<close> puts its separator between the present items only.
\<close>

theorem smart_constructors:
  "layout (doc_concat docs) width = layout (Doc_Concat docs) width
   \<and> layout (nest w d) width = layout (Doc_Nest w d) width
   \<and> layout (doc_group d) width = layout (Doc_Group d) width
   \<and> layout (join sep items) width
     = layout (Doc_Concat (intersperse_doc sep (filter (\<lambda>d. d \<noteq> Doc_Nil) items))) width"
proof -
  have c: "layout (doc_concat docs) width = layout (Doc_Concat docs) width" for docs
  proof -
    let ?parts = "filter (\<lambda>d. d \<noteq> Doc_Nil) docs"
    have "visible (map (\<lambda>p. (0, Mode_Break, p)) docs) = map (\<lambda>p. (0, Mode_Break, p)) ?parts" by (induction docs) auto
    then have "layout (Doc_Concat docs) width = layout (Doc_Concat ?parts) width"
      unfolding layout_def by (simp, intro layout_loop_visible) (auto simp: visible_def filter_map o_def)
    moreover have "layout (doc_concat docs) width = layout (Doc_Concat ?parts) width"
      by (cases ?parts; cases "tl ?parts") (auto simp: doc_concat_def layout_def Let_def)
    ultimately show ?thesis by simp
  qed
  then show ?thesis
    by (auto simp: join_def join_out_spec nest_def doc_group_def layout_def Let_def)
qed

end
