(* ===== verification/Parse_Engine.thy ===== *)
theory Parse_Engine
  imports Token_Cursors Interner
begin

text \<open>
  The parser engine (\<open>crates/squonk/src/parser/engine.rs\<close>), its error type
  (\<open>crates/squonk/src/error.rs\<close>) and the clause marks it records
  (\<open>parser/clause_marks.rs\<close>). A grammar method is a function from the parser to an outcome and
  the parser afterwards; \<open>?\<close> is \<open>pbind\<close>, and a panic of the program is \<open>Parse_Panic\<close>.
\<close>

subsection \<open>Errors\<close>

datatype parse_error_kind = Pe_Syntax | Pe_RecursionLimitExceeded | Pe_Lexical lex_error_kind

datatype found = Found_Text source | EndOfInput

record parse_error =
  pe_span :: span
  pe_kind :: parse_error_kind
  pe_expected :: string
  pe_found :: found
  pe_hint :: "string option"

definition parse_error_new :: "span \<Rightarrow> string \<Rightarrow> found \<Rightarrow> parse_error" where
  "parse_error_new sp expected fnd =
     \<lparr>pe_span = sp, pe_kind = Pe_Syntax, pe_expected = expected, pe_found = fnd, pe_hint = None\<rparr>"

definition recursion_limit_error :: "span \<Rightarrow> parse_error" where
  "recursion_limit_error sp =
     \<lparr>pe_span = sp, pe_kind = Pe_RecursionLimitExceeded,
      pe_expected = ''input within the configured recursion-depth limit'',
      pe_found = Found_Text ''input nested past the recursion-depth limit'', pe_hint = None\<rparr>"

definition lexical_error :: "span \<Rightarrow> lex_error_kind \<Rightarrow> parse_error" where
  "lexical_error sp kind =
     \<lparr>pe_span = sp, pe_kind = Pe_Lexical kind, pe_expected = ''a well-formed SQL token'',
      pe_found = Found_Text (message kind), pe_hint = None\<rparr>"

definition with_hint :: "parse_error \<Rightarrow> string \<Rightarrow> parse_error" where
  "with_hint e hint = e\<lparr>pe_hint := Some hint\<rparr>"

text \<open>\<open>impl From<LexError> for ParseError\<close> (\<open>parser/mod.rs\<close>).\<close>

definition from_lex_error :: "lex_error \<Rightarrow> parse_error" where
  "from_lex_error e = lexical_error (lex_error_span e) (lex_error_kind e)"

text \<open>\<open>FailFastSink\<close> keeps the first report.\<close>

type_synonym fail_fast_sink = "parse_error option"

definition sink_report :: "parse_error \<Rightarrow> fail_fast_sink \<Rightarrow> fail_fast_sink" where
  "sink_report e sink = (if sink = None then Some e else sink)"

datatype parse_failure = Err parse_error | Parse_Panic

fun widen :: "lex_failure \<Rightarrow> parse_failure" where
  "widen (Lex e) = Err (from_lex_error e)"
| "widen Panic = Parse_Panic"

subsection \<open>Clause marks\<close>

datatype clause_kw =
    Ck_From | Ck_Where | Ck_ConnectBy | Ck_StartWith | Ck_GroupBy | Ck_Having | Ck_Window
  | Ck_Qualify | Ck_LateralView | Ck_OrderBy | Ck_Limit | Ck_Offset

definition PENDING_OWNER :: node_id where
  "PENDING_OWNER = NodeId u32_max"

record clause_mark =
  cm_owner :: node_id
  cm_kind :: clause_kw
  cm_offset :: nat

definition mark_pending :: "clause_kw \<Rightarrow> nat \<Rightarrow> clause_mark" where
  "mark_pending kind off = \<lparr>cm_owner = PENDING_OWNER, cm_kind = kind, cm_offset = off\<rparr>"

definition owner_is_pending :: "clause_mark \<Rightarrow> bool" where
  "owner_is_pending m \<longleftrightarrow> cm_owner m = PENDING_OWNER"

definition set_owner :: "node_id \<Rightarrow> clause_mark \<Rightarrow> clause_mark" where
  "set_owner owner m = m\<lparr>cm_owner := owner\<rparr>"

definition marks_in_span :: "clause_mark list \<Rightarrow> span \<Rightarrow> clause_mark list" where
  "marks_in_span marks sp =
     (if is_synthetic sp then []
      else let lo = partition_point (\<lambda>m. cm_offset m < span_start sp) marks;
               hi = partition_point (\<lambda>m. cm_offset m < span_end sp) marks
           in if lo \<ge> hi then [] else subslice marks lo hi)"

subsection \<open>The parser\<close>

text \<open>
  \<open>pa_unicode\<close> stands for the character tables of the standard library the scanner consults.
  The dialect is its feature set; its hooks are not modelled.
\<close>

record parser =
  pa_unicode :: unicode_tables
  pa_cursor :: buffered_cursor
  pa_source :: source
  pa_interner :: interner
  pa_errors :: fail_fast_sink
  pa_features :: feature_set
  pa_next_node_id :: nat
  pa_peeked :: "(nat \<times> (lex_failure + token option)) option"
  pa_recursion_depth :: nat
  pa_angle_gt_pending :: nat
  pa_recursion_limit :: nat
  pa_parse_float_as_decimal :: bool
  pa_paren_query_grouping :: bool
  pa_grouped_query_complete :: bool
  pa_restrict_b_expr :: bool
  pa_suppress_value_star :: bool
  pa_in_connect_by :: bool
  pa_capture_clause_marks :: bool
  pa_clause_marks :: "clause_mark list"
  pa_body_return_allowed :: bool

definition DEFAULT_RECURSION_LIMIT :: nat where
  "DEFAULT_RECURSION_LIMIT = 128"

definition from_cursor :: "unicode_tables \<Rightarrow> source \<Rightarrow> feature_set \<Rightarrow> buffered_cursor \<Rightarrow> parser" where
  "from_cursor u src f cursor =
     \<lparr>pa_unicode = u, pa_cursor = cursor, pa_source = src, pa_interner = interner_new, pa_errors = None,
      pa_features = f, pa_next_node_id = 1, pa_peeked = None, pa_recursion_depth = 0,
      pa_angle_gt_pending = 0, pa_recursion_limit = DEFAULT_RECURSION_LIMIT,
      pa_parse_float_as_decimal = False, pa_paren_query_grouping = False,
      pa_grouped_query_complete = False, pa_restrict_b_expr = False, pa_suppress_value_star = False,
      pa_in_connect_by = False, pa_capture_clause_marks = False, pa_clause_marks = [],
      pa_body_return_allowed = True\<rparr>"

definition parser_new :: "unicode_tables \<Rightarrow> source \<Rightarrow> token list \<Rightarrow> feature_set \<Rightarrow> parser" where
  "parser_new u src tokens f = from_cursor u src f (from_tokens tokens)"

definition parser_streaming :: "unicode_tables \<Rightarrow> source \<Rightarrow> feature_set \<Rightarrow> lex_failure + parser" where
  "parser_streaming u src f = map_sum id (from_cursor u src f) (streaming src f)"

definition parser_streaming_with_trivia :: "unicode_tables \<Rightarrow> source \<Rightarrow> feature_set \<Rightarrow> lex_failure + parser" where
  "parser_streaming_with_trivia u src f = map_sum id (from_cursor u src f) (streaming_with_trivia src f)"

definition set_recursion_limit :: "nat \<Rightarrow> parser \<Rightarrow> parser" where
  "set_recursion_limit limit p = p\<lparr>pa_recursion_limit := limit\<rparr>"

definition set_parse_float_as_decimal :: "bool \<Rightarrow> parser \<Rightarrow> parser" where
  "set_parse_float_as_decimal enabled p = p\<lparr>pa_parse_float_as_decimal := enabled\<rparr>"

definition with_clause_mark_capture :: "bool \<Rightarrow> parser \<Rightarrow> parser" where
  "with_clause_mark_capture enabled p = p\<lparr>pa_capture_clause_marks := enabled\<rparr>"

type_synonym 'a parse = "parser \<Rightarrow> (parse_failure + 'a) \<times> parser"

definition preturn :: "'a \<Rightarrow> 'a parse" where
  "preturn x p = (Inr x, p)"

definition pfail :: "parse_failure \<Rightarrow> 'a parse" where
  "pfail e p = (Inl e, p)"

definition pbind :: "'a parse \<Rightarrow> ('a \<Rightarrow> 'b parse) \<Rightarrow> 'b parse" where
  "pbind m k p = (case m p of (Inl e, p') \<Rightarrow> (Inl e, p') | (Inr x, p') \<Rightarrow> k x p')"

text \<open>Reading and writing the parser.\<close>

definition pget :: "(parser \<Rightarrow> 'a) \<Rightarrow> 'a parse" where
  "pget g p = (Inr (g p), p)"

definition pupdate :: "(parser \<Rightarrow> parser) \<Rightarrow> unit parse" where
  "pupdate g p = (Inr (), g p)"

subsection \<open>The token stream\<close>

definition peek_token :: "token option parse" where
  "peek_token p = (let pos = bc_pos (pa_cursor p) in
     case (case pa_peeked p of
             Some (cached_pos, cached) \<Rightarrow> if cached_pos = pos then Some cached else None
           | None \<Rightarrow> None) of
       Some cached \<Rightarrow> (map_sum widen id cached, p)
     | None \<Rightarrow>
         (case bc_peek (pa_unicode p) (pa_cursor p) of
            (result, cursor) \<Rightarrow>
              (map_sum widen id result, p\<lparr>pa_cursor := cursor, pa_peeked := Some (pos, result)\<rparr>)))"

definition peek_nth_token :: "nat \<Rightarrow> token option parse" where
  "peek_nth_token n p =
     (if n = 0 then peek_token p
      else (case bc_peek_nth (pa_unicode p) n (pa_cursor p) of
          (result, cursor) \<Rightarrow> (map_sum widen id result, p\<lparr>pa_cursor := cursor\<rparr>)))"

definition advance :: "token option parse" where
  "advance p = (case bc_advance (pa_unicode p) (pa_cursor p) of
      (result, cursor) \<Rightarrow> (map_sum widen id result, p\<lparr>pa_cursor := cursor\<rparr>))"

definition at_eof :: "bool parse" where
  "at_eof p = (case bc_is_eof (pa_unicode p) (pa_cursor p) of
      (result, cursor) \<Rightarrow> (map_sum widen id result, p\<lparr>pa_cursor := cursor\<rparr>))"

subsection \<open>Spans and source text\<close>

definition eof_span :: "parser \<Rightarrow> span" where
  "eof_span p = Span (length (pa_source p)) (length (pa_source p))"

definition current_span :: "span parse" where
  "current_span = pbind peek_token (\<lambda>t. pget (\<lambda>p. case t of Some tok \<Rightarrow> token_span tok | None \<Rightarrow> eof_span p))"

definition preceding_span :: "parser \<Rightarrow> span" where
  "preceding_span p = (case bc_preceding (pa_cursor p) of None \<Rightarrow> Span 0 0 | Some tok \<Rightarrow> token_span tok)"

definition span_text :: "span \<Rightarrow> source parse" where
  "span_text sp p = (case str_slice (pa_source p) (span_start sp) (span_end sp) of
      None \<Rightarrow> (Inl Parse_Panic, p) | Some s \<Rightarrow> (Inr s, p))"

subsection \<open>Interning and node identity\<close>

definition run_intern :: "(interner \<Rightarrow> (symbol \<times> interner) option) \<Rightarrow> symbol parse" where
  "run_intern g p = (case g (pa_interner p) of
      None \<Rightarrow> (Inl Parse_Panic, p)
    | Some (symb, it) \<Rightarrow> (Inr symb, p\<lparr>pa_interner := it\<rparr>))"

definition intern_identifier :: "token \<Rightarrow> symbol parse" where
  "intern_identifier tok = pbind (span_text (token_span tok)) (\<lambda>text_of. run_intern
     (case token_kind tok of
        Tk_Word \<Rightarrow> intern_nonkeyword text_of
      | Tk_Keyword kw \<Rightarrow> intern_keyword_ident kw text_of
      | _ \<Rightarrow> intern text_of))"

definition intern_text :: "source \<Rightarrow> symbol parse" where
  "intern_text s = run_intern (intern s)"

text \<open>The counter is a \<open>u32\<close>: the increment panics past its maximum.\<close>

definition next_node_id :: "node_id parse" where
  "next_node_id p = (case node_id_new (pa_next_node_id p) of
      None \<Rightarrow> (Inl Parse_Panic, p)
    | Some i \<Rightarrow>
        if u32_max \<le> pa_next_node_id p then (Inl Parse_Panic, p)
        else (Inr i, p\<lparr>pa_next_node_id := pa_next_node_id p + 1\<rparr>))"

definition make_meta :: "span \<Rightarrow> meta parse" where
  "make_meta sp = pbind next_node_id (\<lambda>i. preturn \<lparr>meta_span = sp, meta_node_id = i\<rparr>)"

subsection \<open>Reporting\<close>

definition report :: "parse_error \<Rightarrow> unit parse" where
  "report e = pupdate (\<lambda>p. p\<lparr>pa_errors := sink_report e (pa_errors p)\<rparr>)"

definition report_and_fail :: "parse_error \<Rightarrow> 'a parse" where
  "report_and_fail e = pbind (report e) (\<lambda>_. pfail (Err e))"

definition error_at :: "span \<Rightarrow> string \<Rightarrow> found \<Rightarrow> 'a parse" where
  "error_at sp expected fnd = report_and_fail (parse_error_new sp expected fnd)"

definition unexpected :: "string \<Rightarrow> 'a parse" where
  "unexpected expected p = (case peek_token p of
      (Inr (Some tok), p') \<Rightarrow>
        pbind (span_text (token_span tok)) (\<lambda>s. error_at (token_span tok) expected (Found_Text s)) p'
    | (Inr None, p') \<Rightarrow> error_at (eof_span p') expected EndOfInput p'
    | (Inl (Err e), p') \<Rightarrow> report_and_fail e p'
    | (Inl Parse_Panic, p') \<Rightarrow> (Inl Parse_Panic, p'))"

subsection \<open>The recursion guard\<close>

text \<open>
  \<open>enter_recursion\<close> with the guard's \<open>Drop\<close>: the guarded production runs one level deeper and
  every way out of it restores the depth. (Decrementing a zero depth would be a panic; the depth
  is positive where the guard is dropped.)
\<close>

definition recursion_limit_exceeded :: "span \<Rightarrow> 'a parse" where
  "recursion_limit_exceeded sp = report_and_fail (recursion_limit_error sp)"

definition leave_recursion :: "parser \<Rightarrow> parser" where
  "leave_recursion p = p\<lparr>pa_recursion_depth := pa_recursion_depth p - 1\<rparr>"

definition guarded :: "span \<Rightarrow> 'a parse \<Rightarrow> 'a parse" where
  "guarded sp m p =
     (if pa_recursion_limit p \<le> pa_recursion_depth p then recursion_limit_exceeded sp p
      else map_prod id leave_recursion (m (p\<lparr>pa_recursion_depth := pa_recursion_depth p + 1\<rparr>)))"

subsection \<open>Speculation and recovery\<close>

definition checkpoint :: "parser \<Rightarrow> nat" where
  "checkpoint p = bc_pos (pa_cursor p)"

definition rewind :: "nat \<Rightarrow> parser \<Rightarrow> parser" where
  "rewind cp p = p\<lparr>pa_cursor := bc_seek cp (pa_cursor p)\<rparr>"

definition discard_consumed_tokens :: "parser \<Rightarrow> parser" where
  "discard_consumed_tokens p = p\<lparr>pa_cursor := discard_consumed (pa_cursor p)\<rparr>"

text \<open>The loop over \<open>advance\<close>: not returning would be the value \<open>None\<close>.\<close>

partial_function (option) recover_to_statement_boundary :: "parser \<Rightarrow> ((parse_failure + bool) \<times> parser) option" where
  "recover_to_statement_boundary p = (case advance p of
      (Inl e, p') \<Rightarrow> Some (Inl e, p')
    | (Inr None, p') \<Rightarrow> Some (Inr False, p')
    | (Inr (Some tok), p') \<Rightarrow>
        if token_kind tok = Tk_Punctuation P_Semicolon then Some (Inr True, p')
        else recover_to_statement_boundary p')"

subsection \<open>Clause-mark recording\<close>

definition clause_marks_checkpoint :: "parser \<Rightarrow> nat" where
  "clause_marks_checkpoint p = length (pa_clause_marks p)"

definition truncate_clause_marks :: "nat \<Rightarrow> parser \<Rightarrow> parser" where
  "truncate_clause_marks cp p = p\<lparr>pa_clause_marks := take cp (pa_clause_marks p)\<rparr>"

definition record_clause_mark :: "clause_kw \<Rightarrow> nat \<Rightarrow> parser \<Rightarrow> parser" where
  "record_clause_mark kind off p = p\<lparr>pa_clause_marks := pa_clause_marks p @ [mark_pending kind off]\<rparr>"

text \<open>Slicing from a checkpoint beyond the buffer panics.\<close>

definition patch_clause_marks :: "nat \<Rightarrow> node_id \<Rightarrow> unit parse" where
  "patch_clause_marks cp owner p =
     (if length (pa_clause_marks p) < cp then (Inl Parse_Panic, p)
      else (Inr (), p\<lparr>pa_clause_marks := take cp (pa_clause_marks p)
          @ map (\<lambda>m. if owner_is_pending m then set_owner owner m else m) (drop cp (pa_clause_marks p))\<rparr>))"

definition take_clause_marks :: "parser \<Rightarrow> clause_mark list \<times> parser" where
  "take_clause_marks p = (pa_clause_marks p, p\<lparr>pa_clause_marks := []\<rparr>)"

subsection \<open>One-shot flags and the end of a parse\<close>

definition take_paren_query_grouping :: "parser \<Rightarrow> bool \<times> parser" where
  "take_paren_query_grouping p = (pa_paren_query_grouping p, p\<lparr>pa_paren_query_grouping := False\<rparr>)"

definition set_paren_query_grouping :: "bool \<Rightarrow> parser \<Rightarrow> parser" where
  "set_paren_query_grouping grouping p = p\<lparr>pa_paren_query_grouping := grouping\<rparr>"

definition mark_grouped_query_complete :: "parser \<Rightarrow> parser" where
  "mark_grouped_query_complete p = p\<lparr>pa_grouped_query_complete := True\<rparr>"

definition take_grouped_query_complete :: "parser \<Rightarrow> bool \<times> parser" where
  "take_grouped_query_complete p = (pa_grouped_query_complete p, p\<lparr>pa_grouped_query_complete := False\<rparr>)"

definition parser_take_trivia :: "parser \<Rightarrow> trivia_index \<times> parser" where
  "parser_take_trivia p = (case take_trivia (pa_cursor p) of (ix, c) \<Rightarrow> (ix, p\<lparr>pa_cursor := c\<rparr>))"

definition parser_finish :: "parser \<Rightarrow> frozen_resolver" where
  "parser_finish p = freeze (pa_interner p)"

subsection \<open>Lexical predicates\<close>

text \<open>The shared checks of the grammar (\<open>crates/squonk/src/parser/query.rs\<close>).\<close>

definition peek_is_keyword :: "keyword \<Rightarrow> bool parse" where
  "peek_is_keyword kw = pbind peek_token (\<lambda>t. preturn (case t of
      Some tok \<Rightarrow> token_kind tok = Tk_Keyword kw | None \<Rightarrow> False))"

definition peek_nth_is_keyword :: "nat \<Rightarrow> keyword \<Rightarrow> bool parse" where
  "peek_nth_is_keyword n kw = pbind (peek_nth_token n) (\<lambda>t. preturn (case t of
      Some tok \<Rightarrow> token_kind tok = Tk_Keyword kw | None \<Rightarrow> False))"

definition eat_if :: "bool parse \<Rightarrow> bool parse" where
  "eat_if check = pbind check (\<lambda>yes.
     if yes then pbind advance (\<lambda>_. preturn True) else preturn False)"

definition eat_keyword :: "keyword \<Rightarrow> bool parse" where
  "eat_keyword kw = eat_if (peek_is_keyword kw)"

definition backticked :: "string \<Rightarrow> string" where
  "backticked s = CHR 0x60 # map to_ascii_uppercase s @ [CHR 0x60]"

definition expect_keyword :: "keyword \<Rightarrow> unit parse" where
  "expect_keyword kw = pbind (eat_keyword kw) (\<lambda>yes.
     if yes then preturn () else unexpected (backticked (keyword_as_str kw)))"

definition eq_ignore_ascii_case :: "source \<Rightarrow> source \<Rightarrow> bool" where
  "eq_ignore_ascii_case a b \<longleftrightarrow> map to_ascii_lowercase a = map to_ascii_lowercase b"

definition token_is_contextual_keyword :: "token \<Rightarrow> string \<Rightarrow> bool parse" where
  "token_is_contextual_keyword tok expected = (case token_kind tok of
      Tk_Word \<Rightarrow> pbind (span_text (token_span tok)) (\<lambda>s. preturn (eq_ignore_ascii_case s expected))
    | Tk_Keyword _ \<Rightarrow> pbind (span_text (token_span tok)) (\<lambda>s. preturn (eq_ignore_ascii_case s expected))
    | _ \<Rightarrow> preturn False)"

definition peek_nth_is_contextual_keyword :: "nat \<Rightarrow> string \<Rightarrow> bool parse" where
  "peek_nth_is_contextual_keyword n expected = pbind (peek_nth_token n) (\<lambda>t. case t of
      Some tok \<Rightarrow> token_is_contextual_keyword tok expected | None \<Rightarrow> preturn False)"

definition peek_is_contextual_keyword :: "string \<Rightarrow> bool parse" where
  "peek_is_contextual_keyword expected = pbind peek_token (\<lambda>t. case t of
      Some tok \<Rightarrow> token_is_contextual_keyword tok expected | None \<Rightarrow> preturn False)"

definition eat_contextual_keyword :: "string \<Rightarrow> bool parse" where
  "eat_contextual_keyword expected = eat_if (peek_is_contextual_keyword expected)"

definition expect_contextual_keyword :: "string \<Rightarrow> unit parse" where
  "expect_contextual_keyword expected = pbind (eat_contextual_keyword expected) (\<lambda>yes.
     if yes then preturn () else unexpected (backticked expected))"

fun token_admissible :: "token \<Rightarrow> keyword_set \<Rightarrow> bool" where
  "token_admissible (Token Tk_Word sp) reserved \<longleftrightarrow> True"
| "token_admissible (Token Tk_QuotedIdent sp) reserved \<longleftrightarrow> True"
| "token_admissible (Token (Tk_Keyword kw) sp) reserved \<longleftrightarrow> \<not> keyword_set_contains reserved kw"
| "token_admissible _ reserved \<longleftrightarrow> False"

definition peek_is_punct :: "punctuation \<Rightarrow> bool parse" where
  "peek_is_punct punct = pbind peek_token (\<lambda>t. preturn (case t of
      Some tok \<Rightarrow> token_kind tok = Tk_Punctuation punct | None \<Rightarrow> False))"

definition peek_nth_is_punct :: "nat \<Rightarrow> punctuation \<Rightarrow> bool parse" where
  "peek_nth_is_punct n punct = pbind (peek_nth_token n) (\<lambda>t. preturn (case t of
      Some tok \<Rightarrow> token_kind tok = Tk_Punctuation punct | None \<Rightarrow> False))"

definition eat_punct :: "punctuation \<Rightarrow> bool parse" where
  "eat_punct punct = eat_if (peek_is_punct punct)"

definition expect_punct :: "punctuation \<Rightarrow> string \<Rightarrow> unit parse" where
  "expect_punct punct expected = pbind (eat_punct punct) (\<lambda>yes.
     if yes then preturn () else unexpected expected)"

definition peek_is_op :: "operator \<Rightarrow> bool parse" where
  "peek_is_op opr = pbind peek_token (\<lambda>t. preturn (case t of
      Some tok \<Rightarrow> token_kind tok = Tk_Operator opr | None \<Rightarrow> False))"

definition peek_nth_is_op :: "nat \<Rightarrow> operator \<Rightarrow> bool parse" where
  "peek_nth_is_op n opr = pbind (peek_nth_token n) (\<lambda>t. preturn (case t of
      Some tok \<Rightarrow> token_kind tok = Tk_Operator opr | None \<Rightarrow> False))"

definition eat_op :: "operator \<Rightarrow> bool parse" where
  "eat_op opr = eat_if (peek_is_op opr)"

end
