(* ===== verification/Parse_Views.thy ===== *)
theory Parse_Views
  imports Parse_Engine
begin

text \<open>
  What a grammar method depends on: the tokens ahead of it, and not how they are supplied. A
  method is \<open>agnostic\<close> when its outcome is the same on any two parsers that view one token
  production from one position, whatever is buffered, scanned ahead or memoized. Agnostic
  methods have a meaning over the bare token list, \<open>on_tokens\<close>, which the grammar proofs run.
\<close>

subsection \<open>Cursors that hold a production\<close>

definition cursor_view :: "unicode_tables \<Rightarrow> token list \<Rightarrow> lex_failure option \<Rightarrow> buffered_cursor \<Rightarrow> bool" where
  "cursor_view u ts out bc \<longleftrightarrow>
     (\<exists>f. stream_refines u f ts out bc) \<and> bc_pos bc \<le> bc_buffer_start bc + length (bc_buffer bc)
     \<or> bc_source bc = SliceSource ts \<and> out = None \<and> bc_buffer_start bc = 0 \<and> bc_pos bc \<le> length ts"

lemma scan_while_grows:
  "scan_while u f target start ss buffer sink = (r, ss', buffer', sink') \<Longrightarrow> length buffer \<le> length buffer'"
proof (induction u f target start ss buffer sink rule: scan_while.induct)
  case (1 u f target start ss buffer sink)
  show ?case
  proof (cases "\<not> ss_reached_eof ss \<and> start + length buffer \<le> target")
    case True
    note run = 1(3)[unfolded scan_while.simps[of u f target start ss buffer sink] if_P[OF True]]
    show ?thesis
    proof (cases "next_token u f sink (ss_lex ss) (ss_cursor ss)")
      case (Inl e)
      with run show ?thesis by (cases e) auto
    next
      case (Inr x)
      obtain tok c' s st' where x: "x = (tok, c', s, st')" by (cases x)
      show ?thesis
      proof (cases tok)
        case None
        with 1(1)[OF True Inr x[symmetric] None refl refl] run Inr x show ?thesis by simp
      next
        case (Some t)
        with 1(2)[OF True Inr x[symmetric] Some refl refl] run Inr x show ?thesis by simp
      qed
    qed
  next
    case False
    then have "scan_while u f target start ss buffer sink = (Inr (), ss, buffer, sink)"
      by (subst scan_while.simps) (simp only: if_False)
    with 1(3) show ?thesis by simp
  qed
qed

lemma fill_through_grows:
  "fill_through u target bc = (r, bc') \<Longrightarrow> length (bc_buffer bc) \<le> length (bc_buffer bc')"
  by (auto simp: fill_through_def scan_loop_def dest: scan_while_grows
      split: buffered_source.splits option.splits prod.splits)

lemma peek_nth_grows:
  "bc_peek_nth u n bc = (r, bc') \<Longrightarrow> length (bc_buffer bc) \<le> length (bc_buffer bc')"
  by (auto simp: bc_peek_nth_def Let_def dest: fill_through_grows
      split: buffered_source.splits option.splits prod.splits sum.splits)

lemma peek_nth_buffers:
  "bc_peek_nth u n bc = (Inr (Some t), bc') \<Longrightarrow> bc_source bc = StreamSource ss
     \<Longrightarrow> buffered_token bc' (bc_pos bc + n) = Some t"
  by (auto simp: bc_peek_nth_def Let_def split: option.splits prod.splits sum.splits)

lemma view_peek_nth:
  assumes "cursor_view u ts out bc" "bc_peek_nth u n bc = (r, bc')"
  shows "r = ideal_peek ts out (bc_pos bc + n) \<and> cursor_view u ts out bc' \<and> bc_pos bc' = bc_pos bc
    \<and> bc_buffer_start bc' = bc_buffer_start bc"
  using assms peek_nth_grows[OF assms(2)] bc_peek_nth_refines[OF _ assms(2)]
  by (fastforce simp: cursor_view_def bc_peek_nth_def Let_def ideal_peek_def get_at_def)

lemma view_advance:
  assumes "cursor_view u ts out bc" "bc_advance u bc = (r, bc')"
  shows "r = ideal_peek ts out (bc_pos bc) \<and> cursor_view u ts out bc'
    \<and> bc_pos bc' = (if bc_pos bc < length ts then bc_pos bc + 1 else bc_pos bc)
    \<and> bc_buffer_start bc' = bc_buffer_start bc"
proof -
  obtain r2 bc2 where p: "bc_peek_nth u 0 bc = (r2, bc2)" by fastforce
  note v = view_peek_nth[OF assms(1) p]
  have a: "r = r2" "bc' = (if \<exists>t. r2 = Inr (Some t) then bc2\<lparr>bc_pos := bc_pos bc2 + 1\<rparr> else bc2)"
    using assms(2) p by (auto simp: bc_advance_def bc_peek_def split: sum.splits option.splits)
  show ?thesis
  proof (cases "bc_pos bc < length ts")
    case True
    then have t: "r2 = Inr (Some (ts ! bc_pos bc))" using v by (simp add: ideal_peek_def)
    have "cursor_view u ts out bc'"
    proof (cases "bc_source bc")
      case (SliceSource x)
      with p have "bc2 = bc" by (simp add: bc_peek_nth_def Let_def)
      with True SliceSource t a assms(1) show ?thesis by (auto simp: cursor_view_def stream_refines_def)
    next
      case (StreamSource ss)
      from peek_nth_buffers[OF p[unfolded t] this] have "bc_pos bc < bc_buffer_start bc2 + length (bc_buffer bc2)"
        by (auto simp: buffered_token_def get_at_def split: if_splits)
      moreover have "\<exists>f. stream_refines u f ts out bc2"
      proof -
        from assms(1) StreamSource obtain f where "stream_refines u f ts out bc" by (auto simp: cursor_view_def)
        from bc_peek_nth_refines[OF this p] show ?thesis by blast
      qed
      ultimately show ?thesis using v t a by (auto simp: cursor_view_def stream_refines_def)
    qed
    with True t a v show ?thesis by (simp add: ideal_peek_def)
  next
    case False
    with a v show ?thesis by (auto simp: ideal_peek_def split: option.splits)
  qed
qed

lemma view_is_eof:
  assumes "cursor_view u ts out bc" "bc_is_eof u bc = (r, bc')"
  shows "r = map_sum id (\<lambda>t. t = None) (ideal_peek ts out (bc_pos bc)) \<and> cursor_view u ts out bc'
    \<and> bc_pos bc' = bc_pos bc \<and> bc_buffer_start bc' = bc_buffer_start bc"
proof -
  obtain r2 bc2 where p: "bc_peek_nth u 0 bc = (r2, bc2)" by fastforce
  from view_peek_nth[OF assms(1) p] assms(2) p show ?thesis
    by (auto simp: bc_is_eof_def bc_peek_def split: sum.splits)
qed

lemma view_preceding:
  assumes "cursor_view u ts out bc"
  shows "bc_preceding bc = (if bc_buffer_start bc < bc_pos bc then get_at ts (bc_pos bc - 1) else None)"
proof (cases "bc_source bc")
  case (SliceSource x)
  with assms show ?thesis by (auto simp: cursor_view_def bc_preceding_def stream_refines_def)
next
  case (StreamSource ss)
  with assms obtain f where r: "stream_refines u f ts out bc" "bc_pos bc \<le> bc_buffer_start bc + length (bc_buffer bc)"
    by (auto simp: cursor_view_def)
  moreover have "bc_buffer_start bc + length (bc_buffer bc) \<le> length ts"
    using r(1) by (auto simp: stream_refines_def stream_at_def)
  moreover have "bc_buffer_start bc \<le> bc_pos bc" using r(1) by (simp add: stream_refines_def)
  ultimately show ?thesis
    using refined_token[OF r(1), of "bc_pos bc - 1"] StreamSource
    by (auto simp: bc_preceding_def get_at_def buffered_token_def)
qed

lemma view_pos: "cursor_view u ts out bc \<Longrightarrow> bc_buffer_start bc \<le> bc_pos bc \<and> bc_pos bc \<le> length ts \<and> out \<noteq> Some Panic"
  by (auto simp: cursor_view_def stream_refines_def stream_at_def)

lemma view_seek:
  "cursor_view u ts out bc \<Longrightarrow> bc_buffer_start bc \<le> j \<Longrightarrow> j \<le> bc_pos bc \<Longrightarrow> cursor_view u ts out (bc_seek j bc)"
  by (auto simp: cursor_view_def bc_seek_def stream_refines_def)

lemma view_discard:
  assumes "cursor_view u ts out bc"
  shows "cursor_view u ts out (discard_consumed bc) \<and> bc_pos (discard_consumed bc) = bc_pos bc"
proof -
  have "bc_pos bc \<le> bc_buffer_start (discard_consumed bc) + length (bc_buffer (discard_consumed bc))
      \<or> (\<exists>x. bc_source bc = SliceSource x)"
    using assms by (auto simp: cursor_view_def discard_consumed_def Let_def min_def stream_refines_def
        split: buffered_source.splits)
  with assms discard_consumed_refines[of u _ ts out bc] show ?thesis
    by (auto simp: cursor_view_def discard_consumed_def stream_refines_def split: buffered_source.splits)
qed

subsection \<open>Parsers that view a production\<close>

definition p_view :: "token list \<Rightarrow> lex_failure option \<Rightarrow> parser \<Rightarrow> bool" where
  "p_view ts out p \<longleftrightarrow> cursor_view (pa_unicode p) ts out (pa_cursor p)
     \<and> (case pa_peeked p of None \<Rightarrow> True | Some (cp, r) \<Rightarrow> r = ideal_peek ts out cp)"

definition p_pos :: "parser \<Rightarrow> nat" where
  "p_pos p = bc_pos (pa_cursor p)"

definition p_base :: "parser \<Rightarrow> nat" where
  "p_base p = bc_buffer_start (pa_cursor p)"

text \<open>The state of a parser apart from its token supply and the memoized peek.\<close>

definition strip :: "parser \<Rightarrow> parser" where
  "strip p = p\<lparr>pa_cursor := from_tokens [], pa_peeked := None\<rparr>"

text \<open>The tokens ahead of a parser, and the one it consumed last, if the cursor still has it.\<close>

definition p_ahead :: "token list \<Rightarrow> parser \<Rightarrow> token list" where
  "p_ahead ts p = drop (p_pos p) ts"

definition p_behind :: "token list \<Rightarrow> parser \<Rightarrow> token option" where
  "p_behind ts p = (if p_base p < p_pos p then get_at ts (p_pos p - 1) else None)"

definition twins :: "token list \<Rightarrow> token list \<Rightarrow> lex_failure option \<Rightarrow> parser \<Rightarrow> parser \<Rightarrow> bool" where
  "twins ts us out p q \<longleftrightarrow> p_view ts out p \<and> p_view us out q
     \<and> p_ahead ts p = p_ahead us q \<and> p_behind ts p = p_behind us q \<and> strip p = strip q"

definition agnostic :: "'a parse \<Rightarrow> bool" where
  "agnostic m \<longleftrightarrow> (\<forall>ts us out p q. twins ts us out p q \<longrightarrow>
     fst (m p) = fst (m q) \<and> twins ts us out (snd (m p)) (snd (m q)) \<and> p_base (snd (m p)) = p_base p)"

lemma strip_fields:
  assumes "strip p = strip q"
  shows "pa_unicode p = pa_unicode q" "pa_source p = pa_source q" "pa_interner p = pa_interner q"
    "pa_errors p = pa_errors q" "pa_features p = pa_features q" "pa_next_node_id p = pa_next_node_id q"
    "pa_recursion_depth p = pa_recursion_depth q" "pa_recursion_limit p = pa_recursion_limit q"
    "pa_parse_float_as_decimal p = pa_parse_float_as_decimal q" "pa_clause_marks p = pa_clause_marks q"
    "pa_capture_clause_marks p = pa_capture_clause_marks q" "pa_angle_gt_pending p = pa_angle_gt_pending q"
    "pa_paren_query_grouping p = pa_paren_query_grouping q" "pa_grouped_query_complete p = pa_grouped_query_complete q"
    "pa_restrict_b_expr p = pa_restrict_b_expr q" "pa_suppress_value_star p = pa_suppress_value_star q"
    "pa_in_connect_by p = pa_in_connect_by q" "pa_body_return_allowed p = pa_body_return_allowed q"
  using assms by (cases p; cases q; simp add: strip_def)+

lemma strip_updates [simp]:
  "strip (p\<lparr>pa_cursor := c\<rparr>) = strip p" "strip (p\<lparr>pa_peeked := k\<rparr>) = strip p"
  "strip (p\<lparr>pa_cursor := c, pa_peeked := k\<rparr>) = strip p" "strip (strip p) = strip p"
  by (simp_all add: strip_def)

lemma p_view_pos: "p_view ts out p \<Longrightarrow> p_base p \<le> p_pos p \<and> p_pos p \<le> length ts \<and> out \<noteq> Some Panic"
  using view_pos by (auto simp: p_view_def p_pos_def p_base_def)

text \<open>How a method that only reads the supply moves.\<close>

definition reads :: "'a parse \<Rightarrow> (token list \<Rightarrow> lex_failure option \<Rightarrow> token option \<Rightarrow> parse_failure + 'a) \<Rightarrow> bool" where
  "reads m g \<longleftrightarrow> (\<forall>ts out p. p_view ts out p \<longrightarrow>
     fst (m p) = g (p_ahead ts p) out (p_behind ts p) \<and> p_view ts out (snd (m p))
     \<and> p_pos (snd (m p)) = p_pos p \<and> p_base (snd (m p)) = p_base p \<and> strip (snd (m p)) = strip p)"

lemma ideal_peek_ahead: "p_view ts out p \<Longrightarrow> ideal_peek ts out (p_pos p + n) = ideal_peek (p_ahead ts p) out n"
  using p_view_pos[of ts out p] by (auto simp: ideal_peek_def p_ahead_def)

lemma cursor_reads:
  assumes "p_view ts out p" "cursor_view (pa_unicode p) ts out c" "bc_pos c = bc_pos (pa_cursor p)"
    "bc_buffer_start c = bc_buffer_start (pa_cursor p)"
    "m p = (map_sum widen h (ideal_peek ts out (p_pos p + n)), p\<lparr>pa_cursor := c\<rparr>)
     \<or> m p = (map_sum widen h (ideal_peek ts out (p_pos p + n)),
         p\<lparr>pa_cursor := c, pa_peeked := Some (p_pos p + n, ideal_peek ts out (p_pos p + n))\<rparr>)"
  shows "fst (m p) = map_sum widen h (ideal_peek (p_ahead ts p) out n) \<and> p_view ts out (snd (m p))
     \<and> p_pos (snd (m p)) = p_pos p \<and> p_base (snd (m p)) = p_base p \<and> strip (snd (m p)) = strip p"
  using assms ideal_peek_ahead[OF assms(1), of n]
  by (auto simp: p_view_def p_pos_def p_base_def)

lemma peek_reads: "reads peek_token (\<lambda>rest out prev. map_sum widen id (ideal_peek rest out 0))"
  unfolding reads_def
proof (intro allI impI)
  fix ts out p assume v: "p_view ts out p"
  obtain r c where b: "bc_peek_nth (pa_unicode p) 0 (pa_cursor p) = (r, c)" by fastforce
  have "cursor_view (pa_unicode p) ts out (pa_cursor p)" using v by (simp add: p_view_def)
  from view_peek_nth[OF this b] have c: "r = ideal_peek ts out (p_pos p)" "cursor_view (pa_unicode p) ts out c"
      "bc_pos c = bc_pos (pa_cursor p)" "bc_buffer_start c = bc_buffer_start (pa_cursor p)"
    by (simp_all add: p_pos_def)
  show "fst (peek_token p) = map_sum widen id (ideal_peek (p_ahead ts p) out 0) \<and> p_view ts out (snd (peek_token p))
     \<and> p_pos (snd (peek_token p)) = p_pos p \<and> p_base (snd (peek_token p)) = p_base p
     \<and> strip (snd (peek_token p)) = strip p"
  proof (cases "\<exists>cached. pa_peeked p = Some (p_pos p, cached)")
    case True
    with v have "peek_token p = (map_sum widen id (ideal_peek ts out (p_pos p)), p)"
      by (auto simp: peek_token_def p_view_def p_pos_def Let_def)
    with v ideal_peek_ahead[OF v, of 0] show ?thesis by simp
  next
    case False
    then have "(case pa_peeked p of Some (cp, cached) \<Rightarrow> if cp = bc_pos (pa_cursor p) then Some cached else None | None \<Rightarrow> None) = None"
      by (auto simp: p_pos_def split: option.split)
    with b c(1) have "peek_token p = (map_sum widen id (ideal_peek ts out (p_pos p)),
        p\<lparr>pa_cursor := c, pa_peeked := Some (p_pos p, ideal_peek ts out (p_pos p))\<rparr>)"
      by (simp add: peek_token_def bc_peek_def Let_def p_pos_def)
    with cursor_reads[OF v c(2-4), of peek_token id 0] show ?thesis by simp
  qed
qed

lemma peek_nth_reads: "reads (peek_nth_token n) (\<lambda>rest out prev. map_sum widen id (ideal_peek rest out n))"
proof (cases "n = 0")
  case True
  then have "peek_nth_token n = peek_token" by (simp add: fun_eq_iff peek_nth_token_def)
  with peek_reads True show ?thesis by simp
next
  case False
  show ?thesis unfolding reads_def
  proof (intro allI impI)
    fix ts out p assume v: "p_view ts out p"
    obtain r c where b: "bc_peek_nth (pa_unicode p) n (pa_cursor p) = (r, c)" by fastforce
    have "cursor_view (pa_unicode p) ts out (pa_cursor p)" using v by (simp add: p_view_def)
    from view_peek_nth[OF this b] have c: "r = ideal_peek ts out (p_pos p + n)" "cursor_view (pa_unicode p) ts out c"
        "bc_pos c = bc_pos (pa_cursor p)" "bc_buffer_start c = bc_buffer_start (pa_cursor p)"
      by (simp_all add: p_pos_def)
    show "fst (peek_nth_token n p) = map_sum widen id (ideal_peek (p_ahead ts p) out n) \<and> p_view ts out (snd (peek_nth_token n p))
       \<and> p_pos (snd (peek_nth_token n p)) = p_pos p \<and> p_base (snd (peek_nth_token n p)) = p_base p
       \<and> strip (snd (peek_nth_token n p)) = strip p"
      by (rule cursor_reads[OF v c(2-4)]) (use b c(1) False in \<open>simp add: peek_nth_token_def id_def\<close>)
  qed
qed

lemma at_eof_reads: "reads at_eof (\<lambda>rest out prev. map_sum widen (\<lambda>t. t = None) (ideal_peek rest out 0))"
  unfolding reads_def
proof (intro allI impI)
  fix ts out p assume v: "p_view ts out p"
  obtain r c where b: "bc_is_eof (pa_unicode p) (pa_cursor p) = (r, c)" by fastforce
  have "cursor_view (pa_unicode p) ts out (pa_cursor p)" using v by (simp add: p_view_def)
  from view_is_eof[OF this b] have c: "r = map_sum id (\<lambda>t. t = None) (ideal_peek ts out (p_pos p))"
      "cursor_view (pa_unicode p) ts out c"
      "bc_pos c = bc_pos (pa_cursor p)" "bc_buffer_start c = bc_buffer_start (pa_cursor p)"
    by (simp_all add: p_pos_def)
  show "fst (at_eof p) = map_sum widen (\<lambda>t. t = None) (ideal_peek (p_ahead ts p) out 0) \<and> p_view ts out (snd (at_eof p))
     \<and> p_pos (snd (at_eof p)) = p_pos p \<and> p_base (snd (at_eof p)) = p_base p \<and> strip (snd (at_eof p)) = strip p"
    by (rule cursor_reads[OF v c(2-4)]) (use b c(1) in \<open>simp add: at_eof_def sum.map_comp o_def\<close>)
qed

lemma preceding_reads:
  "reads (pget (\<lambda>p. g (preceding_span p)))
     (\<lambda>rest out prev. Inr (g (case prev of None \<Rightarrow> Span 0 0 | Some tok \<Rightarrow> token_span tok)))"
  unfolding reads_def
proof (intro allI impI)
  fix ts out p assume v: "p_view ts out p"
  then have "cursor_view (pa_unicode p) ts out (pa_cursor p)" by (simp add: p_view_def)
  from view_preceding[OF this] v
  show "fst (pget (\<lambda>p. g (preceding_span p)) p) = Inr (g (case p_behind ts p of None \<Rightarrow> Span 0 0 | Some tok \<Rightarrow> token_span tok))
     \<and> p_view ts out (snd (pget (\<lambda>p. g (preceding_span p)) p))
     \<and> p_pos (snd (pget (\<lambda>p. g (preceding_span p)) p)) = p_pos p
     \<and> p_base (snd (pget (\<lambda>p. g (preceding_span p)) p)) = p_base p
     \<and> strip (snd (pget (\<lambda>p. g (preceding_span p)) p)) = strip p"
    by (simp add: pget_def preceding_span_def p_behind_def p_pos_def p_base_def)
qed

lemma advance_view:
  assumes "p_view ts out p"
  shows "fst (advance p) = map_sum widen id (ideal_peek (p_ahead ts p) out 0) \<and> p_view ts out (snd (advance p))
    \<and> p_ahead ts (snd (advance p)) = tl (p_ahead ts p)
    \<and> p_behind ts (snd (advance p)) = (case p_ahead ts p of [] \<Rightarrow> p_behind ts p | t # _ \<Rightarrow> Some t)
    \<and> p_pos (snd (advance p)) = (if p_pos p < length ts then p_pos p + 1 else p_pos p)
    \<and> p_base (snd (advance p)) = p_base p \<and> strip (snd (advance p)) = strip p"
proof -
  obtain r c where b: "bc_advance (pa_unicode p) (pa_cursor p) = (r, c)" by fastforce
  have "cursor_view (pa_unicode p) ts out (pa_cursor p)" using assms by (simp add: p_view_def)
  from view_advance[OF this b] have c: "r = ideal_peek ts out (p_pos p)" "cursor_view (pa_unicode p) ts out c"
      "bc_pos c = (if p_pos p < length ts then p_pos p + 1 else p_pos p)" "bc_buffer_start c = p_base p"
    by (simp_all add: p_pos_def p_base_def)
  have a: "advance p = (map_sum widen id r, p\<lparr>pa_cursor := c\<rparr>)" using b by (simp add: advance_def)
  have v: "p_view ts out (p\<lparr>pa_cursor := c\<rparr>)" "p_pos (p\<lparr>pa_cursor := c\<rparr>) = bc_pos c" "p_base (p\<lparr>pa_cursor := c\<rparr>) = p_base p"
    using assms c(2,4) by (auto simp: p_view_def p_pos_def p_base_def)
  have base: "p_base p \<le> p_pos p" using p_view_pos[OF assms] by simp
  have "p_ahead ts (p\<lparr>pa_cursor := c\<rparr>) = tl (p_ahead ts p)
      \<and> p_behind ts (p\<lparr>pa_cursor := c\<rparr>) = (case p_ahead ts p of [] \<Rightarrow> p_behind ts p | t # _ \<Rightarrow> Some t)"
  proof (cases "p_pos p < length ts")
    case True
    then have "p_ahead ts p = ts ! p_pos p # drop (Suc (p_pos p)) ts" by (simp add: p_ahead_def Cons_nth_drop_Suc)
    with True base v(2,3) c(3) show ?thesis by (simp add: p_ahead_def p_behind_def get_at_def)
  next
    case False
    then have "p_ahead ts p = []" by (simp add: p_ahead_def)
    with False v(2,3) c(3) show ?thesis by (simp add: p_ahead_def p_behind_def)
  qed
  with a c(1,3) v ideal_peek_ahead[OF assms, of 0] show ?thesis by simp
qed

subsection \<open>Agnostic methods\<close>

named_theorems agnostic_rules

lemma agnostic_return [agnostic_rules]: "agnostic (preturn x)"
  by (simp add: agnostic_def preturn_def)

lemma agnostic_fail [agnostic_rules]: "agnostic (pfail e)"
  by (simp add: agnostic_def pfail_def)

lemma agnostic_bind [agnostic_rules]:
  assumes "agnostic m" "\<And>x. agnostic (k x)"
  shows "agnostic (pbind m k)"
  unfolding agnostic_def
proof (intro allI impI)
  fix ts us out p q assume t: "twins ts us out p q"
  obtain r p' s q' where m: "m p = (r, p')" "m q = (s, q')" by fastforce
  with assms(1)[unfolded agnostic_def, rule_format, OF t]
  have "r = s" "twins ts us out p' q'" "p_base p' = p_base p" by simp_all
  with m assms(2) show "fst (pbind m k p) = fst (pbind m k q)
      \<and> twins ts us out (snd (pbind m k p)) (snd (pbind m k q)) \<and> p_base (snd (pbind m k p)) = p_base p"
    by (cases r) (auto simp: pbind_def agnostic_def)
qed

lemma agnostic_if [agnostic_rules]: "agnostic a \<Longrightarrow> agnostic b \<Longrightarrow> agnostic (if c then a else b)"
  by simp

lemma agnostic_option [agnostic_rules]:
  "agnostic a \<Longrightarrow> (\<And>x. agnostic (b x)) \<Longrightarrow> agnostic (case v of None \<Rightarrow> a | Some x \<Rightarrow> b x)"
  by (cases v) simp_all

lemma agnostic_prod [agnostic_rules]: "(\<And>x y. agnostic (b x y)) \<Longrightarrow> agnostic (case v of (x, y) \<Rightarrow> b x y)"
  by (cases v) simp

lemma same_seat:
  assumes "pa_cursor p' = pa_cursor p \<and> pa_peeked p' = pa_peeked p \<and> pa_unicode p' = pa_unicode p"
  shows "p_view ts out p' = p_view ts out p" "p_ahead ts p' = p_ahead ts p" "p_behind ts p' = p_behind ts p"
    "p_base p' = p_base p"
  using assms by (simp_all add: p_view_def p_ahead_def p_behind_def p_pos_def p_base_def)

lemma agnostic_pure:
  assumes "\<And>p q. strip p = strip q \<Longrightarrow> fst (m p) = fst (m q) \<and> strip (snd (m p)) = strip (snd (m q))"
    "\<And>p. pa_cursor (snd (m p)) = pa_cursor p \<and> pa_peeked (snd (m p)) = pa_peeked p \<and> pa_unicode (snd (m p)) = pa_unicode p"
  shows "agnostic m"
  unfolding agnostic_def
proof (intro allI impI)
  fix ts us out p q assume t: "twins ts us out p q"
  from assms(1)[of p q] t have "fst (m p) = fst (m q)" "strip (snd (m p)) = strip (snd (m q))"
    by (simp_all add: twins_def)
  with t show "fst (m p) = fst (m q) \<and> twins ts us out (snd (m p)) (snd (m q)) \<and> p_base (snd (m p)) = p_base p"
    unfolding twins_def same_seat[OF assms(2)[of p]] same_seat[OF assms(2)[of q]] by simp
qed

lemma agnostic_get:
  assumes "\<And>p q. strip p = strip q \<Longrightarrow> g p = g q"
  shows "agnostic (pget g)"
proof (rule agnostic_pure)
  fix p q assume "strip p = strip q"
  with assms[OF this] show "fst (pget g p) = fst (pget g q) \<and> strip (snd (pget g p)) = strip (snd (pget g q))"
    by (simp add: pget_def)
qed (simp add: pget_def)

lemma agnostic_features [agnostic_rules]: "agnostic (pget (\<lambda>p. g (pa_features p)))"
  by (rule agnostic_get) (drule strip_fields(5), simp)

lemma agnostic_span_text [agnostic_rules]: "agnostic (span_text sp)"
proof (rule agnostic_pure)
  fix p q assume "strip p = strip q"
  from strip_fields(2)[OF this] this show "fst (span_text sp p) = fst (span_text sp q)
      \<and> strip (snd (span_text sp p)) = strip (snd (span_text sp q))"
    by (auto simp: span_text_def split: option.split)
qed (auto simp: span_text_def split: option.split)

lemma agnostic_run_intern [agnostic_rules]: "agnostic (run_intern g)"
proof (rule agnostic_pure)
  fix p q assume s: "strip p = strip q"
  then have "strip (p\<lparr>pa_interner := it\<rparr>) = strip (q\<lparr>pa_interner := it\<rparr>)" for it
    by (cases p; cases q) (simp add: strip_def)
  with strip_fields(3)[OF s] s show "fst (run_intern g p) = fst (run_intern g q)
      \<and> strip (snd (run_intern g p)) = strip (snd (run_intern g q))"
    by (auto simp: run_intern_def split: option.split)
qed (auto simp: run_intern_def split: option.split)

lemma agnostic_next_node_id [agnostic_rules]: "agnostic next_node_id"
proof (rule agnostic_pure)
  fix p q assume s: "strip p = strip q"
  then have "strip (p\<lparr>pa_next_node_id := i\<rparr>) = strip (q\<lparr>pa_next_node_id := i\<rparr>)" for i
    by (cases p; cases q) (simp add: strip_def)
  with strip_fields(6)[OF s] s show "fst (next_node_id p) = fst (next_node_id q)
      \<and> strip (snd (next_node_id p)) = strip (snd (next_node_id q))"
    by (auto simp: next_node_id_def split: option.split)
qed (auto simp: next_node_id_def split: option.split)

lemma agnostic_report [agnostic_rules]: "agnostic (report e)"
proof (rule agnostic_pure)
  fix p q assume s: "strip p = strip q"
  then have "strip (p\<lparr>pa_errors := i\<rparr>) = strip (q\<lparr>pa_errors := i\<rparr>)" for i
    by (cases p; cases q) (simp add: strip_def)
  with strip_fields(4)[OF s] show "fst (report e p) = fst (report e q)
      \<and> strip (snd (report e p)) = strip (snd (report e q))"
    by (simp add: report_def pupdate_def)
qed (simp add: report_def pupdate_def)

lemma agnostic_reads:
  assumes "reads m g"
  shows "agnostic m"
  unfolding agnostic_def
proof (intro allI impI)
  fix ts us out p q assume "twins ts us out p q"
  then have t: "p_view ts out p" "p_view us out q" "p_ahead ts p = p_ahead us q" "p_behind ts p = p_behind us q" "strip p = strip q"
    by (simp_all add: twins_def)
  note mp = assms[unfolded reads_def, rule_format, OF t(1)] and mq = assms[unfolded reads_def, rule_format, OF t(2)]
  have "p_ahead ts (snd (m p)) = p_ahead ts p" "p_behind ts (snd (m p)) = p_behind ts p"
    "p_ahead us (snd (m q)) = p_ahead us q" "p_behind us (snd (m q)) = p_behind us q"
    using mp mq by (simp_all add: p_ahead_def p_behind_def)
  with mp mq t(3-5) show "fst (m p) = fst (m q) \<and> twins ts us out (snd (m p)) (snd (m q)) \<and> p_base (snd (m p)) = p_base p"
    unfolding twins_def by metis
qed

lemmas agnostic_readers [agnostic_rules] =
  peek_reads[THEN agnostic_reads] peek_nth_reads[THEN agnostic_reads]
  at_eof_reads[THEN agnostic_reads] preceding_reads[THEN agnostic_reads]

lemma agnostic_advance [agnostic_rules]: "agnostic advance"
  unfolding agnostic_def
proof (intro allI impI)
  fix ts us out p q assume "twins ts us out p q"
  then have t: "p_view ts out p" "p_view us out q" "p_ahead ts p = p_ahead us q" "p_behind ts p = p_behind us q" "strip p = strip q"
    by (simp_all add: twins_def)
  from advance_view[OF t(1)] advance_view[OF t(2)] t(3-5)
  show "fst (advance p) = fst (advance q) \<and> twins ts us out (snd (advance p)) (snd (advance q))
      \<and> p_base (snd (advance p)) = p_base p"
    unfolding twins_def by metis
qed

lemma agnostic_match [agnostic_rules]:
  assumes "agnostic m" "\<And>x. agnostic (k x)" "\<And>e. agnostic (h e)"
  shows "agnostic (\<lambda>p. case m p of (Inl e, p') \<Rightarrow> h e p' | (Inr x, p') \<Rightarrow> k x p')"
  unfolding agnostic_def
proof (intro allI impI)
  fix ts us out p q assume t: "twins ts us out p q"
  obtain r p' s q' where m: "m p = (r, p')" "m q = (s, q')" by fastforce
  with assms(1)[unfolded agnostic_def, rule_format, OF t]
  have e: "s = r" "twins ts us out p' q'" "p_base p' = p_base p" by simp_all
  show "fst (case m p of (Inl e, p') \<Rightarrow> h e p' | (Inr x, p') \<Rightarrow> k x p')
        = fst (case m q of (Inl e, p') \<Rightarrow> h e p' | (Inr x, p') \<Rightarrow> k x p')
      \<and> twins ts us out (snd (case m p of (Inl e, p') \<Rightarrow> h e p' | (Inr x, p') \<Rightarrow> k x p'))
          (snd (case m q of (Inl e, p') \<Rightarrow> h e p' | (Inr x, p') \<Rightarrow> k x p'))
      \<and> p_base (snd (case m p of (Inl e, p') \<Rightarrow> h e p' | (Inr x, p') \<Rightarrow> k x p')) = p_base p"
    using m e assms(2,3) by (cases r) (simp_all add: agnostic_def)
qed

lemma agnostic_sum_option [agnostic_rules]:
  "(\<And>e. v = Inl e \<Longrightarrow> agnostic (a e)) \<Longrightarrow> (\<And>x. v = Inr x \<Longrightarrow> agnostic (b x)) \<Longrightarrow> agnostic (case_sum a b v)"
  by (cases v) simp_all

lemma agnostic_failure [agnostic_rules]:
  "(\<And>e. agnostic (a e)) \<Longrightarrow> agnostic b \<Longrightarrow> agnostic (case v of Err e \<Rightarrow> a e | Parse_Panic \<Rightarrow> b)"
  by (cases v) simp_all

lemma agnostic_make_meta [agnostic_rules]: "agnostic (make_meta sp)"
  unfolding make_meta_def by (intro agnostic_rules)

lemma agnostic_report_and_fail [agnostic_rules]: "agnostic (report_and_fail e)"
  unfolding report_and_fail_def by (intro agnostic_rules)

lemma agnostic_error_at [agnostic_rules]: "agnostic (error_at sp expected fnd)"
  unfolding error_at_def by (rule agnostic_report_and_fail)

lemma agnostic_eof_span [agnostic_rules]: "agnostic (pget (\<lambda>p. g (eof_span p)))"
  by (rule agnostic_get) (drule strip_fields(2), simp add: eof_span_def)

lemma unexpected_match:
  "unexpected expected = (\<lambda>p. case peek_token p of
      (Inl e, p') \<Rightarrow> (case e of Err e \<Rightarrow> report_and_fail e | Parse_Panic \<Rightarrow> pfail Parse_Panic) p'
    | (Inr t, p') \<Rightarrow> (case t of
          None \<Rightarrow> pbind (pget (\<lambda>p. eof_span p)) (\<lambda>sp. error_at sp expected EndOfInput)
        | Some tok \<Rightarrow> pbind (span_text (token_span tok)) (\<lambda>s. error_at (token_span tok) expected (Found_Text s))) p')"
  by (auto simp: fun_eq_iff unexpected_def pbind_def pget_def pfail_def
      split: prod.splits sum.splits option.splits parse_failure.splits)

lemma agnostic_unexpected [agnostic_rules]: "agnostic (unexpected expected)"
  unfolding unexpected_match by (intro agnostic_rules)

lemma agnostic_current_span [agnostic_rules]: "agnostic current_span"
proof -
  have "agnostic (pget (\<lambda>p. case t of Some tok \<Rightarrow> token_span tok | None \<Rightarrow> eof_span p))" for t
    by (rule agnostic_get) (drule strip_fields(2), simp add: eof_span_def split: option.split)
  then show ?thesis unfolding current_span_def by (intro agnostic_rules)
qed

lemma agnostic_intern [agnostic_rules]: "agnostic (intern_identifier tok)" "agnostic (intern_text s)"
  unfolding intern_identifier_def intern_text_def by (intro agnostic_rules)+

lemma twins_pure:
  assumes "twins ts us out p q" "\<And>p. pa_cursor (g p) = pa_cursor p \<and> pa_peeked (g p) = pa_peeked p \<and> pa_unicode (g p) = pa_unicode p"
    "strip (g p) = strip (g q)"
  shows "twins ts us out (g p) (g q)"
  using assms(1,3) unfolding twins_def same_seat[OF assms(2)[of p]] same_seat[OF assms(2)[of q]] by simp

lemma strip_depth: "strip (p\<lparr>pa_recursion_depth := d\<rparr>) = (strip p)\<lparr>pa_recursion_depth := d\<rparr>"
  by (cases p) (simp add: strip_def)

lemma agnostic_guarded [agnostic_rules]:
  assumes "agnostic m"
  shows "agnostic (guarded sp m)"
  unfolding agnostic_def
proof (intro allI impI)
  fix ts us out p q assume t: "twins ts us out p q"
  then have s: "strip p = strip q" by (simp add: twins_def)
  note d = strip_fields(7,8)[OF s]
  show "fst (guarded sp m p) = fst (guarded sp m q)
      \<and> twins ts us out (snd (guarded sp m p)) (snd (guarded sp m q)) \<and> p_base (snd (guarded sp m p)) = p_base p"
  proof (cases "pa_recursion_limit q \<le> pa_recursion_depth q")
    case True
    with agnostic_report_and_fail[unfolded agnostic_def, rule_format, OF t] d show ?thesis
      by (simp add: guarded_def recursion_limit_exceeded_def)
  next
    case False
    let ?in = "\<lambda>p. p\<lparr>pa_recursion_depth := pa_recursion_depth q + 1\<rparr>"
    have "twins ts us out (?in p) (?in q)" by (rule twins_pure[OF t]) (simp_all add: strip_depth s)
    note m = assms[unfolded agnostic_def, rule_format, OF this]
    then have s': "strip (snd (m (?in p))) = strip (snd (m (?in q)))" by (simp add: twins_def)
    have "strip (leave_recursion (snd (m (?in p)))) = strip (leave_recursion (snd (m (?in q))))"
      unfolding leave_recursion_def strip_depth s' strip_fields(7)[OF s'] ..
    then have "twins ts us out (leave_recursion (snd (m (?in p)))) (leave_recursion (snd (m (?in q))))"
      by (intro twins_pure[OF conjunct1[OF conjunct2[OF m]]]) (simp_all add: leave_recursion_def)
    moreover have "guarded sp m p = map_prod id leave_recursion (m (?in p))"
      "guarded sp m q = map_prod id leave_recursion (m (?in q))"
      using False d by (simp_all add: guarded_def)
    ultimately show ?thesis using m by (simp add: leave_recursion_def p_base_def)
  qed
qed

subsection \<open>The lexical predicates are agnostic\<close>

lemma agnostic_checks [agnostic_rules]:
  "agnostic (peek_is_keyword kw)" "agnostic (peek_nth_is_keyword n kw)"
  "agnostic (peek_is_punct pu)" "agnostic (peek_nth_is_punct n pu)"
  "agnostic (peek_is_op opr)" "agnostic (peek_nth_is_op n opr)"
  unfolding peek_is_keyword_def peek_nth_is_keyword_def peek_is_punct_def peek_nth_is_punct_def
    peek_is_op_def peek_nth_is_op_def by (intro agnostic_rules)+

lemma agnostic_contextual [agnostic_rules]:
  "agnostic (token_is_contextual_keyword tok w)"
  unfolding token_is_contextual_keyword_def
  by (cases "token_kind tok") (simp_all, (intro agnostic_rules)+)

lemma agnostic_eat_if [agnostic_rules]: "agnostic check \<Longrightarrow> agnostic (eat_if check)"
  unfolding eat_if_def by (intro agnostic_rules)

lemma agnostic_words [agnostic_rules]:
  "agnostic (peek_nth_is_contextual_keyword n w)" "agnostic (peek_is_contextual_keyword w)"
  "agnostic (eat_contextual_keyword w)" "agnostic (eat_keyword kw)" "agnostic (eat_punct pu)" "agnostic (eat_op opr)"
  unfolding peek_nth_is_contextual_keyword_def peek_is_contextual_keyword_def eat_contextual_keyword_def
    eat_keyword_def eat_punct_def eat_op_def by (intro agnostic_rules)+

lemma agnostic_expect [agnostic_rules]:
  "agnostic (expect_contextual_keyword w)" "agnostic (expect_keyword kw)" "agnostic (expect_punct pu s)"
  unfolding expect_contextual_keyword_def expect_keyword_def expect_punct_def by (intro agnostic_rules)+

subsection \<open>Methods over the bare token list\<close>

text \<open>
  The state of a method is then the tokens ahead, the token consumed last, and the rest of the
  parser. \<open>seated\<close> is an eager parser in that state, and \<open>run_on\<close> runs a method from it.
\<close>

type_synonym seat = "token list \<times> token option \<times> parser"

definition seated :: "seat \<Rightarrow> parser" where
  "seated s = (case s of (ahead, prev, st) \<Rightarrow>
     st\<lparr>pa_cursor := (from_tokens ((case prev of None \<Rightarrow> [] | Some t \<Rightarrow> [t]) @ ahead))
          \<lparr>bc_pos := (if prev = None then 0 else 1)\<rparr>, pa_peeked := None\<rparr>)"

definition seat_tokens :: "seat \<Rightarrow> token list" where
  "seat_tokens s = (case s of (ahead, prev, st) \<Rightarrow> (case prev of None \<Rightarrow> [] | Some t \<Rightarrow> [t]) @ ahead)"

definition seat_of :: "token list \<Rightarrow> parser \<Rightarrow> seat" where
  "seat_of ts p = (p_ahead ts p, p_behind ts p, strip p)"

definition run_on :: "'a parse \<Rightarrow> seat \<Rightarrow> (parse_failure + 'a) \<times> seat" where
  "run_on m s = (fst (m (seated s)), seat_of (seat_tokens s) (snd (m (seated s))))"

lemma p_view_seated: "p_view (seat_tokens s) None (seated s)"
  by (cases s) (auto simp: p_view_def cursor_view_def seated_def seat_tokens_def from_tokens_def split: option.splits)

lemma strip_strip_seated: "strip (seated (ahead, prev, st)) = strip st"
  by (simp add: seated_def strip_def)

lemma seat_of_seated [simp]: "seat_of (seat_tokens (ahead, prev, st)) (seated (ahead, prev, st)) = (ahead, prev, strip st)"
  by (auto simp: seat_of_def strip_strip_seated p_ahead_def p_behind_def p_base_def p_pos_def seated_def seat_tokens_def
      from_tokens_def get_at_def split: option.splits)

text \<open>An agnostic method acts on every parser as it does on the token list it views.\<close>

lemma twins_seat: "p_view ts None p \<Longrightarrow> twins (seat_tokens (seat_of ts p)) ts None (seated (seat_of ts p)) p"
  using seat_of_seated[of "p_ahead ts p" "p_behind ts p" "strip p"] p_view_seated[of "seat_of ts p"]
  by (simp add: twins_def seat_of_def)

lemma agnostic_run:
  assumes "agnostic m" "p_view ts None p"
  shows "run_on m (seat_of ts p) = (fst (m p), seat_of ts (snd (m p)))" "p_view ts None (snd (m p))"
    "p_base (snd (m p)) = p_base p"
proof -
  have t: "twins ts ts None p p" using assms(2) by (simp add: twins_def)
  note a = assms(1)[unfolded agnostic_def, rule_format]
  from a[OF t] show "p_view ts None (snd (m p))" "p_base (snd (m p)) = p_base p" by (simp_all add: twins_def)
  from a[OF twins_seat[OF assms(2)]] show "run_on m (seat_of ts p) = (fst (m p), seat_of ts (snd (m p)))"
    by (simp add: run_on_def seat_of_def twins_def)
qed

lemma run_bind:
  assumes "agnostic m" "\<And>x. agnostic (k x)"
  shows "run_on (pbind m k) s = (case run_on m s of (Inl e, s') \<Rightarrow> (Inl e, s') | (Inr x, s') \<Rightarrow> run_on (k x) s')"
proof -
  obtain r p where m: "m (seated s) = (r, p)" by fastforce
  show ?thesis
  proof (cases r)
    case (Inr x)
    from agnostic_run[OF assms(1) p_view_seated[of s]] m have "p_view (seat_tokens s) None p" by simp
    from agnostic_run(1)[OF assms(2) this] m Inr show ?thesis
      by (simp add: run_on_def pbind_def)
  qed (simp add: m run_on_def pbind_def)
qed

text \<open>A method that leaves the supply alone.\<close>

lemma run_pure:
  assumes "pa_cursor (snd (m (seated (ahead, prev, st)))) = pa_cursor (seated (ahead, prev, st))"
  shows "run_on m (ahead, prev, st) = (fst (m (seated (ahead, prev, st))), ahead, prev, strip (snd (m (seated (ahead, prev, st)))))"
proof -
  obtain r p where m: "m (seated (ahead, prev, st)) = (r, p)" by fastforce
  with assms have "p_ahead (seat_tokens (ahead, prev, st)) p = p_ahead (seat_tokens (ahead, prev, st)) (seated (ahead, prev, st))"
      "p_behind (seat_tokens (ahead, prev, st)) p = p_behind (seat_tokens (ahead, prev, st)) (seated (ahead, prev, st))"
    by (simp_all add: p_ahead_def p_behind_def p_pos_def p_base_def)
  moreover have "p_ahead (seat_tokens (ahead, prev, st)) (seated (ahead, prev, st)) = ahead"
      "p_behind (seat_tokens (ahead, prev, st)) (seated (ahead, prev, st)) = prev"
    using seat_of_seated[of ahead prev st] unfolding seat_of_def by simp_all
  ultimately show ?thesis by (simp add: run_on_def m seat_of_def)
qed

lemma same_position:
  assumes "p_pos p' = p_pos p" "p_base p' = p_base p"
  shows "p_ahead ts p' = p_ahead ts p" "p_behind ts p' = p_behind ts p"
  using assms by (simp_all add: p_ahead_def p_behind_def)

lemma run_reads:
  assumes "reads m g"
  shows "run_on m (ahead, prev, st) = (g ahead None prev, ahead, prev, strip st)"
proof -
  let ?s = "(ahead, prev, st)"
  note r = assms[unfolded reads_def, rule_format, OF p_view_seated[of ?s]]
  have a: "p_ahead (seat_tokens ?s) (seated ?s) = ahead" "p_behind (seat_tokens ?s) (seated ?s) = prev"
    using seat_of_seated[of ahead prev st] unfolding seat_of_def by simp_all
  from r have "p_ahead (seat_tokens ?s) (snd (m (seated ?s))) = ahead" "p_behind (seat_tokens ?s) (snd (m (seated ?s))) = prev"
    using same_position[of "snd (m (seated ?s))" "seated ?s" "seat_tokens ?s"] a by simp_all
  with r a show ?thesis by (simp add: run_on_def seat_of_def strip_strip_seated)
qed

lemma seated_fields [simp]:
  "pa_unicode (seated (ahead, prev, st)) = pa_unicode st" "pa_source (seated (ahead, prev, st)) = pa_source st"
  "pa_interner (seated (ahead, prev, st)) = pa_interner st" "pa_errors (seated (ahead, prev, st)) = pa_errors st"
  "pa_features (seated (ahead, prev, st)) = pa_features st" "pa_next_node_id (seated (ahead, prev, st)) = pa_next_node_id st"
  "pa_recursion_depth (seated (ahead, prev, st)) = pa_recursion_depth st"
  "pa_recursion_limit (seated (ahead, prev, st)) = pa_recursion_limit st"
  by (simp_all add: seated_def)

named_theorems run_rules \<open>evaluation of methods on the tokens ahead\<close>

lemma run_return [run_rules]: "run_on (preturn x) (ahead, prev, st) = (Inr x, ahead, prev, strip st)"
  by (simp add: run_pure preturn_def strip_strip_seated)

lemma run_fail [run_rules]: "run_on (pfail e) (ahead, prev, st) = (Inl e, ahead, prev, strip st)"
  by (simp add: run_pure pfail_def strip_strip_seated)

lemma run_peek [run_rules]:
  "run_on peek_token (ahead, prev, st) = (Inr (get_at ahead 0), ahead, prev, strip st)"
  "run_on (peek_nth_token n) (ahead, prev, st) = (Inr (get_at ahead n), ahead, prev, strip st)"
  "run_on at_eof (ahead, prev, st) = (Inr (ahead = []), ahead, prev, strip st)"
  by (simp_all add: run_reads[OF peek_reads] run_reads[OF peek_nth_reads] run_reads[OF at_eof_reads] ideal_peek_def get_at_def)

lemma run_preceding [run_rules]:
  "run_on (pget (\<lambda>p. g (preceding_span p))) (ahead, prev, st)
     = (Inr (g (case prev of None \<Rightarrow> Span 0 0 | Some t \<Rightarrow> token_span t)), ahead, prev, strip st)"
  by (rule run_reads[OF preceding_reads])

lemma run_features [run_rules]:
  "run_on (pget (\<lambda>p. g (pa_features p))) (ahead, prev, st) = (Inr (g (pa_features st)), ahead, prev, strip st)"
  by (simp add: run_pure pget_def strip_strip_seated)

lemma run_advance [run_rules]:
  "run_on advance (t # ahead, prev, st) = (Inr (Some t), ahead, Some t, strip st)"
  "run_on advance ([], prev, st) = (Inr None, [], prev, strip st)"
proof -
  have "run_on advance (ahead, prev, st)
      = (Inr (get_at ahead 0), tl ahead, (case ahead of [] \<Rightarrow> prev | t # _ \<Rightarrow> Some t), strip st)" for ahead
  proof -
    let ?s = "(ahead, prev, st)"
    have "p_ahead (seat_tokens ?s) (seated ?s) = ahead" "p_behind (seat_tokens ?s) (seated ?s) = prev"
      using seat_of_seated[of ahead prev st] unfolding seat_of_def by simp_all
    with advance_view[OF p_view_seated[of ?s]] show ?thesis
      by (cases ahead) (simp_all add: run_on_def seat_of_def strip_strip_seated ideal_peek_def get_at_def)
  qed
  from this[of "t # ahead"] this[of "[]"] show
    "run_on advance (t # ahead, prev, st) = (Inr (Some t), ahead, Some t, strip st)"
    "run_on advance ([], prev, st) = (Inr None, [], prev, strip st)"
    by (simp_all add: get_at_def)
qed

lemma run_span_text [run_rules]:
  "run_on (span_text sp) (ahead, prev, st)
     = ((case str_slice (pa_source st) (span_start sp) (span_end sp) of None \<Rightarrow> Inl Parse_Panic | Some s \<Rightarrow> Inr s),
        ahead, prev, strip st)"
  by (subst run_pure) (auto simp: span_text_def strip_strip_seated split: option.split)

lemma strip_set:
  "strip (p\<lparr>pa_interner := it\<rparr>) = (strip p)\<lparr>pa_interner := it\<rparr>"
  "strip (p\<lparr>pa_next_node_id := i\<rparr>) = (strip p)\<lparr>pa_next_node_id := i\<rparr>"
  "strip (p\<lparr>pa_errors := es\<rparr>) = (strip p)\<lparr>pa_errors := es\<rparr>"
  by (cases p; simp add: strip_def)+

lemma run_run_intern [run_rules]:
  "run_on (run_intern g) (ahead, prev, st) = (case g (pa_interner st) of
      None \<Rightarrow> (Inl Parse_Panic, ahead, prev, strip st)
    | Some (symb, it) \<Rightarrow> (Inr symb, ahead, prev, (strip st)\<lparr>pa_interner := it\<rparr>))"
  by (subst run_pure) (auto simp: run_intern_def strip_strip_seated strip_set split: option.split)

lemma run_next_node_id [run_rules]:
  "run_on next_node_id (ahead, prev, st) = (case node_id_new (pa_next_node_id st) of
      None \<Rightarrow> (Inl Parse_Panic, ahead, prev, strip st)
    | Some i \<Rightarrow>
        if u32_max \<le> pa_next_node_id st then (Inl Parse_Panic, ahead, prev, strip st)
        else (Inr i, ahead, prev, (strip st)\<lparr>pa_next_node_id := pa_next_node_id st + 1\<rparr>))"
  by (subst run_pure) (auto simp: next_node_id_def strip_strip_seated strip_set split: option.split)

lemma run_report [run_rules]:
  "run_on (report e) (ahead, prev, st) = (Inr (), ahead, prev, (strip st)\<lparr>pa_errors := sink_report e (pa_errors st)\<rparr>)"
  by (subst run_pure) (simp_all add: report_def pupdate_def strip_strip_seated strip_set)

end
