(* ===== verification/Engine_Laws.thy ===== *)
theory Engine_Laws
  imports Parse_Views Scanner_Samples
begin

text \<open>
  The laws of the parser engine: the recursion guard's exact limit, recovery to the next
  statement boundary, and the ownership and order of the clause marks.
\<close>

subsection \<open>The recursion guard\<close>

text \<open>A production under \<open>n\<close> nested guards.\<close>

fun nested :: "span \<Rightarrow> nat \<Rightarrow> 'a parse \<Rightarrow> 'a parse" where
  "nested sp 0 m = m"
| "nested sp (Suc n) m = guarded sp (nested sp n m)"

text \<open>
  C25. The recursion guard is exact: a production under \<open>n\<close> nested guards runs, \<open>n\<close> levels deeper,
  if and only if the configured limit has that room left; otherwise nothing of it runs, no token
  is consumed, and the parse fails with the recursion-limit error at the guard's span. Either
  way the depth the guards added is taken off again.
\<close>

theorem recursion_limit_exact:
  "nested sp n m p =
     (if n \<le> pa_recursion_limit p - pa_recursion_depth p
      then map_prod id (\<lambda>q. q\<lparr>pa_recursion_depth := pa_recursion_depth q - n\<rparr>)
             (m (p\<lparr>pa_recursion_depth := pa_recursion_depth p + n\<rparr>))
      else (Inl (Err (recursion_limit_error sp)),
            p\<lparr>pa_errors := sink_report (recursion_limit_error sp) (pa_errors p)\<rparr>))"
proof (induction n arbitrary: p)
  case (Suc n)
  show ?case
  proof (cases "pa_recursion_limit p \<le> pa_recursion_depth p")
    case True
    then show ?thesis
      by (simp add: guarded_def recursion_limit_exceeded_def report_and_fail_def report_def pupdate_def pfail_def pbind_def)
  next
    case False
    then show ?thesis
      by (auto simp: Suc.IH guarded_def leave_recursion_def map_prod_def split: prod.splits)
  qed
qed (simp add: map_prod_def split: prod.splits)

subsection \<open>Recovery\<close>

lemma p_view_new: "p_view ts None (parser_new u src ts f)"
  by (simp add: p_view_def parser_new_def from_cursor_def cursor_view_def from_tokens_def)

lemma p_ahead_new: "p_ahead ts (parser_new u src ts f) = ts"
  by (simp add: p_ahead_def p_pos_def parser_new_def from_cursor_def from_tokens_def)

abbreviation at_semicolon :: "token \<Rightarrow> bool" where
  "at_semicolon t \<equiv> token_kind t = Tk_Punctuation P_Semicolon"

definition after_boundary :: "token list \<Rightarrow> token list" where
  "after_boundary ts = tl (dropWhile (\<lambda>t. \<not> at_semicolon t) ts)"

lemma recovery_runs:
  assumes "p_view ts out p"
  shows "\<exists>p'. recover_to_statement_boundary p = Some
      (if \<exists>t \<in> set (p_ahead ts p). at_semicolon t then Inr True
       else case out of None \<Rightarrow> Inr False | Some e \<Rightarrow> Inl (widen e), p')
    \<and> p_view ts out p' \<and> p_ahead ts p' = after_boundary (p_ahead ts p)"
  using assms
proof (induction "p_ahead ts p" arbitrary: p)
  case Nil
  from advance_view[OF Nil(2)] Nil(1) show ?case
    by (subst recover_to_statement_boundary.simps)
       (auto simp: ideal_peek_def after_boundary_def split: prod.splits option.splits)
next
  case (Cons t rest_ts)
  obtain r p1 where a: "advance p = (r, p1)" by fastforce
  from advance_view[OF Cons(3)] Cons(2)[symmetric] a
  have v: "r = Inr (Some t)" "p_view ts out p1" "p_ahead ts p1 = rest_ts"
    by (simp_all add: ideal_peek_def)
  show ?case
  proof (cases "at_semicolon t")
    case True
    with v a Cons(2) show ?thesis
      by (subst recover_to_statement_boundary.simps) (simp add: after_boundary_def flip: Cons(2))
  next
    case False
    with Cons(1)[OF v(3)[symmetric] v(2)] v a Cons(2) show ?thesis
      by (subst recover_to_statement_boundary.simps) (simp add: after_boundary_def flip: Cons(2))
  qed
qed

text \<open>
  C26. Recovery always returns, and always moves to the boundary: from any parser over a token
  production, \<open>recover_to_statement_boundary\<close> stops just past the first \<open>;\<close> ahead and says a
  statement may follow; with none ahead it consumes every token and reports the end of input, or
  the lexical error the production ends with. It leaves strictly fewer tokens ahead unless none
  were.
\<close>

theorem recovery_boundary:
  assumes "p_view ts out p"
  shows "\<exists>p'. recover_to_statement_boundary p = Some
      (if \<exists>t \<in> set (p_ahead ts p). at_semicolon t then Inr True
       else case out of None \<Rightarrow> Inr False | Some e \<Rightarrow> Inl (widen e), p')
    \<and> p_view ts out p'
    \<and> (\<exists>skipped. p_ahead ts p = skipped @ p_ahead ts p' \<and> (p_ahead ts p \<noteq> [] \<longrightarrow> skipped \<noteq> [])
        \<and> (\<forall>t \<in> set (butlast skipped). \<not> at_semicolon t)
        \<and> (p_ahead ts p' \<noteq> [] \<longrightarrow> at_semicolon (last skipped)))"
proof -
  have "\<exists>skipped. xs = skipped @ after_boundary xs \<and> (xs \<noteq> [] \<longrightarrow> skipped \<noteq> [])
      \<and> (\<forall>t \<in> set (butlast skipped). \<not> at_semicolon t)
      \<and> (after_boundary xs \<noteq> [] \<longrightarrow> at_semicolon (last skipped))" for xs
  proof (induction xs)
    case (Cons x xs)
    then obtain sk where sk: "xs = sk @ after_boundary xs" "xs \<noteq> [] \<longrightarrow> sk \<noteq> []"
      "\<forall>t \<in> set (butlast sk). \<not> at_semicolon t" "after_boundary xs \<noteq> [] \<longrightarrow> at_semicolon (last sk)" by blast
    show ?case
    proof (cases "at_semicolon x")
      case True
      then show ?thesis by (intro exI[of _ "[x]"]) (simp add: after_boundary_def)
    next
      case False
      then have "after_boundary (x # xs) = after_boundary xs" by (simp add: after_boundary_def)
      with False sk show ?thesis by (intro exI[of _ "x # sk"]) (auto simp: after_boundary_def)
    qed
  qed (simp add: after_boundary_def)
  with recovery_runs[OF assms] show ?thesis by (metis (no_types, lifting))
qed

definition recovery_sample :: "token list" where
  "recovery_sample = [Token Tk_Word (Span 0 3), Token (Tk_Punctuation P_Semicolon) (Span 3 4), Token Tk_Word (Span 5 6)]"

theorem recovery_boundary_witness:
  "\<exists>p'. recover_to_statement_boundary (parser_new ascii_tables ''foo; x'' recovery_sample FeatureSet_ANSI) = Some (Inr True, p')
     \<and> p_ahead recovery_sample p' = [Token Tk_Word (Span 5 6)]"
proof -
  let ?p = "parser_new ascii_tables ''foo; x'' recovery_sample FeatureSet_ANSI"
  from recovery_boundary[OF p_view_new[of recovery_sample ascii_tables "''foo; x''" FeatureSet_ANSI]]
  obtain p' sk where r: "recover_to_statement_boundary ?p = Some (Inr True, p')"
    "recovery_sample = sk @ p_ahead recovery_sample p'" "sk \<noteq> []"
    "\<forall>t \<in> set (butlast sk). \<not> at_semicolon t" "p_ahead recovery_sample p' \<noteq> [] \<longrightarrow> at_semicolon (last sk)"
    by (auto simp: p_ahead_new recovery_sample_def)
  then show ?thesis
    by (auto simp: recovery_sample_def Cons_eq_append_conv split: if_splits)
qed

subsection \<open>Clause marks\<close>

text \<open>
  What the grammar does to the marks: a node records a mark per clause keyword, its subqueries
  record theirs, a speculation that is abandoned truncates what it recorded, and the node at
  last patches its own range with its id.
\<close>

datatype clause_event =
    Ev_Mark clause_kw nat
  | Ev_Node node_id "clause_event list"
  | Ev_Abandoned "clause_event list"

fun play_event :: "clause_event \<Rightarrow> parser \<Rightarrow> parser" where
  "play_event (Ev_Mark kind off) p = record_clause_mark kind off p"
| "play_event (Ev_Node owner evs) p =
     snd (patch_clause_marks (clause_marks_checkpoint p) owner (fold play_event evs p))"
| "play_event (Ev_Abandoned evs) p = truncate_clause_marks (clause_marks_checkpoint p) (fold play_event evs p)"

text \<open>The marks that should result: each owned by the innermost node around it.\<close>

fun event_marks :: "node_id \<Rightarrow> clause_event \<Rightarrow> clause_mark list" where
  "event_marks owner (Ev_Mark kind off) = [\<lparr>cm_owner = owner, cm_kind = kind, cm_offset = off\<rparr>]"
| "event_marks _ (Ev_Node owner evs) = concat (map (event_marks owner) evs)"
| "event_marks _ (Ev_Abandoned evs) = []"

fun event_owners :: "clause_event \<Rightarrow> node_id set" where
  "event_owners (Ev_Mark _ _) = {}"
| "event_owners (Ev_Node owner evs) = insert owner (\<Union> (set (map event_owners evs)))"
| "event_owners (Ev_Abandoned evs) = \<Union> (set (map event_owners evs))"

abbreviation claim_pending :: "node_id \<Rightarrow> clause_mark \<Rightarrow> clause_mark" where
  "claim_pending owner m \<equiv> (if owner_is_pending m then set_owner owner m else m)"

lemma claim_marks:
  "PENDING_OWNER \<notin> event_owners ev \<Longrightarrow> owner \<noteq> PENDING_OWNER \<Longrightarrow> map (claim_pending owner) (event_marks owner ev) = event_marks owner ev"
  "PENDING_OWNER \<notin> event_owners ev \<Longrightarrow> map (claim_pending owner) (event_marks PENDING_OWNER ev) = event_marks owner ev"
proof -
  have own: "map (claim_pending x) (event_marks owner ev) = event_marks owner ev"
    if "PENDING_OWNER \<notin> event_owners ev" "owner \<noteq> PENDING_OWNER" for x owner ev
    using that
  proof (induction ev arbitrary: owner)
    case (Ev_Node o' evs)
    then show ?case by (auto simp: map_concat o_def intro!: arg_cong[of _ _ concat])
  qed (simp_all add: owner_is_pending_def)
  show "PENDING_OWNER \<notin> event_owners ev \<Longrightarrow> owner \<noteq> PENDING_OWNER \<Longrightarrow> map (claim_pending owner) (event_marks owner ev) = event_marks owner ev"
    by (rule own)
  show "PENDING_OWNER \<notin> event_owners ev \<Longrightarrow> map (claim_pending owner) (event_marks PENDING_OWNER ev) = event_marks owner ev"
  proof (cases ev)
    case (Ev_Node o' evs)
    assume "PENDING_OWNER \<notin> event_owners ev"
    with Ev_Node have "o' \<noteq> PENDING_OWNER" by auto
    from own[OF \<open>PENDING_OWNER \<notin> event_owners ev\<close> this, of owner] Ev_Node show ?thesis by simp
  qed (simp_all add: owner_is_pending_def set_owner_def)
qed

lemma play_marks:
  "PENDING_OWNER \<notin> event_owners ev
     \<Longrightarrow> play_event ev p = p\<lparr>pa_clause_marks := pa_clause_marks p @ event_marks PENDING_OWNER ev\<rparr>"
proof (induction ev arbitrary: p)
  case (Ev_Mark kind off)
  then show ?case by (simp add: record_clause_mark_def mark_pending_def)
next
  case (Ev_Node owner evs)
  have "fold play_event es p = p\<lparr>pa_clause_marks := pa_clause_marks p @ concat (map (event_marks PENDING_OWNER) es)\<rparr>"
    if "set es \<subseteq> set evs" for es p
    using that
  proof (induction es arbitrary: p)
    case (Cons e es)
    then have "PENDING_OWNER \<notin> event_owners e" using Ev_Node.prems by auto
    with Cons Ev_Node.IH[of e] show ?case by simp
  qed simp
  moreover have "map (claim_pending owner) (concat (map (event_marks PENDING_OWNER) evs)) = concat (map (event_marks owner) evs)"
    using Ev_Node.prems claim_marks(2) by (auto simp: map_concat o_def intro!: arg_cong[of _ _ concat])
  ultimately show ?case
    by (simp add: patch_clause_marks_def clause_marks_checkpoint_def)
next
  case (Ev_Abandoned evs)
  have "fold play_event es p = p\<lparr>pa_clause_marks := pa_clause_marks p @ concat (map (event_marks PENDING_OWNER) es)\<rparr>"
    if "set es \<subseteq> set evs" for es p
    using that
  proof (induction es arbitrary: p)
    case (Cons e es)
    then have "PENDING_OWNER \<notin> event_owners e" using Ev_Abandoned.prems by auto
    with Cons Ev_Abandoned.IH[of e] show ?case by simp
  qed simp
  then show ?case by (simp add: truncate_clause_marks_def clause_marks_checkpoint_def)
qed

text \<open>
  C27. Clause marks belong to the innermost node: whatever marks a node and its subqueries
  record and whatever speculation they abandon, once the node is patched the marks recorded since
  are exactly the committed ones, in order, each owned by the innermost node around it, none of
  them pending; earlier marks and the rest of the parser are as before.
\<close>

theorem clause_mark_ownership:
  assumes "PENDING_OWNER \<notin> event_owners (Ev_Node owner evs)"
  shows "play_event (Ev_Node owner evs) p
       = p\<lparr>pa_clause_marks := pa_clause_marks p @ concat (map (event_marks owner) evs)\<rparr>
    \<and> list_all (\<lambda>m. \<not> owner_is_pending m) (concat (map (event_marks owner) evs))"
proof -
  have none: "\<forall>m \<in> set (event_marks x ev). \<not> owner_is_pending m"
    if "PENDING_OWNER \<notin> event_owners ev" "x \<noteq> PENDING_OWNER" for x ev
    using that
  proof (induction ev arbitrary: x)
    case (Ev_Node o' evs)
    from Ev_Node.prems have "PENDING_OWNER \<notin> event_owners e" "o' \<noteq> PENDING_OWNER" if "e \<in> set evs" for e
      using that by auto
    with Ev_Node.IH show ?case by simp blast
  qed (simp_all add: owner_is_pending_def)
  have "owner \<noteq> PENDING_OWNER" using assms by auto
  from play_marks[OF assms, of p] none[OF assms this] show ?thesis by (simp add: list_all_iff)
qed

definition mark_script :: clause_event where
  "mark_script = Ev_Node (NodeId 9)
     [Ev_Mark Ck_From 9, Ev_Node (NodeId 5) [Ev_Mark Ck_From 24, Ev_Mark Ck_Where 31],
      Ev_Abandoned [Ev_Mark Ck_Where 40], Ev_Mark Ck_Where 40]"

theorem clause_mark_ownership_witness:
  "map (\<lambda>m. (cm_owner m, cm_offset m)) (pa_clause_marks (play_event mark_script (parser_new ascii_tables [] [] FeatureSet_ANSI)))
     = [(NodeId 9, 9), (NodeId 5, 24), (NodeId 5, 31), (NodeId 9, 40)]"
proof -
  have "PENDING_OWNER \<notin> event_owners mark_script" by (simp add: mark_script_def PENDING_OWNER_def u32_max_def)
  from clause_mark_ownership[OF this[unfolded mark_script_def], of "parser_new ascii_tables [] [] FeatureSet_ANSI"]
  show ?thesis by (simp add: mark_script_def parser_new_def from_cursor_def)
qed

text \<open>
  C28. A span query over recorded marks is exact: over marks in offset order, \<open>in_span\<close> returns
  precisely those whose keyword starts inside the span, in order, and nothing for a synthetic span.
\<close>

theorem marks_in_span_exact:
  assumes "sorted (map cm_offset marks)"
  shows "marks_in_span marks sp =
    (if is_synthetic sp then [] else filter (\<lambda>m. span_start sp \<le> cm_offset m \<and> cm_offset m < span_end sp) marks)"
proof -
  let ?lo = "\<lambda>m. cm_offset m < span_start sp" and ?hi = "\<lambda>m. cm_offset m < span_end sp"
  have s: "sorted_wrt (\<lambda>x y. ?lo y \<longrightarrow> ?lo x) marks" "sorted_wrt (\<lambda>x y. ?hi y \<longrightarrow> ?hi x) marks"
    using assms by (auto simp: sorted_map intro: sorted_wrt_mono_rel[rotated])
  let ?l = "partition_point ?lo marks" and ?h = "partition_point ?hi marks"
  have "filter (\<lambda>m. span_start sp \<le> cm_offset m \<and> cm_offset m < span_end sp) marks
      = filter (\<lambda>m. \<not> ?lo m) (take ?h marks)"
    unfolding partition_point_filter[OF s(2)] filter_filter by (rule filter_cong) auto
  also have "\<dots> = (if ?h \<le> ?l then [] else subslice marks ?l ?h)"
  proof -
    have "filter (\<lambda>m. \<not> ?lo m) (take ?h marks) = drop (partition_point ?lo (take ?h marks)) (take ?h marks)"
      using s(1) by (intro partition_point_drop[symmetric] sorted_wrt_take)
    also have "partition_point ?lo (take ?h marks) = min ?h ?l" by (rule partition_point_take)
    finally show ?thesis by (auto simp: subslice_def min_def drop_take)
  qed
  finally show ?thesis by (simp add: marks_in_span_def Let_def)
qed

theorem marks_in_span_exact_witness:
  "marks_in_span (event_marks (NodeId 1) mark_script) (Span 20 35)
     = [\<lparr>cm_owner = NodeId 5, cm_kind = Ck_From, cm_offset = 24\<rparr>, \<lparr>cm_owner = NodeId 5, cm_kind = Ck_Where, cm_offset = 31\<rparr>]"
  by (subst marks_in_span_exact) (simp_all add: mark_script_def is_synthetic_def)

end
