(* ===== verification/Unicode_Text.thy ===== *)
theory Unicode_Text
  imports Escape_Strings Cursor_Walks
begin

text \<open>
  Text as a sequence of characters: \<open>str::chars\<close>, its inverse, \<open>char::is_whitespace\<close> and the
  trimming built on it. Decoding and encoding are inverse on valid UTF-8, so a routine that
  iterates characters and one that slices bytes can be compared.
\<close>

subsection \<open>Characters\<close>

definition scalar :: "nat \<Rightarrow> bool" where
  "scalar ch \<longleftrightarrow> ch < 55296 \<or> 57344 \<le> ch \<and> ch < 1114112"

function chars_of :: "source \<Rightarrow> nat list" where
  "chars_of s = (case next_char s of None \<Rightarrow> [] | Some ch \<Rightarrow> ch # chars_of (drop (len_utf8 ch) s))"
  by pat_completeness auto
termination
proof (relation "measure length")
  fix s ch assume "next_char s = Some ch"
  then show "(drop (len_utf8 ch) s, s) \<in> measure length"
    using next_char_len[of s ch] len_utf8_pos[of ch] by (cases s) auto
qed simp

declare chars_of.simps [simp del]

definition encode :: "nat list \<Rightarrow> source" where
  "encode cs = concat (map encode_utf8 cs)"

lemma encode_simps [simp]:
  "encode [] = []" "encode (c # cs) = encode_utf8 c @ encode cs" "encode (cs @ ds) = encode cs @ encode ds"
  by (simp_all add: encode_def)

lemma char_byte: "n < 256 \<Longrightarrow> byte_val (char_of n) = n"
  by simp

lemma length_encode_utf8: "length (encode_utf8 c) = len_utf8 c"
  by (simp add: encode_utf8_def len_utf8_def)

lemma encode_utf8_ascii [simp]: "c < 128 \<Longrightarrow> encode_utf8 c = [char_of c]"
  by (simp add: encode_utf8_def)

text \<open>The bits a sequence carries, in base 64.\<close>

lemma low_bits:
  fixes a :: nat
  shows "a < 32 \<Longrightarrow> (192 + a) mod 32 = a" "a < 16 \<Longrightarrow> (224 + a) mod 16 = a"
    "a < 8 \<Longrightarrow> (240 + a) mod 8 = a" "a < 64 \<Longrightarrow> (128 + a) mod 64 = a"
  using mod_mult_self3[of 6 32 a] mod_mult_self3[of 14 16 a] mod_mult_self3[of 30 8 a] mod_mult_self3[of 2 64 a]
  by simp_all

lemma tail_bits:
  fixes x :: nat
  shows "(128 + x mod 64) mod 256 = 128 + x mod 64" "(128 + x mod 64) mod 64 = x mod 64"
  using mod_less_divisor[of 64 x] low_bits(4)[of "x mod 64"] by simp_all

lemma base64_digits:
  fixes c :: nat
  shows "c div 4096 = c div 64 div 64" "c div 262144 = c div 64 div 64 div 64"
  by (simp_all flip: div_mult2_eq)

lemma base64_split:
  fixes q :: nat
  assumes "d < 64"
  shows "(q * 64 + d) div 64 = q" "(q * 64 + d) mod 64 = d"
  using assms by simp_all

lemma next_char_encode:
  assumes "c < 1114112"
  shows "next_char (encode_utf8 c @ s) = Some c"
proof -
  let ?q = "c div 64" and ?q2 = "c div 64 div 64" and ?q3 = "c div 64 div 64 div 64"
  have e: "?q * 64 + c mod 64 = c" "?q2 * 64 + ?q mod 64 = ?q" "?q3 * 64 + ?q2 mod 64 = ?q2" by simp_all
  consider "c < 128" | "128 \<le> c" "c < 2048" | "2048 \<le> c" "c < 65536" | "65536 \<le> c" by linarith
  then show ?thesis
  proof cases
    case 2
    then have "?q < 32" by simp
    with 2 e show ?thesis by (simp add: encode_utf8_def char_byte low_bits tail_bits)
  next
    case 3
    then have d: "?q2 < 16" by simp
    have "?q2 * 4096 + ?q mod 64 * 64 + c mod 64 = c" using e by linarith
    with 3 d show ?thesis by (simp add: encode_utf8_def base64_digits char_byte low_bits tail_bits)
  next
    case 4
    then have d: "?q3 < 8" using assms by simp
    have "?q3 * 262144 + ?q2 mod 64 * 4096 + ?q mod 64 * 64 + c mod 64 = c" using e by linarith
    with 4 d show ?thesis by (simp add: encode_utf8_def base64_digits char_byte low_bits tail_bits)
  qed (simp add: encode_utf8_def)
qed

lemma scalar_bound: "scalar c \<Longrightarrow> c < 1114112"
  by (auto simp: scalar_def)

lemma chars_of_Nil [simp]: "chars_of [] = []"
  by (simp add: chars_of.simps)

lemma chars_of_encode_Cons [simp]: "scalar c \<Longrightarrow> chars_of (encode_utf8 c @ s) = c # chars_of s"
  by (subst chars_of.simps) (simp add: next_char_encode scalar_bound length_encode_utf8)

lemma chars_of_encode [simp]: "list_all scalar cs \<Longrightarrow> chars_of (encode cs) = cs"
  by (induction cs) simp_all

subsection \<open>Valid text is the encoding of its characters\<close>

lemma encode_two:
  assumes "194 \<le> x" "x < 224" "128 \<le> y" "y < 192"
  shows "encode_utf8 ((x mod 32) * 64 + y mod 64) = [char_of x, char_of y]" "scalar ((x mod 32) * 64 + y mod 64)"
proof -
  have "192 \<le> x" using assms(1) by simp
  then obtain a b where x: "x = 192 + a" "y = 128 + b" using assms(3) by (metis le_add_diff_inverse)
  with assms have a: "2 \<le> a" "a < 32" "b < 64" by simp_all
  then have "128 \<le> a * 64 + b" "a * 64 + b < 2048" by linarith+
  with a x show "encode_utf8 ((x mod 32) * 64 + y mod 64) = [char_of x, char_of y]"
      "scalar ((x mod 32) * 64 + y mod 64)"
    by (simp_all add: encode_utf8_def scalar_def low_bits base64_split)
qed

lemma encode_three:
  assumes "224 \<le> x" "x < 240" "128 \<le> y" "y < 192" "128 \<le> z" "z < 192"
    "x = 224 \<longrightarrow> 160 \<le> y" "x = 237 \<longrightarrow> y < 160"
  defines "c \<equiv> (x mod 16) * 4096 + (y mod 64) * 64 + z mod 64"
  shows "encode_utf8 c = [char_of x, char_of y, char_of z]" "scalar c"
proof -
  obtain a b d where x: "x = 224 + a" "y = 128 + b" "z = 128 + d" using assms(1,3,5) by (metis le_add_diff_inverse)
  with assms have a: "a < 16" "b < 64" "d < 64" "a = 0 \<longrightarrow> 32 \<le> b" "a = 13 \<longrightarrow> b < 32" by simp_all
  have c: "c = (a * 64 + b) * 64 + d" unfolding c_def x low_bits(2)[OF a(1)] low_bits(4)[OF a(2)] low_bits(4)[OF a(3)] by simp
  have q: "c div 64 = a * 64 + b" "c mod 64 = d" "(a * 64 + b) div 64 = a" "(a * 64 + b) mod 64 = b"
    unfolding c by (rule base64_split[OF a(3)] base64_split[OF a(2)])+
  have "1 \<le> a \<or> 32 \<le> b" using a(4) by auto
  then have r: "2048 \<le> c" unfolding c by auto
  have r2: "c < 65536" using a(1-3) unfolding c by simp
  have "a < 13 \<or> a = 13 \<and> b < 32 \<or> 13 < a" using a(5) by auto
  then have "c < 55296 \<or> 57344 \<le> c" using a(1-3) unfolding c by auto
  with r r2 show "encode_utf8 c = [char_of x, char_of y, char_of z]" "scalar c"
    unfolding encode_utf8_def scalar_def base64_digits q using x by simp_all
qed

lemma encode_four:
  assumes "240 \<le> x" "x \<le> 244" "128 \<le> y" "y < 192" "128 \<le> z" "z < 192" "128 \<le> w" "w < 192"
    "x = 240 \<longrightarrow> 144 \<le> y" "x = 244 \<longrightarrow> y < 144"
  defines "c \<equiv> (x mod 8) * 262144 + (y mod 64) * 4096 + (z mod 64) * 64 + w mod 64"
  shows "encode_utf8 c = [char_of x, char_of y, char_of z, char_of w]" "scalar c"
proof -
  obtain a b d e where x: "x = 240 + a" "y = 128 + b" "z = 128 + d" "w = 128 + e"
    using assms(1,3,5,7) by (metis le_add_diff_inverse)
  with assms have a: "a < 8" "a \<le> 4" "b < 64" "d < 64" "e < 64" "a = 0 \<longrightarrow> 16 \<le> b" "a = 4 \<longrightarrow> b < 16" by simp_all
  have c: "c = ((a * 64 + b) * 64 + d) * 64 + e"
    unfolding c_def x low_bits(3)[OF a(1)] low_bits(4)[OF a(3)] low_bits(4)[OF a(4)] low_bits(4)[OF a(5)] by simp
  have q: "c div 64 = (a * 64 + b) * 64 + d" "c mod 64 = e" "((a * 64 + b) * 64 + d) div 64 = a * 64 + b"
      "((a * 64 + b) * 64 + d) mod 64 = d" "(a * 64 + b) div 64 = a" "(a * 64 + b) mod 64 = b"
    unfolding c by (rule base64_split[OF a(5)] base64_split[OF a(4)] base64_split[OF a(3)])+
  have "1 \<le> a \<or> 16 \<le> b" using a(6) by auto
  then have r: "65536 \<le> c" unfolding c by auto
  have "a < 4 \<or> a = 4 \<and> b < 16" using a(2,7) by auto
  then have s: "c < 1114112" using a(1-5) unfolding c by auto
  from r s show "encode_utf8 c = [char_of x, char_of y, char_of z, char_of w]" "scalar c"
    unfolding encode_utf8_def scalar_def base64_digits q using x by simp_all
qed

lemma valid_utf8_encodes: "valid_utf8 s \<longleftrightarrow> (\<exists>cs. list_all scalar cs \<and> s = encode cs)"
proof
  show "valid_utf8 s \<Longrightarrow> \<exists>cs. list_all scalar cs \<and> s = encode cs"
  proof (induction s rule: length_induct)
    case (1 s)
    have step: "\<exists>cs. list_all scalar cs \<and> s = encode cs"
      if "s = encode_utf8 c @ s'" "scalar c" "valid_utf8 s'" for c s'
    proof -
      have "length s' < length s" using that(1) by (simp add: length_encode_utf8)
      with 1 that(3) obtain cs where "list_all scalar cs" "s' = encode cs" by blast
      with that show ?thesis by (intro exI[of _ "c # cs"]) simp
    qed
    show ?case
    proof (cases s)
      case (Cons x xs)
      consider "byte_val x < 128" | "128 \<le> byte_val x" "byte_val x < 224" | "224 \<le> byte_val x" "byte_val x < 240"
        | "240 \<le> byte_val x" by linarith
      then show ?thesis
      proof cases
        case 1
        with Cons \<open>valid_utf8 s\<close> show ?thesis by (intro step[of "byte_val x" xs]) (simp_all add: scalar_def)
      next
        case 2
        with Cons \<open>valid_utf8 s\<close> obtain y ys where y: "xs = y # ys" "is_continuation y" "194 \<le> byte_val x" "valid_utf8 ys"
          by (auto split: list.splits)
        from encode_two[of "byte_val x" "byte_val y"] 2 y Cons show ?thesis
          by (intro step[OF _ _ y(4), of "(byte_val x mod 32) * 64 + byte_val y mod 64"]) (simp_all add: is_continuation_def)
      next
        case 3
        with Cons \<open>valid_utf8 s\<close> obtain y z ys where y: "xs = y # z # ys" "is_continuation y" "is_continuation z"
            "byte_val x = 224 \<longrightarrow> 160 \<le> byte_val y" "byte_val x = 237 \<longrightarrow> byte_val y < 160" "valid_utf8 ys"
          by (auto split: list.splits)
        from encode_three[of "byte_val x" "byte_val y" "byte_val z"] 3 y Cons show ?thesis
          by (intro step[OF _ _ y(6), of "(byte_val x mod 16) * 4096 + (byte_val y mod 64) * 64 + byte_val z mod 64"])
             (simp_all add: is_continuation_def)
      next
        case 4
        with Cons \<open>valid_utf8 s\<close> obtain y z w ys where y: "xs = y # z # w # ys" "is_continuation y" "is_continuation z"
            "is_continuation w" "byte_val x \<le> 244" "byte_val x = 240 \<longrightarrow> 144 \<le> byte_val y"
            "byte_val x = 244 \<longrightarrow> byte_val y < 144" "valid_utf8 ys"
          by (auto split: list.splits)
        from encode_four[of "byte_val x" "byte_val y" "byte_val z" "byte_val w"] 4 y Cons show ?thesis
          by (intro step[OF _ _ y(8), of "(byte_val x mod 8) * 262144 + (byte_val y mod 64) * 4096
               + (byte_val z mod 64) * 64 + byte_val w mod 64"]) (simp_all add: is_continuation_def)
      qed
    qed (auto intro: exI[of _ "[]"])
  qed
next
  have one: "valid_utf8 (encode_utf8 c @ s)" if "scalar c" "valid_utf8 s" for c s
  proof -
    let ?q = "c div 64" and ?q2 = "c div 64 div 64" and ?q3 = "c div 64 div 64 div 64"
    have e: "?q * 64 + c mod 64 = c" "?q2 * 64 + ?q mod 64 = ?q" "?q3 * 64 + ?q2 mod 64 = ?q2" by simp_all
    consider "c < 128" | "128 \<le> c" "c < 2048" | "2048 \<le> c" "c < 65536" | "65536 \<le> c" by linarith
    then show ?thesis
    proof cases
      case 1
      with that show ?thesis by simp
    next
        case 2
      then have "?q < 32" "2 \<le> ?q" by simp_all
      with 2 that show ?thesis by (simp add: encode_utf8_def char_byte is_continuation_def)
    next
      case 3
      then have d: "?q2 < 16" by simp
      have "?q2 = 0 \<longrightarrow> 32 \<le> ?q mod 64" using 3 e by linarith
      moreover have "?q2 = 13 \<longrightarrow> ?q mod 64 < 32" using 3 that(1) e unfolding scalar_def by linarith
      ultimately show ?thesis using 3 d that by (simp add: encode_utf8_def base64_digits char_byte is_continuation_def)
    next
      case 4
      then have d: "?q3 \<le> 4" using scalar_bound[OF that(1)] by simp
      have "?q3 = 0 \<longrightarrow> 16 \<le> ?q2 mod 64" using 4 e by linarith
      moreover have "?q3 = 4 \<longrightarrow> ?q2 mod 64 < 16" using scalar_bound[OF that(1)] e by linarith
      ultimately show ?thesis using 4 d that by (simp add: encode_utf8_def base64_digits char_byte is_continuation_def)
    qed
  qed
  assume "\<exists>cs. list_all scalar cs \<and> s = encode cs"
  then obtain cs where "list_all scalar cs" "s = encode cs" by blast
  moreover have "list_all scalar cs \<Longrightarrow> valid_utf8 (encode cs)" by (induction cs) (simp_all add: one)
  ultimately show "valid_utf8 s" by simp
qed

lemma chars_of_valid: "valid_utf8 s \<Longrightarrow> encode (chars_of s) = s \<and> list_all scalar (chars_of s)"
  using valid_utf8_encodes[of s] by auto

subsection \<open>Whitespace\<close>

text \<open>\<open>char::is_whitespace\<close>: the Unicode property \<open>White_Space\<close>.\<close>

definition is_whitespace :: "nat \<Rightarrow> bool" where
  "is_whitespace ch \<longleftrightarrow> 9 \<le> ch \<and> ch \<le> 13 \<or> ch = 32 \<or> ch = 133 \<or> ch = 160 \<or> ch = 5760
     \<or> 8192 \<le> ch \<and> ch \<le> 8202 \<or> ch = 8232 \<or> ch = 8233 \<or> ch = 8239 \<or> ch = 8287 \<or> ch = 12288"

text \<open>\<open>str::trim_start\<close>.\<close>

function trim_start :: "source \<Rightarrow> source" where
  "trim_start s = (case next_char s of
      None \<Rightarrow> s
    | Some ch \<Rightarrow> if is_whitespace ch then trim_start (drop (len_utf8 ch) s) else s)"
  by pat_completeness auto
termination
proof (relation "measure length")
  fix s ch assume "next_char s = Some ch"
  then show "(drop (len_utf8 ch) s, s) \<in> measure length"
    using next_char_len[of s ch] len_utf8_pos[of ch] by (cases s) auto
qed simp

declare trim_start.simps [simp del]

lemma trim_start_encode:
  "list_all scalar cs \<Longrightarrow> trim_start (encode cs) = encode (dropWhile is_whitespace cs)"
proof (induction cs)
  case Nil
  show ?case by (subst trim_start.simps) simp
next
  case (Cons c cs)
  then show ?case
    by (subst trim_start.simps) (simp add: next_char_encode scalar_bound length_encode_utf8)
qed

lemma valid_trim_start: "valid_utf8 s \<Longrightarrow> valid_utf8 (trim_start s)"
proof -
  assume "valid_utf8 s"
  then obtain cs where "list_all scalar cs" "s = encode cs" using valid_utf8_encodes by blast
  moreover have "list_all scalar cs \<Longrightarrow> list_all scalar (dropWhile is_whitespace cs)"
    by (induction cs) auto
  ultimately show "valid_utf8 (trim_start s)"
    using trim_start_encode valid_utf8_encodes by metis
qed

lemma length_trim_start: "length (trim_start s) \<le> length s"
proof (induction s rule: trim_start.induct)
  case (1 s)
  then show ?case
    by (subst trim_start.simps) (auto split: option.split intro: order.trans)
qed

end
