(* ===== verification/Literal_Strings.thy ===== *)
theory Literal_Strings
  imports Unicode_Text
begin

text \<open>
  The values of string constants (\<open>crates/squonk-ast/src/ast/literal.rs\<close>): standard strings with
  doubled delimiters and MySQL escapes, Unicode-escape strings and identifiers with their
  \<open>UESCAPE\<close> clause, dollar quotes, charset introducers, and adjacent constants joined into one.

  An \<open>Option\<close> or \<open>Result<_, ()>\<close> of the source is a sum whose error is \<open>EscErr\<close>; \<open>EscPanic\<close> is the
  panic of a slice off a character boundary. The borrowed and the owned variants of a \<open>Cow\<close> are
  one value.
\<close>

definition esc_bind :: "escape_failure + 'a \<Rightarrow> ('a \<Rightarrow> escape_failure + 'b) \<Rightarrow> escape_failure + 'b" where
  "esc_bind m k = (case m of Inl e \<Rightarrow> Inl e | Inr x \<Rightarrow> k x)"

text \<open>\<open>first.or_else(second)\<close>: a panic is not recovered from.\<close>

definition esc_or :: "escape_failure + 'a \<Rightarrow> escape_failure + 'a \<Rightarrow> escape_failure + 'a" where
  "esc_or first second = (if first = Inl EscErr then second else first)"

definition esc_slice :: "source \<Rightarrow> nat \<Rightarrow> nat \<Rightarrow> escape_failure + source" where
  "esc_slice s i j = (case str_slice s i j of None \<Rightarrow> Inl EscPanic | Some t \<Rightarrow> Inr t)"

text \<open>\<open>strip_prefix\<close> and \<open>strip_suffix\<close> with an ASCII character.\<close>

definition strip_prefix :: "byte \<Rightarrow> source \<Rightarrow> escape_failure + source" where
  "strip_prefix b s = (case s of [] \<Rightarrow> Inl EscErr | x # xs \<Rightarrow> if x = b then Inr xs else Inl EscErr)"

definition strip_suffix :: "byte \<Rightarrow> source \<Rightarrow> escape_failure + source" where
  "strip_suffix b s = (if s \<noteq> [] \<and> last s = b then Inr (butlast s) else Inl EscErr)"

definition strip_quotes :: "byte \<Rightarrow> source \<Rightarrow> escape_failure + source" where
  "strip_quotes b s = esc_bind (strip_prefix b s) (strip_suffix b)"

abbreviation backslash_byte :: byte where
  "backslash_byte \<equiv> CHR 0x5C"

abbreviation single_quote :: byte where
  "single_quote \<equiv> CHR 0x27"

abbreviation double_quote :: byte where
  "double_quote \<equiv> CHR 0x22"

subsection \<open>Standard strings\<close>

definition consume_mysql_escape :: "source \<Rightarrow> nat \<Rightarrow> source \<Rightarrow> escape_failure + (nat \<times> source)" where
  "consume_mysql_escape body i out = (case get_at body i of
      None \<Rightarrow> Inr (i, out @ [backslash_byte])
    | Some b \<Rightarrow>
        if b = CHR ''0'' then Inr (i + 1, out @ [CHR 0x00])
        else if b = single_quote then Inr (i + 1, out @ [single_quote])
        else if b = double_quote then Inr (i + 1, out @ [double_quote])
        else if b = CHR ''b'' then Inr (i + 1, out @ [CHR 0x08])
        else if b = CHR ''n'' then Inr (i + 1, out @ [CHR 0x0A])
        else if b = CHR ''r'' then Inr (i + 1, out @ [CHR 0x0D])
        else if b = CHR ''t'' then Inr (i + 1, out @ [CHR 0x09])
        else if b = CHR ''Z'' then Inr (i + 1, out @ [CHR 0x1A])
        else if b = backslash_byte then Inr (i + 1, out @ [backslash_byte])
        else if b = CHR ''%'' then Inr (i + 1, out @ [backslash_byte, CHR ''%''])
        else if b = CHR ''_'' then Inr (i + 1, out @ [backslash_byte, CHR ''_''])
        else if \<not> is_char_boundary body i then Inl EscPanic
        else (case next_char (drop i body) of
            None \<Rightarrow> Inl EscPanic
          | Some ch \<Rightarrow> Inr (i + len_utf8 ch, out @ encode_utf8 ch)))"

lemma consume_mysql_escape_le: "consume_mysql_escape body i out = Inr (j, out') \<Longrightarrow> i \<le> j"
  by (auto simp: consume_mysql_escape_def simp del: get_at_Some get_at_None split: option.splits if_splits)

function standard_from :: "bool \<Rightarrow> byte \<Rightarrow> source \<Rightarrow> nat \<Rightarrow> nat \<Rightarrow> source \<Rightarrow> escape_failure + source" where
  "standard_from backslash quote body segment_start i out =
     (if i < length body then
        (if body ! i = backslash_byte \<and> backslash then
           (case esc_slice body segment_start i of
              Inl e \<Rightarrow> Inl e
            | Inr s \<Rightarrow>
                (case consume_mysql_escape body (i + 1) (out @ s) of
                   Inl e \<Rightarrow> Inl e
                 | Inr (j, out') \<Rightarrow> standard_from backslash quote body j j out'))
         else if body ! i = quote then
           (if get_at body (i + 1) \<noteq> Some quote then Inl EscErr
            else (case esc_slice body segment_start i of
                Inl e \<Rightarrow> Inl e
              | Inr s \<Rightarrow> standard_from backslash quote body (i + 2) (i + 2) (out @ s @ [quote])))
         else standard_from backslash quote body segment_start (i + 1) out)
      else (case esc_slice body segment_start (length body) of
          Inl e \<Rightarrow> Inl e | Inr s \<Rightarrow> Inr (out @ s)))"
  by pat_completeness auto
termination
  by (relation "measure (\<lambda>(bs, q, body, s, i, out). length body - i)") (auto dest!: consume_mysql_escape_le)

declare standard_from.simps [simp del]

definition materialize_standard_string :: "source \<Rightarrow> byte \<Rightarrow> bool \<Rightarrow> escape_failure + source" where
  "materialize_standard_string body quote backslash =
     (let has_backslash = backslash \<and> backslash_byte \<in> set body in
      if quote \<notin> set body \<and> \<not> has_backslash then Inr body
      else standard_from backslash quote body 0 0 [])"

subsection \<open>The escape character of a \<open>U&\<close> constant\<close>

text \<open>\<open>is_ascii_hexdigit\<close> and \<open>to_digit(16)\<close> of a character.\<close>

definition hex_digit :: "nat \<Rightarrow> nat option" where
  "hex_digit ch = (if ch < 128 then hex_value (char_of ch) else None)"

definition is_legal_uescape_char :: "nat \<Rightarrow> bool" where
  "is_legal_uescape_char ch \<longleftrightarrow>
     \<not> (hex_digit ch \<noteq> None \<or> ch = 43 \<or> ch = 39 \<or> ch = 34 \<or> is_whitespace ch)"

definition parse_uescape_argument :: "source \<Rightarrow> escape_failure + nat" where
  "parse_uescape_argument arg =
     esc_bind (strip_quotes single_quote arg) (\<lambda>inner.
     esc_bind (materialize_standard_string inner single_quote False) (\<lambda>v.
       case chars_of v of
         [] \<Rightarrow> Inl EscErr
       | escape # others \<Rightarrow>
           if others \<noteq> [] \<or> \<not> is_legal_uescape_char escape then Inl EscErr else Inr escape))"

definition uescape_argument_is_legal :: "source \<Rightarrow> bool option" where
  "uescape_argument_is_legal arg = (case parse_uescape_argument arg of
      Inl EscPanic \<Rightarrow> None | Inl EscErr \<Rightarrow> Some False | Inr _ \<Rightarrow> Some True)"

definition uescape_char :: "source \<Rightarrow> escape_failure + nat" where
  "uescape_char tail = (case str_slice tail 0 7 of
      None \<Rightarrow> Inl EscErr
    | Some kw \<Rightarrow>
        if map to_ascii_uppercase kw \<noteq> ''UESCAPE'' then Inl EscErr
        else esc_bind (esc_slice tail 7 (length tail)) (\<lambda>t. parse_uescape_argument (trim_start t)))"

function quote_end_from :: "source \<Rightarrow> byte \<Rightarrow> nat \<Rightarrow> nat option" where
  "quote_end_from bytes quote i =
     (if i < length bytes then
        (if bytes ! i = quote then
           (if get_at bytes (i + 1) = Some quote then quote_end_from bytes quote (i + 2) else Some i)
         else quote_end_from bytes quote (i + 1))
      else None)"
  by pat_completeness auto
termination by (relation "measure (\<lambda>(bytes, q, i). length bytes - i)") auto

declare quote_end_from.simps [simp del]

definition terminating_quote :: "source \<Rightarrow> byte \<Rightarrow> nat option" where
  "terminating_quote bytes quote = quote_end_from bytes quote 1"

definition unicode_lexeme_body :: "source \<Rightarrow> byte \<Rightarrow> escape_failure + (source \<times> nat)" where
  "unicode_lexeme_body txt quote =
     esc_bind (if take 2 txt = ''U&'' \<or> take 2 txt = ''u&'' then Inr (drop 2 txt) else Inl EscErr) (\<lambda>tail.
       if get_at tail 0 \<noteq> Some quote then Inl EscErr
       else case terminating_quote tail quote of
         None \<Rightarrow> Inl EscErr
       | Some close \<Rightarrow>
           esc_bind (esc_slice tail 1 close) (\<lambda>body.
             case str_slice tail (close + 1) (length tail) of
               None \<Rightarrow> Inl EscErr
             | Some after \<Rightarrow>
                 (let clause = trim_start after in
                  if clause = [] then Inr (body, 92)
                  else esc_bind (uescape_char clause) (\<lambda>escape. Inr (body, escape)))))"

subsection \<open>Unicode escapes\<close>

text \<open>The trait \<open>UnicodeEscapeSink\<close> is the function its implementations give.\<close>

type_synonym 's unicode_sink = "'s \<Rightarrow> nat \<Rightarrow> escape_failure + 's"

definition string_sink :: "source unicode_sink" where
  "string_sink out ch = Inr (out @ encode_utf8 ch)"

definition unit_sink :: "unit unicode_sink" where
  "unit_sink _ ch = Inr ()"

fun read_unicode_hex :: "nat \<Rightarrow> nat \<Rightarrow> nat list \<Rightarrow> escape_failure + (nat \<times> nat list)" where
  "read_unicode_hex value 0 cs = Inr (value, cs)"
| "read_unicode_hex value (Suc n) [] = Inl EscErr"
| "read_unicode_hex value (Suc n) (ch # cs) = (case hex_digit ch of
      None \<Rightarrow> Inl EscErr | Some digit \<Rightarrow> read_unicode_hex (value * 16 + digit) n cs)"

definition push_code_point :: "'s unicode_sink \<Rightarrow> 's \<Rightarrow> nat \<Rightarrow> escape_failure + 's" where
  "push_code_point emit out code_point =
     (if code_point = 0 then Inl EscErr
      else case char_from_u32 code_point of None \<Rightarrow> Inl EscErr | Some ch \<Rightarrow> emit out ch)"

definition is_high_surrogate :: "nat \<Rightarrow> bool" where
  "is_high_surrogate cp \<longleftrightarrow> 55296 \<le> cp \<and> cp \<le> 56319"

definition is_low_surrogate :: "nat \<Rightarrow> bool" where
  "is_low_surrogate cp \<longleftrightarrow> 56320 \<le> cp \<and> cp \<le> 57343"

text \<open>One escape, from the character after the escape character: the code point and the rest.\<close>

definition read_escape :: "nat \<Rightarrow> nat \<Rightarrow> nat list \<Rightarrow> escape_failure + (nat \<times> nat list)" where
  "read_escape escape next cs =
     (if next = 43 then read_unicode_hex 0 6 cs
      else case read_unicode_hex 0 4 (next # cs) of
        Inl e \<Rightarrow> Inl e
      | Inr (cp, cs') \<Rightarrow>
          if \<not> is_high_surrogate cp then Inr (cp, cs')
          else case cs' of
            [] \<Rightarrow> Inl EscErr
          | c # cs2 \<Rightarrow>
              if c \<noteq> escape then Inl EscErr
              else case read_unicode_hex 0 4 cs2 of
                Inl e \<Rightarrow> Inl e
              | Inr (low, cs3) \<Rightarrow>
                  if \<not> is_low_surrogate low then Inl EscErr
                  else Inr (65536 + (cp - 55296) * 1024 + (low - 56320), cs3))"

lemma read_unicode_hex_length: "read_unicode_hex v n cs = Inr (cp, cs') \<Longrightarrow> length cs = n + length cs'"
  by (induction v n cs rule: read_unicode_hex.induct) (auto split: option.splits)

lemma read_escape_length: "read_escape escape next cs = Inr (cp, cs') \<Longrightarrow> length cs' \<le> length cs"
  by (auto simp: read_escape_def dest!: read_unicode_hex_length split: if_splits sum.splits list.splits)

function scan_unicode_escape_string ::
    "'s unicode_sink \<Rightarrow> nat \<Rightarrow> nat \<Rightarrow> nat list \<Rightarrow> 's \<Rightarrow> escape_failure + 's" where
  "scan_unicode_escape_string emit escape quote [] out = Inr out"
| "scan_unicode_escape_string emit escape quote (ch # cs) out =
     (if ch = quote then
        (case cs of
           [] \<Rightarrow> Inl EscErr
         | c # cs' \<Rightarrow>
             if c \<noteq> quote then Inl EscErr
             else (case emit out quote of
                 Inl e \<Rightarrow> Inl e | Inr out' \<Rightarrow> scan_unicode_escape_string emit escape quote cs' out'))
      else if ch = escape then
        (case cs of
           [] \<Rightarrow> Inl EscErr
         | next # cs' \<Rightarrow>
             if next = escape then
               (case emit out escape of
                  Inl e \<Rightarrow> Inl e | Inr out' \<Rightarrow> scan_unicode_escape_string emit escape quote cs' out')
             else (case read_escape escape next cs' of
                 Inl e \<Rightarrow> Inl e
               | Inr (cp, cs2) \<Rightarrow>
                   (case push_code_point emit out cp of
                      Inl e \<Rightarrow> Inl e | Inr out' \<Rightarrow> scan_unicode_escape_string emit escape quote cs2 out')))
      else (case emit out ch of
          Inl e \<Rightarrow> Inl e | Inr out' \<Rightarrow> scan_unicode_escape_string emit escape quote cs out'))"
  by pat_completeness auto
termination
  by (relation "measure (\<lambda>(emit, e, q, cs, out). length cs)") (auto dest!: read_escape_length)

definition materialize_unicode_string :: "source \<Rightarrow> nat \<Rightarrow> escape_failure + source" where
  "materialize_unicode_string body escape =
     (if escape \<notin> set (chars_of body) \<and> single_quote \<notin> set body then Inr body
      else scan_unicode_escape_string string_sink escape 39 (chars_of body) [])"

definition materialize_unicode_ident :: "source \<Rightarrow> escape_failure + source" where
  "materialize_unicode_ident txt = esc_bind (unicode_lexeme_body txt double_quote) (\<lambda>(body, escape).
     if escape \<notin> set (chars_of body) \<and> double_quote \<notin> set body then Inr body
     else scan_unicode_escape_string string_sink escape 34 (chars_of body) [])"

definition is_unicode_ident :: "source \<Rightarrow> bool" where
  "is_unicode_ident txt = (case txt of
      a # b # c # others \<Rightarrow> (a = CHR ''U'' \<or> a = CHR ''u'') \<and> b = CHR ''&'' \<and> c = double_quote
    | _ \<Rightarrow> False)"

definition unicode_escape_string_is_valid :: "source \<Rightarrow> bool option" where
  "unicode_escape_string_is_valid txt = (case unicode_lexeme_body txt single_quote of
      Inl EscPanic \<Rightarrow> None
    | Inl EscErr \<Rightarrow> Some True
    | Inr (body, escape) \<Rightarrow>
        if escape \<notin> set (chars_of body) \<and> single_quote \<notin> set body then Some True
        else (case scan_unicode_escape_string unit_sink escape 39 (chars_of body) () of
            Inl EscPanic \<Rightarrow> None | Inl EscErr \<Rightarrow> Some False | Inr _ \<Rightarrow> Some True))"

subsection \<open>Charset introducers and dollar quotes\<close>

definition is_charset_name_byte :: "byte \<Rightarrow> bool" where
  "is_charset_name_byte b \<longleftrightarrow> is_ascii_alphabetic b \<or> is_ascii_digit b \<or> b = CHR ''_''"

definition charset_introducer_quote_offset :: "source \<Rightarrow> nat option" where
  "charset_introducer_quote_offset txt = (case txt of
      [] \<Rightarrow> None
    | x # tail \<Rightarrow>
        if x \<noteq> CHR ''_'' then None
        else (let name_len = length (takeWhile is_charset_name_byte tail); open_at = 1 + name_len in
          if name_len = 0 then None
          else if get_at txt open_at = Some single_quote \<or> get_at txt open_at = Some double_quote
          then Some open_at else None))"

definition literal_tag_start :: "byte \<Rightarrow> bool" where
  "literal_tag_start b \<longleftrightarrow> b = CHR ''_'' \<or> is_ascii_alphabetic b \<or> 128 \<le> byte_val b"

definition literal_tag_continue :: "byte \<Rightarrow> bool" where
  "literal_tag_continue b \<longleftrightarrow> literal_tag_start b \<or> is_ascii_digit b"

definition dollar_open_delim_len :: "source \<Rightarrow> nat option" where
  "dollar_open_delim_len bytes =
     (if get_at bytes 0 \<noteq> Some (CHR ''$'') then None
      else case get_at bytes 1 of
        None \<Rightarrow> None
      | Some b \<Rightarrow>
          if b = CHR ''$'' then Some 2
          else if literal_tag_start b then
            (let i = 2 + length (takeWhile literal_tag_continue (drop 2 bytes)) in
             if get_at bytes i \<noteq> Some (CHR ''$'') then None else Some (i + 1))
          else None)"

definition dollar_quoted_body :: "source \<Rightarrow> escape_failure + source" where
  "dollar_quoted_body txt = (case dollar_open_delim_len txt of
      None \<Rightarrow> Inl EscErr
    | Some n \<Rightarrow>
        if length txt < n * 2 then Inl EscErr
        else (let close_start = length txt - n in
          if take n txt \<noteq> drop close_start txt then Inl EscErr else esc_slice txt n close_start))"

fun dollar_close_from :: "source \<Rightarrow> source \<Rightarrow> nat \<Rightarrow> nat \<Rightarrow> nat option" where
  "dollar_close_from bytes delim close 0 = None"
| "dollar_close_from bytes delim close (Suc k) =
     (if take (length delim) (drop close bytes) = delim then Some (close + length delim)
      else dollar_close_from bytes delim (close + 1) k)"

text \<open>The loop tries the offsets up to the last that leaves room for the delimiter.\<close>

definition dollar_quoted_token_len :: "source \<Rightarrow> nat option" where
  "dollar_quoted_token_len bytes = (case dollar_open_delim_len bytes of
      None \<Rightarrow> None
    | Some n \<Rightarrow> dollar_close_from bytes (take n bytes) n (length bytes + 1 - 2 * n))"

subsection \<open>One constant and its form\<close>

datatype string_form =
    Standard source
  | PostgresEscape source
  | DollarQuoted source
  | Unicode_Escape source nat

definition unicode_string_body :: "source \<Rightarrow> escape_failure + string_form" where
  "unicode_string_body txt =
     esc_bind (unicode_lexeme_body txt single_quote) (\<lambda>(body, escape). Inr (Unicode_Escape body escape))"

definition national_body :: "source \<Rightarrow> escape_failure + source" where
  "national_body txt =
     (if (take 2 txt = ''N'' @ [single_quote] \<or> take 2 txt = ''n'' @ [single_quote])
         \<and> 3 \<le> length txt \<and> last txt = single_quote
      then esc_slice txt 2 (length txt - 1) else Inl EscErr)"

definition charset_body :: "source \<Rightarrow> escape_failure + source" where
  "charset_body txt = (case charset_introducer_quote_offset txt of
      None \<Rightarrow> Inl EscErr
    | Some open_at \<Rightarrow> esc_bind (esc_slice txt open_at (length txt)) (\<lambda>tail.
        esc_or (strip_quotes single_quote tail) (strip_quotes double_quote tail)))"

definition escape_body :: "source \<Rightarrow> escape_failure + source" where
  "escape_body txt = (case postgres_escape_body txt of None \<Rightarrow> Inl EscErr | Some body \<Rightarrow> Inr body)"

definition string_literal_body :: "source \<Rightarrow> escape_failure + string_form" where
  "string_literal_body txt =
     esc_or (map_sum id Standard (strip_quotes single_quote txt))
    (esc_or (map_sum id Standard (strip_quotes double_quote txt))
    (esc_or (map_sum id PostgresEscape (escape_body txt))
    (esc_or (map_sum id Standard (national_body txt))
    (esc_or (map_sum id Standard (charset_body txt))
    (esc_or (unicode_string_body txt)
       (map_sum id DollarQuoted (dollar_quoted_body txt)))))))"

definition materialize_string :: "source \<Rightarrow> bool \<Rightarrow> escape_failure + source" where
  "materialize_string txt backslash =
     (if string_literal_embeds_nul txt then Inl EscErr
      else esc_bind (string_literal_body txt) (\<lambda>form. case form of
          Standard body \<Rightarrow>
            materialize_standard_string body (if txt = [] then single_quote else last txt) backslash
        | PostgresEscape body \<Rightarrow> materialize_postgres_escape_string body
        | DollarQuoted body \<Rightarrow> Inr body
        | Unicode_Escape body escape \<Rightarrow> materialize_unicode_string body escape))"

subsection \<open>Adjacent constants\<close>

function segment_end_from :: "source \<Rightarrow> byte \<Rightarrow> bool \<Rightarrow> nat \<Rightarrow> nat option" where
  "segment_end_from bytes quote backslash i =
     (if i < length bytes then
        (if bytes ! i = backslash_byte \<and> backslash then segment_end_from bytes quote backslash (i + 2)
         else if bytes ! i = quote then
           (if get_at bytes (i + 1) = Some quote then segment_end_from bytes quote backslash (i + 2)
            else Some (i + 1))
         else segment_end_from bytes quote backslash (i + 1))
      else None)"
  by pat_completeness auto
termination by (relation "measure (\<lambda>(bytes, q, b, i). length bytes - i)") auto

declare segment_end_from.simps [simp del]

text \<open>The offset of the opening quote, and whether the prefix brings backslash escapes.\<close>

definition segment_open :: "source \<Rightarrow> (nat \<times> bool) option" where
  "segment_open bytes =
     (let a = get_at bytes 0; b = get_at bytes 1; c = get_at bytes 2 in
      if (a = Some (CHR ''E'') \<or> a = Some (CHR ''e'')) \<and> b = Some single_quote then Some (1, True)
      else if (a = Some (CHR ''N'') \<or> a = Some (CHR ''n'')) \<and> b = Some single_quote then Some (1, False)
      else if (a = Some (CHR ''U'') \<or> a = Some (CHR ''u'')) \<and> b = Some (CHR ''&'') \<and> c = Some single_quote
      then Some (2, False)
      else if (a = Some (CHR ''B'') \<or> a = Some (CHR ''b'') \<or> a = Some (CHR ''X'') \<or> a = Some (CHR ''x''))
        \<and> b = Some single_quote then Some (1, False)
      else if a = Some single_quote \<or> a = Some double_quote then Some (0, False)
      else if a = Some (CHR ''_'') then map_option (\<lambda>n. (n, False)) (charset_introducer_quote_offset bytes)
      else None)"

definition first_segment_end :: "source \<Rightarrow> bool \<Rightarrow> nat option" where
  "first_segment_end txt dialect_backslash = (case segment_open txt of
      None \<Rightarrow> None
    | Some (open_at, prefix_backslash) \<Rightarrow>
        segment_end_from txt (txt ! open_at) (prefix_backslash \<or> dialect_backslash) (open_at + 1))"

lemma segment_end_bounds: "segment_end_from bytes q b i = Some e \<Longrightarrow> i < e \<and> e \<le> length bytes"
proof (induction bytes q b i rule: segment_end_from.induct)
  case (1 bytes q b i)
  from 1(4) show ?case
    by (subst (asm) segment_end_from.simps)
       (auto simp del: get_at_Some dest: 1(1,2,3) split: if_splits)
qed

lemma first_segment_end_bounds: "first_segment_end txt b = Some e \<Longrightarrow> 0 < e \<and> e \<le> length txt"
  by (auto simp: first_segment_end_def dest!: segment_end_bounds split: option.splits prod.splits)

function join_segments :: "bool \<Rightarrow> source \<Rightarrow> source \<Rightarrow> escape_failure + source" where
  "join_segments backslash tail out = (case first_segment_end tail backslash of
      None \<Rightarrow> Inl EscErr
    | Some e \<Rightarrow>
        (case esc_bind (esc_slice tail 0 e) (\<lambda>seg. materialize_string seg backslash) of
           Inl err \<Rightarrow> Inl err
         | Inr v \<Rightarrow>
             (case esc_slice tail e (length tail) of
                Inl err \<Rightarrow> Inl err
              | Inr after \<Rightarrow>
                  if trim_start after = [] then Inr (out @ v)
                  else join_segments backslash (trim_start after) (out @ v))))"
  by pat_completeness auto
termination
proof (relation "measure (\<lambda>(b, tail, out). length tail)")
  fix backslash tail out e v after
  assume "first_segment_end tail backslash = Some e" "esc_slice tail e (length tail) = Inr after"
  then have "0 < e" "e \<le> length tail" "length after = length tail - e"
    using first_segment_end_bounds[of tail backslash e]
    by (auto simp: esc_slice_def str_slice_def subslice_def split: if_splits)
  with length_trim_start[of after]
  show "((backslash, trim_start after, out @ v), backslash, tail, out) \<in> measure (\<lambda>(b, tail, out). length tail)" by auto
qed simp

declare join_segments.simps [simp del]

definition materialize_concatenated_string :: "source \<Rightarrow> bool \<Rightarrow> escape_failure + source" where
  "materialize_concatenated_string txt backslash = (case first_segment_end txt backslash of
      None \<Rightarrow> materialize_string txt backslash
    | Some e \<Rightarrow>
        esc_bind (esc_slice txt e (length txt)) (\<lambda>after.
          let tail = trim_start after in
          if \<not> (tail \<noteq> [] \<and> (hd tail = single_quote \<or> hd tail = double_quote))
          then materialize_string txt backslash
          else join_segments backslash txt []))"

end
