(* ===== verification/Literal_Values.thy ===== *)
theory Literal_Values
  imports Literal_Strings Source_Vocab Preset_Ansi
begin

text \<open>
  Literals and their accessors (\<open>crates/squonk-ast/src/ast/literal.rs\<close>): the literal kinds, the
  numeric forms, bit strings, money and temporal values, each read lazily from the source the
  literal's span covers.
\<close>

datatype time_zone = Tz_Unspecified | WithTimeZone | WithoutTimeZone

datatype interval_fields =
    If_Year | If_Month | If_Day | If_Hour | If_Minute | If_Second | If_YearToMonth | If_DayToHour
  | If_DayToMinute | If_DayToSecond | If_HourToMinute | If_HourToSecond | If_MinuteToSecond
  | If_Week | If_Quarter | If_Decade | If_Century | If_Millennium | If_Millisecond | If_Microsecond
  | If_DayToMicrosecond | If_HourToMicrosecond | If_MinuteToMicrosecond | If_SecondToMicrosecond

datatype bit_string_radix = Radix_Binary | Radix_Hex

fun bit_radix_is_digit :: "bit_string_radix \<Rightarrow> byte \<Rightarrow> bool" where
  "bit_radix_is_digit Radix_Binary b \<longleftrightarrow> b = CHR ''0'' \<or> b = CHR ''1''"
| "bit_radix_is_digit Radix_Hex b \<longleftrightarrow> is_ascii_hexdigit b"

datatype literal_kind =
    Lk_Integer | Lk_Float | Lk_Decimal | Lk_String | Lk_Boolean bool | Lk_Null | Lk_Date
  | Lk_Time time_zone | Lk_Timestamp time_zone | Lk_Interval "interval_fields option" "nat option"
  | Lk_BitString bit_string_radix | Lk_Money

record literal =
  lit_kind :: literal_kind
  lit_meta :: meta

datatype literal_expected =
  Ex_Integer | Ex_DecimalText | Ex_String | Ex_Boolean | Ex_Null | Ex_Temporal | Ex_BitString | Ex_Money

datatype literal_value_error_kind =
    WrongKind literal_expected literal_kind | MissingSource | InvalidSourceRange | InvalidInteger
  | InvalidString | InvalidBitString | InvalidMoney

datatype literal_value_error = LiteralValueError literal_value_error_kind span

text \<open>An accessor fails with its error, or with a panic.\<close>

datatype accessor_failure = Value_Error literal_value_error | Value_Panic

subsection \<open>Numbers\<close>

datatype cow = Borrowed source | Owned source

definition split_sign :: "source \<Rightarrow> source \<times> source" where
  "split_sign txt = (case txt of
      b # bs \<Rightarrow> if b = CHR ''+'' \<or> b = CHR ''-'' then ([b], bs) else ([], txt)
    | [] \<Rightarrow> ([], txt))"

definition split_radix_prefix :: "source \<Rightarrow> nat \<times> source" where
  "split_radix_prefix number = (case number of
      a # b # body \<Rightarrow>
        if a = CHR ''0'' \<and> (b = CHR ''x'' \<or> b = CHR ''X'') then (16, body)
        else if a = CHR ''0'' \<and> (b = CHR ''o'' \<or> b = CHR ''O'') then (8, body)
        else if a = CHR ''0'' \<and> (b = CHR ''b'' \<or> b = CHR ''B'') then (2, body)
        else (10, number)
    | _ \<Rightarrow> (10, number))"

definition is_radix_digit :: "byte \<Rightarrow> nat \<Rightarrow> bool" where
  "is_radix_digit b base \<longleftrightarrow>
     (if base = 16 then is_ascii_hexdigit b
      else if base = 8 then 48 \<le> byte_val b \<and> byte_val b \<le> 55
      else if base = 2 then b = CHR ''0'' \<or> b = CHR ''1''
      else is_ascii_digit b)"

definition separator_ok :: "source \<Rightarrow> nat \<Rightarrow> nat \<Rightarrow> bool" where
  "separator_ok bytes base i \<longleftrightarrow>
     0 < i \<and> is_radix_digit (bytes ! (i - 1)) base
     \<and> (case get_at bytes (i + 1) of None \<Rightarrow> False | Some b \<Rightarrow> is_radix_digit b base)"

definition strip_digit_separators :: "source \<Rightarrow> nat \<Rightarrow> cow option" where
  "strip_digit_separators body base =
     (if CHR ''_'' \<notin> set body then Some (Borrowed body)
      else if list_all (\<lambda>i. body ! i = CHR ''_'' \<longrightarrow> separator_ok body base i) [0..<length body]
      then Some (Owned (filter (\<lambda>b. b \<noteq> CHR ''_'') body)) else None)"

text \<open>
  \<open>from_str_radix\<close> of a signed integer type: an optional sign, then at least one digit of the
  base, and a value in range.
\<close>

fun digits_value :: "nat \<Rightarrow> nat \<Rightarrow> source \<Rightarrow> nat option" where
  "digits_value base acc [] = Some acc"
| "digits_value base acc (b # bs) = (case hex_value b of
      None \<Rightarrow> None
    | Some d \<Rightarrow> if d < base then digits_value base (acc * base + d) bs else None)"

definition from_str_radix :: "int \<Rightarrow> int \<Rightarrow> nat \<Rightarrow> source \<Rightarrow> int option" where
  "from_str_radix lo hi base s =
     (let (sign, digits) = split_sign s in
      if digits = [] then None
      else case digits_value base 0 digits of
        None \<Rightarrow> None
      | Some n \<Rightarrow>
          (let v = (if sign = ''-'' then - int n else int n)
           in if lo \<le> v \<and> v \<le> hi then Some v else None))"

definition i64_min :: int where "i64_min = - 9223372036854775808"
definition i64_max :: int where "i64_max = 9223372036854775807"
definition i128_min :: int where "i128_min = - 170141183460469231731687303715884105728"
definition i128_max :: int where "i128_max = 170141183460469231731687303715884105727"

definition materialize_i64 :: "source \<Rightarrow> escape_failure + int" where
  "materialize_i64 txt =
     (let (sign, number) = split_sign txt; (base, body) = split_radix_prefix number in
      case strip_digit_separators body base of
        None \<Rightarrow> Inl EscErr
      | Some digits \<Rightarrow>
          if base = 10 then
            (case (case digits of
                Borrowed _ \<Rightarrow> from_str_radix i64_min i64_max 10 txt
              | Owned stripped \<Rightarrow> from_str_radix i64_min i64_max 10 (sign @ stripped)) of
               None \<Rightarrow> Inl EscErr | Some v \<Rightarrow> Inr v)
          else (case from_str_radix i64_min i64_max base (case digits of Borrowed s \<Rightarrow> s | Owned s \<Rightarrow> s) of
              None \<Rightarrow> Inl EscErr
            | Some v \<Rightarrow>
                if sign = ''-'' then (if v = i64_min then Inl EscErr else Inr (- v)) else Inr v))"

fun decimal_digits :: "nat \<Rightarrow> source" where
  "decimal_digits n = (if n < 10 then [char_of (48 + n)] else decimal_digits (n div 10) @ [char_of (48 + n mod 10)])"

declare decimal_digits.simps [simp del]

text \<open>\<open>to_string\<close> of an integer.\<close>

definition int_text :: "int \<Rightarrow> source" where
  "int_text v = (if v < 0 then CHR ''-'' # decimal_digits (nat (- v)) else decimal_digits (nat v))"

text \<open>Negating the least \<open>i128\<close> overflows.\<close>

definition materialize_decimal_text :: "source \<Rightarrow> escape_failure + source" where
  "materialize_decimal_text txt =
     (let (sign, number) = split_sign txt; (base, body) = split_radix_prefix number in
      case strip_digit_separators body base of
        None \<Rightarrow> Inl EscErr
      | Some digits \<Rightarrow>
          if base = 10 then
            (case digits of Borrowed _ \<Rightarrow> Inr txt | Owned stripped \<Rightarrow> Inr (sign @ stripped))
          else (case from_str_radix i128_min i128_max base (case digits of Borrowed s \<Rightarrow> s | Owned s \<Rightarrow> s) of
              None \<Rightarrow> Inl EscErr
            | Some magnitude \<Rightarrow>
                if sign = ''-'' then
                  (if magnitude = i128_min then Inl EscPanic else Inr (int_text (- magnitude)))
                else Inr (int_text magnitude)))"

subsection \<open>Bit strings, money, temporal values\<close>

definition bit_string_body :: "source \<Rightarrow> escape_failure + source" where
  "bit_string_body txt = (case txt of
      a # b # others \<Rightarrow>
        if (a = CHR ''B'' \<or> a = CHR ''b'' \<or> a = CHR ''X'' \<or> a = CHR ''x'') \<and> b = single_quote
        then strip_quotes single_quote (b # others) else Inl EscErr
    | _ \<Rightarrow> Inl EscErr)"

definition plain_quoted_inner :: "source \<Rightarrow> escape_failure + source" where
  "plain_quoted_inner segment = strip_quotes single_quote segment"

function bit_segments :: "source \<Rightarrow> source \<Rightarrow> escape_failure + source" where
  "bit_segments tail out =
     (if tail = [] then Inr out
      else case first_segment_end tail False of
        None \<Rightarrow> Inl EscErr
      | Some e \<Rightarrow>
          (case esc_bind (esc_slice tail 0 e) plain_quoted_inner of
             Inl err \<Rightarrow> Inl err
           | Inr digits \<Rightarrow>
               (case esc_slice tail e (length tail) of
                  Inl err \<Rightarrow> Inl err
                | Inr after \<Rightarrow> bit_segments (trim_start after) (out @ digits))))"
  by pat_completeness auto
termination
proof (relation "measure (\<lambda>(tail, out). length tail)")
  fix tail out e digits after
  assume "first_segment_end tail False = Some e" "esc_slice tail e (length tail) = Inr after"
  then have "0 < e" "e \<le> length tail" "length after = length tail - e"
    using first_segment_end_bounds[of tail False e]
    by (auto simp: esc_slice_def str_slice_def subslice_def split: if_splits)
  with length_trim_start[of after]
  show "((trim_start after, out @ digits), tail, out) \<in> measure (\<lambda>(tail, out). length tail)" by auto
qed simp

declare bit_segments.simps [simp del]

definition concatenated_bit_body :: "source \<Rightarrow> escape_failure + source" where
  "concatenated_bit_body txt = (case first_segment_end txt False of
      None \<Rightarrow> Inl EscErr
    | Some e \<Rightarrow>
        if e = length txt then bit_string_body txt
        else esc_bind (esc_bind (esc_slice txt 0 e) bit_string_body) (\<lambda>out.
             esc_bind (esc_slice txt e (length txt)) (\<lambda>after. bit_segments (trim_start after) out)))"

definition money_body :: "source \<Rightarrow> escape_failure + source" where
  "money_body txt = strip_prefix (CHR ''$'') txt"

definition last_index :: "('a \<Rightarrow> bool) \<Rightarrow> 'a list \<Rightarrow> nat option" where
  "last_index p xs = map_option (\<lambda>k. length xs - 1 - k) (first_index p (rev xs))"

definition temporal_string_token :: "source \<Rightarrow> source option" where
  "temporal_string_token txt =
     (let first_quote = first_index (\<lambda>b. b = single_quote) txt;
          first_dollar = first_index (\<lambda>b. b = CHR ''$'') txt in
      if (case (first_quote, first_dollar) of
            (Some quote, Some dollar) \<Rightarrow> dollar < quote | (None, Some _) \<Rightarrow> True | _ \<Rightarrow> False)
      then (case first_dollar of
          None \<Rightarrow> None
        | Some start \<Rightarrow>
            (case dollar_quoted_token_len (drop start txt) of
               None \<Rightarrow> None | Some len \<Rightarrow> str_slice txt start (start + len)))
      else (case first_quote of
          None \<Rightarrow> None
        | Some quote \<Rightarrow>
            (let start = (if 1 \<le> quote \<and> (txt ! (quote - 1) = CHR ''E'' \<or> txt ! (quote - 1) = CHR ''e'')
                   \<and> (quote < 2 \<or> \<not> literal_tag_continue (txt ! (quote - 2))) then quote - 1 else quote)
             in case last_index (\<lambda>b. b = single_quote) txt of
                  None \<Rightarrow> None | Some e \<Rightarrow> str_slice txt start (e + 1))))"

subsection \<open>The accessors\<close>

definition lit_error :: "literal \<Rightarrow> literal_value_error_kind \<Rightarrow> accessor_failure" where
  "lit_error l kind = Value_Error (LiteralValueError kind (meta_span (lit_meta l)))"

definition wrong_kind :: "literal \<Rightarrow> literal_expected \<Rightarrow> accessor_failure" where
  "wrong_kind l expected = lit_error l (WrongKind expected (lit_kind l))"

definition expect_kind :: "literal \<Rightarrow> literal_expected \<Rightarrow> (literal_kind \<Rightarrow> bool) \<Rightarrow> accessor_failure + unit" where
  "expect_kind l expected matches = (if matches (lit_kind l) then Inr () else Inl (wrong_kind l expected))"

definition source_text :: "literal \<Rightarrow> source \<Rightarrow> accessor_failure + source" where
  "source_text l src =
     (let sp = meta_span (lit_meta l) in
      if is_synthetic sp then Inl (lit_error l MissingSource)
      else case str_slice src (span_start sp) (span_end sp) of
        None \<Rightarrow> Inl (lit_error l InvalidSourceRange)
      | Some txt \<Rightarrow> Inr txt)"

definition value_bind :: "accessor_failure + 'a \<Rightarrow> ('a \<Rightarrow> accessor_failure + 'b) \<Rightarrow> accessor_failure + 'b" where
  "value_bind m k = (case m of Inl e \<Rightarrow> Inl e | Inr x \<Rightarrow> k x)"

text \<open>\<open>map_err\<close> of a materializer's error to the accessor's.\<close>

definition or_value_error :: "literal \<Rightarrow> literal_value_error_kind \<Rightarrow> escape_failure + 'a \<Rightarrow> accessor_failure + 'a" where
  "or_value_error l kind r = (case r of
      Inl EscPanic \<Rightarrow> Inl Value_Panic | Inl EscErr \<Rightarrow> Inl (lit_error l kind) | Inr x \<Rightarrow> Inr x)"

definition as_i64 :: "literal \<Rightarrow> source \<Rightarrow> accessor_failure + int" where
  "as_i64 l src =
     value_bind (expect_kind l Ex_Integer (\<lambda>k. k = Lk_Integer)) (\<lambda>_.
     value_bind (source_text l src) (\<lambda>txt. or_value_error l InvalidInteger (materialize_i64 txt)))"

definition as_decimal_text :: "literal \<Rightarrow> source \<Rightarrow> accessor_failure + source" where
  "as_decimal_text l src =
     value_bind (expect_kind l Ex_DecimalText (\<lambda>k. k = Lk_Integer \<or> k = Lk_Float \<or> k = Lk_Decimal)) (\<lambda>_.
     value_bind (source_text l src) (\<lambda>txt. or_value_error l InvalidInteger (materialize_decimal_text txt)))"

definition as_str_in :: "literal \<Rightarrow> source \<Rightarrow> string_literal_syntax \<Rightarrow> accessor_failure + source" where
  "as_str_in l src syntax =
     value_bind (expect_kind l Ex_String (\<lambda>k. k = Lk_String)) (\<lambda>_.
     value_bind (source_text l src) (\<lambda>txt.
       or_value_error l InvalidString (materialize_concatenated_string txt (sl_backslash_escapes syntax))))"

definition as_str :: "literal \<Rightarrow> source \<Rightarrow> accessor_failure + source" where
  "as_str l src = as_str_in l src StringLiteralSyntax_ANSI"

definition charset_introducer :: "literal \<Rightarrow> source \<Rightarrow> accessor_failure + source option" where
  "charset_introducer l src =
     value_bind (expect_kind l Ex_String (\<lambda>k. k = Lk_String)) (\<lambda>_.
     value_bind (source_text l src) (\<lambda>txt. case charset_introducer_quote_offset txt of
         None \<Rightarrow> Inr None
       | Some open_at \<Rightarrow>
           (case str_slice txt 1 open_at of None \<Rightarrow> Inl Value_Panic | Some name \<Rightarrow> Inr (Some name))))"

definition is_temporal :: "literal_kind \<Rightarrow> bool" where
  "is_temporal k \<longleftrightarrow> (case k of Lk_Date \<Rightarrow> True | Lk_Time _ \<Rightarrow> True | Lk_Timestamp _ \<Rightarrow> True
     | Lk_Interval _ _ \<Rightarrow> True | _ \<Rightarrow> False)"

definition as_temporal_text :: "literal \<Rightarrow> source \<Rightarrow> accessor_failure + source" where
  "as_temporal_text l src =
     value_bind (expect_kind l Ex_Temporal is_temporal) (\<lambda>_.
     value_bind (source_text l src) (\<lambda>txt. case temporal_string_token txt of
         None \<Rightarrow> Inl (lit_error l InvalidString)
       | Some token \<Rightarrow> or_value_error l InvalidString (materialize_concatenated_string token False)))"

definition as_bit_text :: "literal \<Rightarrow> source \<Rightarrow> accessor_failure + source" where
  "as_bit_text l src = (case lit_kind l of
      Lk_BitString radix \<Rightarrow>
        value_bind (source_text l src) (\<lambda>txt.
        value_bind (or_value_error l InvalidBitString (concatenated_bit_body txt)) (\<lambda>body.
          if list_all (bit_radix_is_digit radix) body then Inr body else Inl (lit_error l InvalidBitString)))
    | _ \<Rightarrow> Inl (wrong_kind l Ex_BitString))"

definition as_money_text :: "literal \<Rightarrow> source \<Rightarrow> accessor_failure + source" where
  "as_money_text l src =
     value_bind (expect_kind l Ex_Money (\<lambda>k. k = Lk_Money)) (\<lambda>_.
     value_bind (source_text l src) (\<lambda>txt. or_value_error l InvalidMoney (money_body txt)))"

definition as_bool :: "literal \<Rightarrow> accessor_failure + bool" where
  "as_bool l = (case lit_kind l of Lk_Boolean v \<Rightarrow> Inr v | _ \<Rightarrow> Inl (wrong_kind l Ex_Boolean))"

definition as_null :: "literal \<Rightarrow> accessor_failure + unit" where
  "as_null l = expect_kind l Ex_Null (\<lambda>k. k = Lk_Null)"

definition is_null :: "literal \<Rightarrow> bool" where
  "is_null l \<longleftrightarrow> lit_kind l = Lk_Null"

end
