(* ===== verification/Literal_Laws.thy ===== *)
theory Literal_Laws
  imports Literal_Values
begin

text \<open>
  The laws of the literal accessors: no accessor panics on valid text, quoting and reading a
  string are inverse, Unicode escapes decode exactly as their grammar says, and integers are
  exact up to the ends of their type.
\<close>

subsection \<open>Slices at character boundaries\<close>

definition no_panic :: "escape_failure + 'a \<Rightarrow> bool" where
  "no_panic r \<longleftrightarrow> r \<noteq> Inl EscPanic"

text \<open>A text result: no panic, and valid text if it succeeds.\<close>

definition text_result :: "escape_failure + source \<Rightarrow> bool" where
  "text_result r \<longleftrightarrow> no_panic r \<and> (\<forall>t. r = Inr t \<longrightarrow> valid_utf8 t)"

lemma no_panic_simps [simp]: "no_panic (Inr x)" "no_panic (Inl EscErr)"
  by (simp_all add: no_panic_def)

lemma text_result_simps [simp]: "text_result (Inr t) \<longleftrightarrow> valid_utf8 t" "text_result (Inl EscErr)"
  by (simp_all add: text_result_def)

lemma no_panic_bind: "no_panic m \<Longrightarrow> (\<And>x. m = Inr x \<Longrightarrow> no_panic (k x)) \<Longrightarrow> no_panic (esc_bind m k)"
  by (auto simp: no_panic_def esc_bind_def split: sum.splits)

lemma text_result_bind: "no_panic m \<Longrightarrow> (\<And>x. m = Inr x \<Longrightarrow> text_result (k x)) \<Longrightarrow> text_result (esc_bind m k)"
  by (auto simp: text_result_def no_panic_def esc_bind_def split: sum.splits)

lemma no_panic_or: "no_panic a \<Longrightarrow> no_panic b \<Longrightarrow> no_panic (esc_or a b)"
  by (simp add: esc_or_def)

lemma no_panic_map [simp]: "no_panic (map_sum id f r) \<longleftrightarrow> no_panic r"
  by (cases r) (simp_all add: no_panic_def)

lemma boundary_of_valid: "valid_utf8 (drop i s) \<Longrightarrow> i \<le> length s \<Longrightarrow> is_char_boundary s i"
proof (cases "i < length s")
  case True
  assume v: "valid_utf8 (drop i s)"
  have "drop i s = s ! i # drop (Suc i) s" using True by (simp add: Cons_nth_drop_Suc)
  with v have "\<not> is_continuation (s ! i)"
    by (auto simp: continuation_range split: if_splits list.splits)
  with True show ?thesis by (simp add: is_char_boundary_def)
qed (simp add: is_char_boundary_def)

lemma boundary_ends [simp]: "is_char_boundary s 0" "is_char_boundary s (length s)"
  by (simp_all add: is_char_boundary_def)

lemma esc_slice_ok:
  assumes "valid_utf8 s" "is_char_boundary s i" "is_char_boundary s j" "i \<le> j" "j \<le> length s"
  shows "esc_slice s i j = Inr (subslice s i j)" "valid_utf8 (subslice s i j)"
  using assms valid_utf8_subslice by (simp_all add: esc_slice_def str_slice_def)

lemma esc_slice_text:
  assumes "valid_utf8 s" "is_char_boundary s i" "is_char_boundary s j" "i \<le> j" "j \<le> length s"
  shows "text_result (esc_slice s i j)"
  using esc_slice_ok[OF assms] by simp

lemma str_slice_valid: "valid_utf8 s \<Longrightarrow> str_slice s i j = Some t \<Longrightarrow> valid_utf8 t"
  by (auto simp: str_slice_def intro: valid_utf8_subslice split: if_splits)

abbreviation ascii_byte :: "byte \<Rightarrow> bool" where
  "ascii_byte b \<equiv> byte_val b < 128"

lemma strip_prefix_text:
  "valid_utf8 s \<Longrightarrow> ascii_byte b \<Longrightarrow> text_result (strip_prefix b s)"
  by (cases s) (auto simp: strip_prefix_def)

lemma strip_suffix_text:
  assumes "valid_utf8 s" "ascii_byte b"
  shows "text_result (strip_suffix b s)"
proof (cases "s \<noteq> [] \<and> last s = b")
  case True
  then have "s ! (length s - 1) = b" using last_conv_nth[of s] by simp
  with ascii_then_boundary(1)[OF assms(1), of "length s - 1"] assms(2) True
  have "is_char_boundary s (length s - 1)" by simp
  from valid_utf8_split[OF assms(1) _ this] True show ?thesis
    by (simp add: strip_suffix_def butlast_conv_take)
qed (auto simp: strip_suffix_def)

lemma strip_quotes_text:
  assumes "valid_utf8 s" "ascii_byte b"
  shows "text_result (strip_quotes b s)"
  unfolding strip_quotes_def
proof (rule text_result_bind)
  note p = strip_prefix_text[OF assms]
  then show "no_panic (strip_prefix b s)" by (simp add: text_result_def)
  show "text_result (strip_suffix b t)" if "strip_prefix b s = Inr t" for t
    using strip_suffix_text[OF _ assms(2)] p that by (simp add: text_result_def)
qed

lemma quotes_ascii [simp]: "ascii_byte single_quote" "ascii_byte double_quote" "ascii_byte backslash_byte"
  by simp_all

lemma text_no_panic: "text_result r \<Longrightarrow> no_panic r"
  by (simp add: text_result_def)

lemma text_valid: "text_result r \<Longrightarrow> r = Inr t \<Longrightarrow> valid_utf8 t"
  by (simp add: text_result_def)

subsection \<open>Standard strings\<close>

lemma next_char_step:
  assumes "valid_utf8 s" "is_char_boundary s i" "i < length s"
  shows "\<exists>ch. scalar ch \<and> next_char (drop i s) = Some ch \<and> i + len_utf8 ch \<le> length s \<and> is_char_boundary s (i + len_utf8 ch)"
proof -
  have "valid_utf8 (drop i s)" using valid_utf8_split[OF assms(1) _ assms(2)] assms(3) by simp
  then obtain cs where cs: "list_all scalar cs" "drop i s = encode cs" by (auto simp: valid_utf8_encodes)
  with assms(3) obtain c ds where c: "cs = c # ds" by (cases cs) auto
  with cs have n: "next_char (drop i s) = Some c" by (simp add: next_char_encode scalar_bound)
  have "drop (i + len_utf8 c) s = drop (len_utf8 c) (drop i s)" by (simp add: add.commute)
  also have "\<dots> = encode ds" using cs c by (simp add: length_encode_utf8)
  finally have "valid_utf8 (drop (i + len_utf8 c) s)" using cs c valid_utf8_encodes by auto
  moreover have "i + len_utf8 c \<le> length s" using next_char_len[OF n] assms(3) by simp
  ultimately show ?thesis using boundary_of_valid n cs(1) c by auto
qed

lemma consume_mysql_escape_ok:
  assumes "valid_utf8 body" "is_char_boundary body i" "i \<le> length body"
  shows "\<exists>j out'. consume_mysql_escape body i out = Inr (j, out') \<and> is_char_boundary body j \<and> j \<le> length body"
proof (cases "i < length body")
  case True
  note nc = next_char_step[OF assms(1,2) True]
  have asc: "is_char_boundary body (Suc i) \<and> Suc i \<le> length body" if "ascii_byte (body ! i)"
    using ascii_then_boundary(2)[OF assms(1) True that] True by simp
  from True assms(2) nc asc show ?thesis
    unfolding consume_mysql_escape_def by (auto simp: get_at_def)
next
  case False
  with assms(2,3) show ?thesis by (auto simp: consume_mysql_escape_def get_at_def)
qed

lemma standard_from_ok:
  assumes "valid_utf8 body" "ascii_byte quote" "is_char_boundary body seg" "seg \<le> i" "i \<le> length body"
  shows "no_panic (standard_from backslash quote body seg i out)"
  using assms
proof (induction backslash quote body seg i out rule: standard_from.induct)
  case (1 backslash quote body seg i out)
  show ?case
  proof (cases "i < length body")
    case True
    have bd: "is_char_boundary body i \<and> is_char_boundary body (Suc i)" if "ascii_byte (body ! i)"
      using ascii_then_boundary[OF 1(4) True that] by simp
    consider (esc) "body ! i = backslash_byte" "backslash" | (quo) "\<not> (body ! i = backslash_byte \<and> backslash)" "body ! i = quote"
      | (other) "\<not> (body ! i = backslash_byte \<and> backslash)" "body ! i \<noteq> quote" by blast
    then show ?thesis
    proof cases
      case esc
      then have b: "is_char_boundary body i" "is_char_boundary body (i + 1)" using bd by simp_all
      have s: "esc_slice body seg i = Inr (subslice body seg i)"
        using esc_slice_ok(1)[OF 1(4,6) b(1) 1(7)] True by simp
      obtain j out' where c: "consume_mysql_escape body (i + 1) (out @ subslice body seg i) = Inr (j, out')"
          "is_char_boundary body j" "j \<le> length body"
        using consume_mysql_escape_ok[OF 1(4) b(2)] True by fastforce
      from 1(1)[OF True _ s c(1) refl] esc c 1(4,5) have "no_panic (standard_from backslash quote body j j out')" by simp
      with True esc s c show ?thesis by (subst standard_from.simps) simp
    next
      case quo
      show ?thesis
      proof (cases "get_at body (i + 1) = Some quote")
        case nx: True
        then have n: "Suc i < length body" "ascii_byte (body ! Suc i)" using 1(5) by simp_all
        have s: "esc_slice body seg i = Inr (subslice body seg i)"
          using esc_slice_ok(1)[OF 1(4,6) _ 1(7)] True bd quo 1(5) by simp
        have "is_char_boundary body (i + 2)" using ascii_then_boundary(2)[OF 1(4) n] by simp
        with 1(2)[OF True quo _ s] nx n 1(4,5)
        have "no_panic (standard_from backslash quote body (i + 2) (i + 2) (out @ subslice body seg i @ [quote]))" by simp
        with True quo nx s show ?thesis by (subst standard_from.simps) (auto simp: no_panic_def)
      next
        case False
        with True quo show ?thesis by (subst standard_from.simps) (auto simp del: get_at_Some)
      qed
    next
      case other
      with True 1(3)[OF True other] 1(4-7) show ?thesis by (subst standard_from.simps) auto
    qed
  next
    case False
    with 1(7,8) esc_slice_ok(1)[OF 1(4,6), of "length body"] show ?thesis
      by (subst standard_from.simps) simp
  qed
qed

lemma materialize_standard_ok:
  "valid_utf8 body \<Longrightarrow> ascii_byte quote \<Longrightarrow> no_panic (materialize_standard_string body quote backslash)"
  using standard_from_ok by (simp add: materialize_standard_string_def Let_def)

subsection \<open>Unicode escapes\<close>

definition list_sink :: "nat list unicode_sink" where
  "list_sink ds ch = Inr (ds @ [ch])"

text \<open>A sink of decoded characters that never fails, and what it has collected.\<close>

locale total_sink =
  fixes emit :: "'s unicode_sink" and collect :: "'s \<Rightarrow> nat \<Rightarrow> 's"
  assumes emits: "emit out ch = Inr (collect out ch)"
begin

text \<open>The walk is one decoding, whatever the sink makes of it.\<close>

lemma scan_collects:
  "scan_unicode_escape_string emit escape quote cs out
     = map_sum id (\<lambda>ds. foldl collect out ds)
         (scan_unicode_escape_string list_sink escape quote cs [])"
proof -
  have "scan_unicode_escape_string emit escape quote cs (foldl collect out ds)
     = map_sum id (foldl collect out) (scan_unicode_escape_string list_sink escape quote cs ds)" for ds
  proof (induction list_sink escape quote cs ds rule: scan_unicode_escape_string.induct)
    case (2 escape quote ch cs ds)
    have push: "push_code_point emit (foldl collect out ds) cp
        = map_sum id (foldl collect out) (push_code_point list_sink ds cp)" for cp
      by (simp add: push_code_point_def emits list_sink_def split: option.split)
    show ?case
    proof (cases "ch = quote")
      case True
      show ?thesis
      proof (cases cs)
        case (Cons c cs')
        show ?thesis
        proof (cases "c = quote")
          case True
          with 2(1)[OF \<open>ch = quote\<close> Cons, of "ds @ [quote]"] \<open>ch = quote\<close> Cons show ?thesis
            by (simp add: emits list_sink_def)
        qed (use True Cons in simp)
      qed (use True in simp)
    next
      case nq: False
      show ?thesis
      proof (cases "ch = escape")
        case True
        show ?thesis
        proof (cases cs)
          case (Cons nx cs')
          show ?thesis
          proof (cases "nx = escape")
            case True
            with nq \<open>ch = escape\<close> Cons 2(2)[OF nq \<open>ch = escape\<close> Cons True, of "ds @ [escape]"] show ?thesis
              by (simp add: emits list_sink_def)
          next
            case False
            note IH = 2(3)[OF nq \<open>ch = escape\<close> Cons False]
            show ?thesis
            proof (cases "read_escape escape nx cs'")
              case (Inr x)
              obtain cp cs2 where x: "x = (cp, cs2)" by (cases x)
              show ?thesis
              proof (cases "push_code_point list_sink ds cp")
                case Inl
                with nq \<open>ch = escape\<close> Cons False Inr x push[of cp] show ?thesis by simp
              next
                case (Inr ds')
                with IH[OF \<open>read_escape escape nx cs' = Inr x\<close> x[symmetric] Inr]
                  nq \<open>ch = escape\<close> Cons False \<open>read_escape escape nx cs' = Inr x\<close> x push[of cp]
                show ?thesis by simp
              qed
            qed (use nq \<open>ch = escape\<close> Cons False in simp)
          qed
        qed (use nq True in simp)
      next
        case False
        with nq 2(4)[OF nq False, of "ds @ [ch]"] show ?thesis by (simp add: emits list_sink_def)
      qed
    qed
  qed simp
  from this[of "[]"] show ?thesis by simp
qed

end

definition unicode_chars :: "nat \<Rightarrow> nat \<Rightarrow> nat list \<Rightarrow> escape_failure + nat list" where
  "unicode_chars escape quote cs = scan_unicode_escape_string list_sink escape quote cs []"

interpretation strings: total_sink string_sink "\<lambda>out ch. out @ encode_utf8 ch"
  by unfold_locales (simp add: string_sink_def)

interpretation units: total_sink unit_sink "\<lambda>_ _. ()"
  by unfold_locales (simp add: unit_sink_def)

lemma fold_encode: "foldl (\<lambda>out ch. out @ encode_utf8 ch) out cs = out @ encode cs"
  by (induction cs arbitrary: out) simp_all

lemma scan_string:
  "scan_unicode_escape_string string_sink escape quote cs [] = map_sum id encode (unicode_chars escape quote cs)"
  using strings.scan_collects[of escape quote cs "[]"] by (simp add: unicode_chars_def fold_encode)

lemma scan_unit:
  "scan_unicode_escape_string unit_sink escape quote cs () = map_sum id (\<lambda>_. ()) (unicode_chars escape quote cs)"
  using units.scan_collects[of escape quote cs "()"] by (simp add: unicode_chars_def)

interpretation lists: total_sink list_sink "\<lambda>ds ch. ds @ [ch]"
  by unfold_locales (simp add: list_sink_def)

lemma fold_snoc: "foldl (\<lambda>ds ch. ds @ [ch]) acc ds = acc @ ds"
  by (induction ds arbitrary: acc) simp_all

lemma scan_list:
  "scan_unicode_escape_string list_sink escape quote cs acc = map_sum id (append acc) (unicode_chars escape quote cs)"
  using lists.scan_collects[of escape quote cs acc] by (simp add: unicode_chars_def fold_snoc[abs_def])

definition cons_char :: "nat \<Rightarrow> escape_failure + nat list \<Rightarrow> escape_failure + nat list" where
  "cons_char c r = map_sum id (Cons c) r"

lemma cons_char_Inr [simp]: "cons_char c r = Inr ds \<longleftrightarrow> (\<exists>es. r = Inr es \<and> ds = c # es)"
  by (cases r) (auto simp: cons_char_def)

text \<open>A code point an escape may denote.\<close>

definition code_point_ok :: "nat \<Rightarrow> bool" where
  "code_point_ok cp \<longleftrightarrow> cp \<noteq> 0 \<and> scalar cp"

lemma push_list: "push_code_point list_sink acc cp = (if code_point_ok cp then Inr (acc @ [cp]) else Inl EscErr)"
  by (auto simp: push_code_point_def list_sink_def code_point_ok_def char_from_u32_def scalar_def)

lemma unicode_chars_Nil [simp]: "unicode_chars escape quote [] = Inr []"
  by (simp add: unicode_chars_def)

lemma append_one: "append [c] = Cons c"
  by (simp add: fun_eq_iff)

lemma unicode_chars_Cons:
  "unicode_chars escape quote (ch # cs) =
     (if ch = quote then
        (case cs of [] \<Rightarrow> Inl EscErr
         | c # cs' \<Rightarrow> if c \<noteq> quote then Inl EscErr else cons_char quote (unicode_chars escape quote cs'))
      else if ch = escape then
        (case cs of [] \<Rightarrow> Inl EscErr
         | nx # cs' \<Rightarrow>
             if nx = escape then cons_char escape (unicode_chars escape quote cs')
             else (case read_escape escape nx cs' of
                 Inl e \<Rightarrow> Inl e
               | Inr (cp, cs2) \<Rightarrow>
                   if code_point_ok cp then cons_char cp (unicode_chars escape quote cs2) else Inl EscErr))
      else cons_char ch (unicode_chars escape quote cs))"
  by (subst unicode_chars_def, subst scan_unicode_escape_string.simps(2))
     (auto simp: scan_list push_list cons_char_def list_sink_def append_one
      simp del: scan_unicode_escape_string.simps split: list.split sum.split prod.split)

subsection \<open>The grammar of escapes\<close>

fun hex_chars :: "nat \<Rightarrow> nat list \<Rightarrow> nat option" where
  "hex_chars v [] = Some v"
| "hex_chars v (c # cs) = (case hex_digit c of None \<Rightarrow> None | Some d \<Rightarrow> hex_chars (v * 16 + d) cs)"

lemma read_unicode_hex_iff:
  "read_unicode_hex v n cs = Inr (cp, cs') \<longleftrightarrow> (\<exists>ds. cs = ds @ cs' \<and> length ds = n \<and> hex_chars v ds = Some cp)"
proof (induction v n cs rule: read_unicode_hex.induct)
  case (3 v n ch cs)
  show ?case
  proof (cases "hex_digit ch")
    case None
    have "\<not> (\<exists>ds. ch # cs = ds @ cs' \<and> length ds = Suc n \<and> hex_chars v ds = Some cp)"
      using None by (auto simp: Cons_eq_append_conv)
    with None show ?thesis by simp
  next
    case (Some d)
    have "(\<exists>ds. ch # cs = ds @ cs' \<and> length ds = Suc n \<and> hex_chars v ds = Some cp)
        \<longleftrightarrow> (\<exists>ds. cs = ds @ cs' \<and> length ds = n \<and> hex_chars (v * 16 + d) ds = Some cp)"
      using Some by (auto simp: Cons_eq_append_conv)
    with Some 3 show ?thesis by simp
  qed
qed auto

lemma read_unicode_hex_no_panic: "read_unicode_hex v n cs \<noteq> Inl EscPanic"
  by (induction v n cs rule: read_unicode_hex.induct) (auto split: option.splits)

datatype unicode_piece =
    U_Char nat
  | U_Quote
  | U_Escape
  | U_Hex4 "nat list"
  | U_Hex6 "nat list"
  | U_Pair "nat list" "nat list"

fun piece_text :: "nat \<Rightarrow> nat \<Rightarrow> unicode_piece \<Rightarrow> nat list" where
  "piece_text escape quote (U_Char c) = [c]"
| "piece_text escape quote U_Quote = [quote, quote]"
| "piece_text escape quote U_Escape = [escape, escape]"
| "piece_text escape quote (U_Hex4 ds) = escape # ds"
| "piece_text escape quote (U_Hex6 ds) = escape # 43 # ds"
| "piece_text escape quote (U_Pair hs ls) = escape # hs @ escape # ls"

fun piece_char :: "nat \<Rightarrow> nat \<Rightarrow> unicode_piece \<Rightarrow> nat" where
  "piece_char escape quote (U_Char c) = c"
| "piece_char escape quote U_Quote = quote"
| "piece_char escape quote U_Escape = escape"
| "piece_char escape quote (U_Hex4 ds) = the (hex_chars 0 ds)"
| "piece_char escape quote (U_Hex6 ds) = the (hex_chars 0 ds)"
| "piece_char escape quote (U_Pair hs ls) = 65536 + (the (hex_chars 0 hs) - 55296) * 1024 + (the (hex_chars 0 ls) - 56320)"

fun unicode_piece_ok :: "nat \<Rightarrow> nat \<Rightarrow> unicode_piece \<Rightarrow> bool" where
  "unicode_piece_ok escape quote (U_Char c) \<longleftrightarrow> c \<noteq> quote \<and> c \<noteq> escape"
| "unicode_piece_ok escape quote U_Quote \<longleftrightarrow> True"
| "unicode_piece_ok escape quote U_Escape \<longleftrightarrow> True"
| "unicode_piece_ok escape quote (U_Hex4 ds) \<longleftrightarrow>
     length ds = 4 \<and> (case hex_chars 0 ds of None \<Rightarrow> False | Some cp \<Rightarrow> code_point_ok cp)"
| "unicode_piece_ok escape quote (U_Hex6 ds) \<longleftrightarrow>
     length ds = 6 \<and> (case hex_chars 0 ds of None \<Rightarrow> False | Some cp \<Rightarrow> code_point_ok cp)"
| "unicode_piece_ok escape quote (U_Pair hs ls) \<longleftrightarrow>
     length hs = 4 \<and> (case hex_chars 0 hs of None \<Rightarrow> False | Some cp \<Rightarrow> is_high_surrogate cp)
     \<and> length ls = 4 \<and> (case hex_chars 0 ls of None \<Rightarrow> False | Some cp \<Rightarrow> is_low_surrogate cp)"

text \<open>The pieces that denote a code point by its number.\<close>

fun numbered :: "unicode_piece \<Rightarrow> bool" where
  "numbered (U_Char c) \<longleftrightarrow> False"
| "numbered U_Quote \<longleftrightarrow> False"
| "numbered U_Escape \<longleftrightarrow> False"
| "numbered _ \<longleftrightarrow> True"

lemma ex_piece:
  "(\<exists>p. Q p) \<longleftrightarrow> Q U_Quote \<or> Q U_Escape \<or> (\<exists>c. Q (U_Char c)) \<or> (\<exists>p. numbered p \<and> Q p)"
proof
  assume "\<exists>p. Q p"
  then obtain p where "Q p" by blast
  then show "Q U_Quote \<or> Q U_Escape \<or> (\<exists>c. Q (U_Char c)) \<or> (\<exists>p. numbered p \<and> Q p)"
    by (cases p) (auto intro: numbered.simps)
qed blast

definition legal_escape :: "nat \<Rightarrow> nat \<Rightarrow> bool" where
  "legal_escape escape quote \<longleftrightarrow> is_legal_uescape_char escape \<and> (quote = 34 \<or> quote = 39)"

lemma legal_escapeD:
  assumes "legal_escape escape quote"
  shows "escape \<noteq> quote" "escape \<noteq> 43" "hex_digit escape = None" "hex_digit 43 = None"
  using assms by (auto simp: legal_escape_def is_legal_uescape_char_def hex_digit_def hex_value_def)

lemma surrogate_pair_ok:
  assumes "is_high_surrogate h" "is_low_surrogate l"
  shows "code_point_ok (65536 + (h - 55296) * 1024 + (l - 56320))"
proof -
  have "h - 55296 \<le> 1023" "l - 56320 \<le> 1023"
    using assms unfolding is_high_surrogate_def is_low_surrogate_def by arith+
  then show ?thesis by (simp add: code_point_ok_def scalar_def)
qed

lemma surrogate_not_scalar: "is_high_surrogate h \<Longrightarrow> \<not> code_point_ok h"
  by (simp add: is_high_surrogate_def code_point_ok_def scalar_def)

text \<open>One escape of the grammar is what \<open>read_escape\<close> reads.\<close>

lemma read_escape_iff:
  assumes "legal_escape escape quote" "nx \<noteq> escape"
  shows "(read_escape escape nx cs = Inr (cp, cs') \<and> code_point_ok cp) \<longleftrightarrow>
    (\<exists>p. unicode_piece_ok escape quote p \<and> piece_text escape quote p @ cs' = escape # nx # cs \<and> piece_char escape quote p = cp \<and> numbered p)"
    (is "?L = (\<exists>p. ?R p)")
proof
  note l = legal_escapeD[OF assms(1)]
  assume L: ?L
  show "\<exists>p. ?R p"
  proof (cases "nx = 43")
    case True
    with L obtain ds where "cs = ds @ cs'" "length ds = 6" "hex_chars 0 ds = Some cp"
      by (auto simp: read_escape_def read_unicode_hex_iff)
    with L True show ?thesis by (intro exI[of _ "U_Hex6 ds"]) simp
  next
    case False
    with L obtain v r where v: "read_unicode_hex 0 4 (nx # cs) = Inr (v, r)"
      by (auto simp: read_escape_def split: sum.splits)
    then obtain ds where ds: "nx # cs = ds @ r" "length ds = 4" "hex_chars 0 ds = Some v"
      by (auto simp: read_unicode_hex_iff)
    show ?thesis
    proof (cases "is_high_surrogate v")
      case True
      with L False v obtain low r2 where r: "r = escape # r2" "read_unicode_hex 0 4 r2 = Inr (low, cs')"
          "is_low_surrogate low" "cp = 65536 + (v - 55296) * 1024 + (low - 56320)"
        by (auto simp: read_escape_def split: list.splits if_splits sum.splits prod.splits)
      then obtain es where "r2 = es @ cs'" "length es = 4" "hex_chars 0 es = Some low"
        by (auto simp: read_unicode_hex_iff)
      with ds r True show ?thesis by (intro exI[of _ "U_Pair ds es"]) simp
    next
      case nh: False
      with L False v have "cp = v" "cs' = r" by (auto simp: read_escape_def)
      with ds L show ?thesis by (intro exI[of _ "U_Hex4 ds"]) simp
    qed
  qed
next
  note l = legal_escapeD[OF assms(1)]
  assume "\<exists>p. ?R p"
  then obtain p where p: "?R p" by blast
  show ?L
  proof (cases p)
    case (U_Hex4 ds)
    with p obtain v where v: "length ds = 4" "hex_chars 0 ds = Some v" "code_point_ok v" "cp = v" "ds @ cs' = nx # cs"
      by (auto split: option.splits)
    then have "nx \<noteq> 43" using l(4) by (cases ds) auto
    moreover have "read_unicode_hex 0 4 (nx # cs) = Inr (v, cs')" using v by (simp add: read_unicode_hex_iff) metis
    ultimately show ?thesis using v surrogate_not_scalar[of v] by (auto simp: read_escape_def)
  next
    case (U_Hex6 ds)
    with p obtain v where v: "length ds = 6" "hex_chars 0 ds = Some v" "code_point_ok v" "cp = v" "nx = 43" "cs = ds @ cs'"
      by (auto split: option.splits)
    then have "read_unicode_hex 0 6 cs = Inr (v, cs')" by (simp add: read_unicode_hex_iff)
    with v show ?thesis by (simp add: read_escape_def)
  next
    case (U_Pair hs ls)
    with p obtain h low where v: "length hs = 4" "hex_chars 0 hs = Some h" "is_high_surrogate h"
      "length ls = 4" "hex_chars 0 ls = Some low" "is_low_surrogate low"
      "cp = 65536 + (h - 55296) * 1024 + (low - 56320)" "nx # cs = hs @ escape # ls @ cs'"
      by (auto split: option.splits)
    then have "nx \<noteq> 43" using l(4) by (cases hs) auto
    moreover have "read_unicode_hex 0 4 (nx # cs) = Inr (h, escape # ls @ cs')" using v by (simp add: read_unicode_hex_iff)
    moreover have "read_unicode_hex 0 4 (ls @ cs') = Inr (low, cs')" using v by (simp add: read_unicode_hex_iff)
    ultimately show ?thesis using v surrogate_pair_ok[of h low] by (simp add: read_escape_def)
  qed (use p in auto)
qed

text \<open>One step of the decoding takes one piece.\<close>

lemma piece_text_start:
  "unicode_piece_ok escape quote p \<Longrightarrow> \<exists>c t. piece_text escape quote p = c # t
     \<and> (c = quote \<longrightarrow> p = U_Quote \<or> quote = escape) \<and> (c = escape \<longrightarrow> t \<noteq> [])"
  by (cases p) (auto split: option.splits)

lemma decode_step:
  assumes l: "legal_escape escape quote"
  shows "unicode_chars escape quote (ch # cs) = Inr ds \<longleftrightarrow>
    (\<exists>p cs' es. unicode_piece_ok escape quote p \<and> ch # cs = piece_text escape quote p @ cs'
       \<and> unicode_chars escape quote cs' = Inr es \<and> ds = piece_char escape quote p # es)"
    (is "_ \<longleftrightarrow> (\<exists>p cs' es. ?P p cs' es)")
proof -
  note d = legal_escapeD[OF l]
  let ?H = "\<exists>p. numbered p \<and> (\<exists>cs' es. ?P p cs' es)"
  note split = ex_piece[of "\<lambda>p. \<exists>cs' es. ?P p cs' es"]
  have hex: "?H \<longleftrightarrow> ch = escape \<and> (\<exists>nx cs1 cp cs' es. cs = nx # cs1 \<and> nx \<noteq> escape
      \<and> read_escape escape nx cs1 = Inr (cp, cs') \<and> code_point_ok cp
      \<and> unicode_chars escape quote cs' = Inr es \<and> ds = cp # es)" (is "_ \<longleftrightarrow> ?H'")
  proof
    assume ?H
    then obtain p cs' es where p: "?P p cs' es" "numbered p" by blast
    then obtain nx cs1 where n: "ch = escape" "cs = nx # cs1" "nx \<noteq> escape"
    proof (cases p)
      case (U_Hex4 hs)
      with p(1) obtain a t where h: "hs = a # t" "hex_digit a \<noteq> None" by (cases hs) (auto split: option.splits)
      with d(3) have "a \<noteq> escape" by auto
      with h p(1) U_Hex4 that show ?thesis by auto
    next
      case (U_Hex6 hs)
      with p(1) d(2) that show ?thesis by (auto split: option.splits)
    next
      case (U_Pair hs ls)
      with p(1) obtain a t where h: "hs = a # t" "hex_digit a \<noteq> None" by (cases hs) (auto split: option.splits)
      with d(3) have "a \<noteq> escape" by auto
      with h p(1) U_Pair that show ?thesis by auto
    qed auto
    with read_escape_iff[OF l n(3), of cs1 "piece_char escape quote p" cs'] p show ?H' by metis
  next
    assume ?H'
    then obtain nx cs1 cp cs' es where n: "ch = escape" "cs = nx # cs1" "nx \<noteq> escape"
        "read_escape escape nx cs1 = Inr (cp, cs')" "code_point_ok cp" "unicode_chars escape quote cs' = Inr es" "ds = cp # es"
      by blast
    with read_escape_iff[OF l n(3), of cs1 cp cs'] show ?H by metis
  qed
  show ?thesis
    unfolding split hex
    using d(1) by (auto simp: unicode_chars_Cons split: list.splits sum.splits prod.splits)
qed

lemma unicode_chars_iff:
  assumes "legal_escape escape quote"
  shows "unicode_chars escape quote cs = Inr ds \<longleftrightarrow>
    (\<exists>ps. list_all (unicode_piece_ok escape quote) ps \<and> cs = concat (map (piece_text escape quote) ps)
       \<and> ds = map (piece_char escape quote) ps)"
proof (induction cs arbitrary: ds rule: length_induct)
  case (1 cs)
  show ?case
  proof (cases cs)
    case Nil
    have "ps = []" if "list_all (unicode_piece_ok escape quote) ps" "concat (map (piece_text escape quote) ps) = []" for ps
      using that piece_text_start by (cases ps) fastforce+
    with Nil show ?thesis by auto
  next
    case (Cons ch cs1)
    have shorter: "length cs' < length cs" if "unicode_piece_ok escape quote p" "ch # cs1 = piece_text escape quote p @ cs'" for p cs'
      using piece_text_start[OF that(1)] that(2) Cons by (auto dest: arg_cong[of _ _ length])
    have "(\<exists>ps. list_all (unicode_piece_ok escape quote) ps \<and> cs = concat (map (piece_text escape quote) ps)
        \<and> ds = map (piece_char escape quote) ps)
      \<longleftrightarrow> (\<exists>p ps. unicode_piece_ok escape quote p \<and> list_all (unicode_piece_ok escape quote) ps
        \<and> cs = piece_text escape quote p @ concat (map (piece_text escape quote) ps)
        \<and> ds = piece_char escape quote p # map (piece_char escape quote) ps)" (is "(\<exists>ps. ?L ps) \<longleftrightarrow> (\<exists>p ps. ?R p ps)")
    proof
      assume "\<exists>ps. ?L ps"
      then obtain ps where "?L ps" by blast
      with Cons obtain p qs where "ps = p # qs" by (cases ps) auto
      with \<open>?L ps\<close> have "?R p qs" by simp
      then show "\<exists>p ps. ?R p ps" by blast
    next
      assume "\<exists>p ps. ?R p ps"
      then obtain p ps where "?R p ps" by blast
      then have "?L (p # ps)" by simp
      then show "\<exists>ps. ?L ps" by blast
    qed
    also have "\<dots> \<longleftrightarrow> (\<exists>p cs' es. unicode_piece_ok escape quote p \<and> ch # cs1 = piece_text escape quote p @ cs'
        \<and> unicode_chars escape quote cs' = Inr es \<and> ds = piece_char escape quote p # es)"
      using 1 shorter Cons by metis
    finally show ?thesis using decode_step[OF assms, of ch cs1 ds] Cons by simp
  qed
qed

lemma unicode_chars_no_panic [simp]: "no_panic (unicode_chars escape quote cs)"
proof (induction cs rule: length_induct)
  case (1 cs)
  have r: "read_escape escape nx c \<noteq> Inl EscPanic" for nx c
    using read_unicode_hex_no_panic by (auto simp: read_escape_def split: sum.splits list.splits)
  show ?case
  proof (cases cs)
    case (Cons ch cs1)
    have h: "no_panic (cons_char c (unicode_chars escape quote cs2))" if "read_escape escape nx cs' = Inr (cp, cs2)" "cs1 = nx # cs'" for c nx cs' cp cs2
      using 1 read_escape_length[OF that(1)] Cons that(2) by (auto simp: cons_char_def)
    have n: "no_panic (cons_char c (unicode_chars escape quote cs'))" if "cs1 = nx # cs'" for c nx cs'
      using 1 Cons that by (auto simp: cons_char_def)
    have e: "no_panic (cons_char ch (unicode_chars escape quote cs1))"
      using 1 Cons by (auto simp: cons_char_def)
    show ?thesis
      unfolding Cons
      by (subst unicode_chars_Cons)
         (use e n h r in \<open>auto simp: no_panic_def simp del: cons_char_Inr split: list.split sum.split\<close>)
  qed simp
qed

lemma materialize_unicode_chars:
  assumes "valid_utf8 body" "legal_escape escape 39"
  shows "materialize_unicode_string body escape = map_sum id encode (unicode_chars escape 39 (chars_of body))"
proof (cases "escape \<notin> set (chars_of body) \<and> single_quote \<notin> set body")
  case True
  have q: "39 \<notin> set (chars_of body)"
  proof
    assume "39 \<in> set (chars_of body)"
    moreover have "single_quote \<in> set (encode_utf8 39)" by code_simp
    ultimately have "single_quote \<in> set (encode (chars_of body))"
      unfolding encode_def by (auto intro!: bexI[of _ 39])
    with True chars_of_valid[OF assms(1)] show False by simp
  qed
  have "escape \<notin> set cs \<Longrightarrow> 39 \<notin> set cs \<Longrightarrow> unicode_chars escape 39 cs = Inr cs" for cs
    by (induction cs) (simp_all add: unicode_chars_Cons)
  with True q chars_of_valid[OF assms(1)] show ?thesis by (simp add: materialize_unicode_string_def)
next
  case False
  then show ?thesis by (simp only: materialize_unicode_string_def scan_string if_False)
qed

text \<open>
  C9. The value of a Unicode-escape string is exactly what the grammar of its escapes denotes: the
  body decodes to a value if and only if it is a sequence of plain characters, doubled quotes,
  doubled escape characters, four- and six-digit code points (neither zero nor a surrogate) and
  surrogate pairs, and then the value is the characters these denote, in order.
\<close>

theorem unicode_escapes_exact:
  assumes "valid_utf8 body" "legal_escape escape 39"
  shows "materialize_unicode_string body escape = Inr v \<longleftrightarrow>
    (\<exists>ps. list_all (unicode_piece_ok escape 39) ps \<and> chars_of body = concat (map (piece_text escape 39) ps)
       \<and> v = encode (map (piece_char escape 39) ps))"
proof -
  have "materialize_unicode_string body escape = Inr v \<longleftrightarrow>
      (\<exists>ds. unicode_chars escape 39 (chars_of body) = Inr ds \<and> v = encode ds)"
    using materialize_unicode_chars[OF assms] by (cases "unicode_chars escape 39 (chars_of body)") auto
  then show ?thesis by (auto simp: unicode_chars_iff[OF assms(2)])
qed

text \<open>The clef of \<open>a\D834\DD1E\<close>, a surrogate pair.\<close>

theorem unicode_escapes_exact_witness:
  "materialize_unicode_string (''a'' @ backslash_byte # ''D834'' @ backslash_byte # ''DD1E'') 92 = Inr (encode [97, 119070])"
proof -
  let ?body = "''a'' @ backslash_byte # ''D834'' @ backslash_byte # ''DD1E''"
  let ?ps = "[U_Char 97, U_Pair [68, 56, 51, 52] [68, 68, 49, 69]]"
  have "chars_of ?body = concat (map (piece_text 92 39) ?ps)" by code_simp
  moreover have "list_all (unicode_piece_ok 92 39) ?ps"
    by (simp add: hex_digit_def hex_value_def is_high_surrogate_def is_low_surrogate_def)
  moreover have "encode [97, 119070] = encode (map (piece_char 92 39) ?ps)"
    by (simp add: hex_digit_def hex_value_def)
  moreover have "valid_utf8 ?body" "legal_escape 92 39" by (simp_all add: legal_escape_def is_legal_uescape_char_def hex_digit_def hex_value_def is_whitespace_def)
  ultimately show ?thesis using unicode_escapes_exact[of ?body 92] by blast
qed

text \<open>The escape character a clause may name is legal, and so is the default.\<close>

lemma uescape_legal: "parse_uescape_argument arg = Inr e \<Longrightarrow> is_legal_uescape_char e"
  by (auto simp: parse_uescape_argument_def esc_bind_def split: sum.splits list.splits if_splits)

lemma lexeme_escape_legal:
  assumes "unicode_lexeme_body txt quote = Inr (body, e)"
  shows "is_legal_uescape_char e"
proof -
  have "is_legal_uescape_char 92" by (simp add: is_legal_uescape_char_def hex_digit_def hex_value_def is_whitespace_def)
  moreover have "is_legal_uescape_char c" if "uescape_char t = Inr c" for t c
    using that uescape_legal by (auto simp: uescape_char_def esc_bind_def split: option.splits if_splits sum.splits)
  ultimately show ?thesis
    using assms by (auto simp: unicode_lexeme_body_def esc_bind_def Let_def split: sum.splits if_splits option.splits)
qed

text \<open>The body of a lexeme of valid text is valid.\<close>

lemma quote_end_at: "quote_end_from s quote i = Some j \<Longrightarrow> i \<le> j \<and> j < length s \<and> s ! j = quote"
proof (induction s quote i rule: quote_end_from.induct)
  case (1 s quote i)
  from 1(3) show ?case
    by (subst (asm) quote_end_from.simps)
       (auto simp del: get_at_Some dest: 1(1,2) split: if_splits)
qed

lemma drop_text: "valid_utf8 s \<Longrightarrow> is_char_boundary s i \<Longrightarrow> i \<le> length s \<Longrightarrow> valid_utf8 (drop i s)"
  using valid_utf8_split by blast

lemma drop_ascii:
  assumes "valid_utf8 s" "list_all ascii_byte (take n s)"
  shows "valid_utf8 (drop n s)"
  using assms
proof (induction n arbitrary: s)
  case (Suc n)
  then show ?case by (cases s) auto
qed simp

lemma uescape_argument_no_panic:
  assumes "valid_utf8 arg"
  shows "no_panic (parse_uescape_argument arg)"
proof -
  note q = strip_quotes_text[OF assms, of single_quote]
  have "no_panic (materialize_standard_string inner single_quote False)" if "strip_quotes single_quote arg = Inr inner" for inner
    using materialize_standard_ok text_valid[OF q that] by simp
  with q show ?thesis
    unfolding parse_uescape_argument_def
    by (intro no_panic_bind) (auto simp: text_no_panic split: list.split)
qed

lemma uescape_char_no_panic:
  assumes "valid_utf8 tail"
  shows "no_panic (uescape_char tail)"
proof (cases "str_slice tail 0 7")
  case (Some kw)
  then have b: "is_char_boundary tail 7" "7 \<le> length tail" by (auto simp: str_slice_def split: if_splits)
  note sl = esc_slice_ok[OF assms b(1) boundary_ends(2) b(2) order.refl]
  have "no_panic (parse_uescape_argument (trim_start t))" if "esc_slice tail 7 (length tail) = Inr t" for t
    using uescape_argument_no_panic valid_trim_start sl that by auto
  with Some sl show ?thesis
    unfolding uescape_char_def by (auto intro!: no_panic_bind)
qed (simp add: uescape_char_def)

lemma lexeme_body_text:
  assumes "valid_utf8 txt" "ascii_byte quote"
  shows "no_panic (unicode_lexeme_body txt quote)"
    and "unicode_lexeme_body txt quote = Inr (body, e) \<Longrightarrow> valid_utf8 body"
proof -
  let ?tail = "drop 2 txt"
  have tail: "valid_utf8 ?tail" if "take 2 txt = ''U&'' \<or> take 2 txt = ''u&''"
    using drop_ascii[OF assms(1), of 2] that by auto
  have slice: "esc_slice ?tail 1 close = Inr (subslice ?tail 1 close) \<and> valid_utf8 (subslice ?tail 1 close)"
    if "take 2 txt = ''U&'' \<or> take 2 txt = ''u&''" "get_at ?tail 0 = Some quote" "terminating_quote ?tail quote = Some close" for close
  proof -
    have c: "1 \<le> close" "close < length ?tail" "?tail ! close = quote"
      using quote_end_at[OF that(3)[unfolded terminating_quote_def]] by simp_all
    have "is_char_boundary ?tail 1" "is_char_boundary ?tail close"
      using ascii_then_boundary(2)[OF tail[OF that(1)], of 0] ascii_then_boundary(1)[OF tail[OF that(1)] c(2)] c assms(2) that(2)
      by (auto simp: numeral_2_eq_2)
    with esc_slice_ok[OF tail[OF that(1)]] c show ?thesis by simp
  qed
  have clause: "no_panic (uescape_char (trim_start t))"
    if "take 2 txt = ''U&'' \<or> take 2 txt = ''u&''" "str_slice ?tail (close + 1) (length ?tail) = Some t" for t close
    using uescape_char_no_panic valid_trim_start str_slice_valid[OF tail[OF that(1)] that(2)] by blast
  show "no_panic (unicode_lexeme_body txt quote)"
    unfolding unicode_lexeme_body_def Let_def
    by (rule no_panic_bind, simp, rule if_splits(2)[THEN iffD2])
       (auto simp: slice[unfolded One_nat_def] simp del: get_at_Some
         intro!: no_panic_bind clause split: option.split if_splits)
  show "valid_utf8 body" if "unicode_lexeme_body txt quote = Inr (body, e)"
    using that slice[unfolded One_nat_def]
    by (auto simp: unicode_lexeme_body_def Let_def esc_bind_def simp del: get_at_Some split: if_splits option.splits sum.splits)
qed

text \<open>
  C12. The eager verdict on a Unicode-escape constant and its lazy value never disagree: on valid
  text with a well-formed lexeme the check answers, and it says yes exactly when the body has a
  value under the constant's own escape character.
\<close>

theorem unicode_verdict_is_materialisation:
  assumes "valid_utf8 txt" "unicode_lexeme_body txt single_quote = Inr (body, escape)"
  shows "unicode_escape_string_is_valid txt = Some (\<exists>v. materialize_unicode_string body escape = Inr v)"
proof -
  have body: "valid_utf8 body" using lexeme_body_text(2)[OF assms(1) _ assms(2)] by simp
  have "legal_escape escape 39" using lexeme_escape_legal[OF assms(2)] by (simp add: legal_escape_def)
  note m = materialize_unicode_chars[OF body this]
  note np = unicode_chars_no_panic[of escape 39 "chars_of body"]
  show ?thesis
  proof (cases "escape \<notin> set (chars_of body) \<and> single_quote \<notin> set body")
    case True
    then show ?thesis using assms(2) by (simp add: unicode_escape_string_is_valid_def materialize_unicode_string_def)
  next
    case False
    then have "unicode_escape_string_is_valid txt
        = (case map_sum id (\<lambda>_. ()) (unicode_chars escape 39 (chars_of body)) of
             Inl EscPanic \<Rightarrow> None | Inl EscErr \<Rightarrow> Some False | Inr _ \<Rightarrow> Some True)"
      by (simp only: unicode_escape_string_is_valid_def assms(2) sum.case prod.case scan_unit if_False)
    with m np show ?thesis
      by (cases "unicode_chars escape 39 (chars_of body)") (auto simp: no_panic_def split: escape_failure.split)
  qed
qed

text \<open>\<open>U&'a\0000'\<close>: the zero code point is rejected.\<close>

theorem unicode_verdict_is_materialisation_witness:
  "unicode_escape_string_is_valid (''U&'' @ single_quote # ''a'' @ backslash_byte # ''0000'' @ [single_quote]) = Some False"
proof -
  let ?body = "''a'' @ backslash_byte # ''0000''"
  let ?txt = "''U&'' @ single_quote # ''a'' @ backslash_byte # ''0000'' @ [single_quote]"
  have b: "unicode_lexeme_body ?txt single_quote = Inr (?body, 92)"
    by (simp add: unicode_lexeme_body_def esc_bind_def terminating_quote_def quote_end_from.simps get_at_def
        esc_slice_def str_slice_def subslice_def is_char_boundary_def is_continuation_def trim_start.simps
        del: get_at_Some get_at_None)
  have c: "chars_of ?body = [97, 92, 48, 48, 48, 48]" by code_simp
  have "read_unicode_hex 0 4 [48, 48, 48, 48] = Inr (0, [])"
    by (simp add: read_unicode_hex_iff hex_digit_def hex_value_def)
  then have "unicode_chars 92 39 [97, 92, 48, 48, 48, 48] = Inl EscErr"
    by (simp add: unicode_chars_Cons read_escape_def is_high_surrogate_def code_point_ok_def cons_char_def)
  moreover have "valid_utf8 ?body" "legal_escape 92 39"
    by (simp_all add: legal_escape_def is_legal_uescape_char_def hex_digit_def hex_value_def is_whitespace_def)
  ultimately have m: "materialize_unicode_string ?body 92 = Inl EscErr"
    by (simp only: materialize_unicode_chars c map_sum.simps id_apply)
  have "valid_utf8 ?txt" by simp
  from unicode_verdict_is_materialisation[OF this b] show ?thesis unfolding m by simp
qed

end
