(* ===== verification/Literal_Totality.thy ===== *)
theory Literal_Totality
  imports Literal_Laws Literal_Values
begin

text \<open>
  The literal accessors on valid text: every slice they take lies on character boundaries, whatever
  the literal's span covers, so the one panic left is the overflow of a negation in
  \<open>as_decimal_text\<close>, which is characterised.
\<close>

subsection \<open>Bodies\<close>

lemma text_result_or: "text_result a \<Longrightarrow> text_result b \<Longrightarrow> text_result (esc_or a b)"
  by (simp add: esc_or_def)

lemma national_body_text: "valid_utf8 txt \<Longrightarrow> text_result (national_body txt)"
proof (cases "(take 2 txt = ''N'' @ [single_quote] \<or> take 2 txt = ''n'' @ [single_quote])
    \<and> 3 \<le> length txt \<and> last txt = single_quote")
  case True
  assume v: "valid_utf8 txt"
  have "valid_utf8 (drop 2 txt)" using drop_ascii[OF v, of 2] True by auto
  then have "is_char_boundary txt 2" using boundary_of_valid True by simp
  moreover have "txt ! (length txt - 1) = single_quote" using last_conv_nth[of "txt"] True by force
  then have "is_char_boundary txt (length txt - 1)"
    using ascii_then_boundary(1)[OF v, of "length txt - 1"] True by (cases "txt") auto
  moreover have "2 \<le> length txt - 1" using True by linarith
  ultimately show ?thesis
    using True esc_slice_text[OF v, of 2 "length txt - 1"] by (simp add: national_body_def)
qed (auto simp: national_body_def)

lemma charset_quote_at:
  assumes "charset_introducer_quote_offset txt = Some n"
  shows "2 \<le> n" "n < length txt" "txt ! n = single_quote \<or> txt ! n = double_quote" "txt ! 0 = CHR ''_''"
  using assms
  by (auto simp: charset_introducer_quote_offset_def Let_def Suc_le_eq split: list.splits if_splits)

lemma charset_body_text:
  assumes "valid_utf8 txt"
  shows "text_result (charset_body txt)"
proof (cases "charset_introducer_quote_offset txt")
  case (Some n)
  note q = charset_quote_at[OF Some]
  have b: "is_char_boundary txt n" using ascii_then_boundary(1)[OF assms q(2)] q(3) by auto
  have "n \<le> length txt" using q(2) by simp
  note s = esc_slice_ok[OF assms b boundary_ends(2) this order.refl]
  show ?thesis
    unfolding charset_body_def Some option.case
    using s by (intro text_result_bind) (auto intro!: text_result_or strip_quotes_text)
qed (simp add: charset_body_def)

lemma postgres_body_text: "valid_utf8 txt \<Longrightarrow> text_result (escape_body txt)"
  using escape_body_valid by (auto simp: escape_body_def split: option.split)

lemma dollar_open_at:
  assumes "dollar_open_delim_len s = Some n"
  shows "2 \<le> n" "n \<le> length s" "s ! 0 = CHR ''$''" "s ! (n - 1) = CHR ''$''"
  using assms by (auto simp: dollar_open_delim_len_def Let_def split: option.splits if_splits)

lemma dollar_body_text:
  assumes "valid_utf8 txt"
  shows "text_result (dollar_quoted_body txt)"
proof (cases "dollar_open_delim_len txt")
  case (Some n)
  note o = dollar_open_at[OF Some]
  show ?thesis
  proof (cases "length txt < n * 2 \<or> take n txt \<noteq> drop (length txt - n) txt")
    case True
    then show ?thesis using Some by (auto simp: dollar_quoted_body_def)
  next
    case False
    then have l: "n * 2 \<le> length txt" "drop (length txt - n) txt = take n txt" by auto
    have "is_char_boundary txt (Suc (n - 1))"
      using ascii_then_boundary(2)[OF assms, of "n - 1"] o by simp
    then have a: "is_char_boundary txt n" using o(1) by simp
    have "txt ! (length txt - n) = drop (length txt - n) txt ! 0" using l(1) o(1) by simp
    also have "\<dots> = CHR ''$''" using l o by simp
    finally have "is_char_boundary txt (length txt - n)"
      using ascii_then_boundary(1)[OF assms, of "length txt - n"] l o(1) by simp
    with a have "text_result (esc_slice txt n (length txt - n))" using l(1) by (intro esc_slice_text assms) auto
    with Some False show ?thesis by (auto simp: dollar_quoted_body_def)
  qed
qed (simp add: dollar_quoted_body_def)

subsection \<open>Strings\<close>

lemma postgres_string_no_panic:
  assumes "valid_utf8 body"
  shows "no_panic (materialize_postgres_escape_string body)"
proof -
  have "scan_escape_from vec_sink body 0 0 [] \<noteq> Inl EscPanic"
    by (rule scan_escape_no_panic[OF assms vec_sink_total])
  then show ?thesis
    by (auto simp: materialize_postgres_escape_string_def scan_postgres_escape_string_def no_panic_def
        split: sum.split)
qed

lemma materialize_unicode_no_panic: "no_panic (materialize_unicode_string body escape)"
  by (simp add: materialize_unicode_string_def scan_string)

fun body_text :: "string_form \<Rightarrow> source" where
  "body_text (Standard t) = t"
| "body_text (PostgresEscape t) = t"
| "body_text (DollarQuoted t) = t"
| "body_text (Unicode_Escape t e) = t"

definition body_result :: "escape_failure + string_form \<Rightarrow> bool" where
  "body_result r \<longleftrightarrow> text_result (map_sum id body_text r)"

lemma body_result_or: "body_result a \<Longrightarrow> body_result b \<Longrightarrow> body_result (esc_or a b)"
  by (simp add: esc_or_def)

lemma body_result_map: "text_result r \<Longrightarrow> (\<And>t. body_text (f t) = t) \<Longrightarrow> body_result (map_sum id f r)"
  by (cases r) (simp_all add: body_result_def)

lemma unicode_body_result:
  assumes "valid_utf8 txt"
  shows "body_result (unicode_string_body txt)"
  using lexeme_body_text[OF assms, of single_quote]
  by (cases "unicode_lexeme_body txt single_quote")
     (auto simp: unicode_string_body_def esc_bind_def body_result_def text_result_def no_panic_def)

lemma string_body_result:
  assumes "valid_utf8 txt"
  shows "body_result (string_literal_body txt)"
  unfolding string_literal_body_def
  by (intro body_result_or body_result_map strip_quotes_text postgres_body_text national_body_text
      charset_body_text unicode_body_result dollar_body_text assms quotes_ascii) simp_all

text \<open>The delimiter of a standard body is the constant's last byte; only quotes get that far.\<close>

lemma strip_suffix_last: "strip_suffix b s = Inr t \<Longrightarrow> s \<noteq> [] \<and> last s = b"
  by (simp add: strip_suffix_def split: if_splits)

lemma strip_quotes_last: "strip_quotes b s = Inr t \<Longrightarrow> s \<noteq> [] \<and> last s = b"
  by (auto simp: strip_quotes_def strip_prefix_def esc_bind_def split: list.splits sum.splits if_splits dest!: strip_suffix_last)

lemma standard_body_delimiter:
  assumes "string_literal_body txt = Inr (Standard body)"
  shows "txt \<noteq> [] \<and> (last txt = single_quote \<or> last txt = double_quote)"
proof -
  have charset: "txt \<noteq> [] \<and> (last txt = single_quote \<or> last txt = double_quote)" if "charset_body txt = Inr b" for b
  proof -
    from that obtain n t where n: "charset_introducer_quote_offset txt = Some n" "esc_slice txt n (length txt) = Inr t"
        "esc_or (strip_quotes single_quote t) (strip_quotes double_quote t) = Inr b"
      by (auto simp: charset_body_def esc_bind_def split: option.splits sum.splits)
    then have t: "t = drop n txt" by (auto simp: esc_slice_def str_slice_def subslice_def split: if_splits)
    have "t \<noteq> [] \<and> (last t = single_quote \<or> last t = double_quote)"
      using n(3) by (auto simp: esc_or_def dest!: strip_quotes_last split: if_splits)
    with t show ?thesis by (auto simp: last_drop)
  qed
  have national: "txt \<noteq> [] \<and> last txt = single_quote" if "national_body txt = Inr b" for b
    using that by (auto simp: national_body_def split: if_splits)
  have st: "map_sum id Standard m = Inr (Standard body) \<longleftrightarrow> m = Inr body" for m :: "escape_failure + source"
    by (cases m) auto
  have other: "map_sum id PostgresEscape m \<noteq> Inr (Standard body)" "map_sum id DollarQuoted m \<noteq> Inr (Standard body)"
    for m :: "escape_failure + source" by (cases m; simp)+
  have uni: "unicode_string_body txt \<noteq> Inr (Standard body)"
    by (auto simp: unicode_string_body_def esc_bind_def split: sum.split)
  have orD: "esc_or a b = Inr x \<Longrightarrow> a = Inr x \<or> b = Inr x" for a b :: "escape_failure + string_form" and x
    by (auto simp: esc_or_def split: if_splits)
  from assms have "strip_quotes single_quote txt = Inr body \<or> strip_quotes double_quote txt = Inr body
      \<or> national_body txt = Inr body \<or> charset_body txt = Inr body"
    unfolding string_literal_body_def by (auto dest!: orD simp: st other uni)
  then show ?thesis using strip_quotes_last national charset by blast
qed

lemma materialize_string_no_panic:
  assumes "valid_utf8 txt"
  shows "no_panic (materialize_string txt backslash)"
proof (cases "string_literal_body txt")
  case (Inl e)
  then show ?thesis using string_body_result[OF assms]
    by (auto simp: materialize_string_def esc_bind_def body_result_def text_result_def no_panic_def)
next
  case (Inr form)
  have v: "valid_utf8 (body_text form)" using string_body_result[OF assms] Inr by (simp add: body_result_def)
  show ?thesis
  proof (cases form)
    case (Standard body)
    with Inr standard_body_delimiter[of "txt" body] v materialize_standard_ok[of body "last txt" backslash] show ?thesis
      by (auto simp: materialize_string_def esc_bind_def)
  next
    case (PostgresEscape body)
    with Inr v postgres_string_no_panic show ?thesis by (simp add: materialize_string_def esc_bind_def)
  next
    case (DollarQuoted body)
    with Inr show ?thesis by (simp add: materialize_string_def esc_bind_def)
  next
    case (Unicode_Escape body e)
    with Inr show ?thesis by (simp add: materialize_string_def esc_bind_def materialize_unicode_no_panic)
  qed
qed

subsection \<open>Adjacent constants\<close>

lemma segment_end_at:
  "segment_end_from s q b i = Some e \<Longrightarrow> i < e \<and> e \<le> length s \<and> s ! (e - 1) = q"
proof (induction s q b i rule: segment_end_from.induct)
  case (1 s q b i)
  from 1(4) show ?case
    by (subst (asm) segment_end_from.simps)
       (auto simp del: get_at_Some dest: 1(1,2,3) split: if_splits)
qed

lemma segment_open_quote:
  assumes "segment_open s = Some (n, b)"
  shows "n < length s \<and> (s ! n = single_quote \<or> s ! n = double_quote)"
  using assms charset_quote_at[of s]
  by (auto simp: segment_open_def Let_def split: if_splits)

lemma first_segment_end_boundary:
  assumes "valid_utf8 s" "first_segment_end s b = Some e"
  shows "is_char_boundary s e" "0 < e" "e \<le> length s"
proof -
  from assms(2) obtain n pb where o: "segment_open s = Some (n, pb)"
      "segment_end_from s (s ! n) (pb \<or> b) (n + 1) = Some e"
    by (auto simp: first_segment_end_def split: option.splits)
  note e = segment_end_at[OF o(2)] and n = segment_open_quote[OF o(1)]
  then show "0 < e" "e \<le> length s" by simp_all
  have "is_char_boundary s (Suc (e - 1))"
    using ascii_then_boundary(2)[OF assms(1), of "e - 1"] e n by auto
  with e show "is_char_boundary s e" by simp
qed

lemma join_segments_no_panic:
  "valid_utf8 tail \<Longrightarrow> no_panic (join_segments backslash tail out)"
proof (induction backslash tail out rule: join_segments.induct)
  case (1 backslash tail out)
  show ?case
  proof (cases "first_segment_end tail backslash")
    case None
    then show ?thesis by (simp add: join_segments.simps)
  next
    case (Some e)
    note b = first_segment_end_boundary[OF 1(2) Some]
    note s1 = esc_slice_ok[OF 1(2) boundary_ends(1) b(1) _ b(3), simplified]
    note s2 = esc_slice_ok[OF 1(2) b(1) boundary_ends(2) b(3) order.refl]
    note m = materialize_string_no_panic[OF s1(2), of backslash]
    show ?thesis
    proof (cases "materialize_string (subslice tail 0 e) backslash")
      case (Inl err)
      with m Some s1 show ?thesis by (subst join_segments.simps) (simp add: esc_bind_def no_panic_def)
    next
      case (Inr v)
      then have v: "esc_bind (esc_slice tail 0 e) (\<lambda>seg. materialize_string seg backslash) = Inr v"
        using s1(1) by (simp add: esc_bind_def)
      show ?thesis
      proof (cases "trim_start (subslice tail e (length tail)) = []")
        case True
        with Some v s2 show ?thesis by (subst join_segments.simps) simp
      next
        case False
        from 1(1)[OF Some v s2(1) False valid_trim_start[OF s2(2)]] Some v s2 False show ?thesis
          by (subst join_segments.simps) simp
      qed
    qed
  qed
qed

lemma concatenated_no_panic:
  assumes "valid_utf8 s"
  shows "no_panic (materialize_concatenated_string s backslash)"
proof (cases "first_segment_end s backslash")
  case None
  with materialize_string_no_panic[OF assms] show ?thesis by (simp add: materialize_concatenated_string_def)
next
  case (Some e)
  note b = first_segment_end_boundary[OF assms Some]
  note s2 = esc_slice_ok[OF assms b(1) boundary_ends(2) b(3) order.refl]
  with Some materialize_string_no_panic[OF assms] join_segments_no_panic[OF assms] show ?thesis
    by (simp add: materialize_concatenated_string_def esc_bind_def Let_def)
qed

subsection \<open>The other accessors\<close>

lemma bit_body_text:
  assumes "valid_utf8 s"
  shows "no_panic (bit_string_body s)"
proof (cases s)
  case (Cons a t)
  show ?thesis
  proof (cases t)
    case (Cons b others)
    show ?thesis
    proof (cases "(a = CHR ''B'' \<or> a = CHR ''b'' \<or> a = CHR ''X'' \<or> a = CHR ''x'') \<and> b = single_quote")
      case True
      then have "ascii_byte a" by auto
      with assms \<open>s = a # t\<close> Cons have "valid_utf8 (b # others)" by simp
      from strip_quotes_text[OF this quotes_ascii(1)] True \<open>s = a # t\<close> Cons show ?thesis
        by (simp add: bit_string_body_def text_no_panic)
    qed (use \<open>s = a # t\<close> Cons in \<open>auto simp: bit_string_body_def\<close>)
  qed (use Cons in \<open>simp add: bit_string_body_def\<close>)
qed (simp add: bit_string_body_def)

lemma bit_segments_no_panic: "valid_utf8 tail \<Longrightarrow> no_panic (bit_segments tail out)"
proof (induction tail out rule: bit_segments.induct)
  case (1 tail out)
  show ?case
  proof (cases "tail = [] \<or> first_segment_end tail False = None")
    case True
    then show ?thesis by (subst bit_segments.simps) auto
  next
    case False
    then obtain e where e: "tail \<noteq> []" "first_segment_end tail False = Some e" by auto
    note b = first_segment_end_boundary[OF 1(2) e(2)]
    note s1 = esc_slice_ok[OF 1(2) boundary_ends(1) b(1) _ b(3), simplified]
    note s2 = esc_slice_ok[OF 1(2) b(1) boundary_ends(2) b(3) order.refl]
    have p: "no_panic (plain_quoted_inner (subslice tail 0 e))"
      using strip_quotes_text[OF s1(2) quotes_ascii(1)] by (simp add: plain_quoted_inner_def text_no_panic)
    show ?thesis
    proof (cases "plain_quoted_inner (subslice tail 0 e)")
      case (Inl err)
      with p e s1 show ?thesis by (subst bit_segments.simps) (simp add: esc_bind_def no_panic_def)
    next
      case (Inr digits)
      then have d: "esc_bind (esc_slice tail 0 e) plain_quoted_inner = Inr digits"
        using s1(1) by (simp add: esc_bind_def)
      from 1(1)[OF e d s2(1) valid_trim_start[OF s2(2)]] e d s2 show ?thesis
        by (subst bit_segments.simps) simp
    qed
  qed
qed

lemma concatenated_bit_no_panic:
  assumes "valid_utf8 s"
  shows "no_panic (concatenated_bit_body s)"
proof (cases "first_segment_end s False")
  case (Some e)
  note b = first_segment_end_boundary[OF assms Some]
  note s1 = esc_slice_ok[OF assms boundary_ends(1) b(1) _ b(3), simplified]
  note s2 = esc_slice_ok[OF assms b(1) boundary_ends(2) b(3) order.refl]
  show ?thesis
    unfolding concatenated_bit_body_def Some option.case
    using s1 s2 bit_body_text assms bit_segments_no_panic[OF valid_trim_start]
    by (auto intro!: no_panic_bind)
qed (simp add: concatenated_bit_body_def)

definition accessor_ok :: "accessor_failure + 'a \<Rightarrow> bool" where
  "accessor_ok r \<longleftrightarrow> r \<noteq> Inl Value_Panic"

lemma accessor_ok_bind:
  "accessor_ok m \<Longrightarrow> (\<And>x. m = Inr x \<Longrightarrow> accessor_ok (k x)) \<Longrightarrow> accessor_ok (value_bind m k)"
  by (auto simp: accessor_ok_def value_bind_def split: sum.splits)

lemma accessor_ok_error: "no_panic r \<Longrightarrow> accessor_ok (or_value_error l k r)"
  by (auto simp: accessor_ok_def or_value_error_def no_panic_def lit_error_def split: sum.splits escape_failure.splits)

lemma accessor_ok_leaves [simp]:
  "accessor_ok (Inr x)" "accessor_ok (Inl (lit_error l k))" "accessor_ok (Inl (wrong_kind l ex))"
  "accessor_ok (expect_kind l ex p)" "accessor_ok (source_text l src)"
  by (auto simp: accessor_ok_def lit_error_def wrong_kind_def expect_kind_def source_text_def Let_def split: option.splits)

lemma source_text_valid: "valid_utf8 src \<Longrightarrow> source_text l src = Inr t \<Longrightarrow> valid_utf8 t"
  using str_slice_valid by (auto simp: source_text_def Let_def split: if_splits option.splits)

lemma i64_no_panic: "no_panic (materialize_i64 s)"
  by (auto simp: materialize_i64_def Let_def no_panic_def split: prod.split option.split cow.split)

lemma charset_name_sliced:
  assumes "valid_utf8 s" "charset_introducer_quote_offset s = Some n"
  shows "str_slice s 1 n \<noteq> None"
proof -
  note q = charset_quote_at[OF assms(2)]
  have "0 < length s" using q by auto
  from ascii_then_boundary(2)[OF assms(1) this] ascii_then_boundary(1)[OF assms(1) q(2)] q show ?thesis
    by (auto simp: str_slice_def)
qed

lemma temporal_token_valid:
  assumes "valid_utf8 t" "temporal_string_token t = Some t'"
  shows "valid_utf8 t'"
  using assms(2) str_slice_valid[OF assms(1)]
  by (auto simp: temporal_string_token_def Let_def split: if_splits option.splits)

subsection \<open>The one panic\<close>

text \<open>
  A radix literal with two signs whose magnitude text is the least \<open>i128\<close>: negating it overflows.
\<close>

definition radix_prefixes :: "(source \<times> nat) set" where
  "radix_prefixes = {(''0x'', 16), (''0X'', 16), (''0o'', 8), (''0O'', 8), (''0b'', 2), (''0B'', 2)}"

definition negated_least :: "source \<Rightarrow> bool" where
  "negated_least txt \<longleftrightarrow> (\<exists>mark base body ds. (mark, base) \<in> radix_prefixes \<and> txt = ''-'' @ mark @ body
     \<and> strip_digit_separators body base \<noteq> None \<and> filter (\<lambda>b. b \<noteq> CHR ''_'') body = ''-'' @ ds
     \<and> digits_value base 0 ds = Some (2 ^ 127))"

lemma split_radix_prefixed:
  "split_radix_prefix number = (base, body) \<and> base \<noteq> 10 \<longleftrightarrow> (\<exists>mark. (mark, base) \<in> radix_prefixes \<and> number = mark @ body)"
proof
  assume "split_radix_prefix number = (base, body) \<and> base \<noteq> 10"
  then have p: "split_radix_prefix number = (base, body)" "base \<noteq> 10" by simp_all
  then obtain a b t where n: "number = a # b # t"
    by (cases number rule: list.exhaust; cases "tl number") (simp_all add: split_radix_prefix_def)
  from p have "([a, b], base) \<in> radix_prefixes \<and> t = body"
    by (simp add: n split_radix_prefix_def radix_prefixes_def split: if_splits)
  with n show "\<exists>mark. (mark, base) \<in> radix_prefixes \<and> number = mark @ body" by (intro exI[of _ "[a, b]"]) simp
next
  assume "\<exists>mark. (mark, base) \<in> radix_prefixes \<and> number = mark @ body"
  then show "split_radix_prefix number = (base, body) \<and> base \<noteq> 10"
    by (auto simp: split_radix_prefix_def radix_prefixes_def)
qed

lemma split_sign_minus: "split_sign txt = (''-'', number) \<longleftrightarrow> txt = ''-'' @ number"
  by (cases "txt") (auto simp: split_sign_def)

lemma stripped_digits:
  "strip_digit_separators body base = Some digits \<Longrightarrow>
     (case digits of Borrowed s \<Rightarrow> s | Owned s \<Rightarrow> s) = filter (\<lambda>b. b \<noteq> CHR ''_'') body"
  by (auto simp: strip_digit_separators_def intro!: filter_True[symmetric] split: if_splits)

lemma least_i128_text:
  "from_str_radix i128_min i128_max base s = Some i128_min \<longleftrightarrow> (\<exists>ds. s = ''-'' @ ds \<and> digits_value base 0 ds = Some (2 ^ 127))"
proof
  assume "from_str_radix i128_min i128_max base s = Some i128_min"
  then obtain sign ds n where d: "split_sign s = (sign, ds)" "digits_value base 0 ds = Some n"
      "(if sign = ''-'' then - int n else int n) = i128_min"
    by (auto simp: from_str_radix_def Let_def split: prod.splits if_splits option.splits)
  from d(3) have m: "sign = ''-''" "int n = 2 ^ 127" by (auto simp: i128_min_def split: if_splits)
  then have "int n = int (2 ^ 127)" by simp
  then have "n = 2 ^ 127" by (rule of_nat_eq_iff[THEN iffD1])
  with d(1,2) m(1) show "\<exists>ds. s = ''-'' @ ds \<and> digits_value base 0 ds = Some (2 ^ 127)"
    by (auto simp: split_sign_minus)
next
  assume "\<exists>ds. s = ''-'' @ ds \<and> digits_value base 0 ds = Some (2 ^ 127)"
  then obtain ds where "split_sign s = (''-'', ds)" "digits_value base 0 ds = Some (2 ^ 127)" by (auto simp: split_sign_minus)
  then show "from_str_radix i128_min i128_max base s = Some i128_min"
    by (auto simp: from_str_radix_def i128_min_def i128_max_def)
qed

lemma decimal_text_panic: "materialize_decimal_text txt = Inl EscPanic \<longleftrightarrow> negated_least txt"
proof -
  obtain sign number where h: "split_sign txt = (sign, number)" by fastforce
  obtain base body where r: "split_radix_prefix number = (base, body)" by fastforce
  have "materialize_decimal_text txt = Inl EscPanic \<longleftrightarrow> base \<noteq> 10 \<and> sign = ''-'' \<and>
      (\<exists>digits. strip_digit_separators body base = Some digits \<and>
        from_str_radix i128_min i128_max base (case digits of Borrowed s \<Rightarrow> s | Owned s \<Rightarrow> s) = Some i128_min)"
    by (auto simp: materialize_decimal_text_def h r Let_def split: option.split cow.split if_splits)
  also have "\<dots> \<longleftrightarrow> base \<noteq> 10 \<and> sign = ''-'' \<and> strip_digit_separators body base \<noteq> None
      \<and> (\<exists>ds. filter (\<lambda>b. b \<noteq> CHR ''_'') body = ''-'' @ ds \<and> digits_value base 0 ds = Some (2 ^ 127))"
  proof (cases "strip_digit_separators body base")
    case (Some digits)
    then show ?thesis by (simp add: stripped_digits[OF Some] least_i128_text)
  qed simp
  also have "\<dots> \<longleftrightarrow> negated_least txt"
  proof
    assume l: "base \<noteq> 10 \<and> sign = ''-'' \<and> strip_digit_separators body base \<noteq> None
      \<and> (\<exists>ds. filter (\<lambda>b. b \<noteq> CHR ''_'') body = ''-'' @ ds \<and> digits_value base 0 ds = Some (2 ^ 127))"
    then have "txt = ''-'' @ number" using h by (simp add: split_sign_minus)
    moreover obtain mark where "(mark, base) \<in> radix_prefixes" "number = mark @ body"
      using split_radix_prefixed[of number base body] r l by auto
    ultimately show "negated_least txt" using l unfolding negated_least_def by blast
  next
    assume "negated_least txt"
    then obtain mark base' body' ds where n: "(mark, base') \<in> radix_prefixes" "txt = ''-'' @ mark @ body'"
      "strip_digit_separators body' base' \<noteq> None" "filter (\<lambda>b. b \<noteq> CHR ''_'') body' = ''-'' @ ds"
      "digits_value base' 0 ds = Some (2 ^ 127)" unfolding negated_least_def by blast
    have "split_sign txt = (''-'', mark @ body')" unfolding split_sign_minus by (rule n(2))
    with h have "sign = ''-''" "number = mark @ body'" by simp_all
    moreover from this have "split_radix_prefix number = (base', body') \<and> base' \<noteq> 10"
      using split_radix_prefixed n(1) by blast
    ultimately show "base \<noteq> 10 \<and> sign = ''-'' \<and> strip_digit_separators body base \<noteq> None
      \<and> (\<exists>ds. filter (\<lambda>b. b \<noteq> CHR ''_'') body = ''-'' @ ds \<and> digits_value base 0 ds = Some (2 ^ 127))"
      using n(3-5) r by simp
  qed
  finally show ?thesis .
qed

lemma decimal_accessor_panic:
  "as_decimal_text l src = Inl Value_Panic \<longleftrightarrow> lit_kind l \<in> {Lk_Integer, Lk_Float, Lk_Decimal}
     \<and> (\<exists>txt. source_text l src = Inr txt \<and> negated_least txt)"
proof -
  have e: "or_value_error l k r = Inl Value_Panic \<longleftrightarrow> r = Inl EscPanic" for k and r :: "escape_failure + source"
    by (auto simp: or_value_error_def lit_error_def split: sum.split escape_failure.split)
  have "source_text l src \<noteq> Inl Value_Panic" using accessor_ok_leaves(5) by (simp add: accessor_ok_def)
  then show ?thesis
    by (auto simp: as_decimal_text_def value_bind_def expect_kind_def wrong_kind_def lit_error_def e decimal_text_panic
        split: sum.split if_splits)
qed

text \<open>
  C8. Reading a literal panics in one case only: on valid source text, whatever span and kind the
  literal claims, every accessor returns a value or one of its errors, except that
  \<open>as_decimal_text\<close> of a number panics exactly when the literal's text is a minus sign, a radix
  prefix and, between well-placed separators, a second minus sign with the magnitude 2 ^ 127.
\<close>

theorem literal_accessors_total:
  assumes "valid_utf8 src"
  shows "as_i64 l src \<noteq> Inl Value_Panic \<and> as_str_in l src syntax \<noteq> Inl Value_Panic
    \<and> as_str l src \<noteq> Inl Value_Panic
    \<and> charset_introducer l src \<noteq> Inl Value_Panic \<and> as_temporal_text l src \<noteq> Inl Value_Panic
    \<and> as_bit_text l src \<noteq> Inl Value_Panic \<and> as_money_text l src \<noteq> Inl Value_Panic
    \<and> as_bool l \<noteq> Inl Value_Panic \<and> as_null l \<noteq> Inl Value_Panic
    \<and> (as_decimal_text l src = Inl Value_Panic \<longleftrightarrow> lit_kind l \<in> {Lk_Integer, Lk_Float, Lk_Decimal}
         \<and> (\<exists>txt. source_text l src = Inr txt \<and> negated_least txt))"
proof -
  note v = source_text_valid[OF assms]
  have "accessor_ok (as_i64 l src)"
    unfolding as_i64_def by (intro accessor_ok_bind accessor_ok_error) (simp_all add: i64_no_panic)
  moreover have "accessor_ok (as_str_in l src sx)" for sx
    unfolding as_str_in_def by (intro accessor_ok_bind accessor_ok_error) (auto intro: concatenated_no_panic v)
  moreover have "accessor_ok (charset_introducer l src)"
    unfolding charset_introducer_def
    by (intro accessor_ok_bind) (auto dest!: v charset_name_sliced split: option.split)
  moreover have "accessor_ok (as_temporal_text l src)"
    unfolding as_temporal_text_def
    by (intro accessor_ok_bind)
       (auto intro!: accessor_ok_error concatenated_no_panic temporal_token_valid[OF v] split: option.split)
  moreover have "accessor_ok (as_bit_text l src)"
    unfolding as_bit_text_def
    by (cases "lit_kind l") (auto intro!: accessor_ok_bind accessor_ok_error concatenated_bit_no_panic dest: v)
  moreover have "accessor_ok (as_money_text l src)"
    unfolding as_money_text_def money_body_def
    by (intro accessor_ok_bind accessor_ok_error) (auto intro!: text_no_panic strip_prefix_text dest: v)
  moreover have "accessor_ok (as_bool l)" "accessor_ok (as_null l)"
    by (auto simp: as_bool_def as_null_def split: literal_kind.split)
  ultimately show ?thesis using decimal_accessor_panic[of l src] by (simp add: accessor_ok_def as_str_def)
qed

text \<open>A span that cuts a character in two, and the doubly signed number.\<close>

theorem literal_accessors_total_witness:
  "as_str_in \<lparr>lit_kind = Lk_String, lit_meta = \<lparr>meta_span = Span 0 2, meta_node_id = NodeId 1\<rparr>\<rparr>
     (single_quote # encode [233] @ [single_quote]) StringLiteralSyntax_ANSI \<noteq> Inl Value_Panic
   \<and> as_decimal_text \<lparr>lit_kind = Lk_Integer, lit_meta = \<lparr>meta_span = Span 0 36, meta_node_id = NodeId 1\<rparr>\<rparr>
     ''-0x-80000000000000000000000000000000'' = Inl Value_Panic"
proof -
  have v: "valid_utf8 (single_quote # encode [233] @ [single_quote])" by code_simp
  have w: "valid_utf8 ''-0x-80000000000000000000000000000000''" by simp
  let ?l = "\<lparr>lit_kind = Lk_Integer, lit_meta = \<lparr>meta_span = Span 0 36, meta_node_id = NodeId 1\<rparr>\<rparr>"
  have "source_text ?l ''-0x-80000000000000000000000000000000'' = Inr (''-'' @ ''0x'' @ ''-80000000000000000000000000000000'')"
    by (simp add: source_text_def is_synthetic_def str_slice_def is_char_boundary_def subslice_def)
  moreover have "negated_least (''-'' @ ''0x'' @ ''-80000000000000000000000000000000'')"
    unfolding negated_least_def
    by (rule exI[of _ "''0x''"], rule exI[of _ 16]) (simp add: radix_prefixes_def strip_digit_separators_def hex_value_def)
  ultimately show ?thesis
    using literal_accessors_total[OF v] literal_accessors_total[OF w, of ?l StringLiteralSyntax_ANSI] by auto
qed

end
