(* ===== verification/Literal_Roundtrips.thy ===== *)
theory Literal_Roundtrips
  imports Literal_Totality
begin

text \<open>
  What a constant written in source text reads back as: quoted strings, adjacent strings joined
  into one value, and integers with a sign, a radix prefix and digit separators.
\<close>

subsection \<open>Quoting\<close>

fun quote_bytes :: "byte \<Rightarrow> bool \<Rightarrow> source \<Rightarrow> source" where
  "quote_bytes q bs [] = []"
| "quote_bytes q bs (b # s) = (if b = q \<or> b = backslash_byte \<and> bs then [b, b] else [b]) @ quote_bytes q bs s"

definition quoted :: "byte \<Rightarrow> bool \<Rightarrow> source \<Rightarrow> source" where
  "quoted q bs v = q # quote_bytes q bs v @ [q]"

definition string_quote :: "byte \<Rightarrow> bool" where
  "string_quote q \<longleftrightarrow> q = single_quote \<or> q = double_quote"

lemma string_quoteD: "string_quote q \<Longrightarrow> ascii_byte q \<and> q \<noteq> backslash_byte \<and> q \<noteq> CHR 0x00"
  by (auto simp: string_quote_def)

lemma valid_append: "valid_utf8 s \<Longrightarrow> valid_utf8 t \<Longrightarrow> valid_utf8 (s @ t)"
  unfolding valid_utf8_encodes by (metis encode_simps(3) list_all_append)

lemma quote_bytes_append: "quote_bytes q bs (s @ t) = quote_bytes q bs s @ quote_bytes q bs t"
  by (induction s) simp_all

lemma quote_bytes_same: "q \<notin> set s \<Longrightarrow> \<not> (bs \<and> backslash_byte \<in> set s) \<Longrightarrow> quote_bytes q bs s = s"
  by (induction s) auto

lemma set_quote_bytes [simp]: "set (quote_bytes q bs s) = set s"
  by (induction s) auto

lemma encode_high: "128 \<le> c \<Longrightarrow> c < 1114112 \<Longrightarrow> b \<in> set (encode_utf8 c) \<Longrightarrow> \<not> ascii_byte b"
proof -
  assume c: "128 \<le> c" "c < 1114112" "b \<in> set (encode_utf8 c)"
  have "c div 64 < 32 \<or> 2048 \<le> c" "c div 4096 < 16 \<or> 65536 \<le> c" "c div 262144 < 8" using c(2) by auto
  moreover have "x mod 64 < 64" for x :: nat by simp
  ultimately show ?thesis using c(1,3)
    by (auto simp: encode_utf8_def char_byte not_less split: if_splits)
qed

lemma valid_quote_bytes:
  assumes "valid_utf8 v" "ascii_byte q"
  shows "valid_utf8 (quote_bytes q bs v)"
proof -
  obtain cs where cs: "list_all scalar cs" "v = encode cs" using assms(1) valid_utf8_encodes by blast
  have one: "valid_utf8 (quote_bytes q bs (encode_utf8 c))" if "scalar c" for c
  proof (cases "c < 128")
    case False
    then have "q \<notin> set (encode_utf8 c)" "backslash_byte \<notin> set (encode_utf8 c)"
      using encode_high[of c q] encode_high[of c backslash_byte] scalar_bound[OF that] assms(2) quotes_ascii(3)
      by (simp_all only: not_less) blast+
    moreover have "valid_utf8 (encode_utf8 c)" using that valid_utf8_encodes[of "encode_utf8 c"] by (auto intro!: exI[of _ "[c]"])
    ultimately show ?thesis by (simp add: quote_bytes_same)
  qed simp
  have "list_all scalar cs \<Longrightarrow> valid_utf8 (quote_bytes q bs (encode cs))"
    by (induction cs) (auto simp: quote_bytes_append intro!: valid_append one)
  with cs show ?thesis by simp
qed

lemma valid_quoted: "valid_utf8 v \<Longrightarrow> string_quote q \<Longrightarrow> valid_utf8 (quoted q bs v)"
  using valid_append[OF valid_quote_bytes, of v q "[q]" bs] string_quoteD[of q] by (simp add: quoted_def)

lemma get_at_append: "get_at (xs @ ys) (length xs + k) = get_at ys k"
  by (simp add: get_at_def nth_append)

lemma get_at_head: "get_at (x # xs) 0 = Some x"
  by (simp add: get_at_def)

lemma get_at_after: "get_at (xs @ y # ys) (Suc (length xs)) = get_at ys 0"
  using get_at_append[of xs "y # ys" 1] by (simp add: get_at_def)

lemma subslice_same [simp]: "subslice s i i = []"
  by (simp add: subslice_def)

lemma subslice_step: "i \<le> j \<Longrightarrow> j < length s \<Longrightarrow> subslice s i (Suc j) = subslice s i j @ [s ! j]"
  by (simp add: subslice_def Suc_diff_le take_Suc_conv_app_nth)

text \<open>Reading undoes the doubling.\<close>

lemma standard_from_quoted:
  assumes "valid_utf8 body" "ascii_byte q" "q \<noteq> backslash_byte" "body = pre @ quote_bytes q bs v"
    "is_char_boundary body seg" "seg \<le> length pre"
  shows "standard_from bs q body seg (length pre) out = Inr (out @ subslice body seg (length pre) @ v)"
  using assms(4-6)
proof (induction v arbitrary: pre seg out)
  case Nil
  then have "esc_slice body seg (length body) = Inr (subslice body seg (length body))"
    using esc_slice_ok(1)[OF assms(1), of seg "length body"] by simp
  with Nil show ?case by (subst standard_from.simps) simp
next
  case (Cons b v)
  let ?i = "length pre"
  have here: "?i < length body" "body ! ?i = b" using Cons.prems(1) by (auto simp: nth_append)
  note slice = esc_slice_ok(1)[OF assms(1) Cons.prems(2) _ Cons.prems(3)]
  show ?case
  proof (cases "b = q \<or> b = backslash_byte \<and> bs")
    case True
    then have asc: "ascii_byte b" using assms(2) by auto
    have body: "body = (pre @ [b, b]) @ quote_bytes q bs v" "body = pre @ b # b # quote_bytes q bs v"
      using Cons.prems(1) True by auto
    have l2: "Suc ?i < length body" "body ! Suc ?i = b" by (simp_all add: body(2) nth_append)
    have bd: "is_char_boundary body ?i" "is_char_boundary body (?i + 2)"
      using ascii_then_boundary(1)[OF assms(1) here(1)] ascii_then_boundary(2)[OF assms(1) l2(1)] here(2) l2(2) asc by simp_all
    note s = slice[OF bd(1)]
    have ih: "standard_from bs q body (?i + 2) (?i + 2) out' = Inr (out' @ v)" for out'
      using Cons.IH[OF body(1), of "?i + 2" out'] bd(2) by simp
    show ?thesis
    proof (cases "b = q")
      case True
      with assms(3) here l2 s ih show ?thesis
        by (subst standard_from.simps) (simp del: append_assoc add: append_assoc[symmetric])
    next
      case False
      with True have "b = backslash_byte" bs by auto
      moreover from this have "consume_mysql_escape body (?i + 1) o' = Inr (?i + 2, o' @ [backslash_byte])" for o'
        using l2 by (simp add: consume_mysql_escape_def get_at_def)
      ultimately show ?thesis using here s ih by (subst standard_from.simps) simp
    qed
  next
    case False
    then have "body = (pre @ [b]) @ quote_bytes q bs v" using Cons.prems(1) by simp
    from Cons.IH[OF this Cons.prems(2), of out] Cons.prems(3) False here show ?thesis
      by (subst standard_from.simps) (auto simp: subslice_step)
  qed
qed

lemma materialize_quote_bytes:
  assumes "valid_utf8 v" "string_quote q"
  shows "materialize_standard_string (quote_bytes q bs v) q bs = Inr v"
proof (cases "q \<notin> set v \<and> \<not> (bs \<and> backslash_byte \<in> set v)")
  case True
  then show ?thesis using quote_bytes_same[of q v bs] by (simp add: materialize_standard_string_def)
next
  case False
  note q = string_quoteD[OF assms(2)]
  from q valid_quote_bytes[OF assms(1), of q bs]
  have "standard_from bs q (quote_bytes q bs v) 0 (length ([] :: source)) [] = Inr ([] @ subslice (quote_bytes q bs v) 0 (length ([] :: source)) @ v)"
    by (intro standard_from_quoted) auto
  with False show ?thesis by (auto simp: materialize_standard_string_def Let_def)
qed

lemma materialize_quoted:
  assumes "valid_utf8 v" "string_quote q" "CHR 0x00 \<notin> set v"
  shows "materialize_string (quoted q bs v) bs = Inr v"
proof -
  have "string_literal_body (quoted q bs v) = Inr (Standard (quote_bytes q bs v))"
    using assms(2) by (auto simp: string_literal_body_def quoted_def strip_quotes_def strip_prefix_def
        strip_suffix_def esc_bind_def esc_or_def string_quote_def butlast_append)
  moreover have "\<not> string_literal_embeds_nul (quoted q bs v)"
    using assms(3) string_quoteD[OF assms(2)] by (auto simp: string_literal_embeds_nul_def quoted_def)
  moreover have "last (quoted q bs v) = q" "quoted q bs v \<noteq> []" by (simp_all add: quoted_def)
  ultimately show ?thesis using materialize_quote_bytes[OF assms(1,2)] by (simp add: materialize_string_def esc_bind_def)
qed

subsection \<open>Adjacent constants\<close>

lemma segment_end_quoted:
  assumes "q \<noteq> backslash_byte" "get_at r 0 \<noteq> Some q"
  shows "segment_end_from (pre @ quote_bytes q bs v @ q # r) q bs (length pre)
     = Some (length pre + length (quote_bytes q bs v) + 1)"
proof (induction v arbitrary: pre)
  case Nil
  have "get_at (pre @ q # r) (length pre + 1) \<noteq> Some q"
    using assms(2) get_at_after[of pre q r] by (simp del: get_at_Some)
  with assms(1) show ?case by (subst segment_end_from.simps) (auto simp: nth_append simp del: get_at_Some)
next
  case (Cons b v)
  have two: "get_at (pre @ b # c # t) (length pre + 1) = Some c" for c t
    using get_at_append[of pre "b # c # t" 1] by (simp add: get_at_def)
  from Cons[of "pre @ [b, b]"] Cons[of "pre @ [b]"] two[of q] assms(1) show ?case
    by (subst segment_end_from.simps) (auto simp: nth_append simp del: get_at_Some)
qed

lemma first_segment_end_quoted:
  assumes "string_quote q" "get_at r 0 \<noteq> Some q"
  shows "first_segment_end (quoted q bs v @ r) bs = Some (length (quoted q bs v))"
proof -
  have "segment_open (quoted q bs v @ r) = Some (0, False)"
    using assms(1) unfolding string_quote_def
    by (elim disjE) (simp_all add: segment_open_def quoted_def Let_def get_at_head del: get_at_Some)
  moreover have "segment_end_from (quoted q bs v @ r) q bs (Suc 0) = Some (length (quoted q bs v))"
    using segment_end_quoted[OF _ assms(2), of "[q]" bs v] string_quoteD[OF assms(1)] by (simp add: quoted_def)
  ultimately show ?thesis by (simp add: first_segment_end_def) (simp add: quoted_def)
qed

lemma whitespace_scalar: "is_whitespace c \<Longrightarrow> scalar c"
  by (auto simp: is_whitespace_def scalar_def)

lemma trim_gap: "list_all is_whitespace g \<Longrightarrow> trim_start (encode g @ s) = trim_start s"
proof (induction g)
  case (Cons c g)
  then show ?case
    by (subst trim_start.simps)
       (simp add: next_char_encode[OF scalar_bound[OF whitespace_scalar]] length_encode_utf8)
qed simp

lemma next_char_quote:
  assumes "string_quote q"
  shows "next_char (q # s) = Some (byte_val q)" "\<not> is_whitespace (byte_val q)"
  using assms by (auto simp: string_quote_def is_whitespace_def)

lemma trim_quote: "string_quote q \<Longrightarrow> trim_start (q # s) = q # s"
  by (subst trim_start.simps) (simp only: next_char_quote option.case if_False)

definition adjacent_ok :: "nat list \<times> byte \<times> source \<Rightarrow> bool" where
  "adjacent_ok = (\<lambda>(gap, q, v). gap \<noteq> [] \<and> list_all is_whitespace gap \<and> string_quote q
     \<and> valid_utf8 v \<and> CHR 0x00 \<notin> set v)"

definition adjacent :: "bool \<Rightarrow> (nat list \<times> byte \<times> source) list \<Rightarrow> source" where
  "adjacent bs cs = concat (map (\<lambda>(gap, q, v). encode gap @ quoted q bs v) cs)"

lemma adjacent_simps [simp]:
  "adjacent bs [] = []" "adjacent bs ((gap, q, v) # cs) = encode gap @ quoted q bs v @ adjacent bs cs"
  by (simp_all add: adjacent_def)

lemma valid_adjacent: "list_all adjacent_ok cs \<Longrightarrow> valid_utf8 (adjacent bs cs)"
proof (induction cs)
  case (Cons c cs)
  obtain gap q v where c: "c = (gap, q, v)" by (cases c)
  have "list_all scalar gap"
    using Cons.prems c whitespace_scalar by (auto simp: adjacent_ok_def list_all_iff)
  then have "valid_utf8 (encode gap)" using valid_utf8_encodes by blast
  with Cons c show ?case by (auto simp: adjacent_ok_def intro!: valid_append valid_quoted)
qed simp

lemma adjacent_start:
  assumes "list_all adjacent_ok cs" "string_quote q"
  shows "get_at (adjacent bs cs) 0 \<noteq> Some q"
proof (cases cs)
  case (Cons c ds)
  obtain gap q' v where c: "c = (gap, q', v)" by (cases c)
  with assms(1) Cons obtain w g where w: "gap = w # g" "is_whitespace w"
    by (cases gap) (auto simp: adjacent_ok_def)
  show ?thesis
  proof
    assume "get_at (adjacent bs cs) 0 = Some q"
    then obtain t where "adjacent bs cs = q # t" by (cases "adjacent bs cs") auto
    then have "next_char (adjacent bs cs) = Some (byte_val q)" using next_char_quote[OF assms(2)] by simp
    moreover have "next_char (adjacent bs cs) = Some w"
      using Cons c w next_char_encode[OF scalar_bound[OF whitespace_scalar[OF w(2)]]] by simp
    ultimately show False using w(2) next_char_quote[OF assms(2)] by auto
  qed
qed (simp add: get_at_def)

lemma trim_adjacent:
  "adjacent_ok (gap, q, v) \<Longrightarrow> trim_start (adjacent bs ((gap, q, v) # cs)) = quoted q bs v @ adjacent bs cs"
  by (auto simp: adjacent_ok_def trim_gap quoted_def trim_quote)

lemma join_adjacent:
  assumes "adjacent_ok (gap, q, v)" "list_all adjacent_ok cs"
  shows "join_segments bs (quoted q bs v @ adjacent bs cs) out = Inr (out @ v @ concat (map (\<lambda>(gap, q, v). v) cs))"
  using assms
proof (induction cs arbitrary: gap q v out)
  case Nil
  let ?s = "quoted q bs v @ adjacent bs []"
  from Nil have v: "valid_utf8 ?s" "string_quote q" by (auto simp: adjacent_ok_def valid_quoted)
  have f: "first_segment_end ?s bs = Some (length (quoted q bs v))"
    using first_segment_end_quoted[OF v(2), of "[]"] by (simp add: get_at_def)
  have s: "esc_slice ?s 0 (length (quoted q bs v)) = Inr (quoted q bs v)" "esc_slice ?s (length (quoted q bs v)) (length ?s) = Inr []"
    by (simp_all add: esc_slice_def str_slice_def subslice_def is_char_boundary_def)
  have t: "trim_start [] = []" by (subst trim_start.simps) simp
  from Nil materialize_quoted[of v q bs] f s t show ?case
    by (subst join_segments.simps) (simp add: adjacent_ok_def esc_bind_def)
next
  case (Cons c cs)
  obtain gap' q' v' where c: "c = (gap', q', v')" by (cases c)
  let ?s = "quoted q bs v @ adjacent bs (c # cs)" and ?n = "length (quoted q bs v)"
  from Cons.prems have q: "string_quote q" "valid_utf8 v" "CHR 0x00 \<notin> set v" by (auto simp: adjacent_ok_def)
  have valid: "valid_utf8 ?s" using valid_append[OF valid_quoted[OF q(2,1)] valid_adjacent[OF Cons.prems(2)]] .
  have f: "first_segment_end ?s bs = Some ?n"
    by (rule first_segment_end_quoted[OF q(1) adjacent_start[OF Cons.prems(2) q(1)]])
  note b = first_segment_end_boundary[OF valid f]
  have s: "esc_slice ?s 0 ?n = Inr (quoted q bs v)" "esc_slice ?s ?n (length ?s) = Inr (adjacent bs (c # cs))"
    using esc_slice_ok(1)[OF valid boundary_ends(1) b(1) _ b(3)] esc_slice_ok(1)[OF valid b(1) boundary_ends(2) b(3) order.refl]
    by (simp_all add: subslice_def)
  have t: "trim_start (adjacent bs (c # cs)) = quoted q' bs v' @ adjacent bs cs"
    using trim_adjacent Cons.prems(2) c by simp
  have ne: "quoted q' bs v' @ adjacent bs cs \<noteq> []" by (simp add: quoted_def)
  have ih: "join_segments bs (quoted q' bs v' @ adjacent bs cs) (out @ v)
      = Inr ((out @ v) @ v' @ concat (map (\<lambda>(gap, q, v). v) cs))"
    by (rule Cons.IH) (use Cons.prems(2) c in auto)
  show ?case
    by (subst join_segments.simps)
       (simp only: f s esc_bind_def option.case sum.case materialize_quoted[OF q(2,1,3)] t ne if_False ih; simp add: c)
qed

text \<open>
  C10. Adjacent string constants read back as one value: any non-empty sequence of texts, each
  quoted with either delimiter (the delimiter doubled, and the backslash where the dialect gives it
  a meaning) and separated by any white space, reads as the concatenation of the texts.
\<close>

theorem adjacent_strings_roundtrip:
  assumes "adjacent_ok (gap, q, v)" "list_all adjacent_ok more_constants"
  shows "materialize_concatenated_string (quoted q bs v @ adjacent bs more_constants) bs
     = Inr (v @ concat (map (\<lambda>(gap, q, v). v) more_constants))"
proof -
  let ?s = "quoted q bs v @ adjacent bs more_constants" and ?n = "length (quoted q bs v)"
  from assms(1) have q: "string_quote q" "valid_utf8 v" "CHR 0x00 \<notin> set v" by (auto simp: adjacent_ok_def)
  have valid: "valid_utf8 ?s" using valid_append[OF valid_quoted[OF q(2,1)] valid_adjacent[OF assms(2)]] .
  have f: "first_segment_end ?s bs = Some ?n"
    by (rule first_segment_end_quoted[OF q(1) adjacent_start[OF assms(2) q(1)]])
  note b = first_segment_end_boundary[OF valid f]
  have s: "esc_slice ?s ?n (length ?s) = Inr (adjacent bs more_constants)"
    using esc_slice_ok(1)[OF valid b(1) boundary_ends(2) b(3) order.refl] by (simp add: subslice_def)
  show ?thesis
  proof (cases more_constants)
    case Nil
    have "trim_start [] = []" by (subst trim_start.simps) simp
    with Nil f s materialize_quoted[OF q(2,1,3)] show ?thesis
      by (simp add: materialize_concatenated_string_def esc_bind_def)
  next
    case (Cons c cs)
    obtain gap' q' v' where c: "c = (gap', q', v')" by (cases c)
    have t: "trim_start (adjacent bs more_constants) = quoted q' bs v' @ adjacent bs cs"
      using trim_adjacent assms(2) Cons c by simp
    have h: "quoted q' bs v' @ adjacent bs cs \<noteq> []" "hd (quoted q' bs v' @ adjacent bs cs) = q'" "string_quote q'"
      using assms(2) Cons c by (simp_all add: quoted_def adjacent_ok_def)
    show ?thesis
      using h join_adjacent[OF assms, of bs "[]"]
      by (auto simp: materialize_concatenated_string_def f s[simplified] esc_bind_def t Let_def string_quote_def)
  qed
qed

text \<open>\<open>'it''s' "a\\b"\<close> under MySQL escapes.\<close>

theorem adjacent_strings_roundtrip_witness:
  "materialize_concatenated_string
     (single_quote # ''it'' @ [single_quote, single_quote] @ ''s'' @ [single_quote, CHR 0x20]
       @ double_quote # ''a'' @ [backslash_byte, backslash_byte] @ ''b'' @ [double_quote]) True
   = Inr (''it'' @ single_quote # ''sa'' @ backslash_byte # ''b'')"
proof -
  have a: "adjacent_ok ([32], single_quote, ''it'' @ single_quote # ''s'')"
      "list_all adjacent_ok [([32], double_quote, ''a'' @ backslash_byte # ''b'')]"
    by (simp_all add: adjacent_ok_def is_whitespace_def string_quote_def)
  have "encode_utf8 32 = [CHR 0x20]" by code_simp
  with adjacent_strings_roundtrip[OF a, of True] show ?thesis by (simp add: quoted_def)
qed

subsection \<open>Integers\<close>

text \<open>Digit groups joined by separators.\<close>

fun grouped :: "source list \<Rightarrow> source" where
  "grouped [] = []"
| "grouped [g] = g"
| "grouped (g # g' # gs) = g @ CHR ''_'' # grouped (g' # gs)"

definition groups_ok :: "nat \<Rightarrow> source list \<Rightarrow> bool" where
  "groups_ok base gs \<longleftrightarrow> gs \<noteq> [] \<and> list_all (\<lambda>g. g \<noteq> [] \<and> list_all (\<lambda>b. is_radix_digit b base) g) gs"

definition number_value :: "nat \<Rightarrow> source \<Rightarrow> nat" where
  "number_value base ds = foldl (\<lambda>n b. n * base + the (hex_value b)) 0 ds"

definition radix_base :: "nat \<Rightarrow> bool" where
  "radix_base base \<longleftrightarrow> base = 2 \<or> base = 8 \<or> base = 10 \<or> base = 16"

fun prefix_text :: "nat \<Rightarrow> bool \<Rightarrow> source" where
  "prefix_text base upper =
     (if base = 16 then [CHR ''0'', if upper then CHR ''X'' else CHR ''x'']
      else if base = 8 then [CHR ''0'', if upper then CHR ''O'' else CHR ''o'']
      else if base = 2 then [CHR ''0'', if upper then CHR ''B'' else CHR ''b'']
      else [])"

definition sign_ok :: "source \<Rightarrow> bool" where
  "sign_ok s \<longleftrightarrow> s = [] \<or> s = ''+'' \<or> s = ''-''"

lemma radix_digit_value:
  assumes "is_radix_digit b base" "radix_base base"
  shows "\<exists>d. hex_value b = Some d \<and> d < base" "b \<noteq> CHR ''_''" "b \<noteq> CHR ''+''" "b \<noteq> CHR ''-''"
  using assms
  by (auto simp: is_radix_digit_def radix_base_def hex_value_def is_ascii_hexdigit_def is_ascii_digit_def split: if_splits)

lemma not_radix_digit:
  assumes "radix_base base"
  shows "\<not> is_radix_digit (CHR ''_'') base" "\<not> is_radix_digit (CHR ''+'') base" "\<not> is_radix_digit (CHR ''-'') base"
  using radix_digit_value(2-4)[OF _ assms] by blast+

lemma groups_okD:
  assumes "groups_ok base gs" "radix_base base"
  shows "grouped gs \<noteq> [] \<and> is_radix_digit (hd (grouped gs)) base \<and> concat gs \<noteq> []
    \<and> list_all (\<lambda>b. is_radix_digit b base) (concat gs) \<and> CHR ''_'' \<notin> set (concat gs)
    \<and> hd (grouped gs) = hd (concat gs)"
proof -
  have "gs \<noteq> []" "\<forall>g \<in> set gs. g \<noteq> [] \<and> (\<forall>b \<in> set g. is_radix_digit b base)"
    using assms(1) by (auto simp: groups_ok_def list_all_iff)
  with not_radix_digit(1)[OF assms(2)] show ?thesis
    by (cases gs rule: grouped.cases) (auto simp: list_all_iff)
qed

lemma separators_between_digits:
  "groups_ok base gs \<Longrightarrow> radix_base base \<Longrightarrow> grouped gs = xs @ CHR ''_'' # ys
     \<Longrightarrow> xs \<noteq> [] \<and> is_radix_digit (last xs) base \<and> ys \<noteq> [] \<and> is_radix_digit (hd ys) base"
proof (induction gs arbitrary: xs rule: grouped.induct)
  case (2 g)
  then have "is_radix_digit (CHR ''_'') base" by (auto simp: groups_ok_def)
  with radix_digit_value(2) 2 show ?case by blast
next
  case (3 g g' gs)
  have g: "g \<noteq> []" "\<forall>b \<in> set g. is_radix_digit b base" "groups_ok base (g' # gs)"
    using 3(2) by (auto simp: groups_ok_def list_all_iff)
  let ?r = "grouped (g' # gs)"
  have here: ?case if "xs = g" "?r = ys" using that g groups_okD[OF g(3) 3(3)] by auto
  from 3(4) obtain us where "g = xs @ us \<and> us @ CHR ''_'' # ?r = CHR ''_'' # ys \<or> g @ us = xs \<and> CHR ''_'' # ?r = us @ CHR ''_'' # ys"
    by (auto simp: append_eq_append_conv2)
  then show ?case
  proof
    assume u: "g = xs @ us \<and> us @ CHR ''_'' # ?r = CHR ''_'' # ys"
    show ?thesis
    proof (cases us)
      case (Cons c us')
      with u have "CHR ''_'' \<in> set g" by auto
      with g(2) not_radix_digit(1)[OF 3(3)] show ?thesis by blast
    qed (use u here in simp)
  next
    assume u: "g @ us = xs \<and> CHR ''_'' # ?r = us @ CHR ''_'' # ys"
    show ?thesis
    proof (cases us)
      case (Cons c us')
      with u have "?r = us' @ CHR ''_'' # ys" by simp
      from 3(1)[OF g(3) 3(3) this] u Cons show ?thesis by auto
    qed (use u here in simp)
  qed
qed (simp add: groups_ok_def)

lemma strip_grouped:
  assumes "groups_ok base gs" "radix_base base"
  shows "strip_digit_separators (grouped gs) base
     = Some (if length gs = 1 then Borrowed (concat gs) else Owned (concat gs))"
proof -
  note d = groups_okD[OF assms]
  have filter: "filter (\<lambda>b. b \<noteq> CHR ''_'') (grouped gs) = concat gs"
  proof -
    have "filter (\<lambda>b. b \<noteq> CHR ''_'') (grouped gs) = filter (\<lambda>b. b \<noteq> CHR ''_'') (concat gs)"
      by (induction gs rule: grouped.induct) simp_all
    with d show ?thesis by (simp add: filter_id_conv) metis
  qed
  show ?thesis
  proof (cases "length gs = 1")
    case True
    then obtain g where "gs = [g]" by (auto simp: length_Suc_conv)
    with d show ?thesis by (simp add: strip_digit_separators_def)
  next
    case False
    with assms(1) obtain g g' gs' where gs: "gs = g # g' # gs'"
      by (cases gs rule: grouped.cases) (auto simp: groups_ok_def)
    have ok: "separator_ok (grouped gs) base i" if i: "i < length (grouped gs)" "grouped gs ! i = CHR ''_''" for i
    proof -
      have "grouped gs = take i (grouped gs) @ CHR ''_'' # drop (Suc i) (grouped gs)"
        using id_take_nth_drop[OF i(1)] i(2) by simp
      from separators_between_digits[OF assms this] i
      show ?thesis
        by (auto simp: separator_ok_def last_conv_nth hd_drop_conv_nth get_at_def)
    qed
    have "CHR ''_'' \<in> set (grouped gs)" using gs by simp
    with ok filter False show ?thesis by (auto simp: strip_digit_separators_def list_all_iff)
  qed
qed

lemma digits_value_digits:
  assumes "radix_base base" "list_all (\<lambda>b. is_radix_digit b base) ds"
  shows "digits_value base acc ds = Some (foldl (\<lambda>n b. n * base + the (hex_value b)) acc ds)"
  using assms(2)
proof (induction ds arbitrary: acc)
  case (Cons b ds)
  obtain d where "hex_value b = Some d" "d < base" using radix_digit_value(1)[OF _ assms(1)] Cons.prems by auto
  with Cons show ?case by simp
qed simp

lemma split_sign_sign: "sign_ok s \<Longrightarrow> ds \<noteq> [] \<Longrightarrow> hd ds \<noteq> CHR ''+'' \<Longrightarrow> hd ds \<noteq> CHR ''-'' \<Longrightarrow> split_sign (s @ ds) = (s, ds)"
  by (cases ds) (auto simp: sign_ok_def split_sign_def)

lemma from_str_radix_digits:
  assumes "radix_base base" "list_all (\<lambda>b. is_radix_digit b base) ds" "ds \<noteq> []" "sign_ok s"
  shows "from_str_radix lo hi base (s @ ds)
     = (let v = (if s = ''-'' then - int (number_value base ds) else int (number_value base ds))
        in if lo \<le> v \<and> v \<le> hi then Some v else None)"
proof -
  have "is_radix_digit (hd ds) base" using assms(2,3) by (cases ds) auto
  with radix_digit_value[OF _ assms(1)] split_sign_sign[OF assms(4,3)] have "split_sign (s @ ds) = (s, ds)" by blast
  with digits_value_digits[OF assms(1,2)] assms(3) show ?thesis
    by (simp add: from_str_radix_def number_value_def Let_def)
qed

lemma split_prefix:
  assumes "groups_ok base gs" "radix_base base"
  shows "split_radix_prefix (prefix_text base upper @ grouped gs) = (base, grouped gs)"
proof (cases "base = 10")
  case True
  have sub: "b \<in> set (grouped gs) \<Longrightarrow> b = CHR ''_'' \<or> is_ascii_digit b" for b
    using assms(1) True
    by (induction gs rule: grouped.induct) (auto simp: groups_ok_def list_all_iff is_radix_digit_def)
  show ?thesis
  proof (cases "grouped gs")
    case (Cons a t)
    show ?thesis
    proof (cases t)
      case (Cons b t')
      then have "b = CHR ''_'' \<or> is_ascii_digit b" using sub[of b] \<open>grouped gs = a # t\<close> by simp
      then have "b \<notin> {CHR ''x'', CHR ''X'', CHR ''o'', CHR ''O'', CHR ''b'', CHR ''B''}"
        by (auto simp: is_ascii_digit_def)
      with \<open>grouped gs = a # t\<close> Cons True show ?thesis by (simp add: split_radix_prefix_def)
    qed (use \<open>grouped gs = a # t\<close> True in \<open>simp add: split_radix_prefix_def\<close>)
  qed (use True in \<open>simp add: split_radix_prefix_def\<close>)
next
  case False
  with assms(2) show ?thesis by (auto simp: radix_base_def split_radix_prefix_def)
qed

text \<open>
  C11. Integers are exact. An optional sign, an optional radix prefix and digit groups separated by
  single underscores read as the number they write whenever it fits: base ten is accepted on the
  whole range of \<open>i64\<close>, a prefixed number exactly when its magnitude fits, and anything larger is an
  error, never a wrapped value.
\<close>

theorem integer_literal_exact:
  assumes "radix_base base" "groups_ok base gs" "sign_ok sign"
  shows "materialize_i64 (sign @ prefix_text base upper @ grouped gs)
     = (let n = int (number_value base (concat gs)); v = (if sign = ''-'' then - n else n)
        in if (if base = 10 then i64_min \<le> v \<and> v \<le> i64_max else n \<le> i64_max) then Inr v else Inl EscErr)"
proof -
  note d = groups_okD[OF assms(2,1)]
  have h: "split_sign (sign @ prefix_text base upper @ grouped gs) = (sign, prefix_text base upper @ grouped gs)"
    by (rule split_sign_sign[OF assms(3)]) (use d not_radix_digit[OF assms(1)] in auto)
  note p = split_prefix[OF assms(2,1), of upper] and s = strip_grouped[OF assms(2,1)]
  note f = from_str_radix_digits[OF assms(1) _ _ assms(3), of "concat gs" i64_min i64_max]
  note f0 = from_str_radix_digits[OF assms(1), of "concat gs" "[]" i64_min i64_max]
  have body: "prefix_text base upper @ grouped gs = concat gs" if "base = 10" "length gs = 1"
    using that by (auto simp: length_Suc_conv)
  show ?thesis
  proof (cases "base = 10")
    case True
    have "materialize_i64 (sign @ prefix_text base upper @ grouped gs)
        = (case from_str_radix i64_min i64_max base (sign @ concat gs) of None \<Rightarrow> Inl EscErr | Some v \<Rightarrow> Inr v)"
      unfolding materialize_i64_def h prod.case p s option.case Let_def using body True by auto
    then show ?thesis using f d True by (auto simp: Let_def)
  next
    case False
    have "materialize_i64 (sign @ prefix_text base upper @ grouped gs)
        = (case from_str_radix i64_min i64_max base (concat gs) of None \<Rightarrow> Inl EscErr
           | Some v \<Rightarrow> if sign = ''-'' then (if v = i64_min then Inl EscErr else Inr (- v)) else Inr v)"
      unfolding materialize_i64_def h prod.case p s option.case Let_def using False by simp
    moreover have "i64_min \<le> int n" "int n \<noteq> i64_min" for n by (auto simp: i64_min_def)
    ultimately show ?thesis using f0 d False by (simp add: Let_def sign_ok_def)
  qed
qed

text \<open>\<open>-0x8000000000000000\<close> is the least \<open>i64\<close>, and is refused.\<close>

theorem integer_literal_exact_witness:
  "materialize_i64 ''-0x8000000000000000'' = Inl EscErr \<and> materialize_i64 ''-9223372036854775808'' = Inr i64_min"
proof -
  have s: "sign_ok ''-''" by (simp add: sign_ok_def)
  have r: "radix_base 16" "groups_ok 16 [''8000000000000000'']"
    by (simp_all add: radix_base_def groups_ok_def is_radix_digit_def is_ascii_hexdigit_def is_ascii_digit_def)
  have t: "radix_base 10" "groups_ok 10 [''9223372036854775808'']"
    by (simp_all add: radix_base_def groups_ok_def is_radix_digit_def is_ascii_digit_def)
  show ?thesis
    using integer_literal_exact[OF r s, of False] integer_literal_exact[OF t s, of False]
    by (simp add: number_value_def hex_value_def i64_min_def i64_max_def Let_def)
qed

end
