(* ===== verification/Parse_Loops.thy ===== *)
theory Parse_Loops
  imports Engine_Laws
begin

text \<open>
  Loops of grammar methods. A loop body either asks for another round or yields the loop's value;
  a bound on the rounds, one more than the bytes of the source, stands for the termination of the
  Rust loop, and running into it counts as a panic. A body that consumes a token in every round
  it repeats never runs into the bound, since a source has no more tokens than bytes.
\<close>

subsection \<open>The loop\<close>

fun ploop_n :: "nat \<Rightarrow> ('s \<Rightarrow> ('s + 'a) parse) \<Rightarrow> 's \<Rightarrow> 'a parse" where
  "ploop_n 0 body s = pfail Parse_Panic"
| "ploop_n (Suc n) body s = pbind (body s) (\<lambda>r. case r of Inl s' \<Rightarrow> ploop_n n body s' | Inr x \<Rightarrow> preturn x)"

definition source_len :: "nat parse" where
  "source_len = pget (\<lambda>p. length (pa_source p))"

definition ploop :: "('s \<Rightarrow> ('s + 'a) parse) \<Rightarrow> 's \<Rightarrow> 'a parse" where
  "ploop body s = pbind source_len (\<lambda>n. ploop_n (Suc n) body s)"

abbreviation again :: "'s \<Rightarrow> ('s + 'a) parse" where
  "again s \<equiv> preturn (Inl s)"

abbreviation leave :: "'a \<Rightarrow> ('s + 'a) parse" where
  "leave x \<equiv> preturn (Inr x)"

text \<open>The panic of an \<open>Option\<close> the code unwraps.\<close>

definition or_panic :: "'a option \<Rightarrow> 'a parse" where
  "or_panic v = (case v of None \<Rightarrow> pfail Parse_Panic | Some x \<Rightarrow> preturn x)"

subsection \<open>Laws\<close>

lemma agnostic_source_len [agnostic_rules]: "agnostic source_len"
  unfolding source_len_def by (rule agnostic_get) (drule strip_fields(2), simp)

lemma agnostic_or_panic [agnostic_rules]: "agnostic (or_panic v)"
  unfolding or_panic_def by (intro agnostic_rules)

lemma agnostic_ploop_n: "(\<And>s. agnostic (body s)) \<Longrightarrow> agnostic (ploop_n n body s)"
  by (induction n arbitrary: s) (auto intro!: agnostic_rules)

lemma agnostic_ploop [agnostic_rules]: "(\<And>s. agnostic (body s)) \<Longrightarrow> agnostic (ploop body s)"
  unfolding ploop_def by (intro agnostic_rules agnostic_ploop_n)

lemma run_source_len [run_rules]:
  "run_on source_len (ahead, prev, st) = (Inr (length (pa_source st)), ahead, prev, strip st)"
  by (simp add: source_len_def run_pure pget_def strip_strip_seated)

lemma run_or_panic [run_rules]:
  "run_on (or_panic v) (ahead, prev, st)
     = ((case v of None \<Rightarrow> Inl Parse_Panic | Some x \<Rightarrow> Inr x), ahead, prev, strip st)"
  by (cases v) (simp_all add: or_panic_def run_rules)

lemma strip_keeps [simp]:
  "pa_source (strip p) = pa_source p" "pa_features (strip p) = pa_features p" "pa_unicode (strip p) = pa_unicode p"
  "pa_interner (strip p) = pa_interner p" "pa_next_node_id (strip p) = pa_next_node_id p"
  "pa_errors (strip p) = pa_errors p" "pa_parse_float_as_decimal (strip p) = pa_parse_float_as_decimal p"
  by (simp_all add: strip_def)

definition seat_ahead :: "seat \<Rightarrow> token list" where
  "seat_ahead s = fst s"

definition seat_state :: "seat \<Rightarrow> parser" where
  "seat_state s = snd (snd s)"

lemma seat_simps [simp]: "seat_ahead (ahead, prev, st) = ahead" "seat_state (ahead, prev, st) = st"
  by (simp_all add: seat_ahead_def seat_state_def)

end
