(* ===== verification/Parse_Contracts.thy ===== *)
theory Parse_Contracts
  imports Parse_Loops Literal_Totality "HOL-Library.Sublist"
begin

text \<open>
  Contracts of grammar methods. A seat is well placed when the tokens it holds lie in the source,
  in order, cut on characters and shaped as their kinds promise. The judgement \<open>yields\<close> says of a
  method run from a well-placed seat, whether the tokens ahead are followed by the end of the source
  or by a lexical error, that it only moves forward, keeps the source and the features,
  panics only when node ids or symbols are used up, and returns a value that has, together with the
  tokens then ahead, a given property.
\<close>

subsection \<open>Well-placed seats\<close>

definition span_ok :: "source \<Rightarrow> span \<Rightarrow> bool" where
  "span_ok src sp \<longleftrightarrow> str_slice src (span_start sp) (span_end sp) \<noteq> None \<and> \<not> is_synthetic sp"

definition lexeme_of :: "source \<Rightarrow> token \<Rightarrow> source" where
  "lexeme_of src t = subslice src (span_start (token_span t)) (span_end (token_span t))"

definition delimited :: "source \<Rightarrow> bool" where
  "delimited raw \<longleftrightarrow> 2 \<le> length raw \<and> ascii_byte (hd raw) \<and> ascii_byte (last raw)"

text \<open>What the scanner promises of the lexemes the grammar takes apart.\<close>

definition lexeme_shaped :: "source \<Rightarrow> token \<Rightarrow> bool" where
  "lexeme_shaped src t \<longleftrightarrow> (let raw = lexeme_of src t in case token_kind t of
      Tk_QuotedIdent \<Rightarrow> is_unicode_ident raw
        \<or> (raw \<noteq> [] \<and> (hd raw = CHR 0x22 \<or> hd raw = CHR 0x60 \<or> hd raw = CHR ''['') \<and> delimited raw)
    | Tk_String \<Rightarrow> raw \<noteq> [] \<and> (hd raw = CHR 0x22 \<or> hd raw = CHR 0x27 \<longrightarrow> delimited raw)
    | _ \<Rightarrow> True)"

definition in_place :: "source \<Rightarrow> token list \<Rightarrow> bool" where
  "in_place src ts \<longleftrightarrow> list_all (\<lambda>t. token_ok src t \<and> lexeme_shaped src t) ts
     \<and> sorted_wrt (\<lambda>s t. span_end (token_span s) \<le> span_start (token_span t)) ts"

definition seat_prev :: "seat \<Rightarrow> token option" where
  "seat_prev s = fst (snd s)"

lemma seat_prev_simps [simp]: "seat_prev (ahead, prev, st) = prev"
  by (simp add: seat_prev_def)

definition well_placed :: "source \<Rightarrow> feature_set \<Rightarrow> seat \<Rightarrow> bool" where
  "well_placed src f s \<longleftrightarrow> valid_utf8 src \<and> length src \<le> u32_max
     \<and> pa_source (seat_state s) = src \<and> pa_features (seat_state s) = f
     \<and> 0 < pa_next_node_id (seat_state s)
     \<and> in_place src (seat_tokens s)"

definition later :: "seat \<Rightarrow> seat \<Rightarrow> bool" where
  "later s s' \<longleftrightarrow> (\<exists>eaten. seat_ahead s = eaten @ seat_ahead s'
       \<and> seat_prev s' = (if eaten = [] then seat_prev s else Some (last eaten)))
     \<and> pa_source (seat_state s') = pa_source (seat_state s)
     \<and> pa_features (seat_state s') = pa_features (seat_state s)
     \<and> pa_next_node_id (seat_state s) \<le> pa_next_node_id (seat_state s')"

text \<open>The node ids or the symbols are used up.\<close>

definition exhausted :: "parser \<Rightarrow> bool" where
  "exhausted p \<longleftrightarrow> u32_max \<le> pa_next_node_id p
     \<or> u32_max \<le> KEYWORD_COUNT + length (in_strings (pa_interner p))"

definition goes :: "seat \<Rightarrow> (token list \<Rightarrow> 'a \<Rightarrow> bool) \<Rightarrow> (parse_failure + 'a) \<times> seat \<Rightarrow> bool" where
  "goes s R out \<longleftrightarrow> later s (snd out) \<and> (case fst out of
      Inl e \<Rightarrow> e = Parse_Panic \<longrightarrow> exhausted (seat_state (snd out))
    | Inr x \<Rightarrow> R (seat_ahead (snd out)) x)"

definition yields :: "source \<Rightarrow> feature_set \<Rightarrow> token list \<Rightarrow> 'a parse \<Rightarrow> (token list \<Rightarrow> 'a \<Rightarrow> bool) \<Rightarrow> bool" where
  "yields src f ts m R \<longleftrightarrow> agnostic m
     \<and> (\<forall>us out p. p_view us out p \<longrightarrow> p_ahead us p = ts \<longrightarrow> well_placed src f (seat_of us p)
          \<longrightarrow> goes (seat_of us p) R (fst (m p), seat_of us (snd (m p))))"

subsection \<open>Moving forward\<close>

lemma later_refl: "later (ahead, prev, st) (ahead, prev, strip st)"
  by (simp add: later_def)

lemma later_trans:
  assumes "later s t" "later t u"
  shows "later s u"
proof -
  from assms obtain a b where "seat_ahead s = a @ seat_ahead t" "seat_ahead t = b @ seat_ahead u"
    "seat_prev t = (if a = [] then seat_prev s else Some (last a))"
    "seat_prev u = (if b = [] then seat_prev t else Some (last b))" by (auto simp: later_def)
  then have "seat_ahead s = (a @ b) @ seat_ahead u
      \<and> seat_prev u = (if a @ b = [] then seat_prev s else Some (last (a @ b)))" by simp
  with assms show ?thesis unfolding later_def by (intro conjI exI[of _ "a @ b"]) auto
qed

lemma later_suffix: "later s t \<Longrightarrow> suffix (seat_ahead t) (seat_ahead s)"
  by (auto simp: later_def suffix_def)

lemma seat_tokens_parts: "seat_tokens s = (case seat_prev s of None \<Rightarrow> [] | Some t \<Rightarrow> [t]) @ seat_ahead s"
  by (cases s) (simp add: seat_tokens_def)

lemma in_place_suffix: "in_place src (a @ b) \<Longrightarrow> in_place src b"
  by (simp add: in_place_def sorted_wrt_append)

lemma well_placed_later:
  assumes "well_placed src f s" "later s s'"
  shows "well_placed src f s'"
proof -
  from assms(2) obtain a where a: "seat_ahead s = a @ seat_ahead s'"
    "seat_prev s' = (if a = [] then seat_prev s else Some (last a))" by (auto simp: later_def)
  have "\<exists>x. seat_tokens s = x @ seat_tokens s'"
  proof (cases "a = []")
    case False
    then have "a = butlast a @ [last a]" by simp
    with a False have "seat_tokens s = ((case seat_prev s of None \<Rightarrow> [] | Some t \<Rightarrow> [t]) @ butlast a) @ seat_tokens s'"
      by (simp add: seat_tokens_parts)
    then show ?thesis by blast
  next
    case True
    with a have "seat_tokens s = [] @ seat_tokens s'" by (simp add: seat_tokens_parts)
    then show ?thesis by blast
  qed
  with assms in_place_suffix show ?thesis by (fastforce simp: well_placed_def later_def)
qed

text \<open>A source has at least as many bytes as tokens.\<close>

lemma in_place_room:
  "in_place src ts \<Longrightarrow> ts \<noteq> [] \<Longrightarrow> length ts \<le> span_end (token_span (last ts)) - span_start (token_span (hd ts))
     \<and> span_start (token_span (hd ts)) < span_end (token_span (last ts)) \<and> span_end (token_span (last ts)) \<le> length src"
proof (induction ts)
  case (Cons t ts)
  then have t: "span_start (token_span t) < span_end (token_span t)" "span_end (token_span t) \<le> length src"
    by (auto simp: in_place_def token_ok_def str_slice_def split: if_splits)
  show ?case
  proof (cases "ts = []")
    case False
    with Cons have "span_end (token_span t) \<le> span_start (token_span (hd ts))" by (auto simp: in_place_def)
    with Cons False t in_place_suffix[of src "[t]" ts] show ?thesis by auto
  qed (use t in auto)
qed simp

lemma tokens_fit: "well_placed src f s \<Longrightarrow> length (seat_ahead s) \<le> length src"
  using in_place_room[of src "seat_tokens s"] by (cases "seat_tokens s = []") (auto simp: well_placed_def seat_tokens_parts)

subsection \<open>Spans\<close>

lemma span_okI: "span_ok src sp \<longleftrightarrow> span_start sp \<le> span_end sp \<and> span_end sp \<le> length src
    \<and> is_char_boundary src (span_start sp) \<and> is_char_boundary src (span_end sp) \<and> \<not> is_synthetic sp"
  by (auto simp: span_ok_def str_slice_def)

lemma span_ok_union: "span_ok src a \<Longrightarrow> span_ok src b \<Longrightarrow> span_ok src (span_union a b)"
  by (auto simp: span_okI span_union_def is_synthetic_def)

lemma span_ok_token:
  assumes "token_ok src t"
  shows "span_ok src (token_span t)" "0 < span_end (token_span t)"
  using assms by (auto simp: token_ok_def span_ok_def is_synthetic_def)

subsection \<open>Rules\<close>

named_theorems yields_rules \<open>contracts of methods\<close>

lemma goes_simps [simp]:
  "goes s R (Inl e, s') \<longleftrightarrow> later s s' \<and> (e = Parse_Panic \<longrightarrow> exhausted (seat_state s'))"
  "goes s R (Inr x, s') \<longleftrightarrow> later s s' \<and> R (seat_ahead s') x"
  by (simp_all add: goes_def)

lemma goes_mono: "goes s R out \<Longrightarrow> (\<And>us x. R us x \<Longrightarrow> suffix us (seat_ahead s) \<Longrightarrow> Q us x) \<Longrightarrow> goes s Q out"
  by (cases "fst out") (auto simp: goes_def dest: later_suffix)

lemma seat_parts: "p_ahead us p = ts \<Longrightarrow> seat_of us p = (ts, p_behind us p, strip p)"
  by (simp add: seat_of_def)

lemma yieldsI:
  assumes "agnostic m"
    and "\<And>us out p. p_view us out p \<Longrightarrow> p_ahead us p = ts \<Longrightarrow> well_placed src f (ts, p_behind us p, strip p)
      \<Longrightarrow> goes (ts, p_behind us p, strip p) R (fst (m p), seat_of us (snd (m p)))"
  shows "yields src f ts m R"
  using assms unfolding yields_def by (simp add: seat_of_def)

lemma yields_agnostic: "yields src f ts m R \<Longrightarrow> agnostic m"
  by (simp add: yields_def)

lemma yields_at:
  "yields src f (p_ahead us p) m R \<Longrightarrow> p_view us out p \<Longrightarrow> well_placed src f (seat_of us p)
     \<Longrightarrow> goes (seat_of us p) R (fst (m p), seat_of us (snd (m p)))"
  by (simp add: yields_def)

lemma well_placed_strip: "well_placed src f (ts, prev, strip st) = well_placed src f (ts, prev, st)"
  by (simp add: well_placed_def seat_tokens_def)

lemma yields_seat:
  assumes "yields src f ts m R" "p_view us out p" "p_ahead us p = ts" "well_placed src f (ts, p_behind us p, strip p)"
  shows "goes (ts, p_behind us p, strip p) R (fst (m p), seat_of us (snd (m p)))"
  using yields_at[of src f us p m R out] assms unfolding seat_parts[OF assms(3)] by blast

lemma goes_strip: "goes (ts, prev, strip st) R out = goes (ts, prev, st) R out"
  by (simp add: goes_def later_def split: sum.split)

lemma yieldsD:
  assumes "yields src f (seat_ahead s) m R" "well_placed src f s"
  shows "goes s R (run_on m s)"
proof -
  obtain ts prev st where s: "s = (ts, prev, st)" by (cases s)
  have seat: "seat_of (seat_tokens s) (seated s) = (ts, prev, strip st)" unfolding s by (rule seat_of_seated)
  then have "p_ahead (seat_tokens s) (seated s) = seat_ahead s" by (simp add: seat_of_def s)
  then have a: "p_ahead (seat_tokens s) (seated s) = ts" by (simp add: s)
  have y: "yields src f ts m R" and w: "well_placed src f (ts, prev, strip st)"
    using assms by (simp_all add: s well_placed_strip)
  have "goes (ts, prev, strip st) R (fst (m (seated s)), seat_of (seat_tokens s) (snd (m (seated s))))"
    using yields_at[of src f "seat_tokens s" "seated s" m R None] y w p_view_seated[of s] unfolding seat a by blast
  then show ?thesis unfolding run_on_def s goes_strip .
qed

lemma yields_mono:
  assumes "yields src f ts m R" "\<And>us x. R us x \<Longrightarrow> suffix us ts \<Longrightarrow> Q us x"
  shows "yields src f ts m Q"
proof (rule yieldsI, rule yields_agnostic[OF assms(1)])
  fix us out p assume p: "p_view us out p" "p_ahead us p = ts" "well_placed src f (ts, p_behind us p, strip p)"
  show "goes (ts, p_behind us p, strip p) Q (fst (m p), seat_of us (snd (m p)))"
    by (rule goes_mono[OF yields_seat[OF assms(1) p]]) (simp add: assms(2))
qed

lemma agnostic_view: "agnostic m \<Longrightarrow> p_view us out p \<Longrightarrow> p_view us out (snd (m p))"
  unfolding agnostic_def by (drule spec[of _ us], drule spec[of _ us]) (auto simp: twins_def)

lemma yields_bind:
  assumes "yields src f ts m R" "\<And>x. agnostic (k x)"
    "\<And>us x. R us x \<Longrightarrow> suffix us ts \<Longrightarrow> yields src f us (k x) Q"
  shows "yields src f ts (pbind m k) Q"
proof (rule yieldsI)
  show "agnostic (pbind m k)" by (intro agnostic_bind yields_agnostic[OF assms(1)] assms(2))
  fix us out p
  assume p: "p_view us out p" "p_ahead us p = ts" "well_placed src f (ts, p_behind us p, strip p)"
  let ?s = "(ts, p_behind us p, strip p)"
  obtain r q where m: "m p = (r, q)" by (cases "m p")
  have g1: "goes ?s R (r, seat_of us q)"
    using yields_seat[OF assms(1) p] unfolding m by simp
  show "goes ?s Q (fst (pbind m k p), seat_of us (snd (pbind m k p)))"
  proof (cases r)
    case (Inl e)
    with m g1 show ?thesis by (simp add: pbind_def)
  next
    case (Inr x)
    with g1 have l: "later ?s (seat_of us q)" "R (p_ahead us q) x" by (simp_all add: seat_of_def)
    have v: "p_view us out q" using agnostic_view[OF yields_agnostic[OF assms(1)] p(1)] m by simp
    obtain r2 u where k: "k x q = (r2, u)" by (cases "k x q")
    have "suffix (p_ahead us q) ts" using later_suffix[OF l(1)] by (simp add: seat_of_def)
    from yields_at[OF assms(3)[OF l(2) this] v well_placed_later[OF p(3) l(1)]] k
    have "goes (seat_of us q) Q (r2, seat_of us u)" by simp
    with k m Inr later_trans[OF l(1), of "seat_of us u"] show ?thesis by (cases r2) (simp_all add: pbind_def)
  qed
qed

text \<open>Methods that leave the supply of tokens alone, and methods that only look at it.\<close>

definition deaf :: "'a parse \<Rightarrow> bool" where
  "deaf m \<longleftrightarrow>
     (\<forall>p. pa_cursor (snd (m p)) = pa_cursor p \<and> pa_peeked (snd (m p)) = pa_peeked p \<and> pa_unicode (snd (m p)) = pa_unicode p)
     \<and> (\<forall>p q. strip p = strip q \<longrightarrow> fst (m p) = fst (m q) \<and> strip (snd (m p)) = strip (snd (m q)))"

lemma deafI:
  assumes "\<And>p q. strip p = strip q \<Longrightarrow> fst (m p) = fst (m q) \<and> strip (snd (m p)) = strip (snd (m q))"
    "\<And>p. pa_cursor (snd (m p)) = pa_cursor p \<and> pa_peeked (snd (m p)) = pa_peeked p \<and> pa_unicode (snd (m p)) = pa_unicode p"
  shows "deaf m"
  unfolding deaf_def using assms by blast

lemma deafD:
  assumes "deaf m"
  shows "strip p = strip q \<Longrightarrow> fst (m p) = fst (m q) \<and> strip (snd (m p)) = strip (snd (m q))"
    "pa_cursor (snd (m p)) = pa_cursor p \<and> pa_peeked (snd (m p)) = pa_peeked p \<and> pa_unicode (snd (m p)) = pa_unicode p"
  using assms unfolding deaf_def by blast+

lemma yields_deaf:
  assumes "deaf m"
    and "\<And>prev st. well_placed src f (ts, prev, st) \<Longrightarrow> goes (ts, prev, st) R (run_on m (ts, prev, st))"
  shows "yields src f ts m R"
proof (rule yieldsI)
  show "agnostic m" by (rule agnostic_pure) (rule deafD[OF assms(1)], assumption, rule deafD[OF assms(1)])
  fix us out p
  assume p: "p_view us out p" "p_ahead us p = ts" "well_placed src f (ts, p_behind us p, strip p)"
  let ?s = "(ts, p_behind us p, strip p)"
  note still = deafD(2)[OF assms(1)]
  have "strip p = strip (seated ?s)" by (simp add: strip_strip_seated)
  then have same: "fst (m p) = fst (m (seated ?s))" "strip (snd (m p)) = strip (snd (m (seated ?s)))"
    using deafD(1)[OF assms(1)] by blast+
  have "seat_of us (snd (m p)) = (ts, p_behind us p, strip (snd (m p)))"
    unfolding seat_of_def same_seat[OF still] p(2) ..
  moreover have "run_on m ?s = (fst (m (seated ?s)), ts, p_behind us p, strip (snd (m (seated ?s))))"
    by (rule run_pure) (rule still[THEN conjunct1])
  ultimately show "goes ?s R (fst (m p), seat_of us (snd (m p)))"
    using assms(2)[OF p(3)] unfolding same by simp
qed

lemma yields_reads:
  assumes "reads m g"
    and "\<And>out prev st. well_placed src f (ts, prev, st) \<Longrightarrow> out \<noteq> Some Panic
      \<Longrightarrow> (case g ts out prev of Inl e \<Rightarrow> e \<noteq> Parse_Panic | Inr x \<Rightarrow> R ts x)"
  shows "yields src f ts m R"
proof (rule yieldsI, rule agnostic_reads[OF assms(1)])
  fix us out p
  assume p: "p_view us out p" "p_ahead us p = ts" "well_placed src f (ts, p_behind us p, strip p)"
  note r = assms(1)[unfolded reads_def, rule_format, OF p(1)]
  have s: "seat_of us (snd (m p)) = (ts, p_behind us p, strip p)"
    using r p(2) same_position[of "snd (m p)" p us] by (simp add: seat_of_def)
  have "out \<noteq> Some Panic" using p_view_pos[OF p(1)] by simp
  from assms(2)[OF p(3) this] r p(2) s
  show "goes (ts, p_behind us p, strip p) R (fst (m p), seat_of us (snd (m p)))"
    using later_refl[of ts "p_behind us p" "strip p"] by (simp add: goes_def split: sum.splits)
qed

lemma widen_ok: "out \<noteq> Some Panic \<Longrightarrow> out = Some e \<Longrightarrow> widen e \<noteq> Parse_Panic"
  by (cases e) auto

lemma deaf_rules:
  "deaf (preturn x)" "deaf (pfail e)" "deaf (span_text sp)" "deaf (run_intern h)" "deaf next_node_id" "deaf (report err)"
proof -
  show "deaf (preturn x)" "deaf (pfail e)" by (rule deafI; simp add: preturn_def pfail_def)+
  show "deaf (span_text sp)"
    by (rule deafI) (auto simp: span_text_def split: option.split dest: strip_fields(2))
  show "deaf (run_intern h)"
    by (rule deafI) (auto simp: run_intern_def strip_set split: option.split dest: strip_fields(3))
  show "deaf next_node_id"
    by (rule deafI) (auto simp: next_node_id_def strip_set split: option.split dest: strip_fields(6))
  show "deaf (report err)"
    by (rule deafI) (auto simp: report_def pupdate_def strip_set dest: strip_fields(4))
qed

lemma deaf_get:
  assumes "\<And>p q. strip p = strip q \<Longrightarrow> g p = g q"
  shows "deaf (pget g)"
proof (rule deafI)
  fix p q assume s: "strip p = strip q"
  with assms[OF s] show "fst (pget g p) = fst (pget g q) \<and> strip (snd (pget g p)) = strip (snd (pget g q))"
    by (simp only: pget_def fst_conv snd_conv simp_thms)
qed (simp add: pget_def)

lemma yields_return: "Q ts x \<Longrightarrow> yields src f ts (preturn x) Q"
  by (rule yields_deaf, rule deaf_rules) (simp add: run_rules later_refl)

lemma yields_fail: "yields src f ts (pfail (Err e)) Q"
  by (rule yields_deaf, rule deaf_rules) (simp add: run_rules later_refl)

lemma yields_if: "(c \<Longrightarrow> yields src f ts a Q) \<Longrightarrow> (\<not> c \<Longrightarrow> yields src f ts b Q) \<Longrightarrow> yields src f ts (if c then a else b) Q"
  by simp

lemma yields_option:
  "(v = None \<Longrightarrow> yields src f ts a Q) \<Longrightarrow> (\<And>x. v = Some x \<Longrightarrow> yields src f ts (b x) Q)
     \<Longrightarrow> yields src f ts (case v of None \<Rightarrow> a | Some x \<Rightarrow> b x) Q"
  by (cases v) simp_all

lemma yields_sum:
  "(\<And>x. v = Inl x \<Longrightarrow> yields src f ts (a x) Q) \<Longrightarrow> (\<And>x. v = Inr x \<Longrightarrow> yields src f ts (b x) Q)
     \<Longrightarrow> yields src f ts (case v of Inl x \<Rightarrow> a x | Inr x \<Rightarrow> b x) Q"
  by (cases v) simp_all

lemma yields_prod: "(\<And>x y. v = (x, y) \<Longrightarrow> yields src f ts (b x y) Q) \<Longrightarrow> yields src f ts (case v of (x, y) \<Rightarrow> b x y) Q"
  by (cases v) simp

lemma yields_let: "yields src f ts (k v) Q \<Longrightarrow> yields src f ts (let x = v in k x) Q"
  by simp

lemmas yields_steps = yields_return yields_fail yields_if yields_option yields_sum yields_prod yields_let

subsection \<open>The engine\<close>

text \<open>Tokens a seat holds are in place.\<close>

definition token_fits :: "source \<Rightarrow> token \<Rightarrow> bool" where
  "token_fits src t \<longleftrightarrow> token_ok src t \<and> lexeme_shaped src t"

lemma well_placed_tokens: "well_placed src f s \<Longrightarrow> t \<in> set (seat_tokens s) \<Longrightarrow> token_fits src t"
  by (auto simp: well_placed_def in_place_def token_fits_def list_all_iff)

lemma well_placed_order:
  "well_placed src f (t # ts, prev, st) \<Longrightarrow> u \<in> set ts \<Longrightarrow> span_end (token_span t) \<le> span_start (token_span u)"
  by (auto simp: well_placed_def in_place_def seat_tokens_def split: option.splits)

lemma token_fits_span: "token_fits src t \<Longrightarrow> span_ok src (token_span t)"
  by (simp add: token_fits_def span_ok_token)

text \<open>What a peek at the tokens ahead returns.\<close>

definition peeked :: "source \<Rightarrow> token list \<Rightarrow> nat \<Rightarrow> token list \<Rightarrow> token option \<Rightarrow> bool" where
  "peeked src ts n us t \<longleftrightarrow> us = ts \<and> t = get_at ts n \<and> (\<forall>tok. t = Some tok \<longrightarrow> token_fits src tok)"

lemma yields_peek [yields_rules]:
  "yields src f ts peek_token (peeked src ts 0)"
  "yields src f ts (peek_nth_token n) (peeked src ts n)"
proof -
  have p: "token_fits src tok" if "well_placed src f (ts, prev, st)" "get_at ts n = Some tok" for prev st tok n
    using that well_placed_tokens[OF that(1), of tok] by (auto simp: seat_tokens_def in_set_conv_nth)
  have q: "case map_sum widen id (ideal_peek ts out n) of Inl e \<Rightarrow> e \<noteq> Parse_Panic | Inr x \<Rightarrow> peeked src ts n ts x"
    if "well_placed src f (ts, prev, st)" "out \<noteq> Some Panic" for out prev st n
    using p[OF that(1), of n] widen_ok[OF that(2)]
    by (auto simp: ideal_peek_def peeked_def get_at_def split: option.split)
  show "yields src f ts peek_token (peeked src ts 0)" by (rule yields_reads[OF peek_reads]) (rule q)
  show "yields src f ts (peek_nth_token n) (peeked src ts n)" by (rule yields_reads[OF peek_nth_reads]) (rule q)
qed

lemma yields_eof [yields_rules]: "yields src f ts at_eof (\<lambda>us e. us = ts \<and> e = (ts = []))"
  by (rule yields_reads[OF at_eof_reads])
     (auto simp: ideal_peek_def widen_ok split: option.split)

definition advanced :: "source \<Rightarrow> token list \<Rightarrow> token list \<Rightarrow> token option \<Rightarrow> bool" where
  "advanced src ts us t \<longleftrightarrow> (case ts of
      [] \<Rightarrow> us = [] \<and> t = None
    | tok # rest_ts \<Rightarrow> us = rest_ts \<and> t = Some tok \<and> token_fits src tok
        \<and> (\<forall>u \<in> set us. span_end (token_span tok) \<le> span_start (token_span u)))"

lemma yields_advance [yields_rules]: "yields src f ts advance (advanced src ts)"
proof (rule yieldsI)
  fix us out p
  assume p: "p_view us out p" "p_ahead us p = ts" "well_placed src f (ts, p_behind us p, strip p)"
  have ok: "e \<noteq> Panic" if "out = Some e" for e using p_view_pos[OF p(1)] that by auto
  let ?q = "snd (advance p)"
  note a = advance_view[OF p(1), unfolded p(2)]
  show "goes (ts, p_behind us p, strip p) (advanced src ts) (fst (advance p), seat_of us ?q)"
  proof (cases ts)
    case (Cons t vs)
    with a have q: "fst (advance p) = Inr (Some t)" "seat_of us ?q = (vs, Some t, strip p)"
      by (simp_all add: seat_of_def ideal_peek_def)
    have "later (t # vs, p_behind us p, strip p) (vs, Some t, strip p)"
      unfolding later_def by (intro conjI exI[of _ "[t]"]) simp_all
    with Cons p(3) well_placed_tokens[OF p(3), of t] well_placed_order[of src f t vs] q show ?thesis
      by (auto simp: seat_tokens_def advanced_def)
  next
    case Nil
    with a have q: "seat_of us ?q = ([], p_behind us p, strip p)"
      "fst (advance p) = (case out of None \<Rightarrow> Inr None | Some e \<Rightarrow> Inl (widen e))"
      by (simp_all add: seat_of_def ideal_peek_def split: option.split)
    have "widen e \<noteq> Parse_Panic" if "out = Some e" for e using ok[OF that] by (cases e) auto
    with Nil q later_refl[of "[]" "p_behind us p" "strip p"] show ?thesis
      by (cases out) (simp_all add: advanced_def)
  qed
qed (intro agnostic_rules)

lemma yields_features [yields_rules]: "yields src f ts (pget (\<lambda>p. g (pa_features p))) (\<lambda>us x. us = ts \<and> x = g f)"
  by (rule yields_deaf, rule deaf_get, drule strip_fields(5), simp) (auto simp: run_rules later_refl well_placed_def)

lemma yields_source_len [yields_rules]: "yields src f ts source_len (\<lambda>us n. us = ts \<and> n = length src)"
  by (rule yields_deaf, unfold source_len_def, rule deaf_get, drule strip_fields(2), simp)
     (auto simp: run_source_len[unfolded source_len_def] later_refl well_placed_def)

lemma span_ok_zero: "span_ok src (Span 0 0)"
  by (simp add: span_okI is_synthetic_def u32_max_def is_char_boundary_def)

lemma yields_preceding:
  assumes "\<And>sp. span_ok src sp \<Longrightarrow> span_ok src (g sp)"
  shows "yields src f ts (pget (\<lambda>p. g (preceding_span p))) (\<lambda>us sp. us = ts \<and> span_ok src sp)"
proof (rule yields_reads[OF preceding_reads])
  fix prev st assume w: "well_placed src f (ts, prev, st)"
  then have "prev = Some t \<Longrightarrow> span_ok src (token_span t)" for t
    using well_placed_tokens[OF w, of t] token_fits_span by (simp add: seat_tokens_def)
  with assms span_ok_zero
  show "case Inr (g (case prev of None \<Rightarrow> Span 0 0 | Some tok \<Rightarrow> token_span tok)) of
      Inl e \<Rightarrow> e \<noteq> Parse_Panic | Inr sp \<Rightarrow> ts = ts \<and> span_ok src sp"
    by (simp split: option.split)
qed

lemma yields_span_text [yields_rules]:
  assumes "span_ok src sp"
  shows "yields src f ts (span_text sp)
    (\<lambda>us s. us = ts \<and> s = subslice src (span_start sp) (span_end sp) \<and> valid_utf8 s)"
proof (rule yields_deaf, rule deaf_rules)
  fix prev st assume "well_placed src f (ts, prev, st)"
  then have s: "pa_source st = src" "valid_utf8 src" by (simp_all add: well_placed_def)
  have v: "str_slice src (span_start sp) (span_end sp) = Some (subslice src (span_start sp) (span_end sp))"
    using assms by (auto simp: span_ok_def str_slice_def split: if_splits)
  from s v str_slice_valid[OF s(2) v]
  show "goes (ts, prev, st) (\<lambda>us s. us = ts \<and> s = subslice src (span_start sp) (span_end sp) \<and> valid_utf8 s)
      (run_on (span_text sp) (ts, prev, st))"
    by (simp add: run_rules later_refl)
qed

lemma later_interner: "later (ahead, prev, st) (ahead, prev, (strip st)\<lparr>pa_interner := it\<rparr>)"
  by (simp add: later_def)

lemma intern_dynamic_None: "intern_dynamic s it = None \<Longrightarrow> u32_max \<le> KEYWORD_COUNT + length (in_strings it)"
  by (auto simp: intern_dynamic_def symbol_new_def Let_def split: option.splits if_splits)

lemma intern_None: "intern s it = None \<Longrightarrow> u32_max \<le> KEYWORD_COUNT + length (in_strings it)"
  by (auto simp: intern_def intro: intern_dynamic_None split: option.splits if_splits)

lemma yields_run_intern:
  assumes "\<And>it. g it = None \<Longrightarrow> u32_max \<le> KEYWORD_COUNT + length (in_strings it)"
  shows "yields src f ts (run_intern g) (\<lambda>us x. us = ts)"
proof (rule yields_deaf, rule deaf_rules)
  fix prev st
  show "goes (ts, prev, st) (\<lambda>us x. us = ts) (run_on (run_intern g) (ts, prev, st))"
    using assms[of "pa_interner st"]
    by (auto simp: run_rules later_refl later_interner exhausted_def split: option.split)
qed

lemma yields_intern [yields_rules]: "yields src f ts (intern_text s) (\<lambda>us x. us = ts)"
  unfolding intern_text_def by (rule yields_run_intern) (rule intern_None)

lemma yields_next_node_id [yields_rules]: "yields src f ts next_node_id (\<lambda>us x. us = ts)"
proof (rule yields_deaf, rule deaf_rules)
  fix prev st assume "well_placed src f (ts, prev, st)"
  then have "0 < pa_next_node_id st" by (simp add: well_placed_def)
  then show "goes (ts, prev, st) (\<lambda>us x. us = ts) (run_on next_node_id (ts, prev, st))"
    by (auto simp: run_rules later_def node_id_new_def exhausted_def)
qed

lemma yields_report [yields_rules]: "yields src f ts (report e) (\<lambda>us x. us = ts)"
  by (rule yields_deaf, rule deaf_rules) (auto simp: run_rules later_def)

text \<open>Composite methods: bind, the contract of the first, the side conditions, the continuation.\<close>

lemma yields_intern_identifier [yields_rules]:
  assumes "token_fits src tok"
  shows "yields src f ts (intern_identifier tok) (\<lambda>us x. us = ts)"
proof -
  have "yields src f us (run_intern (case token_kind tok of
        Tk_Word \<Rightarrow> intern_nonkeyword s | Tk_Keyword kw \<Rightarrow> intern_keyword_ident kw s | _ \<Rightarrow> intern s)) (\<lambda>us' x. us' = us)" for s us
    by (rule yields_run_intern)
       (auto simp: intern_nonkeyword_def intern_keyword_ident_def intern_None intern_dynamic_None
         split: token_kind.splits if_splits)
  then show ?thesis
    unfolding intern_identifier_def
    by (intro yields_bind[OF yields_span_text[OF token_fits_span[OF assms]]] agnostic_rules) auto
qed

lemma yields_make_meta [yields_rules]: "yields src f ts (make_meta sp) (\<lambda>us m. us = ts \<and> meta_span m = sp)"
  unfolding make_meta_def
  by (rule yields_bind, rule yields_next_node_id, intro agnostic_rules, rule yields_return, simp)

lemma yields_report_and_fail: "yields src f ts (report_and_fail e) Q"
  unfolding report_and_fail_def
  by (rule yields_bind, rule yields_report, intro agnostic_rules, rule yields_fail)

lemma yields_error_at: "yields src f ts (error_at sp expected fnd) Q"
  unfolding error_at_def by (rule yields_report_and_fail)

text \<open>An error at the end of the tokens is reported; the lexical error a production ends with comes first.\<close>

lemma yields_unexpected [yields_rules]:
  fixes Q :: "token list \<Rightarrow> 'a \<Rightarrow> bool"
  shows "yields src f ts (unexpected expected) Q"
proof (rule yieldsI, rule agnostic_unexpected)
  fix us out p
  assume p: "p_view us out p" "p_ahead us p = ts" "well_placed src f (ts, p_behind us p, strip p)"
  let ?m = "pbind peek_token (\<lambda>t. case t of
        None \<Rightarrow> pbind (pget (\<lambda>p. eof_span p)) (\<lambda>sp. error_at sp expected EndOfInput)
      | Some tok \<Rightarrow> pbind (span_text (token_span tok)) (\<lambda>s. error_at (token_span tok) expected (Found_Text s))) :: 'a parse"
  have eof: "yields src f us (pget (\<lambda>p. eof_span p)) (\<lambda>us' sp. us' = us)" for us
    by (rule yields_deaf, rule deaf_get, drule strip_fields(2), simp add: eof_span_def)
       (auto simp: run_pure pget_def later_def strip_strip_seated)
  have y: "yields src f ts ?m Q"
    by (rule yields_bind, rule yields_peek, intro agnostic_rules)
       (auto simp: peeked_def token_fits_span
         intro!: yields_option yields_bind[OF eof] yields_bind[OF yields_span_text] yields_error_at agnostic_rules)
  let ?u = "unexpected expected :: 'a parse"
  obtain r q where t: "peek_token p = (r, q)" by (cases "peek_token p")
  note rd = peek_reads[unfolded reads_def, rule_format, OF p(1), unfolded t, simplified]
  have s: "seat_of us q = (ts, p_behind us p, strip p)"
    using rd p(2) same_position[of q p us] by (simp add: seat_of_def)
  show "goes (ts, p_behind us p, strip p) Q (fst (?u p), seat_of us (snd (?u p)))"
  proof (cases r)
    case (Inr x)
    then have u: "?u p = ?m p" by (simp add: unexpected_match t pbind_def)
    from yields_seat[OF y p] show ?thesis unfolding u .
  next
    case (Inl e)
    have "e \<noteq> Parse_Panic"
      using rd Inl p_view_pos[OF p(1)] widen_ok[of out] by (auto simp: ideal_peek_def split: if_splits option.splits)
    then obtain e' where e: "e = Err e'" by (cases e) auto
    have u: "?u p = report_and_fail e' q" by (simp add: unexpected_match t Inl e)
    have q: "p_ahead us q = ts" "p_behind us q = p_behind us p" "strip q = strip p" "p_view us out q"
      using s rd by (simp_all add: seat_of_def)
    have w: "well_placed src f (ts, p_behind us q, strip q)" unfolding q(2,3) by (rule p(3))
    from yields_seat[OF yields_report_and_fail[where e = e' and Q = Q] q(4,1) w] show ?thesis unfolding u q(2,3) .
  qed
qed

lemma yields_or_panic [yields_rules]:
  "v \<noteq> None \<Longrightarrow> yields src f ts (or_panic v) (\<lambda>us x. us = ts \<and> v = Some x)"
  by (cases v) (simp_all add: or_panic_def yields_return)

lemma yields_current_span [yields_rules]: "yields src f ts current_span (\<lambda>us sp. us = ts \<and> span_ok src sp)"
proof -
  have eof: "span_ok src (eof_span st)" if "pa_source st = src" "length src \<le> u32_max" for st
    using that by (auto simp: span_okI eof_span_def is_synthetic_def u32_max_def)
  have "yields src f us (pget (\<lambda>p. case t of Some tok \<Rightarrow> token_span tok | None \<Rightarrow> eof_span p)) (\<lambda>us' sp. us' = us \<and> span_ok src sp)"
    if "\<forall>tok. t = Some tok \<longrightarrow> token_fits src tok" for us t
  proof (rule yields_deaf)
    show "deaf (pget (\<lambda>p. case t of Some tok \<Rightarrow> token_span tok | None \<Rightarrow> eof_span p))"
      by (rule deaf_get) (drule strip_fields(2), simp add: eof_span_def split: option.split)
    fix prev st assume "well_placed src f (us, prev, st)"
    with that token_fits_span show "goes (us, prev, st) (\<lambda>us' sp. us' = us \<and> span_ok src sp)
        (run_on (pget (\<lambda>p. case t of Some tok \<Rightarrow> token_span tok | None \<Rightarrow> eof_span p)) (us, prev, st))"
      by (auto simp: run_pure pget_def later_def strip_strip_seated well_placed_def span_okI eof_span_def is_synthetic_def u32_max_def
          split: option.split)
  qed
  then show ?thesis
    unfolding current_span_def
    by (intro yields_bind[OF yields_peek(1)]) (auto simp: peeked_def intro: agnostic_rules yields_agnostic)
qed

subsection \<open>Checks\<close>

text \<open>A check looks at the next token; eating consumes that token exactly when the check holds.\<close>

definition checked :: "token list \<Rightarrow> token list \<Rightarrow> bool \<Rightarrow> bool" where
  "checked ts us x \<longleftrightarrow> us = ts \<and> (x \<longrightarrow> ts \<noteq> [])"

definition eaten :: "token list \<Rightarrow> token list \<Rightarrow> bool \<Rightarrow> bool" where
  "eaten ts us x \<longleftrightarrow> (if x then ts \<noteq> [] \<and> us = tl ts else us = ts)"

lemma yields_token_check:
  assumes "\<And>t. agnostic (c t)" "\<And>us t. token_fits src t \<Longrightarrow> yields src f us (c t) (\<lambda>us' x. us' = us)"
  shows "yields src f ts (pbind peek_token (\<lambda>t. case t of Some tok \<Rightarrow> c tok | None \<Rightarrow> preturn False)) (checked ts)"
proof (rule yields_bind[OF yields_peek(1)])
  show "agnostic (case t of Some tok \<Rightarrow> c tok | None \<Rightarrow> preturn False)" for t
    using assms(1) by (intro agnostic_rules) auto
  fix us t assume p: "peeked src ts 0 us t"
  show "yields src f us (case t of Some tok \<Rightarrow> c tok | None \<Rightarrow> preturn False) (checked ts)"
  proof (cases t)
    case (Some tok)
    with p have "us = ts" "ts \<noteq> []" "token_fits src tok" by (auto simp: peeked_def get_at_def split: if_splits)
    with Some yields_mono[OF assms(2)[of tok ts], of "checked ts"] show ?thesis by (simp add: checked_def)
  qed (use p in \<open>auto intro!: yields_return simp: checked_def peeked_def\<close>)
qed

lemma yields_kind_checks [yields_rules]:
  "yields src f ts (peek_is_keyword kw) (\<lambda>us x. us = ts \<and> x = (ts \<noteq> [] \<and> token_kind (hd ts) = Tk_Keyword kw))"
  "yields src f ts (peek_is_punct pu) (\<lambda>us x. us = ts \<and> x = (ts \<noteq> [] \<and> token_kind (hd ts) = Tk_Punctuation pu))"
  "yields src f ts (peek_is_op opr) (\<lambda>us x. us = ts \<and> x = (ts \<noteq> [] \<and> token_kind (hd ts) = Tk_Operator opr))"
  unfolding peek_is_keyword_def peek_is_punct_def peek_is_op_def
  by (rule yields_bind, rule yields_peek, intro agnostic_rules, rule yields_return,
      auto simp: peeked_def get_at_def hd_conv_nth split: option.splits if_splits)+

lemma yields_nth_checks [yields_rules]:
  "yields src f ts (peek_nth_is_keyword n kw) (\<lambda>us x. us = ts)"
  "yields src f ts (peek_nth_is_punct n pu) (\<lambda>us x. us = ts)"
  "yields src f ts (peek_nth_is_op n opr) (\<lambda>us x. us = ts)"
  unfolding peek_nth_is_keyword_def peek_nth_is_punct_def peek_nth_is_op_def
  by (rule yields_bind, rule yields_peek, intro agnostic_rules, rule yields_return, simp add: peeked_def)+

lemma yields_contextual [yields_rules]:
  assumes "token_fits src t"
  shows "yields src f ts (token_is_contextual_keyword t w) (\<lambda>us x. us = ts)"
proof -
  have y: "yields src f ts (pbind (span_text (token_span t)) (\<lambda>s. preturn (eq_ignore_ascii_case s w))) (\<lambda>us x. us = ts)"
    by (rule yields_bind, rule yields_span_text[OF token_fits_span[OF assms]], intro agnostic_rules, rule yields_return) simp
  have "yields src f ts (preturn False) (\<lambda>us x. us = ts)" by (rule yields_return) simp
  with y show ?thesis by (simp add: token_is_contextual_keyword_def split: token_kind.split)
qed

lemma yields_peek_contextual [yields_rules]:
  "yields src f ts (peek_is_contextual_keyword w) (checked ts)"
  "yields src f ts (peek_nth_is_contextual_keyword n w) (\<lambda>us x. us = ts)"
  unfolding peek_is_contextual_keyword_def peek_nth_is_contextual_keyword_def
  by (rule yields_token_check, rule agnostic_contextual, erule yields_contextual)
     (rule yields_bind, rule yields_peek, intro agnostic_rules,
      auto simp: peeked_def intro!: yields_option yields_return yields_contextual)

lemma yields_eat_if:
  assumes "yields src f ts check (checked ts)"
  shows "yields src f ts (eat_if check) (eaten ts)"
  unfolding eat_if_def
  by (rule yields_bind[OF assms], intro agnostic_rules)
     (auto simp: checked_def eaten_def advanced_def intro!: yields_if yields_return yields_bind[OF yields_advance] agnostic_rules
       split: list.splits)

lemma yields_eat [yields_rules]:
  "yields src f ts (eat_contextual_keyword w) (eaten ts)"
  "yields src f ts (eat_keyword kw) (eaten ts)"
  "yields src f ts (eat_punct pu) (eaten ts)"
  "yields src f ts (eat_op opr) (eaten ts)"
  unfolding eat_contextual_keyword_def eat_keyword_def eat_punct_def eat_op_def
  by (rule yields_eat_if, (rule yields_peek_contextual | rule yields_mono, rule yields_kind_checks), (simp add: checked_def)?)+

lemma yields_expect [yields_rules]:
  "yields src f ts (expect_contextual_keyword w) (\<lambda>us x. eaten ts us True)"
  "yields src f ts (expect_keyword kw) (\<lambda>us x. eaten ts us True)"
  "yields src f ts (expect_punct pu e) (\<lambda>us x. eaten ts us True)"
  unfolding expect_contextual_keyword_def expect_keyword_def expect_punct_def
  by (rule yields_bind, rule yields_eat, intro agnostic_rules, auto intro!: yields_if yields_return yields_unexpected)+

subsection \<open>Loops\<close>

lemma yields_placed:
  assumes "agnostic m" "length ts \<le> length src \<Longrightarrow> yields src f ts m R"
  shows "yields src f ts m R"
proof (rule yieldsI, rule assms(1))
  fix us out p
  assume p: "p_view us out p" "p_ahead us p = ts" "well_placed src f (ts, p_behind us p, strip p)"
  have "length ts \<le> length src" using tokens_fit[OF p(3)] by simp
  from yields_seat[OF assms(2)[OF this] p]
  show "goes (ts, p_behind us p, strip p) R (fst (m p), seat_of us (snd (m p)))" .
qed

text \<open>
  The contract of a loop body: a round that is repeated consumes a token and keeps the loop's
  invariant, and the value of the loop has the loop's property.
\<close>

locale loop_body =
  fixes src :: source and f :: feature_set and body :: "'s \<Rightarrow> ('s + 'a) parse"
    and inv :: "token list \<Rightarrow> 's \<Rightarrow> bool" and post :: "token list \<Rightarrow> 'a \<Rightarrow> bool"
  assumes body_agnostic: "agnostic (body s)"
    and round: "inv ts s \<Longrightarrow> yields src f ts (body s)
      (\<lambda>us r. case r of Inl s' \<Rightarrow> length us < length ts \<and> inv us s' | Inr x \<Rightarrow> post us x)"
begin

lemma ploop_n_yields: "inv ts s \<Longrightarrow> length ts < n \<Longrightarrow> yields src f ts (ploop_n n body s) post"
proof (induction n arbitrary: ts s)
  case (Suc n)
  show ?case unfolding ploop_n.simps
  proof (rule yields_bind[OF round[OF Suc.prems(1)]])
    show "agnostic (case r of Inl s' \<Rightarrow> ploop_n n body s' | Inr x \<Rightarrow> preturn x)" for r
      by (cases r) (auto intro: agnostic_ploop_n body_agnostic agnostic_return)
    fix us r
    assume "case r of Inl s' \<Rightarrow> length us < length ts \<and> inv us s' | Inr x \<Rightarrow> post us x"
    with Suc.IH[of us] Suc.prems(2) show "yields src f us (case r of Inl s' \<Rightarrow> ploop_n n body s' | Inr x \<Rightarrow> preturn x) post"
      by (cases r) (auto intro: yields_return)
  qed
qed simp

text \<open>From a well-placed seat the loop ends before its bound.\<close>

lemma ploop_yields:
  assumes "inv ts s"
  shows "yields src f ts (ploop body s) post"
proof (rule yields_placed)
  show "agnostic (ploop body s)" by (rule agnostic_ploop) (rule body_agnostic)
  assume len: "length ts \<le> length src"
  show "yields src f ts (ploop body s) post"
    unfolding ploop_def
    by (rule yields_bind[OF yields_source_len])
       (use ploop_n_yields[OF assms] len agnostic_ploop_n[OF body_agnostic] in \<open>auto simp del: ploop_n.simps\<close>)
qed

lemma ploop_n_bound:
  assumes "well_placed src f e" "inv (seat_ahead e) s" "length (seat_ahead e) < n" "length (seat_ahead e) < m"
  shows "run_on (ploop_n n body s) e = run_on (ploop_n m body s) e"
  using assms
proof (induction n arbitrary: m s e)
  case (Suc n)
  then obtain k where m: "m = Suc k" by (cases m) auto
  have ag: "agnostic (case r of Inl s' \<Rightarrow> ploop_n n body s' | Inr x \<Rightarrow> preturn x)" for n and r :: "'s + 'a"
    by (cases r) (auto intro: agnostic_ploop_n body_agnostic agnostic_return)
  obtain r e' where b: "run_on (body s) e = (r, e')" by (cases "run_on (body s) e")
  note g = yieldsD[OF round[OF Suc.prems(2)] Suc.prems(1)]
  have "run_on (ploop_n n body s') e' = run_on (ploop_n k body s') e'" if "r = Inr (Inl s')" for s'
  proof (rule Suc.IH)
    from g b that show "well_placed src f e'" using well_placed_later[OF Suc.prems(1)] by simp
    from g b that Suc.prems m show "inv (seat_ahead e') s'" "length (seat_ahead e') < n" "length (seat_ahead e') < k" by simp_all
  qed
  then show ?case
    unfolding m ploop_n.simps run_bind[OF body_agnostic ag] b by (auto split: sum.split)
qed simp

text \<open>One unfolding of the loop.\<close>

lemma run_ploop:
  assumes w: "well_placed src f (ts, prev, st)" and "inv ts s"
  shows "run_on (ploop body s) (ts, prev, strip st) = (case run_on (body s) (ts, prev, strip st) of
      (Inl err, e') \<Rightarrow> (Inl err, e')
    | (Inr (Inl s'), e') \<Rightarrow> run_on (ploop body s') e'
    | (Inr (Inr x), e') \<Rightarrow> run_on (preturn x) e')"
proof -
  have bound: "run_on (ploop body s) e = run_on (ploop_n (Suc (length src)) body s) e"
    if "e = (us, pv, strip q)" "pa_source q = src" for e us pv q s
    unfolding ploop_def that(1) run_bind[OF agnostic_source_len agnostic_ploop_n[OF body_agnostic]]
    by (simp add: run_source_len that(2) del: ploop_n.simps)
  have ws: "well_placed src f (ts, prev, strip st)" using w by (simp add: well_placed_def seat_tokens_def)
  have len: "length ts \<le> length src" using tokens_fit[OF w] by simp
  obtain r us pv q where b: "run_on (body s) (ts, prev, strip st) = (r, us, pv, q)" by (cases "run_on (body s) (ts, prev, strip st)") auto
  have q: "strip q = q" using b by (auto simp: run_on_def seat_of_def)
  note g = yieldsD[of src f "(ts, prev, strip st)", simplified, OF round[OF assms(2)] ws]
  have src: "pa_source st = src" "pa_source q = src" using g b w by (cases r; simp add: later_def well_placed_def)+
  have ag: "agnostic (case r of Inl s' \<Rightarrow> ploop_n n body s' | Inr x \<Rightarrow> preturn x)" for n and r :: "'s + 'a"
    by (cases r) (auto intro: agnostic_ploop_n body_agnostic agnostic_return)
  have "run_on (ploop_n (length src) body s') (us, pv, q) = run_on (ploop body s') (us, pv, q)" if r: "r = Inr (Inl s')" for s'
  proof -
    have "well_placed src f (us, pv, q)" using g b r well_placed_later[OF ws] by simp
    with g b r len have "run_on (ploop_n (length src) body s') (us, pv, q) = run_on (ploop_n (Suc (length src)) body s') (us, pv, q)"
      by (intro ploop_n_bound) auto
    then show ?thesis using bound[of "(us, pv, q)" us pv q s'] q src(2) by simp
  qed
  then show ?thesis
    unfolding bound[OF refl src(1)] ploop_n.simps run_bind[OF body_agnostic ag] b by (auto split: sum.split)
qed

end
end
