(* ===== verification/Parse_Runs.thy ===== *)
theory Parse_Runs
  imports Parse_Contracts
begin

text \<open>
  Evaluation of the engine's methods on the tokens ahead: what a peek, an eaten word or a fresh
  node id makes of a seat. A production is evaluated by running its first method and going on
  with the rest.
\<close>

lemma run_chain:
  assumes "agnostic m" "\<And>x. agnostic (k x)"
    "(case run_on m s of (Inl e, s') \<Rightarrow> (Inl e, s') | (Inr x, s') \<Rightarrow> run_on (k x) s') = r"
  shows "run_on (pbind m k) s = r"
  using run_bind[OF assms(1,2), where s = s] assms(3) by simp

lemma run_current_span [run_rules]:
  "run_on current_span (ahead, prev, st)
     = (Inr (case ahead of [] \<Rightarrow> eof_span st | t # _ \<Rightarrow> token_span t), ahead, prev, strip st)"
proof -
  have "agnostic (pget (\<lambda>p. case t of None \<Rightarrow> eof_span p | Some tok \<Rightarrow> token_span tok))" for t :: "token option"
    by (rule agnostic_get) (drule strip_fields(2), simp add: eof_span_def split: option.split)
  then show ?thesis unfolding current_span_def
    by (subst run_bind, (intro agnostic_rules)+)
       (cases ahead; simp add: run_rules get_at_def eof_span_def run_pure pget_def strip_strip_seated)
qed

definition is_worded :: "source \<Rightarrow> token \<Rightarrow> string \<Rightarrow> bool" where
  "is_worded src t w \<longleftrightarrow> (token_kind t = Tk_Word \<or> (\<exists>k. token_kind t = Tk_Keyword k))
     \<and> eq_ignore_ascii_case (lexeme_of src t) w"

lemma run_token_is [run_rules]:
  assumes "token_ok (pa_source st) t"
  shows "run_on (token_is_contextual_keyword t w) (ahead, prev, st) = (Inr (is_worded (pa_source st) t w), ahead, prev, strip st)"
proof -
  from assms have "str_slice (pa_source st) (span_start (token_span t)) (span_end (token_span t)) = Some (lexeme_of (pa_source st) t)"
    by (auto simp: token_ok_def lexeme_of_def str_slice_def split: if_splits)
  then show ?thesis
    by (cases "token_kind t") (simp_all add: token_is_contextual_keyword_def is_worded_def run_bind agnostic_rules run_rules)
qed

lemma run_eat [run_rules]:
  "run_on (eat_contextual_keyword w) ([], prev, st) = (Inr False, [], prev, strip st)"
  "token_ok (pa_source st) t \<Longrightarrow> run_on (eat_contextual_keyword w) (t # ahead, prev, st)
     = (if is_worded (pa_source st) t w then (Inr True, ahead, Some t, strip st) else (Inr False, t # ahead, prev, strip st))"
  unfolding eat_contextual_keyword_def eat_if_def peek_is_contextual_keyword_def
  by (simp_all add: run_bind agnostic_rules run_rules get_at_def)

lemma run_make_meta [run_rules]:
  "0 < pa_next_node_id st \<Longrightarrow> pa_next_node_id st < u32_max \<Longrightarrow> run_on (make_meta sp) (ahead, prev, st)
     = (Inr \<lparr>meta_span = sp, meta_node_id = NodeId (pa_next_node_id st)\<rparr>, ahead, prev,
        (strip st)\<lparr>pa_next_node_id := pa_next_node_id st + 1\<rparr>)"
  by (simp add: make_meta_def run_bind agnostic_rules run_rules node_id_new_def strip_set)

end
