(* ===== verification/Identifiers.thy ===== *)
theory Identifiers
  imports Parse_Loops Literal_Values
begin

text \<open>
  Identifiers: the AST node (\<open>crates/squonk-ast/src/ast/ident.rs\<close>), the one method every name
  position goes through (\<open>parse_ident_admitting\<close> in \<open>crates/squonk/src/parser/from.rs\<close>) with its
  wrappers, string constants in name position, and string constants in value position with their
  continuations and \<open>UESCAPE\<close> clause (\<open>parser/expr/literals.rs\<close>).
\<close>

subsection \<open>The node\<close>

datatype quote_style = Qs_None | Qs_Single | Qs_Double | Qs_UnicodeDouble | Qs_Backtick | Qs_Bracket

datatype ident = Ident (id_sym: symbol) (id_quote: quote_style) (id_meta: meta)

subsection \<open>Quoted text\<close>

text \<open>\<open>str::contains\<close> and \<open>str::replace\<close> for a doubled ASCII delimiter.\<close>

fun contains_doubled :: "byte \<Rightarrow> source \<Rightarrow> bool" where
  "contains_doubled q (a # b # s) \<longleftrightarrow> a = q \<and> b = q \<or> contains_doubled q (b # s)"
| "contains_doubled q _ \<longleftrightarrow> False"

fun replace_doubled :: "byte \<Rightarrow> source \<Rightarrow> source" where
  "replace_doubled q (a # b # s) = (if a = q \<and> b = q then q # replace_doubled q s else a # replace_doubled q (b # s))"
| "replace_doubled q s = s"

definition undouble :: "byte \<Rightarrow> source \<Rightarrow> source" where
  "undouble q inner = (if contains_doubled q inner then replace_doubled q inner else inner)"

text \<open>\<open>&raw[1..raw.len() - 1]\<close>.\<close>

definition inner_slice :: "source \<Rightarrow> source option" where
  "inner_slice raw = str_slice raw 1 (length raw - 1)"

definition materialize_quoted_ident :: "source \<Rightarrow> (quote_style \<times> source) option" where
  "materialize_quoted_ident raw = (case raw of
      [] \<Rightarrow> None
    | b # others \<Rightarrow>
        if b = CHR 0x22 then map_option (\<lambda>inner. (Qs_Double, undouble (CHR 0x22) inner)) (inner_slice raw)
        else if b = CHR 0x60 then map_option (\<lambda>inner. (Qs_Backtick, undouble (CHR 0x60) inner)) (inner_slice raw)
        else if b = CHR ''['' then map_option (\<lambda>inner. (Qs_Bracket, undouble (CHR '']'') inner)) (inner_slice raw)
        else None)"

subsection \<open>The \<open>UESCAPE\<close> clause\<close>

definition KW_Uescape :: keyword where
  "KW_Uescape = Keyword 805"

text \<open>A lexical error raised by the grammar: it is returned, not reported to the sink.\<close>

definition fail_lex :: "lex_error_kind \<Rightarrow> span \<Rightarrow> 'a parse" where
  "fail_lex kind sp = pfail (Err (from_lex_error (LexError kind sp)))"

definition consume_optional_uescape :: "span \<Rightarrow> span parse" where
  "consume_optional_uescape string_span = pbind peek_token (\<lambda>t. case t of
      None \<Rightarrow> preturn string_span
    | Some uescape \<Rightarrow>
        if token_kind uescape \<noteq> Tk_Keyword KW_Uescape then preturn string_span
        else pbind advance (\<lambda>_. pbind peek_token (\<lambda>e. case e of
          None \<Rightarrow> unexpected ''a UESCAPE character string''
        | Some escape \<Rightarrow>
            if token_kind escape \<noteq> Tk_String then unexpected ''a UESCAPE character string''
            else pbind (span_text (token_span escape)) (\<lambda>s.
                 pbind (or_panic (uescape_argument_is_legal s)) (\<lambda>legal.
                   if \<not> legal then fail_lex InvalidEscapeSequence (token_span escape)
                   else pbind advance (\<lambda>_. preturn (span_union string_span (token_span escape))))))))"

subsection \<open>Names\<close>

definition finish_ident :: "symbol \<Rightarrow> quote_style \<Rightarrow> span \<Rightarrow> ident parse" where
  "finish_ident symb quote sp = pbind (make_meta sp) (\<lambda>m. preturn (Ident symb quote m))"

text \<open>The token kinds that are not admissible are unreachable here, which the code checks by a panic.\<close>

definition ident_of_token :: "token \<Rightarrow> ident parse" where
  "ident_of_token tok = (case token_kind tok of
      Tk_Word \<Rightarrow> pbind (intern_identifier tok) (\<lambda>symb. finish_ident symb Qs_None (token_span tok))
    | Tk_Keyword _ \<Rightarrow> pbind (intern_identifier tok) (\<lambda>symb. finish_ident symb Qs_None (token_span tok))
    | Tk_QuotedIdent \<Rightarrow> pbind (span_text (token_span tok)) (\<lambda>raw.
        if is_unicode_ident raw then
          pbind (consume_optional_uescape (token_span tok)) (\<lambda>sp.
          pbind (span_text sp) (\<lambda>whole. case materialize_unicode_ident whole of
              Inl EscPanic \<Rightarrow> pfail Parse_Panic
            | Inl EscErr \<Rightarrow> fail_lex InvalidEscapeSequence sp
            | Inr value \<Rightarrow> pbind (intern_text value) (\<lambda>symb. finish_ident symb Qs_UnicodeDouble sp)))
        else
          pbind (or_panic (materialize_quoted_ident raw)) (\<lambda>(quote, value).
          pbind (intern_text value) (\<lambda>symb. finish_ident symb quote (token_span tok))))
    | _ \<Rightarrow> pfail Parse_Panic)"

definition parse_ident_admitting :: "keyword_set \<Rightarrow> string \<Rightarrow> ident parse" where
  "parse_ident_admitting reserved expected = pbind peek_token (\<lambda>t. case t of
      Some tok \<Rightarrow>
        if token_admissible tok reserved then pbind advance (\<lambda>_. ident_of_token tok)
        else unexpected expected
    | None \<Rightarrow> unexpected expected)"

abbreviation features :: "(feature_set \<Rightarrow> 'a) \<Rightarrow> 'a parse" where
  "features g \<equiv> pget (\<lambda>p. g (pa_features p))"

definition parse_ident :: "ident parse" where
  "parse_ident = pbind (features reserved_column_name) (\<lambda>reserved. parse_ident_admitting reserved ''an identifier'')"

definition parse_as_alias_ident :: "ident parse" where
  "parse_as_alias_ident = pbind (features reserved_as_label) (\<lambda>reserved. parse_ident_admitting reserved ''an alias'')"

definition parse_bare_alias_ident :: "ident parse" where
  "parse_bare_alias_ident = pbind (features reserved_bare_alias) (\<lambda>reserved. parse_ident_admitting reserved ''an alias'')"

definition parse_type_function_name_ident :: "ident parse" where
  "parse_type_function_name_ident =
     pbind (features reserved_type_name) (\<lambda>reserved. parse_ident_admitting reserved ''a parameter name'')"

definition token_can_be_label :: "token \<Rightarrow> bool" where
  "token_can_be_label tok \<longleftrightarrow> token_admissible tok KEYWORD_SET_EMPTY"

subsection \<open>String constants in name position\<close>

definition parse_string_alias_ident :: "ident option parse" where
  "parse_string_alias_ident = pbind peek_token (\<lambda>t. case t of
      None \<Rightarrow> preturn None
    | Some tok \<Rightarrow>
        if token_kind tok \<noteq> Tk_String then preturn None
        else pbind (span_text (token_span tok)) (\<lambda>raw.
          case (if get_at raw 0 = Some (CHR 0x27) then Some (Qs_Single, CHR 0x27)
                else if get_at raw 0 = Some (CHR 0x22) then Some (Qs_Double, CHR 0x22) else None) of
            None \<Rightarrow> preturn None
          | Some (quote, delim) \<Rightarrow>
              pbind advance (\<lambda>_.
              pbind (or_panic (inner_slice raw)) (\<lambda>inner.
              pbind (intern_text (undouble delim inner)) (\<lambda>symb.
              pbind (finish_ident symb quote (token_span tok)) (\<lambda>i. preturn (Some i)))))))"

definition parse_string_or_ident_admitting :: "keyword_set \<Rightarrow> ident parse" where
  "parse_string_or_ident_admitting reserved = pbind parse_string_alias_ident (\<lambda>i. case i of
      Some ident \<Rightarrow> preturn ident | None \<Rightarrow> parse_ident_admitting reserved ''an identifier'')"

definition parse_ident_allowing_string_literal :: "keyword_set \<Rightarrow> ident parse" where
  "parse_ident_allowing_string_literal reserved =
     pbind (features (\<lambda>f. ids_string_literal_identifiers (identifier_syntax f))) (\<lambda>allowed.
       if allowed then parse_string_or_ident_admitting reserved
       else parse_ident_admitting reserved ''an identifier'')"

definition parse_column_ident_allowing_string_literal :: "ident parse" where
  "parse_column_ident_allowing_string_literal =
     pbind (features reserved_column_name) parse_ident_allowing_string_literal"

subsection \<open>Dotted names\<close>

definition object_name_part :: "ident list \<Rightarrow> (ident list + ident list) parse" where
  "object_name_part parts = pbind (peek_is_punct P_Dot) (\<lambda>dot.
     if \<not> dot then leave parts
     else pbind (peek_nth_token 1) (\<lambda>t.
       if \<not> (case t of None \<Rightarrow> False | Some tok \<Rightarrow> token_can_be_label tok) then leave parts
       else pbind advance (\<lambda>_. pbind parse_as_alias_ident (\<lambda>part. again (parts @ [part])))))"

definition parse_object_name_with :: "keyword_set \<Rightarrow> ident list parse" where
  "parse_object_name_with head_reserved =
     pbind (parse_ident_admitting head_reserved ''an identifier'') (\<lambda>h. ploop object_name_part [h])"

subsection \<open>String constants in value position\<close>

definition bit_string_kind :: "source \<Rightarrow> literal_kind option" where
  "bit_string_kind s =
     (if (get_at s 0 = Some (CHR ''B'') \<or> get_at s 0 = Some (CHR ''b'')) \<and> get_at s 1 = Some (CHR 0x27)
      then Some (Lk_BitString Radix_Binary)
      else if (get_at s 0 = Some (CHR ''X'') \<or> get_at s 0 = Some (CHR ''x'')) \<and> get_at s 1 = Some (CHR 0x27)
      then Some (Lk_BitString Radix_Hex) else None)"

definition is_unicode_string :: "source \<Rightarrow> bool" where
  "is_unicode_string s \<longleftrightarrow> (get_at s 0 = Some (CHR ''U'') \<or> get_at s 0 = Some (CHR ''u''))
     \<and> get_at s 1 = Some (CHR ''&'') \<and> get_at s 2 = Some (CHR 0x27)"

datatype gap_kind = Gap_Newline | Gap_SameLine | Gap_NotWhitespace

fun classify_from :: "bool \<Rightarrow> source \<Rightarrow> gap_kind" where
  "classify_from newline [] = (if newline then Gap_Newline else Gap_SameLine)"
| "classify_from newline (b # bs) =
     (if b = CHR 0x0A \<or> b = CHR 0x0D then classify_from True bs
      else if b = CHR 0x20 \<or> b = CHR 0x09 \<or> b = CHR 0x0B \<or> b = CHR 0x0C then classify_from newline bs
      else Gap_NotWhitespace)"

definition classify_continuation_gap :: "source \<Rightarrow> gap_kind" where
  "classify_continuation_gap gap = classify_from False gap"

text \<open>\<open>Span::new\<close> panics on a start past the end.\<close>

definition gap_span :: "span \<Rightarrow> token \<Rightarrow> span parse" where
  "gap_span sp tok = or_panic (span_new (span_end sp) (span_start (token_span tok)))"

definition continuation_round :: "bool \<Rightarrow> span \<Rightarrow> (span + span) parse" where
  "continuation_round same_line_is_error sp = pbind peek_token (\<lambda>t. case t of
      None \<Rightarrow> leave sp
    | Some nxt \<Rightarrow>
        if token_kind nxt \<noteq> Tk_String then leave sp
        else pbind (span_text (token_span nxt)) (\<lambda>seg.
          if \<not> (get_at seg 0 = Some (CHR 0x27) \<or> get_at seg 0 = Some (CHR 0x22)) then leave sp
          else pbind (gap_span sp nxt) (\<lambda>gsp. pbind (span_text gsp) (\<lambda>gap.
            case classify_continuation_gap gap of
              Gap_Newline \<Rightarrow> pbind advance (\<lambda>_. again (span_union sp (token_span nxt)))
            | Gap_SameLine \<Rightarrow>
                pbind (features (\<lambda>f. sl_same_line_adjacent_concat (string_literals f))) (\<lambda>same_line.
                  if same_line then pbind advance (\<lambda>_. again (span_union sp (token_span nxt)))
                  else if same_line_is_error then
                    pbind (span_text (token_span nxt)) (\<lambda>fnd.
                      error_at (token_span nxt) ''a newline between adjacent string literals'' (Found_Text fnd))
                  else leave sp)
            | Gap_NotWhitespace \<Rightarrow> leave sp))))"

definition consume_string_continuations_with :: "span \<Rightarrow> source \<Rightarrow> bool \<Rightarrow> span parse" where
  "consume_string_continuations_with first_span first_text same_line_is_error =
     (if get_at first_text 0 = Some (CHR ''$'') then preturn first_span
      else ploop (continuation_round same_line_is_error) first_span)"

definition consume_string_continuations :: "span \<Rightarrow> source \<Rightarrow> span parse" where
  "consume_string_continuations first_span first_text = consume_string_continuations_with first_span first_text True"

text \<open>The expression \<open>Expr::Literal\<close> the method wraps its literal in.\<close>

datatype literal_expr = Expr_Literal literal meta

definition parse_string_literal :: "token \<Rightarrow> literal_expr parse" where
  "parse_string_literal tok =
     pbind advance (\<lambda>_.
     pbind (span_text (token_span tok)) (\<lambda>s.
     let kind = (case bit_string_kind s of Some k \<Rightarrow> k | None \<Rightarrow> Lk_String); unicode = is_unicode_string s in
     pbind (consume_string_continuations (token_span tok) s) (\<lambda>sp.
     pbind (if unicode then
              pbind (consume_optional_uescape sp) (\<lambda>sp2.
              pbind (span_text sp2) (\<lambda>whole.
              pbind (or_panic (unicode_escape_string_is_valid whole)) (\<lambda>valid.
                if \<not> valid then fail_lex InvalidEscapeSequence sp2 else preturn sp2)))
            else preturn sp) (\<lambda>sp2.
     pbind (make_meta sp2) (\<lambda>m.
     pbind (make_meta sp2) (\<lambda>m2.
       preturn (Expr_Literal \<lparr>lit_kind = kind, lit_meta = m\<rparr> m2)))))))"

subsection \<open>These methods depend on the tokens ahead only\<close>

lemma agnostic_escape [agnostic_rules]:
  "agnostic c \<Longrightarrow> (\<And>x. agnostic (a x)) \<Longrightarrow>
     agnostic (case r of Inl EscPanic \<Rightarrow> pfail Parse_Panic | Inl EscErr \<Rightarrow> c | Inr x \<Rightarrow> a x)"
  by (cases r) (auto intro: agnostic_fail split: escape_failure.split)

lemma agnostic_let [agnostic_rules]: "(\<And>x. agnostic (k x)) \<Longrightarrow> agnostic (let x = v in k x)"
  by simp

lemma agnostic_gap [agnostic_rules]:
  "agnostic a \<Longrightarrow> agnostic b \<Longrightarrow> agnostic c \<Longrightarrow>
     agnostic (case g of Gap_Newline \<Rightarrow> a | Gap_SameLine \<Rightarrow> b | Gap_NotWhitespace \<Rightarrow> c)"
  by (cases g) simp_all

lemma agnostic_uescape [agnostic_rules]:
  "agnostic (fail_lex kind sp)" "agnostic (consume_optional_uescape sp)" "agnostic (finish_ident symb quote sp)"
  unfolding fail_lex_def consume_optional_uescape_def finish_ident_def by (intro agnostic_rules)+

lemma agnostic_gap_span [agnostic_rules]: "agnostic (gap_span sp tok)"
  unfolding gap_span_def by (intro agnostic_rules)

lemma agnostic_ident_of_token [agnostic_rules]: "agnostic (ident_of_token tok)"
  unfolding ident_of_token_def by (cases "token_kind tok") (simp_all, (intro agnostic_rules)+)

lemma agnostic_idents [agnostic_rules]:
  "agnostic (parse_ident_admitting reserved expected)" "agnostic parse_ident" "agnostic parse_as_alias_ident"
  "agnostic parse_bare_alias_ident" "agnostic parse_type_function_name_ident"
  unfolding parse_ident_admitting_def parse_ident_def parse_as_alias_ident_def parse_bare_alias_ident_def
    parse_type_function_name_ident_def by (intro agnostic_rules)+

lemma agnostic_string_names [agnostic_rules]:
  "agnostic parse_string_alias_ident" "agnostic (parse_string_or_ident_admitting reserved)"
  "agnostic (parse_ident_allowing_string_literal reserved)" "agnostic parse_column_ident_allowing_string_literal"
  unfolding parse_string_alias_ident_def parse_string_or_ident_admitting_def
    parse_ident_allowing_string_literal_def parse_column_ident_allowing_string_literal_def
  by (intro agnostic_rules)+

lemma agnostic_object_name [agnostic_rules]:
  "agnostic (object_name_part parts)" "agnostic (parse_object_name_with reserved)"
  unfolding object_name_part_def parse_object_name_with_def by (intro agnostic_rules)+

lemma agnostic_strings [agnostic_rules]:
  "agnostic (continuation_round err sp)" "agnostic (consume_string_continuations_with sp s err)"
  "agnostic (consume_string_continuations sp s)" "agnostic (parse_string_literal tok)"
  unfolding continuation_round_def consume_string_continuations_def
    consume_string_continuations_with_def parse_string_literal_def by (intro agnostic_rules)+

end
