(* ===== verification/Identifier_Contracts.thy ===== *)
theory Identifier_Contracts
  imports Parse_Contracts Identifiers
begin

text \<open>
  Contracts of the identifier and string-constant methods: from a well-placed seat none of them
  panics while node ids and symbols last, and the loops over dotted names and over continued
  string constants end.
\<close>

subsection \<open>Lexemes the grammar takes apart\<close>

lemma uescape_legal_total: "valid_utf8 s \<Longrightarrow> uescape_argument_is_legal s \<noteq> None"
  using uescape_argument_no_panic[of s] by (auto simp: uescape_argument_is_legal_def no_panic_def split: sum.split escape_failure.split)

lemma scan_no_panic:
  "scan_unicode_escape_string string_sink escape quote cs [] \<noteq> Inl EscPanic"
  "scan_unicode_escape_string unit_sink escape quote cs () \<noteq> Inl EscPanic"
proof -
  have "map_sum id g r \<noteq> Inl EscPanic" if "no_panic r" for g :: "nat list \<Rightarrow> 'b" and r
    using that by (cases r) (simp_all add: no_panic_def)
  from this[OF unicode_chars_no_panic] show
    "scan_unicode_escape_string string_sink escape quote cs [] \<noteq> Inl EscPanic"
    unfolding scan_string .
  have "map_sum id g r \<noteq> Inl EscPanic" if "no_panic r" for g :: "nat list \<Rightarrow> unit" and r
    using that by (cases r) (simp_all add: no_panic_def)
  from this[OF unicode_chars_no_panic] show
    "scan_unicode_escape_string unit_sink escape quote cs () \<noteq> Inl EscPanic"
    unfolding scan_unit .
qed

lemma unicode_valid_total:
  assumes "valid_utf8 s"
  shows "unicode_escape_string_is_valid s \<noteq> None"
proof -
  have np: "no_panic (unicode_lexeme_body s single_quote)" by (rule lexeme_body_text(1)[OF assms]) simp
  then show ?thesis
    using scan_no_panic(2)
    by (auto simp: unicode_escape_string_is_valid_def no_panic_def split: sum.split escape_failure.split prod.split)
qed

lemma unicode_ident_total:
  assumes "valid_utf8 s"
  shows "materialize_unicode_ident s \<noteq> Inl EscPanic"
proof -
  have np: "no_panic (unicode_lexeme_body s double_quote)" by (rule lexeme_body_text(1)[OF assms]) simp
  then show ?thesis
    using scan_no_panic(1) unfolding materialize_unicode_ident_def
    by (auto simp: esc_bind_def no_panic_def split: sum.split prod.split escape_failure.split)
qed

lemma inner_slice_total:
  assumes "valid_utf8 raw" "delimited raw"
  shows "inner_slice raw \<noteq> None"
proof -
  have ne: "raw \<noteq> []" using assms(2) by (auto simp: delimited_def)
  have l: "2 \<le> length raw" "ascii_byte (raw ! 0)" "ascii_byte (raw ! (length raw - 1))"
    using assms(2) unfolding delimited_def hd_conv_nth[OF ne] last_conv_nth[OF ne] by simp_all
  have "0 < length raw" "length raw - 1 < length raw" using l(1) by linarith+
  then have "is_char_boundary raw 1" "is_char_boundary raw (length raw - 1)"
    using ascii_then_boundary(2)[OF assms(1), of 0] ascii_then_boundary(1)[OF assms(1), of "length raw - 1"] l by auto
  with l(1) show ?thesis by (simp add: inner_slice_def str_slice_def)
qed

lemma quoted_ident_total:
  assumes "valid_utf8 raw" "delimited raw" "hd raw = CHR 0x22 \<or> hd raw = CHR 0x60 \<or> hd raw = CHR ''[''"
  shows "materialize_quoted_ident raw \<noteq> None"
  using assms(3) inner_slice_total[OF assms(1,2)] assms(2)
  by (cases raw) (auto simp: materialize_quoted_ident_def delimited_def)

subsection \<open>Names\<close>

lemma yields_fail_lex [yields_rules]: "yields src f ts (fail_lex kind sp) Q"
  unfolding fail_lex_def by (rule yields_fail)

lemma yields_finish_ident [yields_rules]: "yields src f ts (finish_ident symb quote sp) (\<lambda>us i. us = ts)"
  unfolding finish_ident_def
  by (rule yields_bind, rule yields_make_meta, intro agnostic_rules, rule yields_return, simp)

lemma advanced_cases: "advanced src ts us t \<Longrightarrow> ts = tok # rest_ts \<Longrightarrow> us = rest_ts \<and> t = Some tok \<and> token_fits src tok"
  by (simp add: advanced_def)

lemma peekedD: "peeked src ts 0 us t \<Longrightarrow> us = ts"
  "peeked src ts 0 us (Some tok) \<Longrightarrow> ts \<noteq> [] \<and> hd ts = tok \<and> token_fits src tok"
  by (auto simp: peeked_def get_at_def hd_conv_nth split: if_splits)

lemma yields_consume_uescape [yields_rules]:
  assumes "span_ok src sp"
  shows "yields src f ts (consume_optional_uescape sp) (\<lambda>us x. span_ok src x)"
proof -
  have arg: "yields src f us (pbind (span_text (token_span e)) (\<lambda>s.
      pbind (or_panic (uescape_argument_is_legal s)) (\<lambda>legal.
        if \<not> legal then fail_lex InvalidEscapeSequence (token_span e)
        else pbind advance (\<lambda>_. preturn (span_union sp (token_span e)))))) (\<lambda>us x. span_ok src x)"
    if "token_fits src e" for us e
    by (rule yields_bind[OF yields_span_text[OF token_fits_span[OF that]]], intro agnostic_rules)
       (auto intro!: yields_bind[OF yields_or_panic] yields_if yields_fail_lex yields_bind[OF yields_advance] yields_return
          agnostic_rules span_ok_union assms token_fits_span[OF that] dest: uescape_legal_total)
  show ?thesis
    unfolding consume_optional_uescape_def
    by (rule yields_bind[OF yields_peek(1)], intro agnostic_rules)
       (auto simp: assms dest: peekedD
         intro!: yields_option yields_if yields_return yields_unexpected arg agnostic_rules
           yields_bind[OF yields_advance] yields_bind[OF yields_peek(1)])
qed

text \<open>The name an admissible token stands for.\<close>

lemma token_admissible_kinds:
  "token_admissible tok reserved \<Longrightarrow> token_kind tok = Tk_Word \<or> (\<exists>kw. token_kind tok = Tk_Keyword kw) \<or> token_kind tok = Tk_QuotedIdent"
  by (cases "(tok, reserved)" rule: token_admissible.cases) auto

lemma yields_ident_of_token:
  assumes fits: "token_fits src tok"
    and kind: "token_kind tok = Tk_Word \<or> (\<exists>kw. token_kind tok = Tk_Keyword kw) \<or> token_kind tok = Tk_QuotedIdent"
  shows "yields src f ts (ident_of_token tok) (\<lambda>us i. True)"
proof -
  have plain: "yields src f ts (pbind (intern_identifier tok) (\<lambda>symb. finish_ident symb Qs_None (token_span tok))) (\<lambda>us i. True)"
    by (rule yields_bind[OF yields_intern_identifier[OF fits]], intro agnostic_rules)
       (rule yields_mono[OF yields_finish_ident], simp)
  note sp = token_fits_span[OF fits]
  let ?raw = "subslice src (span_start (token_span tok)) (span_end (token_span tok))"
  have whole: "yields src f us (pbind (span_text x) (\<lambda>whole. case materialize_unicode_ident whole of
              Inl EscPanic \<Rightarrow> pfail Parse_Panic
            | Inl EscErr \<Rightarrow> fail_lex InvalidEscapeSequence x
            | Inr value \<Rightarrow> pbind (intern_text value) (\<lambda>symb. finish_ident symb Qs_UnicodeDouble x))) (\<lambda>us i. True)"
    if "span_ok src x" for us x
    by (rule yields_bind[OF yields_span_text[OF that]], intro agnostic_rules)
       (auto intro!: yields_fail_lex yields_bind[OF yields_intern] agnostic_rules
          intro: yields_mono[OF yields_finish_ident] dest!: unicode_ident_total split: sum.split escape_failure.split)
  have uni: "yields src f us (pbind (consume_optional_uescape (token_span tok)) (\<lambda>sp.
          pbind (span_text sp) (\<lambda>whole. case materialize_unicode_ident whole of
              Inl EscPanic \<Rightarrow> pfail Parse_Panic
            | Inl EscErr \<Rightarrow> fail_lex InvalidEscapeSequence sp
            | Inr value \<Rightarrow> pbind (intern_text value) (\<lambda>symb. finish_ident symb Qs_UnicodeDouble sp)))) (\<lambda>us i. True)" for us
    by (rule yields_bind[OF yields_consume_uescape[OF sp]], intro agnostic_rules, rule whole)
  have quoted: "yields src f us (pbind (or_panic (materialize_quoted_ident ?raw)) (\<lambda>(quote, value).
          pbind (intern_text value) (\<lambda>symb. finish_ident symb quote (token_span tok)))) (\<lambda>us i. True)"
    if "\<not> is_unicode_ident ?raw" "valid_utf8 ?raw" "token_kind tok = Tk_QuotedIdent" for us
  proof (rule yields_bind[OF yields_or_panic], goal_cases)
    case 1
    from fits that show ?case
      by (intro quoted_ident_total) (simp_all add: token_fits_def lexeme_shaped_def lexeme_of_def Let_def)
  qed (auto intro!: agnostic_rules yields_bind[OF yields_intern] yields_prod intro: yields_mono[OF yields_finish_ident])
  have ident: "yields src f ts (ident_of_token tok) (\<lambda>us i. True)" if k: "token_kind tok = Tk_QuotedIdent"
    unfolding ident_of_token_def k token_kind.case
    by (rule yields_bind[OF yields_span_text[OF sp]], intro agnostic_rules)
       (use uni quoted k in \<open>auto intro!: yields_if\<close>)
  from kind show ?thesis
  proof (elim disjE exE)
    show "token_kind tok = Tk_Word \<Longrightarrow> ?thesis" using plain by (simp add: ident_of_token_def)
    show "token_kind tok = Tk_Keyword kw \<Longrightarrow> ?thesis" for kw using plain by (simp add: ident_of_token_def)
  qed (rule ident)
qed

lemma yields_ident_admitting [yields_rules]:
  "yields src f ts (parse_ident_admitting reserved expected) (\<lambda>us i. length us < length ts)"
  unfolding parse_ident_admitting_def
proof (rule yields_bind[OF yields_peek(1)], intro agnostic_rules)
  fix us t assume p: "peeked src ts 0 us t"
  have "yields src f (tok # vs) (pbind advance (\<lambda>_. ident_of_token tok)) (\<lambda>us i. length us < length (tok # vs))"
    if "token_admissible tok reserved" "token_fits src tok" for tok vs
  proof (rule yields_bind[OF yields_advance], intro agnostic_rules)
    fix ws t assume "advanced src (tok # vs) ws t"
    then have "ws = vs" by (simp add: advanced_def)
    then show "yields src f ws (ident_of_token tok) (\<lambda>us i. length us < length (tok # vs))"
      by (intro yields_mono[OF yields_ident_of_token[OF that(2) token_admissible_kinds[OF that(1)]]])
         (auto dest: suffix_length_le)
  qed
  with p show "yields src f us (case t of
      Some tok \<Rightarrow> if token_admissible tok reserved then pbind advance (\<lambda>_. ident_of_token tok) else unexpected expected
    | None \<Rightarrow> unexpected expected) (\<lambda>us i. length us < length ts)"
    by (cases ts) (auto simp: peeked_def get_at_def intro!: yields_option yields_if yields_unexpected)
qed

lemma yields_idents [yields_rules]:
  "yields src f ts parse_ident (\<lambda>us i. length us < length ts)"
  "yields src f ts parse_as_alias_ident (\<lambda>us i. length us < length ts)"
  "yields src f ts parse_bare_alias_ident (\<lambda>us i. length us < length ts)"
  "yields src f ts parse_type_function_name_ident (\<lambda>us i. length us < length ts)"
  unfolding parse_ident_def parse_as_alias_ident_def parse_bare_alias_ident_def parse_type_function_name_ident_def
  by (rule yields_bind[OF yields_features], intro agnostic_rules, simp, rule yields_ident_admitting)+

subsection \<open>String constants in name position\<close>

lemma yields_string_alias [yields_rules]:
  "yields src f ts parse_string_alias_ident (\<lambda>us i. if i = None then us = ts else length us < length ts)"
  unfolding parse_string_alias_ident_def
proof (rule yields_bind[OF yields_peek(1)], intro agnostic_rules)
  fix us t assume p: "peeked src ts 0 us t"
  let ?Q = "\<lambda>vs i. if i = None then vs = ts else length vs < length ts"
  have str: "yields src f us (pbind (span_text (token_span tok)) (\<lambda>raw.
          case (if get_at raw 0 = Some (CHR 0x27) then Some (Qs_Single, CHR 0x27)
                else if get_at raw 0 = Some (CHR 0x22) then Some (Qs_Double, CHR 0x22) else None) of
            None \<Rightarrow> preturn None
          | Some (quote, delim) \<Rightarrow>
              pbind advance (\<lambda>_.
              pbind (or_panic (inner_slice raw)) (\<lambda>inner.
              pbind (intern_text (undouble delim inner)) (\<lambda>symb.
              pbind (finish_ident symb quote (token_span tok)) (\<lambda>i. preturn (Some i))))))) ?Q"
    if k: "token_kind tok = Tk_String" and t: "t = Some tok" for tok
  proof -
    have fits: "us = ts" "ts \<noteq> []" "hd ts = tok" "token_fits src tok" using p t peekedD by auto
    let ?raw = "subslice src (span_start (token_span tok)) (span_end (token_span tok))"
    have inner: "yields src f vs (pbind (or_panic (inner_slice ?raw)) (\<lambda>inner.
              pbind (intern_text (undouble delim inner)) (\<lambda>symb.
              pbind (finish_ident symb quote (token_span tok)) (\<lambda>i. preturn (Some i))))) ?Q"
      if "hd ?raw = CHR 0x22 \<or> hd ?raw = CHR 0x27" "valid_utf8 ?raw" "length vs < length ts" for vs quote delim
      by (rule yields_bind[OF yields_or_panic])
         (use that fits k in \<open>auto simp: token_fits_def lexeme_shaped_def lexeme_of_def Let_def dest!: inner_slice_total
            intro!: agnostic_rules yields_bind[OF yields_intern] yields_bind[OF yields_finish_ident] yields_return\<close>)
    show ?thesis
    proof (rule yields_bind[OF yields_span_text[OF token_fits_span[OF fits(4)]]], intro agnostic_rules, elim conjE, hypsubst)
      assume v: "valid_utf8 ?raw"
      have h: "hd ?raw = b" if "get_at ?raw 0 = Some b" for b using that by (auto simp: get_at_def hd_conv_nth split: if_splits)
      have adv: "yields src f us (pbind advance (\<lambda>_. pbind (or_panic (inner_slice ?raw)) (\<lambda>inner.
              pbind (intern_text (undouble delim inner)) (\<lambda>symb.
              pbind (finish_ident symb quote (token_span tok)) (\<lambda>i. preturn (Some i)))))) ?Q"
        if q: "hd ?raw = CHR 0x22 \<or> hd ?raw = CHR 0x27" for quote delim
        by (rule yields_bind[OF yields_advance], intro agnostic_rules, rule inner[OF q v])
           (use fits in \<open>auto simp: advanced_def split: list.splits\<close>)
      show "yields src f us
     (case (if get_at ?raw 0 = Some (CHR 0x27) then Some (Qs_Single, CHR 0x27)
                else if get_at ?raw 0 = Some (CHR 0x22) then Some (Qs_Double, CHR 0x22) else None) of
            None \<Rightarrow> preturn None
          | Some (quote, delim) \<Rightarrow>
              pbind advance (\<lambda>_.
              pbind (or_panic (inner_slice ?raw)) (\<lambda>inner.
              pbind (intern_text (undouble delim inner)) (\<lambda>symb.
              pbind (finish_ident symb quote (token_span tok)) (\<lambda>i. preturn (Some i)))))) ?Q"
        using adv h fits by (auto intro!: yields_return simp del: get_at_Some)
    qed
  qed
  show "yields src f us (case t of
      None \<Rightarrow> preturn None
    | Some tok \<Rightarrow>
        if token_kind tok \<noteq> Tk_String then preturn None
        else pbind (span_text (token_span tok)) (\<lambda>raw.
          case (if get_at raw 0 = Some (CHR 0x27) then Some (Qs_Single, CHR 0x27)
                else if get_at raw 0 = Some (CHR 0x22) then Some (Qs_Double, CHR 0x22) else None) of
            None \<Rightarrow> preturn None
          | Some (quote, delim) \<Rightarrow>
              pbind advance (\<lambda>_.
              pbind (or_panic (inner_slice raw)) (\<lambda>inner.
              pbind (intern_text (undouble delim inner)) (\<lambda>symb.
              pbind (finish_ident symb quote (token_span tok)) (\<lambda>i. preturn (Some i))))))) ?Q"
    by (rule yields_option, rule yields_return)
       (use p peekedD(1) in simp, rule yields_if, rule yields_return, use p peekedD(1) in simp, rule str, simp_all)
qed

lemma yields_string_names [yields_rules]:
  "yields src f ts (parse_string_or_ident_admitting reserved) (\<lambda>us i. length us < length ts)"
  "yields src f ts (parse_ident_allowing_string_literal reserved) (\<lambda>us i. length us < length ts)"
  "yields src f ts parse_column_ident_allowing_string_literal (\<lambda>us i. length us < length ts)"
proof -
  have a: "yields src f ts (parse_string_or_ident_admitting reserved) (\<lambda>us i. length us < length ts)" for reserved
    unfolding parse_string_or_ident_admitting_def
    by (rule yields_bind[OF yields_string_alias], intro agnostic_rules)
       (auto intro!: yields_option yields_return yields_ident_admitting)
  have b: "yields src f ts (parse_ident_allowing_string_literal reserved) (\<lambda>us i. length us < length ts)" for reserved
    unfolding parse_ident_allowing_string_literal_def
    by (rule yields_bind[OF yields_features], intro agnostic_rules) (auto intro!: yields_if a yields_ident_admitting)
  show "yields src f ts (parse_string_or_ident_admitting reserved) (\<lambda>us i. length us < length ts)"
    "yields src f ts (parse_ident_allowing_string_literal reserved) (\<lambda>us i. length us < length ts)" by (rule a b)+
  show "yields src f ts parse_column_ident_allowing_string_literal (\<lambda>us i. length us < length ts)"
    unfolding parse_column_ident_allowing_string_literal_def
    by (rule yields_bind[OF yields_features], intro agnostic_rules) (auto intro: b)
qed

subsection \<open>Dotted names\<close>

interpretation object_names: loop_body src f object_name_part "\<lambda>us parts. True" "\<lambda>us parts. True" for src f
proof unfold_locales
  fix ts :: "token list" and parts :: "ident list"
  show "agnostic (object_name_part parts)" by (rule agnostic_object_name)
  have dot: "yields src f us (pbind advance (\<lambda>_. pbind parse_as_alias_ident (\<lambda>part. again (parts @ [part]))))
      (\<lambda>us r. case r of Inl s' \<Rightarrow> length us < length ts \<and> True | Inr (x :: ident list) \<Rightarrow> True)" if "suffix us ts" for us
    by (rule yields_bind[OF yields_advance], intro agnostic_rules, rule yields_bind[OF yields_idents(2)], intro agnostic_rules)
       (use suffix_length_le[OF that] in \<open>auto intro!: yields_return dest!: suffix_length_le\<close>)
  show "yields src f ts (object_name_part parts)
      (\<lambda>us r. case r of Inl s' \<Rightarrow> length us < length ts \<and> True | Inr (x :: ident list) \<Rightarrow> True)"
    unfolding object_name_part_def
    by (rule yields_bind[OF yields_kind_checks(2)], intro agnostic_rules)
       (rule yields_if, rule yields_return, simp, rule yields_bind[OF yields_peek(2)], intro agnostic_rules,
        rule yields_if, rule yields_return, simp, rule dot, simp add: peeked_def)
qed

lemma yields_object_name [yields_rules]:
  "yields src f ts (parse_object_name_with reserved) (\<lambda>us parts. length us < length ts)"
  unfolding parse_object_name_with_def
  by (rule yields_bind[OF yields_ident_admitting], intro agnostic_rules)
     (rule yields_mono[OF object_names.ploop_yields], auto dest: suffix_length_le)

subsection \<open>String constants in value position\<close>

definition before_all :: "span \<Rightarrow> token list \<Rightarrow> bool" where
  "before_all sp ts \<longleftrightarrow> (\<forall>t \<in> set ts. span_end sp \<le> span_start (token_span t))"

lemma before_all_suffix: "before_all sp ts \<Longrightarrow> suffix us ts \<Longrightarrow> before_all sp us"
  by (auto simp: before_all_def dest: set_mono_suffix)

lemma before_all_union:
  assumes "before_all (token_span t) ts" "before_all sp (t # ts)" "span_ok src sp" "span_ok src (token_span t)"
  shows "before_all (span_union sp (token_span t)) ts"
  using assms by (auto simp: before_all_def span_union_def)

lemma yields_gap:
  assumes "span_ok src sp" "token_fits src t" "span_end sp \<le> span_start (token_span t)"
  shows "yields src f ts (gap_span sp t) (\<lambda>us g. us = ts \<and> span_ok src g)"
proof -
  have "span_ok src (Span (span_end sp) (span_start (token_span t)))"
    using assms(1,3) token_fits_span[OF assms(2)] by (auto simp: span_okI is_synthetic_def u32_max_def)
  with assms(3) show ?thesis
    unfolding gap_span_def by (intro yields_mono[OF yields_or_panic]) (auto simp: span_new_def)
qed

lemma yields_gap_kind:
  "yields src f ts a Q \<Longrightarrow> yields src f ts b Q \<Longrightarrow> yields src f ts c Q
     \<Longrightarrow> yields src f ts (case g of Gap_Newline \<Rightarrow> a | Gap_SameLine \<Rightarrow> b | Gap_NotWhitespace \<Rightarrow> c) Q"
  by (cases g) simp_all

abbreviation continues :: "source \<Rightarrow> token list \<Rightarrow> span \<Rightarrow> bool" where
  "continues src us sp \<equiv> span_ok src sp \<and> before_all sp us"

interpretation continuations: loop_body src f "continuation_round err" "continues src" "\<lambda>us sp. continues src us sp" for src f err
proof unfold_locales
  fix ts :: "token list" and sp :: span
  show "agnostic (continuation_round err sp)" by (rule agnostic_strings)
  assume inv: "continues src ts sp"
  let ?Q = "\<lambda>us r. case r of Inl s' \<Rightarrow> length us < length ts \<and> continues src us s' | Inr (x :: span) \<Rightarrow> continues src us x"
  have stay: "yields src f ts (leave sp) ?Q" by (rule yields_return) (simp add: inv)
  show "yields src f ts (continuation_round err sp) ?Q"
    unfolding continuation_round_def
  proof (rule yields_bind[OF yields_peek(1)], intro agnostic_rules, goal_cases)
    case (1 us t)
    then have us: "us = ts" by (simp add: peeked_def)
    show ?case
      unfolding us
    proof (rule yields_option, rule stay, rule yields_if, rule stay, goal_cases)
      case nxt: (1 nxt)
      with 1(1) peekedD(2)[of src ts us nxt] obtain vs where t: "ts = nxt # vs" "token_fits src nxt" by (cases ts) auto
      note tsp = token_fits_span[OF t(2)]
      have le: "span_end sp \<le> span_start (token_span nxt)" using inv t by (simp add: before_all_def)
      have join: "yields src f ts (pbind advance (\<lambda>_. again (span_union sp (token_span nxt)))) ?Q"
        by (rule yields_bind[OF yields_advance], intro agnostic_rules, rule yields_return)
           (use inv t tsp in \<open>auto simp: advanced_def span_ok_union before_all_def[of "token_span nxt"] intro!: before_all_union\<close>)
      show ?case
        by (rule yields_bind[OF yields_span_text[OF tsp]], intro agnostic_rules, elim conjE, hypsubst,
            rule yields_if, rule stay, rule yields_bind[OF yields_gap[OF _ t(2) le]], use inv in simp, intro agnostic_rules,
            elim conjE, hypsubst, rule yields_bind[OF yields_span_text], assumption, intro agnostic_rules, elim conjE, hypsubst,
            rule yields_gap_kind, rule join, rule yields_bind[OF yields_features], intro agnostic_rules, elim conjE, hypsubst,
            rule yields_if, rule join, rule yields_if, rule yields_bind[OF yields_span_text[OF tsp]], intro agnostic_rules,
            rule yields_error_at, rule stay, rule stay)
    qed
  qed
qed

lemma yields_continuations [yields_rules]:
  assumes "span_ok src sp" "before_all sp ts"
  shows "yields src f ts (consume_string_continuations_with sp s err) (\<lambda>us x. span_ok src x)"
    "yields src f ts (consume_string_continuations sp s) (\<lambda>us x. span_ok src x)"
proof -
  have y: "yields src f ts (consume_string_continuations_with sp s err) (\<lambda>us x. span_ok src x)" for err
    unfolding consume_string_continuations_with_def
    by (rule yields_if, rule yields_return, rule assms, rule yields_mono[OF continuations.ploop_yields])
       (use assms in auto)
  then show "yields src f ts (consume_string_continuations_with sp s err) (\<lambda>us x. span_ok src x)"
    "yields src f ts (consume_string_continuations sp s) (\<lambda>us x. span_ok src x)"
    by (simp_all add: consume_string_continuations_def)
qed

lemma yields_string_literal [yields_rules]:
  assumes "token_fits src tok"
  shows "yields src f (tok # ts) (parse_string_literal tok)
    (\<lambda>us e. length us \<le> length ts \<and> (\<exists>l m. e = Expr_Literal l m \<and> span_ok src (meta_span (lit_meta l))))"
proof -
  note sp = token_fits_span[OF assms]
  show ?thesis
    unfolding parse_string_literal_def Let_def
  proof (rule yields_bind[OF yields_advance], intro agnostic_rules, goal_cases)
    case (1 us t)
    then have us: "us = ts" "before_all (token_span tok) ts" by (simp_all add: advanced_def before_all_def)
    have valid: "yields src f vs (pbind (consume_optional_uescape x) (\<lambda>sp2. pbind (span_text sp2) (\<lambda>whole.
              pbind (or_panic (unicode_escape_string_is_valid whole)) (\<lambda>valid.
                if \<not> valid then fail_lex InvalidEscapeSequence sp2 else preturn sp2)))) (\<lambda>us x. span_ok src x)"
      if "span_ok src x" for vs x
      by (rule yields_bind[OF yields_consume_uescape[OF that]], intro agnostic_rules,
          rule yields_bind[OF yields_span_text], assumption, intro agnostic_rules,
          rule yields_bind[OF yields_or_panic], use unicode_valid_total in blast, intro agnostic_rules,
          rule yields_if, rule yields_fail_lex, rule yields_return, assumption)
    have len: "length vs \<le> length ts" if "suffix vs xs" "suffix xs ts" for vs xs
      using suffix_length_le[OF that(1)] suffix_length_le[OF that(2)] by simp
    show ?case
      unfolding us
      by (rule yields_bind[OF yields_span_text[OF sp]], intro agnostic_rules, elim conjE, hypsubst,
          rule yields_bind[OF yields_continuations(2)[OF sp us(2)]], intro agnostic_rules,
          rule yields_bind, rule yields_if, rule valid, assumption, rule yields_return, assumption, intro agnostic_rules,
          rule yields_bind[OF yields_make_meta], intro agnostic_rules, rule yields_bind[OF yields_make_meta], intro agnostic_rules,
          rule yields_return)
         (auto dest: len)
  qed
qed

end
