(* ===== verification/Transactions.thy ===== *)
theory Transactions
  imports Identifiers
begin

text \<open>
  Transaction control: the AST (\<open>crates/squonk-ast/src/ast/tcl.rs\<close>) and its grammar
  (\<open>crates/squonk/src/parser/tcl.rs\<close>), the MySQL \<open>XA\<close> family included.

  The tree types are written over the types of their identifiers, literals and metadata; the
  program's trees are the instances at \<open>ident\<close>, \<open>literal\<close> and \<open>meta\<close>, and forgetting spans and node
  ids, or resolving symbols, is a use of the map function of the type.
\<close>

subsection \<open>The tree\<close>

datatype transaction_start = Start_Begin | Start_Start

datatype transaction_commit_keyword = Kw_Commit | Kw_End

datatype transaction_rollback_keyword = Kw_Rollback | Kw_Abort

datatype transaction_block_keyword = Block_Transaction | Block_Work

datatype transaction_mode_kind = Deferred | Immediate | Exclusive

datatype isolation_level = ReadUncommitted | ReadCommitted | RepeatableRead | Serializable

datatype transaction_access_mode = ReadOnly | ReadWrite

datatype 'm transaction_mode =
    IsolationLevel isolation_level 'm
  | AccessMode transaction_access_mode 'm
  | Deferrable bool 'm
  | ConsistentSnapshot 'm

datatype ('i, 'm) transaction_statement =
    Tx_Begin transaction_start "transaction_mode_kind option" "transaction_block_keyword option"
      "'i option" "'m transaction_mode list" 'm
  | Tx_Commit transaction_commit_keyword "transaction_block_keyword option" "'i option"
      "bool option" "bool option" 'm
  | Tx_Rollback transaction_rollback_keyword "transaction_block_keyword option" "'i option" bool
      "'i option" "bool option" "bool option" 'm
  | Tx_Savepoint 'i 'm
  | Tx_Release bool 'i 'm
  | Tx_SetCharacteristics "'m transaction_mode list" 'm

datatype xa_start_keyword = Xa_Kw_Start | Xa_Kw_Begin

datatype xa_association = Xa_Join | Xa_Resume

datatype xa_suspend = Xa_Suspend | Xa_SuspendForMigrate

datatype ('l, 'm) xid = Xid 'l "'l option" "'l option" 'm

datatype ('l, 'm) xa_statement =
    Xa_Start xa_start_keyword "('l, 'm) xid" "xa_association option" 'm
  | Xa_End "('l, 'm) xid" "xa_suspend option" 'm
  | Xa_Prepare "('l, 'm) xid" 'm
  | Xa_Commit "('l, 'm) xid" bool 'm
  | Xa_Rollback "('l, 'm) xid" 'm
  | Xa_Recover bool 'm

type_synonym tx_statement = "(ident, meta) transaction_statement"
type_synonym xa_stmt = "(literal, meta) xa_statement"

text \<open>The two variants of \<open>Statement\<close> this grammar builds.\<close>

datatype tcl_statement = Stmt_Transaction tx_statement meta | Stmt_Xa xa_stmt meta

fun same_transaction_mode_kind :: "'m transaction_mode \<Rightarrow> 'm transaction_mode \<Rightarrow> bool" where
  "same_transaction_mode_kind (IsolationLevel _ _) (IsolationLevel _ _) \<longleftrightarrow> True"
| "same_transaction_mode_kind (AccessMode _ _) (AccessMode _ _) \<longleftrightarrow> True"
| "same_transaction_mode_kind (Deferrable _ _) (Deferrable _ _) \<longleftrightarrow> True"
| "same_transaction_mode_kind (ConsistentSnapshot _) (ConsistentSnapshot _) \<longleftrightarrow> True"
| "same_transaction_mode_kind _ _ \<longleftrightarrow> False"

subsection \<open>Guards\<close>

abbreviation tx :: "(transaction_syntax \<Rightarrow> 'a) \<Rightarrow> 'a parse" where
  "tx g \<equiv> pget (\<lambda>p. g (transaction_syntax (pa_features p)))"

text \<open>\<open>flag && check\<close>.\<close>

definition gated :: "bool \<Rightarrow> bool parse \<Rightarrow> bool parse" where
  "gated flag check = (if flag then check else preturn False)"

definition p_or :: "bool parse \<Rightarrow> bool parse \<Rightarrow> bool parse" where
  "p_or a b = pbind a (\<lambda>x. if x then preturn True else b)"

definition p_and :: "bool parse \<Rightarrow> bool parse \<Rightarrow> bool parse" where
  "p_and a b = pbind a (\<lambda>x. if x then b else preturn False)"

text \<open>\<open>self.make_meta(start.union(self.preceding_span()))\<close>.\<close>

definition meta_from :: "span \<Rightarrow> meta parse" where
  "meta_from start = pbind (pget (\<lambda>p. span_union start (preceding_span p))) make_meta"

definition peek_starts_transaction_statement :: "bool parse" where
  "peek_starts_transaction_statement = pbind (tx id) (\<lambda>syntax.
     p_or (peek_is_contextual_keyword ''BEGIN'')
    (p_or (gated (tx_start_transaction syntax) (peek_is_contextual_keyword ''START''))
    (p_or (peek_is_contextual_keyword ''COMMIT'')
    (p_or (gated (tx_end_transaction_alias syntax) (peek_is_contextual_keyword ''END''))
    (p_or (peek_is_contextual_keyword ''ROLLBACK'')
    (p_or (gated (tx_abort_transaction_alias syntax) (peek_is_contextual_keyword ''ABORT''))
    (p_or (gated (tx_transaction_savepoints syntax)
             (p_or (peek_is_contextual_keyword ''SAVEPOINT'') (peek_is_contextual_keyword ''RELEASE'')))
          (gated (tx_set_transaction syntax)
             (p_and (peek_is_contextual_keyword ''SET'') (peek_nth_is_contextual_keyword 1 ''TRANSACTION''))))))))))"

subsection \<open>Transaction modes\<close>

definition parse_isolation_level :: "isolation_level parse" where
  "parse_isolation_level =
     pbind (eat_contextual_keyword ''READ'') (\<lambda>read.
     if read then
       pbind (eat_contextual_keyword ''UNCOMMITTED'') (\<lambda>u. if u then preturn ReadUncommitted
       else pbind (eat_contextual_keyword ''COMMITTED'') (\<lambda>c. if c then preturn ReadCommitted
       else unexpected ''`UNCOMMITTED` or `COMMITTED` after `READ`''))
     else pbind (eat_contextual_keyword ''REPEATABLE'') (\<lambda>rep.
       if rep then pbind (expect_contextual_keyword ''READ'') (\<lambda>_. preturn RepeatableRead)
       else pbind (eat_contextual_keyword ''SERIALIZABLE'') (\<lambda>s. if s then preturn Serializable
       else unexpected ''an isolation level'')))"

definition parse_optional_transaction_mode ::
    "bool \<Rightarrow> bool \<Rightarrow> bool \<Rightarrow> bool \<Rightarrow> meta transaction_mode option parse" where
  "parse_optional_transaction_mode isolation access deferrable consistent_snapshot =
     pbind current_span (\<lambda>start.
     pbind (gated isolation (eat_contextual_keyword ''ISOLATION'')) (\<lambda>i.
     if i then
       pbind (expect_contextual_keyword ''LEVEL'') (\<lambda>_.
       pbind parse_isolation_level (\<lambda>level.
       pbind (meta_from start) (\<lambda>m. preturn (Some (IsolationLevel level m)))))
     else pbind (gated access (eat_contextual_keyword ''READ'')) (\<lambda>a.
     if a then
       pbind (pbind (eat_contextual_keyword ''ONLY'') (\<lambda>y. if y then preturn ReadOnly
         else pbind (eat_contextual_keyword ''WRITE'') (\<lambda>w. if w then preturn ReadWrite
         else unexpected ''`ONLY` or `WRITE` after `READ`''))) (\<lambda>mode.
       pbind (meta_from start) (\<lambda>m. preturn (Some (AccessMode mode m))))
     else pbind (gated deferrable (eat_contextual_keyword ''DEFERRABLE'')) (\<lambda>d.
     if d then pbind (meta_from start) (\<lambda>m. preturn (Some (Deferrable True m)))
     else pbind (gated deferrable (eat_contextual_keyword ''NOT'')) (\<lambda>n.
     if n then
       pbind (expect_contextual_keyword ''DEFERRABLE'') (\<lambda>_.
       pbind (meta_from start) (\<lambda>m. preturn (Some (Deferrable False m))))
     else pbind (gated consistent_snapshot (eat_contextual_keyword ''WITH'')) (\<lambda>w.
     if w then
       pbind (expect_contextual_keyword ''CONSISTENT'') (\<lambda>_.
       pbind (expect_contextual_keyword ''SNAPSHOT'') (\<lambda>_.
       pbind (meta_from start) (\<lambda>m. preturn (Some (ConsistentSnapshot m)))))
     else preturn None))))))"

text \<open>One round of the mode list: the modes so far, and whether a comma demands another.\<close>

definition transaction_modes_round ::
    "bool \<Rightarrow> bool \<Rightarrow> bool \<Rightarrow> bool \<Rightarrow> meta transaction_mode list \<times> bool
     \<Rightarrow> ((meta transaction_mode list \<times> bool) + meta transaction_mode list) parse" where
  "transaction_modes_round isolation access deferrable consistent_snapshot = (\<lambda>(modes, mode_required).
     pbind (parse_optional_transaction_mode isolation access deferrable consistent_snapshot) (\<lambda>r. case r of
       None \<Rightarrow> if mode_required then unexpected ''a transaction mode after `,`'' else leave modes
     | Some mode \<Rightarrow>
         pbind (tx tx_transaction_modes_reject_duplicates) (\<lambda>reject.
         if reject \<and> list_ex (\<lambda>existing. same_transaction_mode_kind existing mode) modes
         then unexpected ''a transaction mode that has not already appeared''
         else pbind (tx tx_transaction_multiple_modes) (\<lambda>multiple.
           if \<not> multiple then leave (modes @ [mode])
           else pbind (eat_punct P_Comma) (\<lambda>comma.
             pbind (tx tx_transaction_modes_require_commas) (\<lambda>require.
               if require \<and> \<not> comma then leave (modes @ [mode])
               else again (modes @ [mode], comma)))))))"

definition parse_transaction_modes_with ::
    "bool \<Rightarrow> bool \<Rightarrow> bool \<Rightarrow> bool \<Rightarrow> meta transaction_mode list parse" where
  "parse_transaction_modes_with isolation access deferrable consistent_snapshot =
     ploop (transaction_modes_round isolation access deferrable consistent_snapshot) ([], False)"

definition parse_transaction_modes :: "meta transaction_mode list parse" where
  "parse_transaction_modes = pbind (tx id) (\<lambda>s.
     parse_transaction_modes_with (tx_transaction_isolation_mode s) (tx_transaction_access_mode s)
       (tx_transaction_deferrable_mode s) False)"

subsection \<open>The parts of a statement\<close>

definition parse_transaction_chain :: "bool option parse" where
  "parse_transaction_chain =
     pbind (tx tx_transaction_chain) (\<lambda>allowed.
     pbind (gated allowed (eat_contextual_keyword ''AND'')) (\<lambda>a.
     if \<not> a then preturn None
     else pbind (eat_contextual_keyword ''NO'') (\<lambda>no.
       pbind (expect_contextual_keyword ''CHAIN'') (\<lambda>_. preturn (Some (\<not> no))))))"

definition parse_transaction_completion :: "(bool option \<times> bool option) parse" where
  "parse_transaction_completion =
     pbind parse_transaction_chain (\<lambda>chain.
     pbind (tx tx_transaction_release) (\<lambda>release_allowed.
     if chain \<noteq> None \<or> \<not> release_allowed then preturn (chain, None)
     else pbind (eat_contextual_keyword ''RELEASE'') (\<lambda>r.
       if r then preturn (None, Some True)
       else pbind (p_and (peek_is_contextual_keyword ''NO'') (peek_nth_is_contextual_keyword 1 ''RELEASE'')) (\<lambda>n.
         if n then
           pbind (expect_contextual_keyword ''NO'') (\<lambda>_.
           pbind (expect_contextual_keyword ''RELEASE'') (\<lambda>_. preturn (None, Some False)))
         else preturn (None, None)))))"

definition eat_transaction_commit_keyword :: "transaction_commit_keyword option parse" where
  "eat_transaction_commit_keyword =
     pbind (eat_contextual_keyword ''COMMIT'') (\<lambda>c. if c then preturn (Some Kw_Commit)
     else pbind (tx tx_end_transaction_alias) (\<lambda>alias.
       pbind (gated alias (eat_contextual_keyword ''END'')) (\<lambda>e.
         preturn (if e then Some Kw_End else None))))"

definition eat_transaction_rollback_keyword :: "transaction_rollback_keyword option parse" where
  "eat_transaction_rollback_keyword =
     pbind (eat_contextual_keyword ''ROLLBACK'') (\<lambda>c. if c then preturn (Some Kw_Rollback)
     else pbind (tx tx_abort_transaction_alias) (\<lambda>alias.
       pbind (gated alias (eat_contextual_keyword ''ABORT'')) (\<lambda>e.
         preturn (if e then Some Kw_Abort else None))))"

definition eat_transaction_block_keyword :: "bool \<Rightarrow> transaction_block_keyword option parse" where
  "eat_transaction_block_keyword transaction_keyword =
     pbind (tx tx_transaction_work_keyword) (\<lambda>work.
     pbind (gated work (eat_contextual_keyword ''WORK'')) (\<lambda>w. if w then preturn (Some Block_Work)
     else pbind (gated transaction_keyword (eat_contextual_keyword ''TRANSACTION'')) (\<lambda>t.
       preturn (if t then Some Block_Transaction else None))))"

definition parse_transaction_name :: "transaction_block_keyword option \<Rightarrow> ident option parse" where
  "parse_transaction_name block =
     pbind (tx tx_transaction_name) (\<lambda>allowed.
     if allowed \<and> block = Some Block_Transaction then
       pbind (features (\<lambda>f. ids_string_literal_identifiers (identifier_syntax f))) (\<lambda>strings.
       pbind peek_token (\<lambda>t.
       if strings \<and> (case t of None \<Rightarrow> False | Some tok \<Rightarrow> token_kind tok = Tk_String)
       then pbind parse_column_ident_allowing_string_literal (\<lambda>i. preturn (Some i))
       else pbind (features reserved_column_name) (\<lambda>reserved.
         if (case t of None \<Rightarrow> False | Some tok \<Rightarrow> token_admissible tok reserved)
         then pbind parse_ident (\<lambda>i. preturn (Some i))
         else preturn None)))
     else preturn None)"

definition parse_savepoint_name :: "ident parse" where
  "parse_savepoint_name = parse_column_ident_allowing_string_literal"

definition parse_transaction_mode_kind :: "transaction_mode_kind option parse" where
  "parse_transaction_mode_kind =
     pbind (tx tx_begin_transaction_mode) (\<lambda>allowed.
     if \<not> allowed then preturn None
     else pbind (eat_contextual_keyword ''DEFERRED'') (\<lambda>d. if d then preturn (Some Deferred)
     else pbind (eat_contextual_keyword ''IMMEDIATE'') (\<lambda>i. if i then preturn (Some Immediate)
     else pbind (eat_contextual_keyword ''EXCLUSIVE'') (\<lambda>e.
       preturn (if e then Some Exclusive else None)))))"

subsection \<open>The statement\<close>

definition parse_begin :: "span \<Rightarrow> tx_statement parse" where
  "parse_begin start =
     pbind parse_transaction_mode_kind (\<lambda>mode.
     pbind (tx tx_begin_transaction_keyword) (\<lambda>keyword.
     pbind (eat_transaction_block_keyword keyword) (\<lambda>block.
     pbind (parse_transaction_name block) (\<lambda>name.
     pbind (tx id) (\<lambda>s.
     pbind (if tx_begin_transaction_modes s
            then parse_transaction_modes_with (tx_transaction_isolation_mode s) (tx_transaction_access_mode s)
              (tx_transaction_deferrable_mode s) False
            else preturn []) (\<lambda>modes.
     pbind (meta_from start) (\<lambda>m.
       preturn (Tx_Begin Start_Begin mode block name modes m))))))))"

definition parse_start :: "span \<Rightarrow> tx_statement parse" where
  "parse_start start =
     pbind (tx id) (\<lambda>s.
     pbind (if tx_start_transaction_block_optional s then eat_transaction_block_keyword True
            else pbind (expect_contextual_keyword ''TRANSACTION'') (\<lambda>_. preturn (Some Block_Transaction))) (\<lambda>block.
     pbind (parse_transaction_modes_with (tx_start_transaction_isolation_mode s) (tx_transaction_access_mode s)
       (tx_start_transaction_deferrable_mode s) (tx_start_transaction_consistent_snapshot s)) (\<lambda>modes.
     pbind (meta_from start) (\<lambda>m.
       preturn (Tx_Begin Start_Start None block None modes m)))))"

definition parse_commit :: "span \<Rightarrow> transaction_commit_keyword \<Rightarrow> tx_statement parse" where
  "parse_commit start syntax =
     pbind (tx tx_commit_transaction_keyword) (\<lambda>keyword.
     pbind (eat_transaction_block_keyword keyword) (\<lambda>block.
     pbind (parse_transaction_name block) (\<lambda>name.
     pbind parse_transaction_completion (\<lambda>(chain, release).
     pbind (meta_from start) (\<lambda>m.
       preturn (Tx_Commit syntax block name chain release m))))))"

definition parse_rollback :: "span \<Rightarrow> transaction_rollback_keyword \<Rightarrow> tx_statement parse" where
  "parse_rollback start syntax =
     pbind (tx tx_rollback_transaction_keyword) (\<lambda>keyword.
     pbind (eat_transaction_block_keyword keyword) (\<lambda>block.
     pbind (parse_transaction_name block) (\<lambda>name.
     pbind (tx tx_transaction_savepoints) (\<lambda>savepoints.
     pbind (gated savepoints (eat_contextual_keyword ''TO'')) (\<lambda>to.
     pbind (if to then pbind (eat_contextual_keyword ''SAVEPOINT'') (\<lambda>k.
              pbind parse_savepoint_name (\<lambda>i. preturn (k, Some i)))
            else preturn (False, None)) (\<lambda>(savepoint_keyword, to_savepoint).
     pbind (if to_savepoint = None then parse_transaction_completion else preturn (None, None)) (\<lambda>(chain, release).
     pbind (meta_from start) (\<lambda>m.
       preturn (Tx_Rollback syntax block name savepoint_keyword to_savepoint chain release m)))))))))"

definition parse_savepoint :: "span \<Rightarrow> tx_statement parse" where
  "parse_savepoint start =
     pbind parse_savepoint_name (\<lambda>name. pbind (meta_from start) (\<lambda>m. preturn (Tx_Savepoint name m)))"

definition parse_release :: "span \<Rightarrow> tx_statement parse" where
  "parse_release start =
     pbind (tx tx_release_savepoint_keyword_optional) (\<lambda>optional.
     pbind (if optional then eat_contextual_keyword ''SAVEPOINT''
            else pbind (expect_contextual_keyword ''SAVEPOINT'') (\<lambda>_. preturn True)) (\<lambda>savepoint_keyword.
     pbind parse_savepoint_name (\<lambda>savepoint.
     pbind (meta_from start) (\<lambda>m. preturn (Tx_Release savepoint_keyword savepoint m)))))"

definition parse_set_transaction :: "span \<Rightarrow> tx_statement parse" where
  "parse_set_transaction start =
     pbind (expect_contextual_keyword ''TRANSACTION'') (\<lambda>_.
     pbind parse_transaction_modes (\<lambda>modes.
     if modes = [] then unexpected ''a transaction mode after `SET TRANSACTION`''
     else pbind (meta_from start) (\<lambda>m. preturn (Tx_SetCharacteristics modes m))))"

definition parse_transaction_statement_kind :: "span \<Rightarrow> tx_statement parse" where
  "parse_transaction_statement_kind start =
     pbind (tx id) (\<lambda>s.
     pbind (eat_contextual_keyword ''BEGIN'') (\<lambda>b. if b then parse_begin start
     else pbind (gated (tx_start_transaction s) (eat_contextual_keyword ''START'')) (\<lambda>b. if b then parse_start start
     else pbind eat_transaction_commit_keyword (\<lambda>c. case c of Some syntax \<Rightarrow> parse_commit start syntax
     | None \<Rightarrow> pbind eat_transaction_rollback_keyword (\<lambda>r. case r of Some syntax \<Rightarrow> parse_rollback start syntax
     | None \<Rightarrow>
       pbind (gated (tx_transaction_savepoints s) (eat_contextual_keyword ''SAVEPOINT'')) (\<lambda>b.
       if b then parse_savepoint start
       else pbind (gated (tx_transaction_savepoints s) (eat_contextual_keyword ''RELEASE'')) (\<lambda>b.
       if b then parse_release start
       else pbind (gated (tx_set_transaction s) (eat_contextual_keyword ''SET'')) (\<lambda>b.
       if b then parse_set_transaction start
       else unexpected ''a transaction-control statement''))))))))"

definition parse_transaction_statement :: "tcl_statement parse" where
  "parse_transaction_statement =
     pbind current_span (\<lambda>start.
     pbind (parse_transaction_statement_kind start) (\<lambda>transaction.
     pbind (meta_from start) (\<lambda>m. preturn (Stmt_Transaction transaction m))))"

subsection \<open>XA transactions\<close>

definition number_literal_kind :: "source \<Rightarrow> bool \<Rightarrow> literal_kind" where
  "number_literal_kind s parse_float_as_decimal =
     (let unsigned_text = (case s of b # bs \<Rightarrow> if b = CHR ''+'' \<or> b = CHR ''-'' then bs else s | [] \<Rightarrow> s) in
      if get_at unsigned_text 0 = Some (CHR ''$'') then Lk_Money
      else if fst (split_radix_prefix unsigned_text) \<noteq> 10 then Lk_Integer
      else if list_ex (\<lambda>b. b = CHR ''.'' \<or> b = CHR ''e'' \<or> b = CHR ''E'') s
      then (if parse_float_as_decimal then Lk_Decimal else Lk_Float)
      else Lk_Integer)"

definition float_as_decimal_enabled :: "bool parse" where
  "float_as_decimal_enabled = pget pa_parse_float_as_decimal"

definition number_literal :: "token \<Rightarrow> literal parse" where
  "number_literal tok =
     pbind advance (\<lambda>_.
     pbind (span_text (token_span tok)) (\<lambda>s.
     pbind float_as_decimal_enabled (\<lambda>decimal.
     pbind (make_meta (token_span tok)) (\<lambda>m.
       preturn \<lparr>lit_kind = number_literal_kind s decimal, lit_meta = m\<rparr>))))"

definition parse_xid_text :: "string \<Rightarrow> literal parse" where
  "parse_xid_text expected = pbind peek_token (\<lambda>t. case t of
      None \<Rightarrow> unexpected expected
    | Some tok \<Rightarrow>
        if token_kind tok = Tk_String then
          pbind (parse_string_literal tok) (\<lambda>e. case e of Expr_Literal l m \<Rightarrow> preturn l)
        else if token_kind tok = Tk_Number then
          pbind (span_text (token_span tok)) (\<lambda>s.
            if fst (split_radix_prefix s) \<noteq> 10 then number_literal tok else unexpected expected)
        else unexpected expected)"

definition parse_xid_format_id :: "literal parse" where
  "parse_xid_format_id = pbind peek_token (\<lambda>t. case t of
      None \<Rightarrow> unexpected ''a numeric `formatID` after the branch qualifier''
    | Some tok \<Rightarrow>
        if token_kind tok \<noteq> Tk_Number then unexpected ''a numeric `formatID` after the branch qualifier''
        else number_literal tok)"

definition parse_xid :: "(literal, meta) xid parse" where
  "parse_xid =
     pbind (parse_xid_text ''an XID `gtrid` string or hex/binary literal'') (\<lambda>gtrid.
     pbind (eat_punct P_Comma) (\<lambda>c.
     pbind (if c then
         pbind (parse_xid_text ''an XID `bqual` string or hex/binary literal after `,`'') (\<lambda>bqual.
         pbind (eat_punct P_Comma) (\<lambda>c2.
           if c2 then pbind parse_xid_format_id (\<lambda>n. preturn (Some bqual, Some n))
           else preturn (Some bqual, None)))
       else preturn (None, None)) (\<lambda>(bqual, format_id).
     pbind (meta_from (meta_span (lit_meta gtrid))) (\<lambda>m. preturn (Xid gtrid bqual format_id m)))))"

definition parse_xa_start :: "span \<Rightarrow> xa_start_keyword \<Rightarrow> xa_stmt parse" where
  "parse_xa_start start keyword =
     pbind parse_xid (\<lambda>xid.
     pbind (eat_contextual_keyword ''JOIN'') (\<lambda>j.
     pbind (if j then preturn (Some Xa_Join)
            else pbind (eat_contextual_keyword ''RESUME'') (\<lambda>r. preturn (if r then Some Xa_Resume else None))) (\<lambda>association.
     pbind (meta_from start) (\<lambda>m. preturn (Xa_Start keyword xid association m)))))"

definition parse_xa_end :: "span \<Rightarrow> xa_stmt parse" where
  "parse_xa_end start =
     pbind parse_xid (\<lambda>xid.
     pbind (eat_contextual_keyword ''SUSPEND'') (\<lambda>s.
     pbind (if s then
              pbind (eat_contextual_keyword ''FOR'') (\<lambda>f.
                if f then pbind (expect_contextual_keyword ''MIGRATE'') (\<lambda>_. preturn (Some Xa_SuspendForMigrate))
                else preturn (Some Xa_Suspend))
            else preturn None) (\<lambda>suspend.
     pbind (meta_from start) (\<lambda>m. preturn (Xa_End xid suspend m)))))"

definition parse_xa_commit :: "span \<Rightarrow> xa_stmt parse" where
  "parse_xa_commit start =
     pbind parse_xid (\<lambda>xid.
     pbind (eat_contextual_keyword ''ONE'') (\<lambda>one.
     pbind (if one then pbind (expect_contextual_keyword ''PHASE'') (\<lambda>_. preturn True) else preturn False) (\<lambda>one_phase.
     pbind (meta_from start) (\<lambda>m. preturn (Xa_Commit xid one_phase m)))))"

definition parse_xa_recover :: "span \<Rightarrow> xa_stmt parse" where
  "parse_xa_recover start =
     pbind (eat_contextual_keyword ''CONVERT'') (\<lambda>c.
     pbind (if c then pbind (expect_contextual_keyword ''XID'') (\<lambda>_. preturn True) else preturn False) (\<lambda>convert_xid.
     pbind (meta_from start) (\<lambda>m. preturn (Xa_Recover convert_xid m))))"

definition parse_xa_statement_kind :: "span \<Rightarrow> xa_stmt parse" where
  "parse_xa_statement_kind start =
     pbind (eat_contextual_keyword ''START'') (\<lambda>b. if b then parse_xa_start start Xa_Kw_Start
     else pbind (eat_contextual_keyword ''BEGIN'') (\<lambda>b. if b then parse_xa_start start Xa_Kw_Begin
     else pbind (eat_contextual_keyword ''END'') (\<lambda>b. if b then parse_xa_end start
     else pbind (eat_contextual_keyword ''PREPARE'') (\<lambda>b.
       if b then pbind parse_xid (\<lambda>xid. pbind (meta_from start) (\<lambda>m. preturn (Xa_Prepare xid m)))
     else pbind (eat_contextual_keyword ''COMMIT'') (\<lambda>b. if b then parse_xa_commit start
     else pbind (eat_contextual_keyword ''ROLLBACK'') (\<lambda>b.
       if b then pbind parse_xid (\<lambda>xid. pbind (meta_from start) (\<lambda>m. preturn (Xa_Rollback xid m)))
     else pbind (eat_contextual_keyword ''RECOVER'') (\<lambda>b. if b then parse_xa_recover start
     else unexpected ''an XA verb (`START`/`BEGIN`/`END`/`PREPARE`/`COMMIT`/`ROLLBACK`/`RECOVER`)'')))))))"

definition parse_xa_statement :: "tcl_statement parse" where
  "parse_xa_statement =
     pbind current_span (\<lambda>start.
     pbind (expect_contextual_keyword ''XA'') (\<lambda>_.
     pbind (parse_xa_statement_kind start) (\<lambda>xa.
     pbind (meta_from start) (\<lambda>m. preturn (Stmt_Xa xa m)))))"

subsection \<open>These methods depend on the tokens ahead only\<close>

lemma agnostic_gated [agnostic_rules]: "agnostic check \<Longrightarrow> agnostic (gated flag check)"
  unfolding gated_def by (intro agnostic_rules)

lemma agnostic_p_or [agnostic_rules]: "agnostic a \<Longrightarrow> agnostic b \<Longrightarrow> agnostic (p_or a b)"
  unfolding p_or_def by (intro agnostic_rules)

lemma agnostic_p_and [agnostic_rules]: "agnostic a \<Longrightarrow> agnostic b \<Longrightarrow> agnostic (p_and a b)"
  unfolding p_and_def by (intro agnostic_rules)

lemma agnostic_meta_from [agnostic_rules]: "agnostic (meta_from start)"
  unfolding meta_from_def by (intro agnostic_rules)

lemma agnostic_float [agnostic_rules]: "agnostic float_as_decimal_enabled"
  unfolding float_as_decimal_enabled_def by (rule agnostic_get) (drule strip_fields(9), simp)

lemma agnostic_modes [agnostic_rules]:
  "agnostic parse_isolation_level" "agnostic (parse_optional_transaction_mode i a d c)"
  "agnostic (transaction_modes_round i a d c s)" "agnostic (parse_transaction_modes_with i a d c)"
  "agnostic parse_transaction_modes"
  unfolding parse_isolation_level_def parse_optional_transaction_mode_def transaction_modes_round_def
    parse_transaction_modes_with_def parse_transaction_modes_def by (intro agnostic_rules)+

lemma agnostic_parts [agnostic_rules]:
  "agnostic parse_transaction_chain" "agnostic parse_transaction_completion"
  "agnostic eat_transaction_commit_keyword" "agnostic eat_transaction_rollback_keyword"
  "agnostic (eat_transaction_block_keyword k)" "agnostic (parse_transaction_name block)"
  "agnostic parse_savepoint_name" "agnostic parse_transaction_mode_kind"
  unfolding parse_transaction_chain_def parse_transaction_completion_def eat_transaction_commit_keyword_def
    eat_transaction_rollback_keyword_def eat_transaction_block_keyword_def parse_transaction_name_def
    parse_savepoint_name_def parse_transaction_mode_kind_def by (intro agnostic_rules)+

lemma agnostic_statements [agnostic_rules]:
  "agnostic (parse_begin sp)" "agnostic (parse_start sp)" "agnostic (parse_commit sp ck)"
  "agnostic (parse_rollback sp rk)" "agnostic (parse_savepoint sp)" "agnostic (parse_release sp)"
  "agnostic (parse_set_transaction sp)" "agnostic (parse_transaction_statement_kind sp)"
  "agnostic parse_transaction_statement" "agnostic peek_starts_transaction_statement"
  unfolding parse_begin_def parse_start_def parse_commit_def parse_rollback_def parse_savepoint_def
    parse_release_def parse_set_transaction_def parse_transaction_statement_kind_def
    parse_transaction_statement_def peek_starts_transaction_statement_def by (intro agnostic_rules)+

lemma agnostic_literal_expr [agnostic_rules]:
  "(\<And>l m. agnostic (k l m)) \<Longrightarrow> agnostic (case e of Expr_Literal l m \<Rightarrow> k l m)"
  by (cases e) simp

lemma agnostic_xa [agnostic_rules]:
  "agnostic (number_literal tok)" "agnostic (parse_xid_text s)" "agnostic parse_xid_format_id" "agnostic parse_xid"
  "agnostic (parse_xa_start sp kw)" "agnostic (parse_xa_end sp)" "agnostic (parse_xa_commit sp)"
  "agnostic (parse_xa_recover sp)" "agnostic (parse_xa_statement_kind sp)" "agnostic parse_xa_statement"
  unfolding number_literal_def parse_xid_text_def parse_xid_format_id_def parse_xid_def parse_xa_start_def
    parse_xa_end_def parse_xa_commit_def parse_xa_recover_def parse_xa_statement_kind_def parse_xa_statement_def
  by (intro agnostic_rules)+

end
