(* ===== verification/Render_Transactions.thy ===== *)
theory Render_Transactions
  imports Transactions
begin

text \<open>
  The renderer (\<open>crates/squonk-ast/src/render/mod.rs\<close>) and its instances for identifiers, literals
  and transaction control (\<open>render/nodes.rs\<close>). A node is rendered to the bytes it writes; \<open>None\<close> is
  the panic of a canonical context on a symbol its resolver does not know. Errors of the underlying
  formatter are not modelled.
\<close>

subsection \<open>Contexts\<close>

datatype render_mode = Mode_Canonical | Mode_Parenthesized | Mode_Redacted

datatype render_spelling = PreserveSource | TargetDialect

record render_config =
  rc_mode :: render_mode
  rc_target :: feature_set
  rc_spelling :: render_spelling

definition RENDER_CONFIG_DEFAULT :: render_config where
  "RENDER_CONFIG_DEFAULT = \<lparr>rc_mode = Mode_Canonical, rc_target = FeatureSet_ANSI, rc_spelling = PreserveSource\<rparr>"

definition UNRESOLVED_SYMBOL :: source where
  "UNRESOLVED_SYMBOL = ''<unresolved>''"

datatype context_kind = Context_Canonical | Context_Debug

record render_ctx =
  cx_resolver :: "symbol \<Rightarrow> source option"
  cx_source :: source
  cx_config :: render_config
  cx_kind :: context_kind

definition render_ctx_new :: "(symbol \<Rightarrow> source option) \<Rightarrow> source \<Rightarrow> render_config \<Rightarrow> render_ctx" where
  "render_ctx_new resolver src config =
     \<lparr>cx_resolver = resolver, cx_source = src, cx_config = config, cx_kind = Context_Canonical\<rparr>"

definition render_ctx_debug :: "(symbol \<Rightarrow> source option) \<Rightarrow> render_config \<Rightarrow> render_ctx" where
  "render_ctx_debug resolver config =
     \<lparr>cx_resolver = resolver, cx_source = [], cx_config = config, cx_kind = Context_Debug\<rparr>"

definition ctx_resolve :: "render_ctx \<Rightarrow> symbol \<Rightarrow> source option" where
  "ctx_resolve ctx symb = (case cx_kind ctx of
      Context_Canonical \<Rightarrow> cx_resolver ctx symb
    | Context_Debug \<Rightarrow> Some (case cx_resolver ctx symb of None \<Rightarrow> UNRESOLVED_SYMBOL | Some s \<Rightarrow> s))"

definition ctx_slice :: "render_ctx \<Rightarrow> span \<Rightarrow> source option" where
  "ctx_slice ctx sp =
     (if cx_kind ctx = Context_Debug \<or> is_synthetic sp then None
      else str_slice (cx_source ctx) (span_start sp) (span_end sp))"

definition honours_source_spelling :: "render_ctx \<Rightarrow> bool" where
  "honours_source_spelling ctx \<longleftrightarrow>
     rc_spelling (cx_config ctx) = PreserveSource \<and> rc_mode (cx_config ctx) \<noteq> Mode_Redacted"

text \<open>A sequence of writes.\<close>

fun write_all :: "source option list \<Rightarrow> source option" where
  "write_all [] = Some []"
| "write_all (None # ws) = None"
| "write_all (Some s # ws) = map_option (append s) (write_all ws)"

subsection \<open>Identifiers and literals\<close>

text \<open>\<open>text.replace(close, doubled)\<close>, behind its \<open>contains\<close> test.\<close>

definition double_close :: "byte \<Rightarrow> source \<Rightarrow> source" where
  "double_close c s = (if c \<in> set s then concat (map (\<lambda>b. if b = c then [b, b] else [b]) s) else s)"

definition quoted_name :: "byte \<Rightarrow> byte \<Rightarrow> source \<Rightarrow> source" where
  "quoted_name opn cls s = opn # double_close cls s @ [cls]"

definition render_ident :: "render_ctx \<Rightarrow> ident \<Rightarrow> source option" where
  "render_ident ctx i =
     (if rc_mode (cx_config ctx) = Mode_Redacted then Some ''id''
      else case ctx_resolve ctx (id_sym i) of
        None \<Rightarrow> None
      | Some s \<Rightarrow>
          (case id_quote i of
             Qs_None \<Rightarrow> Some s
           | Qs_UnicodeDouble \<Rightarrow>
               (case (if honours_source_spelling ctx then ctx_slice ctx (meta_span (id_meta i)) else None) of
                  Some src \<Rightarrow> Some src
                | None \<Rightarrow> Some (quoted_name (CHR 0x22) (CHR 0x22) s))
           | Qs_Single \<Rightarrow> Some (quoted_name (CHR 0x27) (CHR 0x27) s)
           | Qs_Double \<Rightarrow> Some (quoted_name (CHR 0x22) (CHR 0x22) s)
           | Qs_Backtick \<Rightarrow> Some (quoted_name (CHR 0x60) (CHR 0x60) s)
           | Qs_Bracket \<Rightarrow> Some (quoted_name (CHR ''['') (CHR '']'') s)))"

fun render_time_zone_suffix :: "time_zone \<Rightarrow> source" where
  "render_time_zone_suffix Tz_Unspecified = []"
| "render_time_zone_suffix WithTimeZone = '' WITH TIME ZONE''"
| "render_time_zone_suffix WithoutTimeZone = '' WITHOUT TIME ZONE''"

fun interval_fields_suffix :: "interval_fields \<Rightarrow> source" where
  "interval_fields_suffix If_Year = '' YEAR''"
| "interval_fields_suffix If_Month = '' MONTH''"
| "interval_fields_suffix If_Day = '' DAY''"
| "interval_fields_suffix If_Hour = '' HOUR''"
| "interval_fields_suffix If_Minute = '' MINUTE''"
| "interval_fields_suffix If_Second = '' SECOND''"
| "interval_fields_suffix If_YearToMonth = '' YEAR TO MONTH''"
| "interval_fields_suffix If_DayToHour = '' DAY TO HOUR''"
| "interval_fields_suffix If_DayToMinute = '' DAY TO MINUTE''"
| "interval_fields_suffix If_DayToSecond = '' DAY TO SECOND''"
| "interval_fields_suffix If_HourToMinute = '' HOUR TO MINUTE''"
| "interval_fields_suffix If_HourToSecond = '' HOUR TO SECOND''"
| "interval_fields_suffix If_MinuteToSecond = '' MINUTE TO SECOND''"
| "interval_fields_suffix If_Week = '' WEEK''"
| "interval_fields_suffix If_Quarter = '' QUARTER''"
| "interval_fields_suffix If_Decade = '' DECADE''"
| "interval_fields_suffix If_Century = '' CENTURY''"
| "interval_fields_suffix If_Millennium = '' MILLENNIUM''"
| "interval_fields_suffix If_Millisecond = '' MILLISECOND''"
| "interval_fields_suffix If_Microsecond = '' MICROSECOND''"
| "interval_fields_suffix If_DayToMicrosecond = '' DAY TO MICROSECOND''"
| "interval_fields_suffix If_HourToMicrosecond = '' HOUR TO MICROSECOND''"
| "interval_fields_suffix If_MinuteToMicrosecond = '' MINUTE TO MICROSECOND''"
| "interval_fields_suffix If_SecondToMicrosecond = '' SECOND TO MICROSECOND''"

fun fallback_literal :: "literal_kind \<Rightarrow> source" where
  "fallback_literal Lk_Null = ''NULL''"
| "fallback_literal (Lk_Boolean b) = (if b then ''TRUE'' else ''FALSE'')"
| "fallback_literal Lk_Integer = ''0''"
| "fallback_literal Lk_Float = ''0''"
| "fallback_literal Lk_Decimal = ''0''"
| "fallback_literal Lk_String = [CHR 0x27, CHR 0x27]"
| "fallback_literal Lk_Date = ''DATE '' @ CHR 0x27 # ''1970-01-01'' @ [CHR 0x27]"
| "fallback_literal (Lk_Time tz) = ''TIME'' @ render_time_zone_suffix tz @ CHR 0x20 # CHR 0x27 # ''00:00:00'' @ [CHR 0x27]"
| "fallback_literal (Lk_Timestamp tz) =
     ''TIMESTAMP'' @ render_time_zone_suffix tz @ CHR 0x20 # CHR 0x27 # ''1970-01-01 00:00:00'' @ [CHR 0x27]"
| "fallback_literal (Lk_Interval ifs prec) =
     ''INTERVAL '' @ CHR 0x27 # CHR ''0'' # [CHR 0x27] @ (case ifs of None \<Rightarrow> [] | Some fs \<Rightarrow> interval_fields_suffix fs)"
| "fallback_literal (Lk_BitString Radix_Binary) = [CHR ''B'', CHR 0x27, CHR ''0'', CHR 0x27]"
| "fallback_literal (Lk_BitString Radix_Hex) = [CHR ''X'', CHR 0x27, CHR ''0'', CHR 0x27]"
| "fallback_literal Lk_Money = ''$0''"

definition render_literal :: "render_ctx \<Rightarrow> literal \<Rightarrow> source option" where
  "render_literal ctx l =
     (if rc_mode (cx_config ctx) = Mode_Redacted then Some ''?''
      else case ctx_slice ctx (meta_span (lit_meta l)) of
        Some s \<Rightarrow> Some s
      | None \<Rightarrow> Some (fallback_literal (lit_kind l)))"

fun render_comma_separated :: "('a \<Rightarrow> source option) \<Rightarrow> 'a list \<Rightarrow> source option" where
  "render_comma_separated r [] = Some []"
| "render_comma_separated r [x] = r x"
| "render_comma_separated r (x # y # xs) = write_all [r x, Some '', '', render_comma_separated r (y # xs)]"

definition render_leading_space_comma_separated :: "('a \<Rightarrow> source option) \<Rightarrow> 'a list \<Rightarrow> source option" where
  "render_leading_space_comma_separated r xs =
     (if xs = [] then Some [] else write_all [Some '' '', render_comma_separated r xs])"

subsection \<open>Transaction control\<close>

fun render_isolation_level :: "isolation_level \<Rightarrow> source" where
  "render_isolation_level ReadUncommitted = ''READ UNCOMMITTED''"
| "render_isolation_level ReadCommitted = ''READ COMMITTED''"
| "render_isolation_level RepeatableRead = ''REPEATABLE READ''"
| "render_isolation_level Serializable = ''SERIALIZABLE''"

fun render_access_mode :: "transaction_access_mode \<Rightarrow> source" where
  "render_access_mode ReadOnly = ''READ ONLY''"
| "render_access_mode ReadWrite = ''READ WRITE''"

fun render_transaction_mode :: "'m transaction_mode \<Rightarrow> source option" where
  "render_transaction_mode (IsolationLevel level _) = Some (''ISOLATION LEVEL '' @ render_isolation_level level)"
| "render_transaction_mode (AccessMode access _) = Some (render_access_mode access)"
| "render_transaction_mode (Deferrable deferrable _) = Some (if deferrable then ''DEFERRABLE'' else ''NOT DEFERRABLE'')"
| "render_transaction_mode (ConsistentSnapshot _) = Some ''WITH CONSISTENT SNAPSHOT''"

fun render_transaction_mode_kind :: "transaction_mode_kind \<Rightarrow> source" where
  "render_transaction_mode_kind Deferred = ''DEFERRED''"
| "render_transaction_mode_kind Immediate = ''IMMEDIATE''"
| "render_transaction_mode_kind Exclusive = ''EXCLUSIVE''"

definition render_transaction_modes :: "'m transaction_mode list \<Rightarrow> source option" where
  "render_transaction_modes modes = render_leading_space_comma_separated render_transaction_mode modes"

fun render_transaction_chain :: "bool option \<Rightarrow> source" where
  "render_transaction_chain (Some True) = '' AND CHAIN''"
| "render_transaction_chain (Some False) = '' AND NO CHAIN''"
| "render_transaction_chain None = []"

definition render_transaction_completion :: "bool option \<Rightarrow> bool option \<Rightarrow> source" where
  "render_transaction_completion chain release = render_transaction_chain chain @
     (case release of Some True \<Rightarrow> '' RELEASE'' | Some False \<Rightarrow> '' NO RELEASE'' | None \<Rightarrow> [])"

fun render_transaction_block_keyword :: "transaction_block_keyword option \<Rightarrow> source" where
  "render_transaction_block_keyword (Some Block_Transaction) = '' TRANSACTION''"
| "render_transaction_block_keyword (Some Block_Work) = '' WORK''"
| "render_transaction_block_keyword None = []"

definition render_transaction_block_and_name ::
    "('i \<Rightarrow> source option) \<Rightarrow> bool \<Rightarrow> transaction_block_keyword option \<Rightarrow> 'i option \<Rightarrow> source option" where
  "render_transaction_block_and_name ident honours block name = (case name of
      Some i \<Rightarrow> write_all [Some '' TRANSACTION '', ident i]
    | None \<Rightarrow> if honours then Some (render_transaction_block_keyword block) else Some [])"

text \<open>The rendering of the identifiers is passed in; \<open>honours\<close> is \<open>honours_source_spelling(ctx)\<close>.\<close>

fun render_transaction_with ::
    "('i \<Rightarrow> source option) \<Rightarrow> bool \<Rightarrow> ('i, 'm) transaction_statement \<Rightarrow> source option" where
  "render_transaction_with ident honours (Tx_Begin syntax mode block name modes _) = write_all
     [(case syntax of
         Start_Begin \<Rightarrow> Some ''BEGIN''
       | Start_Start \<Rightarrow> Some (''START'' @ (if honours then render_transaction_block_keyword block else '' TRANSACTION''))),
      (case mode of None \<Rightarrow> Some [] | Some k \<Rightarrow> Some ('' '' @ render_transaction_mode_kind k)),
      (if syntax = Start_Begin then render_transaction_block_and_name ident honours block name else Some []),
      render_transaction_modes modes]"
| "render_transaction_with ident honours (Tx_Commit syntax block name chain release _) = write_all
     [Some (if honours \<and> syntax = Kw_End then ''END'' else ''COMMIT''),
      render_transaction_block_and_name ident honours block name,
      Some (render_transaction_completion chain release)]"
| "render_transaction_with ident honours (Tx_Rollback syntax block name savepoint_keyword to_savepoint chain release _) = write_all
     [Some (if honours \<and> syntax = Kw_Abort then ''ABORT'' else ''ROLLBACK''),
      render_transaction_block_and_name ident honours block name,
      (case to_savepoint of
         None \<Rightarrow> Some []
       | Some i \<Rightarrow> write_all [Some (if savepoint_keyword \<or> \<not> honours then '' TO SAVEPOINT '' else '' TO ''), ident i]),
      Some (render_transaction_completion chain release)]"
| "render_transaction_with ident honours (Tx_Savepoint name _) = write_all [Some ''SAVEPOINT '', ident name]"
| "render_transaction_with ident honours (Tx_Release savepoint_keyword savepoint _) = write_all
     [Some (if savepoint_keyword \<or> \<not> honours then ''RELEASE SAVEPOINT '' else ''RELEASE ''), ident savepoint]"
| "render_transaction_with ident honours (Tx_SetCharacteristics modes _) = write_all
     [Some ''SET TRANSACTION'', render_transaction_modes modes]"

definition render_transaction :: "render_ctx \<Rightarrow> tx_statement \<Rightarrow> source option" where
  "render_transaction ctx s = render_transaction_with (render_ident ctx) (honours_source_spelling ctx) s"

subsection \<open>XA\<close>

fun render_xid :: "render_ctx \<Rightarrow> (literal, meta) xid \<Rightarrow> source option" where
  "render_xid ctx (Xid gtrid bqual format_id _) = write_all
     [render_literal ctx gtrid,
      (case bqual of None \<Rightarrow> Some [] | Some l \<Rightarrow> write_all [Some '', '', render_literal ctx l]),
      (case format_id of None \<Rightarrow> Some [] | Some l \<Rightarrow> write_all [Some '', '', render_literal ctx l])]"

fun render_xa :: "render_ctx \<Rightarrow> xa_stmt \<Rightarrow> source option" where
  "render_xa ctx (Xa_Start keyword xid association _) = write_all
     [Some (case keyword of Xa_Kw_Start \<Rightarrow> ''XA START '' | Xa_Kw_Begin \<Rightarrow> ''XA BEGIN ''),
      render_xid ctx xid,
      Some (case association of None \<Rightarrow> [] | Some Xa_Join \<Rightarrow> '' JOIN'' | Some Xa_Resume \<Rightarrow> '' RESUME'')]"
| "render_xa ctx (Xa_End xid suspend _) = write_all
     [Some ''XA END '', render_xid ctx xid,
      Some (case suspend of None \<Rightarrow> [] | Some Xa_Suspend \<Rightarrow> '' SUSPEND'' | Some Xa_SuspendForMigrate \<Rightarrow> '' SUSPEND FOR MIGRATE'')]"
| "render_xa ctx (Xa_Prepare xid _) = write_all [Some ''XA PREPARE '', render_xid ctx xid]"
| "render_xa ctx (Xa_Commit xid one_phase _) = write_all
     [Some ''XA COMMIT '', render_xid ctx xid, Some (if one_phase then '' ONE PHASE'' else [])]"
| "render_xa ctx (Xa_Rollback xid _) = write_all [Some ''XA ROLLBACK '', render_xid ctx xid]"
| "render_xa ctx (Xa_Recover convert_xid _) = Some (''XA RECOVER'' @ (if convert_xid then '' CONVERT XID'' else []))"

end
