(* ===== verification/Transaction_Laws.thy ===== *)
theory Transaction_Laws
  imports Identifier_Contracts Transactions
begin

text \<open>
  The laws of the transaction-control grammar: from the tokens of any source it ends, without a
  panic while node ids and symbols last, and what it returns is well formed for its dialect.
\<close>

subsection \<open>Well-formed statements\<close>

datatype mode_form = Isolation_Shape | Access_Shape | Deferrable_Shape | Snapshot_Shape

fun mode_shape :: "'m transaction_mode \<Rightarrow> mode_form" where
  "mode_shape (IsolationLevel _ _) = Isolation_Shape"
| "mode_shape (AccessMode _ _) = Access_Shape"
| "mode_shape (Deferrable _ _) = Deferrable_Shape"
| "mode_shape (ConsistentSnapshot _) = Snapshot_Shape"

fun shape_allowed :: "bool \<Rightarrow> bool \<Rightarrow> bool \<Rightarrow> bool \<Rightarrow> mode_form \<Rightarrow> bool" where
  "shape_allowed i a d c Isolation_Shape = i"
| "shape_allowed i a d c Access_Shape = a"
| "shape_allowed i a d c Deferrable_Shape = d"
| "shape_allowed i a d c Snapshot_Shape = c"

lemma same_kind_shape: "same_transaction_mode_kind x y \<longleftrightarrow> mode_shape x = mode_shape y"
  by (cases x; cases y) simp_all

definition modes_typed ::
    "transaction_syntax \<Rightarrow> bool \<Rightarrow> bool \<Rightarrow> bool \<Rightarrow> bool \<Rightarrow> 'm transaction_mode list \<Rightarrow> bool" where
  "modes_typed s i a d c modes \<longleftrightarrow>
     list_all (\<lambda>m. shape_allowed i a d c (mode_shape m)) modes
     \<and> (tx_transaction_modes_reject_duplicates s \<longrightarrow> distinct (map mode_shape modes))
     \<and> (\<not> tx_transaction_multiple_modes s \<longrightarrow> length modes \<le> 1)"

definition block_typed :: "transaction_syntax \<Rightarrow> bool \<Rightarrow> transaction_block_keyword option \<Rightarrow> bool" where
  "block_typed s keyword block \<longleftrightarrow> (block = Some Block_Work \<longrightarrow> tx_transaction_work_keyword s)
     \<and> (block = Some Block_Transaction \<longrightarrow> keyword)"

definition name_typed :: "transaction_syntax \<Rightarrow> transaction_block_keyword option \<Rightarrow> 'i option \<Rightarrow> bool" where
  "name_typed s block name \<longleftrightarrow> (name \<noteq> None \<longrightarrow> tx_transaction_name s \<and> block = Some Block_Transaction)"

definition completion_typed :: "transaction_syntax \<Rightarrow> bool option \<Rightarrow> bool option \<Rightarrow> bool" where
  "completion_typed s chain release \<longleftrightarrow> (chain \<noteq> None \<longrightarrow> tx_transaction_chain s)
     \<and> (release \<noteq> None \<longrightarrow> tx_transaction_release s) \<and> (chain = None \<or> release = None)"

fun transaction_typed :: "transaction_syntax \<Rightarrow> ('i, 'm) transaction_statement \<Rightarrow> bool" where
  "transaction_typed s (Tx_Begin Start_Begin mode block name modes _) \<longleftrightarrow>
     (mode \<noteq> None \<longrightarrow> tx_begin_transaction_mode s) \<and> block_typed s (tx_begin_transaction_keyword s) block
     \<and> name_typed s block name \<and> (modes \<noteq> [] \<longrightarrow> tx_begin_transaction_modes s)
     \<and> modes_typed s (tx_transaction_isolation_mode s) (tx_transaction_access_mode s)
         (tx_transaction_deferrable_mode s) False modes"
| "transaction_typed s (Tx_Begin Start_Start mode block name modes _) \<longleftrightarrow>
     tx_start_transaction s \<and> mode = None \<and> name = None \<and> block_typed s True block
     \<and> (block = Some Block_Transaction \<or> tx_start_transaction_block_optional s)
     \<and> modes_typed s (tx_start_transaction_isolation_mode s) (tx_transaction_access_mode s)
         (tx_start_transaction_deferrable_mode s) (tx_start_transaction_consistent_snapshot s) modes"
| "transaction_typed s (Tx_Commit syntax block name chain release _) \<longleftrightarrow>
     (syntax = Kw_End \<longrightarrow> tx_end_transaction_alias s) \<and> block_typed s (tx_commit_transaction_keyword s) block
     \<and> name_typed s block name \<and> completion_typed s chain release"
| "transaction_typed s (Tx_Rollback syntax block name savepoint_keyword to_savepoint chain release _) \<longleftrightarrow>
     (syntax = Kw_Abort \<longrightarrow> tx_abort_transaction_alias s) \<and> block_typed s (tx_rollback_transaction_keyword s) block
     \<and> name_typed s block name \<and> completion_typed s chain release
     \<and> (to_savepoint = None \<longrightarrow> \<not> savepoint_keyword)
     \<and> (to_savepoint \<noteq> None \<longrightarrow> tx_transaction_savepoints s \<and> chain = None \<and> release = None)"
| "transaction_typed s (Tx_Savepoint name _) \<longleftrightarrow> tx_transaction_savepoints s"
| "transaction_typed s (Tx_Release savepoint_keyword savepoint _) \<longleftrightarrow>
     tx_transaction_savepoints s \<and> (savepoint_keyword \<or> tx_release_savepoint_keyword_optional s)"
| "transaction_typed s (Tx_SetCharacteristics modes _) \<longleftrightarrow> tx_set_transaction s \<and> modes \<noteq> []
     \<and> modes_typed s (tx_transaction_isolation_mode s) (tx_transaction_access_mode s)
         (tx_transaction_deferrable_mode s) False modes"

subsection \<open>Guards\<close>

lemma yields_gated [yields_rules]:
  "yields src f ts check (eaten ts) \<Longrightarrow> yields src f ts (gated flag check) (\<lambda>us x. eaten ts us x \<and> (x \<longrightarrow> flag))"
  unfolding gated_def by (rule yields_if, erule yields_mono, simp, rule yields_return) (simp add: eaten_def)

lemma yields_p_and [yields_rules]:
  assumes "yields src f ts a (\<lambda>us x. us = ts)" "yields src f ts b (\<lambda>us x. us = ts)"
  shows "yields src f ts (p_and a b) (\<lambda>us x. us = ts)"
  unfolding p_and_def
  by (rule yields_bind[OF assms(1)]) (auto intro!: yields_if yields_return assms(2) agnostic_rules yields_agnostic[OF assms(2)])

lemma yields_meta_from [yields_rules]:
  assumes "span_ok src sp"
  shows "yields src f ts (meta_from sp) (\<lambda>us m. us = ts \<and> span_ok src (meta_span m))"
  unfolding meta_from_def
  by (rule yields_bind[OF yields_preceding], rule span_ok_union[OF assms], assumption, intro agnostic_rules, elim conjE, hypsubst)
     (rule yields_mono[OF yields_make_meta], simp)

lemma yields_tx [yields_rules]: "yields src f ts (tx g) (\<lambda>us x. us = ts \<and> x = g (transaction_syntax f))"
  by (rule yields_features)

subsection \<open>Choices\<close>

text \<open>\<open>if self.eat_...() { .. } else { .. }\<close>, behind a flag or not, and an expected word.\<close>

lemma eaten_less: "eaten ts us True \<Longrightarrow> length us < length ts" "eaten ts us False \<Longrightarrow> us = ts"
  by (cases ts; simp add: eaten_def)+

lemma yields_choice:
  assumes "yields src f ts m (eaten ts)" "agnostic A" "agnostic B"
    "\<And>us. length us < length ts \<Longrightarrow> suffix us ts \<Longrightarrow> yields src f us A Q" "yields src f ts B Q"
  shows "yields src f ts (pbind m (\<lambda>x. if x then A else B)) Q"
  by (rule yields_bind[OF assms(1)], rule agnostic_if, rule assms, rule assms)
     (auto simp: eaten_def intro!: assms(4,5))

lemma yields_gated_choice:
  assumes "yields src f ts m (eaten ts)" "agnostic A" "agnostic B"
    "\<And>us. length us < length ts \<Longrightarrow> suffix us ts \<Longrightarrow> flag \<Longrightarrow> yields src f us A Q" "yields src f ts B Q"
  shows "yields src f ts (pbind (gated flag m) (\<lambda>x. if x then A else B)) Q"
  by (rule yields_bind[OF yields_gated[OF assms(1)]], rule agnostic_if, rule assms, rule assms)
     (auto simp: eaten_def intro!: assms(4,5))

lemma yields_then:
  assumes "yields src f ts m (\<lambda>us x. eaten ts us True)" "agnostic A"
    "\<And>us. length us < length ts \<Longrightarrow> suffix us ts \<Longrightarrow> yields src f us A Q"
  shows "yields src f ts (pbind m (\<lambda>_. A)) Q"
  by (rule yields_bind[OF assms(1)], rule assms) (auto simp: eaten_def intro!: assms(3))

lemmas yields_eat_choice = yields_choice[OF yields_eat(1)] yields_gated_choice[OF yields_eat(1)] yields_then[OF yields_expect(1)]

lemma yields_done: "yields src f ts m R \<Longrightarrow> (\<And>us x. R us x \<Longrightarrow> length us \<le> length ts \<Longrightarrow> Q us x) \<Longrightarrow> yields src f ts m Q"
  by (erule yields_mono) (simp add: suffix_length_le)

subsection \<open>Transaction modes\<close>

lemma yields_isolation_level [yields_rules]: "yields src f ts parse_isolation_level (\<lambda>us l. True)"
  unfolding parse_isolation_level_def
  by (intro yields_eat_choice agnostic_rules) (auto intro: yields_return yields_unexpected)

lemma yields_optional_mode [yields_rules]:
  "yields src f ts (parse_optional_transaction_mode i a d c)
     (\<lambda>us m. case m of None \<Rightarrow> us = ts | Some mode \<Rightarrow> length us < length ts \<and> shape_allowed i a d c (mode_shape mode))"
proof -
  let ?Q = "\<lambda>us m. case m of None \<Rightarrow> us = ts | Some mode \<Rightarrow> length us < length ts \<and> shape_allowed i a d c (mode_shape mode)"
  have fin: "yields src f us (pbind (meta_from sp) (\<lambda>m. preturn (Some (g m)))) ?Q"
    if "span_ok src sp" "length us < length ts" "\<And>m. shape_allowed i a d c (mode_shape (g m))" for us sp g
    by (rule yields_bind[OF yields_meta_from[OF that(1)]], intro agnostic_rules, rule yields_return) (use that in simp)
  have access: "yields src f us (pbind (eat_contextual_keyword ''ONLY'') (\<lambda>y. if y then preturn ReadOnly
         else pbind (eat_contextual_keyword ''WRITE'') (\<lambda>w. if w then preturn ReadWrite
         else unexpected ''`ONLY` or `WRITE` after `READ`''))) (\<lambda>us m. True)" for us
    by (intro yields_eat_choice agnostic_rules) (auto intro: yields_return yields_unexpected)
  show ?thesis
    unfolding parse_optional_transaction_mode_def
    apply (rule yields_bind[OF yields_current_span], intro agnostic_rules, elim conjE, hypsubst)
    apply (intro yields_eat_choice agnostic_rules)
    subgoal by (rule yields_bind[OF yields_isolation_level], intro agnostic_rules, rule fin) (auto dest: suffix_length_le)
    subgoal by (rule yields_bind[OF access], intro agnostic_rules, rule fin) (auto dest: suffix_length_le)
    subgoal by (rule fin) simp_all
    subgoal by (rule fin) simp_all
    subgoal by (rule fin) simp_all
    subgoal by (rule yields_return) simp
    done
qed

text \<open>The list of modes so far is well formed, and not yet full when another round starts.\<close>

abbreviation more_modes :: "transaction_syntax \<Rightarrow> bool \<Rightarrow> bool \<Rightarrow> bool \<Rightarrow> bool \<Rightarrow> 'm transaction_mode list \<times> bool \<Rightarrow> bool" where
  "more_modes s i a d c r \<equiv> modes_typed s i a d c (fst r) \<and> (\<not> tx_transaction_multiple_modes s \<longrightarrow> fst r = [])"

lemma modes_typed_snoc:
  assumes "more_modes s i a d c (modes, b)" "shape_allowed i a d c (mode_shape mode)"
    "\<not> (tx_transaction_modes_reject_duplicates s \<and> list_ex (\<lambda>existing. same_transaction_mode_kind existing mode) modes)"
  shows "modes_typed s i a d c (modes @ [mode])"
  using assms by (auto simp: modes_typed_def same_kind_shape list_ex_iff)

interpretation transaction_modes: loop_body src f "transaction_modes_round i a d c"
  "\<lambda>us. more_modes (transaction_syntax f) i a d c" "\<lambda>us. modes_typed (transaction_syntax f) i a d c" for src f i a d c
proof unfold_locales
  fix ts :: "token list" and r :: "meta transaction_mode list \<times> bool"
  show "agnostic (transaction_modes_round i a d c r)" by (rule agnostic_modes)
  assume inv: "more_modes (transaction_syntax f) i a d c r"
  obtain modes required where r: "r = (modes, required)" by (cases r)
  let ?Q = "\<lambda>us r. case r of Inl s' \<Rightarrow> length us < length ts \<and> more_modes (transaction_syntax f) i a d c s'
    | Inr x \<Rightarrow> modes_typed (transaction_syntax f) i a d c x"
  show "yields src f ts (transaction_modes_round i a d c r) ?Q"
    unfolding transaction_modes_round_def r prod.case
  proof (rule yields_bind[OF yields_optional_mode], intro agnostic_rules, rule yields_option, goal_cases)
    case (1 us m)
    with inv r show ?case by (auto intro!: yields_if yields_unexpected yields_return)
  next
    case (2 us m mode)
    then have len: "length us < length ts" "shape_allowed i a d c (mode_shape mode)" by simp_all
    note snoc = modes_typed_snoc[OF inv[unfolded r] len(2)]
    show ?case
      by (rule yields_bind[OF yields_tx], intro agnostic_rules, elim conjE, hypsubst,
          rule yields_if, rule yields_unexpected, rule yields_bind[OF yields_tx], intro agnostic_rules, elim conjE, hypsubst,
          rule yields_if, rule yields_return, use snoc in simp,
          rule yields_bind[OF yields_eat(3)], intro agnostic_rules, rule yields_bind[OF yields_tx], intro agnostic_rules, elim conjE, hypsubst,
          rule yields_if, rule yields_return, use snoc in simp, rule yields_return)
         (use snoc len(1) in \<open>auto dest: suffix_length_le\<close>)
  qed
qed

lemma modes_typed_Nil [simp]: "modes_typed s i a d c []"
  by (simp add: modes_typed_def)

lemma yields_modes [yields_rules]:
  "yields src f ts (parse_transaction_modes_with i a d c) (\<lambda>us. modes_typed (transaction_syntax f) i a d c)"
  "yields src f ts parse_transaction_modes (\<lambda>us. modes_typed (transaction_syntax f)
     (tx_transaction_isolation_mode (transaction_syntax f)) (tx_transaction_access_mode (transaction_syntax f))
     (tx_transaction_deferrable_mode (transaction_syntax f)) False)"
proof -
  have y: "yields src f ts (parse_transaction_modes_with i a d c) (\<lambda>us. modes_typed (transaction_syntax f) i a d c)" for ts i a d c
    unfolding parse_transaction_modes_with_def by (rule transaction_modes.ploop_yields) simp
  then show "yields src f ts (parse_transaction_modes_with i a d c) (\<lambda>us. modes_typed (transaction_syntax f) i a d c)" .
  show "yields src f ts parse_transaction_modes (\<lambda>us. modes_typed (transaction_syntax f)
     (tx_transaction_isolation_mode (transaction_syntax f)) (tx_transaction_access_mode (transaction_syntax f))
     (tx_transaction_deferrable_mode (transaction_syntax f)) False)"
    unfolding parse_transaction_modes_def
    by (rule yields_bind[OF yields_tx], intro agnostic_rules) (use y in auto)
qed

subsection \<open>The parts of a statement\<close>

lemma yields_chain [yields_rules]:
  "yields src f ts parse_transaction_chain (\<lambda>us chain. chain \<noteq> None \<longrightarrow> tx_transaction_chain (transaction_syntax f))"
  unfolding parse_transaction_chain_def
  by (rule yields_bind[OF yields_tx], intro agnostic_rules, elim conjE, hypsubst,
      rule yields_bind[OF yields_gated[OF yields_eat(1)]], intro agnostic_rules, rule yields_if, rule yields_return, simp,
      rule yields_bind[OF yields_eat(1)], intro agnostic_rules, rule yields_then[OF yields_expect(1)], intro agnostic_rules,
      rule yields_return) simp

lemma yields_completion [yields_rules]:
  "yields src f ts parse_transaction_completion (\<lambda>us (chain, release). completion_typed (transaction_syntax f) chain release)"
  unfolding parse_transaction_completion_def
  apply (rule yields_bind[OF yields_chain], intro agnostic_rules)
  apply (rule yields_bind[OF yields_tx], intro agnostic_rules, elim conjE, hypsubst)
  apply (rule yields_if, rule yields_return, simp add: completion_typed_def)
  apply (rule yields_eat_choice, intro agnostic_rules, intro agnostic_rules)
  apply (rule yields_return, simp add: completion_typed_def)
  apply (rule yields_bind[OF yields_p_and], rule yields_mono[OF yields_peek_contextual(1)], simp add: checked_def,
      rule yields_peek_contextual, intro agnostic_rules, hypsubst)
  apply (rule yields_if)
   apply (intro yields_eat_choice agnostic_rules)
   apply (auto intro!: yields_return simp: completion_typed_def)
  done

lemma yields_keywords [yields_rules]:
  "yields src f ts eat_transaction_commit_keyword
     (\<lambda>us k. if k = None then us = ts else length us < length ts \<and> (k = Some Kw_End \<longrightarrow> tx_end_transaction_alias (transaction_syntax f)))"
  "yields src f ts eat_transaction_rollback_keyword
     (\<lambda>us k. if k = None then us = ts else length us < length ts \<and> (k = Some Kw_Abort \<longrightarrow> tx_abort_transaction_alias (transaction_syntax f)))"
  unfolding eat_transaction_commit_keyword_def eat_transaction_rollback_keyword_def
  by (rule yields_eat_choice, intro agnostic_rules, intro agnostic_rules, rule yields_return, simp,
      rule yields_bind[OF yields_tx], intro agnostic_rules, elim conjE, hypsubst,
      rule yields_bind[OF yields_gated[OF yields_eat(1)]], intro agnostic_rules, rule yields_return,
      use eaten_less in \<open>auto split: if_splits\<close>)+

lemma yields_block [yields_rules]:
  "yields src f ts (eat_transaction_block_keyword keyword) (\<lambda>us block. block_typed (transaction_syntax f) keyword block)"
  unfolding eat_transaction_block_keyword_def
  by (rule yields_bind[OF yields_tx], intro agnostic_rules, elim conjE, hypsubst,
      rule yields_eat_choice, intro agnostic_rules, intro agnostic_rules, rule yields_return, simp add: block_typed_def,
      rule yields_bind[OF yields_gated[OF yields_eat(1)]], intro agnostic_rules, rule yields_return, auto simp: block_typed_def)

lemma yields_name [yields_rules]:
  "yields src f ts (parse_transaction_name block) (\<lambda>us name. name_typed (transaction_syntax f) block name)"
proof -
  have some: "yields src f us (pbind m (\<lambda>i. preturn (Some i))) (\<lambda>us name. name_typed (transaction_syntax f) (Some Block_Transaction) name)"
    if "tx_transaction_name (transaction_syntax f)" "yields src f us m R" for us R and m :: "ident parse"
    by (rule yields_bind[OF that(2)], intro agnostic_rules, rule yields_return) (use that(1) in \<open>simp add: name_typed_def\<close>)
  show ?thesis
    unfolding parse_transaction_name_def
    by (rule yields_bind[OF yields_tx], intro agnostic_rules, elim conjE, hypsubst, rule yields_if,
        rule yields_bind[OF yields_features], intro agnostic_rules, elim conjE, hypsubst,
        rule yields_bind[OF yields_peek(1)], intro agnostic_rules, rule yields_if, rule some, assumption, rule yields_string_names(3),
        rule yields_bind[OF yields_features], intro agnostic_rules, elim conjE, hypsubst,
        rule yields_if, rule some, assumption, rule yields_idents(1), rule yields_return, simp add: name_typed_def,
        rule yields_return, simp add: name_typed_def)
qed

lemma yields_mode_kind [yields_rules]:
  "yields src f ts parse_transaction_mode_kind (\<lambda>us k. k \<noteq> None \<longrightarrow> tx_begin_transaction_mode (transaction_syntax f))"
  unfolding parse_transaction_mode_kind_def
  by (rule yields_bind[OF yields_tx], intro agnostic_rules, elim conjE, hypsubst, rule yields_if, rule yields_return, simp,
      intro yields_eat_choice agnostic_rules, rule yields_return, simp, rule yields_return, simp,
      rule yields_bind[OF yields_eat(1)], intro agnostic_rules, rule yields_return) auto

subsection \<open>Statements\<close>

text \<open>Reading a flag, and ending with the node.\<close>

lemma yields_tx_bind:
  assumes "yields src f ts (k (g (transaction_syntax f))) Q" "\<And>x. agnostic (k x)"
  shows "yields src f ts (pbind (tx g) k) Q"
  by (rule yields_bind[OF yields_tx], rule assms(2)) (use assms(1) in auto)

lemma yields_node:
  assumes "span_ok src sp" "\<And>m. Q ts (g m)"
  shows "yields src f ts (pbind (meta_from sp) (\<lambda>m. preturn (g m))) Q"
  by (rule yields_bind[OF yields_meta_from[OF assms(1)]], intro agnostic_rules, rule yields_return) (use assms(2) in simp)

abbreviation typed_result :: "feature_set \<Rightarrow> token list \<Rightarrow> ('i, 'm) transaction_statement \<Rightarrow> bool" where
  "typed_result f us s \<equiv> transaction_typed (transaction_syntax f) s"

lemma yields_begin:
  assumes start: "span_ok src start"
  shows "yields src f ts (parse_begin start) (typed_result f)"
  unfolding parse_begin_def
  by (rule yields_bind[OF yields_mode_kind], intro agnostic_rules, rule yields_tx_bind, rule yields_bind[OF yields_block],
      intro agnostic_rules, rule yields_bind[OF yields_name], intro agnostic_rules, rule yields_tx_bind,
      rule yields_bind[where R = "\<lambda>us modes. (modes \<noteq> [] \<longrightarrow> tx_begin_transaction_modes (transaction_syntax f)) \<and>
        modes_typed (transaction_syntax f) (tx_transaction_isolation_mode (transaction_syntax f))
          (tx_transaction_access_mode (transaction_syntax f)) (tx_transaction_deferrable_mode (transaction_syntax f)) False modes"],
      rule yields_if, rule yields_mono[OF yields_modes(1)], simp, rule yields_return, simp, intro agnostic_rules,
      rule yields_node[OF start], simp, intro agnostic_rules, intro agnostic_rules)

lemma yields_start:
  assumes start: "span_ok src start" and flag: "tx_start_transaction (transaction_syntax f)"
  shows "yields src f ts (parse_start start) (typed_result f)"
  unfolding parse_start_def
  by (rule yields_tx_bind, rule yields_bind[where R = "\<lambda>us block. block_typed (transaction_syntax f) True block \<and>
        (block = Some Block_Transaction \<or> tx_start_transaction_block_optional (transaction_syntax f))"],
      rule yields_if, rule yields_mono[OF yields_block], simp, rule yields_then[OF yields_expect(1)], intro agnostic_rules,
      rule yields_return, simp add: block_typed_def, intro agnostic_rules,
      rule yields_bind[OF yields_modes(1)], intro agnostic_rules, rule yields_node[OF start], use flag in simp, intro agnostic_rules)

lemma yields_commit:
  assumes start: "span_ok src start" and flag: "syntax = Kw_End \<longrightarrow> tx_end_transaction_alias (transaction_syntax f)"
  shows "yields src f ts (parse_commit start syntax) (typed_result f)"
  unfolding parse_commit_def
  by (rule yields_tx_bind, rule yields_bind[OF yields_block], intro agnostic_rules, rule yields_bind[OF yields_name],
      intro agnostic_rules, rule yields_bind[OF yields_completion], intro agnostic_rules, rule yields_prod,
      rule yields_node[OF start], use flag in simp, intro agnostic_rules)

lemma yields_savepoint_name: "yields src f ts parse_savepoint_name (\<lambda>us i. True)"
  unfolding parse_savepoint_name_def by (rule yields_mono[OF yields_string_names(3)]) simp

lemma yields_completion_unless:
  "yields src f ts (if to_savepoint = None then parse_transaction_completion else preturn (None, None))
     (\<lambda>us (chain, release). completion_typed (transaction_syntax f) chain release
        \<and> (to_savepoint \<noteq> None \<longrightarrow> chain = None \<and> release = None))"
  by (rule yields_if, rule yields_mono[OF yields_completion], simp add: case_prod_beta,
      rule yields_return, simp add: completion_typed_def)

lemma yields_rollback:
  assumes start: "span_ok src start" and flag: "syntax = Kw_Abort \<longrightarrow> tx_abort_transaction_alias (transaction_syntax f)"
  shows "yields src f ts (parse_rollback start syntax) (typed_result f)"
  unfolding parse_rollback_def
  by (rule yields_tx_bind, rule yields_bind[OF yields_block], intro agnostic_rules, rule yields_bind[OF yields_name],
      intro agnostic_rules, rule yields_tx_bind, rule yields_bind[OF yields_gated[OF yields_eat(1)]], intro agnostic_rules,
      rule yields_bind[where R = "\<lambda>us (k, i). (i = None \<longrightarrow> \<not> k) \<and> (i \<noteq> None \<longrightarrow> tx_transaction_savepoints (transaction_syntax f))"],
      rule yields_if, rule yields_bind[OF yields_eat(1)], intro agnostic_rules, rule yields_bind[OF yields_savepoint_name],
      intro agnostic_rules, rule yields_return, simp, rule yields_return, simp, intro agnostic_rules, rule yields_prod,
      rule yields_bind[OF yields_completion_unless], intro agnostic_rules, rule yields_prod, rule yields_node[OF start], use flag in simp, intro agnostic_rules, intro agnostic_rules)

lemma yields_savepoint:
  assumes start: "span_ok src start" and flag: "tx_transaction_savepoints (transaction_syntax f)"
  shows "yields src f ts (parse_savepoint start) (typed_result f)"
  unfolding parse_savepoint_def
  by (rule yields_bind[OF yields_savepoint_name], intro agnostic_rules, rule yields_node[OF start]) (use flag in simp)

lemma yields_release:
  assumes start: "span_ok src start" and flag: "tx_transaction_savepoints (transaction_syntax f)"
  shows "yields src f ts (parse_release start) (typed_result f)"
  unfolding parse_release_def
  by (rule yields_tx_bind, rule yields_bind[where R = "\<lambda>us k. k \<or> tx_release_savepoint_keyword_optional (transaction_syntax f)"],
      rule yields_if, rule yields_mono[OF yields_eat(1)], simp, rule yields_then[OF yields_expect(1)], intro agnostic_rules,
      rule yields_return, simp, intro agnostic_rules, rule yields_bind[OF yields_savepoint_name], intro agnostic_rules,
      rule yields_node[OF start], use flag in simp, intro agnostic_rules)

lemma yields_set:
  assumes start: "span_ok src start" and flag: "tx_set_transaction (transaction_syntax f)"
  shows "yields src f ts (parse_set_transaction start) (typed_result f)"
  unfolding parse_set_transaction_def
  by (rule yields_then[OF yields_expect(1)], intro agnostic_rules, rule yields_bind[OF yields_modes(2)], intro agnostic_rules,
      rule yields_if, rule yields_unexpected, rule yields_node[OF start], use flag in simp)

lemma yields_statement_kind [yields_rules]:
  assumes start: "span_ok src start"
  shows "yields src f ts (parse_transaction_statement_kind start) (typed_result f)"
  unfolding parse_transaction_statement_kind_def
  apply (rule yields_tx_bind)
  apply (rule yields_eat_choice, intro agnostic_rules, intro agnostic_rules, rule yields_begin[OF start])
  apply (rule yields_eat_choice, intro agnostic_rules, intro agnostic_rules, rule yields_start[OF start], simp)
  apply (rule yields_bind[OF yields_keywords(1)], intro agnostic_rules, rule yields_option)
  apply (rule yields_bind[OF yields_keywords(2)], intro agnostic_rules, rule yields_option)
  apply (rule yields_eat_choice, intro agnostic_rules, intro agnostic_rules, rule yields_savepoint[OF start], simp)
  apply (rule yields_eat_choice, intro agnostic_rules, intro agnostic_rules, rule yields_release[OF start], simp)
  apply (rule yields_eat_choice, intro agnostic_rules, intro agnostic_rules, rule yields_set[OF start], simp)
  apply (rule yields_unexpected, rule yields_rollback[OF start], simp, rule yields_commit[OF start], simp, intro agnostic_rules)
  done

subsection \<open>XA transactions\<close>

text \<open>A branch qualifier comes before a format id; the format id is a number.\<close>

definition numeric_kind :: "literal_kind \<Rightarrow> bool" where
  "numeric_kind k \<longleftrightarrow> k = Lk_Integer \<or> k = Lk_Float \<or> k = Lk_Decimal \<or> k = Lk_Money"

fun xid_typed :: "(literal, meta) xid \<Rightarrow> bool" where
  "xid_typed (Xid gtrid bqual format_id _) \<longleftrightarrow>
     (format_id \<noteq> None \<longrightarrow> bqual \<noteq> None \<and> numeric_kind (lit_kind (the format_id)))"

fun xa_typed :: "xa_stmt \<Rightarrow> bool" where
  "xa_typed (Xa_Start _ xid _ _) \<longleftrightarrow> xid_typed xid"
| "xa_typed (Xa_End xid _ _) \<longleftrightarrow> xid_typed xid"
| "xa_typed (Xa_Prepare xid _) \<longleftrightarrow> xid_typed xid"
| "xa_typed (Xa_Commit xid _ _) \<longleftrightarrow> xid_typed xid"
| "xa_typed (Xa_Rollback xid _) \<longleftrightarrow> xid_typed xid"
| "xa_typed (Xa_Recover _ _) \<longleftrightarrow> True"

lemma number_kind_numeric: "numeric_kind (number_literal_kind s decimal)"
  by (simp add: number_literal_kind_def numeric_kind_def Let_def)

lemma yields_float [yields_rules]: "yields src f ts float_as_decimal_enabled (\<lambda>us x. us = ts)"
  unfolding float_as_decimal_enabled_def
  by (rule yields_deaf, rule deaf_get, drule strip_fields(9), simp)
     (auto simp: run_pure pget_def later_def strip_strip_seated)

lemma yields_number_literal [yields_rules]:
  assumes "token_fits src tok"
  shows "yields src f ts (number_literal tok) (\<lambda>us l. numeric_kind (lit_kind l) \<and> span_ok src (meta_span (lit_meta l)))"
  unfolding number_literal_def
  by (rule yields_bind[OF yields_advance], intro agnostic_rules,
      rule yields_bind[OF yields_span_text[OF token_fits_span[OF assms]]], intro agnostic_rules,
      rule yields_bind[OF yields_float], intro agnostic_rules, rule yields_bind[OF yields_make_meta], intro agnostic_rules,
      rule yields_return) (simp add: number_kind_numeric token_fits_span[OF assms])

lemma yields_xid_text [yields_rules]:
  "yields src f ts (parse_xid_text expected) (\<lambda>us l. span_ok src (meta_span (lit_meta l)))"
  unfolding parse_xid_text_def
proof (rule yields_bind[OF yields_peek(1)], intro agnostic_rules, rule yields_option, rule yields_unexpected, goal_cases)
  case (1 us t tok)
  then obtain vs where t: "us = tok # vs" "token_fits src tok" using peekedD(2)[of src ts us tok] peekedD(1)[of src ts us] by (cases ts) auto
  have str: "yields src f us (pbind (parse_string_literal tok) (\<lambda>e. case e of Expr_Literal l m \<Rightarrow> preturn l))
      (\<lambda>us l. span_ok src (meta_span (lit_meta l)))"
    unfolding t(1)
    by (rule yields_bind[OF yields_string_literal[OF t(2)]], intro agnostic_rules) (auto intro!: yields_return)
  show ?case
    by (rule yields_if, rule str, rule yields_if, rule yields_bind[OF yields_span_text[OF token_fits_span[OF t(2)]]],
        intro agnostic_rules, rule yields_if, rule yields_mono[OF yields_number_literal[OF t(2)]], simp,
        rule yields_unexpected, rule yields_unexpected)
qed

lemma yields_xid_format_id [yields_rules]: "yields src f ts parse_xid_format_id (\<lambda>us l. numeric_kind (lit_kind l))"
  unfolding parse_xid_format_id_def
  by (rule yields_bind[OF yields_peek(1)], intro agnostic_rules, rule yields_option, rule yields_unexpected, rule yields_if,
      rule yields_unexpected, rule yields_mono[OF yields_number_literal]) (auto dest: peekedD)

lemma yields_xid [yields_rules]: "yields src f ts parse_xid (\<lambda>us xid. xid_typed xid)"
  unfolding parse_xid_def
  by (rule yields_bind[OF yields_xid_text], intro agnostic_rules, rule yields_bind[OF yields_eat(3)], intro agnostic_rules,
      rule yields_bind[where R = "\<lambda>us (bqual, format_id). format_id \<noteq> None \<longrightarrow> bqual \<noteq> None \<and> numeric_kind (lit_kind (the format_id))"],
      rule yields_if, rule yields_bind[OF yields_xid_text], intro agnostic_rules, rule yields_bind[OF yields_eat(3)], intro agnostic_rules,
      rule yields_if, rule yields_bind[OF yields_xid_format_id], intro agnostic_rules, rule yields_return, simp,
      rule yields_return, simp, rule yields_return, simp, intro agnostic_rules, rule yields_prod, rule yields_node, assumption, simp)

lemma yields_xa_statements [yields_rules]:
  assumes "span_ok src start"
  shows "yields src f ts (parse_xa_start start kw) (\<lambda>us s. xa_typed s)"
    "yields src f ts (parse_xa_end start) (\<lambda>us s. xa_typed s)"
    "yields src f ts (parse_xa_commit start) (\<lambda>us s. xa_typed s)"
    "yields src f ts (parse_xa_recover start) (\<lambda>us s. xa_typed s)"
    "yields src f ts (pbind parse_xid (\<lambda>xid. pbind (meta_from start) (\<lambda>m. preturn (Xa_Prepare xid m)))) (\<lambda>us s. xa_typed s)"
    "yields src f ts (pbind parse_xid (\<lambda>xid. pbind (meta_from start) (\<lambda>m. preturn (Xa_Rollback xid m)))) (\<lambda>us s. xa_typed s)"
proof -
  have word: "yields src f us (if b then preturn x else pbind (eat_contextual_keyword w) (\<lambda>r. preturn (if r then y else z))) (\<lambda>us x. True)"
    for us b w and x y z :: 'b
    by (rule yields_if, rule yields_return, simp, rule yields_bind[OF yields_eat(1)], intro agnostic_rules, rule yields_return, simp)
  have opt: "yields src f us (if b then pbind (expect_contextual_keyword w) (\<lambda>_. preturn x) else preturn y) (\<lambda>us x. True)"
    for us b w and x y :: 'b
    by (rule yields_if, rule yields_then[OF yields_expect(1)], intro agnostic_rules, rule yields_return, simp, rule yields_return, simp)
  show "yields src f ts (parse_xa_start start kw) (\<lambda>us s. xa_typed s)"
    unfolding parse_xa_start_def
    by (rule yields_bind[OF yields_xid], intro agnostic_rules, rule yields_bind[OF yields_eat(1)], intro agnostic_rules,
        rule yields_bind[OF word], intro agnostic_rules, rule yields_node[OF assms], simp)
  have suspend: "yields src f us (if b then
              pbind (eat_contextual_keyword ''FOR'') (\<lambda>f.
                if f then pbind (expect_contextual_keyword ''MIGRATE'') (\<lambda>_. preturn (Some Xa_SuspendForMigrate))
                else preturn (Some Xa_Suspend))
            else preturn None) (\<lambda>us x. True)" for us b
    by (rule yields_if, intro yields_eat_choice agnostic_rules) (auto intro: yields_return)
  show "yields src f ts (parse_xa_end start) (\<lambda>us s. xa_typed s)"
    unfolding parse_xa_end_def
    by (rule yields_bind[OF yields_xid], intro agnostic_rules, rule yields_bind[OF yields_eat(1)], intro agnostic_rules,
        rule yields_bind[OF suspend], intro agnostic_rules, rule yields_node[OF assms], simp)
  show "yields src f ts (parse_xa_commit start) (\<lambda>us s. xa_typed s)"
    unfolding parse_xa_commit_def
    by (rule yields_bind[OF yields_xid], intro agnostic_rules, rule yields_bind[OF yields_eat(1)], intro agnostic_rules,
        rule yields_bind[OF opt], intro agnostic_rules, rule yields_node[OF assms], simp)
  show "yields src f ts (parse_xa_recover start) (\<lambda>us s. xa_typed s)"
    unfolding parse_xa_recover_def
    by (rule yields_bind[OF yields_eat(1)], intro agnostic_rules,
        rule yields_bind[OF opt], intro agnostic_rules, rule yields_node[OF assms], simp)
  show "yields src f ts (pbind parse_xid (\<lambda>xid. pbind (meta_from start) (\<lambda>m. preturn (Xa_Prepare xid m)))) (\<lambda>us s. xa_typed s)"
    "yields src f ts (pbind parse_xid (\<lambda>xid. pbind (meta_from start) (\<lambda>m. preturn (Xa_Rollback xid m)))) (\<lambda>us s. xa_typed s)"
    by (rule yields_bind[OF yields_xid], intro agnostic_rules, rule yields_node[OF assms], simp)+
qed

lemma yields_xa_kind [yields_rules]:
  assumes "span_ok src start"
  shows "yields src f ts (parse_xa_statement_kind start) (\<lambda>us s. xa_typed s)"
  unfolding parse_xa_statement_kind_def
  by (intro yields_eat_choice agnostic_rules yields_xa_statements[OF assms] yields_unexpected)

subsection \<open>The two statements\<close>

fun tcl_typed :: "transaction_syntax \<Rightarrow> tcl_statement \<Rightarrow> bool" where
  "tcl_typed s (Stmt_Transaction t _) \<longleftrightarrow> transaction_typed s t"
| "tcl_typed s (Stmt_Xa x _) \<longleftrightarrow> xa_typed x"

lemma yields_tcl [yields_rules]:
  "yields src f ts parse_transaction_statement (\<lambda>us s. tcl_typed (transaction_syntax f) s)"
  "yields src f ts parse_xa_statement (\<lambda>us s. tcl_typed (transaction_syntax f) s)"
  unfolding parse_transaction_statement_def parse_xa_statement_def
  by (rule yields_bind[OF yields_current_span], intro agnostic_rules, elim conjE, hypsubst,
      rule yields_bind[OF yields_statement_kind], assumption, intro agnostic_rules, rule yields_node, assumption, simp)
     (rule yields_bind[OF yields_current_span], intro agnostic_rules, elim conjE, hypsubst,
      rule yields_then[OF yields_expect(1)], intro agnostic_rules,
      rule yields_bind[OF yields_xa_kind], assumption, intro agnostic_rules, rule yields_node, assumption, simp)

end
