(* ===== verification/Lexeme_Shapes.thy ===== *)
theory Lexeme_Shapes
  imports Parse_Contracts
begin

text \<open>
  What the scanner promises of the lexemes the grammar takes apart: a quoted identifier that is not
  a \<open>U&\<close> one starts with the opening delimiter of a configured style and ends with a delimiter, and
  so does a string constant that starts with a quote.
\<close>

subsection \<open>Kinds\<close>

definition not_quoted :: "lex_failure + (token \<times> cursor) \<Rightarrow> bool" where
  "not_quoted r \<longleftrightarrow> (case r of Inl e \<Rightarrow> True | Inr (t, c) \<Rightarrow> token_kind t \<noteq> Tk_String \<and> token_kind t \<noteq> Tk_QuotedIdent)"

lemma not_quoted_Inl [simp]: "not_quoted (Inl e)"
  by (simp add: not_quoted_def)

lemma not_quoted_from [simp]: "k \<noteq> Tk_String \<Longrightarrow> k \<noteq> Tk_QuotedIdent \<Longrightarrow> not_quoted (token_from k p c)"
  by (simp add: not_quoted_def token_from_def split: option.split)

lemma not_quoted_then: "(\<And>x. not_quoted (k x)) \<Longrightarrow> not_quoted (and_then m k)"
  by (cases m) (simp_all add: and_then_def)

lemma plain_kinds:
  "not_quoted (scan_word u f c)" "not_quoted (scan_number u f c)" "not_quoted (scan_money f c)"
  "not_quoted (scan_parameter u f c)" "not_quoted (scan_positional_column c)"
  "not_quoted (scan_stage_reference u f c)" "not_quoted (scan_session_variable u f c)"
  unfolding scan_word_def scan_number_def scan_money_def scan_parameter_def scan_positional_column_def
    scan_stage_reference_def scan_session_variable_def Let_def
  by (auto intro!: not_quoted_then split: option.split)

lemma operator_kinds: "not_quoted (scan_operator f c)" "not_quoted (scan_punctuation f c)"
  unfolding scan_operator_def scan_punctuation_def scan_custom_operator_def Let_def
  by (auto intro!: not_quoted_then split: option.split)

subsection \<open>Where a quoted lexeme ends\<close>

text \<open>The cursor stands just past a delimiter, at least two bytes on.\<close>

definition closes :: "cursor \<Rightarrow> cursor \<Rightarrow> bool" where
  "closes c c' \<longleftrightarrow> cur_src c' = cur_src c \<and> cur_pos c + 2 \<le> cur_pos c' \<and> is_ascii (cur_src c ! (cur_pos c' - 1))"

lemma quoted_body_loop_end:
  "quoted_body_loop scan start bs c = Inr (t, c')
     \<Longrightarrow> cur_src c' = cur_src c \<and> cur_pos c < cur_pos c' \<and> cur_src c ! (cur_pos c' - 1) = qs_close scan"
proof (induction scan start bs c rule: quoted_body_loop.induct)
  case (1 scan start bs c)
  have b: "peek c = Some b \<Longrightarrow> cur_pos (bump c) = Suc (cur_pos c)" for b by (simp add: bump_pos)
  have le: "cur_src (bump d) = cur_src d" "cur_pos d \<le> cur_pos (bump d)" for d
    using cur_leD[OF bump_le[of d]] by simp_all
  define ends where "ends d \<longleftrightarrow> cur_src c' = cur_src d \<and> cur_pos d < cur_pos c' \<and> cur_src d ! (cur_pos c' - 1) = qs_close scan" for d :: cursor
  have step: "ends (bump c) \<Longrightarrow> ends c" "ends (bump (bump c)) \<Longrightarrow> ends c"
    using le[of c] le[of "bump c"] by (auto simp: ends_def)
  have "ends c"
  proof (cases "peek c")
    case None
    with 1(4) show ?thesis by (simp add: quoted_body_loop.simps[of scan start bs c])
  next
    case (Some x)
    have here: "ends c" if "x = qs_close scan" "token_from (qs_kind scan) start (bump c) = Inr (t, c')"
      using that b[OF Some] Some le(1)[of c] by (auto simp: ends_def token_from_def peek_Some split: option.splits)
    note run = 1(4)[unfolded quoted_body_loop.simps[of scan start bs c] Some option.case Let_def]
    show ?thesis
    proof (cases "x = CHR 0x5C \<and> qs_backslash scan")
      case True
      then have "quoted_body_loop scan start bs (bump (bump c)) = Inr (t, c')" "peek (bump c) \<noteq> None"
        using run by (simp_all split: if_splits)
      with 1(1)[OF Some True refl] step(2) show ?thesis unfolding ends_def by blast
    next
      case False
      show ?thesis
      proof (cases "x = qs_close scan")
        case True
        show ?thesis
        proof (cases "peek_nth 1 c = Some (qs_close scan)")
          case twice: True
          with run False True have "quoted_body_loop scan start bs (bump (bump c)) = Inr (t, c')" by (simp add: if_not_P)
          with 1(2)[OF Some False True twice] step(2) show ?thesis unfolding ends_def by blast
        next
          case once: False
          with run False True show ?thesis using here by (simp add: if_not_P split: if_splits)
        qed
      next
        case other: False
        with run False have "quoted_body_loop scan start bs (bump c) = Inr (t, c')" by (simp add: if_not_P)
        with 1(3)[OF Some False other] step(1) show ?thesis unfolding ends_def by blast
      qed
    qed
  qed
  then show ?case by (simp add: ends_def)
qed

lemma scan_quoted_body_end:
  assumes "peek c = Some b" "scan_quoted_body start scan c = Inr (t, c')"
  shows "cur_src c' = cur_src c \<and> cur_pos c + 2 \<le> cur_pos c' \<and> cur_src c ! (cur_pos c' - 1) = qs_close scan"
  using quoted_body_loop_end[of scan start "cur_pos (bump c)" "bump c" t c'] assms(2) bump_pos[OF assms(1)] cur_leD[OF bump_le[of c]]
  by (auto simp: scan_quoted_body_def Let_def)

lemma extend_end:
  "extend_string_continuations scan t k c = Inr ((t', k'), c')
     \<Longrightarrow> c' = c \<or> (cur_src c' = cur_src c \<and> cur_pos c + 2 \<le> cur_pos c' \<and> is_ascii (cur_src c ! (cur_pos c' - 1)))"
proof (induction scan t k c rule: extend_string_continuations.induct)
  case (1 scan t k c)
  obtain saw c1 where g: "continuation_gap False c = (saw, c1)" by (cases "continuation_gap False c")
  have w: "cur_le c c1" using walks_le[OF continuation_gap_walks[of c False]] g by simp
  show ?case
  proof (cases "saw \<and> continuation_close scan c1 \<noteq> None")
    case False
    with 1(2) g have "c' = set_pos (cur_pos c) c1"
      by (subst (asm) extend_string_continuations.simps) (auto split: if_splits option.splits)
    with w show ?thesis by simp
  next
    case True
    then obtain close b where cl: "continuation_close scan c1 = Some close" "peek c1 = Some b" "is_ascii close"
      using continuation_closeD by blast
    from 1(2) g True cl(1) obtain t2 c2 where
      r: "scan_quoted_body (span_start (token_span t)) (segment_scan scan close) c1 = Inr (t2, c2)"
        "extend_string_continuations scan t2 True c2 = Inr ((t', k'), c')"
      by (subst (asm) extend_string_continuations.simps) (auto split: sum.splits)
    have e: "cur_src c2 = cur_src c1 \<and> cur_pos c1 + 2 \<le> cur_pos c2 \<and> cur_src c1 ! (cur_pos c2 - 1) = close"
      using scan_quoted_body_end[OF cl(2) r(1)] by (simp add: segment_scan_def)
    have src: "cur_src c1 = cur_src c" "cur_pos c \<le> cur_pos c1" using cur_leD[OF w] by simp_all
    note ih = 1(1)[OF g[symmetric] _ cl(1) r(1) refl r(2)]
    from True ih e src cl(3) show ?thesis by auto
  qed
qed

lemma scan_quoted_closes:
  assumes "peek c = Some b" "is_ascii (qs_close scan)" "scan_quoted scan c = Inr (t, c')"
  shows "closes c c'"
proof -
  from assms(3) obtain t1 c1 where r: "scan_quoted_body (cur_pos c) scan c = Inr (t1, c1)"
    by (cases "scan_quoted_body (cur_pos c) scan c") (auto simp: scan_quoted_def)
  note e = scan_quoted_body_end[OF assms(1) r]
  have "c' = c1 \<or> (\<exists>k t2. extend_string_continuations scan t1 False c1 = Inr ((t2, k), c'))"
    using assms(3) r by (auto simp: scan_quoted_def drop_flag_def and_then_def split: if_splits sum.splits)
  with e assms(2) show ?thesis using extend_end by (fastforce simp: closes_def)
qed

subsection \<open>Every token of the scanner is shaped\<close>

text \<open>The delimiters the grammar takes apart.\<close>

definition known_quote :: "identifier_quote \<Rightarrow> bool" where
  "known_quote q \<longleftrightarrow> iq_open q = 34 \<or> iq_open q = 96 \<or> iq_open q = 91"

definition known_quotes :: "feature_set \<Rightarrow> bool" where
  "known_quotes f \<longleftrightarrow> list_all known_quote (identifier_quotes f)"

lemma known_opening:
  assumes "known_quotes f" "opening_identifier_quote f b = Some close"
  shows "b = CHR 0x22 \<or> b = CHR 0x60 \<or> b = CHR ''[''"
proof -
  have "first_opening styles b = Some close \<Longrightarrow> list_all known_quote styles \<Longrightarrow> byte_val b = 34 \<or> byte_val b = 96 \<or> byte_val b = 91" for styles
    by (induction styles) (auto simp: known_quote_def split: if_splits)
  with assms have "byte_val b = 34 \<or> byte_val b = 96 \<or> byte_val b = 91"
    by (simp add: known_quotes_def opening_identifier_quote_def)
  moreover have "b = char_of (byte_val b)" by simp
  moreover have "char_of (34 :: nat) = CHR 0x22" "char_of (96 :: nat) = CHR 0x60" "char_of (91 :: nat) = CHR ''[''" by code_simp+
  ultimately show ?thesis by metis
qed

text \<open>What holds of the token a scan function returns, in terms of its lead byte.\<close>

definition shapes :: "cursor \<Rightarrow> byte \<Rightarrow> lex_failure + (token \<times> cursor) \<Rightarrow> bool" where
  "shapes c b r \<longleftrightarrow> (case r of Inl e \<Rightarrow> True | Inr (t, c') \<Rightarrow>
     (token_kind t = Tk_QuotedIdent \<longrightarrow>
        ((b = CHR ''U'' \<or> b = CHR ''u'') \<and> peek_nth 1 c = Some (CHR ''&'') \<and> peek_nth 2 c = Some (CHR 0x22)
           \<and> cur_pos c + 3 \<le> cur_pos c')
        \<or> ((b = CHR 0x22 \<or> b = CHR 0x60 \<or> b = CHR ''['') \<and> closes c c'))
     \<and> (token_kind t = Tk_String \<longrightarrow> (b = CHR 0x22 \<or> b = CHR 0x27) \<longrightarrow> closes c c'))"

lemma shapes_not_quoted: "not_quoted r \<Longrightarrow> shapes c b r"
  by (auto simp: shapes_def not_quoted_def split: sum.splits)

lemma shapes_Inl [simp]: "shapes c b (Inl e)"
  by (simp add: shapes_def)

lemma shapes_string:
  assumes "b \<noteq> CHR 0x22" "b \<noteq> CHR 0x27" "\<And>t c'. r = Inr (t, c') \<Longrightarrow> token_kind t \<noteq> Tk_QuotedIdent"
  shows "shapes c b r"
  using assms by (auto simp: shapes_def split: sum.split)

lemma extend_kind:
  "extend_string_continuations scan t k c = Inr ((t', k'), c') \<Longrightarrow> token_kind t' = token_kind t \<or> token_kind t' = Tk_String"
proof (induction scan t k c rule: extend_string_continuations.induct)
  case (1 scan t k c)
  obtain saw c1 where g: "continuation_gap False c = (saw, c1)" by (cases "continuation_gap False c")
  show ?case
  proof (cases "saw \<and> continuation_close scan c1 \<noteq> None")
    case False
    with 1(2) g show ?thesis
      by (subst (asm) extend_string_continuations.simps) (auto split: if_splits option.splits)
  next
    case True
    then obtain close where cl: "continuation_close scan c1 = Some close" by auto
    from 1(2) g True cl obtain t2 c2 where
      r: "scan_quoted_body (span_start (token_span t)) (segment_scan scan close) c1 = Inr (t2, c2)"
        "extend_string_continuations scan t2 True c2 = Inr ((t', k'), c')"
      by (subst (asm) extend_string_continuations.simps) (auto split: sum.splits)
    have "token_kind t2 = Tk_String" using scan_quoted_body_kind[OF r(1)] by (simp add: segment_scan_def)
    with 1(1)[OF g[symmetric] _ cl r(1) refl r(2)] True show ?thesis by auto
  qed
qed

lemma prefixed_kind:
  "drop_flag (scan_prefixed_string n close bs c) = Inr (t, c') \<Longrightarrow> token_kind t = Tk_String"
  by (auto simp: drop_flag_def scan_prefixed_string_def and_then_def Let_def
      dest!: extend_kind scan_quoted_body_kind split: sum.splits if_splits)

lemma escape_string_kind: "scan_escape_string c = Inr (t, c') \<Longrightarrow> token_kind t = Tk_String"
  using prefixed_kind[of 1 "CHR 0x27" True c t c']
  by (auto simp: scan_escape_string_def drop_flag_def and_then_def split: sum.splits option.splits if_splits)

lemma hex_blob_kind: "scan_hex_blob c = Inr (t, c') \<Longrightarrow> token_kind t = Tk_String"
  by (auto simp: scan_hex_blob_def token_from_def Let_def split: if_splits option.splits)

lemma dollar_quote_kind: "scan_dollar_quote f c = Inr (t, c') \<Longrightarrow> token_kind t = Tk_String"
proof -
  have "dollar_body_loop d s c = Inr (t, c') \<Longrightarrow> token_kind t = Tk_String" for d s c
  proof (induction d s c rule: dollar_body_loop.induct)
    case (1 d s c)
    then show ?case
      by (subst (asm) dollar_body_loop.simps) (auto simp: token_from_def Let_def split: option.splits if_splits)
  qed
  then show "scan_dollar_quote f c = Inr (t, c') \<Longrightarrow> token_kind t = Tk_String"
    by (auto simp: scan_dollar_quote_def Let_def split: if_splits)
qed

lemma scan_quoted_kind:
  assumes "scan_quoted scan c = Inr (t, c')"
  shows "token_kind t = qs_kind scan"
proof -
  from assms obtain t1 c1 where r: "scan_quoted_body (cur_pos c) scan c = Inr (t1, c1)"
    by (cases "scan_quoted_body (cur_pos c) scan c") (auto simp: scan_quoted_def)
  note k = scan_quoted_body_kind[OF r]
  show ?thesis
  proof (cases "token_kind t1 = Tk_String \<and> qs_backslash scan")
    case True
    with assms r obtain b where "extend_string_continuations scan t1 False c1 = Inr ((t, b), c')"
      by (auto simp: scan_quoted_def drop_flag_def and_then_def split: sum.splits)
    with extend_kind True k show ?thesis by metis
  next
    case False
    with assms r k show ?thesis by (auto simp: scan_quoted_def split: if_splits)
  qed
qed

lemma quote_arms_shapes:
  assumes "known_quotes f" "cur_good c" "peek c = Some b" "quote_arms u f c b = Some r"
  shows "shapes c b r"
proof -
  have str: "shapes c b (scan_quoted (string_scan f close) c)" if "is_ascii close" for close
    using scan_quoted_closes[OF assms(3), of "string_scan f close"] scan_quoted_kind[of "string_scan f close" c] that
    by (auto simp: shapes_def string_scan_def split: sum.split)
  have ident: "shapes c b (scan_quoted (quoted_ident_scan f close) c)" if "opening_identifier_quote f b = Some close" for close
    using scan_quoted_closes[OF assms(3), of "quoted_ident_scan f close"] scan_quoted_kind[of "quoted_ident_scan f close" c]
      known_opening[OF assms(1) that] opening_identifier_quote_ascii[OF that]
    by (auto simp: shapes_def quoted_ident_scan_def split: sum.split)
  have uni: "shapes c b (scan_unicode_ident f c)"
    if u: "b = CHR ''U'' \<or> b = CHR ''u''" "peek_nth 1 c = Some (CHR ''&'')" "peek_nth 2 c = Some (CHR 0x22)"
  proof (cases "scan_unicode_ident f c")
    case (Inr x)
    obtain t c' where x: "x = (t, c')" by (cases x)
    have "peek (advance_bytes 2 c) = Some (CHR 0x22)" "cur_pos (advance_bytes 2 c) = cur_pos c + 2"
      using u(3) by (simp_all add: peek_nth_def peek_def get_at_def)
    with scan_quoted_body_end[of "advance_bytes 2 c"] scan_quoted_body_kind Inr x u show ?thesis
      by (fastforce simp: shapes_def scan_unicode_ident_def)
  qed simp
  have pre: "shapes c b (drop_flag (scan_prefixed_string n close bs c))" if "b \<noteq> CHR 0x22" "b \<noteq> CHR 0x27" for n close bs
    by (rule shapes_string[OF that]) (use prefixed_kind in fastforce)
  have esc: "shapes c b (scan_escape_string c)" "shapes c b (scan_hex_blob c)" if "b \<noteq> CHR 0x22" "b \<noteq> CHR 0x27"
    by (rule shapes_string[OF that], use escape_string_kind hex_blob_kind in fastforce)+
  have word: "shapes c b (scan_word u f c)" by (rule shapes_not_quoted[OF plain_kinds(1)])
  show ?thesis
    using assms(4) str[of "CHR 0x27"] str[of "CHR 0x22"] ident uni pre esc word
    unfolding quote_arms_def Let_def
    by (elim if_someE) (auto simp: is_ascii_def split: option.splits)
qed

lemmas plain_shapes [simp] = plain_kinds[THEN shapes_not_quoted] operator_kinds[THEN shapes_not_quoted]
  not_quoted_from[THEN shapes_not_quoted]

lemma dispatch_shapes:
  assumes "known_quotes f" "cur_good c" "peek c = Some b"
  shows "shapes c b (dispatch_lexeme u f c b)"
proof -
  have dq: "shapes c b (scan_dollar_quote f c)" if "b = CHR ''$''"
    by (rule shapes_string) (use that in \<open>simp_all add: dollar_quote_kind\<close>)
  have d: "dollar_arms u f c b = Some r \<Longrightarrow> shapes c b r" for r
    using dq by (auto simp: dollar_arms_def split: if_splits)
  have p: "placeholder_arms u f c b = Some r \<Longrightarrow> shapes c b r" for r
    by (auto simp: placeholder_arms_def split: if_splits)
  have a: "at_arms u f c b = Some r \<Longrightarrow> shapes c b r" for r
    by (auto simp: at_arms_def Let_def split: if_splits)
  have l: "shapes c b (plain_arms u f c b)"
    by (simp add: plain_arms_def split: option.split)
  show ?thesis
    unfolding dispatch_lexeme_def using quote_arms_shapes[OF assms] d p a l by (auto split: option.split)
qed

lemma shapes_shaped:
  assumes "scans c (Inr (t, c'))" "cur_good c" "peek c = Some b" "shapes c b (Inr (t, c'))"
  shows "lexeme_shaped (cur_src c) t"
proof -
  let ?raw = "subslice (cur_src c) (cur_pos c) (cur_pos c')"
  from assms(1) have w: "walks c c'" "cur_pos c < cur_pos c'" "token_span t = Span (cur_pos c) (cur_pos c')" by simp_all
  have le: "cur_pos c' \<le> length (cur_src c)"
    using walks_good[OF w(1) assms(2)] w(1) by (auto simp: walks_def cur_le_def cur_good_def cur_ok_def)
  have raw: "lexeme_of (cur_src c) t = ?raw" by (simp add: lexeme_of_def w(3))
  have len: "length ?raw = cur_pos c' - cur_pos c" using w(2) le by (simp add: length_slice)
  have nth: "?raw ! n = cur_src c ! (cur_pos c + n)" if "n < cur_pos c' - cur_pos c" for n
    using that w(2) le by (intro nth_slice) simp_all
  have ne: "?raw \<noteq> []" using len w(2) by (auto simp flip: length_greater_0_conv)
  have head: "hd ?raw = b" using nth[of 0] w(2) assms(3) ne by (simp add: hd_conv_nth peek_Some)
  have delim: "delimited ?raw" if "closes c c'" "is_ascii b"
  proof -
    have "last ?raw = cur_src c ! (cur_pos c' - 1)"
      using nth[of "cur_pos c' - cur_pos c - 1"] ne len w(2) by (simp add: last_conv_nth)
    with that head len show ?thesis by (auto simp: delimited_def closes_def is_ascii_def)
  qed
  have uni: "is_unicode_ident ?raw"
    if "b = CHR ''U'' \<or> b = CHR ''u''" "peek_nth 1 c = Some (CHR ''&'')" "peek_nth 2 c = Some (CHR 0x22)" "cur_pos c + 3 \<le> cur_pos c'"
  proof -
    have l: "3 \<le> length ?raw" using that(4) len by linarith
    then obtain x y z zs where raw: "?raw = x # y # z # zs"
      by (cases ?raw; cases "tl ?raw"; cases "tl (tl ?raw)") auto
    have "x = b" "y = CHR ''&''" "z = CHR 0x22"
      using head nth[of 1] nth[of 2] that raw by (simp_all add: peek_nth_Some)
    with raw that(1) show ?thesis by (auto simp: is_unicode_ident_def)
  qed
  show ?thesis
    using assms(4) delim uni head ne
    by (auto simp: lexeme_shaped_def raw Let_def shapes_def is_ascii_def split: token_kind.split)
qed

lemma next_token_shaped:
  assumes "classes_sane f" "known_quotes f" "cur_good c" "next_token u f sink st c = Inr (Some t, c', sink', st')"
  shows "lexeme_shaped (cur_src c) t"
proof -
  from assms(4) obtain c1 sink1 st1 where sk: "skip_trivia f sink st c = Inr (c1, sink1, st1)"
    by (cases "skip_trivia f sink st c") (auto simp: next_token_def)
  have w: "walks c c1" by (rule skip_trivia_walks[OF assms(1) sk])
  then have good: "cur_good c1" and src: "cur_src c1 = cur_src c" using assms(3) by (auto simp: walks_def cur_le_def)
  from assms(4) sk obtain b where b: "peek c1 = Some b" by (auto simp: next_token_def split: option.splits)
  from assms(4) sk b obtain t2 c2 where d: "dispatch_lexeme u f c1 b = Inr (t2, c2)"
    by (cases "dispatch_lexeme u f c1 b") (auto simp: next_token_def)
  have s: "scans c1 (Inr (t2, c2))" using dispatch_scans[OF assms(1) good b] d by metis
  have "nul_gate t2 c2 = Inr (t, c')"
    using assms(4) sk b d by (cases "nul_gate t2 c2") (auto simp: next_token_def)
  with nul_gate_scans(2)[OF s good] have "t = t2" by simp
  with shapes_shaped[OF s good b] dispatch_shapes[OF assms(2) good b, of u] d src show ?thesis by simp
qed

text \<open>The tokens of a source are in place in it, those before a lexical error included.\<close>

lemma lexes_in_place:
  assumes "classes_sane f" "known_quotes f"
  shows "lexes u f st c ts out \<Longrightarrow> cur_good c \<Longrightarrow> length (cur_src c) \<le> u32_max \<Longrightarrow> state_ok st c
    \<Longrightarrow> in_place (cur_src c) ts \<and> (\<forall>t \<in> set ts. cur_pos c \<le> span_start (token_span t)) \<and> out \<noteq> Some Panic"
proof (induction rule: lexes.induct)
  case (lexes_eof st c c' sink st')
  then show ?case by (simp add: in_place_def)
next
  case (lexes_err st c e)
  with next_token_steps[OF assms(1) lexes_err(2-4), of None u] show ?case
    by (cases e) (auto simp: in_place_def steps_def)
next
  case (lexes_tok st c t c' sink st' ts out)
  from next_token_steps[OF assms(1) lexes_tok(4-6), of None u] lexes_tok(1) obtain c1 where
    w: "walks c c'" "walks c c1" "walks c1 c'" "cur_pos c1 < cur_pos c'" "token_span t = Span (cur_pos c1) (cur_pos c')" "state_ok st' c'"
    by (auto simp: steps_def)
  have src: "cur_src c1 = cur_src c" "cur_src c' = cur_src c" "cur_pos c \<le> cur_pos c1"
    using w(1,2) by (auto simp: walks_def cur_le_def)
  have ok: "token_ok (cur_src c) t"
    using token_ok_walk[OF w(3) walks_good[OF w(2) lexes_tok(4)] w(4,5)] src(1) by simp
  have shaped: "lexeme_shaped (cur_src c) t"
    by (rule next_token_shaped[OF assms lexes_tok(4)]) (use lexes_tok(1) in simp)
  have ih: "in_place (cur_src c) ts" "\<forall>t \<in> set ts. cur_pos c' \<le> span_start (token_span t)" "out \<noteq> Some Panic"
    using lexes_tok.IH[OF walks_good[OF w(1) lexes_tok(4)]] lexes_tok(5) w(6) src(2) by simp_all
  have "\<forall>u \<in> set ts. cur_pos c \<le> span_start (token_span u)" using ih(2) src(3) w(4) by fastforce
  with ok shaped ih w(5) src(3) show ?case by (simp add: in_place_def)
qed

lemma production_in_place:
  assumes "classes_sane f" "known_quotes f" "valid_utf8 src" "length src \<le> u32_max"
    "lexes u f LEX_STATE_DEFAULT (cursor_new src) toks out"
  shows "in_place src toks" "out \<noteq> Some Panic"
proof -
  have start: "cur_good (cursor_new src)" "cur_src (cursor_new src) = src" "state_ok LEX_STATE_DEFAULT (cursor_new src)"
    using assms(3) by simp_all
  from lexes_in_place[OF assms(1,2,5) start(1) _ start(3)] assms(4) start(2)
  show "in_place src toks" "out \<noteq> Some Panic" by simp_all
qed

lemma tokens_in_place:
  assumes "classes_sane f" "known_quotes f" "valid_utf8 src" "tokenize_with u f src = Some (Inr toks)"
  shows "in_place src toks" "length src \<le> u32_max"
proof -
  show len: "length src \<le> u32_max" using assms(4) by (simp add: tokenize_with_def split: if_splits)
  from tokenize_with_lexes[OF assms(4) len] production_in_place(1)[OF assms(1-3) len]
  show "in_place src toks" by auto
qed

end
