(* ===== verification/Lexeme_Runs.thy ===== *)
theory Lexeme_Runs
  imports Lexeme_Shapes Token_Stream Preset_Checks Literal_Roundtrips
begin

text \<open>
  The scanner on text written lexeme by lexeme: words, quoted names and commas, one space before
  every lexeme but the first and the commas, the way the renderer writes a statement. Under every
  dialect that classifies bytes as the standard table does (apart from the vertical tab, where the
  shipped tables differ), such a text is tokenized back into exactly its lexemes.
\<close>

subsection \<open>Lexemes and their text\<close>

datatype lexeme = Lx_Word source | Lx_Name byte byte source | Lx_Comma

fun lexeme_text :: "lexeme \<Rightarrow> source" where
  "lexeme_text (Lx_Word w) = w"
| "lexeme_text (Lx_Name opn cls s) = opn # double_delim cls s @ [cls]"
| "lexeme_text Lx_Comma = '',''"

fun lexeme_kind :: "lexeme \<Rightarrow> token_kind" where
  "lexeme_kind (Lx_Word w) = (case lookup_keyword w of None \<Rightarrow> Tk_Word | Some k \<Rightarrow> Tk_Keyword k)"
| "lexeme_kind (Lx_Name opn cls s) = Tk_QuotedIdent"
| "lexeme_kind Lx_Comma = Tk_Punctuation P_Comma"

definition lexeme_gap :: "lexeme \<Rightarrow> source" where
  "lexeme_gap x = (if x = Lx_Comma then [] else '' '')"

fun spaced_text :: "lexeme list \<Rightarrow> source" where
  "spaced_text [] = []"
| "spaced_text (x # xs) = lexeme_gap x @ lexeme_text x @ spaced_text xs"

fun sql_text :: "lexeme list \<Rightarrow> source" where
  "sql_text [] = []"
| "sql_text (x # xs) = lexeme_text x @ spaced_text xs"

fun spaced_tokens :: "nat \<Rightarrow> lexeme list \<Rightarrow> token list" where
  "spaced_tokens i [] = []"
| "spaced_tokens i (x # xs) =
     (let a = i + length (lexeme_gap x); b = a + length (lexeme_text x) in
      Token (lexeme_kind x) (Span a b) # spaced_tokens b xs)"

fun sql_tokens :: "lexeme list \<Rightarrow> token list" where
  "sql_tokens [] = []"
| "sql_tokens (x # xs) = (let b = length (lexeme_text x) in Token (lexeme_kind x) (Span 0 b) # spaced_tokens b xs)"

subsection \<open>Texts the scanner reads back\<close>

definition word_byte :: "byte \<Rightarrow> bool" where
  "word_byte b \<longleftrightarrow> is_ascii_alphabetic b \<or> is_ascii_digit b \<or> b = CHR ''_''"

definition plain_word :: "source \<Rightarrow> bool" where
  "plain_word w \<longleftrightarrow> w \<noteq> [] \<and> is_ascii_alphabetic (hd w) \<and> list_all word_byte w"

definition standard_text :: "feature_set \<Rightarrow> bool" where
  "standard_text f \<longleftrightarrow> (\<forall>b m. b \<noteq> CHR 0x0B \<longrightarrow> has_byte_class f b m = has_class STANDARD_BYTE_CLASSES b m)"

definition quote_pair :: "byte \<Rightarrow> byte \<Rightarrow> bool" where
  "quote_pair opn cls \<longleftrightarrow> opn = CHR 0x22 \<and> cls = CHR 0x22 \<or> opn = CHR 0x60 \<and> cls = CHR 0x60
     \<or> opn = CHR ''['' \<and> cls = CHR '']''"

definition name_ok :: "feature_set \<Rightarrow> byte \<Rightarrow> byte \<Rightarrow> source \<Rightarrow> bool" where
  "name_ok f opn cls s \<longleftrightarrow> opening_identifier_quote f opn = Some cls \<and> quote_pair opn cls
     \<and> (opn = CHR 0x22 \<longrightarrow> \<not> sl_double_quoted_strings (string_literals f))
     \<and> valid_utf8 s \<and> CHR 0x00 \<notin> set s
     \<and> (s \<noteq> [] \<or> ids_empty_quoted_identifiers (identifier_syntax f))"

fun lexeme_ok :: "feature_set \<Rightarrow> lexeme \<Rightarrow> bool" where
  "lexeme_ok f (Lx_Word w) \<longleftrightarrow> plain_word w"
| "lexeme_ok f (Lx_Name opn cls s) \<longleftrightarrow> name_ok f opn cls s"
| "lexeme_ok f Lx_Comma \<longleftrightarrow> True"

text \<open>What may follow a lexeme.\<close>

definition breaks :: "source \<Rightarrow> bool" where
  "breaks tail \<longleftrightarrow> tail = [] \<or> hd tail = CHR '' '' \<or> hd tail = CHR '',''"

lemma breaks_spaced: "breaks (spaced_text xs)"
  by (cases xs) (auto simp: breaks_def lexeme_gap_def)

subsection \<open>Words\<close>

lemma standard_class:
  "standard_text f \<Longrightarrow> b \<noteq> CHR 0x0B \<Longrightarrow> has_byte_class f b m \<longleftrightarrow> has_class STANDARD_BYTE_CLASSES b m"
  by (simp add: standard_text_def)

lemma word_byte_facts:
  assumes "standard_text f" "word_byte b"
  shows "has_byte_class f b CLASS_IDENTIFIER_CONTINUE" "is_ascii b" "\<not> has_byte_class f b CLASS_WHITESPACE"
    "\<not> has_byte_class f b CLASS_WHITESPACE_CONTINUE" "b \<noteq> CHR 0x27" "b \<noteq> CHR 0x22" "b \<noteq> CHR ''&''" "b \<noteq> CHR '' ''"
proof -
  have v: "b \<noteq> CHR 0x0B" using assms(2) by (auto simp: word_byte_def ascii_defs)
  show "has_byte_class f b CLASS_IDENTIFIER_CONTINUE"
    using assms(2) by (auto simp: standard_class[OF assms(1) v] has_class_standard word_byte_def ascii_defs
        is_identifier_continue_byte_def is_identifier_start_byte_def)
  show "is_ascii b" using assms(2) by (auto simp: word_byte_def ascii_defs is_ascii_def)
  show "\<not> has_byte_class f b CLASS_WHITESPACE" "\<not> has_byte_class f b CLASS_WHITESPACE_CONTINUE"
    using assms(2) by (auto simp: standard_class[OF assms(1) v] has_class_standard word_byte_def ascii_defs)
  show "b \<noteq> CHR 0x27" "b \<noteq> CHR 0x22" "b \<noteq> CHR ''&''" "b \<noteq> CHR '' ''"
    using assms(2) by (auto simp: word_byte_def ascii_defs)
qed

lemma ascii_cursor:
  assumes "i < length s" "is_ascii (s ! i)"
  shows "char_at 0 \<lparr>cur_src = s, cur_pos = i\<rparr> = Some (byte_val (s ! i))"
    "bump_char \<lparr>cur_src = s, cur_pos = i\<rparr> = \<lparr>cur_src = s, cur_pos = Suc i\<rparr>"
proof -
  have d: "drop i s = s ! i # drop (Suc i) s" using assms(1) by (simp add: Cons_nth_drop_Suc)
  show c: "char_at 0 \<lparr>cur_src = s, cur_pos = i\<rparr> = Some (byte_val (s ! i))"
    using assms d by (simp add: char_at_def is_char_boundary_def is_continuation_def is_ascii_def)
  then show "bump_char \<lparr>cur_src = s, cur_pos = i\<rparr> = \<lparr>cur_src = s, cur_pos = Suc i\<rparr>"
    using assms(2) by (simp add: bump_char_def len_utf8_def is_ascii_def)
qed

lemma eat_word:
  assumes "standard_text f" "list_all word_byte w" "breaks tail" "pre @ w @ tail = s" "i = length pre"
  shows "eat_identifier_continue u f \<lparr>cur_src = s, cur_pos = i\<rparr> = Inr \<lparr>cur_src = s, cur_pos = i + length w\<rparr>"
  using assms(2,4,5)
proof (induction w arbitrary: pre i)
  case Nil
  then have tail: "pre @ tail = s" "i = length pre" by simp_all
  show ?case
  proof (cases tail)
    case (Cons b bs)
    then have b: "b = CHR '' '' \<or> b = CHR '',''" using assms(3) by (simp add: breaks_def)
    then have v: "b \<noteq> CHR 0x0B" by auto
    from b have "\<not> has_byte_class f b CLASS_IDENTIFIER_CONTINUE" "byte_val b < 128" "b \<noteq> CHR ''$''"
      by (auto simp: standard_class[OF assms(1) v] has_class_standard is_identifier_continue_byte_def
          is_identifier_start_byte_def ascii_defs)
    with tail Cons show ?thesis
      by (subst eat_identifier_continue.simps) (auto simp: peek_def get_at_def is_identifier_continue_def)
  qed (use tail in \<open>subst eat_identifier_continue.simps, simp add: peek_def get_at_def\<close>)
next
  case (Cons b w)
  then have s: "pre @ b # w @ tail = s" "word_byte b" "i = length pre" by simp_all
  then have at: "i < length s" "s ! i = b" by auto
  from word_byte_facts[OF assms(1) s(2)] have c: "has_byte_class f b CLASS_IDENTIFIER_CONTINUE" "byte_val b < 128"
    by (simp_all add: is_ascii_def)
  have "eat_identifier_continue u f \<lparr>cur_src = s, cur_pos = i\<rparr>
      = eat_identifier_continue u f \<lparr>cur_src = s, cur_pos = Suc i\<rparr>"
    by (subst eat_identifier_continue.simps) (use at c in \<open>simp add: peek_def get_at_def is_identifier_continue_def bump_def\<close>)
  with Cons(1)[of "pre @ [b]" "Suc i"] Cons(2) s show ?case by simp
qed

lemma boundary_at:
  assumes "pre @ tail = s" "tail = [] \<or> is_ascii (hd tail)"
  shows "is_char_boundary s (length pre)"
proof (cases tail)
  case (Cons b bs)
  then have "s ! length pre = b" "length pre < length s" using assms(1) by auto
  with Cons assms(2) show ?thesis by (auto simp: is_char_boundary_def is_continuation_def is_ascii_def)
qed (use assms in \<open>auto simp: is_char_boundary_def\<close>)

lemma breaks_ascii: "breaks tail \<Longrightarrow> tail = [] \<or> is_ascii (hd tail)"
  by (auto simp: breaks_def is_ascii_def)

lemma middle_slice: "pre @ w @ tail = s \<Longrightarrow> subslice s (length pre) (length pre + length w) = w"
  by (auto simp: subslice_def)

lemma scan_plain_word:
  assumes "standard_text f" "plain_word w" "breaks tail" "pre @ w @ tail = s" "i = length pre"
  shows "scan_word u f \<lparr>cur_src = s, cur_pos = i\<rparr>
    = Inr (Token (lexeme_kind (Lx_Word w)) (Span i (i + length w)), \<lparr>cur_src = s, cur_pos = i + length w\<rparr>)"
proof -
  obtain b v where w: "w = b # v" "word_byte b" "list_all word_byte v" using assms(2) by (cases w) (auto simp: plain_word_def)
  have at: "i < length s" "s ! i = b" using assms(4,5) w(1) by auto
  have a: "is_ascii b" by (rule word_byte_facts[OF assms(1) w(2)])
  have e: "eat_identifier_continue u f \<lparr>cur_src = s, cur_pos = Suc i\<rparr> = Inr \<lparr>cur_src = s, cur_pos = i + length w\<rparr>"
    using eat_word[OF assms(1) w(3) assms(3), of "pre @ [b]" s "Suc i" u] assms(4,5) w(1) by simp
  have bounds: "is_char_boundary s i" "is_char_boundary s (i + length w)"
    using boundary_at[of pre "w @ tail" s] boundary_at[of "pre @ w" tail s] assms(4,5) w(1) a breaks_ascii[OF assms(3)] by auto
  have sl: "str_slice s i (i + length w) = Some w"
    using bounds middle_slice[OF assms(4)] assms(4,5) by (auto simp: str_slice_def)
  have c: "char_at 0 \<lparr>cur_src = s, cur_pos = i\<rparr> = Some (byte_val b)"
    "bump_char \<lparr>cur_src = s, cur_pos = i\<rparr> = \<lparr>cur_src = s, cur_pos = Suc i\<rparr>"
    using ascii_cursor[OF at(1)] a at(2) by simp_all
  show ?thesis by (simp add: scan_word_def c e sl token_from_def span_new_def split: option.split)
qed

text \<open>Where a lexeme begins, the arms of the dispatch before its own decline.\<close>

lemma opening_known:
  "known_quotes f \<Longrightarrow> opening_identifier_quote f b = Some cls \<Longrightarrow> b = CHR 0x22 \<or> b = CHR 0x60 \<or> b = CHR ''[''"
  using known_opening[of f b cls] by auto

lemma dispatch_word:
  assumes "standard_text f" "known_quotes f" "plain_word w" "breaks tail" "pre @ w @ tail = s" "i = length pre"
  shows "dispatch_lexeme u f \<lparr>cur_src = s, cur_pos = i\<rparr> (hd w)
    = scan_word u f \<lparr>cur_src = s, cur_pos = i\<rparr>"
proof -
  obtain b v where w: "w = b # v" "is_ascii_alphabetic b" "word_byte b" "list_all word_byte v"
    using assms(3) by (cases w) (auto simp: plain_word_def)
  have nx: "peek_nth 1 \<lparr>cur_src = s, cur_pos = i\<rparr> \<noteq> Some x" if "x = CHR 0x27 \<or> x = CHR 0x22 \<or> x = CHR ''&''" for x
  proof (cases v)
    case (Cons y ys)
    then have "s ! Suc i = y" "Suc i < length s" "word_byte y" using assms(5,6) w by (auto simp: nth_append)
    with word_byte_facts(5-7)[OF assms(1) \<open>word_byte y\<close>] that show ?thesis by (auto simp: peek_nth_def get_at_def)
  next
    case Nil
    then have "s = (pre @ [b]) @ tail" using assms(5) w(1) by simp
    with assms(4,6) that show ?thesis by (cases tail) (auto simp: peek_nth_def get_at_def breaks_def nth_append)
  qed
  have b: "b \<noteq> CHR ''_''" "b \<noteq> CHR 0x27" "b \<noteq> CHR 0x22" "b \<noteq> CHR 0x60" "b \<noteq> CHR ''[''" "b \<noteq> CHR ''$''"
    "b \<noteq> CHR ''?''" "b \<noteq> CHR '':''" "b \<noteq> CHR ''@''" "b \<noteq> CHR 0x0B"
    using w(2) by (auto simp: ascii_defs)
  have o: "opening_identifier_quote f b = None"
    using opening_known[OF assms(2), of b] b by (cases "opening_identifier_quote f b") auto
  have "quote_arms u f \<lparr>cur_src = s, cur_pos = i\<rparr> b = None"
    using nx[of "CHR 0x27"] nx[of "CHR 0x22"] nx[of "CHR ''&''"] b o by (simp add: quote_arms_def Let_def)
  moreover have "dollar_arms u f \<lparr>cur_src = s, cur_pos = i\<rparr> b = None" "placeholder_arms u f \<lparr>cur_src = s, cur_pos = i\<rparr> b = None"
    "at_arms u f \<lparr>cur_src = s, cur_pos = i\<rparr> b = None" using b by (simp_all add: dollar_arms_def placeholder_arms_def at_arms_def Let_def)
  moreover have "has_byte_class f b CLASS_IDENTIFIER_START"
    using w(2) by (auto simp: standard_class[OF assms(1) b(10)] has_class_standard is_identifier_start_byte_def ascii_defs)
  ultimately show ?thesis using w(1) by (simp add: dispatch_lexeme_def plain_arms_def)
qed

lemma dispatch_comma:
  assumes "standard_text f" "known_quotes f" "pre @ '','' @ tail = s" "i = length pre"
  shows "dispatch_lexeme u f \<lparr>cur_src = s, cur_pos = i\<rparr> (CHR '','')
    = Inr (Token (Tk_Punctuation P_Comma) (Span i (Suc i)), \<lparr>cur_src = s, cur_pos = Suc i\<rparr>)"
proof -
  have at: "i < length s" "s ! i = CHR '',''" using assms(3,4) by auto
  have o: "opening_identifier_quote f (CHR '','') = None"
    using opening_known[OF assms(2), of "CHR '',''"] by (cases "opening_identifier_quote f (CHR '','')") auto
  note c = standard_class[OF assms(1), of "CHR '',''"] has_class_standard is_identifier_start_byte_def
    is_operator_byte_def is_punctuation_byte_def ascii_defs
  have "quote_arms u f \<lparr>cur_src = s, cur_pos = i\<rparr> (CHR '','') = None" by (simp add: quote_arms_def Let_def o)
  moreover have "dollar_arms u f \<lparr>cur_src = s, cur_pos = i\<rparr> (CHR '','') = None"
    "placeholder_arms u f \<lparr>cur_src = s, cur_pos = i\<rparr> (CHR '','') = None"
    "at_arms u f \<lparr>cur_src = s, cur_pos = i\<rparr> (CHR '','') = None" by (simp_all add: dollar_arms_def placeholder_arms_def at_arms_def Let_def)
  moreover have "plain_arms u f \<lparr>cur_src = s, cur_pos = i\<rparr> (CHR '','')
      = Inr (Token (Tk_Punctuation P_Comma) (Span i (Suc i)), \<lparr>cur_src = s, cur_pos = Suc i\<rparr>)"
    using at by (simp add: plain_arms_def c is_digit_def scan_punctuation_def peek_def get_at_def bump_def token_from_def span_new_def)
  ultimately show ?thesis by (simp add: dispatch_lexeme_def)
qed

lemma dispatch_name:
  assumes "known_quotes f" "name_ok f opn cls n" "breaks tail" "pre @ (opn # double_delim cls n @ [cls]) @ tail = s" "i = length pre"
  shows "dispatch_lexeme u f \<lparr>cur_src = s, cur_pos = i\<rparr> opn
    = Inr (Token Tk_QuotedIdent (Span i (i + length (double_delim cls n) + 2)),
        \<lparr>cur_src = s, cur_pos = i + length (double_delim cls n) + 2\<rparr>)"
proof -
  from assms(2) have n: "opening_identifier_quote f opn = Some cls" "cls \<noteq> CHR '' ''" "cls \<noteq> CHR '',''"
    "opn = CHR 0x22 \<Longrightarrow> \<not> sl_double_quoted_strings (string_literals f)"
    "n \<noteq> [] \<or> ids_empty_quoted_identifiers (identifier_syntax f)" by (auto simp: name_ok_def quote_pair_def)
  let ?c = "\<lparr>cur_src = s, cur_pos = i\<rparr>" and ?scan = "quoted_ident_scan f cls"
  have src: "s = (pre @ [opn]) @ double_delim cls n @ cls # tail" using assms(4) by simp
  have b: "bump ?c = advance_bytes 1 ?c" by (rule bump_advance[of _ opn]) (use assms(4,5) in \<open>auto simp: peek_def get_at_def\<close>)
  have ne: "double_delim cls n \<noteq> []" if "n \<noteq> []" using that by (cases n) (auto simp: double_delim_def)
  have q: "qs_close ?scan = cls" "qs_kind ?scan = Tk_QuotedIdent" "\<not> qs_backslash ?scan"
    "qs_allow_zero_length ?scan = ids_empty_quoted_identifiers (identifier_syntax f)" by (simp_all add: quoted_ident_scan_def)
  have "quoted_body_loop ?scan i (i + 1) (bump ?c)
      = token_from (qs_kind ?scan) i (advance_bytes (length (double_delim cls n) + 1) (bump ?c))"
  proof (rule quoted_body_loop_reads[where pre = "pre @ [opn]" and tail = tail])
    show "quoted_text (qs_backslash ?scan) (qs_close ?scan) (double_delim cls n)" using quoted_text_double q by simp
    show "cur_src (bump ?c) = (pre @ [opn]) @ double_delim cls n @ qs_close ?scan # tail"
      unfolding b using src q by (simp add: advance_bytes_def)
    show "cur_pos (bump ?c) = length (pre @ [opn])" unfolding b using assms(5) by (simp add: advance_bytes_def)
    show "tail = [] \<or> hd tail \<noteq> qs_close ?scan" using assms(3) n(2,3) q by (auto simp: breaks_def)
  qed (use q n(5) ne assms(5) in auto)
  then have "quoted_body_loop ?scan i (i + 1) (bump ?c)
      = token_from Tk_QuotedIdent i (advance_bytes (length (double_delim cls n) + 1) (bump ?c))" unfolding q .
  then have "scan_quoted ?scan ?c = Inr (Token Tk_QuotedIdent (Span i (i + length (double_delim cls n) + 2)),
        \<lparr>cur_src = s, cur_pos = i + length (double_delim cls n) + 2\<rparr>)"
    by (simp add: scan_quoted_def scan_quoted_body_def Let_def b token_from_ok advance_bytes_def)
  moreover have "quote_arms u f ?c opn = Some (scan_quoted ?scan ?c)"
  proof -
    from opening_known[OF assms(1) n(1)]
    have d: "opn \<noteq> CHR ''E''" "opn \<noteq> CHR ''e''" "opn \<noteq> CHR ''N''" "opn \<noteq> CHR ''n''" "opn \<noteq> CHR ''U''"
      "opn \<noteq> CHR ''u''" "opn \<noteq> CHR ''X''" "opn \<noteq> CHR ''x''" "opn \<notin> set ''BbXx''" "opn \<noteq> CHR ''_''" "opn \<noteq> CHR 0x27"
      by auto
    have e: "\<not> (opn = CHR 0x22 \<and> sl_double_quoted_strings (string_literals f))" using n(4) by blast
    show ?thesis by (simp only: quote_arms_def Let_def d e n(1) simp_thms if_False option.case)
  qed
  ultimately show ?thesis by (simp add: dispatch_lexeme_def)
qed

subsection \<open>The sweep before a lexeme\<close>

definition quiet :: "feature_set \<Rightarrow> byte \<Rightarrow> bool" where
  "quiet f b \<longleftrightarrow> \<not> has_byte_class f b CLASS_WHITESPACE \<and> \<not> has_byte_class f b CLASS_WHITESPACE_CONTINUE
     \<and> b \<noteq> CHR ''-'' \<and> b \<noteq> CHR ''#'' \<and> b \<noteq> CHR ''*'' \<and> b \<noteq> CHR ''/''"

lemma quiet_lead:
  assumes "standard_text f" "is_ascii_alphabetic b \<or> b = CHR 0x22 \<or> b = CHR 0x60 \<or> b = CHR ''['' \<or> b = CHR '',''"
  shows "quiet f b"
proof -
  have v: "b \<noteq> CHR 0x0B" using assms(2) by (auto simp: ascii_defs)
  show ?thesis using assms(2)
    by (auto simp: quiet_def standard_class[OF assms(1) v] has_class_standard ascii_defs)
qed

lemma quiet_run: "peek c = Some b \<Longrightarrow> quiet f b \<Longrightarrow> trivia_run f c st = Inr None"
  by (simp add: trivia_run_def quiet_def)

lemma quiet_sweep:
  assumes "peek c = Some b" "quiet f b"
  shows "skip_trivia f None st c = Inr (c, None, st)"
  unfolding skip_trivia_def Let_def by (subst skip_trivia_loop.simps) (simp add: quiet_run[OF assms])

lemma end_sweep: "peek c = None \<Longrightarrow> skip_trivia f None st c = Inr (c, None, st)"
  unfolding skip_trivia_def Let_def by (subst skip_trivia_loop.simps) (simp add: trivia_run_def)

lemma space_class:
  assumes "standard_text f"
  shows "has_byte_class f (CHR '' '') CLASS_WHITESPACE" "\<not> has_byte_class f (CHR '' '') CLASS_WHITESPACE_BOUNDARY"
    "has_byte_class f (CHR '' '') (CLASS_WHITESPACE OR CLASS_WHITESPACE_CONTINUE)"
  using standard_class[OF assms, of "CHR '' ''"] by (simp_all add: has_class_standard has_class_or ascii_defs)

lemma space_sweep:
  assumes "standard_text f" "pre @ CHR '' '' # b # tail = s" "i = length pre" "quiet f b"
  shows "skip_trivia f None st \<lparr>cur_src = s, cur_pos = i\<rparr> = Inr (\<lparr>cur_src = s, cur_pos = Suc i\<rparr>, None, st)"
proof -
  let ?c = "\<lparr>cur_src = s, cur_pos = i\<rparr>" and ?d = "\<lparr>cur_src = s, cur_pos = Suc i\<rparr>"
  let ?ws = "\<lambda>b. has_byte_class f b (CLASS_WHITESPACE OR CLASS_WHITESPACE_CONTINUE)"
  have at: "i < length s" "s ! i = CHR '' ''" "Suc i < length s" "s ! Suc i = b" using assms(2,3) by (auto simp: nth_append)
  have p: "peek ?c = Some (CHR '' '')" "peek ?d = Some b" using at by (simp_all add: peek_def get_at_def)
  have nb: "\<not> ?ws b" using assms(4) by (simp add: quiet_def has_byte_class_def has_class_or)
  have "eat_while ?ws ?d = ?d" using p(2) nb by (subst eat_while.simps) simp
  then have e: "eat_while ?ws ?c = ?d"
    using p(1) space_class(3)[OF assms(1)] at by (subst eat_while.simps) (simp add: bump_def)
  have run: "trivia_run f ?c st = Inr (Some (Whitespace, ?d, st))"
    using p(1) space_class(1)[OF assms(1)] e by (simp add: trivia_run_def)
  have gap: "subslice s i (Suc i) = '' ''" using at by (simp add: subslice_def take_Suc_conv_app_nth)
  have pend: "pending_after f tr cb cs None Whitespace ?c ?d = None" for tr cb cs
    using gap space_class(2)[OF assms(1)] by (simp add: pending_after_def Let_def first_index.simps)
  show ?thesis
    unfolding skip_trivia_def Let_def
    by (subst skip_trivia_loop.simps, simp add: run pend Let_def span_new_def recording_def)
       (subst skip_trivia_loop.simps, simp add: quiet_run[OF p(2) assms(4)])
qed

subsection \<open>A lexeme at a time\<close>

fun lexeme_lead :: "lexeme \<Rightarrow> byte" where
  "lexeme_lead (Lx_Word w) = hd w"
| "lexeme_lead (Lx_Name opn cls s) = opn"
| "lexeme_lead Lx_Comma = CHR '',''"

lemma lexeme_lead_text: "lexeme_ok f x \<Longrightarrow> lexeme_text x = lexeme_lead x # tl (lexeme_text x)"
  by (cases x) (auto simp: plain_word_def)

lemma lexeme_lead_quiet: "standard_text f \<Longrightarrow> known_quotes f \<Longrightarrow> lexeme_ok f x \<Longrightarrow> quiet f (lexeme_lead x)"
  by (rule quiet_lead) (cases x; auto simp: plain_word_def name_ok_def dest: opening_known)+

lemma dispatch_lexeme_text:
  assumes "standard_text f" "known_quotes f" "lexeme_ok f x" "breaks tail" "pre @ lexeme_text x @ tail = s" "i = length pre"
  shows "dispatch_lexeme u f \<lparr>cur_src = s, cur_pos = i\<rparr> (lexeme_lead x)
    = Inr (Token (lexeme_kind x) (Span i (i + length (lexeme_text x))), \<lparr>cur_src = s, cur_pos = i + length (lexeme_text x)\<rparr>)"
proof (cases x)
  case (Lx_Word w)
  with assms dispatch_word[OF assms(1,2), of w tail pre s i u] scan_plain_word[OF assms(1), of w tail pre s i u] show ?thesis by simp
next
  case (Lx_Name opn cls n)
  with assms dispatch_name[OF assms(2), of opn cls n tail pre s i u] show ?thesis by (simp add: add.assoc)
next
  case Lx_Comma
  with assms dispatch_comma[OF assms(1,2), of pre tail s i u] show ?thesis by simp
qed

lemma double_quote_bytes: "double_delim q s = quote_bytes q False s"
  by (induction s) (simp_all add: double_delim_def)

lemma valid_ascii: "list_all is_ascii s \<Longrightarrow> valid_utf8 s"
  by (induction s) (simp_all add: is_ascii_def)

lemma lexeme_text_facts:
  assumes "standard_text f" "known_quotes f" "lexeme_ok f x"
  shows "lexeme_kind x = Tk_QuotedIdent \<Longrightarrow> CHR 0x00 \<notin> set (lexeme_text x)" "valid_utf8 (lexeme_text x)"
proof -
  have "(lexeme_kind x = Tk_QuotedIdent \<longrightarrow> CHR 0x00 \<notin> set (lexeme_text x)) \<and> valid_utf8 (lexeme_text x)"
  proof (cases x)
    case (Lx_Word w)
    then have "list_all is_ascii w" using assms word_byte_facts(2)[OF assms(1)] by (auto simp: plain_word_def list_all_iff)
    with Lx_Word valid_ascii show ?thesis by (auto split: option.split)
  next
    case (Lx_Name opn cls n)
    with assms have n: "opening_identifier_quote f opn = Some cls" "cls \<noteq> CHR 0x00" "valid_utf8 n" "CHR 0x00 \<notin> set n"
      by (auto simp: name_ok_def quote_pair_def)
    from opening_identifier_quote_ascii[OF n(1)] have a: "is_ascii opn" "is_ascii cls" by simp_all
    have o: "opn \<noteq> CHR 0x00" using opening_known[OF assms(2) n(1)] by auto
    have "valid_utf8 (double_delim cls n)" unfolding double_quote_bytes by (rule valid_quote_bytes[OF n(3)]) (use a in \<open>simp add: is_ascii_def\<close>)
    with a valid_ascii[of "[opn]"] valid_ascii[of "[cls]"] have "valid_utf8 ([opn] @ double_delim cls n @ [cls])"
      by (intro valid_append) simp_all
    with Lx_Name n(2,4) o show ?thesis by (simp add: double_quote_bytes)
  qed (use valid_ascii[of "'',''"] in \<open>simp add: is_ascii_def\<close>)
  then show "lexeme_kind x = Tk_QuotedIdent \<Longrightarrow> CHR 0x00 \<notin> set (lexeme_text x)" "valid_utf8 (lexeme_text x)" by blast+
qed

lemma lexeme_step:
  assumes "standard_text f" "known_quotes f" "lexeme_ok f x" "breaks tail"
    "pre @ gap @ lexeme_text x @ tail = s" "gap = [] \<or> gap = '' ''" "i = length pre" "a = i + length gap" "b = a + length (lexeme_text x)"
  shows "next_token u f None st \<lparr>cur_src = s, cur_pos = i\<rparr>
    = Inr (Some (Token (lexeme_kind x) (Span a b)), \<lparr>cur_src = s, cur_pos = b\<rparr>, None, st)"
proof -
  note q = lexeme_lead_quiet[OF assms(1-3)]
  obtain rs where rs: "lexeme_text x @ tail = lexeme_lead x # rs" using lexeme_lead_text[OF assms(3)] by (metis append_Cons)
  have at: "a < length s" "s ! a = lexeme_lead x" using assms(5,7,8) rs by (auto simp: nth_append)
  have pk: "peek \<lparr>cur_src = s, cur_pos = a\<rparr> = Some (lexeme_lead x)" using at by (simp add: peek_def get_at_def)
  have sw: "skip_trivia f None st \<lparr>cur_src = s, cur_pos = i\<rparr> = Inr (\<lparr>cur_src = s, cur_pos = a\<rparr>, None, st)"
  proof (cases "gap = []")
    case True
    with assms(7,8) quiet_sweep[OF pk q] show ?thesis by simp
  next
    case False
    with assms(6) rs assms(5,7,8) space_sweep[OF assms(1) _ assms(7) q, of rs s st] show ?thesis by simp
  qed
  have d: "dispatch_lexeme u f \<lparr>cur_src = s, cur_pos = a\<rparr> (lexeme_lead x)
      = Inr (Token (lexeme_kind x) (Span a b), \<lparr>cur_src = s, cur_pos = b\<rparr>)"
    using dispatch_lexeme_text[OF assms(1-4), of "pre @ gap" s a u] assms(5,7,8,9) by simp
  have "nul_gate (Token (lexeme_kind x) (Span a b)) \<lparr>cur_src = s, cur_pos = b\<rparr> = Inr (Token (lexeme_kind x) (Span a b), \<lparr>cur_src = s, cur_pos = b\<rparr>)"
  proof (cases "lexeme_kind x = Tk_QuotedIdent")
    case True
    then obtain opn cls n where x: "x = Lx_Name opn cls n" by (cases x) (auto split: option.splits)
    then have o: "is_ascii opn" "is_ascii cls" using assms(3) opening_identifier_quote_ascii[of f opn cls] by (simp_all add: name_ok_def)
    have "is_char_boundary s a" "is_char_boundary s b"
      using boundary_at[of "pre @ gap" "lexeme_text x @ tail" s] boundary_at[of "pre @ gap @ lexeme_text x" tail s]
        assms(5,7-9) breaks_ascii[OF assms(4)] x o by (auto simp: add.assoc)
    then have "str_slice s a b = Some (lexeme_text x)"
      using middle_slice[of "pre @ gap" "lexeme_text x" tail s] assms(5,7-9) by (auto simp: str_slice_def)
    with lexeme_text_facts(1)[OF assms(1-3) True] True show ?thesis
      by (simp add: nul_gate_def nul_byte_error_def string_literal_embeds_nul_def)
  next
    case False
    then show ?thesis by (cases x) (simp_all add: nul_gate_def nul_byte_error_def split: option.split)
  qed
  then show ?thesis by (simp add: next_token_def sw pk d)
qed

lemma scan_spaced:
  assumes "standard_text f" "known_quotes f" "versioned_region_start st = None" "list_all (lexeme_ok f) xs"
    "pre @ spaced_text xs = s" "i = length pre"
  shows "scan_tokens u f None st \<lparr>cur_src = s, cur_pos = i\<rparr> acc = Some (Inr (acc @ spaced_tokens i xs, None))"
  using assms(4-6)
proof (induction xs arbitrary: pre i acc)
  case Nil
  then have "peek \<lparr>cur_src = s, cur_pos = i\<rparr> = None" by (auto simp: peek_def get_at_def)
  then show ?case by (subst scan_tokens.simps) (simp add: next_token_def end_sweep assms(3))
next
  case (Cons x xs)
  let ?a = "i + length (lexeme_gap x)" let ?b = "?a + length (lexeme_text x)"
  have g: "lexeme_gap x = [] \<or> lexeme_gap x = '' ''" by (simp add: lexeme_gap_def)
  have step: "next_token u f None st \<lparr>cur_src = s, cur_pos = i\<rparr>
      = Inr (Some (Token (lexeme_kind x) (Span ?a ?b)), \<lparr>cur_src = s, cur_pos = ?b\<rparr>, None, st)"
    by (rule lexeme_step[OF assms(1,2) _ breaks_spaced[of xs] _ g Cons(4) refl refl]) (use Cons(2,3) in simp_all)
  have "scan_tokens u f None st \<lparr>cur_src = s, cur_pos = ?b\<rparr> (acc @ [Token (lexeme_kind x) (Span ?a ?b)])
      = Some (Inr ((acc @ [Token (lexeme_kind x) (Span ?a ?b)]) @ spaced_tokens ?b xs, None))"
    by (rule Cons(1)[of "pre @ lexeme_gap x @ lexeme_text x"]) (use Cons(2-4) in simp_all)
  then show ?case by (subst scan_tokens.simps) (simp add: step Let_def)
qed

lemma sql_text_tokens:
  assumes "standard_text f" "known_quotes f" "list_all (lexeme_ok f) xs" "length (sql_text xs) \<le> u32_max"
  shows "tokenize_with u f (sql_text xs) = Some (Inr (sql_tokens xs))"
proof -
  have "scan_tokens u f None LEX_STATE_DEFAULT (cursor_new (sql_text xs)) [] = Some (Inr (sql_tokens xs, None))"
  proof (cases xs)
    case Nil
    then show ?thesis
      using scan_spaced[OF assms(1,2), of LEX_STATE_DEFAULT "[]" "[]" "[]" 0 u "[]"] by (simp add: cursor_new_def LEX_STATE_DEFAULT_def)
  next
    case (Cons x ys)
    let ?b = "length (lexeme_text x)"
    have step: "next_token u f None LEX_STATE_DEFAULT \<lparr>cur_src = sql_text xs, cur_pos = 0\<rparr>
      = Inr (Some (Token (lexeme_kind x) (Span 0 ?b)), \<lparr>cur_src = sql_text xs, cur_pos = ?b\<rparr>, None, LEX_STATE_DEFAULT)"
      by (rule lexeme_step[OF assms(1,2) _ breaks_spaced[of ys], of _ "[]" "[]"]) (use assms(3) Cons in simp_all)
    then show ?thesis
      using scan_spaced[OF assms(1,2), of LEX_STATE_DEFAULT ys "lexeme_text x" "sql_text xs" ?b u "[Token (lexeme_kind x) (Span 0 ?b)]"]
        assms(3) Cons by (subst scan_tokens.simps) (simp add: cursor_new_def LEX_STATE_DEFAULT_def Let_def)
  qed
  with assms(4) show ?thesis by (simp add: tokenize_with_def NoTrivia_def)
qed

subsection \<open>The tokens are written as the lexemes\<close>

definition written :: "source \<Rightarrow> token list \<Rightarrow> lexeme list \<Rightarrow> bool" where
  "written src ts xs \<longleftrightarrow> list_all2 (\<lambda>t x. token_kind t = lexeme_kind x \<and> lexeme_of src t = lexeme_text x) ts xs"

lemma written_simps [simp]:
  "written src [] xs \<longleftrightarrow> xs = []" "written src ts [] \<longleftrightarrow> ts = []"
  "written src (t # ts) (x # xs) \<longleftrightarrow> token_kind t = lexeme_kind x \<and> lexeme_of src t = lexeme_text x \<and> written src ts xs"
  by (simp_all add: written_def)

lemma written_Cons: "written src ts (x # xs) \<Longrightarrow> \<exists>t us. ts = t # us \<and> token_kind t = lexeme_kind x \<and> lexeme_of src t = lexeme_text x \<and> written src us xs"
  by (cases ts) simp_all

lemma written_spaced: "pre @ spaced_text xs = s \<Longrightarrow> i = length pre \<Longrightarrow> written s (spaced_tokens i xs) xs"
proof (induction xs arbitrary: pre i)
  case (Cons x xs)
  have "lexeme_of s (Token (lexeme_kind x) (Span (i + length (lexeme_gap x)) (i + length (lexeme_gap x) + length (lexeme_text x)))) = lexeme_text x"
    using middle_slice[of "pre @ lexeme_gap x" "lexeme_text x" "spaced_text xs" s] Cons(2,3) by (simp add: lexeme_of_def)
  with Cons(1)[of "pre @ lexeme_gap x @ lexeme_text x"] Cons(2,3) show ?case by (simp add: Let_def add.assoc)
qed simp

lemma written_sql: "written (sql_text xs) (sql_tokens xs) xs"
proof (cases xs)
  case (Cons x ys)
  have "lexeme_of (sql_text xs) (Token (lexeme_kind x) (Span 0 (length (lexeme_text x)))) = lexeme_text x"
    using middle_slice[of "[]" "lexeme_text x" "spaced_text ys" "sql_text xs"] Cons by (simp add: lexeme_of_def)
  with Cons written_spaced[of "lexeme_text x" ys "sql_text xs"] show ?thesis by (simp add: Let_def)
qed simp

lemma valid_sql:
  assumes "standard_text f" "known_quotes f" "list_all (lexeme_ok f) xs"
  shows "valid_utf8 (sql_text xs)"
proof -
  have g: "valid_utf8 (lexeme_gap x)" for x using valid_ascii[of "'' ''"] by (simp add: lexeme_gap_def is_ascii_def)
  have "list_all (lexeme_ok f) ys \<Longrightarrow> valid_utf8 (spaced_text ys)" for ys
    using lexeme_text_facts(2)[OF assms(1,2)] g by (induction ys) (simp_all add: valid_append)
  with assms(3) lexeme_text_facts(2)[OF assms(1,2)] show ?thesis by (cases xs) (simp_all add: valid_append)
qed

end
