(* ===== verification/Parse_Accepts.thy ===== *)
theory Parse_Accepts
  imports Parse_Runs Lexeme_Runs Identifier_Contracts
begin

text \<open>
  Contracts of grammar methods on texts they accept. The judgement \<open>takes\<close> says of a method that,
  on any tokens written as given lexemes, it succeeds, consumes exactly a stated prefix of them,
  uses at most a stated number of node ids and symbols, and returns a value that stands in a given
  relation to the interner it leaves, a relation that further interning keeps.
\<close>

subsection \<open>The judgement\<close>

text \<open>Ids and symbols for \<open>n\<close> more allocations.\<close>

definition room :: "nat \<Rightarrow> parser \<Rightarrow> bool" where
  "room n p \<longleftrightarrow> 0 < pa_next_node_id p \<and> pa_next_node_id p + n < u32_max
     \<and> KEYWORD_COUNT + length (in_strings (pa_interner p)) + n < u32_max \<and> interner_ok (pa_interner p)"

definition extends :: "interner \<Rightarrow> interner \<Rightarrow> bool" where
  "extends it it' \<longleftrightarrow> (\<forall>s y. interned it s y \<longrightarrow> interned it' s y)"

definition spends :: "nat \<Rightarrow> parser \<Rightarrow> parser \<Rightarrow> bool" where
  "spends n p p' \<longleftrightarrow> pa_next_node_id p \<le> pa_next_node_id p' \<and> pa_next_node_id p' \<le> pa_next_node_id p + n
     \<and> length (in_strings (pa_interner p')) \<le> length (in_strings (pa_interner p)) + n
     \<and> interner_ok (pa_interner p') \<and> extends (pa_interner p) (pa_interner p')"

definition accepts ::
    "feature_set \<Rightarrow> nat \<Rightarrow> lexeme list \<Rightarrow> (interner \<Rightarrow> 'a \<Rightarrow> bool) \<Rightarrow> source \<Rightarrow> seat \<Rightarrow> (parse_failure + 'a) \<times> seat \<Rightarrow> bool" where
  "accepts f n ys R src s out \<longleftrightarrow> later s (snd out) \<and> written src (seat_ahead (snd out)) ys
     \<and> spends n (seat_state s) (seat_state (snd out))
     \<and> (\<exists>x. fst out = Inr x \<and> R (pa_interner (seat_state (snd out))) x)"

definition takes ::
    "feature_set \<Rightarrow> nat \<Rightarrow> 'a parse \<Rightarrow> lexeme list \<Rightarrow> lexeme list \<Rightarrow> (interner \<Rightarrow> 'a \<Rightarrow> bool) \<Rightarrow> bool" where
  "takes f n m xs ys R \<longleftrightarrow> agnostic m
     \<and> (\<forall>src ts prev st. well_placed src f (ts, prev, st) \<longrightarrow> written src ts xs \<longrightarrow> room n st
          \<longrightarrow> accepts f n ys R src (ts, prev, st) (run_on m (ts, prev, st)))"

text \<open>A relation that further interning keeps.\<close>

definition lasting :: "(interner \<Rightarrow> 'a \<Rightarrow> bool) \<Rightarrow> bool" where
  "lasting R \<longleftrightarrow> (\<forall>it it' x. R it x \<longrightarrow> extends it it' \<longrightarrow> R it' x)"

lemma lasting_pure [simp]: "lasting (\<lambda>_. P)"
  by (simp add: lasting_def)

lemma extends_refl [simp]: "extends it it"
  by (simp add: extends_def)

lemma extends_trans: "extends a b \<Longrightarrow> extends b c \<Longrightarrow> extends a c"
  by (simp add: extends_def)

lemma spends_refl [simp]: "interner_ok (pa_interner p) \<Longrightarrow> spends n p (strip p)"
  by (simp add: spends_def)

lemma spends_trans: "spends m p q \<Longrightarrow> spends n q r \<Longrightarrow> spends (m + n) p r"
  using extends_trans by (fastforce simp: spends_def)

lemma spends_mono: "spends m p q \<Longrightarrow> m \<le> n \<Longrightarrow> spends n p q"
  by (auto simp: spends_def)

lemma room_spends: "room (m + n) p \<Longrightarrow> spends m p q \<Longrightarrow> room n q"
  by (auto simp: room_def spends_def)

lemma room_mono: "room n p \<Longrightarrow> m \<le> n \<Longrightarrow> room m p"
  by (auto simp: room_def)

subsection \<open>Rules\<close>

named_theorems takes_rules \<open>methods on texts they accept\<close>

lemma takesI:
  assumes "agnostic m"
    and "\<And>src ts prev st. well_placed src f (ts, prev, st) \<Longrightarrow> written src ts xs \<Longrightarrow> room n st
      \<Longrightarrow> accepts f n ys R src (ts, prev, st) (run_on m (ts, prev, st))"
  shows "takes f n m xs ys R"
  using assms unfolding takes_def by blast

lemma takes_agnostic: "takes f n m xs ys R \<Longrightarrow> agnostic m"
  by (simp add: takes_def)

lemma takesD:
  "takes f n m xs ys R \<Longrightarrow> well_placed src f s \<Longrightarrow> written src (seat_ahead s) xs \<Longrightarrow> room n (seat_state s)
     \<Longrightarrow> accepts f n ys R src s (run_on m s)"
  by (cases s) (simp add: takes_def)

lemma takes_bind:
  assumes "takes f a m xs ys R" "lasting R" "\<And>x. agnostic (k x)"
    "\<And>it x. R it x \<Longrightarrow> takes f b (k x) ys zs (\<lambda>it' y. R it' x \<longrightarrow> Q it' y)"
  shows "takes f (a + b) (pbind m k) xs zs Q"
proof (rule takesI)
  show "agnostic (pbind m k)" by (intro agnostic_bind takes_agnostic[OF assms(1)] assms(3))
  fix src ts prev st
  assume w: "well_placed src f (ts, prev, st)" "written src ts xs" "room (a + b) st"
  let ?s = "(ts, prev, st)"
  have g1: "accepts f a ys R src ?s (run_on m ?s)"
    using takesD[OF assms(1) w(1)] w(2) room_mono[OF w(3), of a] by simp
  then obtain x t where m: "run_on m ?s = (Inr x, t)" "later ?s t" "written src (seat_ahead t) ys"
    "spends a st (seat_state t)" "R (pa_interner (seat_state t)) x"
    by (cases "run_on m ?s") (auto simp: accepts_def)
  have g2: "accepts f b zs (\<lambda>it' y. R it' x \<longrightarrow> Q it' y) src t (run_on (k x) t)"
    by (rule takesD[OF assms(4)[OF m(5)] well_placed_later[OF w(1) m(2)] m(3) room_spends[OF w(3) m(4)]])
  then obtain y u where k: "run_on (k x) t = (Inr y, u)" "later t u" "written src (seat_ahead u) zs"
    "spends b (seat_state t) (seat_state u)" "R (pa_interner (seat_state u)) x \<longrightarrow> Q (pa_interner (seat_state u)) y"
    by (cases "run_on (k x) t") (auto simp: accepts_def)
  have "R (pa_interner (seat_state u)) x"
    using assms(2) m(5) k(4) by (auto simp: lasting_def spends_def)
  with k(5) have Q: "Q (pa_interner (seat_state u)) y" by simp
  have "run_on (pbind m k) ?s = (Inr y, u)"
    using run_bind[OF takes_agnostic[OF assms(1)] assms(3), where s = ?s] m(1) k(1) by simp
  with Q later_trans[OF m(2) k(2)] k(3) spends_trans[OF m(4) k(4)]
  show "accepts f (a + b) zs Q src ?s (run_on (pbind m k) ?s)" by (simp add: accepts_def)
qed

lemma takes_to:
  assumes "takes f a m xs ys (\<lambda>_ x. x = v)" "\<And>x. agnostic (k x)" "takes f b (k v) ys zs Q"
  shows "takes f (a + b) (pbind m k) xs zs Q"
  by (rule takes_bind[OF assms(1) _ assms(2)]) (use assms(3) in simp_all)

lemma takes_mono:
  assumes "takes f a m xs ys R" "a \<le> n" "\<And>it x. R it x \<Longrightarrow> Q it x"
  shows "takes f n m xs ys Q"
proof (rule takesI)
  fix src ts prev st
  assume w: "well_placed src f (ts, prev, st)" "written src ts xs" "room n st"
  from takesD[OF assms(1) w(1)] w room_mono[OF w(3) assms(2)]
  have "accepts f a ys R src (ts, prev, st) (run_on m (ts, prev, st))" by simp
  with assms(2,3) spends_mono show "accepts f n ys Q src (ts, prev, st) (run_on m (ts, prev, st))"
    by (fastforce simp: accepts_def)
qed (rule takes_agnostic[OF assms(1)])

lemma takes_return: "(\<And>it. Q it x) \<Longrightarrow> takes f n (preturn x) xs xs Q"
  by (rule takesI) (auto simp: accepts_def run_rules later_refl room_def intro: agnostic_return)

text \<open>A method that reads something and moves nothing.\<close>

lemma takes_still:
  assumes "agnostic m" "\<And>src ts prev st. well_placed src f (ts, prev, st) \<Longrightarrow> written src ts xs
      \<Longrightarrow> \<exists>x. run_on m (ts, prev, st) = (Inr x, ts, prev, strip st) \<and> P x"
  shows "takes f n m xs xs (\<lambda>_. P)"
  by (rule takesI[OF assms(1)]) (use assms(2) in \<open>fastforce simp: accepts_def later_refl room_def\<close>)

subsection \<open>Words\<close>

fun heads :: "lexeme list \<Rightarrow> string \<Rightarrow> bool" where
  "heads (Lx_Word v # xs) w \<longleftrightarrow> eq_ignore_ascii_case v w"
| "heads _ w \<longleftrightarrow> False"

lemma well_placed_ok: "well_placed src f (t # ts, prev, st) \<Longrightarrow> token_ok src t \<and> pa_source st = src"
  by (auto simp: well_placed_def in_place_def seat_tokens_def)

lemma written_worded:
  "token_kind t = lexeme_kind x \<Longrightarrow> lexeme_of src t = lexeme_text x \<Longrightarrow> is_worded src t w \<longleftrightarrow> heads (x # xs) w"
  by (cases x) (auto simp: is_worded_def split: option.splits)

lemma run_eat_written:
  assumes "well_placed src f (ts, prev, st)" "written src ts xs"
  shows "run_on (eat_contextual_keyword w) (ts, prev, st)
    = (if heads xs w then (Inr True, tl ts, Some (hd ts), strip st) else (Inr False, ts, prev, strip st))"
proof (cases xs)
  case (Cons x ys)
  with assms(2) obtain t us where t: "ts = t # us" "token_kind t = lexeme_kind x" "lexeme_of src t = lexeme_text x"
    using written_Cons by blast
  with well_placed_ok[of src f t us] assms(1) have "token_ok (pa_source st) t" "pa_source st = src" by auto
  with t Cons written_worded[OF t(2,3), of w ys] show ?thesis by (simp add: run_rules)
qed (use assms(2) in \<open>simp add: run_rules\<close>)

lemma later_next: "later (t # us, prev, st) (us, Some t, strip st)"
  unfolding later_def by (intro conjI exI[of _ "[t]"]) simp_all

lemma takes_hit [takes_rules]:
  assumes "eq_ignore_ascii_case v w"
  shows "takes f 0 (eat_contextual_keyword w) (Lx_Word v # xs) xs (\<lambda>_ x. x = True)"
proof (rule takesI)
  fix src ts prev st
  assume w: "well_placed src f (ts, prev, st)" "written src ts (Lx_Word v # xs)" "room 0 st"
  from written_Cons[OF w(2)] obtain t us where "ts = t # us" "written src us xs" by blast
  with run_eat_written[OF w(1,2), of w] assms later_next w(3)
  show "accepts f 0 xs (\<lambda>_ x. x = True) src (ts, prev, st) (run_on (eat_contextual_keyword w) (ts, prev, st))"
    by (simp add: accepts_def room_def exI[of _ True])
qed (intro agnostic_rules)

lemma takes_miss [takes_rules]:
  "\<not> heads xs w \<Longrightarrow> takes f 0 (eat_contextual_keyword w) xs xs (\<lambda>_ x. x = False)"
  by (rule takes_still, intro agnostic_rules) (simp add: run_eat_written exI[of _ False])

lemma takes_features [takes_rules]: "takes f 0 (features g) xs xs (\<lambda>_ x. x = g f)"
  by (rule takes_still, intro agnostic_rules) (simp add: run_features well_placed_def)

lemma takes_source_len [takes_rules]: "takes f 0 source_len xs xs (\<lambda>_ n. length xs \<le> n)"
proof (rule takes_still)
  fix src ts prev st assume w: "well_placed src f (ts, prev, st)" "written src ts xs"
  from w(2) have "length ts = length xs" unfolding written_def by (rule list_all2_lengthD)
  with tokens_fit[OF w(1)] w(1) show "\<exists>x. run_on source_len (ts, prev, st) = (Inr x, ts, prev, strip st) \<and> length xs \<le> x"
    by (simp add: run_rules well_placed_def)
qed (intro agnostic_rules)

lemma takes_current_span [takes_rules]: "takes f 0 current_span xs xs (\<lambda>_ sp. True)"
  by (rule takes_still, intro agnostic_rules) (simp add: run_rules)

subsection \<open>Nodes\<close>

lemma takes_make_meta [takes_rules]: "takes f 1 (make_meta sp) xs xs (\<lambda>_ m. True)"
proof (rule takesI)
  fix src ts prev st assume w: "written src ts xs" "room 1 st"
  then have "run_on (make_meta sp) (ts, prev, st)
      = (Inr \<lparr>meta_span = sp, meta_node_id = NodeId (pa_next_node_id st)\<rparr>, ts, prev,
         (strip st)\<lparr>pa_next_node_id := pa_next_node_id st + 1\<rparr>)"
    by (intro run_make_meta) (simp_all add: room_def)
  with w show "accepts f 1 xs (\<lambda>_ m. True) src (ts, prev, st) (run_on (make_meta sp) (ts, prev, st))"
    by (simp add: accepts_def room_def spends_def later_def)
qed (intro agnostic_rules)

lemma takes_preceding: "takes f 0 (pget (\<lambda>p. g (preceding_span p))) xs xs (\<lambda>_ x. True)"
  by (rule takes_still, intro agnostic_rules) (simp add: run_rules)

subsection \<open>Names\<close>

fun lexeme_name :: "lexeme \<Rightarrow> source" where
  "lexeme_name (Lx_Word w) = w"
| "lexeme_name (Lx_Name opn cls s) = s"
| "lexeme_name Lx_Comma = []"

fun lexeme_quote :: "lexeme \<Rightarrow> quote_style" where
  "lexeme_quote (Lx_Name opn cls s) = (if opn = CHR 0x22 then Qs_Double else if opn = CHR 0x60 then Qs_Backtick else Qs_Bracket)"
| "lexeme_quote _ = Qs_None"

fun nameable :: "keyword_set \<Rightarrow> lexeme \<Rightarrow> bool" where
  "nameable reserved (Lx_Word w) \<longleftrightarrow> (case lookup_keyword w of None \<Rightarrow> True | Some k \<Rightarrow> \<not> keyword_set_contains reserved k)"
| "nameable reserved (Lx_Name opn cls s) \<longleftrightarrow> True"
| "nameable reserved Lx_Comma \<longleftrightarrow> False"

definition names :: "lexeme \<Rightarrow> interner \<Rightarrow> ident \<Rightarrow> bool" where
  "names x it i \<longleftrightarrow> interned it (lexeme_name x) (id_sym i) \<and> id_quote i = lexeme_quote x"

lemma lasting_names [simp]: "lasting (names x)"
  by (auto simp: lasting_def names_def extends_def)

lemma nameable_token: "token_kind t = lexeme_kind x \<Longrightarrow> token_admissible t reserved \<longleftrightarrow> nameable reserved x"
  by (cases t; cases x) (auto split: option.splits)

lemma contains_double: "contains_doubled q (double_delim q s) \<or> q \<notin> set s"
proof (induction s)
  case (Cons b s)
  then show ?case by (cases "double_delim q s") (auto simp: double_delim_def)
qed simp

lemma replace_double: "replace_doubled q (double_delim q s) = s"
proof (induction s)
  case (Cons b s)
  have "replace_doubled q (b # u) = b # replace_doubled q u" if "b \<noteq> q" for u using that by (cases u) simp_all
  with Cons show ?case by (simp add: double_delim_def)
qed (simp add: double_delim_def)

lemma undouble_double: "undouble q (double_delim q s) = s"
proof (cases "q \<in> set s")
  case True
  then show ?thesis using contains_double[of q s] by (simp add: undouble_def replace_double)
next
  case False
  then have "double_delim q s = s" by (induction s) (auto simp: double_delim_def)
  then show ?thesis using replace_double[of q s] by (simp add: undouble_def)
qed

lemma materialize_written:
  assumes "lexeme_ok f (Lx_Name opn cls s)"
  shows "materialize_quoted_ident (lexeme_text (Lx_Name opn cls s)) = Some (lexeme_quote (Lx_Name opn cls s), s)"
    "\<not> is_unicode_ident (lexeme_text (Lx_Name opn cls s))"
proof -
  from assms have q: "quote_pair opn cls" by (simp add: name_ok_def)
  then have a: "is_ascii opn" "is_ascii cls" by (auto simp: quote_pair_def is_ascii_def)
  let ?raw = "opn # double_delim cls s @ [cls]"
  have v: "valid_utf8 (double_delim cls s @ [cls])" "valid_utf8 [cls]"
    using assms a valid_ascii[of "[cls]"] valid_quote_bytes[of s cls False]
    by (auto simp: name_ok_def double_quote_bytes is_ascii_def intro: valid_append)
  then have "is_char_boundary ?raw 1" "is_char_boundary ?raw (Suc (length (double_delim cls s)))"
    by (intro boundary_of_valid; simp)+
  then have "inner_slice ?raw = Some (double_delim cls s)"
    by (simp add: inner_slice_def str_slice_def subslice_def)
  with q show "materialize_quoted_ident (lexeme_text (Lx_Name opn cls s)) = Some (lexeme_quote (Lx_Name opn cls s), s)"
    by (auto simp: materialize_quoted_ident_def quote_pair_def undouble_double)
  show "\<not> is_unicode_ident (lexeme_text (Lx_Name opn cls s))" using q by (auto simp: is_unicode_ident_def quote_pair_def split: list.splits)
qed

lemma intern_room:
  assumes "room 1 st"
  obtains symb it' where "intern s (pa_interner st) = Some (symb, it')" "interned it' s symb" "extends (pa_interner st) it'"
    "interner_ok it'" "length (in_strings it') \<le> Suc (length (in_strings (pa_interner st)))"
proof -
  from assms have ok: "interner_ok (pa_interner st)" by (simp add: room_def)
  have "intern s (pa_interner st) \<noteq> None" by (rule notI, drule intern_None) (use assms in \<open>simp add: room_def\<close>)
  then obtain symb it' where i: "intern s (pa_interner st) = Some (symb, it')" by (cases "intern s (pa_interner st)") auto
  have "length (in_strings it') \<le> Suc (length (in_strings (pa_interner st)))"
    using intern_strings[OF ok, of s] i by (auto split: if_splits)
  with i intern_interned[OF i] intern_preserves[OF ok i] that show thesis by (auto simp: extends_def)
qed

lemma run_intern_written:
  assumes "well_placed src f (t # us, prev, st)" "token_kind t = lexeme_kind (Lx_Word w)" "lexeme_of src t = w"
    "intern w (pa_interner st') = Some (symb, it')" "pa_source st' = src"
  shows "run_on (intern_identifier t) (ahead, prev', st') = (Inr symb, ahead, prev', (strip st')\<lparr>pa_interner := it'\<rparr>)"
proof -
  have sl: "str_slice src (span_start (token_span t)) (span_end (token_span t)) = Some w"
    using well_placed_ok[OF assms(1)] assms(3) by (auto simp: token_ok_def lexeme_of_def str_slice_def split: if_splits)
  have "(case token_kind t of Tk_Word \<Rightarrow> intern_nonkeyword w | Tk_Keyword kw \<Rightarrow> intern_keyword_ident kw w | _ \<Rightarrow> intern w) (pa_interner st')
      = intern w (pa_interner st')"
    using assms(2) run_call_intern[of "InternNonkeyword w"] run_call_intern[of "InternKeywordIdent k w" for k]
    by (auto simp: canonical_keyword_def split: option.splits)
  then show ?thesis unfolding intern_identifier_def
    by (intro run_chain agnostic_rules) (simp add: run_rules sl assms(4,5))
qed

lemma takes_name [takes_rules]:
  assumes "lexeme_ok f x" "nameable reserved x"
  shows "takes f 1 (parse_ident_admitting reserved expected) (x # xs) xs (names x)"
proof (rule takesI)
  fix src ts prev st
  assume w: "well_placed src f (ts, prev, st)" "written src ts (x # xs)" "room 1 st"
  obtain t us where t: "ts = t # us" "token_kind t = lexeme_kind x" "lexeme_of src t = lexeme_text x" "written src us xs"
    using written_Cons[OF w(2)] by blast
  have w1: "well_placed src f (t # us, prev, st)" using w(1) t(1) by simp
  obtain symb it' where i: "intern (lexeme_name x) (pa_interner st) = Some (symb, it')" "interned it' (lexeme_name x) symb"
    "extends (pa_interner st) it'" "interner_ok it'" "length (in_strings it') \<le> Suc (length (in_strings (pa_interner st)))"
    using intern_room[OF w(3)] by blast
  have src: "pa_source st = src" "0 < pa_next_node_id st" "pa_next_node_id st < u32_max" using w(1,3) by (auto simp: well_placed_def room_def)
  have sl: "str_slice src (span_start (token_span t)) (span_end (token_span t)) = Some (lexeme_text x)"
    using well_placed_ok[OF w1] t(3) by (auto simp: token_ok_def lexeme_of_def str_slice_def split: if_splits)
  let ?st = "(strip st)\<lparr>pa_interner := it'\<rparr>"
  let ?m = "\<lparr>meta_span = token_span t, meta_node_id = NodeId (pa_next_node_id st)\<rparr>"
  have fin: "run_on (finish_ident symb q (token_span t)) (us, Some t, ?st)
      = (Inr (Ident symb q ?m), us, Some t, ?st\<lparr>pa_next_node_id := pa_next_node_id st + 1\<rparr>)" for q
    unfolding finish_ident_def by (intro run_chain agnostic_rules) (simp add: run_rules src strip_set)
  have "run_on (ident_of_token t) (us, Some t, strip st)
      = (Inr (Ident symb (lexeme_quote x) ?m), us, Some t, ?st\<lparr>pa_next_node_id := pa_next_node_id st + 1\<rparr>)"
  proof (cases x)
    case (Lx_Word v)
    have "run_on (intern_identifier t) (us, Some t, strip st) = (Inr symb, us, Some t, ?st)"
      by (subst run_intern_written[OF w1, of v]) (use t i src Lx_Word in simp_all)
    then have "run_on (pbind (intern_identifier t) (\<lambda>symb. finish_ident symb Qs_None (token_span t))) (us, Some t, strip st)
        = (Inr (Ident symb Qs_None ?m), us, Some t, ?st\<lparr>pa_next_node_id := pa_next_node_id st + 1\<rparr>)"
      by (intro run_chain agnostic_rules) (simp add: fin)
    with Lx_Word t(2) show ?thesis by (auto simp: ident_of_token_def split: option.splits)
  next
    case (Lx_Name opn cls n)
    note m = materialize_written[OF assms(1)[unfolded Lx_Name]]
    have "run_on (intern_text n) (us, Some t, strip st) = (Inr symb, us, Some t, ?st)"
      using i Lx_Name by (simp add: intern_text_def run_rules)
    then have k: "run_on (pbind (intern_text n) (\<lambda>symb. finish_ident symb (lexeme_quote x) (token_span t))) (us, Some t, strip st)
        = (Inr (Ident symb (lexeme_quote x) ?m), us, Some t, ?st\<lparr>pa_next_node_id := pa_next_node_id st + 1\<rparr>)"
      by (intro run_chain agnostic_rules) (simp add: fin)
    have "run_on (pbind (or_panic (materialize_quoted_ident (lexeme_text x))) (\<lambda>(quote, value).
          pbind (intern_text value) (\<lambda>symb. finish_ident symb quote (token_span t)))) (us, Some t, strip st)
        = (Inr (Ident symb (lexeme_quote x) ?m), us, Some t, ?st\<lparr>pa_next_node_id := pa_next_node_id st + 1\<rparr>)"
      using m k Lx_Name by (intro run_chain agnostic_rules) (simp add: run_rules)
    then have "run_on (pbind (span_text (token_span t)) (\<lambda>raw.
        if is_unicode_ident raw then
          pbind (consume_optional_uescape (token_span t)) (\<lambda>sp.
          pbind (span_text sp) (\<lambda>whole. case materialize_unicode_ident whole of
              Inl EscPanic \<Rightarrow> pfail Parse_Panic
            | Inl EscErr \<Rightarrow> fail_lex InvalidEscapeSequence sp
            | Inr value \<Rightarrow> pbind (intern_text value) (\<lambda>symb. finish_ident symb Qs_UnicodeDouble sp)))
        else
          pbind (or_panic (materialize_quoted_ident raw)) (\<lambda>(quote, value).
          pbind (intern_text value) (\<lambda>symb. finish_ident symb quote (token_span t))))) (us, Some t, strip st)
        = (Inr (Ident symb (lexeme_quote x) ?m), us, Some t, ?st\<lparr>pa_next_node_id := pa_next_node_id st + 1\<rparr>)"
      using m(2) sl src Lx_Name by (intro run_chain agnostic_rules) (simp add: run_rules)
    moreover have "token_kind t = Tk_QuotedIdent" using t(2) Lx_Name by simp
    ultimately show ?thesis unfolding ident_of_token_def by (simp only: token_kind.case)
  qed (use assms(2) in simp)
  then have "run_on (pbind advance (\<lambda>_. ident_of_token t)) (t # us, prev, strip st)
      = (Inr (Ident symb (lexeme_quote x) ?m), us, Some t, ?st\<lparr>pa_next_node_id := pa_next_node_id st + 1\<rparr>)"
    by (intro run_chain agnostic_rules) (simp add: run_rules)
  then have "run_on (parse_ident_admitting reserved expected) (ts, prev, st)
      = (Inr (Ident symb (lexeme_quote x) ?m), us, Some t, ?st\<lparr>pa_next_node_id := pa_next_node_id st + 1\<rparr>)"
    unfolding parse_ident_admitting_def t(1)
    by (intro run_chain agnostic_rules) (simp add: run_rules get_at_def nameable_token[OF t(2)] assms(2))
  moreover have "later (t # us, prev, st) (us, Some t, ?st\<lparr>pa_next_node_id := pa_next_node_id st + 1\<rparr>)"
    unfolding later_def by (intro conjI exI[of _ "[t]"]) simp_all
  ultimately show "accepts f 1 xs (names x) src (ts, prev, st) (run_on (parse_ident_admitting reserved expected) (ts, prev, st))"
    using t(1,4) i by (simp add: accepts_def spends_def names_def)
qed (intro agnostic_rules)

lemma takes_skip:
  assumes "takes f 0 m xs xs (\<lambda>_ x. x = v)" "\<And>x. agnostic (k x)" "takes f n (k v) xs ys Q"
  shows "takes f n (pbind m k) xs ys Q"
  using takes_to[OF assms(1), where k = k and b = n and zs = ys and Q = Q] assms(2,3) by simp

lemma takes_eat:
  assumes "takes f 0 m xs us (\<lambda>_ x. x = v)" "\<And>x. agnostic (k x)" "takes f n (k v) us ys Q"
  shows "takes f n (pbind m k) xs ys Q"
  using takes_to[OF assms(1), where k = k and b = n and zs = ys and Q = Q] assms(2,3) by simp

lemma takes_get: "(\<And>x. agnostic (k x)) \<Longrightarrow> takes f n (k (g f)) xs ys Q \<Longrightarrow> takes f n (pbind (features g) k) xs ys Q"
  by (rule takes_skip[OF takes_features])

lemma takes_peek_kind:
  assumes "\<And>t. token_kind t = lexeme_kind x \<Longrightarrow> P (Some t)"
  shows "takes f 0 peek_token (x # xs) (x # xs) (\<lambda>_. P)"
proof (rule takes_still)
  fix src ts prev st assume "written src ts (x # xs)"
  then obtain t us where "ts = t # us" "token_kind t = lexeme_kind x" using written_Cons by blast
  with assms[of t] show "\<exists>y. run_on peek_token (ts, prev, st) = (Inr y, ts, prev, strip st) \<and> P y"
    by (simp add: run_rules get_at_def)
qed (intro agnostic_rules)

lemma takes_peek_end: "P None \<Longrightarrow> takes f 0 peek_token [] [] (\<lambda>_. P)"
  by (rule takes_still, intro agnostic_rules) (simp add: run_rules get_at_def)

lemma lexeme_not_string: "lexeme_kind x \<noteq> Tk_String"
  by (cases x) (auto split: option.splits)

lemma takes_column_name [takes_rules]:
  assumes "lexeme_ok f x" "nameable (reserved_column_name f) x"
  shows "takes f 1 parse_ident (x # xs) xs (names x)"
    "takes f 1 parse_column_ident_allowing_string_literal (x # xs) xs (names x)"
proof -
  note n = takes_name[OF assms, of _ xs]
  show "takes f 1 parse_ident (x # xs) xs (names x)"
    unfolding parse_ident_def by (rule takes_get, intro agnostic_rules, rule n)
  have p: "takes f 0 peek_token (x # xs) (x # xs) (\<lambda>_ t. t \<noteq> None \<and> token_kind (the t) \<noteq> Tk_String)"
    by (rule takes_peek_kind) (simp add: lexeme_not_string)
  have a: "takes f (0 + 0) parse_string_alias_ident (x # xs) (x # xs) (\<lambda>_ i. i = None)"
    unfolding parse_string_alias_ident_def
  proof (rule takes_bind[OF p], simp, intro agnostic_rules, goal_cases)
    case (1 it t)
    then obtain tok where "t = Some tok" "token_kind tok \<noteq> Tk_String" by auto
    then show ?case by (simp add: takes_return)
  qed
  show "takes f 1 parse_column_ident_allowing_string_literal (x # xs) xs (names x)"
    unfolding parse_column_ident_allowing_string_literal_def parse_ident_allowing_string_literal_def parse_string_or_ident_admitting_def
    apply (rule takes_get, intro agnostic_rules, rule takes_get, intro agnostic_rules)
    apply (cases "ids_string_literal_identifiers (identifier_syntax f)")
    apply (simp, rule takes_skip[OF a[simplified]], intro agnostic_rules, simp add: n[simplified])
    apply (simp add: n[simplified])
    done
qed

subsection \<open>Choices\<close>

lemma heads_word: "heads xs w \<Longrightarrow> \<exists>v us. xs = Lx_Word v # us \<and> eq_ignore_ascii_case v w"
  by (cases "(xs, w)" rule: heads.cases) simp_all

lemma takes_word:
  assumes "heads xs w \<Longrightarrow> takes f n (k True) (tl xs) ys Q" "\<not> heads xs w \<Longrightarrow> takes f n (k False) xs ys Q" "\<And>x. agnostic (k x)"
  shows "takes f n (pbind (eat_contextual_keyword w) k) xs ys Q"
proof (cases "heads xs w")
  case True
  then obtain v us where v: "xs = Lx_Word v # us" "eq_ignore_ascii_case v w" using heads_word by blast
  show ?thesis unfolding v(1)
    by (rule takes_eat[OF takes_hit[OF v(2)]], rule assms) (use assms(1)[OF True] v in simp)
next
  case False
  show ?thesis by (rule takes_skip[OF takes_miss[OF False]], rule assms) (simp add: assms(2)[OF False])
qed

lemma takes_choice:
  assumes "heads xs w \<Longrightarrow> takes f n A (tl xs) ys Q" "\<not> heads xs w \<Longrightarrow> takes f n B xs ys Q" "agnostic A" "agnostic B"
  shows "takes f n (pbind (eat_contextual_keyword w) (\<lambda>x. if x then A else B)) xs ys Q"
  by (rule takes_word) (use assms in simp_all)

lemma takes_expect:
  assumes "heads xs w" "takes f n A (tl xs) ys Q" "agnostic A"
  shows "takes f n (pbind (expect_contextual_keyword w) (\<lambda>_. A)) xs ys Q"
proof -
  obtain v us where v: "xs = Lx_Word v # us" "eq_ignore_ascii_case v w" using heads_word[OF assms(1)] by blast
  have e: "takes f 0 (expect_contextual_keyword w) xs us (\<lambda>_ x. x = ())"
    unfolding expect_contextual_keyword_def
    by (rule takes_choice) (use v in \<open>auto intro!: takes_return agnostic_rules\<close>)
  show ?thesis by (rule takes_eat[OF e], rule assms) (use assms(2) v in simp)
qed

subsection \<open>Commas\<close>

lemma takes_punct:
  "takes f 0 (peek_is_punct P_Comma) xs xs (\<lambda>_ x. x = (\<exists>us. xs = Lx_Comma # us))"
proof (rule takes_still)
  fix src ts prev st assume w: "written src ts xs"
  have k: "lexeme_kind x = Tk_Punctuation P_Comma \<longleftrightarrow> x = Lx_Comma" for x by (cases x) (auto split: option.splits)
  show "\<exists>x. run_on (peek_is_punct P_Comma) (ts, prev, st) = (Inr x, ts, prev, strip st) \<and> x = (\<exists>us. xs = Lx_Comma # us)"
    unfolding peek_is_punct_def
    by (rule exI[of _ "\<exists>us. xs = Lx_Comma # us"], intro conjI refl run_chain agnostic_rules)
       (use w k in \<open>cases xs; cases ts; auto simp: run_rules get_at_def\<close>)
qed (intro agnostic_rules)

lemma takes_advance: "takes f 0 advance (x # xs) xs (\<lambda>_ t. True)"
proof (rule takesI)
  fix src ts prev st assume w: "written src ts (x # xs)" "room 0 st"
  obtain t us where "ts = t # us" "written src us xs" using written_Cons[OF w(1)] by blast
  with later_next[of t us prev st] w(2) show "accepts f 0 xs (\<lambda>_ t. True) src (ts, prev, st) (run_on advance (ts, prev, st))"
    by (simp add: run_rules accepts_def room_def)
qed (intro agnostic_rules)

lemma takes_comma:
  assumes "\<And>us. xs = Lx_Comma # us \<Longrightarrow> takes f n (k True) us ys Q" "(\<forall>us. xs \<noteq> Lx_Comma # us) \<Longrightarrow> takes f n (k False) xs ys Q"
    "\<And>x. agnostic (k x)"
  shows "takes f n (pbind (eat_punct P_Comma) k) xs ys Q"
proof (cases "\<exists>us. xs = Lx_Comma # us")
  case True
  then obtain us where u: "xs = Lx_Comma # us" by blast
  have "takes f 0 (eat_punct P_Comma) xs us (\<lambda>_ x. x = True)"
    unfolding eat_punct_def eat_if_def u
    by (rule takes_skip[OF takes_punct], intro agnostic_rules)
       (auto intro!: takes_bind[OF takes_advance, of "\<lambda>_. preturn True" f 0, simplified] takes_return agnostic_rules)
  then show ?thesis by (rule takes_eat[where k = k, OF _ assms(3) assms(1)[OF u]])
next
  case False
  have "takes f 0 (eat_punct P_Comma) xs xs (\<lambda>_ x. x = False)"
    unfolding eat_punct_def eat_if_def
    by (rule takes_skip[OF takes_punct], intro agnostic_rules) (use False in \<open>auto intro!: takes_return\<close>)
  then show ?thesis by (rule takes_skip[where k = k, OF _ assms(3) assms(2)]) (use False in blast)
qed

end
