(* ===== verification/Transaction_Safety.thy ===== *)
theory Transaction_Safety
  imports Transaction_Laws Lexeme_Runs Parse_Runs Scanner_Samples
begin

text \<open>
  The contracts of the grammar at the parsers a source gives: a parser that reads what the scanner
  produces of its source, eager or streaming, a lexical fault at its end included, stands at a
  well-placed seat, so every contract holds of it.
\<close>

subsection \<open>Parsers over a source\<close>

definition reads_source :: "unicode_tables \<Rightarrow> feature_set \<Rightarrow> source \<Rightarrow> token list \<Rightarrow> parser \<Rightarrow> bool" where
  "reads_source u f src toks p \<longleftrightarrow> tokenize_with u f src = Some (Inr toks) \<and> p_view toks None p
     \<and> pa_source p = src \<and> pa_features p = f \<and> 0 < pa_next_node_id p"

lemma reads_source_new:
  "tokenize_with u f src = Some (Inr toks) \<Longrightarrow> reads_source u f src toks (parser_new u src toks f)"
  using p_view_new[of toks u src f] by (simp add: reads_source_def parser_new_def from_cursor_def)

text \<open>
  A parser over whatever the scanner produces of a source: all of its tokens, or those before a
  lexical fault and then the fault. A streaming parser meets the fault in the course of the
  parse; \<open>streaming_reads_production\<close> says that every streaming parser is of this kind.
\<close>

definition reads_production ::
    "unicode_tables \<Rightarrow> feature_set \<Rightarrow> source \<Rightarrow> token list \<Rightarrow> lex_failure option \<Rightarrow> parser \<Rightarrow> bool" where
  "reads_production u f src toks out p \<longleftrightarrow> length src \<le> u32_max
     \<and> lexes u f LEX_STATE_DEFAULT (cursor_new src) toks out \<and> p_view toks out p
     \<and> pa_source p = src \<and> pa_features p = f \<and> 0 < pa_next_node_id p"

lemma reads_source_production:
  assumes "reads_source u f src toks p"
  shows "reads_production u f src toks None p"
proof -
  have len: "length src \<le> u32_max"
    using assms by (simp add: reads_source_def tokenize_with_def split: if_splits)
  with assms tokenize_with_lexes[of u f src "Inr toks"] show ?thesis
    by (auto simp: reads_source_def reads_production_def)
qed

lemma streaming_reads_production:
  assumes "classes_sane f" "valid_utf8 src" "parser_streaming u src f = Inr p"
  shows "\<exists>r toks out. tokenize_with u f src = Some r \<and> reads_production u f src toks out p
    \<and> (case r of Inr ts \<Rightarrow> toks = ts \<and> out = None | Inl e \<Rightarrow> out = Some e)"
proof -
  from assms(3) obtain bc where bc: "streaming src f = Inr bc" "p = from_cursor u src f bc"
    by (cases "streaming src f") (auto simp: parser_streaming_def)
  then have len: "length src \<le> u32_max" by (auto simp: streaming_def streaming_inner_def split: if_splits)
  from tokenize_with_lexed[OF assms(1,2), of u NoTrivia] len obtain r where
    r: "tokenize_with u f src = Some (map_sum id fst r)" "lexed f NoTrivia (cursor_new src) [] r"
    by (auto simp: tokenize_with_def)
  from tokenize_with_lexes[OF r(1) len] obtain toks out where
    lx: "lexes u f LEX_STATE_DEFAULT (cursor_new src) toks out"
    and out: "case map_sum id fst r of Inr ts \<Rightarrow> toks = ts \<and> out = None | Inl e \<Rightarrow> out = Some e" by blast
  have "out \<noteq> Some Panic" using out r(2) by (cases r) (auto simp: lexed_def)
  from streaming_refines[OF bc(1)[unfolded streaming_def] lx this]
  moreover have "bc_pos bc = 0"
    using bc(1) by (auto simp: streaming_def streaming_inner_def split: if_splits)
  ultimately have "p_view toks out p"
    using bc(1) by (auto simp: p_view_def cursor_view_def bc(2) from_cursor_def streaming_def streaming_inner_def
        split: if_splits buffered_source.splits)
  with r(1) lx len out show ?thesis by (auto simp: reads_production_def bc(2) from_cursor_def)
qed

lemma seat_tokens_end:
  assumes "p_view toks out p"
  shows "\<exists>x. toks = x @ seat_tokens (seat_of toks p)"
proof -
  from p_view_pos[OF assms] have le: "p_base p \<le> p_pos p" "p_pos p \<le> length toks" by simp_all
  show ?thesis
  proof (cases "p_base p < p_pos p")
    case True
    with le have "toks = take (p_pos p - 1) toks @ toks ! (p_pos p - 1) # drop (p_pos p) toks"
      using id_take_nth_drop[of "p_pos p - 1" toks] by simp
    with True le have "toks = take (p_pos p - 1) toks @ seat_tokens (seat_of toks p)"
      by (simp add: seat_tokens_def seat_of_def p_ahead_def p_behind_def get_at_def)
    then show ?thesis by blast
  next
    case False
    have "toks = take (p_pos p) toks @ seat_tokens (seat_of toks p)"
      using False by (simp add: seat_tokens_def seat_of_def p_ahead_def p_behind_def)
    then show ?thesis by blast
  qed
qed

lemma production_placed:
  assumes "classes_sane f" "known_quotes f" "valid_utf8 src" "reads_production u f src toks out p"
  shows "well_placed src f (seat_of toks p)"
proof -
  from assms(4) have r: "length src \<le> u32_max" "lexes u f LEX_STATE_DEFAULT (cursor_new src) toks out"
    "p_view toks out p" "pa_source p = src" "pa_features p = f" "0 < pa_next_node_id p"
    by (simp_all add: reads_production_def)
  have "in_place src (seat_tokens (seat_of toks p))"
    using seat_tokens_end[OF r(3)] production_in_place(1)[OF assms(1-3) r(1,2)] in_place_suffix by metis
  with r assms(3) show ?thesis by (simp add: well_placed_def seat_of_def)
qed

lemmas reads_source_placed = production_placed[OF _ _ _ reads_source_production]

text \<open>What a contract says of a method run by such a parser.\<close>

lemma production_yields:
  assumes "classes_sane f" "known_quotes f" "valid_utf8 src" "reads_production u f src toks out p"
    "\<And>ts. yields src f ts m R"
  shows "case fst (m p) of Inl e \<Rightarrow> e = Parse_Panic \<longrightarrow> exhausted (snd (m p))
      | Inr x \<Rightarrow> R (p_ahead toks (snd (m p))) x"
    "suffix (p_ahead toks (snd (m p))) (p_ahead toks p)"
    "reads_production u f src toks out (snd (m p))"
proof -
  from assms(4) have v: "p_view toks out p" by (simp add: reads_production_def)
  note v' = agnostic_view[OF yields_agnostic[OF assms(5)] v]
  have g: "goes (seat_of toks p) R (fst (m p), seat_of toks (snd (m p)))"
    by (rule yields_at[OF assms(5) v production_placed[OF assms(1-4)]])
  then have l: "later (seat_of toks p) (seat_of toks (snd (m p)))" by (simp add: goes_def)
  from g show "case fst (m p) of Inl e \<Rightarrow> e = Parse_Panic \<longrightarrow> exhausted (snd (m p))
      | Inr x \<Rightarrow> R (p_ahead toks (snd (m p))) x"
    by (auto simp: goes_def seat_of_def exhausted_def strip_def split: sum.splits)
  from later_suffix[OF l] show "suffix (p_ahead toks (snd (m p))) (p_ahead toks p)" by (simp add: seat_of_def)
  from l v' assms(4) show "reads_production u f src toks out (snd (m p))"
    by (auto simp: later_def seat_of_def reads_production_def)
qed

subsection \<open>Running the grammar\<close>

lemma run_tx [run_rules]:
  "run_on (tx g) (ahead, prev, st) = (Inr (g (transaction_syntax (pa_features st))), ahead, prev, strip st)"
  by (rule run_features)

lemma run_gated [run_rules]:
  "run_on (gated flag m) (ahead, prev, st) = (if flag then run_on m (ahead, prev, st) else (Inr False, ahead, prev, strip st))"
  by (simp add: gated_def run_rules)

lemma run_meta_from [run_rules]:
  "0 < pa_next_node_id st \<Longrightarrow> pa_next_node_id st < u32_max \<Longrightarrow> run_on (meta_from sp) (ahead, prev, st)
     = (Inr \<lparr>meta_span = span_union sp (case prev of None \<Rightarrow> Span 0 0 | Some t \<Rightarrow> token_span t),
              meta_node_id = NodeId (pa_next_node_id st)\<rparr>, ahead, prev,
        (strip st)\<lparr>pa_next_node_id := pa_next_node_id st + 1\<rparr>)"
  by (simp add: meta_from_def run_bind agnostic_rules run_rules)

subsection \<open>A sample\<close>

definition commit_token :: token where
  "commit_token = Token (Tk_Keyword (Keyword 108)) (Span 0 6)"

lemma lookup_six_bytes:
  "length w = 6 \<Longrightarrow> lookup_keyword w = Some k \<longleftrightarrow> (pack_nat 0 (map to_ascii_lowercase w), k) \<in> set KEYWORDS_LEN_6"
  using search_by_iff[OF sorted_6 irreflp_on_less asymp_on_less, of "pack_nat 0 (map to_ascii_lowercase w)" k]
  by (simp add: lookup_keyword_def pack_u64_nat search_packed_def)

lemma commit_keyword: "lookup_keyword ''COMMIT'' = Some (Keyword 108)"
  by (simp add: lookup_six_bytes KEYWORDS_LEN_6_def to_ascii_lowercase_def is_ascii_uppercase_def)

lemma commit_word:
  "scan_word ascii_tables FeatureSet_ANSI (cursor_new ''COMMIT'') = Inr (commit_token, \<lparr>cur_src = ''COMMIT'', cur_pos = 6\<rparr>)"
proof -
  have "eat_identifier_continue ascii_tables FeatureSet_ANSI \<lparr>cur_src = ''COMMIT'', cur_pos = Suc 0\<rparr>
      = Inr \<lparr>cur_src = ''COMMIT'', cur_pos = 6\<rparr>"
    by (simp add: eat_identifier_continue.simps is_identifier_continue_def step_eval)
  then show ?thesis
    by (simp add: scan_word_def cursor_new_def ascii_cursor is_ascii_def commit_token_def token_from_def
        str_slice_def is_char_boundary_def subslice_def commit_keyword span_new_def)
qed

lemma commit_scan:
  "next_token ascii_tables FeatureSet_ANSI None LEX_STATE_DEFAULT (cursor_new ''COMMIT'')
     = Inr (Some commit_token, \<lparr>cur_src = ''COMMIT'', cur_pos = 6\<rparr>, None, LEX_STATE_DEFAULT)"
  using commit_word
  by (simp add: step_eval, subst skip_trivia_loop.simps, simp add: step_eval commit_token_def)

lemma commit_end:
  "next_token ascii_tables FeatureSet_ANSI None LEX_STATE_DEFAULT \<lparr>cur_src = ''COMMIT'', cur_pos = 6\<rparr>
     = Inr (None, \<lparr>cur_src = ''COMMIT'', cur_pos = 6\<rparr>, None, LEX_STATE_DEFAULT)"
  by (simp add: step_eval, subst skip_trivia_loop.simps, simp add: step_eval)

lemma commit_tokens: "tokenize_with ascii_tables FeatureSet_ANSI ''COMMIT'' = Some (Inr [commit_token])"
  by (simp add: tokenize_with_def u32_max_def NoTrivia_def, subst scan_tokens.simps, simp add: commit_scan,
      subst scan_tokens.simps, simp add: commit_end)

definition commit_parser :: parser where
  "commit_parser = parser_new ascii_tables ''COMMIT'' [commit_token] FeatureSet_ANSI"

lemma commit_reads: "reads_source ascii_tables FeatureSet_ANSI ''COMMIT'' [commit_token] commit_parser"
  unfolding commit_parser_def by (rule reads_source_new[OF commit_tokens])

lemma ansi_quotes: "known_quotes FeatureSet_ANSI"
  by (simp add: known_quotes_def known_quote_def ansi_eval)

definition commit_statement :: tcl_statement where
  "commit_statement = (let m = \<lambda>i. \<lparr>meta_span = Span 0 6, meta_node_id = NodeId i\<rparr> in
     Stmt_Transaction (Tx_Commit Kw_Commit None None None None (m 1)) (m 2))"

lemma ansi_transactions: "transaction_syntax FeatureSet_ANSI = TransactionSyntax_ANSI"
  by (simp add: FeatureSet_ANSI_def)

lemma commit_lexeme: "lexeme_of ''COMMIT'' commit_token = ''COMMIT''"
  by (simp add: commit_token_def lexeme_of_def subslice_def)

lemma commit_facts:
  "token_ok ''COMMIT'' commit_token" "token_span commit_token = Span 0 6"
  "is_worded ''COMMIT'' commit_token x \<longleftrightarrow> map to_ascii_lowercase x = ''commit''"
proof -
  show "token_ok ''COMMIT'' commit_token"
    by (simp add: token_ok_def commit_token_def str_slice_def is_char_boundary_def u32_max_def is_synthetic_def)
  show "token_span commit_token = Span 0 6" by (simp add: commit_token_def)
  have "map to_ascii_lowercase ''COMMIT'' = ''commit''" by code_simp
  then show "is_worded ''COMMIT'' commit_token x \<longleftrightarrow> map to_ascii_lowercase x = ''commit''"
    by (auto simp: is_worded_def commit_lexeme eq_ignore_ascii_case_def) (simp add: commit_token_def)
qed

lemma commit_completion:
  assumes "pa_features st = FeatureSet_ANSI"
  shows "run_on parse_transaction_completion ([], prev, st) = (Inr (None, None), [], prev, strip st)"
proof -
  note e = run_rules assms ansi_transactions TransactionSyntax_ANSI_def
  have c: "run_on parse_transaction_chain ([], prev, st) = (Inr None, [], prev, strip st)"
    unfolding parse_transaction_chain_def
    by (rule run_chain, (intro agnostic_rules)+, simp add: e, rule run_chain, (intro agnostic_rules)+) (simp add: e)
  show ?thesis unfolding parse_transaction_completion_def
    by (rule run_chain, (intro agnostic_rules)+, simp add: c, rule run_chain, (intro agnostic_rules)+) (simp add: e)
qed

lemma commit_rest:
  assumes "pa_features st = FeatureSet_ANSI" "0 < pa_next_node_id st" "pa_next_node_id st < u32_max"
  shows "run_on (parse_commit sp k) ([], prev, st) = (Inr (Tx_Commit k None None None None
      \<lparr>meta_span = span_union sp (case prev of None \<Rightarrow> Span 0 0 | Some t \<Rightarrow> token_span t), meta_node_id = NodeId (pa_next_node_id st)\<rparr>),
     [], prev, (strip st)\<lparr>pa_next_node_id := pa_next_node_id st + 1\<rparr>)"
proof -
  have b: "run_on (eat_transaction_block_keyword x) ([], prev, st) = (Inr None, [], prev, strip st)" for x st
    unfolding eat_transaction_block_keyword_def
    by (rule run_chain, (intro agnostic_rules)+, simp add: run_rules, rule run_chain, (intro agnostic_rules)+, simp add: run_rules, rule run_chain, (intro agnostic_rules)+) (simp add: run_rules)
  have n: "run_on (parse_transaction_name None) ([], prev, st) = (Inr None, [], prev, strip st)" for st
    unfolding parse_transaction_name_def by (rule run_chain, (intro agnostic_rules)+) (simp add: run_rules)
  show ?thesis unfolding parse_commit_def
    by (rule run_chain, (intro agnostic_rules)+, simp add: run_rules, rule run_chain, (intro agnostic_rules)+, simp add: b, rule run_chain, (intro agnostic_rules)+, simp add: n, rule run_chain, (intro agnostic_rules)+, simp add: commit_completion assms, rule run_chain, (intro agnostic_rules)+)
       (simp add: run_rules assms strip_set)
qed

lemma commit_parses: "fst (parse_transaction_statement commit_parser) = Inr commit_statement"
proof -
  have s: "seat_of [commit_token] commit_parser = ([commit_token], None, strip commit_parser)"
    by (simp add: seat_of_def commit_parser_def parser_new_def from_cursor_def p_ahead_def p_behind_def p_pos_def p_base_def from_tokens_def)
  have p: "pa_source commit_parser = ''COMMIT''" "pa_features commit_parser = FeatureSet_ANSI"
    "pa_next_node_id commit_parser = 1"
    by (simp_all add: commit_parser_def parser_new_def from_cursor_def)
  have w: "is_worded ''COMMIT'' commit_token ''COMMIT''" "\<not> is_worded ''COMMIT'' commit_token ''BEGIN''"
    "\<not> is_worded ''COMMIT'' commit_token ''START''"
    unfolding commit_facts by code_simp+
  note e = p commit_facts(1,2) w
  have k: "run_on eat_transaction_commit_keyword ([commit_token], None, strip commit_parser)
     = (Inr (Some Kw_Commit), [], Some commit_token, strip commit_parser)"
    unfolding eat_transaction_commit_keyword_def by (rule run_chain, (intro agnostic_rules)+) (simp add: run_rules e)
  have b: "run_on (parse_transaction_statement_kind (Span 0 6)) ([commit_token], None, strip commit_parser)
      = (Inr (Tx_Commit Kw_Commit None None None None \<lparr>meta_span = Span 0 6, meta_node_id = NodeId 1\<rparr>),
         [], Some commit_token, (strip commit_parser)\<lparr>pa_next_node_id := 2\<rparr>)"
    unfolding parse_transaction_statement_kind_def
    apply (rule run_chain, (intro agnostic_rules)+, simp add: run_rules)
    apply (rule run_chain, (intro agnostic_rules)+, simp add: run_rules e)
    apply (rule run_chain, (intro agnostic_rules)+, simp add: run_rules e)
    apply (rule run_chain, (intro agnostic_rules)+, simp add: k)
    apply (subst commit_rest, simp_all add: e u32_max_def span_union_def is_synthetic_def)
    done
  have "run_on parse_transaction_statement ([commit_token], None, strip commit_parser)
      = (Inr commit_statement, [], Some commit_token, (strip commit_parser)\<lparr>pa_next_node_id := 3\<rparr>)"
    unfolding parse_transaction_statement_def
    by (rule run_chain, (intro agnostic_rules)+, simp add: run_rules e, rule run_chain, (intro agnostic_rules)+,
        simp add: b, rule run_chain, (intro agnostic_rules)+)
       (simp add: run_rules e u32_max_def span_union_def is_synthetic_def commit_statement_def Let_def strip_set)
  then show ?thesis
    using agnostic_run(1)[of parse_transaction_statement "[commit_token]" commit_parser] commit_reads
    by (simp add: s reads_source_def agnostic_rules)
qed

lemma valid_commit: "valid_utf8 ''COMMIT''"
  by simp

text \<open>A source that is one lexical fault, and the streaming parser over it.\<close>

definition open_string :: source where
  "open_string = [CHR 0x27]"

definition open_string_fault :: lex_failure where
  "open_string_fault = lex_err UnterminatedString 0 1"

definition fault_parser :: parser where
  "fault_parser = (case parser_streaming ascii_tables open_string FeatureSet_ANSI of
     Inr p \<Rightarrow> p | Inl _ \<Rightarrow> parser_new ascii_tables open_string [] FeatureSet_ANSI)"

lemma open_string_utf8: "valid_utf8 open_string"
  unfolding open_string_def by simp

lemma open_string_scan:
  "next_token ascii_tables FeatureSet_ANSI None LEX_STATE_DEFAULT (cursor_new open_string) = Inl open_string_fault"
proof -
  have "quoted_body_loop (string_scan FeatureSet_ANSI single_quote) 0 (Suc 0) \<lparr>cur_src = [single_quote], cur_pos = Suc 0\<rparr>
      = Inl (lex_err UnterminatedString 0 1)"
    by (subst quoted_body_loop.simps) (simp add: cursor_eval string_scan_def)
  then show ?thesis
    by (simp add: open_string_def open_string_fault_def step_eval, subst skip_trivia_loop.simps)
       (simp add: step_eval scan_quoted_def scan_quoted_body_def)
qed

lemma open_string_tokens: "tokenize_with ascii_tables FeatureSet_ANSI open_string = Some (Inl open_string_fault)"
  by (simp add: tokenize_with_def u32_max_def NoTrivia_def open_string_def, subst scan_tokens.simps)
     (simp add: open_string_scan[unfolded open_string_def])

lemma fault_streams: "parser_streaming ascii_tables open_string FeatureSet_ANSI = Inr fault_parser"
  by (simp add: fault_parser_def parser_streaming_def streaming_def streaming_inner_def open_string_def u32_max_def)

lemma fault_reads: "reads_production ascii_tables FeatureSet_ANSI open_string [] (Some open_string_fault) fault_parser"
proof -
  from streaming_reads_production[OF ansi_sane open_string_utf8 fault_streams] open_string_tokens
  obtain toks where r: "reads_production ascii_tables FeatureSet_ANSI open_string toks (Some open_string_fault) fault_parser"
    by auto
  then have "toks = []" using lexes_at_err[OF _ open_string_scan] by (auto simp: reads_production_def)
  with r show ?thesis by simp
qed

subsection \<open>The transaction grammar on a source\<close>

lemma transaction_contract:
  assumes "classes_sane f" "known_quotes f" "valid_utf8 src" "reads_production u f src toks out p"
    "m = parse_transaction_statement \<or> m = parse_xa_statement"
  shows "case fst (m p) of Inl e \<Rightarrow> e = Parse_Panic \<longrightarrow> exhausted (snd (m p))
      | Inr s \<Rightarrow> tcl_typed (transaction_syntax f) s"
    "suffix (p_ahead toks (snd (m p))) (p_ahead toks p)" "reads_production u f src toks out (snd (m p))"
proof -
  have y: "yields src f ts m (\<lambda>us s. tcl_typed (transaction_syntax f) s)" for ts
    using assms(5) by (auto intro: yields_tcl)
  note c = production_yields[OF assms(1-4), of m, OF y]
  from c show "case fst (m p) of Inl e \<Rightarrow> e = Parse_Panic \<longrightarrow> exhausted (snd (m p))
      | Inr s \<Rightarrow> tcl_typed (transaction_syntax f) s"
    "suffix (p_ahead toks (snd (m p))) (p_ahead toks p)" "reads_production u f src toks out (snd (m p))"
    by (simp_all split: sum.splits)
qed

text \<open>
  C23. A statement the transaction grammar returns, whatever the source, is well formed for the
  dialect: each clause it has is one the dialect's flags allow, a list of modes keeps the dialect's
  rules on repetition and number, a name stands only after the word TRANSACTION, a chain and a
  release clause exclude each other, and rolling back to a savepoint admits neither; the format id
  of an XA transaction id, where there is one, is a number literal.
\<close>

theorem transaction_statements_typed:
  assumes "classes_sane f" "known_quotes f" "valid_utf8 src" "reads_production u f src toks out p"
    and "fst (parse_transaction_statement p) = Inr s \<or> fst (parse_xa_statement p) = Inr s"
  shows "tcl_typed (transaction_syntax f) s"
  using transaction_contract(1)[OF assms(1-4), of parse_transaction_statement]
    transaction_contract(1)[OF assms(1-4), of parse_xa_statement] assms(5) by auto

theorem transaction_statements_typed_witness:
  "tcl_typed (transaction_syntax FeatureSet_ANSI) commit_statement"
  by (rule transaction_statements_typed[OF ansi_sane ansi_quotes _ reads_source_production[OF commit_reads] disjI1[OF commit_parses]]) simp

text \<open>
  C24. The transaction grammar ends on every source, forwards, also on one with a lexical fault
  that a streaming parser meets in the course of the statement: the tokens it leaves are a tail of
  those it was given, the parser still reads the same production of the scanner, and it panics only
  when the node ids or the symbols are used up.
\<close>

theorem transaction_statements_end:
  assumes "classes_sane f" "known_quotes f" "valid_utf8 src" "reads_production u f src toks out p"
    and "m = parse_transaction_statement \<or> m = parse_xa_statement"
    and "m p = (r, p')"
  shows "(r = Inl Parse_Panic \<longrightarrow> exhausted p') \<and> suffix (p_ahead toks p') (p_ahead toks p)
    \<and> reads_production u f src toks out p'"
  using transaction_contract[OF assms(1-5)] assms(6) by (cases r) auto

theorem transaction_statements_end_witness:
  "suffix (p_ahead [] (snd (parse_transaction_statement fault_parser))) (p_ahead [] fault_parser)
   \<and> reads_production ascii_tables FeatureSet_ANSI open_string [] (Some open_string_fault)
       (snd (parse_transaction_statement fault_parser))"
  by (rule conjunct2[OF transaction_statements_end[OF ansi_sane ansi_quotes open_string_utf8 fault_reads
        disjI1[OF refl] prod.collapse[symmetric]]])

end
