(* ===== verification/Transaction_Roundtrips.thy ===== *)
theory Transaction_Roundtrips
  imports Parse_Accepts Transaction_Laws Render_Transactions
begin

text \<open>
  Rendering a transaction statement and reading the text back. A statement whose identifiers are
  lexemes is written as a list of lexemes; the renderer prints their text, the scanner reads it
  back, and the grammar builds the statement again.
\<close>

subsection \<open>The words of a statement\<close>

abbreviation word_lexemes :: "string list \<Rightarrow> lexeme list" where
  "word_lexemes ws \<equiv> map Lx_Word ws"

fun level_words :: "isolation_level \<Rightarrow> string list" where
  "level_words ReadUncommitted = [''READ'', ''UNCOMMITTED'']"
| "level_words ReadCommitted = [''READ'', ''COMMITTED'']"
| "level_words RepeatableRead = [''REPEATABLE'', ''READ'']"
| "level_words Serializable = [''SERIALIZABLE'']"

fun mode_words :: "'m transaction_mode \<Rightarrow> string list" where
  "mode_words (IsolationLevel level _) = ''ISOLATION'' # ''LEVEL'' # level_words level"
| "mode_words (AccessMode ReadOnly _) = [''READ'', ''ONLY'']"
| "mode_words (AccessMode ReadWrite _) = [''READ'', ''WRITE'']"
| "mode_words (Deferrable True _) = [''DEFERRABLE'']"
| "mode_words (Deferrable False _) = [''NOT'', ''DEFERRABLE'']"
| "mode_words (ConsistentSnapshot _) = [''WITH'', ''CONSISTENT'', ''SNAPSHOT'']"

fun modes_lexemes :: "'m transaction_mode list \<Rightarrow> lexeme list" where
  "modes_lexemes [] = []"
| "modes_lexemes [m] = word_lexemes (mode_words m)"
| "modes_lexemes (m # n # ms) = word_lexemes (mode_words m) @ Lx_Comma # modes_lexemes (n # ms)"

fun mode_kind_words :: "transaction_mode_kind option \<Rightarrow> string list" where
  "mode_kind_words None = []"
| "mode_kind_words (Some Deferred) = [''DEFERRED'']"
| "mode_kind_words (Some Immediate) = [''IMMEDIATE'']"
| "mode_kind_words (Some Exclusive) = [''EXCLUSIVE'']"

fun block_words :: "transaction_block_keyword option \<Rightarrow> string list" where
  "block_words None = []"
| "block_words (Some Block_Transaction) = [''TRANSACTION'']"
| "block_words (Some Block_Work) = [''WORK'']"

fun block_lexemes :: "transaction_block_keyword option \<Rightarrow> lexeme option \<Rightarrow> lexeme list" where
  "block_lexemes block None = word_lexemes (block_words block)"
| "block_lexemes block (Some x) = [Lx_Word ''TRANSACTION'', x]"

fun completion_words :: "bool option \<Rightarrow> bool option \<Rightarrow> string list" where
  "completion_words chain release =
     (case chain of None \<Rightarrow> [] | Some True \<Rightarrow> [''AND'', ''CHAIN''] | Some False \<Rightarrow> [''AND'', ''NO'', ''CHAIN''])
     @ (case release of None \<Rightarrow> [] | Some True \<Rightarrow> [''RELEASE''] | Some False \<Rightarrow> [''NO'', ''RELEASE''])"

text \<open>What follows the word \<open>TRANSACTION\<close>, or its place, and the name.\<close>

fun statement_tail :: "(lexeme, 'm) transaction_statement \<Rightarrow> lexeme list" where
  "statement_tail (Tx_Begin syntax mode block name modes _) = modes_lexemes modes"
| "statement_tail (Tx_Commit syntax block name chain release _) = word_lexemes (completion_words chain release)"
| "statement_tail (Tx_Rollback syntax block name savepoint_keyword to_savepoint chain release _) =
     (case to_savepoint of None \<Rightarrow> []
      | Some x \<Rightarrow> Lx_Word ''TO'' # (if savepoint_keyword then [Lx_Word ''SAVEPOINT''] else []) @ [x])
     @ word_lexemes (completion_words chain release)"
| "statement_tail (Tx_Savepoint name _) = [name]"
| "statement_tail (Tx_Release savepoint_keyword savepoint _) =
     (if savepoint_keyword then [Lx_Word ''SAVEPOINT''] else []) @ [savepoint]"
| "statement_tail (Tx_SetCharacteristics modes _) = modes_lexemes modes"

fun statement_lexemes :: "(lexeme, 'm) transaction_statement \<Rightarrow> lexeme list" where
  "statement_lexemes (Tx_Begin Start_Begin mode block name modes m) = Lx_Word ''BEGIN'' # word_lexemes (mode_kind_words mode)
     @ block_lexemes block name @ statement_tail (Tx_Begin Start_Begin mode block name modes m)"
| "statement_lexemes (Tx_Begin Start_Start mode block name modes m) = Lx_Word ''START'' # word_lexemes (block_words block)
     @ word_lexemes (mode_kind_words mode) @ statement_tail (Tx_Begin Start_Start mode block name modes m)"
| "statement_lexemes (Tx_Commit syntax block name chain release m) = Lx_Word (if syntax = Kw_End then ''END'' else ''COMMIT'')
     # block_lexemes block name @ statement_tail (Tx_Commit syntax block name chain release m)"
| "statement_lexemes (Tx_Rollback syntax block name k to chain release m) =
     Lx_Word (if syntax = Kw_Abort then ''ABORT'' else ''ROLLBACK'')
     # block_lexemes block name @ statement_tail (Tx_Rollback syntax block name k to chain release m)"
| "statement_lexemes (Tx_Savepoint name m) = Lx_Word ''SAVEPOINT'' # statement_tail (Tx_Savepoint name m)"
| "statement_lexemes (Tx_Release k x m) = Lx_Word ''RELEASE'' # statement_tail (Tx_Release k x m)"
| "statement_lexemes (Tx_SetCharacteristics modes m) = Lx_Word ''SET'' # Lx_Word ''TRANSACTION''
     # statement_tail (Tx_SetCharacteristics modes m)"

subsection \<open>The renderer writes these words\<close>

lemma spaced_append [simp]: "spaced_text (xs @ ys) = spaced_text xs @ spaced_text ys"
  by (induction xs) simp_all

lemma spaced_word [simp]: "lexeme_gap (Lx_Word w) = '' ''" "lexeme_gap (Lx_Name opn cls s) = '' ''" "lexeme_gap Lx_Comma = []"
  by (simp_all add: lexeme_gap_def)

lemma write_all_Some: "write_all (map Some ws) = Some (concat ws)"
  by (induction ws) simp_all

lemma render_mode_words: "\<exists>t. render_transaction_mode m = Some t \<and> spaced_text (word_lexemes (mode_words m)) = '' '' @ t"
proof (cases m)
  case (IsolationLevel l x)
  then show ?thesis by (cases l) simp_all
next
  case (AccessMode a x)
  then show ?thesis by (cases a) simp_all
next
  case (Deferrable d x)
  then show ?thesis by (cases d) simp_all
qed simp

lemma render_modes_text: "render_transaction_modes modes = Some (spaced_text (modes_lexemes modes))"
proof -
  have "modes \<noteq> [] \<Longrightarrow> \<exists>t. render_comma_separated render_transaction_mode modes = Some t
      \<and> spaced_text (modes_lexemes modes) = '' '' @ t"
  proof (induction modes rule: modes_lexemes.induct)
    case (2 m)
    then show ?case using render_mode_words[of m] by simp
  next
    case (3 m n ms)
    then obtain t where t: "render_comma_separated render_transaction_mode (n # ms) = Some t"
      "spaced_text (modes_lexemes (n # ms)) = '' '' @ t" by auto
    obtain v where v: "render_transaction_mode m = Some v" "spaced_text (word_lexemes (mode_words m)) = '' '' @ v"
      using render_mode_words[of m] by blast
    from t v show ?case by simp
  qed simp
  then show ?thesis
    by (cases "modes = []") (auto simp: render_transaction_modes_def render_leading_space_comma_separated_def)
qed

definition name_lexeme :: "lexeme \<Rightarrow> bool" where
  "name_lexeme x \<longleftrightarrow> x \<noteq> Lx_Comma"

lemma spaced_name [simp]: "name_lexeme x \<Longrightarrow> lexeme_gap x = '' ''"
  by (simp add: name_lexeme_def lexeme_gap_def)

lemma render_parts_text:
  "(case mode of None \<Rightarrow> Some [] | Some k \<Rightarrow> Some ('' '' @ render_transaction_mode_kind k))
     = Some (spaced_text (word_lexemes (mode_kind_words mode)))"
  "render_transaction_block_keyword block = spaced_text (word_lexemes (block_words block))"
  "render_transaction_completion chain release = spaced_text (word_lexemes (completion_words chain release))"
  "(\<And>x. name = Some x \<Longrightarrow> name_lexeme x \<and> ident x = Some (lexeme_text x))
     \<Longrightarrow> render_transaction_block_and_name ident True block name = Some (spaced_text (block_lexemes block name))"
proof -
  show "(case mode of None \<Rightarrow> Some [] | Some k \<Rightarrow> Some ('' '' @ render_transaction_mode_kind k))
     = Some (spaced_text (word_lexemes (mode_kind_words mode)))"
    by (cases mode rule: mode_kind_words.cases) simp_all
  show b: "render_transaction_block_keyword block = spaced_text (word_lexemes (block_words block))" for block
    by (cases block rule: block_words.cases) simp_all
  show "render_transaction_completion chain release = spaced_text (word_lexemes (completion_words chain release))"
    by (auto simp: render_transaction_completion_def split: option.split bool.split)
  show "(\<And>x. name = Some x \<Longrightarrow> name_lexeme x \<and> ident x = Some (lexeme_text x))
     \<Longrightarrow> render_transaction_block_and_name ident True block name = Some (spaced_text (block_lexemes block name))"
    by (cases name) (simp_all add: render_transaction_block_and_name_def b)
qed

lemma render_statement_text:
  assumes "\<And>x. x \<in> set1_transaction_statement s \<Longrightarrow> name_lexeme x \<and> ident x = Some (lexeme_text x)"
  shows "render_transaction_with ident True s = Some (sql_text (statement_lexemes s))"
proof (cases s)
  case (Tx_Begin kw mode block name modes m)
  with assms have n: "name = Some x \<Longrightarrow> name_lexeme x \<and> ident x = Some (lexeme_text x)" for x by simp
  show ?thesis
    by (cases kw) (use Tx_Begin in \<open>simp_all add: render_parts_text n render_modes_text\<close>)
next
  case (Tx_Commit kw block name chain release m)
  with assms have n: "name = Some x \<Longrightarrow> name_lexeme x \<and> ident x = Some (lexeme_text x)" for x by simp
  show ?thesis by (cases kw) (use Tx_Commit in \<open>simp_all add: render_parts_text n\<close>)
next
  case (Tx_Rollback kw block name k tosp chain release m)
  with assms have n: "name = Some x \<Longrightarrow> name_lexeme x \<and> ident x = Some (lexeme_text x)"
    "tosp = Some x \<Longrightarrow> name_lexeme x \<and> ident x = Some (lexeme_text x)" for x by auto
  show ?thesis
    by (cases kw; cases tosp) (use Tx_Rollback n(2) in \<open>simp_all add: render_parts_text n(1)\<close>)
next
  case (Tx_Release k x m)
  with assms[of x] show ?thesis by simp
next
  case (Tx_SetCharacteristics modes m)
  then show ?thesis by (simp add: render_modes_text)
qed (use assms in simp_all)

subsection \<open>The grammar reads these words\<close>

definition upper_word :: "string \<Rightarrow> bool" where
  "upper_word w \<longleftrightarrow> list_all is_ascii_uppercase w"

lemma to_lower_inj: "is_ascii_uppercase a \<Longrightarrow> is_ascii_uppercase b \<Longrightarrow> to_ascii_lowercase a = to_ascii_lowercase b \<Longrightarrow> a = b"
proof -
  assume u: "is_ascii_uppercase a" "is_ascii_uppercase b" "to_ascii_lowercase a = to_ascii_lowercase b"
  then have "byte_val (char_of (byte_val a + 32)) = byte_val (char_of (byte_val b + 32))"
    by (simp add: to_ascii_lowercase_def)
  then show "a = b" using u(1,2) by (simp add: is_ascii_uppercase_def)
qed

lemma eq_upper: "upper_word v \<Longrightarrow> upper_word w \<Longrightarrow> eq_ignore_ascii_case v w \<longleftrightarrow> v = w"
proof -
  have "list_all is_ascii_uppercase v \<Longrightarrow> list_all is_ascii_uppercase w
      \<Longrightarrow> map to_ascii_lowercase v = map to_ascii_lowercase w \<Longrightarrow> v = w" for v w
  proof (induction v arbitrary: w)
    case (Cons a v)
    then show ?case using to_lower_inj by (cases w) auto
  qed simp
  then show "upper_word v \<Longrightarrow> upper_word w \<Longrightarrow> ?thesis" unfolding upper_word_def eq_ignore_ascii_case_def by blast
qed

lemma upper_words [simp]:
  "upper_word ''ABORT''" "upper_word ''AND''" "upper_word ''BEGIN''" "upper_word ''CHAIN''" "upper_word ''COMMIT''"
  "upper_word ''COMMITTED''" "upper_word ''CONSISTENT''" "upper_word ''DEFERRABLE''" "upper_word ''DEFERRED''"
  "upper_word ''END''" "upper_word ''EXCLUSIVE''" "upper_word ''IMMEDIATE''" "upper_word ''ISOLATION''"
  "upper_word ''LEVEL''" "upper_word ''NO''" "upper_word ''NOT''" "upper_word ''ONLY''" "upper_word ''READ''"
  "upper_word ''RELEASE''" "upper_word ''REPEATABLE''" "upper_word ''ROLLBACK''" "upper_word ''SAVEPOINT''"
  "upper_word ''SERIALIZABLE''" "upper_word ''SET''" "upper_word ''SNAPSHOT''" "upper_word ''START''" "upper_word ''TO''"
  "upper_word ''TRANSACTION''" "upper_word ''UNCOMMITTED''" "upper_word ''WITH''" "upper_word ''WORK''" "upper_word ''WRITE''"
  by code_simp+

lemma eq_same [simp]: "eq_ignore_ascii_case w w"
  by (simp add: eq_ignore_ascii_case_def)

lemma takes_level [takes_rules]:
  "takes f 0 parse_isolation_level (word_lexemes (level_words l) @ xs) xs (\<lambda>_ l'. l' = l)"
  unfolding parse_isolation_level_def
  by (cases l) (auto simp: eq_upper intro!: takes_choice takes_expect takes_return agnostic_rules)

lemma takes_gated_word:
  assumes "flag \<Longrightarrow> heads xs w \<Longrightarrow> takes f n (k True) (tl xs) ys Q" "\<not> (flag \<and> heads xs w) \<Longrightarrow> takes f n (k False) xs ys Q"
    "\<And>x. agnostic (k x)"
  shows "takes f n (pbind (gated flag (eat_contextual_keyword w)) k) xs ys Q"
proof (cases flag)
  case True
  with assms show ?thesis by (simp add: gated_def takes_word)
next
  case False
  have e: "takes f 0 (gated False (eat_contextual_keyword w)) xs xs (\<lambda>_ x. x = False)"
    by (simp add: gated_def takes_return)
  show ?thesis unfolding eq_False[THEN iffD2, OF False]
    by (rule takes_skip[OF e], rule assms) (simp add: assms(2) False)
qed

lemma takes_gated_choice:
  assumes "flag \<Longrightarrow> heads xs w \<Longrightarrow> takes f n A (tl xs) ys Q" "\<not> (flag \<and> heads xs w) \<Longrightarrow> takes f n B xs ys Q"
    "agnostic A" "agnostic B"
  shows "takes f n (pbind (gated flag (eat_contextual_keyword w)) (\<lambda>x. if x then A else B)) xs ys Q"
  by (rule takes_gated_word) (use assms in simp_all)

lemma takes_meta: "takes f 1 (meta_from sp) xs xs (\<lambda>_ m. True)"
  unfolding meta_from_def
  using takes_bind[OF takes_preceding, of make_meta f 1 xs xs "\<lambda>_ _. True"] takes_make_meta agnostic_make_meta by simp

lemma takes_node:
  assumes "\<And>it m. Q it (g m)"
  shows "takes f 1 (pbind (meta_from sp) (\<lambda>m. preturn (g m))) xs xs Q"
proof -
  have "takes f (1 + 0) (pbind (meta_from sp) (\<lambda>m. preturn (g m))) xs xs Q"
    by (rule takes_bind[OF takes_meta]) (auto intro!: takes_return agnostic_rules assms)
  then show ?thesis by simp
qed

lemma takes_span: "(\<And>sp. takes f n (k sp) xs ys Q) \<Longrightarrow> (\<And>sp. agnostic (k sp)) \<Longrightarrow> takes f n (pbind current_span k) xs ys Q"
  using takes_bind[OF takes_current_span, of k f n xs ys Q] by simp

abbreviation same_mode :: "'m transaction_mode \<Rightarrow> 'n transaction_mode \<Rightarrow> bool" where
  "same_mode \<equiv> rel_transaction_mode (\<lambda>_ _. True)"

lemma takes_access:
  "takes f 0 (pbind (eat_contextual_keyword ''ONLY'') (\<lambda>y. if y then preturn ReadOnly
       else pbind (eat_contextual_keyword ''WRITE'') (\<lambda>w. if w then preturn ReadWrite
       else unexpected ''`ONLY` or `WRITE` after `READ`''))) (word_lexemes (tl (mode_words (AccessMode access m))) @ xs) xs
     (\<lambda>_ x. x = access)"
  by (cases access) (auto simp: eq_upper intro!: takes_choice takes_return agnostic_rules)

lemma takes_mode [takes_rules]:
  fixes m :: "'a transaction_mode"
  assumes "shape_allowed i a d c (mode_shape m)"
  shows "takes f 1 (parse_optional_transaction_mode i a d c) (word_lexemes (mode_words m) @ xs) xs
    (\<lambda>_ r. \<exists>m'. r = Some m' \<and> same_mode m m')"
proof -
  note c = takes_gated_choice takes_choice takes_expect agnostic_rules
  have fin: "takes f (Suc 0) (pbind (meta_from sp) (\<lambda>x. preturn (Some (g x)))) xs xs (\<lambda>_ r. \<exists>m'. r = Some m' \<and> same_mode n m')"
    if "\<And>x. same_mode n (g x)" for g sp and n :: "'a transaction_mode"
    using takes_node[of "\<lambda>_ r. \<exists>m'. r = Some m' \<and> same_mode n m'" "\<lambda>x. Some (g x)" f sp xs] that by simp
  show ?thesis
    unfolding parse_optional_transaction_mode_def
  proof (rule takes_span, goal_cases)
    case (1 sp)
    show ?case
    proof (cases m)
      case (IsolationLevel l x)
      have "takes f 1 (pbind parse_isolation_level (\<lambda>level. pbind (meta_from sp) (\<lambda>m. preturn (Some (IsolationLevel level m)))))
          (word_lexemes (level_words l) @ xs) xs (\<lambda>_ r. \<exists>m'. r = Some m' \<and> same_mode m m')"
        by (rule takes_eat[OF takes_level], intro agnostic_rules, simp, rule fin) (simp add: IsolationLevel)
      with assms IsolationLevel show ?thesis by (auto simp: eq_upper intro!: c)
    next
      case (AccessMode access x)
      have "takes f 1 (pbind (pbind (eat_contextual_keyword ''ONLY'') (\<lambda>y. if y then preturn ReadOnly
       else pbind (eat_contextual_keyword ''WRITE'') (\<lambda>w. if w then preturn ReadWrite
       else unexpected ''`ONLY` or `WRITE` after `READ`''))) (\<lambda>mode. pbind (meta_from sp) (\<lambda>m. preturn (Some (AccessMode mode m)))))
          (word_lexemes (tl (mode_words (AccessMode access x))) @ xs) xs (\<lambda>_ r. \<exists>m'. r = Some m' \<and> same_mode m m')"
        by (rule takes_eat[OF takes_access], intro agnostic_rules, simp, rule fin) (simp add: AccessMode)
      with assms AccessMode show ?thesis by (cases access) (auto simp: eq_upper intro!: c)
    next
      case (Deferrable b x)
      with assms show ?thesis by (cases b) (auto simp: eq_upper intro!: c fin)
    next
      case (ConsistentSnapshot x)
      with assms show ?thesis by (auto simp: eq_upper intro!: c fin)
    qed
  qed (intro agnostic_rules)
qed

lemma takes_no_mode: "takes f 0 (parse_optional_transaction_mode i a d c) [] [] (\<lambda>_ r. r = None)"
  unfolding parse_optional_transaction_mode_def
  by (rule takes_span) (auto intro!: takes_gated_choice takes_return agnostic_rules)

subsection \<open>Lists of modes\<close>

lemma same_mode_shape: "same_mode m m' \<Longrightarrow> mode_shape m' = mode_shape m"
  by (cases m; cases m') simp_all

lemma takes_tx:
  "(\<And>x. agnostic (k x)) \<Longrightarrow> takes f n (k (g (transaction_syntax f))) xs ys Q \<Longrightarrow> takes f n (pbind (tx g) k) xs ys Q"
  by (rule takes_get)

lemma takes_round:
  assumes "shape_allowed i a d c (mode_shape m)" "xs = [] \<or> (\<exists>us. xs = Lx_Comma # us)"
    "tx_transaction_modes_reject_duplicates (transaction_syntax f) \<longrightarrow> mode_shape m \<notin> set (map mode_shape acc)"
    "\<not> tx_transaction_multiple_modes (transaction_syntax f) \<longrightarrow> xs = []"
  shows "takes f 1 (transaction_modes_round i a d c (acc, req)) (word_lexemes (mode_words m) @ xs) (tl xs)
    (\<lambda>_ r. \<exists>m'. same_mode m m' \<and> (r = Inr (acc @ [m']) \<and> xs = [] \<or> r = Inl (acc @ [m'], xs \<noteq> [])))"
proof -
  have "takes f (1 + 0) (transaction_modes_round i a d c (acc, req)) (word_lexemes (mode_words m) @ xs) (tl xs)
    (\<lambda>_ r. \<exists>m'. same_mode m m' \<and> (r = Inr (acc @ [m']) \<and> xs = [] \<or> r = Inl (acc @ [m'], xs \<noteq> [])))"
    unfolding transaction_modes_round_def prod.case
  proof (rule takes_bind[OF takes_mode[OF assms(1)]], simp add: lasting_def, intro agnostic_rules, goal_cases)
    case (1 it r)
    then obtain m' where m: "r = Some m'" "same_mode m m'" by blast
    have "\<not> (tx_transaction_modes_reject_duplicates (transaction_syntax f) \<and> list_ex (\<lambda>e. same_transaction_mode_kind e m') acc)"
      using assms(3) same_mode_shape[OF m(2)] by (auto simp: same_kind_shape list_ex_iff) (metis image_eqI)
    then show ?case unfolding m(1) option.case
      using assms(2,4) m(2)
      by (auto intro!: takes_tx takes_comma takes_return agnostic_rules)
  qed
  then show ?thesis by simp
qed

lemma takes_last_round: "takes f 0 (transaction_modes_round i a d c (acc, False)) [] [] (\<lambda>_ r. r = Inr acc)"
  unfolding transaction_modes_round_def prod.case
  by (rule takes_skip[OF takes_no_mode], intro agnostic_rules) (simp add: takes_return)

lemma takes_mode_rounds:
  fixes ms :: "'m transaction_mode list"
  assumes "list_all (\<lambda>m. shape_allowed i a d c (mode_shape m)) ms"
    "tx_transaction_modes_reject_duplicates (transaction_syntax f) \<longrightarrow> distinct (map mode_shape acc @ map mode_shape ms)"
    "\<not> tx_transaction_multiple_modes (transaction_syntax f) \<longrightarrow> length ms \<le> 1" "ms \<noteq> []" "length ms < n"
  shows "takes f (length ms) (ploop_n n (transaction_modes_round i a d c) (acc, req)) (modes_lexemes ms) []
    (\<lambda>_ r. \<exists>rs. r = acc @ rs \<and> list_all2 same_mode ms rs)"
  using assms
proof (induction ms arbitrary: acc req n rule: modes_lexemes.induct)
  case (2 m)
  obtain j where n: "n = Suc (Suc j)" using 2(5) by (cases n; cases "n - 1") auto
  have r: "takes f 1 (transaction_modes_round i a d c (acc, req)) (word_lexemes (mode_words m) @ []) (tl [])
    (\<lambda>_ r. \<exists>m'. same_mode m m' \<and> (r = Inr (acc @ [m']) \<and> [] = ([] :: lexeme list) \<or> r = Inl (acc @ [m'], [] \<noteq> ([] :: lexeme list))))"
    by (rule takes_round) (use 2 in auto)
  have "takes f (1 + 0) (ploop_n n (transaction_modes_round i a d c) (acc, req)) (word_lexemes (mode_words m) @ []) []
    (\<lambda>_ r. \<exists>rs. r = acc @ rs \<and> list_all2 same_mode [m] rs)"
    unfolding n ploop_n.simps(2)[of "Suc j"]
  proof (rule takes_bind[OF r[simplified list.sel]], simp add: lasting_def, intro agnostic_rules agnostic_ploop_n, goal_cases)
    case (1 it r)
    then obtain m' where m: "same_mode m m'" "r = Inr (acc @ [m']) \<or> r = Inl (acc @ [m'], False)" by auto
    have "takes f 0 (ploop_n (Suc j) (transaction_modes_round i a d c) (acc @ [m'], False)) [] [] (\<lambda>_ r. r = acc @ [m'])"
      by (simp, rule takes_skip[OF takes_last_round], intro agnostic_rules agnostic_ploop_n, simp add: takes_return)
    then have k: "takes f 0 (ploop_n (Suc j) (transaction_modes_round i a d c) (acc @ [m'], False)) [] []
        (\<lambda>_ r. \<exists>rs. r = acc @ rs \<and> list_all2 same_mode [m] rs)"
      by (rule takes_mono) (use m(1) in auto)
    show ?case
      by (rule takes_mono[of f 0 _ _ _ "\<lambda>_ r. \<exists>rs. r = acc @ rs \<and> list_all2 same_mode [m] rs"])
         (use m k in \<open>auto intro!: takes_return simp del: ploop_n.simps\<close>)
  qed
  then show ?case by simp
next
  case (3 m m2 ms)
  obtain k where n: "n = Suc k" "length (m2 # ms) < k" using 3(6) by (cases n) auto
  let ?xs = "Lx_Comma # modes_lexemes (m2 # ms)"
  have r: "takes f 1 (transaction_modes_round i a d c (acc, req)) (word_lexemes (mode_words m) @ ?xs) (tl ?xs)
    (\<lambda>_ r. \<exists>m'. same_mode m m' \<and> (r = Inr (acc @ [m']) \<and> ?xs = [] \<or> r = Inl (acc @ [m'], ?xs \<noteq> [])))"
    by (rule takes_round) (use 3 in auto)
  have "takes f (1 + length (m2 # ms)) (ploop_n n (transaction_modes_round i a d c) (acc, req)) (word_lexemes (mode_words m) @ ?xs) []
    (\<lambda>_ r. \<exists>rs. r = acc @ rs \<and> list_all2 same_mode (m # m2 # ms) rs)"
    unfolding n(1) ploop_n.simps(2)[of k]
  proof (rule takes_bind[OF r[unfolded list.sel(3)]], simp add: lasting_def, intro agnostic_rules agnostic_ploop_n, goal_cases)
    case (1 it r)
    then obtain m' where m: "same_mode m m'" "r = Inl (acc @ [m'], True)" by auto
    have "takes f (length (m2 # ms)) (ploop_n k (transaction_modes_round i a d c) (acc @ [m'], True)) (modes_lexemes (m2 # ms)) []
        (\<lambda>_ r. \<exists>rs. r = (acc @ [m']) @ rs \<and> list_all2 same_mode (m2 # ms) rs)"
      by (rule 3(1)) (use 3(2-6) n(2) same_mode_shape[OF m(1)] in auto)
    then show ?case unfolding m(2) sum.case
      by (rule takes_mono) (use m(1) in fastforce)+
  qed
  then show ?case by simp
qed simp

lemma modes_lexemes_length: "length ms \<le> length (modes_lexemes ms)"
proof (induction ms rule: modes_lexemes.induct)
  case (2 m)
  then show ?case by (cases m rule: mode_words.cases) simp_all
qed simp_all

lemma takes_modes:
  assumes "modes_typed (transaction_syntax f) i a d c ms"
  shows "takes f (length ms) (parse_transaction_modes_with i a d c) (modes_lexemes ms) [] (\<lambda>_ r. list_all2 same_mode ms r)"
proof -
  have "takes f (0 + length ms) (parse_transaction_modes_with i a d c) (modes_lexemes ms) [] (\<lambda>_ r. list_all2 same_mode ms r)"
    unfolding parse_transaction_modes_with_def ploop_def
  proof (rule takes_bind[OF takes_source_len], simp, intro agnostic_rules agnostic_ploop_n, goal_cases)
    case (1 it n)
    have "takes f (length ms) (ploop_n (Suc n) (transaction_modes_round i a d c) ([], False)) (modes_lexemes ms) []
        (\<lambda>_ r. list_all2 same_mode ms r)"
    proof (cases "ms = []")
      case True
      then show ?thesis
        by (simp, intro takes_skip[OF takes_last_round] agnostic_rules agnostic_ploop_n) (simp add: takes_return)
    next
      case False
      have "takes f (length ms) (ploop_n (Suc n) (transaction_modes_round i a d c) ([], False)) (modes_lexemes ms) []
          (\<lambda>_ r. \<exists>rs. r = [] @ rs \<and> list_all2 same_mode ms rs)"
        by (rule takes_mode_rounds) (use assms False modes_lexemes_length[of ms] 1 in \<open>auto simp: modes_typed_def\<close>)
      then show ?thesis by (rule takes_mono) simp_all
    qed
    then show ?case by (rule takes_mono) simp_all
  qed
  then show ?thesis by simp
qed

subsection \<open>The parts of a statement\<close>

lemmas takes_words = takes_word takes_gated_word takes_expect takes_tx takes_return agnostic_rules

lemma takes_chain:
  assumes "chain \<noteq> None \<longrightarrow> tx_transaction_chain (transaction_syntax f)" "chain = None \<longrightarrow> \<not> heads xs ''AND''"
  shows "takes f 0 parse_transaction_chain
    (word_lexemes (case chain of None \<Rightarrow> [] | Some True \<Rightarrow> [''AND'', ''CHAIN''] | Some False \<Rightarrow> [''AND'', ''NO'', ''CHAIN'']) @ xs) xs
    (\<lambda>_ r. r = chain)"
  unfolding parse_transaction_chain_def
  using assms by (cases chain rule: render_transaction_chain.cases) (auto simp: eq_upper intro!: takes_words)

lemma takes_peek_nth: "takes f 0 (peek_nth_is_contextual_keyword n w) xs xs (\<lambda>_ x. x = heads (drop n xs) w)"
proof (rule takes_still)
  fix src ts prev st assume w: "well_placed src f (ts, prev, st)" "written src ts xs"
  have src: "pa_source st = src" using w(1) by (simp add: well_placed_def)
  have len: "length ts = length xs" using w(2) unfolding written_def by (rule list_all2_lengthD)
  show "\<exists>x. run_on (peek_nth_is_contextual_keyword n w) (ts, prev, st) = (Inr x, ts, prev, strip st) \<and> x = heads (drop n xs) w"
  proof (cases "n < length ts")
    case True
    then have t: "token_fits src (ts ! n)" by (intro well_placed_tokens[OF w(1)]) (simp add: seat_tokens_def)
    have "token_kind (ts ! n) = lexeme_kind (xs ! n)" "lexeme_of src (ts ! n) = lexeme_text (xs ! n)"
      using w(2) True unfolding written_def by (auto dest: list_all2_nthD)
    then have e: "is_worded src (ts ! n) w = heads (drop n xs) w"
      using written_worded[of "ts ! n" "xs ! n" src w "drop (Suc n) xs"] True len by (simp add: Cons_nth_drop_Suc)
    have "run_on (token_is_contextual_keyword (ts ! n) w) (ts, prev, strip st) = (Inr (heads (drop n xs) w), ts, prev, strip st)"
      using run_token_is[of "strip st" "ts ! n" w ts prev] t e src by (simp add: token_fits_def)
    then have "run_on (peek_nth_is_contextual_keyword n w) (ts, prev, st) = (Inr (heads (drop n xs) w), ts, prev, strip st)"
      unfolding peek_nth_is_contextual_keyword_def using True
      by (intro run_chain agnostic_rules) (simp add: run_rules get_at_def)
    then show ?thesis by (intro exI conjI) simp_all
  next
    case False
    then have "run_on (peek_nth_is_contextual_keyword n w) (ts, prev, st) = (Inr (heads (drop n xs) w), ts, prev, strip st)"
      unfolding peek_nth_is_contextual_keyword_def using len
      by (intro run_chain agnostic_rules) (simp add: run_rules get_at_def)
    then show ?thesis by (intro exI conjI) simp_all
  qed
qed (intro agnostic_rules)

lemma takes_peek: "takes f 0 (peek_is_contextual_keyword w) xs xs (\<lambda>_ x. x = heads xs w)"
proof (rule takesI)
  fix src ts prev st assume w: "well_placed src f (ts, prev, st)" "written src ts xs" "room 0 st"
  have "run_on (peek_is_contextual_keyword w) (ts, prev, st) = run_on (peek_nth_is_contextual_keyword 0 w) (ts, prev, st)"
    unfolding peek_is_contextual_keyword_def peek_nth_is_contextual_keyword_def
    by (rule run_chain, intro agnostic_rules, intro agnostic_rules, rule sym, rule run_chain, intro agnostic_rules, intro agnostic_rules)
       (simp add: run_rules)
  with takesD[OF takes_peek_nth[of f 0 w xs], of src "(ts, prev, st)"] w
  show "accepts f 0 xs (\<lambda>_ x. x = heads xs w) src (ts, prev, st) (run_on (peek_is_contextual_keyword w) (ts, prev, st))" by simp
qed (intro agnostic_rules)

lemma takes_completion:
  assumes "completion_typed (transaction_syntax f) chain release"
  shows "takes f 0 parse_transaction_completion (word_lexemes (completion_words chain release)) [] (\<lambda>_ r. r = (chain, release))"
proof -
  let ?xs = "word_lexemes (case release of None \<Rightarrow> [] | Some True \<Rightarrow> [''RELEASE''] | Some False \<Rightarrow> [''NO'', ''RELEASE''])"
  have c: "takes f 0 parse_transaction_chain (word_lexemes (completion_words chain release)) ?xs (\<lambda>_ r. r = chain)"
    using takes_chain[of chain f ?xs] assms
    by (auto simp: completion_typed_def eq_upper split: option.split bool.split)
  show ?thesis
    unfolding parse_transaction_completion_def
  proof (rule takes_eat[OF c], intro agnostic_rules, rule takes_tx, intro agnostic_rules, goal_cases)
    case 1
    show ?case
    proof (cases "chain \<noteq> None \<or> \<not> tx_transaction_release (transaction_syntax f)")
      case True
      with assms have "release = None" by (auto simp: completion_typed_def)
      with True show ?thesis by (auto intro!: takes_return)
    next
      case False
      have no: "takes f 0 (p_and (peek_is_contextual_keyword ''NO'') (peek_nth_is_contextual_keyword 1 ''RELEASE'')) ?xs ?xs
          (\<lambda>_ x. x = (release = Some False))" if "release \<noteq> Some True"
        unfolding p_and_def using that
        by (intro takes_skip[OF takes_peek] agnostic_rules)
           (cases release rule: render_transaction_chain.cases;
            auto simp: eq_upper intro!: takes_return takes_mono[OF takes_peek_nth[of f "Suc 0" "''RELEASE''"]])
      show ?thesis
      proof (cases release rule: render_transaction_chain.cases)
        case 1
        with False show ?thesis by (auto simp: eq_upper intro!: takes_words)
      next
        case 2
        have n: "takes f 0 (p_and (peek_is_contextual_keyword ''NO'') (peek_nth_is_contextual_keyword (Suc 0) ''RELEASE''))
            [Lx_Word ''NO'', Lx_Word ''RELEASE''] [Lx_Word ''NO'', Lx_Word ''RELEASE''] (\<lambda>_ x. x = True)"
          using no 2 by simp
        with False 2 show ?thesis by (auto simp: eq_upper intro!: takes_words takes_skip[OF n])
      next
        case 3
        have n: "takes f 0 (p_and (peek_is_contextual_keyword ''NO'') (peek_nth_is_contextual_keyword (Suc 0) ''RELEASE'')) [] [] (\<lambda>_ x. x = False)"
          using no 3 by simp
        with False 3 show ?thesis by (auto simp: eq_upper intro!: takes_words takes_skip[OF n])
      qed
    qed
  qed
qed

subsection \<open>Names and block words\<close>

text \<open>A missing name must not be read out of the words that follow.\<close>

definition missing_name_clear :: "feature_set \<Rightarrow> transaction_block_keyword option \<Rightarrow> lexeme option \<Rightarrow> lexeme list \<Rightarrow> bool" where
  "missing_name_clear f block name us \<longleftrightarrow>
     (name = None \<and> block = Some Block_Transaction \<and> tx_transaction_name (transaction_syntax f)
        \<longrightarrow> (case us of [] \<Rightarrow> True | x # _ \<Rightarrow> \<not> nameable (reserved_column_name f) x))"

definition readable_name :: "feature_set \<Rightarrow> lexeme \<Rightarrow> bool" where
  "readable_name f x \<longleftrightarrow> lexeme_ok f x \<and> nameable (reserved_column_name f) x"

definition name_list :: "lexeme option \<Rightarrow> lexeme list" where
  "name_list name = (case name of None \<Rightarrow> [] | Some x \<Rightarrow> [x])"

lemma block_lexemes_split:
  "name_typed s block name \<Longrightarrow> block_lexemes block name = word_lexemes (block_words block) @ name_list name"
  by (cases name) (auto simp: name_typed_def name_list_def)

lemma takes_block:
  assumes "block_typed (transaction_syntax f) keyword block" "block = None \<Longrightarrow> \<not> heads xs ''WORK'' \<and> \<not> heads xs ''TRANSACTION''"
  shows "takes f 0 (eat_transaction_block_keyword keyword) (word_lexemes (block_words block) @ xs) xs (\<lambda>_ r. r = block)"
  unfolding eat_transaction_block_keyword_def
  using assms by (cases block rule: block_words.cases) (auto simp: eq_upper block_typed_def intro!: takes_words)

lemma takes_mode_kind:
  assumes "mode \<noteq> None \<longrightarrow> tx_begin_transaction_mode (transaction_syntax f)"
    "mode = None \<Longrightarrow> \<not> heads xs ''DEFERRED'' \<and> \<not> heads xs ''IMMEDIATE'' \<and> \<not> heads xs ''EXCLUSIVE''"
  shows "takes f 0 parse_transaction_mode_kind (word_lexemes (mode_kind_words mode) @ xs) xs (\<lambda>_ r. r = mode)"
  unfolding parse_transaction_mode_kind_def
  using assms by (cases mode rule: mode_kind_words.cases) (auto simp: eq_upper intro!: takes_words)

lemma takes_some: "takes f n m xs ys (names x) \<Longrightarrow> takes f n (pbind m (\<lambda>i. preturn (Some i))) xs ys (\<lambda>it. rel_option (\<lambda>x. names x it) (Some x))"
  using takes_bind[of f n m xs ys "names x" "\<lambda>i. preturn (Some i)" 0 ys "\<lambda>it. rel_option (\<lambda>x. names x it) (Some x)"]
  by (simp add: takes_return agnostic_rules)

lemma takes_transaction_name:
  assumes "name_typed (transaction_syntax f) block name" "missing_name_clear f block name xs" "pred_option (readable_name f) name"
  shows "takes f 1 (parse_transaction_name block) (name_list name @ xs) xs (\<lambda>it. rel_option (\<lambda>x. names x it) name)"
proof (cases "tx_transaction_name (transaction_syntax f) \<and> block = Some Block_Transaction")
  case False
  with assms(1) have "name = None" by (auto simp: name_typed_def)
  with False show ?thesis unfolding parse_transaction_name_def name_list_def
    by (auto intro!: takes_tx takes_return agnostic_rules)
next
  case True
  let ?m = "\<lambda>strings t. if strings \<and> (case t of None \<Rightarrow> False | Some tok \<Rightarrow> token_kind tok = Tk_String)
       then pbind parse_column_ident_allowing_string_literal (\<lambda>i. preturn (Some i))
       else pbind (features reserved_column_name) (\<lambda>reserved.
         if (case t of None \<Rightarrow> False | Some tok \<Rightarrow> token_admissible tok reserved)
         then pbind parse_ident (\<lambda>i. preturn (Some i))
         else preturn None)"
  have some: "takes f 1 (?m strings (Some tok)) (x # xs) xs (\<lambda>it. rel_option (\<lambda>x. names x it) (Some x))"
    if "name = Some x" "token_kind tok = lexeme_kind x" for strings tok x
    using that assms(3) lexeme_not_string[of x] takes_column_name(1)[of f x xs] nameable_token[OF that(2)]
    by (auto simp: readable_name_def intro!: takes_get takes_some agnostic_rules)
  have none: "takes f 1 (?m strings t) xs xs (\<lambda>it. rel_option (\<lambda>x. names x it) None)"
    if "name = None" "case t of None \<Rightarrow> True | Some tok \<Rightarrow> token_kind tok \<noteq> Tk_String \<and> \<not> token_admissible tok (reserved_column_name f)" for strings t
    using that by (cases t) (auto intro!: takes_get takes_return agnostic_rules)
  have "takes f (0 + 1) (pbind peek_token (?m strings)) (name_list name @ xs) xs (\<lambda>it. rel_option (\<lambda>x. names x it) name)" for strings
  proof (cases name)
    case (Some x)
    have p: "takes f 0 peek_token (x # xs) (x # xs) (\<lambda>_ t. \<exists>tok. t = Some tok \<and> token_kind tok = lexeme_kind x)"
      by (rule takes_peek_kind) simp
    have "takes f (0 + 1) (pbind peek_token (?m strings)) (x # xs) xs (\<lambda>it. rel_option (\<lambda>x. names x it) (Some x))"
    proof (rule takes_bind[OF p], simp, intro agnostic_rules, goal_cases)
      case (1 it t)
      then obtain tok where t: "t = Some tok" "token_kind tok = lexeme_kind x" by blast
      show ?case unfolding t(1) by (rule takes_mono[OF some[OF Some t(2)]]) simp_all
    qed
    with Some show ?thesis by (simp add: name_list_def)
  next
    case None
    with assms(2) True have c: "case xs of [] \<Rightarrow> True | x # _ \<Rightarrow> \<not> nameable (reserved_column_name f) x"
      by (simp add: missing_name_clear_def)
    have p: "takes f 0 peek_token xs xs (\<lambda>_ t. case t of None \<Rightarrow> True | Some tok \<Rightarrow> token_kind tok \<noteq> Tk_String
        \<and> \<not> token_admissible tok (reserved_column_name f))"
      using c by (cases xs) (auto simp: lexeme_not_string nameable_token intro!: takes_peek_kind takes_peek_end)
    have "takes f (0 + 1) (pbind peek_token (?m strings)) xs xs (\<lambda>it. rel_option (\<lambda>x. names x it) None)"
    proof (rule takes_bind[OF p], simp, intro agnostic_rules, goal_cases)
      case (1 it t)
      show ?case by (rule takes_mono[OF none[OF None 1]]) simp_all
    qed
    with None show ?thesis by (simp add: name_list_def)
  qed
  note named = this
  show ?thesis unfolding parse_transaction_name_def
    by (rule takes_tx, intro agnostic_rules, simp only: True simp_thms if_True, rule takes_get, intro agnostic_rules,
        rule takes_mono[OF named]) simp_all
qed

subsection \<open>Statements\<close>

lemma modes_heads:
  assumes "upper_word w" "w \<notin> {''ISOLATION'', ''READ'', ''DEFERRABLE'', ''NOT'', ''WITH''}"
  shows "\<not> heads (modes_lexemes ms) w"
proof (cases ms rule: modes_lexemes.cases)
  case (2 m)
  with assms show ?thesis by (cases m rule: mode_words.cases) (auto simp: eq_upper)
next
  case (3 m n ns)
  with assms show ?thesis by (cases m rule: mode_words.cases) (auto simp: eq_upper)
qed simp

lemma completion_heads:
  assumes "upper_word w" "w \<notin> {''AND'', ''RELEASE'', ''NO''}"
  shows "\<not> heads (word_lexemes (completion_words chain release)) w"
  using assms by (auto simp: eq_upper split: option.split bool.split)

lemma block_heads:
  assumes "upper_word w" "w \<notin> {''TRANSACTION'', ''WORK''}" "block = None \<Longrightarrow> \<not> heads xs w"
  shows "\<not> heads (word_lexemes (block_words block) @ xs) w"
  using assms by (cases block rule: block_words.cases) (auto simp: eq_upper)

text \<open>The statement that is read: the same words, names of the same text and quoting.\<close>

definition retold :: "(lexeme, 'm) transaction_statement \<Rightarrow> interner \<Rightarrow> tx_statement \<Rightarrow> bool" where
  "retold s it s' \<longleftrightarrow> rel_transaction_statement (\<lambda>x. names x it) (\<lambda>_ _. True) s s'"

lemma takes_savepoint_name:
  "readable_name f x \<Longrightarrow> takes f 1 parse_savepoint_name (x # xs) xs (names x)"
  unfolding parse_savepoint_name_def by (rule takes_column_name) (simp_all add: readable_name_def)

lemma takes_savepoint:
  assumes "readable_name f x"
  shows "takes f 2 (parse_savepoint start) [x] [] (retold (Tx_Savepoint x m))"
proof -
  have "takes f (1 + 1) (parse_savepoint start) [x] [] (retold (Tx_Savepoint x m))"
    unfolding parse_savepoint_def
    by (rule takes_bind[OF takes_savepoint_name[OF assms]], simp, intro agnostic_rules, rule takes_node) (simp add: retold_def)
  then show ?thesis by (simp add: numeral_2_eq_2)
qed

lemma takes_release:
  assumes "transaction_typed (transaction_syntax f) (Tx_Release k x m)" "readable_name f x" "\<not> k \<longrightarrow> \<not> heads [x] ''SAVEPOINT''"
  shows "takes f 2 (parse_release start) (statement_tail (Tx_Release k x m)) [] (retold (Tx_Release k x m))"
proof -
  have fin: "takes f (1 + 1) (pbind parse_savepoint_name (\<lambda>savepoint. pbind (meta_from start) (\<lambda>m. preturn (Tx_Release k savepoint m)))) [x] []
      (retold (Tx_Release k x m))"
    by (rule takes_bind[OF takes_savepoint_name[OF assms(2)]], simp, intro agnostic_rules, rule takes_node) (simp add: retold_def)
  have k: "takes f 0 (if tx_release_savepoint_keyword_optional (transaction_syntax f) then eat_contextual_keyword ''SAVEPOINT''
            else pbind (expect_contextual_keyword ''SAVEPOINT'') (\<lambda>_. preturn True))
      (statement_tail (Tx_Release k x m)) [x] (\<lambda>_ r. r = k)"
    using assms by (cases k) (auto intro!: takes_hit[simplified] takes_miss[simplified] takes_expect takes_return agnostic_rules)
  have "takes f (1 + 1) (parse_release start) (statement_tail (Tx_Release k x m)) [] (retold (Tx_Release k x m))"
    unfolding parse_release_def by (rule takes_tx, intro agnostic_rules, rule takes_eat[OF k], intro agnostic_rules, rule fin)
  then show ?thesis by (simp add: numeral_2_eq_2)
qed

lemma takes_transaction_modes:
  assumes "modes_typed (transaction_syntax f) (tx_transaction_isolation_mode (transaction_syntax f))
    (tx_transaction_access_mode (transaction_syntax f)) (tx_transaction_deferrable_mode (transaction_syntax f)) False ms"
  shows "takes f (length ms) parse_transaction_modes (modes_lexemes ms) [] (\<lambda>_ r. list_all2 same_mode ms r)"
  unfolding parse_transaction_modes_def
  by (rule takes_tx, intro agnostic_rules, rule takes_modes) (simp add: assms)

lemma takes_set_transaction:
  assumes "transaction_typed (transaction_syntax f) (Tx_SetCharacteristics ms m)"
  shows "takes f (length ms + 1) (parse_set_transaction start) (Lx_Word ''TRANSACTION'' # modes_lexemes ms) []
    (retold (Tx_SetCharacteristics ms m))"
  unfolding parse_set_transaction_def
proof (rule takes_expect, simp, simp only: list.sel, rule takes_bind[OF takes_transaction_modes], goal_cases)
  case (4 it r)
  with assms have "r \<noteq> []" by auto
  then show ?case using 4 by (simp only: if_False, intro takes_node) (simp add: retold_def)
qed (use assms in \<open>simp_all add: agnostic_rules\<close>)

lemma lasting_name_option [simp]: "lasting (\<lambda>it. rel_option (\<lambda>x. names x it) name)"
  unfolding lasting_def
proof (intro allI impI)
  fix it it' r assume "rel_option (\<lambda>x. names x it) name r" "extends it it'"
  then show "rel_option (\<lambda>x. names x it') name r"
    by (cases name; cases r) (auto simp: names_def extends_def)
qed

lemma takes_begin:
  assumes "transaction_typed (transaction_syntax f) (Tx_Begin Start_Begin mode block name ms m)"
    "missing_name_clear f block name (modes_lexemes ms)" "pred_option (readable_name f) name"
  shows "takes f (1 + (length ms + 1)) (parse_begin start) (tl (statement_lexemes (Tx_Begin Start_Begin mode block name ms m))) []
    (retold (Tx_Begin Start_Begin mode block name ms m))"
proof -
  let ?s = "transaction_syntax f"
  have t: "name_typed ?s block name" "block_typed ?s (tx_begin_transaction_keyword ?s) block"
    "mode \<noteq> None \<longrightarrow> tx_begin_transaction_mode ?s" "ms \<noteq> [] \<longrightarrow> tx_begin_transaction_modes ?s"
    using assms(1) by simp_all
  have ms: "takes f (length ms) (if tx_begin_transaction_modes ?s
            then parse_transaction_modes_with (tx_transaction_isolation_mode ?s) (tx_transaction_access_mode ?s)
              (tx_transaction_deferrable_mode ?s) False
            else preturn []) (modes_lexemes ms) [] (\<lambda>_ r. list_all2 same_mode ms r)"
    using t(4) assms(1) takes_modes[of f _ _ _ _ ms] by (auto intro!: takes_return)
  have nb: "name_typed ?s block name \<Longrightarrow> block = None \<Longrightarrow> name = None" by (auto simp: name_typed_def)
  have b: "takes f 0 (eat_transaction_block_keyword (tx_begin_transaction_keyword ?s))
      (word_lexemes (block_words block) @ name_list name @ modes_lexemes ms) (name_list name @ modes_lexemes ms) (\<lambda>_ r. r = block)"
    by (rule takes_block[OF t(2)]) (use nb t(1) in \<open>simp add: name_list_def modes_heads\<close>)
  have k: "takes f 0 parse_transaction_mode_kind (word_lexemes (mode_kind_words mode) @ word_lexemes (block_words block)
      @ name_list name @ modes_lexemes ms) (word_lexemes (block_words block) @ name_list name @ modes_lexemes ms) (\<lambda>_ r. r = mode)"
    by (rule takes_mode_kind[OF t(3)], intro conjI; rule block_heads) (use nb t(1) in \<open>simp_all add: name_list_def modes_heads\<close>)
  have e: "tl (statement_lexemes (Tx_Begin Start_Begin mode block name ms m))
      = word_lexemes (mode_kind_words mode) @ word_lexemes (block_words block) @ name_list name @ modes_lexemes ms"
    by (simp add: block_lexemes_split[OF t(1)])
  show ?thesis unfolding parse_begin_def e
    apply (rule takes_eat[OF k], intro agnostic_rules, rule takes_tx, intro agnostic_rules)
    apply (rule takes_eat[OF b], intro agnostic_rules)
    apply (rule takes_bind[OF takes_transaction_name[OF t(1) assms(2,3)]], simp)
    apply (intro agnostic_rules)
    apply (rule takes_tx, intro agnostic_rules, simp only: id_apply)
    apply (rule takes_bind[OF ms], simp, intro agnostic_rules, rule takes_node)
    apply (simp add: retold_def)
    done
qed

lemma takes_start:
  assumes "transaction_typed (transaction_syntax f) (Tx_Begin Start_Start mode block name ms m)"
  shows "takes f (length ms + 1) (parse_start start) (tl (statement_lexemes (Tx_Begin Start_Start mode block name ms m))) []
    (retold (Tx_Begin Start_Start mode block name ms m))"
proof -
  let ?s = "transaction_syntax f"
  have t: "block_typed ?s True block" "mode = None" "name = None" "block = Some Block_Transaction \<or> tx_start_transaction_block_optional ?s"
    using assms by simp_all
  have ms: "takes f (length ms) (parse_transaction_modes_with (tx_start_transaction_isolation_mode ?s) (tx_transaction_access_mode ?s)
       (tx_start_transaction_deferrable_mode ?s) (tx_start_transaction_consistent_snapshot ?s)) (modes_lexemes ms) []
       (\<lambda>_ r. list_all2 same_mode ms r)"
    using assms by (intro takes_modes) simp
  have b: "takes f 0 (if tx_start_transaction_block_optional ?s then eat_transaction_block_keyword True
            else pbind (expect_contextual_keyword ''TRANSACTION'') (\<lambda>_. preturn (Some Block_Transaction)))
      (word_lexemes (block_words block) @ modes_lexemes ms) (modes_lexemes ms) (\<lambda>_ r. r = block)"
    using t takes_block[OF t(1), of "modes_lexemes ms"]
    by (auto simp: modes_heads intro!: takes_expect takes_return agnostic_rules)
  have e: "tl (statement_lexemes (Tx_Begin Start_Start mode block name ms m)) = word_lexemes (block_words block) @ modes_lexemes ms"
    by (simp add: t(2))
  show ?thesis unfolding parse_start_def e
    apply (rule takes_tx, intro agnostic_rules, simp only: id_apply)
    apply (rule takes_eat[OF b], intro agnostic_rules)
    apply (rule takes_bind[OF ms], simp, intro agnostic_rules, rule takes_node)
    apply (simp add: retold_def t(2,3))
    done
qed

lemma takes_commit:
  assumes "transaction_typed (transaction_syntax f) (Tx_Commit kw block name chain release m)"
    "missing_name_clear f block name (word_lexemes (completion_words chain release))" "pred_option (readable_name f) name"
  shows "takes f (1 + (0 + 1)) (parse_commit start kw) (tl (statement_lexemes (Tx_Commit kw block name chain release m))) []
    (retold (Tx_Commit kw block name chain release m))"
proof -
  let ?s = "transaction_syntax f" and ?us = "word_lexemes (completion_words chain release)"
  have t: "name_typed ?s block name" "block_typed ?s (tx_commit_transaction_keyword ?s) block" "completion_typed ?s chain release"
    using assms(1) by simp_all
  have b: "takes f 0 (eat_transaction_block_keyword (tx_commit_transaction_keyword ?s))
      (word_lexemes (block_words block) @ name_list name @ ?us) (name_list name @ ?us) (\<lambda>_ r. r = block)"
    by (rule takes_block[OF t(2)]) (use t(1) in \<open>auto simp: name_typed_def name_list_def completion_heads simp del: completion_words.simps\<close>)
  have e: "tl (statement_lexemes (Tx_Commit kw block name chain release m)) = word_lexemes (block_words block) @ name_list name @ ?us"
    by (simp add: block_lexemes_split[OF t(1)])
  show ?thesis unfolding parse_commit_def e
    apply (rule takes_tx, intro agnostic_rules)
    apply (rule takes_eat[OF b], intro agnostic_rules)
    apply (rule takes_bind[OF takes_transaction_name[OF t(1) assms(2,3)]], simp)
    apply (intro agnostic_rules)
    apply (rule takes_bind[OF takes_completion[OF t(3)]], simp, intro agnostic_rules)
    apply (simp only: prod.case, rule takes_node, simp add: retold_def)
    done
qed

definition savepoint_words :: "bool \<Rightarrow> lexeme option \<Rightarrow> lexeme list" where
  "savepoint_words k to_savepoint = (case to_savepoint of None \<Rightarrow> []
      | Some x \<Rightarrow> Lx_Word ''TO'' # (if k then [Lx_Word ''SAVEPOINT''] else []) @ [x])"

lemma takes_rollback:
  assumes "transaction_typed (transaction_syntax f) (Tx_Rollback kw block name k tosp chain release m)"
    "missing_name_clear f block name (statement_tail (Tx_Rollback kw block name k tosp chain release m))"
    "pred_option (readable_name f) name" "pred_option (\<lambda>x. readable_name f x \<and> (\<not> k \<longrightarrow> \<not> heads [x] ''SAVEPOINT'')) tosp"
  shows "takes f (1 + (1 + 1)) (parse_rollback start kw) (tl (statement_lexemes (Tx_Rollback kw block name k tosp chain release m))) []
    (retold (Tx_Rollback kw block name k tosp chain release m))"
proof -
  let ?s = "transaction_syntax f" and ?us = "word_lexemes (completion_words chain release)"
  let ?ts = "statement_tail (Tx_Rollback kw block name k tosp chain release m)"
  have t: "name_typed ?s block name" "block_typed ?s (tx_rollback_transaction_keyword ?s) block" "completion_typed ?s chain release"
    "tosp = None \<longrightarrow> \<not> k" "tosp \<noteq> None \<longrightarrow> tx_transaction_savepoints ?s \<and> chain = None \<and> release = None"
    using assms(1) by simp_all
  have ts: "?ts = savepoint_words k tosp @ ?us" by (simp add: savepoint_words_def)
  have h: "\<not> heads ?ts ''WORK''" "\<not> heads ?ts ''TRANSACTION''"
    unfolding ts by (cases tosp; simp add: savepoint_words_def completion_heads eq_upper del: completion_words.simps)+
  have b: "takes f 0 (eat_transaction_block_keyword (tx_rollback_transaction_keyword ?s))
      (word_lexemes (block_words block) @ name_list name @ ?ts) (name_list name @ ?ts) (\<lambda>_ r. r = block)"
    by (rule takes_block[OF t(2)]) (use t(1) h in \<open>auto simp: name_typed_def name_list_def simp del: statement_tail.simps\<close>)
  have e: "tl (statement_lexemes (Tx_Rollback kw block name k tosp chain release m)) = word_lexemes (block_words block) @ name_list name @ ?ts"
    by (simp add: block_lexemes_split[OF t(1)] del: statement_tail.simps)
  let ?K = "\<lambda>n. (\<lambda>(savepoint_keyword, to_savepoint).
     pbind (if to_savepoint = None then parse_transaction_completion else preturn (None, None)) (\<lambda>(chain, release).
     pbind (meta_from start) (\<lambda>m. preturn (Tx_Rollback kw block n savepoint_keyword to_savepoint chain release m))))"
  let ?Q = "\<lambda>n it r. rel_option (\<lambda>x. names x it) name n \<longrightarrow> retold (Tx_Rollback kw block name k tosp chain release m) it r"
  have comp: "takes f 0 (if r = None then parse_transaction_completion else preturn (None, None)) ?us [] (\<lambda>_ c. c = (chain, release))"
    if "r = None \<longleftrightarrow> tosp = None" for r :: "ident option"
    using t(3,5) takes_completion[OF t(3)] that by (auto intro!: takes_return)
  have K: "takes f 1 (?K n (k, r)) ?us [] (\<lambda>it y. rel_option (\<lambda>x. names x it) tosp r \<longrightarrow> ?Q n it y)" if "r = None \<longleftrightarrow> tosp = None" for n r
    unfolding prod.case by (rule takes_eat[OF comp[OF that]], intro agnostic_rules, simp only: prod.case, rule takes_node) (simp add: retold_def)
  have last: "takes f (1 + 1) (pbind (gated (tx_transaction_savepoints ?s) (eat_contextual_keyword ''TO'')) (\<lambda>to.
     pbind (if to then pbind (eat_contextual_keyword ''SAVEPOINT'') (\<lambda>k.
              pbind parse_savepoint_name (\<lambda>i. preturn (k, Some i)))
            else preturn (False, None)) (?K n))) ?ts [] (?Q n)" for n
  proof (cases tosp)
    case None
    have "takes f 1 (pbind (preturn (False, None)) (?K n)) ?us [] (?Q n)"
    proof (rule takes_skip[where k = "?K n" and v = "(k, None)"])
      show "takes f 0 (preturn (False, None)) ?us ?us (\<lambda>_ x. x = (k, None))" using None t(4) by (intro takes_return) simp
      show "takes f 1 (?K n (k, None)) ?us [] (?Q n)" by (rule takes_mono[OF K[of None n]]) (simp_all add: None)
    qed (intro agnostic_rules)
    then have "takes f (1 + 1) (pbind (preturn (False, None)) (?K n)) ?us [] (?Q n)" by (rule takes_mono) simp_all
    then show ?thesis unfolding ts using None
      by (intro takes_gated_word agnostic_rules) (simp_all add: savepoint_words_def completion_heads del: completion_words.simps)
  next
    case (Some x)
    with t(5) have c: "?us = []" "tx_transaction_savepoints ?s" by simp_all
    have x: "readable_name f x" "\<not> k \<longrightarrow> \<not> heads [x] ''SAVEPOINT''" using Some assms(4) by simp_all
    let ?R = "\<lambda>it r. fst r = k \<and> rel_option (\<lambda>x. names x it) (Some x) (snd r)"
    have n: "takes f (1 + 0) (pbind parse_savepoint_name (\<lambda>i. preturn (k, Some i))) [x] [] ?R"
      by (rule takes_bind[OF takes_savepoint_name[OF x(1)]], simp, intro agnostic_rules, rule takes_return) simp
    have sp: "takes f 1 (pbind (eat_contextual_keyword ''SAVEPOINT'') (\<lambda>k. pbind parse_savepoint_name (\<lambda>i. preturn (k, Some i))))
        ((if k then [Lx_Word ''SAVEPOINT''] else []) @ [x]) [] ?R"
      using x(2) n by (cases k) (auto intro!: takes_word agnostic_rules)
    have l: "lasting ?R" using lasting_name_option[of "Some x"] unfolding lasting_def by blast
    have "takes f (1 + 1) (pbind (pbind (eat_contextual_keyword ''SAVEPOINT'') (\<lambda>k. pbind parse_savepoint_name (\<lambda>i. preturn (k, Some i)))) (?K n))
        ((if k then [Lx_Word ''SAVEPOINT''] else []) @ [x]) [] (?Q n)"
    proof (rule takes_bind[OF sp l], intro agnostic_rules, goal_cases)
      case (1 it r)
      then obtain i where r: "r = (k, Some i)" by (cases r) (auto elim: option.rel_cases)
      show ?case unfolding r using K[of "Some i" n] Some c(1) by (rule_tac takes_mono) auto
    qed
    moreover have "?ts = Lx_Word ''TO'' # (if k then [Lx_Word ''SAVEPOINT''] else []) @ [x]" using Some t(5) by simp
    ultimately show ?thesis unfolding Some
      by (simp only:) (rule takes_gated_word, simp, simp add: c(2), intro agnostic_rules)
  qed
  show ?thesis unfolding parse_rollback_def e
    apply (rule takes_tx, intro agnostic_rules)
    apply (rule takes_eat[OF b], intro agnostic_rules)
    apply (rule takes_bind[OF takes_transaction_name[OF t(1) assms(2,3)]], simp)
    apply (intro agnostic_rules)
    apply (rule takes_tx, intro agnostic_rules)
    apply (rule last)
    done
qed

text \<open>
  Readable statements: every clause is one the dialect has, every name is a lexeme that can stand
  as a name, and no missing name or missing word \<open>SAVEPOINT\<close> can be read out of what follows.
\<close>

fun statement_clear :: "feature_set \<Rightarrow> (lexeme, 'm) transaction_statement \<Rightarrow> bool" where
  "statement_clear f (Tx_Begin syntax mode block name modes m) \<longleftrightarrow>
     (syntax = Start_Begin \<longrightarrow> missing_name_clear f block name (modes_lexemes modes))"
| "statement_clear f (Tx_Commit syntax block name chain release m) \<longleftrightarrow>
     missing_name_clear f block name (statement_tail (Tx_Commit syntax block name chain release m))"
| "statement_clear f (Tx_Rollback syntax block name k to_savepoint chain release m) \<longleftrightarrow>
     missing_name_clear f block name (statement_tail (Tx_Rollback syntax block name k to_savepoint chain release m))
     \<and> pred_option (\<lambda>x. \<not> k \<longrightarrow> \<not> heads [x] ''SAVEPOINT'') to_savepoint"
| "statement_clear f (Tx_Release k x m) \<longleftrightarrow> (\<not> k \<longrightarrow> \<not> heads [x] ''SAVEPOINT'')"
| "statement_clear f (Tx_Savepoint x m) \<longleftrightarrow> True"
| "statement_clear f (Tx_SetCharacteristics modes m) \<longleftrightarrow> True"

definition readable :: "feature_set \<Rightarrow> (lexeme, 'm) transaction_statement \<Rightarrow> bool" where
  "readable f s \<longleftrightarrow> transaction_typed (transaction_syntax f) s \<and> statement_clear f s
     \<and> (\<forall>x \<in> set1_transaction_statement s. readable_name f x)"

fun statement_cost :: "('i, 'm) transaction_statement \<Rightarrow> nat" where
  "statement_cost (Tx_Begin syntax mode block name modes m) = length modes + 3"
| "statement_cost (Tx_SetCharacteristics modes m) = length modes + 3"
| "statement_cost _ = 3"

lemma option_readable: "(\<And>x. name = Some x \<Longrightarrow> P x) \<Longrightarrow> pred_option P name"
  by (cases name) simp_all

lemma takes_statement_words:
  "takes f 0 eat_transaction_commit_keyword (Lx_Word ''COMMIT'' # xs) xs (\<lambda>_ r. r = Some Kw_Commit)"
  "tx_end_transaction_alias (transaction_syntax f)
     \<Longrightarrow> takes f 0 eat_transaction_commit_keyword (Lx_Word ''END'' # xs) xs (\<lambda>_ r. r = Some Kw_End)"
  "takes f 0 eat_transaction_rollback_keyword (Lx_Word ''ROLLBACK'' # xs) xs (\<lambda>_ r. r = Some Kw_Rollback)"
  "tx_abort_transaction_alias (transaction_syntax f)
     \<Longrightarrow> takes f 0 eat_transaction_rollback_keyword (Lx_Word ''ABORT'' # xs) xs (\<lambda>_ r. r = Some Kw_Abort)"
  "upper_word w \<Longrightarrow> w \<notin> {''COMMIT'', ''END''}
     \<Longrightarrow> takes f 0 eat_transaction_commit_keyword (Lx_Word w # xs) (Lx_Word w # xs) (\<lambda>_ r. r = None)"
  "upper_word w \<Longrightarrow> w \<notin> {''ROLLBACK'', ''ABORT''}
     \<Longrightarrow> takes f 0 eat_transaction_rollback_keyword (Lx_Word w # xs) (Lx_Word w # xs) (\<lambda>_ r. r = None)"
  unfolding eat_transaction_commit_keyword_def eat_transaction_rollback_keyword_def
  by (auto simp: eq_upper intro!: takes_words)

lemma takes_gated_hit:
  assumes "flag" "takes f n A xs ys Q" "agnostic A" "agnostic B"
  shows "takes f n (pbind (gated flag (eat_contextual_keyword w)) (\<lambda>x. if x then A else B)) (Lx_Word w # xs) ys Q"
  by (rule takes_gated_choice) (use assms in simp_all)

lemma takes_gated_miss:
  assumes "upper_word w" "upper_word v" "v \<noteq> w" "takes f n B (Lx_Word v # xs) ys Q" "agnostic A" "agnostic B"
  shows "takes f n (pbind (gated flag (eat_contextual_keyword w)) (\<lambda>x. if x then A else B)) (Lx_Word v # xs) ys Q"
  by (rule takes_gated_choice) (use assms in \<open>simp_all add: eq_upper\<close>)

lemma takes_plain_miss:
  assumes "upper_word w" "upper_word v" "v \<noteq> w" "takes f n B (Lx_Word v # xs) ys Q" "agnostic A" "agnostic B"
  shows "takes f n (pbind (eat_contextual_keyword w) (\<lambda>x. if x then A else B)) (Lx_Word v # xs) ys Q"
  by (rule takes_choice) (use assms in \<open>simp_all add: eq_upper\<close>)

lemma takes_plain_hit:
  assumes "takes f n A xs ys Q" "agnostic A" "agnostic B"
  shows "takes f n (pbind (eat_contextual_keyword w) (\<lambda>x. if x then A else B)) (Lx_Word w # xs) ys Q"
  by (rule takes_choice) (use assms in simp_all)

lemma takes_commit_word:
  assumes "kw = Kw_End \<longrightarrow> tx_end_transaction_alias (transaction_syntax f)" "takes f n (A kw) xs ys Q" "\<And>k. agnostic (A k)" "agnostic B"
  shows "takes f n (pbind eat_transaction_commit_keyword (\<lambda>c. case c of None \<Rightarrow> B | Some k \<Rightarrow> A k))
    (Lx_Word (if kw = Kw_End then ''END'' else ''COMMIT'') # xs) ys Q"
proof -
  have e: "takes f 0 eat_transaction_commit_keyword (Lx_Word (if kw = Kw_End then ''END'' else ''COMMIT'') # xs) xs (\<lambda>_ r. r = Some kw)"
    using assms(1) by (cases kw) (simp_all add: takes_statement_words)
  show ?thesis by (rule takes_eat[OF e]) (use assms in \<open>auto intro!: agnostic_rules split: option.split\<close>)
qed

lemma takes_rollback_word:
  assumes "kw = Kw_Abort \<longrightarrow> tx_abort_transaction_alias (transaction_syntax f)" "takes f n (A kw) xs ys Q" "\<And>k. agnostic (A k)" "agnostic B"
  shows "takes f n (pbind eat_transaction_rollback_keyword (\<lambda>c. case c of None \<Rightarrow> B | Some k \<Rightarrow> A k))
    (Lx_Word (if kw = Kw_Abort then ''ABORT'' else ''ROLLBACK'') # xs) ys Q"
proof -
  have e: "takes f 0 eat_transaction_rollback_keyword (Lx_Word (if kw = Kw_Abort then ''ABORT'' else ''ROLLBACK'') # xs) xs (\<lambda>_ r. r = Some kw)"
    using assms(1) by (cases kw) (simp_all add: takes_statement_words)
  show ?thesis by (rule takes_eat[OF e]) (use assms in \<open>auto intro!: agnostic_rules split: option.split\<close>)
qed

lemma takes_other_word:
  assumes "upper_word w" "w \<notin> {''COMMIT'', ''END''}" "takes f n B (Lx_Word w # xs) ys Q" "\<And>k. agnostic (A k)" "agnostic B"
  shows "takes f n (pbind eat_transaction_commit_keyword (\<lambda>c. case c of None \<Rightarrow> B | Some k \<Rightarrow> A k)) (Lx_Word w # xs) ys Q"
  by (rule takes_skip[OF takes_statement_words(5)[OF assms(1,2)]]) (use assms in \<open>auto intro!: agnostic_rules split: option.split\<close>)

lemma takes_no_rollback_word:
  assumes "upper_word w" "w \<notin> {''ROLLBACK'', ''ABORT''}" "takes f n B (Lx_Word w # xs) ys Q" "\<And>k. agnostic (A k)" "agnostic B"
  shows "takes f n (pbind eat_transaction_rollback_keyword (\<lambda>c. case c of None \<Rightarrow> B | Some k \<Rightarrow> A k)) (Lx_Word w # xs) ys Q"
  by (rule takes_skip[OF takes_statement_words(6)[OF assms(1,2)]]) (use assms in \<open>auto intro!: agnostic_rules split: option.split\<close>)

lemmas takes_dispatch = takes_plain_hit takes_gated_hit takes_commit_word takes_rollback_word
  takes_plain_miss takes_gated_miss takes_other_word takes_no_rollback_word

text \<open>The first word decides which statement is read.\<close>

lemma takes_kind:
  "takes f n (parse_begin start) xs [] Q \<Longrightarrow> takes f n (parse_transaction_statement_kind start) (Lx_Word ''BEGIN'' # xs) [] Q"
  "tx_start_transaction (transaction_syntax f) \<Longrightarrow> takes f n (parse_start start) xs [] Q
     \<Longrightarrow> takes f n (parse_transaction_statement_kind start) (Lx_Word ''START'' # xs) [] Q"
  "ck = Kw_End \<longrightarrow> tx_end_transaction_alias (transaction_syntax f) \<Longrightarrow> takes f n (parse_commit start ck) xs [] Q
     \<Longrightarrow> takes f n (parse_transaction_statement_kind start) (Lx_Word (if ck = Kw_End then ''END'' else ''COMMIT'') # xs) [] Q"
  "rk = Kw_Abort \<longrightarrow> tx_abort_transaction_alias (transaction_syntax f) \<Longrightarrow> takes f n (parse_rollback start rk) xs [] Q
     \<Longrightarrow> takes f n (parse_transaction_statement_kind start) (Lx_Word (if rk = Kw_Abort then ''ABORT'' else ''ROLLBACK'') # xs) [] Q"
  "tx_transaction_savepoints (transaction_syntax f) \<Longrightarrow> takes f n (parse_savepoint start) xs [] Q
     \<Longrightarrow> takes f n (parse_transaction_statement_kind start) (Lx_Word ''SAVEPOINT'' # xs) [] Q"
  "tx_transaction_savepoints (transaction_syntax f) \<Longrightarrow> takes f n (parse_release start) xs [] Q
     \<Longrightarrow> takes f n (parse_transaction_statement_kind start) (Lx_Word ''RELEASE'' # xs) [] Q"
  "tx_set_transaction (transaction_syntax f) \<Longrightarrow> takes f n (parse_set_transaction start) xs [] Q
     \<Longrightarrow> takes f n (parse_transaction_statement_kind start) (Lx_Word ''SET'' # xs) [] Q"
proof (goal_cases)
  case 3
  have d: "upper_word (if ck = Kw_End then ''END'' else ''COMMIT'')" "(if ck = Kw_End then ''END'' else ''COMMIT'') \<noteq> ''BEGIN''"
    "(if ck = Kw_End then ''END'' else ''COMMIT'') \<noteq> ''START''" by simp_all
  with 3 show ?case unfolding parse_transaction_statement_kind_def id_apply
    by (intro takes_tx, intro agnostic_rules, intro takes_dispatch d upper_words agnostic_rules) simp_all
next
  case 4
  have d: "upper_word (if rk = Kw_Abort then ''ABORT'' else ''ROLLBACK'')" "(if rk = Kw_Abort then ''ABORT'' else ''ROLLBACK'') \<noteq> ''BEGIN''"
    "(if rk = Kw_Abort then ''ABORT'' else ''ROLLBACK'') \<noteq> ''START''" by simp_all
  with 4 show ?case unfolding parse_transaction_statement_kind_def id_apply
    by (intro takes_tx, intro agnostic_rules, intro takes_dispatch d upper_words agnostic_rules) simp_all
qed (unfold parse_transaction_statement_kind_def id_apply,
     (intro takes_tx, intro agnostic_rules, intro takes_dispatch upper_words agnostic_rules, simp_all)+)

lemma takes_statement_kind:
  assumes "readable f s"
  shows "takes f (statement_cost s) (parse_transaction_statement_kind start) (statement_lexemes s) [] (retold s)"
proof -
  have t: "transaction_typed (transaction_syntax f) s" "statement_clear f s" "\<And>x. x \<in> set1_transaction_statement s \<Longrightarrow> readable_name f x"
    using assms by (auto simp: readable_def)
  show ?thesis
  proof (cases s)
    case (Tx_Begin kw mode block name ms m)
    have n: "pred_option (readable_name f) name" by (rule option_readable) (use t(3) Tx_Begin in simp)
    show ?thesis
    proof (cases kw)
      case Start_Begin
      then show ?thesis
        using takes_kind(1)[OF takes_begin[of f mode block name ms m]] t n Tx_Begin by (fastforce intro: takes_mono)
    next
      case Start_Start
      then show ?thesis
        using takes_kind(2)[OF _ takes_start[of f mode block name ms m]] t n Tx_Begin by (fastforce intro: takes_mono)
    qed
  next
    case (Tx_Commit kw block name chain release m)
    have n: "pred_option (readable_name f) name" by (rule option_readable) (use t(3) Tx_Commit in simp)
    have "takes f (1 + (0 + 1)) (parse_transaction_statement_kind start)
        (Lx_Word (if kw = Kw_End then ''END'' else ''COMMIT'') # tl (statement_lexemes s)) [] (retold s)"
      unfolding Tx_Commit by (rule takes_kind(3)[OF _ takes_commit]) (use t n Tx_Commit in simp_all)
    then have "takes f 3 (parse_transaction_statement_kind start)
        (Lx_Word (if kw = Kw_End then ''END'' else ''COMMIT'') # tl (statement_lexemes s)) [] (retold s)" by (rule takes_mono) simp_all
    then show ?thesis by (simp add: Tx_Commit)
  next
    case (Tx_Rollback kw block name k tosp chain release m)
    have n: "pred_option (readable_name f) name" by (rule option_readable) (use t(3) Tx_Rollback in simp)
    have x: "pred_option (\<lambda>x. readable_name f x \<and> (\<not> k \<longrightarrow> \<not> heads [x] ''SAVEPOINT'')) tosp"
      by (rule option_readable) (use t(2,3) Tx_Rollback in simp)
    have "takes f (1 + (1 + 1)) (parse_transaction_statement_kind start)
        (Lx_Word (if kw = Kw_Abort then ''ABORT'' else ''ROLLBACK'') # tl (statement_lexemes s)) [] (retold s)"
      unfolding Tx_Rollback by (rule takes_kind(4)[OF _ takes_rollback]) (use t n x Tx_Rollback in simp_all)
    then have "takes f 3 (parse_transaction_statement_kind start)
        (Lx_Word (if kw = Kw_Abort then ''ABORT'' else ''ROLLBACK'') # tl (statement_lexemes s)) [] (retold s)" by (rule takes_mono) simp_all
    then show ?thesis by (simp add: Tx_Rollback)
  next
    case (Tx_Savepoint x m)
    then show ?thesis using takes_kind(5)[OF _ takes_savepoint[of f x]] t by (fastforce intro: takes_mono)
  next
    case (Tx_Release k x m)
    then show ?thesis using takes_kind(6)[OF _ takes_release[of f k x m]] t by (fastforce intro: takes_mono)
  next
    case (Tx_SetCharacteristics ms m)
    then show ?thesis using takes_kind(7)[OF _ takes_set_transaction[of f ms m]] t by (fastforce intro: takes_mono)
  qed
qed

lemma takes_statement:
  assumes "readable f s"
  shows "takes f (statement_cost s + 1) parse_transaction_statement (statement_lexemes s) []
    (\<lambda>it r. \<exists>s' m. r = Stmt_Transaction s' m \<and> retold s it s')"
proof -
  have l: "lasting (retold s)"
    unfolding lasting_def retold_def
    by (intro allI impI, erule transaction_statement.rel_mono_strong) (auto simp: names_def extends_def)
  show ?thesis
    unfolding parse_transaction_statement_def
    by (rule takes_span, rule takes_bind[OF takes_statement_kind[OF assms] l], intro agnostic_rules, rule takes_node)
       (auto intro: agnostic_rules)
qed

end
