(* ===== verification/Transaction_Reread.thy ===== *)
theory Transaction_Reread
  imports Transaction_Roundtrips Transaction_Safety
begin

text \<open>
  The composition of renderer, tokenizer and grammar for transaction control: the text the renderer
  writes for a statement is tokenized, parsed by a new parser, and gives the statement back.
\<close>

subsection \<open>Statements of the tree as statements of lexemes\<close>

definition ident_lexeme :: "(symbol \<Rightarrow> source option) \<Rightarrow> ident \<Rightarrow> lexeme option" where
  "ident_lexeme resolve i = (case resolve (id_sym i) of None \<Rightarrow> None
     | Some s \<Rightarrow> (case id_quote i of
         Qs_None \<Rightarrow> Some (Lx_Word s)
       | Qs_Double \<Rightarrow> Some (Lx_Name (CHR 0x22) (CHR 0x22) s)
       | Qs_Backtick \<Rightarrow> Some (Lx_Name (CHR 0x60) (CHR 0x60) s)
       | Qs_Bracket \<Rightarrow> Some (Lx_Name (CHR ''['') (CHR '']'') s)
       | _ \<Rightarrow> None))"

definition spelled_lexeme :: "(symbol \<Rightarrow> source option) \<Rightarrow> ident \<Rightarrow> lexeme" where
  "spelled_lexeme resolve i = the (ident_lexeme resolve i)"

definition spelled_statement :: "(symbol \<Rightarrow> source option) \<Rightarrow> tx_statement \<Rightarrow> (lexeme, meta) transaction_statement" where
  "spelled_statement resolve s = map_transaction_statement (spelled_lexeme resolve) id s"

definition readable_statement :: "feature_set \<Rightarrow> (symbol \<Rightarrow> source option) \<Rightarrow> tx_statement \<Rightarrow> bool" where
  "readable_statement f resolve s \<longleftrightarrow> readable f (spelled_statement resolve s)
     \<and> (\<forall>i \<in> set1_transaction_statement s. ident_lexeme resolve i \<noteq> None)"

text \<open>The same statement up to node ids, spans and symbol numbers.\<close>

definition same_statement ::
    "(symbol \<Rightarrow> source option) \<Rightarrow> tx_statement \<Rightarrow> (symbol \<Rightarrow> source option) \<Rightarrow> tx_statement \<Rightarrow> bool" where
  "same_statement resolve s resolve' s' \<longleftrightarrow> rel_transaction_statement
     (\<lambda>i i'. resolve (id_sym i) \<noteq> None \<and> resolve' (id_sym i') = resolve (id_sym i) \<and> id_quote i' = id_quote i)
     (\<lambda>_ _. True) s s'"

subsection \<open>Rendering\<close>

lemma double_close: "double_close c s = double_delim c s"
proof -
  have "(\<lambda>b. if b = c then [b, b] else [b]) = (\<lambda>b. if b = c then [c, c] else [b])" by auto
  moreover have "c \<notin> set s \<Longrightarrow> double_delim c s = s" by (induction s) (auto simp: double_delim_def)
  ultimately show ?thesis by (simp add: double_close_def) (simp add: double_delim_def)
qed

lemma render_ident_lexeme:
  assumes "honours_source_spelling ctx" "ident_lexeme (ctx_resolve ctx) i \<noteq> None"
  shows "render_ident ctx i = Some (lexeme_text (spelled_lexeme (ctx_resolve ctx) i))"
    "name_lexeme (spelled_lexeme (ctx_resolve ctx) i)"
  using assms
  by (auto simp: render_ident_def ident_lexeme_def spelled_lexeme_def honours_source_spelling_def quoted_name_def
      name_lexeme_def double_close split: option.splits quote_style.splits)

lemma modes_words_map: "modes_lexemes (map (map_transaction_mode g) ms) = modes_lexemes ms"
proof -
  have "mode_words (map_transaction_mode g m) = mode_words m" for m by (cases m rule: mode_words.cases) simp_all
  then show ?thesis by (induction ms rule: modes_lexemes.induct) simp_all
qed

lemma render_with_map:
  "render_transaction_with ident h (map_transaction_statement g k s) = render_transaction_with (\<lambda>i. ident (g i)) h s"
  by (cases s) (auto simp: render_modes_text modes_words_map render_transaction_block_and_name_def
      simp del: write_all.simps split: option.split transaction_start.split)

lemma render_with_cong:
  assumes "\<And>i. i \<in> set1_transaction_statement s \<Longrightarrow> ident i = ident' i"
  shows "render_transaction_with ident h s = render_transaction_with ident' h s"
  using assms
  by (cases s) (auto simp: render_transaction_block_and_name_def simp del: write_all.simps split: option.split)

lemma render_readable:
  assumes "honours_source_spelling ctx" "readable_statement f (ctx_resolve ctx) s"
  shows "render_transaction ctx s = Some (sql_text (statement_lexemes (spelled_statement (ctx_resolve ctx) s)))"
proof -
  let ?g = "spelled_lexeme (ctx_resolve ctx)"
  have i: "ident_lexeme (ctx_resolve ctx) i \<noteq> None" if "i \<in> set1_transaction_statement s" for i
    using assms(2) that by (simp add: readable_statement_def)
  have n: "name_lexeme x" if "x \<in> set1_transaction_statement (spelled_statement (ctx_resolve ctx) s)" for x
    using that render_ident_lexeme(2)[OF assms(1) i] by (auto simp: spelled_statement_def transaction_statement.set_map)
  have "render_transaction ctx s = render_transaction_with (\<lambda>i. Some (lexeme_text (?g i))) True s"
    unfolding render_transaction_def eqTrueI[OF assms(1)]
    by (rule render_with_cong) (rule render_ident_lexeme(1)[OF assms(1) i])
  also have "\<dots> = render_transaction_with (\<lambda>x. Some (lexeme_text x)) True (spelled_statement (ctx_resolve ctx) s)"
    unfolding spelled_statement_def by (rule render_with_map[symmetric])
  also have "\<dots> = Some (sql_text (statement_lexemes (spelled_statement (ctx_resolve ctx) s)))"
    by (rule render_statement_text) (simp add: n)
  finally show ?thesis .
qed
subsection \<open>Reading\<close>

lemma upper_plain: "upper_word w \<Longrightarrow> w \<noteq> [] \<Longrightarrow> plain_word w"
proof -
  have u: "is_ascii_uppercase b \<Longrightarrow> word_byte b \<and> is_ascii_alphabetic b" for b
    by (simp add: word_byte_def is_ascii_alphabetic_def)
  show "upper_word w \<Longrightarrow> w \<noteq> [] \<Longrightarrow> plain_word w"
    by (cases w) (use u in \<open>auto simp: upper_word_def plain_word_def list_all_iff\<close>)
qed

lemma words_ok: "(\<And>w. w \<in> set ws \<Longrightarrow> upper_word w \<and> w \<noteq> []) \<Longrightarrow> list_all (lexeme_ok f) (word_lexemes ws)"
  using upper_plain by (auto simp: list_all_iff)

lemma mode_words_ok: "list_all (lexeme_ok f) (word_lexemes (mode_words m))"
proof -
  have "w \<in> set (level_words l) \<Longrightarrow> upper_word w \<and> w \<noteq> []" for w l by (cases l) auto
  then show ?thesis by (intro words_ok) (cases m rule: mode_words.cases; auto)
qed

lemma modes_ok: "list_all (lexeme_ok f) (modes_lexemes ms)"
  by (induction ms rule: modes_lexemes.induct) (auto simp: mode_words_ok)

lemma parts_ok:
  "list_all (lexeme_ok f) (word_lexemes (mode_kind_words mode))" "list_all (lexeme_ok f) (word_lexemes (block_words block))"
  "list_all (lexeme_ok f) (word_lexemes (completion_words chain release))"
proof -
  show "list_all (lexeme_ok f) (word_lexemes (mode_kind_words mode))"
    by (rule words_ok) (cases mode rule: mode_kind_words.cases; auto)
  show "list_all (lexeme_ok f) (word_lexemes (block_words block))"
    by (rule words_ok) (cases block rule: block_words.cases; auto)
  show "list_all (lexeme_ok f) (word_lexemes (completion_words chain release))"
    by (rule words_ok) (auto split: option.splits if_splits bool.splits)
qed

lemma statement_ok:
  assumes "\<And>x. x \<in> set1_transaction_statement s \<Longrightarrow> lexeme_ok f x"
  shows "list_all (lexeme_ok f) (statement_lexemes s)"
proof -
  have b: "list_all (lexeme_ok f) (block_lexemes block name)" if "pred_option (lexeme_ok f) name" for block name
    using that parts_ok upper_plain by (cases name) auto
  show ?thesis
    by (cases s rule: statement_lexemes.cases)
       (use assms parts_ok modes_ok upper_plain in \<open>auto simp: pred_option_def intro!: b split: option.split\<close>)
qed

lemma lexeme_text_nonempty: "lexeme_ok f x \<Longrightarrow> lexeme_text x \<noteq> []"
  by (cases x) (auto simp: plain_word_def)

lemma sql_text_length: "list_all (lexeme_ok f) xs \<Longrightarrow> length xs \<le> length (sql_text xs)"
proof -
  have sp: "list_all (lexeme_ok f) xs \<Longrightarrow> length xs \<le> length (spaced_text xs)" for xs
  proof (induction xs)
    case (Cons x xs)
    then show ?case using lexeme_text_nonempty[of f x] by (cases "lexeme_text x") auto
  qed simp
  assume ok: "list_all (lexeme_ok f) xs"
  show ?thesis
  proof (cases xs)
    case (Cons x ys)
    with ok sp[of ys] lexeme_text_nonempty[of f x] show ?thesis by (cases "lexeme_text x") auto
  qed simp
qed

lemma statement_cost_length: "statement_cost s \<le> length (statement_lexemes s) + 3"
  by (cases s rule: statement_lexemes.cases) (auto intro!: le_trans[OF modes_lexemes_length])

text \<open>A method that takes the lexemes of a text, run by a new parser on the tokens of that text.\<close>

lemma reads_source_takes:
  assumes "classes_sane f" "known_quotes f" "standard_text f" "list_all (lexeme_ok f) xs" "takes f n m xs [] R"
    "KEYWORD_COUNT + length (sql_text xs) + n < u32_max"
  shows "\<exists>x p. tokenize_with u f (sql_text xs) = Some (Inr (sql_tokens xs))
    \<and> m (parser_new u (sql_text xs) (sql_tokens xs) f) = (Inr x, p) \<and> p_ahead (sql_tokens xs) p = []
    \<and> interner_ok (pa_interner p) \<and> R (pa_interner p) x"
proof -
  let ?src = "sql_text xs" and ?toks = "sql_tokens xs"
  let ?p = "parser_new u ?src ?toks f"
  have t: "tokenize_with u f ?src = Some (Inr ?toks)" using assms(6) by (intro sql_text_tokens assms) simp
  note r = reads_source_new[OF t]
  have w: "well_placed ?src f (seat_of ?toks ?p)"
    by (rule reads_source_placed[OF assms(1,2) valid_sql[OF assms(3,2,4)] r])
  have v: "p_view ?toks None ?p" using r by (simp add: reads_source_def)
  have st: "pa_next_node_id ?p = 1" "pa_interner ?p = interner_new" by (simp_all add: parser_new_def from_cursor_def)
  have ahead: "p_ahead ?toks ?p = ?toks"
    by (simp add: p_ahead_def p_pos_def parser_new_def from_cursor_def from_tokens_def)
  have room: "room n (seat_state (seat_of ?toks ?p))"
    using assms(6) st interner_new_ok by (simp add: room_def seat_of_def interner_new_def KEYWORD_COUNT_def)
  have a: "accepts f n [] R ?src (seat_of ?toks ?p) (run_on m (seat_of ?toks ?p))"
    by (rule takesD[OF assms(5) w _ room]) (simp add: seat_of_def ahead written_sql)
  note run = agnostic_run(1)[OF takes_agnostic[OF assms(5)] v]
  obtain e p where m: "m ?p = (e, p)" by (cases "m ?p")
  from a show ?thesis unfolding run m
    by (auto simp: accepts_def spends_def seat_of_def t m)
qed


lemma retold_same:
  assumes "readable_statement f resolve s" "retold (spelled_statement resolve s) it s'" "interner_ok it"
  shows "same_statement resolve s (live_try_resolve it) s'"
proof -
  have "rel_transaction_statement (\<lambda>i i'. names (spelled_lexeme resolve i) it i') (\<lambda>_ _. True) s s'"
    using assms(2) by (simp add: retold_def spelled_statement_def transaction_statement.rel_map)
  then show ?thesis unfolding same_statement_def
  proof (rule transaction_statement.rel_mono_strong)
    fix i i' assume i: "i \<in> set1_transaction_statement s" "names (spelled_lexeme resolve i) it i'"
    with assms(1) have "ident_lexeme resolve i \<noteq> None" by (simp add: readable_statement_def)
    with i(2) interned_resolves[OF assms(3)]
    show "resolve (id_sym i) \<noteq> None \<and> live_try_resolve it (id_sym i') = resolve (id_sym i) \<and> id_quote i' = id_quote i"
      by (fastforce simp: names_def spelled_lexeme_def ident_lexeme_def live_try_resolve_def split: option.splits quote_style.splits)
  qed simp
qed

lemma statement_reread:
  assumes "classes_sane f" "known_quotes f" "standard_text f" "honours_source_spelling ctx"
    "readable_statement f (ctx_resolve ctx) s" "render_transaction ctx s = Some src" "KEYWORD_COUNT + length src + length src + 4 < u32_max"
  shows "\<exists>toks s' m p. tokenize_with u f src = Some (Inr toks)
    \<and> parse_transaction_statement (parser_new u src toks f) = (Inr (Stmt_Transaction s' m), p) \<and> p_ahead toks p = []
    \<and> same_statement (ctx_resolve ctx) s (live_try_resolve (pa_interner p)) s'"
proof -
  let ?s = "spelled_statement (ctx_resolve ctx) s"
  let ?xs = "statement_lexemes ?s"
  have src: "src = sql_text ?xs" using render_readable[OF assms(4,5)] assms(6) by simp
  have r: "readable f ?s" using assms(5) by (simp add: readable_statement_def)
  then have ok: "list_all (lexeme_ok f) ?xs"
    by (intro statement_ok) (auto simp: readable_def readable_name_def)
  have n: "KEYWORD_COUNT + length (sql_text ?xs) + (statement_cost ?s + 1) < u32_max"
    using sql_text_length[OF ok] statement_cost_length[of ?s] assms(7) src by simp
  from reads_source_takes[OF assms(1-3) ok takes_statement[OF r] n, of u]
  show ?thesis unfolding src using retold_same[OF assms(5)] by blast
qed

subsection \<open>The shipped presets\<close>

definition writes_standard_text :: "feature_set \<Rightarrow> bool" where
  "writes_standard_text f \<longleftrightarrow> known_quotes f \<and> standard_text f"

lemma standard_text_table: "standard_text f \<longleftrightarrow> (\<forall>b m. b \<noteq> CHR 0x0B \<longrightarrow> has_class (byte_classes f) b m = has_class STANDARD_BYTE_CLASSES b m)"
  by (simp add: standard_text_def has_byte_class_def)

lemma dialect_tables_standard:
  "b \<noteq> CHR 0x0B \<Longrightarrow> has_class POSTGRES_BYTE_CLASSES b m = has_class STANDARD_BYTE_CLASSES b m"
  "b \<noteq> CHR 0x0B \<Longrightarrow> has_class MYSQL_BYTE_CLASSES b m = has_class STANDARD_BYTE_CLASSES b m"
  "b \<noteq> CHR 0x0B \<Longrightarrow> has_class SQLITE_BYTE_CLASSES b m = has_class STANDARD_BYTE_CLASSES b m"
  "b \<noteq> CHR 0x0B \<Longrightarrow> has_class DUCKDB_BYTE_CLASSES b m = has_class STANDARD_BYTE_CLASSES b m"
  by (simp_all add: dialect_table_defs has_class_with_class)

lemmas writes_standard_simps = writes_standard_text_def standard_text_table known_quotes_def known_quote_def dialect_tables_standard

lemmas preset_table_defs =
  FeatureSet_ANSI_def FeatureSet_POSTGRES_def FeatureSet_MYSQL_def FeatureSet_SQLITE_def FeatureSet_DUCKDB_def FeatureSet_LENIENT_def
  FeatureSet_SNOWFLAKE_def FeatureSet_BIGQUERY_def FeatureSet_CLICKHOUSE_def FeatureSet_DATABRICKS_def FeatureSet_HIVE_def
  FeatureSet_MSSQL_def FeatureSet_QUILTDB_def FeatureSet_REDSHIFT_def STANDARD_IDENTIFIER_QUOTES_def LENIENT_IDENTIFIER_QUOTES_def
  MYSQL_IDENTIFIER_QUOTES_def BIGQUERY_IDENTIFIER_QUOTES_def CLICKHOUSE_IDENTIFIER_QUOTES_def DATABRICKS_IDENTIFIER_QUOTES_def
  HIVE_IDENTIFIER_QUOTES_def MSSQL_IDENTIFIER_QUOTES_def SQLITE_IDENTIFIER_QUOTES_def

lemma presets_write_standard_text: "list_all writes_standard_text shipped_presets"
  by (simp add: shipped_presets_def writes_standard_simps preset_table_defs)

subsection \<open>A sample\<close>

definition quoted_savepoint :: tx_statement where
  "quoted_savepoint = (let m = \<lparr>meta_span = Span 0 0, meta_node_id = NodeId 1\<rparr> in Tx_Savepoint (Ident (Symbol 7) Qs_Double m) m)"

definition savepoint_ctx :: render_ctx where
  "savepoint_ctx = render_ctx_new (\<lambda>_. Some (''a'' @ CHR 0x22 # ''b'')) [] RENDER_CONFIG_DEFAULT"

definition savepoint_text :: source where
  "savepoint_text = ''SAVEPOINT '' @ CHR 0x22 # ''a'' @ CHR 0x22 # CHR 0x22 # ''b'' @ [CHR 0x22]"

lemma savepoint_resolves: "ctx_resolve savepoint_ctx symb = Some (''a'' @ CHR 0x22 # ''b'')"
  by (simp add: ctx_resolve_def savepoint_ctx_def render_ctx_new_def)

lemma savepoint_honours: "honours_source_spelling savepoint_ctx"
  by (simp add: honours_source_spelling_def savepoint_ctx_def render_ctx_new_def RENDER_CONFIG_DEFAULT_def)

lemma savepoint_readable: "readable_statement FeatureSet_ANSI (ctx_resolve savepoint_ctx) quoted_savepoint"
proof -
  have q: "(char_of (34 :: nat) :: byte) = CHR 0x22" by code_simp
  have "name_ok FeatureSet_ANSI (CHR 0x22) (CHR 0x22) (''a'' @ CHR 0x22 # ''b'')"
    by (simp add: q name_ok_def quote_pair_def ansi_eval opening_identifier_quote_def)
  then show ?thesis
    by (simp add: readable_statement_def quoted_savepoint_def Let_def spelled_statement_def spelled_lexeme_def ident_lexeme_def
        savepoint_resolves readable_def readable_name_def ansi_transactions TransactionSyntax_ANSI_def)
qed

lemma savepoint_renders: "render_transaction savepoint_ctx quoted_savepoint = Some savepoint_text"
  using render_readable[OF savepoint_honours savepoint_readable]
  by (simp add: spelled_statement_def quoted_savepoint_def Let_def spelled_lexeme_def ident_lexeme_def savepoint_resolves
      savepoint_text_def double_delim_def)

subsection \<open>The round trip\<close>

text \<open>
  C2. Writing a transaction statement and reading it back. Let \<open>s\<close> be a statement well formed for
  its dialect whose names are plain words that are not reserved or quoted names the dialect can
  quote, and in which no omitted name and no omitted word SAVEPOINT can be read out of the words that
  follow. If a context that keeps source spelling renders \<open>s\<close>, the tokenizer accepts the text, the
  transaction grammar run by a new parser on its tokens succeeds, consumes all of them, and returns
  the same statement: the same keywords, clauses and modes in the same order, and names with the same
  text and quoting; only node ids, spans and symbol numbers differ. The dialect's tables are asked to
  classify bytes as the standard table does and to quote names with the three known quotes, which
  every shipped preset does.
\<close>

theorem transaction_round_trip:
  assumes "classes_sane f" "known_quotes f" "standard_text f" "honours_source_spelling ctx"
    "readable_statement f (ctx_resolve ctx) s" "render_transaction ctx s = Some src"
    "KEYWORD_COUNT + 2 * length src + 4 < u32_max"
  shows "\<exists>toks s' m p. tokenize_with u f src = Some (Inr toks)
    \<and> parse_transaction_statement (parser_new u src toks f) = (Inr (Stmt_Transaction s' m), p) \<and> p_ahead toks p = []
    \<and> same_statement (ctx_resolve ctx) s (live_try_resolve (pa_interner p)) s'"
  by (rule statement_reread[OF assms(1-6)]) (use assms(7) in simp)

theorem transaction_round_trip_witness:
  "\<exists>toks s' m p. tokenize_with ascii_tables FeatureSet_ANSI savepoint_text = Some (Inr toks)
    \<and> parse_transaction_statement (parser_new ascii_tables savepoint_text toks FeatureSet_ANSI) = (Inr (Stmt_Transaction s' m), p)
    \<and> p_ahead toks p = [] \<and> same_statement (ctx_resolve savepoint_ctx) quoted_savepoint (live_try_resolve (pa_interner p)) s'"
proof (rule transaction_round_trip[OF ansi_sane ansi_quotes _ savepoint_honours savepoint_readable savepoint_renders])
  show "standard_text FeatureSet_ANSI" using presets_write_standard_text by (simp add: shipped_presets_def writes_standard_text_def)
  show "KEYWORD_COUNT + 2 * length savepoint_text + 4 < u32_max" by (simp add: savepoint_text_def KEYWORD_COUNT_def u32_max_def)
qed

end
