(* ===== verification/Spec2Isabelle.thy ===== *)
theory Spec2Isabelle
  imports Squonk_Prelude Source_Vocab Lex_Classes Binding_Powers Keyword_Set Keyword_Lookup
    Dialect_Features Source_Cursor Lex_Tokens Trivia_Index Escape_Strings Cursor_Walks
    Scan_Trivia Scan_Lexemes Scan_Quoted Scan_Operators Trivia_Walks Scanner
    Keyword_Reservations Preset_Ansi Preset_Postgres Preset_Mysql Preset_Sqlite Preset_Duckdb
    Preset_Satellites Preset_Lenient Feature_Conflicts Preset_Checks Token_Stream Token_Cursors
    Scanner_Samples Interner Layout_Doc Parse_Engine Parse_Views Engine_Laws Unicode_Text
    Literal_Strings Literal_Values Literal_Laws Literal_Totality Literal_Roundtrips
    Parse_Loops Parse_Contracts Parse_Runs Identifiers Identifier_Contracts Transactions
    Render_Transactions Transaction_Laws Lexeme_Shapes Lexeme_Runs Parse_Accepts Transaction_Safety
    Transaction_Roundtrips Transaction_Reread
begin

text \<open>
  \<open>squonk\<close> is a SQL front end: source text is tokenized under a dialect's feature set, a
  recursive-descent parser turns the tokens into a tree whose identifiers are interned symbols and
  whose nodes carry spans and ids, and a renderer and a formatter print trees back. This
  development models the tokenizer, the dialect data, the interner, the parser engine, one
  statement family of the grammar with its renderer, and the layout engine, and proves what the rest of the program relies on.

  \<^bold>\<open>Theories and sources\<close> (paths below \<open>src/crates/\<close>).

  \<^item> \<open>Squonk_Prelude\<close>: bytes, bounds-checked reads, slices, ranges that tile an interval, sorted
    search; the collections of facts the component proofs use.
  \<^item> \<open>Source_Vocab\<close> (\<open>squonk-ast/src/vocab/mod.rs\<close>): spans, symbols, node ids, metadata, the line
    index. \<open>Lex_Classes\<close> (\<open>dialect/lex_class.rs\<close>): byte classes. \<open>Binding_Powers\<close>
    (\<open>precedence/mod.rs\<close>): operator precedence and the parenthesisation decision. \<open>Keyword_Set\<close>,
    \<open>Keyword_Lookup\<close>, \<open>Keyword_Reservations\<close> (\<open>dialect/keyword.rs\<close>, \<open>dialect/keyword/generated.rs\<close>):
    the 894 keywords, the bit set, the packed lookup tables, the reservations.
  \<^item> \<open>Dialect_Features\<close> (\<open>dialect/mod.rs\<close>, \<open>feature_set_generated.rs\<close>): every feature record;
    the \<open>Preset_\<close> theories: the shipped presets as data; \<open>Feature_Conflicts\<close> (\<open>dialect/conflict.rs\<close>):
    the three registries and the dependency normal form; \<open>Preset_Checks\<close>: the presets pass them.
  \<^item> \<open>Source_Cursor\<close>, \<open>Lex_Tokens\<close>, \<open>Trivia_Index\<close> (\<open>squonk/src/tokenizer/\<close>): the byte cursor, tokens
    and errors, trivia runs and their index. \<open>Scan_Trivia\<close>, \<open>Scan_Lexemes\<close>, \<open>Scan_Quoted\<close>,
    \<open>Scan_Operators\<close>, \<open>Scanner\<close> (\<open>tokenizer/scan.rs\<close>): the scanners and \<open>next_token\<close>. \<open>Token_Stream\<close>
    and \<open>Token_Cursors\<close> (\<open>tokenizer/mod.rs\<close>): the eager tokenizers, the slice and streaming cursors.
    \<open>Cursor_Walks\<close> and \<open>Trivia_Walks\<close> hold the laws every scanner keeps; \<open>Scanner_Samples\<close> concrete runs.
  \<^item> \<open>Escape_Strings\<close> (\<open>squonk-ast/src/ast/literal.rs\<close>): PostgreSQL escape strings, walked by one
    routine into two sinks. \<open>Unicode_Text\<close>: text as characters. \<open>Literal_Strings\<close>: every form of
    string constant; \<open>Literal_Values\<close>: the literal kinds and their accessors; \<open>Literal_Laws\<close>,
    \<open>Literal_Totality\<close>, \<open>Literal_Roundtrips\<close>: decoding is exact, the accessors panic in exactly one
    case (\<open>as_decimal_text\<close> of a doubly signed least \<open>i128\<close>), what is written reads back.
  \<^item> \<open>Interner\<close> (\<open>squonk/src/interner/mod.rs\<close>, the table rebuilding of \<open>parser/parsed.rs\<close>).
  \<^item> \<open>Layout_Doc\<close> (\<open>squonk/src/format/doc.rs\<close>): the document algebra of the formatter.
  \<^item> \<open>Parse_Engine\<close> (\<open>parser/engine.rs\<close>, \<open>error.rs\<close>, \<open>parser/clause_marks.rs\<close>, the lexical predicates
    of \<open>parser/query.rs\<close>): the parser's state, its operations, and the outcome of a grammar method.
    \<open>Parse_Views\<close>: what a grammar method depends on, and its meaning over the bare token list.
    \<open>Engine_Laws\<close>: the recursion guard, recovery, clause marks. \<open>Parse_Loops\<close>: loops of grammar
    methods; \<open>Parse_Contracts\<close>: the judgement a production is proved by, and the contracts of the
    engine; \<open>Parse_Runs\<close>: evaluation of a production; \<open>Lexeme_Shapes\<close>: what the scanner promises of
    the lexemes the grammar takes apart.
  \<^item> \<open>Identifiers\<close> (\<open>ast/ident.rs\<close>, the names of \<open>parser/from.rs\<close>, the string constants of
    \<open>parser/expr/literals.rs\<close>) and \<open>Identifier_Contracts\<close>. \<open>Transactions\<close> (\<open>ast/tcl.rs\<close>,
    \<open>parser/tcl.rs\<close>): a whole statement family, with \<open>Transaction_Laws\<close>, its contracts, and
    \<open>Transaction_Safety\<close>, what they mean on a source. \<open>Render_Transactions\<close> (\<open>render/mod.rs\<close>,
    \<open>render/nodes.rs\<close>): the renderer of identifiers, literals and these statements.
  \<^item> \<open>Lexeme_Runs\<close>: the scanner on text written lexeme by lexeme, as the renderer writes it.
    \<open>Parse_Accepts\<close>: the judgement for productions on texts they accept. \<open>Transaction_Roundtrips\<close>: the
    renderer and the grammar of transaction control against one list of lexemes;
    \<open>Transaction_Reread\<close>: renderer, tokenizer, parser and interner composed.

  \<^bold>\<open>How the code is rendered.\<close> A string is the list of its bytes; a slice of a string that the
  program would refuse with a panic (out of range, or off a character boundary) is an error value
  of its own, \<open>Panic\<close>, \<open>EscPanic\<close> or \<open>Parse_Panic\<close>, and the theorems show when it cannot occur. A
  \<open>Result\<close> is a sum, its error on the left. Methods on \<open>&mut self\<close> take and return the state record.
  Numbers the program stores as \<open>u32\<close> or \<open>usize\<close> are natural numbers; where a counter may reach the
  end of its type the check or the panic is written out (\<open>u32_max\<close>). Loops are recursive functions
  with their termination proofs; two loops whose end depends on the tokenizer
  (\<open>scan_tokens\<close>, \<open>recover_to_statement_boundary\<close>) are partial functions whose returning is a theorem.
  A loop of a grammar method is bounded by one more round than the source has bytes, and running
  into the bound counts as a panic: a source has no more tokens than bytes, so a loop that consumes a
  token in each round never does, which the contracts show. The Unicode tables the scanner consults in the standard library are a
  parameter (\<open>unicode_tables\<close>) of which nothing is assumed.

  \<^bold>\<open>What the theorems show.\<close> The tokenizer returns on every source, loses no byte of it, cuts tokens on
  character boundaries, and its streaming cursor refines the eager list under any lookahead and
  rewinding; keyword lookup equals a linear search; both operator scanners take the longest operator;
  quoted text round trips; literals read back what was written, and the one panic of their accessors
  is characterised; every shipped preset passes the consistency registries, whose normal form is characterised;
  trivia and clause-mark queries equal filters; the interner's symbols are the identity of texts and
  survive serialisation; layout keeps text and page width, breaks a group exactly when it and what
  follows do not fit the line, and leaves no blank before a break; the recursion guard is
  exact; recovery makes progress; clause marks belong to the innermost node; the transaction grammar
  ends on every source, with or without a lexical fault, and without a panic while ids and symbols
  last, and what it returns is well formed for the dialect; rendered by the renderer and read by tokenizer and grammar, such a statement comes
  back unchanged.

  \<^bold>\<open>Not modelled.\<close> Capacities and hash functions; the trivia recorded by a scan that fails;
  saturating position arithmetic beyond \<open>u32\<close>; dialect hooks; the other grammar productions and
  renderer instances, which build and print trees of some seven hundred node types; the generated
  visitors, and the bindings. All are listed in the manifest.
\<close>

end
